(* ===== verification/Prelude.thy ===== *)
theory Prelude
  imports Complex_Main "HOL-Library.AList"
begin

text \<open>
  What every component of the model shares: JavaScript strings, maps, sets and parsed JSON
  values, the hint collections of the development, the interface locales of a keyed store and
  of an event-driven system, and lemmas on lists and sums.

  A JavaScript string is the list of its UTF-16 code units (\<open>jsstr\<close>); \<open>js\<close> turns an ASCII
  literal of HOL into one. A \<open>Map\<close> is an association list in insertion order, as JavaScript
  iterates it; a \<open>Set\<close> is a list without repetitions in insertion order.
\<close>

named_theorems js_simps \<open>evaluation of the JavaScript library operations\<close>
named_theorems effect_simps \<open>effect of an operation on the fields of a state\<close>
named_theorems inv_intros \<open>preservation of invariants\<close>

subsection \<open>Strings\<close>

type_synonym jsstr = "nat list"

definition js :: "string \<Rightarrow> jsstr" where
  "js s = map of_char s"

lemma js_eq_iff [simp]: "js a = js b \<longleftrightarrow> a = b"
  unfolding js_def by (auto simp: inj_map_eq_map [OF inj_of_char])

lemma js_Nil [simp]: "js [] = []"
  by (simp add: js_def)

lemma js_eq_Nil [simp]: "js a = [] \<longleftrightarrow> a = []" "[] = js a \<longleftrightarrow> a = []"
  by (auto simp: js_def)

lemma length_js [simp]: "length (js s) = length s"
  by (simp add: js_def)

lemma js_append: "js (a @ b) = js a @ js b"
  by (simp add: js_def)

lemma js_Cons: "js (c # s) = of_char c # js s"
  by (simp add: js_def)

text \<open>The truth value of an optional string property: missing and empty are both falsy.\<close>

definition truthy :: "jsstr option \<Rightarrow> bool" where
  "truthy v = (case v of None \<Rightarrow> False | Some s \<Rightarrow> s \<noteq> [])"

lemma truthy_simps [simp]:
  "truthy None = False" "truthy (Some s) = (s \<noteq> [])"
  by (simp_all add: truthy_def)

lemma truthyE: "truthy v \<Longrightarrow> (\<And>s. v = Some s \<Longrightarrow> s \<noteq> [] \<Longrightarrow> P) \<Longrightarrow> P"
  by (cases v) auto

text \<open>White space of the language: what \<open>trim\<close>, \<open>\s\<close> and \<open>parseInt\<close> skip.\<close>

definition js_space :: "nat \<Rightarrow> bool" where
  "js_space c \<longleftrightarrow> (9 \<le> c \<and> c \<le> 13) \<or> c = 32 \<or> c = 160 \<or> c = 5760 \<or> (8192 \<le> c \<and> c \<le> 8202)
     \<or> c = 8232 \<or> c = 8233 \<or> c = 8239 \<or> c = 8287 \<or> c = 12288 \<or> c = 65279"

subsection \<open>Parsed JSON\<close>

datatype json =
    JNull
  | JBool bool
  | JNum rat
  | JStr jsstr
  | JArr "json list"
  | JObj "(jsstr \<times> json) list"

type_synonym json_object = "(jsstr \<times> json) list"

text \<open>Reading a property: absent properties are \<open>undefined\<close>, here \<open>None\<close>.\<close>

definition field :: "json_object \<Rightarrow> string \<Rightarrow> json option" where
  "field obj key = map_of obj (js key)"

definition string_field :: "json_object \<Rightarrow> string \<Rightarrow> jsstr option" where
  "string_field obj key = (case field obj key of Some (JStr s) \<Rightarrow> Some s | _ \<Rightarrow> None)"

lemma string_field_Some:
  "string_field obj key = Some s \<longleftrightarrow> field obj key = Some (JStr s)"
  by (auto simp: string_field_def split: option.splits json.splits)

subsection \<open>Sets in insertion order\<close>

definition set_add :: "'a \<Rightarrow> 'a list \<Rightarrow> 'a list" where
  "set_add x xs = (if x \<in> set xs then xs else xs @ [x])"

definition set_del :: "'a \<Rightarrow> 'a list \<Rightarrow> 'a list" where
  "set_del x xs = filter (\<lambda>y. y \<noteq> x) xs"

lemma set_set_add [simp]: "set (set_add x xs) = insert x (set xs)"
  by (auto simp: set_add_def)

lemma distinct_set_add [simp]: "distinct (set_add x xs) = distinct xs"
  by (simp add: set_add_def)

lemma length_set_add: "length (set_add x xs) = (if x \<in> set xs then length xs else Suc (length xs))"
  by (simp add: set_add_def)

lemma set_del_Nil [simp]: "set_del x [] = []"
  by (simp add: set_del_def)

lemma set_del_Cons [simp]: "set_del x (y # ys) = (if y = x then set_del x ys else y # set_del x ys)"
  by (simp add: set_del_def)

lemma set_set_del [simp]: "set (set_del x xs) = set xs - {x}"
  by (auto simp: set_del_def)

lemma distinct_set_del [simp]: "distinct xs \<Longrightarrow> distinct (set_del x xs)"
  by (simp add: set_del_def)

lemma length_set_del_le: "length (set_del x xs) \<le> length xs"
  by (simp add: set_del_def)

lemma set_del_absent [simp]: "x \<notin> set xs \<Longrightarrow> set_del x xs = xs"
  by (induction xs) auto

lemma length_set_del: "distinct xs \<Longrightarrow> x \<in> set xs \<Longrightarrow> length xs = Suc (length (set_del x xs))"
  by (induction xs) auto

subsection \<open>Maps in insertion order\<close>

type_synonym ('k, 'v) jsmap = "('k \<times> 'v) list"

definition map_get :: "('k, 'v) jsmap \<Rightarrow> 'k \<Rightarrow> 'v option" where
  "map_get m k = map_of m k"

definition map_set :: "'k \<Rightarrow> 'v \<Rightarrow> ('k, 'v) jsmap \<Rightarrow> ('k, 'v) jsmap" where
  "map_set k v m = AList.update k v m"

definition map_del :: "'k \<Rightarrow> ('k, 'v) jsmap \<Rightarrow> ('k, 'v) jsmap" where
  "map_del k m = filter (\<lambda>e. fst e \<noteq> k) m"

definition map_keys :: "('k, 'v) jsmap \<Rightarrow> 'k list" where
  "map_keys m = map fst m"

definition map_ok :: "('k, 'v) jsmap \<Rightarrow> bool" where
  "map_ok m = distinct (map_keys m)"

lemma map_get_Nil [simp]: "map_get [] k = None"
  by (simp add: map_get_def)

lemma map_get_Cons [simp]: "map_get (e # m) k = (if fst e = k then Some (snd e) else map_get m k)"
  by (cases e) (simp add: map_get_def)

lemma map_keys_Nil [simp]: "map_keys [] = []"
  by (simp add: map_keys_def)

lemma map_keys_Cons [simp]: "map_keys (e # m) = fst e # map_keys m"
  by (simp add: map_keys_def)

lemma map_set_Nil [simp]: "map_set k v [] = [(k, v)]"
  by (simp add: map_set_def)

lemma map_set_Cons [simp]:
  "map_set k v (e # m) = (if fst e = k then (k, v) # m else e # map_set k v m)"
  by (simp add: map_set_def)

lemma map_del_Nil [simp]: "map_del k [] = []"
  by (simp add: map_del_def)

lemma map_del_Cons [simp]: "map_del k (e # m) = (if fst e = k then map_del k m else e # map_del k m)"
  by (simp add: map_del_def)

lemma map_get_set [simp]: "map_get (map_set k v m) k' = (if k' = k then Some v else map_get m k')"
  by (simp add: map_get_def map_set_def update_conv)

lemma map_get_del [simp]: "map_get (map_del k m) k' = (if k' = k then None else map_get m k')"
  by (induction m) auto

lemma map_get_None_iff: "map_get m k = None \<longleftrightarrow> k \<notin> set (map_keys m)"
  by (induction m) auto

lemma map_get_Some_keys: "map_get m k = Some v \<Longrightarrow> k \<in> set (map_keys m)"
  by (metis map_get_None_iff option.distinct(1))

lemma map_keys_getE: "k \<in> set (map_keys m) \<Longrightarrow> (\<And>v. map_get m k = Some v \<Longrightarrow> P) \<Longrightarrow> P"
  by (meson map_get_None_iff not_Some_eq)

lemma set_map_keys_set [simp]: "set (map_keys (map_set k v m)) = insert k (set (map_keys m))"
  by (induction m) auto

lemma set_map_keys_del [simp]: "set (map_keys (map_del k m)) = set (map_keys m) - {k}"
  by (induction m) auto

lemma map_keys_set:
  "map_keys (map_set k v m) = (if k \<in> set (map_keys m) then map_keys m else map_keys m @ [k])"
  by (induction m) auto

lemma map_keys_del: "map_keys (map_del k m) = set_del k (map_keys m)"
  by (induction m) (auto simp: set_del_def)

lemma map_ok_Nil [simp]: "map_ok []"
  by (simp add: map_ok_def)

lemma map_ok_set [simp]: "map_ok m \<Longrightarrow> map_ok (map_set k v m)"
  by (simp add: map_ok_def map_keys_set)

lemma map_ok_del [simp]: "map_ok m \<Longrightarrow> map_ok (map_del k m)"
  by (simp add: map_ok_def map_keys_del)

lemma length_map_keys [simp]: "length (map_keys m) = length m"
  by (simp add: map_keys_def)

lemma length_map_set:
  "length (map_set k v m) = (if k \<in> set (map_keys m) then length m else Suc (length m))"
  by (induction m) auto

lemma length_map_del_le: "length (map_del k m) \<le> length m"
  by (simp add: map_del_def)

lemma map_del_absent [simp]: "k \<notin> set (map_keys m) \<Longrightarrow> map_del k m = m"
  by (induction m) auto

lemma map_get_in_set: "map_get m k = Some v \<Longrightarrow> (k, v) \<in> set m"
  by (simp add: map_get_def map_of_SomeD)

lemma in_set_map_get: "map_ok m \<Longrightarrow> (k, v) \<in> set m \<Longrightarrow> map_get m k = Some v"
  by (simp add: map_ok_def map_get_def map_keys_def)

text \<open>
  The interface the stateful components rely on: what a lookup returns after a store or a
  removal, and how the number of keys changes. The client lemmas are proved from the laws.
\<close>

locale keyed_store =
  fixes get :: "'m \<Rightarrow> 'k \<Rightarrow> 'v option"
    and put :: "'k \<Rightarrow> 'v \<Rightarrow> 'm \<Rightarrow> 'm"
    and del :: "'k \<Rightarrow> 'm \<Rightarrow> 'm"
    and size :: "'m \<Rightarrow> nat"
    and ok :: "'m \<Rightarrow> bool"
  assumes get_put: "get (put k v m) k' = (if k' = k then Some v else get m k')"
    and get_del: "get (del k m) k' = (if k' = k then None else get m k')"
    and ok_put: "ok m \<Longrightarrow> ok (put k v m)"
    and ok_del: "ok m \<Longrightarrow> ok (del k m)"
    and finite_dom: "finite (dom (get m))"
    and size_dom: "ok m \<Longrightarrow> size m = card (dom (get m))"
begin

lemma size_put_present: "ok m \<Longrightarrow> get m k \<noteq> None \<Longrightarrow> size (put k v m) = size m"
proof -
  assume "ok m" and k: "get m k \<noteq> None"
  have "dom (get (put k v m)) = dom (get m)"
    using k by (auto simp: get_put dom_def)
  with \<open>ok m\<close> show ?thesis by (simp add: size_dom ok_put)
qed

lemma size_put_absent: "ok m \<Longrightarrow> get m k = None \<Longrightarrow> size (put k v m) = Suc (size m)"
proof -
  assume "ok m" and k: "get m k = None"
  have "dom (get (put k v m)) = insert k (dom (get m))"
    by (auto simp: get_put dom_def)
  with \<open>ok m\<close> k show ?thesis by (simp add: size_dom ok_put finite_dom domIff)
qed

lemma size_put_le: "ok m \<Longrightarrow> get m k \<noteq> None \<or> size m < n \<Longrightarrow> size m \<le> n \<Longrightarrow> size (put k v m) \<le> n"
  by (cases "get m k = None") (auto simp: size_put_present size_put_absent)

lemma size_del_le: "ok m \<Longrightarrow> size (del k m) \<le> size m"
proof -
  assume "ok m"
  have "dom (get (del k m)) \<subseteq> dom (get m)"
    by (auto simp: get_del dom_def split: if_splits)
  with \<open>ok m\<close> show ?thesis by (simp add: size_dom ok_del card_mono finite_dom)
qed

end

lemma dom_map_get: "dom (map_get m) = set (map_keys m)"
  by (auto simp: dom_def elim: map_keys_getE dest: map_get_Some_keys)

interpretation jsm: keyed_store map_get map_set map_del length map_ok
  by unfold_locales
    (auto simp: dom_map_get map_ok_def distinct_card [of "map_keys _"] map_keys_set map_keys_del)

subsection \<open>Event-driven systems\<close>

text \<open>
  A component that reacts to the events its environment may raise: a property of the initial
  state that every reaction keeps holds after every such sequence of events.
\<close>

fun trace_ok :: "('e \<Rightarrow> 's \<Rightarrow> bool) \<Rightarrow> ('e \<Rightarrow> 's \<Rightarrow> 's) \<Rightarrow> 'e list \<Rightarrow> 's \<Rightarrow> bool" where
  "trace_ok enabled react [] s = True"
| "trace_ok enabled react (e # es) s = (enabled e s \<and> trace_ok enabled react es (react e s))"

locale event_system =
  fixes enabled :: "'e \<Rightarrow> 's \<Rightarrow> bool"
    and react :: "'e \<Rightarrow> 's \<Rightarrow> 's"
    and init :: "'s \<Rightarrow> bool"
    and inv :: "'s \<Rightarrow> bool"
  assumes init_inv: "init s \<Longrightarrow> inv s"
    and react_inv: "inv s \<Longrightarrow> enabled e s \<Longrightarrow> inv (react e s)"
begin

lemma run_from_inv: "inv s \<Longrightarrow> trace_ok enabled react es s \<Longrightarrow> inv (fold react es s)"
  by (induction es arbitrary: s) (auto simp: react_inv)

lemma run_inv: "init s \<Longrightarrow> trace_ok enabled react es s \<Longrightarrow> inv (fold react es s)"
  by (simp add: run_from_inv init_inv)

end

subsection \<open>Lists and sums\<close>

lemma sum_list_fun_upd:
  fixes f :: "'b \<Rightarrow> int"
  assumes "distinct xs"
  shows "(\<Sum>x\<leftarrow>xs. f ((d(a := v)) x))
    = (\<Sum>x\<leftarrow>xs. f (d x)) + (if a \<in> set xs then f v - f (d a) else 0)"
  using assms by (induction xs) auto

lemma sum_list_set_del:
  fixes f :: "'a \<Rightarrow> int"
  assumes "distinct xs"
  shows "(\<Sum>x\<leftarrow>set_del a xs. f x) = (\<Sum>x\<leftarrow>xs. f x) - (if a \<in> set xs then f a else 0)"
  using assms by (induction xs) auto

lemma sum_list_cong:
  "(\<And>x. x \<in> set xs \<Longrightarrow> f x = g x) \<Longrightarrow> (\<Sum>x\<leftarrow>xs. f x) = (\<Sum>x\<leftarrow>xs. g x)"
  by (simp cong: map_cong)

lemma sum_list_int_nonneg:
  "(\<And>x. x \<in> set xs \<Longrightarrow> 0 \<le> (f x :: int)) \<Longrightarrow> 0 \<le> (\<Sum>x\<leftarrow>xs. f x)"
  by (induction xs) auto

lemma length_filter_eq_sum: "int (length (filter P xs)) = (\<Sum>x\<leftarrow>xs. if P x then 1 else 0)"
  by (induction xs) auto

lemma length_le_count_list:
  "(\<And>x. x \<in> set xs \<Longrightarrow> x \<in> A) \<Longrightarrow> distinct xs \<Longrightarrow> finite A \<Longrightarrow> length xs \<le> card A"
  by (metis card_mono distinct_card subsetI)

end
