(* ===== verification/ControlConfig.thy ===== *)
theory ControlConfig
  imports Prelude "HOL-Library.Multiset" "HOL-Library.List_Lexorder"
begin

unbundle bit_operations_syntax

text \<open>
  The limits and wire patterns both control-service runtimes share (\<open>control/src/config.ts\<close>)
  and the byte-level helpers of \<open>control/src/worker.ts\<close>: hexadecimal, base64, the canonical
  JSON bytes a device signs, the comparison of room secrets. A byte array is a list of numbers
  below 256. \<open>btoa\<close>, \<open>atob\<close>, \<open>JSON.stringify\<close> and \<open>TextEncoder\<close> are the platform's
  standard functions; SHA-256 and Ed25519 are parameters (record \<open>crypto\<close>).
\<close>

subsection \<open>Limits\<close>

definition MAX_ROOM_MEMBERS :: nat where "MAX_ROOM_MEMBERS = 64"
definition MAX_ROOMS_PER_CLIENT :: nat where "MAX_ROOMS_PER_CLIENT = 32"
definition MAX_SIGNAL_LENGTH :: nat where "MAX_SIGNAL_LENGTH = 8 * 1024"
definition MAX_CONTROL_MESSAGES_PER_MINUTE :: int where "MAX_CONTROL_MESSAGES_PER_MINUTE = 96"
definition MAX_SIGNALS_PER_MINUTE :: int where "MAX_SIGNALS_PER_MINUTE = 64"
definition MAX_PEER_FETCHES_PER_MINUTE :: int where "MAX_PEER_FETCHES_PER_MINUTE = 30"
definition MAX_RELAY_FRAMES_PER_SECOND :: int where "MAX_RELAY_FRAMES_PER_SECOND = 500"
definition MAX_CONTROL_MESSAGE_BYTES :: int where "MAX_CONTROL_MESSAGE_BYTES = 256 * 1024"
definition MAX_PENDING_MESSAGES :: int where "MAX_PENDING_MESSAGES = 256"
definition MAX_PENDING_MESSAGE_BYTES :: int where "MAX_PENDING_MESSAGE_BYTES = 4 * 1024 * 1024"
definition MAX_PENDING_MESSAGES_PER_CLIENT :: int where "MAX_PENDING_MESSAGES_PER_CLIENT = 16"
definition MAX_PENDING_MESSAGE_BYTES_PER_CLIENT :: int where
  "MAX_PENDING_MESSAGE_BYTES_PER_CLIENT = 256 * 1024"
definition MAX_PENDING_MESSAGES_PER_IP :: int where "MAX_PENDING_MESSAGES_PER_IP = 32"
definition MAX_PENDING_MESSAGE_BYTES_PER_IP :: int where
  "MAX_PENDING_MESSAGE_BYTES_PER_IP = 512 * 1024"
definition MAX_CONNECTIONS :: int where "MAX_CONNECTIONS = 10000"
definition MAX_CONNECTIONS_PER_IP :: int where "MAX_CONNECTIONS_PER_IP = 32"
definition MAX_ROOMS :: nat where "MAX_ROOMS = 10000"
definition MAX_RETAINED_BYTES :: int where "MAX_RETAINED_BYTES = 64 * 1024 * 1024"
definition MAX_RELAY_FRAME_LENGTH :: nat where "MAX_RELAY_FRAME_LENGTH = 1200"
definition MAX_RELAY_PEERS_PER_DEVICE :: nat where "MAX_RELAY_PEERS_PER_DEVICE = 8"
definition RELAY_PEER_IDLE_MS :: int where "RELAY_PEER_IDLE_MS = 60000"
definition RELAY_BYTES_PER_SECOND :: rat where "RELAY_BYTES_PER_SECOND = 1024 * 1024"
definition RELAY_BURST_BYTES :: rat where "RELAY_BURST_BYTES = 4 * 1024 * 1024"

lemmas control_limits =
  MAX_ROOM_MEMBERS_def MAX_ROOMS_PER_CLIENT_def MAX_SIGNAL_LENGTH_def
  MAX_CONTROL_MESSAGES_PER_MINUTE_def MAX_SIGNALS_PER_MINUTE_def MAX_PEER_FETCHES_PER_MINUTE_def
  MAX_RELAY_FRAMES_PER_SECOND_def MAX_CONTROL_MESSAGE_BYTES_def MAX_PENDING_MESSAGES_def
  MAX_PENDING_MESSAGE_BYTES_def MAX_PENDING_MESSAGES_PER_CLIENT_def
  MAX_PENDING_MESSAGE_BYTES_PER_CLIENT_def MAX_PENDING_MESSAGES_PER_IP_def
  MAX_PENDING_MESSAGE_BYTES_PER_IP_def MAX_CONNECTIONS_def MAX_CONNECTIONS_PER_IP_def
  MAX_ROOMS_def MAX_RETAINED_BYTES_def MAX_RELAY_FRAME_LENGTH_def MAX_RELAY_PEERS_PER_DEVICE_def
  RELAY_PEER_IDLE_MS_def RELAY_BYTES_PER_SECOND_def RELAY_BURST_BYTES_def

subsection \<open>Wire patterns\<close>

definition hex_lower :: "nat \<Rightarrow> bool" where
  "hex_lower c \<longleftrightarrow> (97 \<le> c \<and> c \<le> 102) \<or> (48 \<le> c \<and> c \<le> 57)"

definition hex_pattern :: "nat \<Rightarrow> jsstr \<Rightarrow> bool" where
  "hex_pattern n s \<longleftrightarrow> length s = n \<and> list_all hex_lower s"

definition ROOM_ID :: "jsstr \<Rightarrow> bool" where "ROOM_ID = hex_pattern 32"
definition ROOM_AUTH :: "jsstr \<Rightarrow> bool" where "ROOM_AUTH = hex_pattern 64"
definition PEER_ID :: "jsstr \<Rightarrow> bool" where "PEER_ID = hex_pattern 64"
definition HEX_32 :: "jsstr \<Rightarrow> bool" where "HEX_32 = hex_pattern 64"
definition HEX_64 :: "jsstr \<Rightarrow> bool" where "HEX_64 = hex_pattern 128"

lemma PEER_ID_nonempty: "PEER_ID s \<Longrightarrow> s \<noteq> []"
  by (auto simp: PEER_ID_def hex_pattern_def)

subsection \<open>Codecs\<close>

text \<open>
  An encoding with a partial decoder. Where decoding an encoding gives the bytes back, encoding
  is injective, and the test "re-encoding the decoded bytes gives the same text" accepts
  exactly the encodings.
\<close>

locale codec =
  fixes enc :: "'b \<Rightarrow> jsstr" and dec :: "jsstr \<Rightarrow> 'b option" and bytes :: "'b \<Rightarrow> bool"
  assumes dec_enc: "bytes b \<Longrightarrow> dec (enc b) = Some b"
    and dec_bytes: "dec s = Some b \<Longrightarrow> bytes b"
begin

lemma enc_inj: "bytes a \<Longrightarrow> bytes b \<Longrightarrow> enc a = enc b \<Longrightarrow> a = b"
  by (metis dec_enc option.inject)

lemma canonical_iff: "(\<exists>b. dec s = Some b \<and> enc b = s) \<longleftrightarrow> (\<exists>b. bytes b \<and> s = enc b)"
  by (metis dec_enc dec_bytes)

end

definition is_byte :: "nat \<Rightarrow> bool" where
  "is_byte b \<longleftrightarrow> b < 256"

definition is_bytes :: "nat list \<Rightarrow> bool" where
  "is_bytes bs = list_all is_byte bs"

lemma is_bytes_simps [simp]: "is_bytes []" "is_bytes (b # bs) \<longleftrightarrow> b < 256 \<and> is_bytes bs"
  by (simp_all add: is_bytes_def is_byte_def)

lemma is_bytes_append [simp]: "is_bytes (a @ b) \<longleftrightarrow> is_bytes a \<and> is_bytes b"
  by (simp add: is_bytes_def)

subsection \<open>Hexadecimal\<close>

definition hex_digit :: "nat \<Rightarrow> nat" where
  "hex_digit n = (if n < 10 then 48 + n else 87 + n)"

text \<open>\<open>byte.toString(16).padStart(2, "0")\<close>, for a byte.\<close>

definition hex_byte :: "nat \<Rightarrow> jsstr" where
  "hex_byte b = [hex_digit (b div 16), hex_digit (b mod 16)]"

definition toHex :: "nat list \<Rightarrow> jsstr" where
  "toHex bs = concat (map hex_byte bs)"

definition hex_value :: "nat \<Rightarrow> nat option" where
  "hex_value c =
     (if 48 \<le> c \<and> c \<le> 57 then Some (c - 48)
      else if 97 \<le> c \<and> c \<le> 102 then Some (c - 87)
      else if 65 \<le> c \<and> c \<le> 70 then Some (c - 55)
      else None)"

text \<open>
  \<open>Number.parseInt(slice, 16)\<close> of two code units, stored into a byte: leading white space and
  one sign are skipped, a prefix of digits is read, no digit is NaN and stored as 0.
\<close>

definition parse_hex_pair :: "nat \<Rightarrow> nat \<Rightarrow> nat" where
  "parse_hex_pair a b =
     (case hex_value a of
        Some x \<Rightarrow> (case hex_value b of Some y \<Rightarrow> 16 * x + y
                   | None \<Rightarrow> if a = 48 \<and> (b = 120 \<or> b = 88) then 0 else x)
      | None \<Rightarrow>
          if js_space a \<or> a = 43 then (case hex_value b of Some y \<Rightarrow> y | None \<Rightarrow> 0)
          else if a = 45 then (case hex_value b of Some y \<Rightarrow> (256 - y) mod 256 | None \<Rightarrow> 0)
          else 0)"

fun fromHex :: "jsstr \<Rightarrow> nat list" where
  "fromHex (a # b # rest) = parse_hex_pair a b # fromHex rest"
| "fromHex _ = []"

lemma toHex_simps [simp]: "toHex [] = []" "toHex (b # bs) = hex_byte b @ toHex bs"
  by (simp_all add: toHex_def)

lemma hex_value_digit: "n < 16 \<Longrightarrow> hex_value (hex_digit n) = Some n"
  by (auto simp: hex_value_def hex_digit_def)

lemma parse_hex_byte: "b < 256 \<Longrightarrow> parse_hex_pair (hex_digit (b div 16)) (hex_digit (b mod 16)) = b"
  by (simp add: parse_hex_pair_def hex_value_digit less_mult_imp_div_less)

lemma fromHex_toHex: "is_bytes bs \<Longrightarrow> fromHex (toHex bs) = bs"
  by (induction bs) (auto simp: hex_byte_def parse_hex_byte)

lemma hex_value_lt: "hex_value c = Some n \<Longrightarrow> n < 16"
  by (auto simp: hex_value_def split: if_splits)

lemma parse_hex_pair_lt: "parse_hex_pair a b < 256"
  by (auto simp: parse_hex_pair_def dest!: hex_value_lt split: option.splits)

lemma is_bytes_fromHex: "is_bytes (fromHex s)"
  by (induction s rule: fromHex.induct) (auto simp: parse_hex_pair_lt)

interpretation hex: codec toHex "\<lambda>s. Some (fromHex s)" is_bytes
  by unfold_locales (auto simp: fromHex_toHex is_bytes_fromHex)

lemma hex_lower_value: "hex_lower c \<Longrightarrow> \<exists>n < 16. hex_value c = Some n \<and> hex_digit n = c"
  by (auto simp: hex_lower_def hex_value_def hex_digit_def)

lemma toHex_fromHex_pair:
  assumes "hex_lower a" "hex_lower b"
  shows "hex_byte (parse_hex_pair a b) = [a, b]"
proof -
  obtain m n where "m < 16" "hex_value a = Some m" "hex_digit m = a"
    "n < 16" "hex_value b = Some n" "hex_digit n = b"
    using assms hex_lower_value by metis
  then show ?thesis by (auto simp: parse_hex_pair_def hex_byte_def)
qed

text \<open>On the strings the wire patterns accept, decoding loses nothing.\<close>

lemma toHex_fromHex: "even (length s) \<Longrightarrow> list_all hex_lower s \<Longrightarrow> toHex (fromHex s) = s"
  by (induction s rule: fromHex.induct) (auto simp: toHex_fromHex_pair)

lemma fromHex_inj:
  "hex_pattern (2 * n) a \<Longrightarrow> hex_pattern (2 * n) b \<Longrightarrow> fromHex a = fromHex b \<Longrightarrow> a = b"
  by (metis hex_pattern_def toHex_fromHex dvd_triv_left)

subsection \<open>Base64\<close>

definition b64_char :: "nat \<Rightarrow> nat" where
  "b64_char n = (if n < 26 then 65 + n else if n < 52 then 71 + n
     else if n < 62 then n - 4 else if n = 62 then 43 else 47)"

definition b64_value :: "nat \<Rightarrow> nat option" where
  "b64_value c =
     (if 65 \<le> c \<and> c \<le> 90 then Some (c - 65)
      else if 97 \<le> c \<and> c \<le> 122 then Some (c - 71)
      else if 48 \<le> c \<and> c \<le> 57 then Some (c + 4)
      else if c = 43 then Some 62 else if c = 47 then Some 63 else None)"

text \<open>\<open>btoa\<close> on a string of bytes.\<close>

fun btoa :: "nat list \<Rightarrow> jsstr" where
  "btoa [] = []"
| "btoa [a] = [b64_char (a div 4), b64_char (a mod 4 * 16), 61, 61]"
| "btoa [a, b] = [b64_char (a div 4), b64_char (a mod 4 * 16 + b div 16), b64_char (b mod 16 * 4), 61]"
| "btoa (a # b # c # rest) =
     b64_char (a div 4) # b64_char (a mod 4 * 16 + b div 16) #
     b64_char (b mod 16 * 4 + c div 64) # b64_char (c mod 64) # btoa rest"

text \<open>\<open>atob\<close>: the forgiving decoder of the web platform; \<open>None\<close> is its exception.\<close>

definition ascii_space :: "nat \<Rightarrow> bool" where
  "ascii_space c \<longleftrightarrow> c = 9 \<or> c = 10 \<or> c = 12 \<or> c = 13 \<or> c = 32"

definition strip_padding :: "jsstr \<Rightarrow> jsstr" where
  "strip_padding s =
     (if length s mod 4 \<noteq> 0 then s
      else case rev s of
          a # b # r \<Rightarrow> if a = 61 then (if b = 61 then rev r else rev (b # r)) else s
        | _ \<Rightarrow> s)"

fun decode_sextets :: "nat list \<Rightarrow> nat list" where
  "decode_sextets (a # b # c # d # rest) =
     (a * 4 + b div 16) # (b mod 16 * 16 + c div 4) # (c mod 4 * 64 + d) # decode_sextets rest"
| "decode_sextets [a, b, c] = [a * 4 + b div 16, b mod 16 * 16 + c div 4]"
| "decode_sextets [a, b] = [a * 4 + b div 16]"
| "decode_sextets _ = []"

definition atob :: "jsstr \<Rightarrow> nat list option" where
  "atob s =
     (let t = strip_padding (filter (\<lambda>c. \<not> ascii_space c) s) in
      if length t mod 4 = 1 \<or> \<not> list_all (\<lambda>c. b64_value c \<noteq> None) t then None
      else Some (decode_sextets (map (\<lambda>c. the (b64_value c)) t)))"

definition toBase64 :: "nat list \<Rightarrow> jsstr" where
  "toBase64 bs = btoa bs"

definition fromBase64 :: "jsstr \<Rightarrow> nat list option" where
  "fromBase64 s = atob s"

definition strip_trailing :: "nat \<Rightarrow> jsstr \<Rightarrow> jsstr" where
  "strip_trailing c s = rev (dropWhile (\<lambda>x. x = c) (rev s))"

definition toBase64Url :: "nat list \<Rightarrow> jsstr" where
  "toBase64Url bs =
     strip_trailing 61 (map (\<lambda>c. if c = 47 then 95 else c) (map (\<lambda>c. if c = 43 then 45 else c) (toBase64 bs)))"

text \<open>The encoding without its padding, and the round trip.\<close>

fun b64_core :: "nat list \<Rightarrow> nat list" where
  "b64_core [] = []"
| "b64_core [a] = [a div 4, a mod 4 * 16]"
| "b64_core [a, b] = [a div 4, a mod 4 * 16 + b div 16, b mod 16 * 4]"
| "b64_core (a # b # c # rest) =
     a div 4 # (a mod 4 * 16 + b div 16) # (b mod 16 * 4 + c div 64) # c mod 64 # b64_core rest"

definition b64_pad :: "nat list \<Rightarrow> jsstr" where
  "b64_pad bs = replicate ((3 - length bs mod 3) mod 3) 61"

lemma mod3_Suc3: "(Suc (Suc (Suc n))) mod 3 = n mod 3"
  by presburger

lemma btoa_core: "btoa bs = map b64_char (b64_core bs) @ b64_pad bs"
  by (induction bs rule: btoa.induct) (auto simp: b64_pad_def mod3_Suc3 numeral_2_eq_2)

lemma b64_core_lt: "is_bytes bs \<Longrightarrow> n \<in> set (b64_core bs) \<Longrightarrow> n < 64"
  by (induction bs rule: b64_core.induct) (auto split: if_splits)

lemma length_b64_core: "length (b64_core bs) mod 4 = (if length bs mod 3 = 0 then 0 else Suc (length bs mod 3))"
  by (induction bs rule: b64_core.induct) (auto simp: mod3_Suc3 numeral_2_eq_2)

lemma decode_core: "is_bytes bs \<Longrightarrow> decode_sextets (b64_core bs) = bs"
  by (induction bs rule: b64_core.induct) auto

lemma b64_value_char: "n < 64 \<Longrightarrow> b64_value (b64_char n) = Some n"
  by (auto simp: b64_value_def b64_char_def)

lemma b64_char_plain: "n < 64 \<Longrightarrow> \<not> ascii_space (b64_char n) \<and> b64_char n \<noteq> 61"
  by (auto simp: ascii_space_def b64_char_def)

lemma strip_padding_core:
  assumes "\<And>c. c \<in> set xs \<Longrightarrow> c \<noteq> 61" "k \<le> 2" "k = 1 \<Longrightarrow> xs \<noteq> []"
    "length (xs @ replicate k 61) mod 4 = 0"
  shows "strip_padding (xs @ replicate k 61) = xs"
proof -
  consider "k = 0" | "k = 1" | "k = 2" using assms(2) by linarith
  then show ?thesis
  proof cases
    case 1
    then show ?thesis
      using assms by (cases xs rule: rev_cases) (auto simp: strip_padding_def split: list.splits)
  next
    case 2
    then show ?thesis
      using assms by (cases xs rule: rev_cases) (auto simp: strip_padding_def)
  next
    case 3
    then show ?thesis
      using assms(4) by (simp add: strip_padding_def numeral_2_eq_2)
  qed
qed

lemma length_btoa: "length (btoa bs) mod 4 = 0"
  by (induction bs rule: btoa.induct) auto

lemma strip_padding_btoa: "is_bytes bs \<Longrightarrow> strip_padding (btoa bs) = map b64_char (b64_core bs)"
proof -
  assume bs: "is_bytes bs"
  let ?k = "(3 - length bs mod 3) mod 3"
  have "?k = 1 \<Longrightarrow> b64_core bs \<noteq> []"
    by (cases bs rule: b64_core.cases) auto
  then show ?thesis
    using bs length_btoa [of bs] unfolding btoa_core b64_pad_def
    by (intro strip_padding_core) (auto dest: b64_core_lt b64_char_plain)
qed

lemma btoa_no_space: "is_bytes bs \<Longrightarrow> filter (\<lambda>c. \<not> ascii_space c) (btoa bs) = btoa bs"
  unfolding btoa_core b64_pad_def
  by (auto simp: filter_id_conv ascii_space_def [of 61] dest: b64_core_lt b64_char_plain)

lemma atob_btoa: "is_bytes bs \<Longrightarrow> atob (btoa bs) = Some bs"
proof -
  assume bs: "is_bytes bs"
  have "map (\<lambda>c. the (b64_value c)) (map b64_char (b64_core bs)) = b64_core bs"
    using bs by (auto simp: b64_value_char b64_core_lt intro!: map_idI)
  moreover have "length (b64_core bs) mod 4 \<noteq> 1"
    by (simp add: length_b64_core)
  moreover have "list_all (\<lambda>c. b64_value c \<noteq> None) (map b64_char (b64_core bs))"
    using bs by (auto simp: list_all_iff b64_value_char b64_core_lt)
  ultimately show ?thesis
    using bs by (simp add: atob_def btoa_no_space strip_padding_btoa decode_core Let_def del: map_map)
qed

lemma b64_value_lt: "b64_value c = Some n \<Longrightarrow> n < 64"
  by (auto simp: b64_value_def split: if_splits)

lemma sextets_lt:
  "a < 64 \<Longrightarrow> b < 64 \<Longrightarrow> a * 4 + b div 16 < (256::nat)"
  "a < 64 \<Longrightarrow> b mod 16 * 16 + a div 4 < (256::nat)"
  "a < 64 \<Longrightarrow> b mod 4 * 64 + a < (256::nat)"
  by linarith+

lemma is_bytes_decode: "(\<And>n. n \<in> set xs \<Longrightarrow> n < 64) \<Longrightarrow> is_bytes (decode_sextets xs)"
proof (induction xs rule: decode_sextets.induct)
  case (1 a b c d rest)
  have "a < 64" "b < 64" "c < 64" "d < 64" using 1(2) by auto
  with 1 show ?case by (simp add: sextets_lt)
next
  case (2 a b c)
  have "a < 64" "b < 64" "c < 64" using 2 by auto
  then show ?case by (simp add: sextets_lt)
next
  case (3 a b)
  have "a < 64" "b < 64" using 3 by auto
  then show ?case by (simp add: sextets_lt)
qed auto

lemma is_bytes_atob: "atob s = Some bs \<Longrightarrow> is_bytes bs"
  unfolding atob_def Let_def
  by (fastforce simp: list_all_iff dest: b64_value_lt intro: is_bytes_decode split: if_splits)

lemma fromBase64_toBase64: "is_bytes bs \<Longrightarrow> fromBase64 (toBase64 bs) = Some bs"
  by (simp add: fromBase64_def toBase64_def atob_btoa)

interpretation b64: codec toBase64 fromBase64 is_bytes
  by unfold_locales (simp_all add: fromBase64_toBase64, simp add: fromBase64_def is_bytes_atob)

subsection \<open>Canonical JSON\<close>

text \<open>\<open>TextEncoder\<close>: UTF-8 of the code units; a lone surrogate becomes U+FFFD.\<close>

fun utf8_encode :: "jsstr \<Rightarrow> nat list" where
  "utf8_encode [] = []"
| "utf8_encode (c # rest) =
     (if c < 128 then c # utf8_encode rest
      else if c < 2048 then (192 + c div 64) # (128 + c mod 64) # utf8_encode rest
      else if 55296 \<le> c \<and> c \<le> 57343 then
        (case rest of
           d # rest' \<Rightarrow>
             if c \<le> 56319 \<and> 56320 \<le> d \<and> d \<le> 57343 then
               (let p = 65536 + (c - 55296) * 1024 + (d - 56320) in
                (240 + p div 262144) # (128 + p div 4096 mod 64) # (128 + p div 64 mod 64)
                  # (128 + p mod 64) # utf8_encode rest')
             else 239 # 191 # 189 # utf8_encode rest
         | [] \<Rightarrow> [239, 191, 189])
      else (224 + c div 4096) # (128 + c div 64 mod 64) # (128 + c mod 64) # utf8_encode rest)"

text \<open>Quoting of a JSON string.\<close>

definition unicode_escape :: "nat \<Rightarrow> jsstr" where
  "unicode_escape c = [92, 117] @ hex_byte (c div 256) @ hex_byte (c mod 256)"

fun json_chars :: "jsstr \<Rightarrow> jsstr" where
  "json_chars [] = []"
| "json_chars (c # rest) =
     (if c = 34 \<or> c = 92 then [92, c] @ json_chars rest
      else if c = 8 then [92, 98] @ json_chars rest
      else if c = 9 then [92, 116] @ json_chars rest
      else if c = 10 then [92, 110] @ json_chars rest
      else if c = 12 then [92, 102] @ json_chars rest
      else if c = 13 then [92, 114] @ json_chars rest
      else if c < 32 then unicode_escape c @ json_chars rest
      else if 55296 \<le> c \<and> c \<le> 57343 then
        (case rest of
           d # rest' \<Rightarrow>
             if c \<le> 56319 \<and> 56320 \<le> d \<and> d \<le> 57343 then c # d # json_chars rest'
             else unicode_escape c @ json_chars rest
         | [] \<Rightarrow> unicode_escape c)
      else c # json_chars rest)"

definition json_string :: "jsstr \<Rightarrow> jsstr" where
  "json_string s = [34] @ json_chars s @ [34]"

text \<open>
  What the platform supplies: the digest, the signature check (\<open>Inl\<close>: the key import or the
  check throws that message) and the decimal form of a number.
\<close>

record crypto =
  sha256 :: "nat list \<Rightarrow> nat list"
  ed25519_verify :: "nat list \<Rightarrow> nat list \<Rightarrow> nat list \<Rightarrow> string + bool"
  number_text :: "rat \<Rightarrow> jsstr"

datatype scalar = SStr jsstr | SNum rat

fun scalar_text :: "crypto \<Rightarrow> scalar \<Rightarrow> jsstr" where
  "scalar_text cr (SStr s) = json_string s"
| "scalar_text cr (SNum n) = number_text cr n"

text \<open>Keys in the order of their code units.\<close>

definition sort_keys :: "(jsstr \<times> 'v) list \<Rightarrow> (jsstr \<times> 'v) list" where
  "sort_keys fs = sort_key fst fs"

fun join_with :: "jsstr \<Rightarrow> jsstr list \<Rightarrow> jsstr" where
  "join_with sep [] = []"
| "join_with sep [x] = x"
| "join_with sep (x # xs) = x @ sep @ join_with sep xs"

text \<open>\<open>JSON.stringify(value, Object.keys(value).sort())\<close> of a flat object, then UTF-8.\<close>

definition canonical :: "crypto \<Rightarrow> (jsstr \<times> scalar) list \<Rightarrow> nat list" where
  "canonical cr fs = utf8_encode
     ([123] @ join_with [44] (map (\<lambda>(k, v). json_string k @ [58] @ scalar_text cr v) (sort_keys fs)) @ [125])"

text \<open>The signed bytes do not depend on the order in which the properties were written.\<close>

lemma keyed_list_eqI:
  assumes "map fst xs = map fst ys" "distinct (map fst xs)" "set xs = set ys"
  shows "xs = ys"
proof (rule nth_equalityI)
  show len: "length xs = length ys" using assms(1) map_eq_imp_length_eq by blast
  fix i assume i: "i < length xs"
  then obtain j where j: "j < length ys" "ys ! j = xs ! i"
    using assms(3) by (metis in_set_conv_nth nth_mem)
  have "map fst xs ! j = map fst xs ! i"
    using assms(1) j i len by (metis nth_map)
  then have "j = i"
    using assms(2) i j len by (metis length_map nth_eq_iff_index_eq)
  with j show "xs ! i = ys ! i" by simp
qed

lemma sort_keys_perm:
  assumes "distinct (map fst fs)" "mset fs = mset gs"
  shows "sort_keys fs = sort_keys gs"
proof (rule keyed_list_eqI)
  have "distinct (map fst gs)"
    using assms by (metis distinct_map mset_eq_setD mset_eq_imp_distinct_iff)
  with assms show "map fst (sort_keys fs) = map fst (sort_keys gs)"
    unfolding sort_keys_def
    by (intro sorted_distinct_set_unique)
      (auto simp: distinct_map dest: mset_eq_setD)
qed (use assms in \<open>auto simp: sort_keys_def distinct_map dest: mset_eq_setD\<close>)

subsection \<open>Secrets and signatures\<close>

definition timingSafeEqual :: "nat list \<Rightarrow> nat list \<Rightarrow> bool" where
  "timingSafeEqual a b =
     (if length a \<noteq> length b then False
      else fold (\<lambda>(x, y) difference. difference OR (x XOR y)) (zip a b) 0 = 0)"

lemma xor_zero_iff: "x XOR y = (0 :: nat) \<longleftrightarrow> x = y"
proof
  assume 0: "x XOR y = 0"
  have "bit x n = bit y n" for n
  proof -
    have "bit (x XOR y) n = bit (0 :: nat) n" by (simp only: 0)
    then show ?thesis by (simp add: bit_xor_iff)
  qed
  then show "x = y" by (simp add: bit_eq_iff)
qed simp

lemma or_fold_zero:
  "fold (\<lambda>(x, y) d. d OR (x XOR y)) ps d = (0 :: nat) \<longleftrightarrow> d = 0 \<and> (\<forall>(x, y) \<in> set ps. x = y)"
proof (induction ps arbitrary: d)
  case Nil
  then show ?case by simp
next
  case (Cons p ps)
  obtain x y where p: "p = (x, y)" by (cases p)
  show ?case by (auto simp: p Cons or_eq_0_iff xor_zero_iff)
qed

text \<open>The constant-time comparison is equality.\<close>

lemma timingSafeEqual_iff [simp]: "timingSafeEqual a b \<longleftrightarrow> a = b"
proof (cases "length a = length b")
  case True
  then show ?thesis
    by (induction a b rule: list_induct2) (auto simp: timingSafeEqual_def or_fold_zero xor_zero_iff)
next
  case False
  then show ?thesis by (auto simp: timingSafeEqual_def)
qed

definition sha256Hex :: "crypto \<Rightarrow> nat list \<Rightarrow> jsstr" where
  "sha256Hex cr bytes = toHex (sha256 cr bytes)"

definition verifyEd25519 :: "crypto \<Rightarrow> jsstr \<Rightarrow> jsstr \<Rightarrow> nat list \<Rightarrow> string + bool" where
  "verifyEd25519 cr signingPublicKeyHex signatureHex message =
     ed25519_verify cr
       ([48, 42, 48, 5, 6, 3, 43, 101, 112, 3, 33, 0] @ fromHex signingPublicKeyHex)
       (fromHex signatureHex) message"

subsection \<open>What the service relies on\<close>

text \<open>Both encodings round trip on bytes, and a text is accepted as canonical base64 (it decodes, and
  encodes back to itself) exactly when it is the encoding of some bytes.\<close>

theorem encodings_roundtrip:
  assumes "is_bytes bs"
  shows "fromHex (toHex bs) = bs \<and> fromBase64 (toBase64 bs) = Some bs
    \<and> ((\<exists>x. fromBase64 s = Some x \<and> toBase64 x = s) \<longleftrightarrow> (\<exists>x. is_bytes x \<and> s = toBase64 x))"
  using fromHex_toHex [OF assms] fromBase64_toBase64 [OF assms] b64.canonical_iff by blast

text \<open>Comparing two room authorizations byte by byte, without an early exit, is comparing the
  authorizations: no two different ones that pass the pattern are confused.\<close>

theorem authorization_check:
  assumes "ROOM_AUTH a" and "ROOM_AUTH b"
  shows "timingSafeEqual (fromHex a) (fromHex b) \<longleftrightarrow> a = b"
  using assms fromHex_inj [of 32 a b] by (auto simp: ROOM_AUTH_def)

text \<open>The bytes that are signed depend on the fields and their values only, not on the order in which
  the sender wrote them.\<close>

theorem canonical_order:
  assumes "distinct (map fst fs)" and "mset fs = mset gs"
  shows "canonical cr fs = canonical cr gs"
  using sort_keys_perm [OF assms] by (simp add: canonical_def)

end
