(* ===== verification/ControlWorker.thy ===== *)
theory ControlWorker
  imports ControlConfig
begin

text \<open>
  The Durable Object of \<open>control/src/worker.ts\<close>: its state, one definition per method, and the
  reactions of the object to events. A socket is a number; the \<open>ClientData\<close> objects form a store
  indexed by their socket (each socket has exactly one, made by \<open>fetch\<close>), and the map \<open>clients\<close> is
  the list of its keys. A method that may throw returns the state together with the message
  thrown, if any. Sending on a socket that was closed throws.

  The only suspension points are the awaits of \<open>drainQueue\<close> and \<open>registerDevice\<close>: the field
  \<open>running\<close> (\<open>draining\<close> is its being set) holds the entry being handled and the await at which it
  stands, so any event may come in between. \<open>now\<close> is \<open>Date.now()\<close>, which the platform keeps fixed
  while code runs without awaiting.
\<close>

subsection \<open>State\<close>

type_synonym sock = nat
type_synonym err = string

record rate_limit =
  windowStartedAt :: int
  controlMessagesInWindow :: int
  signalsInWindow :: int
  peerFetchesInWindow :: int

record client_data = rate_limit +
  c_ip :: jsstr
  c_rooms :: "jsstr list"
  c_signals :: "(jsstr, jsstr) jsmap"
  relayWindowStartedAt :: int
  relayFramesInWindow :: int
  challengeId :: jsstr
  challenge :: jsstr
  challengeExpiresAt :: int
  c_peerId :: "jsstr option"
  c_pendingMessages :: int
  c_pendingBytes :: int

record room_state =
  auth :: jsstr
  members :: "sock list"

record device_limit =
  tokens :: rat
  receiveTokens :: rat
  updatedAt :: int
  relayPeers :: "(jsstr, int) jsmap"

record pending_message =
  pm_socket :: sock
  pm_message :: json_object
  pm_bytes :: int

text \<open>The frames sent to clients, and what the object does to its sockets, in order.\<close>

datatype frame =
    DeviceChallenge jsstr jsstr int
  | DeviceRegistered jsstr bool
  | ErrorFrame err
  | SignalFrame jsstr jsstr
  | JoinedFrame jsstr int
  | RefreshFrame jsstr int
  | PeersFrame jsstr "jsstr list"
  | RelayDropped jsstr string
  | RelayFrame jsstr jsstr

datatype sock_action = Send sock frame | CloseSocket sock int string

datatype stage = Digesting | Verifying | Done

record control_room =
  rooms :: "(jsstr, room_state) jsmap"
  connectionsByIp :: "(jsstr, int) jsmap"
  rateLimitsByIp :: "(jsstr, rate_limit) jsmap"
  socketsByPeerId :: "(jsstr, sock) jsmap"
  deviceLimits :: "(jsstr, device_limit) jsmap"
  clients :: "sock list"
  clientData :: "sock \<Rightarrow> client_data"
  connections :: int
  retainedBytes :: int
  queue :: "pending_message list"
  running :: "(pending_message \<times> stage) option"
  pendingMessages :: int
  pendingBytes :: int
  pendingByIp :: "(jsstr, int \<times> int) jsmap"
  relayEnabled :: bool
  nextSocket :: sock
  closedSockets :: "sock list"
  outputs :: "sock_action list"

type_synonym eff = "control_room \<times> err option"

definition andThen :: "eff \<Rightarrow> (control_room \<Rightarrow> eff) \<Rightarrow> eff" where
  "andThen r f = (case r of (w, None) \<Rightarrow> f w | (w, Some e) \<Rightarrow> (w, Some e))"

lemma andThen_simps [simp]:
  "andThen (w, None) f = f w" "andThen (w, Some e) f = (w, Some e)"
  by (simp_all add: andThen_def)

text \<open>\<open>this.clients.get(socket)\<close>, and an assignment to fields of its data.\<close>

definition client :: "control_room \<Rightarrow> sock \<Rightarrow> client_data option" where
  "client w s = (if s \<in> set (clients w) then Some (clientData w s) else None)"

definition upd_data :: "sock \<Rightarrow> (client_data \<Rightarrow> client_data) \<Rightarrow> control_room \<Rightarrow> control_room" where
  "upd_data s f w = w\<lparr>clientData := (clientData w)(s := f (clientData w s))\<rparr>"

definition blank_client :: client_data where
  "blank_client = \<lparr>windowStartedAt = 0, controlMessagesInWindow = 0, signalsInWindow = 0,
     peerFetchesInWindow = 0, c_ip = [], c_rooms = [], c_signals = [], relayWindowStartedAt = 0,
     relayFramesInWindow = 0, challengeId = [], challenge = [], challengeExpiresAt = 0,
     c_peerId = None, c_pendingMessages = 0, c_pendingBytes = 0\<rparr>"

definition init_room :: "string option \<Rightarrow> control_room" where
  "init_room env_relay = \<lparr>rooms = [], connectionsByIp = [], rateLimitsByIp = [],
     socketsByPeerId = [], deviceLimits = [], clients = [], clientData = (\<lambda>_. blank_client),
     connections = 0, retainedBytes = 0, queue = [], running = None, pendingMessages = 0,
     pendingBytes = 0, pendingByIp = [], relayEnabled = (env_relay \<noteq> Some ''false''),
     nextSocket = 0, closedSockets = [], outputs = []\<rparr>"

subsection \<open>Sending\<close>

definition send :: "sock \<Rightarrow> frame \<Rightarrow> control_room \<Rightarrow> eff" where
  "send s f w =
     (if s \<in> set (closedSockets w) then (w, Some ''WebSocket is closed'')
      else (w\<lparr>outputs := outputs w @ [Send s f]\<rparr>, None))"

definition close_socket :: "sock \<Rightarrow> int \<Rightarrow> string \<Rightarrow> control_room \<Rightarrow> control_room" where
  "close_socket s code reason w = w\<lparr>closedSockets := set_add s (closedSockets w),
     outputs := outputs w @ [CloseSocket s code reason]\<rparr>"

fun send_all :: "sock list \<Rightarrow> frame \<Rightarrow> control_room \<Rightarrow> eff" where
  "send_all [] f w = (w, None)"
| "send_all (m # ms) f w = andThen (send m f w) (send_all ms f)"

definition broadcastRoom :: "jsstr \<Rightarrow> frame \<Rightarrow> sock option \<Rightarrow> control_room \<Rightarrow> eff" where
  "broadcastRoom roomId f except w =
     (case map_get (rooms w) roomId of
        None \<Rightarrow> (w, None)
      | Some room \<Rightarrow> send_all (filter (\<lambda>m. Some m \<noteq> except) (members room)) f w)"

definition refreshRoom :: "jsstr \<Rightarrow> control_room \<Rightarrow> eff" where
  "refreshRoom roomId w =
     (case map_get (rooms w) roomId of
        None \<Rightarrow> (w, None)
      | Some room \<Rightarrow> broadcastRoom roomId (RefreshFrame roomId (int (length (members room)))) None w)"

subsection \<open>Rooms\<close>

definition payload_length :: "jsstr option \<Rightarrow> int" where
  "payload_length p = (case p of None \<Rightarrow> 0 | Some s \<Rightarrow> int (length s))"

definition leaveRoom :: "sock \<Rightarrow> jsstr \<Rightarrow> control_room \<Rightarrow> eff" where
  "leaveRoom socket roomId w =
     (case map_get (rooms w) roomId of
        None \<Rightarrow> (w, None)
      | Some room \<Rightarrow>
          let room' = room\<lparr>members := set_del socket (members room)\<rparr>;
              w1 = upd_data socket
                (\<lambda>d. d\<lparr>c_rooms := set_del roomId (c_rooms d), c_signals := map_del roomId (c_signals d)\<rparr>)
                (w\<lparr>rooms := map_set roomId room' (rooms w),
                   retainedBytes := retainedBytes w
                     - payload_length (map_get (c_signals (clientData w socket)) roomId)\<rparr>)
          in if members room' = [] then (w1\<lparr>rooms := map_del roomId (rooms w1)\<rparr>, None)
             else refreshRoom roomId w1)"

text \<open>The signals the members of a room have left for it, in the order of the members.\<close>

definition room_payloads :: "jsstr \<Rightarrow> sock list \<Rightarrow> control_room \<Rightarrow> jsstr list" where
  "room_payloads roomId ms w = filter (\<lambda>p. p \<noteq> [])
     (List.map_filter (\<lambda>m. Option.bind (client w m) (\<lambda>d. map_get (c_signals d) roomId)) ms)"

fun send_room_signals :: "sock \<Rightarrow> jsstr \<Rightarrow> sock list \<Rightarrow> control_room \<Rightarrow> eff" where
  "send_room_signals socket roomId [] w = (w, None)"
| "send_room_signals socket roomId (m # ms) w =
     (case Option.bind (client w m) (\<lambda>d. map_get (c_signals d) roomId) of
        Some payload \<Rightarrow>
          if payload \<noteq> []
          then andThen (send socket (SignalFrame roomId payload) w) (send_room_signals socket roomId ms)
          else send_room_signals socket roomId ms w
      | None \<Rightarrow> send_room_signals socket roomId ms w)"

definition joinRoom :: "sock \<Rightarrow> jsstr \<Rightarrow> jsstr \<Rightarrow> control_room \<Rightarrow> eff" where
  "joinRoom socket roomId roomAuth w =
     (if \<not> ROOM_ID roomId \<or> \<not> ROOM_AUTH roomAuth then (w, Some ''Invalid room authorization'')
      else if roomId \<in> set (c_rooms (clientData w socket)) then (w, None)
      else if MAX_ROOMS_PER_CLIENT \<le> length (c_rooms (clientData w socket))
      then (w, Some ''Too many joined rooms'')
      else if map_get (rooms w) roomId = None \<and> MAX_ROOMS \<le> length (rooms w)
      then (w, Some ''Control service room limit reached'')
      else
        let room = (case map_get (rooms w) roomId of
                      Some room \<Rightarrow> room | None \<Rightarrow> \<lparr>auth = roomAuth, members = []\<rparr>);
            w1 = (if map_get (rooms w) roomId = None
                  then w\<lparr>rooms := map_set roomId room (rooms w)\<rparr> else w)
        in if \<not> timingSafeEqual (fromHex (auth room)) (fromHex roomAuth)
           then (w1, Some ''Room authorization failed'')
           else if MAX_ROOM_MEMBERS \<le> length (members room) then (w1, Some ''Room is full'')
           else andThen (send_room_signals socket roomId (members room) w1) (\<lambda>w2.
             let room' = room\<lparr>members := set_add socket (members room)\<rparr>;
                 w3 = upd_data socket (\<lambda>d. d\<lparr>c_rooms := set_add roomId (c_rooms d)\<rparr>)
                   (w2\<lparr>rooms := map_set roomId room' (rooms w2)\<rparr>)
             in andThen (send socket (JoinedFrame roomId (int (length (members room')))) w3)
                  (refreshRoom roomId)))"

definition signalRoom :: "sock \<Rightarrow> jsstr \<Rightarrow> jsstr \<Rightarrow> control_room \<Rightarrow> eff" where
  "signalRoom socket roomId payload w =
     (let previousLength = payload_length (map_get (c_signals (clientData w socket)) roomId) in
      if roomId \<notin> set (c_rooms (clientData w socket)) then (w, Some ''Join the room before signaling'')
      else if payload = [] \<or> MAX_SIGNAL_LENGTH < length payload then (w, Some ''Invalid signal payload'')
      else if MAX_RETAINED_BYTES < retainedBytes w - previousLength + int (length payload)
      then (w, Some ''Control service storage limit reached'')
      else broadcastRoom roomId (SignalFrame roomId payload) (Some socket)
        (upd_data socket (\<lambda>d. d\<lparr>c_signals := map_set roomId payload (c_signals d)\<rparr>)
          (w\<lparr>retainedBytes := retainedBytes w + (int (length payload) - previousLength)\<rparr>)))"

definition fetchPeers :: "sock \<Rightarrow> jsstr \<Rightarrow> control_room \<Rightarrow> eff" where
  "fetchPeers socket roomId w =
     (if roomId \<notin> set (c_rooms (clientData w socket))
      then (w, Some ''Join the room before fetching peers'')
      else case map_get (rooms w) roomId of
          None \<Rightarrow> (w, None)
        | Some room \<Rightarrow>
            send socket (PeersFrame roomId (room_payloads roomId (members room) w)) w)"

subsection \<open>Rate limits\<close>

definition count_message :: "json option \<Rightarrow> 'a rate_limit_scheme \<Rightarrow> 'a rate_limit_scheme" where
  "count_message messageType r =
     (if messageType = Some (JStr (js ''signal'')) then r\<lparr>signalsInWindow := signalsInWindow r + 1\<rparr>
      else if messageType = Some (JStr (js ''get_peers''))
      then r\<lparr>peerFetchesInWindow := peerFetchesInWindow r + 1\<rparr>
      else r\<lparr>controlMessagesInWindow := controlMessagesInWindow r + 1\<rparr>)"

definition over_limit :: "'a rate_limit_scheme \<Rightarrow> bool" where
  "over_limit r \<longleftrightarrow> signalsInWindow r > MAX_SIGNALS_PER_MINUTE
     \<or> controlMessagesInWindow r > MAX_CONTROL_MESSAGES_PER_MINUTE
     \<or> peerFetchesInWindow r > MAX_PEER_FETCHES_PER_MINUTE"

definition reset_window :: "int \<Rightarrow> 'a rate_limit_scheme \<Rightarrow> 'a rate_limit_scheme" where
  "reset_window now r =
     (if now - windowStartedAt r \<ge> 60000
      then r\<lparr>windowStartedAt := now, controlMessagesInWindow := 0, signalsInWindow := 0,
             peerFetchesInWindow := 0\<rparr>
      else r)"

definition fresh_window :: "int \<Rightarrow> rate_limit" where
  "fresh_window now = \<lparr>windowStartedAt = now, controlMessagesInWindow = 0, signalsInWindow = 0,
     peerFetchesInWindow = 0\<rparr>"

definition ip_window :: "int \<Rightarrow> jsstr \<Rightarrow> control_room \<Rightarrow> rate_limit" where
  "ip_window now ip w =
     (case map_get (rateLimitsByIp w) ip of
        None \<Rightarrow> fresh_window now
      | Some r \<Rightarrow> if now - windowStartedAt r \<ge> 60000 then fresh_window now else r)"

definition checkRateLimit :: "int \<Rightarrow> sock \<Rightarrow> json option \<Rightarrow> control_room \<Rightarrow> eff" where
  "checkRateLimit now socket messageType w =
     (let w1 = upd_data socket (\<lambda>d. count_message messageType (reset_window now d)) w in
      if over_limit (clientData w1 socket) then (w1, Some ''Message rate limit exceeded'')
      else
        let ip = c_ip (clientData w1 socket);
            ipLimit = count_message messageType (ip_window now ip w1);
            w2 = w1\<lparr>rateLimitsByIp := map_set ip ipLimit (rateLimitsByIp w1)\<rparr>
        in if over_limit ipLimit then (w2, Some ''IP message rate limit exceeded'') else (w2, None))"

definition checkRelayRateLimit :: "int \<Rightarrow> sock \<Rightarrow> control_room \<Rightarrow> eff" where
  "checkRelayRateLimit now socket w =
     (let w1 = upd_data socket (\<lambda>d.
            let d' = (if now - relayWindowStartedAt d \<ge> 1000
                      then d\<lparr>relayWindowStartedAt := now, relayFramesInWindow := 0\<rparr> else d)
            in d'\<lparr>relayFramesInWindow := relayFramesInWindow d' + 1\<rparr>) w
      in if relayFramesInWindow (clientData w1 socket) > MAX_RELAY_FRAMES_PER_SECOND
         then (w1, Some ''Relay frame rate limit exceeded'') else (w1, None))"

subsection \<open>Relay\<close>

definition peersShareRoom :: "sock \<Rightarrow> jsstr \<Rightarrow> control_room \<Rightarrow> bool" where
  "peersShareRoom socket recipientId w =
     (let d = clientData w socket in
      if \<not> truthy (c_peerId d) \<or> c_peerId d = Some recipientId then False
      else list_ex (\<lambda>roomId. list_ex
          (\<lambda>m. Option.bind (client w m) c_peerId = Some recipientId)
          (case map_get (rooms w) roomId of None \<Rightarrow> [] | Some room \<Rightarrow> members room))
        (c_rooms d))"

definition refill :: "int \<Rightarrow> device_limit \<Rightarrow> device_limit" where
  "refill now limit = limit\<lparr>
     tokens := min RELAY_BURST_BYTES
       (tokens limit + of_int (now - updatedAt limit) * RELAY_BYTES_PER_SECOND / 1000),
     receiveTokens := min RELAY_BURST_BYTES
       (receiveTokens limit + of_int (now - updatedAt limit) * RELAY_BYTES_PER_SECOND / 1000),
     updatedAt := now\<rparr>"

definition put_limit :: "jsstr \<Rightarrow> device_limit \<Rightarrow> control_room \<Rightarrow> control_room" where
  "put_limit p limit w = w\<lparr>deviceLimits := map_set p limit (deviceLimits w)\<rparr>"

definition refill_device :: "int \<Rightarrow> jsstr \<Rightarrow> control_room \<Rightarrow> eff" where
  "refill_device now p w =
     (case map_get (deviceLimits w) p of
        None \<Rightarrow> (w, Some ''Relay device is not registered'')
      | Some limit \<Rightarrow> (put_limit p (refill now limit) w, None))"

definition get_limit :: "control_room \<Rightarrow> jsstr \<Rightarrow> device_limit" where
  "get_limit w p = (case map_get (deviceLimits w) p of Some l \<Rightarrow> l
     | None \<Rightarrow> \<lparr>tokens = 0, receiveTokens = 0, updatedAt = 0, relayPeers = []\<rparr>)"

definition drop_idle :: "int \<Rightarrow> device_limit \<Rightarrow> device_limit" where
  "drop_idle now limit =
     limit\<lparr>relayPeers := filter (\<lambda>(remoteId, seenAt). \<not> now - seenAt > RELAY_PEER_IDLE_MS) (relayPeers limit)\<rparr>"

text \<open>The limits are objects shared by reference, so each change is written back under its key.\<close>

definition reserveRelayBandwidth ::
  "int \<Rightarrow> jsstr \<Rightarrow> jsstr \<Rightarrow> nat \<Rightarrow> control_room \<Rightarrow> control_room \<times> (err + bool)" where
  "reserveRelayBandwidth now peerId recipientId bytes w =
     (case andThen (refill_device now peerId w) (refill_device now recipientId) of
        (w1, Some e) \<Rightarrow> (w1, Inl e)
      | (w1, None) \<Rightarrow>
          let w2 = put_limit peerId (drop_idle now (get_limit w1 peerId)) w1;
              sender = get_limit w2 peerId;
              recipient = get_limit w2 recipientId
          in if tokens sender < of_nat bytes \<or> receiveTokens recipient < of_nat bytes then (w2, Inr False)
             else if map_get (relayPeers sender) recipientId = None
               \<and> MAX_RELAY_PEERS_PER_DEVICE \<le> length (relayPeers sender) then (w2, Inr False)
             else
               let w3 = put_limit peerId (sender\<lparr>relayPeers := map_set recipientId now (relayPeers sender),
                          tokens := tokens sender - of_nat bytes\<rparr>) w2;
                   w4 = put_limit recipientId ((get_limit w3 recipientId)\<lparr>receiveTokens :=
                          receiveTokens (get_limit w3 recipientId) - of_nat bytes\<rparr>) w3
               in (w4, Inr True))"

definition relayDatagram :: "int \<Rightarrow> sock \<Rightarrow> jsstr \<Rightarrow> jsstr \<Rightarrow> control_room \<Rightarrow> eff" where
  "relayDatagram now socket recipientId payload w =
     (if \<not> relayEnabled w then (w, Some ''MeshTalk Relay is disabled'')
      else case c_peerId (clientData w socket) of
          None \<Rightarrow> (w, Some ''Invalid relay frame'')
        | Some peerId \<Rightarrow>
            if peerId = [] \<or> \<not> PEER_ID recipientId then (w, Some ''Invalid relay frame'')
            else case fromBase64 payload of
                None \<Rightarrow> (w, Some ''Invalid relay frame'')
              | Some frame \<Rightarrow>
                  if frame = [] \<or> MAX_RELAY_FRAME_LENGTH < length frame \<or> toBase64 frame \<noteq> payload
                  then (w, Some ''Invalid relay frame'')
                  else if \<not> peersShareRoom socket recipientId w
                  then send socket (RelayDropped recipientId ''unauthorized'') w
                  else case map_get (socketsByPeerId w) recipientId of
                      None \<Rightarrow> send socket (RelayDropped recipientId ''offline'') w
                    | Some recipient \<Rightarrow>
                        (case reserveRelayBandwidth now peerId recipientId (length frame) w of
                           (w1, Inl e) \<Rightarrow> (w1, Some e)
                         | (w1, Inr False) \<Rightarrow> send socket (RelayDropped recipientId ''quota'') w1
                         | (w1, Inr True) \<Rightarrow> send recipient (RelayFrame peerId payload) w1))"

subsection \<open>Closing\<close>

definition releasePending :: "pending_message \<Rightarrow> control_room \<Rightarrow> eff" where
  "releasePending e w =
     (let w1 = upd_data (pm_socket e) (\<lambda>d. d\<lparr>c_pendingMessages := c_pendingMessages d - 1,
            c_pendingBytes := c_pendingBytes d - pm_bytes e\<rparr>)
          (w\<lparr>pendingMessages := pendingMessages w - 1, pendingBytes := pendingBytes w - pm_bytes e\<rparr>);
          ip = c_ip (clientData w1 (pm_socket e))
      in case map_get (pendingByIp w1) ip of
          None \<Rightarrow> (w1, Some ''undefined is not an object'')
        | Some (m, b) \<Rightarrow>
            if m - 1 = 0 then (w1\<lparr>pendingByIp := map_del ip (pendingByIp w1)\<rparr>, None)
            else (w1\<lparr>pendingByIp := map_set ip (m - 1, b - pm_bytes e) (pendingByIp w1)\<rparr>, None))"

fun release_all :: "pending_message list \<Rightarrow> control_room \<Rightarrow> eff" where
  "release_all [] w = (w, None)"
| "release_all (e # es) w = andThen (releasePending e w) (release_all es)"

fun leave_all :: "sock \<Rightarrow> jsstr list \<Rightarrow> control_room \<Rightarrow> eff" where
  "leave_all socket [] w = (w, None)"
| "leave_all socket (r # rs) w = andThen (leaveRoom socket r w) (leave_all socket rs)"

definition forget_device :: "sock \<Rightarrow> control_room \<Rightarrow> control_room" where
  "forget_device socket w =
     (case c_peerId (clientData w socket) of
        None \<Rightarrow> w
      | Some p \<Rightarrow>
          if p \<noteq> [] \<and> map_get (socketsByPeerId w) p = Some socket
          then w\<lparr>socketsByPeerId := map_del p (socketsByPeerId w),
                 deviceLimits := map (\<lambda>(k, l). (k, l\<lparr>relayPeers := map_del p (relayPeers l)\<rparr>))
                   (map_del p (deviceLimits w))\<rparr>
          else w)"

definition drop_connection :: "jsstr \<Rightarrow> control_room \<Rightarrow> control_room" where
  "drop_connection ip w =
     (let count = (case map_get (connectionsByIp w) ip of None \<Rightarrow> 1 | Some n \<Rightarrow> n) - 1 in
      w\<lparr>connections := max 0 (connections w - 1),
        connectionsByIp := (if count > 0 then map_set ip count (connectionsByIp w)
                            else map_del ip (connectionsByIp w))\<rparr>)"

definition handleClose :: "sock \<Rightarrow> control_room \<Rightarrow> eff" where
  "handleClose socket w =
     (if socket \<notin> set (clients w) then (w, None)
      else
        let w1 = w\<lparr>clients := set_del socket (clients w)\<rparr>
        in andThen (release_all (filter (\<lambda>e. pm_socket e = socket) (queue w1)) w1) (\<lambda>w2.
             let w3 = w2\<lparr>queue := filter (\<lambda>e. pm_socket e \<noteq> socket) (queue w2)\<rparr>;
                 w4 = forget_device socket w3;
                 w5 = drop_connection (c_ip (clientData w4 socket)) w4
             in leave_all socket (c_rooms (clientData w5 socket)) w5))"

definition try_send :: "sock \<Rightarrow> frame \<Rightarrow> control_room \<Rightarrow> control_room" where
  "try_send s f w = fst (send s f w)"

definition rejectClient :: "sock \<Rightarrow> err \<Rightarrow> control_room \<Rightarrow> eff" where
  "rejectClient socket e w =
     andThen (handleClose socket w) (\<lambda>w1.
       (close_socket socket 1008 ''Invalid control message'' (try_send socket (ErrorFrame e) w1), None))"

subsection \<open>Registration\<close>

definition text_of :: "json_object \<Rightarrow> string \<Rightarrow> jsstr" where
  "text_of msg k = (case string_field msg k of Some s \<Rightarrow> s | None \<Rightarrow> [])"

definition issued_at :: "json_object \<Rightarrow> rat option" where
  "issued_at msg = (case field msg ''issued_at'' of Some (JNum n) \<Rightarrow> Some n | _ \<Rightarrow> None)"

definition matches :: "(jsstr \<Rightarrow> bool) \<Rightarrow> jsstr option \<Rightarrow> bool" where
  "matches P v = (case v of Some s \<Rightarrow> P s | None \<Rightarrow> False)"

definition registration_valid :: "int \<Rightarrow> client_data \<Rightarrow> json_object \<Rightarrow> bool" where
  "registration_valid now d msg \<longleftrightarrow>
     string_field msg ''challenge_id'' = Some (challengeId d)
     \<and> string_field msg ''nonce'' = Some (challenge d)
     \<and> (case issued_at msg of Some n \<Rightarrow> \<not> \<bar>of_int (now div 1000) - n\<bar> > 30 | None \<Rightarrow> False)
     \<and> matches PEER_ID (string_field msg ''peer_id'')
     \<and> matches HEX_32 (string_field msg ''signing_public_key'')
     \<and> matches HEX_64 (string_field msg ''signature'')"

definition signed_fields :: "json_object \<Rightarrow> (jsstr \<times> scalar) list" where
  "signed_fields msg =
     [(js ''challenge_id'', SStr (text_of msg ''challenge_id'')),
      (js ''issued_at'', SNum (case issued_at msg of Some n \<Rightarrow> n | None \<Rightarrow> 0)),
      (js ''kind'', SStr (js ''meshtalk-device-register-v1'')),
      (js ''nonce'', SStr (text_of msg ''nonce'')),
      (js ''peer_id'', SStr (text_of msg ''peer_id'')),
      (js ''signing_public_key'', SStr (text_of msg ''signing_public_key'')),
      (js ''v'', SNum 1)]"

text \<open>Up to the first await.\<close>

definition registerDevice_start :: "int \<Rightarrow> sock \<Rightarrow> json_object \<Rightarrow> control_room \<Rightarrow> eff" where
  "registerDevice_start now socket msg w =
     (if \<not> registration_valid now (clientData w socket) msg then (w, Some ''Invalid device registration'')
      else if truthy (c_peerId (clientData w socket))
        \<and> c_peerId (clientData w socket) \<noteq> Some (text_of msg ''peer_id'')
      then (w, Some ''Device identity cannot change on a connection'')
      else (w, None))"

text \<open>When the digest is there.\<close>

definition registerDevice_digest :: "crypto \<Rightarrow> json_object \<Rightarrow> control_room \<Rightarrow> eff" where
  "registerDevice_digest cr msg w =
     (if sha256Hex cr (fromHex (text_of msg ''signing_public_key'')) \<noteq> text_of msg ''peer_id''
      then (w, Some ''Device identity mismatch'') else (w, None))"

text \<open>When the signature was checked: the commit, which rechecks that the connection is still open.\<close>

definition fresh_limit :: "int \<Rightarrow> device_limit" where
  "fresh_limit now = \<lparr>tokens = RELAY_BURST_BYTES, receiveTokens = RELAY_BURST_BYTES,
     updatedAt = now, relayPeers = []\<rparr>"

definition registerDevice_commit :: "crypto \<Rightarrow> int \<Rightarrow> sock \<Rightarrow> json_object \<Rightarrow> control_room \<Rightarrow> eff" where
  "registerDevice_commit cr now socket msg w =
     (let peer_id = text_of msg ''peer_id'' in
      case verifyEd25519 cr (text_of msg ''signing_public_key'') (text_of msg ''signature'')
             (canonical cr (signed_fields msg)) of
        Inl e \<Rightarrow> (w, Some e)
      | Inr False \<Rightarrow> (w, Some ''Invalid device signature'')
      | Inr True \<Rightarrow>
          if socket \<notin> set (clients w) then (w, None)
          else
            let previous = map_get (socketsByPeerId w) peer_id;
                w1 = upd_data socket (\<lambda>d. d\<lparr>c_peerId := Some peer_id\<rparr>)
                  (w\<lparr>socketsByPeerId := map_set peer_id socket (socketsByPeerId w)\<rparr>)
            in andThen
                 (case previous of
                    None \<Rightarrow> (w1, None)
                  | Some p \<Rightarrow>
                      if p = socket then (w1, None)
                      else andThen (handleClose p w1) (\<lambda>w2.
                        (close_socket p 4000 ''Replaced by a newer device session'' w2, None)))
                 (\<lambda>w3.
                    let w4 = (if map_get (deviceLimits w3) peer_id = None
                              then put_limit peer_id (fresh_limit now) w3 else w3)
                    in send socket (DeviceRegistered peer_id (relayEnabled w4)) w4))"

subsection \<open>Message handling\<close>

definition type_is :: "json_object \<Rightarrow> string \<Rightarrow> bool" where
  "type_is msg t \<longleftrightarrow> field msg ''type'' = Some (JStr (js t))"

definition has_text :: "json_object \<Rightarrow> string \<Rightarrow> bool" where
  "has_text msg k \<longleftrightarrow> string_field msg k \<noteq> None"

definition is_relay :: "json_object \<Rightarrow> bool" where
  "is_relay msg \<longleftrightarrow> type_is msg ''relay'' \<and> has_text msg ''recipient_id'' \<and> has_text msg ''payload''"

text \<open>What a registered device may ask for.\<close>

definition dispatch :: "int \<Rightarrow> sock \<Rightarrow> json_object \<Rightarrow> control_room \<Rightarrow> eff" where
  "dispatch now socket msg w =
     (if \<not> truthy (c_peerId (clientData w socket)) then (w, Some ''Device registration required'')
      else if is_relay msg
      then relayDatagram now socket (text_of msg ''recipient_id'') (text_of msg ''payload'') w
      else if type_is msg ''join'' \<and> has_text msg ''room_id'' \<and> has_text msg ''room_auth''
      then joinRoom socket (text_of msg ''room_id'') (text_of msg ''room_auth'') w
      else if type_is msg ''leave'' \<and> has_text msg ''room_id''
      then leaveRoom socket (text_of msg ''room_id'') w
      else if type_is msg ''signal'' \<and> has_text msg ''room_id'' \<and> has_text msg ''payload''
      then signalRoom socket (text_of msg ''room_id'') (text_of msg ''payload'') w
      else if type_is msg ''get_peers'' \<and> has_text msg ''room_id''
      then fetchPeers socket (text_of msg ''room_id'') w
      else (w, Some ''Invalid control message''))"

definition or_reject :: "sock \<Rightarrow> eff \<Rightarrow> eff" where
  "or_reject socket r = (case r of (w, None) \<Rightarrow> (w, None) | (w, Some e) \<Rightarrow> rejectClient socket e w)"

text \<open>\<open>handleMessage\<close> up to its first await: the await it stands at, and the effect so far.\<close>

definition handleMessage_start :: "int \<Rightarrow> sock \<Rightarrow> json_object \<Rightarrow> control_room \<Rightarrow> stage \<times> eff" where
  "handleMessage_start now socket msg w =
     (if socket \<notin> set (clients w) then (Done, w, None)
      else if type_is msg ''device_register''
      then (case registerDevice_start now socket msg w of
              (w1, None) \<Rightarrow> (Digesting, w1, None)
            | (w1, Some e) \<Rightarrow> (Done, rejectClient socket e w1))
      else (Done, or_reject socket (dispatch now socket msg w)))"

text \<open>\<open>handleMessage\<close> from the await of the digest, and from the await of the check.\<close>

definition handleMessage_resume ::
  "crypto \<Rightarrow> int \<Rightarrow> stage \<Rightarrow> sock \<Rightarrow> json_object \<Rightarrow> control_room \<Rightarrow> stage \<times> eff" where
  "handleMessage_resume cr now st socket msg w =
     (case st of
        Digesting \<Rightarrow>
          (case registerDevice_digest cr msg w of
             (w1, None) \<Rightarrow> (Verifying, w1, None)
           | (w1, Some e) \<Rightarrow> (Done, rejectClient socket e w1))
      | Verifying \<Rightarrow> (Done, or_reject socket (registerDevice_commit cr now socket msg w))
      | Done \<Rightarrow> (Done, w, None))"

subsection \<open>The queue\<close>

text \<open>The outer \<open>catch\<close> of \<open>drainQueue\<close>, and where the entry being handled stands afterwards.\<close>

definition settle :: "pending_message \<Rightarrow> stage \<times> eff \<Rightarrow> control_room" where
  "settle e r =
     (case r of
        (st, w, None) \<Rightarrow> w\<lparr>running := Some (e, st)\<rparr>
      | (st, w, Some x) \<Rightarrow> (fst (rejectClient (pm_socket e) x w))\<lparr>running := Some (e, Done)\<rparr>)"

definition drain_next :: "int \<Rightarrow> control_room \<Rightarrow> control_room" where
  "drain_next now w =
     (case queue w of
        [] \<Rightarrow> w\<lparr>running := None\<rparr>
      | e # q \<Rightarrow>
          settle e (handleMessage_start now (pm_socket e) (pm_message e)
            (w\<lparr>queue := q, running := Some (e, Done)\<rparr>)))"

definition drainQueue :: "int \<Rightarrow> control_room \<Rightarrow> control_room" where
  "drainQueue now w = (if running w \<noteq> None then w else drain_next now w)"

text \<open>The awaited promise of the running entry settles.\<close>

definition resume :: "crypto \<Rightarrow> int \<Rightarrow> control_room \<Rightarrow> control_room" where
  "resume cr now w =
     (case running w of
        None \<Rightarrow> w
      | Some (e, Done) \<Rightarrow>
          (case releasePending e w of
             (w1, None) \<Rightarrow> drain_next now w1
           | (w1, Some _) \<Rightarrow> w1\<lparr>running := None\<rparr>)
      | Some (e, st) \<Rightarrow> settle e (handleMessage_resume cr now st (pm_socket e) (pm_message e) w))"

subsection \<open>Admission\<close>

text \<open>
  A raw frame as admission observes it: text with its length in code units and in UTF-8 bytes,
  or binary with its length, and what \<open>JSON.parse\<close> makes of it (a value or a syntax error).
\<close>

datatype raw = RawText nat nat "err + json" | RawBinary nat "err + json" | RawOther

fun raw_length :: "raw \<Rightarrow> int" where
  "raw_length (RawText units bytes p) = int units"
| "raw_length (RawBinary bytes p) = int bytes"
| "raw_length RawOther = 0"

fun raw_bytes :: "raw \<Rightarrow> int" where
  "raw_bytes (RawText units bytes p) = int bytes"
| "raw_bytes (RawBinary bytes p) = int bytes"
| "raw_bytes RawOther = 0"

fun raw_parsed :: "raw \<Rightarrow> err + json" where
  "raw_parsed (RawText units bytes p) = p"
| "raw_parsed (RawBinary bytes p) = p"
| "raw_parsed RawOther = Inl ''''"

definition pending_of_ip :: "control_room \<Rightarrow> jsstr \<Rightarrow> int \<times> int" where
  "pending_of_ip w ip = (case map_get (pendingByIp w) ip of None \<Rightarrow> (0, 0) | Some p \<Rightarrow> p)"

definition queue_full :: "int \<Rightarrow> sock \<Rightarrow> control_room \<Rightarrow> bool" where
  "queue_full bytes socket w =
     (let d = clientData w socket; (ipMessages, ipBytes) = pending_of_ip w (c_ip d) in
      pendingMessages w \<ge> MAX_PENDING_MESSAGES \<or> pendingBytes w + bytes > MAX_PENDING_MESSAGE_BYTES
      \<or> c_pendingMessages d \<ge> MAX_PENDING_MESSAGES_PER_CLIENT
      \<or> c_pendingBytes d + bytes > MAX_PENDING_MESSAGE_BYTES_PER_CLIENT
      \<or> ipMessages \<ge> MAX_PENDING_MESSAGES_PER_IP
      \<or> ipBytes + bytes > MAX_PENDING_MESSAGE_BYTES_PER_IP)"

definition enqueue :: "sock \<Rightarrow> json_object \<Rightarrow> int \<Rightarrow> control_room \<Rightarrow> control_room" where
  "enqueue socket msg bytes w =
     (let ip = c_ip (clientData w socket); (ipMessages, ipBytes) = pending_of_ip w ip in
      upd_data socket (\<lambda>d. d\<lparr>c_pendingMessages := c_pendingMessages d + 1,
          c_pendingBytes := c_pendingBytes d + bytes\<rparr>)
        (w\<lparr>pendingByIp := map_set ip (ipMessages + 1, ipBytes + bytes) (pendingByIp w),
           pendingMessages := pendingMessages w + 1, pendingBytes := pendingBytes w + bytes,
           queue := queue w @ [\<lparr>pm_socket = socket, pm_message = msg, pm_bytes = bytes\<rparr>]\<rparr>))"

definition admit :: "int \<Rightarrow> sock \<Rightarrow> raw \<Rightarrow> control_room \<Rightarrow> eff" where
  "admit now socket raw w =
     (if raw = RawOther then (w, Some ''Invalid control message'')
      else if raw_length raw > MAX_CONTROL_MESSAGE_BYTES then (w, Some ''Control message is too large'')
      else if raw_bytes raw > MAX_CONTROL_MESSAGE_BYTES then (w, Some ''Control message is too large'')
      else if queue_full (raw_bytes raw) socket w then (w, Some ''Control message queue is full'')
      else case raw_parsed raw of
          Inl e \<Rightarrow> (w, Some e)
        | Inr (JObj msg) \<Rightarrow>
            andThen (if is_relay msg then checkRelayRateLimit now socket w
                     else checkRateLimit now socket (field msg ''type'') w)
              (\<lambda>w1. (drainQueue now (enqueue socket msg (raw_bytes raw) w1), None))
        | Inr _ \<Rightarrow> (w, Some ''Invalid control message''))"

definition admitMessage :: "int \<Rightarrow> sock \<Rightarrow> raw \<Rightarrow> control_room \<Rightarrow> control_room" where
  "admitMessage now socket raw w =
     (if socket \<notin> set (clients w) then w
      else fst (or_reject socket (admit now socket raw w)))"

subsection \<open>Connections\<close>

datatype response = Response int string | Health int int | Upgraded sock

definition new_client :: "int \<Rightarrow> jsstr \<Rightarrow> nat list \<Rightarrow> nat list \<Rightarrow> client_data" where
  "new_client now ip random16 random32 =
     \<lparr>windowStartedAt = now, controlMessagesInWindow = 0, signalsInWindow = 0,
      peerFetchesInWindow = 0, c_ip = ip, c_rooms = [], c_signals = [], relayWindowStartedAt = now,
      relayFramesInWindow = 0, challengeId = toBase64Url random16, challenge = toHex random32,
      challengeExpiresAt = now div 1000 + 60, c_peerId = None, c_pendingMessages = 0,
      c_pendingBytes = 0\<rparr>"

definition ip_connections :: "control_room \<Rightarrow> jsstr \<Rightarrow> int" where
  "ip_connections w ip = (case map_get (connectionsByIp w) ip of None \<Rightarrow> 0 | Some n \<Rightarrow> n)"

definition fetch ::
  "int \<Rightarrow> jsstr \<Rightarrow> jsstr option \<Rightarrow> nat list \<Rightarrow> nat list \<Rightarrow> control_room \<Rightarrow> control_room \<times> response" where
  "fetch now pathname header random16 random32 w =
     (if pathname = js ''/health'' then (w, Health (int (length (rooms w))) (connections w))
      else if pathname \<noteq> js ''/v1/rendezvous'' then (w, Response 404 ''Not found'')
      else if connections w \<ge> MAX_CONNECTIONS then (w, Response 503 ''Control service is full'')
      else
        let ip = (case header of Some h \<Rightarrow> h | None \<Rightarrow> js ''unknown'') in
        if ip_connections w ip \<ge> MAX_CONNECTIONS_PER_IP
        then (w, Response 429 ''Too many connections from this IP'')
        else
          let s = nextSocket w;
              d = new_client now ip random16 random32;
              w1 = w\<lparr>nextSocket := Suc s, clientData := (clientData w)(s := d),
                     clients := clients w @ [s], connections := connections w + 1,
                     connectionsByIp := map_set ip (ip_connections w ip + 1) (connectionsByIp w)\<rparr>
          in (fst (send s (DeviceChallenge (challengeId d) (challenge d) (challengeExpiresAt d)) w1),
              Upgraded s))"

text \<open>The exported entry point routes a request to the object.\<close>

datatype route = ToObject | Refuse int string

definition ascii_lower :: "jsstr \<Rightarrow> jsstr" where
  "ascii_lower s = map (\<lambda>c. if 65 \<le> c \<and> c \<le> 90 then c + 32 else c) s"

definition worker_fetch :: "jsstr \<Rightarrow> jsstr option \<Rightarrow> route" where
  "worker_fetch pathname upgrade =
     (if pathname = js ''/health'' then ToObject
      else if pathname \<noteq> js ''/v1/rendezvous'' then Refuse 404 ''Not found''
      else if ascii_lower (case upgrade of Some u \<Rightarrow> u | None \<Rightarrow> []) \<noteq> js ''websocket''
      then Refuse 426 ''WebSocket upgrade required''
      else ToObject)"

subsection \<open>Events\<close>

datatype event =
    Connect int jsstr "jsstr option" "nat list" "nat list"
  | Message int sock raw
  | SocketError sock
  | SocketClose sock int string
  | Resume int

fun react :: "crypto \<Rightarrow> event \<Rightarrow> control_room \<Rightarrow> control_room" where
  "react cr (Connect now path header r16 r32) w = fst (fetch now path header r16 r32 w)"
| "react cr (Message now s raw) w = admitMessage now s raw w"
| "react cr (SocketError s) w = fst (rejectClient s ''WebSocket error'' w)"
| "react cr (SocketClose s code reason) w =
     (case handleClose s w of
        (w1, None) \<Rightarrow> close_socket s code reason w1
      | (w1, Some _) \<Rightarrow> w1)"
| "react cr (Resume now) w = resume cr now w"

end
