(* ===== verification/ControlRooms.thy ===== *)
theory ControlRooms
  imports ControlWorker
begin

text \<open>
  Rooms and retained signals of the Durable Object: the invariant \<open>rooms_ok\<close> (membership lists
  and the clients' own sets of rooms agree, rooms are never empty nor overfull, and
  \<open>retainedBytes\<close> is the size of the stored signals), the effect of each room operation in closed
  form, and preservation. \<open>P\<close> is the list of sockets that may be members: the clients, and during
  \<open>handleClose\<close> also the socket being closed.
\<close>

subsection \<open>Sending never fails on open sockets\<close>

definition appended :: "control_room \<Rightarrow> sock_action list \<Rightarrow> control_room" where
  "appended w os = w\<lparr>outputs := outputs w @ os\<rparr>"

lemma appended_fields [simp]:
  "rooms (appended w os) = rooms w" "connectionsByIp (appended w os) = connectionsByIp w"
  "rateLimitsByIp (appended w os) = rateLimitsByIp w"
  "socketsByPeerId (appended w os) = socketsByPeerId w"
  "deviceLimits (appended w os) = deviceLimits w" "clients (appended w os) = clients w"
  "clientData (appended w os) = clientData w" "connections (appended w os) = connections w"
  "retainedBytes (appended w os) = retainedBytes w" "queue (appended w os) = queue w"
  "running (appended w os) = running w" "pendingMessages (appended w os) = pendingMessages w"
  "pendingBytes (appended w os) = pendingBytes w" "pendingByIp (appended w os) = pendingByIp w"
  "relayEnabled (appended w os) = relayEnabled w" "nextSocket (appended w os) = nextSocket w"
  "closedSockets (appended w os) = closedSockets w" "outputs (appended w os) = outputs w @ os"
  "client (appended w os) = client w"
  by (simp_all add: appended_def client_def fun_eq_iff)

lemma appended_appended [simp]: "appended (appended w a) b = appended w (a @ b)"
  by (simp add: appended_def)

lemma appended_Nil [simp]: "appended w [] = w"
  by (simp add: appended_def)

definition open_sock :: "control_room \<Rightarrow> sock \<Rightarrow> bool" where
  "open_sock w s \<longleftrightarrow> s \<notin> set (closedSockets w)"

lemma open_sock_appended [simp]: "open_sock (appended w os) s = open_sock w s"
  by (simp add: open_sock_def)

lemma send_open: "open_sock w s \<Longrightarrow> send s f w = (appended w [Send s f], None)"
  by (simp add: send_def open_sock_def appended_def)

lemma try_send_eq: "try_send s f w = (if open_sock w s then appended w [Send s f] else w)"
  by (simp add: try_send_def send_def open_sock_def appended_def)

lemma send_all_open:
  "(\<And>m. m \<in> set ms \<Longrightarrow> open_sock w m) \<Longrightarrow>
     send_all ms f w = (appended w (map (\<lambda>m. Send m f) ms), None)"
  by (induction ms arbitrary: w) (auto simp: send_open)

definition room_members :: "control_room \<Rightarrow> jsstr \<Rightarrow> sock list" where
  "room_members w r = (case map_get (rooms w) r of None \<Rightarrow> [] | Some room \<Rightarrow> members room)"

lemma room_members_appended [simp]: "room_members (appended w os) = room_members w"
  by (simp add: room_members_def fun_eq_iff)

definition broadcast_out :: "jsstr \<Rightarrow> frame \<Rightarrow> sock option \<Rightarrow> control_room \<Rightarrow> sock_action list" where
  "broadcast_out r f except w = map (\<lambda>m. Send m f) (filter (\<lambda>m. Some m \<noteq> except) (room_members w r))"

definition refresh_out :: "jsstr \<Rightarrow> control_room \<Rightarrow> sock_action list" where
  "refresh_out r w = broadcast_out r (RefreshFrame r (int (length (room_members w r)))) None w"

lemma broadcastRoom_open:
  "(\<And>m. m \<in> set (room_members w r) \<Longrightarrow> open_sock w m) \<Longrightarrow>
     broadcastRoom r f except w = (appended w (broadcast_out r f except w), None)"
  by (cases "map_get (rooms w) r")
    (auto simp: broadcastRoom_def broadcast_out_def room_members_def intro!: send_all_open)

lemma refreshRoom_open:
  "(\<And>m. m \<in> set (room_members w r) \<Longrightarrow> open_sock w m) \<Longrightarrow>
     refreshRoom r w = (appended w (refresh_out r w), None)"
  unfolding refreshRoom_def refresh_out_def
  by (cases "map_get (rooms w) r")
    (simp_all add: broadcastRoom_open, simp_all add: broadcast_out_def room_members_def)

lemma room_payloads_appended [simp]: "room_payloads r ms (appended w os) = room_payloads r ms w"
  by (simp add: room_payloads_def)

lemma send_room_signals_open:
  "open_sock w s \<Longrightarrow> send_room_signals s r ms w
     = (appended w (map (\<lambda>p. Send s (SignalFrame r p)) (room_payloads r ms w)), None)"
proof (induction ms arbitrary: w)
  case Nil
  then show ?case by (simp add: room_payloads_def)
next
  case (Cons m ms)
  have "room_payloads r (m # ms) w =
      (case Option.bind (client w m) (\<lambda>d. map_get (c_signals d) r) of
         Some p \<Rightarrow> if p \<noteq> [] then p # room_payloads r ms w else room_payloads r ms w
       | None \<Rightarrow> room_payloads r ms w)"
    by (simp add: room_payloads_def List.map_filter_simps split: option.splits)
  with Cons show ?case by (auto simp: send_open split: option.splits)
qed

lemma upd_data_fields [simp]:
  "rooms (upd_data s f w) = rooms w" "connectionsByIp (upd_data s f w) = connectionsByIp w"
  "rateLimitsByIp (upd_data s f w) = rateLimitsByIp w"
  "socketsByPeerId (upd_data s f w) = socketsByPeerId w"
  "deviceLimits (upd_data s f w) = deviceLimits w" "clients (upd_data s f w) = clients w"
  "clientData (upd_data s f w) = (clientData w)(s := f (clientData w s))"
  "connections (upd_data s f w) = connections w"
  "retainedBytes (upd_data s f w) = retainedBytes w" "queue (upd_data s f w) = queue w"
  "running (upd_data s f w) = running w" "pendingMessages (upd_data s f w) = pendingMessages w"
  "pendingBytes (upd_data s f w) = pendingBytes w" "pendingByIp (upd_data s f w) = pendingByIp w"
  "relayEnabled (upd_data s f w) = relayEnabled w" "nextSocket (upd_data s f w) = nextSocket w"
  "closedSockets (upd_data s f w) = closedSockets w" "outputs (upd_data s f w) = outputs w"
  "open_sock (upd_data s f w) t = open_sock w t"
  "room_members (upd_data s f w) = room_members w"
  by (simp_all add: upd_data_def open_sock_def room_members_def fun_eq_iff)

subsection \<open>The invariant\<close>

definition signal_bytes :: "client_data \<Rightarrow> int" where
  "signal_bytes d = (\<Sum>e\<leftarrow>c_signals d. int (length (snd e)))"

definition room_ok :: "room_state \<Rightarrow> bool" where
  "room_ok room \<longleftrightarrow> members room \<noteq> [] \<and> distinct (members room)
     \<and> length (members room) \<le> MAX_ROOM_MEMBERS \<and> ROOM_AUTH (auth room)"

definition signal_ok :: "jsstr \<Rightarrow> bool" where
  "signal_ok p \<longleftrightarrow> p \<noteq> [] \<and> length p \<le> MAX_SIGNAL_LENGTH"

definition joined_ok :: "client_data \<Rightarrow> bool" where
  "joined_ok d \<longleftrightarrow> distinct (c_rooms d) \<and> length (c_rooms d) \<le> MAX_ROOMS_PER_CLIENT
     \<and> map_ok (c_signals d) \<and> set (map_keys (c_signals d)) \<subseteq> set (c_rooms d)
     \<and> (\<forall>r p. map_get (c_signals d) r = Some p \<longrightarrow> signal_ok p)"

definition rooms_ok :: "sock list \<Rightarrow> control_room \<Rightarrow> bool" where
  "rooms_ok P w \<longleftrightarrow> distinct P \<and> map_ok (rooms w) \<and> length (rooms w) \<le> MAX_ROOMS
     \<and> (\<forall>r room. map_get (rooms w) r = Some room \<longrightarrow> room_ok room)
     \<and> (\<forall>s r. s \<in> set (room_members w r) \<longleftrightarrow> r \<in> set (c_rooms (clientData w s)))
     \<and> (\<forall>s. joined_ok (clientData w s))
     \<and> (\<forall>s. s \<notin> set P \<longrightarrow> c_rooms (clientData w s) = [])
     \<and> retainedBytes w = (\<Sum>s\<leftarrow>P. signal_bytes (clientData w s))
     \<and> retainedBytes w \<le> MAX_RETAINED_BYTES"

lemma rooms_okD:
  assumes "rooms_ok P w"
  shows "distinct P" "map_ok (rooms w)" "length (rooms w) \<le> MAX_ROOMS"
    "map_get (rooms w) r = Some room \<Longrightarrow> room_ok room"
    "s \<in> set (room_members w r) \<longleftrightarrow> r \<in> set (c_rooms (clientData w s))"
    "joined_ok (clientData w s)"
    "s \<notin> set P \<Longrightarrow> c_rooms (clientData w s) = []"
    "retainedBytes w = (\<Sum>s\<leftarrow>P. signal_bytes (clientData w s))"
    "retainedBytes w \<le> MAX_RETAINED_BYTES"
  using assms by (auto simp: rooms_ok_def)

text \<open>The invariant reads these parts of the state only.\<close>

lemma rooms_ok_cong:
  assumes "rooms w' = rooms w" "retainedBytes w' = retainedBytes w"
    "\<And>s. c_rooms (clientData w' s) = c_rooms (clientData w s)"
    "\<And>s. c_signals (clientData w' s) = c_signals (clientData w s)"
  shows "rooms_ok P w' = rooms_ok P w"
  using assms by (simp add: rooms_ok_def room_members_def joined_ok_def signal_bytes_def)

lemma rooms_ok_appended [simp]: "rooms_ok P (appended w os) = rooms_ok P w"
  by (rule rooms_ok_cong) simp_all

lemma signal_bytes_set:
  "map_ok (c_signals d) \<Longrightarrow> signal_bytes (d\<lparr>c_signals := map_set r p (c_signals d)\<rparr>)
     = signal_bytes d - payload_length (map_get (c_signals d) r) + int (length p)"
proof -
  have "map_ok m \<Longrightarrow> (\<Sum>e\<leftarrow>map_set r p m. int (length (snd e)))
     = (\<Sum>e\<leftarrow>m. int (length (snd e))) - payload_length (map_get m r) + int (length p)" for m
    by (induction m) (auto simp: payload_length_def map_ok_def)
  then show "map_ok (c_signals d) \<Longrightarrow> ?thesis" by (simp add: signal_bytes_def)
qed

lemma sum_map_del:
  "map_ok m \<Longrightarrow> (\<Sum>e\<leftarrow>map_del r m. int (length (snd e)))
     = (\<Sum>e\<leftarrow>m. int (length (snd e))) - payload_length (map_get m r)"
proof (induction m)
  case Nil
  then show ?case by (simp add: payload_length_def)
next
  case (Cons e m)
  then show ?case
    by (cases "fst e = r") (auto simp: payload_length_def map_ok_def)
qed

lemma joined_ok_leave:
  "joined_ok d \<Longrightarrow> joined_ok (d\<lparr>c_rooms := set_del r (c_rooms d), c_signals := map_del r (c_signals d)\<rparr>)"
  using length_set_del_le [of r "c_rooms d"] by (auto simp: joined_ok_def split: if_splits)

lemma joined_ok_join:
  "joined_ok d \<Longrightarrow> length (c_rooms d) < MAX_ROOMS_PER_CLIENT \<Longrightarrow>
     joined_ok (d\<lparr>c_rooms := set_add r (c_rooms d)\<rparr>)"
  by (auto simp: joined_ok_def length_set_add)

lemma joined_ok_signal:
  "joined_ok d \<Longrightarrow> r \<in> set (c_rooms d) \<Longrightarrow> signal_ok p \<Longrightarrow>
     joined_ok (d\<lparr>c_signals := map_set r p (c_signals d)\<rparr>)"
  by (auto simp: joined_ok_def)

subsection \<open>Leaving\<close>

text \<open>The change of state of \<open>leaveRoom\<close>, without what it sends.\<close>

definition leave_core :: "sock \<Rightarrow> jsstr \<Rightarrow> control_room \<Rightarrow> control_room" where
  "leave_core s r w =
     (case map_get (rooms w) r of
        None \<Rightarrow> w
      | Some room \<Rightarrow>
          let ms = set_del s (members room) in
          upd_data s (\<lambda>d. d\<lparr>c_rooms := set_del r (c_rooms d), c_signals := map_del r (c_signals d)\<rparr>)
            (w\<lparr>rooms := (if ms = [] then map_del r (rooms w)
                         else map_set r (room\<lparr>members := ms\<rparr>) (rooms w)),
               retainedBytes := retainedBytes w
                 - payload_length (map_get (c_signals (clientData w s)) r)\<rparr>))"

lemma map_del_set [simp]: "map_del k (map_set k v m) = map_del k m"
  by (induction m) auto

lemma room_members_leave_core:
  "room_members (leave_core s r w) r' =
     (if r' = r then set_del s (room_members w r) else room_members w r')"
  by (auto simp: leave_core_def room_members_def Let_def split: option.splits)

lemma leave_core_fields [simp]:
  "clients (leave_core s r w) = clients w" "queue (leave_core s r w) = queue w"
  "closedSockets (leave_core s r w) = closedSockets w"
  "nextSocket (leave_core s r w) = nextSocket w"
  "running (leave_core s r w) = running w"
  "connections (leave_core s r w) = connections w"
  "connectionsByIp (leave_core s r w) = connectionsByIp w"
  "rateLimitsByIp (leave_core s r w) = rateLimitsByIp w"
  "socketsByPeerId (leave_core s r w) = socketsByPeerId w"
  "deviceLimits (leave_core s r w) = deviceLimits w"
  "pendingMessages (leave_core s r w) = pendingMessages w"
  "pendingBytes (leave_core s r w) = pendingBytes w"
  "pendingByIp (leave_core s r w) = pendingByIp w"
  "relayEnabled (leave_core s r w) = relayEnabled w" "outputs (leave_core s r w) = outputs w"
  "open_sock (leave_core s r w) = open_sock w"
  by (auto simp: leave_core_def open_sock_def Let_def fun_eq_iff split: option.splits)

lemma leave_core_data:
  "clientData (leave_core s r w) t =
     (if t = s \<and> map_get (rooms w) r \<noteq> None
      then (clientData w s)\<lparr>c_rooms := set_del r (c_rooms (clientData w s)),
             c_signals := map_del r (c_signals (clientData w s))\<rparr>
      else clientData w t)"
  by (auto simp: leave_core_def Let_def split: option.splits)

lemma leaveRoom_open:
  assumes "\<And>m. m \<in> set (room_members w r) \<Longrightarrow> m \<noteq> s \<Longrightarrow> open_sock w m"
  shows "leaveRoom s r w =
    (appended (leave_core s r w) (refresh_out r (leave_core s r w)), None)"
proof (cases "map_get (rooms w) r")
  case None
  then show ?thesis
    by (simp add: leaveRoom_def leave_core_def refresh_out_def broadcast_out_def room_members_def)
next
  case (Some room)
  have "\<And>m. m \<in> set (room_members (leave_core s r w) r) \<Longrightarrow> open_sock (leave_core s r w) m"
    using assms by (auto simp: room_members_leave_core)
  note refresh = refreshRoom_open [of "leave_core s r w", OF this]
  show ?thesis
  proof (cases "set_del s (members room) = []")
    case True
    then have "room_members (leave_core s r w) r = []"
      by (simp add: room_members_leave_core) (simp add: room_members_def Some)
    then have out: "refresh_out r (leave_core s r w) = []"
      by (simp add: refresh_out_def broadcast_out_def)
    show ?thesis
      using True Some unfolding out
      by (simp add: leaveRoom_def leave_core_def Let_def upd_data_def)
  next
    case False
    then have "leaveRoom s r w = refreshRoom r (leave_core s r w)"
      using Some by (simp add: leaveRoom_def leave_core_def Let_def)
    with refresh show ?thesis by simp
  qed
qed

lemma rooms_ok_leave:
  assumes ok: "rooms_ok P w" and s: "s \<in> set P"
  shows "rooms_ok P (leave_core s r w)"
proof (cases "map_get (rooms w) r")
  case None
  with ok show ?thesis by (simp add: leave_core_def)
next
  case (Some room)
  let ?w = "leave_core s r w"
  let ?d = "clientData w s"
  let ?d' = "?d\<lparr>c_rooms := set_del r (c_rooms ?d), c_signals := map_del r (c_signals ?d)\<rparr>"
  note D = rooms_okD [OF ok]
  have data: "clientData ?w = (clientData w)(s := ?d')"
    using Some by (auto simp: leave_core_data)
  have rooms: "rooms ?w = (if set_del s (members room) = [] then map_del r (rooms w)
      else map_set r (room\<lparr>members := set_del s (members room)\<rparr>) (rooms w))"
    using Some by (simp add: leave_core_def Let_def)
  have len: "length (rooms ?w) \<le> MAX_ROOMS"
    using D(2,3) Some unfolding rooms
    by (auto intro: order_trans [OF length_map_del_le] intro!: jsm.size_put_le)
  have room_ok': "room_ok (room\<lparr>members := set_del s (members room)\<rparr>)"
    if "set_del s (members room) \<noteq> []"
    using that D(4) [OF Some] length_set_del_le [of s "members room"] by (auto simp: room_ok_def)
  have ret: "retainedBytes ?w = (\<Sum>t\<leftarrow>P. signal_bytes (clientData ?w t))"
  proof -
    have "retainedBytes ?w = retainedBytes w - payload_length (map_get (c_signals ?d) r)"
      using Some by (simp add: leave_core_def Let_def)
    moreover have "signal_bytes ?d' = signal_bytes ?d - payload_length (map_get (c_signals ?d) r)"
      using D(6) [of s] by (simp add: signal_bytes_def sum_map_del joined_ok_def)
    ultimately show ?thesis
      using D(1,8) s unfolding data
      by (simp add: sum_list_fun_upd [where f = signal_bytes] del: fun_upd_apply)
  qed
  moreover have "0 \<le> payload_length (map_get (c_signals ?d) r)"
    by (simp add: payload_length_def split: option.splits)
  then have "retainedBytes ?w \<le> MAX_RETAINED_BYTES"
    using D(9) Some by (simp add: leave_core_def Let_def)
  moreover have "x \<in> set (room_members ?w r') \<longleftrightarrow> r' \<in> set (c_rooms (clientData ?w x))" for x r'
    using D(5) [of x r'] by (auto simp: data room_members_leave_core)
  ultimately show ?thesis
    using D len room_ok' s joined_ok_leave [OF D(6) [of s]]
    unfolding rooms_ok_def by (auto simp: rooms data split: if_splits)
qed

subsection \<open>Joining\<close>

text \<open>The guards of \<open>joinRoom\<close>, in the order of the code, and its change of state.\<close>

definition join_error :: "sock \<Rightarrow> jsstr \<Rightarrow> jsstr \<Rightarrow> control_room \<Rightarrow> err option" where
  "join_error s r a w =
     (if \<not> ROOM_ID r \<or> \<not> ROOM_AUTH a then Some ''Invalid room authorization''
      else if r \<in> set (c_rooms (clientData w s)) then None
      else if MAX_ROOMS_PER_CLIENT \<le> length (c_rooms (clientData w s)) then Some ''Too many joined rooms''
      else case map_get (rooms w) r of
          None \<Rightarrow> if MAX_ROOMS \<le> length (rooms w) then Some ''Control service room limit reached'' else None
        | Some room \<Rightarrow>
            if fromHex (auth room) \<noteq> fromHex a then Some ''Room authorization failed''
            else if MAX_ROOM_MEMBERS \<le> length (members room) then Some ''Room is full'' else None)"

definition join_core :: "sock \<Rightarrow> jsstr \<Rightarrow> jsstr \<Rightarrow> control_room \<Rightarrow> control_room" where
  "join_core s r a w =
     (let room = (case map_get (rooms w) r of Some room \<Rightarrow> room | None \<Rightarrow> \<lparr>auth = a, members = []\<rparr>) in
      upd_data s (\<lambda>d. d\<lparr>c_rooms := set_add r (c_rooms d)\<rparr>)
        (w\<lparr>rooms := map_set r (room\<lparr>members := set_add s (members room)\<rparr>) (rooms w)\<rparr>))"

definition join_out :: "sock \<Rightarrow> jsstr \<Rightarrow> control_room \<Rightarrow> control_room \<Rightarrow> sock_action list" where
  "join_out s r w w' =
     map (\<lambda>p. Send s (SignalFrame r p)) (room_payloads r (room_members w r) w)
     @ [Send s (JoinedFrame r (int (length (room_members w' r))))] @ refresh_out r w'"

lemma join_core_fields [simp]:
  "clients (join_core s r a w) = clients w" "queue (join_core s r a w) = queue w"
  "closedSockets (join_core s r a w) = closedSockets w"
  "nextSocket (join_core s r a w) = nextSocket w"
  "running (join_core s r a w) = running w"
  "connections (join_core s r a w) = connections w"
  "connectionsByIp (join_core s r a w) = connectionsByIp w"
  "rateLimitsByIp (join_core s r a w) = rateLimitsByIp w"
  "socketsByPeerId (join_core s r a w) = socketsByPeerId w"
  "deviceLimits (join_core s r a w) = deviceLimits w"
  "pendingMessages (join_core s r a w) = pendingMessages w"
  "pendingBytes (join_core s r a w) = pendingBytes w"
  "pendingByIp (join_core s r a w) = pendingByIp w"
  "relayEnabled (join_core s r a w) = relayEnabled w" "outputs (join_core s r a w) = outputs w"
  "retainedBytes (join_core s r a w) = retainedBytes w"
  "open_sock (join_core s r a w) = open_sock w"
  "clientData (join_core s r a w) = (clientData w)
     (s := (clientData w s)\<lparr>c_rooms := set_add r (c_rooms (clientData w s))\<rparr>)"
  by (simp_all add: join_core_def open_sock_def Let_def fun_eq_iff)

lemma room_members_join_core:
  "room_members (join_core s r a w) r' =
     (if r' = r then set_add s (room_members w r) else room_members w r')"
  by (auto simp: join_core_def room_members_def Let_def split: option.splits)

lemma map_set_set [simp]: "map_set k v (map_set k v' m) = map_set k v m"
  by (induction m) auto

lemma room_payloads_rooms [simp]: "room_payloads r ms (w\<lparr>rooms := x\<rparr>) = room_payloads r ms w"
proof -
  have "client (w\<lparr>rooms := x\<rparr>) = client w" by (auto simp: client_def fun_eq_iff)
  then show ?thesis by (simp add: room_payloads_def)
qed

text \<open>The part of \<open>joinRoom\<close> after its guards, from a state in which the room exists.\<close>

lemma join_tail:
  fixes r :: jsstr
  assumes s: "open_sock w s" and ms: "\<And>m. m \<in> set (members room) \<Longrightarrow> open_sock w m"
  defines "w' \<equiv> upd_data s (\<lambda>d. d\<lparr>c_rooms := set_add r (c_rooms d)\<rparr>)
      (w\<lparr>rooms := map_set r (room\<lparr>members := set_add s (members room)\<rparr>) (rooms w)\<rparr>)"
  shows "andThen (send_room_signals s r (members room) w) (\<lambda>w2.
       andThen (send s (JoinedFrame r (int (length (set_add s (members room)))))
         (upd_data s (\<lambda>d. d\<lparr>c_rooms := set_add r (c_rooms d)\<rparr>)
           (w2\<lparr>rooms := map_set r (room\<lparr>members := set_add s (members room)\<rparr>) (rooms w2)\<rparr>)))
       (refreshRoom r))
    = (appended w' (map (\<lambda>p. Send s (SignalFrame r p)) (room_payloads r (members room) w)
        @ [Send s (JoinedFrame r (int (length (set_add s (members room)))))] @ refresh_out r w'), None)"
proof -
  let ?sent = "map (\<lambda>p. Send s (SignalFrame r p)) (room_payloads r (members room) w)"
  have w': "upd_data s (\<lambda>d. d\<lparr>c_rooms := set_add r (c_rooms d)\<rparr>)
      ((appended w ?sent)\<lparr>rooms := map_set r (room\<lparr>members := set_add s (members room)\<rparr>)
        (rooms (appended w ?sent))\<rparr>) = appended w' ?sent"
    by (simp add: w'_def upd_data_def appended_def)
  have mem: "room_members w' r = set_add s (members room)"
    by (simp add: w'_def room_members_def)
  have op: "open_sock w' = open_sock w"
    by (simp add: w'_def open_sock_def fun_eq_iff)
  have refresh: "refreshRoom r (appended w' os) = (appended w' (os @ refresh_out r w'), None)" for os
    using refreshRoom_open [of "appended w' os" r] s ms
    by (auto simp: mem op refresh_out_def broadcast_out_def)
  show ?thesis
    unfolding send_room_signals_open [OF s] andThen_simps w'
    using s by (simp add: send_open op refresh)
qed

lemma joinRoom_open:
  assumes s: "open_sock w s" and ms: "\<And>m. m \<in> set (room_members w r) \<Longrightarrow> open_sock w m"
  shows "joinRoom s r a w =
    (case join_error s r a w of
       Some e \<Rightarrow> (w, Some e)
     | None \<Rightarrow> if r \<in> set (c_rooms (clientData w s)) then (w, None)
               else (appended (join_core s r a w) (join_out s r w (join_core s r a w)), None))"
proof (cases "map_get (rooms w) r")
  case None
  let ?room = "\<lparr>auth = a, members = []\<rparr>"
  let ?w = "w\<lparr>rooms := map_set r ?room (rooms w)\<rparr>"
  have "open_sock ?w s" using s by (simp add: open_sock_def)
  from join_tail [OF this, of ?room, where r = r] None show ?thesis
    by (auto simp: joinRoom_def join_error_def join_out_def join_core_def Let_def room_members_def
        control_limits room_payloads_def List.map_filter_simps)
next
  case (Some room)
  have "\<And>m. m \<in> set (members room) \<Longrightarrow> open_sock w m"
    using ms Some by (simp add: room_members_def)
  from join_tail [OF s this, where r = r] Some show ?thesis
    by (auto simp: joinRoom_def join_error_def join_out_def join_core_def Let_def room_members_def)
qed

lemma rooms_ok_join:
  assumes ok: "rooms_ok P w" and s: "s \<in> set P"
    and e: "join_error s r a w = None" and r: "r \<notin> set (c_rooms (clientData w s))"
  shows "rooms_ok P (join_core s r a w)"
proof -
  let ?w = "join_core s r a w"
  let ?room = "case map_get (rooms w) r of Some room \<Rightarrow> room | None \<Rightarrow> \<lparr>auth = a, members = []\<rparr>"
  note D = rooms_okD [OF ok]
  have snot: "s \<notin> set (room_members w r)" using D(5) r by simp
  have rooms: "rooms ?w = map_set r (?room\<lparr>members := set_add s (members ?room)\<rparr>) (rooms w)"
    by (simp add: join_core_def Let_def)
  have room_ok': "room_ok (?room\<lparr>members := set_add s (members ?room)\<rparr>)"
    using e r snot D(4) [of r]
    by (auto simp: join_error_def room_ok_def room_members_def set_add_def control_limits
        split: option.splits if_splits)
  have len: "length (rooms ?w) \<le> MAX_ROOMS"
    unfolding rooms using D(2,3) e r
    by (intro jsm.size_put_le) (auto simp: join_error_def split: if_splits option.splits)
  have "joined_ok (clientData ?w s)"
    using e r joined_ok_join [OF D(6) [of s]] by (auto simp: join_error_def split: if_splits)
  moreover have "x \<in> set (room_members ?w r') \<longleftrightarrow> r' \<in> set (c_rooms (clientData ?w x))" for x r'
    using D(5) [of x r'] by (auto simp: room_members_join_core)
  moreover have "retainedBytes ?w = (\<Sum>t\<leftarrow>P. signal_bytes (clientData ?w t))"
    using D(8) by (simp add: signal_bytes_def cong: map_cong)
      (rule arg_cong [where f = sum_list], auto)
  ultimately show ?thesis
    using D len room_ok' s unfolding rooms_ok_def by (auto simp: rooms)
qed

subsection \<open>Signalling\<close>

definition signal_error :: "sock \<Rightarrow> jsstr \<Rightarrow> jsstr \<Rightarrow> control_room \<Rightarrow> err option" where
  "signal_error s r p w =
     (if r \<notin> set (c_rooms (clientData w s)) then Some ''Join the room before signaling''
      else if \<not> signal_ok p then Some ''Invalid signal payload''
      else if MAX_RETAINED_BYTES < retainedBytes w
        - payload_length (map_get (c_signals (clientData w s)) r) + int (length p)
      then Some ''Control service storage limit reached'' else None)"

definition signal_core :: "sock \<Rightarrow> jsstr \<Rightarrow> jsstr \<Rightarrow> control_room \<Rightarrow> control_room" where
  "signal_core s r p w =
     upd_data s (\<lambda>d. d\<lparr>c_signals := map_set r p (c_signals d)\<rparr>)
       (w\<lparr>retainedBytes := retainedBytes w
          + (int (length p) - payload_length (map_get (c_signals (clientData w s)) r))\<rparr>)"

lemma signal_core_fields [simp]:
  "clients (signal_core s r p w) = clients w" "queue (signal_core s r p w) = queue w"
  "closedSockets (signal_core s r p w) = closedSockets w"
  "nextSocket (signal_core s r p w) = nextSocket w" "running (signal_core s r p w) = running w"
  "connections (signal_core s r p w) = connections w"
  "connectionsByIp (signal_core s r p w) = connectionsByIp w"
  "rateLimitsByIp (signal_core s r p w) = rateLimitsByIp w"
  "socketsByPeerId (signal_core s r p w) = socketsByPeerId w"
  "deviceLimits (signal_core s r p w) = deviceLimits w"
  "pendingMessages (signal_core s r p w) = pendingMessages w"
  "pendingBytes (signal_core s r p w) = pendingBytes w"
  "pendingByIp (signal_core s r p w) = pendingByIp w" "rooms (signal_core s r p w) = rooms w"
  "relayEnabled (signal_core s r p w) = relayEnabled w" "outputs (signal_core s r p w) = outputs w"
  "open_sock (signal_core s r p w) = open_sock w"
  "room_members (signal_core s r p w) = room_members w"
  "clientData (signal_core s r p w) = (clientData w)
     (s := (clientData w s)\<lparr>c_signals := map_set r p (c_signals (clientData w s))\<rparr>)"
  by (simp_all add: signal_core_def open_sock_def room_members_def fun_eq_iff)

lemma signalRoom_open:
  assumes "\<And>m. m \<in> set (room_members w r) \<Longrightarrow> open_sock w m"
  shows "signalRoom s r p w =
    (case signal_error s r p w of
       Some e \<Rightarrow> (w, Some e)
     | None \<Rightarrow> (appended (signal_core s r p w)
         (broadcast_out r (SignalFrame r p) (Some s) (signal_core s r p w)), None))"
proof -
  have "broadcastRoom r (SignalFrame r p) (Some s) (signal_core s r p w) =
      (appended (signal_core s r p w) (broadcast_out r (SignalFrame r p) (Some s) (signal_core s r p w)), None)"
    using assms by (intro broadcastRoom_open) simp
  then show ?thesis
    unfolding signalRoom_def Let_def signal_core_def [symmetric]
    by (auto simp: signal_error_def signal_ok_def not_less)
qed

lemma rooms_ok_signal:
  assumes ok: "rooms_ok P w" and s: "s \<in> set P" and e: "signal_error s r p w = None"
  shows "rooms_ok P (signal_core s r p w)"
proof -
  let ?w = "signal_core s r p w"
  let ?d = "clientData w s"
  let ?d' = "?d\<lparr>c_signals := map_set r p (c_signals ?d)\<rparr>"
  note D = rooms_okD [OF ok]
  have r: "r \<in> set (c_rooms ?d)" and p: "signal_ok p"
    and lim: "retainedBytes ?w \<le> MAX_RETAINED_BYTES"
    using e by (auto simp: signal_error_def signal_core_def split: if_splits)
  have "signal_bytes ?d' = signal_bytes ?d - payload_length (map_get (c_signals ?d) r) + int (length p)"
    using D(6) [of s] by (intro signal_bytes_set) (simp add: joined_ok_def)
  then have "retainedBytes ?w = (\<Sum>t\<leftarrow>P. signal_bytes (clientData ?w t))"
    using D(1,8) s
    by (simp add: sum_list_fun_upd [where f = signal_bytes] del: fun_upd_apply) (simp add: signal_core_def)
  moreover have "x \<in> set (room_members ?w r') \<longleftrightarrow> r' \<in> set (c_rooms (clientData ?w x))" for x r'
    using D(5) [of x r'] by auto
  ultimately show ?thesis
    using D s lim joined_ok_signal [OF D(6) [of s] r p] unfolding rooms_ok_def by auto
qed

text \<open>Asking for the peers of a room changes nothing.\<close>

lemma fetchPeers_open:
  assumes "open_sock w s"
  shows "fetchPeers s r w =
    (if r \<notin> set (c_rooms (clientData w s)) then (w, Some ''Join the room before fetching peers'')
     else (appended w (case map_get (rooms w) r of None \<Rightarrow> []
             | Some room \<Rightarrow> [Send s (PeersFrame r (room_payloads r (members room) w))]), None))"
  using assms by (simp add: fetchPeers_def send_open split: option.splits)

end
