(* ===== verification/ControlAccounts.thy ===== *)
theory ControlAccounts
  imports ControlRooms
begin

text \<open>
  The counters of the Durable Object. \<open>pending_ok M\<close>: the pending counters (in total, per client,
  per address) are exactly the numbers and bytes of the multiset \<open>M\<close> of entries admitted and not
  yet released, and within their limits. \<open>conn_ok C\<close>: the connection counters count the clients \<open>C\<close>.
  \<open>ids_ok C\<close>: the device index maps each registered identity to its one connection, and each has a
  bandwidth record. For each operation that changes a counter: its effect, and preservation.
\<close>

subsection \<open>Pending work\<close>

definition bytes_of :: "pending_message multiset \<Rightarrow> int" where
  "bytes_of M = sum_mset (image_mset pm_bytes M)"

definition of_socket :: "sock \<Rightarrow> pending_message multiset \<Rightarrow> pending_message multiset" where
  "of_socket s M = filter_mset (\<lambda>e. pm_socket e = s) M"

definition of_ip :: "control_room \<Rightarrow> jsstr \<Rightarrow> pending_message multiset \<Rightarrow> pending_message multiset" where
  "of_ip w ip M = filter_mset (\<lambda>e. c_ip (clientData w (pm_socket e)) = ip) M"

definition pending_ok :: "pending_message multiset \<Rightarrow> control_room \<Rightarrow> bool" where
  "pending_ok M w \<longleftrightarrow> map_ok (pendingByIp w)
     \<and> pendingMessages w = int (size M) \<and> pendingBytes w = bytes_of M
     \<and> (\<forall>s. c_pendingMessages (clientData w s) = int (size (of_socket s M))
          \<and> c_pendingBytes (clientData w s) = bytes_of (of_socket s M))
     \<and> (\<forall>ip. map_get (pendingByIp w) ip =
          (if of_ip w ip M = {#} then None else Some (int (size (of_ip w ip M)), bytes_of (of_ip w ip M))))
     \<and> (\<forall>e \<in># M. 0 \<le> pm_bytes e)
     \<and> int (size M) \<le> MAX_PENDING_MESSAGES \<and> bytes_of M \<le> MAX_PENDING_MESSAGE_BYTES
     \<and> (\<forall>s. int (size (of_socket s M)) \<le> MAX_PENDING_MESSAGES_PER_CLIENT
          \<and> bytes_of (of_socket s M) \<le> MAX_PENDING_MESSAGE_BYTES_PER_CLIENT)
     \<and> (\<forall>ip. int (size (of_ip w ip M)) \<le> MAX_PENDING_MESSAGES_PER_IP
          \<and> bytes_of (of_ip w ip M) \<le> MAX_PENDING_MESSAGE_BYTES_PER_IP)"

lemma bytes_of_simps [simp]:
  "bytes_of {#} = 0" "bytes_of (add_mset e M) = pm_bytes e + bytes_of M"
  by (simp_all add: bytes_of_def)

lemma of_socket_simps [simp]:
  "of_socket s {#} = {#}"
  "of_socket s (add_mset e M) = (if pm_socket e = s then add_mset e (of_socket s M) else of_socket s M)"
  by (simp_all add: of_socket_def)

lemma of_ip_simps [simp]:
  "of_ip w ip {#} = {#}"
  "of_ip w ip (add_mset e M) =
     (if c_ip (clientData w (pm_socket e)) = ip then add_mset e (of_ip w ip M) else of_ip w ip M)"
  by (simp_all add: of_ip_def)

lemma of_ip_cong:
  "(\<And>e. e \<in># M \<Longrightarrow> c_ip (clientData w' (pm_socket e)) = c_ip (clientData w (pm_socket e))) \<Longrightarrow>
     of_ip w' ip M = of_ip w ip M"
  unfolding of_ip_def by (rule filter_mset_cong) auto

lemma pending_ok_cong:
  assumes "pendingMessages w' = pendingMessages w" "pendingBytes w' = pendingBytes w"
    "pendingByIp w' = pendingByIp w"
    "\<And>s. c_pendingMessages (clientData w' s) = c_pendingMessages (clientData w s)"
    "\<And>s. c_pendingBytes (clientData w' s) = c_pendingBytes (clientData w s)"
    "\<And>e. e \<in># M \<Longrightarrow> c_ip (clientData w' (pm_socket e)) = c_ip (clientData w (pm_socket e))"
  shows "pending_ok M w' = pending_ok M w"
  using assms of_ip_cong [OF assms(6)] by (simp add: pending_ok_def)

lemma bytes_nonneg: "(\<And>e. e \<in># M \<Longrightarrow> 0 \<le> pm_bytes e) \<Longrightarrow> 0 \<le> bytes_of M"
  by (induction M) auto

text \<open>The change of state of \<open>releasePending\<close> on an entry that is accounted for.\<close>

definition release_core :: "pending_message \<Rightarrow> control_room \<Rightarrow> control_room" where
  "release_core e w =
     (let w1 = upd_data (pm_socket e) (\<lambda>d. d\<lparr>c_pendingMessages := c_pendingMessages d - 1,
            c_pendingBytes := c_pendingBytes d - pm_bytes e\<rparr>)
          (w\<lparr>pendingMessages := pendingMessages w - 1, pendingBytes := pendingBytes w - pm_bytes e\<rparr>);
          ip = c_ip (clientData w (pm_socket e));
          (m, b) = pending_of_ip w ip
      in w1\<lparr>pendingByIp := (if m = 1 then map_del ip (pendingByIp w)
                            else map_set ip (m - 1, b - pm_bytes e) (pendingByIp w))\<rparr>)"

lemma release_core_fields [simp]:
  "rooms (release_core e w) = rooms w" "connectionsByIp (release_core e w) = connectionsByIp w"
  "rateLimitsByIp (release_core e w) = rateLimitsByIp w"
  "socketsByPeerId (release_core e w) = socketsByPeerId w"
  "deviceLimits (release_core e w) = deviceLimits w" "clients (release_core e w) = clients w"
  "connections (release_core e w) = connections w"
  "retainedBytes (release_core e w) = retainedBytes w" "queue (release_core e w) = queue w"
  "running (release_core e w) = running w" "relayEnabled (release_core e w) = relayEnabled w"
  "nextSocket (release_core e w) = nextSocket w"
  "closedSockets (release_core e w) = closedSockets w" "outputs (release_core e w) = outputs w"
  "c_ip (clientData (release_core e w) t) = c_ip (clientData w t)"
  "c_rooms (clientData (release_core e w) t) = c_rooms (clientData w t)"
  "c_signals (clientData (release_core e w) t) = c_signals (clientData w t)"
  "c_peerId (clientData (release_core e w) t) = c_peerId (clientData w t)"
  by (simp_all add: release_core_def Let_def split: prod.splits)

lemma releasePending_ok:
  assumes "pending_ok (add_mset e M) w"
  shows "releasePending e w = (release_core e w, None)"
proof -
  have "map_get (pendingByIp w) (c_ip (clientData w (pm_socket e))) \<noteq> None"
    using assms by (simp add: pending_ok_def)
  then show ?thesis
    by (auto simp: releasePending_def release_core_def pending_of_ip_def Let_def upd_data_def)
qed

lemma pending_ok_release:
  assumes "pending_ok (add_mset e M) w"
  shows "pending_ok M (release_core e w)"
proof -
  let ?w = "release_core e w" and ?ip = "c_ip (clientData w (pm_socket e))"
  have of: "of_ip ?w ip M = of_ip w ip M" for ip
    by (rule of_ip_cong) simp
  have e: "0 \<le> pm_bytes e" and M: "\<And>x. x \<in># M \<Longrightarrow> 0 \<le> pm_bytes x"
    using assms by (auto simp: pending_ok_def)
  have p: "pending_of_ip w ?ip = (int (Suc (size (of_ip w ?ip M))), pm_bytes e + bytes_of (of_ip w ?ip M))"
    using assms by (simp add: pending_ok_def pending_of_ip_def)
  have byip: "pendingByIp ?w = (if of_ip w ?ip M = {#} then map_del ?ip (pendingByIp w)
      else map_set ?ip (int (size (of_ip w ?ip M)), bytes_of (of_ip w ?ip M)) (pendingByIp w))"
    by (simp add: release_core_def Let_def p)
  have get: "map_get (pendingByIp ?w) ip = (if of_ip w ip M = {#} then None
      else Some (int (size (of_ip w ip M)), bytes_of (of_ip w ip M)))" for ip
    using assms unfolding byip by (auto simp: pending_ok_def)
  have counters: "pendingMessages ?w = int (size M)" "pendingBytes ?w = bytes_of M"
    "c_pendingMessages (clientData ?w s) = int (size (of_socket s M))"
    "c_pendingBytes (clientData ?w s) = bytes_of (of_socket s M)" for s
    using assms by (auto simp: pending_ok_def release_core_def Let_def split: prod.splits)
  have "map_ok (pendingByIp ?w)"
    using assms unfolding byip by (auto simp: pending_ok_def)
  moreover have "int (size M) \<le> MAX_PENDING_MESSAGES" "bytes_of M \<le> MAX_PENDING_MESSAGE_BYTES"
    using assms e by (auto simp: pending_ok_def)
  moreover have "int (size (of_socket s M)) \<le> MAX_PENDING_MESSAGES_PER_CLIENT
      \<and> bytes_of (of_socket s M) \<le> MAX_PENDING_MESSAGE_BYTES_PER_CLIENT" for s
  proof -
    have "int (size (of_socket s (add_mset e M))) \<le> MAX_PENDING_MESSAGES_PER_CLIENT"
      "bytes_of (of_socket s (add_mset e M)) \<le> MAX_PENDING_MESSAGE_BYTES_PER_CLIENT"
      using assms unfolding pending_ok_def by blast+
    then show ?thesis using e by (auto split: if_splits)
  qed
  moreover have "int (size (of_ip w ip M)) \<le> MAX_PENDING_MESSAGES_PER_IP
      \<and> bytes_of (of_ip w ip M) \<le> MAX_PENDING_MESSAGE_BYTES_PER_IP" for ip
  proof -
    have "int (size (of_ip w ip (add_mset e M))) \<le> MAX_PENDING_MESSAGES_PER_IP"
      "bytes_of (of_ip w ip (add_mset e M)) \<le> MAX_PENDING_MESSAGE_BYTES_PER_IP"
      using assms unfolding pending_ok_def by blast+
    then show ?thesis using e by (auto split: if_splits)
  qed
  ultimately show ?thesis
    unfolding pending_ok_def of using M counters get by simp
qed

definition release_all_core :: "pending_message list \<Rightarrow> control_room \<Rightarrow> control_room" where
  "release_all_core es w = fold release_core es w"

lemma release_all_core_simps [simp]:
  "release_all_core [] w = w"
  "release_all_core (e # es) w = release_all_core es (release_core e w)"
  by (simp_all add: release_all_core_def)

lemma release_all_core_fields [simp]:
  "rooms (release_all_core es w) = rooms w"
  "connectionsByIp (release_all_core es w) = connectionsByIp w"
  "rateLimitsByIp (release_all_core es w) = rateLimitsByIp w"
  "socketsByPeerId (release_all_core es w) = socketsByPeerId w"
  "deviceLimits (release_all_core es w) = deviceLimits w"
  "clients (release_all_core es w) = clients w"
  "connections (release_all_core es w) = connections w"
  "retainedBytes (release_all_core es w) = retainedBytes w" "queue (release_all_core es w) = queue w"
  "running (release_all_core es w) = running w"
  "relayEnabled (release_all_core es w) = relayEnabled w"
  "nextSocket (release_all_core es w) = nextSocket w"
  "closedSockets (release_all_core es w) = closedSockets w"
  "outputs (release_all_core es w) = outputs w"
  "c_ip (clientData (release_all_core es w) t) = c_ip (clientData w t)"
  "c_rooms (clientData (release_all_core es w) t) = c_rooms (clientData w t)"
  "c_signals (clientData (release_all_core es w) t) = c_signals (clientData w t)"
  "c_peerId (clientData (release_all_core es w) t) = c_peerId (clientData w t)"
  by (induction es arbitrary: w) simp_all

lemma release_all_ok:
  "pending_ok (mset es + M) w \<Longrightarrow>
     release_all es w = (release_all_core es w, None) \<and> pending_ok M (release_all_core es w)"
proof (induction es arbitrary: w)
  case Nil
  then show ?case by simp
next
  case (Cons e es)
  then have "pending_ok (add_mset e (mset es + M)) w" by simp
  with Cons.IH [of "release_core e w"] show ?case
    by (simp add: releasePending_ok pending_ok_release)
qed

lemma pending_ok_enqueue:
  assumes ok: "pending_ok M w" and full: "\<not> queue_full bytes s w" and b: "0 \<le> bytes"
  shows "pending_ok (add_mset \<lparr>pm_socket = s, pm_message = msg, pm_bytes = bytes\<rparr> M)
    (enqueue s msg bytes w)"
proof -
  let ?e = "\<lparr>pm_socket = s, pm_message = msg, pm_bytes = bytes\<rparr>"
  let ?w = "enqueue s msg bytes w" and ?ip = "c_ip (clientData w s)"
  have p: "pending_of_ip w ?ip = (int (size (of_ip w ?ip M)), bytes_of (of_ip w ?ip M))"
    using ok by (auto simp: pending_ok_def pending_of_ip_def)
  have cip: "c_ip (clientData ?w t) = c_ip (clientData w t)" for t
    by (simp add: enqueue_def Let_def split: prod.splits)
  have of: "of_ip ?w ip N = of_ip w ip N" for ip N
    by (rule of_ip_cong) (simp add: cip)
  have byip: "pendingByIp ?w = map_set ?ip (int (size (of_ip w ?ip M)) + 1,
      bytes_of (of_ip w ?ip M) + bytes) (pendingByIp w)"
    by (simp add: enqueue_def Let_def p)
  have "map_get (pendingByIp ?w) ip = (if of_ip ?w ip (add_mset ?e M) = {#} then None
      else Some (int (size (of_ip ?w ip (add_mset ?e M))), bytes_of (of_ip ?w ip (add_mset ?e M))))" for ip
    using ok unfolding of byip by (auto simp: pending_ok_def)
  moreover have "pendingMessages ?w = int (size (add_mset ?e M))" "pendingBytes ?w = bytes_of (add_mset ?e M)"
    "c_pendingMessages (clientData ?w t) = int (size (of_socket t (add_mset ?e M)))"
    "c_pendingBytes (clientData ?w t) = bytes_of (of_socket t (add_mset ?e M))" for t
    using ok by (auto simp: pending_ok_def enqueue_def Let_def split: prod.splits)
  moreover have "map_ok (pendingByIp ?w)" using ok by (simp add: byip pending_ok_def)
  moreover have "int (size (add_mset ?e M)) \<le> MAX_PENDING_MESSAGES"
    "bytes_of (add_mset ?e M) \<le> MAX_PENDING_MESSAGE_BYTES"
    using ok full by (auto simp: pending_ok_def queue_full_def Let_def split: prod.splits)
  moreover have "int (size (of_socket t (add_mset ?e M))) \<le> MAX_PENDING_MESSAGES_PER_CLIENT
      \<and> bytes_of (of_socket t (add_mset ?e M)) \<le> MAX_PENDING_MESSAGE_BYTES_PER_CLIENT" for t
    using ok full by (auto simp: pending_ok_def queue_full_def Let_def split: prod.splits)
  moreover have "int (size (of_ip ?w ip (add_mset ?e M))) \<le> MAX_PENDING_MESSAGES_PER_IP
      \<and> bytes_of (of_ip ?w ip (add_mset ?e M)) \<le> MAX_PENDING_MESSAGE_BYTES_PER_IP" for ip
    using ok full unfolding of by (auto simp: pending_ok_def queue_full_def Let_def p)
  moreover have "\<forall>x \<in># add_mset ?e M. 0 \<le> pm_bytes x"
    using ok b by (simp add: pending_ok_def)
  ultimately show ?thesis unfolding pending_ok_def by blast
qed

subsection \<open>Connections\<close>

definition from_ip :: "control_room \<Rightarrow> jsstr \<Rightarrow> sock list \<Rightarrow> sock list" where
  "from_ip w ip C = filter (\<lambda>s. c_ip (clientData w s) = ip) C"

definition conn_ok :: "sock list \<Rightarrow> control_room \<Rightarrow> bool" where
  "conn_ok C w \<longleftrightarrow> distinct C \<and> map_ok (connectionsByIp w)
     \<and> connections w = int (length C) \<and> int (length C) \<le> MAX_CONNECTIONS
     \<and> (\<forall>ip. map_get (connectionsByIp w) ip =
          (if from_ip w ip C = [] then None else Some (int (length (from_ip w ip C)))))
     \<and> (\<forall>ip. int (length (from_ip w ip C)) \<le> MAX_CONNECTIONS_PER_IP)"

lemma conn_ok_cong:
  assumes "connections w' = connections w" "connectionsByIp w' = connectionsByIp w"
    "\<And>s. s \<in> set C \<Longrightarrow> c_ip (clientData w' s) = c_ip (clientData w s)"
  shows "conn_ok C w' = conn_ok C w"
proof -
  have "from_ip w' ip C = from_ip w ip C" for ip
    unfolding from_ip_def by (rule filter_cong) (simp_all add: assms(3))
  with assms show ?thesis by (simp add: conn_ok_def)
qed

lemma from_ip_del: "from_ip w ip (set_del s C) = set_del s (from_ip w ip C)"
  by (simp add: from_ip_def set_del_def conj_commute)

lemma conn_ok_drop:
  assumes ok: "conn_ok C w" and s: "s \<in> set C"
  shows "conn_ok (set_del s C) (drop_connection (c_ip (clientData w s)) w)"
proof -
  let ?ip = "c_ip (clientData w s)"
  let ?w = "drop_connection ?ip w"
  have d: "distinct C" using ok by (simp add: conn_ok_def)
  have frm: "from_ip ?w ip C' = from_ip w ip C'" for ip C'
    by (simp add: from_ip_def drop_connection_def Let_def)
  have sin: "s \<in> set (from_ip w ?ip C)" using s by (simp add: from_ip_def)
  then have "from_ip w ?ip C \<noteq> []" by auto
  then have g: "map_get (connectionsByIp w) ?ip = Some (int (length (from_ip w ?ip C)))"
    using ok by (simp add: conn_ok_def)
  have len: "length (from_ip w ?ip C) = Suc (length (set_del s (from_ip w ?ip C)))"
    using d sin by (intro length_set_del) (auto simp: from_ip_def)
  have lenC: "length C = Suc (length (set_del s C))"
    using d s by (rule length_set_del)
  have other: "set_del s (from_ip w ip C) = from_ip w ip C" if "ip \<noteq> ?ip" for ip
    using that by (intro set_del_absent) (auto simp: from_ip_def)
  have "map_get (connectionsByIp ?w) ip =
      (if from_ip ?w ip (set_del s C) = [] then None else Some (int (length (from_ip ?w ip (set_del s C)))))" for ip
    using ok g len other [of ip] unfolding frm from_ip_del
    by (auto simp: conn_ok_def drop_connection_def Let_def)
  moreover have "int (length (from_ip ?w ip (set_del s C))) \<le> MAX_CONNECTIONS_PER_IP" for ip
    using ok length_set_del_le [of s "from_ip w ip C"] unfolding frm from_ip_del conn_ok_def
    by (meson of_nat_le_iff order_trans)
  moreover have "connections ?w = int (length (set_del s C))" "map_ok (connectionsByIp ?w)"
    "int (length (set_del s C)) \<le> MAX_CONNECTIONS"
    using ok lenC by (auto simp: conn_ok_def drop_connection_def Let_def)
  ultimately show ?thesis unfolding conn_ok_def using d by simp
qed

subsection \<open>Device identities\<close>

definition limit_ok :: "control_room \<Rightarrow> device_limit \<Rightarrow> bool" where
  "limit_ok w l \<longleftrightarrow> tokens l \<le> RELAY_BURST_BYTES \<and> receiveTokens l \<le> RELAY_BURST_BYTES
     \<and> map_ok (relayPeers l) \<and> length (relayPeers l) \<le> MAX_RELAY_PEERS_PER_DEVICE
     \<and> set (map_keys (relayPeers l)) \<subseteq> set (map_keys (socketsByPeerId w))"

definition ids_ok :: "sock set \<Rightarrow> control_room \<Rightarrow> bool" where
  "ids_ok C w \<longleftrightarrow> map_ok (socketsByPeerId w) \<and> map_ok (deviceLimits w)
     \<and> (\<forall>p s. map_get (socketsByPeerId w) p = Some s \<longleftrightarrow> s \<in> C \<and> c_peerId (clientData w s) = Some p)
     \<and> (\<forall>s p. s \<in> C \<longrightarrow> c_peerId (clientData w s) = Some p \<longrightarrow> PEER_ID p)
     \<and> set (map_keys (deviceLimits w)) = set (map_keys (socketsByPeerId w))
     \<and> (\<forall>p l. map_get (deviceLimits w) p = Some l \<longrightarrow> limit_ok w l)"

lemma ids_ok_cong:
  assumes "socketsByPeerId w' = socketsByPeerId w" "deviceLimits w' = deviceLimits w"
    "\<And>s. s \<in> C \<Longrightarrow> c_peerId (clientData w' s) = c_peerId (clientData w s)"
  shows "ids_ok C w' = ids_ok C w"
  using assms by (simp add: ids_ok_def limit_ok_def cong: conj_cong)

lemma ids_okD:
  assumes "ids_ok C w"
  shows "map_ok (socketsByPeerId w)" "map_ok (deviceLimits w)"
    "map_get (socketsByPeerId w) p = Some s \<longleftrightarrow> s \<in> C \<and> c_peerId (clientData w s) = Some p"
    "s \<in> C \<Longrightarrow> c_peerId (clientData w s) = Some p \<Longrightarrow> PEER_ID p"
    "set (map_keys (deviceLimits w)) = set (map_keys (socketsByPeerId w))"
    "map_get (deviceLimits w) p = Some l \<Longrightarrow> limit_ok w l"
  using assms by (auto simp: ids_ok_def)

lemma PEER_ID_not_Nil: "PEER_ID p \<Longrightarrow> p \<noteq> []"
  by (auto simp: PEER_ID_def hex_pattern_def)

lemma map_get_map_snd: "map_get (map (\<lambda>(k, l). (k, f l)) m) p = map_option f (map_get m p)"
  by (induction m) auto

lemma map_keys_map_snd [simp]: "map_keys (map (\<lambda>(k, l). (k, f l)) m) = map_keys m"
  by (induction m) auto

lemma limit_ok_forget:
  assumes "limit_ok w l" "set (map_keys (socketsByPeerId w')) = set (map_keys (socketsByPeerId w)) - {p}"
  shows "limit_ok w' (l\<lparr>relayPeers := map_del p (relayPeers l)\<rparr>)"
  using assms length_map_del_le [of p "relayPeers l"] by (auto simp: limit_ok_def)

lemma forget_device_fields [simp]:
  "rooms (forget_device s w) = rooms w" "connectionsByIp (forget_device s w) = connectionsByIp w"
  "rateLimitsByIp (forget_device s w) = rateLimitsByIp w" "clients (forget_device s w) = clients w"
  "clientData (forget_device s w) = clientData w" "connections (forget_device s w) = connections w"
  "retainedBytes (forget_device s w) = retainedBytes w" "queue (forget_device s w) = queue w"
  "running (forget_device s w) = running w" "pendingMessages (forget_device s w) = pendingMessages w"
  "pendingBytes (forget_device s w) = pendingBytes w" "pendingByIp (forget_device s w) = pendingByIp w"
  "relayEnabled (forget_device s w) = relayEnabled w" "nextSocket (forget_device s w) = nextSocket w"
  "closedSockets (forget_device s w) = closedSockets w" "outputs (forget_device s w) = outputs w"
  by (auto simp: forget_device_def split: option.splits)

text \<open>A connection that closes takes its identity with it; one whose identity a newer connection
  has taken over takes nothing.\<close>

lemma ids_ok_forget:
  assumes ok: "ids_ok C w" and s: "s \<in> C"
  shows "ids_ok (C - {s}) (forget_device s w)"
proof (cases "c_peerId (clientData w s)")
  case None
  then have "forget_device s w = w" by (simp add: forget_device_def)
  with ok None show ?thesis by (auto simp: ids_ok_def)
next
  case (Some p)
  note D = ids_okD [OF ok]
  have g: "map_get (socketsByPeerId w) p = Some s" using D(3) s Some by simp
  have "p \<noteq> []" using D(4) [OF s Some] by (rule PEER_ID_not_Nil)
  with g Some have w': "forget_device s w = w\<lparr>socketsByPeerId := map_del p (socketsByPeerId w),
      deviceLimits := map (\<lambda>(k, l). (k, l\<lparr>relayPeers := map_del p (relayPeers l)\<rparr>)) (map_del p (deviceLimits w))\<rparr>"
    by (simp add: forget_device_def)
  have uniq: "t \<in> C \<Longrightarrow> c_peerId (clientData w t) = Some p \<Longrightarrow> t = s" for t
    using D(3) [of p t] g by simp
  have "map_get (map_del p (socketsByPeerId w)) q = Some t \<longleftrightarrow>
      t \<in> C - {s} \<and> c_peerId (clientData w t) = Some q" for q t
    using D(3) [of q t] uniq [of t] Some by (cases "q = p") auto
  moreover have "map_ok (map (\<lambda>(k, l). (k, l\<lparr>relayPeers := map_del p (relayPeers l)\<rparr>)) (map_del p (deviceLimits w)))"
    using D(2) map_ok_del [of "deviceLimits w" p] by (simp add: map_ok_def)
  moreover have "limit_ok (forget_device s w) l"
    if l: "map_get (deviceLimits (forget_device s w)) q = Some l" for q l
  proof -
    obtain l' where l': "map_get (deviceLimits w) q = Some l'" "l = l'\<lparr>relayPeers := map_del p (relayPeers l')\<rparr>"
      using l by (auto simp: w' map_get_map_snd split: if_splits)
    show ?thesis
      unfolding l'(2) by (rule limit_ok_forget [OF D(6) [OF l'(1)], where p = p]) (simp add: w')
  qed
  moreover have "PEER_ID q" if "t \<in> C - {s}" "c_peerId (clientData w t) = Some q" for t q
    using D(4) [of t q] that by simp
  ultimately show ?thesis
    using D(1,5) unfolding ids_ok_def by (simp add: w')
qed

lemma forget_device_moved:
  assumes "ids_ok (C - {s}) w" shows "forget_device s w = w"
proof -
  have "map_get (socketsByPeerId w) p \<noteq> Some s" for p
    using ids_okD(3) [OF assms, of p s] by simp
  then show ?thesis by (simp add: forget_device_def split: option.splits)
qed

subsection \<open>Registering an identity\<close>

text \<open>The index and the data after a registration.\<close>

definition claim_core :: "jsstr \<Rightarrow> sock \<Rightarrow> control_room \<Rightarrow> control_room" where
  "claim_core p s w = upd_data s (\<lambda>d. d\<lparr>c_peerId := Some p\<rparr>)
     (w\<lparr>socketsByPeerId := map_set p s (socketsByPeerId w)\<rparr>)"

lemma claim_core_fields [simp]:
  "rooms (claim_core p s w) = rooms w" "connectionsByIp (claim_core p s w) = connectionsByIp w"
  "rateLimitsByIp (claim_core p s w) = rateLimitsByIp w" "clients (claim_core p s w) = clients w"
  "connections (claim_core p s w) = connections w"
  "retainedBytes (claim_core p s w) = retainedBytes w" "queue (claim_core p s w) = queue w"
  "running (claim_core p s w) = running w" "pendingMessages (claim_core p s w) = pendingMessages w"
  "pendingBytes (claim_core p s w) = pendingBytes w" "pendingByIp (claim_core p s w) = pendingByIp w"
  "relayEnabled (claim_core p s w) = relayEnabled w" "nextSocket (claim_core p s w) = nextSocket w"
  "closedSockets (claim_core p s w) = closedSockets w" "outputs (claim_core p s w) = outputs w"
  "deviceLimits (claim_core p s w) = deviceLimits w"
  "socketsByPeerId (claim_core p s w) = map_set p s (socketsByPeerId w)"
  "clientData (claim_core p s w) = (clientData w)(s := (clientData w s)\<lparr>c_peerId := Some p\<rparr>)"
  by (simp_all add: claim_core_def)

lemma limit_ok_mono:
  assumes "limit_ok w l" "set (map_keys (socketsByPeerId w)) \<subseteq> set (map_keys (socketsByPeerId w'))"
  shows "limit_ok w' l"
  using assms by (auto simp: limit_ok_def)

lemma limit_ok_fresh: "limit_ok w (fresh_limit now)"
  by (simp add: limit_ok_def fresh_limit_def)

lemma claim_index:
  assumes ok: "ids_ok C w" and s: "s \<in> C"
    and own: "c_peerId (clientData w s) = None \<or> c_peerId (clientData w s) = Some p"
  shows "map_get (socketsByPeerId (claim_core p s w)) q = Some t \<longleftrightarrow>
    t \<in> C - (case map_get (socketsByPeerId w) p of Some u \<Rightarrow> {u} - {s} | None \<Rightarrow> {})
    \<and> c_peerId (clientData (claim_core p s w) t) = Some q"
  using ids_okD(3) [OF ok, of q t] ids_okD(3) [OF ok, of p t] ids_okD(3) [OF ok, of p s] s own
  by (cases "t = s") (auto split: option.splits)

lemma ids_ok_claim_new:
  assumes ok: "ids_ok C w" and s: "s \<in> C" and p: "PEER_ID p"
    and own: "c_peerId (clientData w s) = None \<or> c_peerId (clientData w s) = Some p"
    and new: "map_get (socketsByPeerId w) p = None"
  shows "ids_ok C (put_limit p (fresh_limit now) (claim_core p s w))"
proof -
  let ?w = "put_limit p (fresh_limit now) (claim_core p s w)"
  note D = ids_okD [OF ok]
  have "map_get (socketsByPeerId ?w) q = Some t \<longleftrightarrow> t \<in> C \<and> c_peerId (clientData ?w t) = Some q" for q t
    using claim_index [OF ok s own, of q t] new by (simp add: put_limit_def)
  moreover have "PEER_ID q" if "t \<in> C" "c_peerId (clientData ?w t) = Some q" for t q
    using that D(4) [of t q] p by (auto simp: put_limit_def split: if_splits)
  moreover have "limit_ok ?w l" if "map_get (deviceLimits ?w) q = Some l" for q l
    using that D(6) [of q l]
    by (auto simp: put_limit_def limit_ok_fresh intro: limit_ok_mono split: if_splits)
  ultimately show ?thesis
    using D(1,2,5) unfolding ids_ok_def by (simp add: put_limit_def)
qed

lemma ids_ok_claim_known:
  assumes ok: "ids_ok C w" and s: "s \<in> C" and p: "PEER_ID p"
    and own: "c_peerId (clientData w s) = None \<or> c_peerId (clientData w s) = Some p"
    and known: "map_get (socketsByPeerId w) p = Some u"
  shows "ids_ok (C - ({u} - {s})) (claim_core p s w)"
proof -
  let ?w = "claim_core p s w" and ?C = "C - ({u} - {s})"
  note D = ids_okD [OF ok]
  have "map_get (socketsByPeerId ?w) q = Some t \<longleftrightarrow> t \<in> ?C \<and> c_peerId (clientData ?w t) = Some q" for q t
    using claim_index [OF ok s own, of q t] known by simp
  moreover have "PEER_ID q" if "t \<in> ?C" "c_peerId (clientData ?w t) = Some q" for t q
    using that D(4) [of t q] p by (auto split: if_splits)
  moreover have "limit_ok ?w l" if "map_get (deviceLimits ?w) q = Some l" for q l
    using that D(6) [of q l] by (auto intro: limit_ok_mono)
  moreover have "insert p (set (map_keys (socketsByPeerId w))) = set (map_keys (socketsByPeerId w))"
    using map_get_Some_keys [OF known] by auto
  ultimately show ?thesis
    using D(1,2,5) unfolding ids_ok_def by simp
qed

end
