(* ===== verification/ControlInvariant.thy ===== *)
theory ControlInvariant
  imports ControlAccounts
begin

text \<open>
  The invariant of the Durable Object and its preservation by every method and every event:
  \<open>core_ok\<close> joins the invariants of rooms, pending work and connections; \<open>room_inv\<close> adds the device
  index and the state of the queue. Each method is first brought into a closed form (the change of
  state, then what was sent), which shows that nothing is ever sent on a closed socket, hence that
  cleanup never throws.
\<close>

subsection \<open>Invariant\<close>

definition entries :: "control_room \<Rightarrow> pending_message list" where
  "entries w = (case running w of None \<Rightarrow> [] | Some (e, _) \<Rightarrow> [e]) @ queue w"

definition sock_ok :: "pending_message multiset \<Rightarrow> control_room \<Rightarrow> bool" where
  "sock_ok M w \<longleftrightarrow> (\<forall>s \<in> set (clients w). s < nextSocket w \<and> open_sock w s)
     \<and> (\<forall>s \<in> set (closedSockets w). s < nextSocket w) \<and> (\<forall>e \<in># M. pm_socket e < nextSocket w)"

definition core_ok :: "pending_message multiset \<Rightarrow> control_room \<Rightarrow> bool" where
  "core_ok M w \<longleftrightarrow> rooms_ok (clients w) w \<and> pending_ok M w \<and> conn_ok (clients w) w \<and> sock_ok M w"

definition queue_ok :: "control_room \<Rightarrow> bool" where
  "queue_ok w \<longleftrightarrow> (\<forall>e \<in> set (queue w). pm_socket e \<in> set (clients w))"

text \<open>The registration being verified names an identity its connection may take.\<close>

definition claim_ok :: "pending_message \<Rightarrow> control_room \<Rightarrow> bool" where
  "claim_ok e w \<longleftrightarrow> PEER_ID (text_of (pm_message e) ''peer_id'')
     \<and> (c_peerId (clientData w (pm_socket e)) = None
        \<or> c_peerId (clientData w (pm_socket e)) = Some (text_of (pm_message e) ''peer_id''))"

definition running_ok :: "control_room \<Rightarrow> bool" where
  "running_ok w \<longleftrightarrow> (case running w of
       None \<Rightarrow> queue w = []
     | Some (e, st) \<Rightarrow> st \<noteq> Done \<longrightarrow> pm_socket e \<in> set (clients w) \<longrightarrow> claim_ok e w)"

definition base_ok :: "pending_message multiset \<Rightarrow> control_room \<Rightarrow> bool" where
  "base_ok M w \<longleftrightarrow> core_ok M w \<and> ids_ok (set (clients w)) w \<and> queue_ok w"

definition room_inv :: "control_room \<Rightarrow> bool" where
  "room_inv w \<longleftrightarrow> base_ok (mset (entries w)) w \<and> running_ok w"

lemma core_okD:
  assumes "core_ok M w"
  shows "rooms_ok (clients w) w" "pending_ok M w" "conn_ok (clients w) w" "sock_ok M w"
  using assms by (simp_all add: core_ok_def)

lemma base_okD:
  assumes "base_ok M w"
  shows "core_ok M w" "ids_ok (set (clients w)) w" "queue_ok w"
    "rooms_ok (clients w) w" "pending_ok M w" "conn_ok (clients w) w" "sock_ok M w"
  using assms by (simp_all add: base_ok_def core_ok_def)

lemma client_open: "sock_ok M w \<Longrightarrow> s \<in> set (clients w) \<Longrightarrow> open_sock w s"
  by (simp add: sock_ok_def)

lemma member_client:
  "rooms_ok P w \<Longrightarrow> m \<in> set (room_members w r) \<Longrightarrow> m \<in> set P"
  using rooms_okD(5,7) by fastforce

lemma member_open:
  "core_ok M w \<Longrightarrow> m \<in> set (room_members w r) \<Longrightarrow> open_sock w m"
  by (meson core_okD client_open member_client)

lemma sock_ok_cong:
  assumes "clients w' = clients w" "nextSocket w' = nextSocket w" "closedSockets w' = closedSockets w"
  shows "sock_ok M w' = sock_ok M w"
  using assms by (simp add: sock_ok_def open_sock_def)

text \<open>What a change of state must leave alone to keep each part.\<close>

lemma core_ok_cong:
  assumes "clients w' = clients w" "nextSocket w' = nextSocket w" "closedSockets w' = closedSockets w"
    "rooms w' = rooms w" "retainedBytes w' = retainedBytes w"
    "connections w' = connections w" "connectionsByIp w' = connectionsByIp w"
    "pendingMessages w' = pendingMessages w" "pendingBytes w' = pendingBytes w"
    "pendingByIp w' = pendingByIp w"
    "\<And>s. c_rooms (clientData w' s) = c_rooms (clientData w s)"
    "\<And>s. c_signals (clientData w' s) = c_signals (clientData w s)"
    "\<And>s. c_pendingMessages (clientData w' s) = c_pendingMessages (clientData w s)"
    "\<And>s. c_pendingBytes (clientData w' s) = c_pendingBytes (clientData w s)"
    "\<And>s. c_ip (clientData w' s) = c_ip (clientData w s)"
  shows "core_ok M w' = core_ok M w"
proof -
  have "rooms_ok P w' = rooms_ok P w" for P by (rule rooms_ok_cong) (simp_all add: assms)
  moreover have "pending_ok M w' = pending_ok M w" by (rule pending_ok_cong) (simp_all add: assms)
  moreover have "conn_ok C w' = conn_ok C w" for C by (rule conn_ok_cong) (simp_all add: assms)
  moreover have "sock_ok M w' = sock_ok M w" by (rule sock_ok_cong) (simp_all add: assms)
  ultimately show ?thesis by (simp add: core_ok_def assms)
qed

lemma core_ok_appended [simp]: "core_ok M (appended w os) = core_ok M w"
  by (rule core_ok_cong) simp_all

lemma ids_ok_appended [simp]: "ids_ok C (appended w os) = ids_ok C w"
  by (rule ids_ok_cong) simp_all

lemma queue_ok_appended [simp]: "queue_ok (appended w os) = queue_ok w"
  by (simp add: queue_ok_def)

lemma base_ok_appended [simp]: "base_ok M (appended w os) = base_ok M w"
  by (simp add: base_ok_def)

lemma claim_ok_appended [simp]: "claim_ok e (appended w os) = claim_ok e w"
  by (simp add: claim_ok_def)

subsection \<open>Leaving all rooms\<close>

fun leave_all_core :: "sock \<Rightarrow> jsstr list \<Rightarrow> control_room \<Rightarrow> control_room" where
  "leave_all_core s [] w = w"
| "leave_all_core s (r # rs) w = leave_all_core s rs (leave_core s r w)"

fun leave_all_out :: "sock \<Rightarrow> jsstr list \<Rightarrow> control_room \<Rightarrow> sock_action list" where
  "leave_all_out s [] w = []"
| "leave_all_out s (r # rs) w = refresh_out r (leave_core s r w) @ leave_all_out s rs (leave_core s r w)"

lemma leave_core_appended: "leave_core s r (appended w os) = appended (leave_core s r w) os"
  by (simp add: leave_core_def appended_def upd_data_def Let_def split: option.splits)

lemma refresh_out_appended [simp]: "refresh_out r (appended w os) = refresh_out r w"
  by (simp add: refresh_out_def broadcast_out_def)

lemma leave_all_appended:
  "leave_all_core s rs (appended w os) = appended (leave_all_core s rs w) os"
  "leave_all_out s rs (appended w os) = leave_all_out s rs w"
  by (induction rs arbitrary: w) (simp_all add: leave_core_appended)

lemma leave_all_open:
  assumes "\<And>m r. m \<in> set (room_members w r) \<Longrightarrow> m \<noteq> s \<Longrightarrow> open_sock w m"
  shows "leave_all s rs w = (appended (leave_all_core s rs w) (leave_all_out s rs w), None)"
  using assms
proof (induction rs arbitrary: w)
  case Nil
  then show ?case by simp
next
  case (Cons r rs)
  have "open_sock (leave_core s r w) m" if "m \<in> set (room_members (leave_core s r w) r')" "m \<noteq> s" for m r'
    using that Cons.prems [of m r'] by (auto simp: room_members_leave_core split: if_splits)
  note IH = Cons.IH [of "appended (leave_core s r w) (refresh_out r (leave_core s r w))"]
  show ?case
    using Cons.prems IH \<open>\<And>r' m. m \<in> set (room_members (leave_core s r w) r') \<Longrightarrow> m \<noteq> s \<Longrightarrow> _\<close>
    by (simp add: leaveRoom_open leave_all_appended)
qed

lemma leave_all_core_fields [simp]:
  "clients (leave_all_core s rs w) = clients w" "queue (leave_all_core s rs w) = queue w"
  "closedSockets (leave_all_core s rs w) = closedSockets w"
  "nextSocket (leave_all_core s rs w) = nextSocket w"
  "running (leave_all_core s rs w) = running w"
  "connections (leave_all_core s rs w) = connections w"
  "connectionsByIp (leave_all_core s rs w) = connectionsByIp w"
  "rateLimitsByIp (leave_all_core s rs w) = rateLimitsByIp w"
  "socketsByPeerId (leave_all_core s rs w) = socketsByPeerId w"
  "deviceLimits (leave_all_core s rs w) = deviceLimits w"
  "pendingMessages (leave_all_core s rs w) = pendingMessages w"
  "pendingBytes (leave_all_core s rs w) = pendingBytes w"
  "pendingByIp (leave_all_core s rs w) = pendingByIp w"
  "relayEnabled (leave_all_core s rs w) = relayEnabled w" "outputs (leave_all_core s rs w) = outputs w"
  by (induction rs arbitrary: w) simp_all

lemma leave_core_data_fields [simp]:
  "c_ip (clientData (leave_core s r w) t) = c_ip (clientData w t)"
  "c_peerId (clientData (leave_core s r w) t) = c_peerId (clientData w t)"
  "c_pendingMessages (clientData (leave_core s r w) t) = c_pendingMessages (clientData w t)"
  "c_pendingBytes (clientData (leave_core s r w) t) = c_pendingBytes (clientData w t)"
  "t \<noteq> s \<Longrightarrow> clientData (leave_core s r w) t = clientData w t"
  by (simp_all add: leave_core_data)

lemma leave_all_core_data [simp]:
  "c_ip (clientData (leave_all_core s rs w) t) = c_ip (clientData w t)"
  "c_peerId (clientData (leave_all_core s rs w) t) = c_peerId (clientData w t)"
  "c_pendingMessages (clientData (leave_all_core s rs w) t) = c_pendingMessages (clientData w t)"
  "c_pendingBytes (clientData (leave_all_core s rs w) t) = c_pendingBytes (clientData w t)"
  "t \<noteq> s \<Longrightarrow> clientData (leave_all_core s rs w) t = clientData w t"
  by (induction rs arbitrary: w) simp_all

lemma rooms_ok_leave_all:
  "rooms_ok P w \<Longrightarrow> s \<in> set P \<Longrightarrow> rooms_ok P (leave_all_core s rs w)"
  by (induction rs arbitrary: w) (simp_all add: rooms_ok_leave)

lemma leave_core_rooms_of:
  assumes "rooms_ok P w"
  shows "c_rooms (clientData (leave_core s r w) s) = set_del r (c_rooms (clientData w s))"
proof (cases "map_get (rooms w) r")
  case None
  then have "room_members w r = []" by (simp add: room_members_def)
  then have "r \<notin> set (c_rooms (clientData w s))" using rooms_okD(5) [OF assms, of s r] by simp
  with None show ?thesis by (simp add: leave_core_data)
qed (simp add: leave_core_data)

lemma leave_all_core_rooms_of:
  "rooms_ok P w \<Longrightarrow> s \<in> set P \<Longrightarrow>
     set (c_rooms (clientData (leave_all_core s rs w) s)) = set (c_rooms (clientData w s)) - set rs"
  by (induction rs arbitrary: w) (auto simp: rooms_ok_leave leave_core_rooms_of)

text \<open>A client that has left all its rooms stores nothing.\<close>

lemma rooms_ok_drop:
  assumes ok: "rooms_ok P w" and s: "s \<in> set P" and r: "c_rooms (clientData w s) = []"
  shows "rooms_ok (set_del s P) w"
proof -
  note D = rooms_okD [OF ok]
  have "map_keys (c_signals (clientData w s)) = []"
    using D(6) [of s] r by (simp add: joined_ok_def)
  then have "signal_bytes (clientData w s) = 0" by (simp add: map_keys_def signal_bytes_def)
  then have "(\<Sum>t\<leftarrow>set_del s P. signal_bytes (clientData w t)) = (\<Sum>t\<leftarrow>P. signal_bytes (clientData w t))"
    using D(1) s by (simp add: sum_list_set_del)
  then show ?thesis using ok r unfolding rooms_ok_def by (auto simp: set_del_def)
qed

subsection \<open>Closing a connection\<close>

definition close_core :: "sock \<Rightarrow> control_room \<Rightarrow> control_room" where
  "close_core s w =
     (let own = filter (\<lambda>e. pm_socket e = s) (queue w);
          w1 = (release_all_core own (w\<lparr>clients := set_del s (clients w)\<rparr>))
                 \<lparr>queue := filter (\<lambda>e. pm_socket e \<noteq> s) (queue w)\<rparr>
      in leave_all_core s (c_rooms (clientData w s))
           (drop_connection (c_ip (clientData w s)) (forget_device s w1)))"

definition close_out :: "sock \<Rightarrow> control_room \<Rightarrow> sock_action list" where
  "close_out s w = leave_all_out s (c_rooms (clientData w s)) w"

text \<open>What is sent while leaving depends on the rooms only.\<close>

lemma leave_core_rooms_cong:
  assumes "rooms w' = rooms w"
  shows "rooms (leave_core s r w') = rooms (leave_core s r w)"
  using assms by (simp add: leave_core_def Let_def split: option.splits)

lemma refresh_out_cong:
  assumes "rooms w' = rooms w" shows "refresh_out r w' = refresh_out r w"
  using assms by (simp add: refresh_out_def broadcast_out_def room_members_def)

lemma leave_all_out_cong:
  assumes "rooms w' = rooms w" shows "leave_all_out s rs w' = leave_all_out s rs w"
  using assms
proof (induction rs arbitrary: w w')
  case (Cons r rs)
  have "rooms (leave_core s r w') = rooms (leave_core s r w)"
    by (rule leave_core_rooms_cong) (rule Cons.prems)
  from Cons.IH [OF this] refresh_out_cong [OF this, of r] show ?case by simp
qed simp

lemma drop_connection_fields [simp]:
  "rooms (drop_connection ip w) = rooms w"
  "rateLimitsByIp (drop_connection ip w) = rateLimitsByIp w"
  "socketsByPeerId (drop_connection ip w) = socketsByPeerId w"
  "deviceLimits (drop_connection ip w) = deviceLimits w" "clients (drop_connection ip w) = clients w"
  "clientData (drop_connection ip w) = clientData w"
  "retainedBytes (drop_connection ip w) = retainedBytes w" "queue (drop_connection ip w) = queue w"
  "running (drop_connection ip w) = running w"
  "pendingMessages (drop_connection ip w) = pendingMessages w"
  "pendingBytes (drop_connection ip w) = pendingBytes w"
  "pendingByIp (drop_connection ip w) = pendingByIp w"
  "relayEnabled (drop_connection ip w) = relayEnabled w"
  "nextSocket (drop_connection ip w) = nextSocket w"
  "closedSockets (drop_connection ip w) = closedSockets w"
  "outputs (drop_connection ip w) = outputs w"
  by (simp_all add: drop_connection_def Let_def)

lemma close_core_fields [simp]:
  "clients (close_core s w) = set_del s (clients w)"
  "queue (close_core s w) = filter (\<lambda>e. pm_socket e \<noteq> s) (queue w)"
  "closedSockets (close_core s w) = closedSockets w" "nextSocket (close_core s w) = nextSocket w"
  "running (close_core s w) = running w" "rateLimitsByIp (close_core s w) = rateLimitsByIp w"
  "relayEnabled (close_core s w) = relayEnabled w" "outputs (close_core s w) = outputs w"
  "c_ip (clientData (close_core s w) t) = c_ip (clientData w t)"
  "c_peerId (clientData (close_core s w) t) = c_peerId (clientData w t)"
  by (simp_all add: close_core_def Let_def)

lemma mset_filter_split:
  "mset (filter P xs) + (mset (filter (\<lambda>x. \<not> P x) xs) + R) = mset xs + R"
  by (induction xs) auto

lemma handleClose_closed_form:
  assumes core: "core_ok (mset (queue w) + R) w" and s: "s \<in> set (clients w)"
  shows "handleClose s w = (appended (close_core s w) (close_out s w), None)"
    and "pending_ok (mset (filter (\<lambda>e. pm_socket e \<noteq> s) (queue w)) + R) (close_core s w)"
proof -
  let ?own = "filter (\<lambda>e. pm_socket e = s) (queue w)"
  let ?rest = "mset (filter (\<lambda>e. pm_socket e \<noteq> s) (queue w)) + R"
  let ?w1 = "w\<lparr>clients := set_del s (clients w)\<rparr>"
  let ?w2 = "(release_all_core ?own ?w1)\<lparr>queue := filter (\<lambda>e. pm_socket e \<noteq> s) (queue w)\<rparr>"
  let ?w3 = "drop_connection (c_ip (clientData w s)) (forget_device s ?w2)"
  have "pending_ok (mset ?own + ?rest) ?w1 = pending_ok (mset ?own + ?rest) w"
    by (rule pending_ok_cong) simp_all
  then have "pending_ok (mset ?own + ?rest) ?w1"
    using core_okD(2) [OF core] by (simp only: mset_filter_split)
  note rel = release_all_ok [OF this]
  have mem: "room_members ?w3 r = room_members w r" for r by (simp add: room_members_def)
  have op: "open_sock ?w3 m = open_sock w m" for m by (simp add: open_sock_def)
  have "leave_all s (c_rooms (clientData w s)) ?w3
      = (appended (leave_all_core s (c_rooms (clientData w s)) ?w3)
          (leave_all_out s (c_rooms (clientData w s)) ?w3), None)"
    by (rule leave_all_open) (simp add: mem op member_open [OF core])
  moreover have "leave_all_out s rs ?w3 = leave_all_out s rs w" for rs
    by (rule leave_all_out_cong) simp
  ultimately show "handleClose s w = (appended (close_core s w) (close_out s w), None)"
    using s rel by (simp add: handleClose_def close_core_def close_out_def Let_def)
  have "pending_ok ?rest (close_core s w) = pending_ok ?rest (release_all_core ?own ?w1)"
    by (rule pending_ok_cong) (simp_all add: close_core_def Let_def)
  with rel show "pending_ok ?rest (close_core s w)" by simp
qed

lemma close_core_ok:
  assumes core: "core_ok (mset (queue w) + R) w" and s: "s \<in> set (clients w)"
  shows "core_ok (mset (queue (close_core s w)) + R) (close_core s w)"
proof -
  let ?own = "filter (\<lambda>e. pm_socket e = s) (queue w)"
  let ?w1 = "w\<lparr>clients := set_del s (clients w)\<rparr>"
  let ?w2 = "(release_all_core ?own ?w1)\<lparr>queue := filter (\<lambda>e. pm_socket e \<noteq> s) (queue w)\<rparr>"
  let ?w3 = "drop_connection (c_ip (clientData w s)) (forget_device s ?w2)"
  have w': "close_core s w = leave_all_core s (c_rooms (clientData w s)) ?w3"
    by (simp add: close_core_def Let_def)
  have r3: "rooms_ok (clients w) ?w3"
    using core_okD(1) [OF core] by (subst rooms_ok_cong [of _ w]) simp_all
  have "c_rooms (clientData (close_core s w) s) = []"
    using leave_all_core_rooms_of [OF r3 s, of "c_rooms (clientData w s)"] by (simp add: w')
  with rooms_ok_leave_all [OF r3 s] s
  have rooms: "rooms_ok (clients (close_core s w)) (close_core s w)"
    by (simp add: w' rooms_ok_drop)
  have "conn_ok C (close_core s w) = conn_ok C (drop_connection (c_ip (clientData w s)) w)" for C
    by (rule conn_ok_cong) (simp_all add: w', simp_all add: drop_connection_def)
  then have conn: "conn_ok (clients (close_core s w)) (close_core s w)"
    using conn_ok_drop [OF core_okD(3) [OF core] s] by simp
  have "sock_ok (mset (queue (close_core s w)) + R) (close_core s w)"
    using core_okD(4) [OF core] by (auto simp: sock_ok_def open_sock_def)
  then show ?thesis
    using rooms conn handleClose_closed_form(2) [OF core s] by (simp add: core_ok_def)
qed

lemma close_core_ids:
  assumes "ids_ok (set (clients w)) w \<or> ids_ok (set (clients w) - {s}) w" "s \<in> set (clients w)"
  shows "ids_ok (set (clients (close_core s w))) (close_core s w)"
proof -
  let ?own = "filter (\<lambda>e. pm_socket e = s) (queue w)"
  let ?w2 = "(release_all_core ?own (w\<lparr>clients := set_del s (clients w)\<rparr>))
     \<lparr>queue := filter (\<lambda>e. pm_socket e \<noteq> s) (queue w)\<rparr>"
  have w2: "ids_ok C ?w2 = ids_ok C w" for C by (rule ids_ok_cong) simp_all
  have "ids_ok (set (clients w) - {s}) (forget_device s ?w2)"
    using assms ids_ok_forget [of "set (clients w)" ?w2 s] forget_device_moved [of "set (clients w)" s ?w2]
    by (auto simp: w2)
  moreover have "ids_ok C (close_core s w) = ids_ok C (forget_device s ?w2)" for C
    by (rule ids_ok_cong) (simp_all add: close_core_def Let_def)
  ultimately show ?thesis by simp
qed

text \<open>The data of the other clients, up to their pending counters, stays.\<close>

definition same_but_pending :: "client_data \<Rightarrow> client_data \<Rightarrow> bool" where
  "same_but_pending d d' \<longleftrightarrow> d' = d\<lparr>c_pendingMessages := c_pendingMessages d',
     c_pendingBytes := c_pendingBytes d'\<rparr>"

lemma same_but_pending_trans: "same_but_pending a b \<Longrightarrow> same_but_pending b c \<Longrightarrow> same_but_pending a c"
  by (cases a; cases b; cases c) (simp add: same_but_pending_def)

lemma release_all_core_others:
  "same_but_pending (clientData w t) (clientData (release_all_core es w) t)"
proof (induction es arbitrary: w)
  case (Cons e es)
  have "same_but_pending (clientData w t) (clientData (release_core e w) t)"
    by (simp add: same_but_pending_def release_core_def Let_def split: prod.splits)
  with Cons.IH [of "release_core e w"] show ?case by (auto intro: same_but_pending_trans)
qed (simp add: same_but_pending_def)

lemma close_core_others:
  assumes "t \<noteq> s"
  shows "clientData (close_core s w) t = (clientData w t)
    \<lparr>c_pendingMessages := c_pendingMessages (clientData (close_core s w) t),
     c_pendingBytes := c_pendingBytes (clientData (close_core s w) t)\<rparr>"
  using release_all_core_others [of "w\<lparr>clients := set_del s (clients w)\<rparr>" t
      "filter (\<lambda>e. pm_socket e = s) (queue w)"] assms
  by (simp add: same_but_pending_def close_core_def Let_def)

end
