(* ===== verification/ControlRelay.thy ===== *)
theory ControlRelay
  imports ControlInvariant
begin

text \<open>
  The relay and the rate limits of the Durable Object. \<open>reserve_cases\<close> is the closed form of
  \<open>reserveRelayBandwidth\<close>; \<open>quiet\<close> relates two states that agree on connections, queue and
  identities, and \<open>good\<close> is the contract every operation of a registered client meets: invariant
  kept, \<open>quiet\<close>, and never the exception a closed socket raises.
\<close>

subsection \<open>The contract of an operation\<close>

definition quiet :: "control_room \<Rightarrow> control_room \<Rightarrow> bool" where
  "quiet w w' \<longleftrightarrow> clients w' = clients w \<and> queue w' = queue w \<and> running w' = running w
     \<and> closedSockets w' = closedSockets w \<and> nextSocket w' = nextSocket w
     \<and> socketsByPeerId w' = socketsByPeerId w \<and> relayEnabled w' = relayEnabled w
     \<and> (\<forall>t. c_peerId (clientData w' t) = c_peerId (clientData w t))"

definition good :: "pending_message multiset \<Rightarrow> control_room \<Rightarrow> eff \<Rightarrow> bool" where
  "good M w r \<longleftrightarrow> base_ok M (fst r) \<and> quiet w (fst r) \<and> snd r \<noteq> Some ''WebSocket is closed''"

lemma quiet_refl [simp]: "quiet w w"
  by (simp add: quiet_def)

lemma quiet_trans: "quiet a b \<Longrightarrow> quiet b c \<Longrightarrow> quiet a c"
  by (simp add: quiet_def)

lemma quiet_appended [simp]: "quiet w (appended w' os) = quiet w w'"
  by (simp add: quiet_def)

lemma good_error: "base_ok M w \<Longrightarrow> e \<noteq> ''WebSocket is closed'' \<Longrightarrow> good M w (w, Some e)"
  by (simp add: good_def)

lemma good_appended: "base_ok M w' \<Longrightarrow> quiet w w' \<Longrightarrow> good M w (appended w' os, None)"
  by (simp add: good_def)

lemma good_None: "base_ok M w' \<Longrightarrow> quiet w w' \<Longrightarrow> good M w (w', None)"
  by (simp add: good_def)

lemma base_okI:
  "rooms_ok (clients w) w \<Longrightarrow> pending_ok M w \<Longrightarrow> conn_ok (clients w) w \<Longrightarrow> sock_ok M w \<Longrightarrow>
     ids_ok (set (clients w)) w \<Longrightarrow> queue_ok w \<Longrightarrow> base_ok M w"
  by (simp add: base_ok_def core_ok_def)

text \<open>A change of rooms and signals only.\<close>

lemma base_ok_rooms:
  assumes "base_ok M w" "rooms_ok (clients w) w'" "quiet w w'"
    "connections w' = connections w" "connectionsByIp w' = connectionsByIp w"
    "deviceLimits w' = deviceLimits w" "pendingMessages w' = pendingMessages w"
    "pendingBytes w' = pendingBytes w" "pendingByIp w' = pendingByIp w"
    "\<And>s. c_pendingMessages (clientData w' s) = c_pendingMessages (clientData w s)"
    "\<And>s. c_pendingBytes (clientData w' s) = c_pendingBytes (clientData w s)"
    "\<And>s. c_ip (clientData w' s) = c_ip (clientData w s)"
  shows "base_ok M w'"
proof (rule base_okI)
  note D = base_okD [OF assms(1)] and q = assms(3) [unfolded quiet_def]
  show "rooms_ok (clients w') w'" using assms(2) q by simp
  show "pending_ok M w'" using D(5) by (subst pending_ok_cong [of _ w]) (simp_all add: assms)
  show "conn_ok (clients w') w'"
    using D(6) q conn_ok_cong [of w' w "clients w"] assms(4,5,12) by simp
  show "sock_ok M w'" using D(7) q sock_ok_cong [of w' w M] by simp
  show "ids_ok (set (clients w')) w'"
    using D(2) q ids_ok_cong [of w' w "set (clients w)"] assms(6) by simp
  show "queue_ok w'" using D(3) q by (simp add: queue_ok_def)
qed

lemma good_join:
  assumes ok: "base_ok M w" and s: "s \<in> set (clients w)"
  shows "good M w (joinRoom s r a w)"
proof -
  note D = base_okD [OF ok]
  have "base_ok M (join_core s r a w)" if "join_error s r a w = None" "r \<notin> set (c_rooms (clientData w s))"
    using ok rooms_ok_join [OF D(4) s that] by (rule base_ok_rooms) (simp_all add: quiet_def)
  moreover have "quiet w (join_core s r a w)" by (simp add: quiet_def)
  moreover have "join_error s r a w \<noteq> Some ''WebSocket is closed''"
    by (simp add: join_error_def split: option.splits)
  ultimately show ?thesis
    using ok joinRoom_open [of w s r a] client_open [OF D(7) s] member_open [OF D(1)]
    by (auto simp: good_def split: option.splits)
qed

lemma good_leave:
  assumes ok: "base_ok M w" and s: "s \<in> set (clients w)"
  shows "good M w (leaveRoom s r w)"
proof -
  note D = base_okD [OF ok]
  have q: "quiet w (leave_core s r w)" by (simp add: quiet_def)
  have "base_ok M (leave_core s r w)"
    using ok rooms_ok_leave [OF D(4) s] q by (rule base_ok_rooms) simp_all
  moreover have "leaveRoom s r w = (appended (leave_core s r w) (refresh_out r (leave_core s r w)), None)"
    by (rule leaveRoom_open) (rule member_open [OF D(1)])
  ultimately show ?thesis using q by (simp add: good_appended)
qed

lemma good_signal:
  assumes ok: "base_ok M w" and s: "s \<in> set (clients w)"
  shows "good M w (signalRoom s r p w)"
proof -
  note D = base_okD [OF ok]
  have "base_ok M (signal_core s r p w)" if "signal_error s r p w = None"
    using ok rooms_ok_signal [OF D(4) s that] by (rule base_ok_rooms) (simp_all add: quiet_def)
  moreover have "quiet w (signal_core s r p w)" by (simp add: quiet_def)
  moreover have "signal_error s r p w \<noteq> Some ''WebSocket is closed''"
    by (simp add: signal_error_def)
  ultimately show ?thesis
    using ok signalRoom_open [of w r s p] member_open [OF D(1)]
    by (auto simp: good_def split: option.splits)
qed

lemma good_peers:
  assumes ok: "base_ok M w" and s: "s \<in> set (clients w)"
  shows "good M w (fetchPeers s r w)"
  unfolding fetchPeers_open [OF client_open [OF base_okD(7) [OF ok] s]]
  using ok by (simp add: good_def)

subsection \<open>Rate limits\<close>

lemma count_message_more [simp]:
  "rate_limit.more (count_message t d) = rate_limit.more d"
  "rate_limit.more (reset_window now d) = rate_limit.more d"
  by (simp_all add: count_message_def reset_window_def)

lemma count_message_fields [simp]:
  fixes d :: client_data
  shows "c_ip (count_message t d) = c_ip d" "c_rooms (count_message t d) = c_rooms d"
    "c_signals (count_message t d) = c_signals d" "c_peerId (count_message t d) = c_peerId d"
    "c_pendingMessages (count_message t d) = c_pendingMessages d"
    "c_pendingBytes (count_message t d) = c_pendingBytes d"
    "windowStartedAt (count_message t d) = windowStartedAt d"
  by (simp_all add: count_message_def)

lemma reset_window_fields [simp]:
  fixes d :: client_data
  shows "c_ip (reset_window now d) = c_ip d" "c_rooms (reset_window now d) = c_rooms d"
    "c_signals (reset_window now d) = c_signals d" "c_peerId (reset_window now d) = c_peerId d"
    "c_pendingMessages (reset_window now d) = c_pendingMessages d"
    "c_pendingBytes (reset_window now d) = c_pendingBytes d"
  by (simp_all add: reset_window_def)

text \<open>A change of the counters the invariant does not read.\<close>

lemma base_ok_cong:
  assumes "clients w' = clients w" "nextSocket w' = nextSocket w" "closedSockets w' = closedSockets w"
    "rooms w' = rooms w" "retainedBytes w' = retainedBytes w" "queue w' = queue w"
    "connections w' = connections w" "connectionsByIp w' = connectionsByIp w"
    "pendingMessages w' = pendingMessages w" "pendingBytes w' = pendingBytes w"
    "pendingByIp w' = pendingByIp w" "socketsByPeerId w' = socketsByPeerId w"
    "deviceLimits w' = deviceLimits w"
    "\<And>s. c_rooms (clientData w' s) = c_rooms (clientData w s)"
    "\<And>s. c_signals (clientData w' s) = c_signals (clientData w s)"
    "\<And>s. c_pendingMessages (clientData w' s) = c_pendingMessages (clientData w s)"
    "\<And>s. c_pendingBytes (clientData w' s) = c_pendingBytes (clientData w s)"
    "\<And>s. c_ip (clientData w' s) = c_ip (clientData w s)"
    "\<And>s. c_peerId (clientData w' s) = c_peerId (clientData w s)"
  shows "base_ok M w' = base_ok M w"
proof -
  have "core_ok M w' = core_ok M w" by (rule core_ok_cong) (simp_all add: assms)
  moreover have "ids_ok C w' = ids_ok C w" for C by (rule ids_ok_cong) (simp_all add: assms)
  ultimately show ?thesis by (simp add: base_ok_def queue_ok_def assms)
qed

lemma good_rate:
  assumes "base_ok M w"
  shows "good M w (checkRateLimit now s t w)"
proof -
  let ?w1 = "upd_data s (\<lambda>d. count_message t (reset_window now d)) w"
  have "base_ok M ?w1" using assms by (subst base_ok_cong [of _ w]) simp_all
  moreover have "base_ok M (?w1\<lparr>rateLimitsByIp := x\<rparr>)" for x
    using assms by (subst base_ok_cong [of _ w]) simp_all
  ultimately show ?thesis
    unfolding checkRateLimit_def Let_def good_def by (auto simp: quiet_def)
qed

lemma good_relay_rate:
  assumes "base_ok M w"
  shows "good M w (checkRelayRateLimit now s w)"
proof -
  let ?f = "\<lambda>d. let d' = (if now - relayWindowStartedAt d \<ge> 1000
                      then d\<lparr>relayWindowStartedAt := now, relayFramesInWindow := 0\<rparr> else d)
            in d'\<lparr>relayFramesInWindow := relayFramesInWindow d' + 1\<rparr>"
  have "base_ok M (upd_data s ?f w)"
    using assms by (subst base_ok_cong [of _ w]) (simp_all add: Let_def)
  moreover have "quiet w (upd_data s ?f w)" by (simp add: quiet_def Let_def)
  ultimately show ?thesis
    unfolding checkRelayRateLimit_def Let_def good_def by auto
qed

subsection \<open>Bandwidth\<close>

lemma put_limit_fields [simp]:
  "rooms (put_limit p l w) = rooms w" "connectionsByIp (put_limit p l w) = connectionsByIp w"
  "rateLimitsByIp (put_limit p l w) = rateLimitsByIp w"
  "socketsByPeerId (put_limit p l w) = socketsByPeerId w" "clients (put_limit p l w) = clients w"
  "clientData (put_limit p l w) = clientData w" "connections (put_limit p l w) = connections w"
  "retainedBytes (put_limit p l w) = retainedBytes w" "queue (put_limit p l w) = queue w"
  "running (put_limit p l w) = running w" "pendingMessages (put_limit p l w) = pendingMessages w"
  "pendingBytes (put_limit p l w) = pendingBytes w" "pendingByIp (put_limit p l w) = pendingByIp w"
  "relayEnabled (put_limit p l w) = relayEnabled w" "nextSocket (put_limit p l w) = nextSocket w"
  "closedSockets (put_limit p l w) = closedSockets w" "outputs (put_limit p l w) = outputs w"
  "deviceLimits (put_limit p l w) = map_set p l (deviceLimits w)"
  by (simp_all add: put_limit_def)

lemma limit_ok_put [simp]: "limit_ok (put_limit p l' w) l = limit_ok w l"
  by (simp add: limit_ok_def)

lemma get_limit_put [simp]:
  "get_limit (put_limit p l w) q = (if q = p then l else get_limit w q)"
  by (simp add: get_limit_def)

lemma ids_ok_put:
  assumes ok: "ids_ok C w" and p: "map_get (deviceLimits w) p \<noteq> None" and l: "limit_ok w l"
  shows "ids_ok C (put_limit p l w)"
proof -
  have "p \<in> set (map_keys (deviceLimits w))" using p by (simp add: map_get_None_iff)
  then show ?thesis
    using ids_okD [OF ok] l unfolding ids_ok_def by (auto split: if_splits)
qed

lemma limit_ok_refill [simp]: "limit_ok w l \<Longrightarrow> limit_ok w (refill now l)"
  by (simp add: limit_ok_def refill_def)

lemma map_ok_filter: "map_ok m \<Longrightarrow> map_ok (filter P m)"
  by (simp add: map_ok_def map_keys_def distinct_map_filter)

lemma limit_ok_drop_idle [simp]: "limit_ok w l \<Longrightarrow> limit_ok w (drop_idle now l)"
  by (auto simp: limit_ok_def drop_idle_def map_ok_filter map_keys_def
      intro: order_trans [OF length_filter_le])

text \<open>What the function decides on, and its outcome, when both devices are registered.\<close>

definition ready_limit :: "int \<Rightarrow> control_room \<Rightarrow> jsstr \<Rightarrow> device_limit" where
  "ready_limit now w p = refill now (get_limit w p)"

definition relay_allowed :: "int \<Rightarrow> jsstr \<Rightarrow> jsstr \<Rightarrow> nat \<Rightarrow> control_room \<Rightarrow> bool" where
  "relay_allowed now p q n w \<longleftrightarrow>
     (let a = drop_idle now (ready_limit now w p); b = ready_limit now w q in
      of_nat n \<le> tokens a \<and> of_nat n \<le> receiveTokens b
      \<and> (map_get (relayPeers a) q \<noteq> None \<or> length (relayPeers a) < MAX_RELAY_PEERS_PER_DEVICE))"

definition refilled :: "int \<Rightarrow> jsstr \<Rightarrow> jsstr \<Rightarrow> control_room \<Rightarrow> control_room" where
  "refilled now p q w = put_limit p (drop_idle now (ready_limit now w p))
     (put_limit q (ready_limit now w q) (put_limit p (ready_limit now w p) w))"

definition charged :: "int \<Rightarrow> jsstr \<Rightarrow> jsstr \<Rightarrow> nat \<Rightarrow> control_room \<Rightarrow> control_room" where
  "charged now p q n w =
     (let a = drop_idle now (ready_limit now w p); b = ready_limit now w q in
      put_limit q (b\<lparr>receiveTokens := receiveTokens b - of_nat n\<rparr>)
        (put_limit p (a\<lparr>relayPeers := map_set q now (relayPeers a), tokens := tokens a - of_nat n\<rparr>)
          (refilled now p q w)))"

lemma drop_idle_fields [simp]:
  "tokens (drop_idle now l) = tokens l" "receiveTokens (drop_idle now l) = receiveTokens l"
  "updatedAt (drop_idle now l) = updatedAt l"
  by (simp_all add: drop_idle_def)

lemma reserve_cases:
  assumes "map_get (deviceLimits w) p \<noteq> None" "map_get (deviceLimits w) q \<noteq> None" "p \<noteq> q"
  shows "reserveRelayBandwidth now p q n w =
    (if relay_allowed now p q n w then (charged now p q n w, Inr True)
     else (refilled now p q w, Inr False))"
proof -
  obtain lp lq where l: "map_get (deviceLimits w) p = Some lp" "map_get (deviceLimits w) q = Some lq"
    using assms by auto
  then have g: "get_limit w p = lp" "get_limit w q = lq" by (simp_all add: get_limit_def)
  have r: "andThen (refill_device now p w) (refill_device now q)
      = (put_limit q (ready_limit now w q) (put_limit p (ready_limit now w p) w), None)"
    using l g assms(3) by (simp add: refill_device_def ready_limit_def)
  show ?thesis
    unfolding reserveRelayBandwidth_def r relay_allowed_def charged_def refilled_def
    using assms(3) by (simp add: Let_def not_less not_le)
qed

lemma limit_ok_get: "ids_ok C w \<Longrightarrow> map_get (deviceLimits w) p \<noteq> None \<Longrightarrow> limit_ok w (get_limit w p)"
  by (auto simp: get_limit_def dest: ids_okD(6))

lemma ids_ok_refilled:
  assumes ok: "ids_ok C w" and p: "map_get (deviceLimits w) p \<noteq> None"
    and q: "map_get (deviceLimits w) q \<noteq> None"
  shows "ids_ok C (refilled now p q w)"
  unfolding refilled_def ready_limit_def
  using p q by (intro ids_ok_put ok) (simp_all add: limit_ok_get [OF ok])

lemma ids_ok_charged:
  assumes ok: "ids_ok C w" and p: "map_get (deviceLimits w) p \<noteq> None"
    and q: "map_get (deviceLimits w) q \<noteq> None" and a: "relay_allowed now p q n w"
  shows "ids_ok C (charged now p q n w)"
proof -
  let ?a = "drop_idle now (ready_limit now w p)" and ?b = "ready_limit now w q"
  have a0: "limit_ok w ?a" and b0: "limit_ok w ?b"
    using p q by (simp_all add: ready_limit_def limit_ok_get [OF ok])
  have qin: "q \<in> set (map_keys (socketsByPeerId w))"
    using q ids_okD(5) [OF ok] by (simp add: map_get_None_iff)
  have "length (map_set q now (relayPeers ?a)) \<le> MAX_RELAY_PEERS_PER_DEVICE"
    using a a0 by (intro jsm.size_put_le) (auto simp: relay_allowed_def limit_ok_def Let_def)
  then have "limit_ok w (?a\<lparr>relayPeers := map_set q now (relayPeers ?a), tokens := tokens ?a - of_nat n\<rparr>)"
    using a0 qin by (auto simp: limit_ok_def intro: order_trans [of _ "tokens ?a"])
  moreover have "limit_ok w (?b\<lparr>receiveTokens := receiveTokens ?b - of_nat n\<rparr>)"
    using b0 by (auto simp: limit_ok_def intro: order_trans [of _ "receiveTokens ?b"])
  ultimately show ?thesis
    unfolding charged_def Let_def
    using ids_ok_refilled [OF ok p q] p q
    by (intro ids_ok_put) (simp_all add: refilled_def)
qed

subsection \<open>Relaying a datagram\<close>

lemma share_not_self: "peersShareRoom s q w \<Longrightarrow> c_peerId (clientData w s) \<noteq> Some q"
  by (auto simp: peersShareRoom_def Let_def split: if_splits)

text \<open>The checks of \<open>relayDatagram\<close> before it looks at rooms.\<close>

definition relay_frame_ok :: "jsstr \<Rightarrow> jsstr \<Rightarrow> bool" where
  "relay_frame_ok q payload \<longleftrightarrow> PEER_ID q
     \<and> (\<exists>frame. fromBase64 payload = Some frame \<and> frame \<noteq> []
          \<and> length frame \<le> MAX_RELAY_FRAME_LENGTH \<and> toBase64 frame = payload)"

definition relay_core :: "int \<Rightarrow> sock \<Rightarrow> jsstr \<Rightarrow> jsstr \<Rightarrow> control_room \<Rightarrow> control_room" where
  "relay_core now s q payload w =
     (let p = the (c_peerId (clientData w s)); n = length (the (fromBase64 payload)) in
      if \<not> peersShareRoom s q w \<or> map_get (socketsByPeerId w) q = None then w
      else if relay_allowed now p q n w then charged now p q n w else refilled now p q w)"

definition relay_out :: "int \<Rightarrow> sock \<Rightarrow> jsstr \<Rightarrow> jsstr \<Rightarrow> control_room \<Rightarrow> sock_action list" where
  "relay_out now s q payload w =
     (let p = the (c_peerId (clientData w s)); n = length (the (fromBase64 payload)) in
      if \<not> peersShareRoom s q w then [Send s (RelayDropped q ''unauthorized'')]
      else case map_get (socketsByPeerId w) q of
          None \<Rightarrow> [Send s (RelayDropped q ''offline'')]
        | Some t \<Rightarrow> if relay_allowed now p q n w then [Send t (RelayFrame p payload)]
                    else [Send s (RelayDropped q ''quota'')])"

lemma relay_core_fields [simp]:
  "rooms (relay_core now s q x w) = rooms w"
  "connectionsByIp (relay_core now s q x w) = connectionsByIp w"
  "rateLimitsByIp (relay_core now s q x w) = rateLimitsByIp w"
  "socketsByPeerId (relay_core now s q x w) = socketsByPeerId w"
  "clients (relay_core now s q x w) = clients w" "clientData (relay_core now s q x w) = clientData w"
  "connections (relay_core now s q x w) = connections w"
  "retainedBytes (relay_core now s q x w) = retainedBytes w" "queue (relay_core now s q x w) = queue w"
  "running (relay_core now s q x w) = running w"
  "pendingMessages (relay_core now s q x w) = pendingMessages w"
  "pendingBytes (relay_core now s q x w) = pendingBytes w"
  "pendingByIp (relay_core now s q x w) = pendingByIp w"
  "relayEnabled (relay_core now s q x w) = relayEnabled w"
  "nextSocket (relay_core now s q x w) = nextSocket w"
  "closedSockets (relay_core now s q x w) = closedSockets w"
  "outputs (relay_core now s q x w) = outputs w"
  by (simp_all add: relay_core_def charged_def refilled_def Let_def)

lemma relayDatagram_closed_form:
  assumes ok: "base_ok M w" and s: "s \<in> set (clients w)" and p: "c_peerId (clientData w s) = Some p"
  shows "relayDatagram now s q payload w =
    (if \<not> relayEnabled w then (w, Some ''MeshTalk Relay is disabled'')
     else if \<not> relay_frame_ok q payload then (w, Some ''Invalid relay frame'')
     else (appended (relay_core now s q payload w) (relay_out now s q payload w), None))"
proof (cases "relayEnabled w \<and> relay_frame_ok q payload")
  case False
  then show ?thesis
    using p PEER_ID_not_Nil
    by (auto simp: relayDatagram_def relay_frame_ok_def split: option.splits)
next
  case True
  note D = base_okD [OF ok] and I = ids_okD [OF base_okD(2) [OF ok]]
  have pn: "p \<noteq> []" using I(4) [OF s p] by (rule PEER_ID_not_Nil)
  obtain f where f: "fromBase64 payload = Some f" "f \<noteq> []" "\<not> MAX_RELAY_FRAME_LENGTH < length f"
      "toBase64 f = payload" and q: "PEER_ID q"
    using True by (auto simp: relay_frame_ok_def not_less)
  have start: "relayDatagram now s q payload w =
      (if \<not> peersShareRoom s q w then send s (RelayDropped q ''unauthorized'') w
       else case map_get (socketsByPeerId w) q of
           None \<Rightarrow> send s (RelayDropped q ''offline'') w
         | Some t \<Rightarrow>
             (case reserveRelayBandwidth now p q (length f) w of
                (w1, Inl e) \<Rightarrow> (w1, Some e)
              | (w1, Inr False) \<Rightarrow> send s (RelayDropped q ''quota'') w1
              | (w1, Inr True) \<Rightarrow> send t (RelayFrame p payload) w1))"
    using True p pn q f by (simp add: relayDatagram_def)
  have send_s: "send s g w' = (appended w' [Send s g], None)" if "closedSockets w' = closedSockets w" for g w'
    using client_open [OF D(7) s] that by (intro send_open) (simp add: open_sock_def)
  show ?thesis
  proof (cases "map_get (socketsByPeerId w) q")
    case None
    with True show ?thesis
      by (auto simp: start send_s relay_core_def relay_out_def Let_def)
  next
    case (Some t)
    have t: "t \<in> set (clients w)" using Some I(3) by simp
    have send_t: "send t g w' = (appended w' [Send t g], None)" if "closedSockets w' = closedSockets w" for g w'
      using client_open [OF D(7) t] that by (intro send_open) (simp add: open_sock_def)
    have keys: "map_get (deviceLimits w) p \<noteq> None" "map_get (deviceLimits w) q \<noteq> None"
      using I(3) [of p s] I(5) Some s p map_get_Some_keys [of "socketsByPeerId w"]
      by (auto simp: map_get_None_iff)
    have out: "closedSockets (charged now p q n w) = closedSockets w"
        "closedSockets (refilled now p q w) = closedSockets w" for n
      by (simp_all add: charged_def refilled_def Let_def)
    show ?thesis
    proof (cases "peersShareRoom s q w")
      case True
      then have "p \<noteq> q" using share_not_self p by blast
      with True Some \<open>relayEnabled w \<and> _\<close> f show ?thesis
        by (simp add: start p reserve_cases [OF keys] send_t send_s out relay_core_def relay_out_def Let_def)
    next
      case False
      with True show ?thesis
        by (simp add: start send_s relay_core_def relay_out_def Let_def)
    qed
  qed
qed

lemma good_relay:
  assumes ok: "base_ok M w" and s: "s \<in> set (clients w)" and p: "c_peerId (clientData w s) = Some p"
  shows "good M w (relayDatagram now s q payload w)"
proof -
  let ?w = "relay_core now s q payload w"
  note I = ids_okD [OF base_okD(2) [OF ok]]
  have keys: "map_get (deviceLimits w) p \<noteq> None"
    using I(3) [of p s] I(5) s p map_get_Some_keys [of "socketsByPeerId w"] by (auto simp: map_get_None_iff)
  have keyq: "map_get (deviceLimits w) q \<noteq> None" if "map_get (socketsByPeerId w) q \<noteq> None"
    using that I(5) by (simp add: map_get_None_iff)
  have "ids_ok (set (clients w)) ?w"
    using base_okD(2) [OF ok] ids_ok_refilled [OF _ keys] ids_ok_charged [OF _ keys] keyq p
    by (simp add: relay_core_def Let_def)
  moreover have "core_ok M ?w" using base_okD(1) [OF ok] by (subst core_ok_cong [of _ w]) simp_all
  moreover have "queue_ok ?w" using base_okD(3) [OF ok] by (simp add: queue_ok_def)
  ultimately have "base_ok M ?w" by (simp add: base_ok_def)
  moreover have "quiet w ?w" by (simp add: quiet_def)
  ultimately show ?thesis
    unfolding relayDatagram_closed_form [OF ok s p] using ok by (simp add: good_def)
qed

subsection \<open>All operations\<close>

lemma good_dispatch [inv_intros]:
  assumes ok: "base_ok M w" and s: "s \<in> set (clients w)"
  shows "good M w (dispatch now s msg w)"
  unfolding dispatch_def
  using assms good_relay [OF assms] good_join [OF assms] good_leave [OF assms] good_signal [OF assms]
    good_peers [OF assms] by (auto intro: good_error elim: truthyE)

end
