(* ===== verification/ControlLife.thy ===== *)
theory ControlLife
  imports ControlRelay
begin

text \<open>
  The life of the Durable Object: rejection, registration, message handling, the queue, admission
  and new connections keep the invariant, whatever the order in which events come in. The locale
  of event-driven systems is interpreted on \<open>react\<close>, and the step relation \<open>step\<close> and the
  predicate \<open>reachable\<close> describe the same runs inductively.
\<close>

subsection \<open>Rejection\<close>

lemma close_socket_fields [simp]:
  "rooms (close_socket s c r w) = rooms w" "connectionsByIp (close_socket s c r w) = connectionsByIp w"
  "rateLimitsByIp (close_socket s c r w) = rateLimitsByIp w"
  "socketsByPeerId (close_socket s c r w) = socketsByPeerId w"
  "deviceLimits (close_socket s c r w) = deviceLimits w" "clients (close_socket s c r w) = clients w"
  "clientData (close_socket s c r w) = clientData w" "connections (close_socket s c r w) = connections w"
  "retainedBytes (close_socket s c r w) = retainedBytes w" "queue (close_socket s c r w) = queue w"
  "running (close_socket s c r w) = running w"
  "pendingMessages (close_socket s c r w) = pendingMessages w"
  "pendingBytes (close_socket s c r w) = pendingBytes w"
  "pendingByIp (close_socket s c r w) = pendingByIp w"
  "relayEnabled (close_socket s c r w) = relayEnabled w" "nextSocket (close_socket s c r w) = nextSocket w"
  "closedSockets (close_socket s c r w) = set_add s (closedSockets w)"
  "outputs (close_socket s c r w) = outputs w @ [CloseSocket s c r]"
  "open_sock (close_socket s c r w) t = (t \<noteq> s \<and> open_sock w t)"
  by (auto simp: close_socket_def open_sock_def)

lemma base_ok_close_socket:
  assumes ok: "base_ok M w" and s: "s \<notin> set (clients w)" "s < nextSocket w"
  shows "base_ok M (close_socket s c r w)"
proof (rule base_okI)
  let ?w = "close_socket s c r w"
  note D = base_okD [OF ok]
  show "rooms_ok (clients ?w) ?w" using D(4) by (subst rooms_ok_cong [of _ w]) simp_all
  show "pending_ok M ?w" using D(5) by (subst pending_ok_cong [of _ w]) simp_all
  show "conn_ok (clients ?w) ?w" using D(6) by (subst conn_ok_cong [of _ w]) simp_all
  show "sock_ok M ?w" using D(7) s by (auto simp: sock_ok_def)
  show "ids_ok (set (clients ?w)) ?w" using D(2) by (subst ids_ok_cong [of _ w]) simp_all
  show "queue_ok ?w" using D(3) by (simp add: queue_ok_def)
qed

lemma try_send_appended: "\<exists>os. try_send s f w = appended w os"
  by (metis appended_Nil try_send_eq)

lemma base_ok_close:
  assumes ok: "base_ok (mset (queue w) + R) w" and s: "s \<in> set (clients w)"
  shows "base_ok (mset (queue (close_core s w)) + R) (close_core s w)"
proof -
  note D = base_okD [OF ok]
  have "ids_ok (set (clients (close_core s w))) (close_core s w)"
    using D(2) s by (intro close_core_ids) simp_all
  then show ?thesis
    using close_core_ok [OF D(1) s] D(3) unfolding base_ok_def queue_ok_def by auto
qed

text \<open>What closing, rejecting and replacing have in common: some connections are gone, and the
  others are as they were.\<close>

definition shrinks :: "control_room \<Rightarrow> control_room \<Rightarrow> bool" where
  "shrinks w w' \<longleftrightarrow> set (clients w') \<subseteq> set (clients w) \<and> running w' = running w
     \<and> nextSocket w' = nextSocket w \<and> set (queue w') \<subseteq> set (queue w)
     \<and> length (queue w') \<le> length (queue w)"

definition same_ids :: "control_room \<Rightarrow> control_room \<Rightarrow> bool" where
  "same_ids w w' \<longleftrightarrow> (\<forall>t. c_peerId (clientData w' t) = c_peerId (clientData w t))"

definition settled :: "pending_message multiset \<Rightarrow> control_room \<Rightarrow> eff \<Rightarrow> bool" where
  "settled R w r \<longleftrightarrow> snd r = None \<and> base_ok (mset (queue (fst r)) + R) (fst r) \<and> shrinks w (fst r)"

lemma shrinks_refl [simp]: "shrinks w w"
  by (simp add: shrinks_def)

lemma shrinks_trans: "shrinks a b \<Longrightarrow> shrinks b c \<Longrightarrow> shrinks a c"
  by (auto simp: shrinks_def)

lemma shrinks_appended [simp]: "shrinks w (appended w' os) = shrinks w w'"
  by (simp add: shrinks_def)

lemma shrinks_close_socket [simp]: "shrinks w (close_socket s c r w') = shrinks w w'"
  by (simp add: shrinks_def)

lemma same_ids_simps [simp]:
  "same_ids w w" "same_ids w (appended w' os) = same_ids w w'"
  "same_ids w (close_socket s c r w') = same_ids w w'" "same_ids w (close_core s w') = same_ids w w'"
  by (simp_all add: same_ids_def)

lemma shrinks_close_core [simp]: "shrinks w (close_core s w)"
  by (auto simp: shrinks_def)

lemma handleClose_settled:
  assumes ok: "base_ok (mset (queue w) + R) w"
  shows "settled R w (handleClose s w) \<and> same_ids w (fst (handleClose s w))
    \<and> s \<notin> set (clients (fst (handleClose s w)))"
proof (cases "s \<in> set (clients w)")
  case True
  show ?thesis
    unfolding handleClose_closed_form(1) [OF base_okD(1) [OF ok] True] settled_def
    using base_ok_close [OF ok True] by simp
next
  case False
  with ok show ?thesis by (simp add: handleClose_def settled_def)
qed

lemma reject_settled:
  assumes ok: "base_ok (mset (queue w) + R) w" and s: "s < nextSocket w"
  shows "settled R w (rejectClient s e w) \<and> same_ids w (fst (rejectClient s e w))"
proof -
  obtain w' where h: "handleClose s w = (w', None)" "base_ok (mset (queue w') + R) w'" "shrinks w w'"
    "same_ids w w'" "s \<notin> set (clients w')"
    using handleClose_settled [OF ok, of s] unfolding settled_def by (cases "handleClose s w") auto
  obtain os where os: "try_send s (ErrorFrame e) w' = appended w' os"
    using try_send_appended by blast
  have "s < nextSocket w'" using h(3) s by (simp add: shrinks_def)
  then have "base_ok (mset (queue w') + R) (close_socket s 1008 ''Invalid control message'' (appended w' os))"
    using h by (intro base_ok_close_socket) simp_all
  then show ?thesis using h os by (simp add: rejectClient_def settled_def)
qed

lemma or_reject_settled:
  assumes "base_ok (mset (queue w) + R) (fst r)" "quiet w (fst r)" "s < nextSocket w"
  shows "settled R w (or_reject s r) \<and> same_ids w (fst (or_reject s r))"
proof -
  obtain w' e where r: "r = (w', e)" by (cases r)
  have ok: "base_ok (mset (queue w') + R) w'" and q: "quiet w w'"
    using assms(1,2) by (auto simp: r quiet_def)
  have w': "shrinks w w'" "same_ids w w'" "s < nextSocket w'"
    using q assms(3) by (auto simp: shrinks_def same_ids_def quiet_def)
  show ?thesis
  proof (cases e)
    case None
    with ok w' show ?thesis by (simp add: or_reject_def r settled_def)
  next
    case (Some x)
    then have "or_reject s r = rejectClient s x w'" by (simp add: or_reject_def r)
    with reject_settled [OF ok w'(3), of x] w'(1,2) show ?thesis
      by (auto simp: settled_def same_ids_def intro: shrinks_trans)
  qed
qed

subsection \<open>Registration\<close>

lemma base_ok_claim_core:
  assumes "core_ok M w" "queue_ok w"
  shows "core_ok M (claim_core p s w)" "queue_ok (claim_core p s w)"
proof -
  show "core_ok M (claim_core p s w)" using assms by (subst core_ok_cong [of _ w]) simp_all
  show "queue_ok (claim_core p s w)" using assms by (simp add: queue_ok_def)
qed

lemma limits_known:
  assumes "ids_ok C w" shows "map_get (deviceLimits w) p = None \<longleftrightarrow> map_get (socketsByPeerId w) p = None"
  using ids_okD(5) [OF assms] by (simp add: map_get_None_iff)

text \<open>The outcome of a registration whose signature is good.\<close>

definition take_over :: "int \<Rightarrow> jsstr \<Rightarrow> sock \<Rightarrow> control_room \<Rightarrow> control_room" where
  "take_over now p s w =
     (case map_get (socketsByPeerId w) p of
        None \<Rightarrow> put_limit p (fresh_limit now) (claim_core p s w)
      | Some u \<Rightarrow>
          if u = s then claim_core p s w
          else close_socket u 4000 ''Replaced by a newer device session''
                 (appended (close_core u (claim_core p s w)) (close_out u (claim_core p s w))))"

lemma take_over_ok:
  assumes ok: "base_ok (mset (queue w) + R) w" and s: "s \<in> set (clients w)" and p: "PEER_ID p"
    and own: "c_peerId (clientData w s) = None \<or> c_peerId (clientData w s) = Some p"
  shows "base_ok (mset (queue (take_over now p s w)) + R) (take_over now p s w)"
    and "shrinks w (take_over now p s w)" and "s \<in> set (clients (take_over now p s w))"
    and "map_get (socketsByPeerId (take_over now p s w)) p = Some s"
proof -
  let ?c = "claim_core p s w"
  note D = base_okD [OF ok]
  note core = base_ok_claim_core [OF D(1,3), of p s]
  have sc: "shrinks w ?c" by (simp add: shrinks_def)
  have *: "base_ok (mset (queue (take_over now p s w)) + R) (take_over now p s w)
    \<and> shrinks w (take_over now p s w) \<and> s \<in> set (clients (take_over now p s w))"
  proof (cases "map_get (socketsByPeerId w) p")
    case None
    let ?w = "put_limit p (fresh_limit now) ?c"
    have "core_ok (mset (queue w) + R) ?w" using core(1) by (subst core_ok_cong [of _ ?c]) simp_all
    then have "base_ok (mset (queue w) + R) ?w"
      using ids_ok_claim_new [OF D(2) s p own None, of now] core(2) by (simp add: base_ok_def queue_ok_def)
    then show ?thesis using None s by (simp add: take_over_def shrinks_def)
  next
    case (Some u)
    note ids = ids_ok_claim_known [OF D(2) s p own Some]
    have u: "u \<in> set (clients w)" using Some ids_okD(3) [OF D(2)] by simp
    show ?thesis
    proof (cases "u = s")
      case True
      with Some ids core sc s show ?thesis by (simp add: take_over_def base_ok_def)
    next
      case False
      let ?w = "close_core u ?c"
      have "ids_ok (set (clients ?w)) ?w"
        using ids u False by (intro close_core_ids) simp_all
      moreover have "core_ok (mset (queue ?w) + R) ?w"
        using core(1) u by (intro close_core_ok) simp_all
      moreover have "queue_ok ?w" using core(2) by (auto simp: queue_ok_def)
      ultimately have "base_ok (mset (queue ?w) + R) ?w" by (simp add: base_ok_def)
      moreover have "u < nextSocket w" using D(7) u by (simp add: sock_ok_def)
      ultimately have "base_ok (mset (queue ?w) + R) (close_socket u 4000
          ''Replaced by a newer device session'' (appended ?w (close_out u ?c)))"
        by (intro base_ok_close_socket) simp_all
      moreover have "shrinks w ?w" using shrinks_trans [OF sc] by simp
      ultimately show ?thesis using Some False s by (simp add: take_over_def)
    qed
  qed
  from * show "base_ok (mset (queue (take_over now p s w)) + R) (take_over now p s w)"
    "shrinks w (take_over now p s w)" "s \<in> set (clients (take_over now p s w))" by blast+
  have "c_peerId (clientData (take_over now p s w) s) = Some p"
    by (simp add: take_over_def split: option.splits)
  with * ids_okD(3) [OF base_okD(2)] show "map_get (socketsByPeerId (take_over now p s w)) p = Some s"
    by blast
qed

text \<open>The checks of the commit, and the commit.\<close>

definition commit_error :: "crypto \<Rightarrow> json_object \<Rightarrow> err option" where
  "commit_error cr msg =
     (case verifyEd25519 cr (text_of msg ''signing_public_key'') (text_of msg ''signature'')
             (canonical cr (signed_fields msg)) of
        Inl e \<Rightarrow> Some e
      | Inr v \<Rightarrow> if v then None else Some ''Invalid device signature'')"

lemma commit_closed_form:
  assumes ok: "base_ok (mset (queue w) + R) w"
    and claim: "s \<in> set (clients w) \<Longrightarrow> PEER_ID (text_of msg ''peer_id'') \<and>
      (c_peerId (clientData w s) = None \<or> c_peerId (clientData w s) = Some (text_of msg ''peer_id''))"
  shows "registerDevice_commit cr now s msg w =
    (case commit_error cr msg of
       Some e \<Rightarrow> (w, Some e)
     | None \<Rightarrow>
         if s \<notin> set (clients w) then (w, None)
         else (appended (take_over now (text_of msg ''peer_id'') s w)
             [Send s (DeviceRegistered (text_of msg ''peer_id'') (relayEnabled w))], None))"
proof (cases "commit_error cr msg = None \<and> s \<in> set (clients w)")
  case False
  then show ?thesis
    by (auto simp: registerDevice_commit_def commit_error_def Let_def split: sum.splits bool.splits)
next
  case True
  let ?p = "text_of msg ''peer_id''"
  let ?c = "claim_core ?p s w" and ?t = "take_over now ?p s w"
  have s: "s \<in> set (clients w)" and p: "PEER_ID ?p"
    and own: "c_peerId (clientData w s) = None \<or> c_peerId (clientData w s) = Some ?p"
    using True claim by simp_all
  note D = base_okD [OF ok] and T = take_over_ok [OF ok s p own, of now]
  have v: "verifyEd25519 cr (text_of msg ''signing_public_key'') (text_of msg ''signature'')
      (canonical cr (signed_fields msg)) = Inr True"
    using True by (auto simp: commit_error_def split: sum.splits if_splits)
  have send_s: "send s f ?t = (appended ?t [Send s f], None)" for f
    using client_open [OF base_okD(7) [OF T(1)] T(3)] by (rule send_open)
  have start: "registerDevice_commit cr now s msg w =
      andThen (case map_get (socketsByPeerId w) ?p of None \<Rightarrow> (?c, None)
        | Some u \<Rightarrow> if u = s then (?c, None) else andThen (handleClose u ?c) (\<lambda>w2.
            (close_socket u 4000 ''Replaced by a newer device session'' w2, None)))
      (\<lambda>w3. let w4 = (if map_get (deviceLimits w3) ?p = None then put_limit ?p (fresh_limit now) w3 else w3)
            in send s (DeviceRegistered ?p (relayEnabled w4)) w4)"
    unfolding registerDevice_commit_def Let_def claim_core_def [symmetric] using v s by simp
  have lim: "map_get (deviceLimits ?t) ?p \<noteq> None"
    using limits_known [OF base_okD(2) [OF T(1)]] T(4) by simp
  show ?thesis
  proof (cases "map_get (socketsByPeerId w) ?p")
    case None
    then have t: "?t = put_limit ?p (fresh_limit now) ?c" by (simp add: take_over_def)
    have "map_get (deviceLimits ?c) ?p = None" using None limits_known [OF D(2)] by simp
    then show ?thesis using True None send_s [unfolded t] unfolding start t by simp
  next
    case (Some u)
    show ?thesis
    proof (cases "u = s")
      case True
      then have t: "?t = ?c" using Some by (simp add: take_over_def)
      show ?thesis using \<open>commit_error cr msg = None \<and> _\<close> Some True lim send_s unfolding start t by auto
    next
      case False
      have "u \<in> set (clients ?c)" using Some ids_okD(3) [OF D(2)] by simp
      moreover have "core_ok (mset (queue ?c) + R) ?c" using base_ok_claim_core(1) [OF D(1,3)] by simp
      ultimately have h: "handleClose u ?c = (appended (close_core u ?c) (close_out u ?c), None)"
        by (intro handleClose_closed_form(1))
      have t: "?t = close_socket u 4000 ''Replaced by a newer device session''
          (appended (close_core u ?c) (close_out u ?c))"
        using Some False by (simp add: take_over_def)
      show ?thesis
        using \<open>commit_error cr msg = None \<and> _\<close> Some False lim send_s h unfolding start t by auto
    qed
  qed
qed

lemma commit_settled:
  assumes ok: "base_ok (mset (queue w) + R) w" and sn: "s < nextSocket w"
    and claim: "s \<in> set (clients w) \<Longrightarrow> PEER_ID (text_of msg ''peer_id'') \<and>
      (c_peerId (clientData w s) = None \<or> c_peerId (clientData w s) = Some (text_of msg ''peer_id''))"
  shows "settled R w (or_reject s (registerDevice_commit cr now s msg w))"
proof (cases "commit_error cr msg")
  case (Some e)
  then have "or_reject s (registerDevice_commit cr now s msg w) = rejectClient s e w"
    using commit_closed_form [OF ok claim] by (simp add: or_reject_def)
  with reject_settled [OF ok sn] show ?thesis by simp
next
  case None
  show ?thesis
  proof (cases "s \<in> set (clients w)")
    case True
    with claim [OF True] take_over_ok [OF ok True] None show ?thesis
      by (simp add: commit_closed_form [OF ok claim] or_reject_def settled_def)
  next
    case False
    then have "registerDevice_commit cr now s msg w = (w, None)"
      using None by (subst commit_closed_form [OF ok]) simp_all
    with ok show ?thesis by (simp add: or_reject_def settled_def)
  qed
qed

subsection \<open>Messages\<close>

lemma registration_peer: "registration_valid now d msg \<Longrightarrow> PEER_ID (text_of msg ''peer_id'')"
  by (auto simp: registration_valid_def matches_def text_of_def split: option.splits)

lemma registerDevice_start_state: "fst (registerDevice_start now s msg w) = w"
  by (simp add: registerDevice_start_def)

lemma registerDevice_start_claim:
  assumes ok: "ids_ok (set (clients w)) w" and s: "pm_socket e \<in> set (clients w)"
    and r: "registerDevice_start now (pm_socket e) (pm_message e) w = (w', None)"
  shows "claim_ok e w"
  using r ids_okD(4) [OF ok s] PEER_ID_not_Nil registration_peer
  unfolding registerDevice_start_def claim_ok_def
  by (cases "c_peerId (clientData w (pm_socket e))") (auto split: if_splits)

lemma handleMessage_start_ok:
  assumes ok: "base_ok (mset (queue w) + R) w" and n: "pm_socket e < nextSocket w"
    and h: "handleMessage_start now (pm_socket e) (pm_message e) w = (st, r)"
  shows "settled R w r \<and> (st \<noteq> Done \<longrightarrow> fst r = w \<and> claim_ok e w)"
proof (cases "pm_socket e \<in> set (clients w)")
  case False
  with h ok show ?thesis by (auto simp: handleMessage_start_def settled_def)
next
  case s: True
  note D = base_okD [OF ok]
  show ?thesis
  proof (cases "type_is (pm_message e) ''device_register''")
    case False
    then have "st = Done \<and> r = or_reject (pm_socket e) (dispatch now (pm_socket e) (pm_message e) w)"
      using h s by (simp add: handleMessage_start_def)
    with or_reject_settled [OF _ _ n] good_dispatch [OF ok s, of now "pm_message e"] show ?thesis
      by (simp add: good_def)
  next
    case True
    obtain w1 x where st: "registerDevice_start now (pm_socket e) (pm_message e) w = (w1, x)"
      by (cases "registerDevice_start now (pm_socket e) (pm_message e) w")
    then have "w1 = w" using registerDevice_start_state [of now "pm_socket e" "pm_message e" w] by simp
    show ?thesis
    proof (cases x)
      case None
      have "claim_ok e w" using registerDevice_start_claim [OF D(2) s] st None by simp
      moreover have "st = Digesting \<and> r = (w, None)"
        using None \<open>w1 = w\<close> st h s True by (auto simp: handleMessage_start_def)
      ultimately show ?thesis using ok by (simp add: settled_def)
    next
      case (Some y)
      with \<open>w1 = w\<close> st h s True reject_settled [OF ok n, of y] show ?thesis
        by (auto simp: handleMessage_start_def)
    qed
  qed
qed

lemma handleMessage_resume_ok:
  assumes ok: "base_ok (mset (queue w) + R) w" and n: "pm_socket e < nextSocket w"
    and c: "pm_socket e \<in> set (clients w) \<Longrightarrow> claim_ok e w"
    and h: "handleMessage_resume cr now st (pm_socket e) (pm_message e) w = (st', r)"
  shows "settled R w r \<and> (st' \<noteq> Done \<longrightarrow> fst r = w)"
proof (cases st)
  case Digesting
  show ?thesis
  proof (cases "snd (registerDevice_digest cr (pm_message e) w)")
    case None
    with Digesting h ok show ?thesis
      by (auto simp: handleMessage_resume_def registerDevice_digest_def settled_def split: if_splits)
  next
    case (Some x)
    with Digesting h reject_settled [OF ok n, of x] show ?thesis
      by (auto simp: handleMessage_resume_def registerDevice_digest_def split: if_splits)
  qed
next
  case Verifying
  have "settled R w (or_reject (pm_socket e) (registerDevice_commit cr now (pm_socket e) (pm_message e) w))"
    using ok n by (rule commit_settled) (use c in \<open>simp add: claim_ok_def\<close>)
  with Verifying h show ?thesis by (auto simp: handleMessage_resume_def)
next
  case Done
  with h ok show ?thesis by (auto simp: handleMessage_resume_def settled_def)
qed

subsection \<open>The queue\<close>

lemma base_ok_running [simp]: "base_ok M (w\<lparr>running := x\<rparr>) = base_ok M w"
  by (rule base_ok_cong) simp_all

lemma settle_settled: "settled R w r \<Longrightarrow> settle e (st, r) = (fst r)\<lparr>running := Some (e, st)\<rparr>"
  by (cases r) (auto simp: settle_def settled_def)

lemma settle_inv:
  assumes "settled {#e#} w r" "st \<noteq> Done \<longrightarrow> fst r = w \<and> (pm_socket e \<in> set (clients w) \<longrightarrow> claim_ok e w)"
  shows "room_inv (settle e (st, r))"
  using assms unfolding settle_settled [OF assms(1)]
  by (auto simp: room_inv_def settled_def entries_def running_ok_def claim_ok_def)

lemma base_ok_dequeue:
  assumes "base_ok (mset (queue w)) w" "queue w = e # q"
  shows "base_ok (mset q + {#e#}) (w\<lparr>queue := q, running := Some (e, Done)\<rparr>)"
    and "pm_socket e < nextSocket w" and "pm_socket e \<in> set (clients w)"
proof -
  note D = base_okD [OF assms(1)]
  let ?w = "w\<lparr>queue := q, running := Some (e, Done)\<rparr>"
  have "core_ok (mset q + {#e#}) ?w = core_ok (mset q + {#e#}) w" by (rule core_ok_cong) simp_all
  moreover have "ids_ok C ?w = ids_ok C w" for C by (rule ids_ok_cong) simp_all
  ultimately show "base_ok (mset q + {#e#}) ?w"
    using D(1-3) assms(2) by (simp add: base_ok_def queue_ok_def)
  show "pm_socket e \<in> set (clients w)" using D(3) assms(2) by (simp add: queue_ok_def)
  then show "pm_socket e < nextSocket w" using D(7) by (simp add: sock_ok_def)
qed

lemma drain_next_inv:
  assumes "base_ok (mset (queue w)) w"
  shows "room_inv (drain_next now w)"
proof (cases "queue w")
  case Nil
  with assms show ?thesis by (simp add: drain_next_def room_inv_def entries_def running_ok_def)
next
  case (Cons e q)
  let ?w = "w\<lparr>queue := q, running := Some (e, Done)\<rparr>"
  obtain st r where h: "handleMessage_start now (pm_socket e) (pm_message e) ?w = (st, r)"
    by (cases "handleMessage_start now (pm_socket e) (pm_message e) ?w")
  note B = base_ok_dequeue [OF assms Cons]
  have "settled {#e#} ?w r \<and> (st \<noteq> Done \<longrightarrow> fst r = ?w \<and> claim_ok e ?w)"
    using B by (intro handleMessage_start_ok [OF _ _ h]) simp_all
  then have "room_inv (settle e (st, r))" by (intro settle_inv [where w = ?w]) auto
  with h Cons show ?thesis by (simp add: drain_next_def)
qed

lemma room_invD:
  assumes "room_inv w"
  shows "base_ok (mset (entries w)) w" "running_ok w"
  using assms by (simp_all add: room_inv_def)

lemma base_ok_release:
  assumes "base_ok (mset (queue w) + {#e#}) w"
  shows "base_ok (mset (queue w)) (release_core e w)"
proof (rule base_okI)
  let ?w = "release_core e w"
  note D = base_okD [OF assms]
  show "rooms_ok (clients ?w) ?w" using D(4) by (subst rooms_ok_cong [of _ w]) simp_all
  show "pending_ok (mset (queue w)) ?w" using D(5) by (intro pending_ok_release) simp
  show "conn_ok (clients ?w) ?w" using D(6) by (subst conn_ok_cong [of _ w]) simp_all
  show "sock_ok (mset (queue w)) ?w" using D(7) by (simp add: sock_ok_def open_sock_def)
  show "ids_ok (set (clients ?w)) ?w" using D(2) by (subst ids_ok_cong [of _ w]) simp_all
  show "queue_ok ?w" using D(3) by (simp add: queue_ok_def)
qed

lemma resume_inv:
  assumes inv: "room_inv w"
  shows "room_inv (resume cr now w)"
proof (cases "running w")
  case None
  with inv show ?thesis by (simp add: resume_def)
next
  case (Some es)
  obtain e st where es: "es = (e, st)" by (cases es)
  have ok: "base_ok (mset (queue w) + {#e#}) w"
    using room_invD(1) [OF inv] Some es by (simp add: entries_def)
  note D = base_okD [OF ok]
  have n: "pm_socket e < nextSocket w" using D(7) by (simp add: sock_ok_def)
  show ?thesis
  proof (cases "st = Done")
    case True
    have pend: "pending_ok (add_mset e (mset (queue w))) w" using D(5) by simp
    have "base_ok (mset (queue w)) (release_core e w)" by (rule base_ok_release [OF ok])
    then have "room_inv (drain_next now (release_core e w))" by (intro drain_next_inv) simp
    with True Some es show ?thesis by (simp add: resume_def releasePending_ok [OF pend])
  next
    case False
    have c: "pm_socket e \<in> set (clients w) \<Longrightarrow> claim_ok e w"
      using room_invD(2) [OF inv] Some es False by (simp add: running_ok_def)
    obtain st' r where h: "handleMessage_resume cr now st (pm_socket e) (pm_message e) w = (st', r)"
      by (cases "handleMessage_resume cr now st (pm_socket e) (pm_message e) w")
    have "settled {#e#} w r \<and> (st' \<noteq> Done \<longrightarrow> fst r = w)"
      using ok n c h by (rule handleMessage_resume_ok)
    then have "room_inv (settle e (st', r))" using c by (intro settle_inv [where w = w]) auto
    with False Some es h show ?thesis by (cases st) (simp_all add: resume_def)
  qed
qed

subsection \<open>Admission\<close>

definition running_part :: "control_room \<Rightarrow> pending_message multiset" where
  "running_part w = (case running w of None \<Rightarrow> {#} | Some (e, _) \<Rightarrow> {#e#})"

lemma mset_entries: "mset (entries w) = mset (queue w) + running_part w"
  by (simp add: entries_def running_part_def split: option.splits prod.splits)

lemma room_inv_settled:
  assumes inv: "room_inv w" and r: "settled (running_part w) w r" and ids: "same_ids w (fst r)"
  shows "room_inv (fst r)"
proof -
  have run: "running (fst r) = running w" and q: "set (queue (fst r)) \<subseteq> set (queue w)"
    and c: "set (clients (fst r)) \<subseteq> set (clients w)"
    using r by (auto simp: settled_def shrinks_def)
  have "running_part (fst r) = running_part w" by (simp add: running_part_def run)
  then have "base_ok (mset (entries (fst r))) (fst r)"
    using r by (simp add: mset_entries settled_def)
  moreover have "running_ok (fst r)"
    using room_invD(2) [OF inv] q c ids unfolding running_ok_def run
    by (auto simp: claim_ok_def same_ids_def split: option.splits)
  ultimately show ?thesis by (simp add: room_inv_def)
qed

lemma queue_full_cong:
  assumes "pendingMessages w' = pendingMessages w" "pendingBytes w' = pendingBytes w"
    "pendingByIp w' = pendingByIp w" "c_ip (clientData w' s) = c_ip (clientData w s)"
    "c_pendingMessages (clientData w' s) = c_pendingMessages (clientData w s)"
    "c_pendingBytes (clientData w' s) = c_pendingBytes (clientData w s)"
  shows "queue_full n s w' = queue_full n s w"
  using assms by (simp add: queue_full_def pending_of_ip_def Let_def)

lemma queue_full_rate: "queue_full n s (fst (checkRateLimit now s t w)) = queue_full n s w"
  by (rule queue_full_cong) (simp_all add: checkRateLimit_def Let_def)

lemma queue_full_relay_rate: "queue_full n s (fst (checkRelayRateLimit now s w)) = queue_full n s w"
  by (rule queue_full_cong) (simp_all add: checkRelayRateLimit_def Let_def)

lemma enqueue_fields [simp]:
  "rooms (enqueue s m n w) = rooms w" "connectionsByIp (enqueue s m n w) = connectionsByIp w"
  "rateLimitsByIp (enqueue s m n w) = rateLimitsByIp w"
  "socketsByPeerId (enqueue s m n w) = socketsByPeerId w"
  "deviceLimits (enqueue s m n w) = deviceLimits w" "clients (enqueue s m n w) = clients w"
  "connections (enqueue s m n w) = connections w" "retainedBytes (enqueue s m n w) = retainedBytes w"
  "queue (enqueue s m n w) = queue w @ [\<lparr>pm_socket = s, pm_message = m, pm_bytes = n\<rparr>]"
  "running (enqueue s m n w) = running w" "relayEnabled (enqueue s m n w) = relayEnabled w"
  "nextSocket (enqueue s m n w) = nextSocket w" "closedSockets (enqueue s m n w) = closedSockets w"
  "outputs (enqueue s m n w) = outputs w"
  "c_ip (clientData (enqueue s m n w) t) = c_ip (clientData w t)"
  "c_rooms (clientData (enqueue s m n w) t) = c_rooms (clientData w t)"
  "c_signals (clientData (enqueue s m n w) t) = c_signals (clientData w t)"
  "c_peerId (clientData (enqueue s m n w) t) = c_peerId (clientData w t)"
  by (simp_all add: enqueue_def Let_def split: prod.splits)

lemma enqueue_base_ok:
  assumes ok: "base_ok M w" and s: "s \<in> set (clients w)" and full: "\<not> queue_full n s w" and n: "0 \<le> n"
  shows "base_ok (add_mset \<lparr>pm_socket = s, pm_message = m, pm_bytes = n\<rparr> M) (enqueue s m n w)"
proof (rule base_okI)
  let ?w = "enqueue s m n w"
  note D = base_okD [OF ok]
  show "rooms_ok (clients ?w) ?w" using D(4) by (subst rooms_ok_cong [of _ w]) simp_all
  show "pending_ok (add_mset \<lparr>pm_socket = s, pm_message = m, pm_bytes = n\<rparr> M) ?w"
    using D(5) full n by (rule pending_ok_enqueue)
  show "conn_ok (clients ?w) ?w" using D(6) by (subst conn_ok_cong [of _ w]) simp_all
  show "sock_ok (add_mset \<lparr>pm_socket = s, pm_message = m, pm_bytes = n\<rparr> M) ?w"
    using D(7) s by (simp add: sock_ok_def open_sock_def)
  show "ids_ok (set (clients ?w)) ?w" using D(2) by (subst ids_ok_cong [of _ w]) simp_all
  show "queue_ok ?w" using D(3) s by (simp add: queue_ok_def)
qed

lemma drain_inv:
  assumes ok: "base_ok (mset (entries w)) w"
    and run: "\<And>e st. running w = Some (e, st) \<Longrightarrow> st \<noteq> Done \<Longrightarrow> pm_socket e \<in> set (clients w) \<Longrightarrow> claim_ok e w"
  shows "room_inv (drainQueue now w)"
proof (cases "running w")
  case None
  with ok have "base_ok (mset (queue w)) w" by (simp add: entries_def)
  with None show ?thesis by (simp add: drainQueue_def drain_next_inv)
next
  case (Some es)
  with ok run show ?thesis
    by (cases es) (simp add: drainQueue_def room_inv_def running_ok_def)
qed

lemma enqueue_drain_inv:
  assumes inv: "room_inv w" and good: "good (mset (entries w)) w (w', None)"
    and s: "s \<in> set (clients w)" and full: "\<not> queue_full n s w'" and n: "0 \<le> n"
  shows "room_inv (drainQueue now (enqueue s m n w'))"
proof (rule drain_inv)
  let ?e = "\<lparr>pm_socket = s, pm_message = m, pm_bytes = n\<rparr>"
  have q: "quiet w w'" and ok: "base_ok (mset (entries w)) w'" using good by (simp_all add: good_def)
  have "base_ok (add_mset ?e (mset (entries w))) (enqueue s m n w')"
    using ok s full n q by (intro enqueue_base_ok) (simp_all add: quiet_def)
  moreover have "mset (entries (enqueue s m n w')) = add_mset ?e (mset (entries w))"
    using q by (simp add: entries_def quiet_def)
  ultimately show "base_ok (mset (entries (enqueue s m n w'))) (enqueue s m n w')" by simp
  fix e st assume "running (enqueue s m n w') = Some (e, st)" "st \<noteq> Done"
    "pm_socket e \<in> set (clients (enqueue s m n w'))"
  with q room_invD(2) [OF inv] show "claim_ok e (enqueue s m n w')"
    by (simp add: running_ok_def claim_ok_def quiet_def)
qed

lemma raw_bytes_nonneg: "0 \<le> raw_bytes raw"
  by (cases raw) simp_all

text \<open>Admission either refuses the frame, leaving the queue alone, or queues it.\<close>

lemma admit_cases:
  assumes inv: "room_inv w" and s: "s \<in> set (clients w)"
  shows "(\<exists>w' e. admit now s raw w = (w', Some e) \<and> base_ok (mset (entries w)) w' \<and> quiet w w')
    \<or> (\<exists>w' m. admit now s raw w = (drainQueue now (enqueue s m (raw_bytes raw) w'), None)
         \<and> good (mset (entries w)) w (w', None) \<and> \<not> queue_full (raw_bytes raw) s w'
         \<and> raw_parsed raw = Inr (JObj m))"
proof -
  note ok = room_invD(1) [OF inv]
  define lim where "lim m = (if is_relay m then checkRelayRateLimit now s w
    else checkRateLimit now s (field m ''type'') w)" for m
  have lim: "good (mset (entries w)) w (lim m)" "queue_full n s (fst (lim m)) = queue_full n s w" for m n
    by (simp_all add: lim_def good_rate [OF ok] good_relay_rate [OF ok] queue_full_rate queue_full_relay_rate)
  have lim_def': "andThen (if is_relay m then checkRelayRateLimit now s w
      else checkRateLimit now s (field m ''type'') w) f = andThen (lim m) f" for m f
    by (simp add: lim_def)
  show ?thesis
  proof (cases "raw_parsed raw")
    case (Inl x)
    then show ?thesis using ok by (auto simp: admit_def)
  next
    case (Inr v)
    then show ?thesis
    proof (cases v)
      case (JObj m)
      obtain w' x where l: "lim m = (w', x)" by (cases "lim m")
      show ?thesis
        using ok lim [where m = m] Inr JObj l
        by (cases x) (auto simp: admit_def good_def lim_def')
    qed (use ok in \<open>auto simp: admit_def\<close>)
  qed
qed

lemma admitMessage_inv:
  assumes inv: "room_inv w" and n: "s < nextSocket w"
  shows "room_inv (admitMessage now s raw w)"
proof (cases "s \<in> set (clients w)")
  case False
  with inv show ?thesis by (simp add: admitMessage_def)
next
  case s: True
  from admit_cases [OF inv s, of now raw] show ?thesis
  proof (elim disjE exE conjE)
    fix w' e assume a: "admit now s raw w = (w', Some e)" and g: "base_ok (mset (entries w)) w'" "quiet w w'"
    have "settled (running_part w) w (or_reject s (w', Some e))
        \<and> same_ids w (fst (or_reject s (w', Some e)))"
      using g n by (intro or_reject_settled) (simp_all add: mset_entries)
    then show ?thesis using room_inv_settled [OF inv] a s by (simp add: admitMessage_def)
  next
    fix w' m assume "admit now s raw w = (drainQueue now (enqueue s m (raw_bytes raw) w'), None)"
      "good (mset (entries w)) w (w', None)" "\<not> queue_full (raw_bytes raw) s w'"
    then show ?thesis
      using enqueue_drain_inv [OF inv _ s] s raw_bytes_nonneg
      by (simp add: admitMessage_def or_reject_def)
  qed
qed

end
