(* ===== verification/ControlReach.thy ===== *)
theory ControlReach
  imports ControlLife
begin

text \<open>
  Every state the Durable Object can be in: new connections keep the invariant, so does every
  event, and the locale of event-driven systems, interpreted on \<open>react\<close>, carries it to all runs.
  Then the properties of reachable states.
\<close>

subsection \<open>New connections\<close>

definition connect_core :: "jsstr \<Rightarrow> client_data \<Rightarrow> control_room \<Rightarrow> control_room" where
  "connect_core ip d w = w\<lparr>nextSocket := Suc (nextSocket w),
     clientData := (clientData w)(nextSocket w := d), clients := clients w @ [nextSocket w],
     connections := connections w + 1,
     connectionsByIp := map_set ip (ip_connections w ip + 1) (connectionsByIp w)\<rparr>"

lemma connect_core_fields [simp]:
  "rooms (connect_core ip d w) = rooms w" "rateLimitsByIp (connect_core ip d w) = rateLimitsByIp w"
  "socketsByPeerId (connect_core ip d w) = socketsByPeerId w"
  "deviceLimits (connect_core ip d w) = deviceLimits w"
  "clients (connect_core ip d w) = clients w @ [nextSocket w]"
  "clientData (connect_core ip d w) = (clientData w)(nextSocket w := d)"
  "connections (connect_core ip d w) = connections w + 1"
  "connectionsByIp (connect_core ip d w) = map_set ip (ip_connections w ip + 1) (connectionsByIp w)"
  "retainedBytes (connect_core ip d w) = retainedBytes w" "queue (connect_core ip d w) = queue w"
  "running (connect_core ip d w) = running w" "pendingMessages (connect_core ip d w) = pendingMessages w"
  "pendingBytes (connect_core ip d w) = pendingBytes w" "pendingByIp (connect_core ip d w) = pendingByIp w"
  "relayEnabled (connect_core ip d w) = relayEnabled w"
  "nextSocket (connect_core ip d w) = Suc (nextSocket w)"
  "closedSockets (connect_core ip d w) = closedSockets w" "outputs (connect_core ip d w) = outputs w"
  "room_members (connect_core ip d w) = room_members w"
  by (simp_all add: connect_core_def room_members_def fun_eq_iff)

definition blank :: "client_data \<Rightarrow> bool" where
  "blank d \<longleftrightarrow> c_rooms d = [] \<and> c_signals d = [] \<and> c_peerId d = None
     \<and> c_pendingMessages d = 0 \<and> c_pendingBytes d = 0"

lemma blank_new_client: "blank (new_client now ip r16 r32)" "c_ip (new_client now ip r16 r32) = ip"
  by (simp_all add: blank_def new_client_def)

lemma next_not_client: "sock_ok M w \<Longrightarrow> nextSocket w \<notin> set (clients w)"
  by (auto simp: sock_ok_def)

lemma joined_ok_blank: "blank d \<Longrightarrow> joined_ok d"
  by (simp add: blank_def joined_ok_def)

lemma rooms_ok_connect:
  assumes ok: "rooms_ok (clients w) w" and s: "nextSocket w \<notin> set (clients w)" and b: "blank d"
  shows "rooms_ok (clients w @ [nextSocket w]) (connect_core ip d w)"
proof -
  note D = rooms_okD [OF ok]
  have "x \<in> set (room_members w r) \<longleftrightarrow> r \<in> set (c_rooms (((clientData w)(nextSocket w := d)) x))" for x r
    using D(5) [of x r] D(7) [OF s] b by (auto simp: blank_def)
  moreover have "signal_bytes d = 0" using b by (simp add: blank_def signal_bytes_def)
  then have "retainedBytes w = (\<Sum>t\<leftarrow>clients w @ [nextSocket w]. signal_bytes (((clientData w)(nextSocket w := d)) t))"
    using D(1,8) s by (simp add: sum_list_fun_upd [where f = signal_bytes] del: fun_upd_apply)
      (simp add: fun_upd_same)
  ultimately show ?thesis
    using D s joined_ok_blank [OF b] unfolding rooms_ok_def by auto
qed

lemma pending_ok_connect:
  assumes ok: "pending_ok M w" and so: "sock_ok M w" and b: "blank d"
  shows "pending_ok M (connect_core ip d w)"
proof -
  have e: "pm_socket e \<noteq> nextSocket w" if "e \<in># M" for e using so that by (auto simp: sock_ok_def)
  then have none: "of_socket (nextSocket w) M = {#}"
    by (auto simp: of_socket_def filter_mset_eq_conv)
  have "c_pendingMessages (clientData w (nextSocket w)) = 0" "c_pendingBytes (clientData w (nextSocket w)) = 0"
    using ok none by (simp_all add: pending_ok_def)
  with ok e b show ?thesis
    by (subst pending_ok_cong [of _ w]) (auto simp: blank_def)
qed

lemma conn_ok_connect:
  assumes ok: "conn_ok (clients w) w" and s: "nextSocket w \<notin> set (clients w)" and d: "c_ip d = ip"
    and lim: "connections w < MAX_CONNECTIONS" "ip_connections w ip < MAX_CONNECTIONS_PER_IP"
  shows "conn_ok (clients w @ [nextSocket w]) (connect_core ip d w)"
proof -
  let ?w = "connect_core ip d w"
  have frm: "from_ip ?w i (clients w @ [nextSocket w])
      = from_ip w i (clients w) @ (if i = ip then [nextSocket w] else [])" for i
  proof -
    have "from_ip ?w i (clients w) = from_ip w i (clients w)"
      unfolding from_ip_def by (rule filter_cong) (use s in auto)
    then show ?thesis using d by (simp add: from_ip_def)
  qed
  have n: "ip_connections w ip = int (length (from_ip w ip (clients w)))"
    using ok by (simp add: ip_connections_def conn_ok_def)
  have "map_get (connectionsByIp ?w) i = (if from_ip ?w i (clients w @ [nextSocket w]) = [] then None
      else Some (int (length (from_ip ?w i (clients w @ [nextSocket w])))))" for i
    unfolding frm using ok n by (auto simp: conn_ok_def)
  moreover have "int (length (from_ip ?w i (clients w @ [nextSocket w]))) \<le> MAX_CONNECTIONS_PER_IP" for i
    unfolding frm using ok n lim(2) by (auto simp: conn_ok_def)
  moreover have "connections ?w = int (length (clients w @ [nextSocket w]))"
    "int (length (clients w @ [nextSocket w])) \<le> MAX_CONNECTIONS"
    using ok lim(1) by (auto simp: conn_ok_def)
  ultimately show ?thesis using ok s by (simp add: conn_ok_def)
qed

lemma ids_ok_connect:
  assumes ok: "ids_ok (set (clients w)) w" and s: "nextSocket w \<notin> set (clients w)" and b: "blank d"
  shows "ids_ok (set (clients w @ [nextSocket w])) (connect_core ip d w)"
proof -
  let ?w = "connect_core ip d w"
  note D = ids_okD [OF ok]
  have "map_get (socketsByPeerId ?w) p = Some t \<longleftrightarrow>
      t \<in> set (clients w @ [nextSocket w]) \<and> c_peerId (clientData ?w t) = Some p" for p t
    using D(3) [of p t] s b by (auto simp: blank_def)
  moreover have "PEER_ID p" if "t \<in> set (clients w @ [nextSocket w])" "c_peerId (clientData ?w t) = Some p" for t p
    using that D(4) [of t p] b by (auto simp: blank_def split: if_splits)
  moreover have "limit_ok ?w l" if "map_get (deviceLimits ?w) p = Some l" for p l
    using that D(6) [of p l] by (auto intro: limit_ok_mono)
  ultimately show ?thesis using D(1,2,5) unfolding ids_ok_def by simp
qed

lemma connect_inv:
  assumes inv: "room_inv w" and b: "blank d" "c_ip d = ip"
    and lim: "connections w < MAX_CONNECTIONS" "ip_connections w ip < MAX_CONNECTIONS_PER_IP"
  shows "room_inv (appended (connect_core ip d w) os)"
proof -
  let ?w = "connect_core ip d w" and ?M = "mset (entries w)"
  note D = base_okD [OF room_invD(1) [OF inv]]
  note s = next_not_client [OF D(7)]
  have m: "mset (entries ?w) = ?M" by (simp add: entries_def)
  have "base_ok ?M ?w"
  proof (rule base_okI)
    show "rooms_ok (clients ?w) ?w" using rooms_ok_connect [OF D(4) s b(1)] by simp
    show "pending_ok ?M ?w" using D(5,7) b(1) by (rule pending_ok_connect)
    show "conn_ok (clients ?w) ?w" using conn_ok_connect [OF D(6) s b(2) lim] by simp
    show "sock_ok ?M ?w" using D(7) by (auto simp: sock_ok_def open_sock_def less_Suc_eq)
    show "ids_ok (set (clients ?w)) ?w" using ids_ok_connect [OF D(2) s b(1)] by simp
    show "queue_ok ?w" using D(3) by (simp add: queue_ok_def)
  qed
  moreover have "running_ok ?w"
    using room_invD(2) [OF inv] D(7) b(1)
    by (auto simp: running_ok_def claim_ok_def sock_ok_def entries_def blank_def split: option.splits)
  ultimately show ?thesis
    using m by (auto simp: room_inv_def running_ok_def entries_def split: option.splits)
qed

lemma fetch_cases:
  "fst (fetch now path h r16 r32 w) = w \<or>
   (let ip = (case h of Some x \<Rightarrow> x | None \<Rightarrow> js ''unknown'') in
     connections w < MAX_CONNECTIONS \<and> ip_connections w ip < MAX_CONNECTIONS_PER_IP
     \<and> (\<exists>os. fst (fetch now path h r16 r32 w) = appended (connect_core ip (new_client now ip r16 r32) w) os))"
proof -
  have "\<exists>os. fst (send s f w') = appended w' os" for s f w'
    using try_send_appended [of s f w'] by (simp add: try_send_def)
  then show ?thesis by (auto simp: fetch_def Let_def connect_core_def)
qed

lemma fetch_inv:
  assumes "room_inv w" shows "room_inv (fst (fetch now path h r16 r32 w))"
  using fetch_cases [of now path h r16 r32 w] connect_inv [OF assms blank_new_client] assms
  by (auto simp: Let_def)

subsection \<open>Events\<close>

text \<open>The platform raises events of a socket only after the socket was accepted.\<close>

fun enabled :: "event \<Rightarrow> control_room \<Rightarrow> bool" where
  "enabled (Connect now path h r16 r32) w = True"
| "enabled (Message now s raw) w = (s < nextSocket w)"
| "enabled (SocketError s) w = (s < nextSocket w)"
| "enabled (SocketClose s code reason) w = (s < nextSocket w)"
| "enabled (Resume now) w = True"

lemma base_ok_init: "base_ok {#} (init_room env)"
  by (simp add: base_ok_def core_ok_def rooms_ok_def pending_ok_def conn_ok_def sock_ok_def ids_ok_def
      queue_ok_def init_room_def blank_client_def room_members_def joined_ok_def of_socket_def of_ip_def
      from_ip_def control_limits)

lemma init_inv: "room_inv (init_room env)"
  using base_ok_init [of env] by (simp add: room_inv_def entries_def running_ok_def) (simp add: init_room_def)

lemma close_event_inv:
  assumes inv: "room_inv w" and s: "s < nextSocket w"
  shows "room_inv (react cr (SocketClose s code reason) w)"
proof -
  have "base_ok (mset (queue w) + running_part w) w" using room_invD(1) [OF inv] by (simp add: mset_entries)
  from handleClose_settled [OF this, of s] obtain w' where
    h: "handleClose s w = (w', None)" "settled (running_part w) w (w', None)" "same_ids w w'"
    "s \<notin> set (clients w')"
    by (cases "handleClose s w") (auto simp: settled_def)
  let ?w = "close_socket s code reason w'"
  have "s < nextSocket w'" using h(2) s by (simp add: settled_def shrinks_def)
  then have "settled (running_part w) w (?w, None)"
    using h by (auto simp: settled_def intro: base_ok_close_socket)
  from room_inv_settled [OF inv this] h(1,3) show ?thesis by simp
qed

lemma react_inv:
  assumes inv: "room_inv w" and e: "enabled e w"
  shows "room_inv (react cr e w)"
proof (cases e)
  case (Connect now path h r16 r32)
  with inv show ?thesis by (simp add: fetch_inv)
next
  case (Message now s raw)
  with inv e show ?thesis by (simp add: admitMessage_inv)
next
  case (SocketError s)
  have "base_ok (mset (queue w) + running_part w) w" using room_invD(1) [OF inv] by (simp add: mset_entries)
  from reject_settled [OF this] e SocketError room_inv_settled [OF inv] show ?thesis by simp
next
  case (SocketClose s code reason)
  with inv e show ?thesis using close_event_inv by simp
next
  case (Resume now)
  with inv show ?thesis by (simp add: resume_inv)
qed

interpretation control: event_system enabled "react cr" "\<lambda>w. \<exists>env. w = init_room env" room_inv
  for cr
  by unfold_locales (auto simp: init_inv react_inv)

subsection \<open>Steps and reachable states\<close>

inductive step :: "crypto \<Rightarrow> control_room \<Rightarrow> event \<Rightarrow> control_room \<Rightarrow> bool" for cr where
  step_react: "enabled e w \<Longrightarrow> step cr w e (react cr e w)"

inductive reachable :: "crypto \<Rightarrow> control_room \<Rightarrow> bool" for cr where
  reachable_init: "reachable cr (init_room env)"
| reachable_step: "reachable cr w \<Longrightarrow> step cr w e w' \<Longrightarrow> reachable cr w'"

inductive_simps step_iff: "step cr w e w'"
inductive_cases step_message: "step cr w (Message now s raw) w'"
inductive_cases step_resume: "step cr w (Resume now) w'"

lemma reachable_react: "reachable cr w \<Longrightarrow> enabled e w \<Longrightarrow> reachable cr (react cr e w)"
  by (rule reachable.reachable_step [OF _ step_react])

lemma trace_ok_snoc: "trace_ok en re (es @ [e]) s \<longleftrightarrow> trace_ok en re es s \<and> en e (fold re es s)"
  by (induction es arbitrary: s) auto

lemma reachable_runs:
  "reachable cr w \<longleftrightarrow>
     (\<exists>env es. trace_ok enabled (react cr) es (init_room env) \<and> w = fold (react cr) es (init_room env))"
proof
  assume "reachable cr w"
  then show "\<exists>env es. trace_ok enabled (react cr) es (init_room env) \<and> w = fold (react cr) es (init_room env)"
  proof induction
    case (reachable_init env)
    show ?case by (intro exI [of _ env] exI [of _ "[]"]) simp
  next
    case (reachable_step w e w')
    then obtain env es where r: "trace_ok enabled (react cr) es (init_room env)"
      "w = fold (react cr) es (init_room env)" by blast
    show ?case
      using r reachable_step by (intro exI [of _ env] exI [of _ "es @ [e]"]) (simp add: trace_ok_snoc step_iff)
  qed
next
  have run: "trace_ok enabled (react cr) es w \<Longrightarrow> reachable cr w \<Longrightarrow> reachable cr (fold (react cr) es w)" for es w
    by (induction es arbitrary: w) (auto intro: reachable.reachable_step step_react)
  assume "\<exists>env es. trace_ok enabled (react cr) es (init_room env) \<and> w = fold (react cr) es (init_room env)"
  then show "reachable cr w" using run reachable_init by blast
qed

lemma reachable_room_inv: "reachable cr w \<Longrightarrow> room_inv w"
  unfolding reachable_runs using control.run_inv by blast

end
