(* ===== verification/ControlDemo.thy ===== *)
theory ControlDemo
  imports ControlReach "HOL-Library.Code_Target_Nat"
begin

text \<open>
  Concrete states of the Durable Object, at which the properties are exercised: \<open>lobby\<close> (two
  connections), \<open>pair\<close> (two registered devices) and \<open>pair_room\<close> (the two in one room), each
  evaluated once and shown to satisfy the invariant.
\<close>

subsection \<open>Concrete states\<close>

definition plain_crypto :: crypto where
  "plain_crypto = \<lparr>sha256 = (\<lambda>bs. bs), ed25519_verify = (\<lambda>_ _ _. Inr True), number_text = (\<lambda>_. [])\<rparr>"

definition key_a :: jsstr where "key_a = replicate 64 97"
definition key_b :: jsstr where "key_b = replicate 64 98"
definition room_a :: jsstr where "room_a = replicate 32 48"

definition knock :: event where
  "knock = Connect 0 (js ''/v1/rendezvous'') None [0] [0]"

definition lobby :: control_room where
  "lobby = react plain_crypto knock (react plain_crypto knock (init_room None))"

definition registered_a :: control_room where
  "registered_a = take_over 0 key_a 0 lobby"

definition pair :: control_room where
  "pair = take_over 0 key_b 1 registered_a"

definition half_room :: control_room where
  "half_room = fst (joinRoom 0 room_a key_a pair)"

definition pair_room :: control_room where
  "pair_room = fst (joinRoom 1 room_a key_a half_room)"

lemma reachable_lobby: "reachable plain_crypto lobby"
  by (simp add: lobby_def knock_def reachable_react reachable_init del: react.simps)

lemma lobby_eval:
  "(clients lobby, nextSocket lobby, running lobby = None, queue lobby,
    c_peerId (clientData lobby 0), c_peerId (clientData lobby 1), c_rooms (clientData lobby 0))
   = ([0, 1], 2, True, [], None, None, [])"
  by code_simp

lemma inv_of_base: "base_ok {#} w \<Longrightarrow> running w = None \<Longrightarrow> queue w = [] \<Longrightarrow> room_inv w"
  by (simp add: room_inv_def entries_def running_ok_def)

lemma base_ok_lobby: "base_ok {#} lobby"
  using room_invD(1) [OF reachable_room_inv [OF reachable_lobby]] lobby_eval by (simp add: entries_def)

lemma peer_ids: "PEER_ID key_a" "PEER_ID key_b"
  by code_simp+

lemma registered_a_eval:
  "(queue registered_a, clients registered_a, c_peerId (clientData registered_a 1)) = ([], [0, 1], None)"
  by code_simp

lemma pair_eval: "(queue pair, clients pair, running pair = None) = ([], [0, 1], True)"
  by code_simp

lemma half_room_eval:
  "(queue half_room, clients half_room, running half_room = None) = ([], [0, 1], True)"
  by code_simp

lemma pair_room_eval:
  "(queue pair_room, clients pair_room, running pair_room = None) = ([], [0, 1], True)"
  by code_simp

lemma pair_room_room: "map_get (rooms pair_room) room_a = Some \<lparr>auth = key_a, members = [0, 1]\<rparr>"
  by code_simp

lemma base_ok_pair: "base_ok {#} pair"
proof -
  have "base_ok (mset (queue registered_a) + {#}) registered_a"
    unfolding registered_a_def using base_ok_lobby lobby_eval peer_ids by (intro take_over_ok(1)) simp_all
  then have "base_ok (mset (queue pair) + {#}) pair"
    unfolding pair_def using registered_a_eval peer_ids by (intro take_over_ok(1)) simp_all
  with pair_eval show ?thesis by simp
qed

lemma base_ok_half_room: "base_ok {#} half_room"
  using good_join [OF base_ok_pair, of 0 room_a key_a] pair_eval by (simp add: good_def half_room_def)

lemma room_inv_pair: "room_inv pair"
  using base_ok_pair pair_eval by (intro inv_of_base) simp_all

lemma room_inv_half_room: "room_inv half_room"
  using base_ok_half_room half_room_eval by (intro inv_of_base) simp_all

lemma room_inv_pair_room: "room_inv pair_room"
proof -
  have "base_ok {#} pair_room"
    using good_join [OF base_ok_half_room, of 1 room_a key_a] half_room_eval
    by (simp add: good_def pair_room_def)
  then show ?thesis using pair_room_eval by (intro inv_of_base) simp_all
qed

lemma join_eval:
  "(c_rooms (clientData pair 0), join_error 0 room_a key_a pair) = ([], None)"
  "(c_rooms (clientData half_room 1), join_error 1 room_a key_b half_room) = ([], Some ''Room authorization failed'')"
  by code_simp+

lemma signal_eval: "signal_error 0 room_a key_a pair_room = None"
  by code_simp

text \<open>The second connection registers the identity of the first; its signature is being checked.\<close>

definition claim_msg :: json_object where
  "claim_msg = [(js ''peer_id'', JStr key_a)]"

definition claim_entry :: pending_message where
  "claim_entry = \<lparr>pm_socket = 1, pm_message = claim_msg, pm_bytes = 9\<rparr>"

definition handover :: control_room where
  "handover = (enqueue 1 claim_msg 9 registered_a)\<lparr>queue := [], running := Some (claim_entry, Verifying)\<rparr>"

lemma claim_peer: "text_of claim_msg ''peer_id'' = key_a"
  by code_simp

lemma registered_a_room: "(\<not> queue_full 9 1 registered_a, map_get (socketsByPeerId registered_a) key_a) = (True, Some 0)"
  by code_simp

lemma handover_running: "running handover = Some (claim_entry, Verifying)"
  by (simp add: handover_def)

lemma handover_clients: "pm_socket claim_entry = 1" "pm_message claim_entry = claim_msg"
    "text_of claim_msg ''peer_id'' = key_a" "1 \<in> set (clients handover)"
  using registered_a_eval by (simp_all add: handover_def claim_entry_def claim_peer)

lemma handover_index: "map_get (socketsByPeerId handover) key_a = Some 0"
  using registered_a_room by (simp add: handover_def)

lemma handover_commit: "commit_error plain_crypto claim_msg = None"
  by (simp add: commit_error_def verifyEd25519_def plain_crypto_def)

lemma room_inv_handover: "room_inv handover"
proof -
  have "base_ok (mset (queue registered_a) + {#}) registered_a"
    unfolding registered_a_def using base_ok_lobby lobby_eval peer_ids by (intro take_over_ok(1)) simp_all
  then have "base_ok {#} registered_a" using registered_a_eval by simp
  then have "base_ok {#claim_entry#} (enqueue 1 claim_msg 9 registered_a)"
    unfolding claim_entry_def using registered_a_eval registered_a_room by (intro enqueue_base_ok) simp_all
  then have "base_ok (mset [] + {#claim_entry#})
      ((enqueue 1 claim_msg 9 registered_a)\<lparr>queue := [], running := Some (claim_entry, Done)\<rparr>)"
    using registered_a_eval by (intro base_ok_dequeue) (simp_all add: claim_entry_def)
  then have "base_ok {#claim_entry#} handover"
    by (subst base_ok_cong) (simp_all add: handover_def)
  moreover have "claim_ok claim_entry handover"
    using registered_a_eval peer_ids by (simp add: claim_ok_def handover_clients) (simp add: handover_def)
  ultimately show ?thesis
    by (simp add: room_inv_def entries_def running_ok_def handover_def)
qed

text \<open>A datagram of three bytes in the room.\<close>

definition datagram :: jsstr where "datagram = toBase64 [1, 2, 3]"

definition relayed :: control_room where
  "relayed = fst (relayDatagram 0 0 key_b datagram pair_room)"

lemma relay_result:
  "(case relayDatagram 0 0 key_b datagram pair_room of (w, x) \<Rightarrow>
      (x, drop (length (outputs pair_room)) (outputs w))) = (None, [Send 1 (RelayFrame key_a datagram)])"
  by code_simp

lemma relay_eval:
  "relayDatagram 0 0 key_b datagram pair_room = (relayed, None)"
  "Send 1 (RelayFrame key_a datagram) \<in> set (drop (length (outputs pair_room)) (outputs relayed))"
  using relay_result by (cases "relayDatagram 0 0 key_b datagram pair_room"; simp add: relayed_def)+

lemma limits_result:
  "(map_get (deviceLimits pair_room) key_a, map_get (deviceLimits pair_room) key_b)
     = (Some (fresh_limit 0), Some (fresh_limit 0))"
  by code_simp

lemma limit_eval:
  "map_get (deviceLimits pair_room) key_a = Some (fresh_limit 0)"
  "map_get (deviceLimits pair_room) key_b = Some (fresh_limit 0)"
  using limits_result by simp_all

lemma window_eval: "windowStartedAt (clientData lobby 0) = 0" "signalsInWindow (clientData lobby 0) = 0"
proof -
  have "(windowStartedAt (clientData lobby 0), signalsInWindow (clientData lobby 0)) = (0, 0)" by code_simp
  then show "windowStartedAt (clientData lobby 0) = 0" "signalsInWindow (clientData lobby 0) = 0" by simp_all
qed

definition join_msg :: json_object where
  "join_msg = [(js ''type'', JStr (js ''join'')), (js ''room_id'', JStr room_a), (js ''room_auth'', JStr key_a)]"

lemma half_room_peer: "truthy (c_peerId (clientData half_room 1))"
  by code_simp

lemma lobby_check: "snd (checkRateLimit 0 0 (field [(js ''type'', JStr (js ''join''))] ''type'') lobby) = None"
  by code_simp

end
