(* ===== verification/ControlProperties.thy ===== *)
theory ControlProperties
  imports ControlDemo
begin

text \<open>
  The properties of the Durable Object: what holds in every reachable state, the outcome of each
  operation in every state that satisfies the invariant, the bandwidth a device can use, and that
  the queue drains.
\<close>

subsection \<open>Every reachable state\<close>

text \<open>C1. Every state the object can reach, by any sequence of connections, frames, closes and resumed
  awaits, satisfies the invariant of rooms, pending work, connections, identities and queue.\<close>

theorem room_invariant: "reachable cr w \<Longrightarrow> room_inv w"
  by (rule reachable_room_inv)

theorem room_invariant_witness: "room_inv lobby"
  by (rule room_invariant [OF reachable_lobby])

text \<open>C6. In every reachable state \<open>retainedBytes\<close> is exactly the size of the signals stored for the open
  connections, and within the limit: no path, not even the closing of a connection while its
  message is being handled, leaks storage.\<close>

theorem retained_bytes_exact:
  assumes "reachable cr w"
  shows "retainedBytes w = (\<Sum>s\<leftarrow>clients w. \<Sum>e\<leftarrow>c_signals (clientData w s). int (length (snd e)))
    \<and> retainedBytes w \<le> MAX_RETAINED_BYTES"
  using rooms_okD(8,9) [OF base_okD(4) [OF room_invD(1) [OF reachable_room_inv [OF assms]]]]
  by (simp add: signal_bytes_def)

theorem retained_bytes_exact_witness:
  "retainedBytes lobby = (\<Sum>s\<leftarrow>clients lobby. \<Sum>e\<leftarrow>c_signals (clientData lobby s). int (length (snd e)))"
  using retained_bytes_exact [OF reachable_lobby] by simp

text \<open>In every state that satisfies the invariant (so in every reachable one) a room's list of
  members and the clients' own sets of rooms agree, members are open connections, no room is
  empty or overfull, and no client stores a signal for a room it is not in.\<close>

theorem membership_agrees:
  assumes "room_inv w" and "map_get (rooms w) r = Some room"
  shows "members room \<noteq> [] \<and> distinct (members room) \<and> length (members room) \<le> MAX_ROOM_MEMBERS
    \<and> set (members room) = {s \<in> set (clients w). r \<in> set (c_rooms (clientData w s))}
    \<and> (\<forall>s \<in> set (clients w). map_get (c_signals (clientData w s)) r \<noteq> None \<longrightarrow> s \<in> set (members room))"
proof -
  note D = rooms_okD [OF base_okD(4) [OF room_invD(1) [OF assms(1)]]]
  have m: "room_members w r = members room" using assms(2) by (simp add: room_members_def)
  have "s \<in> set (clients w)" if "r \<in> set (c_rooms (clientData w s))" for s
    using D(7) [of s] that by force
  moreover have "map_get (c_signals (clientData w s)) r \<noteq> None \<Longrightarrow> r \<in> set (c_rooms (clientData w s))" for s
    using D(6) [of s] by (auto simp: joined_ok_def map_get_None_iff)
  ultimately show ?thesis
    using D(4) [OF assms(2)] D(5) [of _ r] unfolding m by (auto simp: room_ok_def)
qed



text \<open>Identities are unique: in every reachable state the device index maps an identity to a
  connection exactly when that open connection registered it, so no two open connections share one,
  and each registered identity, and only those, has a bandwidth record.\<close>

theorem device_index_unique:
  assumes "reachable cr w"
  shows "(map_get (socketsByPeerId w) p = Some s
      \<longleftrightarrow> s \<in> set (clients w) \<and> c_peerId (clientData w s) = Some p)
    \<and> (s \<in> set (clients w) \<and> t \<in> set (clients w) \<and> c_peerId (clientData w s) = Some p
        \<and> c_peerId (clientData w t) = Some p \<longrightarrow> s = t)
    \<and> (map_get (deviceLimits w) p = None \<longleftrightarrow> map_get (socketsByPeerId w) p = None)"
proof -
  note ids = base_okD(2) [OF room_invD(1) [OF reachable_room_inv [OF assms]]]
  show ?thesis
    using ids_okD(3) [OF ids, of p s] ids_okD(3) [OF ids, of p t] limits_known [OF ids, of p] by auto
qed

text \<open>The connection counters are exact and capped: in every reachable state \<open>connections\<close> is the
  number of open connections, \<open>connectionsByIp\<close> holds for each address the number of its open
  connections (and no entry when it has none), and neither exceeds its limit.\<close>

theorem connection_counts:
  assumes "reachable cr w"
  shows "connections w = int (length (clients w)) \<and> connections w \<le> MAX_CONNECTIONS
    \<and> ip_connections w ip = int (length (filter (\<lambda>s. c_ip (clientData w s) = ip) (clients w)))
    \<and> ip_connections w ip \<le> MAX_CONNECTIONS_PER_IP
    \<and> (map_get (connectionsByIp w) ip = None \<longleftrightarrow> ip_connections w ip = 0)"
  using base_okD(6) [OF room_invD(1) [OF reachable_room_inv [OF assms]]]
  by (auto simp: conn_ok_def ip_connections_def from_ip_def)

subsection \<open>Cleanup\<close>

text \<open>Cleanup never throws: in every reachable state closing or rejecting a connection completes,
  and no request of a client fails because the socket of another is closed.\<close>

theorem cleanup_never_throws:
  assumes "reachable cr w" and "s < nextSocket w"
  shows "snd (handleClose s w) = None \<and> snd (rejectClient s e w) = None
    \<and> (s \<in> set (clients w) \<longrightarrow> snd (dispatch now s msg w) \<noteq> Some ''WebSocket is closed'')"
proof -
  have ok: "base_ok (mset (queue w) + running_part w) w"
    using room_invD(1) [OF reachable_room_inv [OF assms(1)]] by (simp add: mset_entries)
  show ?thesis
    using handleClose_settled [OF ok, of s] reject_settled [OF ok assms(2), of e] good_dispatch [OF ok, of s now msg]
    by (simp add: settled_def good_def)
qed

text \<open>A closed connection leaves nothing behind: after \<open>handleClose\<close> it is no client, a member of no
  room, stores no signal, has no queued message and owns no identity, while the data of every
  other client is untouched.\<close>

theorem close_leaves_nothing:
  assumes inv: "room_inv w" and s: "s \<in> set (clients w)"
  defines "w' \<equiv> fst (handleClose s w)"
  shows "clients w' = set_del s (clients w)
    \<and> (\<forall>r room. map_get (rooms w') r = Some room \<longrightarrow> s \<notin> set (members room))
    \<and> c_rooms (clientData w' s) = [] \<and> c_signals (clientData w' s) = []
    \<and> queue w' = filter (\<lambda>e. pm_socket e \<noteq> s) (queue w)
    \<and> (\<forall>p. map_get (socketsByPeerId w') p \<noteq> Some s)
    \<and> connections w' = connections w - 1
    \<and> (\<forall>t. t \<noteq> s \<longrightarrow> clientData w' t = (clientData w t)
          \<lparr>c_pendingMessages := c_pendingMessages (clientData w' t),
           c_pendingBytes := c_pendingBytes (clientData w' t)\<rparr>)"
proof -
  have ok: "base_ok (mset (queue w) + running_part w) w"
    using room_invD(1) [OF inv] by (simp add: mset_entries)
  have w': "w' = appended (close_core s w) (close_out s w)"
    unfolding w'_def handleClose_closed_form(1) [OF base_okD(1) [OF ok] s] by simp
  have ok': "base_ok (mset (queue w') + running_part w) w'"
    unfolding w' using base_ok_close [OF ok s] by simp
  note D = base_okD [OF ok'] and R = rooms_okD [OF base_okD(4) [OF ok']]
  have c: "clients w' = set_del s (clients w)" by (simp add: w')
  have r: "c_rooms (clientData w' s) = []" using R(7) [of s] c by simp
  then have "map_keys (c_signals (clientData w' s)) = []" using R(6) [of s] by (simp add: joined_ok_def)
  then have sig: "c_signals (clientData w' s) = []" by (simp add: map_keys_def)
  have mem: "s \<notin> set (members room)" if "map_get (rooms w') x = Some room" for x room
    using R(5) [of s x] r that by (simp add: room_members_def)
  have ids: "map_get (socketsByPeerId w') p \<noteq> Some s" for p
    using ids_okD(3) [OF D(2), of p s] c by simp
  have "connections w' = connections w - 1"
    using D(6) base_okD(6) [OF ok] length_set_del [of "clients w" s] s unfolding conn_ok_def c by simp
  moreover have "\<forall>t. t \<noteq> s \<longrightarrow> clientData w' t = (clientData w t)
      \<lparr>c_pendingMessages := c_pendingMessages (clientData w' t),
       c_pendingBytes := c_pendingBytes (clientData w' t)\<rparr>"
    unfolding w' appended_fields by (intro allI impI) (rule close_core_others)
  moreover have "queue w' = filter (\<lambda>e. pm_socket e \<noteq> s) (queue w)" by (simp add: w')
  ultimately show ?thesis using c r sig mem ids by blast
qed

end
