(* ===== verification/ControlOperations.thy ===== *)
theory ControlOperations
  imports ControlDemo
begin

text \<open>
  The outcome of the operations of the Durable Object in every state that satisfies its invariant:
  who may join a room, what a signal stores and sends, to whom the relay delivers and how much, how
  often a client may speak, that a new session of a device replaces the old one, and that the
  queue drains.
\<close>

subsection \<open>Rooms\<close>

text \<open>Joining: an existing room admits a connection only with the room's own authorization and below
  the member limit, a new room takes the authorization given; a refusal changes nothing and names
  the first guard that failed; the joining client is sent the signals stored for the room, then the
  confirmation, and every member the new size.\<close>

theorem join_outcome:
  assumes inv: "room_inv w" and s: "s \<in> set (clients w)" and r: "r \<notin> set (c_rooms (clientData w s))"
  shows "(case join_error s r a w of
      Some e \<Rightarrow> joinRoom s r a w = (w, Some e)
    | None \<Rightarrow>
        (\<exists>w'. joinRoom s r a w = (w', None)
          \<and> ROOM_ID r \<and> ROOM_AUTH a
          \<and> map_get (rooms w') r = Some \<lparr>auth = (case map_get (rooms w) r of Some x \<Rightarrow> auth x | None \<Rightarrow> a),
               members = room_members w r @ [s]\<rparr>
          \<and> (\<forall>x. map_get (rooms w) r = Some x \<longrightarrow> fromHex (auth x) = fromHex a
                \<and> length (members x) < MAX_ROOM_MEMBERS)
          \<and> (\<forall>r'. r' \<noteq> r \<longrightarrow> map_get (rooms w') r' = map_get (rooms w) r')
          \<and> outputs w' = outputs w
              @ map (\<lambda>p. Send s (SignalFrame r p)) (room_payloads r (room_members w r) w)
              @ [Send s (JoinedFrame r (int (length (room_members w r) + 1)))]
              @ map (\<lambda>m. Send m (RefreshFrame r (int (length (room_members w r) + 1)))) (room_members w r @ [s])))"
proof -
  note D = base_okD [OF room_invD(1) [OF inv]]
  have snot: "s \<notin> set (room_members w r)" using rooms_okD(5) [OF D(4), of s r] r by simp
  note J = joinRoom_open [of w s r a, OF client_open [OF D(7) s] member_open [OF D(1)]]
  show ?thesis
  proof (cases "join_error s r a w")
    case (Some e)
    with J show ?thesis by simp
  next
    case None
    let ?w = "join_core s r a w"
    have mem: "room_members ?w r = room_members w r @ [s]"
      using snot by (simp add: room_members_join_core set_add_def)
    have "map_get (rooms ?w) r = Some \<lparr>auth = (case map_get (rooms w) r of Some x \<Rightarrow> auth x | None \<Rightarrow> a),
        members = room_members w r @ [s]\<rparr>"
      using snot by (auto simp: join_core_def Let_def room_members_def set_add_def split: option.splits)
    moreover have "map_get (rooms ?w) r' = map_get (rooms w) r'" if "r' \<noteq> r" for r'
      using that by (simp add: join_core_def Let_def)
    moreover have "ROOM_ID r" "ROOM_AUTH a"
      "\<forall>x. map_get (rooms w) r = Some x \<longrightarrow> fromHex (auth x) = fromHex a \<and> length (members x) < MAX_ROOM_MEMBERS"
      using None r by (auto simp: join_error_def split: if_splits option.splits)
    ultimately show ?thesis
      using J None r by (auto simp: join_out_def mem refresh_out_def broadcast_out_def)
  qed
qed

text \<open>Signalling: a member's payload of 1 to \<open>MAX_SIGNAL_LENGTH\<close> characters that fits the storage limit
  replaces its previous one for that room and is sent once to every other member and to nobody
  else; otherwise nothing changes.\<close>

theorem signal_outcome:
  assumes inv: "room_inv w" and s: "s \<in> set (clients w)"
  shows "(case signal_error s r p w of
      Some e \<Rightarrow> signalRoom s r p w = (w, Some e)
    | None \<Rightarrow>
        (\<exists>w'. signalRoom s r p w = (w', None)
          \<and> map_get (c_signals (clientData w' s)) r = Some p
          \<and> retainedBytes w' = retainedBytes w + int (length p)
              - payload_length (map_get (c_signals (clientData w s)) r)
          \<and> rooms w' = rooms w
          \<and> outputs w' = outputs w @ map (\<lambda>m. Send m (SignalFrame r p)) (set_del s (room_members w r))))"
proof -
  note D = base_okD [OF room_invD(1) [OF inv]]
  note S = signalRoom_open [of w r s p, OF member_open [OF D(1)]]
  have "filter (\<lambda>m. m \<noteq> s) ms = set_del s ms" for ms :: "sock list" by (simp add: set_del_def)
  moreover have "retainedBytes (signal_core s r p w) = retainedBytes w + int (length p)
      - payload_length (map_get (c_signals (clientData w s)) r)"
    by (simp add: signal_core_def)
  ultimately show ?thesis
    using S by (auto simp: broadcast_out_def split: option.splits)
qed

subsection \<open>Sessions\<close>

text \<open>A device has one session: when a registration with a good signature commits, the device index
  names the registering connection, and the connection that held the identity before is no longer
  a client and has been closed.\<close>

theorem registration_replaces:
  assumes inv: "room_inv w" and run: "running w = Some (e, Verifying)"
    and s: "pm_socket e \<in> set (clients w)" and sig: "commit_error cr (pm_message e) = None"
  defines "p \<equiv> text_of (pm_message e) ''peer_id''"
  shows "map_get (socketsByPeerId (resume cr now w)) p = Some (pm_socket e)
    \<and> c_peerId (clientData (resume cr now w) (pm_socket e)) = Some p
    \<and> (\<forall>u. map_get (socketsByPeerId w) p = Some u \<and> u \<noteq> pm_socket e \<longrightarrow>
          u \<notin> set (clients (resume cr now w)) \<and> u \<in> set (closedSockets (resume cr now w)))"
proof -
  let ?s = "pm_socket e"
  have ok: "base_ok (mset (queue w) + {#e#}) w"
    using room_invD(1) [OF inv] run by (simp add: entries_def)
  have claim: "claim_ok e w" using room_invD(2) [OF inv] run s by (simp add: running_ok_def)
  then have p: "PEER_ID p" "c_peerId (clientData w ?s) = None \<or> c_peerId (clientData w ?s) = Some p"
    by (simp_all add: claim_ok_def p_def)
  note T = take_over_ok [OF ok s p, of now]
  have "registerDevice_commit cr now ?s (pm_message e) w =
      (appended (take_over now p ?s w) [Send ?s (DeviceRegistered p (relayEnabled w))], None)"
    using commit_closed_form [OF ok, of ?s "pm_message e" cr now] claim s sig
    by (simp add: claim_ok_def p_def)
  then have res: "resume cr now w = (appended (take_over now p ?s w)
      [Send ?s (DeviceRegistered p (relayEnabled w))])\<lparr>running := Some (e, Done)\<rparr>"
    using run by (simp add: resume_def handleMessage_resume_def or_reject_def settle_def)
  have "c_peerId (clientData (take_over now p ?s w) ?s) = Some p"
    using ids_okD(3) [OF base_okD(2) [OF T(1)], of p ?s] T(4) by simp
  moreover have "u \<notin> set (clients (take_over now p ?s w)) \<and> u \<in> set (closedSockets (take_over now p ?s w))"
    if "map_get (socketsByPeerId w) p = Some u" "u \<noteq> ?s" for u
    using that by (simp add: take_over_def)
  ultimately show ?thesis using T(4) by (simp add: res)
qed

subsection \<open>Progress\<close>

text \<open>How many times the drain loop may still be resumed.\<close>

definition stage_weight :: "stage \<Rightarrow> nat" where
  "stage_weight st = (case st of Digesting \<Rightarrow> 3 | Verifying \<Rightarrow> 2 | Done \<Rightarrow> 1)"

definition work :: "control_room \<Rightarrow> nat" where
  "work w = (case running w of None \<Rightarrow> 0 | Some (e, st) \<Rightarrow> stage_weight st) + 3 * length (queue w)"

lemma work_settle:
  assumes "settled R w r"
  shows "work (settle e (st, r)) \<le> stage_weight st + 3 * length (queue w)"
  using assms unfolding settle_settled [OF assms] by (simp add: work_def settled_def shrinks_def)

lemma stage_weight_le: "stage_weight st \<le> 3"
  by (simp add: stage_weight_def split: stage.splits)

lemma work_drain_next:
  assumes "base_ok (mset (queue w)) w"
  shows "work (drain_next now w) \<le> 3 * length (queue w)"
proof (cases "queue w")
  case Nil
  then show ?thesis by (simp add: drain_next_def work_def)
next
  case (Cons e q)
  let ?w = "w\<lparr>queue := q, running := Some (e, Done)\<rparr>"
  obtain st r where h: "handleMessage_start now (pm_socket e) (pm_message e) ?w = (st, r)"
    by (cases "handleMessage_start now (pm_socket e) (pm_message e) ?w")
  note B = base_ok_dequeue [OF assms Cons]
  have "settled {#e#} ?w r" using B handleMessage_start_ok [OF _ _ h, of "{#e#}"] by simp
  from work_settle [OF this, of e st] stage_weight_le [of st] h Cons show ?thesis
    by (simp add: drain_next_def)
qed

lemma handleMessage_resume_progress:
  assumes "handleMessage_resume cr now st s m w = (st', r)" "st \<noteq> Done"
  shows "stage_weight st' < stage_weight st"
  using assms by (cases st) (auto simp: handleMessage_resume_def stage_weight_def split: prod.splits option.splits)

lemma work_resume:
  assumes inv: "room_inv w" and run: "running w \<noteq> None"
  shows "work (resume cr now w) < work w"
proof -
  obtain e st where es: "running w = Some (e, st)" using run by auto
  have ok: "base_ok (mset (queue w) + {#e#}) w"
    using room_invD(1) [OF inv] es by (simp add: entries_def)
  show ?thesis
  proof (cases "st = Done")
    case True
    have pend: "pending_ok (add_mset e (mset (queue w))) w" using base_okD(5) [OF ok] by simp
    have "base_ok (mset (queue w)) (release_core e w)" by (rule base_ok_release [OF ok])
    then have "work (drain_next now (release_core e w)) \<le> 3 * length (queue w)"
      using work_drain_next [of "release_core e w" now] by simp
    then show ?thesis using True es
      by (simp add: resume_def releasePending_ok [OF pend] work_def stage_weight_def)
  next
    case False
    have n: "pm_socket e < nextSocket w" using base_okD(7) [OF ok] by (simp add: sock_ok_def)
    have c: "pm_socket e \<in> set (clients w) \<Longrightarrow> claim_ok e w"
      using room_invD(2) [OF inv] es False by (simp add: running_ok_def)
    obtain st' r where h: "handleMessage_resume cr now st (pm_socket e) (pm_message e) w = (st', r)"
      by (cases "handleMessage_resume cr now st (pm_socket e) (pm_message e) w")
    have "settled {#e#} w r" using handleMessage_resume_ok [OF ok n c h] by simp
    from work_settle [OF this, of e st'] handleMessage_resume_progress [OF h False] es h False
    show ?thesis by (cases st) (simp_all add: resume_def work_def)
  qed
qed

lemma drains_aux:
  assumes "room_inv w" "work w \<le> length ts"
  shows "running (fold (resume cr) ts w) = None \<and> room_inv (fold (resume cr) ts w)"
  using assms
proof (induction ts arbitrary: w)
  case Nil
  then have "work w = 0" by simp
  then have "running w = None"
    by (cases "running w") (auto simp: work_def stage_weight_def split: prod.splits stage.splits)
  with Nil show ?case by simp
next
  case (Cons t ts)
  have "work (resume cr t w) \<le> length ts"
  proof (cases "running w = None")
    case True
    then have "resume cr t w = w" "queue w = []"
      using room_invD(2) [OF Cons.prems(1)] by (simp_all add: resume_def running_ok_def)
    with True show ?thesis by (simp add: work_def)
  next
    case False
    with work_resume [OF Cons.prems(1) False, of cr t] Cons.prems(2) show ?thesis by simp
  qed
  with Cons.IH [of "resume cr t w"] resume_inv [OF Cons.prems(1)] show ?case by simp
qed

text \<open>C5. The queue drains: from every reachable state, three resumed awaits for each queued message and
  the one being handled finish all of them, whatever the messages are: nothing is left queued or
  pending, and the next message starts a new drain.\<close>

theorem queue_drains:
  assumes "reachable cr w" and "3 * length (entries w) \<le> length ts"
  shows "running (fold (resume cr) ts w) = None \<and> queue (fold (resume cr) ts w) = []
    \<and> pendingMessages (fold (resume cr) ts w) = 0 \<and> pendingBytes (fold (resume cr) ts w) = 0"
proof -
  let ?w = "fold (resume cr) ts w"
  have "work w \<le> 3 * length (entries w)"
    using stage_weight_le by (auto simp: work_def entries_def split: option.splits)
  then have d: "running ?w = None" "room_inv ?w"
    using drains_aux [OF reachable_room_inv [OF assms(1)], of ts cr] assms(2) by simp_all
  then have "queue ?w = []" using room_invD(2) [OF d(2)] by (simp add: running_ok_def)
  with d base_okD(5) [OF room_invD(1) [OF d(2)]] show ?thesis
    by (simp add: entries_def pending_ok_def)
qed

theorem queue_drains_witness: "running (fold (resume plain_crypto) [0, 0, 0] lobby) = None"
  using queue_drains [OF reachable_lobby, of "[0, 0, 0]"] lobby_eval by (simp add: entries_def)

end
