(* ===== verification/ControlQuota.thy ===== *)
theory ControlQuota
  imports ControlDemo
begin

text \<open>
  What the relay delivers and what the limits of the Durable Object bound: a datagram reaches only
  a registered device that shares a room with its sender, the bytes a device sends and receives
  stay below its token buckets, and the messages a client gets through in a window stay below the
  limits of \<open>config.ts\<close>.
\<close>

subsection \<open>Delivery\<close>

lemma peersShareRoomE:
  assumes "peersShareRoom s q w"
  obtains r m where "r \<in> set (c_rooms (clientData w s))" "m \<in> set (room_members w r)"
    "m \<in> set (clients w)" "c_peerId (clientData w m) = Some q" "c_peerId (clientData w s) \<noteq> Some q"
  using assms
  by (fastforce simp: peersShareRoom_def Let_def room_members_def client_def list_ex_iff
      split: if_splits option.splits)

text \<open>C3. The relay delivers only between room mates: when a datagram of a client is forwarded, the relay is
  enabled, the receiving connection is another one, the one registered under the addressed
  identity, and both are members of a common room; what it receives carries the sender's own
  registered identity and exactly the payload sent, which is the canonical base64 form of 1 to
  \<open>MAX_RELAY_FRAME_LENGTH\<close> bytes.\<close>

theorem relay_delivery:
  assumes inv: "room_inv w" and s: "s \<in> set (clients w)"
    and r: "relayDatagram now s q payload w = (w', None)"
    and f: "Send t (RelayFrame sender x) \<in> set (drop (length (outputs w)) (outputs w'))"
  shows "relayEnabled w \<and> x = payload \<and> c_peerId (clientData w s) = Some sender
    \<and> map_get (socketsByPeerId w) q = Some t \<and> c_peerId (clientData w t) = Some q
    \<and> t \<in> set (clients w) \<and> t \<noteq> s
    \<and> (\<exists>room. s \<in> set (room_members w room) \<and> t \<in> set (room_members w room))
    \<and> (\<exists>bs. fromBase64 payload = Some bs \<and> toBase64 bs = payload \<and> bs \<noteq> []
          \<and> length bs \<le> MAX_RELAY_FRAME_LENGTH)"
proof -
  note D = base_okD [OF room_invD(1) [OF inv]] and I = ids_okD [OF base_okD(2) [OF room_invD(1) [OF inv]]]
  obtain p where p: "c_peerId (clientData w s) = Some p"
    using r by (cases "c_peerId (clientData w s)") (auto simp: relayDatagram_def split: if_splits)
  have c: "relayEnabled w" "relay_frame_ok q payload"
      "w' = appended (relay_core now s q payload w) (relay_out now s q payload w)"
    using r unfolding relayDatagram_closed_form [OF room_invD(1) [OF inv] s p] by (auto split: if_splits)
  then have out: "Send t (RelayFrame sender x) \<in> set (relay_out now s q payload w)" using f by simp
  then have share: "peersShareRoom s q w" and t: "map_get (socketsByPeerId w) q = Some t"
      and px: "sender = p" "x = payload"
    using p by (auto simp: relay_out_def Let_def split: if_splits option.splits)
  from share obtain room m where m: "room \<in> set (c_rooms (clientData w s))" "m \<in> set (room_members w room)"
      "m \<in> set (clients w)" "c_peerId (clientData w m) = Some q" "c_peerId (clientData w s) \<noteq> Some q"
    by (rule peersShareRoomE)
  have "m = t" using I(3) [of q m] t m(3,4) by simp
  moreover have "s \<in> set (room_members w room)" using rooms_okD(5) [OF D(4), of s room] m(1) by simp
  moreover have "t \<noteq> s" using m(4,5) \<open>m = t\<close> by auto
  ultimately show ?thesis using c(1,2) m t p px unfolding relay_frame_ok_def by blast
qed

theorem relay_delivery_witness:
  "\<exists>room. 0 \<in> set (room_members pair_room room) \<and> 1 \<in> set (room_members pair_room room)"
  using relay_delivery [OF room_inv_pair_room _ relay_eval(1) relay_eval(2)] pair_room_eval by simp

subsection \<open>Bandwidth\<close>

type_synonym transfer = "int \<times> jsstr \<times> jsstr \<times> nat"

text \<open>A sequence of requests for bandwidth; the bytes granted to \<open>p\<close> as the sender, and as the
  receiver.\<close>

fun granted :: "(jsstr \<Rightarrow> jsstr \<Rightarrow> bool) \<Rightarrow> transfer list \<Rightarrow> control_room \<Rightarrow> nat" where
  "granted sel [] w = 0"
| "granted sel ((now, a, b, n) # ts) w =
     (case reserveRelayBandwidth now a b n w of
        (w', res) \<Rightarrow> (if res = Inr True \<and> sel a b then n else 0) + granted sel ts w')"

fun transfers_ok :: "int \<Rightarrow> int \<Rightarrow> transfer list \<Rightarrow> control_room \<Rightarrow> bool" where
  "transfers_ok from_t to_t [] w = (from_t \<le> to_t)"
| "transfers_ok from_t to_t ((now, a, b, n) # ts) w =
     (from_t \<le> now \<and> a \<noteq> b \<and> map_get (deviceLimits w) a \<noteq> None \<and> map_get (deviceLimits w) b \<noteq> None
      \<and> transfers_ok now to_t ts w)"

lemma transfers_ok_cong:
  "(\<And>p. map_get (deviceLimits w') p = None \<longleftrightarrow> map_get (deviceLimits w) p = None) \<Longrightarrow>
     transfers_ok f t ts w' = transfers_ok f t ts w"
  by (induction ts arbitrary: f) auto

lemma get_limit_reserve:
  assumes "map_get (deviceLimits w) a \<noteq> None" "map_get (deviceLimits w) b \<noteq> None" "a \<noteq> b"
  shows "get_limit (fst (reserveRelayBandwidth now a b n w)) p =
    (if p = a then
       (if relay_allowed now a b n w
        then (drop_idle now (ready_limit now w a))
          \<lparr>relayPeers := map_set b now (relayPeers (drop_idle now (ready_limit now w a))),
           tokens := tokens (ready_limit now w a) - of_nat n\<rparr>
        else drop_idle now (ready_limit now w a))
     else if p = b then
       (if relay_allowed now a b n w
        then (ready_limit now w b)\<lparr>receiveTokens := receiveTokens (ready_limit now w b) - of_nat n\<rparr>
        else ready_limit now w b)
     else get_limit w p)"
  using assms(3) by (auto simp: reserve_cases [OF assms] charged_def refilled_def Let_def)

lemma reserve_known:
  assumes "map_get (deviceLimits w) a \<noteq> None" "map_get (deviceLimits w) b \<noteq> None" "a \<noteq> b"
  shows "map_get (deviceLimits (fst (reserveRelayBandwidth now a b n w))) p = None
    \<longleftrightarrow> map_get (deviceLimits w) p = None"
  using assms by (auto simp: reserve_cases [OF assms] charged_def refilled_def Let_def)

definition rate_between :: "int \<Rightarrow> int \<Rightarrow> rat" where
  "rate_between a b = of_int (b - a) * RELAY_BYTES_PER_SECOND / 1000"

lemma rate_between_simps:
  "rate_between a a = 0" "rate_between a b + rate_between b c = rate_between a c"
  "a \<le> b \<Longrightarrow> 0 \<le> rate_between a b"
  by (simp_all add: rate_between_def control_limits field_simps)

lemma rate_between_mono: "a \<le> a' \<Longrightarrow> rate_between a' b \<le> rate_between a b"
  using rate_between_simps(2) [of a a' b] rate_between_simps(3) [of a a'] by linarith

lemma tokens_refill:
  "tokens (refill now l) = min RELAY_BURST_BYTES (tokens l + rate_between (updatedAt l) now)"
  "receiveTokens (refill now l) = min RELAY_BURST_BYTES (receiveTokens l + rate_between (updatedAt l) now)"
  "updatedAt (refill now l) = now"
  by (simp_all add: refill_def rate_between_def)

lemma refill_bounds:
  assumes "updatedAt l \<le> now"
  shows "tokens (refill now l) \<le> tokens l + rate_between (updatedAt l) now"
    "receiveTokens (refill now l) \<le> receiveTokens l + rate_between (updatedAt l) now"
    "0 \<le> tokens l \<Longrightarrow> 0 \<le> tokens (refill now l)"
    "0 \<le> receiveTokens l \<Longrightarrow> 0 \<le> receiveTokens (refill now l)"
  using rate_between_simps(3) [OF assms] by (simp_all add: tokens_refill control_limits)

text \<open>What is left in both buckets of \<open>p\<close>, with what was taken, never exceeds what it started with
  and what flowed in.\<close>

definition buckets_ok :: "int \<Rightarrow> device_limit \<Rightarrow> bool" where
  "buckets_ok t l \<longleftrightarrow> 0 \<le> tokens l \<and> 0 \<le> receiveTokens l \<and> updatedAt l \<le> t"

lemma reserve_step:
  assumes known: "map_get (deviceLimits w) a \<noteq> None" "map_get (deviceLimits w) b \<noteq> None" "a \<noteq> b"
    and l: "buckets_ok now (get_limit w p)"
    and r: "reserveRelayBandwidth now a b n w = (w', res)"
  shows "buckets_ok now (get_limit w' p) \<and> updatedAt (get_limit w p) \<le> updatedAt (get_limit w' p)
    \<and> tokens (get_limit w' p) + (if res = Inr True \<and> a = p then of_nat n else 0)
        \<le> tokens (get_limit w p) + rate_between (updatedAt (get_limit w p)) (updatedAt (get_limit w' p))
    \<and> receiveTokens (get_limit w' p) + (if res = Inr True \<and> b = p then of_nat n else 0)
        \<le> receiveTokens (get_limit w p) + rate_between (updatedAt (get_limit w p)) (updatedAt (get_limit w' p))"
proof -
  have w': "w' = fst (reserveRelayBandwidth now a b n w)" using r by simp
  have res: "res = Inr (relay_allowed now a b n w)" using r by (simp add: reserve_cases [OF known] split: if_splits)
  have allowed: "relay_allowed now a b n w \<Longrightarrow>
      of_nat n \<le> tokens (ready_limit now w a) \<and> of_nat n \<le> receiveTokens (ready_limit now w b)"
    by (simp add: relay_allowed_def Let_def)
  have up: "updatedAt (get_limit w p) \<le> now" using l by (simp add: buckets_ok_def)
  note B = refill_bounds [OF up] and G = get_limit_reserve [OF known, of now n p, folded w']
  show ?thesis
    using l B allowed known(3) unfolding G res buckets_ok_def
    by (cases "p = a"; cases "p = b"; cases "relay_allowed now a b n w")
      (auto simp: ready_limit_def tokens_refill(3) rate_between_simps)
qed

lemma granted_bound:
  assumes "transfers_ok t0 t1 ts w" "buckets_ok t0 (get_limit w p)"
  shows "of_nat (granted (\<lambda>a b. a = p) ts w) \<le> tokens (get_limit w p) + rate_between (updatedAt (get_limit w p)) t1
    \<and> of_nat (granted (\<lambda>a b. b = p) ts w)
        \<le> receiveTokens (get_limit w p) + rate_between (updatedAt (get_limit w p)) t1"
  using assms
proof (induction ts arbitrary: w t0)
  case Nil
  then have "0 \<le> rate_between (updatedAt (get_limit w p)) t1"
    by (intro rate_between_simps(3)) (simp add: buckets_ok_def)
  with Nil show ?case by (simp add: buckets_ok_def)
next
  case (Cons tr ts)
  obtain now a b n where tr: "tr = (now, a, b, n)" by (cases tr)
  have known: "map_get (deviceLimits w) a \<noteq> None" "map_get (deviceLimits w) b \<noteq> None" "a \<noteq> b"
      and t: "t0 \<le> now" "transfers_ok now t1 ts w"
    using Cons.prems(1) by (simp_all add: tr)
  have l: "buckets_ok now (get_limit w p)" using Cons.prems(2) t(1) by (simp add: buckets_ok_def)
  obtain w' res where r: "reserveRelayBandwidth now a b n w = (w', res)"
    by (cases "reserveRelayBandwidth now a b n w")
  note S = reserve_step [OF known l r]
  have "transfers_ok now t1 ts w'"
    using t(2) transfers_ok_cong [of w' w] reserve_known [OF known, of now n] r by simp
  note IH = Cons.IH [OF this]
  show ?case
    using S IH rate_between_simps(2) [of "updatedAt (get_limit w p)" "updatedAt (get_limit w' p)" t1]
    by (auto simp: tr r split: if_splits)
qed

text \<open>C2. The relay honours its rate: over any sequence of requests at non-decreasing times up to \<open>t1\<close>, the
  bytes granted to a registered device as sender, and those granted to it as receiver, are each at
  most the burst plus the rate times the seconds since its bucket was last updated.\<close>

theorem relay_bandwidth:
  assumes "room_inv w" and "map_get (deviceLimits w) p = Some l"
    and "buckets_ok t0 l" and "transfers_ok t0 t1 ts w"
  shows "of_nat (granted (\<lambda>a b. a = p) ts w)
        \<le> RELAY_BURST_BYTES + of_int (t1 - updatedAt l) * RELAY_BYTES_PER_SECOND / 1000
    \<and> of_nat (granted (\<lambda>a b. b = p) ts w)
        \<le> RELAY_BURST_BYTES + of_int (t1 - updatedAt l) * RELAY_BYTES_PER_SECOND / 1000"
proof -
  have l: "get_limit w p = l" using assms(2) by (simp add: get_limit_def)
  have "tokens l \<le> RELAY_BURST_BYTES \<and> receiveTokens l \<le> RELAY_BURST_BYTES"
    using ids_okD(6) [OF base_okD(2) [OF room_invD(1) [OF assms(1)]] assms(2)] by (simp add: limit_ok_def)
  with granted_bound [OF assms(4), of p] assms(3) show ?thesis
    unfolding l rate_between_def by auto
qed

theorem relay_bandwidth_witness:
  "of_nat (granted (\<lambda>a b. a = key_a) [(5, key_a, key_b, 100), (9, key_b, key_a, 7)] pair_room)
     \<le> RELAY_BURST_BYTES + of_int (9 - 0) * RELAY_BYTES_PER_SECOND / 1000"
  using relay_bandwidth [OF room_inv_pair_room limit_eval(1), of 0 9 "[(5, key_a, key_b, 100), (9, key_b, key_a, 7)]"]
    limit_eval by (simp add: buckets_ok_def fresh_limit_def control_limits key_a_def key_b_def)

subsection \<open>Message windows\<close>

text \<open>The three kinds of messages, the counter and the limit of each.\<close>

datatype kind = Signals | PeerFetches | Others

definition kind_of :: "json option \<Rightarrow> kind" where
  "kind_of t = (if t = Some (JStr (js ''signal'')) then Signals
     else if t = Some (JStr (js ''get_peers'')) then PeerFetches else Others)"

fun counter :: "kind \<Rightarrow> 'a rate_limit_scheme \<Rightarrow> int" where
  "counter Signals r = signalsInWindow r"
| "counter PeerFetches r = peerFetchesInWindow r"
| "counter Others r = controlMessagesInWindow r"

fun limit_of :: "kind \<Rightarrow> int" where
  "limit_of Signals = MAX_SIGNALS_PER_MINUTE"
| "limit_of PeerFetches = MAX_PEER_FETCHES_PER_MINUTE"
| "limit_of Others = MAX_CONTROL_MESSAGES_PER_MINUTE"

text \<open>How many messages of a kind pass the check, in a sequence of messages of client \<open>s\<close>.\<close>

fun passed :: "kind \<Rightarrow> sock \<Rightarrow> (int \<times> json option) list \<Rightarrow> control_room \<Rightarrow> nat" where
  "passed k s [] w = 0"
| "passed k s ((now, t) # ms) w =
     (case checkRateLimit now s t w of
        (w', e) \<Rightarrow> (if e = None \<and> kind_of t = k then 1 else 0) + passed k s ms w')"

lemma counter_count:
  "counter k (count_message t r) = counter k r + (if kind_of t = k then 1 else 0)"
  by (cases k) (auto simp: count_message_def kind_of_def)

lemma counter_over: "\<not> over_limit r \<Longrightarrow> counter k r \<le> limit_of k"
  by (cases k) (simp_all add: over_limit_def)

lemma check_counts:
  fixes w :: control_room
  assumes "checkRateLimit now s t w = (w', e)" "now - windowStartedAt (clientData w s) < 60000"
  shows "windowStartedAt (clientData w' s) = windowStartedAt (clientData w s)"
    "counter k (clientData w' s) = counter k (clientData w s) + (if kind_of t = k then 1 else 0)"
    "e = None \<Longrightarrow> counter k (clientData w' s) \<le> limit_of k"
  using assms counter_over [of "clientData w' s" k]
  by (auto simp: checkRateLimit_def Let_def reset_window_def counter_count split: if_splits)

lemma passed_bound:
  assumes "\<forall>(now, t) \<in> set ms. now - windowStartedAt (clientData w s) < 60000"
  shows "int (passed k s ms w) + counter k (clientData w s) \<le> max (counter k (clientData w s)) (limit_of k)"
  using assms
proof (induction ms arbitrary: w)
  case Nil
  then show ?case by simp
next
  case (Cons m ms)
  obtain now t where m: "m = (now, t)" by (cases m)
  obtain w' e where c: "checkRateLimit now s t w = (w', e)" by (cases "checkRateLimit now s t w")
  have n: "now - windowStartedAt (clientData w s) < 60000" using Cons.prems m by simp
  note C = check_counts(1) [OF c n] check_counts(2,3) [OF c n, where k = k]
  have "int (passed k s ms w') + counter k (clientData w' s) \<le> max (counter k (clientData w' s)) (limit_of k)"
    using Cons.prems C(1) by (intro Cons.IH) simp
  with C(2,3) c show ?case by (auto simp: m split: if_splits)
qed

text \<open>Within one window of a client no more messages of a kind pass than its limit allows, however the
  kinds interleave: with \<open>n\<close> already counted, at most the limit less \<open>n\<close> more.\<close>

theorem window_limit:
  assumes "\<forall>(now, t) \<in> set ms. now - windowStartedAt (clientData w s) < 60000"
    and "0 \<le> counter k (clientData w s)" and "counter k (clientData w s) \<le> limit_of k"
  shows "int (passed k s ms w) \<le> limit_of k - counter k (clientData w s)"
  using passed_bound [OF assms(1), of k] assms(3) by simp

end
