(* ===== verification/ControlServer.thy ===== *)
theory ControlServer
  imports ControlLife
begin

text \<open>
  The Bun server of \<open>control/src/index.ts\<close>, the second runtime of the control service: module
  variables in a record, client data attached to its socket with a flag \<open>closed\<close>, messages
  handled synchronously. Its \<open>send\<close> never throws: a frame for a closed socket is dropped. The digest
  and the signature check are those of \<open>crypto\<close>; \<open>Buffer\<close>'s decoders, which skip what they cannot
  read, are modelled here. Limits, patterns, rate-limit records and frames are shared with the
  Durable Object, as the code shares \<open>config.ts\<close> and the wire format.
\<close>

subsection \<open>Buffer\<close>

text \<open>\<open>Buffer.from(s, "hex")\<close> stops at the first pair that is not hexadecimal.\<close>

fun buffer_hex :: "jsstr \<Rightarrow> nat list" where
  "buffer_hex (a # b # rest) =
     (case (hex_value a, hex_value b) of
        (Some x, Some y) \<Rightarrow> (16 * x + y) # buffer_hex rest
      | _ \<Rightarrow> [])"
| "buffer_hex _ = []"

text \<open>\<open>Buffer.from(s, "base64")\<close> reads both alphabets, skips other characters and stops at the padding.\<close>

definition buffer_b64_value :: "nat \<Rightarrow> nat option" where
  "buffer_b64_value c = (if c = 45 then Some 62 else if c = 95 then Some 63 else b64_value c)"

definition buffer_base64 :: "jsstr \<Rightarrow> nat list" where
  "buffer_base64 s = decode_sextets (List.map_filter buffer_b64_value (takeWhile (\<lambda>c. c \<noteq> 61) s))"

subsection \<open>State\<close>

record bun_client = rate_limit +
  b_ip :: jsstr
  b_rooms :: "jsstr list"
  b_signals :: "(jsstr, jsstr) jsmap"
  b_relayWindowStartedAt :: int
  b_relayFramesInWindow :: int
  b_challengeId :: jsstr
  b_challenge :: jsstr
  b_challengeExpiresAt :: int
  b_peerId :: "jsstr option"
  b_closed :: bool

record bun_server =
  b_room_map :: "(jsstr, room_state) jsmap"
  b_connections :: int
  b_retainedBytes :: int
  b_connectionsByIp :: "(jsstr, int) jsmap"
  b_rateLimitsByIp :: "(jsstr, rate_limit) jsmap"
  b_socketsByPeerId :: "(jsstr, sock) jsmap"
  b_deviceLimits :: "(jsstr, device_limit) jsmap"
  b_data :: "sock \<Rightarrow> bun_client"
  b_relayEnabled :: bool
  b_trustedProxy :: bool
  b_closedSockets :: "sock list"
  b_outputs :: "sock_action list"

type_synonym bun_eff = "bun_server \<times> err option"

definition bun_then :: "bun_eff \<Rightarrow> (bun_server \<Rightarrow> bun_eff) \<Rightarrow> bun_eff" where
  "bun_then r f = (case r of (b, None) \<Rightarrow> f b | (b, Some e) \<Rightarrow> (b, Some e))"

lemma bun_then_simps [simp]: "bun_then (b, None) f = f b" "bun_then (b, Some e) f = (b, Some e)"
  by (simp_all add: bun_then_def)

definition bun_upd :: "sock \<Rightarrow> (bun_client \<Rightarrow> bun_client) \<Rightarrow> bun_server \<Rightarrow> bun_server" where
  "bun_upd s f b = b\<lparr>b_data := (b_data b)(s := f (b_data b s))\<rparr>"

definition bun_send :: "sock \<Rightarrow> frame \<Rightarrow> bun_server \<Rightarrow> bun_server" where
  "bun_send s f b = (if s \<in> set (b_closedSockets b) then b else b\<lparr>b_outputs := b_outputs b @ [Send s f]\<rparr>)"

definition bun_close_socket :: "sock \<Rightarrow> int \<Rightarrow> string \<Rightarrow> bun_server \<Rightarrow> bun_server" where
  "bun_close_socket s code reason b = b\<lparr>b_closedSockets := set_add s (b_closedSockets b),
     b_outputs := b_outputs b @ [CloseSocket s code reason]\<rparr>"

subsection \<open>Rooms\<close>

definition bun_broadcastRoom :: "jsstr \<Rightarrow> frame \<Rightarrow> sock option \<Rightarrow> bun_server \<Rightarrow> bun_server" where
  "bun_broadcastRoom roomId f except b =
     (case map_get (b_room_map b) roomId of
        None \<Rightarrow> b
      | Some room \<Rightarrow> fold (\<lambda>m. bun_send m f) (filter (\<lambda>m. Some m \<noteq> except) (members room)) b)"

definition bun_refreshRoom :: "jsstr \<Rightarrow> bun_server \<Rightarrow> bun_server" where
  "bun_refreshRoom roomId b =
     (case map_get (b_room_map b) roomId of
        None \<Rightarrow> b
      | Some room \<Rightarrow> bun_broadcastRoom roomId (RefreshFrame roomId (int (length (members room)))) None b)"

definition bun_leaveRoom :: "sock \<Rightarrow> jsstr \<Rightarrow> bun_server \<Rightarrow> bun_server" where
  "bun_leaveRoom socket roomId b =
     (case map_get (b_room_map b) roomId of
        None \<Rightarrow> b
      | Some room \<Rightarrow>
          let room' = room\<lparr>members := set_del socket (members room)\<rparr>;
              b1 = bun_upd socket
                (\<lambda>d. d\<lparr>b_rooms := set_del roomId (b_rooms d), b_signals := map_del roomId (b_signals d)\<rparr>)
                (b\<lparr>b_room_map := map_set roomId room' (b_room_map b),
                   b_retainedBytes := b_retainedBytes b
                     - payload_length (map_get (b_signals (b_data b socket)) roomId)\<rparr>)
          in if members room' = [] then b1\<lparr>b_room_map := map_del roomId (b_room_map b1)\<rparr>
             else bun_refreshRoom roomId b1)"

definition bun_payloads :: "jsstr \<Rightarrow> sock list \<Rightarrow> bun_server \<Rightarrow> jsstr list" where
  "bun_payloads roomId ms b = filter (\<lambda>p. p \<noteq> [])
     (List.map_filter (\<lambda>m. map_get (b_signals (b_data b m)) roomId) ms)"

text \<open>\<open>crypto.timingSafeEqual\<close> throws on buffers of different lengths.\<close>

definition bun_auth_error :: "nat list \<Rightarrow> nat list \<Rightarrow> err option" where
  "bun_auth_error x y =
     (if length x \<noteq> length y then Some ''Input buffers must have the same byte length''
      else if x \<noteq> y then Some ''Room authorization failed'' else None)"

definition bun_joinRoom :: "sock \<Rightarrow> jsstr \<Rightarrow> jsstr \<Rightarrow> bun_server \<Rightarrow> bun_eff" where
  "bun_joinRoom socket roomId roomAuth b =
     (if \<not> ROOM_ID roomId \<or> \<not> ROOM_AUTH roomAuth then (b, Some ''Invalid room authorization'')
      else if roomId \<in> set (b_rooms (b_data b socket)) then (b, None)
      else if MAX_ROOMS_PER_CLIENT \<le> length (b_rooms (b_data b socket))
      then (b, Some ''Too many joined rooms'')
      else if map_get (b_room_map b) roomId = None \<and> MAX_ROOMS \<le> length (b_room_map b)
      then (b, Some ''Control service room limit reached'')
      else
        let room = (case map_get (b_room_map b) roomId of
                      Some room \<Rightarrow> room | None \<Rightarrow> \<lparr>auth = roomAuth, members = []\<rparr>);
            b1 = (if map_get (b_room_map b) roomId = None
                  then b\<lparr>b_room_map := map_set roomId room (b_room_map b)\<rparr> else b)
        in case bun_auth_error (buffer_hex (auth room)) (buffer_hex roomAuth) of
            Some e \<Rightarrow> (b1, Some e)
          | None \<Rightarrow>
            if MAX_ROOM_MEMBERS \<le> length (members room) then (b1, Some ''Room is full'')
            else
              let b2 = fold (\<lambda>p. bun_send socket (SignalFrame roomId p)) (bun_payloads roomId (members room) b1) b1;
                  room' = room\<lparr>members := set_add socket (members room)\<rparr>;
                  b3 = bun_upd socket (\<lambda>d. d\<lparr>b_rooms := set_add roomId (b_rooms d)\<rparr>)
                    (b2\<lparr>b_room_map := map_set roomId room' (b_room_map b2)\<rparr>);
                  b4 = bun_send socket (JoinedFrame roomId (int (length (members room')))) b3
              in (bun_refreshRoom roomId b4, None))"

definition bun_signalRoom :: "sock \<Rightarrow> jsstr \<Rightarrow> jsstr \<Rightarrow> bun_server \<Rightarrow> bun_eff" where
  "bun_signalRoom socket roomId payload b =
     (let previousLength = payload_length (map_get (b_signals (b_data b socket)) roomId) in
      if roomId \<notin> set (b_rooms (b_data b socket)) then (b, Some ''Join the room before signaling'')
      else if payload = [] \<or> MAX_SIGNAL_LENGTH < length payload then (b, Some ''Invalid signal payload'')
      else if MAX_RETAINED_BYTES < b_retainedBytes b - previousLength + int (length payload)
      then (b, Some ''Control service storage limit reached'')
      else (bun_broadcastRoom roomId (SignalFrame roomId payload) (Some socket)
        (bun_upd socket (\<lambda>d. d\<lparr>b_signals := map_set roomId payload (b_signals d)\<rparr>)
          (b\<lparr>b_retainedBytes := b_retainedBytes b + (int (length payload) - previousLength)\<rparr>)), None))"

definition bun_fetchPeers :: "sock \<Rightarrow> jsstr \<Rightarrow> bun_server \<Rightarrow> bun_eff" where
  "bun_fetchPeers socket roomId b =
     (if roomId \<notin> set (b_rooms (b_data b socket))
      then (b, Some ''Join the room before fetching peers'')
      else case map_get (b_room_map b) roomId of
          None \<Rightarrow> (b, None)
        | Some room \<Rightarrow> (bun_send socket (PeersFrame roomId (bun_payloads roomId (members room) b)) b, None))"

subsection \<open>Rate limits\<close>

definition bun_ip_window :: "int \<Rightarrow> jsstr \<Rightarrow> bun_server \<Rightarrow> rate_limit" where
  "bun_ip_window now ip b =
     (case map_get (b_rateLimitsByIp b) ip of
        None \<Rightarrow> fresh_window now
      | Some r \<Rightarrow> if now - windowStartedAt r \<ge> 60000 then fresh_window now else r)"

definition bun_checkRateLimit :: "int \<Rightarrow> sock \<Rightarrow> json option \<Rightarrow> bun_server \<Rightarrow> bun_eff" where
  "bun_checkRateLimit now socket messageType b =
     (let b1 = bun_upd socket (\<lambda>d. count_message messageType (reset_window now d)) b in
      if over_limit (b_data b1 socket) then (b1, Some ''Message rate limit exceeded'')
      else
        let ip = b_ip (b_data b1 socket);
            ipLimit = count_message messageType (bun_ip_window now ip b1);
            b2 = b1\<lparr>b_rateLimitsByIp := map_set ip ipLimit (b_rateLimitsByIp b1)\<rparr>
        in if over_limit ipLimit then (b2, Some ''IP message rate limit exceeded'') else (b2, None))"

definition bun_checkRelayRateLimit :: "int \<Rightarrow> sock \<Rightarrow> bun_server \<Rightarrow> bun_eff" where
  "bun_checkRelayRateLimit now socket b =
     (let b1 = bun_upd socket (\<lambda>d.
            let d' = (if now - b_relayWindowStartedAt d \<ge> 1000
                      then d\<lparr>b_relayWindowStartedAt := now, b_relayFramesInWindow := 0\<rparr> else d)
            in d'\<lparr>b_relayFramesInWindow := b_relayFramesInWindow d' + 1\<rparr>) b
      in if b_relayFramesInWindow (b_data b1 socket) > MAX_RELAY_FRAMES_PER_SECOND
         then (b1, Some ''Relay frame rate limit exceeded'') else (b1, None))"

subsection \<open>Relay\<close>

definition bun_peersShareRoom :: "sock \<Rightarrow> jsstr \<Rightarrow> bun_server \<Rightarrow> bool" where
  "bun_peersShareRoom socket recipientId b =
     (let d = b_data b socket in
      if \<not> truthy (b_peerId d) \<or> b_peerId d = Some recipientId then False
      else list_ex (\<lambda>roomId. list_ex (\<lambda>m. b_peerId (b_data b m) = Some recipientId)
          (case map_get (b_room_map b) roomId of None \<Rightarrow> [] | Some room \<Rightarrow> members room))
        (b_rooms d))"

definition bun_put_limit :: "jsstr \<Rightarrow> device_limit \<Rightarrow> bun_server \<Rightarrow> bun_server" where
  "bun_put_limit p limit b = b\<lparr>b_deviceLimits := map_set p limit (b_deviceLimits b)\<rparr>"

definition bun_refill :: "int \<Rightarrow> jsstr \<Rightarrow> bun_server \<Rightarrow> bun_eff" where
  "bun_refill now p b =
     (case map_get (b_deviceLimits b) p of
        None \<Rightarrow> (b, Some ''Relay device is not registered'')
      | Some limit \<Rightarrow> (bun_put_limit p (refill now limit) b, None))"

definition bun_get_limit :: "bun_server \<Rightarrow> jsstr \<Rightarrow> device_limit" where
  "bun_get_limit b p = (case map_get (b_deviceLimits b) p of Some l \<Rightarrow> l
     | None \<Rightarrow> \<lparr>tokens = 0, receiveTokens = 0, updatedAt = 0, relayPeers = []\<rparr>)"

definition bun_reserveRelayBandwidth ::
  "int \<Rightarrow> jsstr \<Rightarrow> jsstr \<Rightarrow> nat \<Rightarrow> bun_server \<Rightarrow> bun_server \<times> (err + bool)" where
  "bun_reserveRelayBandwidth now peerId recipientId bytes b =
     (case bun_then (bun_refill now peerId b) (bun_refill now recipientId) of
        (b1, Some e) \<Rightarrow> (b1, Inl e)
      | (b1, None) \<Rightarrow>
          let b2 = bun_put_limit peerId (drop_idle now (bun_get_limit b1 peerId)) b1;
              sender = bun_get_limit b2 peerId;
              recipient = bun_get_limit b2 recipientId
          in if tokens sender < of_nat bytes \<or> receiveTokens recipient < of_nat bytes then (b2, Inr False)
             else if map_get (relayPeers sender) recipientId = None
               \<and> MAX_RELAY_PEERS_PER_DEVICE \<le> length (relayPeers sender) then (b2, Inr False)
             else
               let b3 = bun_put_limit peerId (sender\<lparr>relayPeers := map_set recipientId now (relayPeers sender),
                          tokens := tokens sender - of_nat bytes\<rparr>) b2;
                   b4 = bun_put_limit recipientId ((bun_get_limit b3 recipientId)\<lparr>receiveTokens :=
                          receiveTokens (bun_get_limit b3 recipientId) - of_nat bytes\<rparr>) b3
               in (b4, Inr True))"

definition bun_relayDatagram :: "int \<Rightarrow> sock \<Rightarrow> jsstr \<Rightarrow> jsstr \<Rightarrow> bun_server \<Rightarrow> bun_eff" where
  "bun_relayDatagram now socket recipientId payload b =
     (if \<not> b_relayEnabled b then (b, Some ''MeshTalk Relay is disabled'')
      else case b_peerId (b_data b socket) of
          None \<Rightarrow> (b, Some ''Invalid relay frame'')
        | Some peerId \<Rightarrow>
            let frame = buffer_base64 payload in
            if peerId = [] \<or> \<not> PEER_ID recipientId then (b, Some ''Invalid relay frame'')
            else if frame = [] \<or> MAX_RELAY_FRAME_LENGTH < length frame \<or> toBase64 frame \<noteq> payload
            then (b, Some ''Invalid relay frame'')
            else if \<not> bun_peersShareRoom socket recipientId b
            then (bun_send socket (RelayDropped recipientId ''unauthorized'') b, None)
            else case map_get (b_socketsByPeerId b) recipientId of
                None \<Rightarrow> (bun_send socket (RelayDropped recipientId ''offline'') b, None)
              | Some recipient \<Rightarrow>
                  (case bun_reserveRelayBandwidth now peerId recipientId (length frame) b of
                     (b1, Inl e) \<Rightarrow> (b1, Some e)
                   | (b1, Inr False) \<Rightarrow> (bun_send socket (RelayDropped recipientId ''quota'') b1, None)
                   | (b1, Inr True) \<Rightarrow> (bun_send recipient (RelayFrame peerId payload) b1, None)))"

subsection \<open>Closing and registering\<close>

definition bun_forget :: "sock \<Rightarrow> bun_server \<Rightarrow> bun_server" where
  "bun_forget socket b =
     (case b_peerId (b_data b socket) of
        None \<Rightarrow> b
      | Some p \<Rightarrow>
          if p \<noteq> [] \<and> map_get (b_socketsByPeerId b) p = Some socket
          then b\<lparr>b_socketsByPeerId := map_del p (b_socketsByPeerId b),
                 b_deviceLimits := map (\<lambda>(k, l). (k, l\<lparr>relayPeers := map_del p (relayPeers l)\<rparr>))
                   (map_del p (b_deviceLimits b))\<rparr>
          else b)"

definition bun_drop_connection :: "jsstr \<Rightarrow> bun_server \<Rightarrow> bun_server" where
  "bun_drop_connection ip b =
     (let count = (case map_get (b_connectionsByIp b) ip of None \<Rightarrow> 1 | Some n \<Rightarrow> n) - 1 in
      b\<lparr>b_connections := max 0 (b_connections b - 1),
        b_connectionsByIp := (if count > 0 then map_set ip count (b_connectionsByIp b)
                              else map_del ip (b_connectionsByIp b))\<rparr>)"

definition bun_closeClient :: "sock \<Rightarrow> bun_server \<Rightarrow> bun_server" where
  "bun_closeClient socket b =
     (if b_closed (b_data b socket) then b
      else
        let b1 = bun_upd socket (\<lambda>d. d\<lparr>b_closed := True\<rparr>) b;
            b2 = bun_forget socket b1;
            b3 = bun_drop_connection (b_ip (b_data b2 socket)) b2
        in fold (bun_leaveRoom socket) (b_rooms (b_data b3 socket)) b3)"

definition bun_registration_valid :: "int \<Rightarrow> bun_client \<Rightarrow> json_object \<Rightarrow> bool" where
  "bun_registration_valid now d msg \<longleftrightarrow>
     string_field msg ''challenge_id'' = Some (b_challengeId d)
     \<and> string_field msg ''nonce'' = Some (b_challenge d)
     \<and> (case issued_at msg of Some n \<Rightarrow> \<not> \<bar>of_int (now div 1000) - n\<bar> > 30 | None \<Rightarrow> False)
     \<and> matches PEER_ID (string_field msg ''peer_id'')
     \<and> matches HEX_32 (string_field msg ''signing_public_key'')
     \<and> matches HEX_64 (string_field msg ''signature'')"

definition bun_registerDevice :: "crypto \<Rightarrow> int \<Rightarrow> sock \<Rightarrow> json_object \<Rightarrow> bun_server \<Rightarrow> bun_eff" where
  "bun_registerDevice cr now socket msg b =
     (let d = b_data b socket; peer_id = text_of msg ''peer_id'';
          key = buffer_hex (text_of msg ''signing_public_key'') in
      if \<not> bun_registration_valid now d msg then (b, Some ''Invalid device registration'')
      else if truthy (b_peerId d) \<and> b_peerId d \<noteq> Some peer_id
      then (b, Some ''Device identity cannot change on a connection'')
      else if toHex (sha256 cr key) \<noteq> peer_id then (b, Some ''Device identity mismatch'')
      else case ed25519_verify cr ([48, 42, 48, 5, 6, 3, 43, 101, 112, 3, 33, 0] @ key)
             (buffer_hex (text_of msg ''signature'')) (canonical cr (signed_fields msg)) of
          Inl e \<Rightarrow> (b, Some e)
        | Inr False \<Rightarrow> (b, Some ''Invalid device signature'')
        | Inr True \<Rightarrow>
            let previous = map_get (b_socketsByPeerId b) peer_id;
                b1 = bun_upd socket (\<lambda>d. d\<lparr>b_peerId := Some peer_id\<rparr>)
                  (b\<lparr>b_socketsByPeerId := map_set peer_id socket (b_socketsByPeerId b)\<rparr>);
                b2 = (case previous of
                        None \<Rightarrow> b1
                      | Some p \<Rightarrow> if p = socket then b1
                                  else bun_close_socket p 4000 ''Replaced by a newer device session''
                                         (bun_closeClient p b1));
                b3 = (if map_get (b_deviceLimits b2) peer_id = None
                      then bun_put_limit peer_id (fresh_limit now) b2 else b2)
            in (bun_send socket (DeviceRegistered peer_id (b_relayEnabled b3)) b3, None))"

subsection \<open>Messages and connections\<close>

text \<open>The body of the \<open>try\<close> of \<open>message\<close>, on a parsed value. Reading \<open>type\<close> of \<open>null\<close> throws; a value that is
  no object has no properties.\<close>

definition object_of :: "json \<Rightarrow> json_object" where
  "object_of v = (case v of JObj m \<Rightarrow> m | _ \<Rightarrow> [])"

definition bun_dispatch :: "crypto \<Rightarrow> int \<Rightarrow> sock \<Rightarrow> json \<Rightarrow> bun_server \<Rightarrow> bun_eff" where
  "bun_dispatch cr now socket v b =
     (let msg = object_of v in
      if v = JNull then (b, Some ''null is not an object (evaluating message.type)'')
      else if type_is msg ''device_register''
      then bun_then (bun_checkRateLimit now socket (field msg ''type'') b)
             (bun_registerDevice cr now socket msg)
      else if \<not> truthy (b_peerId (b_data b socket)) then (b, Some ''Device registration required'')
      else if is_relay msg
      then bun_then (bun_checkRelayRateLimit now socket b)
             (bun_relayDatagram now socket (text_of msg ''recipient_id'') (text_of msg ''payload''))
      else bun_then (bun_checkRateLimit now socket (field msg ''type'') b) (\<lambda>b1.
        if type_is msg ''join'' \<and> has_text msg ''room_id'' \<and> has_text msg ''room_auth''
        then bun_joinRoom socket (text_of msg ''room_id'') (text_of msg ''room_auth'') b1
        else if type_is msg ''leave'' \<and> has_text msg ''room_id''
        then (bun_leaveRoom socket (text_of msg ''room_id'') b1, None)
        else if type_is msg ''signal'' \<and> has_text msg ''room_id'' \<and> has_text msg ''payload''
        then bun_signalRoom socket (text_of msg ''room_id'') (text_of msg ''payload'') b1
        else if type_is msg ''get_peers'' \<and> has_text msg ''room_id''
        then bun_fetchPeers socket (text_of msg ''room_id'') b1
        else (b1, Some ''Invalid control message'')))"

definition bun_reject :: "sock \<Rightarrow> err \<Rightarrow> bun_server \<Rightarrow> bun_server" where
  "bun_reject socket e b = bun_close_socket socket 1008 ''Invalid control message''
     (bun_closeClient socket (bun_send socket (ErrorFrame e) b))"

definition bun_message :: "crypto \<Rightarrow> int \<Rightarrow> sock \<Rightarrow> err + json \<Rightarrow> bun_server \<Rightarrow> bun_server" where
  "bun_message cr now socket parsed b =
     (if b_closed (b_data b socket) then b
      else case (case parsed of Inl e \<Rightarrow> (b, Some e) | Inr v \<Rightarrow> bun_dispatch cr now socket v b) of
          (b1, None) \<Rightarrow> b1
        | (b1, Some e) \<Rightarrow> bun_reject socket e b1)"

definition bun_ip :: "bun_server \<Rightarrow> jsstr option \<Rightarrow> jsstr option \<Rightarrow> jsstr" where
  "bun_ip b header address =
     (case (if b_trustedProxy b then header else None) of
        Some h \<Rightarrow> h
      | None \<Rightarrow> (case address of Some a \<Rightarrow> a | None \<Rightarrow> js ''unknown''))"

definition bun_ip_connections :: "bun_server \<Rightarrow> jsstr \<Rightarrow> int" where
  "bun_ip_connections b ip = (case map_get (b_connectionsByIp b) ip of None \<Rightarrow> 0 | Some n \<Rightarrow> n)"

text \<open>\<open>fetch\<close>: \<open>Some\<close> is the address of an upgraded request, whose data \<open>bun_client_data\<close> makes.\<close>

definition bun_fetch ::
  "jsstr \<Rightarrow> jsstr option \<Rightarrow> jsstr option \<Rightarrow> bool \<Rightarrow> bun_server \<Rightarrow> response + jsstr" where
  "bun_fetch pathname header address upgrade b =
     (if pathname = js ''/health'' then Inl (Health (int (length (b_room_map b))) (b_connections b))
      else if pathname \<noteq> js ''/v1/rendezvous'' then Inl (Response 404 ''Not found'')
      else if b_connections b \<ge> MAX_CONNECTIONS then Inl (Response 503 ''Control service is full'')
      else
        let ip = bun_ip b header address in
        if bun_ip_connections b ip \<ge> MAX_CONNECTIONS_PER_IP
        then Inl (Response 429 ''Too many connections from this IP'')
        else if upgrade then Inr ip else Inl (Response 426 ''WebSocket upgrade required''))"

definition bun_client_data :: "int \<Rightarrow> jsstr \<Rightarrow> nat list \<Rightarrow> nat list \<Rightarrow> bun_client" where
  "bun_client_data now ip random16 random32 =
     \<lparr>windowStartedAt = now, controlMessagesInWindow = 0, signalsInWindow = 0,
      peerFetchesInWindow = 0, b_ip = ip, b_rooms = [], b_signals = [], b_relayWindowStartedAt = now,
      b_relayFramesInWindow = 0, b_challengeId = toBase64Url random16, b_challenge = toHex random32,
      b_challengeExpiresAt = now div 1000 + 60, b_peerId = None, b_closed = False\<rparr>"

definition bun_open :: "sock \<Rightarrow> bun_client \<Rightarrow> bun_server \<Rightarrow> bun_server" where
  "bun_open socket d b =
     bun_send socket (DeviceChallenge (b_challengeId d) (b_challenge d) (b_challengeExpiresAt d))
       (b\<lparr>b_data := (b_data b)(socket := d), b_connections := b_connections b + 1,
          b_connectionsByIp := map_set (b_ip d) (bun_ip_connections b (b_ip d) + 1) (b_connectionsByIp b)\<rparr>)"

definition bun_close :: "sock \<Rightarrow> bun_server \<Rightarrow> bun_server" where
  "bun_close socket b = bun_closeClient socket b"

end
