(* ===== verification/ControlAgreement.thy ===== *)
theory ControlAgreement
  imports ControlServer ControlDemo
begin

text \<open>
  The two runtimes agree: \<open>bun_of\<close> reads a state of the Durable Object as one of the Bun server (its
  queue has no counterpart), and every operation of a client, its rate check included, has the
  same outcome in both. Where they do differ is stated too: what they count before a device has
  registered.
\<close>

subsection \<open>Reading one state as the other\<close>

definition client_view :: "bool \<Rightarrow> client_data \<Rightarrow> bun_client" where
  "client_view gone d = \<lparr>windowStartedAt = windowStartedAt d,
     controlMessagesInWindow = controlMessagesInWindow d, signalsInWindow = signalsInWindow d,
     peerFetchesInWindow = peerFetchesInWindow d, b_ip = c_ip d, b_rooms = c_rooms d,
     b_signals = c_signals d, b_relayWindowStartedAt = relayWindowStartedAt d,
     b_relayFramesInWindow = relayFramesInWindow d, b_challengeId = challengeId d,
     b_challenge = challenge d, b_challengeExpiresAt = challengeExpiresAt d,
     b_peerId = c_peerId d, b_closed = gone\<rparr>"

definition bun_of :: "control_room \<Rightarrow> bun_server" where
  "bun_of w = \<lparr>b_room_map = rooms w, b_connections = connections w, b_retainedBytes = retainedBytes w,
     b_connectionsByIp = connectionsByIp w, b_rateLimitsByIp = rateLimitsByIp w,
     b_socketsByPeerId = socketsByPeerId w, b_deviceLimits = deviceLimits w,
     b_data = (\<lambda>s. client_view (s \<notin> set (clients w)) (clientData w s)),
     b_relayEnabled = relayEnabled w, b_trustedProxy = True, b_closedSockets = closedSockets w,
     b_outputs = outputs w\<rparr>"

lemma client_view_fields [simp]:
  "windowStartedAt (client_view g d) = windowStartedAt d"
  "controlMessagesInWindow (client_view g d) = controlMessagesInWindow d"
  "signalsInWindow (client_view g d) = signalsInWindow d"
  "peerFetchesInWindow (client_view g d) = peerFetchesInWindow d"
  "b_ip (client_view g d) = c_ip d" "b_rooms (client_view g d) = c_rooms d"
  "b_signals (client_view g d) = c_signals d"
  "b_relayWindowStartedAt (client_view g d) = relayWindowStartedAt d"
  "b_relayFramesInWindow (client_view g d) = relayFramesInWindow d"
  "b_challengeId (client_view g d) = challengeId d" "b_challenge (client_view g d) = challenge d"
  "b_peerId (client_view g d) = c_peerId d" "b_closed (client_view g d) = g"
  by (simp_all add: client_view_def)

lemma bun_of_fields [simp]:
  "b_room_map (bun_of w) = rooms w" "b_connections (bun_of w) = connections w"
  "b_retainedBytes (bun_of w) = retainedBytes w" "b_connectionsByIp (bun_of w) = connectionsByIp w"
  "b_rateLimitsByIp (bun_of w) = rateLimitsByIp w" "b_socketsByPeerId (bun_of w) = socketsByPeerId w"
  "b_deviceLimits (bun_of w) = deviceLimits w"
  "b_data (bun_of w) s = client_view (s \<notin> set (clients w)) (clientData w s)"
  "b_relayEnabled (bun_of w) = relayEnabled w" "b_closedSockets (bun_of w) = closedSockets w"
  "b_outputs (bun_of w) = outputs w"
  by (simp_all add: bun_of_def)

lemma bun_of_updates [simp]:
  "(bun_of w)\<lparr>b_room_map := x\<rparr> = bun_of (w\<lparr>rooms := x\<rparr>)"
  "(bun_of w)\<lparr>b_connections := c\<rparr> = bun_of (w\<lparr>connections := c\<rparr>)"
  "(bun_of w)\<lparr>b_retainedBytes := n\<rparr> = bun_of (w\<lparr>retainedBytes := n\<rparr>)"
  "(bun_of w)\<lparr>b_connectionsByIp := ci\<rparr> = bun_of (w\<lparr>connectionsByIp := ci\<rparr>)"
  "(bun_of w)\<lparr>b_rateLimitsByIp := rl\<rparr> = bun_of (w\<lparr>rateLimitsByIp := rl\<rparr>)"
  "(bun_of w)\<lparr>b_socketsByPeerId := sp\<rparr> = bun_of (w\<lparr>socketsByPeerId := sp\<rparr>)"
  "(bun_of w)\<lparr>b_deviceLimits := dl\<rparr> = bun_of (w\<lparr>deviceLimits := dl\<rparr>)"
  "(bun_of w)\<lparr>b_outputs := os\<rparr> = bun_of (w\<lparr>outputs := os\<rparr>)"
  by (simp_all add: bun_of_def)

lemma bun_upd_of:
  assumes "\<And>d. client_view (s \<notin> set (clients w)) (f d) = g (client_view (s \<notin> set (clients w)) d)"
  shows "bun_upd s g (bun_of w) = bun_of (upd_data s f w)"
  using assms by (simp add: bun_upd_def bun_of_def upd_data_def fun_eq_iff)

lemma view_updates:
  "client_view g (d\<lparr>c_rooms := x, c_signals := y\<rparr>) = (client_view g d)\<lparr>b_rooms := x, b_signals := y\<rparr>"
  "client_view g (d\<lparr>c_rooms := x\<rparr>) = (client_view g d)\<lparr>b_rooms := x\<rparr>"
  "client_view g (d\<lparr>c_signals := y\<rparr>) = (client_view g d)\<lparr>b_signals := y\<rparr>"
  "client_view g (d\<lparr>c_peerId := p\<rparr>) = (client_view g d)\<lparr>b_peerId := p\<rparr>"
  by (simp_all add: client_view_def)

lemma bun_send_of: "open_sock w s \<Longrightarrow> bun_send s f (bun_of w) = bun_of (appended w [Send s f])"
  by (simp add: bun_send_def open_sock_def appended_def)

lemma bun_sends_of:
  "(\<And>m. m \<in> set ms \<Longrightarrow> open_sock w m) \<Longrightarrow>
     fold (\<lambda>m. bun_send m f) ms (bun_of w) = bun_of (appended w (map (\<lambda>m. Send m f) ms))"
  by (induction ms arbitrary: w) (simp_all add: bun_send_of)

lemma bun_send_many_of:
  "open_sock w s \<Longrightarrow> fold (\<lambda>p. bun_send s (g p)) ps (bun_of w) = bun_of (appended w (map (\<lambda>p. Send s (g p)) ps))"
  by (induction ps arbitrary: w) (simp_all add: bun_send_of)

lemma bun_broadcast_of:
  "(\<And>m. m \<in> set (room_members w r) \<Longrightarrow> open_sock w m) \<Longrightarrow>
     bun_broadcastRoom r f except (bun_of w) = bun_of (appended w (broadcast_out r f except w))"
  by (cases "map_get (rooms w) r")
    (auto simp: bun_broadcastRoom_def broadcast_out_def room_members_def intro!: bun_sends_of)

lemma bun_refresh_of:
  "(\<And>m. m \<in> set (room_members w r) \<Longrightarrow> open_sock w m) \<Longrightarrow>
     bun_refreshRoom r (bun_of w) = bun_of (appended w (refresh_out r w))"
  unfolding bun_refreshRoom_def refresh_out_def
  by (cases "map_get (rooms w) r")
    (simp_all add: bun_broadcast_of, simp_all add: broadcast_out_def room_members_def)

subsection \<open>Rooms\<close>

lemma bun_leave_of:
  assumes "\<And>m. m \<in> set (room_members w r) \<Longrightarrow> m \<noteq> s \<Longrightarrow> open_sock w m"
  shows "bun_leaveRoom s r (bun_of w) = bun_of (appended (leave_core s r w) (refresh_out r (leave_core s r w)))"
proof (cases "map_get (rooms w) r")
  case None
  then show ?thesis
    by (simp add: bun_leaveRoom_def leave_core_def refresh_out_def broadcast_out_def room_members_def)
next
  case (Some room)
  let ?f = "\<lambda>d :: client_data. d\<lparr>c_rooms := set_del r (c_rooms d), c_signals := map_del r (c_signals d)\<rparr>"
  let ?g = "\<lambda>d :: bun_client. d\<lparr>b_rooms := set_del r (b_rooms d), b_signals := map_del r (b_signals d)\<rparr>"
  have upd: "bun_upd s ?g (bun_of w') = bun_of (upd_data s ?f w')" for w'
    by (rule bun_upd_of) (simp add: view_updates)
  have "\<And>m. m \<in> set (room_members (leave_core s r w) r) \<Longrightarrow> open_sock (leave_core s r w) m"
    using assms by (auto simp: room_members_leave_core)
  note refresh = bun_refresh_of [of "leave_core s r w", OF this]
  show ?thesis
  proof (cases "set_del s (members room) = []")
    case True
    then have "room_members (leave_core s r w) r = []"
      by (simp add: room_members_leave_core) (simp add: room_members_def Some)
    then have out: "refresh_out r (leave_core s r w) = []"
      by (simp add: refresh_out_def broadcast_out_def)
    show ?thesis
      using True Some unfolding out
      by (simp add: bun_leaveRoom_def leave_core_def Let_def upd) (simp add: upd_data_def bun_of_def)
  next
    case False
    then have "bun_leaveRoom s r (bun_of w) = bun_refreshRoom r (bun_of (leave_core s r w))"
      using Some by (simp add: bun_leaveRoom_def leave_core_def Let_def upd)
    with refresh show ?thesis by simp
  qed
qed

lemma bun_payloads_of:
  assumes "\<And>m. m \<in> set ms \<Longrightarrow> m \<in> set (clients w)"
  shows "bun_payloads r ms (bun_of w) = room_payloads r ms w"
proof -
  have "List.map_filter (\<lambda>m. map_get (b_signals (b_data (bun_of w) m)) r) ms
      = List.map_filter (\<lambda>m. Option.bind (client w m) (\<lambda>d. map_get (c_signals d) r)) ms"
    using assms by (induction ms) (auto simp: List.map_filter_simps client_def split: option.split)
  then show ?thesis by (simp only: bun_payloads_def room_payloads_def)
qed

lemma buffer_hex_lower:
  "hex_pattern n a \<Longrightarrow> even n \<Longrightarrow> buffer_hex a = fromHex a"
  unfolding hex_pattern_def
  by (induction a arbitrary: n rule: buffer_hex.induct)
    (auto simp: parse_hex_pair_def split: option.splits dest!: hex_lower_value)

lemma length_fromHex: "length (fromHex a) = length a div 2"
  by (induction a rule: fromHex.induct) auto

lemma bun_auth:
  assumes "ROOM_AUTH a" "ROOM_AUTH b"
  shows "bun_auth_error (buffer_hex a) (buffer_hex b)
    = (if timingSafeEqual (fromHex a) (fromHex b) then None else Some ''Room authorization failed'')"
  using assms buffer_hex_lower [of 64 a] buffer_hex_lower [of 64 b]
  by (simp add: ROOM_AUTH_def bun_auth_error_def length_fromHex) (simp add: hex_pattern_def)

lemma bun_join_tail:
  fixes r :: jsstr
  assumes s: "open_sock w s" and ms: "\<And>m. m \<in> set (members room) \<Longrightarrow> open_sock w m \<and> m \<in> set (clients w)"
  defines "w' \<equiv> upd_data s (\<lambda>d. d\<lparr>c_rooms := set_add r (c_rooms d)\<rparr>)
      (w\<lparr>rooms := map_set r (room\<lparr>members := set_add s (members room)\<rparr>) (rooms w)\<rparr>)"
  shows "(let b2 = fold (\<lambda>p. bun_send s (SignalFrame r p)) (bun_payloads r (members room) (bun_of w)) (bun_of w);
          room' = room\<lparr>members := set_add s (members room)\<rparr>;
          b3 = bun_upd s (\<lambda>d. d\<lparr>b_rooms := set_add r (b_rooms d)\<rparr>)
            (b2\<lparr>b_room_map := map_set r room' (b_room_map b2)\<rparr>);
          b4 = bun_send s (JoinedFrame r (int (length (members room')))) b3
      in (bun_refreshRoom r b4, None :: err option))
    = (bun_of (appended w' (map (\<lambda>p. Send s (SignalFrame r p)) (room_payloads r (members room) w)
        @ [Send s (JoinedFrame r (int (length (set_add s (members room)))))] @ refresh_out r w')), None)"
proof -
  let ?sent = "map (\<lambda>p. Send s (SignalFrame r p)) (room_payloads r (members room) w)"
  have pay: "bun_payloads r (members room) (bun_of w) = room_payloads r (members room) w"
    using ms by (intro bun_payloads_of) simp
  have w': "upd_data s (\<lambda>d. d\<lparr>c_rooms := set_add r (c_rooms d)\<rparr>)
      ((appended w ?sent)\<lparr>rooms := map_set r (room\<lparr>members := set_add s (members room)\<rparr>)
        (rooms (appended w ?sent))\<rparr>) = appended w' ?sent"
    by (simp add: w'_def upd_data_def appended_def)
  have mem: "room_members w' r = set_add s (members room)" by (simp add: w'_def room_members_def)
  have op: "open_sock w' = open_sock w" by (simp add: w'_def open_sock_def fun_eq_iff)
  have upd: "bun_upd s (\<lambda>d. d\<lparr>b_rooms := set_add r (b_rooms d)\<rparr>) (bun_of x)
      = bun_of (upd_data s (\<lambda>d. d\<lparr>c_rooms := set_add r (c_rooms d)\<rparr>) x)" for x
    by (rule bun_upd_of) (simp add: view_updates)
  have refresh: "bun_refreshRoom r (bun_of (appended w' os)) = bun_of (appended w' (os @ refresh_out r w'))" for os
    using bun_refresh_of [of "appended w' os" r] s ms
    by (auto simp: mem op refresh_out_def broadcast_out_def)
  show ?thesis
    unfolding Let_def pay bun_send_many_of [OF s] bun_of_fields bun_of_updates upd w'
    using s by (simp add: bun_send_of op refresh)
qed

lemma bun_join_of:
  assumes ok: "rooms_ok (clients w) w" and s: "open_sock w s"
    and ms: "\<And>m. m \<in> set (room_members w r) \<Longrightarrow> open_sock w m"
  shows "bun_joinRoom s r a (bun_of w) = map_prod bun_of id (joinRoom s r a w)"
proof -
  have ms': "m \<in> set (clients w)" if "m \<in> set (room_members w r)" for m
    using ok that by (rule member_client)
  have room_auth: "ROOM_AUTH (auth room)" if "map_get (rooms w) r = Some room" for room
    using rooms_okD(4) [OF ok that] by (simp add: room_ok_def)
  have J: "joinRoom s r a w = (case join_error s r a w of
       Some e \<Rightarrow> (w, Some e)
     | None \<Rightarrow> if r \<in> set (c_rooms (clientData w s)) then (w, None)
               else (appended (join_core s r a w) (join_out s r w (join_core s r a w)), None))"
    using s ms by (rule joinRoom_open)
  show ?thesis
  proof (cases "map_get (rooms w) r")
    case None
    let ?room = "\<lparr>auth = a, members = []\<rparr>"
    let ?w = "w\<lparr>rooms := map_set r ?room (rooms w)\<rparr>"
    have "open_sock ?w s" using s by (simp add: open_sock_def)
    from bun_join_tail [OF this, of ?room, where r = r] None bun_auth [of a a] show ?thesis
      unfolding J
      by (auto simp: bun_joinRoom_def join_error_def join_out_def join_core_def Let_def room_members_def
          control_limits room_payloads_def List.map_filter_simps)
  next
    case (Some room)
    have "open_sock w m \<and> m \<in> set (clients w)" if "m \<in> set (members room)" for m
      using ms ms' Some that by (simp add: room_members_def)
    from bun_join_tail [OF s this, where r = r] Some bun_auth [OF room_auth [OF Some], of a] show ?thesis
      unfolding J
      by (auto simp: bun_joinRoom_def join_error_def join_out_def join_core_def Let_def room_members_def)
  qed
qed

lemma bun_signal_of:
  assumes "\<And>m. m \<in> set (room_members w r) \<Longrightarrow> open_sock w m"
  shows "bun_signalRoom s r p (bun_of w) = map_prod bun_of id (signalRoom s r p w)"
proof -
  have upd: "bun_upd s (\<lambda>d. d\<lparr>b_signals := map_set r p (b_signals d)\<rparr>) (bun_of x)
      = bun_of (upd_data s (\<lambda>d. d\<lparr>c_signals := map_set r p (c_signals d)\<rparr>) x)" for x
    by (rule bun_upd_of) (simp add: view_updates)
  have "bun_broadcastRoom r (SignalFrame r p) (Some s) (bun_of (signal_core s r p w))
      = bun_of (appended (signal_core s r p w) (broadcast_out r (SignalFrame r p) (Some s) (signal_core s r p w)))"
    using assms by (intro bun_broadcast_of) simp
  moreover have "signalRoom s r p w = (case signal_error s r p w of
       Some e \<Rightarrow> (w, Some e)
     | None \<Rightarrow> (appended (signal_core s r p w)
         (broadcast_out r (SignalFrame r p) (Some s) (signal_core s r p w)), None))"
    using assms by (rule signalRoom_open)
  ultimately show ?thesis
    by (auto simp: bun_signalRoom_def Let_def upd signal_core_def [symmetric] signal_error_def signal_ok_def not_less)
qed

lemma bun_peers_of:
  assumes ok: "rooms_ok (clients w) w" and s: "open_sock w s"
  shows "bun_fetchPeers s r (bun_of w) = map_prod bun_of id (fetchPeers s r w)"
proof (cases "map_get (rooms w) r")
  case (Some room)
  have "bun_payloads r (members room) (bun_of w) = room_payloads r (members room) w"
    using member_client [OF ok, of _ r] Some by (intro bun_payloads_of) (simp add: room_members_def)
  with Some s show ?thesis by (simp add: bun_fetchPeers_def fetchPeers_def bun_send_of send_open)
qed (simp add: bun_fetchPeers_def fetchPeers_def)

subsection \<open>Rate limits\<close>

lemma view_count:
  "client_view g (count_message t (reset_window now d)) = count_message t (reset_window now (client_view g d))"
  by (simp add: client_view_def count_message_def reset_window_def)

lemma over_limit_view [simp]: "over_limit (client_view g d) = over_limit d"
  by (simp add: over_limit_def)

lemma bun_rate_of: "bun_checkRateLimit now s t (bun_of w) = map_prod bun_of id (checkRateLimit now s t w)"
proof -
  have upd: "bun_upd s (\<lambda>d. count_message t (reset_window now d)) (bun_of w)
      = bun_of (upd_data s (\<lambda>d. count_message t (reset_window now d)) w)"
    by (rule bun_upd_of) (simp add: view_count)
  have win: "bun_ip_window now ip (bun_of x) = ip_window now ip x" for ip x
    by (simp add: bun_ip_window_def ip_window_def)
  show ?thesis by (simp add: bun_checkRateLimit_def checkRateLimit_def Let_def upd win)
qed

lemma bun_relay_rate_of:
  "bun_checkRelayRateLimit now s (bun_of w) = map_prod bun_of id (checkRelayRateLimit now s w)"
proof -
  have upd: "bun_upd s (\<lambda>d.
      let d' = (if now - b_relayWindowStartedAt d \<ge> 1000
                then d\<lparr>b_relayWindowStartedAt := now, b_relayFramesInWindow := 0\<rparr> else d)
      in d'\<lparr>b_relayFramesInWindow := b_relayFramesInWindow d' + 1\<rparr>) (bun_of w)
    = bun_of (upd_data s (\<lambda>d.
      let d' = (if now - relayWindowStartedAt d \<ge> 1000
                then d\<lparr>relayWindowStartedAt := now, relayFramesInWindow := 0\<rparr> else d)
      in d'\<lparr>relayFramesInWindow := relayFramesInWindow d' + 1\<rparr>) w)"
    by (rule bun_upd_of) (simp add: client_view_def Let_def)
  have b: "b_relayFramesInWindow (client_view g d) = relayFramesInWindow d" for g d
    by (simp add: client_view_def)
  show ?thesis unfolding bun_checkRelayRateLimit_def checkRelayRateLimit_def Let_def [of "bun_upd s _ _"]
    upd Let_def [of "upd_data s _ _"] by (simp add: b)
qed

subsection \<open>Relay\<close>

lemma buffer_b64_char: "n < 64 \<Longrightarrow> buffer_b64_value (b64_char n) = Some n"
  using b64_value_char [of n] by (auto simp: buffer_b64_value_def b64_char_def)

lemma takeWhile_core:
  assumes "\<And>n. n \<in> set xs \<Longrightarrow> n < 64"
  shows "takeWhile (\<lambda>c. c \<noteq> 61) (map b64_char xs @ b64_pad bs) = map b64_char xs"
proof -
  have "takeWhile (\<lambda>c. c \<noteq> 61) (b64_pad bs) = []" by (auto simp: b64_pad_def)
  then show ?thesis using assms b64_char_plain by (subst takeWhile_append2) auto
qed

lemma map_filter_core:
  "(\<And>n. n \<in> set xs \<Longrightarrow> n < 64) \<Longrightarrow> List.map_filter buffer_b64_value (map b64_char xs) = xs"
  by (induction xs) (simp_all add: List.map_filter_simps buffer_b64_char)

lemma buffer_base64_encode: "is_bytes bs \<Longrightarrow> buffer_base64 (toBase64 bs) = bs"
  using b64_core_lt [of bs] decode_core [of bs]
  by (simp add: buffer_base64_def toBase64_def btoa_core takeWhile_core map_filter_core)

lemma is_bytes_buffer: "is_bytes (buffer_base64 s)"
  unfolding buffer_base64_def
proof (rule is_bytes_decode)
  fix n assume "n \<in> set (List.map_filter buffer_b64_value (takeWhile (\<lambda>c. c \<noteq> 61) s))"
  then show "n < 64"
    by (auto simp: List.map_filter_def buffer_b64_value_def split: if_splits dest: b64_value_lt)
qed

text \<open>The lenient decoder accepts, after the check of the encoding, what the strict one accepts.\<close>

lemma buffer_frame:
  "toBase64 (buffer_base64 p) = p \<longleftrightarrow> (\<exists>f. fromBase64 p = Some f \<and> toBase64 f = p)"
  "fromBase64 p = Some f \<Longrightarrow> toBase64 f = p \<Longrightarrow> buffer_base64 p = f"
proof -
  show a: "fromBase64 p = Some f \<Longrightarrow> toBase64 f = p \<Longrightarrow> buffer_base64 p = f" for f
    using buffer_base64_encode [OF b64.dec_bytes, of p f] by simp
  show "toBase64 (buffer_base64 p) = p \<longleftrightarrow> (\<exists>f. fromBase64 p = Some f \<and> toBase64 f = p)"
    using fromBase64_toBase64 [OF is_bytes_buffer, of p] a by metis
qed

lemma bun_put_of: "bun_put_limit p l (bun_of w) = bun_of (put_limit p l w)"
  by (simp add: bun_put_limit_def put_limit_def)

lemma bun_get_of: "bun_get_limit (bun_of w) p = get_limit w p"
  by (simp add: bun_get_limit_def get_limit_def)

lemma bun_refill_of: "bun_refill now p (bun_of w) = map_prod bun_of id (refill_device now p w)"
  by (simp add: bun_refill_def refill_device_def bun_put_of split: option.split)

lemma bun_reserve_of:
  "bun_reserveRelayBandwidth now p q n (bun_of w) = map_prod bun_of id (reserveRelayBandwidth now p q n w)"
proof -
  have t: "bun_then (bun_refill now p (bun_of w)) (bun_refill now q)
      = map_prod bun_of id (andThen (refill_device now p w) (refill_device now q))"
    unfolding bun_refill_of
    by (cases "refill_device now p w"; cases "snd (refill_device now p w)") (auto simp: bun_refill_of)
  show ?thesis
    unfolding bun_reserveRelayBandwidth_def reserveRelayBandwidth_def t
    by (auto simp: Let_def bun_put_of bun_get_of split: prod.split option.split)
qed

lemma bun_share_of:
  assumes "rooms_ok (clients w) w"
  shows "bun_peersShareRoom s q (bun_of w) = peersShareRoom s q w"
proof -
  have "list_ex (\<lambda>m. b_peerId (b_data (bun_of w) m) = Some q) (room_members w r)
      = list_ex (\<lambda>m. Option.bind (client w m) c_peerId = Some q) (room_members w r)" for r
    using member_client [OF assms] by (auto simp: list_ex_iff client_def)
  then show ?thesis
    by (simp add: bun_peersShareRoom_def peersShareRoom_def Let_def room_members_def)
qed

lemma bun_relay_of:
  assumes ok: "base_ok M w" and s: "s \<in> set (clients w)"
  shows "bun_relayDatagram now s q payload (bun_of w) = map_prod bun_of id (relayDatagram now s q payload w)"
proof (cases "c_peerId (clientData w s)")
  case None
  then show ?thesis by (simp add: bun_relayDatagram_def relayDatagram_def)
next
  case (Some p)
  note D = base_okD [OF ok] and I = ids_okD [OF base_okD(2) [OF ok]]
  have opn: "t \<in> set (clients w) \<Longrightarrow> closedSockets w' = closedSockets w \<Longrightarrow> open_sock w' t" for t w'
    using client_open [OF D(7)] by (simp add: open_sock_def)
  show ?thesis
  proof (cases "\<exists>f. fromBase64 payload = Some f \<and> toBase64 f = payload")
    case False
    with Some show ?thesis
      by (auto simp: bun_relayDatagram_def relayDatagram_def buffer_frame(1) Let_def split: option.splits)
  next
    case True
    then obtain f where f: "fromBase64 payload = Some f" "toBase64 f = payload" by blast
    note bf = buffer_frame(2) [OF this]
    have reserve: "closedSockets w' = closedSockets w" if "reserveRelayBandwidth now p q n w = (w', x)" for w' x n
      using that
      by (auto simp: reserveRelayBandwidth_def refill_device_def Let_def split: option.splits if_splits)
    have recipient: "t \<in> set (clients w)" if "map_get (socketsByPeerId w) q = Some t" for t
      using that I(3) by simp
    obtain w' x where r: "reserveRelayBandwidth now p q (length f) w = (w', x)"
      by (cases "reserveRelayBandwidth now p q (length f) w")
    have r': "bun_reserveRelayBandwidth now p q (length f) (bun_of w) = (bun_of w', x)"
      by (simp add: bun_reserve_of r)
    show ?thesis
      using Some f opn s recipient reserve [OF r]
      by (auto simp: bun_relayDatagram_def relayDatagram_def bf Let_def bun_share_of [OF D(4)]
          bun_send_of send_open r r' split: option.split sum.split bool.split)
  qed
qed

subsection \<open>Closing and registering\<close>

lemma bun_leaves_of:
  assumes "\<And>m r. m \<in> set (room_members w r) \<Longrightarrow> m \<noteq> s \<Longrightarrow> open_sock w m"
  shows "fold (bun_leaveRoom s) rs (bun_of w) = bun_of (appended (leave_all_core s rs w) (leave_all_out s rs w))"
  using assms
proof (induction rs arbitrary: w)
  case (Cons r rs)
  let ?w = "appended (leave_core s r w) (refresh_out r (leave_core s r w))"
  have "bun_leaveRoom s r (bun_of w) = bun_of ?w" using Cons.prems by (intro bun_leave_of)
  moreover have "open_sock ?w m" if "m \<in> set (room_members ?w x)" "m \<noteq> s" for m x
    using that Cons.prems [of m x] by (auto simp: room_members_leave_core split: if_splits)
  ultimately show ?case using Cons.IH [of ?w] by (simp add: leave_all_appended)
qed simp

lemma view_release [simp]:
  "client_view g (clientData (release_all_core es w) t) = client_view g (clientData w t)"
proof (induction es arbitrary: w)
  case (Cons e es)
  have "client_view g (clientData (release_core e w) t) = client_view g (clientData w t)"
    by (simp add: client_view_def release_core_def Let_def split: prod.splits)
  with Cons.IH [of "release_core e w"] show ?case by simp
qed simp

lemma bun_forget_of: "bun_forget s (bun_of w) = bun_of (forget_device s w)"
  by (auto simp: bun_forget_def forget_device_def split: option.split)

lemma bun_drop_of: "bun_drop_connection ip (bun_of w) = bun_of (drop_connection ip w)"
  by (simp add: bun_drop_connection_def drop_connection_def Let_def)

lemma bun_close_of:
  assumes core: "core_ok (mset (queue w) + R) w" and s: "s \<in> set (clients w)"
  shows "bun_closeClient s (bun_of w) = bun_of (appended (close_core s w) (close_out s w))"
proof -
  let ?own = "filter (\<lambda>e. pm_socket e = s) (queue w)"
  let ?w2 = "(release_all_core ?own (w\<lparr>clients := set_del s (clients w)\<rparr>))
     \<lparr>queue := filter (\<lambda>e. pm_socket e \<noteq> s) (queue w)\<rparr>"
  let ?w3 = "drop_connection (c_ip (clientData w s)) (forget_device s ?w2)"
  have upd: "bun_upd s (\<lambda>d. d\<lparr>b_closed := True\<rparr>) (bun_of w) = bun_of ?w2"
    by (simp add: bun_upd_def bun_of_def fun_eq_iff) (simp add: client_view_def)
  have mem: "room_members ?w3 r = room_members w r" for r by (simp add: room_members_def)
  have op: "open_sock ?w3 m = open_sock w m" for m by (simp add: open_sock_def)
  have "fold (bun_leaveRoom s) (c_rooms (clientData w s)) (bun_of ?w3)
      = bun_of (appended (leave_all_core s (c_rooms (clientData w s)) ?w3)
          (leave_all_out s (c_rooms (clientData w s)) ?w3))"
    by (rule bun_leaves_of) (simp add: mem op member_open [OF core])
  moreover have "leave_all_out s rs ?w3 = leave_all_out s rs w" for rs
    by (rule leave_all_out_cong) simp
  ultimately show ?thesis
    using s unfolding bun_closeClient_def Let_def upd
    by (simp add: bun_forget_of bun_drop_of close_core_def close_out_def Let_def)
qed

lemma bun_valid_of: "bun_registration_valid now (client_view g d) msg = registration_valid now d msg"
  by (simp add: bun_registration_valid_def registration_valid_def)

text \<open>The three parts of \<open>registerDevice\<close> in the Durable Object, with nothing in between.\<close>

definition register_at_once :: "crypto \<Rightarrow> int \<Rightarrow> sock \<Rightarrow> json_object \<Rightarrow> control_room \<Rightarrow> eff" where
  "register_at_once cr now s msg w =
     andThen (registerDevice_start now s msg w) (\<lambda>w1.
       andThen (registerDevice_digest cr msg w1) (registerDevice_commit cr now s msg))"

lemma bun_take_over_of:
  assumes ok: "base_ok (mset (queue w) + R) w" and s: "s \<in> set (clients w)" and p: "PEER_ID p"
    and own: "c_peerId (clientData w s) = None \<or> c_peerId (clientData w s) = Some p"
  shows "(let b1 = bun_upd s (\<lambda>d. d\<lparr>b_peerId := Some p\<rparr>)
              ((bun_of w)\<lparr>b_socketsByPeerId := map_set p s (b_socketsByPeerId (bun_of w))\<rparr>);
            b2 = (case map_get (b_socketsByPeerId (bun_of w)) p of None \<Rightarrow> b1
                  | Some u \<Rightarrow> if u = s then b1
                     else bun_close_socket u 4000 ''Replaced by a newer device session'' (bun_closeClient u b1))
        in if map_get (b_deviceLimits b2) p = None then bun_put_limit p (fresh_limit now) b2 else b2)
    = bun_of (take_over now p s w)"
proof -
  let ?c = "claim_core p s w"
  note D = base_okD [OF ok] and T = take_over_ok [OF ok s p own, of now]
  have c: "bun_upd s (\<lambda>d. d\<lparr>b_peerId := Some p\<rparr>)
      ((bun_of w)\<lparr>b_socketsByPeerId := map_set p s (b_socketsByPeerId (bun_of w))\<rparr>) = bun_of ?c"
    unfolding claim_core_def bun_of_updates bun_of_fields by (rule bun_upd_of) (simp add: view_updates)
  have lim: "map_get (deviceLimits (take_over now p s w)) p \<noteq> None"
    using limits_known [OF base_okD(2) [OF T(1)]] T(4) by simp
  have closing: "bun_close_socket u 4000 r (bun_of x) = bun_of (close_socket u 4000 r x)" for u r x
    by (simp add: bun_close_socket_def close_socket_def bun_of_def)
  show ?thesis
  proof (cases "map_get (socketsByPeerId w) p")
    case None
    then have "map_get (deviceLimits w) p = None" using limits_known [OF D(2)] by simp
    with None show ?thesis unfolding c Let_def by (simp add: take_over_def bun_put_of)
  next
    case (Some u)
    show ?thesis
    proof (cases "u = s")
      case True
      with Some lim show ?thesis unfolding c Let_def by (auto simp: take_over_def)
    next
      case False
      have "u \<in> set (clients ?c)" using Some ids_okD(3) [OF D(2)] by simp
      moreover have "core_ok (mset (queue ?c) + R) ?c" using base_ok_claim_core(1) [OF D(1,3)] by simp
      ultimately have "bun_closeClient u (bun_of ?c) = bun_of (appended (close_core u ?c) (close_out u ?c))"
        by (intro bun_close_of)
      with Some False lim show ?thesis unfolding c Let_def by (auto simp: take_over_def closing)
    qed
  qed
qed

lemma text_of_matches: "matches P (string_field msg k) \<Longrightarrow> P (text_of msg k)"
  by (auto simp: matches_def text_of_def split: option.splits)

lemma bun_register_of:
  assumes ok: "base_ok (mset (queue w) + R) w" and s: "s \<in> set (clients w)"
  shows "bun_registerDevice cr now s msg (bun_of w) = map_prod bun_of id (register_at_once cr now s msg w)"
proof (cases "snd (registerDevice_start now s msg w)")
  case (Some e)
  then show ?thesis
    unfolding register_at_once_def
    by (auto simp: bun_registerDevice_def registerDevice_start_def bun_valid_of Let_def split: if_splits)
next
  case None
  let ?p = "text_of msg ''peer_id''"
  have st: "registerDevice_start now s msg w = (w, None)"
    using None registerDevice_start_state [of now s msg w] by (metis prod.collapse)
  have v: "registration_valid now (clientData w s) msg"
    using st by (auto simp: registerDevice_start_def split: if_splits)
  have hex: "buffer_hex (text_of msg ''signing_public_key'') = fromHex (text_of msg ''signing_public_key'')"
      "buffer_hex (text_of msg ''signature'') = fromHex (text_of msg ''signature'')"
    using v buffer_hex_lower [of 64] buffer_hex_lower [of 128] text_of_matches [of HEX_32] text_of_matches [of HEX_64]
    by (simp_all add: registration_valid_def HEX_32_def HEX_64_def)
  have claim: "PEER_ID ?p \<and> (c_peerId (clientData w s) = None \<or> c_peerId (clientData w s) = Some ?p)"
    using registerDevice_start_claim [of w "\<lparr>pm_socket = s, pm_message = msg, pm_bytes = 0\<rparr>" now w] st
      base_okD(2) [OF ok] s by (simp add: claim_ok_def)
  then have p: "PEER_ID ?p" "c_peerId (clientData w s) = None \<or> c_peerId (clientData w s) = Some ?p" by simp_all
  note C = commit_closed_form [OF ok, of s msg cr now] and B = bun_take_over_of [OF ok s p, of now]
  have opn: "open_sock (take_over now ?p s w) s"
    using client_open [OF base_okD(7) [OF take_over_ok(1) [OF ok s p]] take_over_ok(3) [OF ok s p]] .
  have t: "relayEnabled (take_over now ?p s w) = relayEnabled w"
    by (simp add: take_over_def split: option.split)
  have C': "register_at_once cr now s msg w =
     (if sha256Hex cr (fromHex (text_of msg ''signing_public_key'')) \<noteq> ?p then (w, Some ''Device identity mismatch'')
      else case commit_error cr msg of Some e \<Rightarrow> (w, Some e)
        | None \<Rightarrow> (appended (take_over now ?p s w) [Send s (DeviceRegistered ?p (relayEnabled w))], None))"
    using C claim s by (simp add: register_at_once_def st registerDevice_digest_def split: option.split)
  show ?thesis
    using v p(2) PEER_ID_not_Nil [OF p(1)]
    unfolding C' bun_registerDevice_def Let_def hex sha256Hex_def [symmetric] verifyEd25519_def [symmetric]
      B [unfolded Let_def]
    by (auto simp: bun_valid_of commit_error_def bun_send_of [OF opn] t split: sum.split bool.split)
qed

subsection \<open>Messages\<close>

text \<open>What the Durable Object does with a message from its admission to the end of its handler when no
  other event comes in between.\<close>

definition handle_at_once :: "crypto \<Rightarrow> int \<Rightarrow> sock \<Rightarrow> json_object \<Rightarrow> control_room \<Rightarrow> eff" where
  "handle_at_once cr now s msg w =
     andThen (if is_relay msg then checkRelayRateLimit now s w
              else checkRateLimit now s (field msg ''type'') w)
       (if type_is msg ''device_register'' then register_at_once cr now s msg else dispatch now s msg)"

lemma bun_then_of:
  assumes "good M w r" and "\<And>w'. base_ok M w' \<Longrightarrow> quiet w w' \<Longrightarrow> f (bun_of w') = map_prod bun_of id (g w')"
  shows "bun_then (map_prod bun_of id r) f = map_prod bun_of id (andThen r g)"
  using assms by (cases r; cases "snd r") (auto simp: good_def)



text \<open>Before registration they differ: the Bun server refuses an unregistered message without counting
  it, the Durable Object counts it at admission and refuses it later, so the messages of
  unregistered connections use up the limit of their address in the one and not in the other.\<close>

theorem unregistered_counted_differently:
  assumes s: "s \<in> set (clients w)" and r: "\<not> truthy (c_peerId (clientData w s))"
    and m: "\<not> type_is msg ''device_register''" "\<not> is_relay msg"
    and ok: "checkRateLimit now s (field msg ''type'') w = (w', None)"
  shows "bun_dispatch cr now s (JObj msg) (bun_of w) = (bun_of w, Some ''Device registration required'')
    \<and> handle_at_once cr now s msg w = (w', Some ''Device registration required'')
    \<and> map_get (rateLimitsByIp w') (c_ip (clientData w s))
        = Some (count_message (field msg ''type'') (ip_window now (c_ip (clientData w s)) w))"
proof -
  have "c_peerId (clientData w' s) = c_peerId (clientData w s)"
    "map_get (rateLimitsByIp w') (c_ip (clientData w s))
        = Some (count_message (field msg ''type'') (ip_window now (c_ip (clientData w s)) w))"
    using ok by (auto simp: checkRateLimit_def Let_def ip_window_def split: if_splits)
  with assms show ?thesis
    by (simp add: bun_dispatch_def object_of_def handle_at_once_def dispatch_def)
qed

text \<open>A challenge is never refused for its age: the validity of a registration does not depend on the
  expiry announced to the client with the challenge.\<close>

theorem challenge_never_expires:
  "registration_valid now (d\<lparr>challengeExpiresAt := t\<rparr>) msg = registration_valid now d msg
    \<and> bun_registration_valid now (b\<lparr>b_challengeExpiresAt := t\<rparr>) msg = bun_registration_valid now b msg"
  by (simp add: registration_valid_def bun_registration_valid_def)

end
