(* ===== verification/JsText.thy ===== *)
theory JsText
  imports Prelude
begin

text \<open>
  The operations of JavaScript's strings and arrays that the components use: \<open>slice\<close>, \<open>indexOf\<close>,
  \<open>includes\<close>, \<open>startsWith\<close>, \<open>trim\<close>, \<open>split\<close> on a character, white space, and a stable sort by a
  comparator. They work on any list, since arrays and strings share them.
\<close>

subsection \<open>Characters\<close>

definition is_digit :: "nat \<Rightarrow> bool" where
  "is_digit c \<longleftrightarrow> 48 \<le> c \<and> c \<le> 57"

definition is_letter :: "nat \<Rightarrow> bool" where
  "is_letter c \<longleftrightarrow> (65 \<le> c \<and> c \<le> 90) \<or> (97 \<le> c \<and> c \<le> 122)"

text \<open>A line terminator of the language: where \<open>^\<close> and \<open>$\<close> match in a multiline pattern.\<close>

definition is_newline :: "nat \<Rightarrow> bool" where
  "is_newline c \<longleftrightarrow> c = 10 \<or> c = 13 \<or> c = 8232 \<or> c = 8233"

subsection \<open>Positions\<close>

definition slice :: "'a list \<Rightarrow> nat \<Rightarrow> nat \<Rightarrow> 'a list" where
  "slice s a b = take (b - a) (drop a s)"

text \<open>\<open>slice\<close> with indices that may be negative, counted from the end.\<close>

definition clamp :: "nat \<Rightarrow> int \<Rightarrow> nat" where
  "clamp n i = (if i < 0 then nat (max 0 (int n + i)) else min (nat i) n)"

definition slice_int :: "'a list \<Rightarrow> int \<Rightarrow> int \<Rightarrow> 'a list" where
  "slice_int s a b = slice s (clamp (length s) a) (clamp (length s) b)"

definition char_at :: "'a list \<Rightarrow> nat \<Rightarrow> 'a option" where
  "char_at s i = (if i < length s then Some (s ! i) else None)"

definition matches_at :: "'a list \<Rightarrow> 'a list \<Rightarrow> nat \<Rightarrow> bool" where
  "matches_at pat s i \<longleftrightarrow> take (length pat) (drop i s) = pat"

definition index_from :: "'a list \<Rightarrow> 'a list \<Rightarrow> nat \<Rightarrow> nat option" where
  "index_from pat s i = find (matches_at pat s) [i..<Suc (length s)]"

definition text_includes :: "'a list \<Rightarrow> 'a list \<Rightarrow> bool" where
  "text_includes s pat \<longleftrightarrow> index_from pat s 0 \<noteq> None"

definition starts_with :: "'a list \<Rightarrow> 'a list \<Rightarrow> bool" where
  "starts_with s pat \<longleftrightarrow> take (length pat) s = pat"

definition ends_with :: "'a list \<Rightarrow> 'a list \<Rightarrow> bool" where
  "ends_with s pat \<longleftrightarrow> take (length pat) (rev s) = rev pat"

definition trim_start :: "jsstr \<Rightarrow> jsstr" where
  "trim_start s = dropWhile js_space s"

definition trim_end :: "jsstr \<Rightarrow> jsstr" where
  "trim_end s = rev (dropWhile js_space (rev s))"

definition trim :: "jsstr \<Rightarrow> jsstr" where
  "trim s = trim_end (trim_start s)"

text \<open>How long the run of elements satisfying a predicate at a position is.\<close>

definition run_at :: "('a \<Rightarrow> bool) \<Rightarrow> 'a list \<Rightarrow> nat \<Rightarrow> nat" where
  "run_at P s i = length (takeWhile P (drop i s))"

fun split_on :: "'a \<Rightarrow> 'a list \<Rightarrow> 'a list list" where
  "split_on c [] = [[]]"
| "split_on c (x # xs) =
     (if x = c then [] # split_on c xs
      else case split_on c xs of [] \<Rightarrow> [[x]] | y # ys \<Rightarrow> (x # y) # ys)"

fun join_on :: "'a list \<Rightarrow> 'a list list \<Rightarrow> 'a list" where
  "join_on sep [] = []"
| "join_on sep [x] = x"
| "join_on sep (x # xs) = x @ sep @ join_on sep xs"

lemma slice_simps [simp]:
  "slice s a a = []" "slice [] a b = []" "slice s 0 (length s) = s"
  by (simp_all add: slice_def)

lemma length_slice: "length (slice s a b) = min (b - a) (length s - a)"
  by (simp add: slice_def)

lemma slice_append: "a \<le> b \<Longrightarrow> b \<le> c \<Longrightarrow> slice s a b @ slice s b c = slice s a c"
proof -
  assume "a \<le> b" "b \<le> c"
  then have "take (b - a) (drop a s) @ take (c - b) (drop (b - a) (drop a s)) = take ((b - a) + (c - b)) (drop a s)"
    by (subst take_add) simp
  with \<open>a \<le> b\<close> \<open>b \<le> c\<close> show ?thesis by (simp add: slice_def)
qed

lemma slice_to_end: "length s \<le> b \<Longrightarrow> slice s a b = drop a s"
  by (simp add: slice_def)

lemma take_slice: "a \<le> length s \<Longrightarrow> take a s @ slice s a b = take (max a b) s"
  by (cases "a \<le> b") (simp_all add: slice_def max_def flip: take_add)

lemma slice_take: "b \<le> n \<Longrightarrow> slice (take n s) a b = slice s a b"
  by (simp add: slice_def drop_take min_def)

lemma slice_drop: "slice (drop n s) a b = slice s (n + a) (n + b)"
  by (simp add: slice_def add.commute)

lemma matches_atD: "matches_at pat s i \<Longrightarrow> length pat \<le> length s - i"
  unfolding matches_at_def by (drule arg_cong [where f = length]) simp

lemma find_SomeD: "find P xs = Some x \<Longrightarrow> x \<in> set xs \<and> P x"
  by (induction xs) (auto split: if_splits)

lemma index_from_Some:
  assumes "index_from pat s i = Some j"
  shows "i \<le> j" "j \<le> length s" "matches_at pat s j" "j + length pat \<le> length s"
proof -
  have "j \<in> set [i..<Suc (length s)]" "matches_at pat s j"
    using assms find_SomeD unfolding index_from_def by fast+
  then show "i \<le> j" "j \<le> length s" "matches_at pat s j" by auto
  then show "j + length pat \<le> length s" using matches_atD by fastforce
qed

lemma text_includes_single: "text_includes s [c] \<longleftrightarrow> c \<in> set s"
proof -
  have m: "matches_at [c] s i \<longleftrightarrow> i < length s \<and> s ! i = c" for i
    by (cases "drop i s") (auto simp: matches_at_def nth_via_drop simp flip: not_le)
  show ?thesis
    by (auto simp: text_includes_def index_from_def find_None_iff m in_set_conv_nth)
qed

lemma run_at_le: "run_at P s i \<le> length s - i"
  unfolding run_at_def by (metis length_drop length_takeWhile_le)

lemma split_on_not_Nil [simp]: "split_on c s \<noteq> []"
  by (induction s) (auto split: list.splits)

text \<open>Joining with the separator undoes the split.\<close>

lemma join_split: "join_on [c] (split_on c s) = s"
proof (induction s)
  case (Cons x s)
  then show ?case by (cases "split_on c s"; cases "tl (split_on c s)") auto
qed simp

lemma split_on_subset: "p \<in> set (split_on c s) \<Longrightarrow> set p \<subseteq> set s"
proof -
  have "\<forall>p \<in> set (split_on c s). set p \<subseteq> set s" by (induction s) (auto split: list.splits)
  then show "p \<in> set (split_on c s) \<Longrightarrow> set p \<subseteq> set s" by blast
qed

lemma set_join_on_sep: "set (join_on sep xs) \<subseteq> set sep \<union> (\<Union>x \<in> set xs. set x)"
  by (induction sep xs rule: join_on.induct) auto

lemma split_on_no_sep: "p \<in> set (split_on c s) \<Longrightarrow> c \<notin> set p"
  by (induction s arbitrary: p) (auto split: list.splits if_splits)

text \<open>\<open>replaceAll\<close> of a non-empty text, scanning from the left.\<close>

function replace_all :: "jsstr \<Rightarrow> jsstr \<Rightarrow> jsstr \<Rightarrow> jsstr" where
  "replace_all pat rep s =
     (case s of
        [] \<Rightarrow> []
      | c # s' \<Rightarrow> if pat \<noteq> [] \<and> starts_with s pat then rep @ replace_all pat rep (drop (length pat) s)
                  else c # replace_all pat rep s')"
  by pat_completeness auto
termination
  by (relation "measure (\<lambda>(p, r, s). length s)") auto

declare replace_all.simps [simp del]

text \<open>Replacing a single character is a substitution.\<close>

lemma replace_all_char: "replace_all [c] rep s = concat (map (\<lambda>d. if d = c then rep else [d]) s)"
proof (induction s)
  case (Cons d s)
  then show ?case by (subst replace_all.simps) (simp add: starts_with_def)
qed (simp add: replace_all.simps)

subsection \<open>Characters of a string\<close>

text \<open>The characters of a string as iteration gives them: a surrogate pair is one character.\<close>

fun chars :: "jsstr \<Rightarrow> (nat \<times> jsstr) list" where
  "chars [] = []"
| "chars [c] = [(c, [c])]"
| "chars (c # d # s) =
     (if 55296 \<le> c \<and> c < 56320 \<and> 56320 \<le> d \<and> d < 57344
      then (65536 + (c - 55296) * 1024 + (d - 56320), [c, d]) # chars s
      else (c, [c]) # chars (d # s))"

subsection \<open>Numbers as text\<close>

text \<open>The decimal form of a natural number, and the value of a run of digits.\<close>

fun decimal :: "nat \<Rightarrow> jsstr" where
  "decimal n = (if n < 10 then [48 + n] else decimal (n div 10) @ [48 + n mod 10])"

declare decimal.simps [simp del]

definition digits_value :: "jsstr \<Rightarrow> nat" where
  "digits_value s = foldl (\<lambda>n c. 10 * n + (c - 48)) 0 s"

lemma decimal_digits: "decimal n \<noteq> []" "list_all is_digit (decimal n)"
  by (induction n rule: decimal.induct) (subst decimal.simps; auto simp: is_digit_def)+

lemma digits_value_decimal: "digits_value (decimal n) = n"
proof (induction n rule: decimal.induct)
  case (1 n)
  then show ?case by (subst decimal.simps) (auto simp: digits_value_def)
qed

subsection \<open>Sorting\<close>

text \<open>\<open>sort\<close> with a comparator: stable, so on a consistent comparator this is the one sorted arrangement
  that keeps the order of equal elements.\<close>

fun insert_by :: "('a \<Rightarrow> 'a \<Rightarrow> int) \<Rightarrow> 'a \<Rightarrow> 'a list \<Rightarrow> 'a list" where
  "insert_by cmp x [] = [x]"
| "insert_by cmp x (y # ys) = (if cmp x y \<le> 0 then x # y # ys else y # insert_by cmp x ys)"

fun sort_by :: "('a \<Rightarrow> 'a \<Rightarrow> int) \<Rightarrow> 'a list \<Rightarrow> 'a list" where
  "sort_by cmp [] = []"
| "sort_by cmp (x # xs) = insert_by cmp x (sort_by cmp xs)"

lemma set_insert_by [simp]: "set (insert_by cmp x xs) = insert x (set xs)"
  by (induction xs) auto

lemma length_insert_by [simp]: "length (insert_by cmp x xs) = Suc (length xs)"
  by (induction xs) auto

lemma set_sort_by [simp]: "set (sort_by cmp xs) = set xs"
  by (induction xs) auto

lemma length_sort_by [simp]: "length (sort_by cmp xs) = length xs"
  by (induction xs) auto

lemma distinct_insert_by [simp]: "distinct (insert_by cmp x xs) \<longleftrightarrow> x \<notin> set xs \<and> distinct xs"
  by (induction xs) auto

lemma distinct_sort_by [simp]: "distinct (sort_by cmp xs) = distinct xs"
  by (induction xs) auto

text \<open>A comparator is consistent when it is the comparison of a total preorder.\<close>

definition consistent :: "('a \<Rightarrow> 'a \<Rightarrow> int) \<Rightarrow> 'a set \<Rightarrow> bool" where
  "consistent cmp A \<longleftrightarrow> (\<forall>x \<in> A. \<forall>y \<in> A. cmp x y \<le> 0 \<or> cmp y x \<le> 0)
     \<and> (\<forall>x \<in> A. \<forall>y \<in> A. \<forall>z \<in> A. cmp x y \<le> 0 \<longrightarrow> cmp y z \<le> 0 \<longrightarrow> cmp x z \<le> 0)"

lemma consistentD:
  "consistent cmp A \<Longrightarrow> x \<in> A \<Longrightarrow> y \<in> A \<Longrightarrow> \<not> cmp x y \<le> 0 \<Longrightarrow> cmp y x \<le> 0"
  "consistent cmp A \<Longrightarrow> x \<in> A \<Longrightarrow> y \<in> A \<Longrightarrow> z \<in> A \<Longrightarrow> cmp x y \<le> 0 \<Longrightarrow> cmp y z \<le> 0 \<Longrightarrow> cmp x z \<le> 0"
  unfolding consistent_def by blast+

lemma sorted_insert_by:
  assumes "consistent cmp A" "x \<in> A" "set xs \<subseteq> A" "sorted_wrt (\<lambda>a b. cmp a b \<le> 0) xs"
  shows "sorted_wrt (\<lambda>a b. cmp a b \<le> 0) (insert_by cmp x xs)"
  using assms(3,4)
proof (induction xs)
  case (Cons y ys)
  have y: "y \<in> A" and ys: "set ys \<subseteq> A" using Cons.prems by auto
  show ?case
  proof (cases "cmp x y \<le> 0")
    case True
    then have "cmp x z \<le> 0" if "z \<in> set ys" for z
      using that Cons.prems consistentD(2) [OF assms(1,2) y] by auto
    with True Cons.prems show ?thesis by simp
  next
    case False
    then have "cmp y x \<le> 0" using consistentD(1) [OF assms(1,2) y] by blast
    with False Cons y ys show ?thesis by simp
  qed
qed simp

lemma sorted_sort_by:
  "consistent cmp A \<Longrightarrow> set xs \<subseteq> A \<Longrightarrow> sorted_wrt (\<lambda>a b. cmp a b \<le> 0) (sort_by cmp xs)"
  by (induction xs) (auto intro!: sorted_insert_by)

text \<open>A sort by a key is consistent.\<close>

lemma consistent_key: "consistent (\<lambda>x y. f x - f y) A"
  by (auto simp: consistent_def)

end
