(* ===== verification/Mentions.thy ===== *)
theory Mentions
  imports JsText
begin

text \<open>
  Mentions in messages, \<open>tui/src/mentions.ts\<close>: the ranges the composer keeps for picked mentions and
  how an edit moves them, their replacement by tokens on sending, the scan of a received message
  into text, code and mentions, its grouping into paragraphs, the small Markdown parser, and the
  completion popup. Texts are lists of UTF-16 code units; each regular expression is written out as
  the match it makes at a position. \<open>toLowerCase\<close> and \<open>localeCompare\<close>, which depend on the
  locale's tables, are arguments.
\<close>

subsection \<open>Spans in the composer\<close>

record mention_candidate =
  mc_peerId :: jsstr
  mc_displayName :: jsstr
  mc_isSelf :: bool

record mention_span =
  sp_peerId :: jsstr
  sp_name :: jsstr
  sp_start :: int
  sp_end :: int

text \<open>How far two texts agree from the front.\<close>

fun common_prefix :: "'a list \<Rightarrow> 'a list \<Rightarrow> nat" where
  "common_prefix (x # xs) (y # ys) = (if x = y then Suc (common_prefix xs ys) else 0)"
| "common_prefix _ _ = 0"

definition updateSpansAfterEdit :: "mention_span list \<Rightarrow> jsstr \<Rightarrow> jsstr \<Rightarrow> mention_span list" where
  "updateSpansAfterEdit spans prevText nextText =
     (if prevText = nextText then spans
      else
        let start = common_prefix prevText nextText;
            same = common_prefix (rev (drop start prevText)) (rev (drop start nextText));
            prevEnd = length prevText - same;
            nextEnd = length nextText - same;
            delta = int nextEnd - int start - (int prevEnd - int start)
        in List.map_filter (\<lambda>span.
             if sp_end span \<le> int start then Some span
             else if sp_start span \<ge> int prevEnd
             then Some (span\<lparr>sp_start := sp_start span + delta, sp_end := sp_end span + delta\<rparr>)
             else None) spans)"

definition token :: "jsstr \<Rightarrow> jsstr" where
  "token peerId = [60, 64] @ peerId @ [62]"

definition replace_span :: "mention_span \<Rightarrow> jsstr \<Rightarrow> jsstr" where
  "replace_span sp result =
     (if sp_start sp < 0 \<or> sp_end sp > int (length result) \<or> sp_start sp \<ge> sp_end sp then result
      else if slice_int result (sp_start sp) (sp_end sp) \<noteq> 64 # sp_name sp then result
      else slice_int result 0 (sp_start sp) @ token (sp_peerId sp)
             @ slice_int result (sp_end sp) (int (length result)))"

definition spansToTokens :: "jsstr \<Rightarrow> mention_span list \<Rightarrow> jsstr" where
  "spansToTokens text spans =
     fold replace_span (sort_by (\<lambda>a b. sp_start b - sp_start a) spans) text"

subsection \<open>Tokens\<close>

definition id_char :: "nat \<Rightarrow> bool" where
  "id_char c \<longleftrightarrow> is_letter c \<or> is_digit c \<or> c = 95 \<or> c = 45"

text \<open>The identity of a token \<open><@id>\<close> at a position.\<close>

definition mention_at :: "jsstr \<Rightarrow> nat \<Rightarrow> jsstr option" where
  "mention_at s i =
     (let n = run_at id_char s (i + 2) in
      if matches_at [60, 64] s i \<and> 0 < n \<and> char_at s (i + 2 + n) = Some 62
      then Some (slice s (i + 2) (i + 2 + n)) else None)"

definition EVERYONE_PEER_ID :: jsstr where
  "EVERYONE_PEER_ID = js ''everyone''"

definition isEscapedAt :: "jsstr \<Rightarrow> nat \<Rightarrow> bool" where
  "isEscapedAt content index = odd (length (takeWhile (\<lambda>c. c = 92) (rev (take index content))))"

text \<open>\<open>matchAll\<close>: the matches from a position on, each after the end of the one before.\<close>

function token_matches :: "jsstr \<Rightarrow> nat \<Rightarrow> (nat \<times> jsstr) list" where
  "token_matches s i =
     (if length s \<le> i then []
      else case mention_at s i of
          Some peerId \<Rightarrow> (i, peerId) # token_matches s (i + length peerId + 3)
        | None \<Rightarrow> token_matches s (Suc i))"
  by pat_completeness auto
termination by (relation "measure (\<lambda>(s, i). length s - i)") auto

declare token_matches.simps [simp del]

definition parseMentions :: "jsstr \<Rightarrow> jsstr list" where
  "parseMentions content =
     fold (\<lambda>(index, peerId) ids. if isEscapedAt content index then ids else set_add peerId ids)
       (token_matches content 0) []"

definition mentionsPeer :: "jsstr \<Rightarrow> jsstr \<Rightarrow> bool" where
  "mentionsPeer content peerId \<longleftrightarrow> peerId \<noteq> [] \<and> peerId \<in> set (parseMentions content)"

definition payloadMentions :: "json \<Rightarrow> jsstr list" where
  "payloadMentions payload =
     (case payload of
        JArr vs \<Rightarrow> fold (\<lambda>v ids. case v of JStr peerId \<Rightarrow> set_add peerId ids | _ \<Rightarrow> ids) vs []
      | _ \<Rightarrow> [])"

definition mentionsEveryone :: "json \<Rightarrow> bool" where
  "mentionsEveryone payload \<longleftrightarrow> EVERYONE_PEER_ID \<in> set (payloadMentions payload)"

subsection \<open>Scanning a message\<close>

text \<open>What the scan reports, in order.\<close>

datatype piece = OnText jsstr | OnMention jsstr | OnCode jsstr

definition line_end :: "jsstr \<Rightarrow> nat \<Rightarrow> nat" where
  "line_end s i = (case index_from [10] s i of None \<Rightarrow> length s | Some e \<Rightarrow> e)"

definition next_line :: "jsstr \<Rightarrow> nat \<Rightarrow> nat" where
  "next_line s i = (case index_from [10] s i of None \<Rightarrow> length s | Some e \<Rightarrow> Suc e)"

text \<open>The marker and its length of a line that opens a fenced block, and whether a line closes it.\<close>

definition fence_open :: "jsstr \<Rightarrow> (nat \<times> nat) option" where
  "fence_open line =
     (let n = run_at (\<lambda>c. c = 32) line 0 in
      if n > 3 then None
      else case char_at line n of
          Some c \<Rightarrow> if (c = 96 \<or> c = 126) \<and> 3 \<le> run_at (\<lambda>x. x = c) line n
                     then Some (c, run_at (\<lambda>x. x = c) line n) else None
        | None \<Rightarrow> None)"

definition fence_closes :: "nat \<Rightarrow> nat \<Rightarrow> jsstr \<Rightarrow> bool" where
  "fence_closes c len line =
     (let n = run_at (\<lambda>x. x = 32) line 0; k = run_at (\<lambda>x. x = c) line n in
      n \<le> 3 \<and> len \<le> k \<and> list_all js_space (drop (n + k) line))"

lemma next_line_gt: "i < length s \<Longrightarrow> i < next_line s i \<and> next_line s i \<le> length s"
  using index_from_Some [of "[10]" s i] by (auto simp: next_line_def split: option.splits)

function fence_end :: "jsstr \<Rightarrow> nat \<Rightarrow> nat \<Rightarrow> nat \<Rightarrow> nat" where
  "fence_end s c len cursor =
     (if length s \<le> cursor then length s
      else if fence_closes c len (slice s cursor (line_end s cursor)) then next_line s cursor
      else fence_end s c len (next_line s cursor))"
  by pat_completeness auto
termination
  by (relation "measure (\<lambda>(s, c, len, cursor). length s - cursor)")
    (auto dest!: next_line_gt simp: not_le)

declare fence_end.simps [simp del]

lemma fence_end_bounds: "cursor \<le> length s \<Longrightarrow> cursor \<le> fence_end s c len cursor \<and> fence_end s c len cursor \<le> length s"
proof (induction s c len cursor rule: fence_end.induct)
  case (1 s c len cursor)
  show ?case
  proof (cases "length s \<le> cursor")
    case True
    with "1.prems" have "cursor = length s" by simp
    then show ?thesis by (subst (1 2) fence_end.simps) simp
  next
    case False
    then have n: "cursor < next_line s cursor" "next_line s cursor \<le> length s"
      using next_line_gt [of cursor s] by simp_all
    with 1 False show ?thesis by (auto simp: fence_end.simps [of s c len cursor])
  qed
qed

text \<open>One step of the scan at a position: the code region that starts there, if any, and otherwise the
  piece reported and the number of characters read.\<close>

definition fence_at :: "jsstr \<Rightarrow> nat \<Rightarrow> nat option" where
  "fence_at s i =
     (if i = 0 \<or> char_at s (i - 1) = Some 10
      then case fence_open (slice s i (line_end s i)) of
          None \<Rightarrow> None
        | Some (c, len) \<Rightarrow> Some (fence_end s c len (next_line s i))
      else None)"

definition code_span_at :: "jsstr \<Rightarrow> nat \<Rightarrow> nat option" where
  "code_span_at s i =
     (if char_at s i = Some 96 \<and> \<not> isEscapedAt s i
      then let len = run_at (\<lambda>c. c = 96) s i in
        case index_from (replicate len 96) s (i + len) of
            Some closing \<Rightarrow> Some (closing + len)
          | None \<Rightarrow> None
      else None)"

definition scan_step :: "jsstr \<Rightarrow> nat \<Rightarrow> piece \<times> nat" where
  "scan_step s i =
     (case fence_at s i of
        Some e \<Rightarrow> (OnCode (slice s i e), e)
      | None \<Rightarrow>
        (case code_span_at s i of
           Some e \<Rightarrow> (OnCode (slice s i e), e)
         | None \<Rightarrow>
             let ch = s ! i in
             if ch = 92 \<and> char_at s (i + 1) = Some 92 then (OnText [92], i + 2)
             else if ch = 92 \<and> mention_at s (i + 1) \<noteq> None
             then let peerId = the (mention_at s (i + 1)) in (OnText (token peerId), i + 1 + length (token peerId))
             else if ch = 60 \<and> mention_at s i \<noteq> None
             then let peerId = the (mention_at s i) in (OnMention peerId, i + length (token peerId))
             else (OnText [ch], i + 1)))"

lemma fence_at_gt:
  assumes a: "fence_at s i = Some e" and i: "i < length s"
  shows "i < e \<and> e \<le> length s"
proof -
  from a obtain c len where "e = fence_end s c len (next_line s i)"
    by (auto simp: fence_at_def split: if_splits option.splits)
  with next_line_gt [OF i] fence_end_bounds [of "next_line s i" s c len] show ?thesis by auto
qed

lemma code_span_gt:
  assumes a: "code_span_at s i = Some e"
  shows "i < e \<and> e \<le> length s"
proof -
  from a have i: "char_at s i = Some 96" by (simp add: code_span_at_def split: if_splits)
  then have "0 < run_at (\<lambda>c. c = 96) s i"
    by (auto simp: run_at_def char_at_def Cons_nth_drop_Suc [symmetric] split: if_splits)
  with a show ?thesis
    using index_from_Some [of "replicate (run_at (\<lambda>c. c = 96) s i) 96" s "i + run_at (\<lambda>c. c = 96) s i"]
    by (fastforce simp: code_span_at_def Let_def split: if_splits option.splits)
qed

lemma scan_step_gt: "i < length s \<Longrightarrow> i < snd (scan_step s i)"
  using fence_at_gt [of s i] code_span_gt [of s i]
  by (auto simp: scan_step_def Let_def token_def split: option.splits)

function scan_from :: "jsstr \<Rightarrow> nat \<Rightarrow> piece list" where
  "scan_from s i =
     (if length s \<le> i then []
      else case scan_step s i of (p, j) \<Rightarrow> p # scan_from s j)"
  by pat_completeness auto
termination
  by (relation "measure (\<lambda>(s, i). length s - i)")
    (auto, metis diff_less_mono2 not_le scan_step_gt snd_conv)

declare scan_from.simps [simp del]

definition scanMentionContent :: "jsstr \<Rightarrow> piece list" where
  "scanMentionContent content = scan_from content 0"

definition shown_name :: "(jsstr \<Rightarrow> jsstr option) \<Rightarrow> jsstr \<Rightarrow> jsstr" where
  "shown_name resolveName peerId = (case resolveName peerId of Some n \<Rightarrow> n | None \<Rightarrow> js ''unknown'')"

fun render_piece :: "(jsstr \<Rightarrow> jsstr option) \<Rightarrow> piece \<Rightarrow> jsstr" where
  "render_piece resolveName (OnText t) = t"
| "render_piece resolveName (OnMention p) = 64 # shown_name resolveName p"
| "render_piece resolveName (OnCode t) = t"

definition renderMentionedContent :: "jsstr \<Rightarrow> (jsstr \<Rightarrow> jsstr option) \<Rightarrow> jsstr" where
  "renderMentionedContent content resolveName =
     fold (\<lambda>p result. result @ render_piece resolveName p) (scanMentionContent content) []"

subsection \<open>Segments and paragraphs\<close>

datatype mention_segment = TextSegment jsstr | CodeSegment jsstr | MentionSegment jsstr jsstr

definition flushText :: "mention_segment list \<times> jsstr \<Rightarrow> mention_segment list" where
  "flushText st = (case st of (segments, textBuffer) \<Rightarrow>
     if textBuffer \<noteq> [] then segments @ [TextSegment textBuffer] else segments)"

fun add_piece ::
  "(jsstr \<Rightarrow> jsstr option) \<Rightarrow> piece \<Rightarrow> mention_segment list \<times> jsstr \<Rightarrow> mention_segment list \<times> jsstr" where
  "add_piece resolveName (OnText t) st = (fst st, snd st @ t)"
| "add_piece resolveName (OnMention p) st = (flushText st @ [MentionSegment p (shown_name resolveName p)], [])"
| "add_piece resolveName (OnCode t) st = (flushText st @ [CodeSegment t], [])"

definition segmentMentionedContent :: "jsstr \<Rightarrow> (jsstr \<Rightarrow> jsstr option) \<Rightarrow> mention_segment list" where
  "segmentMentionedContent content resolveName =
     flushText (fold (add_piece resolveName) (scanMentionContent content) ([], []))"

datatype mention_body_block = PlainBlock jsstr | RichBlock "mention_segment list"

text \<open>\<open>split(/\n{2,}/)\<close>: the runs of text between blank lines.\<close>

function split_blank :: "jsstr \<Rightarrow> jsstr \<Rightarrow> jsstr list" where
  "split_blank acc [] = [rev acc]"
| "split_blank acc (c # cs) =
     (if c = 10 \<and> cs \<noteq> [] \<and> hd cs = 10 then rev acc # split_blank [] (dropWhile (\<lambda>x. x = 10) cs)
      else split_blank (c # acc) cs)"
  by pat_completeness auto
termination
  by (relation "measure (\<lambda>(acc, s). length s)") (auto simp: less_Suc_eq_le length_dropWhile_le)

definition push_part ::
  "nat \<times> jsstr \<Rightarrow> mention_segment list list \<times> mention_segment list
     \<Rightarrow> mention_segment list list \<times> mention_segment list" where
  "push_part part st =
     (let st' = (if 0 < fst part then (fst st @ [snd st], []) else st) in
      if snd part \<noteq> [] then (fst st', snd st' @ [TextSegment (snd part)]) else st')"

definition push_segment ::
  "mention_segment \<Rightarrow> mention_segment list list \<times> mention_segment list
     \<Rightarrow> mention_segment list list \<times> mention_segment list" where
  "push_segment segment st =
     (case segment of
        TextSegment t \<Rightarrow> fold push_part (enumerate 0 (split_blank [] t)) st
      | _ \<Rightarrow> (fst st, snd st @ [segment]))"

fun segment_text :: "mention_segment \<Rightarrow> jsstr" where
  "segment_text (TextSegment t) = t"
| "segment_text (CodeSegment t) = t"
| "segment_text (MentionSegment p n) = []"

definition is_mention :: "mention_segment \<Rightarrow> bool" where
  "is_mention s = (case s of MentionSegment p n \<Rightarrow> True | _ \<Rightarrow> False)"

definition block_of :: "mention_segment list \<Rightarrow> mention_body_block option" where
  "block_of paragraph =
     (if paragraph = [] then None
      else if list_ex is_mention paragraph then Some (RichBlock paragraph)
      else Some (PlainBlock (concat (map segment_text (filter (\<lambda>s. \<not> is_mention s) paragraph)))))"

definition splitMentionBody :: "mention_segment list \<Rightarrow> mention_body_block list" where
  "splitMentionBody segments =
     (case fold push_segment segments ([], []) of
        (ps, p) \<Rightarrow> List.map_filter block_of (ps @ [p]))"

subsection \<open>Edits keep the spans valid\<close>

text \<open>A span is valid in a text when its range there reads \<open>@Display Name\<close>.\<close>

definition span_valid :: "jsstr \<Rightarrow> mention_span \<Rightarrow> bool" where
  "span_valid text sp \<longleftrightarrow> 0 \<le> sp_start sp \<and> sp_start sp \<le> sp_end sp \<and> sp_end sp \<le> int (length text)
     \<and> slice text (nat (sp_start sp)) (nat (sp_end sp)) = 64 # sp_name sp"

lemma common_prefix_le: "common_prefix xs ys \<le> length xs" "common_prefix xs ys \<le> length ys"
  by (induction xs ys rule: common_prefix.induct) auto

lemma common_prefix_take: "take (common_prefix xs ys) xs = take (common_prefix xs ys) ys"
  by (induction xs ys rule: common_prefix.induct) auto

lemma common_suffix_drop:
  fixes a b :: "'a list"
  defines "n \<equiv> common_prefix (rev a) (rev b)"
  shows "drop (length a - n) a = drop (length b - n) b" "n \<le> length a" "n \<le> length b"
proof -
  have "rev (drop (length a - n) a) = rev (drop (length b - n) b)"
    using common_prefix_take [of "rev a" "rev b"] unfolding n_def by (simp add: take_rev)
  then show "drop (length a - n) a = drop (length b - n) b" by simp
  show "n \<le> length a" "n \<le> length b"
    using common_prefix_le [of "rev a" "rev b"] by (simp_all add: n_def)
qed

lemma span_valid_before:
  assumes "span_valid a sp" "take n a = take n b" "n \<le> length b" "sp_end sp \<le> int n"
  shows "span_valid b sp"
proof -
  have "nat (sp_end sp) \<le> n" using assms by (simp add: span_valid_def nat_le_iff)
  then have "slice a (nat (sp_start sp)) (nat (sp_end sp)) = slice b (nat (sp_start sp)) (nat (sp_end sp))"
    using slice_take [of "nat (sp_end sp)" n a] slice_take [of "nat (sp_end sp)" n b] assms(2) by metis
  with assms show ?thesis by (simp add: span_valid_def)
qed

lemma span_valid_after:
  assumes v: "span_valid a sp" and d: "drop m a = drop n b" "m \<le> length a" "n \<le> length b"
    and s: "sp_start sp \<ge> int m"
  shows "span_valid b (sp\<lparr>sp_start := sp_start sp + (int n - int m), sp_end := sp_end sp + (int n - int m)\<rparr>)"
proof -
  let ?i = "nat (sp_start sp) - m" and ?j = "nat (sp_end sp) - m"
  have ij: "nat (sp_start sp) = m + ?i" "nat (sp_end sp) = m + ?j"
    using v s by (auto simp: span_valid_def)
  have ij': "nat (sp_start sp + (int n - int m)) = n + ?i" "nat (sp_end sp + (int n - int m)) = n + ?j"
    using v s by (auto simp: span_valid_def)
  have "slice a (m + ?i) (m + ?j) = slice b (n + ?i) (n + ?j)"
    using slice_drop [of m a ?i ?j] slice_drop [of n b ?i ?j] d(1) by simp
  then have "slice b (nat (sp_start sp + (int n - int m))) (nat (sp_end sp + (int n - int m))) = 64 # sp_name sp"
    using v ij ij' by (simp add: span_valid_def)
  moreover have "length a - m = length b - n" using d by (metis length_drop)
  then have "sp_end sp + (int n - int m) \<le> int (length b)"
    using v d(2,3) unfolding span_valid_def by linarith
  ultimately show ?thesis using v s by (simp add: span_valid_def)
qed

lemma edited_spans_valid:
  assumes "\<forall>sp \<in> set spans. span_valid prevText sp"
  shows "\<forall>sp \<in> set (updateSpansAfterEdit spans prevText nextText). span_valid nextText sp"
proof (cases "prevText = nextText")
  case True
  with assms show ?thesis by (simp add: updateSpansAfterEdit_def)
next
  case False
  define start where "start = common_prefix prevText nextText"
  define same where "same = common_prefix (rev (drop start prevText)) (rev (drop start nextText))"
  define pe where "pe = length prevText - same"
  define ne where "ne = length nextText - same"
  have start: "start \<le> length prevText" "start \<le> length nextText"
    "take start prevText = take start nextText"
    using common_prefix_le [of prevText nextText] common_prefix_take by (simp_all add: start_def)
  have "same \<le> length prevText - start" "same \<le> length nextText - start"
    "drop (length prevText - start - same) (drop start prevText)
       = drop (length nextText - start - same) (drop start nextText)"
    using common_suffix_drop [of "drop start prevText" "drop start nextText"] by (simp_all add: same_def)
  then have tail: "drop pe prevText = drop ne nextText" "pe \<le> length prevText" "ne \<le> length nextText"
    using start by (simp_all add: pe_def ne_def add.commute)
  show ?thesis
  proof
    fix sp assume "sp \<in> set (updateSpansAfterEdit spans prevText nextText)"
    then obtain sp0 where sp0: "sp0 \<in> set spans" and
      sp: "(sp_end sp0 \<le> int start \<and> sp = sp0) \<or> (sp_start sp0 \<ge> int pe \<and>
        sp = sp0\<lparr>sp_start := sp_start sp0 + (int ne - int pe), sp_end := sp_end sp0 + (int ne - int pe)\<rparr>)"
      using False unfolding updateSpansAfterEdit_def Let_def start_def [symmetric] same_def [symmetric]
        pe_def [symmetric] ne_def [symmetric]
      by (auto simp: List.map_filter_def split: if_splits)
    from sp show "span_valid nextText sp"
      using span_valid_before [OF _ start(3,2)] span_valid_after [OF _ tail] assms sp0 by blast
  qed
qed

text \<open>C8. Editing the composer keeps every mention honest: if each span reads \<open>@Display Name\<close> in the text
  before the edit, each span kept or moved by the edit reads so in the text after it.\<close>

theorem spans_stay_valid:
  assumes "\<forall>sp \<in> set spans. span_valid prevText sp"
  shows "\<forall>sp \<in> set (updateSpansAfterEdit spans prevText nextText). span_valid nextText sp"
  using assms by (rule edited_spans_valid)

theorem spans_stay_valid_witness:
  "updateSpansAfterEdit [\<lparr>sp_peerId = js ''p'', sp_name = js ''Al'', sp_start = 3, sp_end = 6\<rparr>]
      (js ''hi @Al'') (js ''hey @Al'') = [\<lparr>sp_peerId = js ''p'', sp_name = js ''Al'', sp_start = 4, sp_end = 7\<rparr>]
    \<and> span_valid (js ''hey @Al'') \<lparr>sp_peerId = js ''p'', sp_name = js ''Al'', sp_start = 4, sp_end = 7\<rparr>"
  (is "?edited = [?sp] \<and> span_valid ?new ?sp")
proof
  show "?edited = [?sp]" by code_simp
  have "\<forall>sp \<in> set ?edited. span_valid ?new sp"
    by (rule spans_stay_valid) code_simp
  with \<open>?edited = [?sp]\<close> show "span_valid ?new ?sp" by simp
qed

subsection \<open>Sending\<close>

text \<open>The replacement of spans from left to right, as a reference.\<close>

fun splice_tokens :: "nat \<Rightarrow> mention_span list \<Rightarrow> jsstr \<Rightarrow> jsstr" where
  "splice_tokens p [] text = drop p text"
| "splice_tokens p (sp # sps) text =
     slice text p (nat (sp_start sp)) @ token (sp_peerId sp) @ splice_tokens (nat (sp_end sp)) sps text"

fun spans_in_order :: "nat \<Rightarrow> mention_span list \<Rightarrow> bool" where
  "spans_in_order p [] = True"
| "spans_in_order p (sp # sps) = (int p \<le> sp_start sp \<and> spans_in_order (nat (sp_end sp)) sps)"

lemma slice_int_nat:
  assumes "0 \<le> a" "a \<le> int (length s)" "0 \<le> b" "b \<le> int (length s)"
  shows "slice_int s a b = slice s (nat a) (nat b)"
  using assms by (simp add: slice_int_def clamp_def min_def nat_le_iff not_le)

lemma replace_fold:
  assumes "spans_in_order p sps" "\<forall>sp \<in> set sps. span_valid text sp" "p \<le> length text"
  shows "fold replace_span (rev sps) text = take p text @ splice_tokens p sps text"
  using assms
proof (induction sps arbitrary: p)
  case (Cons sp sps)
  let ?a = "nat (sp_start sp)" and ?b = "nat (sp_end sp)"
  let ?R = "take ?b text @ splice_tokens ?b sps text"
  have v: "span_valid text sp" and p: "int p \<le> sp_start sp" using Cons.prems by auto
  then have b: "?b \<le> length text" "?a \<le> ?b" "p \<le> ?a" by (auto simp: span_valid_def)
  have ne: "sp_start sp < sp_end sp"
  proof (rule ccontr)
    assume "\<not> sp_start sp < sp_end sp"
    then have "sp_start sp = sp_end sp" using v by (simp add: span_valid_def)
    with v show False by (simp add: span_valid_def)
  qed
  have R: "fold replace_span (rev sps) text = ?R" using Cons b by (intro Cons.IH) auto
  have len: "sp_end sp \<le> int (length ?R)" using b v by (simp add: span_valid_def)
  have sl: "slice_int ?R (sp_start sp) (sp_end sp) = 64 # sp_name sp"
  proof -
    have "slice_int ?R (sp_start sp) (sp_end sp) = slice ?R ?a ?b"
      using v len ne by (intro slice_int_nat) (simp_all add: span_valid_def)
    also have "\<dots> = slice text ?a ?b" using b by (simp add: slice_def drop_take)
    also have "\<dots> = 64 # sp_name sp" using v by (simp add: span_valid_def)
    finally show ?thesis .
  qed
  have "replace_span sp ?R = slice_int ?R 0 (sp_start sp) @ token (sp_peerId sp)
      @ slice_int ?R (sp_end sp) (int (length ?R))"
    using v ne len sl unfolding replace_span_def by (simp add: span_valid_def)
  also have "slice_int ?R 0 (sp_start sp) = take ?a text"
    using v ne len b by (subst slice_int_nat) (simp_all add: span_valid_def slice_def min_def)
  also have "slice_int ?R (sp_end sp) (int (length ?R)) = splice_tokens ?b sps text"
    using v ne len b by (subst slice_int_nat) (simp_all add: span_valid_def slice_def nat_add_distrib)
  finally have "replace_span sp ?R = take ?a text @ token (sp_peerId sp) @ splice_tokens ?b sps text" .
  moreover have "take p text @ slice text p ?a = take ?a text"
    using b take_slice [of p "text" ?a] by (simp add: max_def)
  ultimately show ?case using R by simp
qed simp

lemma spans_in_order_starts:
  assumes "spans_in_order p sps" "\<forall>sp \<in> set sps. span_valid text sp"
  shows "sorted (map sp_start sps) \<and> distinct (map sp_start sps) \<and> (\<forall>sp \<in> set sps. int p \<le> sp_start sp)"
  using assms
proof (induction sps arbitrary: p)
  case (Cons sp sps)
  have v: "span_valid text sp" using Cons.prems by simp
  then have "sp_start sp \<noteq> sp_end sp" by (auto simp: span_valid_def)
  with v have "sp_start sp < sp_end sp" "0 \<le> sp_end sp" by (simp_all add: span_valid_def)
  moreover have "sorted (map sp_start sps) \<and> distinct (map sp_start sps)
      \<and> (\<forall>x \<in> set sps. int (nat (sp_end sp)) \<le> sp_start x)"
    using Cons by (intro Cons.IH) auto
  ultimately show ?case using Cons.prems(1) by fastforce
qed simp

text \<open>C9. Sending replaces exactly the mentions: for valid, non-overlapping spans, kept in any order, the
  right-to-left replacement of the code yields the text with each \<open>@Display Name\<close> range replaced
  by its token and everything else as typed.\<close>

theorem tokens_replace_spans:
  assumes "spans_in_order 0 sps" and "\<forall>sp \<in> set sps. span_valid text sp"
    and "set spans = set sps" and "distinct spans"
  shows "spansToTokens text spans = splice_tokens 0 sps text"
proof -
  let ?cmp = "\<lambda>a b :: mention_span. sp_start b - sp_start a"
  let ?S = "sort_by ?cmp spans"
  note O = spans_in_order_starts [OF assms(1,2)]
  have "consistent ?cmp UNIV" by (auto simp: consistent_def)
  then have "sorted_wrt (\<lambda>a b. ?cmp a b \<le> 0) ?S" by (rule sorted_sort_by) simp
  then have "sorted_wrt (\<lambda>a b. sp_start a \<le> sp_start b) (rev ?S)"
    by (simp add: sorted_wrt_rev)
  then have sorted: "sorted (map sp_start (rev ?S))" by (simp add: sorted_map)
  have set: "set (rev ?S) = set sps" using assms(3) by simp
  have inj: "inj_on sp_start (set (rev ?S) \<union> set sps)" using O assms(3) by (simp add: set distinct_map)
  then have "distinct (map sp_start (rev ?S))" using assms(4) by (simp add: distinct_map inj_on_Un)
  then have "map sp_start (rev ?S) = map sp_start sps"
    using sorted O assms(3) by (intro sorted_distinct_set_unique) simp_all
  then have "rev ?S = sps" using inj by (simp add: inj_on_map_eq_map)
  then have "?S = rev sps" by (metis rev_rev_ident)
  with replace_fold [OF assms(1,2)] show ?thesis by (simp add: spansToTokens_def)
qed

theorem tokens_replace_spans_witness:
  "spansToTokens (js ''@Al, @Bo'') [\<lparr>sp_peerId = js ''b'', sp_name = js ''Bo'', sp_start = 5, sp_end = 8\<rparr>,
     \<lparr>sp_peerId = js ''a'', sp_name = js ''Al'', sp_start = 0, sp_end = 3\<rparr>] = js ''<@a>, <@b>''"
proof -
  let ?a = "\<lparr>sp_peerId = js ''a'', sp_name = js ''Al'', sp_start = 0, sp_end = 3\<rparr>"
  let ?b = "\<lparr>sp_peerId = js ''b'', sp_name = js ''Bo'', sp_start = 5, sp_end = 8\<rparr>"
  have "spansToTokens (js ''@Al, @Bo'') [?b, ?a] = splice_tokens 0 [?a, ?b] (js ''@Al, @Bo'')"
    by (rule tokens_replace_spans) (simp_all add: insert_commute span_valid_def slice_def js_def)
  also have "\<dots> = js ''<@a>, <@b>''" by code_simp
  finally show ?thesis .
qed

subsection \<open>Reading\<close>

lemma char_at_Some: "char_at s i = Some c \<longleftrightarrow> i < length s \<and> s ! i = c"
  by (auto simp: char_at_def)

lemma mention_atD:
  assumes "mention_at s i = Some p"
  shows "s ! i = 60" "s ! (i + 1) = 64" "i + length p + 2 < length s" "s ! (i + length p + 2) = 62"
    "p = slice s (i + 2) (i + 2 + length p)" "\<forall>c \<in> set p. id_char c" "p \<noteq> []"
proof -
  let ?n = "run_at id_char s (i + 2)"
  have m: "matches_at [60, 64] s i" "0 < ?n" "char_at s (i + 2 + ?n) = Some 62"
    and p: "p = slice s (i + 2) (i + 2 + ?n)"
    using assms by (auto simp: mention_at_def Let_def split: if_splits)
  have len: "i + 2 + ?n < length s" using m(3) by (simp add: char_at_Some)
  then have lp: "length p = ?n" by (simp add: p length_slice)
  have "take 2 (drop i s) = [60, 64]" using m(1) by (simp add: matches_at_def numeral_2_eq_2)
  moreover have "take 2 (drop i s) = [s ! i, s ! (i + 1)]"
    using len by (simp add: numeral_2_eq_2 take_Suc_conv_app_nth)
  ultimately show "s ! i = 60" "s ! (i + 1) = 64" by simp_all
  show "i + length p + 2 < length s" "s ! (i + length p + 2) = 62"
    using len m(3) lp by (simp_all add: char_at_Some add.commute add.left_commute)
  show "p = slice s (i + 2) (i + 2 + length p)" using p lp by simp
  have "p = takeWhile id_char (drop (i + 2) s)"
    using takeWhile_eq_take [of id_char "drop (i + 2) s"] by (simp add: p slice_def run_at_def)
  then show "\<forall>c \<in> set p. id_char c" by (auto dest: set_takeWhileD)
  show "p \<noteq> []" using m(2) lp by auto
qed

text \<open>Tokens do not overlap: none starts inside another.\<close>

lemma mention_at_inside:
  assumes p: "mention_at s i = Some p" and j: "i < j" "j < i + length p + 3"
  shows "mention_at s j = None"
proof (rule ccontr)
  assume "mention_at s j \<noteq> None"
  then obtain q where "s ! j = 60" using mention_atD(1) by fast
  moreover have "s ! j \<noteq> 60"
  proof -
    consider "j = i + 1" | "j = i + length p + 2" | "i + 2 \<le> j" "j < i + 2 + length p" using j by linarith
    then show ?thesis
    proof cases
      case 3
      then obtain k where k: "j = i + 2 + k" "k < length p" by (metis add_less_cancel_left le_Suc_ex)
      then have "s ! j = p ! k"
        using mention_atD(3) [OF p] by (subst mention_atD(5) [OF p]) (simp add: slice_def)
      then have "id_char (s ! j)" using mention_atD(6) [OF p] k by simp
      then show ?thesis by (auto simp: id_char_def is_letter_def is_digit_def)
    qed (use mention_atD(2,4) [OF p] in auto)
  qed
  ultimately show False by simp
qed

lemma token_matches_iff:
  "(j, p) \<in> set (token_matches s i) \<longleftrightarrow> i \<le> j \<and> mention_at s j = Some p"
proof (induction s i rule: token_matches.induct)
  case (1 s i)
  have past: "mention_at s j = Some p \<Longrightarrow> j < length s" using mention_atD(3) [of s j p] by simp
  show ?case
  proof (cases "length s \<le> i")
    case True
    with past show ?thesis by (auto simp: token_matches.simps [of s i])
  next
    case False
    show ?thesis
    proof (cases "mention_at s i")
      case None
      with 1(1) [OF False None] False show ?thesis
        by (auto simp: token_matches.simps [of s i] Suc_le_eq order_le_less)
    next
      case (Some q)
      have "i \<le> j \<and> mention_at s j = Some p \<longleftrightarrow>
          (j = i \<and> p = q) \<or> (i + length q + 3 \<le> j \<and> mention_at s j = Some p)"
        using mention_at_inside [OF Some, of j] Some
        by (cases "j = i"; cases "j < i + length q + 3") auto
      with 1(2) [OF False Some] False Some show ?thesis by (auto simp: token_matches.simps [of s i])
    qed
  qed
qed

lemma fold_set_add:
  "set (fold (\<lambda>(i, p) ids. if E i then ids else set_add p ids) xs ids)
     = set ids \<union> {p. \<exists>i. (i, p) \<in> set xs \<and> \<not> E i}"
  "distinct ids \<Longrightarrow> distinct (fold (\<lambda>(i, p) ids. if E i then ids else set_add p ids) xs ids)"
  by (induction xs arbitrary: ids) (auto split: if_splits)

text \<open>The mentions of a message are exactly its unescaped tokens, each identity once: an identity is
  found if and only if the message has a token \<open><@id>\<close> of it preceded by an even number of
  backslashes.\<close>

theorem mentions_are_tokens:
  "distinct (parseMentions content)
    \<and> (p \<in> set (parseMentions content) \<longleftrightarrow>
        (\<exists>i. mention_at content i = Some p \<and> \<not> isEscapedAt content i))"
  by (simp add: parseMentions_def fold_set_add token_matches_iff)

fun show_segment :: "mention_segment \<Rightarrow> jsstr" where
  "show_segment (TextSegment t) = t"
| "show_segment (CodeSegment t) = t"
| "show_segment (MentionSegment p n) = 64 # n"

fun is_text :: "mention_segment \<Rightarrow> bool" where
  "is_text (TextSegment t) = True"
| "is_text _ = False"

fun normal :: "mention_segment list \<Rightarrow> bool" where
  "normal [] = True"
| "normal [x] = (x \<noteq> TextSegment [])"
| "normal (x # y # zs) = (x \<noteq> TextSegment [] \<and> \<not> (is_text x \<and> is_text y) \<and> normal (y # zs))"

lemma normal_snoc:
  "normal (xs @ [x]) \<longleftrightarrow> normal xs \<and> x \<noteq> TextSegment [] \<and> \<not> (xs \<noteq> [] \<and> is_text (last xs) \<and> is_text x)"
  by (induction xs rule: normal.induct) auto

lemma fold_append: "fold (\<lambda>p r. r @ f p) ps acc = acc @ concat (map f ps)"
  by (induction ps arbitrary: acc) auto

lemma show_pieces:
  "concat (map show_segment (flushText (fold (add_piece r) ps st)))
     = concat (map show_segment (fst st)) @ snd st @ concat (map (render_piece r) ps)"
proof (induction ps arbitrary: st)
  case Nil
  then show ?case by (simp add: flushText_def split: prod.splits)
next
  case (Cons p ps)
  then show ?case by (cases p; cases st) (simp_all add: flushText_def)
qed

lemma normal_pieces:
  assumes "normal (fst st)" "fst st = [] \<or> \<not> is_text (last (fst st))"
  shows "normal (flushText (fold (add_piece r) ps st))"
  using assms
proof (induction ps arbitrary: st)
  case Nil
  then show ?case by (auto simp: flushText_def normal_snoc split: prod.splits)
next
  case (Cons p ps)
  have "normal (fst (add_piece r p st)) \<and> (fst (add_piece r p st) = [] \<or> \<not> is_text (last (fst (add_piece r p st))))"
    using Cons.prems by (cases p; cases st) (auto simp: flushText_def normal_snoc)
  with Cons.IH [of "add_piece r p st"] show ?case by simp
qed

text \<open>C10. The two readers of a message agree: the text shown is the concatenation of its segments (text, code
  and \<open>@Display Name\<close> for each mention), no text segment is empty and no two are adjacent.\<close>

theorem segments_render:
  "renderMentionedContent content r = concat (map show_segment (segmentMentionedContent content r))
    \<and> normal (segmentMentionedContent content r)"
  by (simp add: renderMentionedContent_def segmentMentionedContent_def fold_append show_pieces normal_pieces)

text \<open>A message without backslashes, tokens and code markers is shown as it is.\<close>

theorem plain_text_unchanged:
  assumes "\<forall>c \<in> set content. c \<noteq> 92 \<and> c \<noteq> 60 \<and> c \<noteq> 96 \<and> c \<noteq> 126"
  shows "renderMentionedContent content r = content"
proof -
  have "scan_step content i = (OnText [content ! i], Suc i)" if "i < length content" for i
  proof -
    have c: "content ! i \<noteq> 92" "content ! i \<noteq> 60" "content ! i \<noteq> 96" using assms that by auto
    have "\<not> (n < length (slice content a b) \<and> (slice content a b ! n = 96 \<or> slice content a b ! n = 126))" for n a b
    proof
      assume n: "n < length (slice content a b) \<and> (slice content a b ! n = 96 \<or> slice content a b ! n = 126)"
      then have "slice content a b ! n \<in> set content"
        by (metis nth_mem set_drop_subset set_take_subset slice_def subsetD)
      with n assms show False by auto
    qed
    then have "fence_open (slice content a b) = None" for a b
      by (auto simp: fence_open_def Let_def char_at_def)
    then have "fence_at content i = None" by (simp add: fence_at_def)
    moreover have "code_span_at content i = None" using c that by (simp add: code_span_at_def char_at_def)
    ultimately show ?thesis using c by (simp add: scan_step_def Let_def)
  qed
  then have "concat (map (render_piece r) (scan_from content i)) = drop i content" for i
  proof (induction content i rule: scan_from.induct)
    case (1 s i)
    then show ?case
      by (cases "length s \<le> i") (auto simp: scan_from.simps [of s i] Cons_nth_drop_Suc not_le)
  qed
  from this [of 0] show ?thesis
    by (simp add: renderMentionedContent_def scanMentionContent_def fold_append)
qed

end
