(* ===== verification/MentionMarkdown.thy ===== *)
theory MentionMarkdown
  imports Mentions
begin

text \<open>
  The rest of \<open>tui/src/mentions.ts\<close>: the Markdown parser for paragraphs with mentions, and the
  completion popup (the query before the cursor, the members that match it).
\<close>

subsection \<open>Inline Markdown\<close>

datatype inline_fragment =
    IText jsstr
  | ICode jsstr
  | IStrong jsstr
  | IEm jsstr
  | ILink jsstr jsstr
  | IStrike jsstr
  | IHeading nat jsstr
  | IList jsstr jsstr
  | IQuote jsstr

text \<open>A match at a position: how many characters, and the fragment it makes.\<close>

type_synonym inline_match = "(nat \<times> inline_fragment) option"

definition line_start :: "jsstr \<Rightarrow> nat \<Rightarrow> bool" where
  "line_start s i \<longleftrightarrow> i = 0 \<or> (case char_at s (i - 1) of Some c \<Rightarrow> is_newline c | None \<Rightarrow> False)"

definition blank_char :: "nat \<Rightarrow> bool" where
  "blank_char c \<longleftrightarrow> c = 32 \<or> c = 9"

text \<open>\<open>[ \t]+([^\n]+)$\<close> at a position: where the text starts and ends. When only blanks are left on the
  line, the last of them is the text.\<close>

definition blank_then_text :: "jsstr \<Rightarrow> nat \<Rightarrow> (nat \<times> nat) option" where
  "blank_then_text s i =
     (let ws = run_at blank_char s i; rest = run_at (\<lambda>c. c \<noteq> 10) s (i + ws) in
      if ws = 0 then None
      else if 0 < rest then Some (i + ws, i + ws + rest)
      else if 2 \<le> ws then Some (i + ws - 1, i + ws)
      else None)"

definition heading_at :: "jsstr \<Rightarrow> nat \<Rightarrow> inline_match" where
  "heading_at s i =
     (let n = run_at (\<lambda>c. c = 32) s i; h = run_at (\<lambda>c. c = 35) s (i + n) in
      if line_start s i \<and> n \<le> 3 \<and> 1 \<le> h \<and> h \<le> 6
      then case blank_then_text s (i + n + h) of
          Some (a, e) \<Rightarrow> Some (e - i, IHeading h (slice s a e))
        | None \<Rightarrow> None
      else None)"

text \<open>The length of a list marker: a bullet, or digits followed by a point or a parenthesis.\<close>

definition list_marker :: "jsstr \<Rightarrow> nat \<Rightarrow> nat" where
  "list_marker s j =
     (case char_at s j of
        Some c \<Rightarrow>
          if c = 45 \<or> c = 43 \<or> c = 42 then 1
          else let d = run_at is_digit s j in
            if 0 < d \<and> (char_at s (j + d) = Some 46 \<or> char_at s (j + d) = Some 41) then d + 1 else 0
      | None \<Rightarrow> 0)"

definition list_at :: "jsstr \<Rightarrow> nat \<Rightarrow> inline_match" where
  "list_at s i =
     (let n = run_at blank_char s i; m = list_marker s (i + n) in
      if line_start s i \<and> 0 < m
      then case blank_then_text s (i + n + m) of
          Some (a, e) \<Rightarrow> Some (e - i, IList (slice s i (i + n + m)) (slice s a e))
        | None \<Rightarrow> None
      else None)"

definition quote_at :: "jsstr \<Rightarrow> nat \<Rightarrow> inline_match" where
  "quote_at s i =
     (let n = run_at blank_char s i; r = run_at (\<lambda>c. c \<noteq> 10) s (i + n + 1) in
      if line_start s i \<and> char_at s (i + n) = Some 62 \<and> 0 < r
      then Some (n + 1 + r, IQuote (slice s i (i + n + 1 + r)))
      else None)"

text \<open>A run of characters other than \<open>c\<close>, at least one, between two delimiters.\<close>

definition delimited_at :: "jsstr \<Rightarrow> nat \<Rightarrow> (jsstr \<Rightarrow> inline_fragment) \<Rightarrow> jsstr \<Rightarrow> nat \<Rightarrow> inline_match" where
  "delimited_at d c mk s i =
     (let n = length d; r = run_at (\<lambda>x. x \<noteq> c) s (i + n) in
      if matches_at d s i \<and> 0 < r \<and> matches_at d s (i + n + r)
      then Some (2 * n + r, mk (slice s (i + n) (i + n + r)))
      else None)"

definition link_at :: "jsstr \<Rightarrow> nat \<Rightarrow> inline_match" where
  "link_at s i =
     (let a = run_at (\<lambda>x. x \<noteq> 93) s (i + 1); b = run_at (\<lambda>x. x \<noteq> 41) s (i + 1 + a + 2) in
      if char_at s i = Some 91 \<and> 0 < a \<and> matches_at [93, 40] s (i + 1 + a) \<and> 0 < b
        \<and> char_at s (i + 1 + a + 2 + b) = Some 41
      then Some (a + b + 4, ILink (slice s (i + 1) (i + 1 + a)) (slice s (i + 1 + a + 2) (i + 1 + a + 2 + b)))
      else None)"

text \<open>The patterns in the order of the code.\<close>

definition patterns :: "(jsstr \<Rightarrow> nat \<Rightarrow> inline_match) list" where
  "patterns = [heading_at, list_at, quote_at, delimited_at [96] 96 ICode, link_at,
     delimited_at [42, 42] 42 IStrong, delimited_at [95, 95] 95 IStrong, delimited_at [126, 126] 126 IStrike,
     delimited_at [42] 42 IEm, delimited_at [95] 95 IEm]"

text \<open>The first match of a pattern from a position on, and the best of all patterns: the leftmost, then the
  longest, then the first in the list.\<close>

definition exec_from :: "(jsstr \<Rightarrow> nat \<Rightarrow> inline_match) \<Rightarrow> jsstr \<Rightarrow> nat \<Rightarrow> (nat \<times> nat \<times> inline_fragment) option" where
  "exec_from re s pos =
     (case find (\<lambda>i. re s i \<noteq> None) [pos..<length s] of
        None \<Rightarrow> None
      | Some i \<Rightarrow> Some (i, the (re s i)))"

definition better ::
  "(nat \<times> nat \<times> inline_fragment) option \<Rightarrow> (nat \<times> nat \<times> inline_fragment) option
     \<Rightarrow> (nat \<times> nat \<times> inline_fragment) option" where
  "better m best =
     (case m of
        None \<Rightarrow> best
      | Some (i, n, x) \<Rightarrow>
          (case best of
             None \<Rightarrow> m
           | Some (i', n', x') \<Rightarrow> if i < i' \<or> (i = i' \<and> n > n') then m else best))"

definition best_match :: "jsstr \<Rightarrow> nat \<Rightarrow> (nat \<times> nat \<times> inline_fragment) option" where
  "best_match s pos = fold (\<lambda>re best. better (exec_from re s pos) best) patterns None"

lemma delimited_bounds: "delimited_at d c mk s i = Some (n, x) \<Longrightarrow> 0 < n \<and> i + n \<le> length s"
  using matches_atD [of d s "i + length d + run_at (\<lambda>x. x \<noteq> c) s (i + length d)"]
    run_at_le [of "\<lambda>x. x \<noteq> c" s "i + length d"]
  by (auto simp: delimited_at_def Let_def split: if_splits)

lemma blank_then_text_bounds: "blank_then_text s i = Some (a, e) \<Longrightarrow> i < e \<and> a < e \<and> i \<le> a \<and> (i \<le> length s \<longrightarrow> e \<le> length s)"
  using run_at_le [of blank_char s i] run_at_le [of "\<lambda>c. c \<noteq> 10" s "i + run_at blank_char s i"]
  by (auto simp: blank_then_text_def Let_def split: if_splits)

lemma run_at_bound: "i \<le> length s \<Longrightarrow> i + run_at P s i \<le> length s"
  using run_at_le [of P s i] by simp

lemma heading_bounds: "heading_at s i = Some (n, x) \<Longrightarrow> i < length s \<Longrightarrow> 0 < n \<and> i + n \<le> length s"
  using run_at_bound [of i s "\<lambda>c. c = 32"]
    run_at_bound [of "i + run_at (\<lambda>c. c = 32) s i" s "\<lambda>c. c = 35"]
  by (auto simp: heading_at_def Let_def split: if_splits option.splits dest!: blank_then_text_bounds)

lemma list_marker_bound: "0 < list_marker s j \<Longrightarrow> j + list_marker s j \<le> length s"
  by (auto simp: list_marker_def Let_def char_at_def split: if_splits option.splits)

lemma list_bounds: "list_at s i = Some (n, x) \<Longrightarrow> i < length s \<Longrightarrow> 0 < n \<and> i + n \<le> length s"
  using run_at_bound [of i s blank_char] list_marker_bound [of s "i + run_at blank_char s i"]
  by (auto simp: list_at_def Let_def split: if_splits option.splits dest!: blank_then_text_bounds)

lemma quote_bounds: "quote_at s i = Some (n, x) \<Longrightarrow> i < length s \<Longrightarrow> 0 < n \<and> i + n \<le> length s"
  using run_at_le [of "\<lambda>c. c \<noteq> 10" s "i + run_at blank_char s i + 1"]
  by (auto simp: quote_at_def Let_def split: if_splits)

lemma link_bounds: "link_at s i = Some (n, x) \<Longrightarrow> i < length s \<Longrightarrow> 0 < n \<and> i + n \<le> length s"
  by (auto simp: link_at_def Let_def char_at_Some split: if_splits)

lemma pattern_bounds:
  assumes "re \<in> set patterns" "re s i = Some (n, x)" "i < length s"
  shows "0 < n \<and> i + n \<le> length s"
  using assms delimited_bounds heading_bounds list_bounds quote_bounds link_bounds
  by (auto simp: patterns_def)

lemma exec_bounds:
  assumes "re \<in> set patterns" "exec_from re s pos = Some (i, n, x)"
  shows "pos \<le> i \<and> 0 < n \<and> i + n \<le> length s"
proof -
  obtain j where j: "find (\<lambda>i. re s i \<noteq> None) [pos..<length s] = Some j" "i = j" "re s j = Some (n, x)"
    using assms(2) by (auto simp: exec_from_def split: option.splits dest: find_SomeD)
  then have "j \<in> set [pos..<length s]" using find_SomeD [OF j(1)] by simp
  with j pattern_bounds [OF assms(1) j(3)] show ?thesis by auto
qed

lemma best_bounds:
  assumes "best_match s pos = Some (i, n, x)"
  shows "pos \<le> i \<and> 0 < n \<and> i + n \<le> length s"
proof -
  have "\<And>best. (\<forall>i n x. best = Some (i, n, x) \<longrightarrow> pos \<le> i \<and> 0 < n \<and> i + n \<le> length s) \<Longrightarrow>
      set res \<subseteq> set patterns \<Longrightarrow> fold (\<lambda>re best. better (exec_from re s pos) best) res best = Some (i, n, x) \<Longrightarrow>
      pos \<le> i \<and> 0 < n \<and> i + n \<le> length s" for res i n x
  proof (induction res)
    case (Cons re res)
    have "\<forall>i n x. better (exec_from re s pos) best = Some (i, n, x) \<longrightarrow> pos \<le> i \<and> 0 < n \<and> i + n \<le> length s"
      using Cons.prems(1,2) exec_bounds [of re s pos]
      by (auto simp: better_def split: option.splits prod.splits if_splits)
    with Cons.IH [of "better (exec_from re s pos) best"] Cons.prems show ?case by simp
  qed simp
  from this [of None patterns i n x] assms show ?thesis by (simp add: best_match_def)
qed

function parse_from :: "jsstr \<Rightarrow> nat \<Rightarrow> inline_fragment list" where
  "parse_from s pos =
     (if length s \<le> pos then []
      else case best_match s pos of
          None \<Rightarrow> [IText (drop pos s)]
        | Some (i, n, x) \<Rightarrow> (if pos < i then [IText (slice s pos i)] else []) @ x # parse_from s (i + n))"
  by pat_completeness auto
termination
  by (relation "measure (\<lambda>(s, pos). length s - pos)") (auto dest!: best_bounds)

declare parse_from.simps [simp del]

text \<open>\<open>/(^|\n) {0,3}(`{3,}|~{3,})/\<close>: a line opens a fenced block.\<close>

definition has_fence :: "jsstr \<Rightarrow> bool" where
  "has_fence s \<longleftrightarrow> list_ex (\<lambda>i. (i = 0 \<or> char_at s (i - 1) = Some 10) \<and> fence_open (drop i s) \<noteq> None)
     [0..<Suc (length s)]"

definition parseInlineMarkdown :: "jsstr \<Rightarrow> inline_fragment list" where
  "parseInlineMarkdown text = (if has_fence text then [IText text] else parse_from text 0)"

subsection \<open>Completion\<close>

record mention_query =
  mq_start :: nat
  mq_query :: jsstr

definition query_char :: "nat \<Rightarrow> bool" where
  "query_char c \<longleftrightarrow> is_letter c \<or> is_digit c \<or> c = 95 \<or> c = 46 \<or> c = 45"

definition mentionQueryAt :: "jsstr \<Rightarrow> int \<Rightarrow> mention_query option" where
  "mentionQueryAt text cursor =
     (let before = take (nat (max 0 (min cursor (int (length text))))) text;
          query = rev (takeWhile query_char (rev before));
          here = length before - length query - 1
      in if length before \<le> length query \<or> before ! here \<noteq> 64 then None
         else if here = 0 \<or> js_space (before ! (here - 1)) then Some \<lparr>mq_start = here, mq_query = query\<rparr>
         else None)"

text \<open>The order of the popup: everyone first, then by where the query occurs, then by name.\<close>

definition candidate_order ::
  "(jsstr \<Rightarrow> jsstr) \<Rightarrow> (jsstr \<Rightarrow> jsstr \<Rightarrow> int) \<Rightarrow> jsstr \<Rightarrow> mention_candidate \<Rightarrow> mention_candidate \<Rightarrow> int" where
  "candidate_order lower compare normalized a b =
     (if mc_peerId a = EVERYONE_PEER_ID then -1
      else if mc_peerId b = EVERYONE_PEER_ID then 1
      else if normalized = [] then compare (mc_displayName a) (mc_displayName b)
      else
        let position = (\<lambda>m. case index_from normalized (lower (mc_displayName m)) 0 of
                              Some i \<Rightarrow> int i | None \<Rightarrow> -1)
        in if position a - position b \<noteq> 0 then position a - position b
           else compare (mc_displayName a) (mc_displayName b))"

definition filterMentionCandidates ::
  "(jsstr \<Rightarrow> jsstr) \<Rightarrow> (jsstr \<Rightarrow> jsstr \<Rightarrow> int) \<Rightarrow> mention_candidate list \<Rightarrow> jsstr \<Rightarrow> nat \<Rightarrow> mention_candidate list" where
  "filterMentionCandidates lower compare members query limit =
     (let normalized = lower query;
          filtered = (if normalized \<noteq> []
                      then filter (\<lambda>m. text_includes (lower (mc_displayName m)) normalized) members
                      else members)
      in take limit (sort_by (candidate_order lower compare normalized) filtered))"

lemma text_includes_Nil [simp]: "text_includes s []"
  by (simp add: text_includes_def index_from_def matches_at_def upt_rec [of 0])

text \<open>No member sorts before the entry for everyone.\<close>

lemma everyone_sorts_first:
  assumes "e \<in> set ms" "mc_peerId e = EVERYONE_PEER_ID"
  shows "sort_by (candidate_order lower compare normalized) ms \<noteq> []
    \<and> mc_peerId (hd (sort_by (candidate_order lower compare normalized) ms)) = EVERYONE_PEER_ID"
  using assms
proof (induction ms)
  case (Cons m ms)
  have ins: "mc_peerId m = EVERYONE_PEER_ID \<or> (xs \<noteq> [] \<and> mc_peerId (hd xs) = EVERYONE_PEER_ID)
      \<Longrightarrow> mc_peerId (hd (insert_by (candidate_order lower compare normalized) m xs)) = EVERYONE_PEER_ID" for xs
    by (cases xs) (auto simp: candidate_order_def)
  have "insert_by c m xs \<noteq> []" for c xs by (cases xs) auto
  with Cons ins show ?case by auto
qed simp

subsection \<open>Properties\<close>

text \<open>The Markdown parser loses nothing it does not mark: text in which no pattern matches is one
  fragment, and otherwise the text before the first construct comes first, then its fragment, and
  parsing resumes right after it, strictly further on.\<close>

theorem markdown_progress:
  assumes "pos < length s"
  shows "(best_match s pos = None \<longrightarrow> parse_from s pos = [IText (drop pos s)])
    \<and> (\<forall>i n x. best_match s pos = Some (i, n, x) \<longrightarrow> pos \<le> i \<and> i < i + n \<and> i + n \<le> length s
        \<and> parse_from s pos = (if pos < i then [IText (slice s pos i)] else []) @ x # parse_from s (i + n))"
  using assms best_bounds [of s pos] by (auto simp: parse_from.simps [of s pos] split: option.split)

text \<open>The popup opens exactly on an \<open>@\<close> that starts a word: a query is found when the characters before
  the cursor are an \<open>@\<close> at the start of the text or after white space followed by name characters
  only, and it is those characters.\<close>

theorem query_before_cursor:
  assumes "0 \<le> cursor" and "cursor \<le> int (length text)"
  shows "mentionQueryAt text cursor = Some \<lparr>mq_start = i, mq_query = q\<rparr> \<longleftrightarrow>
    i < length text \<and> text ! i = 64 \<and> (i = 0 \<or> js_space (text ! (i - 1)))
    \<and> i + 1 + length q = nat cursor \<and> slice text (i + 1) (nat cursor) = q \<and> (\<forall>c \<in> set q. query_char c)"
    (is "?L \<longleftrightarrow> ?R")
proof -
  define n where "n = nat cursor"
  define before where "before = take n text"
  define query where "query = rev (takeWhile query_char (rev before))"
  have n: "n \<le> length text" "nat (max 0 (min cursor (int (length text)))) = n"
    using assms by (simp_all add: n_def)
  have lb: "length before = n" using n by (simp add: before_def)
  have q64: "\<not> query_char 64" by (simp add: query_char_def is_letter_def is_digit_def)
  have qle: "length query \<le> n" using lb by (simp add: query_def) (metis length_rev length_takeWhile_le)
  have qchars: "\<forall>c \<in> set query. query_char c" by (auto simp: query_def dest: set_takeWhileD)
  have qslice: "query = drop (n - length query) before"
  proof -
    have "takeWhile query_char (rev before) = take (length query) (rev before)"
      unfolding query_def by (simp add: takeWhile_eq_take [symmetric])
    then have "query = rev (take (length query) (rev before))" by (simp add: query_def)
    then show ?thesis using lb by (simp add: take_rev)
  qed
  have L: "?L \<longleftrightarrow> length query < n \<and> before ! (n - length query - 1) = 64
      \<and> (n - length query - 1 = 0 \<or> js_space (before ! (n - length query - 1 - 1)))
      \<and> i = n - length query - 1 \<and> q = query"
    unfolding mentionQueryAt_def Let_def n(2) before_def [symmetric] query_def [symmetric] lb
    by auto
  show ?thesis
  proof
    assume ?L
    then have *: "length query < n" "before ! i = 64" "i = 0 \<or> js_space (before ! (i - 1))"
      "i = n - length query - 1" "q = query" using L by auto
    have ilen: "i + 1 = n - length query" using * by simp
    have "slice text (i + 1) n = drop (i + 1) before"
      using n by (simp add: slice_def before_def drop_take)
    also have "\<dots> = query" unfolding ilen by (rule qslice [symmetric])
    finally have "slice text (i + 1) n = query" .
    with * n qchars show ?R by (auto simp: n_def [symmetric] before_def)
  next
    assume R: ?R
    then have i: "i + 1 + length q = n" by (simp add: n_def)
    have bq: "before = take i text @ 64 # q"
    proof -
      have "before = take i text @ slice text i n"
        using i n by (simp add: before_def slice_def flip: take_add)
      also have "slice text i n = 64 # slice text (i + 1) n"
        using R i by (simp add: slice_def n_def) (metis Cons_nth_drop_Suc Suc_diff_Suc diff_Suc_1 less_add_Suc1 take_Suc_Cons)
      also have "slice text (i + 1) n = q" using R by (simp add: n_def)
      finally show ?thesis .
    qed
    have "takeWhile query_char (rev q @ 64 # rev (take i text)) = rev q @ takeWhile query_char (64 # rev (take i text))"
      using R by (intro takeWhile_append2) auto
    then have "query = q" unfolding query_def bq using q64 by simp
    moreover have "n - length q - 1 = i" "length q < n" using i by auto
    moreover have "before ! i = 64" "i = 0 \<or> js_space (before ! (i - 1))"
      using R by (auto simp: bq nth_append)
    ultimately show ?L unfolding L using \<open>query = q\<close> by simp
  qed
qed

text \<open>What the popup offers: at most the limit, only members whose name contains the query without
  regard to case, all of them when they fit, and the entry for everyone first whenever it qualifies.\<close>

theorem candidates_offered:
  assumes "filterMentionCandidates lower compare members query limit = offered"
  shows "length offered \<le> limit
    \<and> (\<forall>m \<in> set offered. m \<in> set members \<and> text_includes (lower (mc_displayName m)) (lower query))
    \<and> (length members \<le> limit \<longrightarrow>
        set offered = {m \<in> set members. text_includes (lower (mc_displayName m)) (lower query)})
    \<and> (\<forall>e \<in> set members. mc_peerId e = EVERYONE_PEER_ID \<longrightarrow> text_includes (lower (mc_displayName e)) (lower query)
        \<longrightarrow> 0 < limit \<longrightarrow> offered \<noteq> [] \<and> mc_peerId (hd offered) = EVERYONE_PEER_ID)"
proof -
  define order where "order = candidate_order lower compare (lower query)"
  define found where "found = filter (\<lambda>m. text_includes (lower (mc_displayName m)) (lower query)) members"
  have o: "offered = take limit (sort_by order found)"
    unfolding assms [symmetric] filterMentionCandidates_def Let_def order_def found_def
    by (cases "lower query = []") (simp_all add: text_includes_Nil)
  have "set (sort_by order found) = {m \<in> set members. text_includes (lower (mc_displayName m)) (lower query)}"
    by (auto simp: found_def)
  moreover have "length found \<le> length members" by (simp add: found_def)
  moreover have "offered \<noteq> [] \<and> mc_peerId (hd offered) = EVERYONE_PEER_ID"
    if "e \<in> set members" "mc_peerId e = EVERYONE_PEER_ID" "text_includes (lower (mc_displayName e)) (lower query)" "0 < limit" for e
  proof -
    have "e \<in> set found" using that by (simp add: found_def)
    then have "sort_by order found \<noteq> [] \<and> mc_peerId (hd (sort_by order found)) = EVERYONE_PEER_ID"
      unfolding order_def using that(2) by (rule everyone_sorts_first)
    with that(4) show ?thesis by (simp add: o hd_take)
  qed
  ultimately show ?thesis unfolding o by (auto dest: in_set_takeD)
qed

end
