(* ===== verification/ChatTypes.thy ===== *)
theory ChatTypes
  imports JsText
begin

text \<open>
  The data of the terminal client: \<open>tui/src/types.ts\<close>, the notification types of
  \<open>tui/src/notifications.ts\<close> and the release types of \<open>common/updater.ts\<close> that the dialogs carry.
  An optional flag that the code only tests for truth is a \<open>bool\<close>; every other optional property is
  an \<open>option\<close>. Times are rational numbers of seconds, sizes and counts natural numbers.
\<close>

subsection \<open>Peers, groups and messages\<close>

datatype presence = PresenceActive | PresenceAway | PresenceOffline
datatype transport = LanTcp | RemoteUdp | RemoteDerp
datatype request_direction = RequestIncoming | RequestOutgoing | RequestBoth
datatype delivery_warning = WarnOffline | WarnNotFriend | WarnOutOfSync | WarnLimited

record peer_endpoint =
  ep_transport :: transport
  ep_endpoint :: jsstr
  ep_active :: bool

record peer =
  peer_id :: jsstr
  peer_display_name :: jsstr
  peer_is_online :: nat
  peer_last_seen :: rat
  peer_last_interaction :: "rat option"
  peer_unread_count :: nat
  peer_presence :: "presence option"
  peer_dnd :: bool
  peer_is_friend :: bool
  peer_is_blocked :: bool
  peer_friend_request :: "request_direction option"
  peer_active_transport :: "transport option"
  peer_active_endpoint :: "jsstr option"
  peer_endpoints :: "peer_endpoint list"
  peer_delivery_warnings :: "delivery_warning list"
  peer_capabilities :: "jsstr list"
  peer_remote_capabilities :: "jsstr list"
  peer_missing_capabilities :: "jsstr list"
  peer_local_missing_capabilities :: "jsstr list"
  peer_capability_gap :: bool

record delivery =
  dl_recipient_id :: jsstr
  dl_display_name :: "jsstr option"
  dl_status :: jsstr
  dl_updated_at :: rat
  dl_awaiting_ack_at :: "rat option"

record chat_message =
  msg_id :: jsstr
  msg_sender_id :: jsstr
  msg_recipient_id :: "jsstr option"
  msg_group_id :: "jsstr option"
  msg_content :: jsstr
  msg_created_at :: rat
  msg_kind :: "jsstr option"
  msg_deliveries :: "delivery list option"
  msg_delivered :: nat
  msg_blocked :: nat
  msg_queued :: nat
  msg_failed :: nat
  msg_pending :: nat
  msg_received_at :: "rat option"
  msg_reply_to :: "jsstr option"
  msg_mentions :: "jsstr list"

record chat_group =
  group_id :: jsstr
  group_name :: jsstr
  group_member_count :: nat
  group_unread_count :: nat
  group_mention_unread_count :: "nat option"

record group_member =
  gm_peer_id :: "jsstr option"
  gm_member_id :: "jsstr option"
  gm_display_name :: jsstr
  gm_is_online :: bool
  gm_is_limited :: bool

datatype conversation = PeerChat jsstr | GroupChat jsstr

record friend_request =
  fr_request_id :: jsstr
  fr_sender_id :: jsstr
  fr_sender_name :: jsstr
  fr_recipient_id :: "jsstr option"
  fr_recipient_name :: "jsstr option"
  fr_note :: "jsstr option"
  fr_created_at :: rat
  fr_direction :: request_direction
  fr_status :: "jsstr option"

record blocked_peer =
  bp_peer_id :: jsstr
  bp_display_name :: jsstr
  bp_created_at :: rat

record room_status =
  rs_room_id :: jsstr
  rs_members :: nat
  rs_group_id :: "jsstr option"
  rs_name :: "jsstr option"

record file_transfer =
  ft_file_id :: jsstr
  ft_filename :: jsstr
  ft_file_size :: nat
  ft_sender_id :: jsstr
  ft_recipient_id :: jsstr
  ft_group_id :: "jsstr option"
  ft_direction :: jsstr
  ft_status :: jsstr
  ft_file_path :: "jsstr option"
  ft_created_at :: rat
  ft_completed_at :: "rat option"
  ft_awaiting_ack_at :: "rat option"
  ft_received_chunks :: "nat option"
  ft_total_chunks :: "nat option"
  ft_file_sha256 :: "jsstr option"
  ft_caption :: "jsstr option"
  ft_batch_id :: "jsstr option"
  ft_batch_index :: "nat option"
  ft_batch_count :: "nat option"
  ft_deliveries :: "delivery list option"

datatype conversation_item =
    MessageItem rat chat_message
  | FileItem rat file_transfer "file_transfer list"

fun item_createdAt :: "conversation_item \<Rightarrow> rat" where
  "item_createdAt (MessageItem t m) = t"
| "item_createdAt (FileItem t f fs) = t"

subsection \<open>Settings\<close>

datatype image_protocol = AutoProtocol | KittyProtocol | SixelProtocol | BlocksProtocol
datatype splash_preference = SplashCard | SplashBootLog | SplashOff
datatype notification_delivery = TerminalDelivery | NativeDelivery | DisabledDelivery
datatype notification_event = NotifyMessages | NotifyFriendRequests | NotifyFileOffers | NotifyFileCompleted

record notification_preferences =
  np_setup_dismissed :: bool
  np_delivery :: notification_delivery
  np_events :: "notification_event \<Rightarrow> bool"

record control_status =
  cs_url :: "jsstr option"
  cs_connected :: bool
  cs_setup_dismissed :: bool
  cs_stun_server :: jsstr
  cs_reconnect_attempts :: nat
  cs_public_endpoint :: "json list option"

record advanced_config =
  ac_control_url :: "jsstr option"
  ac_control_pinned_ips :: "jsstr list"
  ac_stun_server :: jsstr
  ac_stun_pinned_ips :: "jsstr list"
  ac_image_protocol :: image_protocol
  ac_confirm_file_send :: "bool option"
  ac_splash_style :: splash_preference
  ac_splash_duration_ms :: "nat option"
  ac_splash_phase_ms :: "nat option"
  ac_splash_welcome_ms :: "nat option"

record location_payload =
  lp_filesDir :: jsstr
  lp_env :: "jsstr option"
  lp_configured :: "jsstr option"
  lp_dataDir :: "jsstr option"
  lp_storageDir :: "jsstr option"
  lp_storageConfigured :: "jsstr option"
  lp_storageEnv :: "jsstr option"
  lp_dbPath :: "jsstr option"
  lp_storageHasContent :: "bool option"
  lp_filesHasContent :: "bool option"

record release =
  rel_tag :: jsstr
  rel_version :: jsstr
  rel_assetName :: jsstr
  rel_downloadUrl :: jsstr
  rel_digest :: "jsstr option"

record update_progress =
  up_current :: nat
  up_total :: nat
  up_step :: jsstr
  up_receivedBytes :: "nat option"
  up_totalBytes :: "nat option"

subsection \<open>Dialogs\<close>

datatype confirm_source = FromDrop | FromPaste | FromClipboard | FromPicker | FromImage

record pending_image =
  img_bytes :: "nat list"
  img_mimeType :: jsstr

record file_confirm =
  fc_paths :: "jsstr list"
  fc_source :: confirm_source
  fc_target :: conversation
  fc_caption :: jsstr
  fc_image :: "pending_image option"

datatype return_to = ReturnFiles | ReturnFileConfirm

text \<open>One constructor for each \<open>kind\<close>, in the order of the source.\<close>

datatype (plugins only: code) dialog =
    DSettings
  | DControl bool
  | DControlCustom bool
  | DControlStatus control_status
  | DAdvanced advanced_config
  | DAdvancedImageProtocol advanced_config
  | DAdvancedIpPinning advanced_config
  | DAdvancedControl advanced_config
  | DAdvancedStun advanced_config
  | DCustomisation
  | DCustomisationSplash splash_preference
  | DAdvancedControlIp
  | DAdvancedStunIp
  | DRooms "room_status list"
  | DRoomCreate
  | DRoomJoin
  | DRoomCreated jsstr jsstr bool "bool option"
  | DRoomDetail room_status
  | DGroupDetail chat_group "group_member list"
  | DRename bool
  | DMuteTimeout "jsstr option" "jsstr option" jsstr
  | DUnmuteConfirm "jsstr option" "jsstr option" jsstr
  | DAddFriend jsstr jsstr
  | DRemoveFriend jsstr jsstr
  | DFriendRequests "friend_request list"
  | DFriendRequestIncoming friend_request
  | DFriends
  | DBlocked "blocked_peer list"
  | DBlockPeerPick
  | DBlockPeer jsstr jsstr
  | DCancelFriendConfirm jsstr jsstr
  | DNotifications
  | DNotificationEnable bool
  | DNotificationConfirm notification_delivery bool
  | DNotificationFallback bool
  | DNotificationSettings
  | DNotificationPeer
  | DAccessibility
  | DDebug
  | DDebugEndpoints
  | DDebugPeer jsstr jsstr
  | DFileSend
  | DFileConfirm file_confirm
  | DFileList "file_transfer list"
  | DFileDownload jsstr jsstr jsstr
  | DImageView "jsstr option" "nat list option" jsstr "nat option" "return_to option" "file_confirm option"
  | DDeliveryDetails "delivery list" "jsstr option"
  | DFilesDir location_payload
  | DStorageDir location_payload
  | DFilesSettings location_payload
  | DGroupFileSend
  | DUpdate release bool "jsstr option" "update_progress option"
  | DUpdateDirectory release
  | DUpdateToken "release option" "jsstr option"
  | DAbout "bool option" "bool option"

end
