(* ===== verification/ChatUtils.thy ===== *)
theory ChatUtils
  imports ChatTypes "HOL-Library.Code_Target_Numeral"
begin

text \<open>
  The pure helpers of the terminal client, \<open>tui/src/utils.ts\<close>: friendship states and the actions they
  offer, delivery summaries, the grouping of a conversation under headers, and the width of text in
  terminal cells. \<open>localeCompare\<close> and the calendar day of a time (\<open>dayKey\<close>, which depends on the time
  zone) are arguments.
\<close>

definition MAX_MESSAGE_BYTES :: nat where "MAX_MESSAGE_BYTES = 30 * 1024"

definition isMuteActive :: "rat option \<Rightarrow> rat \<Rightarrow> bool" where
  "isMuteActive until now = (case until of None \<Rightarrow> False | Some u \<Rightarrow> u \<le> 0 \<or> now < u)"

definition getComposerHeight :: "nat option \<Rightarrow> nat" where
  "getComposerHeight lines = min 5 (max 3 (case lines of None \<Rightarrow> 0 | Some n \<Rightarrow> n))"

definition transportName :: "transport option \<Rightarrow> jsstr" where
  "transportName t = (case t of
     Some LanTcp \<Rightarrow> js ''LAN TCP''
   | Some RemoteUdp \<Rightarrow> js ''Remote UDP''
   | Some RemoteDerp \<Rightarrow> js ''MeshTalk Embedded Relay''
   | None \<Rightarrow> js ''No endpoint'')"

definition peerConnectionLabel :: "peer \<Rightarrow> jsstr" where
  "peerConnectionLabel p =
     (if peer_is_online p = 0 then js ''Offline''
      else case peer_active_transport p of
          Some LanTcp \<Rightarrow> js ''Direct (TCP)''
        | Some RemoteUdp \<Rightarrow> js ''Direct (UDP)''
        | Some RemoteDerp \<Rightarrow> js ''MeshTalk Relay''
        | None \<Rightarrow> js ''No endpoint'')"

definition peerPresence :: "peer \<Rightarrow> presence" where
  "peerPresence p = (case peer_presence p of Some s \<Rightarrow> s | None \<Rightarrow> PresenceOffline)"

text \<open>Most recent interaction first, then by name.\<close>

definition interaction_order :: "(jsstr \<Rightarrow> jsstr \<Rightarrow> int) \<Rightarrow> peer \<Rightarrow> peer \<Rightarrow> int" where
  "interaction_order compare a b =
     (let since = (\<lambda>p. case peer_last_interaction p of Some t \<Rightarrow> t | None \<Rightarrow> 0) in
      if since b < since a then -1
      else if since a < since b then 1
      else compare (peer_display_name a) (peer_display_name b))"

definition sortPeersByInteraction :: "(jsstr \<Rightarrow> jsstr \<Rightarrow> int) \<Rightarrow> peer list \<Rightarrow> peer list" where
  "sortPeersByInteraction compare peers = sort_by (interaction_order compare) peers"

definition friendMarkers :: "peer \<Rightarrow> jsstr" where
  "friendMarkers p =
     (let markers = (if peer_is_friend p then [9829] else [])
        @ (if peer_friend_request p \<in> {Some RequestIncoming, Some RequestBoth} then [8601] else [])
        @ (if peer_friend_request p \<in> {Some RequestOutgoing, Some RequestBoth} then [8599] else [])
      in if markers \<noteq> [] then 32 # markers else [])"

subsection \<open>Friendship\<close>

datatype friend_state = FriendState | IncomingState | OutgoingState | BothState | BlockedState | StrangerState

definition peerFriendState :: "peer \<Rightarrow> friend_state" where
  "peerFriendState p =
     (if peer_is_blocked p then BlockedState
      else if peer_is_friend p then FriendState
      else case peer_friend_request p of
          Some RequestIncoming \<Rightarrow> IncomingState
        | Some RequestOutgoing \<Rightarrow> OutgoingState
        | Some RequestBoth \<Rightarrow> BothState
        | None \<Rightarrow> StrangerState)"

text \<open>The dash of the source is U+2014.\<close>

definition dash :: "string \<Rightarrow> string \<Rightarrow> jsstr" where
  "dash a b = js a @ [32, 8212, 32] @ js b"

definition peerFriendStatusText :: "peer \<Rightarrow> jsstr" where
  "peerFriendStatusText p =
     (case peerFriendState p of
        FriendState \<Rightarrow> dash ''Friends'' ''messages go through.''
      | IncomingState \<Rightarrow> js ''They sent you a friend request.''
      | OutgoingState \<Rightarrow> dash ''Friend request sent'' ''waiting for them to accept.''
      | BothState \<Rightarrow> dash ''You both sent requests'' ''accept to become friends.''
      | BlockedState \<Rightarrow> dash ''Blocked'' ''their requests and messages are ignored.''
      | StrangerState \<Rightarrow> js ''You need to be friends to message.'')"

datatype friend_action = ActAdd | ActCancel | ActAccept | ActDecline | ActBlock | ActUnblock | ActInbox

record action_button =
  ab_id :: friend_action
  ab_label :: jsstr
  ab_hint :: jsstr

definition button :: "friend_action \<Rightarrow> string \<Rightarrow> string \<Rightarrow> action_button" where
  "button a l h = \<lparr>ab_id = a, ab_label = js l, ab_hint = js h\<rparr>"

definition inlineFriendActions :: "peer \<Rightarrow> action_button list" where
  "inlineFriendActions p =
     (case peerFriendState p of
        FriendState \<Rightarrow> [button ActInbox ''Inbox'' ''Alt+1'']
      | BlockedState \<Rightarrow> [button ActUnblock ''Unblock'' ''Alt+1'', button ActInbox ''Inbox'' ''Alt+2'']
      | IncomingState \<Rightarrow> [button ActAccept ''Accept'' ''Alt+1'', button ActDecline ''Decline'' ''Alt+2'',
          button ActBlock ''Block'' ''Alt+3'']
      | OutgoingState \<Rightarrow> [button ActCancel ''Cancel request'' ''Alt+1'', button ActBlock ''Block'' ''Alt+2'',
          button ActInbox ''Inbox'' ''Alt+3'']
      | BothState \<Rightarrow> [button ActAccept ''Accept'' ''Alt+1'', button ActDecline ''Decline'' ''Alt+2'',
          button ActCancel ''Cancel mine'' ''Alt+3'', button ActBlock ''Block'' ''Alt+4'']
      | StrangerState \<Rightarrow> [button ActAdd ''Add friend'' ''Alt+1'', button ActBlock ''Block'' ''Alt+2'',
          button ActInbox ''Inbox'' ''Alt+3''])"

definition addablePeers :: "(jsstr \<Rightarrow> jsstr \<Rightarrow> int) \<Rightarrow> peer list \<Rightarrow> jsstr option \<Rightarrow> peer list" where
  "addablePeers compare peers identity =
     sort_by (\<lambda>a b. compare (peer_display_name a) (peer_display_name b))
       (filter (\<lambda>p. Some (peer_id p) \<noteq> identity \<and> \<not> peer_is_friend p \<and> \<not> peer_is_blocked p
          \<and> peer_friend_request p = None) peers)"

datatype limit_color = DangerColor | CautionColor | WarningColor

text \<open>The thresholds of the message length: at the limit, nine tenths and three quarters of it.\<close>

definition composerLimitColor :: "nat \<Rightarrow> limit_color option" where
  "composerLimitColor n =
     (if MAX_MESSAGE_BYTES \<le> n then Some DangerColor
      else if 9 * MAX_MESSAGE_BYTES \<le> 10 * n then Some CautionColor
      else if 3 * MAX_MESSAGE_BYTES \<le> 4 * n then Some WarningColor
      else None)"

subsection \<open>Deliveries\<close>

definition normalizeDeliveryStatus :: "jsstr \<Rightarrow> jsstr" where
  "normalizeDeliveryStatus status =
     (if status = js ''completed'' then js ''delivered''
      else if status = js ''transferring'' \<or> status = js ''receiving'' then js ''pending''
      else status)"

definition delivery_statuses :: "delivery list \<Rightarrow> jsstr list" where
  "delivery_statuses ds = map (\<lambda>d. normalizeDeliveryStatus (dl_status d)) ds"

definition count_status :: "jsstr list \<Rightarrow> string \<Rightarrow> nat" where
  "count_status statuses s = length (filter (\<lambda>v. v = js s) statuses)"

text \<open>The parts of the label with their counts: how many deliveries each names.\<close>

definition delivery_counts :: "jsstr list \<Rightarrow> (string \<times> nat) list" where
  "delivery_counts statuses =
     (let delivered = count_status statuses ''delivered'';
          queued = count_status statuses ''queued'';
          unavailable = count_status statuses ''unavailable'';
          failed = length (filter (\<lambda>v. v = js ''failed'' \<or> v = js ''blocked'') statuses);
          sent = count_status statuses ''sent'';
          pending = count_status statuses ''pending'';
          known = delivered + queued + unavailable + failed + sent + pending
      in (''delivered'', delivered) # filter (\<lambda>e. 0 < snd e) [(''queued'', queued), (''unavailable'', unavailable),
           (''failed'', failed), (''sent'', sent), (''pending'', pending), (''other'', length statuses - known)])"

fun label_part :: "nat \<Rightarrow> string \<times> nat \<Rightarrow> jsstr" where
  "label_part all (name, n) =
     js name @ [32] @ decimal n @ (if name = ''delivered'' then 47 # decimal all else [])"

definition groupDeliveryLabel :: "delivery list \<Rightarrow> jsstr" where
  "groupDeliveryLabel ds =
     (if ds = [] then js ''sent''
      else join_on [32, 183, 32] (map (label_part (length ds)) (delivery_counts (delivery_statuses ds))))"

definition FAILED_DELIVERY_STATUSES :: "jsstr list" where
  "FAILED_DELIVERY_STATUSES = [js ''failed'', js ''blocked'', js ''unavailable'']"

definition groupDeliveryStatusSummary :: "delivery list \<Rightarrow> (jsstr \<times> bool) option" where
  "groupDeliveryStatusSummary ds =
     (let statuses = delivery_statuses ds;
          failed = length (filter (\<lambda>s. s \<in> set FAILED_DELIVERY_STATUSES) statuses);
          sending = js ''pending'' \<in> set statuses
      in if 0 < failed
         then Some (js ''Failed for '' @ decimal failed @ js '' of '' @ decimal (length ds)
           @ (if sending then [32, 183, 32] @ js ''sending'' else []), True)
         else if sending then Some (js ''sending'', False)
         else None)"

text \<open>A group named in a response: the object itself, or its fields at the top level.\<close>

definition groupFromResponse :: "json_object \<Rightarrow> (json + chat_group) option" where
  "groupFromResponse response =
     (case field response ''group'' of
        Some (JObj o') \<Rightarrow> Some (Inl (JObj o'))
      | Some (JArr xs) \<Rightarrow> Some (Inl (JArr xs))
      | _ \<Rightarrow>
          (case (string_field response ''group_id'', string_field response ''name'') of
             (Some i, Some n) \<Rightarrow> Some (Inr \<lparr>group_id = i, group_name = n, group_member_count = 1,
               group_unread_count = 0, group_mention_unread_count = None\<rparr>)
           | _ \<Rightarrow> None))"

subsection \<open>Headers\<close>

datatype render_type = FullHeader | CompactRow

definition MESSAGE_GROUP_CEILING_SECONDS :: rat where "MESSAGE_GROUP_CEILING_SECONDS = 480"

fun groupingAuthor :: "conversation_item \<Rightarrow> jsstr" where
  "groupingAuthor (MessageItem t m) = msg_sender_id m"
| "groupingAuthor (FileItem t f fs) = ft_sender_id f"

fun groupingIsReply :: "conversation_item \<Rightarrow> bool" where
  "groupingIsReply (MessageItem t m) = truthy (msg_reply_to m)"
| "groupingIsReply (FileItem t f fs) = False"

definition isSystemMessage :: "jsstr option \<Rightarrow> bool \<Rightarrow> bool" where
  "isSystemMessage kind isGroup \<longleftrightarrow> isGroup \<and> truthy kind \<and> kind \<noteq> Some (js ''message'') \<and> kind \<noteq> Some (js ''text'')"

fun groupingIsSystem :: "conversation_item \<Rightarrow> bool \<Rightarrow> bool" where
  "groupingIsSystem (MessageItem t m) isGroup = isSystemMessage (msg_kind m) isGroup"
| "groupingIsSystem (FileItem t f fs) isGroup = False"

definition groupRowMarginBottom :: "render_type list \<Rightarrow> nat \<Rightarrow> nat" where
  "groupRowMarginBottom types i = (if char_at types (i + 1) = Some CompactRow then 0 else 1)"

record grouping =
  gr_result :: "render_type list"
  gr_author :: "jsstr option"
  gr_start :: rat
  gr_date :: jsstr
  gr_system :: bool

definition group_item :: "(rat \<Rightarrow> jsstr) \<Rightarrow> bool \<Rightarrow> conversation_item \<Rightarrow> grouping \<Rightarrow> grouping" where
  "group_item dayKey isGroup item g =
     (let authorId = groupingAuthor item;
          timestamp = item_createdAt item;
          date = dayKey timestamp;
          isBreakType = groupingIsReply item \<or> groupingIsSystem item isGroup;
          shouldStartNewGroup = gr_result g = [] \<or> Some authorId \<noteq> gr_author g
            \<or> timestamp - gr_start g \<ge> MESSAGE_GROUP_CEILING_SECONDS \<or> isBreakType \<or> gr_system g
            \<or> date \<noteq> gr_date g;
          g = (if shouldStartNewGroup
               then g\<lparr>gr_result := gr_result g @ [FullHeader], gr_author := Some authorId,
                 gr_start := timestamp, gr_date := date\<rparr>
               else g\<lparr>gr_result := gr_result g @ [CompactRow]\<rparr>)
      in g\<lparr>gr_system := groupingIsSystem item isGroup\<rparr>)"

definition computeRenderTypes :: "(rat \<Rightarrow> jsstr) \<Rightarrow> conversation_item list \<Rightarrow> bool \<Rightarrow> render_type list" where
  "computeRenderTypes dayKey items isGroup =
     gr_result (fold (group_item dayKey isGroup) items
       \<lparr>gr_result = [], gr_author = None, gr_start = 0, gr_date = [], gr_system = False\<rparr>)"

definition isImageFile :: "(jsstr \<Rightarrow> jsstr) \<Rightarrow> jsstr \<Rightarrow> bool" where
  "isImageFile lower filename \<longleftrightarrow> lower (last (split_on 46 filename))
     \<in> {js ''png'', js ''jpg'', js ''jpeg'', js ''gif'', js ''webp''}"

subsection \<open>Widths\<close>

definition is_combining :: "nat \<Rightarrow> bool" where
  "is_combining cp \<longleftrightarrow> (0x300 \<le> cp \<and> cp \<le> 0x36F) \<or> (0x1AB0 \<le> cp \<and> cp \<le> 0x1AFF)
     \<or> (0x1DC0 \<le> cp \<and> cp \<le> 0x1DFF) \<or> (0x20D0 \<le> cp \<and> cp \<le> 0x20FF) \<or> (0xFE20 \<le> cp \<and> cp \<le> 0xFE2F)"

definition char_width :: "nat \<Rightarrow> nat" where
  "char_width cp = (if is_combining cp then 0 else if cp > 0xff then 2 else 1)"

definition terminalWidth :: "jsstr \<Rightarrow> nat" where
  "terminalWidth s = sum_list (map (\<lambda>(cp, u). char_width cp) (chars s))"

fun clip_chars :: "(nat \<times> jsstr) list \<Rightarrow> nat \<Rightarrow> int \<Rightarrow> jsstr list" where
  "clip_chars [] width limit = []"
| "clip_chars ((cp, u) # cs) width limit =
     (if int (width + char_width cp) > limit then []
      else u # clip_chars cs (width + char_width cp) limit)"

definition clipTextToWidth :: "jsstr \<Rightarrow> int \<Rightarrow> jsstr" where
  "clipTextToWidth s maxWidth = concat (clip_chars (chars s) 0 maxWidth)"

subsection \<open>Properties\<close>

text \<open>What the loop knows after a non-empty prefix: the header of the current group, and whether the last item
  was a notice of the system.\<close>

definition grouping_inv :: "(rat \<Rightarrow> jsstr) \<Rightarrow> bool \<Rightarrow> conversation_item list \<Rightarrow> grouping \<Rightarrow> bool" where
  "grouping_inv dayKey isGroup items g \<longleftrightarrow> length (gr_result g) = length items \<and>
     (items \<noteq> [] \<longrightarrow> gr_system g = groupingIsSystem (last items) isGroup \<and>
       (\<exists>j < length items. gr_result g ! j = FullHeader
         \<and> (\<forall>i. j < i \<and> i < length items \<longrightarrow> gr_result g ! i = CompactRow)
         \<and> gr_author g = Some (groupingAuthor (items ! j)) \<and> gr_start g = item_createdAt (items ! j)
         \<and> gr_date g = dayKey (item_createdAt (items ! j))))"

text \<open>The condition for a row without a header, over the rows before it.\<close>

definition continues :: "(rat \<Rightarrow> jsstr) \<Rightarrow> bool \<Rightarrow> conversation_item list \<Rightarrow> render_type list \<Rightarrow> nat \<Rightarrow> bool" where
  "continues dayKey isGroup items types k \<longleftrightarrow>
     (\<exists>j < k. types ! j = FullHeader \<and> (\<forall>i. j < i \<and> i < k \<longrightarrow> types ! i = CompactRow)
       \<and> groupingAuthor (items ! k) = groupingAuthor (items ! j)
       \<and> item_createdAt (items ! k) - item_createdAt (items ! j) < 480
       \<and> dayKey (item_createdAt (items ! k)) = dayKey (item_createdAt (items ! j))
       \<and> \<not> groupingIsReply (items ! k) \<and> \<not> groupingIsSystem (items ! k) isGroup
       \<and> \<not> groupingIsSystem (items ! (k - 1)) isGroup)"

lemma continues_append:
  assumes "k < length types" "k < length items"
  shows "continues dk grp (items @ [x]) (types @ [t]) k = continues dk grp items types k"
proof -
  have "(\<forall>i. j < i \<and> i < k \<longrightarrow> (types @ [t]) ! i = CompactRow) = (\<forall>i. j < i \<and> i < k \<longrightarrow> types ! i = CompactRow)" for j
    using assms by (auto simp: nth_append)
  moreover have "(types @ [t]) ! j = types ! j" "(items @ [x]) ! j = items ! j" if "j < k" for j
    using that assms by (simp_all add: nth_append)
  moreover have "(items @ [x]) ! k = items ! k" "(items @ [x]) ! (k - 1) = items ! (k - 1)"
    using assms by (auto simp: nth_append)
  ultimately show ?thesis unfolding continues_def by (intro ex_cong1 conj_cong refl) simp_all
qed

text \<open>The header before a row is unique.\<close>

lemma header_unique:
  assumes "types ! j = FullHeader" "types ! j' = FullHeader" "j < k" "j' < k"
    "\<forall>i. j < i \<and> i < k \<longrightarrow> types ! i = CompactRow" "\<forall>i. j' < i \<and> i < k \<longrightarrow> types ! i = CompactRow"
  shows "j = j'"
proof (rule linorder_cases [of j j'])
  assume "j < j'"
  then have "types ! j' = CompactRow" using assms by simp
  with assms show ?thesis by simp
next
  assume "j' < j"
  then have "types ! j = CompactRow" using assms by simp
  with assms show ?thesis by simp
qed

text \<open>The test of the loop, and the two effects of a step.\<close>

definition starts_group :: "(rat \<Rightarrow> jsstr) \<Rightarrow> bool \<Rightarrow> conversation_item \<Rightarrow> grouping \<Rightarrow> bool" where
  "starts_group dk grp x g \<longleftrightarrow> gr_result g = [] \<or> Some (groupingAuthor x) \<noteq> gr_author g
     \<or> item_createdAt x - gr_start g \<ge> 480 \<or> groupingIsReply x \<or> groupingIsSystem x grp \<or> gr_system g
     \<or> dk (item_createdAt x) \<noteq> gr_date g"

lemma group_item_eq:
  "group_item dk grp x g = (if starts_group dk grp x g
     then \<lparr>gr_result = gr_result g @ [FullHeader], gr_author = Some (groupingAuthor x),
       gr_start = item_createdAt x, gr_date = dk (item_createdAt x), gr_system = groupingIsSystem x grp\<rparr>
     else g\<lparr>gr_result := gr_result g @ [CompactRow], gr_system := groupingIsSystem x grp\<rparr>)"
  unfolding group_item_def Let_def MESSAGE_GROUP_CEILING_SECONDS_def
  by (simp add: starts_group_def disj_ac grouping.defs)

lemma grouping_headerE:
  assumes "grouping_inv dk grp items g" "items \<noteq> []"
  obtains j where "j < length items" "gr_result g ! j = FullHeader"
    "\<And>i. j < i \<Longrightarrow> i < length items \<Longrightarrow> gr_result g ! i = CompactRow"
    "gr_author g = Some (groupingAuthor (items ! j))" "gr_start g = item_createdAt (items ! j)"
    "gr_date g = dk (item_createdAt (items ! j))" "gr_system g = groupingIsSystem (last items) grp"
  using assms unfolding grouping_inv_def by blast

lemma grouping_step_inv:
  assumes "grouping_inv dk grp items g"
  shows "grouping_inv dk grp (items @ [x]) (group_item dk grp x g)"
proof (cases "starts_group dk grp x g")
  case True
  then show ?thesis using assms
    by (auto simp: grouping_inv_def group_item_eq nth_append intro!: exI [of _ "length items"])
next
  case False
  then have "items \<noteq> []" using assms by (auto simp: starts_group_def grouping_inv_def)
  then obtain j where "j < length items" "gr_result g ! j = FullHeader"
    "\<And>i. j < i \<Longrightarrow> i < length items \<Longrightarrow> gr_result g ! i = CompactRow"
    "gr_author g = Some (groupingAuthor (items ! j))" "gr_start g = item_createdAt (items ! j)"
    "gr_date g = dk (item_createdAt (items ! j))"
    using grouping_headerE [OF assms] by metis
  moreover have "length (gr_result g) = length items" using assms by (simp add: grouping_inv_def)
  ultimately show ?thesis using False
    by (auto simp: grouping_inv_def group_item_eq nth_append intro!: exI [of _ j])
qed

lemma grouping_step_decides:
  assumes g: "grouping_inv dk grp items g"
  shows "starts_group dk grp x g \<longleftrightarrow> \<not> continues dk grp (items @ [x]) (gr_result g @ [t]) (length items)"
proof (cases "items = []")
  case True
  then show ?thesis using g by (simp add: continues_def starts_group_def grouping_inv_def)
next
  case ne: False
  have len: "length (gr_result g) = length items" using g by (simp add: grouping_inv_def)
  obtain j where j: "j < length items" "gr_result g ! j = FullHeader"
    "\<And>i. j < i \<Longrightarrow> i < length items \<Longrightarrow> gr_result g ! i = CompactRow"
    "gr_author g = Some (groupingAuthor (items ! j))" "gr_start g = item_createdAt (items ! j)"
    "gr_date g = dk (item_createdAt (items ! j))" "gr_system g = groupingIsSystem (last items) grp"
    using grouping_headerE [OF g ne] by metis
  have prev: "(items @ [x]) ! (length items - 1) = last items" using ne by (simp add: nth_append last_conv_nth)
  have only: "j' = j" if "j' < length items" "gr_result g ! j' = FullHeader"
      "\<forall>i. j' < i \<and> i < length items \<longrightarrow> gr_result g ! i = CompactRow" for j'
    by (rule header_unique [of "gr_result g" j' j "length items"]) (use j that in auto)
  have "gr_result g \<noteq> []" using ne len by auto
  then have "\<not> starts_group dk grp x g \<longleftrightarrow> groupingAuthor x = groupingAuthor (items ! j)
      \<and> item_createdAt x - item_createdAt (items ! j) < 480
      \<and> dk (item_createdAt x) = dk (item_createdAt (items ! j)) \<and> \<not> groupingIsReply x \<and> \<not> groupingIsSystem x grp
      \<and> \<not> groupingIsSystem (last items) grp"
    using j by (auto simp: starts_group_def)
  also have "\<dots> \<longleftrightarrow> continues dk grp (items @ [x]) (gr_result g @ [t]) (length items)"
    (is "?c j \<longleftrightarrow> _")
  proof
    assume "?c j"
    then show "continues dk grp (items @ [x]) (gr_result g @ [t]) (length items)"
      unfolding continues_def prev using j len by (intro exI [of _ j]) (simp add: nth_append)
  next
    assume "continues dk grp (items @ [x]) (gr_result g @ [t]) (length items)"
    then obtain j' where j': "j' < length items" "gr_result g ! j' = FullHeader"
        "\<forall>i. j' < i \<and> i < length items \<longrightarrow> gr_result g ! i = CompactRow" and "?c j'"
      unfolding continues_def prev using len by (auto simp: nth_append)
    then show "?c j" using only by blast
  qed
  finally show ?thesis by blast
qed

text \<open>Which rows of a conversation carry a header: there is one row for each item, and a row goes without a
  header exactly when the latest header above it names the same author on the same day less than eight
  minutes before (measured from that header, so steady typing cannot stretch a group), the item is
  neither a reply nor a notice of the system, and the item before it is no such notice.\<close>

theorem headers_group_rows:
  "length (computeRenderTypes dayKey items isGroup) = length items
    \<and> (\<forall>k < length items. computeRenderTypes dayKey items isGroup ! k = CompactRow \<longleftrightarrow>
        continues dayKey isGroup items (computeRenderTypes dayKey items isGroup) k)"
proof -
  define g0 where "g0 = \<lparr>gr_result = [], gr_author = None, gr_start = 0, gr_date = [], gr_system = False\<rparr>"
  have "grouping_inv dayKey isGroup items (fold (group_item dayKey isGroup) items g0) \<and>
      (\<forall>k < length items. gr_result (fold (group_item dayKey isGroup) items g0) ! k = CompactRow \<longleftrightarrow>
        continues dayKey isGroup items (gr_result (fold (group_item dayKey isGroup) items g0)) k)"
  proof (induction items rule: rev_induct)
    case Nil
    then show ?case by (simp add: grouping_inv_def g0_def)
  next
    case (snoc x items)
    define g where "g = fold (group_item dayKey isGroup) items g0"
    define t where "t = (if starts_group dayKey isGroup x g then FullHeader else CompactRow)"
    have inv: "grouping_inv dayKey isGroup items g" using snoc by (simp add: g_def)
    have len: "length (gr_result g) = length items" using inv by (simp add: grouping_inv_def)
    have res: "gr_result (group_item dayKey isGroup x g) = gr_result g @ [t]"
      by (simp add: group_item_eq t_def)
    have "(gr_result g @ [t]) ! k = CompactRow \<longleftrightarrow> continues dayKey isGroup (items @ [x]) (gr_result g @ [t]) k"
      if "k < length (items @ [x])" for k
    proof (cases "k = length items")
      case True
      then have "(gr_result g @ [t]) ! k = CompactRow \<longleftrightarrow> \<not> starts_group dayKey isGroup x g"
        using len by (simp add: t_def nth_append)
      then show ?thesis unfolding True using grouping_step_decides [OF inv, of x t] by simp
    next
      case False
      then show ?thesis using that snoc len by (simp add: continues_append nth_append g_def)
    qed
    then show ?case using grouping_step_inv [OF inv, of x] by (simp add: g_def [symmetric] res)
  qed
  then show ?thesis by (simp add: computeRenderTypes_def g0_def grouping_inv_def)
qed

text \<open>Items for examples.\<close>

text \<open>Clipping keeps a prefix of the characters.\<close>

definition units :: "(nat \<times> jsstr) list \<Rightarrow> jsstr" where
  "units cs = concat (map snd cs)"

definition width_of :: "(nat \<times> jsstr) list \<Rightarrow> nat" where
  "width_of cs = sum_list (map (\<lambda>(cp, u). char_width cp) cs)"

lemma width_of_simps [simp]: "width_of [] = 0" "width_of ((cp, u) # cs) = char_width cp + width_of cs"
  by (simp_all add: width_of_def)

lemma units_chars: "units (chars s) = s"
  by (induction s rule: chars.induct) (auto simp: units_def)

lemma clip_chars_take:
  assumes "int w \<le> limit"
  shows "\<exists>n \<le> length cs. clip_chars cs w limit = map snd (take n cs) \<and> int (w + width_of (take n cs)) \<le> limit
    \<and> (n < length cs \<longrightarrow> int (w + width_of (take (Suc n) cs)) > limit)"
  using assms
proof (induction cs arbitrary: w)
  case (Cons c cs)
  obtain cp u where c: "c = (cp, u)" by (cases c)
  show ?case
  proof (cases "int (w + char_width cp) > limit")
    case True
    then show ?thesis using Cons.prems by (intro exI [of _ 0]) (simp add: c)
  next
    case False
    then obtain n where "n \<le> length cs" "clip_chars cs (w + char_width cp) limit = map snd (take n cs)"
      "int (w + char_width cp + width_of (take n cs)) \<le> limit"
      "n < length cs \<longrightarrow> int (w + char_width cp + width_of (take (Suc n) cs)) > limit"
      using Cons.IH [of "w + char_width cp"] by auto
    with False show ?thesis by (intro exI [of _ "Suc n"]) (simp add: c add.assoc)
  qed
qed simp

lemma width_of_take_mono: "m \<le> n \<Longrightarrow> width_of (take m cs) \<le> width_of (take n cs)"
proof -
  assume "m \<le> n"
  then have "take n cs = take m cs @ take (n - m) (drop m cs)" by (simp flip: take_add)
  then show ?thesis by (simp add: width_of_def)
qed

text \<open>Clipping yields the longest prefix that fits: the result is made of the first \<open>n\<close> characters, these are
  no wider than the limit, and every other prefix of whole characters that fits is no longer.\<close>

theorem clip_longest:
  assumes "0 \<le> limit"
  shows "\<exists>n \<le> length (chars s). clipTextToWidth s limit = units (take n (chars s))
    \<and> int (width_of (take n (chars s))) \<le> limit
    \<and> (\<forall>m \<le> length (chars s). int (width_of (take m (chars s))) \<le> limit \<longrightarrow> m \<le> n)
    \<and> (int (terminalWidth s) \<le> limit \<longrightarrow> clipTextToWidth s limit = s)"
proof -
  let ?cs = "chars s"
  obtain n where n: "n \<le> length ?cs" "clip_chars ?cs 0 limit = map snd (take n ?cs)"
    "int (width_of (take n ?cs)) \<le> limit" "n < length ?cs \<longrightarrow> int (width_of (take (Suc n) ?cs)) > limit"
    using clip_chars_take [of 0 limit ?cs] assms by auto
  have clip: "clipTextToWidth s limit = units (take n ?cs)" by (simp add: clipTextToWidth_def units_def n)
  have max: "m \<le> n" if "m \<le> length ?cs" "int (width_of (take m ?cs)) \<le> limit" for m
  proof (rule ccontr)
    assume "\<not> m \<le> n"
    with that n(4) have "int (width_of (take (Suc n) ?cs)) > limit" by simp
    moreover have "width_of (take (Suc n) ?cs) \<le> width_of (take m ?cs)"
      using \<open>\<not> m \<le> n\<close> by (intro width_of_take_mono) simp
    ultimately show False using that(2) by linarith
  qed
  have "clipTextToWidth s limit = s" if "int (terminalWidth s) \<le> limit"
    using max [of "length ?cs"] that n(1) clip by (simp add: terminalWidth_def width_of_def units_chars)
  with n clip max show ?thesis by blast
qed

subsection \<open>The label of a group delivery\<close>

text \<open>Every status falls under exactly one part of the label.\<close>

lemma filter_split_key:
  "k \<notin> set ks \<Longrightarrow> length (filter (\<lambda>v. v \<notin> set ks) st)
     = length (filter (\<lambda>v. v = k) st) + length (filter (\<lambda>v. v \<notin> set (k # ks)) st)"
  by (induction st) auto

lemma partition_keys:
  "distinct ks \<Longrightarrow>
     length st = (\<Sum>k\<leftarrow>ks. length (filter (\<lambda>v. v = k) st)) + length (filter (\<lambda>v. v \<notin> set ks) st)"
proof (induction ks)
  case (Cons k ks)
  then show ?case using filter_split_key [of k ks st] by simp
qed simp

lemma filter_either: "d \<noteq> e \<Longrightarrow> length (filter (\<lambda>v. v = d \<or> v = e) st) = length (filter (\<lambda>v. v = d) st) + length (filter (\<lambda>v. v = e) st)"
  by (induction st) auto

lemma status_partition:
  "length st = count_status st ''delivered'' + count_status st ''queued'' + count_status st ''unavailable''
     + length (filter (\<lambda>v. v = js ''failed'' \<or> v = js ''blocked'') st) + count_status st ''sent''
     + count_status st ''pending''
     + length (filter (\<lambda>v. v \<notin> {js ''delivered'', js ''queued'', js ''unavailable'', js ''failed'', js ''blocked'', js ''sent'', js ''pending''}) st)"
  using partition_keys [of "[js ''delivered'', js ''queued'', js ''unavailable'', js ''failed'', js ''blocked'', js ''sent'', js ''pending'']" st]
  by (simp add: count_status_def filter_either)

lemma sum_filter_positive: "sum_list (map snd (filter (\<lambda>e. 0 < snd e) xs)) = sum_list (map snd (xs :: ('a \<times> nat) list))"
  by (induction xs) auto

lemma delivery_counts_sum: "sum_list (map snd (delivery_counts st)) = length st"
proof -
  have "count_status st ''delivered'' + (count_status st ''queued'' + (count_status st ''unavailable''
     + (length (filter (\<lambda>v. v = js ''failed'' \<or> v = js ''blocked'') st) + (count_status st ''sent''
     + count_status st ''pending'')))) \<le> length st"
    using status_partition [of st] by linarith
  then show ?thesis
    unfolding delivery_counts_def Let_def by (simp add: sum_filter_positive add.assoc del: filter.simps)
qed

lemma count_delivered: "count_status st ''delivered'' = length st \<longleftrightarrow> (\<forall>v \<in> set st. v = js ''delivered'')"
proof (induction st)
  case (Cons v st)
  have "count_status st ''delivered'' \<noteq> Suc (length st)"
    using length_filter_le [of "\<lambda>v. v = js ''delivered''" st] unfolding count_status_def by linarith
  with Cons show ?case by (simp add: count_status_def)
qed (simp add: count_status_def)

lemma label_separator: "183 \<in> set (join_on [32, 183, 32] (x # y # xs))"
  by simp

text \<open>The delivery label of a group message adds up: its parts count every recipient exactly once, statuses of
  file transfers included, and it reads \<open>delivered n/n\<close> alone exactly when each of the \<open>n\<close> recipients
  has the message.\<close>

theorem delivery_label_counts:
  assumes "ds \<noteq> []"
  shows "sum_list (map snd (delivery_counts (delivery_statuses ds))) = length ds
    \<and> (groupDeliveryLabel ds = js ''delivered '' @ decimal (length ds) @ 47 # decimal (length ds) \<longleftrightarrow>
        (\<forall>d \<in> set ds. normalizeDeliveryStatus (dl_status d) = js ''delivered''))"
proof
  define st where "st = delivery_statuses ds"
  have len: "length st = length ds" by (simp add: st_def delivery_statuses_def)
  show sum: "sum_list (map snd (delivery_counts (delivery_statuses ds))) = length ds"
    using delivery_counts_sum [of st] len by (simp add: st_def)
  have positive: "\<forall>e \<in> set (filter (\<lambda>e. 0 < snd e) es). 0 < snd e" for es :: "(string \<times> nat) list" by simp
  obtain rest where rest: "delivery_counts st = (''delivered'', count_status st ''delivered'') # rest"
      "\<forall>e \<in> set rest. 0 < snd e"
    unfolding delivery_counts_def Let_def using positive by blast
  have label: "groupDeliveryLabel ds = join_on [32, 183, 32] (map (label_part (length ds)) (delivery_counts st))"
    using assms by (simp add: groupDeliveryLabel_def st_def)
  have all: "(\<forall>d \<in> set ds. normalizeDeliveryStatus (dl_status d) = js ''delivered'') \<longleftrightarrow> rest = []"
  proof -
    have "count_status st ''delivered'' + sum_list (map snd rest) = length st"
      using delivery_counts_sum [of st] by (simp add: rest(1))
    moreover have "sum_list (map snd rest) = 0 \<longleftrightarrow> rest = []" using rest(2) by (cases rest) auto
    ultimately have "count_status st ''delivered'' = length st \<longleftrightarrow> rest = []" by linarith
    then show ?thesis by (simp add: count_delivered) (simp add: st_def delivery_statuses_def)
  qed
  have no_sep: "183 \<notin> set (js ''delivered '' @ decimal n @ 47 # decimal m)" for n m
  proof -
    have "183 \<notin> set (js ''delivered '')" by code_simp
    moreover have "183 \<notin> set (decimal k)" for k
      using decimal_digits(2) [of k] by (auto simp: list_all_iff is_digit_def)
    ultimately show ?thesis by simp
  qed
  have space: "js ''delivered'' @ [32] = js ''delivered ''" by code_simp
  show "groupDeliveryLabel ds = js ''delivered '' @ decimal (length ds) @ 47 # decimal (length ds) \<longleftrightarrow>
      (\<forall>d \<in> set ds. normalizeDeliveryStatus (dl_status d) = js ''delivered'')"
  proof (cases rest)
    case Nil
    then have "count_status st ''delivered'' = length ds"
      using delivery_counts_sum [of st] len by (simp add: rest(1))
    then show ?thesis using Nil all by (simp add: label rest(1) flip: space)
  next
    case (Cons e es)
    then have "183 \<in> set (groupDeliveryLabel ds)" by (simp add: label rest(1) label_separator)
    then have "groupDeliveryLabel ds \<noteq> js ''delivered '' @ decimal (length ds) @ 47 # decimal (length ds)"
      using no_sep by metis
    then show ?thesis using Cons all by simp
  qed
qed

end
