(* ===== verification/ChatNavigation.thy ===== *)
theory ChatNavigation
  imports ChatUtils
begin

text \<open>
  The dialogs of the terminal client, \<open>tui/src/navigation.ts\<close>: what going back does from each dialog, and
  what each command of the settings menu does. The callbacks that the functions are given
  (\<open>showDialog\<close>, \<open>showStatus\<close>, \<open>loadRooms\<close> and so on) are the calls of the result, in order.
\<close>

datatype nav_call =
    CloseDialog
  | ShowDialog dialog
  | ShowStatus jsstr
  | SetDialogDraft jsstr
  | SetDialogError jsstr
  | SetNameDraft jsstr
  | SetRenameDialog
  | LoadAdvancedConfig
  | LoadRooms
  | LoadFriendRequests
  | LoadBlockedPeers
  | LoadDebugInfo
  | LoadFiles
  | LoadFilesSettings
  | LoadGroupDetails chat_group
  | OpenFriendsInbox

subsection \<open>Kinds of dialogs\<close>

definition dialogUsesTextInput :: "dialog \<Rightarrow> bool" where
  "dialogUsesTextInput d = (case d of
     DControlCustom _ \<Rightarrow> True | DAdvancedControlIp \<Rightarrow> True | DAdvancedStunIp \<Rightarrow> True
   | DRoomCreate \<Rightarrow> True | DRoomJoin \<Rightarrow> True | DRename _ \<Rightarrow> True | DAddFriend _ _ \<Rightarrow> True
   | DFileSend \<Rightarrow> True | DFilesDir _ \<Rightarrow> True | DStorageDir _ \<Rightarrow> True | DFilesSettings _ \<Rightarrow> True
   | DFileDownload _ _ _ \<Rightarrow> True | DUpdateDirectory _ \<Rightarrow> True | DUpdateToken _ _ \<Rightarrow> True
   | _ \<Rightarrow> False)"

definition isUpdaterDialog :: "dialog \<Rightarrow> bool" where
  "isUpdaterDialog d = (case d of
     DUpdate _ _ _ _ \<Rightarrow> True | DUpdateDirectory _ \<Rightarrow> True | DUpdateToken _ _ \<Rightarrow> True | _ \<Rightarrow> False)"

definition dialog_firstRun :: "dialog \<Rightarrow> bool" where
  "dialog_firstRun d = (case d of
     DControl f \<Rightarrow> f | DControlCustom f \<Rightarrow> f | DRename f \<Rightarrow> f | DNotificationEnable f \<Rightarrow> f
   | DNotificationConfirm _ f \<Rightarrow> f | DNotificationFallback f \<Rightarrow> f | _ \<Rightarrow> False)"

definition first_level_kind :: "dialog \<Rightarrow> bool" where
  "first_level_kind d = (case d of
     DSettings \<Rightarrow> True | DRename _ \<Rightarrow> True | DCustomisation \<Rightarrow> True | DNotifications \<Rightarrow> True
   | DAccessibility \<Rightarrow> True | DControl _ \<Rightarrow> True | DFriends \<Rightarrow> True | DRooms _ \<Rightarrow> True
   | DFilesSettings _ \<Rightarrow> True | DAdvanced _ \<Rightarrow> True | DDebug \<Rightarrow> True | DAbout _ _ \<Rightarrow> True
   | DFileList _ \<Rightarrow> True | DFileSend \<Rightarrow> True | DGroupFileSend \<Rightarrow> True
   | _ \<Rightarrow> False)"

definition isFirstLevelSettingsDialog :: "dialog \<Rightarrow> bool" where
  "isFirstLevelSettingsDialog d \<longleftrightarrow> (if dialog_firstRun d then False else first_level_kind d)"

subsection \<open>Going back\<close>

text \<open>The branches of \<open>goBack\<close> after the first-level dialogs.\<close>

definition back_from :: "dialog \<Rightarrow> file_transfer list \<Rightarrow> nav_call list" where
  "back_from d files = (case d of
     DImageView path bytes name version returnTo returnDialog \<Rightarrow>
       (if returnTo = Some ReturnFiles then [ShowDialog (DFileList files)]
        else case (returnTo, returnDialog) of
            (Some ReturnFileConfirm, Some c) \<Rightarrow> [ShowDialog (DFileConfirm c)]
          | _ \<Rightarrow> [CloseDialog])
   | DDeliveryDetails _ _ \<Rightarrow> [CloseDialog]
   | DControlCustom firstRun \<Rightarrow> [ShowDialog (DControl firstRun)]
   | DControlStatus _ \<Rightarrow> [ShowDialog (DControl False)]
   | DAdvancedControlIp \<Rightarrow> [LoadAdvancedConfig]
   | DAdvancedStunIp \<Rightarrow> [LoadAdvancedConfig]
   | DAdvancedControl _ \<Rightarrow> [LoadAdvancedConfig]
   | DAdvancedStun _ \<Rightarrow> [LoadAdvancedConfig]
   | DAdvancedIpPinning _ \<Rightarrow> [LoadAdvancedConfig]
   | DAdvancedImageProtocol _ \<Rightarrow> [LoadAdvancedConfig]
   | DUpdateDirectory release \<Rightarrow> [ShowDialog (DUpdate release False None None)]
   | DUpdateToken (Some release) _ \<Rightarrow> [ShowDialog (DUpdate release False None None)]
   | DUpdateToken None _ \<Rightarrow> [ShowDialog (DAbout None None)]
   | DCustomisationSplash _ \<Rightarrow> [ShowDialog DCustomisation]
   | DRoomCreate \<Rightarrow> [ShowDialog (DRooms []), LoadRooms]
   | DRoomJoin \<Rightarrow> [ShowDialog (DRooms []), LoadRooms]
   | DRoomCreated _ _ _ _ \<Rightarrow> [ShowDialog (DRooms []), LoadRooms]
   | DRoomDetail _ \<Rightarrow> [ShowDialog (DRooms []), LoadRooms]
   | DGroupDetail _ _ \<Rightarrow> [CloseDialog]
   | DMuteTimeout _ _ _ \<Rightarrow> [ShowDialog DNotifications]
   | DUnmuteConfirm _ _ _ \<Rightarrow> [ShowDialog DNotifications]
   | DFriendRequestIncoming _ \<Rightarrow> [ShowDialog DFriends]
   | DFriendRequests _ \<Rightarrow> [ShowDialog DFriends]
   | DAddFriend _ _ \<Rightarrow> [ShowDialog DFriends]
   | DRemoveFriend _ _ \<Rightarrow> [ShowDialog DFriends]
   | DNotificationEnable firstRun \<Rightarrow> [if firstRun then CloseDialog else ShowDialog DNotificationSettings]
   | DNotificationConfirm _ firstRun \<Rightarrow> [if firstRun then CloseDialog else ShowDialog DNotificationSettings]
   | DNotificationFallback firstRun \<Rightarrow> [if firstRun then CloseDialog else ShowDialog DNotificationSettings]
   | DNotificationSettings \<Rightarrow> [ShowDialog DNotifications]
   | DNotificationPeer \<Rightarrow> [ShowDialog DNotifications]
   | DBlocked _ \<Rightarrow> [ShowDialog DFriends]
   | DBlockPeerPick \<Rightarrow> [ShowDialog (DBlocked []), LoadBlockedPeers]
   | DBlockPeer _ _ \<Rightarrow> [ShowDialog (DBlocked []), LoadBlockedPeers]
   | DCancelFriendConfirm _ _ \<Rightarrow> [ShowDialog DFriends]
   | DDebugPeer _ _ \<Rightarrow> [ShowDialog DDebugEndpoints]
   | DDebugEndpoints \<Rightarrow> [ShowDialog DDebug]
   | DFileDownload _ _ _ \<Rightarrow> [ShowDialog (DFileList files)]
   | DFilesDir _ \<Rightarrow> [ShowDialog (DFileList files)]
   | DStorageDir _ \<Rightarrow> [ShowDialog (DFileList files)]
   | _ \<Rightarrow> [CloseDialog])"

definition goBack :: "dialog option \<Rightarrow> file_transfer list \<Rightarrow> nav_call list" where
  "goBack d files = (case d of
     None \<Rightarrow> [CloseDialog]
   | Some d \<Rightarrow>
       if d = DSettings \<or> d = DControl True \<or> d = DRename True then [CloseDialog]
       else if (case d of DUpdate _ _ _ _ \<Rightarrow> True | _ \<Rightarrow> False) then []
       else if isFirstLevelSettingsDialog d then [CloseDialog]
       else back_from d files)"

text \<open>The dialog after the calls. Loading the advanced settings shows their dialog; loading rooms and blocked
  peers only refreshes the dialog that is shown.\<close>

fun dialog_after :: "advanced_config \<Rightarrow> nav_call list \<Rightarrow> dialog option \<Rightarrow> dialog option" where
  "dialog_after config [] d = d"
| "dialog_after config (CloseDialog # cs) d = dialog_after config cs None"
| "dialog_after config (ShowDialog d' # cs) d = dialog_after config cs (Some d')"
| "dialog_after config (LoadAdvancedConfig # cs) d = dialog_after config cs (Some (DAdvanced config))"
| "dialog_after config (c # cs) d = dialog_after config cs d"

definition back_step :: "advanced_config \<Rightarrow> file_transfer list \<Rightarrow> dialog option \<Rightarrow> dialog option" where
  "back_step config files d = dialog_after config (goBack d files) d"

text \<open>The dialogs of the updater from which going back ends at the update itself.\<close>

definition leads_to_update :: "dialog \<Rightarrow> release option" where
  "leads_to_update d = (case d of
     DUpdate r _ _ _ \<Rightarrow> Some r | DUpdateDirectory r \<Rightarrow> Some r | DUpdateToken r _ \<Rightarrow> r | _ \<Rightarrow> None)"

text \<open>How many times one goes back from a dialog until it closes.\<close>

definition back_depth :: "dialog \<Rightarrow> nat" where
  "back_depth d = (case d of
     DDebugPeer _ _ \<Rightarrow> 3 | DDebugEndpoints \<Rightarrow> 2
   | DBlockPeer _ _ \<Rightarrow> 3 | DBlockPeerPick \<Rightarrow> 3 | DBlocked _ \<Rightarrow> 2
   | DNotificationEnable f \<Rightarrow> if f then 1 else 3 | DNotificationConfirm _ f \<Rightarrow> if f then 1 else 3
   | DNotificationFallback f \<Rightarrow> if f then 1 else 3 | DNotificationSettings \<Rightarrow> 2 | DNotificationPeer \<Rightarrow> 2
   | DMuteTimeout _ _ _ \<Rightarrow> 2 | DUnmuteConfirm _ _ _ \<Rightarrow> 2 | DCustomisationSplash _ \<Rightarrow> 2
   | DControlCustom _ \<Rightarrow> 2 | DControlStatus _ \<Rightarrow> 2
   | DAdvancedImageProtocol _ \<Rightarrow> 2 | DAdvancedIpPinning _ \<Rightarrow> 2 | DAdvancedControl _ \<Rightarrow> 2
   | DAdvancedStun _ \<Rightarrow> 2 | DAdvancedControlIp \<Rightarrow> 2 | DAdvancedStunIp \<Rightarrow> 2
   | DRoomCreate \<Rightarrow> 2 | DRoomJoin \<Rightarrow> 2 | DRoomCreated _ _ _ _ \<Rightarrow> 2 | DRoomDetail _ \<Rightarrow> 2
   | DAddFriend _ _ \<Rightarrow> 2 | DRemoveFriend _ _ \<Rightarrow> 2 | DFriendRequests _ \<Rightarrow> 2
   | DFriendRequestIncoming _ \<Rightarrow> 2 | DCancelFriendConfirm _ _ \<Rightarrow> 2
   | DFileDownload _ _ _ \<Rightarrow> 2 | DFilesDir _ \<Rightarrow> 2 | DStorageDir _ \<Rightarrow> 2 | DUpdateToken _ _ \<Rightarrow> 2
   | DImageView _ _ _ _ r c \<Rightarrow> if r = Some ReturnFiles \<or> (r = Some ReturnFileConfirm \<and> c \<noteq> None) then 2 else 1
   | _ \<Rightarrow> 1)"

lemmas nav_defs = back_step_def goBack_def isFirstLevelSettingsDialog_def first_level_kind_def
  dialog_firstRun_def back_from_def

lemma back_step_None [simp]: "back_step config files None = None"
  by (simp add: back_step_def goBack_def)

lemma back_step_depth:
  assumes "leads_to_update d = None"
  shows "case back_step config files (Some d) of
      None \<Rightarrow> back_depth d = 1
    | Some d' \<Rightarrow> leads_to_update d' = None \<and> back_depth d = Suc (back_depth d')"
  using assms
  by (cases d) (auto simp: nav_defs leads_to_update_def back_depth_def split: option.splits return_to.splits)

lemma back_depth_bound: "1 \<le> back_depth d \<and> back_depth d \<le> 3"
  by (cases d) (simp_all add: back_depth_def)

lemma back_closes_after:
  "leads_to_update d = None \<Longrightarrow> (back_step config files ^^ back_depth d) (Some d) = None"
proof (induction "back_depth d" arbitrary: d)
  case 0
  then show ?case using back_depth_bound [of d] by simp
next
  case (Suc n)
  show ?case
  proof (cases "back_step config files (Some d)")
    case None
    then show ?thesis using back_step_depth [OF Suc.prems, of config files] by simp
  next
    case (Some d')
    then have "leads_to_update d' = None" "back_depth d = Suc (back_depth d')"
      using back_step_depth [OF Suc.prems, of config files] by simp_all
    then show ?thesis using Suc.hyps Some by (simp add: funpow_swap1 del: funpow.simps add: funpow_Suc_right)
  qed
qed

text \<open>Going back always leads out, except from an update: from every dialog that does not belong to an
  update, going back closes the dialogs after \<open>back_depth\<close> steps and never more than three; an update is
  sticky, and its own dialogs return to it.\<close>

theorem back_leads_out:
  "(leads_to_update d = None \<longrightarrow> (back_step config files ^^ back_depth d) (Some d) = None \<and> back_depth d \<le> 3)
    \<and> (\<forall>r. leads_to_update d = Some r \<longrightarrow>
        (\<exists>i m p. back_step config files (Some d) = Some (DUpdate r i m p))
        \<and> (\<forall>i m p. goBack (Some (DUpdate r i m p)) files = []))"
proof -
  have "\<exists>i m p. back_step config files (Some d) = Some (DUpdate r i m p)" if "leads_to_update d = Some r" for r
    using that by (cases d) (auto simp: nav_defs leads_to_update_def)
  moreover have "goBack (Some (DUpdate r i m p)) files = []" for r i m p by (simp add: goBack_def)
  ultimately show ?thesis using back_closes_after back_depth_bound by blast
qed

subsection \<open>Commands\<close>

record identity =
  id_peer_id :: jsstr
  id_display_name :: jsstr

record command_deps =
  cd_groups :: "chat_group list"
  cd_groupMembers :: "(jsstr, group_member list) jsmap"
  cd_identity :: "identity option"
  cd_mutedPeers :: "(jsstr, rat) jsmap"
  cd_mutedGroups :: "(jsstr, rat) jsmap"
  cd_peers :: "peer list"
  cd_selectedGroupId :: "jsstr option"
  cd_selectedPeerId :: "jsstr option"
  cd_selection :: "conversation option"
  cd_has_loadFilesSettings :: bool
  cd_has_openFriendsInbox :: bool
  cd_now :: rat

definition selected_group :: "command_deps \<Rightarrow> chat_group option" where
  "selected_group c = find (\<lambda>g. Some (group_id g) = cd_selectedGroupId c) (cd_groups c)"

definition selected_peer :: "command_deps \<Rightarrow> peer option" where
  "selected_peer c = find (\<lambda>p. Some (peer_id p) = cd_selectedPeerId c) (cd_peers c)"

text \<open>The commands \<open>mute\<close> and \<open>unmute\<close>: for the selected group when a group is selected, else for the
  selected peer.\<close>

definition mute_group :: "jsstr \<Rightarrow> command_deps \<Rightarrow> nav_call list" where
  "mute_group command c =
     (case selected_group c of
        None \<Rightarrow> [ShowStatus (js ''Select a group to '' @ command @ [46])]
      | Some g \<Rightarrow>
          let isMuted = isMuteActive (map_get (cd_mutedGroups c) (group_id g)) (cd_now c) in
          if command = js ''mute'' \<and> isMuted then [ShowStatus (group_name g @ js '' is already muted.'')]
          else if command = js ''unmute'' \<and> \<not> isMuted then [ShowStatus (group_name g @ js '' is not muted.'')]
          else [ShowDialog (if command = js ''mute'' then DMuteTimeout None (Some (group_id g)) (group_name g)
                else DUnmuteConfirm None (Some (group_id g)) (group_name g))])"

definition mute_peer :: "jsstr \<Rightarrow> command_deps \<Rightarrow> nav_call list" where
  "mute_peer command c =
     (case selected_peer c of
        None \<Rightarrow> [ShowStatus (js ''Select a peer to '' @ command @ [46])]
      | Some p \<Rightarrow>
          let isMuted = isMuteActive (map_get (cd_mutedPeers c) (peer_id p)) (cd_now c) in
          if command = js ''mute'' \<and> Some (peer_id p) = map_option id_peer_id (cd_identity c)
          then [ShowStatus (js ''You cannot mute yourself.'')]
          else if command = js ''mute'' \<and> peer_is_online p = 0
          then [ShowStatus (peer_display_name p @ js '' is not online.'')]
          else if command = js ''mute'' \<and> isMuted then [ShowStatus (peer_display_name p @ js '' is already muted.'')]
          else if command = js ''unmute'' \<and> \<not> isMuted then [ShowStatus (peer_display_name p @ js '' is not muted.'')]
          else [ShowDialog (if command = js ''mute'' then DMuteTimeout (Some (peer_id p)) None (peer_display_name p)
                else DUnmuteConfirm (Some (peer_id p)) None (peer_display_name p))])"

definition group_is_selected :: "command_deps \<Rightarrow> bool" where
  "group_is_selected c \<longleftrightarrow> (case cd_selection c of Some (GroupChat _) \<Rightarrow> True | _ \<Rightarrow> False)
     \<or> (\<not> truthy (cd_selectedPeerId c) \<and> truthy (cd_selectedGroupId c))"

definition friend_command :: "jsstr \<Rightarrow> command_deps \<Rightarrow> nav_call list" where
  "friend_command command c =
     (let adding = (command = js ''add-friend'') in
      case selected_peer c of
        None \<Rightarrow> [ShowStatus (if adding then js ''Select a peer to add as a friend.'' else js ''Select a friend to remove.'')]
      | Some p \<Rightarrow>
          if adding \<and> peer_is_friend p then [ShowStatus (peer_display_name p @ js '' is already your friend.'')]
          else if adding \<and> peer_is_blocked p
          then [ShowStatus (peer_display_name p @ js '' is blocked. Unblock them in Settings > Friends > Block.'')]
          else if adding \<and> peer_friend_request p \<in> {Some RequestOutgoing, Some RequestBoth}
          then [ShowStatus (js ''Friend request to '' @ peer_display_name p @ js '' is already pending.'')]
          else if command = js ''remove-friend'' \<and> \<not> peer_is_friend p
          then [ShowStatus (peer_display_name p @ js '' is not your friend.'')]
          else if adding then [SetDialogDraft [], ShowDialog (DAddFriend (peer_id p) (peer_display_name p))]
          else [ShowDialog (DRemoveFriend (peer_id p) (peer_display_name p))])"

definition rename_command :: "command_deps \<Rightarrow> nav_call list" where
  "rename_command c =
     (let displayName = (case cd_identity c of Some i \<Rightarrow> id_display_name i | None \<Rightarrow> [])
      in [SetRenameDialog, SetNameDraft displayName, SetDialogDraft displayName, SetDialogError []])"

definition runCommand :: "jsstr \<Rightarrow> command_deps \<Rightarrow> nav_call list" where
  "runCommand command c =
     (if command = js ''control'' then [ShowDialog (DControl False)]
      else if command = js ''rooms'' then [ShowDialog (DRooms []), LoadRooms]
      else if command = js ''group-details'' then
        (case selected_group c of
           None \<Rightarrow> [ShowStatus (js ''Select a group first.'')]
         | Some g \<Rightarrow> [ShowDialog (DGroupDetail g (case map_get (cd_groupMembers c) (group_id g) of Some ms \<Rightarrow> ms | None \<Rightarrow> [])),
             LoadGroupDetails g])
      else if command = js ''friends'' then
        (if cd_has_openFriendsInbox c then [OpenFriendsInbox] else [ShowDialog DFriends])
      else if command = js ''notifications'' then [ShowDialog DNotifications]
      else if command = js ''accessibility'' then [ShowDialog DAccessibility]
      else if command = js ''customisation'' then [ShowDialog DCustomisation]
      else if command = js ''advanced'' then [LoadAdvancedConfig]
      else if command = js ''rename'' then rename_command c
      else if command = js ''mute'' \<or> command = js ''unmute'' then
        (if group_is_selected c then mute_group command c else mute_peer command c)
      else if command = js ''add-friend'' \<or> command = js ''remove-friend'' then friend_command command c
      else if command = js ''friend-requests'' then [LoadFriendRequests]
      else if command = js ''debug'' then [ShowDialog DDebug, LoadDebugInfo]
      else if command = js ''send-file'' then
        (if cd_selection c = None then [ShowStatus (js ''Select a peer or group before sending a file.'')]
         else [ShowDialog DFileSend])
      else if command = js ''files'' then
        (if cd_has_loadFilesSettings c then [LoadFilesSettings] else [ShowDialog (DFileList []), LoadFiles])
      else if command = js ''about'' then [ShowDialog (DAbout None None)]
      else [])"

text \<open>What a list of calls opens.\<close>

definition opens :: "nav_call list \<Rightarrow> dialog list" where
  "opens cs = List.map_filter (\<lambda>c. case c of ShowDialog d \<Rightarrow> Some d | _ \<Rightarrow> None) cs"

lemma command_branches [simp]:
  "runCommand (js ''mute'') c = (if group_is_selected c then mute_group (js ''mute'') c else mute_peer (js ''mute'') c)"
  "runCommand (js ''unmute'') c = (if group_is_selected c then mute_group (js ''unmute'') c else mute_peer (js ''unmute'') c)"
  "runCommand (js ''add-friend'') c = friend_command (js ''add-friend'') c"
  "runCommand (js ''remove-friend'') c = friend_command (js ''remove-friend'') c"
  by (simp_all add: runCommand_def)

text \<open>The conversation that the mute commands are about, with its name and whether it is muted.\<close>

definition mute_subject :: "command_deps \<Rightarrow> (jsstr option \<times> jsstr option \<times> jsstr \<times> bool) option" where
  "mute_subject c =
     (if group_is_selected c
      then map_option (\<lambda>g. (None, Some (group_id g), group_name g, isMuteActive (map_get (cd_mutedGroups c) (group_id g)) (cd_now c)))
             (selected_group c)
      else map_option (\<lambda>p. (Some (peer_id p), None, peer_display_name p, isMuteActive (map_get (cd_mutedPeers c) (peer_id p)) (cd_now c)))
             (selected_peer c))"

text \<open>Muting and unmuting exclude each other, and so do adding and removing a friend: a command of a pair opens
  its dialog only for the selected conversation and only in the state it changes (\<open>unmute\<close> exactly when
  the conversation is muted, \<open>mute\<close> only when it is not, of a group always then), otherwise it shows
  one status message and opens nothing.\<close>

theorem paired_commands:
  "opens (runCommand (js ''unmute'') c) = (case mute_subject c of
       Some (p, g, n, True) \<Rightarrow> [DUnmuteConfirm p g n] | _ \<Rightarrow> [])
   \<and> opens (runCommand (js ''mute'') c) \<in> {[], case mute_subject c of
       Some (p, g, n, False) \<Rightarrow> [DMuteTimeout p g n] | _ \<Rightarrow> []}
   \<and> (group_is_selected c \<longrightarrow> opens (runCommand (js ''mute'') c) = (case mute_subject c of
       Some (p, g, n, False) \<Rightarrow> [DMuteTimeout p g n] | _ \<Rightarrow> []))
   \<and> (opens (runCommand (js ''add-friend'') c) = [] \<or> opens (runCommand (js ''remove-friend'') c) = [])
   \<and> (\<forall>k \<in> {''mute'', ''unmute'', ''add-friend'', ''remove-friend''}. opens (runCommand (js k) c) = [] \<longrightarrow>
       (\<exists>m. runCommand (js k) c = [ShowStatus m]))"
  unfolding command_branches
  by (auto simp: mute_group_def mute_peer_def friend_command_def mute_subject_def opens_def List.map_filter_simps
      Let_def split: option.splits if_splits)

end
