(* ===== verification/Uri.thy ===== *)
theory Uri
  imports ControlConfig JsText
begin

text \<open>
  The URI functions of the language, \<open>encodeURIComponent\<close> and \<open>decodeURIComponent\<close>: UTF-8, percent
  escapes, and the errors (\<open>None\<close>) for lone surrogates and malformed sequences. Decoding undoes encoding.
\<close>

definition is_surrogate :: "nat \<Rightarrow> bool" where
  "is_surrogate cp \<longleftrightarrow> 55296 \<le> cp \<and> cp < 57344"

definition utf8 :: "nat \<Rightarrow> nat list" where
  "utf8 cp =
     (if cp < 128 then [cp]
      else if cp < 2048 then [192 + cp div 64, 128 + cp mod 64]
      else if cp < 65536 then [224 + cp div 4096, 128 + cp div 64 mod 64, 128 + cp mod 64]
      else [240 + cp div 262144, 128 + cp div 4096 mod 64, 128 + cp div 64 mod 64, 128 + cp mod 64])"

definition hex_upper :: "nat \<Rightarrow> nat" where
  "hex_upper n = (if n < 10 then 48 + n else 55 + n)"

definition percent :: "nat \<Rightarrow> jsstr" where
  "percent b = [37, hex_upper (b div 16), hex_upper (b mod 16)]"

definition uri_unreserved :: "nat \<Rightarrow> bool" where
  "uri_unreserved c \<longleftrightarrow> is_letter c \<or> is_digit c \<or> c \<in> {45, 95, 46, 33, 126, 42, 39, 40, 41}"

fun encode_char :: "nat \<times> jsstr \<Rightarrow> jsstr option" where
  "encode_char (cp, u) =
     (if uri_unreserved cp then Some u
      else if is_surrogate cp then None
      else Some (concat (map percent (utf8 cp))))"

fun concat_options :: "'a list option list \<Rightarrow> 'a list option" where
  "concat_options [] = Some []"
| "concat_options (x # xs) =
     (case (x, concat_options xs) of (Some a, Some b) \<Rightarrow> Some (a @ b) | _ \<Rightarrow> None)"

definition encodeURIComponent :: "jsstr \<Rightarrow> jsstr option" where
  "encodeURIComponent s = concat_options (map encode_char (chars s))"

text \<open>A percent escape at the front, then \<open>n\<close> continuation bytes.\<close>

fun percent_byte :: "jsstr \<Rightarrow> (nat \<times> jsstr) option" where
  "percent_byte (p # a # b # s) =
     (case (hex_value a, hex_value b) of
        (Some x, Some y) \<Rightarrow> if p = 37 then Some (16 * x + y, s) else None
      | _ \<Rightarrow> None)"
| "percent_byte _ = None"

fun continuation :: "nat \<Rightarrow> nat \<Rightarrow> jsstr \<Rightarrow> (nat \<times> jsstr) option" where
  "continuation 0 acc s = Some (acc, s)"
| "continuation (Suc n) acc s =
     (case percent_byte s of
        Some (b, s') \<Rightarrow> if 128 \<le> b \<and> b < 192 then continuation n (64 * acc + (b - 128)) s' else None
      | None \<Rightarrow> None)"

text \<open>The UTF-16 code units of a code point.\<close>

definition utf16 :: "nat \<Rightarrow> jsstr" where
  "utf16 cp = (if cp < 65536 then [cp] else [55296 + (cp - 65536) div 1024, 56320 + (cp - 65536) mod 1024])"

text \<open>One escaped character: a lead byte, its continuation, and the checks against overlong forms, surrogates
  and values beyond Unicode.\<close>

definition decode_escape :: "jsstr \<Rightarrow> (nat \<times> jsstr) option" where
  "decode_escape s =
     (case percent_byte s of
        None \<Rightarrow> None
      | Some (b, s') \<Rightarrow>
          if b < 128 then Some (b, s')
          else
            case (if 192 \<le> b \<and> b < 224 then continuation 1 (b - 192) s'
                  else if 224 \<le> b \<and> b < 240 then continuation 2 (b - 224) s'
                  else if 240 \<le> b \<and> b < 248 then continuation 3 (b - 240) s'
                  else None) of
              None \<Rightarrow> None
            | Some (cp, r) \<Rightarrow>
                if cp < (if b < 224 then 128 else if b < 240 then 2048 else 65536) \<or> is_surrogate cp \<or> 1114112 \<le> cp
                then None else Some (cp, r))"

lemma percent_byte_length: "percent_byte s = Some (b, r) \<Longrightarrow> length r < length s"
  by (cases s rule: percent_byte.cases) (auto split: option.splits if_splits)

lemma continuation_length: "continuation n acc s = Some (cp, r) \<Longrightarrow> length r \<le> length s"
proof (induction n arbitrary: acc s)
  case (Suc n)
  then obtain b s' where "percent_byte s = Some (b, s')" "continuation n (64 * acc + (b - 128)) s' = Some (cp, r)"
    by (auto split: option.splits prod.splits if_splits)
  then show ?case using percent_byte_length Suc.IH by fastforce
qed simp

lemma decode_escape_length: "decode_escape s = Some (cp, r) \<Longrightarrow> length r < length s"
  by (auto simp: decode_escape_def dest!: percent_byte_length continuation_length split: option.splits if_splits)

function decodeURIComponent :: "jsstr \<Rightarrow> jsstr option" where
  "decodeURIComponent s =
     (case s of
        [] \<Rightarrow> Some []
      | c # s' \<Rightarrow>
          if c \<noteq> 37 then map_option ((#) c) (decodeURIComponent s')
          else case decode_escape s of
              None \<Rightarrow> None
            | Some (cp, r) \<Rightarrow> map_option ((@) (utf16 cp)) (decodeURIComponent r))"
  by pat_completeness auto
termination
  by (relation "measure length") (auto dest: decode_escape_length)

declare decodeURIComponent.simps [simp del]

subsection \<open>Decoding undoes encoding\<close>

lemma hex_value_upper: "n < 16 \<Longrightarrow> hex_value (hex_upper n) = Some n"
  by (auto simp: hex_value_def hex_upper_def)

lemma percent_byte_percent: "b < 256 \<Longrightarrow> percent_byte (percent b @ s) = Some (b, s)"
  by (simp add: percent_def hex_value_upper)

lemma continuation_percent:
  "b < 64 \<Longrightarrow> continuation (Suc n) acc (percent (128 + b) @ s) = continuation n (64 * acc + b) s"
  using percent_byte_percent [of "128 + b" s] by simp

lemma decode_two:
  assumes "2 \<le> a" "a < 32" "b < 64"
  shows "decode_escape (percent (192 + a) @ percent (128 + b) @ s) = Some (64 * a + b, s)"
proof -
  have "percent_byte (percent (192 + a) @ percent (128 + b) @ s) = Some (192 + a, percent (128 + b) @ s)"
    using assms by (intro percent_byte_percent) simp
  moreover have "continuation 1 a (percent (128 + b) @ s) = Some (64 * a + b, s)"
    using continuation_percent [OF assms(3), of 0 a s] by simp
  ultimately show ?thesis using assms by (simp add: decode_escape_def is_surrogate_def)
qed

lemma decode_three:
  assumes "a < 16" "b < 64" "c < 64" "2048 \<le> 64 * (64 * a + b) + c" "\<not> is_surrogate (64 * (64 * a + b) + c)"
  shows "decode_escape (percent (224 + a) @ percent (128 + b) @ percent (128 + c) @ s) = Some (64 * (64 * a + b) + c, s)"
proof -
  let ?r = "percent (128 + b) @ percent (128 + c) @ s"
  have "percent_byte (percent (224 + a) @ ?r) = Some (224 + a, ?r)"
    using assms by (intro percent_byte_percent) simp
  moreover have "continuation (Suc 1) a ?r = Some (64 * (64 * a + b) + c, s)"
    using continuation_percent [OF assms(2), of 1 a "percent (128 + c) @ s"]
      continuation_percent [OF assms(3), of 0 "64 * a + b" s] by simp
  ultimately show ?thesis using assms by (simp add: decode_escape_def numeral_2_eq_2)
qed

lemma decode_four:
  assumes "a < 8" "b < 64" "c < 64" "d < 64" "65536 \<le> 64 * (64 * (64 * a + b) + c) + d"
    "64 * (64 * (64 * a + b) + c) + d < 1114112"
  shows "decode_escape (percent (240 + a) @ percent (128 + b) @ percent (128 + c) @ percent (128 + d) @ s)
     = Some (64 * (64 * (64 * a + b) + c) + d, s)"
proof -
  let ?r = "percent (128 + b) @ percent (128 + c) @ percent (128 + d) @ s"
  have "percent_byte (percent (240 + a) @ ?r) = Some (240 + a, ?r)"
    using assms by (intro percent_byte_percent) simp
  moreover have "continuation (Suc (Suc 1)) a ?r = Some (64 * (64 * (64 * a + b) + c) + d, s)"
    using continuation_percent [OF assms(2), of "Suc 1" a "percent (128 + c) @ percent (128 + d) @ s"]
      continuation_percent [OF assms(3), of 1 "64 * a + b" "percent (128 + d) @ s"]
      continuation_percent [OF assms(4), of 0 "64 * (64 * a + b) + c" s] by simp
  ultimately show ?thesis using assms by (simp add: decode_escape_def is_surrogate_def numeral_3_eq_3)
qed

lemma digits_64:
  fixes cp :: nat
  shows "64 * (64 * (cp div 4096) + cp div 64 mod 64) + cp mod 64 = cp"
    and "64 * (64 * (64 * (cp div 262144) + cp div 4096 mod 64) + cp div 64 mod 64) + cp mod 64 = cp"
proof -
  have d: "cp div 4096 = cp div 64 div 64" "cp div 262144 = cp div 64 div 64 div 64"
    by (simp_all flip: div_mult2_eq)
  show "64 * (64 * (cp div 4096) + cp div 64 mod 64) + cp mod 64 = cp"
    "64 * (64 * (64 * (cp div 262144) + cp div 4096 mod 64) + cp div 64 mod 64) + cp mod 64 = cp"
    unfolding d by (simp_all only: mult_div_mod_eq)
qed

lemma decode_escape_utf8:
  assumes "cp < 1114112" "\<not> is_surrogate cp"
  shows "decode_escape (concat (map percent (utf8 cp)) @ s) = Some (cp, s)"
proof -
  consider "cp < 128" | "128 \<le> cp" "cp < 2048" | "2048 \<le> cp" "cp < 65536" | "65536 \<le> cp" by linarith
  then show ?thesis
  proof cases
    case 1
    then show ?thesis by (simp add: utf8_def decode_escape_def percent_byte_percent)
  next
    case 2
    have "decode_escape (percent (192 + cp div 64) @ percent (128 + cp mod 64) @ s) = Some (64 * (cp div 64) + cp mod 64, s)"
      using 2 by (intro decode_two) auto
    then show ?thesis using 2 by (simp add: utf8_def)
  next
    case 3
    note eq = digits_64(1) [of cp]
    have "decode_escape (percent (224 + cp div 4096) @ percent (128 + cp div 64 mod 64) @ percent (128 + cp mod 64) @ s)
        = Some (64 * (64 * (cp div 4096) + cp div 64 mod 64) + cp mod 64, s)"
      using 3 assms by (intro decode_three; (unfold eq)?) (auto simp: less_mult_imp_div_less)
    then show ?thesis using 3 unfolding eq by (simp add: utf8_def)
  next
    case 4
    note eq = digits_64(2) [of cp]
    have "decode_escape (percent (240 + cp div 262144) @ percent (128 + cp div 4096 mod 64)
          @ percent (128 + cp div 64 mod 64) @ percent (128 + cp mod 64) @ s)
        = Some (64 * (64 * (64 * (cp div 262144) + cp div 4096 mod 64) + cp div 64 mod 64) + cp mod 64, s)"
      using 4 assms by (intro decode_four; (unfold eq)?) (auto simp: less_mult_imp_div_less)
    then show ?thesis using 4 unfolding eq by (simp add: utf8_def)
  qed
qed

text \<open>The code units are 16 bits wide.\<close>

definition utf16_units :: "jsstr \<Rightarrow> bool" where
  "utf16_units s \<longleftrightarrow> list_all (\<lambda>c. c < 65536) s"

lemma utf16_pair:
  assumes "55296 \<le> c" "c < 56320" "56320 \<le> d" "d < 57344"
  shows "utf16 (65536 + (c - 55296) * 1024 + (d - 56320)) = [c, d]"
    "65536 + (c - 55296) * 1024 + (d - 56320) < 1114112"
proof -
  define x y where "x = c - 55296" and "y = d - 56320"
  have "c = 55296 + x" "d = 56320 + y" "x < 1024" "y < 1024" using assms by (auto simp: x_def y_def)
  then show "utf16 (65536 + (c - 55296) * 1024 + (d - 56320)) = [c, d]"
    "65536 + (c - 55296) * 1024 + (d - 56320) < 1114112" by (simp_all add: utf16_def)
qed

lemma utf16_single: "c < 65536 \<Longrightarrow> utf16 c = [c]"
  by (simp add: utf16_def)

lemma chars_utf16: "utf16_units s \<Longrightarrow> (cp, u) \<in> set (chars s) \<Longrightarrow> cp < 1114112 \<and> u = utf16 cp"
proof (induction s rule: chars.induct)
  case (3 c d s)
  show ?case
  proof (cases "55296 \<le> c \<and> c < 56320 \<and> 56320 \<le> d \<and> d < 57344")
    case True
    then show ?thesis using 3 utf16_pair [of c d] by (auto simp: utf16_units_def)
  next
    case False
    then show ?thesis using 3 by (auto simp: utf16_units_def utf16_single)
  qed
qed (auto simp: utf16_units_def utf16_single)

lemma decode_encoded_char:
  assumes "encode_char (cp, utf16 cp) = Some e" "cp < 1114112"
  shows "decodeURIComponent (e @ s) = map_option ((@) (utf16 cp)) (decodeURIComponent s)"
proof (cases "uri_unreserved cp")
  case True
  then have "cp \<noteq> 37" "cp < 65536" by (auto simp: uri_unreserved_def is_letter_def is_digit_def)
  moreover have "e = [cp]" using assms(1) True \<open>cp < 65536\<close> by (simp add: utf16_def)
  ultimately show ?thesis by (subst decodeURIComponent.simps) (cases "decodeURIComponent s"; simp add: utf16_def)
next
  case False
  then have "\<not> is_surrogate cp" and e: "e = concat (map percent (utf8 cp))" using assms(1) by (auto split: if_splits)
  then have d: "decode_escape (e @ s) = Some (cp, s)" using decode_escape_utf8 [OF assms(2)] by simp
  obtain e' where "e = 37 # e'" unfolding e by (cases "utf8 cp") (auto simp: utf8_def percent_def split: if_splits)
  with d show ?thesis by (subst decodeURIComponent.simps) simp
qed

lemma decode_encoded_chars:
  assumes "\<forall>(cp, u) \<in> set cs. u = utf16 cp \<and> cp < 1114112" "concat_options (map encode_char cs) = Some e"
  shows "decodeURIComponent (e @ r) = map_option ((@) (concat (map snd cs))) (decodeURIComponent r)"
  using assms
proof (induction cs arbitrary: e)
  case Nil
  then show ?case by (cases "decodeURIComponent r") simp_all
next
  case (Cons c cs)
  obtain cp u where c: "c = (cp, u)" "u = utf16 cp" "cp < 1114112" using Cons.prems(1) by (cases c) auto
  obtain a b where ab: "encode_char (cp, utf16 cp) = Some a" "concat_options (map encode_char cs) = Some b" "e = a @ b"
    using Cons.prems(2) c by (auto split: option.splits simp del: encode_char.simps)
  have "decodeURIComponent (b @ r) = map_option ((@) (concat (map snd cs))) (decodeURIComponent r)"
    using Cons.prems(1) ab(2) by (intro Cons.IH) auto
  with decode_encoded_char [OF ab(1) c(3), of "b @ r"] show ?case
    by (cases "decodeURIComponent r") (simp_all add: ab(3) c(1,2))
qed

lemma units_of_chars: "concat (map snd (chars s)) = s"
  by (induction s rule: chars.induct) auto

lemma decode_encode_append:
  assumes "utf16_units s" "encodeURIComponent s = Some e"
  shows "decodeURIComponent (e @ r) = map_option ((@) s) (decodeURIComponent r)"
proof -
  have "decodeURIComponent (e @ r) = map_option ((@) (concat (map snd (chars s)))) (decodeURIComponent r)"
    using assms chars_utf16 [OF assms(1)] by (intro decode_encoded_chars) (auto simp: encodeURIComponent_def)
  then show ?thesis by (simp add: units_of_chars)
qed

lemma decode_Nil [simp]: "decodeURIComponent [] = Some []"
  by (simp add: decodeURIComponent.simps [of "[]"])

lemma decode_encode: "utf16_units s \<Longrightarrow> encodeURIComponent s = Some e \<Longrightarrow> decodeURIComponent e = Some s"
  using decode_encode_append [of s e "[]"] by simp

text \<open>What an encoded string is made of.\<close>

definition uri_char :: "nat \<Rightarrow> bool" where
  "uri_char c \<longleftrightarrow> uri_unreserved c \<or> c = 37"

lemma utf8_bytes: "cp < 1114112 \<Longrightarrow> b \<in> set (utf8 cp) \<Longrightarrow> b < 256"
  by (auto simp: utf8_def split: if_splits)

lemma percent_uri_char: "b < 256 \<Longrightarrow> list_all uri_char (percent b)"
  by (auto simp: percent_def hex_upper_def uri_char_def uri_unreserved_def is_letter_def is_digit_def)

lemma encoded_uri_chars:
  assumes "utf16_units s" "encodeURIComponent s = Some e"
  shows "list_all uri_char e"
proof -
  have "list_all uri_char e"
    if "\<forall>(cp, u) \<in> set cs. u = utf16 cp \<and> cp < 1114112" "concat_options (map encode_char cs) = Some e" for cs e
    using that
  proof (induction cs arbitrary: e)
    case (Cons c cs)
    obtain cp where c: "c = (cp, utf16 cp)" "cp < 1114112" using Cons.prems(1) by (cases c) auto
    obtain a b where ab: "encode_char (cp, utf16 cp) = Some a" "concat_options (map encode_char cs) = Some b" "e = a @ b"
      using Cons.prems(2) c by (auto split: option.splits simp del: encode_char.simps)
    have "list_all uri_char a"
    proof (cases "uri_unreserved cp")
      case True
      then have "cp < 65536" by (auto simp: uri_unreserved_def is_letter_def is_digit_def)
      with True ab(1) show ?thesis by (auto simp: utf16_single uri_char_def)
    next
      case False
      then have "a = concat (map percent (utf8 cp))" using ab(1) by (auto split: if_splits)
      then show ?thesis using percent_uri_char utf8_bytes [OF c(2)] by (auto simp: list_all_iff)
    qed
    then show ?case using Cons ab by simp
  qed simp
  from this [of "chars s" e] show ?thesis
    using assms chars_utf16 [OF assms(1)] by (auto simp: encodeURIComponent_def)
qed

end
