(* ===== verification/PosixPath.thy ===== *)
theory PosixPath
  imports JsText
begin

text \<open>
  Paths as Node's POSIX \<open>path\<close> module treats them: the components of a path, \<open>resolve\<close> and
  \<open>basename\<close>. A resolved path is determined by its components, which are non-empty, free of slashes,
  and neither \<open>.\<close> nor \<open>..\<close>.
\<close>

text \<open>One component of a path applied to the components of a directory.\<close>

definition walk :: "jsstr list \<Rightarrow> jsstr \<Rightarrow> jsstr list" where
  "walk ds p = (if p = [] \<or> p = [46] then ds else if p = [46, 46] then butlast ds else ds @ [p])"

definition resolve_parts :: "jsstr \<Rightarrow> jsstr \<Rightarrow> jsstr list" where
  "resolve_parts cwd p =
     foldl walk [] (split_on 47 (if starts_with p [47] then p else cwd @ 47 # p))"

definition path_text :: "jsstr list \<Rightarrow> jsstr" where
  "path_text parts = 47 # join_on [47] parts"

definition resolve :: "jsstr \<Rightarrow> jsstr \<Rightarrow> jsstr" where
  "resolve cwd p = path_text (resolve_parts cwd p)"

text \<open>\<open>basename\<close>: trailing slashes do not count.\<close>

definition posix_basename :: "jsstr \<Rightarrow> jsstr" where
  "posix_basename s = rev (takeWhile (\<lambda>c. c \<noteq> 47) (dropWhile (\<lambda>c. c = 47) (rev s)))"

subsection \<open>Splitting\<close>

lemma split_on_sep: "split_on c (x @ c # y) = split_on c x @ split_on c y"
proof (induction x)
  case (Cons a x)
  then show ?case by (cases "split_on c x") auto
qed simp

lemma split_on_single: "c \<notin> set p \<Longrightarrow> split_on c p = [p]"
  by (induction p) auto

lemma split_on_join:
  assumes "ps \<noteq> []" "\<forall>p \<in> set ps. c \<notin> set p"
  shows "split_on c (join_on [c] ps) = ps"
  using assms by (induction "[c]" ps rule: join_on.induct) (auto simp: split_on_single split_on_sep)

text \<open>The pieces of a split are the stretches between separators.\<close>

lemma split_on_piece:
  "p \<in> set (split_on c s) \<longleftrightarrow> (\<exists>a b. s = a @ p @ b \<and> c \<notin> set p \<and> (a = [] \<or> last a = c) \<and> (b = [] \<or> hd b = c))"
proof
  assume "p \<in> set (split_on c s)"
  then obtain ls rs where l: "split_on c s = ls @ p # rs" by (auto simp: in_set_conv_decomp)
  have join: "s = join_on [c] (ls @ p # rs)" using join_split [of c s] by (simp add: l)
  have "c \<notin> set p" using split_on_no_sep [of p c s] l by simp
  moreover have "\<exists>a. join_on [c] (ls @ p # rs) = a @ join_on [c] (p # rs) \<and> (a = [] \<or> last a = c)"
  proof (induction ls)
    case (Cons x ls)
    then obtain a where "join_on [c] (ls @ p # rs) = a @ join_on [c] (p # rs)" "a = [] \<or> last a = c" by blast
    then show ?case by (intro exI [of _ "x @ c # a"]) (cases "ls @ p # rs"; auto)
  qed simp
  moreover have "\<exists>b. join_on [c] (p # rs) = p @ b \<and> (b = [] \<or> hd b = c)" by (cases rs) auto
  ultimately show "\<exists>a b. s = a @ p @ b \<and> c \<notin> set p \<and> (a = [] \<or> last a = c) \<and> (b = [] \<or> hd b = c)"
    unfolding join by metis
next
  assume "\<exists>a b. s = a @ p @ b \<and> c \<notin> set p \<and> (a = [] \<or> last a = c) \<and> (b = [] \<or> hd b = c)"
  then obtain a b where s: "s = a @ p @ b" "c \<notin> set p" and a: "a = [] \<or> last a = c" and b: "b = [] \<or> hd b = c"
    by blast
  have "p \<in> set (split_on c (p @ b))"
    using b s(2) by (cases b) (auto simp: split_on_single split_on_sep)
  then show "p \<in> set (split_on c s)"
  proof (cases "a = []")
    case False
    then have "s = butlast a @ c # (p @ b)" using a s(1) by (metis append_butlast_last_id append.assoc append_Cons append_Nil)
    with \<open>p \<in> set (split_on c (p @ b))\<close> show ?thesis by (simp add: split_on_sep)
  qed (simp add: s(1))
qed

subsection \<open>Components\<close>

definition plain :: "jsstr \<Rightarrow> bool" where
  "plain p \<longleftrightarrow> p \<noteq> [] \<and> p \<noteq> [46] \<and> p \<noteq> [46, 46] \<and> 47 \<notin> set p"

lemma walk_plain:
  "\<forall>d \<in> set ds. plain d \<Longrightarrow> \<forall>p \<in> set ps. 47 \<notin> set p \<Longrightarrow> \<forall>d \<in> set (foldl walk ds ps). plain d"
proof (induction ps arbitrary: ds)
  case (Cons p ps)
  have "\<forall>d \<in> set (walk ds p). plain d"
    using Cons.prems by (auto simp: walk_def plain_def dest: in_set_butlastD)
  with Cons show ?case by simp
qed simp

lemma resolve_parts_plain: "\<forall>d \<in> set (resolve_parts cwd p). plain d"
  unfolding resolve_parts_def by (rule walk_plain) (auto dest: split_on_no_sep)

text \<open>Without a component \<open>..\<close> one never leaves a directory.\<close>

lemma walk_stays: "[46, 46] \<notin> set ps \<Longrightarrow> \<exists>rest. foldl walk ds ps = ds @ rest"
proof (induction ps arbitrary: ds)
  case (Cons p ps)
  then obtain rest where "foldl walk (walk ds p) ps = walk ds p @ rest" by auto
  moreover have "\<exists>r. walk ds p = ds @ r" using Cons.prems by (auto simp: walk_def)
  ultimately show ?case by auto
qed simp

lemma join_on_Cons: "ps \<noteq> [] \<Longrightarrow> join_on sep (p # ps) = p @ sep @ join_on sep ps"
  by (cases ps) auto

lemma join_on_append: "ps \<noteq> [] \<Longrightarrow> qs \<noteq> [] \<Longrightarrow> join_on sep (ps @ qs) = join_on sep ps @ sep @ join_on sep qs"
proof (induction ps)
  case (Cons p ps)
  then show ?case by (cases "ps = []") (simp_all add: join_on_Cons)
qed simp

text \<open>Containment of paths as text is containment of their components.\<close>

lemma path_text_within:
  assumes "\<forall>d \<in> set ps. plain d" "\<forall>d \<in> set cs. plain d"
  shows "path_text cs \<noteq> path_text ps \<and> starts_with (path_text cs) (path_text ps @ [47])
    \<longleftrightarrow> ps \<noteq> [] \<and> (\<exists>rest. rest \<noteq> [] \<and> cs = ps @ rest)"
proof (cases "ps = []")
  case True
  have "\<not> starts_with (path_text cs) [47, 47]"
  proof (cases cs)
    case (Cons c cs')
    then obtain x xs where "c = x # xs" "x \<noteq> 47" using assms(2) by (cases c) (auto simp: plain_def)
    then show ?thesis using Cons by (cases cs') (auto simp: path_text_def starts_with_def)
  qed (simp add: path_text_def starts_with_def)
  then show ?thesis using True by (simp add: path_text_def)
next
  case ps: False
  have sp: "split_on 47 (join_on [47] ps) = ps" using assms(1) ps by (intro split_on_join) (auto simp: plain_def)
  show ?thesis
  proof
    assume *: "path_text cs \<noteq> path_text ps \<and> starts_with (path_text cs) (path_text ps @ [47])"
    then obtain r where r: "join_on [47] cs = join_on [47] ps @ 47 # r"
      unfolding starts_with_def path_text_def
      by (metis append.assoc append_Cons append_Nil append_take_drop_id list.inject)
    then have "cs \<noteq> []" by auto
    then have "cs = split_on 47 (join_on [47] cs)" using assms(2) by (subst split_on_join) (auto simp: plain_def)
    also have "\<dots> = ps @ split_on 47 r" unfolding r by (simp add: split_on_sep sp)
    finally show "ps \<noteq> [] \<and> (\<exists>rest. rest \<noteq> [] \<and> cs = ps @ rest)" using ps by force
  next
    assume "ps \<noteq> [] \<and> (\<exists>rest. rest \<noteq> [] \<and> cs = ps @ rest)"
    then obtain rest where "cs = ps @ rest" "rest \<noteq> []" by blast
    then have "path_text cs = path_text ps @ 47 # join_on [47] rest"
      using ps by (simp add: path_text_def join_on_append)
    then show "path_text cs \<noteq> path_text ps \<and> starts_with (path_text cs) (path_text ps @ [47])"
      by (simp add: starts_with_def)
  qed
qed

end
