(* ===== verification/FileConfirm.thy ===== *)
theory FileConfirm
  imports Uri PosixPath "HOL-Library.Code_Target_Numeral"
begin

text \<open>
  Files dropped or pasted into the terminal client, \<open>tui/src/fileSendConfirm.ts\<close>: the recognition of
  paths in pasted text, the staging of files under unique names, sizes and types for the confirmation
  dialog; and \<open>toFileUrl\<close> of \<open>tui/src/utils.ts\<close>, whose URLs the recognition reads back.
  \<open>toLowerCase\<close> is an argument.
\<close>

subsection \<open>Text\<close>

definition ascii_lower :: "nat \<Rightarrow> nat" where
  "ascii_lower c = (if 65 \<le> c \<and> c \<le> 90 then c + 32 else c)"

text \<open>\<open>/^file:\/\//i\<close>\<close>

definition is_file_url :: "jsstr \<Rightarrow> bool" where
  "is_file_url s \<longleftrightarrow> map ascii_lower (take 7 s) = js ''file://''"

text \<open>Removing one layer of quotes; within double quotes the escapes are undone.\<close>

definition stripQuotes :: "jsstr \<Rightarrow> jsstr" where
  "stripQuotes token =
     (let trimmed = trim token in
      if 2 \<le> length trimmed \<and> ((hd trimmed = 34 \<and> last trimmed = 34) \<or> (hd trimmed = 39 \<and> last trimmed = 39))
      then let inner = butlast (tl trimmed) in
        if hd trimmed = 34 then replace_all [92, 92] [92] (replace_all [92, 34] [34] inner) else inner
      else trimmed)"

definition stripFileUrl :: "jsstr \<Rightarrow> jsstr" where
  "stripFileUrl token =
     (let value = trim token in
      if is_file_url value
      then let withoutScheme = drop 7 value in
        if starts_with withoutScheme [47]
        then (case decodeURIComponent withoutScheme of Some p \<Rightarrow> p | None \<Rightarrow> withoutScheme)
        else case index_from [47] withoutScheme 0 of
            None \<Rightarrow> (case decodeURIComponent withoutScheme of Some p \<Rightarrow> p | None \<Rightarrow> withoutScheme)
          | Some slash \<Rightarrow>
              (case decodeURIComponent (drop slash withoutScheme) of
                 None \<Rightarrow> withoutScheme
               | Some path \<Rightarrow>
                   let host = take slash withoutScheme in
                   if host \<noteq> [] \<and> host \<noteq> js ''localhost'' then [47, 47] @ host @ path else path)
      else value)"

subsection \<open>Tokens\<close>

record tokenizer =
  tk_tokens :: "jsstr list"
  tk_current :: jsstr
  tk_quote :: "nat option"

definition tokenize_char :: "nat \<Rightarrow> tokenizer \<Rightarrow> tokenizer" where
  "tokenize_char c t =
     (case tk_quote t of
        Some q \<Rightarrow> t\<lparr>tk_current := tk_current t @ [c], tk_quote := if c = q then None else Some q\<rparr>
      | None \<Rightarrow>
          if c = 34 \<or> c = 39 then t\<lparr>tk_quote := Some c, tk_current := tk_current t @ [c]\<rparr>
          else if c = 32 \<or> c = 9
          then t\<lparr>tk_tokens := tk_tokens t @ (if trim (tk_current t) \<noteq> [] then [tk_current t] else []), tk_current := []\<rparr>
          else t\<lparr>tk_current := tk_current t @ [c]\<rparr>)"

definition tokenizeRespectingQuotes :: "jsstr \<Rightarrow> jsstr list" where
  "tokenizeRespectingQuotes line =
     (let t = fold tokenize_char line \<lparr>tk_tokens = [], tk_current = [], tk_quote = None\<rparr>
      in tk_tokens t @ (if trim (tk_current t) \<noteq> [] then [tk_current t] else []))"

text \<open>\<open>/\s{2,}/\<close>: two white space characters in a row.\<close>

definition double_space :: "jsstr \<Rightarrow> bool" where
  "double_space v \<longleftrightarrow> list_ex (\<lambda>(a, b). js_space a \<and> js_space b) (zip v (drop 1 v))"

definition drive_path :: "jsstr \<Rightarrow> bool" where
  "drive_path v \<longleftrightarrow> (case v of c # d # e # r \<Rightarrow> is_letter c \<and> d = 58 \<and> (e = 92 \<or> e = 47) | _ \<Rightarrow> False)"

definition looksLikePath :: "jsstr \<Rightarrow> bool" where
  "looksLikePath value =
     (let v = trim value in
      if v = [] \<or> 10 \<in> set v then False
      else if double_space v \<and> \<not> starts_with v [34] \<and> \<not> starts_with v [39] then False
      else is_file_url v \<or> starts_with v [126] \<or> starts_with v [47] \<or> starts_with v (js ''./'')
        \<or> starts_with v (js ''../'') \<or> drive_path v \<or> starts_with v [92, 92] \<or> starts_with v [92, 92, 63, 92])"

subsection \<open>Paths in pasted text\<close>

text \<open>\<open>split(/\r?\n/)\<close>: a carriage return before a line feed belongs to the separator.\<close>

definition strip_cr :: "jsstr \<Rightarrow> jsstr" where
  "strip_cr l = (if l \<noteq> [] \<and> last l = 13 then butlast l else l)"

definition split_lines :: "jsstr \<Rightarrow> jsstr list" where
  "split_lines s = (let ls = split_on 10 s in map strip_cr (butlast ls) @ [last ls])"

definition add_candidate :: "jsstr \<Rightarrow> jsstr list \<Rightarrow> jsstr list" where
  "add_candidate v cs = (if v \<noteq> [] then set_add v cs else cs)"

definition clean_token :: "jsstr \<Rightarrow> jsstr" where
  "clean_token t = stripFileUrl (stripQuotes t)"

text \<open>A single line counts only when every token of it looks like a path.\<close>

definition single_line_paths :: "jsstr \<Rightarrow> jsstr list" where
  "single_line_paths line =
     (let tokens = tokenizeRespectingQuotes line in
      if tokens = [] then []
      else if \<not> list_all (\<lambda>t. looksLikePath (trim t) \<or> looksLikePath (clean_token t)) tokens then []
      else take 32 (fold add_candidate (map clean_token tokens) []))"

definition line_candidate :: "jsstr \<Rightarrow> jsstr list \<Rightarrow> jsstr list" where
  "line_candidate line cs =
     (let cleaned = clean_token line in
      if cleaned \<noteq> [] \<and> (looksLikePath line \<or> looksLikePath cleaned) then set_add cleaned cs else cs)"

definition parsePotentialFilePaths :: "jsstr \<Rightarrow> jsstr list" where
  "parsePotentialFilePaths s =
     (if s = [] \<or> length s > 32768 then []
      else let lines = filter (\<lambda>l. l \<noteq> []) (map trim (split_lines s)) in
        if length lines > 32 then []
        else case lines of
            [line] \<Rightarrow> single_line_paths line
          | _ \<Rightarrow> take 32 (fold line_candidate lines []))"

subsection \<open>Sizes and types\<close>

definition SQRT1_2 :: rat where "SQRT1_2 = 7071067811865476 / 10000000000000000"

definition fileConfirmDialogWidth :: "rat \<Rightarrow> int" where
  "fileConfirmDialogWidth screenWidth = max 1 (min 72 (\<lfloor>screenWidth\<rfloor> - 8))"

definition fileConfirmDialogHeight :: "rat \<Rightarrow> bool \<Rightarrow> int" where
  "fileConfirmDialogHeight screenHeight hasImage =
     max 1 (min (if hasImage then 22 else 12) (\<lfloor>screenHeight\<rfloor> - (if hasImage then 2 else 6)))"

definition fileConfirmImageBounds :: "rat \<Rightarrow> rat \<Rightarrow> rat \<Rightarrow> rat \<Rightarrow> int \<times> int" where
  "fileConfirmImageBounds screenWidth screenHeight popupWidth popupHeight =
     (let conversationWidth = max 1 (\<lfloor>screenWidth\<rfloor> - 5);
          conversationHeight = min 16 (max 4 (\<lfloor>screenHeight\<rfloor> - 4))
      in (max 1 (min (\<lfloor>popupWidth\<rfloor> - 4) \<lfloor>of_int conversationWidth * SQRT1_2\<rfloor>),
          max 1 (min (\<lfloor>popupHeight\<rfloor> - 11) \<lfloor>of_int conversationHeight * SQRT1_2\<rfloor>)))"

text \<open>The part of a path after its last separator, the text after the last point of a name.\<close>

definition after_last :: "(nat \<Rightarrow> bool) \<Rightarrow> jsstr \<Rightarrow> jsstr" where
  "after_last P s = rev (takeWhile (\<lambda>c. \<not> P c) (rev s))"

definition path_separator :: "nat \<Rightarrow> bool" where
  "path_separator c \<longleftrightarrow> c = 92 \<or> c = 47"

definition hasImageConfirmationPreview :: "(jsstr \<Rightarrow> jsstr) \<Rightarrow> jsstr list \<Rightarrow> bool \<Rightarrow> bool" where
  "hasImageConfirmationPreview lower paths hasInlineImage =
     (if hasInlineImage \<or> length paths \<noteq> 1 then hasInlineImage
      else let filename = after_last path_separator (hd paths);
               extension = lower (after_last (\<lambda>c. c = 46) filename)
           in extension \<in> {js ''png'', js ''jpg'', js ''jpeg'', js ''gif'', js ''webp''})"

text \<open>\<open>(bytes / unit).toFixed(1)\<close> for a power of two: the nearest tenth, ties upwards.\<close>

definition tenths :: "nat \<Rightarrow> nat \<Rightarrow> jsstr" where
  "tenths bytes unit =
     (let n = (20 * bytes + unit) div (2 * unit) in decimal (n div 10) @ 46 # decimal (n mod 10))"

definition formatFileSize :: "nat \<Rightarrow> jsstr" where
  "formatFileSize bytes =
     (if bytes < 1024 then decimal bytes @ js '' B''
      else if bytes < 1024 * 1024 then tenths bytes 1024 @ js '' KiB''
      else tenths bytes (1024 * 1024) @ js '' MiB'')"

definition FILE_TYPE_BY_EXTENSION :: "(string \<times> string) list" where
  "FILE_TYPE_BY_EXTENSION = [(''avif'', ''image/avif''), (''gif'', ''image/gif''), (''jpeg'', ''image/jpeg''),
     (''jpg'', ''image/jpeg''), (''png'', ''image/png''), (''webp'', ''image/webp''), (''bmp'', ''image/bmp''),
     (''svg'', ''image/svg+xml''), (''txt'', ''text/plain''), (''md'', ''text/markdown''), (''csv'', ''text/csv''),
     (''json'', ''application/json''), (''pdf'', ''application/pdf''), (''zip'', ''application/zip''),
     (''gz'', ''application/gzip''), (''tar'', ''application/x-tar''), (''mp3'', ''audio/mpeg''),
     (''wav'', ''audio/wav''), (''mp4'', ''video/mp4''), (''mov'', ''video/quicktime'')]"

definition fileTypeLabel :: "(jsstr \<Rightarrow> jsstr) \<Rightarrow> jsstr \<Rightarrow> jsstr option \<Rightarrow> jsstr" where
  "fileTypeLabel lower filename mimeType =
     (if (case mimeType of Some m \<Rightarrow> trim m \<noteq> [] | None \<Rightarrow> False) then lower (trim (the mimeType))
      else
        let basename = after_last path_separator filename;
            extension = (if 46 \<in> set basename then lower (after_last (\<lambda>c. c = 46) basename) else [])
        in case map_of (map (\<lambda>(e, t). (js e, js t)) FILE_TYPE_BY_EXTENSION) extension of
            Some t \<Rightarrow> t | None \<Rightarrow> js ''application/octet-stream'')"

subsection \<open>Staging\<close>

text \<open>The name without and from its last point on; a point in front does not start an extension.\<close>

definition split_extension :: "jsstr \<Rightarrow> jsstr \<times> jsstr" where
  "split_extension name =
     (let ext = after_last (\<lambda>c. c = 46) name; dot = length name - length ext - 1 in
      if 46 \<in> set name \<and> 0 < dot then (take dot name, drop dot name) else (name, []))"

definition numbered :: "jsstr \<Rightarrow> jsstr \<Rightarrow> nat \<Rightarrow> jsstr" where
  "numbered stem extension suffix = stem @ 45 # decimal suffix @ extension"

text \<open>The first free name of \<open>name\<close>, \<open>stem-2\<close>, \<open>stem-3\<close> and so on: one more candidate than there are names in
  use is always enough.\<close>

definition free_name :: "(jsstr \<Rightarrow> jsstr) \<Rightarrow> jsstr list \<Rightarrow> jsstr \<Rightarrow> jsstr option" where
  "free_name lower used name =
     (case split_extension name of (stem, extension) \<Rightarrow>
        if lower name \<notin> set used then Some name
        else map_option (numbered stem extension)
          (find (\<lambda>n. lower (numbered stem extension n) \<notin> set used) [2..<length used + 3]))"

fun stage_names :: "(jsstr \<Rightarrow> jsstr) \<Rightarrow> jsstr list \<Rightarrow> jsstr list \<Rightarrow> jsstr list option" where
  "stage_names lower used [] = Some []"
| "stage_names lower used (source # sources) =
     (case free_name lower used (posix_basename source) of
        None \<Rightarrow> None
      | Some n \<Rightarrow> map_option ((#) n) (stage_names lower (set_add (lower n) used) sources))"

text \<open>The destinations, in a fresh directory: an empty name becomes \<open>file-\<close> and the position.\<close>

definition stageFilesForConfirmation :: "(jsstr \<Rightarrow> jsstr) \<Rightarrow> jsstr \<Rightarrow> jsstr list \<Rightarrow> (jsstr \<times> jsstr) list option" where
  "stageFilesForConfirmation lower directory paths =
     map_option (\<lambda>names. map (\<lambda>(i, source, n).
         (source, directory @ 47 # (if n = [] then js ''file-'' @ decimal (i + 1) else n)))
       (zip [0..<length paths] (zip paths names)))
       (stage_names lower [] paths)"

subsection \<open>File URLs\<close>

definition url_segments :: "jsstr list \<Rightarrow> jsstr list option" where
  "url_segments parts = (if list_all (\<lambda>p. encodeURIComponent p \<noteq> None) parts
     then Some (map (the o encodeURIComponent) parts) else None)"

definition toFileUrl :: "jsstr \<Rightarrow> nat option \<Rightarrow> jsstr option" where
  "toFileUrl path version =
     (let normalized = map (\<lambda>c. if c = 92 then 47 else c) path;
          normalized = (case normalized of
              a # b # c # r \<Rightarrow> if is_letter a \<and> b = 58 \<and> c = 47 then 47 # normalized else normalized
            | _ \<Rightarrow> normalized)
      in map_option (\<lambda>encoded. js ''file://'' @ join_on [47] encoded
           @ (case version of Some v \<Rightarrow> js ''?v='' @ decimal v | None \<Rightarrow> []))
         (url_segments (split_on 47 normalized)))"

subsection \<open>Staged names are distinct\<close>

text \<open>What the staging needs of \<open>toLowerCase\<close>: it keeps the numbered names apart.\<close>

definition keeps_numbers :: "(jsstr \<Rightarrow> jsstr) \<Rightarrow> bool" where
  "keeps_numbers lower \<longleftrightarrow> (\<forall>stem extension. inj (\<lambda>n. lower (numbered stem extension n)))"

lemma free_name_found:
  assumes "keeps_numbers lower"
  shows "\<exists>n. free_name lower used name = Some n \<and> lower n \<notin> set used"
proof -
  obtain stem extension where se: "split_extension name = (stem, extension)" by fastforce
  let ?f = "\<lambda>n. lower (numbered stem extension n)"
  have "\<exists>n \<in> set [2..<length used + 3]. ?f n \<notin> set used"
  proof (rule ccontr)
    assume "\<not> (\<exists>n \<in> set [2..<length used + 3]. ?f n \<notin> set used)"
    then have "?f ` {2..<length used + 3} \<subseteq> set used" by auto
    then have "card (?f ` {2..<length used + 3}) \<le> length used"
      by (meson List.finite_set card_length card_mono le_trans)
    moreover have "card (?f ` {2..<length used + 3}) = length used + 1"
      using assms by (subst card_image) (auto simp: keeps_numbers_def intro: inj_on_subset)
    ultimately show False by simp
  qed
  then have "find (\<lambda>n. ?f n \<notin> set used) [2..<length used + 3] \<noteq> None" by (auto simp: find_None_iff)
  then obtain n where "find (\<lambda>n. ?f n \<notin> set used) [2..<length used + 3] = Some n" by auto
  moreover have "?f n \<notin> set used" using find_SomeD [OF calculation] by simp
  ultimately show ?thesis by (simp add: free_name_def se)
qed

lemma stage_names_distinct:
  assumes "keeps_numbers lower"
  shows "\<exists>names. stage_names lower used sources = Some names \<and> length names = length sources
    \<and> distinct (map lower names) \<and> (\<forall>n \<in> set names. lower n \<notin> set used)"
proof (induction sources arbitrary: used)
  case (Cons source sources)
  obtain n where n: "free_name lower used (posix_basename source) = Some n" "lower n \<notin> set used"
    using free_name_found [OF assms] by blast
  obtain names where "stage_names lower (set_add (lower n) used) sources = Some names" "length names = length sources"
    "distinct (map lower names)" "\<forall>m \<in> set names. lower m \<notin> set (set_add (lower n) used)"
    using Cons.IH by blast
  with n show ?case by (intro exI [of _ "n # names"]) auto
qed simp

text \<open>Staging never lets one dropped file overwrite another: the search for a free name always succeeds, every
  file gets a name, and the names differ even on a file system that ignores case.\<close>

theorem staged_names_unique:
  assumes "keeps_numbers lower"
  shows "\<exists>names. stage_names lower [] paths = Some names \<and> length names = length paths
    \<and> distinct (map lower names) \<and> distinct names"
  using stage_names_distinct [OF assms, of "[]" paths] by (auto simp: distinct_map)

lemma decimal_inj: "decimal m = decimal n \<Longrightarrow> m = n"
  by (metis digits_value_decimal)

lemma ascii_lower_decimal: "map ascii_lower (decimal n) = decimal n"
proof -
  have "\<forall>c \<in> set (decimal n). ascii_lower c = c"
    using decimal_digits(2) [of n] by (auto simp: list_all_iff is_digit_def ascii_lower_def)
  then show ?thesis by (simp add: map_idI)
qed

lemma ascii_lower_keeps_numbers: "keeps_numbers (map ascii_lower)"
  unfolding keeps_numbers_def inj_def numbered_def
  by (simp add: ascii_lower_decimal) (metis decimal_inj)

subsection \<open>File URLs are read back\<close>

lemma encode_Nil [simp]: "encodeURIComponent [] = Some []"
  by (simp add: encodeURIComponent_def)

lemma url_segments_simps [simp]:
  "url_segments [] = Some []"
  "url_segments (p # ps) =
     (case (encodeURIComponent p, url_segments ps) of (Some e, Some es) \<Rightarrow> Some (e # es) | _ \<Rightarrow> None)"
  by (auto simp: url_segments_def split: option.splits)

lemma decode_joined:
  assumes "\<forall>p \<in> set parts. utf16_units p" "url_segments parts = Some es"
  shows "decodeURIComponent (join_on [47] es) = Some (join_on [47] parts)"
  using assms
proof (induction parts arbitrary: es rule: induct_list012)
  case 1
  then show ?case by simp
next
  case (2 p)
  then show ?case by (auto simp: decode_encode split: option.splits)
next
  case (3 p q ps)
  obtain e f fs where e: "encodeURIComponent p = Some e"
    and fs: "url_segments (q # ps) = Some (f # fs)" "es = e # f # fs"
    using 3 by (auto split: option.splits)
  have "decodeURIComponent (join_on [47] (f # fs)) = Some (join_on [47] (q # ps))" using 3 fs by auto
  then have "decodeURIComponent (47 # join_on [47] (f # fs)) = Some (47 # join_on [47] (q # ps))"
    by (simp add: decodeURIComponent.simps [of "47 # s" for s])
  then show ?case
    using decode_encode_append [of p e "47 # join_on [47] (f # fs)"] 3 e by (simp add: fs)
qed

lemma uri_char_not_space: "uri_char c \<Longrightarrow> \<not> js_space c"
  by (auto simp: uri_char_def uri_unreserved_def is_letter_def is_digit_def js_space_def)

lemma joined_no_space:
  assumes "\<forall>p \<in> set parts. utf16_units p" "url_segments parts = Some es" "c \<in> set (join_on [47] es)"
  shows "\<not> js_space c"
proof -
  have "c = 47 \<or> (\<exists>e \<in> set es. c \<in> set e)" using assms(3) set_join_on_sep [of "[47]" es] by auto
  moreover have "list_all uri_char e" if e: "e \<in> set es" for e
  proof -
    obtain p where "p \<in> set parts" "encodeURIComponent p = Some e"
      using e assms(2) by (auto simp: url_segments_def list_all_iff split: if_splits)
    then show ?thesis using encoded_uri_chars assms(1) by blast
  qed
  ultimately show ?thesis using uri_char_not_space by (auto simp: list_all_iff js_space_def)
qed

lemma trim_no_space: "(\<And>c. c \<in> set s \<Longrightarrow> \<not> js_space c) \<Longrightarrow> trim s = s"
proof -
  assume ns: "\<And>c. c \<in> set s \<Longrightarrow> \<not> js_space c"
  have "dropWhile js_space t = t" if "set t = set s" for t
    using that ns by (cases t) auto
  then show ?thesis by (simp add: trim_def trim_start_def trim_end_def)
qed

text \<open>C11. Paths survive the trip through a file URL: the URL that the client makes of an absolute path (without
  backslashes) is recognised as a path and reads back as exactly that path, whatever characters it has.\<close>

theorem file_url_roundtrip:
  assumes "toFileUrl (47 # path) None = Some url" and "92 \<notin> set path" and "utf16_units path"
  shows "stripFileUrl url = 47 # path \<and> looksLikePath url"
proof -
  have norm: "map (\<lambda>c. if c = 92 then 47 else c) (47 # path) = 47 # path"
    using assms(2) by (induction path) auto
  have norm': "(case 47 # path of a # b # c # r \<Rightarrow> if is_letter a \<and> b = 58 \<and> c = 47 then 47 # 47 # path else 47 # path
      | _ \<Rightarrow> 47 # path) = 47 # path"
    by (auto simp: is_letter_def split: list.split)
  have parts: "split_on 47 (47 # path) = [] # split_on 47 path" by simp
  have "map_option (\<lambda>es. js ''file://'' @ join_on [47] es) (url_segments ([] # split_on 47 path)) = Some url"
    using assms(1) unfolding toFileUrl_def Let_def norm norm' option.case append_Nil2 parts .
  then obtain es where es: "url_segments ([] # split_on 47 path) = Some es" "url = js ''file://'' @ join_on [47] es"
    unfolding map_option_eq_Some by blast
  have units: "\<forall>p \<in> set ([] # split_on 47 path). utf16_units p"
    using assms(3) split_on_subset by (fastforce simp: utf16_units_def list_all_iff)
  obtain e es' where cons: "es = [] # e # es'"
    using es(1) by (cases "split_on 47 path") (auto split: option.splits)
  have dec: "decodeURIComponent (join_on [47] es) = Some (47 # path)"
    using decode_joined [OF units es(1)] join_split [of 47 "47 # path"] by simp
  have scheme: "\<not> js_space c" if "c \<in> set (js ''file://'')" for c
    using that by (auto simp: js_def js_space_def)
  have trim: "trim url = url"
    using joined_no_space [OF units es(1)] scheme by (intro trim_no_space) (auto simp: es(2))
  have "length (js ''file://'') = 7" by simp
  then have take: "take 7 url = js ''file://''" "drop 7 url = join_on [47] es" by (simp_all add: es(2))
  have fu: "is_file_url url" unfolding is_file_url_def take by code_simp
  have "stripFileUrl url = 47 # path"
    using dec by (simp add: stripFileUrl_def trim fu take(2) Let_def) (simp add: cons starts_with_def)
  moreover have "looksLikePath url"
  proof -
    have ns: "\<not> js_space c" if "c \<in> set url" for c
      using that joined_no_space [OF units es(1)] scheme by (auto simp: es(2))
    have "js_space 10" by (simp add: js_space_def)
    then have "10 \<notin> set url" using ns by blast
    moreover have "\<not> double_space url" using ns by (auto simp: double_space_def list_ex_iff dest: set_zip_leftD)
    moreover have "url \<noteq> []" by (simp add: es(2))
    ultimately show ?thesis using fu by (simp add: looksLikePath_def trim Let_def)
  qed
  ultimately show ?thesis ..
qed

theorem file_url_roundtrip_witness:
  "toFileUrl (js ''/home/a b/c.txt'') None = Some (js ''file:///home/a%20b/c.txt'')
   \<and> stripFileUrl (js ''file:///home/a%20b/c.txt'') = js ''/home/a b/c.txt''"
proof -
  have u: "toFileUrl (js ''/home/a b/c.txt'') None = Some (js ''file:///home/a%20b/c.txt'')" by code_simp
  have p: "js ''/home/a b/c.txt'' = 47 # js ''home/a b/c.txt''" by code_simp
  have "92 \<notin> set (js ''home/a b/c.txt'')" "utf16_units (js ''home/a b/c.txt'')" by code_simp+
  then have "stripFileUrl (js ''file:///home/a%20b/c.txt'') = js ''/home/a b/c.txt''"
    using file_url_roundtrip [OF u [unfolded p]] p by simp
  with u show ?thesis by simp
qed

end
