(* ===== verification/JsonText.thy ===== *)
theory JsonText
  imports ControlConfig JsText
begin

text \<open>
  \<open>JSON.stringify\<close> without indentation, as the components use it to write messages: strings are quoted
  with the escapes of the standard (control characters and lone surrogates as \<open>\u\<close> and four lower-case
  hexadecimal digits), properties keep their order. The decimal form of a number is an argument.
\<close>

definition hex4 :: "nat \<Rightarrow> jsstr" where
  "hex4 n = [hex_digit (n div 4096 mod 16), hex_digit (n div 256 mod 16), hex_digit (n div 16 mod 16), hex_digit (n mod 16)]"

fun json_escape :: "nat \<times> jsstr \<Rightarrow> jsstr" where
  "json_escape (cp, u) =
     (if cp = 8 then js [CHR 0x5C, CHR ''b'']
      else if cp = 9 then js [CHR 0x5C, CHR ''t'']
      else if cp = 10 then js [CHR 0x5C, CHR ''n'']
      else if cp = 12 then js [CHR 0x5C, CHR ''f'']
      else if cp = 13 then js [CHR 0x5C, CHR ''r'']
      else if cp < 32 \<or> (55296 \<le> cp \<and> cp < 57344) then [92, 117] @ hex4 cp
      else if cp = 34 \<or> cp = 92 then [92, cp]
      else u)"

definition quote :: "jsstr \<Rightarrow> jsstr" where
  "quote s = 34 # concat (map json_escape (chars s)) @ [34]"

fun stringify :: "(rat \<Rightarrow> jsstr) \<Rightarrow> json \<Rightarrow> jsstr" where
  "stringify nt JNull = js ''null''"
| "stringify nt (JBool b) = (if b then js ''true'' else js ''false'')"
| "stringify nt (JNum n) = nt n"
| "stringify nt (JStr s) = quote s"
| "stringify nt (JArr xs) = 91 # join_on [44] (map (stringify nt) xs) @ [93]"
| "stringify nt (JObj kvs) = 123 # join_on [44] (map (\<lambda>(k, v). quote k @ 58 # stringify nt v) kvs) @ [125]"

text \<open>What is written stays on one line.\<close>

lemma hex_digit_no_newline: "10 \<noteq> hex_digit n" "hex_digit n \<noteq> 10"
  by (auto simp: hex_digit_def)

lemma chars_units: "(cp, u) \<in> set (chars s) \<Longrightarrow> u = [cp] \<or> (55296 \<le> hd u \<and> (\<forall>c \<in> set u. 55296 \<le> c))"
  by (induction s rule: chars.induct) (auto split: if_splits)

lemma quote_one_line: "10 \<notin> set (quote s)"
proof -
  have "10 \<notin> set (json_escape (cp, u))" if "(cp, u) \<in> set (chars s)" for cp u
    using chars_units [OF that] hex_digit_no_newline by (auto simp: hex4_def js_def)
  then show ?thesis by (auto simp: quote_def)
qed

lemma literals_one_line: "10 \<notin> set (js ''null'')" "10 \<notin> set (js ''true'')" "10 \<notin> set (js ''false'')"
  by code_simp+

lemma stringify_one_line:
  assumes "\<forall>n. 10 \<notin> set (nt n)"
  shows "10 \<notin> set (stringify nt j)"
  using assms
proof (induction nt j rule: stringify.induct)
  case (5 nt xs)
  then show ?case using set_join_on_sep [of "[44]" "map (stringify nt) xs"] by auto
next
  case (6 nt kvs)
  have "10 \<notin> set (quote k @ 58 # stringify nt v)" if "(k, v) \<in> set kvs" for k v
    using 6 that by (simp add: quote_one_line)
  then have "10 \<notin> (\<Union>x \<in> set (map (\<lambda>(k, v). quote k @ 58 # stringify nt v) kvs). set x)" by auto
  then have "10 \<notin> set (join_on [44] (map (\<lambda>(k, v). quote k @ 58 # stringify nt v) kvs))"
    using set_join_on_sep [of "[44]" "map (\<lambda>(k, v). quote k @ 58 # stringify nt v) kvs"] by auto
  then show ?case by simp
qed (simp_all add: literals_one_line quote_one_line)

end
