(* ===== verification/IpcClient.thy ===== *)
theory IpcClient
  imports JsonText "HOL-Library.Code_Target_Numeral"
begin

text \<open>
  The connection of a client to the local backend, \<open>common/ipc-client.ts\<close>: authentication, requests with
  their pending promises, the framing of the stream into lines, events, and closing. The state is the
  fields of \<open>IPCClient\<close>; a pending request stands for its promise, handlers are numbered by registration.
  Every method and every socket callback is a function from the state to the state and its effects in
  order. The files, the platform and \<open>JSON.parse\<close> are the environment. Promises settle once: of several
  effects on the same promise the first counts.
\<close>

subsection \<open>State and effects\<close>

datatype endpoint = UnixSocket | TcpPort nat

record ipc =
  ic_socket :: "endpoint option"
  ic_buffer :: jsstr
  ic_pending :: "nat list"
  ic_id :: nat
  ic_eventHandlers :: "nat list"
  ic_disconnectHandlers :: "nat list"
  ic_intentionallyClosed :: bool
  ic_closed :: bool
  ic_connecting :: bool

datatype ipc_effect =
    Opened endpoint
  | Wrote jsstr
  | Destroyed
  | ConnectResolved
  | ConnectRejected jsstr
  | Resolved nat json
  | SendRejected jsstr
  | EventHandled nat json
  | DisconnectHandled nat

text \<open>The environment: the port of \<open>MESHTALK_IPC_PORT\<close>, whether the platform is Windows, the port and token
  files (\<open>None\<close> when they cannot be used), the parser, and the decimal form of numbers.\<close>

record ipc_env =
  env_forced_port :: "nat option"
  env_win32 :: bool
  env_port :: "nat option"
  env_token :: "jsstr option"
  env_parse :: "jsstr \<Rightarrow> json option"
  env_number :: "rat \<Rightarrow> jsstr"

definition ipc_new :: ipc where
  "ipc_new = \<lparr>ic_socket = None, ic_buffer = [], ic_pending = [], ic_id = 0, ic_eventHandlers = [],
     ic_disconnectHandlers = [], ic_intentionallyClosed = False, ic_closed = False, ic_connecting = False\<rparr>"

subsection \<open>Connecting\<close>

definition connectTcp :: "ipc_env \<Rightarrow> ipc \<Rightarrow> ipc \<times> ipc_effect list" where
  "connectTcp env c =
     (case env_port env of
        Some p \<Rightarrow> (c\<lparr>ic_socket := Some (TcpPort p)\<rparr>, [Opened (TcpPort p)])
      | None \<Rightarrow> (c, [ConnectRejected (js ''Cannot connect to MeshTalk backend'')]))"

definition ipc_connect :: "ipc_env \<Rightarrow> ipc \<Rightarrow> ipc \<times> ipc_effect list" where
  "ipc_connect env c =
     (let c = c\<lparr>ic_intentionallyClosed := False, ic_closed := False, ic_connecting := True\<rparr> in
      case env_forced_port env of
        Some p \<Rightarrow> (c\<lparr>ic_socket := Some (TcpPort p)\<rparr>, [Opened (TcpPort p)])
      | None \<Rightarrow> if env_win32 env then connectTcp env c
                else (c\<lparr>ic_socket := Some UnixSocket\<rparr>, [Opened UnixSocket]))"

text \<open>The callback \<open>connect\<close> of the socket.\<close>

definition authenticate :: "ipc_env \<Rightarrow> ipc \<Rightarrow> ipc \<times> ipc_effect list" where
  "authenticate env c =
     (case env_token env of
        None \<Rightarrow> (c, [ConnectRejected (js ''Cannot authenticate with MeshTalk backend'')])
      | Some token \<Rightarrow>
          if ic_socket c = None then (c, [])
          else (c, [Wrote (stringify (env_number env)
                 (JObj [(js ''action'', JStr (js ''authenticate'')), (js ''token'', JStr (trim token))]) @ [10])]))"

text \<open>The callback \<open>error\<close>: on the Unix socket TCP is tried, on a TCP socket the connection is refused.\<close>

definition socket_error :: "ipc_env \<Rightarrow> endpoint \<Rightarrow> jsstr \<Rightarrow> ipc \<Rightarrow> ipc \<times> ipc_effect list" where
  "socket_error env e message c =
     (case e of
        UnixSocket \<Rightarrow> (case connectTcp env c of (c', es) \<Rightarrow> (c', Destroyed # es))
      | TcpPort p \<Rightarrow> (c, [ConnectRejected message]))"

subsection \<open>Requests and messages\<close>

definition ipc_close :: "ipc \<Rightarrow> ipc \<times> ipc_effect list" where
  "ipc_close c = (c\<lparr>ic_intentionallyClosed := True\<rparr>, if ic_socket c = None then [] else [Destroyed])"

definition onEvent :: "nat \<Rightarrow> ipc \<Rightarrow> ipc" where
  "onEvent h c = c\<lparr>ic_eventHandlers := set_add h (ic_eventHandlers c)\<rparr>"

definition offEvent :: "nat \<Rightarrow> ipc \<Rightarrow> ipc" where
  "offEvent h c = c\<lparr>ic_eventHandlers := set_del h (ic_eventHandlers c)\<rparr>"

definition onDisconnect :: "nat \<Rightarrow> ipc \<Rightarrow> ipc" where
  "onDisconnect h c = c\<lparr>ic_disconnectHandlers := set_add h (ic_disconnectHandlers c)\<rparr>"

definition offDisconnect :: "nat \<Rightarrow> ipc \<Rightarrow> ipc" where
  "offDisconnect h c = c\<lparr>ic_disconnectHandlers := set_del h (ic_disconnectHandlers c)\<rparr>"

text \<open>\<open>{ id, action, ...params }\<close>: a parameter with the name of an earlier property replaces its value.\<close>

definition request_object :: "nat \<Rightarrow> jsstr \<Rightarrow> json_object \<Rightarrow> json" where
  "request_object i action params =
     JObj (fold (\<lambda>(k, v) o'. map_set k v o') params [(js ''id'', JNum (of_nat i)), (js ''action'', JStr action)])"

definition ipc_send :: "ipc_env \<Rightarrow> jsstr \<Rightarrow> json_object \<Rightarrow> ipc \<Rightarrow> ipc \<times> ipc_effect list" where
  "ipc_send env action params c =
     (if ic_socket c = None then (c, [SendRejected (js ''Not connected'')])
      else let i = ic_id c in
        (c\<lparr>ic_id := i + 1, ic_pending := set_add i (ic_pending c)\<rparr>,
         [Wrote (stringify (env_number env) (request_object i action params) @ [10])]))"

definition json_prop :: "json \<Rightarrow> string \<Rightarrow> json option" where
  "json_prop j k = (case j of JObj o' \<Rightarrow> field o' k | _ \<Rightarrow> None)"

text \<open>One line of the stream. Reading a property of \<open>null\<close> throws, which is ignored like a parse error.\<close>

definition on_message :: "json \<Rightarrow> ipc \<Rightarrow> ipc \<times> ipc_effect list" where
  "on_message response c =
     (if json_prop response ''authenticated'' = Some (JBool True) \<and> ic_connecting c
      then (c\<lparr>ic_connecting := False\<rparr>, [ConnectResolved])
      else case json_prop response ''event'' of
          Some (JStr e) \<Rightarrow> (c, map (\<lambda>h. EventHandled h response) (ic_eventHandlers c))
        | _ \<Rightarrow>
            (case json_prop response ''id'' of
               Some (JNum n) \<Rightarrow>
                 (case find (\<lambda>i. of_nat i = n) (ic_pending c) of
                    Some i \<Rightarrow> (c\<lparr>ic_pending := set_del i (ic_pending c)\<rparr>, [Resolved i response])
                  | None \<Rightarrow> (c, []))
             | _ \<Rightarrow> (c, [])))"

definition on_line :: "ipc_env \<Rightarrow> jsstr \<Rightarrow> ipc \<Rightarrow> ipc \<times> ipc_effect list" where
  "on_line env line c =
     (if trim line = [] then (c, [])
      else case env_parse env line of
          None \<Rightarrow> (c, [])
        | Some JNull \<Rightarrow> (c, [])
        | Some response \<Rightarrow> on_message response c)"

fun on_lines :: "ipc_env \<Rightarrow> jsstr list \<Rightarrow> ipc \<Rightarrow> ipc \<times> ipc_effect list" where
  "on_lines env [] c = (c, [])"
| "on_lines env (l # ls) c =
     (case on_line env l c of (c1, e1) \<Rightarrow> case on_lines env ls c1 of (c2, e2) \<Rightarrow> (c2, e1 @ e2))"

definition onData :: "ipc_env \<Rightarrow> jsstr \<Rightarrow> ipc \<Rightarrow> ipc \<times> ipc_effect list" where
  "onData env chunk c =
     (let lines = split_on 10 (ic_buffer c @ chunk)
      in on_lines env (butlast lines) (c\<lparr>ic_buffer := last lines\<rparr>))"

definition onClose :: "ipc \<Rightarrow> ipc \<times> ipc_effect list" where
  "onClose c =
     (if ic_closed c then (c, [])
      else
        (c\<lparr>ic_closed := True, ic_connecting := False, ic_pending := []\<rparr>,
         (if ic_connecting c
          then [if ic_intentionallyClosed c then ConnectResolved
                else ConnectRejected (js ''Connection closed during authentication'')]
          else [])
         @ map (\<lambda>i. Resolved i (JObj [(js ''error'', JStr (js ''Connection closed''))])) (ic_pending c)
         @ (if ic_intentionallyClosed c then [] else map DisconnectHandled (ic_disconnectHandlers c))))"

subsection \<open>Runs\<close>

datatype ipc_event =
    Connect
  | SocketConnected
  | SocketError endpoint jsstr
  | SocketData jsstr
  | SocketClosed
  | CloseCalled
  | SendCalled jsstr json_object
  | EventHandler nat bool
  | DisconnectHandler nat bool

fun ipc_step :: "ipc_env \<Rightarrow> ipc_event \<Rightarrow> ipc \<Rightarrow> ipc \<times> ipc_effect list" where
  "ipc_step env Connect c = ipc_connect env c"
| "ipc_step env SocketConnected c = authenticate env c"
| "ipc_step env (SocketError e m) c = socket_error env e m c"
| "ipc_step env (SocketData d) c = onData env d c"
| "ipc_step env SocketClosed c = onClose c"
| "ipc_step env CloseCalled c = ipc_close c"
| "ipc_step env (SendCalled a ps) c = ipc_send env a ps c"
| "ipc_step env (EventHandler h on) c = (if on then onEvent h c else offEvent h c, [])"
| "ipc_step env (DisconnectHandler h on) c = (if on then onDisconnect h c else offDisconnect h c, [])"

fun ipc_run :: "ipc_env \<Rightarrow> ipc_event list \<Rightarrow> ipc \<Rightarrow> ipc \<times> ipc_effect list" where
  "ipc_run env [] c = (c, [])"
| "ipc_run env (e # es) c =
     (case ipc_step env e c of (c1, f1) \<Rightarrow> case ipc_run env es c1 of (c2, f2) \<Rightarrow> (c2, f1 @ f2))"

subsection \<open>Framing\<close>

lemma split_on_append:
  "split_on c (xs @ ys) = butlast (split_on c xs) @ split_on c (last (split_on c xs) @ ys)"
proof (induction xs)
  case (Cons x xs)
  obtain p ps where ps: "split_on c xs = p # ps" by (cases "split_on c xs") auto
  show ?case
  proof (cases "x = c")
    case True
    with Cons ps show ?thesis by simp
  next
    case False
    with Cons ps show ?thesis
      by (cases ps; cases "split_on c (last (p # ps) @ ys)") auto
  qed
qed simp

lemma on_lines_append:
  "on_lines env (ls @ ks) c =
     (case on_lines env ls c of (c1, e1) \<Rightarrow> case on_lines env ks c1 of (c2, e2) \<Rightarrow> (c2, e1 @ e2))"
  by (induction ls arbitrary: c) (auto split: prod.splits)

lemma on_line_buffer:
  "on_line env l (c\<lparr>ic_buffer := b\<rparr>) = (case on_line env l c of (c', es) \<Rightarrow> (c'\<lparr>ic_buffer := b\<rparr>, es))"
  by (auto simp: on_line_def on_message_def split: option.splits json.splits)

lemma on_lines_buffer:
  "on_lines env ls (c\<lparr>ic_buffer := b\<rparr>) = (case on_lines env ls c of (c', es) \<Rightarrow> (c'\<lparr>ic_buffer := b\<rparr>, es))"
  by (induction ls arbitrary: c) (auto simp: on_line_buffer split: prod.splits)

lemma on_line_keeps_buffer: "on_line env l c = (c', es) \<Longrightarrow> ic_buffer c' = ic_buffer c"
  by (auto simp: on_line_def on_message_def split: if_splits option.splits json.splits)

lemma on_lines_keeps_buffer: "on_lines env ls c = (c', es) \<Longrightarrow> ic_buffer c' = ic_buffer c"
  by (induction ls arbitrary: c es) (auto dest: on_line_keeps_buffer split: prod.splits)

lemma onData_append:
  "onData env (a @ b) c = (case onData env a c of (c1, e1) \<Rightarrow> case onData env b c1 of (c2, e2) \<Rightarrow> (c2, e1 @ e2))"
proof -
  define ls where "ls = split_on 10 (ic_buffer c @ a)"
  define ks where "ks = split_on 10 (last ls @ b)"
  obtain c1 e1 where 1: "on_lines env (butlast ls) (c\<lparr>ic_buffer := last ls\<rparr>) = (c1, e1)" by fastforce
  obtain c2 e2 where 2: "on_lines env (butlast ks) (c1\<lparr>ic_buffer := last ks\<rparr>) = (c2, e2)" by fastforce
  have b1: "ic_buffer c1 = last ls"
    using on_lines_keeps_buffer [OF 1] by simp
  have ne: "ks \<noteq> []" by (simp add: ks_def)
  have split: "split_on 10 (ic_buffer c @ a @ b) = butlast ls @ ks"
    unfolding ls_def ks_def append_assoc [symmetric] by (rule split_on_append)
  have "on_lines env (butlast ls) (c\<lparr>ic_buffer := last ks\<rparr>) = (c1\<lparr>ic_buffer := last ks\<rparr>, e1)"
    using on_lines_buffer [of env "butlast ls" "last ks" "c\<lparr>ic_buffer := last ls\<rparr>"] by (simp add: 1)
  then have "onData env (a @ b) c = (c2, e1 @ e2)"
    using ne 2 by (simp add: onData_def split butlast_append on_lines_append)
  moreover have "onData env a c = (c1, e1)" using 1 by (simp add: onData_def ls_def Let_def)
  moreover have "onData env b c1 = (c2, e2)" using 2 by (simp add: onData_def ks_def b1 Let_def)
  ultimately show ?thesis by simp
qed


definition sample_env :: ipc_env where
  "sample_env = \<lparr>env_forced_port = None, env_win32 = False, env_port = None, env_token = Some (js ''t''),
     env_parse = (\<lambda>l. if l = js ''{}'' then Some (JObj []) else if l = js ''ok'' then Some (JObj [(js ''id'', JNum 0)]) else None),
     env_number = (\<lambda>_. [48])\<rparr>"


subsection \<open>Every request is answered once\<close>

definition resolved :: "ipc_effect list \<Rightarrow> nat list" where
  "resolved es = List.map_filter (\<lambda>e. case e of Resolved i r \<Rightarrow> Some i | _ \<Rightarrow> None) es"

lemma resolved_simps [simp]:
  "resolved [] = []" "resolved (Resolved i r # es) = i # resolved es" "resolved (a @ b) = resolved a @ resolved b"
  "resolved (Opened e # es) = resolved es" "resolved (Wrote m # es) = resolved es" "resolved (Destroyed # es) = resolved es"
  "resolved (ConnectResolved # es) = resolved es" "resolved (ConnectRejected m # es) = resolved es"
  "resolved (SendRejected m # es) = resolved es"
  by (simp_all add: resolved_def List.map_filter_def)

lemma resolved_maps [simp]:
  "resolved (map (\<lambda>i. Resolved i r) is) = is" "resolved (map (\<lambda>h. EventHandled h r) hs) = []"
  "resolved (map DisconnectHandled hs) = []"
  by (simp_all add: resolved_def List.map_filter_def comp_def filter_empty_conv)

text \<open>The requests issued are the answered ones and the pending ones, each in one place only.\<close>

definition accounted :: "nat list \<Rightarrow> ipc \<Rightarrow> bool" where
  "accounted done c \<longleftrightarrow> distinct (done @ ic_pending c) \<and> set (done @ ic_pending c) = {..<ic_id c}"

lemma accounted_unchanged:
  "accounted done c \<Longrightarrow> ic_pending c' = ic_pending c \<Longrightarrow> ic_id c' = ic_id c \<Longrightarrow> resolved es = [] \<Longrightarrow>
     accounted (done @ resolved es) c'"
  by (simp add: accounted_def)

lemma on_message_cases:
  "on_message r c = (c', es) \<Longrightarrow>
     (ic_pending c' = ic_pending c \<and> ic_id c' = ic_id c \<and> resolved es = [])
     \<or> (\<exists>i \<in> set (ic_pending c). c' = c\<lparr>ic_pending := set_del i (ic_pending c)\<rparr> \<and> es = [Resolved i r])"
  unfolding on_message_def
  by (auto split: if_split_asm option.split_asm json.split_asm dest: find_SomeD)

lemma accounted_message:
  assumes "accounted done c" "on_message r c = (c', es)"
  shows "accounted (done @ resolved es) c'"
  using on_message_cases [OF assms(2)]
proof
  assume "ic_pending c' = ic_pending c \<and> ic_id c' = ic_id c \<and> resolved es = []"
  then show ?thesis using assms(1) by (simp add: accounted_def)
next
  assume "\<exists>i \<in> set (ic_pending c). c' = c\<lparr>ic_pending := set_del i (ic_pending c)\<rparr> \<and> es = [Resolved i r]"
  then obtain i where "i \<in> set (ic_pending c)" "c' = c\<lparr>ic_pending := set_del i (ic_pending c)\<rparr>" "es = [Resolved i r]"
    by blast
  then show ?thesis using assms(1) by (simp add: accounted_def) blast
qed

lemma accounted_line:
  "accounted done c \<Longrightarrow> on_line env l c = (c', es) \<Longrightarrow> accounted (done @ resolved es) c'"
  by (auto simp: on_line_def accounted_message split: if_splits option.splits json.splits)

lemma accounted_lines:
  "accounted done c \<Longrightarrow> on_lines env ls c = (c', es) \<Longrightarrow> accounted (done @ resolved es) c'"
proof (induction ls arbitrary: c c' "done" es)
  case (Cons l ls)
  obtain c1 e1 where 1: "on_line env l c = (c1, e1)" by fastforce
  obtain c2 e2 where 2: "on_lines env ls c1 = (c2, e2)" by fastforce
  have "accounted (done @ resolved e1) c1" using Cons.prems(1) 1 accounted_line by blast
  then have "accounted ((done @ resolved e1) @ resolved e2) c2" using 2 by (rule Cons.IH)
  then show ?case using Cons.prems(2) 1 2 by auto
qed simp

lemma accounted_send:
  assumes "accounted done c" "ipc_send env a ps c = (c', es)"
  shows "accounted (done @ resolved es) c'"
proof (cases "ic_socket c = None")
  case True
  with assms show ?thesis by (auto simp: ipc_send_def)
next
  case False
  then have eqs: "c' = c\<lparr>ic_id := ic_id c + 1, ic_pending := set_add (ic_id c) (ic_pending c)\<rparr>" "resolved es = []"
    using assms(2) by (auto simp: ipc_send_def Let_def)
  have "ic_id c \<notin> set (done @ ic_pending c)" using assms(1) by (simp add: accounted_def)
  then show ?thesis using assms(1) by (simp add: eqs accounted_def set_add_def lessThan_Suc)
qed

lemma accounted_close:
  assumes "accounted done c" "onClose c = (c', es)"
  shows "accounted (done @ resolved es) c'"
proof (cases "ic_closed c")
  case True
  with assms show ?thesis by (simp add: onClose_def)
next
  case False
  then have eqs: "c' = c\<lparr>ic_closed := True, ic_connecting := False, ic_pending := []\<rparr>" "resolved es = ic_pending c"
    using assms(2) by (auto simp: onClose_def)
  show ?thesis using assms(1) by (simp add: eqs accounted_def)
qed

lemma accounted_data:
  assumes "accounted done c" "onData env d c = (c', es)"
  shows "accounted (done @ resolved es) c'"
proof -
  define ls where "ls = split_on 10 (ic_buffer c @ d)"
  have "accounted done (c\<lparr>ic_buffer := last ls\<rparr>)" using assms(1) by (simp add: accounted_def)
  moreover have "on_lines env (butlast ls) (c\<lparr>ic_buffer := last ls\<rparr>) = (c', es)"
    using assms(2) by (simp add: onData_def ls_def Let_def)
  ultimately show ?thesis by (rule accounted_lines)
qed

lemma connection_steps_keep_requests:
  "connectTcp env c = (c', es) \<Longrightarrow> ic_pending c' = ic_pending c \<and> ic_id c' = ic_id c \<and> resolved es = []"
  "ipc_connect env c = (c', es) \<Longrightarrow> ic_pending c' = ic_pending c \<and> ic_id c' = ic_id c \<and> resolved es = []"
  "authenticate env c = (c', es) \<Longrightarrow> ic_pending c' = ic_pending c \<and> ic_id c' = ic_id c \<and> resolved es = []"
  "socket_error env x m c = (c', es) \<Longrightarrow> ic_pending c' = ic_pending c \<and> ic_id c' = ic_id c \<and> resolved es = []"
  "ipc_close c = (c', es) \<Longrightarrow> ic_pending c' = ic_pending c \<and> ic_id c' = ic_id c \<and> resolved es = []"
  by (auto simp: connectTcp_def ipc_connect_def authenticate_def socket_error_def ipc_close_def Let_def
      split: if_splits option.splits endpoint.splits prod.splits)

lemma accounted_step:
  assumes "accounted done c" "ipc_step env e c = (c', es)"
  shows "accounted (done @ resolved es) c'"
proof (cases e)
  case (SocketData d)
  with assms show ?thesis by (simp add: accounted_data)
next
  case SocketClosed
  with assms show ?thesis by (simp add: accounted_close)
next
  case (SendCalled a ps)
  with assms show ?thesis by (simp add: accounted_send)
next
  case (EventHandler h on)
  then have "ic_pending c' = ic_pending c \<and> ic_id c' = ic_id c \<and> resolved es = []"
    using assms(2) by (auto simp: onEvent_def offEvent_def)
  with assms(1) show ?thesis by (simp add: accounted_def)
next
  case (DisconnectHandler h on)
  then have "ic_pending c' = ic_pending c \<and> ic_id c' = ic_id c \<and> resolved es = []"
    using assms(2) by (auto simp: onDisconnect_def offDisconnect_def)
  with assms(1) show ?thesis by (simp add: accounted_def)
next
  case Connect
  then have "ic_pending c' = ic_pending c \<and> ic_id c' = ic_id c \<and> resolved es = []"
    using assms(2) by (intro connection_steps_keep_requests(2)) simp
  with assms(1) show ?thesis by (simp add: accounted_def)
next
  case SocketConnected
  then have "ic_pending c' = ic_pending c \<and> ic_id c' = ic_id c \<and> resolved es = []"
    using assms(2) by (intro connection_steps_keep_requests(3)) simp
  with assms(1) show ?thesis by (simp add: accounted_def)
next
  case (SocketError x m)
  then have "ic_pending c' = ic_pending c \<and> ic_id c' = ic_id c \<and> resolved es = []"
    using assms(2) by (intro connection_steps_keep_requests(4)) simp
  with assms(1) show ?thesis by (simp add: accounted_def)
next
  case CloseCalled
  then have "ic_pending c' = ic_pending c \<and> ic_id c' = ic_id c \<and> resolved es = []"
    using assms(2) by (intro connection_steps_keep_requests(5)) simp
  with assms(1) show ?thesis by (simp add: accounted_def)
qed

lemma accounted_run:
  "accounted done c \<Longrightarrow> ipc_run env es c = (c', fs) \<Longrightarrow> accounted (done @ resolved fs) c'"
proof (induction es arbitrary: c c' "done" fs)
  case (Cons e es)
  obtain c1 f1 where 1: "ipc_step env e c = (c1, f1)" by fastforce
  obtain c2 f2 where 2: "ipc_run env es c1 = (c2, f2)" by fastforce
  have "accounted (done @ resolved f1) c1" using Cons.prems(1) 1 by (rule accounted_step)
  then have "accounted ((done @ resolved f1) @ resolved f2) c2" using 2 by (rule Cons.IH)
  then show ?case using Cons.prems(2) 1 2 by auto
qed simp

text \<open>C12. Every request is answered exactly once: in every run of a new client the requests issued so far are those
  answered, none of them twice, and those pending; when an open connection closes, none is left pending,
  so all of them have been answered.\<close>

theorem requests_answered_once:
  assumes "ipc_run env es ipc_new = (c, fs)"
  shows "distinct (resolved fs @ ic_pending c) \<and> set (resolved fs @ ic_pending c) = {..<ic_id c}
    \<and> (\<not> ic_closed c \<longrightarrow> ic_pending (fst (onClose c)) = []
        \<and> set (resolved (fs @ snd (onClose c))) = {..<ic_id c})"
proof -
  have "accounted [] ipc_new" by (simp add: accounted_def ipc_new_def lessThan_0)
  then have "accounted (resolved fs) c" using accounted_run [OF _ assms] by fastforce
  then show ?thesis by (simp add: accounted_def onClose_def)
qed

theorem requests_answered_once_witness:
  "case ipc_run sample_env [Connect, SendCalled (js ''a'') [], SendCalled (js ''b'') [], SocketData (js ''ok'' @ [10])] ipc_new of
     (c, fs) \<Rightarrow> resolved fs = [0] \<and> ic_pending c = [1] \<and> distinct (resolved fs @ ic_pending c)"
proof -
  define r where "r = ipc_run sample_env [Connect, SendCalled (js ''a'') [], SendCalled (js ''b'') [], SocketData (js ''ok'' @ [10])] ipc_new"
  have "resolved (snd r) = [0] \<and> ic_pending (fst r) = [1]" unfolding r_def by code_simp
  moreover have "distinct (resolved (snd r) @ ic_pending (fst r))"
    by (rule requests_answered_once [of sample_env "[Connect, SendCalled (js ''a'') [], SendCalled (js ''b'') [],
          SocketData (js ''ok'' @ [10])]" "fst r" "snd r", THEN conjunct1]) (simp add: r_def del: ipc_run.simps)
  ultimately show ?thesis unfolding r_def [symmetric] by (simp add: case_prod_beta)
qed

subsection \<open>Falling back to TCP\<close>

lemma not_connecting_line:
  "on_line env l c = (c', es) \<Longrightarrow> \<not> ic_connecting c \<Longrightarrow> \<not> ic_connecting c' \<and> ConnectResolved \<notin> set es"
  by (auto simp: on_line_def on_message_def split: if_split_asm option.split_asm json.split_asm)

lemma not_connecting_lines:
  "on_lines env ls c = (c', es) \<Longrightarrow> \<not> ic_connecting c \<Longrightarrow> \<not> ic_connecting c' \<and> ConnectResolved \<notin> set es"
proof (induction ls arbitrary: c es)
  case (Cons l ls)
  obtain c1 e1 where 1: "on_line env l c = (c1, e1)" by fastforce
  obtain c2 e2 where 2: "on_lines env ls c1 = (c2, e2)" by fastforce
  have "\<not> ic_connecting c1 \<and> ConnectResolved \<notin> set e1" using not_connecting_line [OF 1] Cons.prems(2) .
  moreover have "c2 = c'" "es = e1 @ e2" using Cons.prems(1) 1 2 by auto
  ultimately show ?case using Cons.IH [of c1 e2] 2 by simp
qed auto

lemma not_connecting_step:
  assumes "ipc_step env e c = (c', es)" "\<not> ic_connecting c" "e \<noteq> Connect"
  shows "\<not> ic_connecting c' \<and> ConnectResolved \<notin> set es"
proof (cases e)
  case (SocketData d)
  then show ?thesis
    using assms not_connecting_lines [of env _ "c\<lparr>ic_buffer := _\<rparr>" c' es] by (auto simp: onData_def Let_def)
next
  case Connect
  with assms show ?thesis by simp
qed (use assms in \<open>auto simp: authenticate_def socket_error_def connectTcp_def onClose_def ipc_close_def ipc_send_def
  onEvent_def offEvent_def onDisconnect_def offDisconnect_def Let_def split: if_split_asm option.split_asm endpoint.split_asm\<close>)

lemma not_connecting_run:
  "ipc_run env es c = (c', fs) \<Longrightarrow> \<not> ic_connecting c \<Longrightarrow> Connect \<notin> set es \<Longrightarrow> ConnectResolved \<notin> set fs"
proof (induction es arbitrary: c fs)
  case (Cons e es)
  obtain c1 f1 where 1: "ipc_step env e c = (c1, f1)" by fastforce
  obtain c2 f2 where 2: "ipc_run env es c1 = (c2, f2)" by fastforce
  have "\<not> ic_connecting c1 \<and> ConnectResolved \<notin> set f1"
    using not_connecting_step [OF 1] Cons.prems by auto
  moreover have "c2 = c'" "fs = f1 @ f2" using Cons.prems(1) 1 2 by auto
  ultimately show ?case using Cons.IH [of c1 f2] Cons.prems 2 by simp
qed simp

text \<open>The fallback from the Unix socket to TCP cannot complete a connection: once the failed Unix socket reports
  its close, which follows the error that started the fallback, the connection attempt is rejected as
  closed during authentication, and nothing that happens before the next attempt resolves it, not even
  a successful authentication over TCP.\<close>

theorem fallback_cannot_connect:
  assumes "env_forced_port env = None" and "\<not> env_win32 env"
    and "ipc_run env (Connect # SocketError UnixSocket m # SocketClosed # es) ipc_new = (c, fs)"
    and "Connect \<notin> set es"
  shows "ConnectRejected (js ''Connection closed during authentication'') \<in> set fs \<and> ConnectResolved \<notin> set fs"
proof -
  obtain c1 f1 where 1: "ipc_step env Connect ipc_new = (c1, f1)" by fastforce
  obtain c2 f2 where 2: "ipc_step env (SocketError UnixSocket m) c1 = (c2, f2)" by fastforce
  obtain c3 f3 where 3: "ipc_step env SocketClosed c2 = (c3, f3)" by fastforce
  obtain c4 f4 where 4: "ipc_run env es c3 = (c4, f4)" by fastforce
  have fs: "fs = f1 @ f2 @ f3 @ f4" using assms(3) 1 2 3 4 by auto
  have c1: "ic_connecting c1" "\<not> ic_closed c1" "\<not> ic_intentionallyClosed c1" "ConnectResolved \<notin> set f1"
    using 1 assms(1,2) by (auto simp: ipc_connect_def Let_def)
  have c2: "ic_connecting c2" "\<not> ic_closed c2" "\<not> ic_intentionallyClosed c2" "ConnectResolved \<notin> set f2"
    using 2 c1 by (auto simp: socket_error_def connectTcp_def split: option.splits)
  have c3: "\<not> ic_connecting c3" "ConnectRejected (js ''Connection closed during authentication'') \<in> set f3"
    "ConnectResolved \<notin> set f3"
    using 3 c2 by (auto simp: onClose_def)
  have "ConnectResolved \<notin> set f4" using not_connecting_run [OF 4 c3(1) assms(4)] .
  with c1 c2 c3 show ?thesis by (simp add: fs)
qed

end
