(* ===== verification/Versions.thy ===== *)
theory Versions
  imports ChatTypes "HOL-Library.Product_Lexorder" "HOL-Library.List_Lexorder" "HOL-Library.Code_Target_Numeral"
begin

text \<open>
  Release versions, \<open>parseVersion\<close>, \<open>isStableVersion\<close> and \<open>isNewerVersion\<close> of \<open>common/updater.ts\<close>, with
  the order they implement: the numbers first, then snapshots below the release below its numbered
  revisions. Numbers are exact; those of the code are, up to \<open>2^53\<close>.
\<close>

subsection \<open>Parsing\<close>

record version =
  ver_parts :: "nat list"
  ver_revision :: nat
  ver_snapshotRun :: "nat option"

definition version_char :: "nat \<Rightarrow> bool" where
  "version_char c \<longleftrightarrow> is_digit c \<or> is_letter c \<or> c = 46 \<or> c = 45"

text \<open>A run of digits at the front, at least one: its value and the rest.\<close>

definition take_number :: "jsstr \<Rightarrow> (nat \<times> jsstr) option" where
  "take_number s = (let d = takeWhile is_digit s in
     if d = [] then None else Some (digits_value d, drop (length d) s))"

definition take_char :: "nat \<Rightarrow> jsstr \<Rightarrow> jsstr option" where
  "take_char c s = (case s of d # r \<Rightarrow> if d = c then Some r else None | [] \<Rightarrow> None)"

text \<open>An optional group: the separator \<open>c\<close> and at least one version character.\<close>

definition take_group :: "nat \<Rightarrow> jsstr \<Rightarrow> (jsstr option \<times> jsstr)" where
  "take_group c s =
     (case take_char c s of
        None \<Rightarrow> (None, s)
      | Some r \<Rightarrow> let g = takeWhile version_char r in
          if g = [] then (None, s) else (Some g, drop (length g) r))"

text \<open>The match of the pattern: the three numbers, the pre-release and the build.\<close>

definition match_version :: "jsstr \<Rightarrow> (nat list \<times> jsstr option \<times> jsstr option) option" where
  "match_version s =
     (case take_number s of None \<Rightarrow> None | Some (a, s1) \<Rightarrow>
      case take_char 46 s1 of None \<Rightarrow> None | Some s2 \<Rightarrow>
      case take_number s2 of None \<Rightarrow> None | Some (b, s3) \<Rightarrow>
      case take_char 46 s3 of None \<Rightarrow> None | Some s4 \<Rightarrow>
      case take_number s4 of None \<Rightarrow> None | Some (c, s5) \<Rightarrow>
      case take_group 45 s5 of (pre, s6) \<Rightarrow>
      case take_group 43 s6 of (build, s7) \<Rightarrow>
        if s7 = [] then Some ([a, b, c], pre, build) else None)"

definition strip_v :: "jsstr \<Rightarrow> jsstr" where
  "strip_v s = (case s of c # r \<Rightarrow> if c = 118 then r else s | [] \<Rightarrow> [])"

definition parseVersion :: "jsstr \<Rightarrow> version option" where
  "parseVersion value =
     (case match_version (strip_v value) of
        None \<Rightarrow> None
      | Some (parts, None, build) \<Rightarrow> Some \<lparr>ver_parts = parts, ver_revision = 0, ver_snapshotRun = None\<rparr>
      | Some (parts, Some pre, build) \<Rightarrow>
          if list_all is_digit pre
          then Some \<lparr>ver_parts = parts, ver_revision = digits_value pre, ver_snapshotRun = None\<rparr>
          else
            let run = (case build of
                         Some b \<Rightarrow> (case take_number b of Some (n, r) \<Rightarrow> n | None \<Rightarrow> 0)
                       | None \<Rightarrow> 0)
            in Some \<lparr>ver_parts = parts, ver_revision = 0, ver_snapshotRun = Some run\<rparr>)"

definition isStableVersion :: "jsstr \<Rightarrow> bool" where
  "isStableVersion value = (case parseVersion value of Some v \<Rightarrow> ver_snapshotRun v = None | None \<Rightarrow> False)"

subsection \<open>Comparing\<close>

definition version_rank :: "version \<Rightarrow> nat" where
  "version_rank v = (if ver_snapshotRun v \<noteq> None then 0 else if 0 < ver_revision v then 2 else 1)"

fun newer_parts :: "nat list \<Rightarrow> nat list \<Rightarrow> bool option" where
  "newer_parts (a # as) (b # bs) = (if a \<noteq> b then Some (b < a) else newer_parts as bs)"
| "newer_parts _ _ = None"

definition newer_version :: "version \<Rightarrow> version \<Rightarrow> bool" where
  "newer_version latest installed =
     (case newer_parts (ver_parts latest) (ver_parts installed) of
        Some b \<Rightarrow> b
      | None \<Rightarrow>
          if version_rank latest \<noteq> version_rank installed then version_rank latest > version_rank installed
          else case (ver_snapshotRun latest, ver_snapshotRun installed) of
              (Some m, Some n) \<Rightarrow> m > n
            | _ \<Rightarrow> ver_revision latest > ver_revision installed)"

definition isNewerVersion :: "jsstr \<Rightarrow> jsstr \<Rightarrow> bool" where
  "isNewerVersion latest current =
     (case (parseVersion latest, parseVersion current) of
        (Some l, Some i) \<Rightarrow> newer_version l i
      | _ \<Rightarrow> False)"

subsection \<open>The order of versions\<close>

text \<open>How finished a release is, in order: a snapshot run, the release, a revision of it.\<close>

datatype release_stage = Snapshot nat | Final | Revision nat

instantiation release_stage :: linorder
begin

fun less_eq_release_stage :: "release_stage \<Rightarrow> release_stage \<Rightarrow> bool" where
  "less_eq_release_stage (Snapshot m) (Snapshot n) = (m \<le> n)"
| "less_eq_release_stage (Snapshot m) _ = True"
| "less_eq_release_stage Final (Snapshot n) = False"
| "less_eq_release_stage Final _ = True"
| "less_eq_release_stage (Revision m) (Revision n) = (m \<le> n)"
| "less_eq_release_stage (Revision m) _ = False"

definition less_release_stage :: "release_stage \<Rightarrow> release_stage \<Rightarrow> bool" where
  "less_release_stage a b \<longleftrightarrow> a \<le> b \<and> \<not> b \<le> a"

instance
proof
  fix x y z :: release_stage
  show "x < y \<longleftrightarrow> x \<le> y \<and> \<not> y \<le> x" by (rule less_release_stage_def)
  show "x \<le> x" by (cases x) auto
  show "x \<le> y \<or> y \<le> x" by (cases x; cases y) auto
  assume "x \<le> y"
  then show "y \<le> z \<Longrightarrow> x \<le> z" by (cases x; cases y; cases z) auto
  from \<open>x \<le> y\<close> show "y \<le> x \<Longrightarrow> x = y" by (cases x; cases y) auto
qed

end

definition version_stage :: "version \<Rightarrow> release_stage" where
  "version_stage v =
     (case ver_snapshotRun v of
        Some n \<Rightarrow> Snapshot n
      | None \<Rightarrow> if 0 < ver_revision v then Revision (ver_revision v) else Final)"

definition version_key :: "version \<Rightarrow> nat list \<times> release_stage" where
  "version_key v = (ver_parts v, version_stage v)"

lemma newer_parts_order:
  "length as = length bs \<Longrightarrow> newer_parts as bs = (if as = bs then None else Some (bs < as))"
  by (induction as bs rule: newer_parts.induct) (auto simp: less_list_code)

lemma newer_version_key:
  assumes "length (ver_parts l) = length (ver_parts i)"
  shows "newer_version l i \<longleftrightarrow> version_key i < version_key l"
  using newer_parts_order [OF assms]
  by (auto simp: newer_version_def version_key_def version_rank_def version_stage_def less_release_stage_def less_prod_def
      split: option.splits)

lemma parse_parts: "parseVersion s = Some v \<Longrightarrow> length (ver_parts v) = 3"
  by (auto simp: parseVersion_def match_version_def Let_def split: option.splits prod.splits if_splits)

lemma isNewerVersion_key:
  "isNewerVersion a b \<longleftrightarrow> (\<exists>l i. parseVersion a = Some l \<and> parseVersion b = Some i \<and> version_key i < version_key l)"
  by (auto simp: isNewerVersion_def newer_version_key parse_parts split: option.splits)

text \<open>C14. The comparison of releases is the strict part of a linear order: one version is newer than another exactly
  when both parse and its numbers, then its stage (snapshot runs, then the release, then its revisions),
  are larger. So nothing is newer than itself, newer is transitive, and of two versions one is newer
  unless they have the same numbers and stage.\<close>

theorem newer_is_an_order:
  "(isNewerVersion a b \<longleftrightarrow> (\<exists>l i. parseVersion a = Some l \<and> parseVersion b = Some i \<and> version_key i < version_key l))
   \<and> \<not> isNewerVersion a a
   \<and> (isNewerVersion a b \<longrightarrow> isNewerVersion b c \<longrightarrow> isNewerVersion a c)
   \<and> (parseVersion a \<noteq> None \<longrightarrow> parseVersion b \<noteq> None \<longrightarrow>
        isNewerVersion a b \<or> isNewerVersion b a \<or> map_option version_key (parseVersion a) = map_option version_key (parseVersion b))"
proof (intro conjI impI)
  show "isNewerVersion a c" if "isNewerVersion a b" "isNewerVersion b c"
    using that unfolding isNewerVersion_key by (auto intro: less_trans)
  show "isNewerVersion a b \<or> isNewerVersion b a \<or> map_option version_key (parseVersion a) = map_option version_key (parseVersion b)"
    if parsed: "parseVersion a \<noteq> None" "parseVersion b \<noteq> None"
  proof -
    obtain l i where li: "parseVersion a = Some l" "parseVersion b = Some i" using parsed by blast
    consider "version_key i < version_key l" | "version_key l < version_key i" | "version_key l = version_key i"
      by (metis linorder_less_linear)
    then show ?thesis using li unfolding isNewerVersion_key by cases auto
  qed
qed (auto simp: isNewerVersion_key)

theorem newer_is_an_order_witness:
  "isNewerVersion (js ''0.24.13-1'') (js ''v0.24.13-SNAPSHOT+250-4b1cbcd'')"
proof -
  have "isNewerVersion (js ''0.24.13-1'') (js ''0.24.13'')" "isNewerVersion (js ''0.24.13'') (js ''v0.24.13-SNAPSHOT+250-4b1cbcd'')"
    by code_simp+
  then show ?thesis
    using newer_is_an_order [of "js ''0.24.13-1''" "js ''0.24.13''" "js ''v0.24.13-SNAPSHOT+250-4b1cbcd''"] by blast
qed

end
