(* ===== verification/JsValue.thy ===== *)
theory JsValue
  imports JsText
begin

text \<open>
  Values of \<open>JSON.parse\<close> as the code handles them: truth, properties that may be missing, property access
  and assignment that may throw, and errors as values.
\<close>

datatype js_error = TypeError | AuthenticationError | ErrorMessage jsstr

type_synonym 'a outcome = "js_error + 'a"

fun json_truthy :: "json option \<Rightarrow> bool" where
  "json_truthy None = False"
| "json_truthy (Some JNull) = False"
| "json_truthy (Some (JBool b)) = b"
| "json_truthy (Some (JNum n)) = (n \<noteq> 0)"
| "json_truthy (Some (JStr s)) = (s \<noteq> [])"
| "json_truthy (Some _) = True"

text \<open>Reading a property: of \<open>null\<close> it throws, of anything but an object it is \<open>undefined\<close>.\<close>

fun own :: "json \<Rightarrow> string \<Rightarrow> json option outcome" where
  "own JNull k = Inl TypeError"
| "own (JObj o') k = Inr (field o' k)"
| "own _ k = Inr None"

fun string_value :: "json option \<Rightarrow> jsstr option" where
  "string_value (Some (JStr s)) = Some s"
| "string_value _ = None"

text \<open>Assigning and deleting a property: on a primitive it throws, on an array it is not written out.\<close>

fun assign :: "json \<Rightarrow> string \<Rightarrow> json \<Rightarrow> json outcome" where
  "assign (JObj o') k v = Inr (JObj (map_set (js k) v o'))"
| "assign (JArr xs) k v = Inr (JArr xs)"
| "assign _ k v = Inl TypeError"

fun delete_prop :: "json \<Rightarrow> string \<Rightarrow> json outcome" where
  "delete_prop JNull k = Inl TypeError"
| "delete_prop (JObj o') k = Inr (JObj (map_del (js k) o'))"
| "delete_prop j k = Inr j"

definition and_then :: "'a outcome \<Rightarrow> ('a \<Rightarrow> 'b outcome) \<Rightarrow> 'b outcome" where
  "and_then r f = (case r of Inl e \<Rightarrow> Inl e | Inr x \<Rightarrow> f x)"

lemma and_then_Inr: "and_then r f = Inr y \<longleftrightarrow> (\<exists>x. r = Inr x \<and> f x = Inr y)"
  by (auto simp: and_then_def split: sum.splits)

text \<open>A property of a value that is known not to be \<open>null\<close>.\<close>

definition prop_of :: "json \<Rightarrow> string \<Rightarrow> json option" where
  "prop_of j k = (case j of JObj o' \<Rightarrow> field o' k | _ \<Rightarrow> None)"

lemma string_value_Some: "string_value v = Some s \<longleftrightarrow> v = Some (JStr s)"
  by (cases v rule: string_value.cases) auto

subsection \<open>Values in a template\<close>

text \<open>
  \<open>String(v)\<close> of a parsed value: an array joins its elements, an object has no text of its own
  (an object with an own property \<open>toString\<close> is not written out). The text of a number is an argument.
\<close>

fun element_text :: "(rat \<Rightarrow> jsstr) \<Rightarrow> json \<Rightarrow> jsstr" where
  "element_text nt JNull = []"
| "element_text nt (JBool b) = (if b then js ''true'' else js ''false'')"
| "element_text nt (JNum n) = nt n"
| "element_text nt (JStr s) = s"
| "element_text nt (JArr xs) = join_on [44] (map (element_text nt) xs)"
| "element_text nt (JObj kvs) = js ''[object Object]''"

definition value_text :: "(rat \<Rightarrow> jsstr) \<Rightarrow> json option \<Rightarrow> jsstr" where
  "value_text nt v = (case v of
     None \<Rightarrow> js ''undefined'' | Some JNull \<Rightarrow> js ''null'' | Some j \<Rightarrow> element_text nt j)"

text \<open>\<open>a ?? b\<close>.\<close>

fun nullish :: "json option \<Rightarrow> bool" where
  "nullish None = True"
| "nullish (Some JNull) = True"
| "nullish _ = False"

definition or_else :: "json option \<Rightarrow> json option \<Rightarrow> json option" where
  "or_else a b = (if nullish a then b else a)"

end
