(* ===== verification/Updater.thy ===== *)
theory Updater
  imports Versions JsValue PosixPath
begin

text \<open>
  The updater of the client, \<open>common/updater.ts\<close>: the settings it reads and writes, the choice of a
  release on GitHub, and the checks on what an update may contain. The network, the \<open>gh\<close> command, the
  settings file and the platform are the environment. A value of \<open>JSON.parse\<close> may be of any shape, so
  reading a property of it can throw; errors are values.
\<close>

subsection \<open>Settings\<close>

datatype update_channel = Stable | Unstable

fun channel_text :: "update_channel \<Rightarrow> jsstr" where
  "channel_text Stable = js ''stable''"
| "channel_text Unstable = js ''unstable''"

text \<open>The settings file: its parsed content, or \<open>None\<close> when it is missing, not a regular file or not JSON.\<close>

type_synonym settings_file = "json option"

definition readUpdateChannel :: "settings_file \<Rightarrow> update_channel" where
  "readUpdateChannel settings =
     (case settings of
        None \<Rightarrow> Stable
      | Some j \<Rightarrow> (case own j ''update_channel'' of
            Inr (Some (JStr s)) \<Rightarrow> if s = js ''unstable'' then Unstable else Stable
          | _ \<Rightarrow> Stable))"

definition default_settings :: json where
  "default_settings = JObj [(js ''version'', JNum 1)]"

definition current_settings :: "settings_file \<Rightarrow> json" where
  "current_settings settings = (case settings of Some j \<Rightarrow> j | None \<Rightarrow> default_settings)"

text \<open>The content written, before it is turned into text.\<close>

definition saveUpdateChannel :: "update_channel \<Rightarrow> settings_file \<Rightarrow> json outcome" where
  "saveUpdateChannel channel settings =
     assign (current_settings settings) ''update_channel'' (JStr (channel_text channel))"

definition githubSettings :: "settings_file \<Rightarrow> json" where
  "githubSettings settings = (case settings of Some j \<Rightarrow> j | None \<Rightarrow> JObj [])"

definition saveGithubToken :: "jsstr option \<Rightarrow> settings_file \<Rightarrow> json outcome" where
  "saveGithubToken token settings =
     (if truthy token then assign (current_settings settings) ''github_token'' (JStr (the token))
      else delete_prop (current_settings settings) ''github_token'')"

definition isGitHubName :: "jsstr \<Rightarrow> bool" where
  "isGitHubName s = (case s of
     [] \<Rightarrow> False
   | c # r \<Rightarrow> (is_letter c \<or> is_digit c) \<and> list_all (\<lambda>c. is_letter c \<or> is_digit c \<or> c = 95 \<or> c = 46 \<or> c = 45) r)"

definition name_error :: js_error where
  "name_error = ErrorMessage (js ''GitHub user and repository names may contain only letters, numbers, dots, underscores, and hyphens.'')"

definition saveGithubRepository :: "jsstr option \<Rightarrow> jsstr option \<Rightarrow> settings_file \<Rightarrow> json outcome" where
  "saveGithubRepository user repo settings =
     (if truthy user \<and> truthy repo \<and> (\<not> isGitHubName (the user) \<or> \<not> isGitHubName (the repo)) then Inl name_error
      else if truthy user \<and> truthy repo
      then and_then (assign (current_settings settings) ''github_user'' (JStr (the user)))
             (\<lambda>j. assign j ''github_repo'' (JStr (the repo)))
      else and_then (delete_prop (current_settings settings) ''github_user'') (\<lambda>j. delete_prop j ''github_repo''))"

text \<open>A name from the environment variable, else from the settings, else the default.\<close>

definition pick_name :: "jsstr option \<Rightarrow> json \<Rightarrow> string \<Rightarrow> string \<Rightarrow> jsstr outcome" where
  "pick_name variable settings key fallback =
     (if (case variable of Some v \<Rightarrow> trim v \<noteq> [] | None \<Rightarrow> False) then Inr (trim (the variable))
      else and_then (own settings key) (\<lambda>v. case string_value v of
          Some s \<Rightarrow> Inr (if trim s \<noteq> [] then trim s else js fallback)
        | None \<Rightarrow> Inr (js fallback)))"

definition githubRepository :: "jsstr option \<Rightarrow> jsstr option \<Rightarrow> settings_file \<Rightarrow> jsstr outcome" where
  "githubRepository env_user env_repo settings =
     and_then (pick_name env_user (githubSettings settings) ''github_user'' ''QinCai-rui'') (\<lambda>user.
     and_then (pick_name env_repo (githubSettings settings) ''github_repo'' ''MeshTalk'') (\<lambda>repo.
       if \<not> isGitHubName user \<or> \<not> isGitHubName repo then Inl name_error
       else Inr (user @ 47 # repo)))"

definition githubToken :: "settings_file \<Rightarrow> jsstr option outcome" where
  "githubToken settings =
     and_then (own (githubSettings settings) ''github_token'') (\<lambda>v. Inr (case string_value v of
         Some t \<Rightarrow> if trim t \<noteq> [] then Some (trim t) else None
       | None \<Rightarrow> None))"

subsection \<open>Releases on GitHub\<close>

text \<open>The answer of a request: it may fail, or have a status and a body that may not parse. The outcome of the
  \<open>gh\<close> command: \<open>None\<close> when it cannot run, fails or prints no JSON.\<close>

datatype http_answer = HttpFailed | HttpAnswer nat "json option"

record update_env =
  ue_settings :: settings_file
  ue_user :: "jsstr option"
  ue_repo :: "jsstr option"
  ue_platform :: jsstr
  ue_arch :: jsstr
  ue_fetch :: "jsstr \<Rightarrow> jsstr option \<Rightarrow> http_answer"
  ue_gh :: "jsstr list \<Rightarrow> json option"

definition status_ok :: "nat \<Rightarrow> bool" where
  "status_ok n \<longleftrightarrow> 200 \<le> n \<and> n < 300"

definition repository_url :: "update_env \<Rightarrow> jsstr outcome" where
  "repository_url env = and_then (githubRepository (ue_user env) (ue_repo env) (ue_settings env))
     (\<lambda>r. Inr (js ''https://api.github.com/repos/'' @ r))"

definition fetch_json :: "update_env \<Rightarrow> string \<Rightarrow> jsstr option \<Rightarrow> json option \<times> bool" where
  "fetch_json env path token =
     (case repository_url env of
        Inl e \<Rightarrow> (None, False)
      | Inr url \<Rightarrow>
          (case ue_fetch env (url @ js path) token of
             HttpFailed \<Rightarrow> (None, False)
           | HttpAnswer status body \<Rightarrow>
               if \<not> status_ok status then (None, status \<in> {401, 403, 404})
               else (body, False)))"

definition fetchRelease :: "update_env \<Rightarrow> jsstr option \<Rightarrow> json option \<times> bool" where
  "fetchRelease env token = fetch_json env ''/releases/latest'' token"

definition json_list :: "json option \<Rightarrow> json list" where
  "json_list j = (case j of Some (JArr xs) \<Rightarrow> xs | _ \<Rightarrow> [])"

definition fetchReleases :: "update_env \<Rightarrow> jsstr option \<Rightarrow> json list \<times> bool" where
  "fetchReleases env token =
     (case fetch_json env ''/releases?per_page=10'' token of (body, denied) \<Rightarrow> (json_list body, denied))"

definition gh_json :: "update_env \<Rightarrow> string \<Rightarrow> jsstr list \<Rightarrow> json option" where
  "gh_json env path options =
     (case githubRepository (ue_user env) (ue_repo env) (ue_settings env) of
        Inl e \<Rightarrow> None
      | Inr r \<Rightarrow> ue_gh env ([js ''gh'', js ''api'', js ''repos/'' @ r @ js path] @ options))"

definition ghRelease :: "update_env \<Rightarrow> json option" where
  "ghRelease env = gh_json env ''/releases/latest'' []"

definition ghReleases :: "update_env \<Rightarrow> json list" where
  "ghReleases env = json_list (gh_json env ''/releases'' [js ''--paginate''])"

definition platformAssetName :: "jsstr \<Rightarrow> jsstr \<Rightarrow> jsstr option" where
  "platformAssetName platform arch =
     (let platform = (if platform = js ''darwin'' then js ''macos'' else platform) in
      if arch \<notin> {js ''x64'', js ''arm64''} \<or> platform \<notin> {js ''linux'', js ''macos'', js ''win32''} then None
      else
        let win = (platform = js ''win32'');
            releasePlatform = (if win then js ''windows'' else platform);
            assetArch = (if win \<and> arch = js ''arm64'' then js ''x64'' else arch)
        in Some (js ''meshtalk-'' @ releasePlatform @ [45] @ assetArch @ (if win then js ''.exe'' else []) @ js ''.tar.gz''))"

text \<open>\<open>assets?.find(candidate => candidate.name === assetName)\<close>: a \<open>null\<close> candidate throws.\<close>

fun find_asset :: "jsstr \<Rightarrow> json list \<Rightarrow> json option outcome" where
  "find_asset name [] = Inr None"
| "find_asset name (a # as) =
     and_then (own a ''name'') (\<lambda>n. if n = Some (JStr name) then Inr (Some a) else find_asset name as)"

definition assets_find :: "jsstr \<Rightarrow> json option \<Rightarrow> json option outcome" where
  "assets_find name assets = (case assets of
     None \<Rightarrow> Inr None
   | Some JNull \<Rightarrow> Inr None
   | Some (JArr xs) \<Rightarrow> find_asset name xs
   | Some _ \<Rightarrow> Inl TypeError)"

definition asRelease :: "update_env \<Rightarrow> json option \<Rightarrow> bool \<Rightarrow> release option outcome" where
  "asRelease env value allowPrerelease =
     (let assetName = platformAssetName (ue_platform env) (ue_arch env) in
      if \<not> json_truthy value then Inr None
      else let v = the value in
        if json_truthy (prop_of v ''draft'') \<or> (\<not> allowPrerelease \<and> json_truthy (prop_of v ''prerelease''))
          \<or> string_value (prop_of v ''tag_name'') = None \<or> assetName = None
        then Inr None
        else
          let tag = the (string_value (prop_of v ''tag_name''));
              version = strip_v tag in
          if parseVersion version = None then Inr None
          else and_then (assets_find (the assetName) (prop_of v ''assets'')) (\<lambda>asset. case asset of
              None \<Rightarrow> Inr None
            | Some a \<Rightarrow> (case string_value (prop_of a ''browser_download_url'') of
                  None \<Rightarrow> Inr None
                | Some url \<Rightarrow> Inr (Some \<lparr>rel_tag = tag, rel_version = version, rel_assetName = the assetName,
                    rel_downloadUrl = url, rel_digest = string_value (prop_of a ''digest'')\<rparr>))))"

fun newestUsable :: "update_env \<Rightarrow> json list \<Rightarrow> bool \<Rightarrow> release option outcome" where
  "newestUsable env [] allow = Inr None"
| "newestUsable env (c # cs) allow =
     and_then (asRelease env (Some c) allow) (\<lambda>r. case r of
         Some rel \<Rightarrow> Inr (Some rel)
       | None \<Rightarrow> newestUsable env cs allow)"

text \<open>The release of the first source that has a usable one, and whether access was denied on the way.\<close>

definition public_release :: "update_env \<Rightarrow> bool \<Rightarrow> (release option \<times> bool) outcome" where
  "public_release env allow =
     (if allow then
        (case fetchReleases env None of (releases, denied) \<Rightarrow>
           and_then (newestUsable env releases True) (\<lambda>r. case r of
               Some rel \<Rightarrow> Inr (Some rel, denied)
             | None \<Rightarrow> and_then (newestUsable env (ghReleases env) True) (\<lambda>r. Inr (r, denied))))
      else
        (case fetchRelease env None of (value, denied) \<Rightarrow>
           and_then (asRelease env value False) (\<lambda>r. case r of
               Some rel \<Rightarrow> Inr (Some rel, denied)
             | None \<Rightarrow> and_then (asRelease env (ghRelease env) False) (\<lambda>r. Inr (r, denied)))))"

definition authenticated_release :: "update_env \<Rightarrow> bool \<Rightarrow> jsstr \<Rightarrow> (release option \<times> bool) outcome" where
  "authenticated_release env allow token =
     (if allow then
        (case fetchReleases env (Some token) of (releases, denied) \<Rightarrow>
           and_then (newestUsable env releases True) (\<lambda>r. Inr (r, denied)))
      else
        (case fetchRelease env (Some token) of (value, denied) \<Rightarrow>
           and_then (asRelease env value False) (\<lambda>r. Inr (r, denied))))"

definition checkForUpdate :: "update_env \<Rightarrow> jsstr \<Rightarrow> update_channel \<Rightarrow> release option outcome" where
  "checkForUpdate env currentVersion channel =
     (let allowPrerelease = (channel = Unstable) in
      and_then (public_release env allowPrerelease) (\<lambda>(release, accessDenied).
      and_then (githubToken (ue_settings env)) (\<lambda>token.
      and_then (case (release, token) of
                  (None, Some t) \<Rightarrow> and_then (authenticated_release env allowPrerelease t)
                    (\<lambda>(r, denied). Inr (r, accessDenied \<or> denied))
                | _ \<Rightarrow> Inr (release, accessDenied)) (\<lambda>(release, accessDenied).
        if release = None \<and> accessDenied then Inl AuthenticationError
        else Inr (case release of
            Some r \<Rightarrow> if isNewerVersion (rel_version r) currentVersion then Some r else None
          | None \<Rightarrow> None)))))"

subsection \<open>What is offered\<close>

text \<open>A release is made from an answer of GitHub that is no draft, has a version and an asset for the platform.\<close>

definition release_of :: "update_env \<Rightarrow> bool \<Rightarrow> json \<Rightarrow> release \<Rightarrow> bool" where
  "release_of env allow v r \<longleftrightarrow>
     \<not> json_truthy (prop_of v ''draft'') \<and> (allow \<or> \<not> json_truthy (prop_of v ''prerelease''))
     \<and> prop_of v ''tag_name'' = Some (JStr (rel_tag r)) \<and> rel_version r = strip_v (rel_tag r)
     \<and> parseVersion (rel_version r) \<noteq> None
     \<and> platformAssetName (ue_platform env) (ue_arch env) = Some (rel_assetName r)
     \<and> (\<exists>assets a. prop_of v ''assets'' = Some (JArr assets) \<and> a \<in> set assets
          \<and> prop_of a ''name'' = Some (JStr (rel_assetName r))
          \<and> prop_of a ''browser_download_url'' = Some (JStr (rel_downloadUrl r))
          \<and> rel_digest r = string_value (prop_of a ''digest''))"

text \<open>Everything GitHub answered on the way.\<close>

definition github_answers :: "update_env \<Rightarrow> bool \<Rightarrow> json set" where
  "github_answers env allow =
     (if allow then set (ghReleases env) \<union> (\<Union>token. set (fst (fetchReleases env token)))
      else set_option (ghRelease env) \<union> (\<Union>token. set_option (fst (fetchRelease env token))))"

lemma find_asset_Some:
  "find_asset name xs = Inr (Some a) \<Longrightarrow> a \<in> set xs \<and> prop_of a ''name'' = Some (JStr name)"
proof (induction xs)
  case (Cons b bs)
  obtain n where n: "own b ''name'' = Inr n" using Cons.prems by (auto simp: and_then_Inr)
  show ?case
  proof (cases "n = Some (JStr name)")
    case True
    then show ?thesis using Cons.prems n by (cases b) (auto simp: and_then_def prop_of_def)
  next
    case False
    then show ?thesis using Cons n by (simp add: and_then_def)
  qed
qed simp

lemma assets_find_Some:
  "assets_find name assets = Inr (Some a) \<Longrightarrow> \<exists>xs. assets = Some (JArr xs) \<and> a \<in> set xs \<and> prop_of a ''name'' = Some (JStr name)"
  by (auto simp: assets_find_def dest: find_asset_Some split: option.splits json.splits)

lemma asRelease_Some:
  assumes "asRelease env value allow = Inr (Some r)"
  shows "\<exists>v. value = Some v \<and> release_of env allow v r"
proof -
  obtain v where v: "value = Some v" using assms by (cases "value") (auto simp: asRelease_def)
  obtain tag name where tag: "prop_of v ''tag_name'' = Some (JStr tag)"
    and name: "platformAssetName (ue_platform env) (ue_arch env) = Some name"
    and ok: "\<not> json_truthy (prop_of v ''draft'')" "allow \<or> \<not> json_truthy (prop_of v ''prerelease'')"
      "parseVersion (strip_v tag) \<noteq> None"
    using assms v by (auto simp: asRelease_def Let_def string_value_Some split: if_splits)
  then have "and_then (assets_find name (prop_of v ''assets'')) (\<lambda>asset. case asset of
      None \<Rightarrow> Inr None
    | Some a \<Rightarrow> (case string_value (prop_of a ''browser_download_url'') of
          None \<Rightarrow> Inr None
        | Some url \<Rightarrow> Inr (Some \<lparr>rel_tag = tag, rel_version = strip_v tag, rel_assetName = name,
            rel_downloadUrl = url, rel_digest = string_value (prop_of a ''digest'')\<rparr>))) = Inr (Some r)"
    using assms unfolding asRelease_def Let_def v name tag string_value.simps option.sel by (auto split: if_splits)
  then obtain a url where "assets_find name (prop_of v ''assets'') = Inr (Some a)"
    "prop_of a ''browser_download_url'' = Some (JStr url)"
    "r = \<lparr>rel_tag = tag, rel_version = strip_v tag, rel_assetName = name, rel_downloadUrl = url,
       rel_digest = string_value (prop_of a ''digest'')\<rparr>"
    by (auto simp: and_then_Inr string_value_Some split: option.splits)
  with tag name ok v show ?thesis by (auto simp: release_of_def dest!: assets_find_Some)
qed

lemma newestUsable_Some:
  "newestUsable env vs allow = Inr (Some r) \<Longrightarrow> \<exists>v \<in> set vs. release_of env allow v r"
proof (induction vs)
  case (Cons v vs)
  then show ?case by (auto simp: and_then_Inr dest: asRelease_Some split: option.splits)
qed simp

lemma public_release_Some:
  assumes "public_release env allow = Inr (Some r, d)"
  shows "\<exists>v \<in> github_answers env allow. release_of env allow v r"
proof (cases allow)
  case True
  obtain vs b where f: "fetchReleases env None = (vs, b)" by fastforce
  have "newestUsable env vs True = Inr (Some r) \<or> newestUsable env (ghReleases env) True = Inr (Some r)"
    using assms True f by (auto simp: public_release_def and_then_Inr split: option.splits)
  then obtain v where v: "v \<in> set vs \<union> set (ghReleases env)" "release_of env True v r"
    using newestUsable_Some by blast
  have "set vs = set (fst (fetchReleases env None))" by (simp add: f)
  with v True show ?thesis unfolding github_answers_def by auto
next
  case False
  obtain j b where f: "fetchRelease env None = (j, b)" by fastforce
  have "asRelease env j False = Inr (Some r) \<or> asRelease env (ghRelease env) False = Inr (Some r)"
    using assms False f by (auto simp: public_release_def and_then_Inr split: option.splits)
  then obtain v where v: "j = Some v \<or> ghRelease env = Some v" "release_of env False v r"
    using asRelease_Some by blast
  have "j = fst (fetchRelease env None)" by (simp add: f)
  with v False show ?thesis unfolding github_answers_def by (auto simp: UN_I)
qed

lemma authenticated_release_Some:
  assumes "authenticated_release env allow t = Inr (Some r, d)"
  shows "\<exists>v \<in> github_answers env allow. release_of env allow v r"
proof (cases allow)
  case True
  obtain vs b where f: "fetchReleases env (Some t) = (vs, b)" by fastforce
  have "newestUsable env vs True = Inr (Some r)"
    using assms True f by (auto simp: authenticated_release_def and_then_Inr)
  then obtain v where v: "v \<in> set vs" "release_of env True v r" using newestUsable_Some by blast
  have "set vs = set (fst (fetchReleases env (Some t)))" by (simp add: f)
  with v True show ?thesis unfolding github_answers_def by auto
next
  case False
  obtain j b where f: "fetchRelease env (Some t) = (j, b)" by fastforce
  have "asRelease env j False = Inr (Some r)"
    using assms False f by (auto simp: authenticated_release_def and_then_Inr)
  then obtain v where v: "j = Some v" "release_of env False v r" using asRelease_Some by blast
  have "j = fst (fetchRelease env (Some t))" by (simp add: f)
  with v False show ?thesis unfolding github_answers_def by (auto simp: UN_I)
qed

text \<open>C15. What the updater offers: a release it returns is newer than the installed version, has the asset of this
  platform with its download address, comes from an answer of GitHub for the channel, is no draft, and
  on the stable channel is no pre-release.\<close>

theorem offered_update:
  assumes "checkForUpdate env current channel = Inr (Some r)"
  shows "isNewerVersion (rel_version r) current
    \<and> (\<exists>v \<in> github_answers env (channel = Unstable). release_of env (channel = Unstable) v r)"
proof -
  obtain rel d token where p: "public_release env (channel = Unstable) = Inr (rel, d)"
    and t: "githubToken (ue_settings env) = Inr token"
    using assms by (auto simp: checkForUpdate_def and_then_Inr Let_def)
  have newer: "isNewerVersion (rel_version r) current"
    using assms by (auto simp: checkForUpdate_def and_then_Inr Let_def split: prod.splits option.splits if_splits)
  show ?thesis
  proof (cases rel)
    case (Some r')
    then have "r = r'"
      using assms p t by (auto simp: checkForUpdate_def and_then_def Let_def split: if_splits)
    with Some p newer show ?thesis using public_release_Some by blast
  next
    case None
    then obtain tok d' where "authenticated_release env (channel = Unstable) tok = Inr (Some r, d')"
      using assms p t
      by (auto simp: checkForUpdate_def and_then_def Let_def split: option.splits sum.splits prod.splits if_splits)
    with newer show ?thesis using authenticated_release_Some by blast
  qed
qed

definition sample_release :: "string \<Rightarrow> bool \<Rightarrow> json" where
  "sample_release tag pre = JObj [(js ''tag_name'', JStr (js tag)), (js ''prerelease'', JBool pre),
     (js ''assets'', JArr [JObj [(js ''name'', JStr (js ''meshtalk-linux-x64.tar.gz'')),
       (js ''browser_download_url'', JStr (js ''https://x/y''))]])]"

definition sample_update_env :: update_env where
  "sample_update_env = \<lparr>ue_settings = None, ue_user = None, ue_repo = None, ue_platform = js ''linux'', ue_arch = js ''x64'',
     ue_fetch = (\<lambda>url token. HttpAnswer 200 (Some (sample_release ''v0.9.0'' False))), ue_gh = (\<lambda>_. None)\<rparr>"

theorem offered_update_witness:
  "\<exists>r. checkForUpdate sample_update_env (js ''0.8.0'') Stable = Inr (Some r) \<and> rel_tag r = js ''v0.9.0''
     \<and> isNewerVersion (rel_version r) (js ''0.8.0'')"
proof -
  define r where "r = \<lparr>rel_tag = js ''v0.9.0'', rel_version = js ''0.9.0'', rel_assetName = js ''meshtalk-linux-x64.tar.gz'',
    rel_downloadUrl = js ''https://x/y'', rel_digest = None\<rparr>"
  have "checkForUpdate sample_update_env (js ''0.8.0'') Stable = Inr (Some r)" unfolding r_def by code_simp
  moreover from this have "isNewerVersion (rel_version r) (js ''0.8.0'')" by (rule offered_update [THEN conjunct1])
  ultimately show ?thesis by (auto simp: r_def)
qed

subsection \<open>What an update may touch\<close>

text \<open>
  The checks of \<open>common/updater.ts\<close> on what an update may touch: the names in a release archive, the
  marker of a pending update, and the containment of its staging directory. Paths are those of POSIX.
\<close>

definition expectedFiles :: "bool \<Rightarrow> jsstr list" where
  "expectedFiles win32 = map (\<lambda>name. js name @ (if win32 then js ''.exe'' else [])) [''meshtalk'', ''meshtalk-backend'']"

definition to_slashes :: "jsstr \<Rightarrow> jsstr" where
  "to_slashes s = map (\<lambda>c. if c = 92 then 47 else c) s"

definition drive_prefix :: "jsstr \<Rightarrow> bool" where
  "drive_prefix s \<longleftrightarrow> (case s of c # d # r \<Rightarrow> is_letter c \<and> d = 58 | _ \<Rightarrow> False)"

definition archiveEntryIsSafe :: "jsstr \<Rightarrow> bool" where
  "archiveEntryIsSafe entry =
     (let normalized = to_slashes entry in
      if normalized = [] \<or> starts_with normalized [47] \<or> drive_prefix normalized then False
      else \<not> list_ex (\<lambda>part. part = [46, 46]) (split_on 47 normalized))"

record pending_update =
  pu_staging :: jsstr
  pu_installDir :: jsstr
  pu_files :: "jsstr list"

definition pending_name_ok :: "json \<Rightarrow> bool" where
  "pending_name_ok name = (case name of
     JStr s \<Rightarrow> s \<noteq> [] \<and> \<not> text_includes s [47] \<and> \<not> text_includes s [92] \<and> \<not> text_includes s [46, 46]
       \<and> \<not> text_includes s [58]
   | _ \<Rightarrow> False)"

fun string_or_empty :: "json \<Rightarrow> jsstr" where
  "string_or_empty (JStr s) = s"
| "string_or_empty _ = []"

definition parsePendingUpdate :: "json option \<Rightarrow> pending_update option" where
  "parsePendingUpdate value =
     (case value of
        Some (JObj o') \<Rightarrow>
          (case (field o' ''staging'', field o' ''installDir'', field o' ''files'') of
             (Some (JStr staging), Some (JStr installDir), Some (JArr files)) \<Rightarrow>
               if staging = [] \<or> installDir = [] then None
               else if files = [] \<or> list_ex (\<lambda>n. \<not> pending_name_ok n) files then None
               else Some \<lparr>pu_staging = staging, pu_installDir = installDir, pu_files = map string_or_empty files\<rparr>
           | _ \<Rightarrow> None)
      | _ \<Rightarrow> None)"

definition isStagingWithinInstallDir :: "jsstr \<Rightarrow> jsstr \<Rightarrow> jsstr \<Rightarrow> bool" where
  "isStagingWithinInstallDir cwd installDir staging =
     (let parent = resolve cwd installDir; child = resolve cwd staging
      in child \<noteq> parent \<and> starts_with child (parent @ [47]))"

subsection \<open>Containment\<close>

lemma to_slashes_dotdot:
  assumes "[46, 46] \<in> set (split_on 47 s)"
  shows "[46, 46] \<in> set (split_on 47 (to_slashes s))"
proof -
  obtain a b where s: "s = a @ [46, 46] @ b" "a = [] \<or> last a = 47" "b = [] \<or> hd b = 47"
    using assms by (auto simp: split_on_piece)
  have "to_slashes s = to_slashes a @ [46, 46] @ to_slashes b" by (simp add: s(1) to_slashes_def)
  moreover have "to_slashes a = [] \<or> last (to_slashes a) = 47" using s(2) by (cases "a = []") (simp_all add: to_slashes_def last_map)
  moreover have "to_slashes b = [] \<or> hd (to_slashes b) = 47" using s(3) by (cases "b = []") (simp_all add: to_slashes_def hd_map)
  ultimately show ?thesis unfolding split_on_piece by (intro exI [of _ "to_slashes a"] exI [of _ "to_slashes b"]) simp
qed

text \<open>C16. An archive cannot write outside the directory it is extracted into: the name of every accepted entry is
  relative, and applied to any directory it stays within it, whether or not backslashes separate
  components.\<close>

theorem archive_stays_inside:
  assumes "archiveEntryIsSafe entry"
  shows "entry \<noteq> [] \<and> hd entry \<noteq> 47 \<and> hd entry \<noteq> 92
    \<and> (\<exists>rest. foldl walk dir (split_on 47 entry) = dir @ rest)
    \<and> (\<exists>rest. foldl walk dir (split_on 47 (to_slashes entry)) = dir @ rest)"
proof -
  have safe: "to_slashes entry \<noteq> []" "\<not> starts_with (to_slashes entry) [47]"
    "[46, 46] \<notin> set (split_on 47 (to_slashes entry))"
    using assms by (auto simp: archiveEntryIsSafe_def Let_def list_ex_iff split: if_splits)
  then have "[46, 46] \<notin> set (split_on 47 entry)" using to_slashes_dotdot by blast
  with safe walk_stays show ?thesis
    by (cases entry) (auto simp: to_slashes_def starts_with_def)
qed

theorem archive_stays_inside_witness:
  "foldl walk [js ''tmp''] (split_on 47 (js ''./bin/meshtalk'')) = [js ''tmp'', js ''bin'', js ''meshtalk'']
    \<and> (\<exists>rest. foldl walk [js ''tmp''] (split_on 47 (js ''./bin/meshtalk'')) = [js ''tmp''] @ rest)"
proof
  show "foldl walk [js ''tmp''] (split_on 47 (js ''./bin/meshtalk'')) = [js ''tmp'', js ''bin'', js ''meshtalk'']"
    by code_simp
  have "archiveEntryIsSafe (js ''./bin/meshtalk'')" by code_simp
  then show "\<exists>rest. foldl walk [js ''tmp''] (split_on 47 (js ''./bin/meshtalk'')) = [js ''tmp''] @ rest"
    using archive_stays_inside by blast
qed

text \<open>The staging directory of a pending update is accepted exactly when it lies strictly inside the installation
  directory, component by component: a sibling whose name merely starts like the directory, the
  directory itself, and anything under the root directory are refused. The names accepted in its list are
  single components.\<close>

theorem staging_is_contained:
  "(isStagingWithinInstallDir cwd installDir staging \<longleftrightarrow>
      resolve_parts cwd installDir \<noteq> []
      \<and> (\<exists>rest. rest \<noteq> [] \<and> resolve_parts cwd staging = resolve_parts cwd installDir @ rest))
    \<and> (\<forall>v p. parsePendingUpdate v = Some p \<longrightarrow>
        pu_files p \<noteq> [] \<and> (\<forall>f \<in> set (pu_files p). f \<noteq> [] \<and> f \<noteq> [46, 46] \<and> split_on 47 (to_slashes f) = [f]))"
proof
  show "isStagingWithinInstallDir cwd installDir staging \<longleftrightarrow>
      resolve_parts cwd installDir \<noteq> []
      \<and> (\<exists>rest. rest \<noteq> [] \<and> resolve_parts cwd staging = resolve_parts cwd installDir @ rest)"
    using path_text_within [OF resolve_parts_plain [of cwd installDir] resolve_parts_plain [of cwd staging]]
    by (simp add: isStagingWithinInstallDir_def resolve_def Let_def)
  have name: "string_or_empty n \<noteq> [] \<and> string_or_empty n \<noteq> [46, 46] \<and> split_on 47 (to_slashes (string_or_empty n)) = [string_or_empty n]"
    if ok: "pending_name_ok n" for n
  proof -
    obtain s where s: "n = JStr s" "s \<noteq> []" "47 \<notin> set s" "92 \<notin> set s" "\<not> text_includes s [46, 46]"
      using ok by (auto simp: pending_name_ok_def text_includes_single split: json.splits)
    then have "to_slashes s = s" by (auto simp: to_slashes_def intro: map_idI)
    moreover have "s \<noteq> [46, 46]" using s(5) by (auto simp: text_includes_def index_from_def matches_at_def)
    ultimately show ?thesis using s by (simp add: split_on_single)
  qed
  show "\<forall>v p. parsePendingUpdate v = Some p \<longrightarrow>
        pu_files p \<noteq> [] \<and> (\<forall>f \<in> set (pu_files p). f \<noteq> [] \<and> f \<noteq> [46, 46] \<and> split_on 47 (to_slashes f) = [f])"
    using name by (auto simp: parsePendingUpdate_def list_ex_iff split: option.splits json.splits if_splits)
qed

end
