(* ===== verification/ClientState.thy ===== *)
theory ClientState
  imports ChatTypes JsonText Uri "HOL-Library.Code_Target_Numeral"
begin

text \<open>
  Small parts of the terminal client: the display form of untrusted text (\<open>common/terminal-text.ts\<close>),
  notifications and the commands that show them (\<open>tui/src/notifications.ts\<close>), the bounded records of
  \<open>tui/src/stateRetention.ts\<close>, the suppression of repeated pastes (\<open>tui/src/pastedImageDedup.ts\<close>), and
  the computed parts of \<open>tui/src/chatTheme.ts\<close>.
\<close>

subsection \<open>Text for a terminal\<close>

definition is_control :: "nat \<Rightarrow> bool" where
  "is_control c \<longleftrightarrow> c \<le> 31 \<or> (127 \<le> c \<and> c \<le> 159) \<or> c = 1564 \<or> c = 8206 \<or> c = 8207
     \<or> (8234 \<le> c \<and> c \<le> 8238) \<or> (8294 \<le> c \<and> c \<le> 8297)"

definition terminal_char :: "bool \<Rightarrow> nat \<Rightarrow> jsstr" where
  "terminal_char allowLayout c =
     (if is_control c \<and> \<not> (allowLayout \<and> (c = 10 \<or> c = 9)) then [92, 117] @ hex4 c else [c])"

definition terminalText :: "jsstr \<Rightarrow> bool \<Rightarrow> jsstr" where
  "terminalText s allowLayout = concat (map (terminal_char allowLayout) s)"

lemma hex_digit_printable: "n < 16 \<Longrightarrow> \<not> is_control (hex_digit n)"
  by (auto simp: hex_digit_def is_control_def)

lemma terminal_char_shown:
  "d \<in> set (terminal_char allow c) \<Longrightarrow> is_control d \<Longrightarrow> allow \<and> (d = 10 \<or> d = 9)"
proof -
  assume d: "d \<in> set (terminal_char allow c)" "is_control d"
  have "\<not> is_control 92" "\<not> is_control 117" by (simp_all add: is_control_def)
  then have "\<not> is_control e" if "e \<in> set ([92, 117] @ hex4 c)" for e
    using that hex_digit_printable by (auto simp: hex4_def)
  with d show ?thesis by (auto simp: terminal_char_def split: if_splits)
qed

subsection \<open>Notifications\<close>

text \<open>Encodings of the standard library: UTF-8 with the replacement character for lone surrogates, UTF-16LE.\<close>

definition utf8_text :: "jsstr \<Rightarrow> nat list" where
  "utf8_text s = concat (map (\<lambda>(cp, u). if is_surrogate cp then [239, 191, 189] else utf8 cp) (chars s))"

definition utf16le :: "jsstr \<Rightarrow> nat list" where
  "utf16le s = concat (map (\<lambda>c. [c mod 256, c div 256]) s)"

definition notification_data :: "jsstr \<Rightarrow> jsstr \<Rightarrow> jsstr" where
  "notification_data message title = btoa (utf8_text (stringify (\<lambda>_. []) (JArr [JStr title, JStr message])))"

definition notification_script :: "jsstr \<Rightarrow> jsstr" where
  "notification_script data = join_on (js ''; '')
     [js ''$data = ConvertFrom-Json ([System.Text.Encoding]::UTF8.GetString([System.Convert]::FromBase64String('' @ [39] @ data @ [39] @ js '')))'',
      js ''Add-Type -AssemblyName System.Windows.Forms'',
      js ''$icon = New-Object System.Windows.Forms.NotifyIcon'',
      js ''$icon.Icon = [System.Drawing.SystemIcons]::Information'',
      js ''$icon.Visible = $true'',
      js ''$icon.ShowBalloonTip(5000, $data[0], $data[1], [System.Windows.Forms.ToolTipIcon]::Info)'',
      js ''Start-Sleep -Seconds 6'',
      js ''$icon.Dispose()'']"

definition windowsNotificationCommand :: "jsstr \<Rightarrow> jsstr \<Rightarrow> jsstr list" where
  "windowsNotificationCommand message title =
     [js ''powershell.exe'', js ''-NoProfile'', js ''-NonInteractive'', js ''-EncodedCommand'',
      btoa (utf16le (notification_script (notification_data message title)))]"

definition appleScriptString :: "jsstr \<Rightarrow> jsstr" where
  "appleScriptString s = 34 # replace_all [34] [92, 34] (replace_all [92] [92, 92] s) @ [34]"

text \<open>The commands tried in order, given which of them succeed, and whether one did.\<close>

definition native_commands :: "jsstr \<Rightarrow> jsstr \<Rightarrow> jsstr \<Rightarrow> jsstr list list" where
  "native_commands platform message title =
     (if platform = js ''darwin'' then
        [[js ''terminal-notifier'', js ''-title'', title, js ''-message'', message, js ''-sound'', js ''default'', js ''-group'', js ''meshtalk''],
         [js ''osascript'', js ''-e'', js ''display notification '' @ appleScriptString message @ js '' with title ''
            @ appleScriptString title @ js '' sound name '' @ [34] @ js ''default'' @ [34]]]
      else if platform = js ''win32'' then [windowsNotificationCommand message title]
      else [[js ''notify-send'', js ''--app-name=MeshTalk'', title, message]])"

fun run_until :: "(jsstr list \<Rightarrow> bool) \<Rightarrow> jsstr list list \<Rightarrow> jsstr list list \<times> bool" where
  "run_until run [] = ([], False)"
| "run_until run (c # cs) = (if run c then ([c], True) else case run_until run cs of (ds, b) \<Rightarrow> (c # ds, b))"

definition sendNativeNotification :: "jsstr \<Rightarrow> (jsstr list \<Rightarrow> bool) \<Rightarrow> jsstr \<Rightarrow> jsstr \<Rightarrow> jsstr list list \<times> bool" where
  "sendNativeNotification platform run message title = run_until run (native_commands platform message title)"

datatype shown = Nothing_shown | Native_shown jsstr | Terminal_shown jsstr

text \<open>A test: whether the notification was shown. The renderer may lack the capability, refuse or throw (\<open>None\<close>).\<close>

definition sendTestNotification ::
  "notification_delivery \<Rightarrow> bool \<Rightarrow> bool option \<Rightarrow> (jsstr \<Rightarrow> bool) \<Rightarrow> bool" where
  "sendTestNotification delivery capable trigger native =
     (if delivery = NativeDelivery then native (js ''If you can see this, native notifications work.'')
      else if \<not> capable then False
      else trigger = Some True)"

definition notify :: "notification_preferences option \<Rightarrow> notification_event \<Rightarrow> bool \<Rightarrow> jsstr \<Rightarrow> bool \<Rightarrow> shown" where
  "notify preferences event capable message dnd =
     (if dnd then Nothing_shown
      else case preferences of
          None \<Rightarrow> Nothing_shown
        | Some p \<Rightarrow>
            if \<not> np_events p event \<or> np_delivery p = DisabledDelivery then Nothing_shown
            else if np_delivery p = NativeDelivery then Native_shown message
            else if \<not> capable then Nothing_shown
            else Terminal_shown (terminalText message False))"

text \<open>How AppleScript reads a string literal: its value and what follows it.\<close>

fun read_literal :: "jsstr \<Rightarrow> (jsstr \<times> jsstr) option" where
  "read_literal [] = None"
| "read_literal (c # s) =
     (if c = 34 then Some ([], s)
      else if c = 92 then (case s of
          [] \<Rightarrow> None
        | d # s' \<Rightarrow> map_option (\<lambda>(v, r). (d # v, r)) (read_literal s'))
      else map_option (\<lambda>(v, r). (c # v, r)) (read_literal s))"

lemma read_escaped:
  "read_literal (concat (map (\<lambda>d. if d = 34 then [92, 34] else [d]) (concat (map (\<lambda>d. if d = 92 then [92, 92] else [d]) s))) @ 34 # r)
     = Some (s, r)"
  by (induction s) auto

lemma b64_char_letter: "b64_char n \<noteq> 39"
  by (auto simp: b64_char_def)

lemma btoa_no_quote: "39 \<notin> set (btoa bs)"
  by (induction bs rule: btoa.induct) (auto simp: b64_char_letter b64_char_letter [symmetric])



subsection \<open>Bounded records\<close>

text \<open>A record with string keys in insertion order (its keys are never array indices). Values stand for
  references, which \<open>Object.is\<close> compares. \<open>slice(-0)\<close> keeps everything, so a maximum of 0 drops nothing.\<close>

definition retainRecentEntries :: "(jsstr, 'v) jsmap \<Rightarrow> nat \<Rightarrow> (jsstr, 'v) jsmap" where
  "retainRecentEntries entries maximum =
     (if length (map_keys entries) \<le> maximum then entries
      else slice_int entries (- int maximum) (int (length entries)))"

definition updateBoundedEntry :: "(jsstr, 'v) jsmap \<Rightarrow> jsstr \<Rightarrow> 'v \<Rightarrow> nat \<Rightarrow> (jsstr, 'v) jsmap" where
  "updateBoundedEntry entries key v maximum =
     (if map_get entries key = Some v then entries
      else retainRecentEntries (map_del key entries @ [(key, v)]) maximum)"

lemma retain_eq: "0 < n \<Longrightarrow> retainRecentEntries es n = drop (length es - n) es"
  by (auto simp: retainRecentEntries_def slice_int_def slice_def clamp_def nat_minus_as_int)

text \<open>A bounded record keeps the newest entries: after an update it has no more entries than its maximum (if it
  had none too many before), the updated key has its value, and the others that are kept are the most
  recently updated ones, unchanged and in order.\<close>

theorem bounded_record:
  assumes "0 < maximum" and "length entries \<le> maximum" and "map_ok entries"
  shows "length (updateBoundedEntry entries key v maximum) \<le> maximum
    \<and> map_get (updateBoundedEntry entries key v maximum) key = Some v
    \<and> map_ok (updateBoundedEntry entries key v maximum)
    \<and> (map_get entries key \<noteq> Some v \<longrightarrow>
        (\<exists>dropped. map_del key entries @ [(key, v)] = dropped @ updateBoundedEntry entries key v maximum
          \<and> length dropped \<le> 1))"
proof (cases "map_get entries key = Some v")
  case True
  with assms show ?thesis by (simp add: updateBoundedEntry_def)
next
  case False
  define es where "es = map_del key entries @ [(key, v)]"
  define k where "k = length es - maximum"
  have u: "updateBoundedEntry entries key v maximum = drop k es"
    using False assms(1) by (simp add: updateBoundedEntry_def es_def k_def retain_eq)
  have ok: "map_ok es" using assms(3) by (auto simp: es_def map_ok_def map_keys_def map_del_def distinct_map inj_on_def)
  have len: "length es \<le> Suc (length entries)" using length_map_del_le [of key entries] by (simp add: es_def)
  then have k: "k \<le> 1" "k < length es" using assms(1,2) by (auto simp: k_def es_def)
  then have "(key, v) \<in> set (drop k es)" by (simp add: es_def)
  moreover have ok': "map_ok (drop k es)" using ok by (simp add: map_ok_def map_keys_def distinct_drop flip: drop_map)
  ultimately have "map_get (drop k es) key = Some v" by (intro in_set_map_get)
  moreover have "length (drop k es) \<le> maximum" by (simp add: k_def)
  moreover have "es = take k es @ drop k es" "length (take k es) \<le> 1" using k by simp_all
  ultimately show ?thesis using ok' unfolding u es_def [symmetric] by blast
qed

subsection \<open>Repeated pastes\<close>

definition PASTED_IMAGE_DEDUP_WINDOW_MS :: rat where "PASTED_IMAGE_DEDUP_WINDOW_MS = 750"

record paste_record =
  pr_byteLength :: nat
  pr_hash :: nat
  pr_selectionKey :: "jsstr option"
  pr_sentAt :: rat

text \<open>The 64-bit hash is that of the runtime.\<close>

definition createPastedImageDedupRecord :: "(nat list \<Rightarrow> nat) \<Rightarrow> nat list \<Rightarrow> jsstr option \<Rightarrow> rat \<Rightarrow> paste_record" where
  "createPastedImageDedupRecord wyhash bytes selectionKey sentAt =
     \<lparr>pr_byteLength = length bytes, pr_hash = wyhash bytes, pr_selectionKey = selectionKey, pr_sentAt = sentAt\<rparr>"

definition shouldSuppressPastedImage :: "paste_record option \<Rightarrow> paste_record \<Rightarrow> bool" where
  "shouldSuppressPastedImage previous n =
     (case previous of
        None \<Rightarrow> False
      | Some p \<Rightarrow> truthy (pr_selectionKey n) \<and> pr_sentAt n - pr_sentAt p \<ge> 0
          \<and> pr_sentAt n - pr_sentAt p < PASTED_IMAGE_DEDUP_WINDOW_MS
          \<and> pr_selectionKey p = pr_selectionKey n \<and> pr_byteLength p = pr_byteLength n \<and> pr_hash p = pr_hash n)"

subsection \<open>Theme\<close>

definition presenceIndicator :: "presence \<Rightarrow> bool \<Rightarrow> jsstr" where
  "presenceIndicator presence dnd =
     (if dnd \<and> presence \<noteq> PresenceOffline then [9679]
      else if presence = PresenceActive then [9679]
      else if presence = PresenceAway then [126] else [9675])"

text \<open>A channel of the fading background; \<open>Math.round\<close> rounds halves up.\<close>

definition faded_channel :: "rat \<Rightarrow> rat \<times> rat \<Rightarrow> nat" where
  "faded_channel eased ch = (case ch of (a, b) \<Rightarrow> nat \<lfloor>a + (b - a) * eased + 1 / 2\<rfloor>)"

definition unreadMessageBackground :: "rat \<Rightarrow> jsstr" where
  "unreadMessageBackground progress =
     (let amount = min 1 (max 0 progress); eased = amount * amount
      in 35 # concat (map (\<lambda>ch. hex_byte (faded_channel eased ch)) [(61, 27), (103, 40), (73, 32)]))"

definition chatLayout :: "int \<Rightarrow> bool \<times> int \<times> int" where
  "chatLayout width =
     (let stacked = width < 64;
          sidebarWidth = (if stacked then width else if width < 100 then 25 else 30)
      in (stacked, sidebarWidth, max 1 (width - (if stacked then 0 else sidebarWidth + 1))))"

end
