(* ===== verification/Desktop.thy ===== *)
theory Desktop
  imports JsText "HOL-Library.Code_Target_Numeral"
begin

text \<open>
  The pure parts of the desktop client, \<open>desktop/src/chatState.ts\<close> and \<open>desktop/src/api.ts\<close>: the list of
  conversations, targets of requests, the mention under the cursor, files grouped by transfer, and
  the merge of stored and local messages. A row of the backend is a record of the properties the code
  reads; what else it carries is the extension of the record.
\<close>

subsection \<open>Conversations\<close>

definition isMuted :: "rat option \<Rightarrow> rat \<Rightarrow> bool" where
  "isMuted until now = (case until of None \<Rightarrow> False | Some u \<Rightarrow> u = 0 \<or> u > now)"

datatype chat_kind = PeerKind | GroupKind

record desk_conversation =
  dc_kind :: chat_kind
  dc_id :: jsstr
  dc_name :: jsstr

record peer_row =
  prow_peer_id :: jsstr
  prow_display_name :: jsstr
  prow_is_blocked :: bool

record group_row =
  grow_group_id :: jsstr
  grow_name :: jsstr

definition conversations :: "peer_row list \<Rightarrow> group_row list \<Rightarrow> jsstr \<Rightarrow> desk_conversation list" where
  "conversations peers groups self =
     map (\<lambda>p. \<lparr>dc_kind = PeerKind, dc_id = prow_peer_id p, dc_name = prow_display_name p\<rparr>)
       (filter (\<lambda>p. prow_peer_id p \<noteq> self \<and> \<not> prow_is_blocked p) peers)
     @ map (\<lambda>g. \<lparr>dc_kind = GroupKind, dc_id = grow_group_id g, dc_name = grow_name g\<rparr>) groups"

definition target :: "desk_conversation \<Rightarrow> json_object" where
  "target c = (if dc_kind c = GroupKind then [(js ''group_id'', JStr (dc_id c))] else [(js ''peer_id'', JStr (dc_id c))])"

definition sendTarget :: "desk_conversation \<Rightarrow> json_object" where
  "sendTarget c = (if dc_kind c = GroupKind then [(js ''group_id'', JStr (dc_id c))] else [(js ''recipient_id'', JStr (dc_id c))])"

fun kind_text :: "chat_kind \<Rightarrow> jsstr" where
  "kind_text PeerKind = js ''peer''"
| "kind_text GroupKind = js ''group''"

definition conversationKey :: "desk_conversation \<Rightarrow> jsstr" where
  "conversationKey c = kind_text (dc_kind c) @ 58 # dc_id c"

subsection \<open>The mention under the cursor\<close>

record mention_hit =
  mh_start :: int
  mh_end :: int
  mh_query :: jsstr

definition hit_char :: "nat \<Rightarrow> bool" where
  "hit_char c \<longleftrightarrow> c \<noteq> 64 \<and> \<not> js_space c \<and> c \<noteq> 60 \<and> c \<noteq> 62"

definition mentionAt :: "jsstr \<Rightarrow> int \<Rightarrow> mention_hit option" where
  "mentionAt text cursor =
     (let before = slice_int text 0 cursor;
          query = rev (takeWhile hit_char (rev before));
          here = length before - length query - 1
      in if length before \<le> length query \<or> before ! here \<noteq> 64 then None
         else if here = 0 \<or> js_space (before ! (here - 1))
         then Some \<lparr>mh_start = cursor - int (length query) - 1, mh_end = cursor, mh_query = query\<rparr>
         else None)"

subsection \<open>Files\<close>

record file_row =
  frow_file_id :: jsstr
  frow_recipient_id :: "jsstr option"
  frow_group_id :: "jsstr option"
  frow_status :: jsstr
  frow_deliveries :: "(jsstr \<times> jsstr) list option"

definition first_deliveries :: "file_row \<Rightarrow> (jsstr \<times> jsstr) list" where
  "first_deliveries f =
     (case frow_deliveries f of
        Some ds \<Rightarrow> ds
      | None \<Rightarrow> if truthy (frow_group_id f) \<and> truthy (frow_recipient_id f)
                then [(the (frow_recipient_id f), frow_status f)] else [])"

definition group_file :: "file_row \<Rightarrow> (jsstr, file_row) jsmap \<Rightarrow> (jsstr, file_row) jsmap" where
  "group_file f grouped =
     (case map_get grouped (frow_file_id f) of
        Some e \<Rightarrow>
          let ds = (case frow_deliveries e of Some ds \<Rightarrow> ds | None \<Rightarrow> []) in
          if truthy (frow_recipient_id f) \<and> \<not> list_ex (\<lambda>d. fst d = the (frow_recipient_id f)) ds
          then map_set (frow_file_id f) (e\<lparr>frow_deliveries := Some (ds @ [(the (frow_recipient_id f), frow_status f)])\<rparr>) grouped
          else grouped
      | None \<Rightarrow> map_set (frow_file_id f) (f\<lparr>frow_deliveries := Some (first_deliveries f)\<rparr>) grouped)"

definition groupFiles :: "file_row list \<Rightarrow> file_row list" where
  "groupFiles files = map snd (fold group_file files [])"

subsection \<open>Messages\<close>

record message_row =
  mrow_message_id :: jsstr
  mrow_created_at :: rat
  mrow_pending :: bool
  mrow_failed :: bool

definition by_time :: "message_row \<Rightarrow> message_row \<Rightarrow> int" where
  "by_time a b = (if mrow_created_at a < mrow_created_at b then -1
     else if mrow_created_at b < mrow_created_at a then 1 else 0)"

definition mergeMessages :: "message_row list \<Rightarrow> message_row list \<Rightarrow> message_row list" where
  "mergeMessages history local =
     (let ids = map mrow_message_id history
      in sort_by by_time (history @ filter (\<lambda>r. (mrow_pending r \<or> mrow_failed r) \<and> mrow_message_id r \<notin> set ids) local))"

lemma by_time_consistent: "consistent by_time A"
  by (auto simp: consistent_def by_time_def)

lemma inj_on_fresh:
  assumes "inj_on f A" "inj_on f B"
  shows "inj_on f (A \<union> {r \<in> B. P r \<and> f r \<notin> f ` A})"
proof (rule inj_onI)
  fix x y
  assume x: "x \<in> A \<union> {r \<in> B. P r \<and> f r \<notin> f ` A}" and y: "y \<in> A \<union> {r \<in> B. P r \<and> f r \<notin> f ` A}"
    and e: "f x = f y"
  show "x = y"
  proof (cases "f x \<in> f ` A")
    case True
    then have "x \<in> A" "y \<in> A" using x y e by auto
    then show ?thesis using assms(1) e by (blast dest: inj_onD)
  next
    case False
    then have "x \<notin> A" "y \<notin> A" using e imageI [of x A f] imageI [of y A f] by auto
    then have "x \<in> B" "y \<in> B" using x y by auto
    then show ?thesis using assms(2) e by (blast dest: inj_onD)
  qed
qed

text \<open>Merging loses nothing and shows nothing twice: the rows of a conversation are all stored messages and the
  unsent local ones whose identity is not stored, in order of time; with distinct identities on either
  side no identity appears twice.\<close>

theorem merge_messages:
  "set (mergeMessages history local) = set history
      \<union> {r \<in> set local. (mrow_pending r \<or> mrow_failed r) \<and> mrow_message_id r \<notin> mrow_message_id ` set history}
    \<and> sorted_wrt (\<lambda>a b. mrow_created_at a \<le> mrow_created_at b) (mergeMessages history local)
    \<and> (distinct (map mrow_message_id history) \<longrightarrow> distinct (map mrow_message_id local) \<longrightarrow>
        inj_on mrow_message_id (set (mergeMessages history local)) \<and> distinct (mergeMessages history local))"
proof (intro conjI impI)
  show sets: "set (mergeMessages history local) = set history
      \<union> {r \<in> set local. (mrow_pending r \<or> mrow_failed r) \<and> mrow_message_id r \<notin> mrow_message_id ` set history}"
    by (auto simp: mergeMessages_def Let_def)
  have "sorted_wrt (\<lambda>a b. by_time a b \<le> 0) (mergeMessages history local)"
    unfolding mergeMessages_def Let_def by (rule sorted_sort_by [OF by_time_consistent subset_UNIV])
  moreover have "by_time a b \<le> 0 \<longleftrightarrow> mrow_created_at a \<le> mrow_created_at b" for a b
    by (auto simp: by_time_def)
  ultimately show "sorted_wrt (\<lambda>a b. mrow_created_at a \<le> mrow_created_at b) (mergeMessages history local)" by simp
  assume d: "distinct (map mrow_message_id history)" "distinct (map mrow_message_id local)"
  show "inj_on mrow_message_id (set (mergeMessages history local))"
    unfolding sets by (rule inj_on_fresh) (use d in \<open>simp_all only: distinct_map\<close>)
  have dl: "distinct history" "distinct local" using d by (simp_all only: distinct_map)
  show "distinct (mergeMessages history local)"
    unfolding mergeMessages_def Let_def distinct_sort_by distinct_append
  proof (intro conjI)
    show "distinct history" by (rule dl)
    show "distinct (filter (\<lambda>r. (mrow_pending r \<or> mrow_failed r) \<and> mrow_message_id r \<notin> set (map mrow_message_id history)) local)"
      by (rule distinct_filter [OF dl(2)])
    show "set history \<inter> set (filter (\<lambda>r. (mrow_pending r \<or> mrow_failed r) \<and> mrow_message_id r \<notin> set (map mrow_message_id history)) local) = {}"
      unfolding set_filter set_map by blast
  qed
qed

end
