(* ===== verification/CliText.thy ===== *)
theory CliText
  imports ClientState JsValue PosixPath
begin

text \<open>
  The command-line client (\<open>cli/src/index.ts\<close>), first half: what it prints and how it reads its
  arguments. A command is a program over the connection to the backend: a datatype of its effects
  (\<open>cli\<close>), in which a request continues with a function of the response. The text of numbers and
  dates, the parsing of numerals, the terminal and the working directory come from an environment
  (\<open>cli_env\<close>).
\<close>

record cli_env =
  cl_program :: jsstr
  cl_cwd :: jsstr
  cl_isTTY :: bool
  cl_number :: "rat \<Rightarrow> jsstr"
  cl_parse :: "jsstr \<Rightarrow> rat option"
  cl_date :: "rat option \<Rightarrow> jsstr"
  cl_type_error :: jsstr

datatype cli =
    Exit
  | Throw js_error
  | Log jsstr cli
  | LogError jsstr cli
  | FailCode cli
  | CloseIpc cli
  | Send string json_object "json_object \<Rightarrow> cli"
  | Question jsstr "jsstr \<Rightarrow> cli"
  | Watch cli

definition PROGRAM :: "jsstr option \<Rightarrow> jsstr option \<Rightarrow> jsstr \<Rightarrow> jsstr" where
  "PROGRAM configured argv1 argv0 =
     posix_basename (case configured of Some p \<Rightarrow> p | None \<Rightarrow> (case argv1 of Some p \<Rightarrow> p | None \<Rightarrow> argv0))"

definition USAGE :: "jsstr \<Rightarrow> jsstr" where
  "USAGE program = join_on [10]
     [js ''Usage: '' @ program @ js '' <command> [args]'',
      [],
      js ''Commands:'',
      js ''  identity [display-name]     Show or change this peer's display name'',
      js ''  status                      Show control and peer connection status'',
      js ''  peers                       List peers, transports, and endpoints'',
      js ''  messages <peer-id>          Show conversation history'',
      js ''  send <peer-id> <message>    Send an encrypted direct message'',
      js ''  send-file <peer-id> <paths...> [--caption TEXT]  Send files to a peer'',
      js ''   files                       List file transfers'',
      js ''   files dir                   Show current files storage directory'',
      js ''   files set-dir <path> [--migrate|--no-migrate]  Set files storage directory (e.g., E:MeshTalkFiles)'',
      js ''   storage                     Show storage location (messages database, files, identity)'',
      js ''   storage set-dir <path> [--migrate|--no-migrate]  Change storage location, optionally transferring existing data'',
      js ''  download <file-id> <dest>   Download a received file to dest path/folder'',
      js ''  retry <file-id> [--recipient <peer-id>]  Retry a file transfer or delivery'',
      js ''  watch                       Print incoming messages until interrupted'',
      js ''  control [set-url <url>]      Show or configure the control service'',
      js ''  advanced                         Show server IP pins that override DNS'',
      js ''  advanced control manual <ips>     Pin comma-separated IPv4/IPv6 control IPs'',
      js ''  advanced control auto             Resolve and pin control A/AAAA records'',
      js ''  advanced control clear            Clear control server IP pins'',
      js ''  advanced stun manual <ips>        Pin comma-separated IPv4 STUN IPs'',
      js ''  advanced stun auto                Resolve and pin STUN A records'',
      js ''  advanced stun clear               Clear STUN server IP pins'',
      js ''  room create [name]          Create a private room or named group chat'',
      js ''  room join <invite>          Join a private room'',
      js ''  room leave <room-id>        Leave a room'',
      js ''  rooms                       List joined rooms'',
      js ''  groups                      List group chats'',
      js ''  group list                  List group chats'',
      js ''  group members <group-id>    List group members'',
      js ''  group messages <group-id>   Show group message history'',
      js ''  group send <group-id> <message>  Send a group message'',
      js ''  group send-file <group-id> <paths...> [--caption TEXT] Send files to a group'',
      js ''  group leave <group-id>      Leave a group chat'',
      js ''  friends                     List your friends'',
      js ''  friend-requests             List pending friend requests'',
      js ''  friend send <peer-id> [note]  Send a friend request'',
      js ''  friend accept <request-id>     Accept a friend request'',
      js ''  friend decline <request-id>    Decline a friend request'',
      js ''  friend cancel <request-id>     Cancel a pending outgoing friend request'',
      js ''  friend remove <peer-id>        Remove a friend'',
      js ''  blocked                     List peers whose friend requests are ignored'',
      js ''  block <peer-id>             Ignore friend requests from a peer'',
      js ''  unblock <peer-id>           Allow friend requests from a peer again'',
      js ''  backend status              Show backend status'',
      js ''  backend start --daemonise   Start a persistent backend daemon'',
      js ''  backend stop                Stop the backend daemon'',
      js ''  update [--install]          Check for and install a compiled-release update'',
      js ''  update token <token>|clear  Save or remove a GitHub token for update checks'',
      []]"

subsection \<open>Values in a template\<close>

definition text_of :: "cli_env \<Rightarrow> json option \<Rightarrow> jsstr" where
  "text_of env v = value_text (cl_number env) v"

definition or_text :: "cli_env \<Rightarrow> json option \<Rightarrow> jsstr \<Rightarrow> jsstr" where
  "or_text env v d = (if nullish v then d else text_of env v)"

text \<open>\<open>Number(v)\<close>: no value is \<open>NaN\<close>.\<close>

fun number_of :: "cli_env \<Rightarrow> json option \<Rightarrow> rat option" where
  "number_of env None = None"
| "number_of env (Some JNull) = Some 0"
| "number_of env (Some (JBool b)) = Some (if b then 1 else 0)"
| "number_of env (Some (JNum n)) = Some n"
| "number_of env (Some (JStr s)) = cl_parse env s"
| "number_of env (Some (JArr xs)) = cl_parse env (element_text (cl_number env) (JArr xs))"
| "number_of env (Some (JObj kvs)) = None"

definition number_text :: "cli_env \<Rightarrow> rat option \<Rightarrow> jsstr" where
  "number_text env v = (case v of None \<Rightarrow> js ''NaN'' | Some n \<Rightarrow> cl_number env n)"

fun is_integer :: "json option \<Rightarrow> bool" where
  "is_integer (Some (JNum n)) = (of_int \<lfloor>n\<rfloor> = n)"
| "is_integer _ = False"

text \<open>\<open>(v as string).slice(0, n)\<close>, which throws where the value has no such method.\<close>

fun slice_start :: "cli_env \<Rightarrow> json option \<Rightarrow> nat \<Rightarrow> jsstr outcome" where
  "slice_start env (Some (JStr s)) n = Inr (take n s)"
| "slice_start env (Some (JArr xs)) n = Inr (text_of env (Some (JArr (take n xs))))"
| "slice_start env _ n = Inl TypeError"

definition asRecords :: "json option \<Rightarrow> json list" where
  "asRecords value = (case value of Some (JArr xs) \<Rightarrow> xs | _ \<Rightarrow> [])"

text \<open>A loop over records: the first property read of \<open>null\<close> throws.\<close>

definition each_record :: "json list \<Rightarrow> (json \<Rightarrow> cli \<Rightarrow> cli) \<Rightarrow> cli \<Rightarrow> cli" where
  "each_record xs body k = foldr (\<lambda>x k. if x = JNull then Throw TypeError else body x k) xs k"

subsection \<open>Responses\<close>

definition error_ids :: "json_object \<Rightarrow> jsstr list" where
  "error_ids response = List.map_filter
     (\<lambda>v. case v of Some (JStr s) \<Rightarrow> if s \<noteq> [] then Some s else None | _ \<Rightarrow> None)
     (field response ''file_id'' # map Some (asRecords (field response ''file_ids'')))"

definition hasError :: "cli_env \<Rightarrow> json_object \<Rightarrow> cli \<Rightarrow> cli" where
  "hasError env response k =
     (if json_truthy (field response ''error'')
      then LogError (terminalText
             (js ''Error: '' @ text_of env (field response ''error'')
              @ (if error_ids response \<noteq> []
                 then js '' (file_id: '' @ join_on (js '', '') (error_ids response) @ js '')'' else [])) True)
             (FailCode Exit)
      else k)"

subsection \<open>Arguments\<close>

record file_arguments =
  fa_paths :: "jsstr list"
  fa_caption :: "jsstr option"

definition CAPTION :: jsstr where "CAPTION = js ''--caption''"

fun parse_files :: "bool \<Rightarrow> jsstr list \<Rightarrow> file_arguments \<Rightarrow> file_arguments outcome" where
  "parse_files options [] r = Inr r"
| "parse_files options (a # rest) r =
     (if options \<and> a = js ''--'' then parse_files False rest r
      else if \<not> options \<or> a \<noteq> CAPTION then parse_files options rest (r\<lparr>fa_paths := fa_paths r @ [a]\<rparr>)
      else if fa_caption r \<noteq> None
      then Inl (ErrorMessage (js ''--caption requires one value and may only be specified once''))
      else case rest of
          [] \<Rightarrow> Inl (ErrorMessage (js ''--caption requires one value and may only be specified once''))
        | value # rest' \<Rightarrow>
            if value = CAPTION
            then Inl (ErrorMessage (js ''--caption requires one value and may only be specified once''))
            else parse_files options rest' (r\<lparr>fa_caption := Some value\<rparr>))"

definition parseFileArguments :: "jsstr list \<Rightarrow> file_arguments outcome" where
  "parseFileArguments args = parse_files True args \<lparr>fa_paths = [], fa_caption = None\<rparr>"

definition splitMigrateFlags :: "jsstr list \<Rightarrow> (jsstr list \<times> bool \<times> bool) outcome" where
  "splitMigrateFlags args =
     (let migrate = js ''--migrate'' \<in> set args; noMigrate = js ''--no-migrate'' \<in> set args
      in if migrate \<and> noMigrate
         then Inl (ErrorMessage (js ''Specify either --migrate or --no-migrate, not both''))
         else Inr (filter (\<lambda>a. a \<noteq> js ''--migrate'' \<and> a \<noteq> js ''--no-migrate'') args, migrate, noMigrate))"

definition sendFilePayload :: "cli_env \<Rightarrow> string \<Rightarrow> jsstr \<Rightarrow> jsstr list \<Rightarrow> jsstr option \<Rightarrow> json_object" where
  "sendFilePayload env targetKey receiver paths caption =
     (js targetKey, JStr receiver)
     # (if length paths = 1 then (js ''file_path'', JStr (resolve (cl_cwd env) (hd paths)))
        else (js ''paths'', JArr (map (\<lambda>p. JStr (resolve (cl_cwd env) p)) paths)))
     # (case caption of None \<Rightarrow> [] | Some c \<Rightarrow> [(js ''caption'', JStr c)])"

subsection \<open>Files\<close>

definition delivery_line :: "cli_env \<Rightarrow> json \<Rightarrow> jsstr outcome" where
  "delivery_line env delivery =
     (if delivery = JNull then Inl TypeError
      else Inr (js ''    '' @ text_of env (prop_of delivery ''recipient_id'') @ js '': ''
                @ or_text env (prop_of delivery ''status'') (js ''unknown'')))"

fun collect :: "('a \<Rightarrow> 'b outcome) \<Rightarrow> 'a list \<Rightarrow> 'b list outcome" where
  "collect f [] = Inr []"
| "collect f (x # xs) = and_then (f x) (\<lambda>y. and_then (collect f xs) (\<lambda>ys. Inr (y # ys)))"

definition fileMetadataLines :: "cli_env \<Rightarrow> json \<Rightarrow> jsstr list outcome" where
  "fileMetadataLines env f =
     (let caption = (if json_truthy (prop_of f ''caption'')
                     then [js ''  Caption: '' @ text_of env (prop_of f ''caption'')] else []);
          position = (if is_integer (prop_of f ''batch_index'') \<and> is_integer (prop_of f ''batch_count'')
                      then js '' ('' @ number_text env (map_option (\<lambda>n. n + 1) (number_of env (prop_of f ''batch_index'')))
                           @ js ''/'' @ text_of env (prop_of f ''batch_count'') @ js '')''
                      else []);
          batch = (if json_truthy (prop_of f ''batch_id'')
                   then [js ''  Batch: '' @ text_of env (prop_of f ''batch_id'') @ position] else []);
          deliveries = asRecords (prop_of f ''deliveries'')
      in and_then (collect (delivery_line env) deliveries) (\<lambda>ds.
           Inr (map (\<lambda>line. terminalText line True)
             (caption @ batch @ (if deliveries \<noteq> [] then js ''  Deliveries:'' # ds else [])))))"

definition log_lines :: "jsstr list \<Rightarrow> cli \<Rightarrow> cli" where
  "log_lines lines k = foldr Log lines k"

definition printFileMetadata :: "cli_env \<Rightarrow> json \<Rightarrow> cli \<Rightarrow> cli" where
  "printFileMetadata env f k =
     (case fileMetadataLines env f of Inl e \<Rightarrow> Throw e | Inr lines \<Rightarrow> log_lines lines k)"

definition transfer_result :: "cli_env \<Rightarrow> json \<Rightarrow> cli \<Rightarrow> cli" where
  "transfer_result env result k =
     Log (js ''  '' @ text_of env (prop_of result ''file_id'')
          @ (if json_truthy (prop_of result ''recipient_id'')
             then js '' -> '' @ text_of env (prop_of result ''recipient_id'') else [])) k"

definition transfer_error :: "cli_env \<Rightarrow> json \<Rightarrow> cli \<Rightarrow> cli" where
  "transfer_error env e k =
     (case e of
        JStr s \<Rightarrow> LogError (js ''Error: '' @ s) k
      | JNull \<Rightarrow> Throw TypeError
      | _ \<Rightarrow> LogError (js ''Error: '' @ or_text env (prop_of e ''path'') (js ''?'') @ js '': ''
               @ or_text env (prop_of e ''error'') (stringify (cl_number env) e)
               @ (case prop_of e ''file_id'' of
                    Some (JStr i) \<Rightarrow> js '' (file_id: '' @ i @ js '')'' | _ \<Rightarrow> [])) k)"

definition printTransferStarted :: "cli_env \<Rightarrow> json_object \<Rightarrow> jsstr \<Rightarrow> cli \<Rightarrow> cli" where
  "printTransferStarted env response prefix k =
     (let results = asRecords (field response ''results'');
          errors = asRecords (field response ''errors'');
          rest = each_record results (transfer_result env) (foldr (transfer_error env) errors k);
          started = (if errors \<noteq> [] \<and> results = [] \<and> \<not> json_truthy (field response ''file_id'')
                     then LogError (prefix @ js '' failed: no files started'') rest
                     else if json_truthy (field response ''batch_id'')
                     then Log (prefix @ js '' batch '' @ text_of env (field response ''batch_id'') @ js '' started'') rest
                     else if json_truthy (field response ''file_id'')
                     then Log (prefix @ js '' '' @ text_of env (field response ''file_id'') @ js '' started'') rest
                     else Log (prefix @ js '' started'') rest)
      in if errors \<noteq> [] then FailCode started else started)"

subsection \<open>Peers\<close>

definition transportName_cli :: "json option \<Rightarrow> jsstr" where
  "transportName_cli value =
     (if value = Some (JStr (js ''lan_tcp'')) then js ''LAN TCP''
      else if value = Some (JStr (js ''remote_udp'')) then js ''Remote UDP''
      else js ''not connected'')"

definition friendLabel :: "json \<Rightarrow> jsstr" where
  "friendLabel peer =
     (let status = prop_of peer ''friend_request'' in
      if json_truthy (prop_of peer ''is_friend'') then js '' friend''
      else if status = Some (JStr (js ''incoming'')) then js '' request-pending (respond with `friend accept`)''
      else if status = Some (JStr (js ''outgoing'')) then js '' request-sent''
      else if status = Some (JStr (js ''both'')) then js '' request-pending''
      else [])"

text \<open>The text a person is shown by: the name and the first twelve characters of the identity.\<close>

definition short_id :: "cli_env \<Rightarrow> json option \<Rightarrow> jsstr" where
  "short_id env v = take 12 (text_of env v)"

definition printPeer :: "cli_env \<Rightarrow> json \<Rightarrow> cli \<Rightarrow> cli" where
  "printPeer env peer k =
     (let endpoint = (if json_truthy (prop_of peer ''active_endpoint'')
                      then js '' via '' @ transportName_cli (prop_of peer ''active_transport'') @ js '' ''
                           @ text_of env (prop_of peer ''active_endpoint'') else [])
      in Log (terminalText (text_of env (prop_of peer ''display_name'') @ js '' (''
              @ short_id env (prop_of peer ''peer_id'') @ js '') ''
              @ (if json_truthy (prop_of peer ''is_online'') then js ''online'' else js ''offline'')
              @ friendLabel peer @ endpoint) True)
          (each_record (asRecords (prop_of peer ''endpoints'')) (\<lambda>item k.
             if json_truthy (prop_of item ''active'') then k
             else Log (terminalText (js ''  '' @ transportName_cli (prop_of item ''transport'') @ js '' ''
                    @ text_of env (prop_of item ''endpoint'')) True) k) k))"

subsection \<open>Moving data\<close>

definition lower_ascii :: "jsstr \<Rightarrow> jsstr" where
  "lower_ascii = map (\<lambda>c. if 65 \<le> c \<and> c \<le> 90 then c + 32 else c)"

definition confirmTransfer :: "cli_env \<Rightarrow> jsstr \<Rightarrow> (bool \<Rightarrow> cli) \<Rightarrow> cli" where
  "confirmTransfer env label k =
     (if \<not> cl_isTTY env then k False
      else Question (js ''Transfer existing '' @ label @ js '' to the new location? [y/N] '')
        (\<lambda>answer. let normalized = lower_ascii (trim answer)
                  in k (normalized = js ''y'' \<or> normalized = js ''yes'')))"

definition resolveMigrateChoice :: "cli_env \<Rightarrow> jsstr \<Rightarrow> bool \<Rightarrow> (bool \<Rightarrow> cli) \<Rightarrow> cli" where
  "resolveMigrateChoice env label hasContent k =
     (if \<not> cl_isTTY env
      then Throw (ErrorMessage (js ''Cannot prompt to transfer existing '' @ label
             @ js '' on a non-interactive input; pass --migrate or --no-migrate explicitly''))
      else if \<not> hasContent then k False
      else confirmTransfer env label k)"

end
