(* ===== verification/CliCommands.thy ===== *)
theory CliCommands
  imports CliText
begin

text \<open>
  The command-line client (\<open>cli/src/index.ts\<close>), second half: the commands and \<open>main\<close>, and the
  effects a run of a command has on the standard streams, the exit code and the connection, given what
  the backend answers.
\<close>

definition arg :: "jsstr list \<Rightarrow> nat \<Rightarrow> jsstr option" where
  "arg args i = char_at args i"

abbreviation given :: "jsstr list \<Rightarrow> nat \<Rightarrow> bool" where
  "given args i \<equiv> truthy (arg args i)"

abbreviation words_from :: "nat \<Rightarrow> jsstr list \<Rightarrow> jsstr" where
  "words_from n args \<equiv> join_on [32] (drop n args)"

abbreviation prop_text :: "cli_env \<Rightarrow> json_object \<Rightarrow> string \<Rightarrow> jsstr" where
  "prop_text env r k \<equiv> text_of env (field r k)"

definition usage :: "cli_env \<Rightarrow> string \<Rightarrow> cli" where
  "usage env s = Throw (ErrorMessage (js ''Usage: '' @ cl_program env @ js '' '' @ js s))"

text \<open>A request whose response is checked for an error before anything else.\<close>

definition cli_request :: "cli_env \<Rightarrow> string \<Rightarrow> json_object \<Rightarrow> (json_object \<Rightarrow> cli) \<Rightarrow> cli" where
  "cli_request env action params k = Send action params (\<lambda>r. hasError env r (k r))"

definition log_if :: "bool \<Rightarrow> jsstr \<Rightarrow> cli \<Rightarrow> cli" where
  "log_if b line k = (if b then Log line k else k)"

subsection \<open>Status, peers and messages\<close>

definition identity_command :: "cli_env \<Rightarrow> jsstr list \<Rightarrow> cli" where
  "identity_command env args =
     (if args \<noteq> []
      then cli_request env ''set_display_name'' [(js ''display_name'', JStr (join_on [32] args))] (\<lambda>r.
             Log (js ''Display name updated: '' @ prop_text env r ''display_name'') Exit)
      else cli_request env ''identity'' [] (\<lambda>r.
             Log (js ''Peer ID: '' @ prop_text env r ''peer_id'')
             (Log (js ''Display name: '' @ prop_text env r ''display_name'') Exit)))"

definition status_command :: "cli_env \<Rightarrow> cli" where
  "status_command env = cli_request env ''status'' [] (\<lambda>r.
     Log (js ''Peer ID: '' @ prop_text env r ''peer_id'')
     (Log (js ''Connected peers: '' @ prop_text env r ''connected_peers'')
     (Log (js ''Control: ''
           @ (if json_truthy (field r ''control_connected'') then js ''connected'' else js ''disconnected'')
           @ (if json_truthy (field r ''control_url'') then js '' ('' @ prop_text env r ''control_url'' @ js '')''
              else js '' (not configured)''))
     (log_if (json_truthy (field r ''public_endpoint''))
        (js ''Public UDP endpoint: '' @ prop_text env r ''public_endpoint'')
     (each_record (asRecords (field r ''peers'')) (printPeer env) Exit)))))"

definition peers_command :: "cli_env \<Rightarrow> cli" where
  "peers_command env = cli_request env ''peers'' [] (\<lambda>r.
     let peers = asRecords (field r ''peers'') in
     log_if (peers = []) (js ''No peers discovered.'') (each_record peers (printPeer env) Exit))"

definition message_date :: "cli_env \<Rightarrow> json \<Rightarrow> jsstr" where
  "message_date env m = cl_date env (map_option (\<lambda>n. n * 1000) (number_of env (prop_of m ''created_at'')))"

definition message_line :: "cli_env \<Rightarrow> json \<Rightarrow> cli \<Rightarrow> cli" where
  "message_line env m k =
     Log (terminalText (js ''['' @ message_date env m @ js ''] '' @ short_id env (prop_of m ''sender_id'')
          @ js '': '' @ or_text env (prop_of m ''content'') []) True) k"

definition messages_command :: "cli_env \<Rightarrow> jsstr list \<Rightarrow> cli" where
  "messages_command env args =
     (if \<not> given args 0 then usage env ''messages <peer-id>''
      else cli_request env ''messages'' [(js ''peer_id'', JStr (the (arg args 0)))] (\<lambda>r.
             each_record (asRecords (field r ''messages'')) (message_line env) Exit))"

definition send_command :: "cli_env \<Rightarrow> jsstr list \<Rightarrow> cli" where
  "send_command env args =
     (if \<not> given args 0 \<or> words_from 1 args = [] then usage env ''send <peer-id> <message>''
      else cli_request env ''send''
             [(js ''recipient_id'', JStr (the (arg args 0))), (js ''content'', JStr (words_from 1 args))]
             (\<lambda>r. Log (js ''Sent '' @ prop_text env r ''message_id'') Exit))"

subsection \<open>Files and storage\<close>

definition send_file_command :: "cli_env \<Rightarrow> jsstr list \<Rightarrow> cli" where
  "send_file_command env args =
     (case parseFileArguments (drop 1 args) of
        Inl e \<Rightarrow> Throw e
      | Inr fa \<Rightarrow>
          if \<not> given args 0 \<or> fa_paths fa = []
          then usage env ''send-file <peer-id> <paths...> [--caption TEXT]''
          else cli_request env ''file_send''
                 (sendFilePayload env ''recipient_id'' (the (arg args 0)) (fa_paths fa) (fa_caption fa))
                 (\<lambda>r. printTransferStarted env r (js ''File transfer'') Exit))"

definition file_line :: "cli_env \<Rightarrow> json \<Rightarrow> jsstr outcome" where
  "file_line env f =
     and_then (slice_start env (prop_of f ''file_id'') 8) (\<lambda>i.
     and_then (if json_truthy (prop_of f ''sender_id'')
               then and_then (slice_start env (prop_of f ''sender_id'') 8) (\<lambda>s. Inr (js ''from '' @ s))
               else Inr []) (\<lambda>s.
     Inr (i @ js '' '' @ text_of env (prop_of f ''filename'') @ js '' ''
       @ number_text env (number_of env (prop_of f ''file_size'')) @ js '' bytes ''
       @ text_of env (prop_of f ''direction'') @ js '' '' @ text_of env (prop_of f ''status'') @ js '' ''
       @ s @ js '' '' @ or_text env (prop_of f ''file_path'') [])))"

definition list_file :: "cli_env \<Rightarrow> json \<Rightarrow> cli \<Rightarrow> cli" where
  "list_file env f k =
     (case file_line env f of
        Inl e \<Rightarrow> Throw e
      | Inr line \<Rightarrow> Log (terminalText line True) (printFileMetadata env f k))"

text \<open>
  \<open>set-dir\<close> of files and of storage: the flags, the question whether to move what is there, the request.
\<close>

definition set_dir :: "cli_env \<Rightarrow> string \<Rightarrow> string \<Rightarrow> string \<Rightarrow> jsstr \<Rightarrow> jsstr list \<Rightarrow> (json_object \<Rightarrow> cli) \<Rightarrow> cli" where
  "set_dir env what action content label args k =
     (case splitMigrateFlags (drop 1 args) of
        Inl e \<Rightarrow> Throw e
      | Inr (paths, migrateFlag, noMigrate) \<Rightarrow>
          if paths = [] \<or> trim (join_on [32] paths) = []
          then usage env (what @ '' set-dir <path> [--migrate|--no-migrate]'')
          else
            let p = resolve (cl_cwd env) (join_on [32] paths);
                save = (\<lambda>migrate. cli_request env action
                  ((js ''path'', JStr p) # (if migrate then [(js ''migrate'', JBool True)] else [])) k)
            in if \<not> migrateFlag \<and> \<not> noMigrate
               then Send action [] (\<lambda>current.
                      if json_truthy (field current ''error'')
                      then Throw (ErrorMessage (prop_text env current ''error''))
                      else resolveMigrateChoice env label (json_truthy (field current content)) save)
               else save migrateFlag)"

definition note_or :: "json_object \<Rightarrow> string \<Rightarrow> cli \<Rightarrow> cli" where
  "note_or r moved k =
     (if json_truthy (field r ''migrated'') then Log (js moved) k
      else case field r ''note'' of Some (JStr s) \<Rightarrow> Log s k | _ \<Rightarrow> k)"

definition log_string :: "json option \<Rightarrow> string \<Rightarrow> cli \<Rightarrow> cli" where
  "log_string v prefix k = (case v of Some (JStr s) \<Rightarrow> Log (js prefix @ s) k | _ \<Rightarrow> k)"

definition files_command :: "cli_env \<Rightarrow> jsstr list \<Rightarrow> cli" where
  "files_command env args =
     (if arg args 0 = Some (js ''dir'')
      then cli_request env ''files_dir'' [] (\<lambda>r.
             Log (js ''Files dir: '' @ prop_text env r ''files_dir'')
             (Log (if json_truthy (field r ''files_env'')
                   then js ''(overridden by MESHTALK_FILES_DIR='' @ prop_text env r ''files_env'' @ js '')''
                   else if json_truthy (field r ''files_configured'') then js ''(custom)''
                   else js ''(default: <storage_dir>/files)'')
             (Log (js ''Storage dir: '' @ prop_text env r ''storage_dir'')
             (Log (js ''Data dir: '' @ prop_text env r ''data_dir'') Exit))))
      else if arg args 0 = Some (js ''set-dir'') \<and> given args 1
      then set_dir env ''files'' ''files_dir'' ''files_has_content'' (js ''files'') args (\<lambda>r.
             Log (js ''Files dir set to: '' @ prop_text env r ''files_dir'')
             (note_or r ''Existing files transferred from the old location.''
             (log_string (field r ''cleanup_warning'') ''Warning: '' Exit)))
      else cli_request env ''files'' [] (\<lambda>r.
             let files = asRecords (field r ''files'') in
             log_if (files = []) (js ''No file transfers.'') (each_record files (list_file env) Exit)))"

definition storage_command :: "cli_env \<Rightarrow> jsstr list \<Rightarrow> cli" where
  "storage_command env args =
     (if args = []
      then cli_request env ''storage'' [] (\<lambda>r.
             Log (js ''Storage dir: '' @ prop_text env r ''storage_dir'')
             (Log (if json_truthy (field r ''storage_env'')
                   then js ''(overridden by MESHTALK_STORAGE_DIR='' @ prop_text env r ''storage_env'' @ js '')''
                   else if json_truthy (field r ''storage_configured'') then js ''(custom)''
                   else js ''(default: <data_dir>)'')
             (Log (js ''Data dir: '' @ prop_text env r ''data_dir'')
             (Log (js ''Files dir: '' @ prop_text env r ''files_dir'')
             (Log (js ''Database: '' @ prop_text env r ''db_path'') Exit)))))
      else if arg args 0 = Some (js ''set-dir'') \<and> given args 1
      then set_dir env ''storage'' ''storage'' ''storage_has_content'' (js ''data'') args (\<lambda>r.
             Log (js ''Storage dir set to: '' @ prop_text env r ''storage_dir'')
             (note_or r ''Existing data transferred from the old location.''
             (log_string (field r ''files_note'') []
             (log_string (field r ''cleanup_warning'') ''Warning: '' Exit))))
      else usage env ''storage [set-dir <path> [--migrate|--no-migrate]]'')"

definition download_command :: "cli_env \<Rightarrow> jsstr list \<Rightarrow> cli" where
  "download_command env args =
     (if \<not> given args 0 \<or> \<not> given args 1 then usage env ''download <file-id> <dest>''
      else
        let fileId = the (arg args 0) in
        cli_request env ''file_info'' [(js ''file_id'', JStr fileId)] (\<lambda>info.
        cli_request env ''file_download''
          [(js ''file_id'', JStr fileId), (js ''dest_path'', JStr (resolve (cl_cwd env) (the (arg args 1))))] (\<lambda>r.
        Log (terminalText (js ''Downloaded '' @ fileId @ js '' -> '' @ prop_text env r ''dest_path'') True)
        (case field info ''file'' of
           Some (JObj f) \<Rightarrow> printFileMetadata env (JObj f) Exit
         | _ \<Rightarrow> Exit))))"

definition retry_command :: "cli_env \<Rightarrow> jsstr list \<Rightarrow> cli" where
  "retry_command env args =
     (let options = drop 1 args;
          bad = options \<noteq> [] \<and> (length options \<noteq> 2 \<or> arg options 0 \<noteq> Some (js ''--recipient'') \<or> \<not> given options 1);
          recipientId = (if options = [] then None else arg options 1)
      in if bad \<or> \<not> given args 0 then usage env ''retry <file-id> [--recipient <peer-id>]''
         else cli_request env ''file_retry''
                ((js ''file_id'', JStr (the (arg args 0)))
                 # (if truthy recipientId then [(js ''recipient_id'', JStr (the recipientId))] else [])) (\<lambda>r.
                Log (js ''Retry started for '' @ or_text env (field r ''file_id'') (the (arg args 0))
                     @ (if truthy recipientId then js '' recipient '' @ the recipientId else [])) Exit))"

subsection \<open>Control service and rooms\<close>

definition join_items :: "cli_env \<Rightarrow> string \<Rightarrow> json list \<Rightarrow> jsstr" where
  "join_items env sep xs = join_on (js sep) (map (element_text (cl_number env)) xs)"

definition control_command :: "cli_env \<Rightarrow> jsstr list \<Rightarrow> cli" where
  "control_command env args =
     (let show = (\<lambda>r.
            Log (js ''Control URL: '' @ or_text env (field r ''url'') (js ''not configured''))
            (Log (js ''Connection: ''
                  @ (if json_truthy (field r ''connected'') then js ''connected'' else js ''disconnected''))
            (Log (js ''STUN server: '' @ prop_text env r ''stun_server'')
            (if json_truthy (field r ''public_endpoint'')
             then (case field r ''public_endpoint'' of
                     Some (JArr xs) \<Rightarrow> Log (js ''Public UDP endpoint: '' @ join_items env '':'' xs) Exit
                   | _ \<Rightarrow> Throw TypeError)
             else Exit))))
      in if args = [] then cli_request env ''control'' [] show
         else if arg args 0 = Some (js ''set-url'') \<and> given args 1 \<and> length args = 2
         then cli_request env ''control'' [(js ''url'', JStr (the (arg args 1)))] show
         else usage env ''control [set-url <url>]'')"

definition pins_text :: "cli_env \<Rightarrow> json option \<Rightarrow> jsstr" where
  "pins_text env v =
     (case v of
        Some (JArr xs) \<Rightarrow> if xs \<noteq> [] then join_items env '', '' xs else js ''not pinned''
      | _ \<Rightarrow> js ''not pinned'')"

definition advanced_params :: "jsstr list \<Rightarrow> json_object option" where
  "advanced_params args =
     (if args = [] then Some []
      else if arg args 0 = Some (js ''control'') \<and> arg args 1 = Some (js ''manual'') \<and> given args 2 \<and> length args = 3
      then Some [(js ''control_pinned_ip'', JStr (the (arg args 2)))]
      else if arg args 0 = Some (js ''control'') \<and> arg args 1 = Some (js ''auto'') \<and> length args = 2
      then Some [(js ''auto_control_pinned_ip'', JBool True)]
      else if arg args 0 = Some (js ''control'') \<and> arg args 1 = Some (js ''clear'') \<and> length args = 2
      then Some [(js ''clear_control_pinned_ip'', JBool True)]
      else if arg args 0 = Some (js ''stun'') \<and> arg args 1 = Some (js ''manual'') \<and> given args 2 \<and> length args = 3
      then Some [(js ''stun_pinned_ip'', JStr (the (arg args 2)))]
      else if arg args 0 = Some (js ''stun'') \<and> arg args 1 = Some (js ''auto'') \<and> length args = 2
      then Some [(js ''auto_stun_pinned_ip'', JBool True)]
      else if arg args 0 = Some (js ''stun'') \<and> arg args 1 = Some (js ''clear'') \<and> length args = 2
      then Some [(js ''clear_stun_pinned_ip'', JBool True)]
      else None)"

definition advanced_command :: "cli_env \<Rightarrow> jsstr list \<Rightarrow> cli" where
  "advanced_command env args =
     (case advanced_params args of
        None \<Rightarrow> usage env ''advanced [control <manual <ips>|auto|clear>|stun <manual <ips>|auto|clear>]''
      | Some params \<Rightarrow> cli_request env ''advanced_config'' params (\<lambda>r.
          Log (js ''Control server: '' @ or_text env (field r ''control_url'') (js ''not configured''))
          (Log (js ''Control IP pins: '' @ pins_text env (field r ''control_pinned_ips''))
          (Log (js ''STUN server: '' @ prop_text env r ''stun_server'')
          (Log (js ''STUN IP pins: '' @ pins_text env (field r ''stun_pinned_ips'')) Exit)))))"

definition room_command :: "cli_env \<Rightarrow> jsstr list \<Rightarrow> cli" where
  "room_command env args =
     (if arg args 0 = Some (js ''create'')
      then
        let name = words_from 1 args in
        cli_request env ''room_create'' (if name \<noteq> [] then [(js ''name'', JStr name)] else []) (\<lambda>r.
          Log (js ''Room ID: '' @ prop_text env r ''room_id'')
          (log_if (json_truthy (field r ''name'')) (js ''Group: '' @ prop_text env r ''name'')
          (Log (js ''Invite: '' @ prop_text env r ''invite'')
          (Log (js ''Treat this invite as a secret. Anyone holding it can join the room.'') Exit))))
      else if arg args 0 = Some (js ''join'') \<and> given args 1 \<and> length args = 2
      then cli_request env ''room_join'' [(js ''invite'', JStr (the (arg args 1)))] (\<lambda>r.
          if json_truthy (field r ''group_id'')
          then Log (js ''Joined group '' @ or_text env (field r ''name'') (js ''Unnamed group'')
                    @ js '' ('' @ prop_text env r ''group_id'' @ js '')'') Exit
          else Log (js ''Joined room '' @ prop_text env r ''room_id'') Exit)
      else if arg args 0 = Some (js ''leave'') \<and> given args 1 \<and> length args = 2
      then cli_request env ''room_leave'' [(js ''room_id'', JStr (the (arg args 1)))] (\<lambda>r.
          Log (js ''Left room '' @ prop_text env r ''room_id'') Exit)
      else usage env ''room <create|join|leave> [value]'')"

definition rooms_command :: "cli_env \<Rightarrow> cli" where
  "rooms_command env = cli_request env ''rooms'' [] (\<lambda>r.
     let rooms = asRecords (field r ''rooms'') in
     log_if (rooms = []) (js ''No joined rooms.'')
     (each_record rooms (\<lambda>room k. Log (text_of env (prop_of room ''room_id'') @ js '' (''
        @ text_of env (prop_of room ''members'') @ js '' control connections)'') k) Exit))"

end
