(* ===== verification/CliMain.thy ===== *)
theory CliMain
  imports CliCommands
begin

text \<open>
  The command-line client, third part: groups, friends, the events of \<open>watch\<close>, \<open>main\<close> with its error
  handling, and the effects of a run.
\<close>

subsection \<open>Groups\<close>

definition groups_command :: "cli_env \<Rightarrow> cli" where
  "groups_command env = cli_request env ''groups'' [] (\<lambda>r.
     let groups = asRecords (field r ''groups'') in
     log_if (groups = []) (js ''No group chats.'')
     (each_record groups (\<lambda>g k.
        let unread = (case number_of env (prop_of g ''unread_count'') of None \<Rightarrow> 0 | Some n \<Rightarrow> n) in
        Log (terminalText (text_of env (prop_of g ''name'') @ js '' ('' @ text_of env (prop_of g ''group_id'')
             @ js '') - '' @ text_of env (prop_of g ''member_count'') @ js '' members''
             @ (if unread \<noteq> 0 then js '', '' @ cl_number env unread @ js '' unread'' else [])) True) k) Exit))"

definition member_line :: "cli_env \<Rightarrow> json \<Rightarrow> cli \<Rightarrow> cli" where
  "member_line env m k =
     Log (terminalText (text_of env (prop_of m ''display_name'') @ js '' ('' @ short_id env (prop_of m ''peer_id'')
       @ js '') - '' @ (if json_truthy (prop_of m ''is_online'') then js ''online'' else js ''offline'')) True) k"

definition group_message_line :: "cli_env \<Rightarrow> json \<Rightarrow> cli \<Rightarrow> cli" where
  "group_message_line env m k =
     (if prop_of m ''kind'' = Some (JStr (js ''join'')) \<or> prop_of m ''kind'' = Some (JStr (js ''leave''))
      then Log (terminalText (js ''['' @ message_date env m @ js ''] '' @ or_text env (prop_of m ''content'') []) True) k
      else message_line env m k)"

definition group_command :: "cli_env \<Rightarrow> jsstr list \<Rightarrow> cli" where
  "group_command env args =
     (let subcommand = arg args 0; words = drop 2 args in
      if \<not> given args 1
      then usage env ''group <members|messages|send|send-file|leave> <group-id> [message]''
      else
        let groupId = the (arg args 1); params = [(js ''group_id'', JStr groupId)] in
        if subcommand = Some (js ''members'') \<and> words = []
        then cli_request env ''group_members'' params (\<lambda>r.
               let members = asRecords (field r ''members'') in
               log_if (members = []) (js ''No group members.'') (each_record members (member_line env) Exit))
        else if subcommand = Some (js ''messages'') \<and> words = []
        then cli_request env ''group_messages'' params (\<lambda>r.
               let messages = asRecords (field r ''messages'') in
               log_if (messages = []) (js ''No group messages.'')
               (each_record messages (group_message_line env) Exit))
        else if subcommand = Some (js ''send'')
        then (if join_on [32] words = [] then usage env ''group send <group-id> <message>''
              else cli_request env ''group_send'' (params @ [(js ''content'', JStr (join_on [32] words))]) (\<lambda>r.
                     Log (js ''Sent group message '' @ prop_text env r ''message_id'') Exit))
        else if subcommand = Some (js ''send-file'')
        then (case parseFileArguments words of
                Inl e \<Rightarrow> Throw e
              | Inr fa \<Rightarrow>
                  if fa_paths fa = [] then usage env ''group send-file <group-id> <paths...> [--caption TEXT]''
                  else cli_request env ''group_file_send''
                         (sendFilePayload env ''group_id'' groupId (fa_paths fa) (fa_caption fa)) (\<lambda>r.
                         printTransferStarted env r (js ''Group file transfer'') Exit))
        else if subcommand = Some (js ''leave'') \<and> words = []
        then cli_request env ''group_leave'' params (\<lambda>r.
               Log (js ''Left group '' @ prop_text env r ''group_id'') Exit)
        else usage env ''group <members|messages|send|send-file|leave> <group-id> [value]'')"

subsection \<open>Friends\<close>

definition person_line :: "cli_env \<Rightarrow> json \<Rightarrow> cli \<Rightarrow> cli" where
  "person_line env p k =
     Log (terminalText (text_of env (prop_of p ''display_name'') @ js '' ('' @ short_id env (prop_of p ''peer_id'')
       @ js '')'') True) k"

definition friends_command :: "cli_env \<Rightarrow> cli" where
  "friends_command env = cli_request env ''friends'' [] (\<lambda>r.
     let friends = asRecords (field r ''friends'') in
     log_if (friends = []) (js ''No friends yet. Send a friend request to chat.'')
     (each_record friends (person_line env) Exit))"

definition request_lines :: "cli_env \<Rightarrow> json \<Rightarrow> cli \<Rightarrow> cli" where
  "request_lines env q k =
     (let i = text_of env (prop_of q ''request_id'') in
      if prop_of q ''direction'' = Some (JStr (js ''incoming''))
      then Log (terminalText (js ''Incoming: '' @ text_of env (prop_of q ''sender_name'') @ js '' ('' @ i @ js '')''
             @ (if json_truthy (prop_of q ''note'') then js '' - '' @ text_of env (prop_of q ''note'') else [])) True)
           (Log (terminalText (js ''  Respond with: friend accept '' @ i @ js '' | friend decline '' @ i) True) k)
      else Log (terminalText (js ''Pending to: ''
             @ text_of env (or_else (prop_of q ''recipient_name'') (prop_of q ''sender_name''))
             @ js '' ('' @ i @ js '')'') True)
           (Log (terminalText (js ''  Cancel with: friend cancel '' @ i) True) k))"

definition friend_requests_command :: "cli_env \<Rightarrow> cli" where
  "friend_requests_command env = cli_request env ''friend_requests'' [] (\<lambda>r.
     let requests = asRecords (field r ''requests'') in
     log_if (requests = []) (js ''No pending friend requests.'')
     (each_record requests (request_lines env) Exit))"

definition friend_subcommand :: "cli_env \<Rightarrow> jsstr list \<Rightarrow> cli" where
  "friend_subcommand env args =
     (let subcommand = arg args 0; who = the (arg args 1) in
      if \<not> given args 1
      then usage env ''friend <send <peer-id> [note]|accept <request-id>|decline <request-id>|cancel <request-id>|remove <peer-id>>''
      else if subcommand = Some (js ''send'')
      then cli_request env ''friend_send'' [(js ''peer_id'', JStr who), (js ''note'', JStr (words_from 2 args))] (\<lambda>r.
             Log (js ''Friend request sent to '' @ who @ js '': '' @ prop_text env r ''request_id'') Exit)
      else if subcommand = Some (js ''accept'')
      then cli_request env ''friend_respond'' [(js ''request_id'', JStr who), (js ''accept'', JBool True)] (\<lambda>r.
             Log (js ''Friend request '' @ who @ js '' accepted. You can now chat.'') Exit)
      else if subcommand = Some (js ''decline'')
      then cli_request env ''friend_respond'' [(js ''request_id'', JStr who), (js ''accept'', JBool False)] (\<lambda>r.
             Log (js ''Friend request '' @ who @ js '' declined.'') Exit)
      else if subcommand = Some (js ''cancel'')
      then cli_request env ''friend_cancel'' [(js ''request_id'', JStr who)] (\<lambda>r.
             Log (js ''Friend request '' @ who @ js '' cancelled.'') Exit)
      else if subcommand = Some (js ''remove'')
      then cli_request env ''unfriend'' [(js ''peer_id'', JStr who)] (\<lambda>r.
             Log (js ''Removed '' @ who @ js '' as a friend.'') Exit)
      else usage env ''friend <send <peer-id> [note]|accept <request-id>|decline <request-id>|cancel <request-id>|remove <peer-id>>'')"

definition blocked_command :: "cli_env \<Rightarrow> cli" where
  "blocked_command env = cli_request env ''blocked_peers'' [] (\<lambda>r.
     let blocked = asRecords (field r ''blocked'') in
     log_if (blocked = []) (js ''No blocked peers. Blocked peers cannot send you friend requests.'')
     (each_record blocked (person_line env) Exit))"

definition block_command :: "cli_env \<Rightarrow> jsstr \<Rightarrow> cli" where
  "block_command env who = cli_request env ''block_peer'' [(js ''peer_id'', JStr who)] (\<lambda>r.
     Log (js ''Blocked '' @ who @ js ''. Their friend requests are now ignored.'') Exit)"

definition unblock_command :: "cli_env \<Rightarrow> jsstr \<Rightarrow> cli" where
  "unblock_command env who = cli_request env ''unblock_peer'' [(js ''peer_id'', JStr who)] (\<lambda>r.
     Log (js ''Unblocked '' @ who @ js ''. They can send friend requests again.'') Exit)"

subsection \<open>Watching\<close>

definition watch_line :: "cli_env \<Rightarrow> json_object \<Rightarrow> jsstr option" where
  "watch_line env event =
     (let name = field event ''event'';
          is_event = (\<lambda>s. name = Some (JStr (js s)));
          group = js ''[Group '' @ short_id env (field event ''group_id'') @ js ''] '';
          sender = short_id env (field event ''sender_id'');
          person = or_text env (field event ''display_name'') (short_id env (field event ''peer_id''));
          file_id = take 8 (prop_text env event ''file_id'')
      in if is_event ''message''
         then Some (terminalText (sender @ js '': '' @ or_text env (field event ''content'') []) True)
         else if is_event ''group_message''
         then Some (terminalText (group @ sender @ js '': '' @ or_text env (field event ''content'') []) True)
         else if is_event ''group_member_joined'' then Some (terminalText (group @ person @ js '' joined.'') True)
         else if is_event ''group_member_left'' then Some (terminalText (group @ person @ js '' left.'') True)
         else if is_event ''file_offer''
         then Some (terminalText (js ''[File] Offer '' @ file_id @ js '' '' @ prop_text env event ''filename'' @ js '' ''
                @ prop_text env event ''file_size'' @ js '' bytes from ''
                @ take 8 (prop_text env event ''sender_id'')) True)
         else if is_event ''file_completed''
         then Some (terminalText (js ''[File] Completed '' @ prop_text env event ''filename'' @ js '' -> ''
                @ prop_text env event ''file_path'') True)
         else if is_event ''file_progress''
         then Some (js ''[File] Progress '' @ file_id @ js '' ''
                @ text_of env (or_else (field event ''received'') (field event ''chunk_index'')) @ js ''/''
                @ prop_text env event ''total_chunks'')
         else None)"

subsection \<open>main\<close>

definition command_program :: "cli_env \<Rightarrow> jsstr \<Rightarrow> jsstr list \<Rightarrow> cli" where
  "command_program env command args =
     (let is_command = (\<lambda>s. command = js s) in
      if is_command ''identity'' then identity_command env args
      else if is_command ''status'' then status_command env
      else if is_command ''peers'' then peers_command env
      else if is_command ''messages'' then messages_command env args
      else if is_command ''send'' then send_command env args
      else if is_command ''send-file'' then send_file_command env args
      else if is_command ''files'' then files_command env args
      else if is_command ''storage'' then storage_command env args
      else if is_command ''download'' then download_command env args
      else if is_command ''retry'' then retry_command env args
      else if is_command ''watch''
      then Log (js ''Watching for incoming messages. Press Ctrl+C to stop.'') (Watch Exit)
      else if is_command ''control'' then control_command env args
      else if is_command ''advanced'' then advanced_command env args
      else if is_command ''room'' then room_command env args
      else if is_command ''rooms'' then rooms_command env
      else if is_command ''groups'' \<or> (is_command ''group'' \<and> args = [js ''list'']) then groups_command env
      else if is_command ''group'' then group_command env args
      else if is_command ''friends'' then friends_command env
      else if is_command ''friend-requests'' then friend_requests_command env
      else if is_command ''friend'' then friend_subcommand env args
      else if is_command ''blocked'' then blocked_command env
      else if is_command ''block'' \<and> given args 0 then block_command env (the (arg args 0))
      else if is_command ''unblock'' \<and> given args 0 then unblock_command env (the (arg args 0))
      else Throw (ErrorMessage (js ''Unknown command: '' @ command @ [10] @ USAGE (cl_program env))))"

fun error_text :: "cli_env \<Rightarrow> js_error \<Rightarrow> jsstr" where
  "error_text env (ErrorMessage m) = m"
| "error_text env _ = cl_type_error env"

text \<open>The \<open>catch\<close> and \<open>finally\<close> of \<open>main\<close> around a command.\<close>

primrec guarded :: "cli_env \<Rightarrow> cli \<Rightarrow> cli" where
  "guarded env Exit = CloseIpc Exit"
| "guarded env (Throw e) =
     LogError (terminalText (js ''Error: '' @ error_text env e) True) (FailCode (CloseIpc Exit))"
| "guarded env (Log s k) = Log s (guarded env k)"
| "guarded env (LogError s k) = LogError s (guarded env k)"
| "guarded env (FailCode k) = FailCode (guarded env k)"
| "guarded env (CloseIpc k) = CloseIpc (guarded env k)"
| "guarded env (Send a p k) = Send a p (\<lambda>r. guarded env (k r))"
| "guarded env (Question q k) = Question q (\<lambda>s. guarded env (k s))"
| "guarded env (Watch k) = Watch (guarded env k)"

text \<open>\<open>main\<close>; the outcome of connecting to the backend is an argument.\<close>

definition main_program :: "cli_env \<Rightarrow> jsstr option \<Rightarrow> jsstr list \<Rightarrow> cli" where
  "main_program env connect_error argv =
     (if argv = [] \<or> hd argv = [] \<or> hd argv = js ''help'' then Log (USAGE (cl_program env)) Exit
      else case connect_error of
          Some message \<Rightarrow> LogError (js ''Error: Cannot connect to MeshTalk backend. '' @ message) (FailCode Exit)
        | None \<Rightarrow> guarded env (command_program env (hd argv) (tl argv)))"

subsection \<open>Running a command\<close>

datatype cli_effect =
    Out jsstr
  | Err jsstr
  | ExitCode1
  | IpcClosed
  | Requested string json_object json_object
  | Asked jsstr jsstr

text \<open>
  The world of a run: what the backend answers to the n-th request, what the user types, which events
  arrive before the user interrupts \<open>watch\<close>.
\<close>

record cli_world =
  wd_backend :: "nat \<Rightarrow> string \<Rightarrow> json_object \<Rightarrow> json_object"
  wd_answer :: "jsstr \<Rightarrow> jsstr"
  wd_events :: "json_object list"

primrec perform :: "cli_env \<Rightarrow> cli_world \<Rightarrow> cli \<Rightarrow> nat \<Rightarrow> cli_effect list" where
  "perform env wd Exit n = []"
| "perform env wd (Throw e) n = []"
| "perform env wd (Log s k) n = Out s # perform env wd k n"
| "perform env wd (LogError s k) n = Err s # perform env wd k n"
| "perform env wd (FailCode k) n = ExitCode1 # perform env wd k n"
| "perform env wd (CloseIpc k) n = IpcClosed # perform env wd k n"
| "perform env wd (Send a p k) n =
     Requested a p (wd_backend wd n a p) # perform env wd (k (wd_backend wd n a p)) (Suc n)"
| "perform env wd (Question q k) n = Asked q (wd_answer wd q) # perform env wd (k (wd_answer wd q)) n"
| "perform env wd (Watch k) n = map Out (List.map_filter (watch_line env) (wd_events wd)) @ perform env wd k n"

definition run_main :: "cli_env \<Rightarrow> cli_world \<Rightarrow> jsstr option \<Rightarrow> jsstr list \<Rightarrow> cli_effect list" where
  "run_main env wd connect_error argv = perform env wd (main_program env connect_error argv) 0"

definition sample_cli :: cli_env where
  "sample_cli = \<lparr>cl_program = js ''meshtalk'', cl_cwd = js ''/home/ann'', cl_isTTY = True,
     cl_number = (\<lambda>n. decimal (nat \<lfloor>n\<rfloor>)), cl_parse = (\<lambda>s. None), cl_date = (\<lambda>d. js ''now''),
     cl_type_error = js ''TypeError''\<rparr>"

end
