(* ===== verification/CliProperties.thy ===== *)
theory CliProperties
  imports CliMain
begin

text \<open>
  What every command of the command-line client keeps. Each property of runs rests on a predicate on
  programs, given by recursion over the effects. The locale \<open>cli_closed\<close> states what such a predicate
  has to satisfy (it holds of the effects before and after a request and passes through requests, and through a change of
  directory for the allowed arguments) and
  derives it for every command once; the predicates interpret it.
\<close>

subsection \<open>The interface of the predicates\<close>

locale cli_closed =
  fixes good :: "cli \<Rightarrow> bool" and allowed :: "jsstr list \<Rightarrow> bool"
  assumes good_Exit: "good Exit"
    and good_Throw: "good (Throw e)"
    and good_Log: "good k \<Longrightarrow> good (Log s k)"
    and good_LogError: "good k \<Longrightarrow> good (LogError s k)"
    and good_FailCode: "good k \<Longrightarrow> good (FailCode k)"
    and good_Watch: "good k \<Longrightarrow> good (Watch k)"
    and good_request: "map_get p (js ''migrate'') = None \<Longrightarrow> (\<And>r. good (f r)) \<Longrightarrow> good (cli_request env a p f)"
    and good_set_dir: "allowed args \<Longrightarrow> (\<And>r. good (f r)) \<Longrightarrow> good (set_dir env what a c label args f)"
begin

lemma good_if: "(b \<Longrightarrow> good x) \<Longrightarrow> (\<not> b \<Longrightarrow> good y) \<Longrightarrow> good (if b then x else y)"
  by simp

lemma good_option: "good x \<Longrightarrow> (\<And>a. good (f a)) \<Longrightarrow> good (case v of None \<Rightarrow> x | Some a \<Rightarrow> f a)"
  by (cases v) simp_all

lemma good_outcome: "(\<And>e. good (f e)) \<Longrightarrow> (\<And>a. good (g a)) \<Longrightarrow> good (case v of Inl e \<Rightarrow> f e | Inr a \<Rightarrow> g a)"
  by (cases v) simp_all

lemma good_json:
  "good a \<Longrightarrow> (\<And>x. good (b x)) \<Longrightarrow> (\<And>x. good (c x)) \<Longrightarrow> (\<And>x. good (d x)) \<Longrightarrow> (\<And>x. good (e x))
   \<Longrightarrow> (\<And>x. good (f x)) \<Longrightarrow> good (case_json a b c d e f j)"
  by (cases j) simp_all

lemma good_log_if: "good k \<Longrightarrow> good (log_if b s k)"
  by (simp add: log_if_def good_Log)

lemma good_usage: "good (usage env s)"
  by (simp add: usage_def good_Throw)

lemma good_each_record:
  assumes "good k" "\<And>x k. good k \<Longrightarrow> good (body x k)"
  shows "good (each_record xs body k)"
  using assms unfolding each_record_def by (induction xs) (simp_all add: good_Throw)

lemma good_log_lines: "good k \<Longrightarrow> good (log_lines lines k)"
  unfolding log_lines_def by (induction lines) (simp_all add: good_Log)

lemmas good_basic = good_Exit good_Throw good_Log good_LogError good_FailCode good_Watch good_if good_option
  good_outcome good_json good_log_if good_usage good_each_record good_log_lines

lemma good_printFileMetadata: "good k \<Longrightarrow> good (printFileMetadata env f k)"
  unfolding printFileMetadata_def by (intro good_basic)

lemma good_list_file: "good k \<Longrightarrow> good (list_file env f k)"
  unfolding list_file_def by (intro good_basic good_printFileMetadata)

lemma good_transfer_error: "good k \<Longrightarrow> good (transfer_error env e k)"
  unfolding transfer_error_def by (intro good_basic)

lemma good_transfer_errors: "good k \<Longrightarrow> good (foldr (transfer_error env) es k)"
  by (induction es) (simp_all add: good_transfer_error)

lemma good_printTransferStarted: "good k \<Longrightarrow> good (printTransferStarted env r prefix k)"
  unfolding printTransferStarted_def Let_def transfer_result_def
  by (intro good_basic good_transfer_errors)

lemma good_printPeer: "good k \<Longrightarrow> good (printPeer env p k)"
  unfolding printPeer_def Let_def by (intro good_basic)

lemma good_lines:
  "good k \<Longrightarrow> good (message_line env m k)" "good k \<Longrightarrow> good (group_message_line env m k)"
  "good k \<Longrightarrow> good (member_line env m k)" "good k \<Longrightarrow> good (person_line env m k)"
  "good k \<Longrightarrow> good (request_lines env m k)" "good k \<Longrightarrow> good (note_or r s k)" "good k \<Longrightarrow> good (log_string v p k)"
  unfolding message_line_def group_message_line_def member_line_def person_line_def request_lines_def
    note_or_def log_string_def Let_def
  by (intro good_basic; assumption)+

lemmas good_parts = good_basic good_list_file good_printFileMetadata good_printTransferStarted good_printPeer good_lines

lemma payload_no_migrate: "k \<noteq> ''migrate'' \<Longrightarrow> map_get (sendFilePayload env k x ps c) (js ''migrate'') = None"
  by (simp add: sendFilePayload_def split: option.split)

lemma advanced_no_migrate: "advanced_params args = Some p \<Longrightarrow> map_get p (js ''migrate'') = None"
  by (auto simp: advanced_params_def split: if_splits)

lemma good_pick: "(\<And>a. v = Some a \<Longrightarrow> good (f a)) \<Longrightarrow> good x \<Longrightarrow> good (case v of None \<Rightarrow> x | Some a \<Rightarrow> f a)"
  by (cases v) simp_all

lemma good_identity_command: "good (identity_command env args)"
  unfolding identity_command_def Let_def
  by (intro good_request good_set_dir good_parts) (simp_all add: payload_no_migrate)

lemma good_status_command: "good (status_command env)"
  unfolding status_command_def Let_def
  by (intro good_request good_set_dir good_parts) (simp_all add: payload_no_migrate)

lemma good_peers_command: "good (peers_command env)"
  unfolding peers_command_def Let_def
  by (intro good_request good_set_dir good_parts) (simp_all add: payload_no_migrate)

lemma good_messages_command: "good (messages_command env args)"
  unfolding messages_command_def Let_def
  by (intro good_request good_set_dir good_parts) (simp_all add: payload_no_migrate)

lemma good_send_command: "good (send_command env args)"
  unfolding send_command_def Let_def
  by (intro good_request good_set_dir good_parts) (simp_all add: payload_no_migrate)

lemma good_send_file_command: "good (send_file_command env args)"
  unfolding send_file_command_def Let_def
  by (intro good_request good_set_dir good_parts) (simp_all add: payload_no_migrate)

lemma good_files_command: "allowed args \<Longrightarrow> good (files_command env args)"
  unfolding files_command_def Let_def
  by (intro good_request good_set_dir good_parts) (simp_all add: payload_no_migrate)

lemma good_storage_command: "allowed args \<Longrightarrow> good (storage_command env args)"
  unfolding storage_command_def Let_def
  by (intro good_request good_set_dir good_parts) (simp_all add: payload_no_migrate)

lemma good_download_command: "good (download_command env args)"
  unfolding download_command_def Let_def
  by (intro good_request good_set_dir good_parts) (simp_all add: payload_no_migrate)

lemma good_retry_command: "good (retry_command env args)"
  unfolding retry_command_def Let_def
  by (intro good_request good_set_dir good_parts) (simp_all add: payload_no_migrate)

lemma good_control_command: "good (control_command env args)"
  unfolding control_command_def Let_def
  by (intro good_request good_set_dir good_parts) (simp_all add: payload_no_migrate)

lemma good_advanced_command: "good (advanced_command env args)"
  unfolding advanced_command_def
  by (intro good_pick good_request good_parts) (rule advanced_no_migrate)

lemma good_room_command: "good (room_command env args)"
  unfolding room_command_def Let_def
  by (intro good_request good_set_dir good_parts) (simp_all add: payload_no_migrate)

lemma good_rooms_command: "good (rooms_command env)"
  unfolding rooms_command_def Let_def
  by (intro good_request good_set_dir good_parts) (simp_all add: payload_no_migrate)

lemma good_groups_command: "good (groups_command env)"
  unfolding groups_command_def Let_def
  by (intro good_request good_set_dir good_parts) (simp_all add: payload_no_migrate)

lemma good_group_command: "good (group_command env args)"
  unfolding group_command_def Let_def
  by (intro good_request good_set_dir good_parts) (simp_all add: payload_no_migrate)

lemma good_friends_command: "good (friends_command env)"
  unfolding friends_command_def Let_def
  by (intro good_request good_set_dir good_parts) (simp_all add: payload_no_migrate)

lemma good_friend_requests_command: "good (friend_requests_command env)"
  unfolding friend_requests_command_def Let_def
  by (intro good_request good_set_dir good_parts) (simp_all add: payload_no_migrate)

lemma good_friend_subcommand: "good (friend_subcommand env args)"
  unfolding friend_subcommand_def Let_def
  by (intro good_request good_set_dir good_parts) (simp_all add: payload_no_migrate)

lemma good_blocked_command: "good (blocked_command env)"
  unfolding blocked_command_def Let_def
  by (intro good_request good_set_dir good_parts) (simp_all add: payload_no_migrate)

lemma good_block_command: "good (block_command env who)"
  unfolding block_command_def Let_def
  by (intro good_request good_set_dir good_parts) (simp_all add: payload_no_migrate)

lemma good_unblock_command: "good (unblock_command env who)"
  unfolding unblock_command_def Let_def
  by (intro good_request good_set_dir good_parts) (simp_all add: payload_no_migrate)

lemma good_command: "allowed args \<Longrightarrow> good (command_program env command args)"
  unfolding command_program_def Let_def
  by (intro good_if good_Log good_Watch good_Exit good_Throw good_identity_command good_status_command good_peers_command good_messages_command
    good_send_command good_send_file_command good_files_command good_storage_command
    good_download_command good_retry_command good_control_command good_advanced_command
    good_room_command good_rooms_command good_groups_command good_group_command
    good_friends_command good_friend_requests_command good_friend_subcommand good_blocked_command
    good_block_command good_unblock_command)

end

subsection \<open>An error ends the command\<close>

primrec quiet :: "cli \<Rightarrow> bool" where
  "quiet Exit = True"
| "quiet (Throw e) = True"
| "quiet (Log s k) = False"
| "quiet (LogError s k) = quiet k"
| "quiet (FailCode k) = quiet k"
| "quiet (CloseIpc k) = quiet k"
| "quiet (Send a p k) = False"
| "quiet (Question q k) = False"
| "quiet (Watch k) = False"

primrec fails :: "cli \<Rightarrow> bool" where
  "fails Exit = False"
| "fails (Throw e) = True"
| "fails (Log s k) = False"
| "fails (LogError s k) = fails k"
| "fails (FailCode k) = quiet k"
| "fails (CloseIpc k) = fails k"
| "fails (Send a p k) = False"
| "fails (Question q k) = False"
| "fails (Watch k) = False"

primrec stops :: "cli \<Rightarrow> bool" where
  "stops Exit = True"
| "stops (Throw e) = True"
| "stops (Log s k) = stops k"
| "stops (LogError s k) = stops k"
| "stops (FailCode k) = stops k"
| "stops (CloseIpc k) = stops k"
| "stops (Send a p k) = (\<forall>r. stops (k r) \<and> (json_truthy (field r ''error'') \<longrightarrow> fails (k r)))"
| "stops (Question q k) = (\<forall>s. stops (k s))"
| "stops (Watch k) = stops k"

lemma stops_request: "(\<And>r. stops (f r)) \<Longrightarrow> stops (cli_request env a p f)"
  by (simp add: cli_request_def hasError_def)

lemma stops_set_dir: "(\<And>r. stops (f r)) \<Longrightarrow> stops (set_dir env what a c label args f)"
  by (auto simp: set_dir_def Let_def usage_def resolveMigrateChoice_def confirmTransfer_def stops_request
      split: sum.split)

interpretation st: cli_closed stops "\<lambda>args. True"
  by unfold_locales (simp_all add: stops_request stops_set_dir)

lemma guarded_quiet: "quiet c \<Longrightarrow> quiet (guarded env c)"
  by (induction c) simp_all

lemma guarded_fails: "fails c \<Longrightarrow> fails (guarded env c)"
  by (induction c) (simp_all add: guarded_quiet)

lemma guarded_stops: "stops c \<Longrightarrow> stops (guarded env c)"
  by (induction c) (simp_all add: guarded_fails)

lemma stops_main: "stops (main_program env e argv)"
  by (simp add: main_program_def guarded_stops st.good_command split: option.split)

fun is_quiet :: "cli_effect \<Rightarrow> bool" where
  "is_quiet (Err s) = True"
| "is_quiet ExitCode1 = True"
| "is_quiet IpcClosed = True"
| "is_quiet e = False"

lemma perform_quiet: "quiet c \<Longrightarrow> list_all is_quiet (perform env wd c n)"
  by (induction c arbitrary: n) simp_all

primrec caught :: "cli \<Rightarrow> bool" where
  "caught Exit = True"
| "caught (Throw e) = False"
| "caught (Log s k) = caught k"
| "caught (LogError s k) = caught k"
| "caught (FailCode k) = caught k"
| "caught (CloseIpc k) = caught k"
| "caught (Send a p k) = (\<forall>r. caught (k r))"
| "caught (Question q k) = (\<forall>s. caught (k s))"
| "caught (Watch k) = caught k"

lemma caught_guarded: "caught (guarded env c)"
  by (induction c) simp_all

lemma caught_main: "caught (main_program env e argv)"
  by (simp add: main_program_def caught_guarded split: option.split)

lemma perform_fails:
  "fails c \<Longrightarrow> caught c \<Longrightarrow> list_all is_quiet (perform env wd c n) \<and> ExitCode1 \<in> set (perform env wd c n)"
  by (induction c arbitrary: n) (simp_all add: perform_quiet)

lemma skip_outputs: "map Out xs @ es = pre @ Requested a p r # post \<Longrightarrow> \<exists>pre'. es = pre' @ Requested a p r # post"
proof (induction xs arbitrary: pre)
  case (Cons x xs)
  then show ?case by (cases pre) auto
qed simp

lemma perform_stops:
  "stops c \<Longrightarrow> caught c \<Longrightarrow> perform env wd c n = pre @ Requested a p r # post
   \<Longrightarrow> json_truthy (field r ''error'') \<Longrightarrow> list_all is_quiet post \<and> ExitCode1 \<in> set post"
proof (induction c arbitrary: n pre)
  case (Send b q k)
  show ?case
  proof (cases pre)
    case Nil
    then show ?thesis using Send.prems perform_fails [of "k (wd_backend wd n b q)" env wd "Suc n"] by auto
  next
    case (Cons e pre')
    with Send.prems have "perform env wd (k (wd_backend wd n b q)) (Suc n) = pre' @ Requested a p r # post" by simp
    then show ?thesis using Send.prems by (intro Send.IH [OF rangeI]) auto
  qed
next
  case (Question q k)
  then obtain pre' where "perform env wd (k (wd_answer wd q)) n = pre' @ Requested a p r # post"
    by (cases pre) auto
  then show ?case using Question.prems by (intro Question.IH [OF rangeI]) auto
next
  case (Watch k)
  have "\<exists>pre'. perform env wd k n = pre' @ Requested a p r # post"
    by (rule skip_outputs) (use Watch.prems(3) in simp)
  then show ?case using Watch by auto
qed (auto simp: Cons_eq_append_conv)



subsection \<open>The connection is closed\<close>

primrec unclosed :: "cli \<Rightarrow> bool" where
  "unclosed Exit = True"
| "unclosed (Throw e) = True"
| "unclosed (Log s k) = unclosed k"
| "unclosed (LogError s k) = unclosed k"
| "unclosed (FailCode k) = unclosed k"
| "unclosed (CloseIpc k) = False"
| "unclosed (Send a p k) = (\<forall>r. unclosed (k r))"
| "unclosed (Question q k) = (\<forall>s. unclosed (k s))"
| "unclosed (Watch k) = unclosed k"

lemma unclosed_request: "(\<And>r. unclosed (f r)) \<Longrightarrow> unclosed (cli_request env a p f)"
  by (simp add: cli_request_def hasError_def)

lemma unclosed_set_dir: "(\<And>r. unclosed (f r)) \<Longrightarrow> unclosed (set_dir env what a c label args f)"
  by (auto simp: set_dir_def Let_def usage_def resolveMigrateChoice_def confirmTransfer_def unclosed_request
      split: sum.split)

interpretation uc: cli_closed unclosed "\<lambda>args. True"
  by unfold_locales (simp_all add: unclosed_request unclosed_set_dir)

lemma perform_guarded:
  "unclosed c \<Longrightarrow> \<exists>es. perform env wd (guarded env c) n = es @ [IpcClosed] \<and> IpcClosed \<notin> set es"
proof (induction c arbitrary: n)
  case (Watch k)
  then obtain es where "perform env wd (guarded env k) n = es @ [IpcClosed]" "IpcClosed \<notin> set es"
    unfolding unclosed.simps by blast
  then show ?case by (intro exI [of _ "map Out (List.map_filter (watch_line env) (wd_events wd)) @ es"]) auto
next
  case (Send a p k)
  then obtain es where "perform env wd (guarded env (k (wd_backend wd n a p))) (Suc n) = es @ [IpcClosed]"
    "IpcClosed \<notin> set es" unfolding unclosed.simps by blast
  then show ?case by (intro exI [of _ "_ # es"]) auto
next
  case (Question q k)
  then obtain es where "perform env wd (guarded env (k (wd_answer wd q))) n = es @ [IpcClosed]"
    "IpcClosed \<notin> set es" unfolding unclosed.simps by blast
  then show ?case by (intro exI [of _ "_ # es"]) auto
qed (simp_all, (metis append_Cons cli_effect.distinct set_ConsD)+)

subsection \<open>Data is moved on request only\<close>

definition says_yes :: "jsstr \<Rightarrow> bool" where
  "says_yes answer \<longleftrightarrow> lower_ascii (trim answer) = js ''y'' \<or> lower_ascii (trim answer) = js ''yes''"

primrec consents :: "bool \<Rightarrow> cli \<Rightarrow> bool" where
  "consents b Exit = True"
| "consents b (Throw e) = True"
| "consents b (Log s k) = consents b k"
| "consents b (LogError s k) = consents b k"
| "consents b (FailCode k) = consents b k"
| "consents b (CloseIpc k) = consents b k"
| "consents b (Send a p k) = ((map_get p (js ''migrate'') = None \<or> b) \<and> (\<forall>r. consents b (k r)))"
| "consents b (Question q k) = (\<forall>s. consents (b \<or> says_yes s) (k s))"
| "consents b (Watch k) = consents b k"

lemma consents_mono: "consents b c \<Longrightarrow> consents True c"
  by (induction c arbitrary: b) auto

lemma consents_request: "map_get p (js ''migrate'') = None \<or> b \<Longrightarrow> (\<And>r. consents b (f r)) \<Longrightarrow> consents b (cli_request env a p f)"
  by (simp add: cli_request_def hasError_def)

lemma splitMigrateFlags_flag:
  "splitMigrateFlags args = Inr (paths, m, n) \<Longrightarrow> m \<longleftrightarrow> js ''--migrate'' \<in> set args"
  by (auto simp: splitMigrateFlags_def Let_def split: if_splits)

lemma consents_save:
  assumes "\<And>r. consents b (f r)" "migrate \<Longrightarrow> b"
  shows "consents b (cli_request env a ((js ''path'', JStr p) # (if migrate then [(js ''migrate'', JBool True)] else [])) f)"
  by (rule consents_request) (use assms in auto)

lemma consents_choice:
  assumes "\<And>r. consents b (f r)"
  shows "consents b (resolveMigrateChoice env label has (\<lambda>migrate.
           cli_request env a ((js ''path'', JStr p) # (if migrate then [(js ''migrate'', JBool True)] else [])) f))"
proof -
  let ?save = "\<lambda>migrate. cli_request env a ((js ''path'', JStr p) # (if migrate then [(js ''migrate'', JBool True)] else [])) f"
  have t: "consents True (?save m)" for m
    by (rule consents_save) (use assms consents_mono in blast)+
  have "consents b (?save False)" by (rule consents_save) (use assms in auto)
  moreover have "consents (b \<or> says_yes s) (?save (says_yes s))" for s
  proof (cases "says_yes s")
    case False
    then show ?thesis using \<open>consents b (?save False)\<close> by simp
  qed (use t [of True] in simp)
  ultimately show ?thesis
    unfolding resolveMigrateChoice_def confirmTransfer_def by (simp add: says_yes_def Let_def)
qed

lemma consents_set_dir:
  assumes flag: "js ''--migrate'' \<in> set args \<longrightarrow> b" and k: "\<And>r. consents b (f r)"
  shows "consents b (set_dir env what a c label args f)"
proof (cases "splitMigrateFlags (drop 1 args)")
  case (Inr x)
  then obtain paths m n where x: "splitMigrateFlags (drop 1 args) = Inr (paths, m, n)" by (cases x) auto
  have "m \<Longrightarrow> b" using splitMigrateFlags_flag [OF x] flag by (auto dest: in_set_dropD)
  then show ?thesis unfolding set_dir_def x Let_def
    using consents_save [of b f m] consents_choice [of b f] k by (simp add: usage_def)
qed (simp add: set_dir_def)

interpretation co: cli_closed "consents b" "\<lambda>args. js ''--migrate'' \<in> set args \<longrightarrow> b" for b
  by unfold_locales (simp_all add: consents_request consents_set_dir)

lemma guarded_consents: "consents b c \<Longrightarrow> consents b (guarded env c)"
  by (induction c arbitrary: b) simp_all

lemma perform_consents:
  "consents b c \<Longrightarrow> Requested a p r \<in> set (perform env wd c n) \<Longrightarrow> map_get p (js ''migrate'') \<noteq> None
   \<Longrightarrow> b \<or> (\<exists>q s. Asked q s \<in> set (perform env wd c n) \<and> says_yes s)"
proof (induction c arbitrary: b n)
  case (Question q k)
  then have "Requested a p r \<in> set (perform env wd (k (wd_answer wd q)) n)" by auto
  then have "(b \<or> says_yes (wd_answer wd q)) \<or> (\<exists>q' s. Asked q' s \<in> set (perform env wd (k (wd_answer wd q)) n) \<and> says_yes s)"
    using Question.prems by (intro Question.IH [OF rangeI]) auto
  then show ?case by auto
next
  case (Send a' p' k)
  show ?case
  proof (cases "Requested a p r \<in> set (perform env wd (k (wd_backend wd n a' p')) (Suc n))")
    case True
    then have "b \<or> (\<exists>q s. Asked q s \<in> set (perform env wd (k (wd_backend wd n a' p')) (Suc n)) \<and> says_yes s)"
      using Send.prems by (intro Send.IH [OF rangeI]) auto
    then show ?thesis by auto
  qed (use Send.prems in auto)
qed auto

text \<open>Existing data is moved only when the user asked for it: a request that carries \<open>migrate\<close> is sent only if
  \<open>--migrate\<close> is on the command line or a question was answered with y or yes.\<close>

theorem migration_needs_consent:
  assumes "Requested a p r \<in> set (run_main env wd e argv)" "map_get p (js ''migrate'') \<noteq> None"
  shows "js ''--migrate'' \<in> set argv \<or> (\<exists>q s. Asked q s \<in> set (run_main env wd e argv) \<and> says_yes s)"
proof -
  have "consents (js ''--migrate'' \<in> set argv) (main_program env e argv)"
    unfolding main_program_def
    by (auto split: option.split intro!: guarded_consents co.good_command dest: list.set_sel(2))
  then show ?thesis using perform_consents assms unfolding run_main_def by blast
qed

end
