(* ===== verification/CliOutput.thy ===== *)
theory CliOutput
  imports CliProperties
begin

text \<open>
  The lines the command-line client prints about other people carry no control characters, and the
  arguments of \<open>send-file\<close> can express every caption and every list of paths.
\<close>

subsection \<open>Lines without control characters\<close>

definition printable :: "jsstr \<Rightarrow> bool" where
  "printable s \<longleftrightarrow> list_all (\<lambda>c. is_control c \<longrightarrow> c = 10 \<or> c = 9) s"

lemma printable_terminalText: "printable (terminalText s True)"
  unfolding printable_def terminalText_def list_all_iff using terminal_char_shown by fastforce

lemma printable_literals:
  "printable (js ''No peers discovered.'')" "printable (js ''No group chats.'')" "printable (js ''No group members.'')"
  "printable (js ''No group messages.'')" "printable (js ''No friends yet. Send a friend request to chat.'')"
  "printable (js ''No pending friend requests.'')" "printable (js ''No file transfers.'')"
  "printable (js ''No blocked peers. Blocked peers cannot send you friend requests.'')"
  by code_simp+

primrec safe :: "cli \<Rightarrow> bool" where
  "safe Exit = True"
| "safe (Throw e) = True"
| "safe (Log s k) = (printable s \<and> safe k)"
| "safe (LogError s k) = (printable s \<and> safe k)"
| "safe (FailCode k) = safe k"
| "safe (CloseIpc k) = safe k"
| "safe (Send a p k) = (\<forall>r. safe (k r))"
| "safe (Question q k) = (\<forall>s. safe (k s))"
| "safe (Watch k) = False"

lemma safe_request: "(\<And>r. safe (f r)) \<Longrightarrow> safe (cli_request env a p f)"
  by (simp add: cli_request_def hasError_def printable_terminalText)

lemma safe_each_record: "safe k \<Longrightarrow> (\<And>x k. safe k \<Longrightarrow> safe (body x k)) \<Longrightarrow> safe (each_record xs body k)"
  unfolding each_record_def by (induction xs) simp_all

lemma safe_log_if: "printable s \<Longrightarrow> safe k \<Longrightarrow> safe (log_if b s k)"
  by (simp add: log_if_def)

lemma safe_metadata: "safe k \<Longrightarrow> safe (printFileMetadata env f k)"
proof (cases "fileMetadataLines env f")
  case (Inr lines)
  then have "\<forall>l \<in> set lines. printable l"
    by (auto simp: fileMetadataLines_def Let_def and_then_Inr printable_terminalText)
  then show "safe k \<Longrightarrow> safe (printFileMetadata env f k)"
    unfolding printFileMetadata_def log_lines_def Inr by (induction lines arbitrary: f) simp_all
qed (simp add: printFileMetadata_def)

lemma safe_lines:
  assumes "safe k"
  shows "safe (message_line env m k)" "safe (group_message_line env m k)" "safe (member_line env m k)"
    "safe (person_line env m k)" "safe (request_lines env m k)" "safe (list_file env m k)" "safe (printPeer env m k)"
proof -
  show "safe (printPeer env m k)" unfolding printPeer_def Let_def
    using assms by (simp add: printable_terminalText safe_each_record)
  show "safe (list_file env m k)" unfolding list_file_def
    using assms by (simp add: printable_terminalText safe_metadata split: sum.split)
qed (use assms in \<open>simp_all add: message_line_def group_message_line_def member_line_def person_line_def
    request_lines_def printable_terminalText Let_def\<close>)

lemmas safe_parts = safe_request safe_each_record safe_log_if printable_literals safe_lines

lemma safe_usage: "safe (usage env s)"
  by (simp add: usage_def)

lemma safe_commands:
  "safe (peers_command env)" "safe (messages_command env args)" "safe (friends_command env)"
  "safe (friend_requests_command env)" "safe (blocked_command env)" "safe (groups_command env)"
  "safe (files_command env [])" "safe (group_command env [js ''members'', g])" "safe (group_command env [js ''messages'', g])"
proof -
  show "safe (groups_command env)" unfolding groups_command_def Let_def
    by (intro safe_parts) (simp_all add: printable_terminalText)
  show "safe (messages_command env args)" unfolding messages_command_def
    by (simp add: safe_usage safe_parts)
  show "safe (files_command env [])" unfolding files_command_def
    by (simp add: arg_def char_at_def Let_def safe_parts)
  show "safe (group_command env [js ''members'', g])" "safe (group_command env [js ''messages'', g])"
    unfolding group_command_def by (simp_all add: arg_def char_at_def Let_def safe_parts safe_usage)
qed (simp_all add: peers_command_def friends_command_def friend_requests_command_def blocked_command_def
    Let_def safe_parts)

lemma guarded_safe: "safe c \<Longrightarrow> safe (guarded env c)"
  by (induction c) (simp_all add: printable_terminalText)

lemma perform_safe:
  "safe c \<Longrightarrow> Out s \<in> set (perform env wd c n) \<or> Err s \<in> set (perform env wd c n) \<Longrightarrow> printable s"
  by (induction c arbitrary: n) auto

definition listing :: "jsstr list \<Rightarrow> bool" where
  "listing argv \<longleftrightarrow> argv \<noteq> [] \<and>
     (hd argv \<in> {js ''peers'', js ''messages'', js ''friends'', js ''friend-requests'', js ''blocked'', js ''groups''}
      \<or> argv = [js ''files'']
      \<or> (length argv = 3 \<and> hd argv = js ''group'' \<and> argv ! 1 \<in> {js ''members'', js ''messages''}))"

lemma safe_listing: "listing (command # args) \<Longrightarrow> safe (command_program env command args)"
proof -
  assume l: "listing (command # args)"
  consider "command \<in> {js ''peers'', js ''messages'', js ''friends'', js ''friend-requests'', js ''blocked'', js ''groups''}"
    | "command = js ''files''" "args = []"
    | g where "command = js ''group''" "args = [js ''members'', g] \<or> args = [js ''messages'', g]"
    using l by (auto simp: listing_def length_Suc_conv numeral_3_eq_3)
  then show ?thesis
    by cases (auto simp: command_program_def Let_def safe_commands)
qed

text \<open>What the listing commands print about other people carries no control characters but line breaks and
  tabs, whatever the backend answers; \<open>room join\<close> in contrast prints the name of the group as it is.\<close>

theorem listings_are_safe:
  assumes "listing argv" "Out s \<in> set (run_main env wd None argv) \<or> Err s \<in> set (run_main env wd None argv)"
  shows "printable s \<and> (\<exists>wd' s'. Out s' \<in> set (run_main sample_cli wd' None [js ''room'', js ''join'', js ''x'']) \<and> \<not> printable s')"
proof

  obtain command args where argv: "argv = command # args" using assms(1) by (cases argv) (auto simp: listing_def)
  have "hd argv \<noteq> []" "hd argv \<noteq> js ''help''" using assms(1) by (auto simp: listing_def)
  then have "main_program env None argv = guarded env (command_program env command args)"
    by (simp add: main_program_def argv)
  then show "printable s"
    using assms(2) safe_listing [of command args env] assms(1) unfolding argv run_main_def
    by (metis guarded_safe perform_safe)
next
  define wd' where "wd' = \<lparr>wd_backend = (\<lambda>n a p. [(js ''group_id'', JStr (js ''g'')), (js ''name'', JStr [27])]),
    wd_answer = id, wd_events = []\<rparr>"
  have "Out (js ''Joined group '' @ [27] @ js '' (g)'') \<in> set (run_main sample_cli wd' None [js ''room'', js ''join'', js ''x''])"
    "\<not> printable (js ''Joined group '' @ [27] @ js '' (g)'')"
    unfolding wd'_def by code_simp+
  then show "\<exists>wd' s'. Out s' \<in> set (run_main sample_cli wd' None [js ''room'', js ''join'', js ''x'']) \<and> \<not> printable s'"
    by blast
qed

subsection \<open>Arguments of send-file\<close>

lemma parse_files_plain: "parse_files False ps r = Inr (r\<lparr>fa_paths := fa_paths r @ ps\<rparr>)"
  by (induction ps arbitrary: r) simp_all

text \<open>Every list of paths, whatever they look like, and every caption but \<open>--caption\<close> itself can be given to
  \<open>send-file\<close>: after \<open>--\<close> all arguments are paths. A second caption, and a caption without a value, are refused.\<close>

theorem file_arguments_expressible:
  assumes "caption \<noteq> Some CAPTION"
  shows "parseFileArguments ((case caption of None \<Rightarrow> [] | Some c \<Rightarrow> [CAPTION, c]) @ js ''--'' # paths)
      = Inr \<lparr>fa_paths = paths, fa_caption = caption\<rparr>
    \<and> parseFileArguments (CAPTION # c # CAPTION # args) = Inl (ErrorMessage (js ''--caption requires one value and may only be specified once''))
    \<and> parseFileArguments [CAPTION] = Inl (ErrorMessage (js ''--caption requires one value and may only be specified once''))"
  using assms by (auto simp: parseFileArguments_def parse_files_plain CAPTION_def split: option.split)

end
