(* ===== verification/ChatState.thy ===== *)
theory ChatState
  imports ChatNavigation Mentions JsValue ClientState
begin

text \<open>
  The state of the terminal client and the language of its actions (\<open>tui/src/useChatActions.ts\<close>).

  An asynchronous function of the source is a program (\<open>act\<close>): updates of the state and reads of it, which
  run without interruption, and awaits, at which other programs and events may run. A program ends by
  returning or by throwing. What the closures captured when they were created (\<open>dialog\<close>, \<open>selection\<close>,
  \<open>peers\<close> and so on) is an argument \<open>v\<close> of the actions, a state of its own that may be out of date.
  Responses are parsed JSON; where the code casts a property to a type of \<open>types.ts\<close>, the cast is a function
  of the environment.
\<close>

subsection \<open>State\<close>

record dialog_ui =
  du_dialog :: "dialog option"
  du_draft :: jsstr
  du_error :: jsstr
  du_busy :: bool
  du_action :: nat
  du_busyRef :: bool

record composer_ui =
  co_text :: "jsstr option"
  co_drafts :: "(jsstr, jsstr) jsmap"
  co_draftLength :: nat
  co_height :: nat
  co_spans :: "(jsstr, mention_span list) jsmap"
  co_isSending :: bool

record chat =
  ch_ui :: dialog_ui
  ch_composer :: composer_ui
  ch_status :: jsstr
  ch_statusTimer :: "nat option"
  ch_copyToast :: bool
  ch_peers :: "peer list"
  ch_groups :: "chat_group list"
  ch_groupMembers :: "(jsstr, group_member list) jsmap"
  ch_identity :: "(jsstr \<times> jsstr) option"
  ch_selection :: "conversation option"
  ch_messages :: "chat_message list"
  ch_nameDraft :: jsstr
  ch_editingName :: bool
  ch_mutedPeers :: "(jsstr, rat) jsmap"
  ch_mutedGroups :: "(jsstr, rat) jsmap"
  ch_mentionUnread :: "(jsstr, nat) jsmap"
  ch_preferences :: "notification_preferences option"
  ch_notificationTest :: "notification_delivery option"
  ch_flashing :: bool
  ch_dnd :: bool
  ch_imageProtocol :: image_protocol
  ch_splash :: splash_preference
  ch_debugInfo :: "json_object option"
  ch_fileTransfers :: "file_transfer list"
  ch_friendRequests :: "friend_request list"
  ch_pickerOpen :: bool
  ch_disconnected :: bool

record chat_env =
  ce_number :: "rat \<Rightarrow> jsstr"
  ce_compare :: "jsstr \<Rightarrow> jsstr \<Rightarrow> int"
  ce_timeString :: "rat \<Rightarrow> jsstr"
  ce_lower :: "jsstr \<Rightarrow> jsstr"
  ce_home :: jsstr
  ce_cwd :: jsstr
  ce_isFile :: "jsstr \<Rightarrow> bool"
  ce_tempImage :: jsstr
  ce_errorText :: "js_error \<Rightarrow> jsstr"
  ce_isRelease :: bool
  ce_releaseInstallDir :: "jsstr option"
  ce_isReleaseInstallDir :: "jsstr \<Rightarrow> bool"
  ce_peers :: "json option \<Rightarrow> peer list"
  ce_groups :: "json option \<Rightarrow> chat_group list"
  ce_group :: "json \<Rightarrow> chat_group"
  ce_members :: "json option \<Rightarrow> group_member list"
  ce_files :: "json option \<Rightarrow> file_transfer list"
  ce_requests :: "json option \<Rightarrow> friend_request list"
  ce_blocked :: "json option \<Rightarrow> blocked_peer list"
  ce_rooms :: "json option \<Rightarrow> room_status list"
  ce_control :: "json_object \<Rightarrow> control_status"
  ce_config :: "json_object \<Rightarrow> advanced_config"
  ce_preferences :: "json_object \<Rightarrow> notification_preferences"
  ce_deliveries :: "json option \<Rightarrow> delivery list"
  ce_muted :: "json option \<Rightarrow> (jsstr, rat) jsmap"
  ce_imageProtocol :: "json option \<Rightarrow> image_protocol"
  ce_splash :: "json option \<Rightarrow> splash_preference"
  ce_until :: "json option \<Rightarrow> rat"

text \<open>A cast to \<open>string\<close>.\<close>

definition as_string :: "json option \<Rightarrow> jsstr" where
  "as_string v = (case v of Some (JStr s) \<Rightarrow> s | _ \<Rightarrow> [])"

fun error_message :: "chat_env \<Rightarrow> js_error \<Rightarrow> jsstr" where
  "error_message env (ErrorMessage m) = m"
| "error_message env e = ce_errorText env e"

subsection \<open>Programs\<close>

datatype request =
    Ipc string json_object
  | WriteClipboard jsstr
  | CheckForUpdate
  | InstallRelease release jsstr
  | StageFiles "jsstr list"
  | WriteImage jsstr "nat list"
  | TestNotification notification_delivery
  | PickFile

text \<open>The outcome of an await; \<open>Failed\<close> is a rejected promise.\<close>

datatype answer =
    Response json_object
  | Failed js_error
  | Copied bool
  | FoundRelease "release option"
  | Completed
  | Staged "jsstr list"
  | Sent bool
  | Picked "jsstr option"

datatype act =
    Return
  | Throw js_error
  | Update "chat \<Rightarrow> chat" act
  | Read "chat \<Rightarrow> act"
  | Await request "answer \<Rightarrow> act"
  | Spawn act act

text \<open>Running a program up to its next await: the state and the programs that now wait.\<close>

primrec run :: "act \<Rightarrow> chat \<Rightarrow> chat \<times> act list" where
  "run Return c = (c, [])"
| "run (Throw e) c = (c, [])"
| "run (Update f p) c = run p (f c)"
| "run (Read k) c = run (k c) c"
| "run (Await q k) c = (c, [Await q k])"
| "run (Spawn q p) c = (case run q c of (c', ws) \<Rightarrow> (case run p c' of (c'', ws') \<Rightarrow> (c'', ws @ ws')))"

subsection \<open>Status line and dialogs\<close>

definition DEFAULT_STATUS :: jsstr where
  "DEFAULT_STATUS = js ''Ctrl+P: Settings  Ctrl+U: upload  Ctrl+V: paste image  Ctrl+Up/Down: switch chats  PgUp: history  Ctrl+C: quit''"

definition MAX_GROUP_MEMBER_CACHE :: nat where "MAX_GROUP_MEMBER_CACHE = 32"
definition MAX_DRAFT_ENTRIES :: nat where "MAX_DRAFT_ENTRIES = 200"
definition MIN_COMPOSER_HEIGHT :: nat where "MIN_COMPOSER_HEIGHT = 3"
definition FRIEND_STATUS_MS :: nat where "FRIEND_STATUS_MS = 5000"

definition showStatus_for :: "jsstr \<Rightarrow> nat \<Rightarrow> chat \<Rightarrow> chat" where
  "showStatus_for s durationMs c = c\<lparr>ch_status := s, ch_statusTimer := Some durationMs\<rparr>"

definition showStatus :: "jsstr \<Rightarrow> chat \<Rightarrow> chat" where
  "showStatus s = showStatus_for s 2000"

definition statusReset :: "chat \<Rightarrow> chat" where
  "statusReset c = c\<lparr>ch_status := DEFAULT_STATUS, ch_statusTimer := None\<rparr>"

definition showCopyToast :: "chat \<Rightarrow> chat" where
  "showCopyToast c = c\<lparr>ch_copyToast := True\<rparr>"

definition upd_ui :: "(dialog_ui \<Rightarrow> dialog_ui) \<Rightarrow> chat \<Rightarrow> chat" where
  "upd_ui f c = c\<lparr>ch_ui := f (ch_ui c)\<rparr>"

definition closeDialog :: "chat \<Rightarrow> chat" where
  "closeDialog = upd_ui (\<lambda>u. u\<lparr>du_action := du_action u + 1, du_busyRef := False, du_dialog := None, du_draft := [],
     du_error := [], du_busy := False\<rparr>)"

definition showDialog :: "dialog \<Rightarrow> chat \<Rightarrow> chat" where
  "showDialog d = upd_ui (\<lambda>u. u\<lparr>du_action := du_action u + 1, du_busyRef := False, du_dialog := Some d, du_draft := [],
     du_error := [], du_busy := False\<rparr>)"

definition setDialog :: "dialog \<Rightarrow> chat \<Rightarrow> chat" where
  "setDialog d = upd_ui (\<lambda>u. u\<lparr>du_dialog := Some d\<rparr>)"

definition setDialogDraft :: "jsstr \<Rightarrow> chat \<Rightarrow> chat" where
  "setDialogDraft s = upd_ui (\<lambda>u. u\<lparr>du_draft := s\<rparr>)"

definition setDialogError :: "jsstr \<Rightarrow> chat \<Rightarrow> chat" where
  "setDialogError s = upd_ui (\<lambda>u. u\<lparr>du_error := s\<rparr>)"

definition beginDialogAction :: "chat \<Rightarrow> chat" where
  "beginDialogAction = upd_ui (\<lambda>u. u\<lparr>du_busyRef := True, du_action := du_action u + 1, du_busy := True, du_error := []\<rparr>)"

definition finishDialogAction :: "nat \<Rightarrow> chat \<Rightarrow> chat" where
  "finishDialogAction a = upd_ui (\<lambda>u. if du_action u \<noteq> a then u else u\<lparr>du_busyRef := False, du_busy := False\<rparr>)"

definition failDialogAction :: "chat_env \<Rightarrow> nat \<Rightarrow> js_error \<Rightarrow> chat \<Rightarrow> chat" where
  "failDialogAction env a e c =
     (if du_action (ch_ui c) \<noteq> a then c
      else finishDialogAction a (setDialogError (error_message env e) c))"

text \<open>
  The frame of most actions: nothing while another action is busy; otherwise the body runs under the new
  action number, an error is shown in the dialog (\<open>catch\<close>) and the action is finished (\<open>finally\<close>).
  \<open>settle_action\<close> is the \<open>catch\<close> and \<open>finally\<close> around the rest of a body, \<open>catching\<close> the \<open>catch\<close> alone.
\<close>

primrec settle_action :: "chat_env \<Rightarrow> nat \<Rightarrow> act \<Rightarrow> act" where
  "settle_action env a Return = Update (finishDialogAction a) Return"
| "settle_action env a (Throw e) = Update (failDialogAction env a e) (Update (finishDialogAction a) Return)"
| "settle_action env a (Update f p) = Update f (settle_action env a p)"
| "settle_action env a (Read k) = Read (\<lambda>c. settle_action env a (k c))"
| "settle_action env a (Await q k) = Await q (\<lambda>r. settle_action env a (k r))"
| "settle_action env a (Spawn q p) = Spawn q (settle_action env a p)"

primrec catching :: "(js_error \<Rightarrow> act) \<Rightarrow> act \<Rightarrow> act" where
  "catching h Return = Return"
| "catching h (Throw e) = h e"
| "catching h (Update f p) = Update f (catching h p)"
| "catching h (Read k) = Read (\<lambda>c. catching h (k c))"
| "catching h (Await q k) = Await q (\<lambda>r. catching h (k r))"
| "catching h (Spawn q p) = Spawn q (catching h p)"

text \<open>Awaiting another asynchronous function, then going on.\<close>

primrec followed_by :: "act \<Rightarrow> act \<Rightarrow> act" where
  "followed_by Return k = k"
| "followed_by (Throw e) k = Throw e"
| "followed_by (Update f p) k = Update f (followed_by p k)"
| "followed_by (Read g) k = Read (\<lambda>c. followed_by (g c) k)"
| "followed_by (Await q g) k = Await q (\<lambda>r. followed_by (g r) k)"
| "followed_by (Spawn q p) k = Spawn q (followed_by p k)"

definition begin_action :: "(nat \<Rightarrow> act) \<Rightarrow> act" where
  "begin_action k = Read (\<lambda>c. if du_busyRef (ch_ui c) then Return
     else Update beginDialogAction (k (du_action (ch_ui c) + 1)))"

definition dialog_action :: "chat_env \<Rightarrow> (nat \<Rightarrow> act) \<Rightarrow> act" where
  "dialog_action env body = begin_action (\<lambda>a. settle_action env a (body a))"

text \<open>\<open>if (dialogActionRef.current !== action) return\<close>.\<close>

definition if_current :: "nat \<Rightarrow> act \<Rightarrow> act" where
  "if_current a k = Read (\<lambda>c. if du_action (ch_ui c) \<noteq> a then Return else k)"

definition await :: "request \<Rightarrow> (answer \<Rightarrow> act) \<Rightarrow> act" where
  "await q k = Await q (\<lambda>r. case r of Failed e \<Rightarrow> Throw e | _ \<Rightarrow> k r)"

text \<open>A request to the backend, and one whose error response is thrown.\<close>

definition ipc_request :: "string \<Rightarrow> json_object \<Rightarrow> (json_object \<Rightarrow> act) \<Rightarrow> act" where
  "ipc_request a p k = await (Ipc a p) (\<lambda>r. case r of Response resp \<Rightarrow> k resp | _ \<Rightarrow> Throw TypeError)"

definition ipc_checked :: "chat_env \<Rightarrow> string \<Rightarrow> json_object \<Rightarrow> (json_object \<Rightarrow> act) \<Rightarrow> act" where
  "ipc_checked env a p k = ipc_request a p (\<lambda>r.
     if json_truthy (field r ''error'')
     then Throw (ErrorMessage (value_text (ce_number env) (field r ''error'')))
     else k r)"

text \<open>\<open>sameResponse(current, next) ? current : next\<close> keeps the old value where both are written the same.\<close>

definition sameResponse :: "'a \<Rightarrow> 'a \<Rightarrow> bool" where
  "sameResponse current next' \<longleftrightarrow> current = next'"

definition keep_same :: "'a \<Rightarrow> 'a \<Rightarrow> 'a" where
  "keep_same current next' = (if sameResponse current next' then current else next')"

fun is_group_chat :: "conversation \<Rightarrow> bool" where
  "is_group_chat (GroupChat i) = True"
| "is_group_chat (PeerChat i) = False"

fun conversation_id :: "conversation \<Rightarrow> jsstr" where
  "conversation_id (GroupChat i) = i"
| "conversation_id (PeerChat i) = i"

definition selectedGroupId :: "chat \<Rightarrow> jsstr option" where
  "selectedGroupId v = (case ch_selection v of Some (GroupChat i) \<Rightarrow> Some i | _ \<Rightarrow> None)"

definition first_conversation :: "peer list \<Rightarrow> chat_group list \<Rightarrow> conversation option" where
  "first_conversation peers groups =
     (case peers of
        p # _ \<Rightarrow> Some (PeerChat (peer_id p))
      | [] \<Rightarrow> (case groups of g # _ \<Rightarrow> Some (GroupChat (group_id g)) | [] \<Rightarrow> None))"

end
