(* ===== verification/ChatSend.thy ===== *)
theory ChatSend
  imports ChatState
begin

text \<open>
  Sending messages from the terminal client (\<open>send\<close> and \<open>deliverQueuedMessage\<close> of
  \<open>tui/src/useChatActions.ts\<close>): a message is shown at once under a temporary identity, the requests of one
  conversation run one after the other, and the answer replaces the temporary identity by the real one.

  The chain of promises of a conversation is the list of its jobs; the first one is in flight once it has
  been dispatched. Identities and times are arguments of the events.
\<close>

record send_job =
  sj_tempId :: jsstr
  sj_target :: conversation
  sj_content :: jsstr
  sj_replyTo :: "jsstr option"
  sj_peerName :: "jsstr option"

record send_meta =
  sm_realId :: jsstr
  sm_queued :: bool
  sm_deliveries :: "delivery list option"
  sm_mentions :: "jsstr list option"
  sm_failed :: bool

record sends =
  sd_chat :: chat
  sd_queues :: "(jsstr, send_job list) jsmap"
  sd_flying :: "jsstr list"
  sd_resolved :: "(jsstr, send_meta) jsmap"
  sd_pendingIds :: "(jsstr, jsstr) jsmap"
  sd_inFlight :: int

definition queue_of :: "sends \<Rightarrow> jsstr \<Rightarrow> send_job list" where
  "queue_of s key = (case map_get (sd_queues s) key of Some q \<Rightarrow> q | None \<Rightarrow> [])"

definition trimSendMap :: "(jsstr, 'v) jsmap \<Rightarrow> (jsstr, 'v) jsmap" where
  "trimSendMap m = (if length m \<le> 1000 then m else drop (length m - 500) m)"

definition resolvePendingSendId :: "sends \<Rightarrow> jsstr \<Rightarrow> jsstr option" where
  "resolvePendingSendId s tempId = map_option sm_realId (map_get (sd_resolved s) tempId)"

definition getResolvedSendMeta :: "sends \<Rightarrow> jsstr \<Rightarrow> send_meta option" where
  "getResolvedSendMeta s tempId = map_get (sd_resolved s) tempId"

definition PENDING_PREFIX :: jsstr where "PENDING_PREFIX = js ''pending-''"

subsection \<open>Enqueueing\<close>

datatype send_refusal = EmptyMessage | NoConversation | TooLong

definition message_content :: "chat \<Rightarrow> chat \<Rightarrow> jsstr option \<Rightarrow> jsstr" where
  "message_content v c key =
     (let rawContent = (case co_text (ch_composer c) of Some t \<Rightarrow> t | None \<Rightarrow> []);
          spans = (if truthy key then (case map_get (co_spans (ch_composer v)) (the key) of Some sp \<Rightarrow> sp | None \<Rightarrow> []) else [])
      in trim (spansToTokens rawContent spans))"

definition send_refused :: "chat \<Rightarrow> chat \<Rightarrow> jsstr option \<Rightarrow> send_refusal option" where
  "send_refused v c key =
     (let content = message_content v c key in
      if content = [] then Some EmptyMessage
      else if ch_selection v = None \<or> \<not> truthy key \<or> ch_identity v = None then Some NoConversation
      else if length (utf8_text content) > MAX_MESSAGE_BYTES then Some TooLong
      else None)"

fun refusal_text :: "send_refusal \<Rightarrow> jsstr" where
  "refusal_text EmptyMessage = js ''Message is empty.''"
| "refusal_text NoConversation = js ''Select a peer or group before sending.''"
| "refusal_text TooLong = js ''Message exceeds the 30 KiB limit.''"

definition optimistic_row :: "jsstr \<Rightarrow> jsstr \<Rightarrow> conversation \<Rightarrow> jsstr \<Rightarrow> rat \<Rightarrow> jsstr option \<Rightarrow> chat_message" where
  "optimistic_row tempId self t content now replyTo =
     \<lparr>msg_id = tempId, msg_sender_id = self,
      msg_recipient_id = (case t of PeerChat i \<Rightarrow> Some i | GroupChat i \<Rightarrow> None),
      msg_group_id = (case t of PeerChat i \<Rightarrow> None | GroupChat i \<Rightarrow> Some i),
      msg_content = content, msg_created_at = now, msg_kind = None,
      msg_deliveries = (case t of PeerChat i \<Rightarrow> None | GroupChat i \<Rightarrow> Some []),
      msg_delivered = 0, msg_blocked = 0, msg_queued = 0, msg_failed = 0, msg_pending = 1, msg_received_at = None,
      msg_reply_to = replyTo, msg_mentions = []\<rparr>"

definition touch_peer :: "chat_env \<Rightarrow> conversation \<Rightarrow> rat \<Rightarrow> peer list \<Rightarrow> peer list" where
  "touch_peer env t now peers = (case t of
     GroupChat i \<Rightarrow> peers
   | PeerChat i \<Rightarrow> sortPeersByInteraction (ce_compare env)
       (map (\<lambda>p. if peer_id p = i then p\<lparr>peer_last_interaction := Some now\<rparr> else p) peers))"

definition sent_composer :: "jsstr \<Rightarrow> composer_ui \<Rightarrow> composer_ui" where
  "sent_composer key u = u\<lparr>co_text := map_option (\<lambda>_. []) (co_text u),
     co_drafts := updateBoundedEntry (co_drafts u) key [] MAX_DRAFT_ENTRIES,
     co_draftLength := 0, co_height := MIN_COMPOSER_HEIGHT, co_spans := map_del key (co_spans u), co_isSending := True\<rparr>"

definition send_message :: "chat_env \<Rightarrow> chat \<Rightarrow> jsstr option \<Rightarrow> jsstr \<Rightarrow> rat \<Rightarrow> jsstr option \<Rightarrow> sends \<Rightarrow> sends" where
  "send_message env v selectionKey tempId now replyTo s =
     (let c = sd_chat s in
      case send_refused v c selectionKey of
        Some r \<Rightarrow> s\<lparr>sd_chat := showStatus (refusal_text r) c\<rparr>
      | None \<Rightarrow>
          let t = the (ch_selection v); key = the selectionKey; content = message_content v c selectionKey;
              self = fst (the (ch_identity v));
              job = \<lparr>sj_tempId = tempId, sj_target = t, sj_content = content, sj_replyTo = replyTo,
                sj_peerName = (case t of PeerChat i \<Rightarrow> map_option peer_display_name (find (\<lambda>p. peer_id p = i) (ch_peers v))
                                       | GroupChat i \<Rightarrow> None)\<rparr>
          in s\<lparr>sd_chat := c\<lparr>ch_messages := ch_messages c @ [optimistic_row tempId self t content now replyTo],
                 ch_peers := touch_peer env t now (ch_peers c), ch_composer := sent_composer key (ch_composer c)\<rparr>,
               sd_queues := map_set key (queue_of s key @ [job]) (sd_queues s),
               sd_inFlight := sd_inFlight s + 1\<rparr>)"

subsection \<open>Delivering\<close>

text \<open>The identity a reply refers to, when its request is sent.\<close>

definition reply_reference :: "sends \<Rightarrow> jsstr option \<Rightarrow> jsstr option" where
  "reply_reference s replyTo =
     (if \<not> truthy replyTo then replyTo
      else case map_get (sd_resolved s) (the replyTo) of
          Some m \<Rightarrow> if sm_failed m then None else Some (sm_realId m)
        | None \<Rightarrow> if starts_with (the replyTo) PENDING_PREFIX then None else replyTo)"

definition delivery_request :: "sends \<Rightarrow> send_job \<Rightarrow> request" where
  "delivery_request s job =
     (let reply = (case reply_reference s (sj_replyTo job) of Some r \<Rightarrow> [(js ''reply_to_message_id'', JStr r)] | None \<Rightarrow> []) in
      case sj_target job of
        PeerChat i \<Rightarrow> Ipc ''send'' ([(js ''recipient_id'', JStr i), (js ''content'', JStr (sj_content job))] @ reply)
      | GroupChat i \<Rightarrow> Ipc ''group_send'' ([(js ''group_id'', JStr i), (js ''content'', JStr (sj_content job))] @ reply))"

definition dispatch_job :: "jsstr \<Rightarrow> sends \<Rightarrow> sends \<times> request list" where
  "dispatch_job key s = (case queue_of s key of
     job # _ \<Rightarrow> if key \<in> set (sd_flying s) then (s, [])
                else (s\<lparr>sd_flying := key # sd_flying s\<rparr>, [delivery_request s job])
   | [] \<Rightarrow> (s, []))"

definition response_mentions :: "json_object \<Rightarrow> jsstr list" where
  "response_mentions r = (case field r ''mentions'' of Some j \<Rightarrow> payloadMentions j | None \<Rightarrow> [])"

definition sent_meta :: "chat_env \<Rightarrow> send_job \<Rightarrow> json_object \<Rightarrow> send_meta" where
  "sent_meta env job r = \<lparr>sm_realId = as_string (field r ''message_id''), sm_queued = json_truthy (field r ''queued''),
     sm_deliveries = (if is_group_chat (sj_target job) then Some (ce_deliveries env (field r ''deliveries'')) else None),
     sm_mentions = (if is_group_chat (sj_target job) then Some (response_mentions r) else None), sm_failed = False\<rparr>"

definition acknowledge_row :: "send_job \<Rightarrow> send_meta \<Rightarrow> chat_message \<Rightarrow> chat_message" where
  "acknowledge_row job m row =
     (if msg_id row = sj_tempId job
      then (let row' = row\<lparr>msg_id := sm_realId m, msg_pending := 0, msg_delivered := 0\<rparr> in
            if is_group_chat (sj_target job)
            then row'\<lparr>msg_deliveries := sm_deliveries m, msg_mentions := the (sm_mentions m)\<rparr>
            else row'\<lparr>msg_queued := (if sm_queued m then 1 else 0)\<rparr>)
      else if msg_reply_to row = Some (sj_tempId job) then row\<lparr>msg_reply_to := Some (sm_realId m)\<rparr>
      else row)"

definition fail_row :: "send_job \<Rightarrow> chat_message \<Rightarrow> chat_message" where
  "fail_row job row =
     (if msg_id row = sj_tempId job then row\<lparr>msg_pending := 0, msg_failed := 1\<rparr>
      else if msg_reply_to row = Some (sj_tempId job) then row\<lparr>msg_reply_to := None\<rparr>
      else row)"

definition sent_status :: "send_job \<Rightarrow> send_meta \<Rightarrow> jsstr" where
  "sent_status job m =
     (if is_group_chat (sj_target job)
      then js ''Group message sent: '' @ groupDeliveryLabel (the (sm_deliveries m)) @ js ''.''
      else if sm_queued m then js ''Message stored and queued. It will send when the peer is online.''
      else js ''Message sent. Waiting for delivery confirmation.'')"

definition delivered_job :: "chat_env \<Rightarrow> send_job \<Rightarrow> json_object \<Rightarrow> sends \<Rightarrow> sends" where
  "delivered_job env job r s =
     (let m = sent_meta env job r; c = sd_chat s in
      s\<lparr>sd_pendingIds := trimSendMap (map_set (sj_tempId job) (sm_realId m) (sd_pendingIds s)),
        sd_resolved := trimSendMap (map_set (sj_tempId job) m (sd_resolved s)),
        sd_chat := showStatus (sent_status job m) (c\<lparr>ch_messages := map (acknowledge_row job m) (ch_messages c)\<rparr>)\<rparr>)"

definition failed_meta :: "send_job \<Rightarrow> send_meta" where
  "failed_meta job = \<lparr>sm_realId = sj_tempId job, sm_queued = False, sm_deliveries = None, sm_mentions = None, sm_failed = True\<rparr>"

definition failure_status :: "send_job \<Rightarrow> jsstr \<Rightarrow> chat \<Rightarrow> chat" where
  "failure_status job message c =
     (if ch_disconnected c then c
      else if text_includes message (js ''No known public key'')
      then showStatus (js ''You must connect to ''
             @ (case sj_peerName job of Some n \<Rightarrow> n | None \<Rightarrow> js ''this peer'')
             @ js '' at least once before offline messages can be queued.'') c
      else c\<lparr>ch_status := js ''Send error: '' @ message\<rparr>)"

definition failed_job :: "chat_env \<Rightarrow> send_job \<Rightarrow> js_error \<Rightarrow> sends \<Rightarrow> sends" where
  "failed_job env job e s =
     (let c = sd_chat s in
      s\<lparr>sd_resolved := trimSendMap (map_set (sj_tempId job) (failed_meta job) (sd_resolved s)),
        sd_chat := failure_status job (error_message env e) (c\<lparr>ch_messages := map (fail_row job) (ch_messages c)\<rparr>)\<rparr>)"

text \<open>After a job, the next of the conversation may start; \<open>isSending\<close> falls when none is left.\<close>

definition finish_job :: "jsstr \<Rightarrow> sends \<Rightarrow> sends" where
  "finish_job key s =
     (let q = tl (queue_of s key); n = sd_inFlight s - 1;
          s' = s\<lparr>sd_queues := (if q = [] then map_del key (sd_queues s) else map_set key q (sd_queues s)),
                 sd_flying := set_del key (sd_flying s), sd_inFlight := max 0 n\<rparr>
      in if n \<le> 0 then s'\<lparr>sd_chat := (sd_chat s')\<lparr>ch_composer := (ch_composer (sd_chat s'))\<lparr>co_isSending := False\<rparr>\<rparr>\<rparr> else s')"

definition answer_job :: "chat_env \<Rightarrow> jsstr \<Rightarrow> answer \<Rightarrow> sends \<Rightarrow> sends" where
  "answer_job env key r s =
     (if key \<notin> set (sd_flying s) then s
      else case queue_of s key of
          [] \<Rightarrow> s
        | job # _ \<Rightarrow> finish_job key (case r of
              Response resp \<Rightarrow>
                if json_truthy (field resp ''error'')
                then failed_job env job (ErrorMessage (value_text (ce_number env) (field resp ''error''))) s
                else delivered_job env job resp s
            | Failed e \<Rightarrow> failed_job env job e s
            | _ \<Rightarrow> failed_job env job TypeError s))"

end
