(* ===== verification/ChatActions.thy ===== *)
theory ChatActions
  imports ChatState PosixPath
begin

text \<open>
  The actions of the terminal client on dialogs, rooms, groups, mutes and friends
  (\<open>tui/src/useChatActions.ts\<close>, first half).
\<close>

subsection \<open>Refreshing\<close>

definition refreshFriendRequestsSilent :: "chat_env \<Rightarrow> act \<Rightarrow> act" where
  "refreshFriendRequestsSilent env k = Await (Ipc ''friend_requests'' []) (\<lambda>r. case r of
     Response resp \<Rightarrow>
       if json_truthy (field resp ''error'') then k
       else Update (\<lambda>c. c\<lparr>ch_friendRequests := keep_same (ch_friendRequests c) (ce_requests env (field resp ''requests''))\<rparr>) k
   | _ \<Rightarrow> k)"

definition openFriendsInbox :: "chat_env \<Rightarrow> act" where
  "openFriendsInbox env = Spawn (refreshFriendRequestsSilent env Return) (Update (showDialog DFriends) Return)"

definition select_after_peers :: "peer list \<Rightarrow> chat_group list \<Rightarrow> conversation option \<Rightarrow> conversation option" where
  "select_after_peers next' groups current =
     (case current of
        Some s \<Rightarrow> if is_group_chat s \<or> list_ex (\<lambda>p. peer_id p = conversation_id s) next' then Some s
                  else first_conversation next' groups
      | None \<Rightarrow> first_conversation next' groups)"

definition refreshPeers :: "chat_env \<Rightarrow> chat \<Rightarrow> act \<Rightarrow> act" where
  "refreshPeers env v k = ipc_checked env ''peers'' [] (\<lambda>r.
     let next' = sortPeersByInteraction (ce_compare env) (ce_peers env (field r ''peers'')) in
     Update (\<lambda>c. c\<lparr>ch_peers := keep_same (ch_peers c) next'\<rparr>)
     (Update (\<lambda>c. c\<lparr>ch_selection := select_after_peers next' (ch_groups v) (ch_selection c)\<rparr>) k))"

definition by_name :: "chat_env \<Rightarrow> chat_group \<Rightarrow> chat_group \<Rightarrow> int" where
  "by_name env a b = ce_compare env (group_name a) (group_name b)"

definition note_mentions :: "jsstr option \<Rightarrow> chat_group \<Rightarrow> (jsstr, nat) jsmap \<Rightarrow> (jsstr, nat) jsmap" where
  "note_mentions selected g m =
     (if Some (group_id g) = selected then map_del (group_id g) m
      else case group_mention_unread_count g of
          Some n \<Rightarrow> if n > 0 then map_set (group_id g) n m else map_del (group_id g) m
        | None \<Rightarrow> map_del (group_id g) m)"

definition refresh_mentions :: "jsstr option \<Rightarrow> chat_group list \<Rightarrow> (jsstr, nat) jsmap \<Rightarrow> (jsstr, nat) jsmap" where
  "refresh_mentions selected next' current =
     fold (note_mentions selected) next' (filter (\<lambda>e. fst e \<in> set (map group_id next')) current)"

definition select_after_groups :: "peer list \<Rightarrow> chat_group list \<Rightarrow> conversation option \<Rightarrow> conversation option" where
  "select_after_groups peers next' current =
     (case current of
        None \<Rightarrow> first_conversation peers next'
      | Some s \<Rightarrow>
          if \<not> is_group_chat s \<or> list_ex (\<lambda>g. group_id g = conversation_id s) next' then Some s
          else first_conversation peers next')"

definition refreshGroups :: "chat_env \<Rightarrow> chat \<Rightarrow> act \<Rightarrow> act" where
  "refreshGroups env v k = ipc_checked env ''groups'' [] (\<lambda>r.
     let next' = sort_by (by_name env) (ce_groups env (field r ''groups'')) in
     Update (\<lambda>c. c\<lparr>ch_mentionUnread := refresh_mentions (selectedGroupId v) next' (ch_mentionUnread c)\<rparr>)
     (Update (\<lambda>c. c\<lparr>ch_groups := keep_same (ch_groups c) next'\<rparr>)
     (Update (\<lambda>c. c\<lparr>ch_selection := select_after_groups (ch_peers v) next' (ch_selection c)\<rparr>) k)))"

definition store_members :: "jsstr \<Rightarrow> group_member list \<Rightarrow> chat \<Rightarrow> chat" where
  "store_members i members c = c\<lparr>ch_groupMembers :=
     (if map_get (ch_groupMembers c) i = Some members then ch_groupMembers c
      else updateBoundedEntry (ch_groupMembers c) i members MAX_GROUP_MEMBER_CACHE)\<rparr>"

definition group_param :: "jsstr \<Rightarrow> json_object" where
  "group_param i = [(js ''group_id'', JStr i)]"

definition peer_param :: "jsstr \<Rightarrow> json_object" where
  "peer_param i = [(js ''peer_id'', JStr i)]"

definition refreshGroupMembers :: "chat_env \<Rightarrow> jsstr option \<Rightarrow> act" where
  "refreshGroupMembers env groupId =
     (if \<not> truthy groupId then Return
      else ipc_checked env ''group_members'' (group_param (the groupId)) (\<lambda>r.
        Update (store_members (the groupId) (ce_members env (field r ''members''))) Return))"

definition refreshFiles :: "chat_env \<Rightarrow> act" where
  "refreshFiles env = catching (\<lambda>e. Return) (ipc_request ''files'' [] (\<lambda>r.
     if json_truthy (field r ''error'') then Return
     else Update (\<lambda>c. c\<lparr>ch_fileTransfers := keep_same (ch_fileTransfers c) (ce_files env (field r ''files''))\<rparr>) Return))"

subsection \<open>Updates\<close>

definition reinstall :: "string \<Rightarrow> js_error" where
  "reinstall s = ErrorMessage (js (s @ '' Try reinstalling MeshTalk using the quick install script: https://github.com/QinCai-rui/MeshTalk#quick-install''))"

text \<open>A download that needs a token asks for it, if the action is still current.\<close>

definition ask_token :: "chat_env \<Rightarrow> nat \<Rightarrow> release option \<Rightarrow> jsstr option \<Rightarrow> act \<Rightarrow> act" where
  "ask_token env a release destination p = catching (\<lambda>e.
     if e = AuthenticationError
     then Read (\<lambda>c. if du_action (ch_ui c) = a
            then Update (setDialog (DUpdateToken release destination)) (Update (setDialogError []) Return)
            else Throw e)
     else Throw e) p"

definition installUpdate :: "chat_env \<Rightarrow> release \<Rightarrow> jsstr option \<Rightarrow> act" where
  "installUpdate env release destination = dialog_action env (\<lambda>a. ask_token env a (Some release) destination
     (let installDir = (case destination of
              Some d \<Rightarrow> if trim d \<noteq> [] then Some (resolve (ce_cwd env) (trim d)) else ce_releaseInstallDir env
            | None \<Rightarrow> ce_releaseInstallDir env)
      in if \<not> truthy installDir
         then Throw (reinstall ''Unable to locate the standalone MeshTalk installation.'')
         else if \<not> ce_isReleaseInstallDir env (the installDir)
         then Throw (reinstall ''Update directory must contain the current MeshTalk release binaries.'')
         else await (InstallRelease release (the installDir)) (\<lambda>r.
           if_current a
             (Update (setDialog (DUpdate release True installDir None))
             (Update (showStatus (js ''MeshTalk '' @ rel_version release @ js '' is ready. Restart to use the update.''))
             Return)))))"

text \<open>What the installation reports while it runs.\<close>

definition install_progress :: "nat \<Rightarrow> update_progress \<Rightarrow> chat \<Rightarrow> chat" where
  "install_progress a progress c =
     (if du_action (ch_ui c) = a
      then upd_ui (\<lambda>u. u\<lparr>du_dialog := (case du_dialog u of
             Some (DUpdate r i d p) \<Rightarrow> Some (DUpdate r i d (Some progress)) | d \<Rightarrow> d)\<rparr>) c
      else c)"

definition checkForUpdatesFromAbout :: "chat_env \<Rightarrow> act" where
  "checkForUpdatesFromAbout env =
     (if \<not> ce_isRelease env then Update (setDialog (DAbout None (Some True))) Return
      else dialog_action env (\<lambda>a. Update (setDialog (DAbout (Some True) None)) (ask_token env a None None
        (await CheckForUpdate (\<lambda>r. if_current a (Update (setDialog (case r of
             FoundRelease (Some release) \<Rightarrow> DUpdate release False None None
           | _ \<Rightarrow> DAbout None (Some True))) Return))))))"

text \<open>Saving the token (\<open>saveGithubToken\<close>) is a write to the settings file, see \<open>Updater\<close>.\<close>

definition saveUpdateToken :: "chat_env \<Rightarrow> release option \<Rightarrow> jsstr option \<Rightarrow> jsstr \<Rightarrow> act" where
  "saveUpdateToken env release destination tok =
     (if trim tok = [] then Update (setDialogError (js ''Enter a GitHub token to continue.'')) Return
      else case release of
          Some r \<Rightarrow> Update (setDialog (DUpdate r False None
            (Some \<lparr>up_current = 1, up_total = 6, up_step = js ''Retrying authenticated download'',
              up_receivedBytes = None, up_totalBytes = None\<rparr>)))
            (installUpdate env r destination)
        | None \<Rightarrow> checkForUpdatesFromAbout env)"

subsection \<open>Control service and settings\<close>

text \<open>Most loaders: a request, and its response shown in a dialog.\<close>

definition load_dialog :: "chat_env \<Rightarrow> string \<Rightarrow> json_object \<Rightarrow> (json_object \<Rightarrow> dialog) \<Rightarrow> act" where
  "load_dialog env action params d = dialog_action env (\<lambda>a. ipc_checked env action params (\<lambda>r.
     if_current a (Update (showDialog (d r)) Return)))"

definition loadControlStatus :: "chat_env \<Rightarrow> act" where
  "loadControlStatus env = load_dialog env ''control'' [] (\<lambda>r. DControlStatus (ce_control env r))"

definition loadRooms :: "chat_env \<Rightarrow> act" where
  "loadRooms env = load_dialog env ''rooms'' [] (\<lambda>r. DRooms (ce_rooms env (field r ''rooms'')))"

definition configureControl :: "chat_env \<Rightarrow> jsstr \<Rightarrow> act" where
  "configureControl env url = dialog_action env (\<lambda>a. ipc_checked env ''control'' [(js ''url'', JStr url)] (\<lambda>r.
     if_current a
       (Update (showStatus (js ''Control server set to '' @ value_text (ce_number env) (field r ''url'') @ js ''.''))
       (Update (showDialog (DControlStatus (ce_control env r))) Return))))"

text \<open>Without \<open>finally\<close>: closing the dialog finishes the action.\<close>

definition dismissControlSetup :: "chat_env \<Rightarrow> act" where
  "dismissControlSetup env = begin_action (\<lambda>a. catching (\<lambda>e. Update (failDialogAction env a e) Return)
     (ipc_checked env ''control'' [(js ''dismiss_setup'', JBool True)] (\<lambda>r.
        if_current a (Update closeDialog Return))))"

definition loadAdvancedConfig :: "chat_env \<Rightarrow> act" where
  "loadAdvancedConfig env = load_dialog env ''advanced_config'' [] (\<lambda>r. DAdvanced (ce_config env r))"

definition known_splash :: "json option \<Rightarrow> bool" where
  "known_splash v \<longleftrightarrow> v \<in> {Some (JStr (js ''card'')), Some (JStr (js ''boot-log'')), Some (JStr (js ''off''))}"

definition saveAdvancedConfig :: "chat_env \<Rightarrow> chat \<Rightarrow> json_object \<Rightarrow> jsstr \<Rightarrow> act" where
  "saveAdvancedConfig env v params message = dialog_action env (\<lambda>a. ipc_checked env ''advanced_config'' params (\<lambda>r.
     if_current a
       (Update (\<lambda>c. c\<lparr>ch_imageProtocol := ce_imageProtocol env (field r ''image_protocol'')\<rparr>)
       (Update (\<lambda>c. if known_splash (field r ''splash_style'')
                    then c\<lparr>ch_splash := ce_splash env (field r ''splash_style'')\<rparr> else c)
       (Update (showDialog (case du_dialog (ch_ui v) of
            Some (DCustomisationSplash _) \<Rightarrow> DCustomisationSplash (ce_splash env (field r ''splash_style''))
          | _ \<Rightarrow> DAdvanced (ce_config env r)))
       (Update (showStatus message) Return))))))"

subsection \<open>Rooms and groups\<close>

definition response_group :: "chat_env \<Rightarrow> json_object \<Rightarrow> chat_group option" where
  "response_group env r = map_option (\<lambda>g. case g of Inl j \<Rightarrow> ce_group env j | Inr g \<Rightarrow> g) (groupFromResponse r)"

definition add_group :: "chat_env \<Rightarrow> chat_group \<Rightarrow> chat \<Rightarrow> chat" where
  "add_group env g c = c\<lparr>ch_groups := sort_by (by_name env) (filter (\<lambda>i. group_id i \<noteq> group_id g) (ch_groups c) @ [g]),
     ch_selection := Some (GroupChat (group_id g))\<rparr>"

text \<open>Writing to the clipboard inside a \<open>try\<close> of its own: a failure means not copied.\<close>

definition write_clipboard :: "jsstr \<Rightarrow> (bool \<Rightarrow> act) \<Rightarrow> act" where
  "write_clipboard s k = Await (WriteClipboard s) (\<lambda>r. k (r = Copied True))"

definition createRoom :: "chat_env \<Rightarrow> chat \<Rightarrow> jsstr \<Rightarrow> act" where
  "createRoom env v name = dialog_action env (\<lambda>a. ipc_checked env ''room_create'' [(js ''name'', JStr (trim name))] (\<lambda>r.
     let invite = as_string (field r ''invite''); group = response_group env r in
     write_clipboard invite (\<lambda>copied. if_current a
       (Update (showDialog (DRoomCreated
          (case group of Some g \<Rightarrow> group_id g | None \<Rightarrow> as_string (field r ''room_id'')) invite copied (Some True)))
       ((case group of Some g \<Rightarrow> Update (add_group env g) | None \<Rightarrow> Spawn (refreshGroups env v Return))
       (Update (showStatus (js ''Group '' @ (case group of Some g \<Rightarrow> group_name g | None \<Rightarrow> trim name) @ js '' created.''))
       Return))))))"

definition joinRoom_tui :: "chat_env \<Rightarrow> chat \<Rightarrow> jsstr \<Rightarrow> act" where
  "joinRoom_tui env v invite = dialog_action env (\<lambda>a. ipc_checked env ''room_join'' [(js ''invite'', JStr (trim invite))] (\<lambda>r.
     ipc_checked env ''rooms'' [] (\<lambda>rooms. if_current a
       (let group = response_group env r in
        Update (showStatus (js ''Joined room '' @ take 12
          (case group of Some g \<Rightarrow> group_id g | None \<Rightarrow> as_string (field r ''room_id'')) @ js ''.''))
        (Update (showDialog (DRooms (ce_rooms env (field rooms ''rooms''))))
        (case group of
           Some g \<Rightarrow> Update (add_group env g) (Update (showStatus (js ''Joined '' @ group_name g @ js ''.'')) Return)
         | None \<Rightarrow> Spawn (refreshGroups env v Return) Return))))))"

definition leaveRoom_tui :: "chat_env \<Rightarrow> jsstr \<Rightarrow> act" where
  "leaveRoom_tui env roomId = dialog_action env (\<lambda>a. ipc_checked env ''room_leave'' [(js ''room_id'', JStr roomId)] (\<lambda>r.
     ipc_checked env ''rooms'' [] (\<lambda>rooms. if_current a
       (Update (showStatus (js ''Left room '' @ take 12 roomId @ js ''.''))
       (Update (showDialog (DRooms (ce_rooms env (field rooms ''rooms'')))) Return)))))"

definition loadRoomInvite :: "chat_env \<Rightarrow> jsstr \<Rightarrow> act" where
  "loadRoomInvite env roomId = dialog_action env (\<lambda>a. ipc_checked env ''room_invite'' [(js ''room_id'', JStr roomId)] (\<lambda>r.
     let invite = as_string (field r ''invite'') in
     write_clipboard invite (\<lambda>copied. if_current a
       (Update (showDialog (DRoomCreated roomId invite copied None)) Return))))"

definition loadGroupDetails :: "chat_env \<Rightarrow> chat_group \<Rightarrow> act" where
  "loadGroupDetails env g = dialog_action env (\<lambda>a. ipc_checked env ''group_members'' (group_param (group_id g)) (\<lambda>r.
     if_current a
       (let members = ce_members env (field r ''members'') in
        Update (store_members (group_id g) members) (Update (showDialog (DGroupDetail g members)) Return))))"

definition leaveGroup :: "chat_env \<Rightarrow> chat \<Rightarrow> chat_group \<Rightarrow> act" where
  "leaveGroup env v g = dialog_action env (\<lambda>a. ipc_checked env ''group_leave'' (group_param (group_id g)) (\<lambda>r.
     let remaining = filter (\<lambda>i. group_id i \<noteq> group_id g) (ch_groups v) in
     Update (\<lambda>c. c\<lparr>ch_groups := remaining\<rparr>)
     (Update (\<lambda>c. if selectedGroupId v = Some (group_id g)
                  then c\<lparr>ch_selection := first_conversation (ch_peers v) remaining\<rparr> else c)
     (Update (showStatus (js ''Left '' @ group_name g @ js ''.''))
     (Update closeDialog Return)))))"

definition copyInvite :: "chat_env \<Rightarrow> jsstr \<Rightarrow> act" where
  "copyInvite env invite = catching (\<lambda>e. Update (setDialogError (error_message env e)) Return)
     (await (WriteClipboard invite) (\<lambda>r.
        if r \<noteq> Copied True
        then Throw (ErrorMessage (js ''No clipboard is available. Select and copy the invite text manually.''))
        else Update (upd_ui (\<lambda>u. u\<lparr>du_dialog := (case du_dialog u of
               Some (DRoomCreated i s cop cr) \<Rightarrow> Some (DRoomCreated i s True cr) | d \<Rightarrow> d)\<rparr>))
             (Update showCopyToast Return)))"

subsection \<open>Muting\<close>

definition refreshMutes :: "chat_env \<Rightarrow> act \<Rightarrow> act" where
  "refreshMutes env k = ipc_request ''muted_peers'' [] (\<lambda>r.
     if json_truthy (field r ''error'') then k
     else Update (\<lambda>c. c\<lparr>ch_mutedPeers := (if nullish (field r ''muted_peers'') then [] else ce_muted env (field r ''muted_peers'')),
            ch_mutedGroups := (if nullish (field r ''muted_groups'') then [] else ce_muted env (field r ''muted_groups''))\<rparr>) k)"

definition mute_label :: "chat_env \<Rightarrow> rat \<Rightarrow> jsstr" where
  "mute_label env until = (if until \<le> 0 then js ''permanently'' else js ''until '' @ ce_timeString env until)"

definition peer_name_or_id :: "chat \<Rightarrow> jsstr \<Rightarrow> jsstr" where
  "peer_name_or_id v i = (case find (\<lambda>p. peer_id p = i) (ch_peers v) of Some p \<Rightarrow> peer_display_name p | None \<Rightarrow> i)"

definition group_name_or_id :: "chat \<Rightarrow> jsstr \<Rightarrow> jsstr" where
  "group_name_or_id v i = (case find (\<lambda>g. group_id g = i) (ch_groups v) of Some g \<Rightarrow> group_name g | None \<Rightarrow> i)"

definition mutePeer :: "chat_env \<Rightarrow> chat \<Rightarrow> jsstr \<Rightarrow> rat \<Rightarrow> act" where
  "mutePeer env v peerId timeout = dialog_action env (\<lambda>a.
     ipc_checked env ''mute'' (peer_param peerId @ [(js ''timeout'', JNum timeout)]) (\<lambda>r.
     if_current a (refreshMutes env
       (Update (showStatus (js ''Muted '' @ peer_name_or_id v peerId @ js '' ''
          @ mute_label env (ce_until env (field r ''until'')) @ js ''.''))
       (Update closeDialog Return)))))"

definition unmutePeer :: "chat_env \<Rightarrow> chat \<Rightarrow> jsstr \<Rightarrow> act" where
  "unmutePeer env v peerId = dialog_action env (\<lambda>a. ipc_checked env ''unmute'' (peer_param peerId) (\<lambda>r.
     if_current a (refreshMutes env
       (Update (showStatus (js ''Unmuted '' @ peer_name_or_id v peerId @ js ''.'')) (Update closeDialog Return)))))"

definition muteGroup :: "chat_env \<Rightarrow> chat \<Rightarrow> jsstr \<Rightarrow> rat \<Rightarrow> act" where
  "muteGroup env v groupId timeout = dialog_action env (\<lambda>a.
     ipc_checked env ''mute'' (group_param groupId @ [(js ''timeout'', JNum timeout)]) (\<lambda>r.
     if_current a (refreshMutes env
       (Update (showStatus (js ''Muted '' @ group_name_or_id v groupId @ js '' ''
          @ mute_label env (ce_until env (field r ''until'')) @ js ''.''))
       (Update closeDialog Return)))))"

definition unmuteGroup :: "chat_env \<Rightarrow> chat \<Rightarrow> jsstr \<Rightarrow> act" where
  "unmuteGroup env v groupId = dialog_action env (\<lambda>a. ipc_checked env ''unmute'' (group_param groupId) (\<lambda>r.
     if_current a (refreshMutes env
       (Update (showStatus (js ''Unmuted '' @ group_name_or_id v groupId @ js ''.'')) (Update closeDialog Return)))))"

subsection \<open>Friends\<close>

definition loadFriendRequests :: "chat_env \<Rightarrow> act" where
  "loadFriendRequests env = load_dialog env ''friend_requests'' []
     (\<lambda>r. DFriendRequests (ce_requests env (field r ''requests'')))"

text \<open>The friend actions: the request, a status, both lists read again, the dialog closed.\<close>

definition friend_change :: "chat_env \<Rightarrow> chat \<Rightarrow> string \<Rightarrow> json_object \<Rightarrow> jsstr \<Rightarrow> act" where
  "friend_change env v action params message = dialog_action env (\<lambda>a. ipc_checked env action params (\<lambda>r.
     if_current a
       (Update (showStatus_for message FRIEND_STATUS_MS)
       (refreshPeers env v (refreshFriendRequestsSilent env (Update closeDialog Return))))))"

definition sendFriendRequest :: "chat_env \<Rightarrow> chat \<Rightarrow> jsstr \<Rightarrow> jsstr \<Rightarrow> act" where
  "sendFriendRequest env v peerId note = friend_change env v ''friend_send'' (peer_param peerId @ [(js ''note'', JStr note)])
     (js ''Friend request sent. You can chat once they accept.'')"

definition respondToFriendRequest :: "chat_env \<Rightarrow> chat \<Rightarrow> friend_request \<Rightarrow> bool \<Rightarrow> act" where
  "respondToFriendRequest env v request accept = friend_change env v ''friend_respond''
     [(js ''request_id'', JStr (fr_request_id request)), (js ''accept'', JBool accept)]
     (if accept then js ''You and '' @ fr_sender_name request @ js '' are now friends.''
      else js ''Declined '' @ fr_sender_name request @ [39] @ js ''s friend request. You can add them again later.'')"

definition cancelFriendRequest :: "chat_env \<Rightarrow> chat \<Rightarrow> jsstr \<Rightarrow> act" where
  "cancelFriendRequest env v requestId = friend_change env v ''friend_cancel'' [(js ''request_id'', JStr requestId)]
     (js ''Friend request cancelled. You can send a new one from the conversation.'')"

definition unfriendPeer :: "chat_env \<Rightarrow> chat \<Rightarrow> jsstr \<Rightarrow> act" where
  "unfriendPeer env v peerId = friend_change env v ''unfriend'' (peer_param peerId)
     (js ''Removed '' @ peer_name_or_id v peerId @ js '' as a friend.'')"

definition loadBlockedPeers :: "chat_env \<Rightarrow> act" where
  "loadBlockedPeers env = load_dialog env ''blocked_peers'' [] (\<lambda>r. DBlocked (ce_blocked env (field r ''blocked'')))"

definition blocked_message :: "jsstr \<Rightarrow> jsstr" where
  "blocked_message name = js ''Blocked '' @ name @ js ''. Their friend requests are now ignored.''"

definition blockPeer :: "chat_env \<Rightarrow> chat \<Rightarrow> jsstr \<Rightarrow> jsstr \<Rightarrow> act" where
  "blockPeer env v peerId displayName = friend_change env v ''block_peer'' (peer_param peerId) (blocked_message displayName)"

definition blockSenderFromRequest :: "chat_env \<Rightarrow> chat \<Rightarrow> friend_request \<Rightarrow> act" where
  "blockSenderFromRequest env v request =
     friend_change env v ''block_peer'' (peer_param (fr_sender_id request)) (blocked_message (fr_sender_name request))"

text \<open>Without \<open>finally\<close>: the action is finished before the blocked peers are loaded.\<close>

definition unblockPeer :: "chat_env \<Rightarrow> chat \<Rightarrow> jsstr \<Rightarrow> jsstr \<Rightarrow> act" where
  "unblockPeer env v peerId displayName = begin_action (\<lambda>a. catching (\<lambda>e. Update (failDialogAction env a e) Return)
     (ipc_checked env ''unblock_peer'' (peer_param peerId) (\<lambda>r. if_current a
       (Update (showStatus_for (js ''Unblocked '' @ displayName @ js ''. They can send friend requests again.'') FRIEND_STATUS_MS)
       (refreshPeers env v (refreshFriendRequestsSilent env
         (Update (finishDialogAction a) (Spawn (loadBlockedPeers env) Return))))))))"

subsection \<open>Debugging\<close>

definition reStun :: "chat_env \<Rightarrow> act" where
  "reStun env = dialog_action env (\<lambda>a. ipc_checked env ''debug_re_stun'' [] (\<lambda>r. if_current a
     (case field r ''public_endpoint'' of
        Some (JArr (host # port # _)) \<Rightarrow>
          Update (showStatus (js ''STUN complete. Endpoint: '' @ value_text (ce_number env) (Some host) @ js '':''
            @ value_text (ce_number env) (Some port))) Return
      | _ \<Rightarrow> Update (showStatus (js ''STUN failed. No public endpoint discovered.'')) Return)))"

definition loadDebugInfo :: "chat_env \<Rightarrow> act" where
  "loadDebugInfo env = dialog_action env (\<lambda>a. ipc_checked env ''debug_info'' [] (\<lambda>r. if_current a
     (Update (\<lambda>c. c\<lparr>ch_debugInfo := Some r\<rparr>) Return)))"

definition loadFiles :: "chat_env \<Rightarrow> act" where
  "loadFiles env = dialog_action env (\<lambda>a. ipc_checked env ''files'' [] (\<lambda>r. if_current a
     (let files = ce_files env (field r ''files'') in
      Update (\<lambda>c. c\<lparr>ch_fileTransfers := files\<rparr>) (Update (showDialog (DFileList files)) Return))))"

end
