(* ===== verification/ChatFiles.thy ===== *)
theory ChatFiles
  imports ChatActions
begin

text \<open>
  The actions of the terminal client on files, storage locations, the display name and notifications
  (\<open>tui/src/useChatActions.ts\<close>, second half). The choice of a command for the file picker is I/O; picking
  and staging files are awaits.
\<close>

subsection \<open>Paths\<close>

definition MAX_FILE_SIZE :: nat where "MAX_FILE_SIZE = 50 * 1024 * 1024"

definition IMAGE_EXTENSIONS :: "jsstr \<Rightarrow> jsstr option" where
  "IMAGE_EXTENSIONS = map_get [(js ''image/png'', js ''.png''), (js ''image/jpeg'', js ''.jpg''),
     (js ''image/webp'', js ''.webp''), (js ''image/gif'', js ''.gif'')]"

definition expandUser :: "chat_env \<Rightarrow> jsstr \<Rightarrow> jsstr" where
  "expandUser env filePath =
     (let trimmed = trim filePath in
      if ce_home env \<noteq> [] \<and> (trimmed = [126] \<or> starts_with trimmed [126, 47] \<or> starts_with trimmed [126, 92])
      then ce_home env @ drop 1 trimmed else trimmed)"

definition check_path :: "chat_env \<Rightarrow> jsstr \<Rightarrow> jsstr list \<times> jsstr list \<Rightarrow> jsstr list \<times> jsstr list" where
  "check_path env raw r =
     (let trimmed = trim raw; absolutePath = resolve (ce_cwd env) (expandUser env trimmed) in
      if trimmed = [] then r
      else if ce_isFile env absolutePath
      then (if absolutePath \<in> set (fst r) then r else (fst r @ [absolutePath], snd r))
      else (fst r, snd r @ [trimmed]))"

definition validLocalFiles :: "chat_env \<Rightarrow> jsstr list \<Rightarrow> jsstr list \<times> jsstr list" where
  "validLocalFiles env paths = fold (check_path env) (take 32 paths) ([], [])"

definition defaultDownloadPath :: "chat_env \<Rightarrow> jsstr \<Rightarrow> jsstr" where
  "defaultDownloadPath env filename =
     map (\<lambda>c. if c = 92 then 47 else c)
       (if ce_home env \<noteq> [] then ce_home env @ js ''/Downloads/'' @ filename else filename)"

subsection \<open>Sending files\<close>

record outstanding_file =
  of_path :: jsstr
  of_reason :: jsstr
  of_fileId :: "jsstr option"

definition transfer_payload :: "conversation \<Rightarrow> jsstr list \<Rightarrow> jsstr \<Rightarrow> json_object" where
  "transfer_payload receiver paths caption =
     [(if is_group_chat receiver then js ''group_id'' else js ''recipient_id'', JStr (conversation_id receiver)),
      (if length paths = 1 then (js ''file_path'', JStr (hd paths)) else (js ''paths'', JArr (map JStr paths))),
      (js ''caption'', JStr caption)]"

definition failed_ids :: "json_object \<Rightarrow> jsstr list" where
  "failed_ids r = fold set_add
     (filter (\<lambda>i. i \<noteq> [])
       ((case string_value (field r ''file_id'') of Some i \<Rightarrow> [i] | None \<Rightarrow> [])
        @ (case field r ''file_ids'' of Some (JArr xs) \<Rightarrow> List.map_filter (\<lambda>j. string_value (Some j)) xs | _ \<Rightarrow> []))) []"

definition reported_failure :: "json \<Rightarrow> outstanding_file" where
  "reported_failure entry = (case entry of
     JStr s \<Rightarrow> \<lparr>of_path = s, of_reason = [], of_fileId = None\<rparr>
   | _ \<Rightarrow> \<lparr>of_path = as_string (prop_of entry ''path''), of_reason = as_string (prop_of entry ''error''),
       of_fileId = string_value (prop_of entry ''file_id'')\<rparr>)"

definition transfer_errors :: "json_object \<Rightarrow> json list" where
  "transfer_errors r = (case field r ''errors'' of Some (JArr xs) \<Rightarrow> xs | _ \<Rightarrow> [])"

text \<open>The files that did not start: those named by the errors, or all of them when the errors name none.\<close>

definition outstanding_files :: "chat_env \<Rightarrow> jsstr list \<Rightarrow> json_object \<Rightarrow> outstanding_file list" where
  "outstanding_files env paths r =
     (let errors = transfer_errors r;
          reported = filter (\<lambda>e. of_path e \<noteq> []) (map reported_failure errors);
          failed = filter (\<lambda>e. of_path e \<in> set paths) reported;
          fallbackReason = join_on (js ''; '')
            (map (\<lambda>e. case e of JStr s \<Rightarrow> s | _ \<Rightarrow> stringify (ce_number env) e) errors)
      in if failed \<noteq> [] then failed
         else if errors \<noteq> [] then map (\<lambda>p. \<lparr>of_path = p, of_reason = fallbackReason, of_fileId = None\<rparr>) paths
         else [])"

definition sendFilesDirect ::
  "chat_env \<Rightarrow> jsstr list \<Rightarrow> conversation option \<Rightarrow> jsstr \<Rightarrow> (outstanding_file list \<Rightarrow> act) \<Rightarrow> act" where
  "sendFilesDirect env paths receiver caption k = (case receiver of
     None \<Rightarrow> Throw (ErrorMessage (js ''Select a peer or group before sending a file.''))
   | Some t \<Rightarrow> ipc_request (if is_group_chat t then ''group_file_send'' else ''file_send'') (transfer_payload t paths caption) (\<lambda>r.
       if json_truthy (field r ''error'')
       then Throw (ErrorMessage (value_text (ce_number env) (field r ''error'')
              @ (if failed_ids r \<noteq> [] then js '' ['' @ join_on (js '', '') (map (take 8) (failed_ids r)) @ js '']'' else [])))
       else if JNull \<in> set (transfer_errors r)
       then Throw TypeError
       else
         let outstanding = outstanding_files env paths r;
             succeeded = int (length paths) - int (length outstanding)
         in if succeeded > 0
            then Update (showStatus (case paths of
                   [p] \<Rightarrow> js ''File transfer started: '' @ p @ js '' -> '' @ take 8 (conversation_id t)
                 | _ \<Rightarrow> js ''Started '' @ decimal (nat succeeded) @ js '' of '' @ decimal (length paths) @ js '' file transfers.''))
                 (k outstanding)
            else k outstanding))"

definition composer_caption :: "chat \<Rightarrow> jsstr" where
  "composer_caption c = (case co_text (ch_composer c) of Some s \<Rightarrow> trim s | None \<Rightarrow> [])"

definition requestFileSend :: "chat_env \<Rightarrow> chat \<Rightarrow> jsstr list \<Rightarrow> confirm_source \<Rightarrow> act" where
  "requestFileSend env v paths source = (case ch_selection v of
     None \<Rightarrow> Update (showStatus (js ''Select a peer or group first.'')) Return
   | Some receiver \<Rightarrow> (case validLocalFiles env paths of (valid, missing) \<Rightarrow>
       if valid = []
       then Update (showStatus (case missing of m # _ \<Rightarrow> js ''Not found: '' @ m | [] \<Rightarrow> js ''No files found.'')) Return
       else
         let confirm = (\<lambda>confirmationPaths. Read (\<lambda>c. Update (showDialog (DFileConfirm
               \<lparr>fc_paths = confirmationPaths, fc_source = source, fc_target = receiver,
                fc_caption = composer_caption c, fc_image = None\<rparr>)) Return))
         in catching (\<lambda>e. Update (showStatus (js ''Could not prepare file: '' @ error_message env e)) Return)
              (if source = FromPicker then confirm valid
               else await (StageFiles valid) (\<lambda>r. case r of Staged ps \<Rightarrow> confirm ps | _ \<Rightarrow> Throw TypeError))))"

definition requestImageSend :: "chat \<Rightarrow> nat list \<Rightarrow> jsstr \<Rightarrow> act" where
  "requestImageSend v bytes mimeType = (case ch_selection v of
     None \<Rightarrow> Update (showStatus (js ''Select a peer or group first.'')) Return
   | Some receiver \<Rightarrow>
       if bytes = [] then Update (showStatus (js ''The pasted image is empty.'')) Return
       else if MAX_FILE_SIZE < length bytes
       then Update (showStatus (js ''Pasted image exceeds the 50 MiB limit.'')) Return
       else Read (\<lambda>c. Update (showDialog (DFileConfirm \<lparr>fc_paths = [], fc_source = FromImage, fc_target = receiver,
              fc_caption = composer_caption c, fc_image = Some \<lparr>img_bytes = bytes, img_mimeType = mimeType\<rparr>\<rparr>)) Return))"

definition failure_detail :: "outstanding_file \<Rightarrow> jsstr" where
  "failure_detail e =
     (let name = rev (takeWhile (\<lambda>c. c \<noteq> 47 \<and> c \<noteq> 92) (rev (of_path e)));
          i = (case of_fileId e of Some i \<Rightarrow> if i \<noteq> [] then js '' ['' @ take 8 i @ js '']'' else [] | None \<Rightarrow> [])
      in if of_reason e \<noteq> [] then name @ js '': '' @ of_reason e @ i else name @ i)"

definition clear_composer :: "jsstr option \<Rightarrow> chat \<Rightarrow> chat" where
  "clear_composer key c =
     (let u = ch_composer c in
      c\<lparr>ch_composer := u\<lparr>co_text := Some [],
         co_drafts := (if truthy key then updateBoundedEntry (co_drafts u) (the key) [] MAX_DRAFT_ENTRIES else co_drafts u),
         co_draftLength := 0, co_height := MIN_COMPOSER_HEIGHT\<rparr>\<rparr>)"

definition confirmPendingFileSend :: "chat_env \<Rightarrow> chat \<Rightarrow> jsstr option \<Rightarrow> act" where
  "confirmPendingFileSend env v selectionKey = (case du_dialog (ch_ui v) of
     Some (DFileConfirm pending) \<Rightarrow> dialog_action env (\<lambda>a.
       let rest = (\<lambda>paths. sendFilesDirect env paths (Some (fc_target pending)) (fc_caption pending) (\<lambda>outstanding.
             if_current a
               (if outstanding \<noteq> []
                then (if fc_image pending = None
                      then Update (showDialog (DFileConfirm \<lparr>fc_paths = map of_path outstanding, fc_source = fc_source pending,
                             fc_target = fc_target pending, fc_caption = fc_caption pending, fc_image = None\<rparr>))
                      else Update id)
                     (Update (setDialogError (js ''Failed to send '' @ join_on (js ''; '') (map failure_detail outstanding)
                        @ js ''. Fix the files or retry.'')) Return)
                else Read (\<lambda>c.
                  (if fc_caption pending \<noteq> [] \<and> co_text (ch_composer c) \<noteq> None \<and> composer_caption c = fc_caption pending
                   then Update (clear_composer selectionKey) else Update id)
                  (Update closeDialog Return)))))
       in case fc_image pending of
            None \<Rightarrow> rest (fc_paths pending)
          | Some img \<Rightarrow> (case IMAGE_EXTENSIONS (ce_lower env (img_mimeType img)) of
              None \<Rightarrow> Throw (ErrorMessage (js ''Unsupported pasted image type: '' @ img_mimeType img))
            | Some extension \<Rightarrow>
                let path = ce_tempImage env @ extension in
                await (WriteImage path (img_bytes img)) (\<lambda>r. rest [path])))
   | _ \<Rightarrow> Return)"

definition sendFile_action :: "chat_env \<Rightarrow> chat \<Rightarrow> jsstr \<Rightarrow> act" where
  "sendFile_action env v filePath = dialog_action env (\<lambda>a.
     if trim filePath = [] then Throw (ErrorMessage (js ''File path is empty''))
     else
       let absolutePath = resolve (ce_cwd env) (expandUser env filePath) in
       case ch_selection v of
         None \<Rightarrow> Throw (ErrorMessage (js ''Select a peer or group first''))
       | Some s \<Rightarrow> sendFilesDirect env [absolutePath] (Some s) [] (\<lambda>outstanding. case outstanding of
           e # _ \<Rightarrow> Throw (ErrorMessage (if of_reason e \<noteq> [] then of_reason e else js ''File transfer did not start''))
         | [] \<Rightarrow> if_current a (Update closeDialog Return)))"

text \<open>The picker; whether one can be opened is an argument.\<close>

definition openFilePicker :: "chat_env \<Rightarrow> chat \<Rightarrow> bool \<Rightarrow> act" where
  "openFilePicker env v available = Read (\<lambda>c.
     if ch_pickerOpen c then Return
     else if ch_selection v = None
     then Update (showStatus (js ''Select a peer or group before sending a file.'')) Return
     else if \<not> available
     then Update (showStatus (js ''No native file picker found. Enter a path in the upload screen.''))
            (Update (showDialog DFileSend) Return)
     else
       let close = (\<lambda>c. c\<lparr>ch_pickerOpen := False\<rparr>) in
       Update (\<lambda>c. c\<lparr>ch_pickerOpen := True\<rparr>)
       (Await PickFile (\<lambda>r. case r of
          Picked (Some out) \<Rightarrow>
            if trim out \<noteq> [] then followed_by (sendFile_action env v (trim out)) (Update close Return)
            else Update close Return
        | Picked None \<Rightarrow> Update close Return
        | Failed e \<Rightarrow> Update (showStatus (js ''Could not open file picker: '' @ error_message env e)) (Update close Return)
        | _ \<Rightarrow> Update close Return)))"

definition downloadFile :: "chat_env \<Rightarrow> jsstr \<Rightarrow> jsstr \<Rightarrow> act" where
  "downloadFile env fileId destPath = dialog_action env (\<lambda>a.
     if trim destPath = [] then Throw (ErrorMessage (js ''Destination path required''))
     else ipc_checked env ''file_download'' [(js ''file_id'', JStr fileId), (js ''dest_path'', JStr (trim destPath))] (\<lambda>r.
       if_current a (Update (showStatus (js ''Saved '' @ value_text (ce_number env) (field r ''dest_path'')))
         (Update closeDialog Return))))"

end
