(* ===== verification/ChatSettings.thy ===== *)
theory ChatSettings
  imports ChatFiles
begin

text \<open>
  The actions of the terminal client on storage locations, the display name, accessibility and
  notifications, and the commands of the menu (\<open>tui/src/useChatActions.ts\<close>, continued).
\<close>

subsection \<open>Locations\<close>

definition location_of :: "json_object \<Rightarrow> location_payload" where
  "location_of r = \<lparr>lp_filesDir = as_string (field r ''files_dir''), lp_env = string_value (field r ''env''),
     lp_configured = string_value (field r ''configured''), lp_dataDir = string_value (field r ''data_dir''),
     lp_storageDir = string_value (field r ''storage_dir''), lp_storageConfigured = string_value (field r ''storage_configured''),
     lp_storageEnv = string_value (field r ''storage_env''), lp_dbPath = string_value (field r ''db_path''),
     lp_storageHasContent = (if field r ''storage_has_content'' = None then None else Some (json_truthy (field r ''storage_has_content''))),
     lp_filesHasContent = (if field r ''files_has_content'' = None then None else Some (json_truthy (field r ''files_has_content'')))\<rparr>"

datatype location_kind = FilesDirKind | StorageDirKind | FilesSettingsKind

definition location_kind_of :: "chat \<Rightarrow> location_kind option" where
  "location_kind_of v = (case du_dialog (ch_ui v) of
     Some (DFilesDir _) \<Rightarrow> Some FilesDirKind | Some (DStorageDir _) \<Rightarrow> Some StorageDirKind
   | Some (DFilesSettings _) \<Rightarrow> Some FilesSettingsKind | _ \<Rightarrow> None)"

definition filesDirDialogFrom :: "chat \<Rightarrow> json_object \<Rightarrow> dialog" where
  "filesDirDialogFrom v r = (case location_kind_of v of
     Some StorageDirKind \<Rightarrow> DStorageDir (location_of r)
   | Some FilesSettingsKind \<Rightarrow> DFilesSettings (location_of r)
   | _ \<Rightarrow> DFilesDir (location_of r))"

definition storageDialogFrom :: "chat \<Rightarrow> json_object \<Rightarrow> dialog" where
  "storageDialogFrom v r = (case location_kind_of v of
     Some FilesSettingsKind \<Rightarrow> DFilesSettings (location_of r)
   | Some FilesDirKind \<Rightarrow> DFilesDir (location_of r)
   | _ \<Rightarrow> DStorageDir (location_of r))"

definition storage_draft :: "json_object \<Rightarrow> jsstr" where
  "storage_draft r = as_string (or_else (field r ''storage_dir'') (field r ''data_dir''))"

definition loadFilesDir :: "chat_env \<Rightarrow> act" where
  "loadFilesDir env = dialog_action env (\<lambda>a. ipc_checked env ''files_dir'' [] (\<lambda>r. if_current a
     (Update (showDialog (DFilesDir (location_of r))) (Update (setDialogDraft (as_string (field r ''files_dir''))) Return))))"

definition loadFilesSettings :: "chat_env \<Rightarrow> act" where
  "loadFilesSettings env = load_dialog env ''files_dir'' [] (\<lambda>r. DFilesSettings (location_of r))"

definition loadStorageDir :: "chat_env \<Rightarrow> act" where
  "loadStorageDir env = dialog_action env (\<lambda>a. ipc_checked env ''files_dir'' [] (\<lambda>r. if_current a
     (Update (showDialog (DStorageDir (location_of r))) (Update (setDialogDraft (storage_draft r)) Return))))"

text \<open>Moving the storage may adopt the identity found there.\<close>

definition syncIdentityFrom :: "json_object \<Rightarrow> chat \<Rightarrow> chat" where
  "syncIdentityFrom r c = (case (field r ''peer_id'', field r ''display_name'') of
     (Some (JStr i), Some (JStr n)) \<Rightarrow> c\<lparr>ch_identity := Some (i, n), ch_nameDraft := n\<rparr>
   | _ \<Rightarrow> c)"

definition migrate_param :: "jsstr \<Rightarrow> bool \<Rightarrow> json_object" where
  "migrate_param path migrate = (js ''path'', JStr path) # (if migrate then [(js ''migrate'', JBool True)] else [])"

definition moved_status :: "json_object \<Rightarrow> jsstr \<Rightarrow> jsstr \<Rightarrow> chat \<Rightarrow> chat" where
  "moved_status r moved otherwise =
     (if json_truthy (field r ''migrated'') then showStatus moved
      else case field r ''note'' of Some (JStr s) \<Rightarrow> showStatus s | _ \<Rightarrow> showStatus otherwise)"

definition string_status :: "json option \<Rightarrow> chat \<Rightarrow> chat" where
  "string_status v = (case v of Some (JStr s) \<Rightarrow> showStatus s | _ \<Rightarrow> id)"

definition setFilesDir :: "chat_env \<Rightarrow> chat \<Rightarrow> jsstr \<Rightarrow> bool \<Rightarrow> act" where
  "setFilesDir env v path migrate = dialog_action env (\<lambda>a.
     if trim path = [] then Throw (ErrorMessage (js ''Path required''))
     else ipc_checked env ''files_dir'' (migrate_param (trim path) migrate) (\<lambda>r. if_current a
       (let filesDir = value_text (ce_number env) (field r ''files_dir'') in
        Update (syncIdentityFrom r)
        (Update (moved_status r (js ''Files storage moved to '' @ filesDir @ js ''. Old files transferred and removed.'')
           (js ''Files storage set to '' @ filesDir @ js ''. New files will go there.''))
        (Update (string_status (field r ''cleanup_warning''))
        (Update (showDialog (filesDirDialogFrom v r))
        (Update (setDialogDraft (as_string (field r ''files_dir''))) Return)))))))"

definition setStorageDir :: "chat_env \<Rightarrow> chat \<Rightarrow> jsstr \<Rightarrow> bool \<Rightarrow> act" where
  "setStorageDir env v path migrate = dialog_action env (\<lambda>a.
     if trim path = [] then Throw (ErrorMessage (js ''Path required''))
     else ipc_checked env ''storage'' (migrate_param (trim path) migrate) (\<lambda>r. if_current a
       (let storageDir = value_text (ce_number env) (field r ''storage_dir'') in
        Update (syncIdentityFrom r)
        (Update (moved_status r (js ''Storage moved to '' @ storageDir @ js ''. Old data transferred and removed.'')
           (js ''Storage set to '' @ storageDir @ js ''.''))
        (Update (string_status (field r ''files_note''))
        (Update (string_status (field r ''cleanup_warning''))
        (Update (showDialog (storageDialogFrom v r))
        (Update (setDialogDraft (case location_kind_of v of
             Some FilesSettingsKind \<Rightarrow> []
           | Some FilesDirKind \<Rightarrow> as_string (field r ''files_dir'')
           | _ \<Rightarrow> storage_draft r)) Return))))))))"

definition clearFilesDir :: "chat_env \<Rightarrow> chat \<Rightarrow> bool \<Rightarrow> act" where
  "clearFilesDir env v migrate = dialog_action env (\<lambda>a.
     ipc_checked env ''files_dir'' (migrate_param (js ''default'') migrate) (\<lambda>r. if_current a
       (Update (syncIdentityFrom r)
       (Update (moved_status r (js ''Files location reset to default and files transferred.'')
          (js ''Files location reset to default.''))
       (Update (string_status (field r ''cleanup_warning''))
       (Update (showDialog (filesDirDialogFrom v r)) Return))))))"

definition clearStorageDir :: "chat_env \<Rightarrow> chat \<Rightarrow> bool \<Rightarrow> act" where
  "clearStorageDir env v migrate = dialog_action env (\<lambda>a.
     ipc_checked env ''storage'' (migrate_param (js ''default'') migrate) (\<lambda>r. if_current a
       (Update (syncIdentityFrom r)
       (Update (moved_status r (js ''Storage location reset to default and data transferred.'')
          (js ''Storage location reset to default.''))
       (Update (string_status (field r ''cleanup_warning''))
       (Update (showDialog (storageDialogFrom v r)) Return))))))"

text \<open>The dash of the source is U+2014.\<close>

definition openPath :: "chat_env \<Rightarrow> jsstr \<Rightarrow> act" where
  "openPath env path = catching
     (\<lambda>e. Update (showStatus (js ''Could not open location: '' @ error_message env e)) Return)
     (ipc_request ''open_path'' [(js ''path'', JStr path)] (\<lambda>r.
        if \<not> json_truthy (field r ''error'')
        then Update (showStatus (js ''Opened '' @ value_text (ce_number env) (field r ''opened''))) Return
        else
          let fallbackPath = (case field r ''path'' of Some (JStr s) \<Rightarrow> s | _ \<Rightarrow> path) in
          write_clipboard fallbackPath (\<lambda>written. Update (showStatus
            (if written then js ''No file manager found '' @ [8212] @ js '' path copied to clipboard: '' @ fallbackPath
             else js ''No file manager found. Path: '' @ fallbackPath)) Return)))"

subsection \<open>Name and accessibility\<close>

definition name_saved :: "jsstr \<Rightarrow> chat \<Rightarrow> chat" where
  "name_saved n c = c\<lparr>ch_identity := map_option (\<lambda>(i, _). (i, n)) (ch_identity c), ch_nameDraft := n, ch_editingName := False\<rparr>"

definition name_updated :: act where
  "name_updated = Update (showStatus (js ''Display name updated and shared with connected peers.'')) Return"

text \<open>After the first run of the name dialog comes the setup of the control service.\<close>

definition after_first_name :: "chat_env \<Rightarrow> nat \<Rightarrow> act" where
  "after_first_name env a = ipc_checked env ''control'' [] (\<lambda>control. if_current a
     (Update (if json_truthy (field control ''url'') then showDialog (DControlStatus (ce_control env control))
              else if \<not> json_truthy (field control ''setup_dismissed'') then showDialog (DControl True)
              else closeDialog) name_updated))"

definition name_save_error :: "chat_env \<Rightarrow> nat option \<Rightarrow> js_error \<Rightarrow> act" where
  "name_save_error env action e = Read (\<lambda>c.
     if ch_disconnected c then Return
     else Update (\<lambda>c. c\<lparr>ch_status := js ''Name error: '' @ error_message env e\<rparr>)
       (case action of Some a \<Rightarrow> Update (failDialogAction env a e) Return | None \<Rightarrow> Return))"

definition set_name :: "chat_env \<Rightarrow> jsstr \<Rightarrow> (jsstr \<Rightarrow> act) \<Rightarrow> act" where
  "set_name env value' k = ipc_checked env ''set_display_name'' [(js ''display_name'', JStr value')]
     (\<lambda>r. k (as_string (field r ''display_name'')))"

definition saveDisplayName :: "chat_env \<Rightarrow> chat \<Rightarrow> jsstr option \<Rightarrow> act" where
  "saveDisplayName env v value' =
     (let name = (case value' of Some s \<Rightarrow> s | None \<Rightarrow> ch_nameDraft v) in
      case du_dialog (ch_ui v) of
        Some (DRename firstRun) \<Rightarrow> begin_action (\<lambda>a. settle_action env a (catching (name_save_error env (Some a))
          (set_name env name (\<lambda>displayName. if_current a
            (Update (name_saved displayName)
              (if firstRun then after_first_name env a else Update closeDialog name_updated))))))
      | _ \<Rightarrow> catching (name_save_error env None)
          (set_name env name (\<lambda>displayName. Update (name_saved displayName) name_updated)))"

definition setAccessibilityFlashing :: "chat_env \<Rightarrow> bool \<Rightarrow> act" where
  "setAccessibilityFlashing env enabled = dialog_action env (\<lambda>a.
     ipc_checked env ''accessibility'' [(js ''flashing_enabled'', JBool enabled)] (\<lambda>r. if_current a
       (Update (\<lambda>c. c\<lparr>ch_flashing := json_truthy (field r ''flashing_enabled'')\<rparr>) Return)))"

subsection \<open>Notifications\<close>

definition notification_kind :: "dialog \<Rightarrow> bool" where
  "notification_kind d = (case d of
     DNotifications \<Rightarrow> True | DNotificationEnable _ \<Rightarrow> True | DNotificationConfirm _ _ \<Rightarrow> True
   | DNotificationFallback _ \<Rightarrow> True | DNotificationSettings \<Rightarrow> True | DNotificationPeer \<Rightarrow> True | _ \<Rightarrow> False)"

definition saveDndEnabled :: "chat_env \<Rightarrow> chat \<Rightarrow> bool \<Rightarrow> act" where
  "saveDndEnabled env v enabled = dialog_action env (\<lambda>a.
     ipc_checked env ''dnd'' [(js ''enabled'', JBool enabled)] (\<lambda>r. if_current a
       (let on = json_truthy (field r ''dnd_enabled'') in
        Update (\<lambda>c. c\<lparr>ch_dnd := on\<rparr>)
        (Update (showStatus (if on then js ''Do Not Disturb on. All notifications are paused and peers see you as unavailable.''
           else js ''Do Not Disturb off. Notifications resumed.''))
        (case du_dialog (ch_ui v) of
           Some d \<Rightarrow> if notification_kind d then Update (showDialog DNotifications) Return else Return
         | None \<Rightarrow> Return)))))"

definition toggleDnd :: "chat_env \<Rightarrow> chat \<Rightarrow> act" where
  "toggleDnd env v = saveDndEnabled env v (\<not> ch_dnd v)"

definition notificationEventEnabled :: "chat \<Rightarrow> notification_event \<Rightarrow> bool" where
  "notificationEventEnabled v event = (case ch_preferences v of Some p \<Rightarrow> np_events p event | None \<Rightarrow> False)"

definition saveNotificationPreferences :: "chat_env \<Rightarrow> json_object \<Rightarrow> act \<Rightarrow> act" where
  "saveNotificationPreferences env changes k = ipc_checked env ''notifications'' changes (\<lambda>r.
     Update (\<lambda>c. c\<lparr>ch_preferences := Some (ce_preferences env r)\<rparr>) k)"

fun delivery_text :: "notification_delivery \<Rightarrow> jsstr" where
  "delivery_text TerminalDelivery = js ''terminal''"
| "delivery_text NativeDelivery = js ''native''"
| "delivery_text DisabledDelivery = js ''disabled''"

fun event_text :: "notification_event \<Rightarrow> jsstr" where
  "event_text NotifyMessages = js ''messages''"
| "event_text NotifyFriendRequests = js ''friend_requests''"
| "event_text NotifyFileOffers = js ''file_offers''"
| "event_text NotifyFileCompleted = js ''file_completed''"

definition testNotificationDelivery :: "chat_env \<Rightarrow> notification_delivery \<Rightarrow> bool \<Rightarrow> act" where
  "testNotificationDelivery env delivery firstRun = begin_action (\<lambda>a.
     Update (\<lambda>c. c\<lparr>ch_notificationTest := Some delivery\<rparr>)
     (followed_by
       (catching (\<lambda>e. Update (failDialogAction env a e) Return)
         (await (TestNotification delivery) (\<lambda>r. if_current a
           (if r = Sent True then Update (showDialog (DNotificationConfirm delivery firstRun)) Return
            else if delivery = TerminalDelivery then Update (showDialog (DNotificationFallback firstRun)) Return
            else Throw (ErrorMessage (js ''Could not start a native notification. Check that desktop notifications are available.''))))))
       (Update (\<lambda>c. c\<lparr>ch_notificationTest := None\<rparr>) (Update (finishDialogAction a) Return))))"

definition dismissed_with :: "notification_delivery \<Rightarrow> json_object" where
  "dismissed_with d = [(js ''setup_dismissed'', JBool True), (js ''delivery'', JStr (delivery_text d))]"

definition confirmNotificationDelivery :: "chat_env \<Rightarrow> notification_delivery \<Rightarrow> bool \<Rightarrow> act" where
  "confirmNotificationDelivery env delivery firstRun = dialog_action env (\<lambda>a.
     saveNotificationPreferences env (dismissed_with delivery) (if_current a
       (Update (showStatus (js ''Desktop notifications will use ''
          @ (if delivery = TerminalDelivery then js ''your terminal'' else js ''your operating system'') @ js ''.''))
       (Update (if firstRun then closeDialog else showDialog DNotifications) Return))))"

definition disableNotifications :: "chat_env \<Rightarrow> bool \<Rightarrow> act" where
  "disableNotifications env firstRun = dialog_action env (\<lambda>a.
     saveNotificationPreferences env (dismissed_with DisabledDelivery) (if_current a
       (Update (if firstRun then closeDialog else showDialog DNotifications) Return)))"

definition toggleNotificationEvent :: "chat_env \<Rightarrow> chat \<Rightarrow> notification_event \<Rightarrow> act" where
  "toggleNotificationEvent env v event =
     (if ch_preferences v = None then Return
      else dialog_action env (\<lambda>a. saveNotificationPreferences env
        [(js ''events'', JObj [(event_text event, JBool (\<not> notificationEventEnabled v event))])]
        (if_current a (Update (showDialog DNotificationSettings) Return))))"

subsection \<open>Calls of the navigation\<close>

text \<open>The callbacks that \<open>goBack\<close> and \<open>runCommand\<close> of \<open>navigation.ts\<close> are given here.\<close>

fun nav_action :: "chat_env \<Rightarrow> nav_call \<Rightarrow> act" where
  "nav_action env CloseDialog = Update closeDialog Return"
| "nav_action env (ShowDialog d) = Update (showDialog d) Return"
| "nav_action env (ShowStatus s) = Update (showStatus s) Return"
| "nav_action env (SetDialogDraft s) = Update (setDialogDraft s) Return"
| "nav_action env (SetDialogError s) = Update (setDialogError s) Return"
| "nav_action env (SetNameDraft s) = Update (\<lambda>c. c\<lparr>ch_nameDraft := s\<rparr>) Return"
| "nav_action env SetRenameDialog = Update (showDialog (DRename False)) Return"
| "nav_action env LoadAdvancedConfig = loadAdvancedConfig env"
| "nav_action env LoadRooms = loadRooms env"
| "nav_action env LoadFriendRequests = loadFriendRequests env"
| "nav_action env LoadBlockedPeers = loadBlockedPeers env"
| "nav_action env LoadDebugInfo = loadDebugInfo env"
| "nav_action env LoadFiles = loadFiles env"
| "nav_action env LoadFilesSettings = loadFilesSettings env"
| "nav_action env (LoadGroupDetails g) = loadGroupDetails env g"
| "nav_action env OpenFriendsInbox = openFriendsInbox env"

primrec nav_actions :: "chat_env \<Rightarrow> nav_call list \<Rightarrow> act" where
  "nav_actions env [] = Return"
| "nav_actions env (n # ns) = Spawn (nav_action env n) (nav_actions env ns)"

definition goBack_tui :: "chat_env \<Rightarrow> chat \<Rightarrow> act" where
  "goBack_tui env v = nav_actions env (goBack (du_dialog (ch_ui v)) (ch_fileTransfers v))"

definition command_deps_of :: "chat \<Rightarrow> rat \<Rightarrow> command_deps" where
  "command_deps_of v now = \<lparr>cd_groups = ch_groups v, cd_groupMembers = ch_groupMembers v,
     cd_identity = map_option (\<lambda>(i, n). \<lparr>id_peer_id = i, id_display_name = n\<rparr>) (ch_identity v),
     cd_mutedPeers = ch_mutedPeers v, cd_mutedGroups = ch_mutedGroups v, cd_peers = ch_peers v,
     cd_selectedGroupId = selectedGroupId v,
     cd_selectedPeerId = (case ch_selection v of Some (PeerChat i) \<Rightarrow> Some i | _ \<Rightarrow> None),
     cd_selection = ch_selection v, cd_has_loadFilesSettings = True, cd_has_openFriendsInbox = True, cd_now = now\<rparr>"

definition runCommand_tui :: "chat_env \<Rightarrow> chat \<Rightarrow> rat \<Rightarrow> jsstr \<Rightarrow> act" where
  "runCommand_tui env v now command =
     (if command = js ''dnd'' then toggleDnd env v
      else nav_actions env (runCommand command (command_deps_of v now)))"

end
