(* ===== verification/ChatDialogs.thy ===== *)
theory ChatDialogs
  imports ChatSettings
begin

text \<open>
  The dialogs of the terminal client under every interleaving of its actions: an action waits for the
  backend while the user opens and closes dialogs and other actions run. Each action owns a number; the
  current number is the one that may change the dialog.

  \<open>fair\<close> says of a program that its updates never leave the dialog busy without a program that will release
  it; \<open>calm\<close> is the stronger property of action bodies, proved from one rule per construct.
\<close>

abbreviation busyRef :: "chat \<Rightarrow> bool" where "busyRef c \<equiv> du_busyRef (ch_ui c)"
abbreviation action_number :: "chat \<Rightarrow> nat" where "action_number c \<equiv> du_action (ch_ui c)"

subsection \<open>Releasing the dialog\<close>

text \<open>A program that, whatever happens, will give up the busy flag of action \<open>a\<close>, if it is still held.\<close>

primrec releases :: "nat \<Rightarrow> act \<Rightarrow> bool" where
  "releases a Return = False"
| "releases a (Throw e) = False"
| "releases a (Update f p) = (releases a p \<or> (\<forall>c. \<not> (busyRef (f c) \<and> action_number (f c) = a)))"
| "releases a (Read k) = (\<forall>c. busyRef c \<longrightarrow> action_number c = a \<longrightarrow> releases a (k c))"
| "releases a (Await q k) = (\<forall>r. releases a (k r))"
| "releases a (Spawn q p) = releases a p"

definition mirrors :: "(chat \<Rightarrow> chat) \<Rightarrow> bool" where
  "mirrors f \<longleftrightarrow> (\<forall>c. du_busy (ch_ui c) = busyRef c \<longrightarrow> du_busy (ch_ui (f c)) = busyRef (f c))"

definition calm_update :: "(chat \<Rightarrow> chat) \<Rightarrow> bool" where
  "calm_update f \<longleftrightarrow> mirrors f \<and> (\<forall>c. busyRef (f c) \<longrightarrow> busyRef c \<and> action_number (f c) = action_number c)"

primrec fair :: "act \<Rightarrow> chat \<Rightarrow> bool" where
  "fair Return c = True"
| "fair (Throw e) c = True"
| "fair (Update f p) c =
     (mirrors f \<and> (busyRef (f c) \<longrightarrow> busyRef c \<and> action_number (f c) = action_number c \<or> releases (action_number (f c)) p)
      \<and> fair p (f c))"
| "fair (Read k) c = fair (k c) c"
| "fair (Await q k) c = (\<forall>r c'. fair (k r) c')"
| "fair (Spawn q p) c = (fair q c \<and> (\<forall>c'. fair p c'))"

primrec calm :: "act \<Rightarrow> bool" where
  "calm Return = True"
| "calm (Throw e) = True"
| "calm (Update f p) = (calm_update f \<and> calm p)"
| "calm (Read k) = (\<forall>c. calm (k c))"
| "calm (Await q k) = (\<forall>r. calm (k r))"
| "calm (Spawn q p) = ((\<forall>c. fair q c) \<and> calm p)"

definition releasable :: "chat \<Rightarrow> act set \<Rightarrow> bool" where
  "releasable c ps \<longleftrightarrow> (busyRef c \<longrightarrow> (\<exists>p \<in> ps. releases (action_number c) p))"

lemma run_fair:
  assumes "fair p c" "releasable c (insert p Q)" "du_busy (ch_ui c) = busyRef c" "run p c = (c', ws)"
  shows "releasable c' (set ws \<union> Q) \<and> du_busy (ch_ui c') = busyRef c' \<and> (\<forall>w \<in> set ws. \<forall>c. fair w c)"
  using assms
proof (induction p arbitrary: c c' ws Q)
  case (Update f p)
  have m: "du_busy (ch_ui (f c)) = busyRef (f c)" using Update.prems by (simp add: mirrors_def)
  have "releasable (f c) (insert p Q)"
    using Update.prems(1,2) by (auto simp: releasable_def)
  with Update.IH [OF _ this m] Update.prems show ?case by simp
next
  case (Read k)
  have "releasable c (insert (k c) Q)" using Read.prems(2) by (auto simp: releasable_def)
  with Read.IH [OF rangeI, of c c Q] Read.prems show ?case by simp
next
  case (Spawn q p)
  obtain c1 ws1 where q: "run q c = (c1, ws1)" by (cases "run q c")
  obtain ws2 where p: "run p c1 = (c', ws2)" "ws = ws1 @ ws2"
    using Spawn.prems(4) q by (auto split: prod.splits)
  have "releasable c (insert q (insert p Q))" using Spawn.prems(2) by (auto simp: releasable_def)
  with Spawn.IH(1) [OF _ this Spawn.prems(3) q] Spawn.prems(1)
  have 1: "releasable c1 (set ws1 \<union> insert p Q)" "du_busy (ch_ui c1) = busyRef c1" "\<forall>w \<in> set ws1. \<forall>c. fair w c"
    by auto
  have "releasable c1 (insert p (set ws1 \<union> Q))" using 1(1) by simp
  with Spawn.IH(2) [OF _ this 1(2) p(1)] Spawn.prems(1)
  have "releasable c' (set ws2 \<union> (set ws1 \<union> Q))" "du_busy (ch_ui c') = busyRef c'" "\<forall>w \<in> set ws2. \<forall>c. fair w c"
    by auto
  with 1(3) p(2) show ?case by (simp add: Un_ac) blast
qed (auto simp: releasable_def)

subsection \<open>The frame of actions\<close>

lemma releases_settle: "releases a (settle_action env a p)"
  by (induction p) (simp_all add: finishDialogAction_def upd_ui_def)

lemma calm_ui:
  "calm_update closeDialog" "calm_update (showDialog d)" "calm_update (setDialog d)" "calm_update (setDialogDraft s)"
  "calm_update (setDialogError s)" "calm_update (finishDialogAction a)" "calm_update (failDialogAction env a e)"
  by (simp_all add: calm_update_def mirrors_def closeDialog_def showDialog_def setDialog_def setDialogDraft_def
      setDialogError_def finishDialogAction_def failDialogAction_def upd_ui_def)

lemma calm_ui_same: "(\<And>c. ch_ui (f c) = ch_ui c) \<Longrightarrow> calm_update f"
  by (simp add: calm_update_def mirrors_def)

lemma calm_fair: "calm p \<Longrightarrow> fair p c"
  by (induction p arbitrary: c) (auto simp: calm_update_def)

lemma calm_settle: "calm p \<Longrightarrow> calm (settle_action env a p)"
  by (induction p) (simp_all add: calm_ui)

lemma fair_dialog_action:
  assumes "\<And>a. calm (body a)"
  shows "fair (dialog_action env body) c"
proof -
  have "mirrors beginDialogAction" by (simp add: mirrors_def beginDialogAction_def upd_ui_def)
  moreover have "action_number (beginDialogAction c) = action_number c + 1" by (simp add: beginDialogAction_def upd_ui_def)
  ultimately show ?thesis
    using assms by (simp add: dialog_action_def begin_action_def releases_settle calm_fair calm_settle)
qed

end
