(* ===== verification/ChatDiscipline.thy ===== *)
theory ChatDiscipline
  imports ChatDialogs
begin

text \<open>
  Every action of the terminal client follows a discipline: a predicate on programs that is closed under the
  constructs they are built from holds of all of them. The locale states what such a predicate has to satisfy
  and derives it for each action once. It is interpreted by \<open>calm\<close> (the dialog is never left busy) and by
  frame properties (which part of the state the actions leave alone).
\<close>

subsection \<open>The actions without the common frame release the dialog too\<close>

lemma releases_fail: "releases a (Update (failDialogAction env a e) p)"
  by (simp add: failDialogAction_def finishDialogAction_def setDialogError_def upd_ui_def)

lemma releases_finish: "releases a (Update (finishDialogAction a) p)"
  by (simp add: finishDialogAction_def upd_ui_def)

lemma releases_close: "releases a (Update closeDialog p)"
  by (simp add: closeDialog_def upd_ui_def)

text \<open>With errors caught, a request releases the dialog if what follows its response does.\<close>

lemma released_fail:
  "busyRef (failDialogAction env a e c) \<longrightarrow> action_number (failDialogAction env a e c) \<noteq> a"
  by (simp add: failDialogAction_def finishDialogAction_def setDialogError_def upd_ui_def)

definition shown_error :: "chat_env \<Rightarrow> nat \<Rightarrow> js_error \<Rightarrow> act" where
  "shown_error env a e = Update (failDialogAction env a e) Return"

lemma releases_shown: "releases a (shown_error env a e)"
  by (simp add: shown_error_def released_fail)

lemma releases_checked:
  "(\<And>r. releases a (catching (shown_error env a) (h r))) \<Longrightarrow> releases a (catching (shown_error env a) (ipc_checked env' x y h))"
  by (simp add: ipc_checked_def ipc_request_def await_def releases_shown split: answer.split)

lemma releases_current:
  "releases a (catching (shown_error env a) p) \<Longrightarrow> releases a (catching (shown_error env a) (if_current a p))"
  by (simp add: if_current_def)

lemma releases_update:
  "releases a (catching h p) \<Longrightarrow> releases a (catching h (Update f p))"
  "releases a (Update f Return) \<Longrightarrow> releases a (catching h (Update f p))"
  by simp_all

lemma releases_dismiss:
  "releases a (catching (shown_error env a) (ipc_checked env x y (\<lambda>r. if_current a (Update closeDialog Return))))"
  by (intro releases_checked releases_current releases_update(2) releases_close)

lemma releases_silent:
  "releases a (catching h p) \<Longrightarrow> releases a (catching h (refreshFriendRequestsSilent env p))"
  by (simp add: refreshFriendRequestsSilent_def split: answer.split)

lemma releases_unblock:
  "releases a (catching (shown_error env a)
     (ipc_checked env x y (\<lambda>r. if_current a (Update f
       (refreshPeers env v (refreshFriendRequestsSilent env (Update (finishDialogAction a) p)))))))"
  unfolding refreshPeers_def Let_def
  by (rule releases_checked, rule releases_current, rule releases_update(1), rule releases_checked,
      rule releases_update(1), rule releases_update(1), rule releases_silent, rule releases_update(2), rule releases_finish)

lemma releases_followed_catching:
  "(\<And>e. releases a (followed_by (h e) q)) \<Longrightarrow> releases a q \<Longrightarrow> releases a (followed_by (catching h p) q)"
  by (induction p) simp_all

lemma releases_test:
  "releases a (Update f (followed_by (catching (\<lambda>e. Update (failDialogAction env a e) Return) p)
     (Update g (Update (finishDialogAction a) Return))))"
  unfolding releases.simps(3) [of a f]
  by (intro disjI1 releases_followed_catching) (simp_all only: followed_by.simps releases_fail releases.simps(3) [of a g] releases_finish simp_thms)

subsection \<open>The discipline\<close>

locale act_closed =
  fixes good :: "act \<Rightarrow> bool" and whole :: "act \<Rightarrow> bool" and ok :: "(chat \<Rightarrow> chat) \<Rightarrow> bool"
  assumes good_Return: "good Return"
    and good_Throw: "good (Throw e)"
    and good_Update: "ok f \<Longrightarrow> good p \<Longrightarrow> good (Update f p)"
    and good_Read: "(\<And>c. good (g c)) \<Longrightarrow> good (Read g)"
    and good_Await: "(\<And>r. good (h r)) \<Longrightarrow> good (Await q h)"
    and good_Spawn: "whole p' \<Longrightarrow> good p \<Longrightarrow> good (Spawn p' p)"
    and good_catching: "good p \<Longrightarrow> (\<And>e. good (hd' e)) \<Longrightarrow> good (catching hd' p)"
    and good_settle: "good p \<Longrightarrow> good (settle_action env a p)"
    and good_followed: "good p \<Longrightarrow> good p' \<Longrightarrow> good (followed_by p p')"
    and whole_good: "good p \<Longrightarrow> whole p"
    and whole_Spawn: "whole p' \<Longrightarrow> whole p \<Longrightarrow> whole (Spawn p' p)"
    and whole_Update: "ok f \<Longrightarrow> whole p \<Longrightarrow> whole (Update f p)"
    and whole_Read: "(\<And>c. whole (g c)) \<Longrightarrow> whole (Read g)"
    and whole_Await: "(\<And>r. whole (h r)) \<Longrightarrow> whole (Await q h)"
    and whole_followed: "whole p \<Longrightarrow> good p' \<Longrightarrow> whole (followed_by p p')"
    and whole_begin: "(\<And>a. good (b a)) \<Longrightarrow> (\<And>a. releases a (b a)) \<Longrightarrow> whole (begin_action b)"
    and ok_ui: "ok closeDialog" "ok (showDialog d)" "ok (setDialog d)" "ok (setDialogDraft s)" "ok (setDialogError s)"
      "ok (finishDialogAction a)" "ok (failDialogAction env a e)"
    and ok_dialog_ui: "ok (upd_ui (\<lambda>u. u\<lparr>du_dialog := dd (du_dialog u)\<rparr>))"
    and ok_field: "(\<And>c. ch_ui (f c) = ch_ui c \<and> ch_messages (f c) = ch_messages c) \<Longrightarrow> ok f"
begin

lemma good_if: "(b \<Longrightarrow> good x) \<Longrightarrow> (\<not> b \<Longrightarrow> good y) \<Longrightarrow> good (if b then x else y)" by simp
lemma whole_if: "(b \<Longrightarrow> whole x) \<Longrightarrow> (\<not> b \<Longrightarrow> whole y) \<Longrightarrow> whole (if b then x else y)" by simp

lemma good_option: "good x \<Longrightarrow> (\<And>a. good (f a)) \<Longrightarrow> good (case_option x f v)" by (cases v) simp_all
lemma whole_option: "whole x \<Longrightarrow> (\<And>a. whole (f a)) \<Longrightarrow> whole (case_option x f v)" by (cases v) simp_all
lemma good_option_rest: "good (x p) \<Longrightarrow> (\<And>a. good (f a p)) \<Longrightarrow> good ((case_option x f v) p)" by (cases v) simp_all
lemma good_if_rest: "good (x p) \<Longrightarrow> good (y p) \<Longrightarrow> good ((if b then x else y) p)" by simp
lemma good_prod: "(\<And>a b. good (f a b)) \<Longrightarrow> good (case_prod f v)" by (cases v) simp_all
lemma good_list: "good x \<Longrightarrow> (\<And>a as. good (f a as)) \<Longrightarrow> good (case_list x f v)" by (cases v) simp_all
lemma whole_prod: "(\<And>a b. whole (f a b)) \<Longrightarrow> whole (case_prod f v)" by (cases v) simp_all

lemma good_answer:
  "(\<And>x. good (a x)) \<Longrightarrow> (\<And>x. good (b x)) \<Longrightarrow> (\<And>x. good (c x)) \<Longrightarrow> (\<And>x. good (d x)) \<Longrightarrow> good e
   \<Longrightarrow> (\<And>x. good (f x)) \<Longrightarrow> (\<And>x. good (g x)) \<Longrightarrow> (\<And>x. good (h x)) \<Longrightarrow> good (case_answer a b c d e f g h r)"
  by (cases r) simp_all

lemma whole_answer:
  "(\<And>x. whole (a x)) \<Longrightarrow> (\<And>x. whole (b x)) \<Longrightarrow> (\<And>x. whole (c x)) \<Longrightarrow> (\<And>x. whole (d x)) \<Longrightarrow> whole e
   \<Longrightarrow> (\<And>x. whole (f x)) \<Longrightarrow> (\<And>x. whole (g x)) \<Longrightarrow> (\<And>x. whole (h x)) \<Longrightarrow> whole (case_answer a b c d e f g h r)"
  by (cases r) simp_all

lemma good_json:
  "good a \<Longrightarrow> (\<And>x. good (b x)) \<Longrightarrow> (\<And>x. good (c x)) \<Longrightarrow> (\<And>x. good (d x)) \<Longrightarrow> (\<And>x. good (e x))
   \<Longrightarrow> (\<And>x. good (f x)) \<Longrightarrow> good (case_json a b c d e f j)"
  by (cases j) simp_all

lemma good_await: "(\<And>r. good (h r)) \<Longrightarrow> good (await q h)"
  unfolding await_def by (intro good_Await good_answer good_Throw)

lemma good_ipc_request: "(\<And>r. good (h r)) \<Longrightarrow> good (ipc_request a p h)"
  unfolding ipc_request_def by (intro good_await good_answer good_Throw)

lemma good_ipc_checked: "(\<And>r. good (h r)) \<Longrightarrow> good (ipc_checked env a p h)"
  unfolding ipc_checked_def by (intro good_ipc_request good_if good_Throw)

lemma good_if_current: "good p \<Longrightarrow> good (if_current a p)"
  unfolding if_current_def by (intro good_Read good_if good_Return)

lemma good_write_clipboard: "(\<And>b. good (h b)) \<Longrightarrow> good (write_clipboard s h)"
  unfolding write_clipboard_def by (intro good_Await)

text \<open>Status lines and the other fields of the state.\<close>

lemma ok_status: "ok (showStatus s)" "ok (showStatus_for s n)" "ok showCopyToast" "ok id" "ok (add_group env g)"
    "ok (store_members i ms)" "ok (syncIdentityFrom r)" "ok (name_saved s)" "ok (clear_composer key)"
  by (rule ok_field; simp add: showStatus_def showStatus_for_def showCopyToast_def add_group_def store_members_def
      syncIdentityFrom_def name_saved_def clear_composer_def Let_def split: option.split json.split)+

lemma ok_moved: "ok (moved_status r m n)" "ok (string_status j)"
  by (simp_all add: moved_status_def string_status_def ok_status split: option.split json.split)

lemma ok_if: "ok f \<Longrightarrow> ok g \<Longrightarrow> ok (if b then f else g)" by simp

lemma ok_fields: "ok (\<lambda>c. c\<lparr>ch_friendRequests := f1 c\<rparr>)" "ok (\<lambda>c. c\<lparr>ch_peers := f2 c\<rparr>)" "ok (\<lambda>c. c\<lparr>ch_selection := f3 c\<rparr>)"
    "ok (\<lambda>c. c\<lparr>ch_mentionUnread := f4 c\<rparr>)" "ok (\<lambda>c. c\<lparr>ch_groups := f5 c\<rparr>)" "ok (\<lambda>c. c\<lparr>ch_fileTransfers := f6 c\<rparr>)"
    "ok (\<lambda>c. c\<lparr>ch_imageProtocol := f7 c\<rparr>)" "ok (\<lambda>c. if b then c\<lparr>ch_splash := f8 c\<rparr> else c)"
    "ok (\<lambda>c. if b then c\<lparr>ch_selection := f9 c\<rparr> else c)" "ok (\<lambda>c. c\<lparr>ch_mutedPeers := g1 c, ch_mutedGroups := g2 c\<rparr>)"
    "ok (\<lambda>c. c\<lparr>ch_debugInfo := g3 c\<rparr>)" "ok (\<lambda>c. c\<lparr>ch_pickerOpen := g4 c\<rparr>)" "ok (\<lambda>c. c\<lparr>ch_status := g5 c\<rparr>)"
    "ok (\<lambda>c. c\<lparr>ch_flashing := g6 c\<rparr>)" "ok (\<lambda>c. c\<lparr>ch_dnd := g7 c\<rparr>)" "ok (\<lambda>c. c\<lparr>ch_preferences := g8 c\<rparr>)"
    "ok (\<lambda>c. c\<lparr>ch_notificationTest := g9 c\<rparr>)" "ok (\<lambda>c. c\<lparr>ch_nameDraft := h1 c\<rparr>)"
  by (rule ok_field; simp)+

lemmas ok_rules = ok_ui ok_dialog_ui ok_status ok_moved ok_if ok_fields

lemmas good_basic = good_Return good_Throw good_Update ok_rules good_Read good_Await good_option_rest good_if_rest good_prod good_if good_option good_list good_answer good_json
  good_await good_ipc_request good_ipc_checked good_if_current good_write_clipboard good_catching

lemma whole_dialog_action: "(\<And>a. good (b a)) \<Longrightarrow> whole (dialog_action env b)"
  unfolding dialog_action_def by (intro whole_begin good_settle releases_settle)

lemmas whole_basic = whole_dialog_action whole_Spawn whole_Update ok_rules whole_Read whole_Await whole_if whole_option whole_prod
  whole_answer

lemma good_shown: "good (shown_error env a e)"
  unfolding shown_error_def by (intro good_basic)

lemma good_load_dialog: "whole (load_dialog env a ps d)"
  unfolding load_dialog_def by (intro whole_basic good_basic)

lemma good_ask_token: "good p \<Longrightarrow> good (ask_token env a rel d p)"
  unfolding ask_token_def by (intro good_basic)

lemma good_refreshFriendRequestsSilent: "good k \<Longrightarrow> good (refreshFriendRequestsSilent env k)"
  unfolding refreshFriendRequestsSilent_def Let_def by (intro good_basic)

lemma whole_openFriendsInbox: "whole (openFriendsInbox env)"
  unfolding openFriendsInbox_def
  by (intro whole_Spawn whole_good good_refreshFriendRequestsSilent good_basic)

lemma good_refreshPeers: "good k \<Longrightarrow> good (refreshPeers env v k)"
  unfolding refreshPeers_def Let_def by (intro good_basic)

lemma good_refreshGroups: "good k \<Longrightarrow> good (refreshGroups env v k)"
  unfolding refreshGroups_def Let_def by (intro good_basic)

lemma whole_refreshGroupMembers: "whole (refreshGroupMembers env i)"
  unfolding refreshGroupMembers_def Let_def by (intro whole_good good_basic)

lemma whole_refreshFiles: "whole (refreshFiles env)"
  unfolding refreshFiles_def Let_def by (intro whole_good good_basic)

lemma whole_installUpdate: "whole (installUpdate env rel d)"
  unfolding installUpdate_def Let_def by (intro whole_basic good_ask_token good_basic)

lemma whole_checkForUpdatesFromAbout: "whole (checkForUpdatesFromAbout env)"
  unfolding checkForUpdatesFromAbout_def Let_def by (intro whole_basic whole_good good_ask_token good_basic)

lemma whole_saveUpdateToken: "whole (saveUpdateToken env rel d t)"
  unfolding saveUpdateToken_def
  by (intro whole_basic whole_installUpdate whole_checkForUpdatesFromAbout whole_good good_basic)

lemma whole_loadControlStatus: "whole (loadControlStatus env)"
  unfolding loadControlStatus_def by (rule good_load_dialog)

lemma whole_loadRooms: "whole (loadRooms env)"
  unfolding loadRooms_def by (rule good_load_dialog)

lemma whole_configureControl: "whole (configureControl env u)"
  unfolding configureControl_def Let_def by (intro whole_basic  good_basic)

lemma whole_dismissControlSetup: "whole (dismissControlSetup env)"
  unfolding dismissControlSetup_def shown_error_def [symmetric]
  by (rule whole_begin) (intro good_basic good_shown, rule releases_dismiss)

lemma whole_loadAdvancedConfig: "whole (loadAdvancedConfig env)"
  unfolding loadAdvancedConfig_def by (rule good_load_dialog)

lemma whole_saveAdvancedConfig: "whole (saveAdvancedConfig env v ps m)"
  unfolding saveAdvancedConfig_def Let_def by (intro whole_basic  good_basic)

lemma whole_createRoom: "whole (createRoom env v n)"
  unfolding createRoom_def Let_def by (intro whole_basic good_Spawn whole_good good_refreshGroups good_basic)

lemma whole_joinRoom_tui: "whole (joinRoom_tui env v i)"
  unfolding joinRoom_tui_def Let_def by (intro whole_basic good_Spawn whole_good good_refreshGroups good_basic)

lemma whole_leaveRoom_tui: "whole (leaveRoom_tui env i)"
  unfolding leaveRoom_tui_def Let_def by (intro whole_basic  good_basic)

lemma whole_loadRoomInvite: "whole (loadRoomInvite env i)"
  unfolding loadRoomInvite_def Let_def by (intro whole_basic  good_basic)

lemma whole_loadGroupDetails: "whole (loadGroupDetails env g)"
  unfolding loadGroupDetails_def Let_def by (intro whole_basic  good_basic)

lemma whole_leaveGroup: "whole (leaveGroup env v g)"
  unfolding leaveGroup_def Let_def by (intro whole_basic  good_basic)

lemma whole_copyInvite: "whole (copyInvite env i)"
  unfolding copyInvite_def Let_def by (intro whole_good good_basic)

lemma good_refreshMutes: "good k \<Longrightarrow> good (refreshMutes env k)"
  unfolding refreshMutes_def Let_def by (intro good_basic)

lemma whole_mutePeer: "whole (mutePeer env v i t)"
  unfolding mutePeer_def Let_def by (intro whole_basic good_refreshMutes good_basic)

lemma whole_unmutePeer: "whole (unmutePeer env v i)"
  unfolding unmutePeer_def Let_def by (intro whole_basic good_refreshMutes good_basic)

lemma whole_muteGroup: "whole (muteGroup env v i t)"
  unfolding muteGroup_def Let_def by (intro whole_basic good_refreshMutes good_basic)

lemma whole_unmuteGroup: "whole (unmuteGroup env v i)"
  unfolding unmuteGroup_def Let_def by (intro whole_basic good_refreshMutes good_basic)

lemma whole_loadFriendRequests: "whole (loadFriendRequests env)"
  unfolding loadFriendRequests_def by (rule good_load_dialog)

lemma whole_friend_change: "whole (friend_change env v s ps m)"
  unfolding friend_change_def Let_def by (intro whole_basic good_refreshPeers good_refreshFriendRequestsSilent good_basic)

lemma whole_sendFriendRequest: "whole (sendFriendRequest env v i n)"
  unfolding sendFriendRequest_def by (rule whole_friend_change)

lemma whole_respondToFriendRequest: "whole (respondToFriendRequest env v q b)"
  unfolding respondToFriendRequest_def by (rule whole_friend_change)

lemma whole_cancelFriendRequest: "whole (cancelFriendRequest env v i)"
  unfolding cancelFriendRequest_def by (rule whole_friend_change)

lemma whole_unfriendPeer: "whole (unfriendPeer env v i)"
  unfolding unfriendPeer_def by (rule whole_friend_change)

lemma whole_loadBlockedPeers: "whole (loadBlockedPeers env)"
  unfolding loadBlockedPeers_def by (rule good_load_dialog)

lemma whole_blockPeer: "whole (blockPeer env v i n)"
  unfolding blockPeer_def by (rule whole_friend_change)

lemma whole_blockSenderFromRequest: "whole (blockSenderFromRequest env v q)"
  unfolding blockSenderFromRequest_def by (rule whole_friend_change)

lemma whole_unblockPeer: "whole (unblockPeer env v i n)"
  unfolding unblockPeer_def shown_error_def [symmetric]
  by (rule whole_begin)
    (intro good_basic good_shown good_refreshPeers good_refreshFriendRequestsSilent good_Spawn whole_loadBlockedPeers, rule releases_unblock)

lemma whole_reStun: "whole (reStun env)"
  unfolding reStun_def Let_def by (intro whole_basic  good_basic)

lemma whole_loadDebugInfo: "whole (loadDebugInfo env)"
  unfolding loadDebugInfo_def Let_def by (intro whole_basic  good_basic)

lemma whole_loadFiles: "whole (loadFiles env)"
  unfolding loadFiles_def Let_def by (intro whole_basic  good_basic)

lemma good_requestFileSend: "good (requestFileSend env v ps s)"
  unfolding requestFileSend_def Let_def by (intro good_basic)

lemma whole_requestFileSend: "whole (requestFileSend env v ps s)"
  by (rule whole_good [OF good_requestFileSend])

lemma whole_requestImageSend: "whole (requestImageSend v bs m)"
  unfolding requestImageSend_def Let_def by (intro whole_good good_basic)

lemma good_sendFilesDirect: "(\<And>r. good (h r)) \<Longrightarrow> good (sendFilesDirect env ps s c h)"
  unfolding sendFilesDirect_def Let_def by (intro good_basic)

lemma whole_confirmPendingFileSend: "whole (confirmPendingFileSend env v key)"
proof -
  have r: "whole Return" by (intro whole_good good_Return)
  have "whole (confirmPendingFileSend env v key)" if "du_dialog (ch_ui v) = Some (DFileConfirm pending)" for pending
    unfolding confirmPendingFileSend_def that Let_def option.case dialog.case
    by (intro whole_dialog_action good_basic good_sendFilesDirect)
  then show ?thesis using r unfolding confirmPendingFileSend_def by (auto split: option.split dialog.split)
qed

lemma whole_sendFile_action: "whole (sendFile_action env v f)"
  unfolding sendFile_action_def Let_def by (intro whole_basic good_sendFilesDirect good_basic)

lemma whole_openFilePicker: "whole (openFilePicker env v b)"
  unfolding openFilePicker_def Let_def
  by (intro whole_Read whole_if whole_Update ok_rules whole_Await whole_answer whole_option whole_followed
      whole_sendFile_action whole_good good_basic)

lemma whole_downloadFile: "whole (downloadFile env i d)"
  unfolding downloadFile_def Let_def by (intro whole_basic  good_basic)

lemma whole_loadFilesDir: "whole (loadFilesDir env)"
  unfolding loadFilesDir_def Let_def by (intro whole_basic  good_basic)

lemma whole_loadFilesSettings: "whole (loadFilesSettings env)"
  unfolding loadFilesSettings_def by (rule good_load_dialog)

lemma whole_loadStorageDir: "whole (loadStorageDir env)"
  unfolding loadStorageDir_def Let_def by (intro whole_basic  good_basic)

lemma whole_setFilesDir: "whole (setFilesDir env v p m)"
  unfolding setFilesDir_def Let_def by (intro whole_basic  good_basic)

lemma whole_setStorageDir: "whole (setStorageDir env v p m)"
  unfolding setStorageDir_def Let_def by (intro whole_basic  good_basic)

lemma whole_clearFilesDir: "whole (clearFilesDir env v m)"
  unfolding clearFilesDir_def Let_def by (intro whole_basic  good_basic)

lemma whole_clearStorageDir: "whole (clearStorageDir env v m)"
  unfolding clearStorageDir_def Let_def by (intro whole_basic  good_basic)

lemma whole_openPath: "whole (openPath env p)"
  unfolding openPath_def Let_def by (intro whole_good good_basic)

lemma good_name_parts: "good name_updated" "good (name_save_error env x e)" "good (after_first_name env a)"
    "(\<And>s. good (h s)) \<Longrightarrow> good (set_name env n h)"
  unfolding name_updated_def name_save_error_def after_first_name_def set_name_def by (intro good_basic; simp)+

lemma whole_saveDisplayName: "whole (saveDisplayName env v n)"
proof -
  have "whole (begin_action (\<lambda>a. settle_action env a (catching (name_save_error env (Some a))
          (set_name env m (\<lambda>displayName. if_current a
            (Update (name_saved displayName)
              (if firstRun then after_first_name env a else Update closeDialog name_updated)))))))" for m firstRun
    by (intro whole_begin good_settle releases_settle good_basic good_name_parts)
  moreover have "whole (catching (name_save_error env None)
          (set_name env m (\<lambda>displayName. Update (name_saved displayName) name_updated)))" for m
    by (intro whole_good good_basic good_name_parts)
  ultimately show ?thesis unfolding saveDisplayName_def Let_def by (simp split: option.split dialog.split)
qed

lemma whole_setAccessibilityFlashing: "whole (setAccessibilityFlashing env b)"
  unfolding setAccessibilityFlashing_def Let_def by (intro whole_basic  good_basic)

lemma whole_saveDndEnabled: "whole (saveDndEnabled env v b)"
  unfolding saveDndEnabled_def Let_def by (intro whole_basic good_basic)

lemma whole_toggleDnd: "whole (toggleDnd env v)"
  unfolding toggleDnd_def by (rule whole_saveDndEnabled)

lemma whole_testNotificationDelivery: "whole (testNotificationDelivery env d f)"
  unfolding testNotificationDelivery_def
  by (rule whole_begin) (intro good_basic good_followed, rule releases_test)

lemma good_saveNotificationPreferences: "good k \<Longrightarrow> good (saveNotificationPreferences env ps k)"
  unfolding saveNotificationPreferences_def by (intro good_basic)

lemma whole_confirmNotificationDelivery: "whole (confirmNotificationDelivery env d f)"
  unfolding confirmNotificationDelivery_def Let_def by (intro whole_basic good_saveNotificationPreferences good_basic)

lemma whole_disableNotifications: "whole (disableNotifications env f)"
  unfolding disableNotifications_def Let_def by (intro whole_basic good_saveNotificationPreferences good_basic)

lemma whole_toggleNotificationEvent: "whole (toggleNotificationEvent env v e)"
  unfolding toggleNotificationEvent_def Let_def by (intro whole_basic whole_good good_saveNotificationPreferences good_basic)

lemma whole_nav_action: "whole (nav_action env n)"
  by (cases n) (simp_all only: nav_action.simps, (intro whole_loadAdvancedConfig whole_loadRooms whole_loadFriendRequests
    whole_loadBlockedPeers whole_loadDebugInfo whole_loadFiles whole_loadFilesSettings whole_loadGroupDetails
    whole_openFriendsInbox whole_good good_Update ok_rules good_Return)+)

lemma whole_nav_actions: "whole (nav_actions env ns)"
proof (induction ns)
  case (Cons n ns)
  then show ?case unfolding nav_actions.simps by (intro whole_Spawn whole_nav_action)
qed (simp only: nav_actions.simps, intro whole_good good_Return)

lemma whole_goBack_tui: "whole (goBack_tui env v)"
  unfolding goBack_tui_def by (rule whole_nav_actions)

lemma whole_runCommand_tui: "whole (runCommand_tui env v now command)"
  unfolding runCommand_tui_def by (intro whole_if whole_toggleDnd whole_nav_actions)

end

subsection \<open>The dialog is never left busy\<close>

lemma releases_followed: "releases a p \<Longrightarrow> releases a (followed_by p k)"
  by (induction p) auto

lemma fair_followed: "fair p c \<Longrightarrow> calm k \<Longrightarrow> fair (followed_by p k) c"
  by (induction p arbitrary: c) (auto simp: calm_fair releases_followed)

lemma calm_followed: "calm p \<Longrightarrow> calm k \<Longrightarrow> calm (followed_by p k)"
  by (induction p) simp_all

lemma calm_catching: "calm p \<Longrightarrow> (\<And>e. calm (h e)) \<Longrightarrow> calm (catching h p)"
  by (induction p) simp_all

lemma fair_begin:
  assumes "\<And>a. calm (b a)" "\<And>a. releases a (b a)"
  shows "fair (begin_action b) c"
  using assms by (simp add: begin_action_def calm_fair mirrors_def beginDialogAction_def upd_ui_def)

lemma calm_dialog_ui: "calm_update (upd_ui (\<lambda>u. u\<lparr>du_dialog := dd (du_dialog u)\<rparr>))"
  by (simp add: calm_update_def mirrors_def upd_ui_def)

interpretation ca: act_closed calm "\<lambda>p. \<forall>c. fair p c" calm_update
  by unfold_locales (simp_all add: calm_ui calm_ui_same calm_fair calm_settle calm_catching calm_followed fair_followed
      fair_begin calm_dialog_ui, (auto simp: calm_update_def)?)

end
