(* ===== verification/ChatInterleaving.thy ===== *)
theory ChatInterleaving
  imports ChatDiscipline
begin

text \<open>
  The terminal client as a transition system: actions start, waiting programs are resumed with arbitrary
  answers in arbitrary order, an installation reports progress, and everything outside the dialog changes.
\<close>

subsection \<open>The transition system\<close>

inductive tui_action :: "chat_env \<Rightarrow> act \<Rightarrow> bool" where
  "tui_action env (openFriendsInbox env)"
| "tui_action env (refreshGroupMembers env i)"
| "tui_action env (refreshFiles env)"
| "tui_action env (installUpdate env rel d)"
| "tui_action env (checkForUpdatesFromAbout env)"
| "tui_action env (saveUpdateToken env rel d t)"
| "tui_action env (loadControlStatus env)"
| "tui_action env (loadRooms env)"
| "tui_action env (configureControl env u)"
| "tui_action env (dismissControlSetup env)"
| "tui_action env (loadAdvancedConfig env)"
| "tui_action env (saveAdvancedConfig env v ps m)"
| "tui_action env (createRoom env v n)"
| "tui_action env (joinRoom_tui env v i)"
| "tui_action env (leaveRoom_tui env i)"
| "tui_action env (loadRoomInvite env i)"
| "tui_action env (loadGroupDetails env g)"
| "tui_action env (leaveGroup env v g)"
| "tui_action env (copyInvite env i)"
| "tui_action env (mutePeer env v i t)"
| "tui_action env (unmutePeer env v i)"
| "tui_action env (muteGroup env v i t)"
| "tui_action env (unmuteGroup env v i)"
| "tui_action env (loadFriendRequests env)"
| "tui_action env (sendFriendRequest env v i n)"
| "tui_action env (respondToFriendRequest env v q b)"
| "tui_action env (cancelFriendRequest env v i)"
| "tui_action env (unfriendPeer env v i)"
| "tui_action env (loadBlockedPeers env)"
| "tui_action env (blockPeer env v i n)"
| "tui_action env (blockSenderFromRequest env v q)"
| "tui_action env (unblockPeer env v i n)"
| "tui_action env (reStun env)"
| "tui_action env (loadDebugInfo env)"
| "tui_action env (loadFiles env)"
| "tui_action env (requestFileSend env v ps s)"
| "tui_action env (requestImageSend v bs m)"
| "tui_action env (confirmPendingFileSend env v key)"
| "tui_action env (sendFile_action env v f)"
| "tui_action env (openFilePicker env v b)"
| "tui_action env (downloadFile env i d)"
| "tui_action env (loadFilesDir env)"
| "tui_action env (loadFilesSettings env)"
| "tui_action env (loadStorageDir env)"
| "tui_action env (setFilesDir env v p m)"
| "tui_action env (setStorageDir env v p m)"
| "tui_action env (clearFilesDir env v m)"
| "tui_action env (clearStorageDir env v m)"
| "tui_action env (openPath env p)"
| "tui_action env (saveDisplayName env v n)"
| "tui_action env (setAccessibilityFlashing env b)"
| "tui_action env (saveDndEnabled env v b)"
| "tui_action env (toggleDnd env v)"
| "tui_action env (testNotificationDelivery env d f)"
| "tui_action env (confirmNotificationDelivery env d f)"
| "tui_action env (disableNotifications env f)"
| "tui_action env (toggleNotificationEvent env v e)"
| "tui_action env (refreshPeers env v Return)"
| "tui_action env (refreshGroups env v Return)"
| "tui_action env (refreshMutes env Return)"
| "tui_action env (refreshFriendRequestsSilent env Return)"
| "tui_action env (saveNotificationPreferences env ps Return)"
| "tui_action env (nav_actions env ns)"
| "tui_action env (goBack_tui env v)"
| "tui_action env (runCommand_tui env v now command)"

lemma fair_action: "tui_action env p \<Longrightarrow> fair p c"
  by (induction rule: tui_action.induct)
    (simp_all add: ca.whole_openFriendsInbox ca.whole_refreshGroupMembers ca.whole_refreshFiles ca.whole_installUpdate
    ca.whole_checkForUpdatesFromAbout ca.whole_saveUpdateToken ca.whole_loadControlStatus ca.whole_loadRooms
    ca.whole_configureControl ca.whole_dismissControlSetup ca.whole_loadAdvancedConfig ca.whole_saveAdvancedConfig
    ca.whole_createRoom ca.whole_joinRoom_tui ca.whole_leaveRoom_tui ca.whole_loadRoomInvite
    ca.whole_loadGroupDetails ca.whole_leaveGroup ca.whole_copyInvite ca.whole_mutePeer ca.whole_unmutePeer
    ca.whole_muteGroup ca.whole_unmuteGroup ca.whole_loadFriendRequests ca.whole_sendFriendRequest
    ca.whole_respondToFriendRequest ca.whole_cancelFriendRequest ca.whole_unfriendPeer ca.whole_loadBlockedPeers
    ca.whole_blockPeer ca.whole_blockSenderFromRequest ca.whole_unblockPeer ca.whole_reStun ca.whole_loadDebugInfo
    ca.whole_loadFiles ca.whole_requestFileSend ca.whole_requestImageSend ca.whole_confirmPendingFileSend
    ca.whole_sendFile_action ca.whole_openFilePicker ca.whole_downloadFile ca.whole_loadFilesDir
    ca.whole_loadFilesSettings ca.whole_loadStorageDir ca.whole_setFilesDir ca.whole_setStorageDir
    ca.whole_clearFilesDir ca.whole_clearStorageDir ca.whole_openPath ca.whole_saveDisplayName
    ca.whole_setAccessibilityFlashing ca.whole_saveDndEnabled ca.whole_toggleDnd ca.whole_testNotificationDelivery
    ca.whole_confirmNotificationDelivery ca.whole_disableNotifications ca.whole_toggleNotificationEvent
      ca.good_refreshPeers ca.good_refreshGroups ca.good_refreshMutes ca.good_refreshFriendRequestsSilent
      ca.good_saveNotificationPreferences calm_fair ca.whole_nav_actions ca.whole_goBack_tui ca.whole_runCommand_tui)

inductive tui_step :: "chat_env \<Rightarrow> chat \<times> act list \<Rightarrow> chat \<times> act list \<Rightarrow> bool" for env where
  start: "tui_action env p \<Longrightarrow> run p c = (c', ws) \<Longrightarrow> tui_step env (c, Q) (c', Q @ ws)"
| resume: "run (k r) c = (c', ws) \<Longrightarrow> tui_step env (c, Q @ Await q k # Q') (c', Q @ ws @ Q')"
| progress: "tui_step env (c, Q) (install_progress a report c, Q)"
| elsewhere: "ch_ui (f c) = ch_ui c \<Longrightarrow> tui_step env (c, Q) (f c, Q)"

definition tui_ok :: "chat \<times> act list \<Rightarrow> bool" where
  "tui_ok s \<longleftrightarrow> releasable (fst s) (set (snd s)) \<and> du_busy (ch_ui (fst s)) = busyRef (fst s)
     \<and> (\<forall>w \<in> set (snd s). \<forall>c. fair w c)"

lemma install_progress_ui:
  "busyRef (install_progress a report c) = busyRef c" "du_busy (ch_ui (install_progress a report c)) = du_busy (ch_ui c)"
  "action_number (install_progress a report c) = action_number c"
  by (simp_all add: install_progress_def upd_ui_def)

lemma tui_step_ok: "tui_step env s s' \<Longrightarrow> tui_ok s \<Longrightarrow> tui_ok s'"
proof (induction rule: tui_step.induct)
  case (start p c c' ws Q)
  have "releasable c (insert p (set Q))" using start.prems by (auto simp: tui_ok_def releasable_def)
  then show ?case
    using run_fair [OF fair_action [OF start.hyps(1)] _ _ start.hyps(2)] start.prems by (auto simp: tui_ok_def Un_commute)
next
  case (resume k r c c' ws Q q Q')
  have f: "fair (k r) c" using resume.prems by (auto simp: tui_ok_def)
  have b: "du_busy (ch_ui c) = busyRef c" using resume.prems by (simp add: tui_ok_def)
  have "releasable c (insert (k r) (set (Q @ Q')))" using resume.prems by (auto simp: tui_ok_def releasable_def)
  from run_fair [OF f this b resume.hyps]
  have "releasable c' (set ws \<union> set (Q @ Q'))" "du_busy (ch_ui c') = busyRef c'" "\<forall>w \<in> set ws. \<forall>c. fair w c"
    by auto
  moreover have "set ws \<union> set (Q @ Q') = set (Q @ ws @ Q')" by auto
  ultimately show ?case using resume.prems by (auto simp: tui_ok_def)
qed (auto simp: tui_ok_def releasable_def install_progress_ui)

lemma tui_reach_ok: "(tui_step env)\<^sup>*\<^sup>* s s' \<Longrightarrow> tui_ok s \<Longrightarrow> tui_ok s'"
  by (induction rule: rtranclp_induct) (simp_all add: tui_step_ok)

text \<open>C20. Whatever actions the user starts, in whatever order the backend answers and however dialogs are opened
  and closed meanwhile, the dialog is never left busy: the shown flag is the internal one, while it is set
  a waiting program is bound to release it, and when nothing waits any more it is off.\<close>

theorem dialog_never_stuck:
  assumes "(tui_step env)\<^sup>*\<^sup>* (c0, []) (c, Q)" "\<not> du_busyRef (ch_ui c0)" "\<not> du_busy (ch_ui c0)"
  shows "du_busy (ch_ui c) = du_busyRef (ch_ui c)
    \<and> (du_busyRef (ch_ui c) \<longrightarrow> (\<exists>w \<in> set Q. releases (du_action (ch_ui c)) w))
    \<and> (Q = [] \<longrightarrow> \<not> du_busy (ch_ui c))"
proof -
  have "tui_ok (c0, [])" using assms(2,3) by (simp add: tui_ok_def releasable_def)
  then show ?thesis using tui_reach_ok [OF assms(1)] by (auto simp: tui_ok_def releasable_def)
qed

definition sample_ui :: dialog_ui where
  "sample_ui = \<lparr>du_dialog = None, du_draft = [], du_error = [], du_busy = False, du_action = 0, du_busyRef = False\<rparr>"

definition sample_chat :: chat where
  "sample_chat = \<lparr>ch_ui = sample_ui,
     ch_composer = \<lparr>co_text = Some [], co_drafts = [], co_draftLength = 0, co_height = 3, co_spans = [], co_isSending = False\<rparr>,
     ch_status = [], ch_statusTimer = None, ch_copyToast = False, ch_peers = [], ch_groups = [], ch_groupMembers = [],
     ch_identity = None, ch_selection = None, ch_messages = [], ch_nameDraft = [], ch_editingName = False,
     ch_mutedPeers = [], ch_mutedGroups = [], ch_mentionUnread = [], ch_preferences = None, ch_notificationTest = None,
     ch_flashing = False, ch_dnd = False, ch_imageProtocol = AutoProtocol, ch_splash = SplashCard, ch_debugInfo = None,
     ch_fileTransfers = [], ch_friendRequests = [], ch_pickerOpen = False, ch_disconnected = False\<rparr>"

definition sample_chat_env :: chat_env where
  "sample_chat_env = \<lparr>ce_number = (\<lambda>n. decimal (nat \<lfloor>n\<rfloor>)), ce_compare = (\<lambda>a b. 0), ce_timeString = (\<lambda>t. []),
     ce_lower = id, ce_home = [], ce_cwd = [47], ce_isFile = (\<lambda>p. True), ce_tempImage = [], ce_errorText = (\<lambda>e. []),
     ce_isRelease = False, ce_releaseInstallDir = None, ce_isReleaseInstallDir = (\<lambda>p. False),
     ce_peers = (\<lambda>v. []), ce_groups = (\<lambda>v. []), ce_group = (\<lambda>v. \<lparr>group_id = [], group_name = [], group_member_count = 0,
       group_unread_count = 0, group_mention_unread_count = None\<rparr>), ce_members = (\<lambda>v. []), ce_files = (\<lambda>v. []),
     ce_requests = (\<lambda>v. []), ce_blocked = (\<lambda>v. []), ce_rooms = (\<lambda>v. []),
     ce_control = (\<lambda>r. \<lparr>cs_url = None, cs_connected = False, cs_setup_dismissed = False, cs_stun_server = [],
       cs_reconnect_attempts = 0, cs_public_endpoint = None\<rparr>),
     ce_config = (\<lambda>r. \<lparr>ac_control_url = None, ac_control_pinned_ips = [], ac_stun_server = [], ac_stun_pinned_ips = [],
       ac_image_protocol = AutoProtocol, ac_confirm_file_send = None, ac_splash_style = SplashCard,
       ac_splash_duration_ms = None, ac_splash_phase_ms = None, ac_splash_welcome_ms = None\<rparr>),
     ce_preferences = (\<lambda>r. \<lparr>np_setup_dismissed = True, np_delivery = DisabledDelivery, np_events = (\<lambda>e. False)\<rparr>),
     ce_deliveries = (\<lambda>v. []), ce_muted = (\<lambda>v. []), ce_imageProtocol = (\<lambda>v. AutoProtocol), ce_splash = (\<lambda>v. SplashCard),
     ce_until = (\<lambda>v. 0)\<rparr>"

theorem dialog_never_stuck_witness:
  "let s = run (loadRooms sample_chat_env) sample_chat
   in du_busyRef (ch_ui (fst s)) \<and> (\<exists>w \<in> set (snd s). releases (du_action (ch_ui (fst s))) w)"
proof -
  obtain c Q where s: "run (loadRooms sample_chat_env) sample_chat = (c, Q)"
    by (cases "run (loadRooms sample_chat_env) sample_chat")
  have "tui_step sample_chat_env (sample_chat, []) (c, [] @ Q)"
    by (rule tui_step.start [OF _ s]) (rule tui_action.intros)
  then have "(tui_step sample_chat_env)\<^sup>*\<^sup>* (sample_chat, []) (c, Q)" by simp
  from dialog_never_stuck [OF this]
  have "du_busyRef (ch_ui c) \<longrightarrow> (\<exists>w \<in> set Q. releases (du_action (ch_ui c)) w)"
    by (simp add: sample_chat_def sample_ui_def)
  moreover have "du_busyRef (ch_ui c)"
    using s by (auto simp: loadRooms_def load_dialog_def dialog_action_def begin_action_def ipc_checked_def ipc_request_def
        await_def sample_chat_def sample_ui_def beginDialogAction_def upd_ui_def)
  ultimately show ?thesis by (simp add: s)
qed

subsection \<open>An action that is no longer current\<close>

text \<open>
  A program is polite for action \<open>a\<close> if in every stretch between two awaits it leaves the dialog alone unless
  \<open>a\<close> was current at some moment of the stretch.
\<close>

primrec polite :: "nat \<Rightarrow> bool \<Rightarrow> act \<Rightarrow> bool" where
  "polite a b Return = True"
| "polite a b (Throw e) = True"
| "polite a b (Update f p) = ((b \<or> (\<forall>c. action_number c \<noteq> a \<longrightarrow> ch_ui (f c) = ch_ui c)) \<and> polite a b p)"
| "polite a b (Read k) = (\<forall>c. polite a (b \<or> action_number c = a) (k c))"
| "polite a b (Await q k) = (\<forall>r. polite a False (k r))"
| "polite a b (Spawn q p) = (polite a b q \<and> polite a b p)"

lemma run_polite:
  "polite a b p \<Longrightarrow> run p c = (c', ws) \<Longrightarrow>
   (\<not> b \<longrightarrow> action_number c \<noteq> a \<longrightarrow> ch_ui c' = ch_ui c) \<and> (\<forall>w \<in> set ws. polite a False w)"
proof (induction p arbitrary: b c c' ws)
  case (Update f p)
  then have p: "polite a b p" "run p (f c) = (c', ws)" by simp_all
  show ?case using Update.IH [OF p] Update.prems(1) by (cases b) auto
next
  case (Read k)
  then have p: "polite a (b \<or> action_number c = a) (k c)" "run (k c) c = (c', ws)" by simp_all
  show ?case using Read.IH [OF rangeI p] by auto
next
  case (Spawn q p)
  obtain c1 ws1 where q: "run q c = (c1, ws1)" by (cases "run q c")
  then obtain ws2 where p: "run p c1 = (c', ws2)" "ws = ws1 @ ws2"
    using Spawn.prems(2) by (auto split: prod.splits)
  show ?case using Spawn.IH(1) [OF _ q, of b] Spawn.IH(2) [OF _ p(1), of b] Spawn.prems(1) p(2) by auto
qed auto

text \<open>Politeness from the parts.\<close>

lemma polite_ui_same: "(\<And>c. ch_ui (f c) = ch_ui c) \<Longrightarrow> polite a b p \<Longrightarrow> polite a b (Update f p)"
  by simp

lemma finish_stale: "action_number c \<noteq> a \<Longrightarrow> ch_ui (finishDialogAction a c) = ch_ui c"
  "action_number c \<noteq> a \<Longrightarrow> ch_ui (failDialogAction env a e c) = ch_ui c"
  by (simp_all add: finishDialogAction_def failDialogAction_def upd_ui_def)

lemma polite_settle: "polite a b p \<Longrightarrow> polite a b (settle_action env a p)"
  by (induction p arbitrary: b) (simp_all add: finish_stale)

lemma polite_catching: "polite a b p \<Longrightarrow> (\<And>b e. polite a b (h e)) \<Longrightarrow> polite a b (catching h p)"
  by (induction p arbitrary: b) simp_all

lemma polite_shown: "polite a b (shown_error env a e)"
  by (simp add: shown_error_def finish_stale)

lemma polite_followed: "polite a b p \<Longrightarrow> (\<And>b. polite a b k) \<Longrightarrow> polite a b (followed_by p k)"
  by (induction p arbitrary: b) simp_all

lemma polite_await: "(\<And>r. polite a False (k r)) \<Longrightarrow> polite a b (await q k)"
  by (simp add: await_def split: answer.split)

lemma polite_request: "(\<And>r. polite a False (k r)) \<Longrightarrow> polite a b (ipc_request x y k)"
  unfolding ipc_request_def by (rule polite_await) (simp split: answer.split)

lemma polite_checked: "(\<And>r. polite a False (k r)) \<Longrightarrow> polite a b (ipc_checked env x y k)"
  unfolding ipc_checked_def by (rule polite_request) simp

lemma polite_current: "polite a True p \<Longrightarrow> polite a b (if_current a p)"
  by (simp add: if_current_def)

lemma polite_clipboard: "(\<And>w. polite a False (k w)) \<Longrightarrow> polite a b (write_clipboard s k)"
  by (simp add: write_clipboard_def)

lemma polite_refreshGroups: "polite a True k \<Longrightarrow> polite a False k \<Longrightarrow> polite a b (refreshGroups env v k)"
  unfolding refreshGroups_def Let_def by (rule polite_checked) simp

lemma ui_status: "ch_ui (showStatus s c) = ch_ui c" "ch_ui (showStatus_for s n c) = ch_ui c"
  by (simp_all add: showStatus_def showStatus_for_def)

lemma polite_if: "(x \<Longrightarrow> polite a b p) \<Longrightarrow> (\<not> x \<Longrightarrow> polite a b q) \<Longrightarrow> polite a b (if x then p else q)" by simp
lemma polite_option: "polite a b p \<Longrightarrow> (\<And>x. polite a b (q x)) \<Longrightarrow> polite a b (case_option p q v)" by (cases v) simp_all
lemma polite_list: "polite a b p \<Longrightarrow> (\<And>x xs. polite a b (q x xs)) \<Longrightarrow> polite a b (case_list p q v)" by (cases v) simp_all
lemma polite_Throw: "polite a b (Throw e)" by simp

lemma polite_files:
  "(\<And>os. polite a False (k os)) \<Longrightarrow> polite a b (sendFilesDirect env ps t cap k)"
  unfolding sendFilesDirect_def Let_def
  by (intro polite_option polite_Throw polite_request polite_if polite_ui_same ui_status)

lemma polite_ask: "polite a b p \<Longrightarrow> polite a b (ask_token env a rel d p)"
  unfolding ask_token_def by (rule polite_catching) simp_all

lemma polite_preferences: "polite a False k \<Longrightarrow> polite a b (saveNotificationPreferences env ps k)"
  unfolding saveNotificationPreferences_def by (rule polite_checked) simp

lemmas polite_rules = polite_settle polite_catching polite_shown polite_followed polite_await polite_request polite_checked
  polite_current polite_clipboard polite_refreshGroups polite_files polite_ask polite_preferences polite_ui_same

text \<open>The actions that look whether they are current before they touch the dialog.\<close>

inductive guarded_action :: "chat_env \<Rightarrow> act \<Rightarrow> bool" where
  "guarded_action env (loadControlStatus env)"
| "guarded_action env (loadRooms env)"
| "guarded_action env (configureControl env u)"
| "guarded_action env (dismissControlSetup env)"
| "guarded_action env (loadAdvancedConfig env)"
| "guarded_action env (saveAdvancedConfig env v ps m)"
| "guarded_action env (createRoom env v n)"
| "guarded_action env (joinRoom_tui env v i)"
| "guarded_action env (leaveRoom_tui env i)"
| "guarded_action env (loadRoomInvite env i)"
| "guarded_action env (loadGroupDetails env g)"
| "guarded_action env (loadFriendRequests env)"
| "guarded_action env (loadBlockedPeers env)"
| "guarded_action env (reStun env)"
| "guarded_action env (loadDebugInfo env)"
| "guarded_action env (loadFiles env)"
| "guarded_action env (installUpdate env rel d)"
| "guarded_action env (downloadFile env i d)"
| "guarded_action env (sendFile_action env v f)"
| "guarded_action env (loadFilesDir env)"
| "guarded_action env (loadFilesSettings env)"
| "guarded_action env (loadStorageDir env)"
| "guarded_action env (setFilesDir env v p b)"
| "guarded_action env (setStorageDir env v p b)"
| "guarded_action env (clearFilesDir env v b)"
| "guarded_action env (clearStorageDir env v b)"
| "guarded_action env (setAccessibilityFlashing env b)"
| "guarded_action env (saveDndEnabled env v b)"
| "guarded_action env (testNotificationDelivery env dl b)"
| "guarded_action env (confirmNotificationDelivery env dl b)"
| "guarded_action env (disableNotifications env b)"

definition well_guarded :: "act \<Rightarrow> bool" where
  "well_guarded p \<longleftrightarrow> (\<exists>b. p = begin_action b \<and> (\<forall>a. polite a True (b a)))"

lemma well_guardedI: "(\<And>a. polite a True (b a)) \<Longrightarrow> well_guarded (begin_action b)"
  unfolding well_guarded_def by blast

lemma well_guarded_dialog: "(\<And>a. polite a True (b a)) \<Longrightarrow> well_guarded (dialog_action env b)"
  unfolding dialog_action_def by (intro well_guardedI polite_settle)

lemma polite_true: "polite a True p \<Longrightarrow> polite a True (Update f p)" by simp
lemma polite_Return: "polite a b Return" by simp
lemma polite_Spawn: "polite a b q \<Longrightarrow> polite a b p \<Longrightarrow> polite a b (Spawn q p)" by simp
lemma polite_option_rest: "polite a b (x p) \<Longrightarrow> (\<And>v. polite a b (f v p)) \<Longrightarrow> polite a b ((case_option x f v) p)"
  by (cases v) simp_all
lemma polite_json:
  "polite a b x \<Longrightarrow> (\<And>j. polite a b (f1 j)) \<Longrightarrow> (\<And>j. polite a b (f2 j)) \<Longrightarrow> (\<And>j. polite a b (f3 j)) \<Longrightarrow> (\<And>j. polite a b (f4 j))
   \<Longrightarrow> (\<And>j. polite a b (f5 j)) \<Longrightarrow> polite a b (case_json x f1 f2 f3 f4 f5 j)"
  by (cases j) simp_all
lemma polite_dialog: "polite a b p \<Longrightarrow> polite a b q \<Longrightarrow> polite a b (if x then p else q)" by simp

lemmas polite_intros = polite_Return polite_Throw polite_true polite_checked polite_current polite_clipboard polite_await
  polite_if polite_option polite_option_rest polite_list polite_json polite_Spawn polite_ask polite_files polite_preferences

lemma guarded_loadControlStatus: "well_guarded (loadControlStatus env)"
  unfolding loadControlStatus_def load_dialog_def Let_def
  by (intro well_guarded_dialog polite_intros)

lemma guarded_loadRooms: "well_guarded (loadRooms env)"
  unfolding loadRooms_def load_dialog_def Let_def
  by (intro well_guarded_dialog polite_intros)

lemma guarded_configureControl: "well_guarded (configureControl env u)"
  unfolding configureControl_def Let_def
  by (intro well_guarded_dialog polite_intros)

lemma guarded_dismissControlSetup: "well_guarded (dismissControlSetup env)"
  unfolding dismissControlSetup_def shown_error_def [symmetric]
  by (intro well_guardedI polite_catching polite_shown polite_intros)

lemma guarded_loadAdvancedConfig: "well_guarded (loadAdvancedConfig env)"
  unfolding loadAdvancedConfig_def load_dialog_def Let_def
  by (intro well_guarded_dialog polite_intros)

lemma guarded_saveAdvancedConfig: "well_guarded (saveAdvancedConfig env v ps m)"
  unfolding saveAdvancedConfig_def Let_def
  by (intro well_guarded_dialog polite_intros)

lemma guarded_createRoom: "well_guarded (createRoom env v n)"
  unfolding createRoom_def Let_def
  by (intro well_guarded_dialog polite_intros) (simp_all add: polite_refreshGroups)

lemma guarded_joinRoom_tui: "well_guarded (joinRoom_tui env v i)"
  unfolding joinRoom_tui_def Let_def
  by (intro well_guarded_dialog polite_intros) (simp_all add: polite_refreshGroups)

lemma guarded_leaveRoom_tui: "well_guarded (leaveRoom_tui env i)"
  unfolding leaveRoom_tui_def Let_def
  by (intro well_guarded_dialog polite_intros)

lemma guarded_loadRoomInvite: "well_guarded (loadRoomInvite env i)"
  unfolding loadRoomInvite_def Let_def
  by (intro well_guarded_dialog polite_intros)

lemma guarded_loadGroupDetails: "well_guarded (loadGroupDetails env g)"
  unfolding loadGroupDetails_def Let_def
  by (intro well_guarded_dialog polite_intros)

lemma guarded_loadFriendRequests: "well_guarded (loadFriendRequests env)"
  unfolding loadFriendRequests_def load_dialog_def Let_def
  by (intro well_guarded_dialog polite_intros)

lemma guarded_loadBlockedPeers: "well_guarded (loadBlockedPeers env)"
  unfolding loadBlockedPeers_def load_dialog_def Let_def
  by (intro well_guarded_dialog polite_intros)

lemma guarded_reStun: "well_guarded (reStun env)"
  unfolding reStun_def Let_def
  by (intro well_guarded_dialog polite_intros)

lemma guarded_loadDebugInfo: "well_guarded (loadDebugInfo env)"
  unfolding loadDebugInfo_def Let_def
  by (intro well_guarded_dialog polite_intros)

lemma guarded_loadFiles: "well_guarded (loadFiles env)"
  unfolding loadFiles_def Let_def
  by (intro well_guarded_dialog polite_intros)

lemma guarded_installUpdate: "well_guarded (installUpdate env rel d)"
  unfolding installUpdate_def Let_def
  by (intro well_guarded_dialog polite_intros)

lemma guarded_downloadFile: "well_guarded (downloadFile env i d)"
  unfolding downloadFile_def Let_def
  by (intro well_guarded_dialog polite_intros)

lemma guarded_sendFile_action: "well_guarded (sendFile_action env v f)"
  unfolding sendFile_action_def Let_def
  by (intro well_guarded_dialog polite_intros)

lemma guarded_loadFilesDir: "well_guarded (loadFilesDir env)"
  unfolding loadFilesDir_def Let_def
  by (intro well_guarded_dialog polite_intros)

lemma guarded_loadFilesSettings: "well_guarded (loadFilesSettings env)"
  unfolding loadFilesSettings_def load_dialog_def Let_def
  by (intro well_guarded_dialog polite_intros)

lemma guarded_loadStorageDir: "well_guarded (loadStorageDir env)"
  unfolding loadStorageDir_def Let_def
  by (intro well_guarded_dialog polite_intros)

lemma guarded_setFilesDir: "well_guarded (setFilesDir env v p b)"
  unfolding setFilesDir_def Let_def
  by (intro well_guarded_dialog polite_intros)

lemma guarded_setStorageDir: "well_guarded (setStorageDir env v p b)"
  unfolding setStorageDir_def Let_def
  by (intro well_guarded_dialog polite_intros)

lemma guarded_clearFilesDir: "well_guarded (clearFilesDir env v b)"
  unfolding clearFilesDir_def Let_def
  by (intro well_guarded_dialog polite_intros)

lemma guarded_clearStorageDir: "well_guarded (clearStorageDir env v b)"
  unfolding clearStorageDir_def Let_def
  by (intro well_guarded_dialog polite_intros)

lemma guarded_setAccessibilityFlashing: "well_guarded (setAccessibilityFlashing env b)"
  unfolding setAccessibilityFlashing_def Let_def
  by (intro well_guarded_dialog polite_intros)

lemma guarded_saveDndEnabled: "well_guarded (saveDndEnabled env v b)"
  unfolding saveDndEnabled_def Let_def
  by (intro well_guarded_dialog polite_intros)

lemma guarded_testNotificationDelivery: "well_guarded (testNotificationDelivery env dl b)"
  unfolding testNotificationDelivery_def shown_error_def [symmetric]
  by (intro well_guardedI polite_true polite_followed polite_catching polite_shown polite_intros) (simp add: finish_stale)

lemma guarded_confirmNotificationDelivery: "well_guarded (confirmNotificationDelivery env dl b)"
  unfolding confirmNotificationDelivery_def Let_def
  by (intro well_guarded_dialog polite_intros)

lemma guarded_disableNotifications: "well_guarded (disableNotifications env b)"
  unfolding disableNotifications_def Let_def
  by (intro well_guarded_dialog polite_intros)

lemma guarded_well: "guarded_action env p \<Longrightarrow> well_guarded p"
  by (induction rule: guarded_action.induct)
    (rule guarded_loadControlStatus guarded_loadRooms guarded_configureControl guarded_dismissControlSetup
      guarded_loadAdvancedConfig guarded_saveAdvancedConfig guarded_createRoom guarded_joinRoom_tui
      guarded_leaveRoom_tui guarded_loadRoomInvite guarded_loadGroupDetails guarded_loadFriendRequests
      guarded_loadBlockedPeers guarded_reStun guarded_loadDebugInfo guarded_loadFiles
      guarded_installUpdate guarded_downloadFile guarded_sendFile_action guarded_loadFilesDir
      guarded_loadFilesSettings guarded_loadStorageDir guarded_setFilesDir guarded_setStorageDir
      guarded_clearFilesDir guarded_clearStorageDir guarded_setAccessibilityFlashing
      guarded_saveDndEnabled guarded_testNotificationDelivery guarded_confirmNotificationDelivery
      guarded_disableNotifications)+

text \<open>The programs that wait at some point of an action that was started in a state.\<close>

inductive stage :: "act \<Rightarrow> chat \<Rightarrow> act \<Rightarrow> bool" for p c0 where
  first: "w \<in> set (snd (run p c0)) \<Longrightarrow> stage p c0 w"
| later: "stage p c0 (Await q k) \<Longrightarrow> w \<in> set (snd (run (k r) c)) \<Longrightarrow> stage p c0 w"

lemma stage_polite:
  assumes "well_guarded p" "stage p c0 w"
  shows "polite (action_number c0 + 1) False w"
  using assms(2)
proof induction
  case (first w)
  obtain b where b: "p = begin_action b" "\<And>a. polite a True (b a)" using assms(1) by (auto simp: well_guarded_def)
  show ?case
  proof (cases "busyRef c0")
    case True
    then show ?thesis using first b(1) by (simp add: begin_action_def)
  next
    case False
    obtain c' ws where r: "run (b (action_number c0 + 1)) (beginDialogAction c0) = (c', ws)" by (metis surj_pair)
    then have "w \<in> set ws" using first b(1) False by (simp add: begin_action_def)
    then show ?thesis using run_polite [OF b(2) r] by simp
  qed
next
  case (later q k w r c)
  obtain c' ws where e: "run (k r) c = (c', ws)" by (metis surj_pair)
  have "polite (action_number c0 + 1) False (k r)" using later.IH by simp
  then show ?case using run_polite [OF _ e] later.hyps(2) e by auto
qed



text \<open>The actions that close the dialog after a second await, or without looking, close whichever dialog is shown
  then: when the answer to leaving a group arrives, the dialog is closed in every state.\<close>

theorem leaving_closes_any_dialog:
  assumes "\<not> du_busyRef (ch_ui c0)"
  shows "\<exists>q k. snd (run (leaveGroup env v g) c0) = [Await q k]
      \<and> (\<forall>c. du_dialog (ch_ui (fst (run (k (Response [])) c))) = None)"
  using assms
  by (auto simp: leaveGroup_def dialog_action_def begin_action_def ipc_checked_def ipc_request_def await_def Let_def
      field_def closeDialog_def finishDialogAction_def upd_ui_def)

end
