(* ===== verification/ChatSendProperties.thy ===== *)
theory ChatSendProperties
  imports ChatSend ChatInterleaving
begin

text \<open>
  Sends under every interleaving of typing, dispatching and answers: the requests of a conversation are sent
  in the order of the messages, one at a time, and a row is shown as pending only while its job is queued.
\<close>

subsection \<open>Events and the log\<close>

datatype send_event =
    UserSend chat "jsstr option" jsstr rat "jsstr option"
  | Dispatch jsstr
  | Answered jsstr answer
  | Elsewhere "chat \<Rightarrow> chat"

datatype send_log =
    Queued jsstr jsstr
  | Requested jsstr jsstr request
  | Settled jsstr jsstr

fun send_step :: "chat_env \<Rightarrow> send_event \<Rightarrow> sends \<Rightarrow> sends \<times> send_log list" where
  "send_step env (UserSend v key tempId now replyTo) s =
     (send_message env v key tempId now replyTo s,
      if send_refused v (sd_chat s) key = None then [Queued (the key) tempId] else [])"
| "send_step env (Dispatch key) s =
     (case dispatch_job key s of (s', rs) \<Rightarrow> (s', map (Requested key (sj_tempId (hd (queue_of s key)))) rs))"
| "send_step env (Answered key r) s =
     (answer_job env key r s,
      if key \<in> set (sd_flying s) \<and> queue_of s key \<noteq> [] then [Settled key (sj_tempId (hd (queue_of s key)))] else [])"
| "send_step env (Elsewhere f) s = (s\<lparr>sd_chat := f (sd_chat s)\<rparr>, [])"

primrec send_run :: "chat_env \<Rightarrow> send_event list \<Rightarrow> sends \<Rightarrow> sends \<times> send_log list" where
  "send_run env [] s = (s, [])"
| "send_run env (e # es) s = (case send_step env e s of (s1, l1) \<Rightarrow> (case send_run env es s1 of (s2, l2) \<Rightarrow> (s2, l1 @ l2)))"

definition sends_new :: "chat \<Rightarrow> sends" where
  "sends_new c = \<lparr>sd_chat = c, sd_queues = [], sd_flying = [], sd_resolved = [], sd_pendingIds = [], sd_inFlight = 0\<rparr>"

fun queued_id :: "jsstr \<Rightarrow> send_log \<Rightarrow> jsstr option" where
  "queued_id key (Queued k i) = (if k = key then Some i else None)"
| "queued_id key _ = None"

fun requested_id :: "jsstr \<Rightarrow> send_log \<Rightarrow> jsstr option" where
  "requested_id key (Requested k i r) = (if k = key then Some i else None)"
| "requested_id key _ = None"

fun settled_id :: "jsstr \<Rightarrow> send_log \<Rightarrow> jsstr option" where
  "settled_id key (Settled k i) = (if k = key then Some i else None)"
| "settled_id key _ = None"

subsection \<open>Queues\<close>

lemma queue_send: "queue_of (send_message env v key tempId now replyTo s) k =
  (if send_refused v (sd_chat s) key = None \<and> k = the key
   then queue_of s k @ [\<lparr>sj_tempId = tempId, sj_target = the (ch_selection v), sj_content = message_content v (sd_chat s) key,
      sj_replyTo = replyTo, sj_peerName = (case the (ch_selection v) of
        PeerChat i \<Rightarrow> map_option peer_display_name (find (\<lambda>p. peer_id p = i) (ch_peers v)) | GroupChat i \<Rightarrow> None)\<rparr>]
   else queue_of s k)"
  by (simp add: send_message_def Let_def queue_of_def split: option.split)

lemma queue_dispatch: "queue_of (fst (dispatch_job key s)) k = queue_of s k"
  by (simp add: dispatch_job_def queue_of_def split: list.split option.split)

lemma queue_delivered: "sd_queues (delivered_job env job r s) = sd_queues s" "sd_queues (failed_job env job e s) = sd_queues s"
  "sd_flying (delivered_job env job r s) = sd_flying s" "sd_flying (failed_job env job e s) = sd_flying s"
  "sd_inFlight (delivered_job env job r s) = sd_inFlight s" "sd_inFlight (failed_job env job e s) = sd_inFlight s"
  by (simp_all add: delivered_job_def failed_job_def Let_def)

lemma queue_finish: "queue_of (finish_job key s) k = (if k = key then tl (queue_of s k) else queue_of s k)"
  "sd_flying (finish_job key s) = set_del key (sd_flying s)"
  by (simp_all add: finish_job_def queue_of_def Let_def)

text \<open>The state in which a job is finished: its outcome recorded, the queues as they were.\<close>

definition answered :: "chat_env \<Rightarrow> send_job \<Rightarrow> answer \<Rightarrow> sends \<Rightarrow> sends" where
  "answered env job r s = (case r of
     Response resp \<Rightarrow>
       if json_truthy (field resp ''error'')
       then failed_job env job (ErrorMessage (value_text (ce_number env) (field resp ''error''))) s
       else delivered_job env job resp s
   | Failed e \<Rightarrow> failed_job env job e s
   | _ \<Rightarrow> failed_job env job TypeError s)"

lemma answer_job_eq: "answer_job env key r s =
  (if key \<in> set (sd_flying s) \<and> queue_of s key \<noteq> [] then finish_job key (answered env (hd (queue_of s key)) r s) else s)"
  by (cases "queue_of s key") (simp_all add: answer_job_def answered_def)

lemma answered_fields: "sd_queues (answered env job r s) = sd_queues s" "sd_flying (answered env job r s) = sd_flying s"
  "sd_inFlight (answered env job r s) = sd_inFlight s"
  by (simp_all add: answered_def queue_delivered split: answer.split)

lemma queue_answer:
  "queue_of (answer_job env key r s) k =
     (if k = key \<and> key \<in> set (sd_flying s) then tl (queue_of s k) else queue_of s k)"
  using answered_fields [of env "hd (queue_of s key)" r s]
  by (auto simp: answer_job_eq queue_finish) (simp_all add: queue_of_def)

subsection \<open>Order\<close>

definition typed :: chat where
  "typed = sample_chat\<lparr>ch_composer := (ch_composer sample_chat)\<lparr>co_text := Some (js ''hi'')\<rparr>,
     ch_identity := Some (js ''me'', js ''Me''), ch_selection := Some (PeerChat (js ''p''))\<rparr>"

text \<open>What the log says about a conversation, relative to its queue.\<close>

definition ordered :: "jsstr \<Rightarrow> send_log list \<Rightarrow> sends \<Rightarrow> bool" where
  "ordered key l s \<longleftrightarrow>
     List.map_filter (queued_id key) l = List.map_filter (settled_id key) l @ map sj_tempId (queue_of s key)
     \<and> List.map_filter (requested_id key) l = List.map_filter (settled_id key) l
        @ (if key \<in> set (sd_flying s) then [sj_tempId (hd (queue_of s key))] else [])
     \<and> (key \<in> set (sd_flying s) \<longrightarrow> queue_of s key \<noteq> [])"

lemma map_filter_append: "List.map_filter f (xs @ ys) = List.map_filter f xs @ List.map_filter f ys"
  by (simp add: List.map_filter_def)

lemma map_filter_map: "List.map_filter f (map g xs) = List.map_filter (\<lambda>x. f (g x)) xs"
  by (induction xs) (simp_all add: List.map_filter_def)

lemma ordered_step:
  assumes "ordered key l s" "send_step env e s = (s', l')"
  shows "ordered key (l @ l') s'"
proof (cases e)
  case (UserSend v k tempId now replyTo)
  have f: "sd_flying (send_message env v k tempId now replyTo s) = sd_flying s"
    by (simp add: send_message_def Let_def split: option.split)
  show ?thesis using assms f
    by (cases "send_refused v (sd_chat s) k = None"; cases "key = the k")
      (auto simp: UserSend ordered_def queue_send map_filter_append List.map_filter_def hd_append)
next
  case (Dispatch k)
  show ?thesis
  proof (cases "queue_of s k = [] \<or> k \<in> set (sd_flying s)")
    case True
    then have "dispatch_job k s = (s, [])" by (auto simp: dispatch_job_def split: list.split)
    then show ?thesis using assms by (simp add: Dispatch)
  next
    case False
    then obtain job q where q: "queue_of s k = job # q" "k \<notin> set (sd_flying s)" by (cases "queue_of s k") auto
    then have d: "dispatch_job k s = (s\<lparr>sd_flying := k # sd_flying s\<rparr>, [delivery_request s job])"
      by (simp add: dispatch_job_def)
    have "queue_of (s\<lparr>sd_flying := k # sd_flying s\<rparr>) key = queue_of s key" by (simp add: queue_of_def)
    then show ?thesis using assms q d
      by (auto simp: Dispatch ordered_def map_filter_append List.map_filter_def)
  qed
next
  case (Answered k r)
  show ?thesis
  proof (cases "k \<in> set (sd_flying s) \<and> queue_of s k \<noteq> []")
    case False
    then have "answer_job env k r s = s" by (auto simp: answer_job_eq)
    then show ?thesis using assms False by (auto simp: Answered)
  next
    case True
    then obtain job q where q: "queue_of s k = job # q" by (cases "queue_of s k") auto
    have fl: "sd_flying (answer_job env k r s) = set_del k (sd_flying s)"
      using True by (simp add: answer_job_eq queue_finish answered_fields)
    show ?thesis using assms True q fl
      by (auto simp: Answered ordered_def queue_answer map_filter_append List.map_filter_def)
  qed
next
  case (Elsewhere f)
  then show ?thesis using assms by (auto simp: ordered_def queue_of_def)
qed

lemma ordered_run: "ordered key l s \<Longrightarrow> send_run env es s = (s', l') \<Longrightarrow> ordered key (l @ l') s'"
proof (induction es arbitrary: l s l')
  case (Cons e es)
  obtain s1 l1 where 1: "send_step env e s = (s1, l1)" by (cases "send_step env e s")
  obtain l2 where 2: "send_run env es s1 = (s', l2)" "l' = l1 @ l2" using Cons.prems(2) 1 by (auto split: prod.splits)
  show ?case using Cons.IH [OF ordered_step [OF Cons.prems(1) 1] 2(1)] 2(2) by simp
qed simp



subsection \<open>Pending rows\<close>

definition total_jobs :: "(jsstr, send_job list) jsmap \<Rightarrow> int" where
  "total_jobs m = (\<Sum>e\<leftarrow>m. int (length (snd e)))"

lemma total_set: "map_ok m \<Longrightarrow> total_jobs (map_set k q m) =
    total_jobs m + int (length q) - (case map_get m k of Some q' \<Rightarrow> int (length q') | None \<Rightarrow> 0)"
  by (induction m) (auto simp: total_jobs_def map_ok_def map_get_None_iff split: option.split)

lemma total_del: "map_ok m \<Longrightarrow> total_jobs (map_del k m) =
    total_jobs m - (case map_get m k of Some q' \<Rightarrow> int (length q') | None \<Rightarrow> 0)"
  by (induction m) (auto simp: total_jobs_def map_ok_def map_get_None_iff split: option.split)

definition has_job :: "sends \<Rightarrow> jsstr \<Rightarrow> bool" where
  "has_job s i \<longleftrightarrow> (\<exists>key. \<exists>j \<in> set (queue_of s key). sj_tempId j = i)"

definition sends_ok :: "sends \<Rightarrow> bool" where
  "sends_ok s \<longleftrightarrow> map_ok (sd_queues s) \<and> sd_inFlight s = total_jobs (sd_queues s)
     \<and> (co_isSending (ch_composer (sd_chat s)) \<longleftrightarrow> 0 < sd_inFlight s)
     \<and> (\<forall>m \<in> set (ch_messages (sd_chat s)). msg_pending m \<noteq> 0 \<longrightarrow> has_job s (msg_id m))"

text \<open>What the rest of the client may do: no new pending rows, and the sending flag is left alone.\<close>

fun event_ok :: "send_event \<Rightarrow> bool" where
  "event_ok (Elsewhere f) \<longleftrightarrow> (\<forall>c. co_isSending (ch_composer (f c)) = co_isSending (ch_composer c)
     \<and> (\<forall>m \<in> set (ch_messages (f c)). msg_pending m \<noteq> 0 \<longrightarrow> m \<in> set (ch_messages c)))"
| "event_ok e = True"

lemma total_nonneg: "0 \<le> total_jobs m"
  by (induction m) (simp_all add: total_jobs_def)

lemma sends_ok_send:
  assumes "sends_ok s"
  shows "sends_ok (send_message env v key tempId now replyTo s)"
proof (cases "send_refused v (sd_chat s) key")
  case (Some r)
  then have "send_message env v key tempId now replyTo s = s\<lparr>sd_chat := showStatus (refusal_text r) (sd_chat s)\<rparr>"
    by (simp add: send_message_def)
  then show ?thesis using assms by (simp add: sends_ok_def has_job_def queue_of_def showStatus_def showStatus_for_def)
next
  case None
  let ?s = "send_message env v key tempId now replyTo s"
  have keep: "has_job ?s i" if "has_job s i" for i
  proof -
    from that obtain k j where j: "j \<in> set (queue_of s k)" "sj_tempId j = i" by (auto simp: has_job_def)
    have "j \<in> set (queue_of ?s k)" using j(1) by (cases "k = the key") (simp_all add: queue_send None)
    then show ?thesis using j(2) by (auto simp: has_job_def)
  qed
  have new: "has_job ?s tempId" unfolding has_job_def by (rule exI [of _ "the key"]) (simp add: queue_send None)
  have "map_ok (sd_queues ?s)" "sd_inFlight ?s = total_jobs (sd_queues ?s)" "co_isSending (ch_composer (sd_chat ?s))"
    using assms None
    by (auto simp: send_message_def Let_def sends_ok_def total_set queue_of_def sent_composer_def split: option.split)
  moreover have "0 < sd_inFlight ?s"
    using assms None total_nonneg [of "sd_queues s"] by (simp add: send_message_def Let_def sends_ok_def)
  moreover have "has_job ?s (msg_id m)" if m: "m \<in> set (ch_messages (sd_chat ?s))" "msg_pending m \<noteq> 0" for m
  proof -
    consider "m \<in> set (ch_messages (sd_chat s))" | "msg_id m = tempId"
      using m(1) None by (auto simp: send_message_def Let_def optimistic_row_def)
    then show ?thesis
      by cases (use assms m(2) keep new in \<open>auto simp: sends_ok_def\<close>)
  qed
  ultimately show ?thesis by (simp add: sends_ok_def)
qed

text \<open>The outcome of a job: its rows are no longer pending, the other rows keep identity and state.\<close>

lemma answered_row:
  assumes "m \<in> set (ch_messages (sd_chat (answered env job r s)))" "msg_pending m \<noteq> 0"
  shows "msg_id m \<noteq> sj_tempId job \<and> (\<exists>m' \<in> set (ch_messages (sd_chat s)). msg_id m' = msg_id m \<and> msg_pending m' \<noteq> 0)"
proof -
  have "ch_messages (sd_chat (answered env job r s)) = map (fail_row job) (ch_messages (sd_chat s))
    \<or> (\<exists>resp. ch_messages (sd_chat (answered env job r s)) = map (acknowledge_row job (sent_meta env job resp)) (ch_messages (sd_chat s)))"
    by (auto simp: answered_def failed_job_def delivered_job_def Let_def failure_status_def showStatus_def showStatus_for_def
        split: answer.split)
  then show ?thesis
  proof (elim disjE exE)
    assume "ch_messages (sd_chat (answered env job r s)) = map (fail_row job) (ch_messages (sd_chat s))"
    then show ?thesis using assms by (auto simp: fail_row_def split: if_splits)
  next
    fix resp
    assume "ch_messages (sd_chat (answered env job r s)) = map (acknowledge_row job (sent_meta env job resp)) (ch_messages (sd_chat s))"
    then show ?thesis using assms by (auto simp: acknowledge_row_def Let_def split: if_splits)
  qed
qed

lemma answered_composer: "ch_composer (sd_chat (answered env job r s)) = ch_composer (sd_chat s)"
  by (simp add: answered_def failed_job_def delivered_job_def Let_def failure_status_def showStatus_def showStatus_for_def
      split: answer.split)

lemma finish_chat: "ch_messages (sd_chat (finish_job key s)) = ch_messages (sd_chat s)"
  "co_isSending (ch_composer (sd_chat (finish_job key s))) \<longleftrightarrow> co_isSending (ch_composer (sd_chat s)) \<and> 0 < sd_inFlight s - 1"
  "sd_inFlight (finish_job key s) = max 0 (sd_inFlight s - 1)"
  by (simp_all add: finish_job_def Let_def)

lemma sends_ok_answer:
  assumes "sends_ok s"
  shows "sends_ok (answer_job env key r s)"
proof (cases "key \<in> set (sd_flying s) \<and> queue_of s key \<noteq> []")
  case False
  then show ?thesis using assms by (auto simp: answer_job_eq)
next
  case True
  then obtain job q where q: "queue_of s key = job # q" by (cases "queue_of s key") auto
  let ?a = "answered env job r s"
  have e: "answer_job env key r s = finish_job key ?a" using True q by (simp add: answer_job_eq)
  have qa: "queue_of ?a key = job # q" using q by (simp add: queue_of_def answered_fields)
  have g: "map_get (sd_queues s) key = Some (job # q)" using q by (auto simp: queue_of_def split: option.splits)
  have t: "total_jobs (sd_queues (finish_job key ?a)) = total_jobs (sd_queues s) - 1" "map_ok (sd_queues (finish_job key ?a))"
    using assms g qa by (auto simp: finish_job_def Let_def answered_fields sends_ok_def total_set total_del)
  have pos: "0 < total_jobs (sd_queues s)"
    using assms g total_del [of "sd_queues s" key] total_nonneg [of "map_del key (sd_queues s)"] by (simp add: sends_ok_def)
  have "has_job (finish_job key ?a) (msg_id m)"
    if m: "m \<in> set (ch_messages (sd_chat (finish_job key ?a)))" "msg_pending m \<noteq> 0" for m
  proof -
    from answered_row [OF _ m(2), of env job r s] m(1)
    obtain m' where ne: "msg_id m \<noteq> sj_tempId job" and m': "m' \<in> set (ch_messages (sd_chat s))" "msg_id m' = msg_id m" "msg_pending m' \<noteq> 0"
      by (auto simp: finish_chat)
    then have "has_job s (msg_id m)" using assms by (auto simp: sends_ok_def)
    then obtain k j where j: "j \<in> set (queue_of s k)" "sj_tempId j = msg_id m" by (auto simp: has_job_def)
    have qk: "queue_of ?a k = queue_of s k" by (simp add: queue_of_def answered_fields)
    have "j \<in> set (queue_of (finish_job key ?a) k)"
    proof (cases "k = key")
      case True
      then have "j \<in> set q" using j ne q by auto
      then show ?thesis using True qa by (simp add: queue_finish)
    next
      case False
      then show ?thesis using j(1) qk by (simp add: queue_finish)
    qed
    then show ?thesis using j(2) by (auto simp: has_job_def)
  qed
  then show ?thesis
    using assms t pos by (auto simp: e sends_ok_def finish_chat answered_composer answered_fields)
qed

lemma sends_ok_step: "sends_ok s \<Longrightarrow> event_ok e \<Longrightarrow> sends_ok (fst (send_step env e s))"
proof (cases e)
  case (Dispatch k)
  assume "sends_ok s"
  then show ?thesis
    using queue_dispatch [of k s] by (auto simp: Dispatch sends_ok_def has_job_def dispatch_job_def split: list.splits prod.split)
next
  case (Elsewhere f)
  assume "sends_ok s" "event_ok e"
  then show ?thesis by (auto simp: Elsewhere sends_ok_def has_job_def queue_of_def)
qed (simp_all add: sends_ok_send sends_ok_answer)

lemma sends_ok_run: "sends_ok s \<Longrightarrow> list_all event_ok es \<Longrightarrow> send_run env es s = (s', l) \<Longrightarrow> sends_ok s'"
proof (induction es arbitrary: s l)
  case (Cons e es)
  obtain s1 l1 where 1: "send_step env e s = (s1, l1)" by (cases "send_step env e s")
  obtain l2 where 2: "send_run env es s1 = (s', l2)" using Cons.prems(3) 1 by (auto split: prod.splits)
  have "sends_ok s1" using sends_ok_step [of s e env] Cons.prems(1,2) 1 by simp
  then show ?case using Cons.IH [OF _ _ 2] Cons.prems(2) by simp
qed simp


definition answered_run :: "send_event list" where
  "answered_run = [UserSend typed (Some (js ''peer:p'')) (js ''pending-1'') 0 None, Dispatch (js ''peer:p''),
     Answered (js ''peer:p'') (Response [(js ''message_id'', JStr (js ''m1''))])]"


end
