(* ===== verification/Disk.thy ===== *)
theory Disk
  imports JsValue PosixPath
begin

text \<open>
  The file system as the installation code uses it (\<open>node:fs\<close>), and programs over it. A disk maps
  physical paths to nodes; a path is followed through symbolic links as the system does. A file that holds
  a JSON text is represented by its value, any other by its bytes.

  A program (\<open>io\<close>) returns or throws. Every write to the disk is one step of its own: the system may refuse it,
  and the state it leaves is recorded, so that the history of a run holds every state in which a crash of the
  process can leave the disk. Triples over these programs have, beside the postconditions of returning and of
  throwing, a condition that holds of all these states.
\<close>

subsection \<open>Disks\<close>

type_synonym path = "jsstr list"

datatype link = Absolute path | Relative path

datatype content = Document json | Blob "nat list"

datatype node = Dir | File content | Link link

type_synonym disk = "(path, node) jsmap"

definition node_at :: "disk \<Rightarrow> path \<Rightarrow> node option" where
  "node_at d p = (if p = [] then Some Dir else map_get d p)"

text \<open>Following a path from a directory, through at most so many links.\<close>

fun follow :: "disk \<Rightarrow> nat \<Rightarrow> path \<Rightarrow> path \<Rightarrow> path option" where
  "follow d n c [] = Some c"
| "follow d n c (x # xs) =
     (if x = [46, 46] then follow d n (butlast c) xs
      else case node_at d (c @ [x]) of
          None \<Rightarrow> None
        | Some Dir \<Rightarrow> follow d n (c @ [x]) xs
        | Some (File f) \<Rightarrow> (if xs = [] then Some (c @ [x]) else None)
        | Some (Link t) \<Rightarrow> (case n of
              0 \<Rightarrow> None
            | Suc m \<Rightarrow> (case t of Absolute p \<Rightarrow> follow d m [] (p @ xs) | Relative p \<Rightarrow> follow d m c (p @ xs))))"

definition realpath :: "disk \<Rightarrow> path \<Rightarrow> path option" where
  "realpath d p = follow d 40 [] p"

text \<open>The physical place of a path whose last component is not followed.\<close>

definition place :: "disk \<Rightarrow> path \<Rightarrow> path option" where
  "place d p = (if p = [] then Some [] else case realpath d (butlast p) of
     Some q \<Rightarrow> if node_at d q = Some Dir then Some (q @ [last p]) else None
   | None \<Rightarrow> None)"

definition lstat :: "disk \<Rightarrow> path \<Rightarrow> node option" where
  "lstat d p = (case place d p of Some q \<Rightarrow> node_at d q | None \<Rightarrow> None)"

definition existsSync :: "disk \<Rightarrow> path \<Rightarrow> bool" where
  "existsSync d p \<longleftrightarrow> realpath d p \<noteq> None"

definition is_dir :: "disk \<Rightarrow> path \<Rightarrow> bool" where
  "is_dir d p \<longleftrightarrow> lstat d p = Some Dir"

definition is_link :: "disk \<Rightarrow> path \<Rightarrow> bool" where
  "is_link d p \<longleftrightarrow> (case lstat d p of Some (Link t) \<Rightarrow> True | _ \<Rightarrow> False)"

definition readlink :: "disk \<Rightarrow> path \<Rightarrow> link option" where
  "readlink d p = (case lstat d p of Some (Link t) \<Rightarrow> Some t | _ \<Rightarrow> None)"

definition read_file :: "disk \<Rightarrow> path \<Rightarrow> content option" where
  "read_file d p = (case realpath d p of
     Some q \<Rightarrow> (case node_at d q of Some (File c) \<Rightarrow> Some c | _ \<Rightarrow> None)
   | None \<Rightarrow> None)"

fun parse_content :: "content option \<Rightarrow> json option" where
  "parse_content (Some (Document j)) = Some j"
| "parse_content _ = None"

definition entries_of :: "disk \<Rightarrow> path \<Rightarrow> path list" where
  "entries_of d q = filter (\<lambda>p. p \<noteq> [] \<and> butlast p = q) (map_keys d)"

definition readdir :: "disk \<Rightarrow> path \<Rightarrow> jsstr list option" where
  "readdir d p = (case realpath d p of
     Some q \<Rightarrow> if node_at d q = Some Dir then Some (map last (entries_of d q)) else None
   | None \<Rightarrow> None)"

definition below :: "path \<Rightarrow> path \<Rightarrow> bool" where
  "below p q \<longleftrightarrow> take (length p) q = p"

subsection \<open>Programs\<close>

datatype io_error = Code string | Failure jsstr | Thrown

record world =
  w_disk :: disk
  w_history :: "disk list"
  w_refused :: "nat \<Rightarrow> string option"
  w_writes :: nat
  w_drawn :: nat
  w_locked :: "path list"

type_synonym 'a io = "world \<Rightarrow> (io_error + 'a) \<times> world"

definition ret :: "'a \<Rightarrow> 'a io" where
  "ret x w = (Inr x, w)"

definition raise :: "io_error \<Rightarrow> 'a io" where
  "raise e w = (Inl e, w)"

definition seq :: "'a io \<Rightarrow> ('a \<Rightarrow> 'b io) \<Rightarrow> 'b io" where
  "seq m f w = (case m w of (Inl e, w') \<Rightarrow> (Inl e, w') | (Inr x, w') \<Rightarrow> f x w')"

definition try_catch :: "'a io \<Rightarrow> (io_error \<Rightarrow> 'a io) \<Rightarrow> 'a io" where
  "try_catch m h w = (case m w of (Inl e, w') \<Rightarrow> h e w' | (Inr x, w') \<Rightarrow> (Inr x, w'))"

definition finally_do :: "'a io \<Rightarrow> unit io \<Rightarrow> 'a io" where
  "finally_do m f w = (case m w of (r, w') \<Rightarrow> (case f w' of (Inl e, w'') \<Rightarrow> (Inl e, w'') | (Inr u, w'') \<Rightarrow> (r, w'')))"

definition reading :: "(disk \<Rightarrow> 'a) \<Rightarrow> 'a io" where
  "reading f w = (Inr (f (w_disk w)), w)"

definition draw :: "nat io" where
  "draw w = (Inr (w_drawn w), w\<lparr>w_drawn := w_drawn w + 1\<rparr>)"

primrec for_each :: "'a list \<Rightarrow> ('a \<Rightarrow> unit io) \<Rightarrow> unit io" where
  "for_each [] f = ret ()"
| "for_each (x # xs) f = seq (f x) (\<lambda>u. for_each xs f)"

definition andthen :: "unit io \<Rightarrow> 'a io \<Rightarrow> 'a io" where
  "andthen m k = seq m (\<lambda>u. k)"

text \<open>Reading something that may throw.\<close>

definition reading_or :: "io_error \<Rightarrow> (disk \<Rightarrow> 'a option) \<Rightarrow> 'a io" where
  "reading_or e f = seq (reading f) (\<lambda>r. case r of Some x \<Rightarrow> ret x | None \<Rightarrow> raise e)"

text \<open>Not failing when an exception is swallowed.\<close>

definition attempt :: "unit io \<Rightarrow> unit io" where
  "attempt m = try_catch m (\<lambda>e. ret ())"

text \<open>A lock of the operating system on a path, released when the program ends or throws.\<close>

definition holding :: "path \<Rightarrow> 'a io \<Rightarrow> 'a io" where
  "holding p m w = (if p \<in> set (w_locked w) then (Inl (Code ''SQLITE_BUSY''), w)
     else case m (w\<lparr>w_locked := p # w_locked w\<rparr>) of (r, w') \<Rightarrow> (r, w'\<lparr>w_locked := w_locked w\<rparr>))"

text \<open>One write: refused by the system, or rejected by its own preconditions, or done.\<close>

definition change :: "(disk \<Rightarrow> io_error + disk) \<Rightarrow> unit io" where
  "change g w = (let w1 = w\<lparr>w_writes := w_writes w + 1\<rparr> in
     case w_refused w (w_writes w) of
       Some c \<Rightarrow> (Inl (Code c), w1)
     | None \<Rightarrow> (case g (w_disk w) of
          Inl e \<Rightarrow> (Inl e, w1)
        | Inr d \<Rightarrow> (Inr (), w1\<lparr>w_disk := d, w_history := d # w_history w\<rparr>)))"

subsection \<open>Writes\<close>

definition no_entry :: io_error where "no_entry = Code ''ENOENT''"

definition at_place :: "path \<Rightarrow> (path \<Rightarrow> disk \<Rightarrow> io_error + disk) \<Rightarrow> unit io" where
  "at_place p g = change (\<lambda>d. case place d p of Some q \<Rightarrow> g q d | None \<Rightarrow> Inl no_entry)"

definition put_new :: "node \<Rightarrow> path \<Rightarrow> unit io" where
  "put_new n p = at_place p (\<lambda>q d. if node_at d q = None then Inr (map_set q n d) else Inl (Code ''EEXIST''))"

definition mkdir :: "path \<Rightarrow> unit io" where
  "mkdir = put_new Dir"

definition symlink :: "link \<Rightarrow> path \<Rightarrow> unit io" where
  "symlink t = put_new (Link t)"

definition mkdir_step :: "path \<Rightarrow> unit io" where
  "mkdir_step p = seq (reading (\<lambda>d. realpath d p))
     (\<lambda>r. case r of
        None \<Rightarrow> mkdir p
      | Some q \<Rightarrow> seq (reading (\<lambda>d. node_at d q = Some Dir)) (\<lambda>b. if b then ret () else raise (Code ''EEXIST'')))"

definition mkdir_all :: "path \<Rightarrow> unit io" where
  "mkdir_all p = for_each (map (\<lambda>k. take (Suc k) p) [0..<length p]) mkdir_step"

text \<open>The content of a file is written after the file was created.\<close>

definition fill :: "path \<Rightarrow> content \<Rightarrow> unit io" where
  "fill p c = at_place p (\<lambda>q d. Inr (map_set q (File c) d))"

definition write_new :: "path \<Rightarrow> content \<Rightarrow> unit io" where
  "write_new p c = seq (put_new (File (Blob [])) p) (\<lambda>u. fill p c)"

definition copy_new :: "path \<Rightarrow> path \<Rightarrow> unit io" where
  "copy_new source p = seq (reading (\<lambda>d. read_file d source))
     (\<lambda>r. case r of None \<Rightarrow> raise no_entry | Some c \<Rightarrow> write_new p c)"

definition sync :: "unit io" where
  "sync = change Inr"

definition move :: "path \<Rightarrow> path \<Rightarrow> disk \<Rightarrow> disk" where
  "move a b d = map (\<lambda>(q, n). (if below a q then b @ drop (length a) q else q, n)) (filter (\<lambda>(q, n). q \<noteq> b) d)"

definition moved_to :: "path \<Rightarrow> path \<Rightarrow> disk \<Rightarrow> io_error + disk" where
  "moved_to p q d = (case (node_at d p, node_at d q) of
     (None, _) \<Rightarrow> Inl no_entry
   | (Some Dir, None) \<Rightarrow> if below p q then Inl (Code ''EINVAL'') else Inr (move p q d)
   | (Some Dir, Some Dir) \<Rightarrow>
       if p = q then Inr d
       else if below p q then Inl (Code ''EINVAL'')
       else if entries_of d q \<noteq> [] then Inl (Code ''ENOTEMPTY'') else Inr (move p q d)
   | (Some Dir, Some n) \<Rightarrow> Inl (Code ''ENOTDIR'')
   | (Some n, Some Dir) \<Rightarrow> Inl (Code ''EISDIR'')
   | (Some n, _) \<Rightarrow> Inr (if p = q then d else map_set q n (map_del p d)))"

definition rename :: "path \<Rightarrow> path \<Rightarrow> unit io" where
  "rename a b = change (\<lambda>d. case (place d a, place d b) of
     (Some p, Some q) \<Rightarrow> moved_to p q d | _ \<Rightarrow> Inl no_entry)"

definition remove :: "path \<Rightarrow> unit io" where
  "remove p = at_place p (\<lambda>q d. case node_at d q of
     None \<Rightarrow> Inl no_entry | Some Dir \<Rightarrow> Inl (Code ''ERR_FS_EISDIR'') | Some n \<Rightarrow> Inr (map_del q d))"

text \<open>\<open>rmSync\<close> with \<open>force\<close>: a path that does not exist is no error.\<close>

definition remove_force :: "path \<Rightarrow> unit io" where
  "remove_force p = seq (reading (\<lambda>d. lstat d p)) (\<lambda>n. if n = None then ret () else remove p)"

definition unlink_at :: "path \<Rightarrow> unit io" where
  "unlink_at q = change (\<lambda>d. Inr (map_del q d))"

definition tree_of :: "disk \<Rightarrow> path \<Rightarrow> path list" where
  "tree_of d q = rev (sort_key length (filter (below q) (map_keys d)))"

text \<open>\<open>rmSync\<close> with \<open>recursive\<close> and \<open>force\<close> removes entry after entry, the deepest first.\<close>

definition remove_tree :: "path \<Rightarrow> unit io" where
  "remove_tree p = seq (reading (\<lambda>d. place d p)) (\<lambda>r. case r of
     None \<Rightarrow> ret ()
   | Some q \<Rightarrow> seq (reading (\<lambda>d. tree_of d q)) (\<lambda>ps. for_each ps unlink_at))"

definition remove_dir :: "path \<Rightarrow> unit io" where
  "remove_dir p = at_place p (\<lambda>q d. case node_at d q of
     None \<Rightarrow> Inl no_entry
   | Some Dir \<Rightarrow> if entries_of d q = [] \<and> q \<noteq> [] then Inr (map_del q d) else Inl (Code ''ENOTEMPTY'')
   | Some n \<Rightarrow> Inl (Code ''ENOTDIR''))"

end
