(* ===== verification/InstallState.thy ===== *)
theory InstallState
  imports Disk JsonText ControlConfig
begin

text \<open>
  Where MeshTalk is installed and which release is selected: the private store of an installation
  (\<open>common/install-paths.ts\<close>, \<open>common/installation-store.ts\<close>), the selection file, the manifests of releases and
  the records of running processes (\<open>common/release-install.ts\<close>), on a POSIX system.

  Random names, digests, the process table and the environment are fields of \<open>install_env\<close>. Reads do not fail
  unless a path or its content is not as expected; a read that throws is \<open>None\<close>.
\<close>

record install_env =
  ie_uuid :: "nat \<Rightarrow> jsstr"
  ie_digest :: "content \<Rightarrow> jsstr"
  ie_hash :: "jsstr \<Rightarrow> jsstr"
  ie_number :: "rat \<Rightarrow> jsstr"
  ie_lower :: "jsstr \<Rightarrow> jsstr"
  ie_pid :: nat
  ie_signal :: "nat \<Rightarrow> string option"
  ie_processes :: "jsstr option"
  ie_linux :: bool
  ie_executable :: "nat \<Rightarrow> jsstr option"
  ie_execPath :: path
  ie_configured :: "jsstr option"
  ie_home :: jsstr
  ie_cwd :: jsstr
  ie_publishDirectory :: "path \<Rightarrow> jsstr option \<Rightarrow> path \<Rightarrow> unit io"

definition regularFile :: "disk \<Rightarrow> path \<Rightarrow> bool" where
  "regularFile d p \<longleftrightarrow> (case lstat d p of Some (File c) \<Rightarrow> True | _ \<Rightarrow> False)"

definition read_json :: "disk \<Rightarrow> path \<Rightarrow> json option" where
  "read_json d p = parse_content (read_file d p)"

definition schema_ok :: "json \<Rightarrow> bool" where
  "schema_ok j \<longleftrightarrow> prop_of j ''schema'' = Some (JNum 1)"

definition absolute :: "jsstr \<Rightarrow> bool" where
  "absolute s \<longleftrightarrow> starts_with s [47]"

definition path_at :: "jsstr \<Rightarrow> path" where
  "path_at s = resolve_parts [] s"

subsection \<open>Installation paths\<close>

function entry_search :: "disk \<Rightarrow> path \<Rightarrow> path \<Rightarrow> path option" where
  "entry_search d ancestor rest = (case realpath d ancestor of
     Some q \<Rightarrow> Some (q @ rest)
   | None \<Rightarrow> if ancestor = [] \<or> lstat d ancestor \<noteq> None then None
             else entry_search d (butlast ancestor) (last ancestor # rest))"
  by pat_completeness auto
termination
  by (relation "measure (\<lambda>(d, a, r). length a)") auto

definition installationEntryPath :: "disk \<Rightarrow> path \<Rightarrow> path option" where
  "installationEntryPath d p =
     (if is_dir d p then realpath d p else entry_search d (butlast p) [last p])"

definition installationDataDirectory :: "install_env \<Rightarrow> path" where
  "installationDataDirectory env =
     (let configured = map_option trim (ie_configured env);
          path = (case configured of
              Some c \<Rightarrow> if c = [126] then Some (ie_home env)
                         else if starts_with c [126, 47] \<or> starts_with c [126, 92] then Some (ie_home env @ 47 # drop 2 c)
                         else Some c
            | None \<Rightarrow> None)
      in resolve_parts (ie_cwd env) (if truthy path then the path else ie_home env @ js ''/.meshtalk''))"

definition sameInstallationPath :: "disk \<Rightarrow> path \<Rightarrow> path \<Rightarrow> bool option" where
  "sameInstallationPath d a b = (case (installationEntryPath d a, installationEntryPath d b) of
     (Some x, Some y) \<Rightarrow> Some (x = y) | _ \<Rightarrow> None)"

definition installationId :: "install_env \<Rightarrow> path \<Rightarrow> jsstr" where
  "installationId env entry = take 32 (ie_hash env (path_text entry))"

definition packages_dir :: jsstr where "packages_dir = js ''packages''"
definition standalone_dir :: jsstr where "standalone_dir = js ''standalone''"
definition store_marker :: jsstr where "store_marker = js ''.meshtalk-store.json''"

definition privateInstallationStore :: "install_env \<Rightarrow> disk \<Rightarrow> path \<Rightarrow> path option" where
  "privateInstallationStore env d installDir = (case installationEntryPath d installDir of
     Some entry \<Rightarrow> Some (installationDataDirectory env @ [packages_dir, standalone_dir, installationId env entry])
   | None \<Rightarrow> None)"

definition parent_name :: "path \<Rightarrow> jsstr" where
  "parent_name p = (if butlast p = [] then [] else last (butlast p))"

definition base_name :: "path \<Rightarrow> jsstr" where
  "base_name p = (if p = [] then [] else last p)"

definition installationStoreEntry :: "install_env \<Rightarrow> disk \<Rightarrow> path \<Rightarrow> path option" where
  "installationStoreEntry env d base =
     (if \<not> is_dir d base then None
      else if \<not> regularFile d (base @ [store_marker]) then None
      else case read_json d (base @ [store_marker]) of
          None \<Rightarrow> None
        | Some owner \<Rightarrow> (case prop_of owner ''entry'' of
              Some (JStr entry) \<Rightarrow>
                if \<not> schema_ok owner \<or> \<not> absolute entry then None
                else (case installationEntryPath d (path_at entry) of
                    Some e \<Rightarrow>
                      if base_name base = installationId env e \<and> parent_name base = standalone_dir
                         \<and> parent_name (butlast base) = packages_dir
                      then Some e else None
                  | None \<Rightarrow> None)
            | _ \<Rightarrow> None))"

text \<open>A value of \<open>None\<close> inside is \<open>null\<close>, outside an exception.\<close>

definition ownedPrivateInstallationStore :: "install_env \<Rightarrow> disk \<Rightarrow> path \<Rightarrow> path option option" where
  "ownedPrivateInstallationStore env d installDir = (case privateInstallationStore env d installDir of
     None \<Rightarrow> None
   | Some base \<Rightarrow> (case installationStoreEntry env d base of
        None \<Rightarrow> Some None
      | Some entry \<Rightarrow> (case sameInstallationPath d entry installDir of
            None \<Rightarrow> None
          | Some same \<Rightarrow> if same then map_option Some (realpath d base) else Some None)))"

definition mkdir_or_dir :: "path \<Rightarrow> unit io" where
  "mkdir_or_dir p = try_catch (mkdir p) (\<lambda>e.
     if e \<noteq> Code ''EEXIST'' then raise e
     else seq (reading (\<lambda>d. is_dir d p)) (\<lambda>b. if b then ret ()
       else raise (Failure (js ''MeshTalk'' @ [39] @ js ''s private installation store contains an unexpected link or file.''))))"

definition store_owner :: "path \<Rightarrow> json" where
  "store_owner entry = JObj [(js ''schema'', JNum 1), (js ''entry'', JStr (path_text entry))]"

definition createInstallationStore :: "install_env \<Rightarrow> path \<Rightarrow> path io" where
  "createInstallationStore env installDir =
     seq (reading_or no_entry (\<lambda>d. installationEntryPath d installDir)) (\<lambda>entry.
     seq (reading_or no_entry (\<lambda>d. privateInstallationStore env d entry)) (\<lambda>base.
     let data = installationDataDirectory env; marker = base @ [store_marker] in
     andthen (mkdir_all data)
     (andthen (for_each [data @ [packages_dir], data @ [packages_dir, standalone_dir], base] mkdir_or_dir)
     (andthen (try_catch (write_new marker (Document (store_owner entry))) (\<lambda>e. if e = Code ''EEXIST'' then ret () else raise e))
     (seq (reading (\<lambda>d. case installationStoreEntry env d base of
          Some owner \<Rightarrow> sameInstallationPath d owner entry | None \<Rightarrow> Some False)) (\<lambda>ok.
      if ok = Some True then reading_or no_entry (\<lambda>d. realpath d base)
      else raise (Failure (js ''The MeshTalk release store belongs to a different installation.''))))))))"

subsection \<open>Names\<close>

definition STATE :: jsstr where "STATE = js ''.meshtalk-install.json''"
definition STATE_BAK :: jsstr where "STATE_BAK = js ''.meshtalk-install.json.bak''"
definition RELEASE :: jsstr where "RELEASE = js ''.meshtalk-release.json''"
definition USAGE_DIR :: jsstr where "USAGE_DIR = js ''.meshtalk-usage''"
definition STAGING_MARKER :: jsstr where "STAGING_MARKER = js ''.meshtalk-staging.json''"
definition CURRENT_LINK :: jsstr where "CURRENT_LINK = js ''.meshtalk-current''"
definition LOCK :: jsstr where "LOCK = js ''.meshtalk-install-lock.sqlite''"
definition RELOCATION :: jsstr where "RELOCATION = js ''.meshtalk-relocation.json''"
definition LEGACY_STATE :: jsstr where "LEGACY_STATE = js ''.meshtalk-current.json''"
definition LEGACY_STATE_BAK :: jsstr where "LEGACY_STATE_BAK = js ''.meshtalk-current.json.bak''"
definition versions_dir :: jsstr where "versions_dir = js ''versions''"
definition launcher :: jsstr where "launcher = js ''meshtalk''"
definition backend :: jsstr where "backend = js ''meshtalk-backend''"

definition releaseFiles :: "jsstr list" where
  "releaseFiles = [launcher, backend]"

definition release_prefix :: jsstr where "release_prefix = js ''release-''"

text \<open>\<open>/^release-[a-f0-9]{32}$/\<close>.\<close>

definition RELEASE_NAME :: "jsstr \<Rightarrow> bool" where
  "RELEASE_NAME s \<longleftrightarrow> starts_with s release_prefix \<and> length s = 40 \<and> list_all hex_lower (drop 8 s)"

definition hex_digest :: "jsstr \<Rightarrow> bool" where
  "hex_digest s \<longleftrightarrow> hex_pattern 64 s"

text \<open>\<open>/^\d+\.\d+\.\d+(?:-\d+)?-[a-f0-9]{12}$/\<close>.\<close>

definition after_digits :: "jsstr \<Rightarrow> jsstr option" where
  "after_digits s = (case s of c # r \<Rightarrow> if is_digit c then Some (dropWhile is_digit s) else None | [] \<Rightarrow> None)"

definition after_char :: "nat \<Rightarrow> jsstr option \<Rightarrow> jsstr option" where
  "after_char c s = (case s of Some (x # r) \<Rightarrow> if x = c then Some r else None | _ \<Rightarrow> None)"

definition hash_tail :: "jsstr option \<Rightarrow> bool" where
  "hash_tail s = (case after_char 45 s of Some r \<Rightarrow> length r = 12 \<and> list_all hex_lower r | None \<Rightarrow> False)"

definition legacy_name :: "jsstr \<Rightarrow> bool" where
  "legacy_name s =
     (let version = Option.bind (after_char 46 (Option.bind (after_char 46 (after_digits s)) after_digits)) after_digits
      in hash_tail version \<or> hash_tail (Option.bind (after_char 45 version) after_digits))"

subsection \<open>The selection of a release\<close>

datatype layout = FileLink | DirectoryLink | Flat

record selection =
  sl_current :: "jsstr option"
  sl_pending :: "jsstr option"
  sl_confirmed :: "jsstr option"
  sl_bootstrap :: "jsstr option"
  sl_legacy :: "jsstr list option"
  sl_layout :: "layout option"
  sl_entry :: "jsstr option"

definition no_selection :: selection where
  "no_selection = \<lparr>sl_current = None, sl_pending = None, sl_confirmed = None, sl_bootstrap = None, sl_legacy = None,
     sl_layout = None, sl_entry = None\<rparr>"

fun layout_text :: "layout \<Rightarrow> jsstr" where
  "layout_text FileLink = js ''file-link''"
| "layout_text DirectoryLink = js ''directory-link''"
| "layout_text Flat = js ''flat''"

text \<open>A property that may be missing; \<open>None\<close> where its value is not allowed.\<close>

definition checked_text :: "(jsstr \<Rightarrow> bool) \<Rightarrow> json option \<Rightarrow> jsstr option option" where
  "checked_text ok v = (case v of
     None \<Rightarrow> Some None | Some (JStr s) \<Rightarrow> if ok s then Some (Some s) else None | _ \<Rightarrow> None)"

definition checked_legacy :: "json option \<Rightarrow> jsstr list option option" where
  "checked_legacy v = (case v of
     None \<Rightarrow> Some None
   | Some (JArr xs) \<Rightarrow>
       if list_all (\<lambda>j. case j of JStr s \<Rightarrow> legacy_name s | _ \<Rightarrow> False) xs
       then Some (Some (List.map_filter (\<lambda>j. string_value (Some j)) xs)) else None
   | _ \<Rightarrow> None)"

definition checked_layout :: "json option \<Rightarrow> layout option option" where
  "checked_layout v = (case v of
     None \<Rightarrow> Some None
   | Some (JStr s) \<Rightarrow> if s = layout_text FileLink then Some (Some FileLink)
       else if s = layout_text DirectoryLink then Some (Some DirectoryLink)
       else if s = layout_text Flat then Some (Some Flat) else None
   | _ \<Rightarrow> None)"

definition selection_of :: "json \<Rightarrow> selection option" where
  "selection_of j =
     (if \<not> schema_ok j then None
      else case (checked_text RELEASE_NAME (prop_of j ''current''), checked_text RELEASE_NAME (prop_of j ''pending''),
                 checked_text RELEASE_NAME (prop_of j ''confirmed''), checked_legacy (prop_of j ''legacy''),
                 checked_text hex_digest (prop_of j ''bootstrap''), checked_layout (prop_of j ''layout''),
                 checked_text absolute (prop_of j ''entry'')) of
          (Some current, Some pending, Some confirmed, Some legacy, Some bootstrap, Some lay, Some entry) \<Rightarrow>
            if lay = Some DirectoryLink \<and> \<not> truthy entry then None
            else Some \<lparr>sl_current = current, sl_pending = pending, sl_confirmed = confirmed, sl_bootstrap = bootstrap,
                   sl_legacy = legacy, sl_layout = lay, sl_entry = entry\<rparr>
        | _ \<Rightarrow> None)"

definition parseSelection :: "disk \<Rightarrow> path \<Rightarrow> selection option" where
  "parseSelection d p = (if \<not> regularFile d p then None else Option.bind (read_json d p) selection_of)"

text \<open>\<open>None\<close> where the selection is damaged.\<close>

definition readSelection :: "disk \<Rightarrow> path \<Rightarrow> selection option" where
  "readSelection d base = (case parseSelection d (base @ [STATE]) of
     Some s \<Rightarrow> Some s
   | None \<Rightarrow> (case parseSelection d (base @ [STATE_BAK]) of
        Some s \<Rightarrow> Some s
      | None \<Rightarrow> if existsSync d (base @ [STATE]) \<or> existsSync d (base @ [STATE_BAK]) then None else Some no_selection))"

definition damaged_selection :: io_error where
  "damaged_selection = Failure (js ''MeshTalk'' @ [39] @ js ''s release selection is damaged. Run the installer to repair it.'')"

definition selecting :: "path \<Rightarrow> selection io" where
  "selecting base = reading_or damaged_selection (\<lambda>d. readSelection d base)"

definition text_property :: "string \<Rightarrow> jsstr option \<Rightarrow> json_object" where
  "text_property k v = (case v of None \<Rightarrow> [] | Some s \<Rightarrow> [(js k, JStr s)])"

definition selection_json :: "selection \<Rightarrow> json" where
  "selection_json s = JObj ([(js ''schema'', JNum 1)]
     @ text_property ''current'' (sl_current s) @ text_property ''pending'' (sl_pending s)
     @ text_property ''confirmed'' (sl_confirmed s) @ text_property ''bootstrap'' (sl_bootstrap s)
     @ (case sl_legacy s of None \<Rightarrow> [] | Some ns \<Rightarrow> [(js ''legacy'', JArr (map JStr ns))])
     @ text_property ''layout'' (map_option layout_text (sl_layout s)) @ text_property ''entry'' (sl_entry s))"

subsection \<open>Writing\<close>

definition flushDirectory :: "unit io" where
  "flushDirectory = try_catch sync (\<lambda>e. if e \<in> {Code ''EINVAL'', Code ''ENOTSUP''} then ret () else raise e)"

definition temporary :: "install_env \<Rightarrow> path \<Rightarrow> nat \<Rightarrow> path" where
  "temporary env p n = butlast p @ [last p @ [46] @ ie_uuid env n @ js ''.tmp'']"

definition writeJson :: "install_env \<Rightarrow> path \<Rightarrow> json \<Rightarrow> unit io" where
  "writeJson env p v = seq draw (\<lambda>n.
     let tmp = temporary env p n in
     finally_do
       (andthen (write_new tmp (Document v)) (andthen sync (andthen (rename tmp p) flushDirectory)))
       (remove_force tmp))"

definition writeSelection :: "install_env \<Rightarrow> path \<Rightarrow> selection \<Rightarrow> unit io" where
  "writeSelection env base state =
     seq (reading (\<lambda>d. (parseSelection d (base @ [STATE]), existsSync d (base @ [STATE_BAK])))) (\<lambda>r. case r of (previous, saved) \<Rightarrow>
     andthen (case previous of
         Some s \<Rightarrow> if \<not> saved \<or> sl_current s = sl_confirmed s then writeJson env (base @ [STATE_BAK]) (selection_json s) else ret ()
       | None \<Rightarrow> ret ())
     (writeJson env (base @ [STATE]) (selection_json state)))"

definition ownedDirectory :: "path \<Rightarrow> unit io" where
  "ownedDirectory p = andthen (mkdir_all p) (seq (reading (\<lambda>d. is_dir d p)) (\<lambda>b.
     if b then ret () else raise (Failure (js ''MeshTalk installation contains an unexpected directory link.''))))"

definition withInstallLock :: "path \<Rightarrow> 'a io \<Rightarrow> 'a io" where
  "withInstallLock base action =
     (let lock = base @ [LOCK] in
      seq (reading (\<lambda>d. lstat d lock)) (\<lambda>n. case n of
        None \<Rightarrow> andthen (put_new (File (Blob [])) lock) (holding lock action)
      | Some (File c) \<Rightarrow> holding lock action
      | Some other \<Rightarrow> raise (Failure (js ''MeshTalk installation lock is not a regular file.''))))"

end
