(* ===== verification/InstallReleases.thy ===== *)
theory InstallReleases
  imports InstallState
begin

text \<open>
  Releases in the store of an installation (\<open>common/release-install.ts\<close>): their manifests, staging a release,
  the records of running processes, removing what is no longer used, and publishing the selected release under
  the command of the user. On a POSIX system the command is a link to the launcher below \<open>.meshtalk-current\<close>,
  which is a link to the directory of the release; publishing a directory link is a Windows operation and a
  field of the environment.
\<close>

definition versions_of :: "path \<Rightarrow> path" where
  "versions_of base = base @ [versions_dir]"

definition release_dir :: "path \<Rightarrow> jsstr \<Rightarrow> path" where
  "release_dir base name = versions_of base @ [name]"

subsection \<open>Payloads\<close>

record payload =
  pl_version :: jsstr
  pl_files :: json_object

text \<open>\<open>value.files[file] ?? ""\<close> as the text that the pattern is tested on.\<close>

definition digest_text :: "install_env \<Rightarrow> json_object \<Rightarrow> jsstr \<Rightarrow> jsstr" where
  "digest_text env fs file =
     (let v = map_of fs file in if nullish v then [] else value_text (ie_number env) v)"

definition payloadManifest :: "install_env \<Rightarrow> disk \<Rightarrow> path \<Rightarrow> jsstr \<Rightarrow> payload option" where
  "payloadManifest env d base name =
     (if \<not> RELEASE_NAME name then None
      else if \<not> is_dir d (versions_of base) \<or> \<not> is_dir d (release_dir base name)
        \<or> \<not> regularFile d (release_dir base name @ [RELEASE]) then None
      else case read_json d (release_dir base name @ [RELEASE]) of
          None \<Rightarrow> None
        | Some v \<Rightarrow> (case (prop_of v ''version'', prop_of v ''files'') of
              (Some (JStr version), Some (JObj fs)) \<Rightarrow>
                if \<not> schema_ok v \<or> length fs \<noteq> length releaseFiles then None
                else if list_all (\<lambda>f. hex_digest (digest_text env fs f)) releaseFiles
                then Some \<lparr>pl_version = version, pl_files = fs\<rparr> else None
            | _ \<Rightarrow> None))"

definition digest_at :: "install_env \<Rightarrow> disk \<Rightarrow> path \<Rightarrow> jsstr option" where
  "digest_at env d p = map_option (ie_digest env) (read_file d p)"

definition payload_of :: "install_env \<Rightarrow> disk \<Rightarrow> path \<Rightarrow> jsstr \<Rightarrow> bool \<Rightarrow> payload option" where
  "payload_of env d base name verify = (case payloadManifest env d base name of
     None \<Rightarrow> None
   | Some v \<Rightarrow>
       if list_all (\<lambda>f. regularFile d (release_dir base name @ [f])
            \<and> (verify \<longrightarrow> (case digest_at env d (release_dir base name @ [f]) of
                 Some h \<Rightarrow> map_of (pl_files v) f = Some (JStr h) | None \<Rightarrow> False))) releaseFiles
       then Some v else None)"

definition allowed_files :: "jsstr list" where
  "allowed_files = releaseFiles @ [RELEASE, STAGING_MARKER]"

definition only_files :: "disk \<Rightarrow> path \<Rightarrow> jsstr list \<Rightarrow> bool" where
  "only_files d dir allowed = (case readdir d dir of
     Some names \<Rightarrow> list_all (\<lambda>f. f \<in> set allowed \<and> regularFile d (dir @ [f])) names
   | None \<Rightarrow> False)"

definition removablePayload :: "install_env \<Rightarrow> disk \<Rightarrow> path \<Rightarrow> jsstr \<Rightarrow> bool" where
  "removablePayload env d base name \<longleftrightarrow>
     payloadManifest env d base name \<noteq> None \<and> only_files d (release_dir base name) allowed_files"

subsection \<open>Staging\<close>

definition staging_prefix :: jsstr where "staging_prefix = js ''.staging-''"

definition staging_name :: "jsstr \<Rightarrow> bool" where
  "staging_name s \<longleftrightarrow> starts_with s staging_prefix \<and> drop 9 s \<noteq> []
     \<and> list_all (\<lambda>c. is_digit c \<or> is_letter c) (drop 9 s)"

definition ownedStaging :: "disk \<Rightarrow> path \<Rightarrow> bool" where
  "ownedStaging d dir \<longleftrightarrow> is_dir d dir \<and> regularFile d (dir @ [STAGING_MARKER])
     \<and> (case read_json d (dir @ [STAGING_MARKER]) of Some j \<Rightarrow> schema_ok j | None \<Rightarrow> False)"

definition files_json :: "jsstr \<Rightarrow> jsstr \<Rightarrow> json" where
  "files_json a b = JObj [(launcher, JStr a), (backend, JStr b)]"

definition manifest_json :: "jsstr \<Rightarrow> json \<Rightarrow> json" where
  "manifest_json version fs = JObj [(js ''schema'', JNum 1), (js ''version'', JStr version), (js ''files'', fs)]"

definition release_id :: "install_env \<Rightarrow> jsstr \<Rightarrow> json \<Rightarrow> jsstr" where
  "release_id env version fs =
     take 32 (ie_hash env (stringify (ie_number env) (JObj [(js ''version'', JStr version), (js ''files'', fs)])))"

definition missing_file :: "jsstr \<Rightarrow> io_error" where
  "missing_file name = Failure (js ''Release is missing '' @ name @ js ''. Run the MeshTalk installer to repair it.'')"

definition stage_file :: "install_env \<Rightarrow> path \<Rightarrow> path \<Rightarrow> jsstr \<Rightarrow> jsstr io" where
  "stage_file env source staging name =
     seq (reading (\<lambda>d. regularFile d (source @ [name]))) (\<lambda>present.
       if \<not> present then raise (missing_file name)
       else andthen (copy_new (source @ [name]) (staging @ [name]))
            (andthen sync (reading_or no_entry (\<lambda>d. digest_at env d (staging @ [name])))))"

text \<open>The staged directory becomes the release, unless an intact one is there already.\<close>

definition settle_release :: "install_env \<Rightarrow> path \<Rightarrow> path \<Rightarrow> jsstr \<Rightarrow> jsstr io" where
  "settle_release env base staging name0 =
     seq (reading (\<lambda>d. existsSync d (release_dir base name0) \<and> payload_of env d base name0 True = None)) (\<lambda>damaged.
     seq draw (\<lambda>n.
     let name = (if damaged then release_prefix @ filter (\<lambda>c. c \<noteq> 45) (ie_uuid env n) else name0) in
     seq (reading (\<lambda>d. existsSync d (release_dir base name))) (\<lambda>present.
     andthen (if present then ret () else andthen (rename staging (release_dir base name)) flushDirectory) (ret name))))"

definition stage_files :: "install_env \<Rightarrow> path \<Rightarrow> path \<Rightarrow> path \<Rightarrow> jsstr \<Rightarrow> jsstr io" where
  "stage_files env base staging source version =
     andthen (writeJson env (staging @ [STAGING_MARKER]) (JObj [(js ''schema'', JNum 1)]))
     (seq (stage_file env source staging launcher) (\<lambda>a.
     (seq (stage_file env source staging backend) (\<lambda>b.
     andthen (writeJson env (staging @ [RELEASE]) (manifest_json version (files_json a b)))
     (settle_release env base staging (release_prefix @ release_id env version (files_json a b)))))))"

definition staging_path :: "install_env \<Rightarrow> path \<Rightarrow> nat \<Rightarrow> path" where
  "staging_path env base n = versions_of base @ [staging_prefix @ take 6 (filter (\<lambda>c. c \<noteq> 45) (ie_uuid env n))]"

definition stageDirectory :: "install_env \<Rightarrow> path \<Rightarrow> path \<Rightarrow> jsstr \<Rightarrow> jsstr io" where
  "stageDirectory env base source version =
     andthen (ownedDirectory (versions_of base)) (seq draw (\<lambda>n.
     let staging = staging_path env base n in
     andthen (mkdir staging)
     (finally_do (stage_files env base staging source version) (remove_tree staging))))"

subsection \<open>Running processes\<close>

record usage_record =
  us_pid :: nat
  us_release :: json

definition processMayBeAlive :: "install_env \<Rightarrow> nat \<Rightarrow> bool" where
  "processMayBeAlive env pid \<longleftrightarrow> ie_signal env pid \<noteq> Some ''ESRCH''"

fun whole_number :: "json option \<Rightarrow> nat option" where
  "whole_number (Some (JNum r)) = (if r = of_int \<lfloor>r\<rfloor> \<and> 0 < r then Some (nat \<lfloor>r\<rfloor>) else None)"
| "whole_number _ = None"

definition own_release :: json where "own_release = JStr [46]"

definition usage_of :: "install_env \<Rightarrow> json \<Rightarrow> usage_record option" where
  "usage_of env j = (case (whole_number (prop_of j ''pid''), prop_of j ''release'', prop_of j ''kind'') of
     (Some pid, release, Some (JStr kind)) \<Rightarrow>
       if release \<noteq> Some own_release \<and> \<not> RELEASE_NAME (value_text (ie_number env) release) then None
       else if kind \<notin> {js ''launcher'', js ''backend''} then None
       else map_option (\<lambda>r. \<lparr>us_pid = pid, us_release = r\<rparr>) release
   | _ \<Rightarrow> None)"

primrec live_records :: "install_env \<Rightarrow> path \<Rightarrow> jsstr list \<Rightarrow> usage_record list option io" where
  "live_records env dir [] = ret (Some [])"
| "live_records env dir (entry # es) =
     (if \<not> ends_with entry (js ''.json'') then live_records env dir es
      else seq (reading (\<lambda>d. if regularFile d (dir @ [entry])
             then Option.bind (read_json d (dir @ [entry])) (usage_of env) else None)) (\<lambda>r. case r of
          None \<Rightarrow> ret None
        | Some u \<Rightarrow>
            if processMayBeAlive env (us_pid u)
            then seq (live_records env dir es) (\<lambda>us. ret (map_option (Cons u) us))
            else andthen (remove (dir @ [entry])) (live_records env dir es)))"

definition liveUsage :: "install_env \<Rightarrow> path \<Rightarrow> usage_record list option io" where
  "liveUsage env base =
     (let dir = base @ [USAGE_DIR] in
      seq (reading (\<lambda>d. (existsSync d dir, is_dir d dir, readdir d dir))) (\<lambda>r. case r of (present, directory, names) \<Rightarrow>
        if \<not> present then ret (Some [])
        else if \<not> directory then ret None
        else case names of
            None \<Rightarrow> ret None
          | Some es \<Rightarrow> try_catch (live_records env dir es) (\<lambda>e. ret None)))"

definition usage_json :: "nat \<Rightarrow> jsstr \<Rightarrow> jsstr \<Rightarrow> json" where
  "usage_json pid release kind = JObj [(js ''pid'', JNum (of_nat pid)), (js ''release'', JStr release), (js ''kind'', JStr kind)]"

definition retain :: "install_env \<Rightarrow> path \<Rightarrow> jsstr \<Rightarrow> nat \<Rightarrow> jsstr \<Rightarrow> path io" where
  "retain env base release pid kind =
     andthen (ownedDirectory (base @ [USAGE_DIR])) (seq draw (\<lambda>n.
     let p = base @ [USAGE_DIR, ie_uuid env n @ js ''.json''] in
     andthen (writeJson env p (usage_json pid release kind)) (ret p)))"

text \<open>A line of \<open>ps -A -o pid=,comm=\<close>.\<close>

definition process_line :: "jsstr \<Rightarrow> (nat \<times> jsstr) option" where
  "process_line l =
     (let t = trim l; ds = takeWhile is_digit t; r = dropWhile is_digit t; name = dropWhile js_space r in
      if ds = [] \<or> r = [] \<or> \<not> js_space (hd r) \<or> name = [] \<or> \<not> list_all (\<lambda>c. \<not> is_newline c) name then None
      else Some (digits_value ds, name))"

text \<open>The executable of a process; \<open>None\<close> where it cannot be read.\<close>

definition executable_of :: "install_env \<Rightarrow> disk \<Rightarrow> nat \<Rightarrow> jsstr \<Rightarrow> jsstr option" where
  "executable_of env d pid command =
     (if ie_linux env then ie_executable env pid
      else map_option path_text (realpath d (resolve_parts (ie_cwd env) command)))"

definition untracked_line :: "install_env \<Rightarrow> disk \<Rightarrow> jsstr \<Rightarrow> nat list \<Rightarrow> jsstr \<Rightarrow> bool" where
  "untracked_line env d base known l = (case process_line l of
     None \<Rightarrow> True
   | Some (pid, command) \<Rightarrow>
       if starts_with (ie_lower env (posix_basename command)) launcher \<and> pid \<notin> set known
       then (case executable_of env d pid command of
               None \<Rightarrow> processMayBeAlive env pid
             | Some p \<Rightarrow> starts_with p (base @ [47]))
       else False)"

definition hasUntrackedProcess :: "install_env \<Rightarrow> disk \<Rightarrow> path \<Rightarrow> nat list \<Rightarrow> bool" where
  "hasUntrackedProcess env d base known = (case (realpath d base, ie_processes env) of
     (Some q, Some listing) \<Rightarrow>
       trim listing = [] \<or> list_ex (untracked_line env d (path_text q) known) (split_on 10 (trim listing))
   | _ \<Rightarrow> True)"

subsection \<open>Publishing\<close>

definition entryDirectory :: "install_env \<Rightarrow> disk \<Rightarrow> path \<Rightarrow> selection \<Rightarrow> path" where
  "entryDirectory env d base state = (case sl_entry state of
     Some e \<Rightarrow> path_at e
   | None \<Rightarrow> (case installationStoreEntry env d base of Some e \<Rightarrow> e | None \<Rightarrow> base))"

definition link_target :: "path \<Rightarrow> link \<Rightarrow> path" where
  "link_target base t = (case t of Absolute p \<Rightarrow> p | Relative p \<Rightarrow> foldl PosixPath.walk base p)"

definition in_versions :: "path \<Rightarrow> path \<Rightarrow> bool" where
  "in_versions base p \<longleftrightarrow> p \<noteq> [] \<and> butlast p = versions_of base \<and> RELEASE_NAME (last p)"

definition replaceSymlink :: "install_env \<Rightarrow> path \<Rightarrow> link \<Rightarrow> unit io" where
  "replaceSymlink env p t = seq draw (\<lambda>n.
     let tmp = temporary env p n in
     finally_do (andthen (symlink t tmp) (andthen (rename tmp p) flushDirectory)) (remove_force tmp))"

definition occupied_link :: io_error where
  "occupied_link = Failure (js ''The MeshTalk current-link path is occupied by another file. The existing installation was left unchanged.'')"

definition foreign_link :: io_error where
  "foreign_link = Failure (js ''The MeshTalk current link points outside its release store. Run the installer to repair it.'')"

definition command_target :: "path \<Rightarrow> selection \<Rightarrow> link" where
  "command_target base state =
     (if truthy (sl_entry state) then Absolute (base @ [CURRENT_LINK, launcher]) else Relative [CURRENT_LINK, launcher])"

definition publish_link :: "install_env \<Rightarrow> path \<Rightarrow> selection \<Rightarrow> jsstr \<Rightarrow> unit io" where
  "publish_link env base state current =
     seq (reading (\<lambda>d. lstat d (base @ [CURRENT_LINK]))) (\<lambda>info.
     andthen (case info of
         None \<Rightarrow> ret ()
       | Some (Link t) \<Rightarrow> if in_versions base (link_target base t) then ret () else raise foreign_link
       | Some other \<Rightarrow> raise occupied_link)
     (andthen (replaceSymlink env (base @ [CURRENT_LINK]) (Relative [versions_dir, current]))
     (seq (reading (\<lambda>d. let entry = entryDirectory env d base state @ [launcher] in (entry, readlink d entry))) (\<lambda>r.
      case r of (entry, now) \<Rightarrow>
        if now \<noteq> Some (command_target base state) then replaceSymlink env entry (command_target base state) else ret ()))))"

definition publishEntry :: "install_env \<Rightarrow> path \<Rightarrow> selection \<Rightarrow> unit io" where
  "publishEntry env base state = (case sl_current state of
     None \<Rightarrow> ret ()
   | Some current \<Rightarrow> (case sl_layout state of
        Some FileLink \<Rightarrow> publish_link env base state current
      | Some DirectoryLink \<Rightarrow> ie_publishDirectory env base (sl_entry state) (release_dir base current)
      | _ \<Rightarrow> ret ()))"

definition linkedEntryRelease :: "disk \<Rightarrow> path \<Rightarrow> selection \<Rightarrow> jsstr option" where
  "linkedEntryRelease d base state =
     (let entry = (case sl_layout state of
          Some FileLink \<Rightarrow> Some (base @ [CURRENT_LINK]) | Some DirectoryLink \<Rightarrow> map_option path_at (sl_entry state) | _ \<Rightarrow> None)
      in case Option.bind entry (realpath d) of
          Some target \<Rightarrow> if in_versions base target then Some (last target) else None
        | None \<Rightarrow> None)"

subsection \<open>Selecting\<close>

definition incomplete_update :: io_error where
  "incomplete_update = Failure (js ''The downloaded MeshTalk update is incomplete or damaged. The installed release was left unchanged; download the update again.'')"

definition missing_release :: io_error where
  "missing_release = Failure (js ''The selected MeshTalk release is missing or damaged. Run the installer to repair it.'')"

definition activate :: "install_env \<Rightarrow> path \<Rightarrow> selection \<Rightarrow> selection io" where
  "activate env base state = (case sl_pending state of
     None \<Rightarrow> ret state
   | Some pending \<Rightarrow>
       seq (reading (\<lambda>d. (payload_of env d base pending True, existsSync d (base @ [STATE])))) (\<lambda>r. case r of (verified, hadSelection) \<Rightarrow>
         if verified = None then raise incomplete_update
         else let next' = state\<lparr>sl_current := Some pending, sl_pending := None\<rparr> in
           andthen (writeSelection env base next')
           (andthen (try_catch (publishEntry env base next') (\<lambda>e.
              andthen (if hadSelection then writeJson env (base @ [STATE]) (selection_json state)
                       else remove_force (base @ [STATE]))
                      (raise e)))
           (ret next'))))"

end
