(* ===== verification/ReleaseInstall.thy ===== *)
theory ReleaseInstall
  imports InstallReleases
begin

text \<open>
  The operations of \<open>common/release-install.ts\<close> on an installation: removing what is no longer used, moving an
  installation to its private store, staging and activating updates, starting an installed launcher, installing
  from a directory and uninstalling. The branches for Windows are left out.
\<close>

subsection \<open>Removing what is no longer used\<close>

definition own_only :: "install_env \<Rightarrow> usage_record list option \<Rightarrow> bool" where
  "own_only env usage = (case usage of None \<Rightarrow> False | Some us \<Rightarrow> \<not> list_ex (\<lambda>u. us_pid u \<noteq> ie_pid env) us)"

text \<open>Whether a process may still use the files of an installation.\<close>

definition in_use :: "install_env \<Rightarrow> path \<Rightarrow> bool io" where
  "in_use env base = seq (liveUsage env base) (\<lambda>usage.
     reading (\<lambda>d. \<not> own_only env usage \<or> hasUntrackedProcess env d base [ie_pid env]))"

definition release_names :: "usage_record list \<Rightarrow> jsstr list" where
  "release_names us = List.map_filter (\<lambda>u. string_value (Some (us_release u))) us"

definition option_list :: "'a option \<Rightarrow> 'a list" where
  "option_list v = (case v of Some x \<Rightarrow> [x] | None \<Rightarrow> [])"

text \<open>The releases that are kept; \<open>None\<close> where nothing may be removed at all.\<close>

definition kept_releases :: "install_env \<Rightarrow> disk \<Rightarrow> path \<Rightarrow> selection \<Rightarrow> usage_record list \<Rightarrow> jsstr list option" where
  "kept_releases env d base state us =
     (if hasUntrackedProcess env d base (ie_pid env # map us_pid us) then None
      else case realpath d (ie_execPath env) of
          None \<Rightarrow> None
        | Some actual \<Rightarrow>
            let linked = linkedEntryRelease d base state; needs_link = sl_layout state \<in> {Some FileLink, Some DirectoryLink} in
            if needs_link \<and> linked = None then None
            else Some (option_list (sl_current state) @ option_list (sl_pending state) @ release_names us
              @ (if length actual \<ge> 2 \<and> butlast (butlast actual) = versions_of base then [parent_name actual] else [])
              @ (if needs_link then option_list linked else [])
              @ (case parseSelection d (base @ [STATE_BAK]) of Some b \<Rightarrow> option_list (sl_current b) | None \<Rightarrow> [])))"

definition prune_name :: "install_env \<Rightarrow> path \<Rightarrow> jsstr list \<Rightarrow> jsstr \<Rightarrow> unit io" where
  "prune_name env base keep name =
     (if staging_name name
      then seq (reading (\<lambda>d. ownedStaging d (release_dir base name))) (\<lambda>owned.
             if owned then attempt (remove_tree (release_dir base name)) else ret ())
      else seq (reading (\<lambda>d. removablePayload env d base name)) (\<lambda>removable.
             if name \<in> set keep \<or> \<not> removable then ret () else attempt (remove_tree (release_dir base name))))"

definition remove_if :: "(disk \<Rightarrow> bool) \<Rightarrow> unit io \<Rightarrow> unit io" where
  "remove_if ok m = seq (reading ok) (\<lambda>b. if b then m else ret ())"

definition legacy_release :: "path \<Rightarrow> jsstr \<Rightarrow> unit io" where
  "legacy_release base name = remove_if (\<lambda>d. is_dir d (release_dir base name)) (attempt (remove_tree (release_dir base name)))"

subsection \<open>The journal of a relocation\<close>

record relocation =
  rl_entry :: jsstr
  rl_previous :: jsstr
  rl_releases :: "jsstr list"
  rl_legacy :: "json list"
  rl_files :: json_object

definition names_of :: "json option \<Rightarrow> jsstr list option" where
  "names_of v = (case v of
     Some (JArr xs) \<Rightarrow>
       if list_all (\<lambda>j. case j of JStr s \<Rightarrow> RELEASE_NAME s | _ \<Rightarrow> False) xs
       then Some (List.map_filter (\<lambda>j. string_value (Some j)) xs) else None
   | _ \<Rightarrow> None)"

definition same_path :: "disk \<Rightarrow> path \<Rightarrow> path \<Rightarrow> bool" where
  "same_path d a b \<longleftrightarrow> sameInstallationPath d a b = Some True"

definition relocation_of :: "json \<Rightarrow> relocation option" where
  "relocation_of v =
     (if \<not> schema_ok v then None
      else case (prop_of v ''previous'', prop_of v ''entry'', names_of (prop_of v ''releases''), prop_of v ''files'') of
          (Some (JStr previous), Some (JStr entry), Some releases, Some (JObj fs)) \<Rightarrow>
            if \<not> absolute previous then None
            else Some \<lparr>rl_entry = entry, rl_previous = previous, rl_releases = releases,
                   rl_legacy = (case prop_of v ''legacy'' of Some (JArr xs) \<Rightarrow> xs | _ \<Rightarrow> []), rl_files = fs\<rparr>
        | _ \<Rightarrow> None)"

text \<open>The files of a previous installation that a journal may name.\<close>

definition recorded_names :: "jsstr list" where
  "recorded_names = [STATE, STATE_BAK, LEGACY_STATE, LEGACY_STATE_BAK] @ releaseFiles"

definition unchanged_file :: "install_env \<Rightarrow> disk \<Rightarrow> path \<Rightarrow> json_object \<Rightarrow> jsstr \<Rightarrow> bool" where
  "unchanged_file env d previous fs name \<longleftrightarrow> regularFile d (previous @ [name])
     \<and> (case digest_at env d (previous @ [name]) of Some h \<Rightarrow> map_of fs name = Some (JStr h) | None \<Rightarrow> False)"

text \<open>An older updater may have changed the selection since it was imported.\<close>

definition selection_unchanged :: "install_env \<Rightarrow> disk \<Rightarrow> path \<Rightarrow> json_object \<Rightarrow> bool" where
  "selection_unchanged env d previous fs \<longleftrightarrow>
     list_all (\<lambda>name. regularFile d (previous @ [name]) \<longrightarrow> unchanged_file env d previous fs name) [STATE, STATE_BAK]"

definition clean_release :: "install_env \<Rightarrow> path \<Rightarrow> jsstr \<Rightarrow> unit io" where
  "clean_release env previous name =
     remove_if (\<lambda>d. payload_of env d previous name True \<noteq> None \<and> only_files d (release_dir previous name) allowed_files)
       (remove_tree (release_dir previous name))"

definition clean_legacy :: "path \<Rightarrow> json \<Rightarrow> unit io" where
  "clean_legacy previous j = (case j of
     JStr name \<Rightarrow>
       if legacy_name name
       then remove_if (\<lambda>d. is_dir d (release_dir previous name) \<and> only_files d (release_dir previous name) releaseFiles)
              (remove_tree (release_dir previous name))
       else ret ()
   | _ \<Rightarrow> ret ())"

definition clean_file :: "install_env \<Rightarrow> path \<Rightarrow> selection \<Rightarrow> path \<Rightarrow> json_object \<Rightarrow> jsstr \<Rightarrow> unit io" where
  "clean_file env base state previous fs name =
     (if name \<notin> set recorded_names then ret ()
      else remove_if (\<lambda>d. \<not> (sl_layout state = Some Flat \<and> name = launcher \<and> same_path d previous (entryDirectory env d base state))
             \<and> unchanged_file env d previous fs name) (remove (previous @ [name])))"

definition clean_link :: "path \<Rightarrow> jsstr list \<Rightarrow> unit io" where
  "clean_link previous releases = remove_if (\<lambda>d. case readlink d (previous @ [CURRENT_LINK]) of
       Some t \<Rightarrow> let target = link_target previous t in
         target \<noteq> [] \<and> butlast target = versions_of previous \<and> last target \<in> set releases
     | None \<Rightarrow> False) (remove (previous @ [CURRENT_LINK]))"

definition clean_records :: "path \<Rightarrow> unit io" where
  "clean_records base =
     (let records = base @ [USAGE_DIR] in
      seq (reading (\<lambda>d. if is_dir d records then readdir d records else None)) (\<lambda>r. case r of
        None \<Rightarrow> ret ()
      | Some names \<Rightarrow>
          andthen (for_each names (\<lambda>name.
            remove_if (\<lambda>d. regularFile d (records @ [name]) \<and> ends_with name (js ''.json'')) (remove (records @ [name]))))
          (attempt (remove_dir records))))"

definition lock_names :: "jsstr list" where
  "lock_names = map (\<lambda>suffix. LOCK @ js suffix) [[], ''-journal'', ''-wal'', ''-shm'']"

text \<open>Inside the lock of the previous installation; \<open>False\<close> where it has to stay.\<close>

definition clean_previous :: "install_env \<Rightarrow> path \<Rightarrow> selection \<Rightarrow> relocation \<Rightarrow> path \<Rightarrow> bool io" where
  "clean_previous env base state r previous = seq (in_use env previous) (\<lambda>busy.
     if busy then ret False
     else seq (reading_or no_entry (\<lambda>d. realpath d (ie_execPath env))) (\<lambda>actual.
       if below previous actual \<and> actual \<noteq> previous then ret False
       else seq (reading (\<lambda>d. selection_unchanged env d previous (rl_files r))) (\<lambda>unchanged.
         if \<not> unchanged then ret False
         else andthen (for_each (rl_releases r) (clean_release env previous))
              (andthen (for_each (rl_legacy r) (clean_legacy previous))
              (andthen (attempt (remove_dir (versions_of previous)))
              (andthen (for_each (map fst (rl_files r)) (clean_file env base state previous (rl_files r)))
              (andthen (clean_link previous (rl_releases r))
              (andthen (clean_records previous) (ret True)))))))))"

definition clean_locks :: "path \<Rightarrow> unit io" where
  "clean_locks previous = for_each lock_names (\<lambda>name.
     remove_if (\<lambda>d. regularFile d (previous @ [name])) (remove (previous @ [name])))"

definition clean_relocation :: "install_env \<Rightarrow> path \<Rightarrow> selection \<Rightarrow> relocation \<Rightarrow> unit io" where
  "clean_relocation env base state r =
     (let marker = base @ [RELOCATION]; previous = path_at (rl_previous r) in
      seq (reading (\<lambda>d. sameInstallationPath d previous base = Some False
          \<and> same_path d (resolve_parts (ie_cwd env) (rl_entry r)) (entryDirectory env d base state))) (\<lambda>valid.
      if \<not> valid then ret ()
      else seq (reading (\<lambda>d. (existsSync d previous, is_dir d previous))) (\<lambda>p. case p of (present, directory) \<Rightarrow>
        if \<not> present then remove marker
        else if \<not> directory then ret ()
        else seq (withInstallLock previous (clean_previous env base state r previous)) (\<lambda>cleaned.
          if \<not> cleaned then ret () else andthen (clean_locks previous) (remove marker)))))"

definition relocation_at :: "disk \<Rightarrow> path \<Rightarrow> relocation option" where
  "relocation_at d base =
     (if regularFile d (base @ [RELOCATION]) then Option.bind (read_json d (base @ [RELOCATION])) relocation_of else None)"

definition cleanupRelocation :: "install_env \<Rightarrow> path \<Rightarrow> selection \<Rightarrow> unit io" where
  "cleanupRelocation env base state = attempt (seq (reading (\<lambda>d. relocation_at d base)) (\<lambda>v. case v of
     None \<Rightarrow> ret () | Some r \<Rightarrow> clean_relocation env base state r))"

text \<open>Once the current release has started, what came before it goes as well.\<close>

definition prune_confirmed :: "install_env \<Rightarrow> path \<Rightarrow> selection \<Rightarrow> usage_record list \<Rightarrow> unit io" where
  "prune_confirmed env base state us =
     (if truthy (sl_current state) \<and> sl_confirmed state = sl_current state \<and> \<not> list_ex (\<lambda>u. us_release u = own_release) us
      then andthen (cleanupRelocation env base state)
           (andthen (remove_if (\<lambda>d. regularFile d (base @ [backend])) (attempt (remove (base @ [backend]))))
           (for_each (case sl_legacy state of Some ns \<Rightarrow> ns | None \<Rightarrow> []) (legacy_release base)))
      else ret ())"

definition version_names :: "disk \<Rightarrow> path \<Rightarrow> jsstr list option" where
  "version_names d base = (if is_dir d (versions_of base) then readdir d (versions_of base) else None)"

definition prune_versions :: "install_env \<Rightarrow> path \<Rightarrow> selection \<Rightarrow> usage_record list \<Rightarrow> jsstr list \<Rightarrow> unit io" where
  "prune_versions env base state us keep = seq (reading (\<lambda>d. version_names d base)) (\<lambda>r. case r of
     None \<Rightarrow> ret ()
   | Some names \<Rightarrow> andthen (for_each names (prune_name env base keep)) (prune_confirmed env base state us))"

definition prune :: "install_env \<Rightarrow> path \<Rightarrow> selection \<Rightarrow> unit io" where
  "prune env base state = seq (liveUsage env base) (\<lambda>usage. case usage of
     None \<Rightarrow> ret ()
   | Some us \<Rightarrow> seq (reading (\<lambda>d. kept_releases env d base state us)) (\<lambda>kept. case kept of
        None \<Rightarrow> ret ()
      | Some keep \<Rightarrow> prune_versions env base state us keep))"

definition cleanupReleases :: "install_env \<Rightarrow> path \<Rightarrow> unit io" where
  "cleanupReleases env base = attempt (withInstallLock base (seq (selecting base) (prune env base)))"

end
