(* ===== verification/InstallLaunch.thy ===== *)
theory InstallLaunch
  imports ReleaseInstall
begin

text \<open>
  From the command to the launcher that runs (\<open>common/release-install.ts\<close>): finding the store of an
  installation, moving an older installation into it, starting an installed launcher, staging and activating
  updates, installing and uninstalling.
\<close>

subsection \<open>The store of an installation\<close>

definition grandparent :: "path \<Rightarrow> path" where
  "grandparent p = butlast (butlast p)"

text \<open>The store behind the command link, if the link leads into one.\<close>

definition linked_store :: "install_env \<Rightarrow> disk \<Rightarrow> path \<Rightarrow> path option" where
  "linked_store env d installDir =
     (if \<not> is_link d (installDir @ [launcher]) then None
      else case realpath d (installDir @ [launcher]) of
          None \<Rightarrow> None
        | Some actual \<Rightarrow>
            let candidate = butlast (grandparent actual) in
            (case installationStoreEntry env d candidate of
               Some entry \<Rightarrow> if same_path d entry installDir then Some candidate else None
             | None \<Rightarrow> None))"

definition managedInstallRoot :: "install_env \<Rightarrow> disk \<Rightarrow> path \<Rightarrow> path option" where
  "managedInstallRoot env d installDir =
     (if installationStoreEntry env d installDir \<noteq> None then realpath d installDir
      else case linked_store env d installDir of
          Some candidate \<Rightarrow> Some candidate
        | None \<Rightarrow> (case ownedPrivateInstallationStore env d installDir of
              None \<Rightarrow> None
            | Some private \<Rightarrow>
                if private \<noteq> None \<and> existsSync d (the private @ [STATE]) then private
                else (case realpath d installDir of
                    None \<Rightarrow> None
                  | Some actual \<Rightarrow>
                      Some (if RELEASE_NAME (base_name actual) \<and> parent_name actual = versions_dir
                            then grandparent actual else actual))))"

definition managed_root :: "install_env \<Rightarrow> path \<Rightarrow> path io" where
  "managed_root env installDir = reading_or no_entry (\<lambda>d. managedInstallRoot env d installDir)"

definition installationRoot :: "install_env \<Rightarrow> disk \<Rightarrow> path \<Rightarrow> path option" where
  "installationRoot env d executable = (case realpath d executable of
     None \<Rightarrow> None
   | Some actual \<Rightarrow>
       let directory = butlast actual in
       if parent_name directory = versions_dir then realpath d (grandparent directory)
       else if base_name executable = launcher then managedInstallRoot env d directory else None)"

definition installationEntryDirectory :: "install_env \<Rightarrow> path \<Rightarrow> path io" where
  "installationEntryDirectory env installDir = seq (managed_root env installDir) (\<lambda>base.
     seq (selecting base) (\<lambda>state. reading (\<lambda>d. entryDirectory env d base state)))"

definition relocation_previous :: "install_env \<Rightarrow> disk \<Rightarrow> path \<Rightarrow> selection \<Rightarrow> path list" where
  "relocation_previous env d base state =
     (if \<not> regularFile d (base @ [RELOCATION]) then []
      else case read_json d (base @ [RELOCATION]) of
          None \<Rightarrow> []
        | Some v \<Rightarrow> (case (prop_of v ''entry'', prop_of v ''previous'') of
              (Some (JStr entry), Some (JStr previous)) \<Rightarrow>
                if schema_ok v \<and> same_path d (resolve_parts (ie_cwd env) entry) (entryDirectory env d base state) \<and> absolute previous
                then [path_at previous] else []
            | _ \<Rightarrow> []))"

definition installationProcessRoots :: "install_env \<Rightarrow> disk \<Rightarrow> path \<Rightarrow> path list option" where
  "installationProcessRoots env d installDir = (case managedInstallRoot env d installDir of
     None \<Rightarrow> None
   | Some base \<Rightarrow> Some (case readSelection d base of
        None \<Rightarrow> [base]
      | Some state \<Rightarrow> remdups ([base, entryDirectory env d base state] @ relocation_previous env d base state)))"

definition hasManagedBootstrap :: "install_env \<Rightarrow> disk \<Rightarrow> path \<Rightarrow> bool" where
  "hasManagedBootstrap env d installDir = (case managedInstallRoot env d installDir of
     None \<Rightarrow> False
   | Some base \<Rightarrow> (case readSelection d base of
        None \<Rightarrow> False
      | Some state \<Rightarrow>
          let command = entryDirectory env d base state @ [launcher] in
          (case sl_layout state of
             Some FileLink \<Rightarrow> (case sl_current state of
                 Some current \<Rightarrow> realpath d command = Some (release_dir base current @ [launcher]) | None \<Rightarrow> False)
           | _ \<Rightarrow> truthy (sl_bootstrap state) \<and> regularFile d command \<and> digest_at env d command = sl_bootstrap state)))"

subsection \<open>Older installations\<close>

definition legacy_damaged :: io_error where
  "legacy_damaged = Failure (js ''The previous MeshTalk release selection is damaged. Run the installer to repair it.'')"

definition legacy_unsafe :: io_error where
  "legacy_unsafe = Failure (js ''The previous MeshTalk release directory is unsafe. Run the installer to repair it.'')"

definition legacy_incomplete :: io_error where
  "legacy_incomplete = Failure (js ''The previous MeshTalk release is incomplete. Run the installer to repair it.'')"

text \<open>\<open>manifest.files?.[file]?.sha256\<close>.\<close>

definition legacy_digest :: "json \<Rightarrow> jsstr \<Rightarrow> json option" where
  "legacy_digest v file = (case prop_of v ''files'' of
     Some (JObj fs) \<Rightarrow> (case map_of fs file of Some f \<Rightarrow> prop_of f ''sha256'' | None \<Rightarrow> None)
   | _ \<Rightarrow> None)"

definition legacy_selection :: "json \<Rightarrow> jsstr option" where
  "legacy_selection v = (case prop_of v ''current'' of
     Some (JStr name) \<Rightarrow> if schema_ok v \<and> legacy_name name then Some name else None
   | _ \<Rightarrow> None)"

definition migrateVersionManifest :: "install_env \<Rightarrow> path \<Rightarrow> unit io" where
  "migrateVersionManifest env base =
     seq (reading (\<lambda>d. \<not> existsSync d (base @ [STATE]) \<and> existsSync d (base @ [LEGACY_STATE]))) (\<lambda>old.
     if \<not> old then ret ()
     else seq (reading_or Thrown (\<lambda>d. read_json d (base @ [LEGACY_STATE]))) (\<lambda>v. case legacy_selection v of
         None \<Rightarrow> raise legacy_damaged
       | Some name \<Rightarrow>
           let dir = release_dir base name in
           seq (reading (\<lambda>d. (is_dir d (versions_of base) \<and> is_dir d dir,
               list_all (\<lambda>f. regularFile d (dir @ [f]) \<and> (case digest_at env d (dir @ [f]) of
                   Some h \<Rightarrow> legacy_digest v f = Some (JStr h) | None \<Rightarrow> False)) releaseFiles))) (\<lambda>r. case r of (safe, whole) \<Rightarrow>
             if \<not> safe then raise legacy_unsafe
             else if \<not> whole then raise legacy_incomplete
             else seq (stageDirectory env base dir (value_text (ie_number env) (prop_of v ''targetVersion''))) (\<lambda>current.
               writeSelection env base (no_selection\<lparr>sl_current := Some current, sl_legacy := Some [name]\<rparr>)))))"

definition damaged_previous :: io_error where
  "damaged_previous = Failure (js ''The existing MeshTalk release is damaged. Run the installer to repair it before migrating.'')"

text \<open>The verified releases of the previous installation are copied; a damaged one that is only pending is skipped.\<close>

primrec import_releases ::
  "install_env \<Rightarrow> path \<Rightarrow> path \<Rightarrow> jsstr option \<Rightarrow> jsstr option list \<Rightarrow> (jsstr, jsstr) jsmap \<Rightarrow> (jsstr, jsstr) jsmap io" where
  "import_releases env base previous pending [] m = ret m"
| "import_releases env base previous pending (v # vs) m = (case v of
     None \<Rightarrow> import_releases env base previous pending vs m
   | Some name \<Rightarrow>
       if map_get m name \<noteq> None then import_releases env base previous pending vs m
       else seq (reading (\<lambda>d. payload_of env d previous name True)) (\<lambda>manifest. case manifest of
           None \<Rightarrow> if pending = Some name then import_releases env base previous pending vs m else raise damaged_previous
         | Some p \<Rightarrow> seq (stageDirectory env base (release_dir previous name) (pl_version p)) (\<lambda>new.
             import_releases env base previous pending vs (map_set name new m))))"

definition import_backup ::
  "install_env \<Rightarrow> path \<Rightarrow> path \<Rightarrow> selection option \<Rightarrow> (jsstr, jsstr) jsmap \<Rightarrow> (jsstr, jsstr) jsmap io" where
  "import_backup env base previous old m = (case Option.bind old sl_current of
     None \<Rightarrow> ret m
   | Some name \<Rightarrow>
       if map_get m name \<noteq> None then ret m
       else seq (reading (\<lambda>d. payload_of env d previous name True)) (\<lambda>manifest. case manifest of
           None \<Rightarrow> ret m
         | Some p \<Rightarrow> seq (stageDirectory env base (release_dir previous name) (pl_version p)) (\<lambda>new. ret (map_set name new m))))"

definition mapped :: "(jsstr, jsstr) jsmap \<Rightarrow> jsstr option \<Rightarrow> jsstr option" where
  "mapped m v = Option.bind v (map_get m)"

definition previous_files :: "install_env \<Rightarrow> disk \<Rightarrow> path \<Rightarrow> json_object" where
  "previous_files env d previous = List.map_filter (\<lambda>name.
     if regularFile d (previous @ [name]) then map_option (\<lambda>h. (name, JStr h)) (digest_at env d (previous @ [name])) else None)
     recorded_names"

definition previous_releases :: "install_env \<Rightarrow> disk \<Rightarrow> path \<Rightarrow> jsstr list" where
  "previous_releases env d previous =
     (case version_names d previous of
        Some names \<Rightarrow> filter (removablePayload env d previous) names
      | None \<Rightarrow> [])"

definition relocation_json :: "path \<Rightarrow> path \<Rightarrow> jsstr list \<Rightarrow> jsstr list \<Rightarrow> json_object \<Rightarrow> json" where
  "relocation_json entry previous releases legacy fs = JObj [(js ''schema'', JNum 1), (js ''entry'', JStr (path_text entry)),
     (js ''previous'', JStr (path_text previous)), (js ''releases'', JArr (map JStr releases)),
     (js ''legacy'', JArr (map JStr legacy)), (js ''files'', JObj fs)]"

definition complete_pair :: "disk \<Rightarrow> path \<Rightarrow> bool" where
  "complete_pair d dir \<longleftrightarrow> list_all (\<lambda>f. regularFile d (dir @ [f])) releaseFiles"

text \<open>The selection of the new store, written and published.\<close>

definition select_imported ::
  "install_env \<Rightarrow> path \<Rightarrow> path \<Rightarrow> selection \<Rightarrow> selection option \<Rightarrow> (jsstr, jsstr) jsmap \<Rightarrow> jsstr \<Rightarrow> path io" where
  "select_imported env base entry state old m current =
     seq (reading (\<lambda>d. if regularFile d (entry @ [launcher]) then digest_at env d (entry @ [launcher]) else None)) (\<lambda>own.
     let next' = \<lparr>sl_current = Some current, sl_pending = mapped m (sl_pending state), sl_confirmed = mapped m (sl_confirmed state),
           sl_bootstrap = (if sl_bootstrap state \<noteq> None then sl_bootstrap state else own), sl_legacy = None,
           sl_layout = Some FileLink, sl_entry = Some (path_text entry)\<rparr>;
         saved = mapped m (Option.bind old sl_current)
     in andthen (writeSelection env base next')
        (andthen (if saved \<noteq> None
                  then writeJson env (base @ [STATE_BAK])
                    (selection_json (next'\<lparr>sl_current := saved, sl_pending := None, sl_confirmed := saved\<rparr>))
                  else ret ())
        (andthen (publishEntry env base next') (ret base))))"

definition import_installation :: "install_env \<Rightarrow> path \<Rightarrow> path \<Rightarrow> path \<Rightarrow> jsstr \<Rightarrow> path io" where
  "import_installation env base entry previous version =
     seq (reading (\<lambda>d. existsSync d previous)) (\<lambda>present.
     seq (if present then andthen (migrateVersionManifest env previous) (selecting previous) else ret no_selection) (\<lambda>state.
     seq (import_releases env base previous (sl_pending state) [sl_current state, sl_pending state, sl_confirmed state] []) (\<lambda>m1.
     seq (reading (\<lambda>d. parseSelection d (previous @ [STATE_BAK]))) (\<lambda>old.
     seq (import_backup env base previous old m1) (\<lambda>m.
     seq (reading (\<lambda>d. complete_pair d previous)) (\<lambda>pair.
     seq (case mapped m (sl_current state) of
            Some c \<Rightarrow> ret (Some c)
          | None \<Rightarrow> if pair then seq (stageDirectory env base previous version) (\<lambda>c. ret (Some c)) else ret None) (\<lambda>current.
     seq (reading (\<lambda>d. (previous_files env d previous, previous_releases env d previous))) (\<lambda>r. case r of (fs, releases) \<Rightarrow>
     andthen (if fs \<noteq> []
              then writeJson env (base @ [RELOCATION]) (relocation_json entry previous releases
                (case sl_legacy state of Some ns \<Rightarrow> ns | None \<Rightarrow> []) fs)
              else ret ())
     (case current of None \<Rightarrow> ret base | Some c \<Rightarrow> select_imported env base entry state old m c)))))))))"

definition copy_installation :: "install_env \<Rightarrow> path \<Rightarrow> path \<Rightarrow> path \<Rightarrow> jsstr \<Rightarrow> path io" where
  "copy_installation env base entry previous version =
     seq (reading (\<lambda>d. existsSync d (base @ [STATE]))) (\<lambda>selected.
     if selected
     then seq (selecting base) (\<lambda>state.
       seq (reading (\<lambda>d. case sl_current state of Some c \<Rightarrow> payload_of env d base c True \<noteq> None | None \<Rightarrow> False)) (\<lambda>intact.
       andthen (if intact then publishEntry env base state else ret ()) (ret base)))
     else import_installation env base entry previous version)"

definition busy_previous :: "install_env \<Rightarrow> path \<Rightarrow> bool io" where
  "busy_previous env previous = seq (reading (\<lambda>d. existsSync d previous)) (\<lambda>present.
     if present then in_use env previous else ret False)"

definition old_install :: "disk \<Rightarrow> path \<Rightarrow> bool" where
  "old_install d previous \<longleftrightarrow> existsSync d (previous @ [STATE]) \<or> existsSync d (previous @ [LEGACY_STATE])
     \<or> list_ex (\<lambda>f. existsSync d (previous @ [f])) releaseFiles"

definition relocateInstallation :: "install_env \<Rightarrow> path \<Rightarrow> path \<Rightarrow> jsstr \<Rightarrow> path io" where
  "relocateInstallation env installDir previous version =
     seq (reading_or no_entry (\<lambda>d. installationEntryPath d installDir)) (\<lambda>entry.
     seq (busy_previous env previous) (\<lambda>busy.
     if busy then ret previous
     else seq (createInstallationStore env entry) (\<lambda>base.
       seq (reading_or no_entry (\<lambda>d. sameInstallationPath d base previous)) (\<lambda>same.
       if same then ret base
       else seq (reading (\<lambda>d. old_install d previous)) (\<lambda>hasOldInstall.
         withInstallLock base (seq (reading (\<lambda>d. existsSync d (base @ [STATE]))) (\<lambda>finished.
           let copy = copy_installation env base entry previous version;
               guardedCopy = seq (busy_previous env previous) (\<lambda>busy. if busy then ret previous else copy)
           in if finished then copy
              else seq (reading (\<lambda>d. existsSync d previous)) (\<lambda>present.
                if present \<and> hasOldInstall then withInstallLock previous guardedCopy else guardedCopy))))))))"

subsection \<open>Updates\<close>

definition missing_entry :: io_error where
  "missing_entry = Failure (js ''The MeshTalk entry point is missing. Run the installer to repair it.'')"

definition stage_update :: "install_env \<Rightarrow> path \<Rightarrow> path \<Rightarrow> jsstr \<Rightarrow> unit io" where
  "stage_update env base source version = withInstallLock base (seq (selecting base) (\<lambda>state.
     seq (reading (\<lambda>d. existsSync d (entryDirectory env d base state @ [launcher]))) (\<lambda>present.
     if \<not> present then raise missing_entry
     else seq (stageDirectory env base source version) (\<lambda>pending.
       let next' = state\<lparr>sl_pending := Some pending\<rparr> in
       andthen (writeSelection env base next') (prune env base next')))))"

definition stageReleaseDirectory :: "install_env \<Rightarrow> path \<Rightarrow> path \<Rightarrow> jsstr \<Rightarrow> unit io" where
  "stageReleaseDirectory env source installDir version = seq (managed_root env installDir) (\<lambda>base. stage_update env base source version)"

definition activate_selected :: "install_env \<Rightarrow> path \<Rightarrow> jsstr io" where
  "activate_selected env base = seq (selecting base) (\<lambda>s. seq (activate env base s) (\<lambda>state. case sl_current state of
     None \<Rightarrow> raise missing_release
   | Some current \<Rightarrow> seq (reading (\<lambda>d. payload_of env d base current True \<noteq> None)) (\<lambda>ok.
       if ok then ret current else raise missing_release)))"

definition activateRelease :: "install_env \<Rightarrow> path \<Rightarrow> path io" where
  "activateRelease env installDir = seq (managed_root env installDir) (\<lambda>base.
     withInstallLock base (seq (activate_selected env base) (\<lambda>current. ret (release_dir base current @ [launcher]))))"

record installed_launcher =
  il_root :: path
  il_executable :: path
  il_usage :: "path option"
  il_warning :: "jsstr option"

definition prepareUpdateRestart :: "install_env \<Rightarrow> path \<Rightarrow> installed_launcher io" where
  "prepareUpdateRestart env installDir = seq (managed_root env installDir) (\<lambda>base.
     withInstallLock base (seq (activate_selected env base) (\<lambda>current.
       seq (retain env base current (ie_pid env) (js ''launcher'')) (\<lambda>u.
       ret \<lparr>il_root = base, il_executable = release_dir base current @ [launcher], il_usage = Some u, il_warning = None\<rparr>))))"

definition retainInstallerRelease :: "install_env \<Rightarrow> path \<Rightarrow> installed_launcher option io" where
  "retainInstallerRelease env executable = seq (reading (\<lambda>d. (installationRoot env d executable, realpath d executable))) (\<lambda>r.
     case r of
       (Some base, Some actual) \<Rightarrow>
         let release = parent_name actual in
         if grandparent actual \<noteq> versions_of base \<or> \<not> RELEASE_NAME release then ret None
         else withInstallLock base (seq (reading (\<lambda>d. payloadManifest env d base release)) (\<lambda>p.
           if p = None then raise (Failure (js ''The pending installer release is not owned by MeshTalk.''))
           else seq (retain env base release (ie_pid env) (js ''launcher'')) (\<lambda>u.
             ret (Some \<lparr>il_root = base, il_executable = actual, il_usage = Some u, il_warning = None\<rparr>))))
     | _ \<Rightarrow> ret None)"

definition retainChildRelease :: "install_env \<Rightarrow> installed_launcher \<Rightarrow> nat \<Rightarrow> jsstr \<Rightarrow> unit io" where
  "retainChildRelease env l pid kind =
     (if il_usage l = None then ret ()
      else let release = parent_name (il_executable l) in
        attempt (seq (retain env (il_root l) (if RELEASE_NAME release then release else [46]) pid kind) (\<lambda>p. ret ())))"

definition releaseUsage :: "installed_launcher \<Rightarrow> unit io" where
  "releaseUsage l = attempt (case il_usage l of None \<Rightarrow> ret () | Some p \<Rightarrow> remove_force p)"

end
