(* ===== verification/InstallMain.thy ===== *)
theory InstallMain
  imports InstallLaunch
begin

text \<open>
  Starting an installed launcher, installing a release from a directory and uninstalling
  (\<open>common/release-install.ts\<close>).
\<close>

subsection \<open>Starting\<close>

text \<open>An installation that cannot be written to stays usable.\<close>

definition read_only_codes :: "io_error list" where
  "read_only_codes = map Code [''EACCES'', ''EPERM'', ''EROFS'', ''SQLITE_READONLY'', ''SQLITE_CANTOPEN'']"

definition write_and_publish :: "install_env \<Rightarrow> path \<Rightarrow> selection \<Rightarrow> selection io" where
  "write_and_publish env base state = andthen (writeSelection env base state) (andthen (publishEntry env base state) (ret state))"

text \<open>A selection that was read from its backup is written again; one without a layout gets one.\<close>

definition recover_selection :: "install_env \<Rightarrow> path \<Rightarrow> (bool \<times> selection) io" where
  "recover_selection env base = seq (selecting base) (\<lambda>state.
     seq (reading (\<lambda>d. existsSync d (base @ [STATE]) \<and> parseSelection d (base @ [STATE]) = None)) (\<lambda>recovered.
     andthen (if recovered then andthen (writeSelection env base state) (publishEntry env base state) else ret ())
     (if truthy (sl_current state) \<and> sl_layout state = None
      then seq (write_and_publish env base (state\<lparr>sl_layout := Some FileLink\<rparr>)) (\<lambda>s. ret (recovered, s))
      else ret (recovered, state))))"

text \<open>The first start after an updater that only knew flat installations.\<close>

definition adopt_flat :: "install_env \<Rightarrow> path \<Rightarrow> bool \<Rightarrow> jsstr \<Rightarrow> selection \<Rightarrow> selection io" where
  "adopt_flat env base isPayload version state =
     seq (reading (\<lambda>d. complete_pair d base)) (\<lambda>pair.
     if \<not> truthy (sl_current state) \<and> \<not> isPayload \<and> pair
     then seq (stageDirectory env base base version) (\<lambda>current.
          seq (reading_or no_entry (\<lambda>d. digest_at env d (base @ [launcher]))) (\<lambda>own.
          write_and_publish env base (state\<lparr>sl_current := Some current, sl_bootstrap := Some own, sl_layout := Some FileLink\<rparr>)))
     else ret state)"

definition command_linked :: "install_env \<Rightarrow> disk \<Rightarrow> path \<Rightarrow> selection \<Rightarrow> jsstr \<Rightarrow> bool" where
  "command_linked env d base state current \<longleftrightarrow> sl_layout state = Some FileLink \<longrightarrow>
     realpath d (entryDirectory env d base state @ [launcher]) = Some (release_dir base current @ [launcher])"

text \<open>A publication that was interrupted is repeated; the result says whether the running launcher was the stale one.\<close>

definition repair_links :: "install_env \<Rightarrow> path \<Rightarrow> bool \<Rightarrow> jsstr \<Rightarrow> selection \<Rightarrow> bool io" where
  "repair_links env base isPayload ownRelease state = (case sl_current state of
     None \<Rightarrow> ret False
   | Some current \<Rightarrow> seq (reading (\<lambda>d. (payload_of env d base current True \<noteq> None, linkedEntryRelease d base state,
         command_linked env d base state current))) (\<lambda>r. case r of (intact, linked, commandLinked) \<Rightarrow>
       if sl_layout state \<noteq> Some Flat \<and> intact \<and> (linked \<noteq> Some current \<or> \<not> commandLinked)
       then andthen (publishEntry env base state) (ret (isPayload \<and> linked = Some ownRelease))
       else ret False))"

definition damaged_download :: jsstr where
  "damaged_download = js ''The downloaded update is damaged. Continuing with the installed release; download the update again.''"

definition intact_current :: "install_env \<Rightarrow> disk \<Rightarrow> path \<Rightarrow> selection \<Rightarrow> bool" where
  "intact_current env d base state \<longleftrightarrow> (case sl_current state of
     Some c \<Rightarrow> payload_of env d base c True \<noteq> None | None \<Rightarrow> False)"

definition activate_or_warn :: "install_env \<Rightarrow> path \<Rightarrow> selection \<Rightarrow> (selection \<times> jsstr option) io" where
  "activate_or_warn env base state = try_catch (seq (activate env base state) (\<lambda>s. ret (s, None))) (\<lambda>e.
     seq (reading (\<lambda>d. intact_current env d base state)) (\<lambda>intact.
       if intact then ret (state, Some damaged_download) else raise e))"

definition note_bootstrap :: "install_env \<Rightarrow> path \<Rightarrow> bool \<Rightarrow> path \<Rightarrow> selection \<Rightarrow> selection io" where
  "note_bootstrap env base isPayload actual state0 =
     seq (reading (\<lambda>d. existsSync d (base @ [STATE]))) (\<lambda>present.
     andthen (if \<not> truthy (sl_current state0) \<and> \<not> present then writeSelection env base state0 else ret ())
     (if \<not> isPayload \<and> \<not> truthy (sl_bootstrap state0)
      then seq (reading_or no_entry (\<lambda>d. digest_at env d actual)) (\<lambda>own.
           let state = state0\<lparr>sl_bootstrap := Some own\<rparr> in
           andthen (writeSelection env base state) (ret state))
      else ret state0))"

definition missing_components :: io_error where
  "missing_components = Failure (js ''MeshTalk release components are missing or damaged. Run the installer to repair this installation.'')"

text \<open>The selected release is damaged: the one of the backup runs, if it is intact.\<close>

definition run_backup :: "install_env \<Rightarrow> path \<Rightarrow> selection \<Rightarrow> installed_launcher io" where
  "run_backup env base state = seq (reading (\<lambda>d. case parseSelection d (base @ [STATE_BAK]) of
       Some b \<Rightarrow> if intact_current env d base b then Some b else None | None \<Rightarrow> None)) (\<lambda>r. case r of
     None \<Rightarrow> raise missing_components
   | Some b \<Rightarrow>
       seq (write_and_publish env base (b\<lparr>sl_pending := sl_pending state\<rparr>)) (\<lambda>s.
       let current = the (sl_current b) in
       seq (retain env base current (ie_pid env) (js ''launcher'')) (\<lambda>u.
       ret \<lparr>il_root = base, il_executable = release_dir base current @ [launcher], il_usage = Some u, il_warning = None\<rparr>)))"

definition run_selected ::
  "install_env \<Rightarrow> path \<Rightarrow> bool \<Rightarrow> jsstr \<Rightarrow> path \<Rightarrow> jsstr option \<Rightarrow> jsstr option \<Rightarrow> selection \<Rightarrow> installed_launcher io" where
  "run_selected env base isPayload ownRelease actual warning selected state0 =
     seq (retain env base (case selected of Some s \<Rightarrow> s | None \<Rightarrow> [46]) (ie_pid env) (js ''launcher'')) (\<lambda>u.
     let confirms = isPayload \<and> sl_current state0 = Some ownRelease;
         state = (if confirms then state0\<lparr>sl_confirmed := Some ownRelease\<rparr> else state0)
     in andthen (if confirms
                 then andthen (writeSelection env base state) (writeJson env (base @ [STATE_BAK]) (selection_json state))
                 else ret ())
        (andthen (prune env base state)
        (ret \<lparr>il_root = base,
           il_executable = (case selected of Some s \<Rightarrow> release_dir base s @ [launcher] | None \<Rightarrow> actual),
           il_usage = Some u, il_warning = warning\<rparr>)))"

definition launch_locked :: "install_env \<Rightarrow> path \<Rightarrow> path \<Rightarrow> bool \<Rightarrow> jsstr \<Rightarrow> installed_launcher io" where
  "launch_locked env base actual activatePending version =
     (let ownRelease = parent_name actual;
          isPayload = RELEASE_NAME ownRelease \<and> grandparent actual = versions_of base
      in andthen (migrateVersionManifest env base)
      (seq (recover_selection env base) (\<lambda>r. case r of (recovered, s0) \<Rightarrow>
      seq (adopt_flat env base isPayload version s0) (\<lambda>s1.
      seq (repair_links env base isPayload ownRelease s1) (\<lambda>stale.
      seq (if activatePending then activate_or_warn env base s1 else ret (s1, None)) (\<lambda>q. case q of (s2, warning) \<Rightarrow>
      seq (note_bootstrap env base isPayload actual s2) (\<lambda>state.
      let switched = stale \<or> (activatePending \<and> sl_current s2 \<noteq> sl_current s1);
          selected = (if isPayload \<and> \<not> switched \<and> \<not> recovered then Some ownRelease else sl_current state)
      in seq (reading (\<lambda>d. case selected of Some s \<Rightarrow> payload_of env d base s True = None | None \<Rightarrow> False)) (\<lambda>damaged.
         if damaged then run_backup env base state
         else run_selected env base isPayload ownRelease actual warning selected state))))))))"

definition launch_read_only :: "install_env \<Rightarrow> path \<Rightarrow> path \<Rightarrow> io_error \<Rightarrow> installed_launcher io" where
  "launch_read_only env base actual e =
     (if e \<notin> set read_only_codes then raise e
      else seq (selecting base) (\<lambda>state.
        let ownRelease = parent_name actual;
            selected = (if RELEASE_NAME ownRelease then Some ownRelease else sl_current state)
        in seq (reading (\<lambda>d. (case selected of Some s \<Rightarrow> payload_of env d base s True \<noteq> None | None \<Rightarrow> False,
               complete_pair d base))) (\<lambda>r. case r of (intact, pair) \<Rightarrow>
           if intact
           then ret \<lparr>il_root = base, il_executable = release_dir base (the selected) @ [launcher], il_usage = None, il_warning = None\<rparr>
           else if selected = None \<and> pair
           then ret \<lparr>il_root = base, il_executable = actual, il_usage = None, il_warning = None\<rparr>
           else raise e)))"

definition launch :: "install_env \<Rightarrow> path \<Rightarrow> path \<Rightarrow> bool \<Rightarrow> jsstr \<Rightarrow> installed_launcher io" where
  "launch env base actual activatePending version =
     try_catch (withInstallLock base (launch_locked env base actual activatePending version)) (launch_read_only env base actual)"

definition launch_from :: "install_env \<Rightarrow> path \<Rightarrow> path \<Rightarrow> bool \<Rightarrow> jsstr \<Rightarrow> installed_launcher option io" where
  "launch_from env base executable activatePending version =
     seq (reading_or no_entry (\<lambda>d. realpath d executable)) (\<lambda>actual.
     seq (launch env base actual activatePending version) (\<lambda>l. ret (Some l)))"

definition prepare_in_place :: "install_env \<Rightarrow> path \<Rightarrow> bool \<Rightarrow> jsstr \<Rightarrow> installed_launcher option io" where
  "prepare_in_place env executable activatePending version =
     seq (reading (\<lambda>d. installationRoot env d executable)) (\<lambda>r. case r of
       None \<Rightarrow> ret None
     | Some base \<Rightarrow> launch_from env base executable activatePending version)"

text \<open>An older installation is first moved to its private store; where that cannot be written, it is used as it is.\<close>

definition relocated_base :: "install_env \<Rightarrow> path \<Rightarrow> jsstr \<Rightarrow> path option io" where
  "relocated_base env base version = seq (selecting base) (\<lambda>old.
     try_catch (seq (relocateInstallation env (case sl_entry old of Some e \<Rightarrow> path_at e | None \<Rightarrow> base) base version)
         (\<lambda>b. ret (Some b)))
       (\<lambda>e. if e \<in> set read_only_codes then ret None else raise e))"

definition prepareInstalledLauncher :: "install_env \<Rightarrow> path \<Rightarrow> bool \<Rightarrow> jsstr \<Rightarrow> bool \<Rightarrow> installed_launcher option io" where
  "prepareInstalledLauncher env executable activatePending version privateStore =
     (if \<not> privateStore then prepare_in_place env executable activatePending version
      else seq (reading (\<lambda>d. installationRoot env d executable)) (\<lambda>r. case r of
          None \<Rightarrow> ret None
        | Some base0 \<Rightarrow> seq (reading (\<lambda>d. installationStoreEntry env d base0)) (\<lambda>owner.
            seq (if owner \<noteq> None then ret (Some base0) else relocated_base env base0 version) (\<lambda>b. case b of
              None \<Rightarrow> prepare_in_place env executable activatePending version
            | Some base \<Rightarrow> launch_from env base executable activatePending version))))"

subsection \<open>Installing\<close>

definition install_locked :: "install_env \<Rightarrow> path \<Rightarrow> path \<Rightarrow> path \<Rightarrow> jsstr \<Rightarrow> jsstr option \<Rightarrow> unit io" where
  "install_locked env base publicEntry source version expectedRelease =
     seq (reading (\<lambda>d. case readSelection d base of Some s \<Rightarrow> s | None \<Rightarrow> no_selection)) (\<lambda>state.
     if truthy expectedRelease \<and> (if sl_pending state \<noteq> None then sl_pending state else sl_current state) \<noteq> expectedRelease
     then ret ()
     else seq (stageDirectory env base source version) (\<lambda>pending.
       seq (reading (\<lambda>d. installationStoreEntry env d base)) (\<lambda>owner.
       let entry = (if owner \<noteq> None then Some (path_text publicEntry) else sl_entry state) in
       seq (activate env base (state\<lparr>sl_pending := Some pending, sl_layout := Some FileLink, sl_entry := entry, sl_bootstrap := None\<rparr>)) (\<lambda>next'.
       prune env base next'))))"

definition installFromDirectory :: "install_env \<Rightarrow> path \<Rightarrow> path \<Rightarrow> jsstr \<Rightarrow> jsstr option \<Rightarrow> bool \<Rightarrow> unit io" where
  "installFromDirectory env source installDir version expectedRelease privateStore =
     andthen (mkdir_all installDir)
     (seq (managed_root env installDir) (\<lambda>base0.
     seq (reading_or no_entry (\<lambda>d. case installationStoreEntry env d base0 of
         Some e \<Rightarrow> Some e | None \<Rightarrow> installationEntryPath d installDir)) (\<lambda>publicEntry.
     seq (if privateStore then relocateInstallation env publicEntry base0 version else ret base0) (\<lambda>base.
     withInstallLock base (install_locked env base publicEntry source version expectedRelease)))))"

subsection \<open>Uninstalling\<close>

definition still_running :: io_error where
  "still_running = Failure (js ''Close all MeshTalk windows and stop its backend before uninstalling.'')"

primrec any_busy :: "install_env \<Rightarrow> path list \<Rightarrow> bool io" where
  "any_busy env [] = ret False"
| "any_busy env (p # ps) = seq (busy_previous env p) (\<lambda>b. if b then ret True else any_busy env ps)"

definition remove_command :: "install_env \<Rightarrow> path \<Rightarrow> path \<Rightarrow> selection \<Rightarrow> unit io" where
  "remove_command env base entry state =
     (let command = entry @ [launcher] in case sl_layout state of
        Some FileLink \<Rightarrow> (case sl_current state of
            Some current \<Rightarrow> remove_if (\<lambda>d. realpath d command = Some (release_dir base current @ [launcher]) \<and> is_link d command)
              (attempt (remove command))
          | None \<Rightarrow> ret ())
      | Some Flat \<Rightarrow> remove_if (\<lambda>d. truthy (sl_bootstrap state) \<and> regularFile d command \<and> digest_at env d command = sl_bootstrap state)
          (remove command)
      | _ \<Rightarrow> ret ())"

definition remove_release :: "install_env \<Rightarrow> path \<Rightarrow> jsstr \<Rightarrow> unit io" where
  "remove_release env base name =
     remove_if (\<lambda>d. removablePayload env d base name \<or> (staging_name name \<and> ownedStaging d (release_dir base name)))
       (remove_tree (release_dir base name))"

definition remove_versions :: "install_env \<Rightarrow> path \<Rightarrow> unit io" where
  "remove_versions env base =
     seq (reading (\<lambda>d. version_names d base)) (\<lambda>r. case r of
       None \<Rightarrow> ret ()
     | Some names \<Rightarrow> andthen (for_each names (remove_release env base)) (attempt (remove_dir (versions_of base))))"

definition state_files :: "jsstr list" where
  "state_files = [STATE, STATE_BAK, LEGACY_STATE, LEGACY_STATE_BAK, js ''.meshtalk-pending.json'', js ''.meshtalk-flat-helper.json'']"

definition uninstall_locked :: "install_env \<Rightarrow> path \<Rightarrow> unit io" where
  "uninstall_locked env base = seq (selecting base) (\<lambda>state.
     seq (reading (\<lambda>d. entryDirectory env d base state)) (\<lambda>entry.
     seq (liveUsage env base) (\<lambda>usage.
     seq (reading_or no_entry (\<lambda>d. installationProcessRoots env d base)) (\<lambda>roots.
     seq (any_busy env (filter (\<lambda>p. p \<noteq> base) roots)) (\<lambda>oldBusy.
     seq (reading (\<lambda>d. \<not> own_only env usage \<or> oldBusy \<or> hasUntrackedProcess env d base [ie_pid env])) (\<lambda>busy.
     if busy then raise still_running
     else andthen (cleanupRelocation env base state)
       (andthen (remove_command env base entry state)
       (andthen (if entry = base then for_each releaseFiles (\<lambda>f. remove_force (base @ [f])) else ret ())
       (andthen (if sl_layout state = Some FileLink
                 then remove_if (\<lambda>d. is_link d (base @ [CURRENT_LINK])) (remove (base @ [CURRENT_LINK])) else ret ())
       (andthen (remove_versions env base)
       (andthen (for_each state_files (\<lambda>f. remove_force (base @ [f]))) (clean_records base))))))))))))"

definition uninstallReleaseInstallation :: "install_env \<Rightarrow> path \<Rightarrow> unit io" where
  "uninstallReleaseInstallation env installDir =
     seq (installationEntryDirectory env installDir) (\<lambda>entry.
     seq (createInstallationStore env entry) (\<lambda>store.
     withInstallLock store (seq (managed_root env installDir) (\<lambda>base.
       if store = base then uninstall_locked env base else withInstallLock base (uninstall_locked env base)))))"

end
