(* ===== verification/UpdateInstall.thy ===== *)
theory UpdateInstall
  imports InstallMain Updater
begin

text \<open>
  The part of \<open>common/updater.ts\<close> that writes: the private settings file, the marker of a restart, the import of an
  update that an older release downloaded, and the download, verification and installation of a release. It is the
  code on a POSIX system; modes and owners of files are left out, and no other process changes the files meanwhile, so
  that the comparisons of device and inode hold.
\<close>

text \<open>What the updater gets from outside: where it keeps its data, random names, the answer to a download, and \<open>tar\<close>.
  \<open>uh_extract\<close> is the program that unpacks an archive into a directory and returns whether it succeeded.\<close>

datatype download = NoAnswer | Answer nat "nat list list option" bool

record update_host =
  uh_install :: install_env
  uh_data :: path
  uh_tmpdir :: path
  uh_random :: "nat \<Rightarrow> jsstr"
  uh_fetch :: "jsstr \<Rightarrow> jsstr option \<Rightarrow> download"
  uh_list :: "content \<Rightarrow> jsstr option"
  uh_extract :: "path \<Rightarrow> path \<Rightarrow> bool io"
  uh_time :: "nat \<Rightarrow> jsstr"

subsection \<open>Private files\<close>

definition settings_path :: "update_host \<Rightarrow> path" where
  "settings_path host = uh_data host @ [js ''settings.json'']"

definition restart_path :: "update_host \<Rightarrow> path" where
  "restart_path host = uh_data host @ [js ''update-restart-path'']"

definition pending_update_path :: "update_host \<Rightarrow> path" where
  "pending_update_path host = uh_data host @ [js ''pending-update.json'']"

definition privateDirectory :: "path \<Rightarrow> unit io" where
  "privateDirectory p = andthen (mkdir_all p) (seq (reading (\<lambda>d. is_dir d p)) (\<lambda>b.
     if b then ret () else raise (Failure (js ''Private storage directory must not be a link''))))"

definition readSettingsFile :: "disk \<Rightarrow> path \<Rightarrow> settings_file" where
  "readSettingsFile d p = (case lstat d p of Some (File c) \<Rightarrow> parse_content (Some c) | _ \<Rightarrow> None)"

text \<open>A second name for a file.\<close>

definition link_file :: "path \<Rightarrow> path \<Rightarrow> unit io" where
  "link_file a b = change (\<lambda>d. case (place d a, place d b) of
     (Some p, Some q) \<Rightarrow> (case node_at d p of
        Some (File c) \<Rightarrow> if node_at d q = None then Inr (map_set q (File c) d) else Inl (Code ''EEXIST'')
      | _ \<Rightarrow> Inl no_entry)
   | _ \<Rightarrow> Inl no_entry)"

definition private_temporary :: "update_host \<Rightarrow> path \<Rightarrow> nat \<Rightarrow> path" where
  "private_temporary host p n = butlast p @ [[46] @ last p @ [46] @ uh_random host n @ js ''.tmp'']"

definition writePrivateText :: "update_host \<Rightarrow> path \<Rightarrow> content \<Rightarrow> unit io" where
  "writePrivateText host p c =
     andthen (privateDirectory (butlast p))
     (seq (reading (\<lambda>d. lstat d p)) (\<lambda>previous.
        if \<not> (case previous of None \<Rightarrow> True | Some (File f) \<Rightarrow> True | _ \<Rightarrow> False)
        then raise (Failure (js ''Private storage destination must be an owned regular file, not a link''))
        else seq draw (\<lambda>n. let tmp = private_temporary host p n in
          andthen (put_new (File (Blob [])) tmp)
          (finally_do
            (andthen (fill tmp c) (andthen sync
              (if previous \<noteq> None then rename tmp p else link_file tmp p)))
            (remove_force tmp)))))"

definition store_settings :: "update_host \<Rightarrow> (settings_file \<Rightarrow> json outcome) \<Rightarrow> unit io" where
  "store_settings host f =
     andthen (privateDirectory (uh_data host))
     (seq (reading (\<lambda>d. readSettingsFile d (settings_path host))) (\<lambda>settings. case f settings of
        Inl e \<Rightarrow> raise Thrown
      | Inr j \<Rightarrow> writePrivateText host (settings_path host) (Document j)))"

definition save_channel :: "update_host \<Rightarrow> update_channel \<Rightarrow> unit io" where
  "save_channel host channel = store_settings host (saveUpdateChannel channel)"

definition save_token :: "update_host \<Rightarrow> jsstr option \<Rightarrow> unit io" where
  "save_token host token = store_settings host (saveGithubToken token)"

definition save_repository :: "update_host \<Rightarrow> jsstr option \<Rightarrow> jsstr option \<Rightarrow> unit io" where
  "save_repository host user repo = store_settings host (saveGithubRepository user repo)"

subsection \<open>The marker of a restart\<close>

text \<open>A text file holds the bytes of its text; reading one back is an argument of what reads it.\<close>

definition requestUpdateRestart :: "update_host \<Rightarrow> path \<Rightarrow> unit io" where
  "requestUpdateRestart host installDir =
     writePrivateText host (restart_path host) (Blob (utf8_encode (path_text installDir)))"

definition updateRestartPath :: "update_host \<Rightarrow> (content \<Rightarrow> jsstr) \<Rightarrow> disk \<Rightarrow> jsstr option" where
  "updateRestartPath host decode d = (case read_file d (restart_path host) of
     None \<Rightarrow> None
   | Some c \<Rightarrow> if trim (decode c) = [] then None else Some (trim (decode c)))"

definition takeUpdateRestartPath :: "update_host \<Rightarrow> (content \<Rightarrow> jsstr) \<Rightarrow> jsstr option io" where
  "takeUpdateRestartPath host decode = seq (reading (updateRestartPath host decode)) (\<lambda>p.
     if p = None then ret None else andthen (remove_force (restart_path host)) (ret p))"

text \<open>One more line in the log of the update helper; that it fails is ignored.\<close>

definition append_text :: "path \<Rightarrow> nat list \<Rightarrow> unit io" where
  "append_text p bytes = seq (reading (\<lambda>d. existsSync d p)) (\<lambda>there.
     andthen (if there then ret () else put_new (File (Blob [])) p)
     (change (\<lambda>d. case realpath d p of
        None \<Rightarrow> Inl no_entry
      | Some q \<Rightarrow> (case node_at d q of
          Some (File (Blob b)) \<Rightarrow> Inr (map_set q (File (Blob (b @ bytes))) d)
        | _ \<Rightarrow> Inl (Code ''EISDIR'')))))"

definition logUpdateHelper :: "update_host \<Rightarrow> jsstr \<Rightarrow> unit io" where
  "logUpdateHelper host message = attempt (andthen (mkdir_all (uh_data host)) (seq draw (\<lambda>n.
     append_text (uh_data host @ [js ''update-helper.log'']) (utf8_encode (uh_time host n @ [32] @ message @ [10])))))"

subsection \<open>An update of an older release\<close>

definition readPendingUpdate :: "update_host \<Rightarrow> disk \<Rightarrow> pending_update option" where
  "readPendingUpdate host d = (case read_json d (pending_update_path host) of
     Some j \<Rightarrow> parsePendingUpdate (Some j) | None \<Rightarrow> None)"

definition update_staging :: jsstr where
  "update_staging = js ''.meshtalk-update-''"

text \<open>Whether the staging directory that the marker names may be taken over.\<close>

definition importable :: "update_host \<Rightarrow> disk \<Rightarrow> path \<Rightarrow> pending_update \<Rightarrow> bool" where
  "importable host d installDir pending =
     (let cwd = ie_cwd (uh_install host);
          pending_dir = resolve_parts cwd (pu_installDir pending); staging_dir = resolve_parts cwd (pu_staging pending);
          files = expectedFiles False in
      case (realpath d installDir, realpath d staging_dir) of
        (Some base, Some staging) \<Rightarrow>
          is_dir d installDir \<and> is_dir d pending_dir \<and> realpath d pending_dir = Some base
          \<and> isStagingWithinInstallDir cwd (path_text base) (path_text staging)
          \<and> is_dir d staging_dir \<and> realpath d (butlast staging_dir) = Some base \<and> butlast staging = base
          \<and> starts_with (base_name staging) update_staging
          \<and> length (pu_files pending) = length files
          \<and> list_all (\<lambda>name. count_list (pu_files pending) name = 1) files
          \<and> (case readdir d staging_dir of
              None \<Rightarrow> False
            | Some entries \<Rightarrow> length entries = length files
                \<and> list_all (\<lambda>name. name \<in> set entries \<and> regularFile d (staging_dir @ [name])) files)
      | _ \<Rightarrow> False)"

definition importLegacyWindowsUpdate :: "update_host \<Rightarrow> path \<Rightarrow> bool io" where
  "importLegacyWindowsUpdate host installDir = seq (reading (readPendingUpdate host)) (\<lambda>pending. case pending of
     None \<Rightarrow> ret False
   | Some u \<Rightarrow>
       let staging_dir = resolve_parts (ie_cwd (uh_install host)) (pu_staging u) in
       try_catch (seq (reading (\<lambda>d. (importable host d installDir u, realpath d installDir))) (\<lambda>r. case r of
           (True, Some base) \<Rightarrow>
             andthen (stageReleaseDirectory (uh_install host) staging_dir base (js ''legacy-pending''))
             (andthen (attempt (remove_force (pending_update_path host)))
             (andthen (attempt (remove_tree staging_dir)) (ret True)))
         | _ \<Rightarrow> ret False))
       (\<lambda>e. ret False))"

subsection \<open>Installing a release\<close>

definition update_failure :: "string \<Rightarrow> io_error" where
  "update_failure s = Failure (js s @ js '' Try reinstalling MeshTalk using the quick install script: https://github.com/QinCai-rui/MeshTalk#quick-install'')"

definition denied_access :: io_error where
  "denied_access = Failure (js ''GitHub denied access to this release. Add a GitHub token to continue.'')"

definition mkdtemp :: "update_host \<Rightarrow> path io" where
  "mkdtemp host = seq draw (\<lambda>n. let p = uh_tmpdir host @ [js ''meshtalk-update-'' @ uh_random host n] in
     andthen (mkdir p) (ret p))"

primrec receive :: "path \<Rightarrow> nat list \<Rightarrow> nat list list \<Rightarrow> nat list io" where
  "receive p got [] = ret got"
| "receive p got (chunk # chunks) = andthen (fill p (Blob (got @ chunk))) (receive p (got @ chunk) chunks)"

definition expected_digest :: "install_env \<Rightarrow> release \<Rightarrow> jsstr option" where
  "expected_digest env release = map_option (\<lambda>s.
     ie_lower env (if starts_with s (js ''sha256:'') then drop 7 s else s)) (rel_digest release)"

definition download_archive :: "update_host \<Rightarrow> release \<Rightarrow> jsstr option \<Rightarrow> path \<Rightarrow> nat list io" where
  "download_archive host release token archive = (case uh_fetch host (rel_downloadUrl release) token of
     NoAnswer \<Rightarrow> raise Thrown
   | Answer status body broken \<Rightarrow>
       if \<not> status_ok status
       then raise (if status \<in> {401, 403, 404} then denied_access
                   else Failure (js ''Download failed ('' @ decimal status @ js ''). Try reinstalling MeshTalk using the quick install script: https://github.com/QinCai-rui/MeshTalk#quick-install''))
       else (case body of
           None \<Rightarrow> raise (update_failure ''Download response did not include a body.'')
         | Some chunks \<Rightarrow> andthen (put_new (File (Blob [])) archive)
             (seq (receive archive [] chunks) (\<lambda>got. if broken then raise Thrown else ret got))))"

definition safe_listing :: "jsstr \<Rightarrow> bool" where
  "safe_listing out = list_all archiveEntryIsSafe (filter (\<lambda>e. e \<noteq> []) (split_on 10 out))"

definition extracted_file :: "disk \<Rightarrow> path \<Rightarrow> jsstr \<Rightarrow> bool" where
  "extracted_file d dir name \<longleftrightarrow> regularFile d (dir @ [name])
     \<and> (case (realpath d (dir @ [name]), realpath d dir) of
          (Some f, Some e) \<Rightarrow> starts_with (path_text f) (path_text e @ [47]) | _ \<Rightarrow> False)"

primrec check_extracted :: "path \<Rightarrow> jsstr list \<Rightarrow> unit io" where
  "check_extracted dir [] = ret ()"
| "check_extracted dir (name # names) = seq (reading (\<lambda>d. extracted_file d dir name)) (\<lambda>ok.
     if ok then check_extracted dir names
     else raise (update_failure (''Release archive is missing '' @ map char_of name @ ''.'')))"

definition unpack_release :: "update_host \<Rightarrow> path \<Rightarrow> path \<Rightarrow> unit io" where
  "unpack_release host archive dir = seq (reading (\<lambda>d. Option.bind (read_file d archive) (uh_list host))) (\<lambda>listing.
     case listing of
       None \<Rightarrow> raise (update_failure ''Unable to inspect the release archive.'')
     | Some out \<Rightarrow>
         if \<not> safe_listing out then raise (update_failure ''Release archive contains an unsafe path.'')
         else andthen (mkdir dir) (seq (uh_extract host archive dir) (\<lambda>ok.
           if \<not> ok then raise (update_failure ''Unable to extract the release archive.'')
           else check_extracted dir (expectedFiles False))))"

definition install_extracted :: "update_host \<Rightarrow> release \<Rightarrow> path \<Rightarrow> path \<Rightarrow> unit io" where
  "install_extracted host release dir installDir =
     seq (reading (\<lambda>d. hasManagedBootstrap (uh_install host) d installDir)) (\<lambda>managed.
       if managed then stageReleaseDirectory (uh_install host) dir installDir (rel_version release)
       else installFromDirectory (uh_install host) dir installDir (rel_version release) None True)"

definition install_archive :: "update_host \<Rightarrow> release \<Rightarrow> path \<Rightarrow> path \<Rightarrow> nat list \<Rightarrow> unit io" where
  "install_archive host release installDir tmp got = (case expected_digest (uh_install host) release of
     None \<Rightarrow> raise (update_failure ''GitHub did not provide a SHA-256 digest for this release.'')
   | Some digest \<Rightarrow>
       if digest = [] then raise (update_failure ''GitHub did not provide a SHA-256 digest for this release.'')
       else if ie_digest (uh_install host) (Blob got) \<noteq> digest then raise (update_failure ''SHA-256 verification failed.'')
       else andthen (unpack_release host (tmp @ [rel_assetName release]) (tmp @ [js ''extracted'']))
              (install_extracted host release (tmp @ [js ''extracted'']) installDir))"

definition install_body :: "update_host \<Rightarrow> release \<Rightarrow> path \<Rightarrow> path \<Rightarrow> unit io" where
  "install_body host release installDir tmp =
     seq (reading (\<lambda>d. githubToken (readSettingsFile d (settings_path host)))) (\<lambda>t. case t of
       Inl e \<Rightarrow> raise Thrown
     | Inr token \<Rightarrow> seq (download_archive host release token (tmp @ [rel_assetName release]))
         (install_archive host release installDir tmp))"

definition installRelease :: "update_host \<Rightarrow> release \<Rightarrow> path \<Rightarrow> unit io" where
  "installRelease host release installDir = seq (mkdtemp host) (\<lambda>tmp.
     finally_do (install_body host release installDir tmp) (remove_tree tmp))"

subsection \<open>The installation of this program\<close>

definition isReleaseInstallDir :: "install_env \<Rightarrow> disk \<Rightarrow> path \<Rightarrow> bool" where
  "isReleaseInstallDir env d directory =
     (if hasManagedBootstrap env d directory then True
      else if \<not> is_dir d directory then False
      else case managedInstallRoot env d directory of
          None \<Rightarrow> False
        | Some base \<Rightarrow>
            let all_there = list_all (\<lambda>name. existsSync d (directory @ [name]) \<and> regularFile d (directory @ [name])) (expectedFiles False) in
            if existsSync d (base @ [STATE])
            then (case lstat d (base @ [launcher]) of None \<Rightarrow> False | Some (File c) \<Rightarrow> True | _ \<Rightarrow> all_there)
            else all_there)"

primrec first_install :: "install_env \<Rightarrow> disk \<Rightarrow> jsstr list \<Rightarrow> path option" where
  "first_install env d [] = None"
| "first_install env d (executable # rest) =
     (if executable = [] \<or> \<not> starts_with (posix_basename executable) (js ''meshtalk'') then first_install env d rest
      else case installationRoot env d (resolve_parts (ie_cwd env) executable) of
          Some base \<Rightarrow> if isReleaseInstallDir env d base then Some base else first_install env d rest
        | None \<Rightarrow> first_install env d rest)"

definition releaseInstallDir :: "install_env \<Rightarrow> disk \<Rightarrow> jsstr list \<Rightarrow> path option" where
  "releaseInstallDir env d argv = first_install env d (take 2 argv @ [path_text (ie_execPath env)])"

end
