(* ===== verification/DiskTriples.thy ===== *)
theory DiskTriples
  imports Disk
begin

text \<open>
  Triples over the programs of \<open>Disk\<close>: from a state with \<open>P\<close> a program that returns ends in \<open>Q\<close>, one that
  throws ends in \<open>E\<close>, and every state in between, the ones a crash can leave, satisfies \<open>C\<close>. Writes may be
  refused at any point. The last part is about paths that are made of real directories.
\<close>

subsection \<open>Triples\<close>

definition crash_ok :: "(disk \<Rightarrow> bool) \<Rightarrow> world \<Rightarrow> bool" where
  "crash_ok C w \<longleftrightarrow> C (w_disk w) \<and> list_all C (w_history w)"

definition outcome_ok ::
  "(disk \<Rightarrow> bool) \<Rightarrow> ('a \<Rightarrow> disk \<Rightarrow> bool) \<Rightarrow> (io_error \<Rightarrow> disk \<Rightarrow> bool) \<Rightarrow> (io_error + 'a) \<times> world \<Rightarrow> bool" where
  "outcome_ok C Q E r \<longleftrightarrow> crash_ok C (snd r)
     \<and> (case fst r of Inr x \<Rightarrow> Q x (w_disk (snd r)) | Inl e \<Rightarrow> E e (w_disk (snd r)))"

definition triple ::
  "(disk \<Rightarrow> bool) \<Rightarrow> (disk \<Rightarrow> bool) \<Rightarrow> 'a io \<Rightarrow> ('a \<Rightarrow> disk \<Rightarrow> bool) \<Rightarrow> (io_error \<Rightarrow> disk \<Rightarrow> bool) \<Rightarrow> bool" where
  "triple C P m Q E \<longleftrightarrow> (\<forall>w. crash_ok C w \<and> P (w_disk w) \<longrightarrow> outcome_ok C Q E (m w))"

lemma tripleD:
  assumes "triple C P m Q E" "crash_ok C w" "P (w_disk w)" "m w = (r, w')"
  shows "crash_ok C w'" "case r of Inr x \<Rightarrow> Q x (w_disk w') | Inl e \<Rightarrow> E e (w_disk w')"
  using assms(1) [unfolded triple_def outcome_ok_def, rule_format, of w] assms(2-4) by (cases r; simp)+

lemma tripleI:
  assumes "\<And>w r w'. crash_ok C w \<Longrightarrow> C (w_disk w) \<Longrightarrow> P (w_disk w) \<Longrightarrow> m w = (r, w') \<Longrightarrow> crash_ok C w'
    \<and> (case r of Inr x \<Rightarrow> Q x (w_disk w') | Inl e \<Rightarrow> E e (w_disk w'))"
  shows "triple C P m Q E"
  unfolding triple_def outcome_ok_def
proof (intro allI impI)
  fix w assume w: "crash_ok C w \<and> P (w_disk w)"
  obtain r w' where m: "m w = (r, w')" by (cases "m w")
  have "C (w_disk w)" using w by (simp add: crash_ok_def)
  then show "crash_ok C (snd (m w)) \<and> (case fst (m w) of Inr x \<Rightarrow> Q x (w_disk (snd (m w))) | Inl e \<Rightarrow> E e (w_disk (snd (m w))))"
    using assms [of w r w'] w m by (cases r) simp_all
qed

lemma triple_weaken:
  assumes "triple C P' m Q' E'" "\<And>d. C d \<Longrightarrow> P d \<Longrightarrow> P' d" "\<And>x d. C d \<Longrightarrow> Q' x d \<Longrightarrow> Q x d" "\<And>e d. C d \<Longrightarrow> E' e d \<Longrightarrow> E e d"
  shows "triple C P m Q E"
proof (rule tripleI)
  fix w r w' assume "crash_ok C w" "C (w_disk w)" "P (w_disk w)" "m w = (r, w')"
  then show "crash_ok C w' \<and> (case r of Inr x \<Rightarrow> Q x (w_disk w') | Inl e \<Rightarrow> E e (w_disk w'))"
    using tripleD [OF assms(1), of w r w'] assms(2-4) by (auto simp: crash_ok_def split: sum.splits)
qed

lemma triple_pre: "triple C P' m Q E \<Longrightarrow> (\<And>d. C d \<Longrightarrow> P d \<Longrightarrow> P' d) \<Longrightarrow> triple C P m Q E"
  by (rule triple_weaken)

lemma triple_false: "triple C (\<lambda>d. False) m Q E"
  by (simp add: triple_def)

lemma triple_fact: "(F \<Longrightarrow> triple C P m Q E) \<Longrightarrow> triple C (\<lambda>d. P d \<and> F) m Q E"
  by (auto simp: triple_def)

lemma triple_ex: "(\<And>y. triple C (P y) m Q E) \<Longrightarrow> triple C (\<lambda>d. \<exists>y. P y d) m Q E"
  by (auto simp: triple_def)

lemma triple_ret: "(\<And>d. C d \<Longrightarrow> P d \<Longrightarrow> Q x d) \<Longrightarrow> triple C P (ret x) Q E"
  by (auto simp: triple_def outcome_ok_def ret_def crash_ok_def)

lemma triple_raise: "(\<And>d. C d \<Longrightarrow> P d \<Longrightarrow> E e d) \<Longrightarrow> triple C P (raise e) Q E"
  by (auto simp: triple_def outcome_ok_def raise_def crash_ok_def)

lemma triple_seq:
  assumes "triple C P m R E" "\<And>x. triple C (R x) (f x) Q E"
  shows "triple C P (seq m f) Q E"
proof (rule tripleI)
  fix w r w' assume w: "crash_ok C w" "P (w_disk w)" "seq m f w = (r, w')"
  obtain r1 w1 where 1: "m w = (r1, w1)" by (cases "m w")
  show "crash_ok C w' \<and> (case r of Inr x \<Rightarrow> Q x (w_disk w') | Inl e \<Rightarrow> E e (w_disk w'))"
    using tripleD [OF assms(1) w(1,2) 1] w(3) tripleD [OF assms(2), of w1] 1
    by (cases r1) (auto simp: seq_def)
qed

lemma triple_catch:
  assumes "triple C P m Q R" "\<And>e. triple C (R e) (h e) Q E"
  shows "triple C P (try_catch m h) Q E"
proof (rule tripleI)
  fix w r w' assume w: "crash_ok C w" "P (w_disk w)" "try_catch m h w = (r, w')"
  obtain r1 w1 where 1: "m w = (r1, w1)" by (cases "m w")
  show "crash_ok C w' \<and> (case r of Inr x \<Rightarrow> Q x (w_disk w') | Inl e \<Rightarrow> E e (w_disk w'))"
    using tripleD [OF assms(1) w(1,2) 1] w(3) tripleD [OF assms(2), of w1] 1
    by (cases r1) (auto simp: try_catch_def)
qed

lemma triple_finally:
  assumes "triple C P m Q' E'" "\<And>x. triple C (Q' x) f (\<lambda>u. Q x) E" "\<And>e. triple C (E' e) f (\<lambda>u. E e) E"
  shows "triple C P (finally_do m f) Q E"
proof (rule tripleI)
  fix w r w' assume w: "crash_ok C w" "P (w_disk w)" "finally_do m f w = (r, w')"
  obtain r1 w1 where 1: "m w = (r1, w1)" by (cases "m w")
  obtain r2 w2 where 2: "f w1 = (r2, w2)" by (cases "f w1")
  show "crash_ok C w' \<and> (case r of Inr x \<Rightarrow> Q x (w_disk w') | Inl e \<Rightarrow> E e (w_disk w'))"
    using tripleD [OF assms(1) w(1,2) 1] w(3) tripleD [OF assms(2) _ _ 2] tripleD [OF assms(3) _ _ 2] 1 2
    by (cases r1; cases r2) (auto simp: finally_do_def)
qed

lemma triple_read:
  assumes "\<And>x. triple C (\<lambda>d. P d \<and> x = f d) (k x) Q E"
  shows "triple C P (seq (reading f) k) Q E"
  using assms by (fastforce simp: triple_def seq_def reading_def)

lemma triple_reading: "(\<And>d. C d \<Longrightarrow> P d \<Longrightarrow> Q (f d) d) \<Longrightarrow> triple C P (reading f) Q E"
  by (auto simp: triple_def outcome_ok_def reading_def crash_ok_def)

lemma triple_draw: "(\<And>n. triple C P (k n) Q E) \<Longrightarrow> triple C P (seq draw k) Q E"
  by (auto simp: triple_def seq_def draw_def crash_ok_def)

lemma triple_if: "(b \<Longrightarrow> triple C P m Q E) \<Longrightarrow> (\<not> b \<Longrightarrow> triple C P n Q E) \<Longrightarrow> triple C P (if b then m else n) Q E"
  by simp

lemma triple_change:
  assumes "\<And>d d'. C d \<Longrightarrow> P d \<Longrightarrow> g d = Inr d' \<Longrightarrow> C d' \<and> Q () d'" "\<And>d e. C d \<Longrightarrow> P d \<Longrightarrow> E e d"
  shows "triple C P (change g) Q E"
proof (rule tripleI)
  fix w r w' assume w: "crash_ok C w" "C (w_disk w)" "P (w_disk w)" "change g w = (r, w')"
  show "crash_ok C w' \<and> (case r of Inr x \<Rightarrow> Q x (w_disk w') | Inl e \<Rightarrow> E e (w_disk w'))"
    using w assms [of "w_disk w"]
    by (auto simp: change_def Let_def crash_ok_def split: option.splits sum.splits)
qed

lemma triple_for_each:
  assumes "\<And>x. x \<in> set xs \<Longrightarrow> triple C I (f x) (\<lambda>u. I) E"
  shows "triple C I (for_each xs f) (\<lambda>u. I) E"
  using assms
proof (induction xs)
  case Nil
  show ?case by (auto intro: triple_ret)
next
  case (Cons x xs)
  show ?case unfolding for_each.simps by (rule triple_seq [of C I _ "\<lambda>u. I"]) (use Cons in auto)
qed

lemma triple_attempt:
  assumes "triple C P m (\<lambda>u. Q) (\<lambda>e. Q)"
  shows "triple C P (attempt m) (\<lambda>u. Q) E"
  unfolding attempt_def by (rule triple_catch [OF assms]) (auto intro: triple_ret)

lemma triple_andthen:
  "triple C P m (\<lambda>u. R) E \<Longrightarrow> triple C R k Q E \<Longrightarrow> triple C P (andthen m k) Q E"
  unfolding andthen_def by (rule triple_seq)

lemma triple_holding:
  assumes "triple C P m Q E" "\<And>d. C d \<Longrightarrow> P d \<Longrightarrow> E (Code ''SQLITE_BUSY'') d"
  shows "triple C P (holding p m) Q E"
proof (rule tripleI)
  fix w r w' assume w: "crash_ok C w" "C (w_disk w)" "P (w_disk w)" "holding p m w = (r, w')"
  let ?w = "w\<lparr>w_locked := p # w_locked w\<rparr>"
  obtain r1 w1 where 1: "m ?w = (r1, w1)" by (cases "m ?w")
  have "crash_ok C ?w" using w(1) by (simp add: crash_ok_def)
  then show "crash_ok C w' \<and> (case r of Inr x \<Rightarrow> Q x (w_disk w') | Inl e \<Rightarrow> E e (w_disk w'))"
    using tripleD [OF assms(1) _ _ 1] w assms(2) 1 by (cases r1) (auto simp: holding_def crash_ok_def split: if_splits)
qed

lemma triple_reading_or:
  assumes "\<And>x. triple C (\<lambda>d. P d \<and> f d = Some x) (k x) Q E" "\<And>d. C d \<Longrightarrow> P d \<Longrightarrow> f d = None \<Longrightarrow> E e d"
  shows "triple C P (seq (reading_or e f) k) Q E"
proof (rule triple_seq)
  show "triple C P (reading_or e f) (\<lambda>x d. P d \<and> f d = Some x) E"
    unfolding reading_or_def
  proof (rule triple_read)
    fix r show "triple C (\<lambda>d. P d \<and> r = f d) (case r of Some x \<Rightarrow> ret x | None \<Rightarrow> raise e) (\<lambda>x d. P d \<and> f d = Some x) E"
      using assms(2) by (cases r) (auto intro: triple_ret triple_raise)
  qed
qed (rule assms(1))

text \<open>Two triples about the same program at once.\<close>

lemma triple_conj:
  "triple C P m Q E \<Longrightarrow> triple C P m Q' E' \<Longrightarrow> triple C P m (\<lambda>x d. Q x d \<and> Q' x d) (\<lambda>e d. E e d \<and> E' e d)"
  by (auto simp: triple_def outcome_ok_def split: sum.splits)

text \<open>A program that keeps a condition \<open>I\<close> in every state, whatever happens, in any context whose crash condition it implies.\<close>

definition keeps :: "(disk \<Rightarrow> bool) \<Rightarrow> 'a io \<Rightarrow> bool" where
  "keeps I m \<longleftrightarrow> (\<forall>C. (\<forall>d. I d \<longrightarrow> C d) \<longrightarrow> triple C I m (\<lambda>x. I) (\<lambda>e. I))"

lemma keepsI: "(\<And>C. (\<And>d. I d \<Longrightarrow> C d) \<Longrightarrow> triple C I m (\<lambda>x. I) (\<lambda>e. I)) \<Longrightarrow> keeps I m"
  by (simp add: keeps_def)

lemma keeps_triple: "keeps I m \<Longrightarrow> (\<And>d. I d \<Longrightarrow> C d) \<Longrightarrow> triple C I m (\<lambda>x. I) (\<lambda>e. I)"
  by (simp add: keeps_def)

lemma keepsD: "keeps I m \<Longrightarrow> crash_ok I w \<Longrightarrow> m w = (r, w') \<Longrightarrow> crash_ok I w'"
  using tripleD(1) [OF keeps_triple [of I m I]] by (auto simp: crash_ok_def)

lemma keeps_ret: "keeps I (ret x)"
  by (simp add: keeps_def triple_ret)

lemma keeps_raise: "keeps I (raise e)"
  by (simp add: keeps_def triple_raise)

lemma keeps_seq: "keeps I m \<Longrightarrow> (\<And>x. keeps I (f x)) \<Longrightarrow> keeps I (seq m f)"
  by (rule keepsI, rule triple_seq [where R = "\<lambda>x. I"]) (auto intro: keeps_triple)

lemma keeps_andthen: "keeps I m \<Longrightarrow> keeps I k \<Longrightarrow> keeps I (andthen m k)"
  unfolding andthen_def by (rule keeps_seq)

lemma keeps_catch: "keeps I m \<Longrightarrow> (\<And>e. keeps I (h e)) \<Longrightarrow> keeps I (try_catch m h)"
  by (rule keepsI, rule triple_catch [where R = "\<lambda>e. I"]) (auto intro: keeps_triple)

lemma keeps_finally: "keeps I m \<Longrightarrow> keeps I f \<Longrightarrow> keeps I (finally_do m f)"
  by (rule keepsI, rule triple_finally [where Q' = "\<lambda>x. I" and E' = "\<lambda>e. I"]) (auto intro: keeps_triple)

lemma keeps_attempt: "keeps I m \<Longrightarrow> keeps I (attempt m)"
  by (rule keepsI, rule triple_attempt) (auto intro: keeps_triple)

lemma keeps_holding: "keeps I m \<Longrightarrow> keeps I (holding p m)"
  by (rule keepsI, rule triple_holding) (auto intro: keeps_triple)

lemma keeps_reading: "keeps I (reading f)"
  by (simp add: keeps_def triple_reading)

lemma keeps_reading_or: "keeps I (reading_or e f)"
  unfolding reading_or_def by (intro keeps_seq keeps_reading) (auto intro: keeps_ret keeps_raise split: option.split)

lemma keeps_draw: "(\<And>n. keeps I (k n)) \<Longrightarrow> keeps I (seq draw k)"
  by (rule keepsI, rule triple_draw) (auto intro: keeps_triple)

text \<open>What a read returned may be used about the state in which it was read.\<close>

lemma keeps_read:
  assumes "\<And>C x. (\<And>d. I d \<Longrightarrow> C d) \<Longrightarrow> triple C (\<lambda>d. I d \<and> x = f d) (k x) (\<lambda>x. I) (\<lambda>e. I)"
  shows "keeps I (seq (reading f) k)"
  by (rule keepsI, rule triple_read) (rule assms)

lemma keeps_change: "(\<And>d d'. I d \<Longrightarrow> g d = Inr d' \<Longrightarrow> I d') \<Longrightarrow> keeps I (change g)"
  by (rule keepsI, rule triple_change) auto

lemma keeps_for_each: "(\<And>x. x \<in> set xs \<Longrightarrow> keeps I (f x)) \<Longrightarrow> keeps I (for_each xs f)"
  by (rule keepsI, rule triple_for_each) (auto intro: keeps_triple)

lemma keeps_sync: "keeps I sync"
  unfolding sync_def by (rule keeps_change) simp

lemma keeps_if: "(b \<Longrightarrow> keeps I m) \<Longrightarrow> (\<not> b \<Longrightarrow> keeps I n) \<Longrightarrow> keeps I (if b then m else n)"
  by simp

lemma keeps_option: "keeps I m \<Longrightarrow> (\<And>x. keeps I (f x)) \<Longrightarrow> keeps I (case v of None \<Rightarrow> m | Some x \<Rightarrow> f x)"
  by (cases v) auto

lemma keeps_pair: "(\<And>a b. keeps I (f a b)) \<Longrightarrow> keeps I (case v of (a, b) \<Rightarrow> f a b)"
  by (cases v) auto

lemmas keeps_rules = keeps_ret keeps_raise keeps_andthen keeps_catch keeps_finally keeps_attempt keeps_holding
  keeps_reading_or keeps_draw keeps_sync keeps_reading

text \<open>A condition that is known when the program starts and not changed by it: where the program is used under a guard.\<close>

lemma triple_guard: "(G \<Longrightarrow> triple C P m Q E) \<Longrightarrow> (\<And>d. C d \<Longrightarrow> P' d \<Longrightarrow> P d \<and> G) \<Longrightarrow> triple C P' m Q E"
  by (auto simp: triple_def crash_ok_def)

subsection \<open>Paths of real directories\<close>

definition dirs_to :: "disk \<Rightarrow> path \<Rightarrow> bool" where
  "dirs_to d p \<longleftrightarrow> [46, 46] \<notin> set p \<and> (\<forall>k \<le> length p. node_at d (take k p) = Some Dir)"

lemma follow_dirs:
  assumes "[46, 46] \<notin> set p" "\<forall>k \<le> length p. node_at d (c @ take k p) = Some Dir"
  shows "follow d n c (p @ r) = follow d n (c @ p) r"
  using assms
proof (induction p arbitrary: c)
  case (Cons x p)
  have "node_at d (c @ [x]) = Some Dir" using Cons.prems(2) [rule_format, of 1] by simp
  moreover have "\<forall>k \<le> length p. node_at d ((c @ [x]) @ take k p) = Some Dir"
    using Cons.prems(2) by (auto dest: spec [of _ "Suc _"])
  ultimately show ?case using Cons.IH [of "c @ [x]"] Cons.prems(1) by auto
qed simp

lemma realpath_dirs: "dirs_to d p \<Longrightarrow> realpath d (p @ r) = follow d 40 p r"
  using follow_dirs [of p d "[]" 40 r] by (simp add: realpath_def dirs_to_def)

lemma dirs_to_node: "dirs_to d p \<Longrightarrow> node_at d p = Some Dir"
  by (auto simp: dirs_to_def dest: spec [of _ "length p"])

lemma place_below: "dirs_to d p \<Longrightarrow> place d (p @ [x]) = Some (p @ [x])"
  using realpath_dirs [of d p "[]"] by (simp add: place_def dirs_to_node)

lemma lstat_below: "dirs_to d p \<Longrightarrow> lstat d (p @ [x]) = node_at d (p @ [x])"
  by (simp add: lstat_def place_below)

lemma dirs_to_snoc: "dirs_to d p \<Longrightarrow> x \<noteq> [46, 46] \<Longrightarrow> node_at d (p @ [x]) = Some Dir \<Longrightarrow> dirs_to d (p @ [x])"
  unfolding dirs_to_def by (auto simp: le_Suc_eq)

lemma dirs_to_take: "dirs_to d p \<Longrightarrow> dirs_to d (take n p)"
  unfolding dirs_to_def by (auto simp: min_def dest: in_set_takeD)

lemma dirs_to_append: "dirs_to d (p @ q) \<Longrightarrow> dirs_to d p"
  using dirs_to_take [of d "p @ q" "length p"] by simp

lemma realpath_below: "dirs_to d p \<Longrightarrow> x \<noteq> [46, 46] \<Longrightarrow> node_at d (p @ [x]) = Some (File c) \<Longrightarrow>
    realpath d (p @ [x]) = Some (p @ [x])"
  by (simp add: realpath_dirs)

lemma exists_below: "dirs_to d p \<Longrightarrow> x \<noteq> [46, 46] \<Longrightarrow> node_at d (p @ [x]) = None \<Longrightarrow> \<not> existsSync d (p @ [x])"
  by (simp add: existsSync_def realpath_dirs)

lemma read_below: "dirs_to d p \<Longrightarrow> x \<noteq> [46, 46] \<Longrightarrow> node_at d (p @ [x]) = Some (File c) \<Longrightarrow> read_file d (p @ [x]) = Some c"
  by (simp add: read_file_def realpath_below)

text \<open>Conditions that do not look at certain paths.\<close>

definition blind :: "path set \<Rightarrow> (disk \<Rightarrow> bool) \<Rightarrow> bool" where
  "blind T P \<longleftrightarrow> (\<forall>d d'. (\<forall>q. q \<notin> T \<longrightarrow> node_at d q = node_at d' q) \<longrightarrow> P d \<longrightarrow> P d')"

lemma blindD: "blind T P \<Longrightarrow> (\<And>q. q \<notin> T \<Longrightarrow> node_at d q = node_at d' q) \<Longrightarrow> P d \<Longrightarrow> P d'"
  by (auto simp: blind_def)

lemma blind_conj: "blind T P \<Longrightarrow> blind T Q \<Longrightarrow> blind T (\<lambda>d. P d \<and> Q d)"
  unfolding blind_def by blast

lemma blind_mono: "blind T P \<Longrightarrow> S \<subseteq> T \<Longrightarrow> blind S P"
  unfolding blind_def by blast

lemma blind_node: "p \<notin> T \<Longrightarrow> blind T (\<lambda>d. Q (node_at d p))"
  unfolding blind_def by simp

lemma node_set: "p \<noteq> [] \<Longrightarrow> node_at (map_set p n d) q = (if q = p then Some n else node_at d q)"
  by (simp add: node_at_def)

lemma node_del: "p \<noteq> [] \<Longrightarrow> node_at (map_del p d) q = (if q = p then None else node_at d q)"
  by (simp add: node_at_def)

end
