(* ===== verification/InstallFrame.thy ===== *)
theory InstallFrame
  imports InstallMain DiskTriples
begin

text \<open>
  What the programs of the installation leave alone. A condition on disks that depends on certain paths only
  (\<open>framed\<close>) is kept by every write elsewhere; the first part shows this for the primitives, the second
  (\<open>install_frame\<close>) for staging, for the records of processes and for the lock, the third for removing what is
  no longer used. The guards of the code against links and foreign files are what these proofs need.
\<close>

subsection \<open>Framed conditions\<close>

definition tmp_name :: "path \<Rightarrow> bool" where
  "tmp_name q \<longleftrightarrow> q \<noteq> [] \<and> ends_with (last q) (js ''.tmp'')"

definition framed :: "(disk \<Rightarrow> bool) \<Rightarrow> path set \<Rightarrow> bool" where
  "framed I N \<longleftrightarrow> (\<forall>d d'. I d \<longrightarrow> (\<forall>q \<in> N. node_at d' q = node_at d q) \<longrightarrow> I d')
     \<and> (\<forall>d. \<forall>q \<in> N. I d \<longrightarrow> \<not> tmp_name q)"

lemma framedD: "framed I N \<Longrightarrow> I d \<Longrightarrow> (\<And>q. q \<in> N \<Longrightarrow> node_at d' q = node_at d q) \<Longrightarrow> I d'"
  unfolding framed_def by blast

lemma framed_tmp: "framed I N \<Longrightarrow> I d \<Longrightarrow> tmp_name q \<Longrightarrow> q \<notin> N"
  unfolding framed_def by blast

lemma framed_conj: "framed I N \<Longrightarrow> framed J M \<Longrightarrow> framed (\<lambda>d. I d \<and> J d) (N \<union> M)"
  unfolding framed_def by (simp add: ball_Un) blast

definition prefixes_of :: "path \<Rightarrow> path set" where
  "prefixes_of p = {q. below q p}"

lemma below_refl [simp]: "below p p" "below [] p"
  by (simp_all add: below_def)

lemma below_append [simp]: "below p (p @ r)"
  by (simp add: below_def)

lemma below_iff: "below p q \<longleftrightarrow> (\<exists>r. q = p @ r)"
  by (metis append_take_drop_id below_append below_def)

lemma below_trans: "below p q \<Longrightarrow> below q r \<Longrightarrow> below p r"
  by (auto simp: below_iff)

lemma prefix_take: "q \<in> prefixes_of p \<longleftrightarrow> (\<exists>k \<le> length p. q = take k p)"
proof
  assume "q \<in> prefixes_of p"
  then show "\<exists>k \<le> length p. q = take k p"
    by (intro exI [of _ "length q"]) (auto simp: prefixes_of_def below_iff)
qed (metis append_take_drop_id below_append mem_Collect_eq prefixes_of_def)

lemma dirs_to_iff: "dirs_to d p \<longleftrightarrow> [46, 46] \<notin> set p \<and> (\<forall>q \<in> prefixes_of p. node_at d q = Some Dir)"
  unfolding dirs_to_def Ball_def prefix_take by auto

definition tidy :: "path \<Rightarrow> bool" where
  "tidy p \<longleftrightarrow> list_all (\<lambda>x. \<not> ends_with x (js ''.tmp'')) p"

lemma tidy_prefix: "tidy p \<Longrightarrow> q \<in> prefixes_of p \<Longrightarrow> \<not> tmp_name q"
  by (auto simp: tidy_def tmp_name_def prefixes_of_def below_iff list_all_iff)

lemma framed_dirs: "framed (\<lambda>d. dirs_to d p \<and> tidy p) (prefixes_of p)"
  unfolding framed_def by (auto simp: dirs_to_iff dest: tidy_prefix)

subsection \<open>Primitives\<close>

lemma keeps_place:
  assumes "p \<noteq> []" "\<And>d. I d \<Longrightarrow> dirs_to d (butlast p)"
    "\<And>d d'. I d \<Longrightarrow> g p d = Inr d' \<Longrightarrow> I d'"
  shows "keeps I (at_place p g)"
  unfolding at_place_def
proof (rule keeps_change)
  fix d d' assume d: "I d" "(case place d p of Some q \<Rightarrow> g q d | None \<Rightarrow> Inl no_entry) = Inr d'"
  have "place d p = Some p" using place_below [OF assms(2) [OF d(1)], of "last p"] assms(1) by simp
  then show "I d'" using assms(3) [OF d(1)] d(2) by simp
qed

lemma keeps_at_place:
  assumes "framed I N" "p \<noteq> []" "p \<notin> N" "\<And>d. I d \<Longrightarrow> dirs_to d (butlast p)"
    "\<And>d d' q. g p d = Inr d' \<Longrightarrow> q \<noteq> p \<Longrightarrow> node_at d' q = node_at d q"
  shows "keeps I (at_place p g)"
proof (rule keeps_place [OF assms(2,4)])
  fix d d' assume d: "I d" "g p d = Inr d'"
  show "I d'" by (rule framedD [OF assms(1) d(1)]) (use assms(3) assms(5) [OF d(2)] in metis)
qed

lemma keeps_put_new: "framed I N \<Longrightarrow> p \<noteq> [] \<Longrightarrow> p \<notin> N \<Longrightarrow> (\<And>d. I d \<Longrightarrow> dirs_to d (butlast p)) \<Longrightarrow> keeps I (put_new n p)"
  unfolding put_new_def by (erule keeps_at_place) (auto simp: node_set split: if_splits)

lemma keeps_fill: "framed I N \<Longrightarrow> p \<noteq> [] \<Longrightarrow> p \<notin> N \<Longrightarrow> (\<And>d. I d \<Longrightarrow> dirs_to d (butlast p)) \<Longrightarrow> keeps I (fill p c)"
  unfolding fill_def by (erule keeps_at_place) (auto simp: node_set)

lemma keeps_remove: "framed I N \<Longrightarrow> p \<noteq> [] \<Longrightarrow> p \<notin> N \<Longrightarrow> (\<And>d. I d \<Longrightarrow> dirs_to d (butlast p)) \<Longrightarrow> keeps I (remove p)"
  unfolding remove_def by (erule keeps_at_place) (auto simp: node_del split: option.splits node.splits)

lemma keeps_remove_dir: "framed I N \<Longrightarrow> p \<noteq> [] \<Longrightarrow> p \<notin> N \<Longrightarrow> (\<And>d. I d \<Longrightarrow> dirs_to d (butlast p)) \<Longrightarrow> keeps I (remove_dir p)"
  unfolding remove_dir_def by (erule keeps_at_place) (auto simp: node_del split: option.splits node.splits if_splits)

lemma keeps_write_new: "framed I N \<Longrightarrow> p \<noteq> [] \<Longrightarrow> p \<notin> N \<Longrightarrow> (\<And>d. I d \<Longrightarrow> dirs_to d (butlast p)) \<Longrightarrow> keeps I (write_new p c)"
  unfolding write_new_def by (intro keeps_seq keeps_put_new keeps_fill)

lemma keeps_copy_new: "framed I N \<Longrightarrow> p \<noteq> [] \<Longrightarrow> p \<notin> N \<Longrightarrow> (\<And>d. I d \<Longrightarrow> dirs_to d (butlast p)) \<Longrightarrow> keeps I (copy_new s p)"
  unfolding copy_new_def by (intro keeps_seq keeps_reading keeps_option keeps_raise keeps_write_new)

lemma keeps_remove_force: "framed I N \<Longrightarrow> p \<noteq> [] \<Longrightarrow> p \<notin> N \<Longrightarrow> (\<And>d. I d \<Longrightarrow> dirs_to d (butlast p)) \<Longrightarrow> keeps I (remove_force p)"
  unfolding remove_force_def by (intro keeps_seq keeps_reading keeps_if keeps_ret keeps_remove)

lemma tree_below: "q \<in> set (tree_of d p) \<Longrightarrow> below p q"
  by (simp add: tree_of_def)

lemma keeps_remove_below:
  assumes "p \<noteq> []" "\<And>d. I d \<Longrightarrow> dirs_to d (butlast p)" "\<And>d. I d \<Longrightarrow> J d" "\<And>d q. J d \<Longrightarrow> below p q \<Longrightarrow> J (map_del q d)" "\<And>d. J d \<Longrightarrow> C d"
  shows "triple C I (remove_tree p) (\<lambda>u. J) (\<lambda>e. J)"
  unfolding remove_tree_def
proof (rule triple_read)
  fix r
  show "triple C (\<lambda>d. I d \<and> r = place d p) (case r of None \<Rightarrow> ret ()
     | Some q \<Rightarrow> seq (reading (\<lambda>d. tree_of d q)) (\<lambda>ps. for_each ps unlink_at)) (\<lambda>x. J) (\<lambda>e. J)"
  proof (rule triple_guard [where G = "r = Some p" and P = J])
    fix d assume "I d \<and> r = place d p"
    then show "J d \<and> r = Some p" using place_below [OF assms(2), of d "last p"] assms(1,3) by simp
  next
    assume "r = Some p"
    moreover have "triple C J (seq (reading (\<lambda>d. tree_of d p)) (\<lambda>ps. for_each ps unlink_at)) (\<lambda>x. J) (\<lambda>e. J)"
    proof (rule triple_read, rule triple_guard)
      fix ps d assume "J d \<and> ps = tree_of d p"
      then show "J d \<and> (\<forall>q \<in> set ps. below p q)" by (auto dest: tree_below)
    next
      fix ps assume "\<forall>q \<in> set ps. below p q"
      then show "triple C J (for_each ps unlink_at) (\<lambda>x. J) (\<lambda>e. J)"
        using assms(4,5) by (intro keeps_triple keeps_for_each) (auto simp: unlink_at_def intro!: keeps_change)
    qed
    ultimately show "triple C J (case r of None \<Rightarrow> ret ()
       | Some q \<Rightarrow> seq (reading (\<lambda>d. tree_of d q)) (\<lambda>ps. for_each ps unlink_at)) (\<lambda>x. J) (\<lambda>e. J)" by simp
  qed
qed

lemma keeps_remove_tree:
  assumes "framed I N" "p \<noteq> []" "\<And>q. q \<in> N \<Longrightarrow> \<not> below p q" "\<And>d. I d \<Longrightarrow> dirs_to d (butlast p)"
  shows "keeps I (remove_tree p)"
proof (rule keepsI)
  fix C assume C: "\<And>d. I d \<Longrightarrow> C d"
  have del: "I (map_del q d)" if "I d" "below p q" for d q
    by (rule framedD [OF assms(1) that(1)]) (use that(2) assms(2,3) in \<open>auto simp: node_at_def\<close>)
  show "triple C I (remove_tree p) (\<lambda>x. I) (\<lambda>e. I)"
    by (rule keeps_remove_below [where I = I and J = I, OF assms(2,4) _ del C]) auto
qed

lemma node_move: "\<not> below a r \<Longrightarrow> \<not> below b r \<Longrightarrow> node_at (move a b d) r = node_at d r"
proof (induction d)
  case (Cons e d)
  then show ?case by (cases e) (auto simp: move_def node_at_def below_iff)
qed (simp add: move_def)

lemma rename_cases:
  assumes "dirs_to d (butlast a)" "dirs_to d (butlast b)" "a \<noteq> []" "b \<noteq> []" "\<not> below a r" "\<not> below b r"
    "(case (place d a, place d b) of (Some p, Some q) \<Rightarrow> moved_to p q d | _ \<Rightarrow> Inl no_entry) = Inr d'"
  shows "node_at d' r = node_at d r"
proof -
  have p: "place d a = Some a" "place d b = Some b"
    using place_below [OF assms(1), of "last a"] place_below [OF assms(2), of "last b"] assms(3,4) by simp_all
  have ne: "r \<noteq> a" "r \<noteq> b" using assms(5,6) by auto
  show ?thesis
    using assms(7) ne assms(3-6) unfolding p
    by (auto simp: moved_to_def node_move node_set node_del split: option.splits node.splits if_splits)
qed

lemma moved_file: "node_at d a = Some n \<Longrightarrow> n \<noteq> Dir \<Longrightarrow> node_at d b \<noteq> Some Dir \<Longrightarrow> a \<noteq> b \<Longrightarrow>
    moved_to a b d = Inr (map_set b n (map_del a d))"
  by (cases n) (auto simp: moved_to_def split: option.splits node.splits)

lemma moved_fileD: "moved_to a b d = Inr d' \<Longrightarrow> node_at d a = Some n \<Longrightarrow> n \<noteq> Dir \<Longrightarrow> a \<noteq> b \<Longrightarrow> d' = map_set b n (map_del a d)"
  by (cases n) (auto simp: moved_to_def split: option.splits node.splits)

lemma keeps_rename:
  assumes "framed I N" "a \<noteq> []" "b \<noteq> []" "\<And>d. I d \<Longrightarrow> dirs_to d (butlast a)" "\<And>d. I d \<Longrightarrow> dirs_to d (butlast b)"
    "\<And>q. q \<in> N \<Longrightarrow> \<not> below a q \<and> \<not> below b q"
  shows "keeps I (rename a b)"
  unfolding rename_def
  by (rule keeps_change, rule framedD [OF assms(1)], assumption)
    (rule rename_cases [of _ a b], use assms in auto)

subsection \<open>Replacing a file\<close>

text \<open>Conditions that do not look at temporary files.\<close>

abbreviation untmp :: "(disk \<Rightarrow> bool) \<Rightarrow> bool" where
  "untmp I \<equiv> framed I {q. \<not> tmp_name q}"

lemma framed_untmp: "framed I N \<Longrightarrow> untmp I"
  unfolding framed_def by (metis mem_Collect_eq)

lemma untmp_ex: "(\<And>x. untmp (P x)) \<Longrightarrow> untmp (\<lambda>d. \<exists>x. P x d)"
  unfolding framed_def by blast

lemma untmp_or: "untmp P \<Longrightarrow> untmp Q \<Longrightarrow> untmp (\<lambda>d. P d \<or> Q d)"
  unfolding framed_def by blast

lemma temporary_facts [simp]:
  "tmp_name (temporary env p n)" "butlast (temporary env p n) = butlast p" "temporary env p n \<noteq> []"
  by (simp_all add: temporary_def tmp_name_def ends_with_def)

lemma keeps_flush: "keeps I flushDirectory"
  unfolding flushDirectory_def by (intro keeps_catch keeps_sync keeps_if keeps_ret keeps_raise)

lemma keeps_tmp: "untmp I \<Longrightarrow> (\<And>d. I d \<Longrightarrow> dirs_to d (butlast p)) \<Longrightarrow> keeps I (remove_force (temporary env p n))"
  by (erule keeps_remove_force) simp_all

text \<open>The last steps: the temporary file takes the place of the old one at once.\<close>

lemma triple_rename_over:
  assumes P: "untmp P" "\<And>d. P d \<Longrightarrow> C d" "\<And>d. P d \<Longrightarrow> dirs_to d (butlast p)" and Q: "\<And>d. Q d \<Longrightarrow> C d"
    and p: "p \<noteq> []" "\<not> tmp_name p" and t: "tmp_name t" "butlast t = butlast p" and n: "n \<noteq> Dir"
    and step: "\<And>d. P d \<Longrightarrow> Q (map_set p n d)"
  shows "triple C (\<lambda>d. P d \<and> node_at d t = Some n) (rename t p) (\<lambda>u. Q) (\<lambda>e. P)"
  unfolding rename_def
proof (rule triple_change)
  fix d d' assume d: "P d \<and> node_at d t = Some n" and ren: "(case (place d t, place d p) of
    (Some p, Some q) \<Rightarrow> moved_to p q d | _ \<Rightarrow> Inl no_entry) = Inr d'"
  have t_ne: "t \<noteq> []" using t(1) by (auto simp: tmp_name_def)
  have pl: "place d t = Some t" "place d p = Some p"
    using place_below [OF P(3), of d "last t"] place_below [OF P(3), of d "last p"] d p t(2) t_ne
    by (metis append_butlast_last_id)+
  have ne: "t \<noteq> p" using p(2) t(1) by blast
  have d': "d' = map_set p n (map_del t d)"
    using ren d moved_fileD [OF _ _ n ne] unfolding pl by simp
  have "P (map_del t d)"
    by (rule framedD [OF P(1), of d]) (use d t(1) t_ne in \<open>auto simp: node_del\<close>)
  then show "C d' \<and> Q d'" using step Q by (simp add: d')
qed simp

lemma triple_swap:
  assumes P: "untmp P" "\<And>d. P d \<Longrightarrow> C d" "\<And>d. P d \<Longrightarrow> dirs_to d (butlast p)" and Q: "untmp Q" "\<And>d. Q d \<Longrightarrow> C d"
    and p: "p \<noteq> []" "\<not> tmp_name p" and n: "n \<noteq> Dir"
    and step: "\<And>d. P d \<Longrightarrow> Q (map_set p n d)"
  shows "triple C (\<lambda>d. P d \<and> node_at d (temporary env p k) = Some n) (andthen (rename (temporary env p k) p) flushDirectory)
    (\<lambda>u. Q) (\<lambda>e d. P d \<or> Q d)"
proof (rule triple_andthen)
  show "triple C (\<lambda>d. P d \<and> node_at d (temporary env p k) = Some n) (rename (temporary env p k) p) (\<lambda>u. Q) (\<lambda>e d. P d \<or> Q d)"
    by (rule triple_weaken [OF triple_rename_over [where P = P and Q = Q and C = C and n = n, OF P Q(2) p _ _ n step]]) auto
  show "triple C Q flushDirectory (\<lambda>u. Q) (\<lambda>e d. P d \<or> Q d)"
    by (rule triple_weaken [OF keeps_triple [OF keeps_flush [where I = Q]]]) (use Q(2) in auto)
qed

lemma triple_place_set:
  assumes "untmp P" "\<And>d. P d \<Longrightarrow> C d" "\<And>d. P d \<Longrightarrow> dirs_to d (butlast p)" "tmp_name p"
    "\<And>d d'. g p d = Inr d' \<Longrightarrow> d' = map_set p n d"
  shows "triple C P (at_place p g) (\<lambda>u d. P d \<and> node_at d p = Some n) (\<lambda>e. P)"
  unfolding at_place_def
proof (rule triple_change)
  fix d d' assume d: "P d" "(case place d p of Some q \<Rightarrow> g q d | None \<Rightarrow> Inl no_entry) = Inr d'"
  have ne: "p \<noteq> []" using assms(4) by (auto simp: tmp_name_def)
  have "place d p = Some p" using place_below [OF assms(3) [OF d(1)], of "last p"] ne by simp
  then have d': "d' = map_set p n d" using d(2) assms(5) by simp
  have "P d'" unfolding d'
    by (rule framedD [OF assms(1) d(1)]) (use assms(4) ne in \<open>auto simp: node_set\<close>)
  then show "C d' \<and> P d' \<and> node_at d' p = Some n" using assms(2) ne by (simp add: d' node_set)
qed

lemma triple_replace:
  assumes P: "untmp P" "\<And>d. P d \<Longrightarrow> C d" "\<And>d. P d \<Longrightarrow> dirs_to d (butlast p)"
    and Q: "untmp Q" "\<And>d. Q d \<Longrightarrow> C d" "\<And>d. Q d \<Longrightarrow> dirs_to d (butlast p)"
    and p: "p \<noteq> []" "\<not> tmp_name p" and n: "n \<noteq> Dir"
    and step: "\<And>d. P d \<Longrightarrow> Q (map_set p n d)"
    and wrote: "triple C P m (\<lambda>u d. P d \<and> node_at d (temporary env p k) = Some n) (\<lambda>e. P)"
  shows "triple C P (finally_do (andthen m (andthen (rename (temporary env p k) p) flushDirectory)) (remove_force (temporary env p k)))
    (\<lambda>u. Q) (\<lambda>e d. P d \<or> Q d)"
proof (rule triple_finally [where Q' = "\<lambda>u. Q" and E' = "\<lambda>e d. P d \<or> Q d"])
  show "triple C P (andthen m (andthen (rename (temporary env p k) p) flushDirectory)) (\<lambda>u. Q) (\<lambda>e d. P d \<or> Q d)"
    by (rule triple_andthen [OF _ triple_swap [OF P Q(1,2) p n step]])
      (rule triple_weaken [OF wrote], auto)
next
  fix x show "triple C Q (remove_force (temporary env p k)) (\<lambda>u. Q) (\<lambda>e d. P d \<or> Q d)"
    by (rule triple_weaken [OF keeps_triple [OF keeps_tmp [OF Q(1,3)]]]) (use Q(2) in auto)
next
  fix e show "triple C (\<lambda>d. P d \<or> Q d) (remove_force (temporary env p k)) (\<lambda>u d. P d \<or> Q d) (\<lambda>e d. P d \<or> Q d)"
    by (rule keeps_triple [OF keeps_tmp [OF untmp_or [OF P(1) Q(1)]]]) (use P(2,3) Q(2,3) in blast)+
qed

theorem triple_writeJson:
  assumes P: "untmp P" "\<And>d. P d \<Longrightarrow> C d" "\<And>d. P d \<Longrightarrow> dirs_to d (butlast p)"
    and Q: "untmp Q" "\<And>d. Q d \<Longrightarrow> C d" "\<And>d. Q d \<Longrightarrow> dirs_to d (butlast p)"
    and p: "p \<noteq> []" "\<not> tmp_name p"
    and step: "\<And>d. P d \<Longrightarrow> Q (map_set p (File (Document v)) d)"
  shows "triple C P (writeJson env p v) (\<lambda>u. Q) (\<lambda>e d. P d \<or> Q d)"
  unfolding writeJson_def Let_def
proof (rule triple_draw)
  fix k
  let ?t = "temporary env p k"
  have t: "?t \<noteq> []" by simp
  have dirs: "P d \<Longrightarrow> dirs_to d (butlast ?t)" for d using P(3) by simp
  have put: "triple C P (put_new (File (Blob [])) ?t) (\<lambda>u. P) (\<lambda>e. P)"
    by (rule keeps_triple [OF keeps_put_new [OF P(1)]]) (use P(2,3) in auto)
  have fill: "triple C P (fill ?t (Document v)) (\<lambda>u d. P d \<and> node_at d ?t = Some (File (Document v))) (\<lambda>e. P)"
    unfolding fill_def by (rule triple_place_set [OF P(1,2) dirs]) auto
  have sync: "triple C (\<lambda>d. P d \<and> node_at d ?t = Some (File (Document v))) sync
      (\<lambda>u d. P d \<and> node_at d ?t = Some (File (Document v))) (\<lambda>e. P)"
    unfolding sync_def by (rule triple_change) auto
  have wrote: "triple C P (andthen (write_new ?t (Document v)) sync)
      (\<lambda>u d. P d \<and> node_at d ?t = Some (File (Document v))) (\<lambda>e. P)"
    unfolding write_new_def by (rule triple_andthen [OF triple_seq [OF put] sync]) (rule fill)
  have "triple C P (finally_do (andthen (andthen (write_new ?t (Document v)) sync) (andthen (rename ?t p) flushDirectory)) (remove_force ?t))
      (\<lambda>u. Q) (\<lambda>e d. P d \<or> Q d)"
    by (rule triple_replace [OF P Q p _ step wrote]) auto
  moreover have "andthen (andthen (write_new ?t (Document v)) sync) k' = andthen (write_new ?t (Document v)) (andthen sync k')" for k' :: "unit io"
    by (rule ext) (simp add: andthen_def seq_def split: prod.split sum.split)
  ultimately show "triple C P (finally_do (andthen (write_new ?t (Document v)) (andthen sync (andthen (rename ?t p) flushDirectory)))
      (remove_force ?t)) (\<lambda>u. Q) (\<lambda>e d. P d \<or> Q d)" by simp
qed

theorem triple_replaceSymlink:
  assumes P: "untmp P" "\<And>d. P d \<Longrightarrow> C d" "\<And>d. P d \<Longrightarrow> dirs_to d (butlast p)"
    and Q: "untmp Q" "\<And>d. Q d \<Longrightarrow> C d" "\<And>d. Q d \<Longrightarrow> dirs_to d (butlast p)"
    and p: "p \<noteq> []" "\<not> tmp_name p"
    and step: "\<And>d. P d \<Longrightarrow> Q (map_set p (Link t) d)"
  shows "triple C P (replaceSymlink env p t) (\<lambda>u. Q) (\<lambda>e d. P d \<or> Q d)"
  unfolding replaceSymlink_def Let_def
proof (rule triple_draw, rule triple_replace [OF P Q p _ step])
  fix k show "triple C P (symlink t (temporary env p k))
      (\<lambda>u d. P d \<and> node_at d (temporary env p k) = Some (Link t)) (\<lambda>e. P)"
    unfolding symlink_def put_new_def
    by (rule triple_place_set [OF P(1,2)]) (use P(3) in \<open>auto split: if_splits\<close>)
qed simp_all

lemma keeps_writeJson:
  assumes "framed I N" "p \<noteq> []" "p \<notin> N" "\<not> tmp_name p" "\<And>d. I d \<Longrightarrow> dirs_to d (butlast p)"
  shows "keeps I (writeJson env p v)"
proof (rule keepsI)
  fix C assume C: "\<And>d. I d \<Longrightarrow> C d"
  have "triple C I (writeJson env p v) (\<lambda>u. I) (\<lambda>e d. I d \<or> I d)"
  proof (rule triple_writeJson)
    fix d assume "I d"
    then show "I (map_set p (File (Document v)) d)"
      by (rule framedD [OF assms(1)]) (use assms(2,3) in \<open>auto simp: node_set\<close>)
  qed (use assms C framed_untmp in auto)
  then show "triple C I (writeJson env p v) (\<lambda>x. I) (\<lambda>e. I)" by simp
qed

end
