(* ===== verification/InstallKeeps.thy ===== *)
theory InstallKeeps
  imports InstallFrame
begin

text \<open>
  What staging, the records of processes, the lock and the removal of unused releases leave alone, as two
  locales over a framed condition, interpreted for an intact release, for the selection and (in
  \<open>InstallCrash\<close>) for a working command.
\<close>

definition uuid_ok :: "install_env \<Rightarrow> bool" where
  "uuid_ok env \<longleftrightarrow> (\<forall>n. list_all (\<lambda>c. hex_lower c \<or> c = 45) (ie_uuid env n))"

lemma RELEASE_NAME_hd: "RELEASE_NAME n \<Longrightarrow> take 8 n = release_prefix"
  by (simp add: RELEASE_NAME_def starts_with_def release_prefix_def eval_nat_numeral)

lemma staging_not_release: "\<not> RELEASE_NAME (staging_prefix @ s)"
  by (auto dest!: RELEASE_NAME_hd simp: staging_prefix_def release_prefix_def js_def)

lemma staging_name_not_release: "staging_name n \<Longrightarrow> \<not> RELEASE_NAME n"
proof
  assume n: "staging_name n" "RELEASE_NAME n"
  have "length staging_prefix = 9" by (simp add: staging_prefix_def)
  then have "n = staging_prefix @ drop 9 n"
    using n(1) append_take_drop_id [of 9 n] by (simp add: staging_name_def starts_with_def)
  then show False using n(2) staging_not_release by metis
qed

lemma ends_tmp: "ends_with s (js ''.tmp'') \<Longrightarrow> s \<noteq> [] \<and> last s = 112"
  by (cases s rule: rev_cases) (auto simp: ends_with_def js_def)

lemma tidy_last: "s = [] \<or> last s \<noteq> 112 \<Longrightarrow> \<not> ends_with s (js ''.tmp'')"
  using ends_tmp by blast

lemma json_name_tidy: "\<not> ends_with (u @ js ''.json'') (js ''.tmp'')"
  by (rule tidy_last) (simp add: js_def)

lemma tidy_snoc [simp]: "tidy (p @ q) \<longleftrightarrow> tidy p \<and> tidy q" "tidy []" "tidy (x # p) \<longleftrightarrow> \<not> ends_with x (js ''.tmp'') \<and> tidy p"
  by (simp_all add: tidy_def)

lemma RELEASE_NAME_tidy: "RELEASE_NAME n \<Longrightarrow> \<not> ends_with n (js ''.tmp'') \<and> n \<noteq> [46, 46]"
proof
  assume n: "RELEASE_NAME n"
  then have "drop 8 n \<noteq> []" "last (drop 8 n) = last n" by (simp_all add: RELEASE_NAME_def)
  then have "last n \<in> set (drop 8 n)" using last_in_set by metis
  then have "hex_lower (last n)" using n by (auto simp: RELEASE_NAME_def list_all_iff)
  then show "\<not> ends_with n (js ''.tmp'')" by (intro tidy_last) (auto simp: hex_lower_def)
  show "n \<noteq> [46, 46]" using n by (auto simp: RELEASE_NAME_def)
qed

lemma names_tidy [simp]:
  "\<not> ends_with versions_dir (js ''.tmp'')" "\<not> ends_with USAGE_DIR (js ''.tmp'')" "\<not> ends_with launcher (js ''.tmp'')"
  "\<not> ends_with backend (js ''.tmp'')" "\<not> ends_with RELEASE (js ''.tmp'')" "\<not> ends_with STATE (js ''.tmp'')"
  "\<not> ends_with STATE_BAK (js ''.tmp'')" "\<not> ends_with CURRENT_LINK (js ''.tmp'')" "\<not> ends_with LOCK (js ''.tmp'')"
  "\<not> ends_with STAGING_MARKER (js ''.tmp'')" "\<not> ends_with RELOCATION (js ''.tmp'')"
  by (rule tidy_last, simp add: versions_dir_def USAGE_DIR_def launcher_def backend_def RELEASE_def STATE_def STATE_BAK_def
      CURRENT_LINK_def LOCK_def STAGING_MARKER_def RELOCATION_def js_def)+

lemma names_plain [simp]:
  "versions_dir \<noteq> [46, 46]" "USAGE_DIR \<noteq> [46, 46]" "launcher \<noteq> [46, 46]" "backend \<noteq> [46, 46]" "RELEASE \<noteq> [46, 46]"
  "STATE \<noteq> [46, 46]" "STATE_BAK \<noteq> [46, 46]" "CURRENT_LINK \<noteq> [46, 46]" "STAGING_MARKER \<noteq> [46, 46]" "RELOCATION \<noteq> [46, 46]"
  by (simp_all add: versions_dir_def USAGE_DIR_def launcher_def backend_def RELEASE_def STATE_def STATE_BAK_def
      CURRENT_LINK_def STAGING_MARKER_def RELOCATION_def js_def)

lemma names_distinct [simp]:
  "distinct [versions_dir, USAGE_DIR, launcher, backend, STATE, STATE_BAK, CURRENT_LINK, LOCK, RELOCATION]"
  by code_simp

lemma tmp_name_iff [simp]: "tmp_name (p @ [x]) \<longleftrightarrow> ends_with x (js ''.tmp'')"
  by (simp add: tmp_name_def)

lemma hex_not_tmp: "list_all (\<lambda>c. hex_lower c \<or> c = 45) u \<Longrightarrow> \<not> ends_with (staging_prefix @ take 6 (filter (\<lambda>c. c \<noteq> 45) u)) (js ''.tmp'')"
proof (rule tidy_last)
  assume u: "list_all (\<lambda>c. hex_lower c \<or> c = 45) u"
  let ?v = "take 6 (filter (\<lambda>c. c \<noteq> 45) u)"
  have "hex_lower c" if "c \<in> set ?v" for c using that u in_set_takeD [of c 6] by (fastforce simp: list_all_iff)
  then show "staging_prefix @ ?v = [] \<or> last (staging_prefix @ ?v) \<noteq> 112"
  proof (cases "?v = []")
    case False
    then have "hex_lower (last ?v)" using \<open>\<And>c. c \<in> set ?v \<Longrightarrow> hex_lower c\<close> last_in_set by blast
    then show ?thesis using False by (auto simp: hex_lower_def)
  qed (simp add: staging_prefix_def js_def)
qed

text \<open>Inside a real directory the tests of the code look at one node.\<close>

lemma is_dir_below: "dirs_to d p \<Longrightarrow> is_dir d (p @ [x]) \<longleftrightarrow> node_at d (p @ [x]) = Some Dir"
  by (simp add: is_dir_def lstat_below)

lemma regular_below: "dirs_to d p \<Longrightarrow> regularFile d (p @ [x]) \<longleftrightarrow> (\<exists>c. node_at d (p @ [x]) = Some (File c))"
  by (auto simp: regularFile_def lstat_below split: option.splits node.splits)

lemma dirs_to_dir: "dirs_to d p \<Longrightarrow> x \<noteq> [46, 46] \<Longrightarrow> is_dir d (p @ [x]) \<Longrightarrow> dirs_to d (p @ [x])"
  by (simp add: is_dir_below dirs_to_snoc)

lemma json_below_cong:
  "dirs_to d p \<Longrightarrow> dirs_to d' p \<Longrightarrow> x \<noteq> [46, 46] \<Longrightarrow> node_at d' (p @ [x]) = node_at d (p @ [x]) \<Longrightarrow> regularFile d (p @ [x]) \<Longrightarrow>
    read_file d' (p @ [x]) = read_file d (p @ [x])"
  by (auto simp: regular_below read_below)

lemma payload_cong:
  assumes "dirs_to d (release_dir base X)" "dirs_to d' (release_dir base X)"
    "\<And>f. f \<in> {RELEASE, launcher, backend} \<Longrightarrow> node_at d' (release_dir base X @ [f]) = node_at d (release_dir base X @ [f])"
  shows "payload_of env d' base X v = payload_of env d base X v"
proof -
  let ?D = "release_dir base X"
  have V: "dirs_to d (versions_of base)" "dirs_to d' (versions_of base)"
    using assms(1,2) by (auto simp: release_dir_def dest: dirs_to_append)
  have dirs: "is_dir d (versions_of base)" "is_dir d' (versions_of base)" "is_dir d ?D" "is_dir d' ?D"
    using V assms(1,2) dirs_to_append [of d base "[versions_dir]"] dirs_to_append [of d' base "[versions_dir]"]
    using is_dir_below [OF V(1), of X] is_dir_below [OF V(2), of X]
    by (simp_all add: versions_of_def release_dir_def is_dir_below dirs_to_node)
  have reg: "regularFile d' (?D @ [f]) = regularFile d (?D @ [f])" if "f \<in> {RELEASE, launcher, backend}" for f
    using assms that by (simp add: regular_below)
  have rd: "read_file d' (?D @ [f]) = read_file d (?D @ [f])" if "f \<in> {RELEASE, launcher, backend}" "regularFile d (?D @ [f])" for f
    using json_below_cong [OF assms(1,2) _ assms(3)] that by auto
  have m: "payloadManifest env d' base X = payloadManifest env d base X"
    using dirs reg [of RELEASE] rd [of RELEASE] by (auto simp: payloadManifest_def read_json_def)
  have one: "(regularFile d' (?D @ [f]) \<and> (v \<longrightarrow> (case digest_at env d' (?D @ [f]) of Some h \<Rightarrow> G h | None \<Rightarrow> False)))
      = (regularFile d (?D @ [f]) \<and> (v \<longrightarrow> (case digest_at env d (?D @ [f]) of Some h \<Rightarrow> G h | None \<Rightarrow> False)))"
    if "f \<in> {RELEASE, launcher, backend}" for f G
    using reg [OF that] rd [OF that] by (cases "regularFile d (?D @ [f])") (simp_all add: digest_at_def)
  show ?thesis
    unfolding payload_of_def m releaseFiles_def list.pred_inject by (simp only: one insert_iff simp_thms list.pred_inject)
qed

definition needs_release :: "path \<Rightarrow> jsstr \<Rightarrow> path set" where
  "needs_release base X = prefixes_of (release_dir base X) \<union> (\<lambda>f. release_dir base X @ [f]) ` {RELEASE, launcher, backend}"

definition intact :: "install_env \<Rightarrow> path \<Rightarrow> jsstr \<Rightarrow> disk \<Rightarrow> bool" where
  "intact env base X d \<longleftrightarrow> uuid_ok env \<and> tidy base \<and> dirs_to d (release_dir base X) \<and> payload_of env d base X True \<noteq> None"

lemma intact_name: "intact env base X d \<Longrightarrow> RELEASE_NAME X"
  by (auto simp: intact_def payload_of_def payloadManifest_def split: option.splits if_splits)

lemma framed_intact: "framed (intact env base X) (needs_release base X)"
  unfolding framed_def
proof (intro conjI allI impI ballI)
  fix d d' assume d: "intact env base X d" and eq: "\<forall>q \<in> needs_release base X. node_at d' q = node_at d q"
  then have "dirs_to d' (release_dir base X)" by (auto simp: intact_def dirs_to_iff needs_release_def)
  moreover have "payload_of env d' base X True = payload_of env d base X True"
    using d eq calculation by (intro payload_cong) (auto simp: intact_def needs_release_def)
  ultimately show "intact env base X d'" using d by (simp add: intact_def)
next
  fix d q assume d: "intact env base X d" and q: "q \<in> needs_release base X"
  have "tidy (release_dir base X)"
    using d RELEASE_NAME_tidy [OF intact_name [OF d]] by (simp add: intact_def release_dir_def versions_of_def)
  then show "\<not> tmp_name q" using q tidy_prefix [of "release_dir base X" q] by (auto simp: needs_release_def)
qed

subsection \<open>Staging, records and the lock\<close>

text \<open>
  What a condition \<open>I\<close> on the paths \<open>N\<close> may depend on so that staging another release keeps it: no records of
  processes, not the lock, and below \<open>versions\<close> only releases that exist.
\<close>

locale install_frame =
  fixes env :: install_env and base :: path and I :: "disk \<Rightarrow> bool" and N :: "path set"
  assumes framed: "framed I N"
    and base_ok: "I d \<Longrightarrow> uuid_ok env \<and> tidy base \<and> dirs_to d base"
    and records_free: "I d \<Longrightarrow> q \<in> N \<Longrightarrow> \<not> below (base @ [USAGE_DIR]) q"
    and lock_free: "I d \<Longrightarrow> base @ [LOCK] \<notin> N"
    and versions_known: "I d \<Longrightarrow> versions_of base \<in> N \<Longrightarrow> node_at d (versions_of base) = Some Dir"
    and releases_known: "I d \<Longrightarrow> q \<in> N \<Longrightarrow> below (release_dir base n) q \<Longrightarrow>
      RELEASE_NAME n \<and> node_at d (release_dir base n) = Some Dir"
begin

lemma dirs_base: "I d \<Longrightarrow> dirs_to d base"
  using base_ok by blast

lemma keeps_lock: "keeps I m \<Longrightarrow> keeps I (withInstallLock base m)"
proof (cases "\<exists>d. I d")
  case True
  assume m: "keeps I m"
  have "base @ [LOCK] \<notin> N" using True lock_free by blast
  then have "keeps I (put_new (File (Blob [])) (base @ [LOCK]))"
    by (intro keeps_put_new [OF framed]) (simp_all add: dirs_base)
  then show ?thesis
    unfolding withInstallLock_def Let_def
    by (intro keeps_seq keeps_reading) (auto split: option.split node.split intro!: keeps_andthen keeps_holding keeps_raise m)
qed (auto simp: keeps_def triple_def crash_ok_def)

text \<open>A directory of its own: afterwards it is a real one.\<close>

lemma keeps_mkdir_step:
  assumes "\<And>d. I d \<Longrightarrow> dirs_to d (butlast p)" "p \<noteq> []" "\<And>d. I d \<Longrightarrow> p \<in> N \<Longrightarrow> node_at d p = Some Dir" "last p \<noteq> [46, 46]"
  shows "keeps I (mkdir_step p)"
proof (cases "p \<in> N")
  case False
  show ?thesis
    unfolding mkdir_step_def mkdir_def
    by (intro keeps_seq keeps_reading keeps_option keeps_if keeps_ret keeps_raise keeps_put_new [OF framed assms(2) False assms(1)])
next
  case True
  show ?thesis
    unfolding mkdir_step_def
  proof (rule keeps_read)
    fix C r assume C: "\<And>d. I d \<Longrightarrow> C d"
    show "triple C (\<lambda>d. I d \<and> r = realpath d p) (case r of None \<Rightarrow> mkdir p
        | Some q \<Rightarrow> seq (reading (\<lambda>d. node_at d q = Some Dir)) (\<lambda>b. if b then ret () else raise (Code ''EEXIST'')))
        (\<lambda>x. I) (\<lambda>e. I)"
    proof (rule triple_guard [where G = "r = Some p" and P = I])
      fix d assume d: "I d \<and> r = realpath d p"
      have "dirs_to d (butlast p @ [last p])" using d assms True by (intro dirs_to_snoc) auto
      then show "I d \<and> r = Some p" using realpath_dirs [of d p "[]"] d assms(2) by simp
    next
      assume "r = Some p"
      then show "triple C I (case r of None \<Rightarrow> mkdir p
        | Some q \<Rightarrow> seq (reading (\<lambda>d. node_at d q = Some Dir)) (\<lambda>b. if b then ret () else raise (Code ''EEXIST'')))
        (\<lambda>x. I) (\<lambda>e. I)"
        using C by (auto intro!: keeps_triple keeps_seq keeps_reading keeps_ret keeps_raise)
    qed
  qed
qed

lemma keeps_mkdir_prefix:
  assumes "k < length base"
  shows "keeps I (mkdir_step (take (Suc k) base))"
  unfolding mkdir_step_def
proof (rule keeps_read)
  let ?p = "take (Suc k) base"
  fix C r assume C: "\<And>d. I d \<Longrightarrow> C d"
  show "triple C (\<lambda>d. I d \<and> r = realpath d ?p) (case r of None \<Rightarrow> mkdir ?p
      | Some q \<Rightarrow> seq (reading (\<lambda>d. node_at d q = Some Dir)) (\<lambda>b. if b then ret () else raise (Code ''EEXIST'')))
      (\<lambda>x. I) (\<lambda>e. I)"
  proof (rule triple_guard [where G = "r = Some ?p" and P = I])
    fix d assume d: "I d \<and> r = realpath d ?p"
    then show "I d \<and> r = Some ?p" using realpath_dirs [OF dirs_to_take [OF dirs_base], of d "Suc k" "[]"] by simp
  next
    assume "r = Some ?p"
    then show "triple C I (case r of None \<Rightarrow> mkdir ?p
      | Some q \<Rightarrow> seq (reading (\<lambda>d. node_at d q = Some Dir)) (\<lambda>b. if b then ret () else raise (Code ''EEXIST'')))
      (\<lambda>x. I) (\<lambda>e. I)"
      using C by (auto intro!: keeps_triple keeps_seq keeps_reading keeps_ret keeps_raise)
  qed
qed

lemma keeps_mkdir_all:
  assumes "\<And>d. I d \<Longrightarrow> base @ [x] \<in> N \<Longrightarrow> node_at d (base @ [x]) = Some Dir" "x \<noteq> [46, 46]"
  shows "keeps I (mkdir_all (base @ [x]))"
  unfolding mkdir_all_def
proof (rule keeps_for_each)
  fix p assume "p \<in> set (map (\<lambda>k. take (Suc k) (base @ [x])) [0..<length (base @ [x])])"
  then obtain k where k: "k < length (base @ [x])" "p = take (Suc k) (base @ [x])"
    by (metis (no_types, lifting) atLeastLessThan_iff imageE list.set_map set_upt)
  show "keeps I (mkdir_step p)"
  proof (cases "k < length base")
    case True
    then show ?thesis using keeps_mkdir_prefix [OF True] k(2) by simp
  next
    case False
    then have "p = base @ [x]" using k by simp
    then show ?thesis using assms by (intro keeps_mkdir_step) (simp_all add: dirs_base)
  qed
qed

lemma triple_owned:
  assumes "\<And>d. I d \<Longrightarrow> C d" "\<And>d. I d \<Longrightarrow> base @ [x] \<in> N \<Longrightarrow> node_at d (base @ [x]) = Some Dir" "x \<noteq> [46, 46]"
  shows "triple C I (ownedDirectory (base @ [x])) (\<lambda>u d. I d \<and> dirs_to d (base @ [x])) (\<lambda>e. I)"
  unfolding ownedDirectory_def
proof (rule triple_andthen [where R = I])
  show "triple C I (mkdir_all (base @ [x])) (\<lambda>u. I) (\<lambda>e. I)"
    by (rule keeps_triple [OF keeps_mkdir_all]) (use assms in auto)
  show "triple C I (seq (reading (\<lambda>d. is_dir d (base @ [x]))) (\<lambda>b. if b then ret ()
      else raise (Failure (js ''MeshTalk installation contains an unexpected directory link.''))))
      (\<lambda>u d. I d \<and> dirs_to d (base @ [x])) (\<lambda>e. I)"
    by (rule triple_read, rule triple_if; rule triple_ret triple_raise)
      (use assms(3) in \<open>auto simp: dirs_base dirs_to_dir\<close>)
qed

text \<open>\<open>I\<close> together with a directory that is known to be real.\<close>

definition holds_in :: "path \<Rightarrow> disk \<Rightarrow> bool" where
  "holds_in p d \<longleftrightarrow> I d \<and> dirs_to d p \<and> tidy p"

lemma framed_holds_in: "framed (holds_in p) (N \<union> prefixes_of p)"
  unfolding holds_in_def by (rule framed_conj [OF framed framed_dirs])

lemma below_prefix: "q \<in> prefixes_of p \<Longrightarrow> \<not> below (p @ r) q \<or> r = []"
  by (auto simp: prefixes_of_def below_iff)

lemma records_outside: "holds_in (base @ [USAGE_DIR]) d \<Longrightarrow> base @ [USAGE_DIR, x] \<notin> N \<union> prefixes_of (base @ [USAGE_DIR])"
  using records_free [of d "base @ [USAGE_DIR, x]"] by (auto simp: holds_in_def prefixes_of_def below_iff)

lemma keeps_vacuous: "(\<And>d. I' d \<Longrightarrow> keeps I' m) \<Longrightarrow> keeps I' m"
  by (cases "\<exists>d. I' d") (auto simp: keeps_def triple_def crash_ok_def)

lemma keeps_record: "keeps (holds_in (base @ [USAGE_DIR])) (remove (base @ [USAGE_DIR, x]))"
proof (rule keeps_vacuous)
  fix d assume d: "holds_in (base @ [USAGE_DIR]) d"
  show "keeps (holds_in (base @ [USAGE_DIR])) (remove (base @ [USAGE_DIR, x]))"
    by (rule keeps_remove [OF framed_holds_in]) (use records_outside [OF d] in \<open>auto simp: holds_in_def butlast_append\<close>)
qed

lemma keeps_live: "keeps (holds_in (base @ [USAGE_DIR])) (live_records env (base @ [USAGE_DIR]) es)"
proof (induction es)
  case (Cons e es)
  then show ?case
    using keeps_record by (auto intro!: keeps_rules keeps_seq keeps_option)
qed (simp add: keeps_ret)

lemma usage_tidy: "I d \<Longrightarrow> tidy base"
  using base_ok by auto

lemma keeps_liveUsage: "keeps I (liveUsage env base)"
  unfolding liveUsage_def Let_def
proof (rule keeps_read)
  fix C and r :: "bool \<times> bool \<times> jsstr list option" assume C: "\<And>d. I d \<Longrightarrow> C d"
  let ?dir = "base @ [USAGE_DIR]"
  obtain present directory names where r: "r = (present, directory, names)" by (cases r)
  have live: "triple C (holds_in ?dir) (try_catch (live_records env ?dir es) (\<lambda>e. ret None)) (\<lambda>x. I) (\<lambda>e. I)" for es
    by (rule triple_weaken [OF keeps_triple [OF keeps_catch [OF keeps_live keeps_ret]]]) (use C in \<open>auto simp: holds_in_def\<close>)
  have dir: "triple C (\<lambda>d. I d \<and> r = (existsSync d ?dir, is_dir d ?dir, readdir d ?dir))
      (try_catch (live_records env ?dir es) (\<lambda>e. ret None)) (\<lambda>x. I) (\<lambda>e. I)" if "directory" for es
    by (rule triple_pre [OF live]) (use that r in \<open>auto simp: holds_in_def dirs_to_dir dirs_base usage_tidy\<close>)
  show "triple C (\<lambda>d. I d \<and> r = (existsSync d ?dir, is_dir d ?dir, readdir d ?dir))
      (case r of (present, directory, names) \<Rightarrow>
        if \<not> present then ret (Some []) else if \<not> directory then ret None
        else case names of None \<Rightarrow> ret None | Some es \<Rightarrow> try_catch (live_records env ?dir es) (\<lambda>e. ret None)) (\<lambda>x. I) (\<lambda>e. I)"
    using dir by (auto simp: r intro!: triple_ret split: option.split)
qed

lemma keeps_in_use: "keeps I (in_use env base)"
  unfolding in_use_def by (intro keeps_seq keeps_liveUsage keeps_reading)

lemma keeps_retain: "keeps I (retain env base release pid kind)"
proof (rule keepsI)
  fix C assume C: "\<And>d. I d \<Longrightarrow> C d"
  let ?dir = "base @ [USAGE_DIR]"
  have json: "keeps (holds_in ?dir) (writeJson env (base @ [USAGE_DIR, ie_uuid env n @ js ''.json'']) v)" for n v
  proof (rule keeps_vacuous)
    fix d assume d: "holds_in ?dir d"
    show "keeps (holds_in ?dir) (writeJson env (base @ [USAGE_DIR, ie_uuid env n @ js ''.json'']) v)"
      by (rule keeps_writeJson [OF framed_holds_in])
        (use records_outside [OF d] in \<open>auto simp: holds_in_def butlast_append tmp_name_def json_name_tidy\<close>)
  qed
  show "triple C I (retain env base release pid kind) (\<lambda>x. I) (\<lambda>e. I)"
    unfolding retain_def Let_def
  proof (rule triple_andthen [where R = "holds_in ?dir"])
    show "triple C I (ownedDirectory ?dir) (\<lambda>u. holds_in ?dir) (\<lambda>e. I)"
      by (rule triple_weaken [OF triple_owned])
        (use C records_free [of _ ?dir] usage_tidy in \<open>auto simp: holds_in_def\<close>)
    show "triple C (holds_in ?dir) (seq draw (\<lambda>n. andthen (writeJson env (base @ [USAGE_DIR, ie_uuid env n @ js ''.json''])
        (usage_json pid release kind)) (ret (base @ [USAGE_DIR, ie_uuid env n @ js ''.json''])))) (\<lambda>x. I) (\<lambda>e. I)"
      by (rule triple_weaken [OF keeps_triple [where I = "holds_in ?dir"]])
        (use C json in \<open>auto simp: holds_in_def intro!: keeps_rules\<close>)
  qed
qed

end

end
