(* ===== verification/InstallStaging.thy ===== *)
theory InstallStaging
  imports InstallKeeps
begin

text \<open>
  Staging a release and removing unused ones keep every condition that \<open>install_frame\<close> (and, for the removal,
  \<open>prune_frame\<close>) allows.
\<close>

context install_frame
begin

definition staging_at :: "jsstr \<Rightarrow> path" where
  "staging_at s = release_dir base (staging_prefix @ s)"

definition staged :: "jsstr \<Rightarrow> disk \<Rightarrow> bool" where
  "staged s d \<longleftrightarrow> holds_in (versions_of base) d \<and> dirs_to d (staging_at s) \<and> tidy (staging_at s)"

lemma butlast_release [simp]: "butlast (release_dir base n) = versions_of base" "release_dir base n \<noteq> []"
  "last (release_dir base n) = n"
  by (simp_all add: release_dir_def)

lemma framed_staged: "framed (staged s) ((N \<union> prefixes_of (versions_of base)) \<union> prefixes_of (staging_at s))"
  unfolding staged_def by (rule framed_conj [OF framed_holds_in framed_dirs])

lemma not_below_release:
  assumes "q \<in> prefixes_of (versions_of base)" shows "\<not> below (release_dir base n) q"
  using below_prefix [OF assms, of "[n]"] by (simp add: release_dir_def)

lemma staging_outside: "I d \<Longrightarrow> q \<in> N \<union> prefixes_of (versions_of base) \<Longrightarrow> \<not> below (staging_at s) q"
  using releases_known [of d q "staging_prefix @ s"] not_below_release staging_not_release by (auto simp: staging_at_def)

lemma staged_I: "staged s d \<Longrightarrow> I d" "holds_in p d \<Longrightarrow> I d"
  by (simp_all add: staged_def holds_in_def)

lemma triple_mkdir_staging:
  assumes "\<And>d. I d \<Longrightarrow> C d" "\<not> ends_with (staging_prefix @ s) (js ''.tmp'')"
  shows "triple C (holds_in (versions_of base)) (mkdir (staging_at s)) (\<lambda>u. staged s) (\<lambda>e. holds_in (versions_of base))"
  unfolding mkdir_def put_new_def at_place_def
proof (rule triple_change)
  let ?p = "staging_at s"
  fix d d' assume d: "holds_in (versions_of base) d"
    "(case place d ?p of None \<Rightarrow> Inl no_entry
      | Some q \<Rightarrow> if node_at d q = None then Inr (map_set q Dir d) else Inl (Code ''EEXIST'')) = Inr d'"
  have "place d ?p = Some ?p"
    using place_below [of d "versions_of base" "staging_prefix @ s"] d(1) by (simp add: holds_in_def staging_at_def release_dir_def)
  then have d': "d' = map_set ?p Dir d" using d(2) by (auto split: if_splits)
  have ne: "?p \<noteq> []" by (simp add: staging_at_def)
  have V: "holds_in (versions_of base) d'"
    by (rule framedD [OF framed_holds_in d(1)])
      (use staging_outside [OF staged_I(2) [OF d(1)], of ?p s] ne in \<open>auto simp: d' node_set\<close>)
  moreover have "staging_prefix @ s \<noteq> [46, 46]" by (simp add: staging_prefix_def js_def)
  then have "dirs_to d' ?p"
    using dirs_to_snoc [of d' "versions_of base" "staging_prefix @ s"] V ne
    by (simp add: d' holds_in_def staging_at_def release_dir_def node_set)
  ultimately have "staged s d'" using assms(2) by (simp add: staged_def holds_in_def staging_at_def release_dir_def)
  then show "C d' \<and> staged s d'" using assms(1) staged_I by blast
qed simp

lemma in_staging_outside: "staged s d \<Longrightarrow> staging_at s @ [x] \<notin> (N \<union> prefixes_of (versions_of base)) \<union> prefixes_of (staging_at s)"
  using staging_outside [OF staged_I(1), of s d "staging_at s @ [x]" s] by (auto simp: prefixes_of_def below_iff)

lemma keeps_in_staging: "\<not> ends_with x (js ''.tmp'') \<Longrightarrow> keeps (staged s) (writeJson env (staging_at s @ [x]) v)"
proof (rule keeps_vacuous)
  fix d assume d: "staged s d" and x: "\<not> ends_with x (js ''.tmp'')"
  show "keeps (staged s) (writeJson env (staging_at s @ [x]) v)"
    by (rule keeps_writeJson [OF framed_staged _ in_staging_outside [OF d]]) (use x in \<open>simp_all add: staged_def\<close>)
qed

lemma keeps_stage_file: "keeps (staged s) (stage_file env source (staging_at s) x)"
proof (rule keeps_vacuous)
  fix d assume d: "staged s d"
  have "keeps (staged s) (copy_new (source @ [x]) (staging_at s @ [x]))"
    by (rule keeps_copy_new [OF framed_staged _ in_staging_outside [OF d]]) (simp_all add: staged_def)
  then show ?thesis unfolding stage_file_def by (intro keeps_seq keeps_reading keeps_if keeps_rules)
qed

text \<open>The new directory takes a name that no release has.\<close>

lemma triple_move_release:
  assumes C: "\<And>d. I d \<Longrightarrow> C d"
  shows "triple C (staged s) (seq (reading (\<lambda>d. existsSync d (release_dir base name))) (\<lambda>present.
      andthen (if present then ret () else andthen (rename (staging_at s) (release_dir base name)) flushDirectory) (ret name)))
    (\<lambda>x. holds_in (versions_of base)) (\<lambda>e. holds_in (versions_of base))"
proof (rule triple_read)
  let ?V = "holds_in (versions_of base)"
  fix present
  have V: "?V d \<Longrightarrow> C d" for d using C staged_I by blast
  have skip: "triple C ?V (andthen (ret ()) (ret name)) (\<lambda>x. ?V) (\<lambda>e. ?V)"
    by (rule keeps_triple [OF keeps_andthen [OF keeps_ret keeps_ret]]) (rule V)
  have free: "\<forall>q \<in> N \<union> prefixes_of (versions_of base). \<not> below (release_dir base name) q"
    if d: "staged s d" "\<not> existsSync d (release_dir base name)" for d
  proof (intro ballI notI)
    fix q assume q: "q \<in> N \<union> prefixes_of (versions_of base)" "below (release_dir base name) q"
    then have "q \<in> N" using not_below_release by blast
    then have n: "RELEASE_NAME name" "node_at d (release_dir base name) = Some Dir"
      using releases_known [OF staged_I(1) [OF d(1)] _ q(2)] by auto
    then have "dirs_to d (release_dir base name)"
      using d(1) dirs_to_snoc [of d "versions_of base" name] RELEASE_NAME_tidy [OF n(1)]
      by (simp add: staged_def holds_in_def release_dir_def)
    then show False using d(2) realpath_dirs [of d "release_dir base name" "[]"] by (simp add: existsSync_def)
  qed
  have moved: "triple C ?V (andthen (andthen (rename (staging_at s) (release_dir base name)) flushDirectory) (ret name))
      (\<lambda>x. ?V) (\<lambda>e. ?V)" if "\<forall>q \<in> N \<union> prefixes_of (versions_of base). \<not> below (release_dir base name) q"
  proof -
    have "keeps ?V (rename (staging_at s) (release_dir base name))"
    proof (rule keeps_vacuous, rule keeps_rename [OF framed_holds_in])
      fix d assume d: "?V d"
      fix q assume "q \<in> N \<union> prefixes_of (versions_of base)"
      then show "\<not> below (staging_at s) q \<and> \<not> below (release_dir base name) q"
        using that staging_outside [OF staged_I(2) [OF d]] by blast
    qed (simp_all add: staging_at_def holds_in_def)
    then show ?thesis using V by (intro keeps_triple keeps_andthen keeps_flush keeps_ret)
  qed
  show "triple C (\<lambda>d. staged s d \<and> present = existsSync d (release_dir base name))
      (andthen (if present then ret () else andthen (rename (staging_at s) (release_dir base name)) flushDirectory) (ret name))
      (\<lambda>x. ?V) (\<lambda>e. ?V)"
  proof (cases present)
    case True
    show ?thesis using True by simp (rule triple_pre [OF skip], simp add: staged_def)
  next
    case False
    show ?thesis
      by (rule triple_guard [OF _, where P = ?V and G = "\<forall>q \<in> N \<union> prefixes_of (versions_of base). \<not> below (release_dir base name) q"])
        (use False moved free in \<open>auto simp: staged_def\<close>)
  qed
qed

lemma triple_settle_release:
  assumes C: "\<And>d. I d \<Longrightarrow> C d"
  shows "triple C (staged s) (settle_release env base (staging_at s) name0)
    (\<lambda>x. holds_in (versions_of base)) (\<lambda>e. holds_in (versions_of base))"
  unfolding settle_release_def Let_def
  by (rule triple_read, rule triple_draw, rule triple_pre [OF triple_move_release [OF C]]) auto

lemma keeps_stage: "keeps I (stageDirectory env base source version)"
proof (cases "\<exists>d. I d")
  case True
  then have uuid: "uuid_ok env" using base_ok by blast
  show ?thesis
  proof (rule keepsI)
    fix C assume C: "\<And>d. I d \<Longrightarrow> C d"
    let ?V = "holds_in (versions_of base)"
    have V: "?V d \<Longrightarrow> C d" and S: "staged s d \<Longrightarrow> C d" for d s using C staged_I by blast+
    have body: "triple C (staged s) (stage_files env base (staging_at s) source version) (\<lambda>x. ?V) (\<lambda>e. ?V)" for s
      unfolding stage_files_def
    proof (rule triple_andthen [where R = "staged s"])
      have json: "triple C (staged s) (writeJson env (staging_at s @ [x]) v) (\<lambda>u. staged s) (\<lambda>e. ?V)"
        if "\<not> ends_with x (js ''.tmp'')" for x v
        by (rule triple_weaken [OF keeps_triple [OF keeps_in_staging [OF that]]]) (use S in \<open>auto simp: staged_def\<close>)
      have copied: "triple C (staged s) (stage_file env source (staging_at s) x) (\<lambda>u. staged s) (\<lambda>e. ?V)" for x
        by (rule triple_weaken [OF keeps_triple [OF keeps_stage_file]]) (use S in \<open>auto simp: staged_def\<close>)
      show "triple C (staged s) (writeJson env (staging_at s @ [STAGING_MARKER]) (JObj [(js ''schema'', JNum 1)])) (\<lambda>u. staged s) (\<lambda>e. ?V)"
        by (rule json) simp
      show "triple C (staged s) (seq (stage_file env source (staging_at s) launcher) (\<lambda>a. seq (stage_file env source (staging_at s) backend) (\<lambda>b.
          andthen (writeJson env (staging_at s @ [RELEASE]) (manifest_json version (files_json a b)))
           (settle_release env base (staging_at s) (release_prefix @ release_id env version (files_json a b)))))) (\<lambda>x. ?V) (\<lambda>e. ?V)"
        by (intro triple_seq [OF copied] triple_andthen [OF json] triple_settle_release C) simp
    qed
    have clean: "keeps ?V (remove_tree (staging_at s))" for s
    proof (rule keeps_vacuous, rule keeps_remove_tree [OF framed_holds_in])
      fix d q assume "?V d" "q \<in> N \<union> prefixes_of (versions_of base)"
      then show "\<not> below (staging_at s) q" using staging_outside staged_I(2) by blast
    qed (simp_all add: staging_at_def holds_in_def)
    have rest: "triple C ?V (andthen (mkdir (staging_at s))
        (finally_do (stage_files env base (staging_at s) source version) (remove_tree (staging_at s)))) (\<lambda>x. I) (\<lambda>e. I)"
      if "\<not> ends_with (staging_prefix @ s) (js ''.tmp'')" for s
    proof (rule triple_weaken)
      show "triple C ?V (andthen (mkdir (staging_at s))
          (finally_do (stage_files env base (staging_at s) source version) (remove_tree (staging_at s)))) (\<lambda>x. ?V) (\<lambda>e. ?V)"
        by (rule triple_andthen [OF triple_mkdir_staging [OF C that]], assumption, rule triple_finally [OF body])
          (use clean V in \<open>auto intro: keeps_triple\<close>)
    qed (simp_all add: holds_in_def)
    show "triple C I (stageDirectory env base source version) (\<lambda>x. I) (\<lambda>e. I)"
      unfolding stageDirectory_def Let_def
    proof (rule triple_andthen [where R = ?V])
      show "triple C I (ownedDirectory (versions_of base)) (\<lambda>u. ?V) (\<lambda>e. I)"
        by (rule triple_weaken [OF triple_owned [OF C, where x = versions_dir, folded versions_of_def]])
          (use versions_known usage_tidy in \<open>auto simp: holds_in_def versions_of_def\<close>)
      have name: "staging_path env base n = staging_at (take 6 (filter (\<lambda>c. c \<noteq> 45) (ie_uuid env n)))" for n
        by (simp add: staging_path_def staging_at_def release_dir_def)
      show "triple C ?V (seq draw (\<lambda>n. andthen (mkdir (staging_path env base n))
          (finally_do (stage_files env base (staging_path env base n) source version) (remove_tree (staging_path env base n)))))
          (\<lambda>x. I) (\<lambda>e. I)"
        unfolding name by (rule triple_draw, rule rest) (use uuid hex_not_tmp in \<open>auto simp: uuid_ok_def\<close>)
    qed
  qed
qed (auto simp: keeps_def triple_def crash_ok_def)

end

lemma legacy_not_release: "legacy_name n \<Longrightarrow> \<not> RELEASE_NAME n"
proof
  assume n: "legacy_name n" "RELEASE_NAME n"
  then obtain c r where c: "n = c # r" "is_digit c"
    by (cases n) (auto simp: legacy_name_def after_digits_def after_char_def hash_tail_def Let_def split: if_splits)
  then show False using RELEASE_NAME_hd [OF n(2)] by (simp add: release_prefix_def js_def is_digit_def)
qed

subsection \<open>Removing unused releases\<close>

locale prune_frame = install_frame +
  fixes state :: selection
  assumes kept: "I d \<Longrightarrow> kept_releases env d base state us = Some keep \<Longrightarrow> q \<in> N \<Longrightarrow> below (release_dir base n) q \<Longrightarrow> n \<in> set keep"
    and no_relocation: "I d \<Longrightarrow> node_at d (base @ [RELOCATION]) = None"
    and backend_free: "I d \<Longrightarrow> base @ [backend] \<notin> N"
    and legacy_ok: "I d \<Longrightarrow> sl_legacy state = Some ns \<Longrightarrow> n \<in> set ns \<Longrightarrow> \<not> RELEASE_NAME n"
begin

lemma keeps_remove_release:
  assumes "\<And>d q. I d \<Longrightarrow> q \<in> N \<Longrightarrow> \<not> below (release_dir base n) q"
  shows "keeps (holds_in (versions_of base)) (remove_tree (release_dir base n))"
proof (rule keeps_vacuous, rule keeps_remove_tree [OF framed_holds_in])
  fix d q assume "holds_in (versions_of base) d" "q \<in> N \<union> prefixes_of (versions_of base)"
  then show "\<not> below (release_dir base n) q" using assms not_below_release staged_I(2) by blast
qed (simp_all add: holds_in_def)

lemma keeps_prune_name:
  assumes "\<And>d q n. I d \<Longrightarrow> q \<in> N \<Longrightarrow> below (release_dir base n) q \<Longrightarrow> n \<in> set keep"
  shows "keeps (holds_in (versions_of base)) (prune_name env base keep n)"
proof -
  have "keeps (holds_in (versions_of base)) (remove_tree (release_dir base n))" if "staging_name n \<or> n \<notin> set keep"
    by (rule keeps_remove_release) (use that assms releases_known staging_name_not_release in blast)
  then show ?thesis
    unfolding prune_name_def by (intro keeps_if keeps_seq keeps_reading keeps_attempt keeps_ret) auto
qed

lemma keeps_remove_if: "keeps J m \<Longrightarrow> keeps J (remove_if f m)"
  unfolding remove_if_def by (intro keeps_seq keeps_reading keeps_if keeps_ret)

lemma keeps_relocation:
  assumes J: "\<And>d. J d \<Longrightarrow> I d"
  shows "keeps J (cleanupRelocation env base state)"
  unfolding cleanupRelocation_def
proof (rule keeps_attempt, rule keeps_read)
  fix C and v :: "relocation option" assume C: "\<And>d. J d \<Longrightarrow> C d"
  have none: "relocation_at d base = None" if "J d" for d
    using no_relocation [OF J [OF that]] dirs_base [OF J [OF that]] by (simp add: relocation_at_def regular_below)
  show "triple C (\<lambda>d. J d \<and> v = relocation_at d base) (case v of None \<Rightarrow> ret () | Some r \<Rightarrow> clean_relocation env base state r)
      (\<lambda>x. J) (\<lambda>e. J)"
    by (rule triple_guard [where G = "v = None" and P = J]) (use none C in \<open>auto intro: triple_ret\<close>)
qed

lemma keeps_legacy:
  assumes "sl_legacy state = Some ns" "n \<in> set ns"
  shows "keeps (holds_in (versions_of base)) (legacy_release base n)"
  unfolding legacy_release_def
  by (intro keeps_remove_if keeps_attempt keeps_remove_release) (use assms legacy_ok releases_known in blast)

lemma keeps_backend: "keeps (holds_in (versions_of base)) (remove (base @ [backend]))"
proof (rule keeps_vacuous, rule keeps_remove [OF framed_holds_in])
  fix d assume "holds_in (versions_of base) d"
  then have "base @ [backend] \<notin> N" using backend_free staged_I(2) by blast
  moreover have "backend \<noteq> versions_dir" using names_distinct by auto
  ultimately show "base @ [backend] \<notin> N \<union> prefixes_of (versions_of base)"
    by (auto simp: versions_of_def prefixes_of_def below_iff)
qed (auto simp: holds_in_def dirs_base)

definition shields :: "jsstr list \<Rightarrow> bool" where
  "shields keep \<longleftrightarrow> (\<forall>q \<in> N. \<forall>n. below (release_dir base n) q \<longrightarrow> n \<in> set keep)"

lemma keeps_prune_confirmed: "keeps (holds_in (versions_of base)) (prune_confirmed env base state us)"
  unfolding prune_confirmed_def
  by (intro keeps_andthen keeps_for_each keeps_if keeps_relocation keeps_remove_if keeps_attempt keeps_backend keeps_ret)
    (use staged_I(2) keeps_legacy [OF sym] in \<open>auto split: option.splits\<close>)

lemma triple_prune_versions:
  assumes C: "\<And>d. I d \<Longrightarrow> C d" and keep: "shields keep"
  shows "triple C I (prune_versions env base state us keep) (\<lambda>x. I) (\<lambda>e. I)"
  unfolding prune_versions_def
proof (rule triple_read)
  let ?V = "holds_in (versions_of base)"
  fix r :: "jsstr list option"
  have V: "?V d \<Longrightarrow> C d" for d using C staged_I(2) by blast
  have rest: "keeps ?V (andthen (for_each names (prune_name env base keep)) (prune_confirmed env base state us))" for names
    by (intro keeps_andthen keeps_for_each keeps_prune_confirmed keeps_prune_name) (use keep in \<open>auto simp: shields_def\<close>)
  show "triple C (\<lambda>d. I d \<and> r = version_names d base) (case r of None \<Rightarrow> ret ()
      | Some names \<Rightarrow> andthen (for_each names (prune_name env base keep)) (prune_confirmed env base state us)) (\<lambda>x. I) (\<lambda>e. I)"
  proof (cases r)
    case None
    then show ?thesis using C by (auto intro: triple_ret)
  next
    case (Some names)
    show ?thesis unfolding Some option.case
    proof (rule triple_weaken [OF keeps_triple [OF rest V]])
      fix d assume "I d \<and> Some names = version_names d base"
      then show "?V d" using dirs_to_dir [OF dirs_base, of d versions_dir] usage_tidy [of d]
        by (auto simp: holds_in_def versions_of_def version_names_def split: if_splits)
    qed (auto simp: holds_in_def)
  qed
qed

lemma keeps_prune: "keeps I (prune env base state)"
  unfolding prune_def
proof (rule keeps_seq [OF keeps_liveUsage], rule keeps_option [OF keeps_ret], rule keepsI, rule triple_read)
  fix us :: "usage_record list" and C and keep :: "jsstr list option" assume C: "\<And>d. I d \<Longrightarrow> C d"
  show "triple C (\<lambda>d. I d \<and> keep = kept_releases env d base state us)
      (case keep of None \<Rightarrow> ret () | Some keep \<Rightarrow> prune_versions env base state us keep) (\<lambda>x. I) (\<lambda>e. I)"
  proof (cases keep)
    case None
    then show ?thesis using C by (auto intro: triple_ret)
  next
    case (Some ks)
    show ?thesis unfolding Some option.case
      by (rule triple_guard [where G = "shields ks" and P = I], rule triple_prune_versions [OF C])
        (use kept in \<open>auto simp: shields_def\<close>)
  qed
qed

end

end
