(* ===== verification/InstallSelection.thy ===== *)
theory InstallSelection
  imports InstallStaging
begin

text \<open>
  The selection file: what a selection that was read satisfies, that writing and reading it agree, and that
  replacing it leaves in every state a crash can reach either the old or the new selection readable.
\<close>

subsection \<open>Well-formed selections\<close>

definition option_all :: "('a \<Rightarrow> bool) \<Rightarrow> 'a option \<Rightarrow> bool" where
  "option_all ok v = (case v of None \<Rightarrow> True | Some x \<Rightarrow> ok x)"

definition selection_ok :: "selection \<Rightarrow> bool" where
  "selection_ok s \<longleftrightarrow> option_all RELEASE_NAME (sl_current s) \<and> option_all RELEASE_NAME (sl_pending s)
     \<and> option_all RELEASE_NAME (sl_confirmed s) \<and> option_all hex_digest (sl_bootstrap s)
     \<and> option_all (list_all legacy_name) (sl_legacy s) \<and> option_all absolute (sl_entry s)
     \<and> (sl_layout s = Some DirectoryLink \<longrightarrow> truthy (sl_entry s))"

lemma option_all_simps [simp]: "option_all ok None" "option_all ok (Some x) = ok x"
  by (simp_all add: option_all_def)

lemma checked_text_ok: "checked_text ok v = Some r \<Longrightarrow> option_all ok r"
  by (auto simp: checked_text_def split: option.splits json.splits if_splits)

lemma checked_text_write: "option_all ok r \<Longrightarrow> checked_text ok (map_option JStr r) = Some r"
  by (cases r) (simp_all add: checked_text_def)

lemma checked_legacy_ok: "checked_legacy v = Some r \<Longrightarrow> option_all (list_all legacy_name) r"
  by (auto simp: checked_legacy_def list_all_iff List.map_filter_def string_value_Some split: option.splits json.splits if_splits)

lemma checked_legacy_write: "option_all (list_all legacy_name) r \<Longrightarrow> checked_legacy (map_option (\<lambda>ns. JArr (map JStr ns)) r) = Some r"
  by (cases r) (simp_all add: checked_legacy_def list_all_iff List.map_filter_def o_def)

lemma checked_layout_write: "checked_layout (map_option (\<lambda>l. JStr (layout_text l)) r) = Some r"
proof (cases r)
  case (Some l)
  then show ?thesis by (cases l) (simp_all add: checked_layout_def js_def)
qed (simp add: checked_layout_def)

lemma checked_write:
  "checked_text ok (map_option JStr r) = Some v \<Longrightarrow> v = r"
  "checked_legacy (map_option (\<lambda>ns. JArr (map JStr ns)) l) = Some m \<Longrightarrow> m = l"
  "checked_layout (map_option (\<lambda>l. JStr (layout_text l)) k) = Some n \<Longrightarrow> n = k"
  by ((cases r; auto simp: checked_text_def split: if_splits),
      (cases l; auto simp: checked_legacy_def List.map_filter_def o_def split: if_splits), simp add: checked_layout_write)

lemma selection_of_ok: "selection_of j = Some s \<Longrightarrow> selection_ok s"
  unfolding selection_of_def selection_ok_def
  by (auto split: if_splits option.splits dest!: checked_text_ok checked_legacy_ok)

lemma readSelection_ok: "readSelection d base = Some s \<Longrightarrow> selection_ok s"
  by (auto simp: readSelection_def parseSelection_def bind_eq_Some_conv no_selection_def selection_ok_def
      dest: selection_of_ok split: option.splits if_splits)

subsection \<open>Writing and reading\<close>

lemma text_property_lookup: "map_of (text_property n v) k = (if k = js n then map_option JStr v else None)"
  by (cases v; simp add: text_property_def)

lemma legacy_lookup:
  "map_of (case v of None \<Rightarrow> [] | Some ns \<Rightarrow> [(n, f ns)]) k = (if k = n then map_option f v else None)"
  by (cases v) simp_all

lemma selection_props:
  "prop_of (selection_json s) ''schema'' = Some (JNum 1)"
  "prop_of (selection_json s) ''current'' = map_option JStr (sl_current s)"
  "prop_of (selection_json s) ''pending'' = map_option JStr (sl_pending s)"
  "prop_of (selection_json s) ''confirmed'' = map_option JStr (sl_confirmed s)"
  "prop_of (selection_json s) ''bootstrap'' = map_option JStr (sl_bootstrap s)"
  "prop_of (selection_json s) ''legacy'' = map_option (\<lambda>ns. JArr (map JStr ns)) (sl_legacy s)"
  "prop_of (selection_json s) ''layout'' = map_option (\<lambda>l. JStr (layout_text l)) (sl_layout s)"
  "prop_of (selection_json s) ''entry'' = map_option JStr (sl_entry s)"
  by (simp_all add: selection_json_def prop_of_def field_def map_add_def text_property_lookup legacy_lookup option.map_comp o_def
      split: option.split)

lemma selection_roundtrip_ok: "selection_ok s \<Longrightarrow> selection_of (selection_json s) = Some s"
  unfolding selection_of_def selection_ok_def schema_ok_def selection_props
  by (simp add: checked_text_write checked_legacy_write checked_layout_write)

subsection \<open>Replacing the selection\<close>

definition plain_at :: "disk \<Rightarrow> path \<Rightarrow> bool" where
  "plain_at d p \<longleftrightarrow> (case node_at d p of None \<Rightarrow> True | Some (File c) \<Rightarrow> True | _ \<Rightarrow> False)"

text \<open>The selection \<open>s\<close> is what a start of the program would read.\<close>

definition selects :: "path \<Rightarrow> selection \<Rightarrow> disk \<Rightarrow> bool" where
  "selects base s d \<longleftrightarrow> tidy base \<and> dirs_to d base \<and> plain_at d (base @ [STATE]) \<and> plain_at d (base @ [STATE_BAK])
     \<and> readSelection d base = Some s"

fun recorded :: "node option \<Rightarrow> selection option" where
  "recorded (Some (File (Document j))) = selection_of j"
| "recorded _ = None"

lemma plainE:
  assumes "plain_at d p" obtains "node_at d p = None" | c where "node_at d p = Some (File c)"
  using assms by (auto simp: plain_at_def split: option.splits node.splits)

lemma parse_node:
  assumes "dirs_to d base" "x \<noteq> [46, 46]" "plain_at d (base @ [x])"
  shows "parseSelection d (base @ [x]) = recorded (node_at d (base @ [x]))"
    "existsSync d (base @ [x]) \<longleftrightarrow> node_at d (base @ [x]) \<noteq> None"
proof -
  show "parseSelection d (base @ [x]) = recorded (node_at d (base @ [x]))"
    using assms(3)
  proof (cases rule: plainE)
    case (2 c)
    then show ?thesis
      using assms by (cases c) (simp_all add: parseSelection_def read_json_def regular_below read_below)
  qed (use assms in \<open>simp add: parseSelection_def regular_below\<close>)
  show "existsSync d (base @ [x]) \<longleftrightarrow> node_at d (base @ [x]) \<noteq> None"
    using assms(3) by (cases rule: plainE) (use assms(1,2) in \<open>auto simp: exists_below realpath_below existsSync_def realpath_dirs\<close>)
qed

lemma selects_iff:
  "selects base s d \<longleftrightarrow> tidy base \<and> dirs_to d base \<and> plain_at d (base @ [STATE]) \<and> plain_at d (base @ [STATE_BAK])
     \<and> (case recorded (node_at d (base @ [STATE])) of Some t \<Rightarrow> t = s
        | None \<Rightarrow> (case recorded (node_at d (base @ [STATE_BAK])) of Some t \<Rightarrow> t = s
          | None \<Rightarrow> node_at d (base @ [STATE]) = None \<and> node_at d (base @ [STATE_BAK]) = None \<and> s = no_selection))"
  unfolding selects_def readSelection_def by (auto simp: parse_node split: option.splits)

definition selection_nodes :: "path \<Rightarrow> path set" where
  "selection_nodes base = prefixes_of base \<union> {base @ [STATE], base @ [STATE_BAK]}"

lemma framed_selects: "framed (selects base s) (selection_nodes base)"
  unfolding framed_def
proof (intro conjI allI impI ballI)
  fix d d' assume "selects base s d" "\<forall>q \<in> selection_nodes base. node_at d' q = node_at d q"
  moreover from this have nodes: "node_at d' (base @ [STATE]) = node_at d (base @ [STATE])"
    "node_at d' (base @ [STATE_BAK]) = node_at d (base @ [STATE_BAK])" "dirs_to d' base = dirs_to d base"
    by (auto simp: selection_nodes_def dirs_to_iff)
  ultimately show "selects base s d'" unfolding selects_iff plain_at_def nodes by blast
next
  fix d q assume "q \<in> selection_nodes base" "selects base s d"
  then show "\<not> tmp_name q" using tidy_prefix by (auto simp: selection_nodes_def selects_def)
qed

lemma selects_read: "selects base s d \<Longrightarrow> readSelection d base = Some s"
  by (simp add: selects_def)

lemma selects_unique: "selects base s d \<Longrightarrow> selects base t d \<Longrightarrow> t = s"
  by (simp add: selects_def)

text \<open>The file of the selection itself, not its backup, is what is read.\<close>

definition primary :: "path \<Rightarrow> selection \<Rightarrow> disk \<Rightarrow> bool" where
  "primary base s d \<longleftrightarrow> selects base s d \<and> recorded (node_at d (base @ [STATE])) = Some s"

lemma framed_primary: "framed (primary base s) (selection_nodes base)"
  using framed_selects [of base s] unfolding framed_def primary_def by (auto simp: selection_nodes_def)

lemma primary_iff:
  "primary base s d \<longleftrightarrow> tidy base \<and> dirs_to d base \<and> plain_at d (base @ [STATE]) \<and> plain_at d (base @ [STATE_BAK])
     \<and> recorded (node_at d (base @ [STATE])) = Some s"
  by (auto simp: primary_def selects_iff)

lemma primary_parse: "selects base t d \<Longrightarrow> parseSelection d (base @ [STATE]) = Some s \<Longrightarrow> t = s \<and> primary base s d"
  by (auto simp: primary_def selects_def parse_node readSelection_def)

lemma outer_set: "q \<in> prefixes_of base \<Longrightarrow> node_at (map_set (base @ [x]) n d) q = node_at d q"
  by (auto simp: node_set prefixes_of_def below_iff)

lemma framed_set: "framed J N \<Longrightarrow> J d \<Longrightarrow> p \<noteq> [] \<Longrightarrow> p \<notin> N \<Longrightarrow> J (map_set p n d)"
  by (erule framedD) (auto simp: node_set)

lemma state_names [simp]: "STATE \<noteq> STATE_BAK" "STATE_BAK \<noteq> STATE"
  using names_distinct by auto

lemma primary_selects: "primary base s d \<Longrightarrow> selects base s d"
  by (simp add: primary_def)

lemma primary_backup: "primary base s d \<Longrightarrow> primary base s (map_set (base @ [STATE_BAK]) (File c) d)"
  by (auto simp: primary_iff dirs_to_iff plain_at_def node_set outer_set)

lemma primary_new:
  "selects base t d \<Longrightarrow> selection_ok s \<Longrightarrow> primary base s (map_set (base @ [STATE]) (File (Document (selection_json s))) d)"
  by (auto simp: primary_iff selects_def dirs_to_iff plain_at_def node_set outer_set selection_roundtrip_ok)

text \<open>
  Writing a selection first saves the old one as the backup and then replaces the file. A condition \<open>J\<close> that does
  not look at these two files holds throughout; \<open>K\<close> describes the two files before, \<open>K'\<close> after.
\<close>

theorem triple_writeSelection:
  assumes J: "framed J N" "base @ [STATE] \<notin> N" "base @ [STATE_BAK] \<notin> N"
    and K: "framed K (selection_nodes base)" "\<And>d. K d \<Longrightarrow> selects base old d" and K': "framed K' (selection_nodes base)"
      "\<And>d. K' d \<Longrightarrow> dirs_to d base"
    and C: "\<And>d. J d \<Longrightarrow> K d \<Longrightarrow> C d" "\<And>d. J d \<Longrightarrow> K' d \<Longrightarrow> C d"
    and save: "\<And>d. K d \<Longrightarrow> primary base old d \<Longrightarrow> K (map_set (base @ [STATE_BAK]) (File (Document (selection_json old))) d)"
    and step: "\<And>d. K d \<Longrightarrow> K' (map_set (base @ [STATE]) (File (Document (selection_json new))) d)"
  shows "triple C (\<lambda>d. J d \<and> K d) (writeSelection env base new) (\<lambda>u d. J d \<and> K' d) (\<lambda>e d. J d \<and> (K d \<or> K' d))"
  unfolding writeSelection_def
proof (rule triple_read)
  let ?E = "\<lambda>e d. J d \<and> (K d \<or> K' d)" and ?S = "base @ [STATE]" and ?B = "base @ [STATE_BAK]"
  have un: "untmp (\<lambda>d. J d \<and> K d)" "untmp (\<lambda>d. J d \<and> K' d)" "untmp (\<lambda>d. J d \<and> K d \<and> primary base old d)"
    by (rule framed_untmp [OF framed_conj [OF J(1)]], rule K K' framed_conj [OF K(1) framed_primary])+
  have "triple C (\<lambda>d. J d \<and> K d) (writeJson env ?S (selection_json new)) (\<lambda>u d. J d \<and> K' d) (\<lambda>e d. (J d \<and> K d) \<or> (J d \<and> K' d))"
    by (rule triple_writeJson [OF un(1) _ _ un(2)]) (use C K K' step framed_set [OF J(1) _ _ J(2)] in \<open>auto simp: selects_def\<close>)
  then have final: "triple C (\<lambda>d. J d \<and> K d) (writeJson env ?S (selection_json new)) (\<lambda>u d. J d \<and> K' d) ?E"
    by (rule triple_weaken) auto
  let ?R = "\<lambda>d. J d \<and> K d \<and> primary base old d"
  have "triple C ?R (writeJson env ?B (selection_json old)) (\<lambda>u. ?R) (\<lambda>e d. ?R d \<or> ?R d)"
    by (rule triple_writeJson [OF un(3) _ _ un(3)])
      (use C save primary_backup framed_set [OF J(1) _ _ J(3)] in \<open>auto simp: primary_def selects_def\<close>)
  then have backup: "triple C ?R (if b then writeJson env ?B (selection_json old) else ret ()) (\<lambda>u d. J d \<and> K d) ?E" for b
    by (intro triple_if) (auto intro: triple_ret elim: triple_weaken)
  fix r :: "selection option \<times> bool"
  obtain previous before where r: "r = (previous, before)" by (cases r)
  have first: "triple C (\<lambda>d. (J d \<and> K d) \<and> (previous, before) = (parseSelection d ?S, existsSync d ?B))
    (case previous of Some s \<Rightarrow> if \<not> before \<or> sl_current s = sl_confirmed s then writeJson env ?B (selection_json s) else ret ()
     | None \<Rightarrow> ret ()) (\<lambda>u d. J d \<and> K d) ?E"
  proof (cases previous)
    case None
    show ?thesis unfolding None by (auto intro: triple_ret)
  next
    case (Some s)
    show ?thesis unfolding Some option.case
      by (rule triple_guard [where G = "s = old" and P = ?R], simp only: backup) (metis K(2) primary_parse prod.inject)
  qed
  show "triple C (\<lambda>d. (J d \<and> K d) \<and> r = (parseSelection d ?S, existsSync d ?B))
    (case r of (previous, saved) \<Rightarrow> andthen (case previous of
         Some s \<Rightarrow> if \<not> saved \<or> sl_current s = sl_confirmed s then writeJson env ?B (selection_json s) else ret ()
       | None \<Rightarrow> ret ()) (writeJson env ?S (selection_json new))) (\<lambda>u d. J d \<and> K' d) ?E"
    unfolding r prod.case by (rule triple_andthen [OF first final])
qed

text \<open>Nothing else is asked of the disk: the old or the new selection is read in every state.\<close>

lemma framed_true: "framed (\<lambda>d. True) {}"
  by (simp add: framed_def)

lemma triple_switch:
  assumes "selection_ok new"
  shows "triple (\<lambda>d. selects base old d \<or> selects base new d) (selects base old) (writeSelection env base new)
    (\<lambda>u. selects base new) (\<lambda>e d. selects base old d \<or> selects base new d)"
proof -
  have "triple (\<lambda>d. selects base old d \<or> selects base new d) (\<lambda>d. True \<and> selects base old d) (writeSelection env base new)
    (\<lambda>u d. True \<and> selects base new d) (\<lambda>e d. True \<and> (selects base old d \<or> selects base new d))"
    by (rule triple_writeSelection [OF framed_true _ _ framed_selects _ framed_selects])
      (auto intro: primary_selects primary_backup primary_new [OF _ assms], auto simp: selects_def)
  then show ?thesis by simp
qed

end
