(* ===== verification/InstallCommand.thy ===== *)
theory InstallCommand
  imports InstallSelection
begin

text \<open>
  The command of the user while MeshTalk updates itself: an installation whose command leads through
  \<open>.meshtalk-current\<close> to an intact release keeps doing so through staging, pruning and the records of processes,
  and publishing another intact release moves the command there at once. The locales of \<open>InstallKeeps\<close> and
  \<open>InstallStaging\<close> are interpreted for it, and for a release that something still needs.
\<close>

subsection \<open>A working installation\<close>

definition wired :: "path \<Rightarrow> selection \<Rightarrow> bool" where
  "wired entry s \<longleftrightarrow> selection_ok s \<and> sl_current s \<noteq> None \<and> sl_layout s = Some FileLink \<and> sl_entry s = Some (path_text entry)"

text \<open>The store belongs to the directory \<open>entry\<close>, outside of it, whose command leads to the release \<open>X\<close>.\<close>

definition store_of :: "install_env \<Rightarrow> path \<Rightarrow> path \<Rightarrow> bool" where
  "store_of env base entry \<longleftrightarrow> tidy entry \<and> \<not> below base entry \<and> path_at (path_text entry) = entry
     \<and> base_name base = installationId env entry \<and> parent_name base = standalone_dir
     \<and> parent_name (butlast base) = packages_dir"

definition command_at :: "install_env \<Rightarrow> path \<Rightarrow> path \<Rightarrow> jsstr \<Rightarrow> disk \<Rightarrow> bool" where
  "command_at env base entry X d \<longleftrightarrow> intact env base X d \<and> store_of env base entry \<and> dirs_to d entry
     \<and> node_at d (entry @ [launcher]) = Some (Link (Absolute (base @ [CURRENT_LINK, launcher])))
     \<and> node_at d (entry @ [store_marker]) = None
     \<and> node_at d (base @ [CURRENT_LINK]) = Some (Link (Relative [versions_dir, X]))
     \<and> node_at d (base @ [store_marker]) = Some (File (Document (store_owner entry)))
     \<and> node_at d (base @ [RELOCATION]) = None"

definition command_nodes :: "path \<Rightarrow> path \<Rightarrow> jsstr \<Rightarrow> path set" where
  "command_nodes base entry X = needs_release base X \<union> prefixes_of entry \<union> {entry @ [launcher], entry @ [store_marker],
     base @ [CURRENT_LINK], base @ [store_marker], base @ [RELOCATION]}"

lemma store_names [simp]:
  "distinct [versions_dir, USAGE_DIR, launcher, backend, STATE, STATE_BAK, CURRENT_LINK, LOCK, RELOCATION, store_marker]"
  by code_simp

lemma store_tidy [simp]: "\<not> ends_with store_marker (js ''.tmp'')" "store_marker \<noteq> [46, 46]"
  by (rule tidy_last, simp add: store_marker_def js_def) (simp add: store_marker_def js_def)

lemma names_apart [simp]:
  "CURRENT_LINK \<noteq> STATE" "CURRENT_LINK \<noteq> STATE_BAK" "CURRENT_LINK \<noteq> USAGE_DIR" "CURRENT_LINK \<noteq> LOCK" "CURRENT_LINK \<noteq> versions_dir"
  "CURRENT_LINK \<noteq> store_marker" "CURRENT_LINK \<noteq> RELOCATION" "CURRENT_LINK \<noteq> backend"
  "store_marker \<noteq> STATE" "store_marker \<noteq> STATE_BAK" "store_marker \<noteq> USAGE_DIR" "store_marker \<noteq> LOCK" "store_marker \<noteq> versions_dir"
  "store_marker \<noteq> CURRENT_LINK" "store_marker \<noteq> RELOCATION" "store_marker \<noteq> backend"
  "RELOCATION \<noteq> STATE" "RELOCATION \<noteq> STATE_BAK" "RELOCATION \<noteq> USAGE_DIR" "RELOCATION \<noteq> LOCK" "RELOCATION \<noteq> versions_dir"
  "RELOCATION \<noteq> CURRENT_LINK" "RELOCATION \<noteq> store_marker" "RELOCATION \<noteq> backend"
  "STATE \<noteq> USAGE_DIR" "STATE \<noteq> LOCK" "STATE \<noteq> versions_dir" "STATE \<noteq> backend"
  "STATE_BAK \<noteq> USAGE_DIR" "STATE_BAK \<noteq> LOCK" "STATE_BAK \<noteq> versions_dir" "STATE_BAK \<noteq> backend"
  "versions_dir \<noteq> USAGE_DIR" "versions_dir \<noteq> LOCK" "versions_dir \<noteq> STATE" "versions_dir \<noteq> STATE_BAK" "versions_dir \<noteq> backend"
  "versions_dir \<noteq> CURRENT_LINK" "launcher \<noteq> store_marker" "launcher \<noteq> CURRENT_LINK" "launcher \<noteq> STATE" "launcher \<noteq> STATE_BAK"
  using store_names unfolding distinct.simps by auto

lemmas names_apart_sym [simp] = names_apart [THEN not_sym]

subsection \<open>Which paths matter\<close>

lemma below_outside: "\<not> below base entry \<Longrightarrow> \<not> below (base @ x # r) (entry @ [y])"
proof
  assume "\<not> below base entry" "below (base @ x # r) (entry @ [y])"
  then obtain t where "entry @ [y] = base @ x # r @ t" by (auto simp: below_iff)
  then have "entry = base @ butlast (x # r @ t)" by (metis butlast_append butlast_snoc list.discI)
  then show False using \<open>\<not> below base entry\<close> by (auto simp: below_iff)
qed

lemma below_entry: "\<not> below base entry \<Longrightarrow> q \<in> prefixes_of entry \<Longrightarrow> \<not> below (base @ r) q"
  by (metis below_append below_trans mem_Collect_eq prefixes_of_def)

lemma below_inside: "q \<in> prefixes_of base \<Longrightarrow> \<not> below (base @ x # r) q"
  by (auto simp: prefixes_of_def below_iff)

lemma below_child: "below (base @ x # r) (base @ [y]) \<longleftrightarrow> x = y \<and> r = []"
  by (auto simp: below_iff)

lemma needs_below:
  "q \<in> needs_release base X \<Longrightarrow> below (base @ x # r) q \<Longrightarrow> x = versions_dir \<and> (\<forall>n t. r = n # t \<longrightarrow> n = X)"
  by (auto simp: needs_release_def prefixes_of_def below_iff release_dir_def versions_of_def append_eq_append_conv2
      append_eq_Cons_conv Cons_eq_append_conv)

lemma nodes_below:
  assumes "\<not> below base entry" "q \<in> command_nodes base entry X \<union> selection_nodes base" "below (base @ x # r) q"
  shows "q \<in> needs_release base X \<or> r = [] \<and> x \<in> {CURRENT_LINK, store_marker, RELOCATION, STATE, STATE_BAK}"
  using assms unfolding command_nodes_def selection_nodes_def
  by (auto simp: below_outside below_child dest: below_entry below_inside)

lemma versions_below: "below (release_dir base n) q = below (base @ versions_dir # [n]) q"
  by (simp add: release_dir_def versions_of_def)

lemma needs_release_dir: "q \<in> needs_release base X \<Longrightarrow> below (release_dir base n) q \<Longrightarrow> n = X"
  using needs_below [of q base X versions_dir "[n]"] by (simp add: versions_below)

lemma intact_nodes:
  assumes "intact env base X d"
  shows "dirs_to d (release_dir base X)" "dirs_to d (versions_of base)" "dirs_to d base"
    "node_at d (release_dir base X) = Some Dir" "node_at d (versions_of base) = Some Dir"
proof -
  show rel: "dirs_to d (release_dir base X)" using assms by (simp add: intact_def)
  then show ver: "dirs_to d (versions_of base)" unfolding release_dir_def by (rule dirs_to_append)
  then show "dirs_to d base" unfolding versions_of_def by (rule dirs_to_append)
  show "node_at d (release_dir base X) = Some Dir" "node_at d (versions_of base) = Some Dir"
    using rel ver dirs_to_node by auto
qed

lemma framed_command: "framed (command_at env base entry X) (command_nodes base entry X)"
  unfolding framed_def
proof (intro conjI allI impI ballI)
  fix d d' assume d: "command_at env base entry X d" and eq: "\<forall>q \<in> command_nodes base entry X. node_at d' q = node_at d q"
  have "intact env base X d'"
    by (rule framedD [OF framed_intact, of env base X d]) (use d eq in \<open>auto simp: command_at_def command_nodes_def\<close>)
  moreover have "dirs_to d' entry" using d eq by (auto simp: command_at_def command_nodes_def dirs_to_iff)
  ultimately show "command_at env base entry X d'" using d eq by (auto simp: command_at_def command_nodes_def)
next
  fix d q assume "q \<in> command_nodes base entry X" "command_at env base entry X d"
  then show "\<not> tmp_name q"
    using framed_tmp [OF framed_intact, of env base X d q] tidy_prefix [of entry q]
    by (auto simp: command_nodes_def command_at_def store_of_def)
qed

text \<open>The selection is read from its file, and its backup would also lead to this installation.\<close>

definition selected_by :: "(selection \<Rightarrow> bool) \<Rightarrow> path \<Rightarrow> selection \<Rightarrow> disk \<Rightarrow> bool" where
  "selected_by G base s d \<longleftrightarrow> primary base s d \<and> G s \<and> option_all G (recorded (node_at d (base @ [STATE_BAK])))"

lemma framed_selected: "framed (selected_by G base s) (selection_nodes base)"
  using framed_primary [of base s] unfolding framed_def selected_by_def by (auto simp: selection_nodes_def)

definition ready :: "install_env \<Rightarrow> path \<Rightarrow> path \<Rightarrow> jsstr \<Rightarrow> selection \<Rightarrow> disk \<Rightarrow> bool" where
  "ready env base entry X s d \<longleftrightarrow> command_at env base entry X d \<and> selected_by (wired entry) base s d"

lemma framed_ready: "framed (ready env base entry X s) (command_nodes base entry X \<union> selection_nodes base)"
  unfolding ready_def by (rule framed_conj [OF framed_command framed_selected])

lemma intact_locale: "intact env base X d \<Longrightarrow> uuid_ok env \<and> tidy base \<and> dirs_to d base"
  using intact_nodes(3) [of env base X d] by (auto simp: intact_def)

lemma readyD:
  assumes "ready env base entry X s d"
  shows "intact env base X d" "command_at env base entry X d" "store_of env base entry" "dirs_to d entry" "dirs_to d base"
    "selected_by (wired entry) base s d" "wired entry s" "primary base s d" "RELEASE_NAME X"
  using assms intact_nodes(3) [of env base X d] intact_name [of env base X d]
  by (simp_all add: ready_def command_at_def selected_by_def)

lemma follow_tail: "dirs_to d (p @ q) \<Longrightarrow> follow d n p (q @ r) = follow d n (p @ q) r"
proof (rule follow_dirs)
  assume d: "dirs_to d (p @ q)"
  then show "[46, 46] \<notin> set q" by (simp add: dirs_to_def)
  show "\<forall>k \<le> length q. node_at d (p @ take k q) = Some Dir"
  proof (intro allI impI)
    fix k assume "k \<le> length q"
    then show "node_at d (p @ take k q) = Some Dir"
      using d dirs_to_def [of d "p @ q"] by (auto dest!: spec [of _ "length p + k"])
  qed
qed

lemma follow_absolute:
  "x \<noteq> [46, 46] \<Longrightarrow> node_at d (c @ [x]) = Some (Link (Absolute p)) \<Longrightarrow> follow d (Suc n) c (x # r) = follow d n [] (p @ r)"
  by simp

text \<open>The current link leads to the directory of the release, the command to its launcher.\<close>

lemma follow_current:
  assumes "command_at env base entry X d"
  shows "follow d (Suc n) base (CURRENT_LINK # r) = follow d n (release_dir base X) r"
proof -
  have "dirs_to d (base @ [versions_dir, X])" "node_at d (base @ [CURRENT_LINK]) = Some (Link (Relative [versions_dir, X]))"
    using assms by (simp_all add: command_at_def intact_def release_dir_def versions_of_def)
  then show ?thesis using follow_tail [of d base "[versions_dir, X]" n r] by (simp add: release_dir_def versions_of_def)
qed

lemma realpath_current:
  assumes "command_at env base entry X d"
  shows "realpath d (base @ [CURRENT_LINK]) = Some (release_dir base X)"
proof -
  have "dirs_to d base" using assms intact_nodes(3) by (auto simp: command_at_def)
  then show ?thesis using realpath_dirs [of d base "[CURRENT_LINK]"] follow_current [OF assms, of 39 "[]"]
    by simp
qed

lemma realpath_command:
  assumes "command_at env base entry X d"
  shows "realpath d (entry @ [launcher]) = Some (release_dir base X @ [launcher])"
proof -
  have d: "dirs_to d entry" "dirs_to d base" "dirs_to d (release_dir base X)"
    "node_at d (entry @ [launcher]) = Some (Link (Absolute (base @ [CURRENT_LINK, launcher])))"
    using assms intact_nodes(1,3) [of env base X d] by (simp_all add: command_at_def)
  have "regularFile d (release_dir base X @ [launcher])"
    using assms by (auto simp: command_at_def intact_def payload_of_def releaseFiles_def split: option.splits if_splits)
  then obtain c where c: "node_at d (release_dir base X @ [launcher]) = Some (File c)" using regular_below [OF d(3)] by auto
  have "realpath d (entry @ [launcher]) = follow d 39 [] (base @ [CURRENT_LINK, launcher])"
    using realpath_dirs [OF d(1), of "[launcher]"] follow_absolute [OF _ d(4), of 39 "[]"] by simp
  also have "\<dots> = follow d 38 (release_dir base X) [launcher]"
    using follow_tail [of d "[]" base 39 "[CURRENT_LINK, launcher]"] d(2) follow_current [OF assms, of 38 "[launcher]"]
    by simp
  finally show ?thesis using c by simp
qed

lemma linked_ready:
  assumes "ready env base entry X s d"
  shows "linkedEntryRelease d base s = Some X"
  using readyD [OF assms] realpath_current [of env base entry X d]
  by (simp add: linkedEntryRelease_def wired_def in_versions_def release_dir_def)

subsection \<open>The locales, for the working command and for a release that is needed\<close>

lemma kept_linked:
  "kept_releases env d base s us = Some keep \<Longrightarrow> sl_layout s = Some FileLink \<Longrightarrow> linkedEntryRelease d base s = Some X \<Longrightarrow> X \<in> set keep"
  by (auto simp: kept_releases_def Let_def option_list_def split: if_splits option.splits)

text \<open>The program may hold another selection \<open>s\<close> of this installation than the one on the disk, \<open>t\<close>.\<close>

definition ready_for :: "install_env \<Rightarrow> path \<Rightarrow> path \<Rightarrow> jsstr \<Rightarrow> selection \<Rightarrow> selection \<Rightarrow> disk \<Rightarrow> bool" where
  "ready_for env base entry X s t d \<longleftrightarrow> ready env base entry X t d \<and> wired entry s"

lemma ready_forD: "ready_for env base entry X s t d \<Longrightarrow> ready env base entry X t d" "ready_for env base entry X s t d \<Longrightarrow> wired entry s"
  by (simp_all add: ready_for_def)

lemma ready_for_wired: "wired entry s \<Longrightarrow> ready_for env base entry X s t = ready env base entry X t"
  by (simp add: ready_for_def fun_eq_iff)

lemma ready_for_same: "ready_for env base entry X s s = ready env base entry X s"
  using readyD(7) by (auto simp: ready_for_def fun_eq_iff)

lemma ready_below:
  assumes "ready_for env base entry X s t d" "q \<in> command_nodes base entry X \<union> selection_nodes base" "below (base @ x # r) q"
  shows "x = versions_dir \<and> (\<forall>n t. r = n # t \<longrightarrow> n = X) \<or> r = [] \<and> x \<in> {CURRENT_LINK, store_marker, RELOCATION, STATE, STATE_BAK}"
  using nodes_below [OF _ assms(2,3)] needs_below [OF _ assms(3), of X] readyD(3) [OF ready_forD(1) [OF assms(1)]]
  by (auto simp: store_of_def)

interpretation command: prune_frame env base "ready_for env base entry X s t" "command_nodes base entry X \<union> selection_nodes base" s
  for env base entry X s t
proof (unfold_locales, goal_cases)
  case 1
  show ?case unfolding ready_for_def using framed_ready [of env base entry X t] by (auto simp: framed_def)
next
  case (2 d)
  then show ?case using intact_locale readyD(1) ready_forD(1) by blast
next
  case (3 d q)
  then show ?case using ready_below [of env base entry X s t d q USAGE_DIR "[]"] by auto
next
  case (4 d)
  then show ?case using ready_below [of env base entry X s t d "base @ [LOCK]" LOCK "[]"] by auto
next
  case (5 d)
  then show ?case using intact_nodes(5) [OF readyD(1) [OF ready_forD(1)]] by blast
next
  case (6 d q n)
  then have "n = X" using ready_below [of env base entry X s t d q versions_dir "[n]"] by (auto simp: versions_below)
  then show ?case using readyD(1,9) [OF ready_forD(1) [OF 6(1)]] intact_nodes(4) by blast
next
  case (7 d us keep q n)
  then have "n = X" using ready_below [of env base entry X s t d q versions_dir "[n]"] by (auto simp: versions_below)
  moreover have "linkedEntryRelease d base s = Some X" "sl_layout s = Some FileLink"
    using linked_ready [OF ready_forD(1) [OF 7(1)]] readyD(7) [OF ready_forD(1) [OF 7(1)]] ready_forD(2) [OF 7(1)]
    by (simp_all add: linkedEntryRelease_def wired_def)
  ultimately show ?case using kept_linked [OF 7(2)] by blast
next
  case (8 d)
  then show ?case by (simp add: ready_for_def ready_def command_at_def)
next
  case (9 d)
  then show ?case using ready_below [of env base entry X s t d "base @ [backend]" backend "[]"] by auto
next
  case (10 d ns n)
  then have "option_all (list_all legacy_name) (sl_legacy s)" using ready_forD(2) [OF 10(1)] by (simp add: wired_def selection_ok_def)
  then show ?case using 10(2,3) legacy_not_release by (auto simp: list_all_iff)
qed

lemmas keeps_ready =
  command.keeps_stage [of _ _ _ _ t t for t, unfolded ready_for_same]
  command.keeps_retain [of _ _ _ _ t t for t, unfolded ready_for_same]

lemma keeps_prune_ready: "wired entry s \<Longrightarrow> keeps (ready env base entry X t) (prune env base s)"
  using command.keeps_prune [of env base entry X s t] by (simp add: ready_for_wired)

text \<open>
  An intact release that the selection names, that its backup names, or that this process runs from. The removal of
  releases does not touch it.
\<close>

definition needed :: "install_env \<Rightarrow> path \<Rightarrow> jsstr \<Rightarrow> selection \<Rightarrow> disk \<Rightarrow> bool" where
  "needed env base Y s d \<longleftrightarrow> intact env base Y d \<and> selection_ok s \<and> node_at d (base @ [RELOCATION]) = None
     \<and> (sl_current s = Some Y \<or> sl_pending s = Some Y
        \<or> plain_at d (base @ [STATE_BAK]) \<and> Option.bind (recorded (node_at d (base @ [STATE_BAK]))) sl_current = Some Y
        \<or> ie_execPath env = release_dir base Y @ [launcher])"

lemma framed_needed: "framed (needed env base Y s) (needs_release base Y \<union> {base @ [RELOCATION], base @ [STATE_BAK]})"
  unfolding framed_def
proof (intro conjI allI impI ballI)
  fix d d' assume d: "needed env base Y s d"
    and eq: "\<forall>q \<in> needs_release base Y \<union> {base @ [RELOCATION], base @ [STATE_BAK]}. node_at d' q = node_at d q"
  have "intact env base Y d'"
    by (rule framedD [OF framed_intact, of env base Y d]) (use d eq in \<open>auto simp: needed_def\<close>)
  then show "needed env base Y s d'" using d eq by (auto simp: needed_def plain_at_def)
next
  fix d q assume "q \<in> needs_release base Y \<union> {base @ [RELOCATION], base @ [STATE_BAK]}" "needed env base Y s d"
  then show "\<not> tmp_name q" using framed_tmp [OF framed_intact, of env base Y d q] by (auto simp: needed_def)
qed

lemma intact_exec: "intact env base Y d \<Longrightarrow> realpath d (release_dir base Y @ [launcher]) = Some (release_dir base Y @ [launcher])"
proof -
  assume i: "intact env base Y d"
  then have "regularFile d (release_dir base Y @ [launcher])"
    by (auto simp: intact_def payload_of_def releaseFiles_def split: option.splits if_splits)
  then show ?thesis using regular_below [OF intact_nodes(1) [OF i]] realpath_below [OF intact_nodes(1) [OF i]] by auto
qed

lemma kept_reasons:
  assumes "kept_releases env d base s us = Some keep"
  shows "sl_current s = Some Y \<Longrightarrow> Y \<in> set keep" "sl_pending s = Some Y \<Longrightarrow> Y \<in> set keep"
    "parseSelection d (base @ [STATE_BAK]) = Some t \<Longrightarrow> sl_current t = Some Y \<Longrightarrow> Y \<in> set keep"
    "realpath d (ie_execPath env) = Some (release_dir base Y @ [f]) \<Longrightarrow> Y \<in> set keep"
  using assms
  by (auto simp: kept_releases_def Let_def option_list_def parent_name_def release_dir_def butlast_append split: if_splits option.splits)

lemma kept_needed: "needed env base Y s d \<Longrightarrow> kept_releases env d base s us = Some keep \<Longrightarrow> Y \<in> set keep"
proof -
  assume n: "needed env base Y s d" and k: "kept_releases env d base s us = Some keep"
  have i: "intact env base Y d" using n by (simp add: needed_def)
  have b: "parseSelection d (base @ [STATE_BAK]) = recorded (node_at d (base @ [STATE_BAK]))" if "plain_at d (base @ [STATE_BAK])"
    using parse_node(1) [OF intact_nodes(3) [OF i] _ that] by simp
  consider "sl_current s = Some Y" | "sl_pending s = Some Y" | t where "plain_at d (base @ [STATE_BAK])"
      "recorded (node_at d (base @ [STATE_BAK])) = Some t" "sl_current t = Some Y" | "ie_execPath env = release_dir base Y @ [launcher]"
    using n by (auto simp: needed_def bind_eq_Some_conv)
  then show ?thesis
    by cases (use kept_reasons [OF k] b intact_exec [OF i] in auto)
qed

lemma needed_below:
  "q \<in> needs_release base Y \<union> {base @ [RELOCATION], base @ [STATE_BAK]} \<Longrightarrow> below (base @ x # r) q \<Longrightarrow>
    q \<in> needs_release base Y \<and> x = versions_dir \<and> (\<forall>n t. r = n # t \<longrightarrow> n = Y) \<or> r = [] \<and> x \<in> {RELOCATION, STATE_BAK}"
  using needs_below [of q base Y x r] by (auto simp: below_child)

lemma needed_release:
  "q \<in> needs_release base Y \<union> {base @ [RELOCATION], base @ [STATE_BAK]} \<Longrightarrow> below (release_dir base n) q \<Longrightarrow> n = Y"
  using needed_below [of q base Y versions_dir "[n]"] by (auto simp: versions_below)

interpretation release: prune_frame env base "needed env base Y s" "needs_release base Y \<union> {base @ [RELOCATION], base @ [STATE_BAK]}" s
  for env base Y s
proof (unfold_locales, goal_cases)
  case 1
  show ?case by (rule framed_needed)
next
  case (2 d)
  then show ?case using intact_locale [of env base Y d] by (simp add: needed_def)
next
  case (3 d q)
  then show ?case using needed_below [of q base Y USAGE_DIR "[]"] by auto
next
  case (4 d)
  then show ?case using needed_below [of "base @ [LOCK]" base Y LOCK "[]"] by auto
next
  case (5 d)
  then show ?case using intact_nodes(5) [of env base Y d] by (simp add: needed_def)
next
  case (6 d q n)
  then have "n = Y" by (simp only: needed_release)
  then show ?case using intact_name intact_nodes(4) 6 by (auto simp: needed_def)
next
  case (7 d us keep q n)
  then have "n = Y" by (simp only: needed_release)
  then show ?case using kept_needed 7 by blast
next
  case (8 d)
  then show ?case by (simp add: needed_def)
next
  case (9 d)
  then show ?case using needed_below [of "base @ [backend]" base Y backend "[]"] by auto
next
  case (10 d ns n)
  then have "option_all (list_all legacy_name) (sl_legacy s)" by (simp add: needed_def selection_ok_def)
  then show ?case using 10(2,3) legacy_not_release by (auto simp: list_all_iff)
qed

end
