(* ===== verification/InstallCrash.thy ===== *)
theory InstallCrash
  imports InstallCommand
begin

text \<open>
  Updating an installation: staging, selecting and publishing a release, started from a working installation, leave
  it working in every state a crash of the process can reach, whichever writes the system refuses.
\<close>

subsection \<open>What a program returns\<close>

definition returns :: "'a io \<Rightarrow> ('a \<Rightarrow> bool) \<Rightarrow> bool" where
  "returns m R \<longleftrightarrow> (\<forall>w x w'. m w = (Inr x, w') \<longrightarrow> R x)"

lemma returnsD: "returns m R \<Longrightarrow> m w = (Inr x, w') \<Longrightarrow> R x"
  unfolding returns_def by blast

lemma triple_returns:
  assumes "triple C P m Q E" "returns m R"
  shows "triple C P m (\<lambda>x d. Q x d \<and> R x) E"
proof (rule tripleI)
  fix w r w' assume w: "crash_ok C w" "P (w_disk w)" "m w = (r, w')"
  then show "crash_ok C w' \<and> (case r of Inr x \<Rightarrow> Q x (w_disk w') \<and> R x | Inl e \<Rightarrow> E e (w_disk w'))"
    using tripleD [OF assms(1) w] returnsD [OF assms(2)] by (cases r) auto
qed

lemma returns_rules:
  "R x \<Longrightarrow> returns (ret x) R"
  "(\<And>x. returns (f x) R) \<Longrightarrow> returns (seq a f) R"
  "returns k R \<Longrightarrow> returns (andthen n k) R"
  "returns k R \<Longrightarrow> returns (finally_do k n) R"
  by (auto simp: returns_def ret_def seq_def andthen_def finally_do_def split: prod.splits sum.splits)

text \<open>
  Documented of \<open>node:crypto\<close>: a digest and a random name are written in hexadecimal digits, of the lengths that
  the names of releases need.
\<close>

definition names_ok :: "install_env \<Rightarrow> bool" where
  "names_ok env \<longleftrightarrow> (\<forall>t. hex_digest (ie_hash env t)) \<and> (\<forall>c. hex_digest (ie_digest env c))
     \<and> (\<forall>n. length (filter (\<lambda>c. c \<noteq> 45) (ie_uuid env n)) = 32 \<and> list_all hex_lower (filter (\<lambda>c. c \<noteq> 45) (ie_uuid env n)))"

lemma release_name_hex: "length h = 32 \<Longrightarrow> list_all hex_lower h \<Longrightarrow> RELEASE_NAME (release_prefix @ h)"
  by (simp add: RELEASE_NAME_def release_prefix_def starts_with_def)

lemma stage_name: "names_ok env \<Longrightarrow> returns (stageDirectory env base source version) RELEASE_NAME"
proof -
  assume n: "names_ok env"
  have h: "RELEASE_NAME (release_prefix @ release_id env version fs)" for fs
    using n by (intro release_name_hex)
      (auto simp: names_ok_def release_id_def hex_digest_def hex_pattern_def list_all_iff dest!: in_set_takeD)
  have u: "RELEASE_NAME (release_prefix @ filter (\<lambda>c. c \<noteq> 45) (ie_uuid env k))" for k
    using n by (intro release_name_hex) (auto simp: names_ok_def)
  show ?thesis
    unfolding stageDirectory_def stage_files_def settle_release_def Let_def
    by (intro returns_rules) (use h u in auto)
qed

subsection \<open>The lock\<close>

context install_frame
begin

lemma triple_lock:
  assumes C: "\<And>d. I d \<Longrightarrow> C d" and m: "triple C I m Q E" and E: "\<And>e d. I d \<Longrightarrow> E e d"
  shows "triple C I (withInstallLock base m) Q E"
proof (cases "\<exists>d. I d")
  case True
  then have "base @ [LOCK] \<notin> N" using lock_free by blast
  then have "keeps I (put_new (File (Blob [])) (base @ [LOCK]))"
    by (intro keeps_put_new [OF framed]) (simp_all add: dirs_base)
  then have new: "triple C I (put_new (File (Blob [])) (base @ [LOCK])) (\<lambda>u. I) E"
    by (rule triple_weaken [OF keeps_triple [where I = I]]) (use C E in auto)
  have held: "triple C I (holding (base @ [LOCK]) m) Q E"
    by (rule triple_holding [OF m]) (use E in auto)
  have any: "triple C I (case n of None \<Rightarrow> andthen (put_new (File (Blob [])) (base @ [LOCK])) (holding (base @ [LOCK]) m)
      | Some (File c) \<Rightarrow> holding (base @ [LOCK]) m
      | Some other \<Rightarrow> raise (Failure (js ''MeshTalk installation lock is not a regular file.''))) Q E" for n
    using triple_andthen [OF new held] held E by (auto split: option.split node.split intro: triple_raise)
  show ?thesis unfolding withInstallLock_def Let_def
    by (rule triple_read, rule triple_pre [OF any]) simp
qed (auto simp: triple_def crash_ok_def)

end

lemmas lock_ready = command.triple_lock [of _ _ _ _ t t for t, unfolded ready_for_same]

subsection \<open>Selecting and publishing\<close>

definition working :: "install_env \<Rightarrow> path \<Rightarrow> path \<Rightarrow> disk \<Rightarrow> bool" where
  "working env base entry d \<longleftrightarrow> (\<exists>X s. ready env base entry X s d)"

lemma working [intro]: "ready env base entry X s d \<Longrightarrow> working env base entry d"
  by (auto simp: working_def)

lemma triple_write_selected:
  assumes J: "framed J N" "base @ [STATE] \<notin> N" "base @ [STATE_BAK] \<notin> N"
    and C: "\<And>d t. J d \<Longrightarrow> selected_by G base t d \<Longrightarrow> C d" and G: "G new" "\<And>t. G t \<Longrightarrow> selection_ok t"
  shows "triple C (\<lambda>d. J d \<and> selected_by G base old d) (writeSelection env base new) (\<lambda>u d. J d \<and> selected_by G base new d)
    (\<lambda>e d. J d \<and> (selected_by G base old d \<or> selected_by G base new d))"
proof (rule triple_writeSelection [OF J framed_selected _ framed_selected])
  fix d
  show "selected_by G base old d \<Longrightarrow> selects base old d" by (simp add: selected_by_def primary_selects)
  show "selected_by G base new d \<Longrightarrow> dirs_to d base" by (simp add: selected_by_def primary_iff)
  assume old: "selected_by G base old d"
  have outside: "base @ [STATE_BAK] \<noteq> []" "base @ [STATE] \<noteq> []" by simp_all
  show "selected_by G base old (map_set (base @ [STATE_BAK]) (File (Document (selection_json old))) d)"
    using old G(2) by (auto simp: selected_by_def primary_backup node_set outside selection_roundtrip_ok)
  show "selected_by G base new (map_set (base @ [STATE]) (File (Document (selection_json new))) d)"
    using old G by (auto simp: selected_by_def primary_new [OF primary_selects] node_set outside)
qed (use C in auto)

lemma wired_layout: "wired entry s \<Longrightarrow> sl_layout s = Some FileLink"
  by (simp add: wired_def)

lemma wired_ok: "wired entry s \<Longrightarrow> selection_ok s"
  by (simp add: wired_def)

lemma command_outside:
  assumes "\<not> below base entry" "x \<notin> {versions_dir, launcher, store_marker, CURRENT_LINK, RELOCATION}"
  shows "base @ [x] \<notin> command_nodes base entry X"
  using assms needs_below [of "base @ [x]" base X x "[]"] below_entry [OF assms(1), of "base @ [x]" "[x]"]
  by (auto simp: command_nodes_def)

lemma ready_outside: "ready env base entry X s d \<Longrightarrow> \<not> below base entry"
  using readyD(3) by (simp add: store_of_def)

lemma triple_write_ready:
  assumes J: "framed J N" "base @ [STATE] \<notin> N" "base @ [STATE_BAK] \<notin> N"
    and C: "\<And>d. working env base entry d \<Longrightarrow> C d" and new: "wired entry new"
  shows "triple C (\<lambda>d. ready env base entry X old d \<and> J d) (writeSelection env base new) (\<lambda>u d. ready env base entry X new d \<and> J d)
    (\<lambda>e. working env base entry)"
proof (cases "\<exists>d. ready env base entry X old d")
  case True
  then have "\<not> below base entry" using ready_outside by blast
  then have out: "base @ [STATE] \<notin> command_nodes base entry X \<union> N" "base @ [STATE_BAK] \<notin> command_nodes base entry X \<union> N"
    using J command_outside [of base entry STATE X] command_outside [of base entry STATE_BAK X] by auto
  have "triple C (\<lambda>d. (command_at env base entry X d \<and> J d) \<and> selected_by (wired entry) base old d) (writeSelection env base new)
      (\<lambda>u d. (command_at env base entry X d \<and> J d) \<and> selected_by (wired entry) base new d)
      (\<lambda>e d. (command_at env base entry X d \<and> J d) \<and> (selected_by (wired entry) base old d \<or> selected_by (wired entry) base new d))"
    by (rule triple_write_selected [where G = "wired entry", OF framed_conj [OF framed_command J(1)] out _ new wired_ok])
      (use C working in \<open>auto simp: ready_def\<close>)
  then show ?thesis by (rule triple_weaken) (auto simp: ready_def working_def)
qed (auto simp: triple_def)

lemma entry_ready: "wired entry s \<Longrightarrow> store_of env base entry \<Longrightarrow> entryDirectory env d base s = entry"
  by (simp add: entryDirectory_def wired_def store_of_def)

lemma readlink_ready: "ready env base entry X s d \<Longrightarrow> readlink d (entry @ [launcher]) = Some (Absolute (base @ [CURRENT_LINK, launcher]))"
  using readyD(2,4) [of env base entry X s d] by (simp add: readlink_def lstat_below command_at_def)

lemma current_ready: "ready env base entry X s d \<Longrightarrow> lstat d (base @ [CURRENT_LINK]) = Some (Link (Relative [versions_dir, X]))"
  using readyD(2,5) [of env base entry X s d] by (simp add: lstat_below command_at_def)

lemma link_in_versions: "RELEASE_NAME X \<Longrightarrow> in_versions base (link_target base (Relative [versions_dir, X]))"
proof -
  assume X: "RELEASE_NAME X"
  then have "X \<noteq> []" "X \<noteq> [46]" "X \<noteq> [46, 46]" by (auto simp: RELEASE_NAME_def)
  moreover have "versions_dir \<noteq> []" "versions_dir \<noteq> [46]" by (simp_all add: versions_dir_def js_def)
  ultimately show ?thesis using X by (simp add: in_versions_def link_target_def walk_def versions_of_def butlast_append)
qed

text \<open>Publishing replaces one link; the link of the command is already right.\<close>

definition published :: "install_env \<Rightarrow> path \<Rightarrow> path \<Rightarrow> jsstr \<Rightarrow> jsstr \<Rightarrow> selection \<Rightarrow> disk \<Rightarrow> bool" where
  "published env base entry X c s d \<longleftrightarrow> ready env base entry X s d \<and> intact env base c d"

lemma framed_published: "framed (published env base entry X c s)
    ((command_nodes base entry X \<union> selection_nodes base) \<union> needs_release base c)"
  unfolding published_def by (rule framed_conj [OF framed_ready framed_intact])

lemma publish_step:
  assumes "published env base entry X c s d"
  shows "ready env base entry c s (map_set (base @ [CURRENT_LINK]) (Link (Relative [versions_dir, c])) d)"
proof -
  let ?p = "base @ [CURRENT_LINK]" and ?d = "map_set (base @ [CURRENT_LINK]) (Link (Relative [versions_dir, c])) d"
  have r: "ready env base entry X s d" "intact env base c d" using assms by (simp_all add: published_def)
  have "?p \<notin> needs_release base c" using needs_below [of ?p base c CURRENT_LINK "[]"] by auto
  then have "intact env base c ?d" by (intro framed_set [OF framed_intact r(2)]) simp_all
  moreover have "?p \<notin> selection_nodes base" by (auto simp: selection_nodes_def prefixes_of_def below_iff)
  then have "selected_by (wired entry) base s ?d" using readyD(6) [OF r(1)] by (intro framed_set [OF framed_selected]) simp_all
  moreover have "dirs_to ?d entry"
    using readyD(4) [OF r(1)] ready_outside [OF r(1)] below_entry [of base entry ?p "[CURRENT_LINK]"]
    by (auto simp: dirs_to_iff node_set)
  moreover have "node_at ?d (entry @ [f]) = node_at d (entry @ [f])" if "f \<noteq> CURRENT_LINK" for f
    using that by (simp add: node_set)
  ultimately show ?thesis
    using readyD(2) [OF r(1)] by (auto simp: ready_def command_at_def node_set)
qed

lemma command_current: "wired entry s \<Longrightarrow> command_target base s = Absolute (base @ [CURRENT_LINK, launcher])"
  by (simp add: command_target_def wired_def truthy_def path_text_def)

lemma triple_current:
  assumes C: "\<And>d. working env base entry d \<Longrightarrow> C d"
  shows "triple C (published env base entry X c s) (replaceSymlink env (base @ [CURRENT_LINK]) (Relative [versions_dir, c]))
    (\<lambda>u. ready env base entry c s) (\<lambda>e. working env base entry)"
proof (rule triple_weaken [OF triple_replaceSymlink [OF framed_untmp [OF framed_published] _ _ framed_untmp [OF framed_ready]]])
  fix d assume "published env base entry X c s d"
  then show "dirs_to d (butlast (base @ [CURRENT_LINK]))" by (auto simp: published_def dest: readyD(5))
next
  fix d assume "ready env base entry c s d"
  then show "dirs_to d (butlast (base @ [CURRENT_LINK]))" by (auto dest: readyD(5))
qed (use C publish_step in \<open>auto simp: published_def\<close>)

lemma link_ready:
  assumes "ready env base entry c s d"
  shows "(let p = entryDirectory env d base s @ [launcher] in (p, readlink d p)) = (entry @ [launcher], Some (command_target base s))"
  using readyD(3,7) [OF assms] by (simp add: entry_ready readlink_ready [OF assms] command_current Let_def)

text \<open>The check of the current link passes, and the link of the command stays.\<close>

definition publish_rest :: "install_env \<Rightarrow> path \<Rightarrow> selection \<Rightarrow> jsstr \<Rightarrow> unit io" where
  "publish_rest env base s c = andthen (replaceSymlink env (base @ [CURRENT_LINK]) (Relative [versions_dir, c]))
     (seq (reading (\<lambda>d. let entry = entryDirectory env d base s @ [launcher] in (entry, readlink d entry))) (\<lambda>r.
      case r of (entry, now) \<Rightarrow>
        if now \<noteq> Some (command_target base s) then replaceSymlink env entry (command_target base s) else ret ()))"

lemma publish_checked:
  assumes "sl_current s = Some c" "sl_layout s = Some FileLink"
  shows "publishEntry env base s = seq (reading (\<lambda>d. lstat d (base @ [CURRENT_LINK]))) (\<lambda>info.
     andthen (case info of None \<Rightarrow> ret () | Some (Link t) \<Rightarrow> if in_versions base (link_target base t) then ret () else raise foreign_link
       | Some other \<Rightarrow> raise occupied_link) (publish_rest env base s c))"
  using assms by (simp add: publishEntry_def publish_link_def publish_rest_def)

lemma published_link:
  assumes "published env base entry X c s d"
  shows "lstat d (base @ [CURRENT_LINK]) = Some (Link (Relative [versions_dir, X]))" "RELEASE_NAME X"
  using assms current_ready readyD(9) by (auto simp: published_def)

lemma triple_known:
  assumes "triple C P (k v) Q E" "\<And>d. P d \<Longrightarrow> f d = v"
  shows "triple C P (seq (reading f) k) Q E"
  using assms by (auto simp: triple_def seq_def reading_def)

lemma triple_publish:
  assumes C: "\<And>d. working env base entry d \<Longrightarrow> C d" and c: "sl_current s = Some c"
  shows "triple C (published env base entry X c s) (publishEntry env base s) (\<lambda>u. ready env base entry c s)
    (\<lambda>e. working env base entry)"
proof (rule triple_guard [where G = "wired entry s \<and> RELEASE_NAME X" and P = "published env base entry X c s"])
  assume w: "wired entry s \<and> RELEASE_NAME X"
  have "triple C (ready env base entry c s) (seq (reading (\<lambda>d. let entry = entryDirectory env d base s @ [launcher] in (entry, readlink d entry))) (\<lambda>r.
      case r of (entry, now) \<Rightarrow> if now \<noteq> Some (command_target base s) then replaceSymlink env entry (command_target base s) else ret ()))
      (\<lambda>u. ready env base entry c s) (\<lambda>e. working env base entry)"
    by (rule triple_known [OF _ link_ready]) (simp_all add: triple_ret)
  then have "triple C (published env base entry X c s) (publish_rest env base s c) (\<lambda>u. ready env base entry c s) (\<lambda>e. working env base entry)"
    unfolding publish_rest_def by (intro triple_andthen [OF triple_current] C)
  then show "triple C (published env base entry X c s) (publishEntry env base s) (\<lambda>u. ready env base entry c s) (\<lambda>e. working env base entry)"
    unfolding publish_checked [OF c wired_layout [OF conjunct1 [OF w]]]
    by (intro triple_known [OF _ published_link(1)])
      (use w in \<open>auto simp: link_in_versions intro: triple_andthen [OF triple_ret]\<close>)
qed (auto simp: published_def dest: readyD(7,9))

text \<open>A release that the code has verified in a working installation is intact.\<close>

lemma verified_intact:
  assumes "ready env base entry X s d" "payload_of env d base c True \<noteq> None"
  shows "intact env base c d"
proof -
  have V: "dirs_to d (versions_of base)" "uuid_ok env" "tidy base"
    using readyD(1) [OF assms(1)] intact_nodes(2) [OF readyD(1) [OF assms(1)]] by (simp_all add: intact_def)
  have "RELEASE_NAME c" "is_dir d (release_dir base c)"
    using assms(2) by (auto simp: payload_of_def payloadManifest_def split: option.splits if_splits)
  then have "dirs_to d (release_dir base c)"
    using dirs_to_dir [OF V(1), of c] RELEASE_NAME_tidy by (simp add: release_dir_def)
  then show ?thesis using V assms(2) by (simp add: intact_def)
qed

definition selection_next :: "selection \<Rightarrow> jsstr \<Rightarrow> selection" where
  "selection_next s c = s\<lparr>sl_current := Some c, sl_pending := None\<rparr>"

lemma wired_next: "wired entry s \<Longrightarrow> RELEASE_NAME c \<Longrightarrow> wired entry (selection_next s c)"
  by (auto simp: wired_def selection_ok_def selection_next_def)

text \<open>The old selection is written again where publishing failed.\<close>

lemma triple_restore:
  assumes C: "\<And>d. working env base entry d \<Longrightarrow> C d" and w: "wired entry s"
  shows "triple C (working env base entry) (writeJson env (base @ [STATE]) (selection_json s))
    (\<lambda>u. working env base entry) (\<lambda>e. working env base entry)"
proof -
  have "triple C (ready env base entry Y t) (writeJson env (base @ [STATE]) (selection_json s))
    (\<lambda>u. ready env base entry Y s) (\<lambda>e d. ready env base entry Y t d \<or> ready env base entry Y s d)" for Y t
  proof (rule triple_writeJson [OF framed_untmp [OF framed_ready] _ _ framed_untmp [OF framed_ready]])
    fix d assume r: "ready env base entry Y t d"
    let ?d = "map_set (base @ [STATE]) (File (Document (selection_json s))) d"
    have "command_at env base entry Y ?d"
      by (rule framed_set [OF framed_command readyD(2) [OF r]]) (use command_outside [OF ready_outside [OF r], of STATE] in auto)
    moreover have "selected_by (wired entry) base s ?d"
      using readyD(6) [OF r] w wired_ok [OF w] by (auto simp: selected_by_def primary_new [OF primary_selects] node_set)
    ultimately show "ready env base entry Y s ?d" by (simp add: ready_def)
  qed (use C in \<open>auto dest: readyD(5)\<close>)
  then have "triple C (ready env base entry Y t) (writeJson env (base @ [STATE]) (selection_json s))
    (\<lambda>u. working env base entry) (\<lambda>e. working env base entry)" for Y t
    by (rule triple_weaken) auto
  then show ?thesis unfolding working_def [abs_def] by (intro triple_ex)
qed

lemma triple_write_published:
  assumes C: "\<And>d. working env base entry d \<Longrightarrow> C d" and w: "wired entry n"
  shows "triple C (published env base entry X c s) (writeSelection env base n) (\<lambda>u. published env base entry X c n) (\<lambda>e. working env base entry)"
proof -
  have "base @ [x] \<notin> needs_release base c" if "x \<noteq> versions_dir" for x
    using needs_below [of "base @ [x]" base c x "[]"] that by auto
  then show ?thesis
    unfolding published_def by (intro triple_write_ready [OF framed_intact]) (use C w in auto)
qed

lemma triple_select:
  assumes C: "\<And>d. working env base entry d \<Longrightarrow> C d" and w: "wired entry s" "RELEASE_NAME c" and n: "n = selection_next s c"
  shows "triple C (published env base entry X c s) (andthen (writeSelection env base n)
      (andthen (try_catch (publishEntry env base n) (\<lambda>e. andthen (writeJson env (base @ [STATE]) (selection_json s)) (raise e))) (ret n)))
    (\<lambda>t d. ready env base entry c t d \<and> t = n) (\<lambda>e. working env base entry)"
proof (rule triple_andthen)
  let ?W = "working env base entry"
  show "triple C (published env base entry X c s) (writeSelection env base n) (\<lambda>u. published env base entry X c n) (\<lambda>e. ?W)"
    by (rule triple_write_published) (use C wired_next [OF w] n in auto)
  have undo: "triple C ?W (andthen (writeJson env (base @ [STATE]) (selection_json s)) (raise e)) (\<lambda>u. ready env base entry c n) (\<lambda>e. ?W)" for e
    by (rule triple_andthen [OF triple_restore [OF C w(1)]]) (auto intro: triple_raise)
  have "sl_current n = Some c" by (simp add: selection_next_def n)
  then have "triple C (published env base entry X c n) (try_catch (publishEntry env base n) (\<lambda>e.
        andthen (writeJson env (base @ [STATE]) (selection_json s)) (raise e))) (\<lambda>u. ready env base entry c n) (\<lambda>e. ?W)"
    by (intro triple_catch [OF triple_publish [OF C] undo])
  then show "triple C (published env base entry X c n) (andthen (try_catch (publishEntry env base n) (\<lambda>e.
        andthen (writeJson env (base @ [STATE]) (selection_json s)) (raise e))) (ret n)) (\<lambda>t d. ready env base entry c t d \<and> t = n) (\<lambda>e. ?W)"
    by (rule triple_andthen) (auto intro: triple_ret)
qed

lemma state_exists: "ready env base entry X s d \<Longrightarrow> existsSync d (base @ [STATE])"
  using readyD(8) [of env base entry X s d] parse_node(2) [of d base STATE] by (auto simp: primary_iff)

theorem triple_activate:
  assumes C: "\<And>d. working env base entry d \<Longrightarrow> C d"
  shows "triple C (ready env base entry X s) (activate env base s)
    (\<lambda>t d. case sl_pending s of None \<Rightarrow> ready env base entry X s d \<and> t = s
       | Some c \<Rightarrow> ready env base entry c t d \<and> t = selection_next s c) (\<lambda>e. working env base entry)"
proof (cases "sl_pending s")
  case None
  then show ?thesis by (auto simp: activate_def intro: triple_ret)
next
  case (Some c)
  let ?n = "s\<lparr>sl_current := Some c, sl_pending := None\<rparr>"
  let ?rest = "\<lambda>verified had. if verified = None then raise incomplete_update
    else andthen (writeSelection env base ?n) (andthen (try_catch (publishEntry env base ?n) (\<lambda>e.
      andthen (if had then writeJson env (base @ [STATE]) (selection_json s) else remove_force (base @ [STATE])) (raise e))) (ret ?n))"
  have "triple C (\<lambda>d. ready env base entry X s d \<and> (verified, had) = (payload_of env d base c True, existsSync d (base @ [STATE])))
    (?rest verified had) (\<lambda>t d. ready env base entry c t d \<and> t = selection_next s c) (\<lambda>e. working env base entry)" for verified had
  proof (cases verified)
    case None
    then show ?thesis by (auto intro: triple_raise)
  next
    case (Some v)
    show ?thesis
    proof (rule triple_guard [where G = "had \<and> wired entry s \<and> RELEASE_NAME c" and P = "published env base entry X c s"])
      assume "had \<and> wired entry s \<and> RELEASE_NAME c"
      then show "triple C (published env base entry X c s) (?rest verified had)
          (\<lambda>t d. ready env base entry c t d \<and> t = selection_next s c) (\<lambda>e. working env base entry)"
        using triple_select [where entry = entry and s = s and c = c and n = ?n, OF C] Some by (simp add: selection_next_def)
    next
      fix d assume d: "ready env base entry X s d \<and> (verified, had) = (payload_of env d base c True, existsSync d (base @ [STATE]))"
      then have "intact env base c d" using Some verified_intact [of env base entry X s d c] by (metis option.distinct(1) prod.inject)
      then show "published env base entry X c s d \<and> had \<and> wired entry s \<and> RELEASE_NAME c"
        using d intact_name by (auto simp: published_def state_exists readyD(7))
    qed
  qed
  then show ?thesis
    unfolding activate_def Some option.case Let_def by (intro triple_read) (simp only: split_paired_all prod.case)
qed

subsection \<open>Operations of the update\<close>

lemma is_dir_dirs: "dirs_to d p \<Longrightarrow> is_dir d p"
proof (cases p rule: rev_cases)
  case (snoc q x)
  assume "dirs_to d p"
  then show ?thesis using snoc dirs_to_append [of d q "[x]"] by (simp add: is_dir_below dirs_to_node)
qed (simp add: is_dir_def lstat_def place_def node_at_def)

lemma entry_path_dirs: "dirs_to d p \<Longrightarrow> installationEntryPath d p = Some p"
  using realpath_dirs [of d p "[]"] by (simp add: installationEntryPath_def is_dir_dirs)

text \<open>The command leads to the store, whose marker names the directory of the command.\<close>

lemma store_entry_ready:
  assumes "ready env base entry X s d"
  shows "installationStoreEntry env d base = Some entry" "installationStoreEntry env d entry = None"
proof -
  have d: "dirs_to d base" "dirs_to d entry" "store_of env base entry" and m: "command_at env base entry X d"
    using readyD [OF assms] by simp_all
  have "regularFile d (base @ [store_marker])" "read_json d (base @ [store_marker]) = Some (store_owner entry)"
    using m d(1) by (simp_all add: regular_below read_json_def read_below command_at_def)
  moreover have "prop_of (store_owner entry) ''entry'' = Some (JStr (path_text entry))" "schema_ok (store_owner entry)"
    "absolute (path_text entry)"
    by (simp_all add: store_owner_def prop_of_def field_def schema_ok_def absolute_def path_text_def starts_with_def)
  ultimately show "installationStoreEntry env d base = Some entry"
    using d by (simp add: installationStoreEntry_def is_dir_dirs entry_path_dirs store_of_def)
  show "installationStoreEntry env d entry = None"
    using m d(2) by (simp add: installationStoreEntry_def regular_below command_at_def)
qed

lemma managed_ready:
  assumes "ready env base entry X s d"
  shows "managedInstallRoot env d entry = Some base"
proof -
  have d: "dirs_to d entry" and m: "command_at env base entry X d" using readyD [OF assms] by simp_all
  have "is_link d (entry @ [launcher])" using m d by (simp add: is_link_def lstat_below command_at_def)
  moreover have "butlast (grandparent (release_dir base X @ [launcher])) = base"
    by (simp add: grandparent_def release_dir_def versions_of_def butlast_append)
  moreover have "same_path d entry entry" using d by (simp add: same_path_def sameInstallationPath_def entry_path_dirs)
  ultimately have "linked_store env d entry = Some base"
    using store_entry_ready [OF assms] realpath_command [OF m] by (simp add: linked_store_def)
  then show ?thesis using store_entry_ready [OF assms] by (simp add: managedInstallRoot_def)
qed

lemma triple_read_known:
  assumes "\<And>d. C d \<Longrightarrow> P d \<Longrightarrow> f d = Some v"
  shows "triple C P (reading_or e f) (\<lambda>r d. P d \<and> r = v) E"
  using assms by (auto simp: triple_def outcome_ok_def reading_or_def seq_def reading_def ret_def crash_ok_def)

lemma triple_root:
  assumes "triple C (ready env base entry X s) (f base) Q E"
  shows "triple C (ready env base entry X s) (seq (managed_root env entry) f) Q E"
proof (rule triple_seq [where R = "\<lambda>b d. ready env base entry X s d \<and> b = base"])
  show "triple C (ready env base entry X s) (managed_root env entry) (\<lambda>b d. ready env base entry X s d \<and> b = base) E"
    unfolding managed_root_def by (rule triple_read_known) (rule managed_ready)
  fix b
  show "triple C (\<lambda>d. ready env base entry X s d \<and> b = base) (f b) Q E"
    using assms by (intro triple_fact) simp
qed

lemma triple_selecting:
  assumes "triple C (ready env base entry X s) (f s) Q E"
  shows "triple C (ready env base entry X s) (seq (selecting base) f) Q E"
proof (rule triple_seq [where R = "\<lambda>t d. ready env base entry X s d \<and> t = s"])
  show "triple C (ready env base entry X s) (selecting base) (\<lambda>t d. ready env base entry X s d \<and> t = s) E"
    unfolding selecting_def by (rule triple_read_known) (auto dest!: readyD(8) intro: selects_read primary_selects)
  fix t
  show "triple C (\<lambda>d. ready env base entry X s d \<and> t = s) (f t) Q E"
    using assms by (intro triple_fact) simp
qed

lemma ready_keeps:
  assumes "keeps (ready env base entry X s) m" "\<And>d. working env base entry d \<Longrightarrow> C d"
  shows "triple C (ready env base entry X s) m (\<lambda>x. ready env base entry X s) (\<lambda>e. working env base entry)"
  by (rule triple_weaken [OF keeps_triple [OF assms(1)]]) (use assms(2) in auto)

lemma triple_prune_ready:
  assumes "\<And>d. working env base entry d \<Longrightarrow> C d"
  shows "triple C (ready env base entry X t) (prune env base t) (\<lambda>u. ready env base entry X t) (\<lambda>e. ready env base entry X t)"
  by (rule triple_guard [where G = "wired entry t" and P = "ready env base entry X t"], rule keeps_triple [OF keeps_prune_ready])
    (use assms in \<open>auto dest: readyD(7)\<close>)

definition selection_staged :: "selection \<Rightarrow> jsstr \<Rightarrow> selection" where
  "selection_staged s c = s\<lparr>sl_pending := Some c\<rparr>"

lemma wired_staged: "wired entry s \<Longrightarrow> RELEASE_NAME c \<Longrightarrow> wired entry (selection_staged s c)"
  by (auto simp: wired_def selection_ok_def selection_staged_def)

theorem triple_stage:
  assumes C: "\<And>d. working env base entry d \<Longrightarrow> C d" and n: "names_ok env"
  shows "triple C (ready env base entry X s) (stageReleaseDirectory env source entry version)
    (\<lambda>u. working env base entry) (\<lambda>e. working env base entry)"
  unfolding stageReleaseDirectory_def
proof (rule triple_root)
  let ?R = "ready env base entry X" and ?E = "\<lambda>e. working env base entry"
  have select: "triple C (\<lambda>d. ?R s d \<and> RELEASE_NAME c) (writeSelection env base (selection_staged s c))
      (\<lambda>u. ?R (selection_staged s c)) ?E" for c
  proof (rule triple_guard [where P = "?R s" and G = "wired entry (selection_staged s c)"])
    assume "wired entry (selection_staged s c)"
    then have "triple C (\<lambda>d. ?R s d \<and> True) (writeSelection env base (selection_staged s c))
        (\<lambda>u d. ?R (selection_staged s c) d \<and> True) ?E"
      by (intro triple_write_ready [OF framed_true]) (use C in auto)
    then show "triple C (?R s) (writeSelection env base (selection_staged s c)) (\<lambda>u. ?R (selection_staged s c)) ?E" by simp
  qed (auto dest: readyD(7) intro: wired_staged)
  have unused: "triple C (?R t) (prune env base t) (\<lambda>u. working env base entry) ?E" for t
    by (rule triple_weaken [OF triple_prune_ready [OF C]]) auto
  have staged: "triple C (?R s) (stageDirectory env base source version) (\<lambda>c d. ?R s d \<and> RELEASE_NAME c) ?E"
    by (rule triple_returns [OF ready_keeps [OF keeps_ready(1) C] stage_name [OF n]])
  have body: "triple C (?R s) (seq (stageDirectory env base source version) (\<lambda>pending.
      andthen (writeSelection env base (selection_staged s pending)) (prune env base (selection_staged s pending))))
      (\<lambda>u. working env base entry) ?E"
    by (rule triple_seq [OF staged], rule triple_andthen [OF select unused])
  show "triple C (?R s) (stage_update env base source version) (\<lambda>u. working env base entry) ?E"
    unfolding stage_update_def Let_def selection_staged_def [symmetric]
    by (rule lock_ready, use C in blast, rule triple_selecting, rule triple_read, rule triple_if)
      (auto intro: triple_raise triple_pre [OF body])
qed

text \<open>What the selection names after activating is verified once more before it is run.\<close>

definition chosen :: "install_env \<Rightarrow> path \<Rightarrow> path \<Rightarrow> selection \<Rightarrow> jsstr \<Rightarrow> disk \<Rightarrow> bool" where
  "chosen env base entry s c d \<longleftrightarrow> (\<exists>Y t. ready env base entry Y t d \<and> sl_current t = Some c \<and> intact env base c d
     \<and> (case sl_pending s of None \<Rightarrow> t = s | Some c' \<Rightarrow> Y = c' \<and> c = c'))"

lemma chosen_working: "chosen env base entry s c d \<Longrightarrow> working env base entry d"
  by (auto simp: chosen_def)

lemma triple_activate_selected:
  assumes C: "\<And>d. working env base entry d \<Longrightarrow> C d"
  shows "triple C (ready env base entry X s) (activate_selected env base) (chosen env base entry s) (\<lambda>e. working env base entry)"
  unfolding activate_selected_def
proof (rule triple_selecting, rule triple_seq [OF triple_activate [OF C]], assumption)
  fix t
  let ?P = "\<lambda>d. case sl_pending s of None \<Rightarrow> ready env base entry X s d \<and> t = s
      | Some c \<Rightarrow> ready env base entry c t d \<and> t = selection_next s c"
  have P: "?P d \<Longrightarrow> (\<exists>Y. ready env base entry Y t d \<and> (case sl_pending s of None \<Rightarrow> t = s | Some c' \<Rightarrow> Y = c' \<and> sl_current t = Some c'))" for d
    by (cases "sl_pending s") (auto simp: selection_next_def)
  show "triple C ?P (case sl_current t of None \<Rightarrow> raise missing_release
      | Some current \<Rightarrow> seq (reading (\<lambda>d. payload_of env d base current True \<noteq> None)) (\<lambda>ok. if ok then ret current else raise missing_release))
      (chosen env base entry s) (\<lambda>e. working env base entry)"
  proof (cases "sl_current t")
    case None
    show ?thesis unfolding None option.case by (rule triple_raise) (blast dest: P)
  next
    case (Some c)
    show ?thesis unfolding Some option.case
    proof (rule triple_read, rule triple_if; rule triple_ret triple_raise)
      fix ok d assume ok "?P d \<and> ok = (payload_of env d base c True \<noteq> None)"
      then obtain Y where Y: "ready env base entry Y t d" "payload_of env d base c True \<noteq> None"
        "case sl_pending s of None \<Rightarrow> t = s | Some c' \<Rightarrow> Y = c' \<and> sl_current t = Some c'" using P by blast
      then show "chosen env base entry s c d"
        using verified_intact [OF Y(1,2)] Some unfolding chosen_def by (intro exI [of _ Y] exI [of _ t]) (auto split: option.splits)
    qed (blast dest: P)
  qed
qed

lemma triple_also:
  assumes "triple C P m Q E" "triple (\<lambda>d. True) P m Q' E'"
  shows "triple C P m (\<lambda>x d. Q x d \<and> Q' x d) E"
proof (rule tripleI)
  fix w r w' assume w: "crash_ok C w" "P (w_disk w)" "m w = (r, w')"
  have "crash_ok (\<lambda>d. True) w" by (simp add: crash_ok_def list_all_iff)
  then show "crash_ok C w' \<and> (case r of Inr x \<Rightarrow> Q x (w_disk w') \<and> Q' x (w_disk w') | Inl e \<Rightarrow> E e (w_disk w'))"
    using tripleD [OF assms(1) w] tripleD(2) [OF assms(2) _ w(2,3)] by (cases r) auto
qed

lemma triple_retain_chosen:
  assumes C: "\<And>d. working env base entry d \<Longrightarrow> C d"
  shows "triple C (chosen env base entry s c) (retain env base r pid kind) (\<lambda>u. chosen env base entry s c) (\<lambda>e. working env base entry)"
  unfolding chosen_def
proof (intro triple_ex)
  fix Y t
  let ?F = "case sl_pending s of None \<Rightarrow> t = s | Some c' \<Rightarrow> Y = c' \<and> c = c'" and ?E = "\<lambda>e. working env base entry"
  have one: "triple C (\<lambda>d. ready env base entry Y t d \<and> intact env base c d) (retain env base r pid kind)
      (\<lambda>u d. ready env base entry Y t d \<and> needed env base c t d) ?E" if "sl_current t = Some c"
  proof (rule triple_also)
    show "triple C (\<lambda>d. ready env base entry Y t d \<and> intact env base c d) (retain env base r pid kind) (\<lambda>u. ready env base entry Y t) ?E"
      by (rule triple_pre [OF ready_keeps [OF keeps_ready(2) C]]) auto
    show "triple (\<lambda>d. True) (\<lambda>d. ready env base entry Y t d \<and> intact env base c d) (retain env base r pid kind)
        (\<lambda>u. needed env base c t) (\<lambda>e. needed env base c t)"
      by (rule triple_pre [OF keeps_triple [OF release.keeps_retain]])
        (use that in \<open>auto simp: needed_def ready_def command_at_def selected_by_def dest: wired_ok\<close>)
  qed
  show "triple C (\<lambda>d. ready env base entry Y t d \<and> sl_current t = Some c \<and> intact env base c d \<and> ?F) (retain env base r pid kind)
      (\<lambda>u d. \<exists>Y t. ready env base entry Y t d \<and> sl_current t = Some c \<and> intact env base c d
        \<and> (case sl_pending s of None \<Rightarrow> t = s | Some c' \<Rightarrow> Y = c' \<and> c = c')) ?E"
    by (rule triple_guard [where G = "sl_current t = Some c \<and> ?F" and P = "\<lambda>d. ready env base entry Y t d \<and> intact env base c d"],
        rule triple_weaken [OF one]) (auto simp: needed_def)
qed

theorem triple_restart:
  assumes C: "\<And>d. working env base entry d \<Longrightarrow> C d"
  shows "triple C (ready env base entry X s) (prepareUpdateRestart env entry)
    (\<lambda>l d. \<exists>c. chosen env base entry s c d \<and> il_executable l = release_dir base c @ [launcher]) (\<lambda>e. working env base entry)"
  unfolding prepareUpdateRestart_def
proof (rule triple_root, rule lock_ready)
  show "triple C (ready env base entry X s) (seq (activate_selected env base) (\<lambda>current.
       seq (retain env base current (ie_pid env) (js ''launcher'')) (\<lambda>u.
       ret \<lparr>il_root = base, il_executable = release_dir base current @ [launcher], il_usage = Some u, il_warning = None\<rparr>)))
    (\<lambda>l d. \<exists>c. chosen env base entry s c d \<and> il_executable l = release_dir base c @ [launcher]) (\<lambda>e. working env base entry)"
    by (rule triple_seq [OF triple_activate_selected [OF C]], assumption, rule triple_seq [OF triple_retain_chosen [OF C]], assumption,
        rule triple_ret) auto
qed (use C in auto)

theorem triple_cleanup:
  assumes C: "\<And>d. working env base entry d \<Longrightarrow> C d"
  shows "triple C (ready env base entry X s) (cleanupReleases env base) (\<lambda>u. ready env base entry X s) (\<lambda>e. working env base entry)"
  unfolding cleanupReleases_def
proof (rule triple_attempt, rule lock_ready)
  show "triple C (ready env base entry X s) (seq (selecting base) (prune env base)) (\<lambda>u. ready env base entry X s) (\<lambda>e. ready env base entry X s)"
    by (rule triple_selecting, rule triple_prune_ready [OF C])
qed (use C in auto)

end
