(* ===== verification/InstallStart.thy ===== *)
theory InstallStart
  imports InstallCrash
begin

text \<open>
  Starting an installed launcher keeps a working installation working, too: every step of a start, the repair of an
  interrupted publication, activating a pending release, falling back to the release of the backup and confirming
  the running one. The last part runs sequences of updates and starts.
\<close>

subsection \<open>Steps of a start\<close>

text \<open>A program that keeps an installation working, from any of its states.\<close>

definition keeps_working :: "(disk \<Rightarrow> bool) \<Rightarrow> install_env \<Rightarrow> path \<Rightarrow> path \<Rightarrow> 'a io \<Rightarrow> ('a \<Rightarrow> bool) \<Rightarrow> bool" where
  "keeps_working C env base entry m R \<longleftrightarrow>
     triple C (working env base entry) m (\<lambda>x d. working env base entry d \<and> R x) (\<lambda>e. working env base entry)"

lemma keeps_workingI:
  assumes "\<And>X s. triple C (ready env base entry X s) m (\<lambda>x d. working env base entry d \<and> R x) (\<lambda>e. working env base entry)"
  shows "keeps_working C env base entry m R"
  unfolding keeps_working_def working_def [of env base entry, abs_def] using assms by (intro triple_ex) (simp add: working_def [abs_def])

lemma safe_seq:
  assumes "keeps_working C env base entry m R" "\<And>x. R x \<Longrightarrow> keeps_working C env base entry (f x) Q"
  shows "keeps_working C env base entry (seq m f) Q"
  using assms unfolding keeps_working_def by (auto intro: triple_seq triple_fact)

lemma safe_andthen:
  "keeps_working C env base entry m (\<lambda>u. True) \<Longrightarrow> keeps_working C env base entry k Q \<Longrightarrow> keeps_working C env base entry (andthen m k) Q"
  unfolding andthen_def by (erule safe_seq)

lemma safe_ret: "R x \<Longrightarrow> keeps_working C env base entry (ret x) R"
  unfolding keeps_working_def by (auto intro: triple_ret)

lemma safe_raise: "keeps_working C env base entry (raise e) R"
  unfolding keeps_working_def by (auto intro: triple_raise)

lemma safe_if: "(b \<Longrightarrow> keeps_working C env base entry m R) \<Longrightarrow> (\<not> b \<Longrightarrow> keeps_working C env base entry n R) \<Longrightarrow> keeps_working C env base entry (if b then m else n) R"
  by simp

lemma safe_reading:
  assumes "\<And>x. keeps_working C env base entry (k x) R"
  shows "keeps_working C env base entry (seq (reading f) k) R"
  unfolding keeps_working_def by (rule triple_read, rule triple_pre [OF assms [unfolded keeps_working_def]]) simp

lemma safe_reading_or:
  assumes "\<And>x d. f d = Some x \<Longrightarrow> keeps_working C env base entry (k x) R"
  shows "keeps_working C env base entry (seq (reading_or e f) k) R"
  unfolding keeps_working_def
proof (rule triple_reading_or)
  fix x
  show "triple C (\<lambda>d. working env base entry d \<and> f d = Some x) (k x) (\<lambda>x d. working env base entry d \<and> R x) (\<lambda>e. working env base entry)"
    by (rule triple_guard [where P = "working env base entry" and G = "\<exists>d. f d = Some x"])
      (use assms in \<open>auto simp: keeps_working_def\<close>)
qed

lemma safe_keeps:
  assumes "\<And>X s. keeps (ready env base entry X s) m" "\<And>d. working env base entry d \<Longrightarrow> C d"
  shows "keeps_working C env base entry m (\<lambda>x. True)"
  by (rule keeps_workingI, rule triple_weaken [OF keeps_triple [OF assms(1)]]) (use assms(2) in auto)

lemma safe_write:
  assumes "\<And>d. working env base entry d \<Longrightarrow> C d" "wired entry new"
  shows "keeps_working C env base entry (writeSelection env base new) (\<lambda>u. True)"
proof (rule keeps_workingI)
  fix X s
  have "triple C (\<lambda>d. ready env base entry X s d \<and> True) (writeSelection env base new) (\<lambda>u d. ready env base entry X new d \<and> True)
      (\<lambda>e. working env base entry)"
    by (rule triple_write_ready [OF framed_true]) (use assms in auto)
  then show "triple C (ready env base entry X s) (writeSelection env base new) (\<lambda>x d. working env base entry d \<and> True) (\<lambda>e. working env base entry)"
    by (rule triple_weaken) auto
qed

lemmas safe_rules = safe_reading safe_reading_or safe_andthen safe_if safe_raise

lemma ready_state:
  assumes "ready env base entry X s d"
  shows "parseSelection d (base @ [STATE]) = Some s" "existsSync d (base @ [STATE])" "sl_layout s = Some FileLink" "truthy (sl_current s)"
proof -
  have p: "primary base s d" "wired entry s" using readyD [OF assms] by simp_all
  then show "parseSelection d (base @ [STATE]) = Some s" by (auto simp: primary_iff parse_node)
  show "existsSync d (base @ [STATE])" by (rule state_exists [OF assms])
  show "sl_layout s = Some FileLink" "truthy (sl_current s)"
    using p(2) by (auto simp: wired_def selection_ok_def truthy_def RELEASE_NAME_def)
qed

lemma triple_migrate: "triple C (ready env base entry X s) (migrateVersionManifest env base) (\<lambda>u. ready env base entry X s) E"
  unfolding migrateVersionManifest_def by (rule triple_known [where v = False]) (auto simp: ready_state intro: triple_ret)

lemma triple_recover:
  "triple C (ready env base entry X s) (recover_selection env base) (\<lambda>r d. ready env base entry X s d \<and> r = (False, s)) E"
  unfolding recover_selection_def
proof (rule triple_selecting, rule triple_known [where v = False])
  show "triple C (ready env base entry X s) (andthen (if False then andthen (writeSelection env base s) (publishEntry env base s) else ret ())
        (if truthy (sl_current s) \<and> sl_layout s = None
         then seq (write_and_publish env base (s\<lparr>sl_layout := Some FileLink\<rparr>)) (\<lambda>s. ret (False, s)) else ret (False, s)))
      (\<lambda>r d. ready env base entry X s d \<and> r = (False, s)) E"
    by (rule triple_guard [where P = "ready env base entry X s" and G = "sl_layout s = Some FileLink"])
      (auto simp: ready_state(3) intro: triple_andthen [OF triple_ret triple_ret])
qed (auto simp: ready_state)

lemma triple_adopt:
  "triple C (ready env base entry X s) (adopt_flat env base isPayload version s) (\<lambda>t d. ready env base entry X s d \<and> t = s) E"
  unfolding adopt_flat_def
  by (rule triple_read, rule triple_guard [where P = "ready env base entry X s" and G = "truthy (sl_current s)"])
    (auto simp: ready_state(4) intro: triple_ret)

lemma triple_repair:
  assumes C: "\<And>d. working env base entry d \<Longrightarrow> C d"
  shows "triple C (ready env base entry X s) (repair_links env base isPayload ownRelease s)
    (\<lambda>b d. \<exists>Y. ready env base entry Y s d) (\<lambda>e. working env base entry)"
proof (cases "sl_current s")
  case None
  then show ?thesis by (auto simp: repair_links_def intro: triple_ret)
next
  case (Some c)
  let ?Q = "\<lambda>b d. \<exists>Y. ready env base entry Y s d" and ?E = "\<lambda>e. working env base entry"
  have publish: "triple C (published env base entry X c s) (andthen (publishEntry env base s) (ret b)) ?Q ?E" for b
    by (rule triple_andthen [OF triple_publish [OF C Some]]) (auto intro: triple_ret)
  have "triple C (\<lambda>d. ready env base entry X s d \<and> (intact, linked, commandLinked) =
        (payload_of env d base c True \<noteq> None, linkedEntryRelease d base s, command_linked env d base s c))
      (if sl_layout s \<noteq> Some Flat \<and> intact \<and> (linked \<noteq> Some c \<or> \<not> commandLinked)
       then andthen (publishEntry env base s) (ret (isPayload \<and> linked = Some ownRelease)) else ret False) ?Q ?E" for intact linked commandLinked
    by (rule triple_if; rule triple_pre [OF publish] triple_ret) (auto simp: published_def dest: verified_intact)
  then show ?thesis
    unfolding repair_links_def Some option.case by (intro triple_read) (simp only: split_paired_all prod.case)
qed

lemma safe_activate:
  assumes C: "\<And>d. working env base entry d \<Longrightarrow> C d"
  shows "triple C (ready env base entry Y s) (activate_or_warn env base s)
    (\<lambda>r d. working env base entry d \<and> wired entry (fst r)) (\<lambda>e. working env base entry)"
proof (rule triple_guard [where P = "ready env base entry Y s" and G = "wired entry s"])
  assume w: "wired entry s"
  let ?Q = "\<lambda>r d. working env base entry d \<and> wired entry (fst r)" and ?E = "\<lambda>e. working env base entry"
  have ok: "triple C (\<lambda>d. case sl_pending s of None \<Rightarrow> ready env base entry Y s d \<and> t = s
       | Some c \<Rightarrow> ready env base entry c t d \<and> t = selection_next s c) (ret (t, None)) ?Q ?E" for t
    by (rule triple_ret) (auto dest: readyD(7) split: option.splits)
  have warn: "triple C (?E e) (seq (reading (\<lambda>d. intact_current env d base s)) (\<lambda>intact.
       if intact then ret (s, Some damaged_download) else raise e)) ?Q ?E" for e
    by (rule triple_read, rule triple_if; rule triple_ret triple_raise) (use w in auto)
  show "triple C (ready env base entry Y s) (activate_or_warn env base s) ?Q ?E"
    unfolding activate_or_warn_def by (rule triple_catch [OF triple_seq [OF triple_activate [OF C] ok] warn])
qed (auto dest: readyD(7))

lemma digest_hex: "names_ok env \<Longrightarrow> digest_at env d p = Some h \<Longrightarrow> hex_digest h"
  by (auto simp: digest_at_def names_ok_def)

lemma safe_bootstrap:
  assumes C: "\<And>d. working env base entry d \<Longrightarrow> C d" and n: "names_ok env" and w: "wired entry s"
  shows "keeps_working C env base entry (note_bootstrap env base isPayload actual s) (wired entry)"
proof -
  have "wired entry (s\<lparr>sl_bootstrap := Some h\<rparr>)" if "digest_at env d actual = Some h" for h d
    using w digest_hex [OF n that] by (auto simp: wired_def selection_ok_def)
  then show ?thesis
    unfolding note_bootstrap_def Let_def using w
    by (intro safe_rules safe_write [OF C] safe_ret) auto
qed

lemma safe_backup:
  assumes C: "\<And>d. working env base entry d \<Longrightarrow> C d" and w: "wired entry v"
  shows "keeps_working C env base entry (writeJson env (base @ [STATE_BAK]) (selection_json v)) (\<lambda>u. True)"
proof (rule keeps_workingI)
  fix X s
  let ?R = "ready env base entry X s"
  have "triple C ?R (writeJson env (base @ [STATE_BAK]) (selection_json v)) (\<lambda>u. ?R) (\<lambda>e d. ?R d \<or> ?R d)"
  proof (rule triple_writeJson [OF framed_untmp [OF framed_ready] _ _ framed_untmp [OF framed_ready]])
    fix d assume r: "?R d"
    let ?d = "map_set (base @ [STATE_BAK]) (File (Document (selection_json v))) d"
    have "command_at env base entry X ?d"
      by (rule framed_set [OF framed_command readyD(2) [OF r]]) (use command_outside [OF ready_outside [OF r], of STATE_BAK] in auto)
    then show "?R ?d"
      using readyD(6) [OF r] w wired_ok [OF w] by (simp add: ready_def selected_by_def primary_backup node_set selection_roundtrip_ok)
  qed (use C in \<open>auto dest: readyD(5)\<close>)
  then show "triple C ?R (writeJson env (base @ [STATE_BAK]) (selection_json v)) (\<lambda>x d. working env base entry d \<and> True) (\<lambda>e. working env base entry)"
    by (rule triple_weaken) auto
qed

lemma triple_write_publish:
  assumes C: "\<And>d. working env base entry d \<Longrightarrow> C d" and w: "wired entry n" "sl_current n = Some c"
  shows "triple C (published env base entry X c s) (write_and_publish env base n) (\<lambda>t d. ready env base entry c n d \<and> t = n)
    (\<lambda>e. working env base entry)"
  unfolding write_and_publish_def
  by (rule triple_andthen [OF triple_write_published [OF C w(1)]], assumption,
      intro triple_andthen [OF triple_publish [OF C w(2)]]) (auto intro: triple_ret)

lemma backup_ready:
  assumes "ready env base entry X s d" "parseSelection d (base @ [STATE_BAK]) = Some b"
  shows "wired entry b"
  using readyD(5,6,8) [OF assms(1)] assms(2) by (auto simp: selected_by_def primary_iff parse_node)

lemma backup_found:
  assumes "ready env base entry X s d" "Some b = (case parseSelection d (base @ [STATE_BAK]) of
      Some b \<Rightarrow> if intact_current env d base b then Some b else None | None \<Rightarrow> None)"
  obtains c where "sl_current b = Some c" "wired entry b" "published env base entry X c s d"
proof -
  have b: "parseSelection d (base @ [STATE_BAK]) = Some b" "intact_current env d base b"
    using assms(2) by (auto split: option.splits if_splits)
  then obtain c where c: "sl_current b = Some c" "payload_of env d base c True \<noteq> None"
    by (auto simp: intact_current_def split: option.splits)
  show thesis
    by (rule that [OF c(1) backup_ready [OF assms(1) b(1)]]) (simp add: published_def assms(1) verified_intact [OF assms(1) c(2)])
qed

lemma safe_run_backup:
  assumes C: "\<And>d. working env base entry d \<Longrightarrow> C d" and w: "wired entry state"
  shows "keeps_working C env base entry (run_backup env base state) (\<lambda>l. True)"
proof (rule keeps_workingI)
  fix X s
  let ?Q = "\<lambda>l d. working env base entry d \<and> True" and ?E = "\<lambda>e. working env base entry"
  let ?run = "\<lambda>b. seq (write_and_publish env base (b\<lparr>sl_pending := sl_pending state\<rparr>)) (\<lambda>s. let current = the (sl_current b) in
      seq (retain env base current (ie_pid env) (js ''launcher'')) (\<lambda>u.
      ret \<lparr>il_root = base, il_executable = release_dir base current @ [launcher], il_usage = Some u, il_warning = None\<rparr>))"
  have kept: "keeps_working C env base entry (retain env base r pid kind) (\<lambda>u. True)" for r pid kind
    by (rule safe_keeps [OF keeps_ready(2) C])
  have tail: "keeps_working C env base entry (let current = the (sl_current b) in
      seq (retain env base current (ie_pid env) (js ''launcher'')) (\<lambda>u.
      ret \<lparr>il_root = base, il_executable = release_dir base current @ [launcher], il_usage = Some u, il_warning = None\<rparr>)) (\<lambda>l. True)" for b
    unfolding Let_def by (rule safe_seq [OF kept], rule safe_ret) simp
  have run: "triple C (published env base entry X c s) (?run b) ?Q ?E" if "wired entry b" "sl_current b = Some c" for b c
  proof (rule triple_seq [OF triple_write_publish [OF C]])
    show "wired entry (b\<lparr>sl_pending := sl_pending state\<rparr>)" "sl_current (b\<lparr>sl_pending := sl_pending state\<rparr>) = Some c"
      using that w by (auto simp: wired_def selection_ok_def)
  qed (assumption, rule triple_pre [OF tail [unfolded keeps_working_def]], auto)
  show "triple C (ready env base entry X s) (run_backup env base state) ?Q ?E"
    unfolding run_backup_def
  proof (rule triple_read)
    fix r
    show "triple C (\<lambda>d. ready env base entry X s d \<and> r = (case parseSelection d (base @ [STATE_BAK]) of
         Some b \<Rightarrow> if intact_current env d base b then Some b else None | None \<Rightarrow> None))
      (case r of None \<Rightarrow> raise missing_components | Some b \<Rightarrow> ?run b) ?Q ?E"
    proof (cases r)
      case None
      then show ?thesis by (auto intro: triple_raise)
    next
      case (Some b)
      show ?thesis unfolding Some option.case
      proof (rule triple_guard [where P = "published env base entry X (the (sl_current b)) s" and G = "wired entry b \<and> sl_current b \<noteq> None"])
        assume "wired entry b \<and> sl_current b \<noteq> None"
        then show "triple C (published env base entry X (the (sl_current b)) s) (?run b) ?Q ?E" by (intro run) auto
      next
        fix d assume "ready env base entry X s d \<and> Some b = (case parseSelection d (base @ [STATE_BAK]) of
          Some b \<Rightarrow> if intact_current env d base b then Some b else None | None \<Rightarrow> None)"
        then obtain c where "sl_current b = Some c" "wired entry b" "published env base entry X c s d"
          using backup_found [of env base entry X s d b] by blast
        then show "published env base entry X (the (sl_current b)) s d \<and> wired entry b \<and> sl_current b \<noteq> None" by simp
      qed
    qed
  qed
qed

lemma safe_run_selected:
  assumes C: "\<And>d. working env base entry d \<Longrightarrow> C d" and w: "wired entry s" and own: "isPayload \<Longrightarrow> RELEASE_NAME ownRelease"
  shows "keeps_working C env base entry (run_selected env base isPayload ownRelease actual warning selected s) (\<lambda>l. True)"
proof -
  have confirmed: "wired entry (s\<lparr>sl_confirmed := Some ownRelease\<rparr>)" if "isPayload"
    using w own [OF that] by (auto simp: wired_def selection_ok_def)
  have unused: "keeps_working C env base entry (prune env base t) (\<lambda>u. True)" if "wired entry t" for t
    by (rule safe_keeps [OF keeps_prune_ready [OF that] C])
  have kept: "keeps_working C env base entry (retain env base r pid kind) (\<lambda>u. True)" for r pid kind
    by (rule safe_keeps [OF keeps_ready(2) C])
  show ?thesis
    unfolding run_selected_def Let_def
    by (rule safe_seq [OF kept], intro safe_andthen safe_if safe_write safe_backup unused safe_ret C)
      (use w confirmed in auto)
qed

subsection \<open>Starting\<close>

lemma safe_triple: "keeps_working C env base entry m R \<Longrightarrow>
    triple C (\<lambda>d. \<exists>Y. ready env base entry Y s d) m (\<lambda>x d. working env base entry d \<and> R x) (\<lambda>e. working env base entry)"
  unfolding keeps_working_def by (erule triple_pre) auto

lemma safe_launch_locked:
  assumes C: "\<And>d. working env base entry d \<Longrightarrow> C d" and n: "names_ok env"
  shows "keeps_working C env base entry (launch_locked env base actual activatePending version) (\<lambda>l. True)"
proof (rule keeps_workingI)
  fix X and s :: selection
  let ?Q = "\<lambda>l d. working env base entry d \<and> True" and ?E = "\<lambda>e. working env base entry" and ?own = "parent_name actual"
  let ?payload = "RELEASE_NAME ?own \<and> grandparent actual = versions_of base"
  let ?last = "\<lambda>stale (s2 :: selection) warning (state :: selection). let switched = stale \<or> (activatePending \<and> sl_current s2 \<noteq> sl_current s);
          selected = (if ?payload \<and> \<not> switched \<and> \<not> False then Some ?own else sl_current state)
      in seq (reading (\<lambda>d. case selected of Some s \<Rightarrow> payload_of env d base s True = None | None \<Rightarrow> False)) (\<lambda>damaged.
         if damaged then run_backup env base state
         else run_selected env base ?payload ?own actual warning selected state)"
  have last: "keeps_working C env base entry (?last stale s2 warning state) (\<lambda>l. True)" if "wired entry state" for stale s2 warning state
    unfolding Let_def by (intro safe_reading safe_if safe_run_backup safe_run_selected C that) auto
  have noted: "keeps_working C env base entry (seq (note_bootstrap env base ?payload actual (fst q)) (?last stale (fst q) (snd q))) (\<lambda>l. True)"
    if "wired entry (fst q)" for stale q
    by (rule safe_seq [OF safe_bootstrap [OF C n that] last]) assumption
  have chosen: "triple C (\<lambda>d. \<exists>Y. ready env base entry Y s d) (if activatePending then activate_or_warn env base s else ret (s, None))
      (\<lambda>q d. working env base entry d \<and> wired entry (fst q)) ?E"
    by (rule triple_if, rule triple_ex, rule safe_activate [OF C], assumption, rule triple_ret) (auto dest: readyD(7))
  have tail: "triple C (\<lambda>d. \<exists>Y. ready env base entry Y s d)
      (seq (if activatePending then activate_or_warn env base s else ret (s, None)) (\<lambda>q. case q of (s2, warning) \<Rightarrow>
        seq (note_bootstrap env base ?payload actual s2) (?last stale s2 warning))) ?Q ?E" for stale
  proof (rule triple_seq [OF chosen], rule triple_fact)
    fix q :: "selection \<times> jsstr option" assume "wired entry (fst q)"
    then show "triple C (working env base entry) (case q of (s2, warning) \<Rightarrow>
        seq (note_bootstrap env base ?payload actual s2) (?last stale s2 warning)) ?Q ?E"
      using noted [of q stale] by (simp add: keeps_working_def case_prod_beta)
  qed
  show "triple C (ready env base entry X s) (launch_locked env base actual activatePending version) ?Q ?E"
    unfolding launch_locked_def Let_def
    by (rule triple_andthen [OF triple_migrate], rule triple_seq [OF triple_recover], rule triple_fact, simp only: prod.case,
        rule triple_seq [OF triple_adopt], rule triple_fact, simp only:, rule triple_seq [OF triple_repair [OF C]], assumption,
        rule tail [unfolded Let_def])
qed

lemma safe_ready: "keeps_working C env base entry m R \<Longrightarrow>
    triple C (ready env base entry X s) m (\<lambda>x d. working env base entry d \<and> R x) (\<lambda>e. working env base entry)"
  unfolding keeps_working_def by (erule triple_pre) auto

lemma safe_lock:
  assumes "\<And>d. working env base entry d \<Longrightarrow> C d" "keeps_working C env base entry m R"
  shows "keeps_working C env base entry (withInstallLock base m) R"
  by (rule keeps_workingI, rule lock_ready [OF _ safe_ready [OF assms(2)]]) (use assms(1) in auto)

lemma safe_launch:
  assumes C: "\<And>d. working env base entry d \<Longrightarrow> C d" and n: "names_ok env"
  shows "keeps_working C env base entry (launch env base actual activatePending version) (\<lambda>l. True)"
proof -
  have "keeps_working C env base entry (launch_read_only env base actual e) (\<lambda>l. True)" for e
    unfolding launch_read_only_def selecting_def Let_def
    by (intro safe_if safe_raise safe_reading_or safe_reading) (auto intro!: safe_if safe_ret safe_raise)
  moreover have "keeps_working C env base entry (withInstallLock base (launch_locked env base actual activatePending version)) (\<lambda>l. True)"
    by (rule safe_lock [OF _ safe_launch_locked [OF _ n]]) (use C in auto)
  ultimately show ?thesis unfolding launch_def keeps_working_def by (intro triple_catch)
qed

text \<open>The command of the user is started from its link.\<close>

lemma root_of_command:
  assumes "ready env base entry X s d"
  shows "installationRoot env d (entry @ [launcher]) = Some base"
proof -
  have "parent_name (release_dir base X) = versions_dir" "grandparent (release_dir base X) = base"
    by (simp_all add: parent_name_def grandparent_def release_dir_def versions_of_def butlast_append)
  moreover have "realpath d base = Some base" using realpath_dirs [OF readyD(5) [OF assms], of "[]"] by simp
  ultimately show ?thesis
    using realpath_command [OF readyD(2) [OF assms]] by (simp add: installationRoot_def Let_def)
qed

lemma safe_launch_from:
  assumes C: "\<And>d. working env base entry d \<Longrightarrow> C d" and n: "names_ok env"
  shows "keeps_working C env base entry (launch_from env base executable activatePending version) (\<lambda>l. True)"
  unfolding launch_from_def by (rule safe_reading_or, rule safe_seq [OF safe_launch [OF C n]], assumption) (auto intro: safe_ret)

lemma safe_start:
  assumes C: "\<And>d. working env base entry d \<Longrightarrow> C d" and n: "names_ok env"
  shows "keeps_working C env base entry (prepareInstalledLauncher env (entry @ [launcher]) activatePending version privateStore) (\<lambda>l. True)"
proof (rule keeps_workingI)
  fix X s
  let ?R = "ready env base entry X s" and ?Q = "\<lambda>l d. working env base entry d \<and> True" and ?E = "\<lambda>e. working env base entry"
  have from_base: "triple C ?R (launch_from env base (entry @ [launcher]) activatePending version) ?Q ?E"
    by (rule safe_ready [OF safe_launch_from [OF C n]])
  show "triple C ?R (prepareInstalledLauncher env (entry @ [launcher]) activatePending version privateStore) ?Q ?E"
    unfolding prepareInstalledLauncher_def prepare_in_place_def
  proof (rule triple_if)
    show "triple C ?R (seq (reading (\<lambda>d. installationRoot env d (entry @ [launcher]))) (\<lambda>r. case r of
        None \<Rightarrow> ret None | Some base \<Rightarrow> launch_from env base (entry @ [launcher]) activatePending version)) ?Q ?E"
      by (rule triple_known [where v = "Some base"]) (use from_base root_of_command in auto)
    show "triple C ?R (seq (reading (\<lambda>d. installationRoot env d (entry @ [launcher]))) (\<lambda>r. case r of
          None \<Rightarrow> ret None
        | Some base0 \<Rightarrow> seq (reading (\<lambda>d. installationStoreEntry env d base0)) (\<lambda>owner.
            seq (if owner \<noteq> None then ret (Some base0) else relocated_base env base0 version) (\<lambda>b. case b of
              None \<Rightarrow> seq (reading (\<lambda>d. installationRoot env d (entry @ [launcher]))) (\<lambda>r. case r of
                 None \<Rightarrow> ret None | Some base \<Rightarrow> launch_from env base (entry @ [launcher]) activatePending version)
            | Some base \<Rightarrow> launch_from env base (entry @ [launcher]) activatePending version)))) ?Q ?E"
      by (rule triple_known [where v = "Some base"], unfold option.case, rule triple_known [where v = "Some entry"],
          rule triple_seq [where R = "\<lambda>b d. ?R d \<and> b = Some base"], simp, rule triple_ret, simp, rule triple_fact)
        (use from_base root_of_command store_entry_ready in auto)
  qed
qed

subsection \<open>Sequences of updates and starts\<close>

text \<open>
  What a running MeshTalk does with its installation: it stages an update, restarts into it, activates it, removes what
  is no longer used, or is started again from its command.
\<close>

datatype update_step = StageUpdate path jsstr | RestartUpdate | ActivateUpdate | CleanUp | StartCommand bool jsstr bool

fun update_io :: "install_env \<Rightarrow> path \<Rightarrow> path \<Rightarrow> update_step \<Rightarrow> unit io" where
  "update_io env base entry (StageUpdate source version) = stageReleaseDirectory env source entry version"
| "update_io env base entry RestartUpdate = seq (prepareUpdateRestart env entry) (\<lambda>l. ret ())"
| "update_io env base entry ActivateUpdate = seq (activateRelease env entry) (\<lambda>p. ret ())"
| "update_io env base entry CleanUp = cleanupReleases env base"
| "update_io env base entry (StartCommand activatePending version privateStore) =
     seq (prepareInstalledLauncher env (entry @ [launcher]) activatePending version privateStore) (\<lambda>l. ret ())"

lemma safe_update:
  assumes C: "\<And>d. working env base entry d \<Longrightarrow> C d" and n: "names_ok env"
  shows "keeps_working C env base entry (update_io env base entry st) (\<lambda>u. True)"
proof (cases st)
  case (StageUpdate source version)
  show ?thesis unfolding StageUpdate update_io.simps
    by (rule keeps_workingI, rule triple_weaken [OF triple_stage [OF C n]]) auto
next
  case RestartUpdate
  show ?thesis unfolding RestartUpdate update_io.simps
    by (rule safe_seq [where R = "\<lambda>l. True"], rule keeps_workingI, rule triple_weaken [OF triple_restart [OF C]])
      (auto intro: safe_ret dest: chosen_working)
next
  case ActivateUpdate
  have "triple C (ready env base entry X s) (activateRelease env entry) (\<lambda>p d. working env base entry d \<and> True) (\<lambda>e. working env base entry)" for X s
    unfolding activateRelease_def
    by (rule triple_root, rule lock_ready, use C in blast, rule triple_seq [OF triple_activate_selected [OF C]], assumption, rule triple_ret)
      (auto dest: chosen_working)
  then have "keeps_working C env base entry (activateRelease env entry) (\<lambda>p. True)" by (rule keeps_workingI)
  then show ?thesis unfolding ActivateUpdate update_io.simps by (rule safe_seq) (simp add: safe_ret)
next
  case CleanUp
  show ?thesis unfolding CleanUp update_io.simps by (rule keeps_workingI, rule triple_weaken [OF triple_cleanup [OF C]]) auto
next
  case (StartCommand a v p)
  show ?thesis unfolding StartCommand update_io.simps by (rule safe_seq [OF safe_start [OF C n]]) (auto intro: safe_ret)
qed

definition run_updates :: "install_env \<Rightarrow> path \<Rightarrow> path \<Rightarrow> update_step list \<Rightarrow> unit io" where
  "run_updates env base entry steps = for_each steps (\<lambda>st. attempt (update_io env base entry st))"

lemma triple_updates:
  assumes "names_ok env"
  shows "triple (working env base entry) (working env base entry) (run_updates env base entry steps)
    (\<lambda>u. working env base entry) (\<lambda>e. working env base entry)"
  unfolding run_updates_def
  by (rule triple_for_each, rule triple_attempt, rule triple_weaken [OF safe_update [OF _ assms, unfolded keeps_working_def]]) auto

end
