(* ===== verification/InstallProgress.thy ===== *)
theory InstallProgress
  imports InstallStart
begin

text \<open>
  An update that the system does not refuse comes through: where no write is refused and no temporary file is left over,
  activating a verified release returns. (The triples say what holds when it returns.)
\<close>

subsection \<open>Programs that return\<close>

definition succeeds :: "(disk \<Rightarrow> bool) \<Rightarrow> 'a io \<Rightarrow> ('a \<Rightarrow> disk \<Rightarrow> bool) \<Rightarrow> bool" where
  "succeeds P m Q \<longleftrightarrow> (\<forall>w. w_refused w = (\<lambda>n. None) \<and> P (w_disk w) \<longrightarrow>
     (\<exists>x w'. m w = (Inr x, w') \<and> Q x (w_disk w') \<and> w_refused w' = (\<lambda>n. None)))"

lemma succeedsI:
  assumes "\<And>w :: world. w_refused w = (\<lambda>n. None) \<Longrightarrow> P (w_disk w) \<Longrightarrow>
    \<exists>x w'. m w = (Inr x, w') \<and> Q x (w_disk w') \<and> w_refused w' = (\<lambda>n. None)"
  shows "succeeds P m Q"
  using assms by (auto simp: succeeds_def)

lemma succeedsE:
  assumes "succeeds P m Q" "w_refused w = (\<lambda>n. None)" "P (w_disk w)"
  obtains x w' where "m w = (Inr x, w')" "Q x (w_disk w')" "w_refused w' = (\<lambda>n. None)"
  using assms by (auto simp: succeeds_def)

lemma succeeds_weaken: "succeeds P' m Q' \<Longrightarrow> (\<And>d. P d \<Longrightarrow> P' d) \<Longrightarrow> (\<And>x d. Q' x d \<Longrightarrow> Q x d) \<Longrightarrow> succeeds P m Q"
  unfolding succeeds_def by meson

lemma succeeds_ret: "(\<And>d. P d \<Longrightarrow> Q x d) \<Longrightarrow> succeeds P (ret x) Q"
  by (auto simp: succeeds_def ret_def)

lemma succeeds_seq:
  assumes "succeeds P m R" "\<And>x. succeeds (R x) (f x) Q"
  shows "succeeds P (seq m f) Q"
proof (rule succeedsI)
  fix w :: world assume w: "w_refused w = (\<lambda>n. None)" "P (w_disk w)"
  obtain x w1 where 1: "m w = (Inr x, w1)" "R x (w_disk w1)" "w_refused w1 = (\<lambda>n. None)" by (rule succeedsE [OF assms(1) w])
  show "\<exists>x w'. seq m f w = (Inr x, w') \<and> Q x (w_disk w') \<and> w_refused w' = (\<lambda>n. None)"
    by (rule succeedsE [OF assms(2) 1(3,2)]) (simp add: seq_def 1(1))
qed

lemma succeeds_andthen: "succeeds P m (\<lambda>u. R) \<Longrightarrow> succeeds R k Q \<Longrightarrow> succeeds P (andthen m k) Q"
  unfolding andthen_def by (rule succeeds_seq)

lemma succeeds_catch:
  assumes "succeeds P m Q" shows "succeeds P (try_catch m h) Q"
proof (rule succeedsI)
  fix w :: world assume w: "w_refused w = (\<lambda>n. None)" "P (w_disk w)"
  show "\<exists>x w'. try_catch m h w = (Inr x, w') \<and> Q x (w_disk w') \<and> w_refused w' = (\<lambda>n. None)"
    by (rule succeedsE [OF assms w]) (simp add: try_catch_def)
qed

lemma succeeds_finally:
  assumes "succeeds P m R" "\<And>x. succeeds (R x) f (\<lambda>u. Q x)"
  shows "succeeds P (finally_do m f) Q"
proof (rule succeedsI)
  fix w :: world assume w: "w_refused w = (\<lambda>n. None)" "P (w_disk w)"
  obtain x w1 where 1: "m w = (Inr x, w1)" "R x (w_disk w1)" "w_refused w1 = (\<lambda>n. None)" by (rule succeedsE [OF assms(1) w])
  show "\<exists>x w'. finally_do m f w = (Inr x, w') \<and> Q x (w_disk w') \<and> w_refused w' = (\<lambda>n. None)"
    by (rule succeedsE [OF assms(2) 1(3,2)]) (simp add: finally_do_def 1(1))
qed

lemma succeeds_read: "(\<And>x. succeeds (\<lambda>d. P d \<and> x = f d) (k x) Q) \<Longrightarrow> succeeds P (seq (reading f) k) Q"
  by (fastforce simp: succeeds_def seq_def reading_def)

lemma succeeds_known: "succeeds P (k v) Q \<Longrightarrow> (\<And>d. P d \<Longrightarrow> f d = v) \<Longrightarrow> succeeds P (seq (reading f) k) Q"
  by (auto simp: succeeds_def seq_def reading_def)

lemma succeeds_read_known: "succeeds P (k v) Q \<Longrightarrow> (\<And>d. P d \<Longrightarrow> f d = Some v) \<Longrightarrow> succeeds P (seq (reading_or e f) k) Q"
  by (auto simp: succeeds_def seq_def reading_or_def reading_def ret_def)

lemma succeeds_draw: "(\<And>n. succeeds P (k n) Q) \<Longrightarrow> succeeds P (seq draw k) Q"
  by (auto simp: succeeds_def seq_def draw_def)

lemma succeeds_change: "(\<And>d. P d \<Longrightarrow> \<exists>d'. g d = Inr d' \<and> Q () d') \<Longrightarrow> succeeds P (change g) Q"
proof (rule succeedsI)
  fix w :: world assume "\<And>d. P d \<Longrightarrow> \<exists>d'. g d = Inr d' \<and> Q () d'" "w_refused w = (\<lambda>n. None)" "P (w_disk w)"
  then obtain d' where "g (w_disk w) = Inr d'" "Q () d'" by blast
  then show "\<exists>x w'. change g w = (Inr x, w') \<and> Q x (w_disk w') \<and> w_refused w' = (\<lambda>n. None)"
    using \<open>w_refused w = (\<lambda>n. None)\<close> by (simp add: change_def Let_def)
qed

lemma succeeds_at_place:
  assumes "\<And>d. P d \<Longrightarrow> dirs_to d (butlast p)" "p \<noteq> []" "\<And>d. P d \<Longrightarrow> \<exists>d'. g p d = Inr d' \<and> Q () d'"
  shows "succeeds P (at_place p g) Q"
  unfolding at_place_def
proof (rule succeeds_change)
  fix d assume d: "P d"
  have "place d p = Some p" using place_below [OF assms(1) [OF d], of "last p"] assms(2) by simp
  then show "\<exists>d'. (case place d p of Some q \<Rightarrow> g q d | None \<Rightarrow> Inl no_entry) = Inr d' \<and> Q () d'"
    using assms(3) [OF d] by simp
qed

lemma succeeds_both:
  assumes "succeeds P m Q" "triple (\<lambda>d. True) P m R E"
  shows "succeeds P m (\<lambda>x d. Q x d \<and> R x d)"
proof (rule succeedsI)
  fix w :: world assume w: "w_refused w = (\<lambda>n. None)" "P (w_disk w)"
  have c: "crash_ok (\<lambda>d. True) w" by (simp add: crash_ok_def list_all_iff)
  show "\<exists>x w'. m w = (Inr x, w') \<and> (Q x (w_disk w') \<and> R x (w_disk w')) \<and> w_refused w' = (\<lambda>n. None)"
    by (rule succeedsE [OF assms(1) w]) (use tripleD(2) [OF assms(2) c w(2)] in fastforce)
qed

subsection \<open>Replacing a file\<close>

text \<open>No temporary file is left over.\<close>

definition fresh :: "disk \<Rightarrow> bool" where
  "fresh d \<longleftrightarrow> (\<forall>p. tmp_name p \<longrightarrow> node_at d p = None)"

lemma andthen_assoc: "andthen (andthen a b) c = andthen a (andthen b c)"
  by (rule ext) (simp add: andthen_def seq_def split: prod.split sum.split)

text \<open>One node has changed.\<close>

definition sets :: "(disk \<Rightarrow> bool) \<Rightarrow> path \<Rightarrow> node \<Rightarrow> disk \<Rightarrow> bool" where
  "sets P p n d \<longleftrightarrow> (\<exists>d0. P d0 \<and> node_at d = (node_at d0)(p := Some n))"

lemma dirs_sets:
  assumes "sets P q n d" "\<And>d0. P d0 \<Longrightarrow> dirs_to d0 (butlast p)" "q \<noteq> []" "butlast q = butlast p"
  shows "dirs_to d (butlast p)"
proof -
  obtain d0 where d0: "P d0" "node_at d = (node_at d0)(q := Some n)" using assms(1) by (auto simp: sets_def)
  have "\<not> below q (butlast p)"
  proof
    assume "below q (butlast p)"
    then obtain r where "butlast q = q @ r" using assms(4) by (auto simp: below_iff)
    then have "length (butlast q) = length q + length r" by (metis length_append)
    then show False using assms(3) length_butlast [of q] by (cases q) simp_all
  qed
  then have "q \<notin> prefixes_of (butlast p)" by (simp add: prefixes_of_def)
  then show ?thesis using assms(2) [OF d0(1)] d0(2) by (auto simp: dirs_to_iff)
qed

lemma succeeds_sync: "succeeds P sync (\<lambda>u. P)"
  unfolding sync_def by (rule succeeds_change) auto

lemma succeeds_flush: "succeeds P flushDirectory (\<lambda>u. P)"
  unfolding flushDirectory_def by (rule succeeds_catch [OF succeeds_sync])

definition replaceable :: "path \<Rightarrow> disk \<Rightarrow> bool" where
  "replaceable p d \<longleftrightarrow> dirs_to d (butlast p) \<and> fresh d \<and> node_at d p \<noteq> Some Dir"

lemma succeeds_replace:
  fixes env p k
  defines "t \<equiv> temporary env p k"
  assumes p: "p \<noteq> []" "\<not> tmp_name p" and n: "n \<noteq> Dir" and P: "\<And>d. P d \<Longrightarrow> replaceable p d"
    and m: "succeeds P m (\<lambda>u. sets P t n)"
  shows "succeeds P (finally_do (andthen m (andthen (rename t p) flushDirectory)) (remove_force t)) (\<lambda>u. sets P p n)"
proof (rule succeeds_finally)
  have t: "t \<noteq> []" "butlast t = butlast p" "tmp_name t" by (simp_all add: t_def)
  then have ne: "t \<noteq> p" using p(2) by auto
  have dirs: "dirs_to d (butlast p)" if "sets P q n' d" "q \<noteq> []" "butlast q = butlast p" for d q n'
    by (rule dirs_sets [OF that(1) _ that(2,3)]) (use P in \<open>auto simp: replaceable_def\<close>)
  have ren: "succeeds (sets P t n) (rename t p) (\<lambda>u. sets P p n)"
    unfolding rename_def
  proof (rule succeeds_change)
    fix d assume d: "sets P t n d"
    then obtain d0 where d0: "P d0" "node_at d = (node_at d0)(t := Some n)" by (auto simp: sets_def)
    have pl: "place d t = Some t" "place d p = Some p"
      using place_below [OF dirs [OF d t(1,2)], of "last t"] place_below [OF dirs [OF d t(1,2)], of "last p"] t(1,2) p(1)
      by (metis append_butlast_last_id)+
    have "node_at d p \<noteq> Some Dir" using P [OF d0(1)] d0(2) ne by (auto simp: replaceable_def)
    then have moved: "moved_to t p d = Inr (map_set p n (map_del t d))" using d0(2) n ne by (intro moved_file) auto
    have "node_at d0 t = None" using P [OF d0(1)] t(3) by (simp add: replaceable_def fresh_def)
    then have "node_at (map_set p n (map_del t d)) = (node_at d0)(p := Some n)"
      using d0(2) p(1) t(1) by (auto simp: node_set node_del fun_eq_iff)
    then show "\<exists>d'. (case (place d t, place d p) of (Some p, Some q) \<Rightarrow> moved_to p q d | _ \<Rightarrow> Inl no_entry) = Inr d' \<and> sets P p n d'"
      using moved d0(1) unfolding pl by (auto simp: sets_def)
  qed
  show "succeeds P (andthen m (andthen (rename t p) flushDirectory)) (\<lambda>u. sets P p n)"
    by (rule succeeds_andthen [OF m succeeds_andthen [OF ren succeeds_flush]])
  show "succeeds (sets P p n) (remove_force t) (\<lambda>u. sets P p n)"
    unfolding remove_force_def
  proof (rule succeeds_known [where v = None])
    fix d assume d: "sets P p n d"
    then obtain d0 where d0: "P d0" "node_at d = (node_at d0)(p := Some n)" by (auto simp: sets_def)
    have "lstat d t = node_at d t" using lstat_below [OF dirs [OF d p(1) refl], of "last t"] t(1,2) by (metis append_butlast_last_id)
    then show "lstat d t = None" using d0(2) P [OF d0(1)] t(3) ne by (simp add: replaceable_def fresh_def)
  qed (simp add: succeeds_ret)
qed

lemma succeeds_writeJson:
  assumes "p \<noteq> []" "\<not> tmp_name p" "\<And>d. P d \<Longrightarrow> replaceable p d"
  shows "succeeds P (writeJson env p v) (\<lambda>u. sets P p (File (Document v)))"
  unfolding writeJson_def Let_def
proof (rule succeeds_draw)
  fix k
  let ?t = "temporary env p k"
  have new: "succeeds P (put_new (File (Blob [])) ?t) (\<lambda>u. sets P ?t (File (Blob [])))"
    unfolding put_new_def
  proof (rule succeeds_at_place)
    fix d assume d: "P d"
    then have "node_at d ?t = None" using assms(3) by (simp add: replaceable_def fresh_def)
    moreover have "node_at (map_set ?t (File (Blob [])) d) = (node_at d)(?t := Some (File (Blob [])))" by (auto simp: node_set)
    ultimately show "\<exists>d'. (if node_at d ?t = None then Inr (map_set ?t (File (Blob [])) d) else Inl (Code ''EEXIST'')) = Inr d'
        \<and> sets P ?t (File (Blob [])) d'"
      using d by (auto simp: sets_def)
  qed (use assms(3) in \<open>auto simp: replaceable_def\<close>)
  have fill: "succeeds (sets P ?t (File (Blob []))) (fill ?t (Document v)) (\<lambda>u. sets P ?t (File (Document v)))"
    unfolding fill_def
  proof (rule succeeds_at_place)
    fix d assume d: "sets P ?t (File (Blob [])) d"
    show "dirs_to d (butlast ?t)" by (rule dirs_sets [OF d]) (use assms(3) in \<open>auto simp: replaceable_def\<close>)
    show "\<exists>d'. Inr (map_set ?t (File (Document v)) d) = Inr d' \<and> sets P ?t (File (Document v)) d'"
      using d by (auto simp: sets_def node_set fun_eq_iff)
  qed simp
  have "succeeds P (andthen (write_new ?t (Document v)) sync) (\<lambda>u. sets P ?t (File (Document v)))"
    unfolding write_new_def by (rule succeeds_andthen [OF succeeds_seq [OF new fill] succeeds_sync])
  then have "succeeds P (finally_do (andthen (andthen (write_new ?t (Document v)) sync) (andthen (rename ?t p) flushDirectory)) (remove_force ?t))
      (\<lambda>u. sets P p (File (Document v)))"
    by (intro succeeds_replace [OF assms(1,2) _ assms(3)]) auto
  then show "succeeds P (finally_do (andthen (write_new ?t (Document v)) (andthen sync (andthen (rename ?t p) flushDirectory))) (remove_force ?t))
      (\<lambda>u. sets P p (File (Document v)))"
    unfolding andthen_assoc .
qed

lemma succeeds_symlink:
  assumes "p \<noteq> []" "\<not> tmp_name p" "\<And>d. P d \<Longrightarrow> replaceable p d"
  shows "succeeds P (replaceSymlink env p l) (\<lambda>u. sets P p (Link l))"
  unfolding replaceSymlink_def Let_def
proof (rule succeeds_draw, rule succeeds_replace [OF assms(1,2) _ assms(3)])
  fix k
  let ?t = "temporary env p k"
  show "succeeds P (symlink l ?t) (\<lambda>u. sets P ?t (Link l))"
    unfolding symlink_def put_new_def
  proof (rule succeeds_at_place)
    fix d assume d: "P d"
    then have "node_at d ?t = None" using assms(3) by (simp add: replaceable_def fresh_def)
    moreover have "node_at (map_set ?t (Link l) d) = (node_at d)(?t := Some (Link l))" by (auto simp: node_set)
    ultimately show "\<exists>d'. (if node_at d ?t = None then Inr (map_set ?t (Link l) d) else Inl (Code ''EEXIST'')) = Inr d' \<and> sets P ?t (Link l) d'"
      using d by (auto simp: sets_def)
  qed (use assms(3) in \<open>auto simp: replaceable_def\<close>)
qed auto

subsection \<open>Activating\<close>

lemma sets_weaken: "sets P p n d \<Longrightarrow> (\<And>d. P d \<Longrightarrow> Q d) \<Longrightarrow> sets Q p n d"
  by (auto simp: sets_def)

lemma fresh_sets: "sets P p n d \<Longrightarrow> (\<And>d. P d \<Longrightarrow> fresh d) \<Longrightarrow> \<not> tmp_name p \<Longrightarrow> fresh d"
  by (auto simp: sets_def fresh_def)

lemma replaceable_plain: "dirs_to d base \<Longrightarrow> fresh d \<Longrightarrow> node_at d (base @ [x]) \<noteq> Some Dir \<Longrightarrow> replaceable (base @ [x]) d"
  by (simp add: replaceable_def)

lemma selects_replaceable:
  "selects base s d \<Longrightarrow> fresh d \<Longrightarrow> replaceable (base @ [STATE]) d \<and> replaceable (base @ [STATE_BAK]) d"
  by (auto simp: selects_def plain_at_def intro!: replaceable_plain split: option.splits)

lemma succeeds_writeSelection:
  "succeeds (\<lambda>d. selects base s d \<and> fresh d) (writeSelection env base new) (\<lambda>u. fresh)"
  unfolding writeSelection_def
proof (rule succeeds_read)
  let ?P = "\<lambda>d. selects base s d \<and> fresh d" and ?S = "\<lambda>d. replaceable (base @ [STATE]) d"
  fix r :: "selection option \<times> bool"
  obtain previous before where r: "r = (previous, before)" by (cases r)
  have state: "succeeds ?S (writeJson env (base @ [STATE]) v) (\<lambda>u. fresh)" for v
    by (rule succeeds_weaken [OF succeeds_writeJson [where P = ?S]], auto) (erule fresh_sets, auto simp: replaceable_def)
  have backup: "succeeds ?P (writeJson env (base @ [STATE_BAK]) v) (\<lambda>u. ?S)" for v
  proof (rule succeeds_weaken [OF succeeds_writeJson [where P = ?P]])
    fix u d assume d: "sets ?P (base @ [STATE_BAK]) (File (Document v)) d"
    then obtain d0 where d0: "?P d0" "node_at d = (node_at d0)(base @ [STATE_BAK] := Some (File (Document v)))" by (auto simp: sets_def)
    have "dirs_to d (butlast (base @ [STATE]))" by (rule dirs_sets [OF d]) (auto simp: selects_def)
    then show "?S d" using d0 fresh_sets [OF d] selects_replaceable [of base s d0] by (simp add: replaceable_def)
  qed (auto dest: selects_replaceable)
  have skip: "succeeds ?P (ret ()) (\<lambda>u. ?S)" by (rule succeeds_ret) (auto dest: selects_replaceable)
  have first: "succeeds ?P (case previous of Some s \<Rightarrow> if \<not> before \<or> sl_current s = sl_confirmed s
      then writeJson env (base @ [STATE_BAK]) (selection_json s) else ret () | None \<Rightarrow> ret ()) (\<lambda>u. ?S)"
    using backup skip by (cases previous) auto
  show "succeeds (\<lambda>d. ?P d \<and> r = (parseSelection d (base @ [STATE]), existsSync d (base @ [STATE_BAK])))
    (case r of (previous, saved) \<Rightarrow> andthen (case previous of
         Some s \<Rightarrow> if \<not> saved \<or> sl_current s = sl_confirmed s then writeJson env (base @ [STATE_BAK]) (selection_json s) else ret ()
       | None \<Rightarrow> ret ()) (writeJson env (base @ [STATE]) (selection_json new))) (\<lambda>u. fresh)"
    unfolding r prod.case by (rule succeeds_weaken [OF succeeds_andthen [OF first state]]) auto
qed

lemma succeeds_publish:
  assumes c: "sl_current s = Some c"
  shows "succeeds (\<lambda>d. published env base entry X c s d \<and> fresh d) (publishEntry env base s) (\<lambda>u d. ready env base entry c s d \<and> fresh d)"
proof (cases "\<exists>d. published env base entry X c s d")
  case True
  then have w: "sl_layout s = Some FileLink" "RELEASE_NAME X"
    by (auto simp: published_def dest: readyD(7,9) intro: wired_layout)
  let ?P = "\<lambda>d. published env base entry X c s d \<and> fresh d" and ?p = "base @ [CURRENT_LINK]"
  have link: "succeeds ?P (replaceSymlink env ?p (Relative [versions_dir, c])) (\<lambda>u d. fresh d \<and> ready env base entry c s d)"
  proof (rule succeeds_both)
    have "?P d \<Longrightarrow> replaceable ?p d" for d
      by (auto simp: published_def command_at_def intro!: replaceable_plain dest: readyD(2,5))
    then show "succeeds ?P (replaceSymlink env ?p (Relative [versions_dir, c])) (\<lambda>u. fresh)"
      by (intro succeeds_weaken [OF succeeds_symlink [where P = ?P]]) (auto elim: fresh_sets)
    show "triple (\<lambda>d. True) ?P (replaceSymlink env ?p (Relative [versions_dir, c])) (\<lambda>u. ready env base entry c s) (\<lambda>e. working env base entry)"
      by (rule triple_pre [OF triple_current]) auto
  qed
  have rest: "succeeds (\<lambda>d. fresh d \<and> ready env base entry c s d) (seq (reading (\<lambda>d. let entry = entryDirectory env d base s @ [launcher] in
      (entry, readlink d entry))) (\<lambda>r. case r of (entry, now) \<Rightarrow>
        if now \<noteq> Some (command_target base s) then replaceSymlink env entry (command_target base s) else ret ()))
      (\<lambda>u d. ready env base entry c s d \<and> fresh d)"
    by (rule succeeds_known [where v = "(entry @ [launcher], Some (command_target base s))"], simp, rule succeeds_ret)
      (auto dest: link_ready)
  have all: "succeeds ?P (publish_rest env base s c) (\<lambda>u d. ready env base entry c s d \<and> fresh d)"
    unfolding publish_rest_def by (rule succeeds_andthen [OF link rest])
  show ?thesis
    unfolding publish_checked [OF c w(1)]
  proof (rule succeeds_known [where v = "Some (Link (Relative [versions_dir, X]))"])
    have "succeeds ?P (andthen (ret ()) (publish_rest env base s c)) (\<lambda>u d. ready env base entry c s d \<and> fresh d)"
      by (rule succeeds_andthen [OF succeeds_ret all])
    then show "succeeds ?P (andthen (case Some (Link (Relative [versions_dir, X])) of None \<Rightarrow> ret ()
        | Some (Link t) \<Rightarrow> if in_versions base (link_target base t) then ret () else raise foreign_link | Some other \<Rightarrow> raise occupied_link)
        (publish_rest env base s c)) (\<lambda>u d. ready env base entry c s d \<and> fresh d)"
      by (simp add: link_in_versions [OF w(2)])
  qed (auto simp: published_link)
qed (auto simp: succeeds_def)

lemma succeeds_select:
  assumes n: "wired entry n" "sl_current n = Some c"
  shows "succeeds (\<lambda>d. published env base entry X c s d \<and> fresh d)
    (andthen (writeSelection env base n) (andthen (try_catch (publishEntry env base n) h) (ret n)))
    (\<lambda>t d. t = n \<and> ready env base entry c n d \<and> fresh d)"
proof (rule succeeds_andthen)
  have "succeeds (\<lambda>d. published env base entry X c s d \<and> fresh d) (writeSelection env base n) (\<lambda>u. fresh)"
    by (rule succeeds_weaken [OF succeeds_writeSelection]) (auto simp: published_def dest: readyD(8) primary_selects)
  then show "succeeds (\<lambda>d. published env base entry X c s d \<and> fresh d) (writeSelection env base n)
      (\<lambda>u d. fresh d \<and> published env base entry X c n d)"
    by (rule succeeds_both) (rule triple_pre [OF triple_write_published [OF _ n(1)]], auto)
  have pub: "succeeds (\<lambda>d. fresh d \<and> published env base entry X c n d) (try_catch (publishEntry env base n) h)
      (\<lambda>u d. ready env base entry c n d \<and> fresh d)"
    by (rule succeeds_catch, rule succeeds_weaken [OF succeeds_publish [OF n(2)]]) auto
  show "succeeds (\<lambda>d. fresh d \<and> published env base entry X c n d) (andthen (try_catch (publishEntry env base n) h) (ret n))
      (\<lambda>t d. t = n \<and> ready env base entry c n d \<and> fresh d)"
    by (rule succeeds_andthen [OF pub succeeds_ret]) simp
qed

lemma succeeds_activate:
  assumes c: "sl_pending s = Some c"
  shows "succeeds (\<lambda>d. published env base entry X c s d \<and> fresh d) (activate env base s)
    (\<lambda>t d. t = selection_next s c \<and> ready env base entry c t d)"
proof (cases "\<exists>d. published env base entry X c s d")
  case True
  then have w: "wired entry s" "RELEASE_NAME c" by (auto simp: published_def dest: readyD(7) intact_name)
  let ?P = "\<lambda>d. published env base entry X c s d \<and> fresh d" and ?n = "s\<lparr>sl_current := Some c, sl_pending := None\<rparr>"
  have n: "?n = selection_next s c" "sl_current ?n = Some c" by (simp_all add: selection_next_def)
  have main: "succeeds ?P (andthen (writeSelection env base ?n) (andthen (try_catch (publishEntry env base ?n) h) (ret ?n)))
      (\<lambda>t d. t = selection_next s c \<and> ready env base entry c t d)" for h
    by (rule succeeds_weaken [OF succeeds_select [OF _ n(2)]]) (use wired_next [OF w] n in auto)
  show ?thesis
    unfolding activate_def c option.case Let_def
  proof (rule succeeds_read)
    fix r :: "payload option \<times> bool"
    obtain verified had where r: "r = (verified, had)" by (cases r)
    let ?rest = "\<lambda>verified had. if verified = None then raise incomplete_update
      else andthen (writeSelection env base ?n) (andthen (try_catch (publishEntry env base ?n) (\<lambda>e.
        andthen (if had then writeJson env (base @ [STATE]) (selection_json s) else remove_force (base @ [STATE])) (raise e))) (ret ?n))"
    show "succeeds (\<lambda>d. ?P d \<and> r = (payload_of env d base c True, existsSync d (base @ [STATE])))
        (case r of (verified, had) \<Rightarrow> ?rest verified had) (\<lambda>t d. t = selection_next s c \<and> ready env base entry c t d)"
    proof (cases "verified = None")
      case True
      then show ?thesis by (auto simp: r succeeds_def published_def intact_def)
    next
      case False
      have "succeeds ?P (?rest verified had) (\<lambda>t d. t = selection_next s c \<and> ready env base entry c t d)" by (simp only: False if_False) (rule main)
      then show ?thesis unfolding r prod.case by (rule succeeds_weaken) auto
    qed
  qed
qed (auto simp: succeeds_def)

theorem succeeds_activate_selected:
  assumes c: "sl_pending s = Some c"
  shows "succeeds (\<lambda>d. published env base entry X c s d \<and> fresh d) (activate_selected env base)
    (\<lambda>x d. x = c \<and> ready env base entry c (selection_next s c) d)"
  unfolding activate_selected_def selecting_def
proof (rule succeeds_read_known [where v = s], rule succeeds_seq [OF succeeds_activate [OF c]])
  fix t
  have "succeeds (\<lambda>d. t = selection_next s c \<and> ready env base entry c t d)
    (seq (reading (\<lambda>d. payload_of env d base c True \<noteq> None)) (\<lambda>ok. if ok then ret c else raise missing_release))
    (\<lambda>x d. x = c \<and> ready env base entry c (selection_next s c) d)"
    by (rule succeeds_known [where v = True]) (auto intro: succeeds_ret simp: intact_def dest: readyD(1))
  then show "succeeds (\<lambda>d. t = selection_next s c \<and> ready env base entry c t d) (case sl_current t of None \<Rightarrow> raise missing_release
      | Some current \<Rightarrow> seq (reading (\<lambda>d. payload_of env d base current True \<noteq> None)) (\<lambda>ok. if ok then ret current else raise missing_release))
    (\<lambda>x d. x = c \<and> ready env base entry c (selection_next s c) d)"
    by (cases "t = selection_next s c") (auto simp: selection_next_def succeeds_def)
qed (auto simp: published_def dest: readyD(8) intro: selects_read primary_selects)

end
