(* ===== verification/InstallProperties.thy ===== *)
theory InstallProperties
  imports InstallProgress "HOL-Library.Code_Target_Numeral"
begin

text \<open>
  Properties of an installation and its updates, each with a witness on a small installation: the command of the user
  is \<open>/h/bin/meshtalk\<close>, its store below \<open>/h/.meshtalk/packages/standalone\<close>, and \<open>/h/new\<close> holds a download.
\<close>

subsection \<open>A small installation\<close>

definition install_sample :: install_env where
  "install_sample = \<lparr>ie_uuid = (\<lambda>n. (48 + n mod 10) # replicate 31 97),
     ie_digest = (\<lambda>c. (case c of Document j \<Rightarrow> 48 | Blob bs \<Rightarrow> 48 + sum_list bs mod 10) # replicate 63 98),
     ie_hash = (\<lambda>t. (48 + sum_list t mod 10) # replicate 63 99), ie_number = (\<lambda>r. [49]), ie_lower = (\<lambda>t. t), ie_pid = 7,
     ie_signal = (\<lambda>n. None), ie_processes = Some (js ''1 init''), ie_linux = True, ie_executable = (\<lambda>n. None),
     ie_execPath = [js ''h'', js ''new'', launcher], ie_configured = None, ie_home = js ''/h'', ie_cwd = js ''/h'',
     ie_publishDirectory = (\<lambda>p e t. raise Thrown)\<rparr>"

definition sample_entry :: path where
  "sample_entry = [js ''h'', js ''bin'']"

definition sample_base :: path where
  "sample_base = [js ''h'', js ''.meshtalk'', packages_dir, standalone_dir, installationId install_sample sample_entry]"

definition sample_new :: path where
  "sample_new = [js ''h'', js ''new'']"

definition old_release :: jsstr where
  "old_release = release_prefix @ replicate 32 100"

definition sample_next :: jsstr where
  "sample_next = release_prefix @ replicate 32 101"

definition sample_selection :: selection where
  "sample_selection = no_selection\<lparr>sl_current := Some old_release, sl_pending := Some sample_next, sl_confirmed := Some old_release,
     sl_layout := Some FileLink, sl_entry := Some (path_text sample_entry)\<rparr>"

definition dirs_of :: "path \<Rightarrow> disk" where
  "dirs_of p = map (\<lambda>k. (take (Suc k) p, Dir)) [0..<length p]"

definition release_nodes :: "jsstr \<Rightarrow> nat \<Rightarrow> nat \<Rightarrow> disk" where
  "release_nodes X a b =
     [(release_dir sample_base X @ [RELEASE], File (Document (manifest_json (js ''1.0.0'')
         (files_json (ie_digest install_sample (Blob [a])) (ie_digest install_sample (Blob [b])))))),
      (release_dir sample_base X @ [launcher], File (Blob [a])), (release_dir sample_base X @ [backend], File (Blob [b])),
      (release_dir sample_base X, Dir)]"

definition sample_disk :: disk where
  "sample_disk =
     [(sample_base @ [STATE], File (Document (selection_json sample_selection))),
      (sample_base @ [store_marker], File (Document (store_owner sample_entry))),
      (sample_base @ [CURRENT_LINK], Link (Relative [versions_dir, old_release])),
      (sample_entry @ [launcher], Link (Absolute (sample_base @ [CURRENT_LINK, launcher]))),
      (sample_new @ [launcher], File (Blob [3])), (sample_new @ [backend], File (Blob [4]))]
     @ release_nodes old_release 1 2 @ release_nodes sample_next 5 6
     @ dirs_of (versions_of sample_base) @ dirs_of sample_entry @ [(sample_new, Dir)]"

text \<open>The system refuses the writes with the given numbers.\<close>

definition sample_world :: "nat list \<Rightarrow> world" where
  "sample_world refused = \<lparr>w_disk = sample_disk, w_history = [], w_refused = (\<lambda>n. if n \<in> set refused then Some ''EIO'' else None),
     w_writes = 0, w_drawn = 0, w_locked = []\<rparr>"

lemma hex_row: "hex_lower c \<Longrightarrow> hex_lower e \<Longrightarrow> hex_digest (c # replicate 63 e)"
  by (simp add: hex_digest_def hex_pattern_def list_all_iff)

lemma digit_hex: "hex_lower (48 + k mod 10)"
proof -
  have "k mod 10 \<le> 9" by (simp add: less_Suc_eq_le [symmetric])
  then show ?thesis by (simp add: hex_lower_def)
qed

lemma sample_hex [simp]: "hex_lower 48" "hex_lower 97" "hex_lower 98" "hex_lower 99"
  by (simp_all add: hex_lower_def)

lemma sample_names: "names_ok install_sample"
  unfolding names_ok_def
proof (intro conjI allI)
  fix t c n
  have u: "ie_uuid install_sample n = (48 + n mod 10) # replicate 31 97" by (simp add: install_sample_def)
  have "48 + n mod 10 \<noteq> (45 :: nat)" by simp
  then have "filter (\<lambda>c. c \<noteq> 45) (ie_uuid install_sample n) = ie_uuid install_sample n" unfolding u by (simp add: filter_replicate)
  then show "length (filter (\<lambda>c. c \<noteq> 45) (ie_uuid install_sample n)) = 32"
    "list_all hex_lower (filter (\<lambda>c. c \<noteq> 45) (ie_uuid install_sample n))"
    using digit_hex [of n] by (simp_all add: u list_all_iff)
  show "hex_digest (ie_hash install_sample t)" by (simp add: install_sample_def hex_row digit_hex)
  show "hex_digest (ie_digest install_sample c)" by (cases c) (simp_all add: install_sample_def hex_row digit_hex)
qed

lemma sample_uuid: "uuid_ok install_sample"
  unfolding uuid_ok_def using digit_hex by (auto simp: install_sample_def list_all_iff)

fun all_dirs :: "disk \<Rightarrow> path \<Rightarrow> path \<Rightarrow> bool" where
  "all_dirs d c [] \<longleftrightarrow> node_at d c = Some Dir"
| "all_dirs d c (x # xs) \<longleftrightarrow> node_at d c = Some Dir \<and> all_dirs d (c @ [x]) xs"

lemma all_dirs_take: "all_dirs d c p \<Longrightarrow> k \<le> length p \<Longrightarrow> node_at d (c @ take k p) = Some Dir"
proof (induction p arbitrary: c k)
  case (Cons x p)
  then show ?case by (cases k) (fastforce simp: Cons.IH [of "c @ [x]", simplified])+
qed simp

lemma all_dirs_to: "[46, 46] \<notin> set p \<Longrightarrow> all_dirs d [] p \<Longrightarrow> dirs_to d p"
  using all_dirs_take [of d "[]" p] by (simp add: dirs_to_def)

lemmas sample_paths = sample_disk_def node_at_def sample_base_def sample_entry_def sample_new_def release_dir_def versions_of_def
  dirs_of_def release_nodes_def upt_rec

lemma sample_apart [simp]:
  "RELEASE \<noteq> launcher" "launcher \<noteq> RELEASE" "RELEASE \<noteq> backend" "backend \<noteq> RELEASE" "launcher \<noteq> backend" "backend \<noteq> launcher"
  by code_simp+

lemma sample_releases [simp]: "old_release \<noteq> sample_next" "sample_next \<noteq> old_release"
  by (simp_all add: old_release_def sample_next_def)

lemma sample_plain:
  "[46, 46] \<notin> set (release_dir sample_base sample_next)"
  "[46, 46] \<notin> set (release_dir sample_base old_release)" "[46, 46] \<notin> set sample_entry" "[46, 46] \<notin> set sample_new"
  by code_simp+

lemma sample_dirs:
  "dirs_to sample_disk (release_dir sample_base sample_next)"
  "dirs_to sample_disk (release_dir sample_base old_release)" "dirs_to sample_disk sample_entry" "dirs_to sample_disk sample_new"
  by (rule all_dirs_to, simp add: sample_plain, simp add: sample_paths)+

lemma sample_nodes:
  "node_at sample_disk (sample_base @ [STATE]) = Some (File (Document (selection_json sample_selection)))"
  "node_at sample_disk (sample_base @ [STATE_BAK]) = None"
  "node_at sample_disk (sample_base @ [RELOCATION]) = None"
  "node_at sample_disk (sample_base @ [CURRENT_LINK]) = Some (Link (Relative [versions_dir, old_release]))"
  "node_at sample_disk (sample_base @ [store_marker]) = Some (File (Document (store_owner sample_entry)))"
  "node_at sample_disk (sample_entry @ [launcher]) = Some (Link (Absolute (sample_base @ [CURRENT_LINK, launcher])))"
  "node_at sample_disk (sample_entry @ [store_marker]) = None"
  by (simp_all add: sample_paths)

lemma sample_release_nodes:
  assumes "(X, a, b) \<in> {(old_release, 1, 2), (sample_next, 5 :: nat, 6 :: nat)}"
  shows "node_at sample_disk (release_dir sample_base X @ [RELEASE]) = Some (File (Document (manifest_json (js ''1.0.0'')
     (files_json (ie_digest install_sample (Blob [a])) (ie_digest install_sample (Blob [b]))))))"
  "node_at sample_disk (release_dir sample_base X @ [launcher]) = Some (File (Blob [a]))"
  "node_at sample_disk (release_dir sample_base X @ [backend]) = Some (File (Blob [b]))"
  using assms by (auto simp: sample_paths)

lemma sample_names_ok: "RELEASE_NAME old_release" "RELEASE_NAME sample_next" "tidy sample_base" "tidy sample_entry"
  "\<not> below sample_base sample_entry" "path_at (path_text sample_entry) = sample_entry"
  by code_simp+

lemma sample_intact:
  assumes "(X, a, b) \<in> {(old_release, 1, 2), (sample_next, 5 :: nat, 6 :: nat)}"
  shows "intact install_sample sample_base X sample_disk"
proof -
  have X: "dirs_to sample_disk (release_dir sample_base X)" "RELEASE_NAME X" using assms sample_dirs sample_names_ok by auto
  have V: "dirs_to sample_disk (versions_of sample_base)"
    using dirs_to_append [of sample_disk "versions_of sample_base" "[X]"] X(1) by (simp add: release_dir_def)
  have "hex_digest (ie_digest install_sample c)" for c using sample_names by (simp add: names_ok_def)
  then have "payload_of install_sample sample_disk sample_base X True \<noteq> None"
    using X(2) is_dir_dirs [OF V] is_dir_dirs [OF X(1)]
    by (simp add: payload_of_def payloadManifest_def regular_below [OF X(1)] read_json_def read_below [OF X(1)]
        sample_release_nodes [OF assms] manifest_json_def files_json_def prop_of_def field_def schema_ok_def releaseFiles_def
        digest_text_def value_text_def digest_at_def)
  then show ?thesis using sample_uuid X(1) sample_names_ok by (simp add: intact_def)
qed

lemma sample_intact_both: "intact install_sample sample_base old_release sample_disk" "intact install_sample sample_base sample_next sample_disk"
  by (rule sample_intact; simp)+

lemma sample_wired: "wired sample_entry sample_selection"
  using sample_names_ok(1,2) by (simp add: wired_def selection_ok_def sample_selection_def no_selection_def absolute_def path_text_def starts_with_def)

lemma sample_ready: "ready install_sample sample_base sample_entry old_release sample_selection sample_disk"
proof -
  have "store_of install_sample sample_base sample_entry"
    using sample_names_ok by (simp add: store_of_def sample_base_def base_name_def parent_name_def)
  then have "command_at install_sample sample_base sample_entry old_release sample_disk"
    using sample_intact_both(1) sample_dirs sample_nodes by (simp add: command_at_def)
  moreover have "dirs_to sample_disk sample_base" using intact_nodes(3) [OF sample_intact_both(1)] .
  then have "selected_by (wired sample_entry) sample_base sample_selection sample_disk"
    using sample_wired sample_names_ok(3) selection_roundtrip_ok [OF wired_ok [OF sample_wired]] sample_nodes(1,2)
    by (simp add: selected_by_def primary_iff plain_at_def)
  ultimately show ?thesis by (simp add: ready_def)
qed

subsection \<open>Properties\<close>

text \<open>The command of the user leads to the launcher of a release whose files have the digests of its manifest.\<close>

definition command_runs :: "install_env \<Rightarrow> path \<Rightarrow> path \<Rightarrow> disk \<Rightarrow> bool" where
  "command_runs env base entry d \<longleftrightarrow> (case realpath d (entry @ [launcher]) of
     Some p \<Rightarrow> length p > 2 \<and> butlast (butlast p) = versions_of base \<and> last p = launcher
       \<and> payload_of env d base (parent_name p) True \<noteq> None
   | None \<Rightarrow> False)"

lemma working_runs: "working env base entry d \<Longrightarrow> command_runs env base entry d"
proof -
  assume "working env base entry d"
  then obtain X s where r: "ready env base entry X s d" by (auto simp: working_def)
  have "payload_of env d base X True \<noteq> None" using readyD(1) [OF r] by (simp add: intact_def)
  then show ?thesis
    using realpath_command [OF readyD(2) [OF r]]
    by (simp add: command_runs_def release_dir_def versions_of_def parent_name_def butlast_append)
qed

text \<open>From a state without a history, a triple says something about all states of the run.\<close>

lemma triple_run:
  assumes "triple C P m Q E" "P (w_disk w)" "C (w_disk w)" "w_history w = []"
  shows "list_all C (w_disk (snd (m w)) # w_history (snd (m w)))"
    "case fst (m w) of Inr x \<Rightarrow> Q x (w_disk (snd (m w))) | Inl e \<Rightarrow> E e (w_disk (snd (m w)))"
proof -
  have w: "crash_ok C w" using assms(3,4) by (simp add: crash_ok_def)
  show "list_all C (w_disk (snd (m w)) # w_history (snd (m w)))"
    using tripleD(1) [OF assms(1) w assms(2), of "fst (m w)" "snd (m w)"] by (simp add: crash_ok_def)
  show "case fst (m w) of Inr x \<Rightarrow> Q x (w_disk (snd (m w))) | Inl e \<Rightarrow> E e (w_disk (snd (m w)))"
    using tripleD(2) [OF assms(1) w assms(2), of "fst (m w)" "snd (m w)"] by simp
qed

lemma list_all_weaken: "list_all P xs \<Longrightarrow> (\<And>x. P x \<Longrightarrow> Q x) \<Longrightarrow> list_all Q xs"
  by (auto simp: list_all_iff)

text \<open>C24. Updates do not take the command away. An installation whose command leads to an intact release stages updates,
  activates them, restarts into them, removes unused releases and is started again, in any order; any of these may fail,
  and the system may refuse any write. In every state of the disk on the way, the ones a crash would leave, the command
  leads to the launcher of a release whose files have the digests of its manifest.\<close>

theorem updates_keep_command:
  assumes "names_ok env" "working env base entry (w_disk w)" "w_history w = []"
  shows "list_all (command_runs env base entry)
    (w_disk (snd (run_updates env base entry steps w)) # w_history (snd (run_updates env base entry steps w)))"
  by (rule list_all_weaken [OF triple_run(1) [OF triple_updates [OF assms(1)] assms(2,2,3)]]) (rule working_runs)

theorem updates_keep_command_witness:
  "names_ok install_sample \<and> working install_sample sample_base sample_entry (w_disk (sample_world [9, 31]))
   \<and> list_all (command_runs install_sample sample_base sample_entry)
       (w_disk (snd (run_updates install_sample sample_base sample_entry
           [StageUpdate sample_new (js ''1.1.0''), RestartUpdate, StartCommand True (js ''1.1.0'') True, CleanUp] (sample_world [9, 31])))
        # w_history (snd (run_updates install_sample sample_base sample_entry
           [StageUpdate sample_new (js ''1.1.0''), RestartUpdate, StartCommand True (js ''1.1.0'') True, CleanUp] (sample_world [9, 31]))))"
proof -
  have w: "working install_sample sample_base sample_entry (w_disk (sample_world [9, 31]))" "w_history (sample_world [9, 31]) = []"
    using sample_ready by (auto simp: sample_world_def)
  show ?thesis using sample_names w(1) updates_keep_command [OF sample_names w] by (intro conjI) assumption+
qed

lemma sample_fresh: "fresh sample_disk"
  unfolding fresh_def
proof (intro allI impI)
  fix p assume p: "tmp_name p"
  have "list_all (\<lambda>e. fst e \<noteq> [] \<and> \<not> ends_with (last (fst e)) (js ''.tmp'')) sample_disk" by code_simp
  then have "\<not> tmp_name q" if "map_get sample_disk q = Some n" for q n
    using map_get_in_set [OF that] by (auto simp: list_all_iff tmp_name_def)
  then have "map_get sample_disk p = None" using p by (cases "map_get sample_disk p") auto
  then show "node_at sample_disk p = None" using p by (simp add: node_at_def tmp_name_def)
qed

text \<open>C25. An activated update is what runs. Where the system refuses no write and no temporary file is left over, activating
  an intact pending release returns it; afterwards the command leads to its launcher, its files have the digests of its
  manifest, and the selection that is read names it and nothing pending.\<close>

theorem activation_switches:
  assumes "published env base entry X c s (w_disk w)" "sl_pending s = Some c" "fresh (w_disk w)" "w_refused w = (\<lambda>n. None)"
  shows "case activate_selected env base w of
      (Inr x, w') \<Rightarrow> x = c \<and> realpath (w_disk w') (entry @ [launcher]) = Some (release_dir base c @ [launcher])
        \<and> payload_of env (w_disk w') base c True \<noteq> None \<and> readSelection (w_disk w') base = Some (selection_next s c)
    | (Inl e, w') \<Rightarrow> False"
proof -
  obtain x w' where r: "activate_selected env base w = (Inr x, w')" "x = c" "ready env base entry c (selection_next s c) (w_disk w')"
    using succeedsE [OF succeeds_activate_selected [OF assms(2), of env base entry X], of w] assms by blast
  then show ?thesis
    using realpath_command [OF readyD(2) [OF r(3)]] readyD(1) [OF r(3)] selects_read [OF primary_selects [OF readyD(8) [OF r(3)]]]
    by (simp add: intact_def)
qed

theorem activation_switches_witness:
  "case activate_selected install_sample sample_base (sample_world []) of
      (Inr x, w') \<Rightarrow> x = sample_next
        \<and> realpath (w_disk w') (sample_entry @ [launcher]) = Some (release_dir sample_base sample_next @ [launcher])
        \<and> payload_of install_sample (w_disk w') sample_base sample_next True \<noteq> None
        \<and> readSelection (w_disk w') sample_base = Some (selection_next sample_selection sample_next)
    | (Inl e, w') \<Rightarrow> False"
  by (rule activation_switches [where X = old_release])
    (use sample_ready sample_intact_both sample_fresh in \<open>simp_all add: published_def sample_world_def sample_selection_def\<close>)



text \<open>C27. The selection is replaced at once. Where the file of the selection and its backup are regular files or missing, every
  state of writing a new selection reads as the old one or as the new one, and it is the new one when the writing returns.\<close>

theorem selection_switch:
  assumes "selects base old (w_disk w)" "selection_ok new" "w_history w = []"
  shows "list_all (\<lambda>d. readSelection d base \<in> {Some old, Some new})
      (w_disk (snd (writeSelection env base new w)) # w_history (snd (writeSelection env base new w)))
    \<and> (case writeSelection env base new w of (Inr u, w') \<Rightarrow> readSelection (w_disk w') base = Some new
       | (Inl e, w') \<Rightarrow> readSelection (w_disk w') base \<in> {Some old, Some new})"
proof -
  note run = triple_run [OF triple_switch [OF assms(2), of base old env] assms(1) disjI1 [OF assms(1)] assms(3)]
  show ?thesis
    using list_all_weaken [OF run(1), of "\<lambda>d. readSelection d base \<in> {Some old, Some new}"] run(2)
    by (auto simp: case_prod_beta dest: selects_read split: sum.splits)
qed

theorem selection_switch_witness:
  "list_all (\<lambda>d. readSelection d sample_base \<in> {Some sample_selection, Some (selection_next sample_selection sample_next)})
      (w_disk (snd (writeSelection install_sample sample_base (selection_next sample_selection sample_next) (sample_world [3])))
        # w_history (snd (writeSelection install_sample sample_base (selection_next sample_selection sample_next) (sample_world [3]))))
    \<and> (case writeSelection install_sample sample_base (selection_next sample_selection sample_next) (sample_world [3]) of
         (Inr u, w') \<Rightarrow> readSelection (w_disk w') sample_base = Some (selection_next sample_selection sample_next)
       | (Inl e, w') \<Rightarrow> readSelection (w_disk w') sample_base
           \<in> {Some sample_selection, Some (selection_next sample_selection sample_next)})"
  by (rule selection_switch)
    (use primary_selects [OF readyD(8) [OF sample_ready]] wired_ok [OF wired_next [OF sample_wired sample_names_ok(2)]] in
      \<open>simp_all add: sample_world_def\<close>)

text \<open>C28. Every selection that is read is well-formed: its releases have names of releases, the digest of the bootstrap is one,
  its older releases have the names of an older updater, and its entry is an absolute path, which a directory link needs.\<close>

theorem selections_are_well_formed:
  assumes "readSelection d base = Some s"
  shows "selection_ok s"
  by (rule readSelection_ok [OF assms])

theorem selections_are_well_formed_witness:
  "readSelection sample_disk sample_base = Some sample_selection \<and> selection_ok sample_selection"
proof
  show r: "readSelection sample_disk sample_base = Some sample_selection"
    by (rule selects_read [OF primary_selects [OF readyD(8) [OF sample_ready]]])
  show "selection_ok sample_selection" by (rule selections_are_well_formed [OF r])
qed

text \<open>Writing and reading a selection agree: the well-formed ones read back as they were, any other is rejected.\<close>

theorem selection_roundtrip:
  "selection_of (selection_json s) = (if selection_ok s then Some s else None)"
proof (cases "selection_of (selection_json s)")
  case (Some t)
  then have "t = s"
    unfolding selection_of_def selection_props by (auto split: if_splits option.splits dest!: checked_write)
  then show ?thesis using Some selection_of_ok [OF Some] by simp
qed (use selection_roundtrip_ok in fastforce)

end
