(* ===== verification/UpdateProperties.thy ===== *)
theory UpdateProperties
  imports UpdateInstall InstallProperties
begin

text \<open>
  What \<open>UpdateInstall\<close> promises: the settings are replaced at once, and a release is installed only after its archive
  was verified.
\<close>


subsection \<open>Private files\<close>

lemma mkdir_step_there: "dirs_to (w_disk w) p \<Longrightarrow> mkdir_step p w = (Inr (), w)"
  using realpath_dirs [of "w_disk w" p "[]"] by (simp add: mkdir_step_def seq_def reading_def dirs_to_node ret_def)

lemma mkdir_all_there:
  assumes "dirs_to (w_disk w) p"
  shows "mkdir_all p w = (Inr (), w)"
proof -
  have "(\<And>q. q \<in> set qs \<Longrightarrow> dirs_to (w_disk w) q) \<Longrightarrow> for_each qs mkdir_step w = (Inr (), w)" for qs
    by (induction qs) (simp_all add: mkdir_step_there seq_def ret_def)
  from this [of "map (\<lambda>k. take (Suc k) p) [0..<length p]"] show ?thesis
    unfolding mkdir_all_def using dirs_to_take [OF assms] by auto
qed

lemma private_directory_there:
  assumes "dirs_to (w_disk w) p"
  shows "privateDirectory p w = (Inr (), w)"
proof -
  have "is_dir (w_disk w) p"
    using lstat_below [of "w_disk w" "butlast p" "last p"] dirs_to_node [OF assms] dirs_to_append [of "w_disk w" "butlast p" "[last p]"] assms
    by (cases "p = []") (simp_all add: is_dir_def lstat_def place_def)
  then show ?thesis by (simp add: privateDirectory_def andthen_def seq_def mkdir_all_there [OF assms] reading_def ret_def)
qed

lemma triple_private_directory:
  "(\<And>d. P d \<Longrightarrow> dirs_to d p) \<Longrightarrow> triple C P k Q E \<Longrightarrow> triple C P (andthen (privateDirectory p) k) Q E"
  unfolding triple_def andthen_def by (simp add: seq_def private_directory_there)

text \<open>The state of one file in a directory.\<close>

definition file_state :: "path \<Rightarrow> node option \<Rightarrow> disk \<Rightarrow> bool" where
  "file_state p x d \<longleftrightarrow> dirs_to d (butlast p) \<and> tidy (butlast p) \<and> node_at d p = x"

lemma untmp_file_state: "\<not> tmp_name p \<Longrightarrow> untmp (file_state p x)"
  using framed_untmp [OF framed_conj [OF framed_dirs [of "butlast p"], of "\<lambda>d. node_at d p = x" "{p}"]]
  by (auto simp: framed_def file_state_def conj_assoc)

lemma private_temporary_facts [simp]:
  "tmp_name (private_temporary host p n)" "butlast (private_temporary host p n) = butlast p" "private_temporary host p n \<noteq> []"
  by (simp_all add: private_temporary_def tmp_name_def ends_with_def)

lemma triple_link_file:
  assumes t: "tmp_name t" "butlast t = butlast p" and p: "p \<noteq> []" "\<not> tmp_name p"
    and C: "\<And>d. file_state p (Some (File c)) d \<Longrightarrow> C d"
  shows "triple C (\<lambda>d. file_state p None d \<and> node_at d t = Some (File c)) (link_file t p)
    (\<lambda>u. file_state p (Some (File c))) (\<lambda>e. file_state p None)"
  unfolding link_file_def
proof (rule triple_change)
  fix d d' assume d: "file_state p None d \<and> node_at d t = Some (File c)" and ln: "(case (place d t, place d p) of
     (Some p, Some q) \<Rightarrow> (case node_at d p of
        Some (File c) \<Rightarrow> if node_at d q = None then Inr (map_set q (File c) d) else Inl (Code ''EEXIST'')
      | _ \<Rightarrow> Inl no_entry)
   | _ \<Rightarrow> Inl no_entry) = Inr d'"
  have t_ne: "t \<noteq> []" using t(1) by (auto simp: tmp_name_def)
  have "place d t = Some t" "place d p = Some p"
    using place_below [of d "butlast p" "last t"] place_below [of d "butlast p" "last p"] d t(2) t_ne p(1)
    by (metis append_butlast_last_id file_state_def)+
  then have d': "d' = map_set p (File c) d" using ln d by (simp add: file_state_def)
  have "file_state p (Some (File c)) d'"
  proof -
    have "take k (butlast p) \<noteq> p" for k using p(1) by (metis append_butlast_last_id length_append_singleton length_take lessI min.cobounded1 not_le)
    then show ?thesis using d p(1) by (auto simp: file_state_def d' dirs_to_def node_set)
  qed
  then show "C d' \<and> file_state p (Some (File c)) d'" using C by simp
qed simp


lemma file_state_set:
  assumes "file_state p x d" "p \<noteq> []"
  shows "file_state p (Some n) (map_set p n d)"
proof -
  have "take k (butlast p) \<noteq> p" for k
    using assms(2) by (metis append_butlast_last_id length_append_singleton length_take lessI min.cobounded1 not_le)
  then show ?thesis using assms by (auto simp: file_state_def dirs_to_def node_set)
qed

text \<open>The temporary file becomes the file: in the place of the old one, or as its first version.\<close>

lemma triple_take_place:
  assumes p: "p \<noteq> []" "\<not> tmp_name p" and t: "tmp_name t" "butlast t = butlast p"
    and C: "\<And>d. file_state p x d \<Longrightarrow> C d" "\<And>d. file_state p (Some (File c)) d \<Longrightarrow> C d"
  shows "triple C (\<lambda>d. file_state p x d \<and> node_at d t = Some (File c)) (if x \<noteq> None then rename t p else link_file t p)
    (\<lambda>u. file_state p (Some (File c))) (\<lambda>e. file_state p x)"
proof (cases "x = None")
  case True
  then show ?thesis using triple_link_file [OF t p C(2)] by simp
next
  case False
  have "triple C (\<lambda>d. file_state p x d \<and> node_at d t = Some (File c)) (rename t p)
      (\<lambda>u. file_state p (Some (File c))) (\<lambda>e. file_state p x)"
    by (rule triple_rename_over [OF untmp_file_state [OF p(2)]])
      (use C p t file_state_set in \<open>auto simp: file_state_def\<close>)
  then show ?thesis using False by simp
qed

lemma triple_store_private:
  assumes p: "p \<noteq> []" "\<not> tmp_name p"
    and C: "\<And>d. file_state p x d \<Longrightarrow> C d" "\<And>d. file_state p (Some (File c)) d \<Longrightarrow> C d"
  shows "triple C (file_state p x) (let tmp = private_temporary host p n in
      andthen (put_new (File (Blob [])) tmp)
      (finally_do (andthen (fill tmp c) (andthen sync (if x \<noteq> None then rename tmp p else link_file tmp p))) (remove_force tmp)))
    (\<lambda>u. file_state p (Some (File c))) (\<lambda>e d. file_state p x d \<or> file_state p (Some (File c)) d)"
proof -
  let ?new = "file_state p (Some (File c))" and ?old = "file_state p x" and ?t = "private_temporary host p n"
  let ?full = "\<lambda>d. ?old d \<and> node_at d ?t = Some (File c)"
  note untmp = untmp_file_state [OF p(2)]
  have dirs: "file_state p y d \<Longrightarrow> dirs_to d (butlast ?t)" for y d by (simp add: file_state_def)
  have "keeps ?old (put_new (File (Blob [])) ?t)" by (rule keeps_put_new [OF untmp]) (use dirs in auto)
  then have put: "triple C ?old (put_new (File (Blob [])) ?t) (\<lambda>u. ?old) (\<lambda>e d. ?old d \<or> ?new d)"
    by (rule triple_weaken [OF keeps_triple]) (use C in auto)
  have fill: "triple C ?old (fill ?t c) (\<lambda>u. ?full) (\<lambda>e. ?old)"
    unfolding fill_def by (rule triple_place_set [OF untmp]) (use C dirs in auto)
  have sync: "triple C ?full sync (\<lambda>u. ?full) (\<lambda>e. ?old)"
    unfolding sync_def by (rule triple_change) auto
  have rm: "triple C (file_state p y) (remove_force ?t) (\<lambda>u. file_state p y) (\<lambda>e. file_state p y)"
    if "\<And>d. file_state p y d \<Longrightarrow> C d" for y
    by (rule keeps_triple [OF keeps_remove_force [OF untmp]]) (use that dirs in auto)
  have "triple C ?old (finally_do (andthen (fill ?t c) (andthen sync (if x \<noteq> None then rename ?t p else link_file ?t p))) (remove_force ?t))
    (\<lambda>u. ?new) (\<lambda>e d. ?old d \<or> ?new d)"
  proof (rule triple_finally)
    show "triple C ?old (andthen (fill ?t c) (andthen sync (if x \<noteq> None then rename ?t p else link_file ?t p)))
      (\<lambda>u. ?new) (\<lambda>e. ?old)"
      by (rule triple_andthen [OF fill triple_andthen [OF sync triple_take_place]]) (use p C in auto)
  next
    fix u show "triple C ?new (remove_force ?t) (\<lambda>v. ?new) (\<lambda>e d. ?old d \<or> ?new d)"
      by (rule triple_weaken [OF rm [OF C(2)]]) auto
  next
    fix e show "triple C ?old (remove_force ?t) (\<lambda>v d. ?old d \<or> ?new d) (\<lambda>e d. ?old d \<or> ?new d)"
      by (rule triple_weaken [OF rm [OF C(1)]]) auto
  qed
  from triple_andthen [OF put this] show ?thesis by (simp add: Let_def)
qed

lemma triple_writePrivateText:
  assumes x: "x = None \<or> x = Some (File f)" and p: "p \<noteq> []" "\<not> tmp_name p"
    and C: "\<And>d. file_state p x d \<Longrightarrow> C d" "\<And>d. file_state p (Some (File c)) d \<Longrightarrow> C d"
  shows "triple C (file_state p x) (writePrivateText host p c) (\<lambda>u. file_state p (Some (File c)))
    (\<lambda>e d. file_state p x d \<or> file_state p (Some (File c)) d)"
  unfolding writePrivateText_def
proof (rule triple_private_directory, simp add: file_state_def, rule triple_read, rule triple_guard [where P = "file_state p x"])
  fix previous d assume "file_state p x d \<and> previous = lstat d p"
  then show "file_state p x d \<and> previous = x"
    using lstat_below [of d "butlast p" "last p"] p(1) by (simp add: file_state_def)
next
  fix previous assume "previous = x"
  then show "triple C (file_state p x)
    (if \<not> (case previous of None \<Rightarrow> True | Some (File f) \<Rightarrow> True | _ \<Rightarrow> False)
     then raise (Failure (js ''Private storage destination must be an owned regular file, not a link''))
     else seq draw (\<lambda>n. let tmp = private_temporary host p n in
          andthen (put_new (File (Blob [])) tmp)
          (finally_do (andthen (fill tmp c) (andthen sync (if previous \<noteq> None then rename tmp p else link_file tmp p)))
            (remove_force tmp)))) (\<lambda>u. file_state p (Some (File c)))
    (\<lambda>e d. file_state p x d \<or> file_state p (Some (File c)) d)"
    using x triple_store_private [OF p, of x C c host, OF C] by (auto intro!: triple_draw)
qed

text \<open>In every state of saving a setting the old settings are read or the new ones, and the new ones when the saving returns.\<close>

lemma settings_switch:
  assumes "file_state (settings_path host) x (w_disk w)" "x = None \<or> x = Some (File f)" "w_history w = []"
    "change_of (readSettingsFile (w_disk w) (settings_path host)) = Inr j"
  shows "list_all (\<lambda>d. readSettingsFile d (settings_path host) \<in> {readSettingsFile (w_disk w) (settings_path host), Some j})
      (w_disk (snd (store_settings host change_of w)) # w_history (snd (store_settings host change_of w)))
    \<and> (case fst (store_settings host change_of w) of
         Inr u \<Rightarrow> readSettingsFile (w_disk (snd (store_settings host change_of w))) (settings_path host) = Some j | Inl e \<Rightarrow> True)"
proof -
  let ?p = "settings_path host"
  let ?C = "\<lambda>d. readSettingsFile d ?p \<in> {readSettingsFile (w_disk w) ?p, Some j}"
  have p: "?p \<noteq> []" "\<not> tmp_name ?p" "butlast ?p = uh_data host" "last ?p = js ''settings.json''"
    by (simp_all add: settings_path_def tmp_name_def ends_with_def js_def)
  have read: "readSettingsFile d ?p = (case y of Some (File c) \<Rightarrow> parse_content (Some c) | _ \<Rightarrow> None)" if "file_state ?p y d" for y d
    using lstat_below [of d "butlast ?p" "last ?p"] that p(1) by (simp add: readSettingsFile_def file_state_def)
  let ?k = "seq (reading (\<lambda>d. readSettingsFile d ?p)) (\<lambda>settings. case change_of settings of
        Inl e \<Rightarrow> raise Thrown | Inr j \<Rightarrow> writePrivateText host ?p (Document j))"
  have old: "?C d" if "file_state ?p x d" for d using read [OF that] read [OF assms(1)] by simp
  have new: "readSettingsFile d ?p = Some j" if "file_state ?p (Some (File (Document j))) d" for d using read [OF that] by simp
  have k: "triple ?C (file_state ?p x) ?k (\<lambda>u d. readSettingsFile d ?p = Some j) (\<lambda>e d. True)"
  proof (rule triple_read, rule triple_guard [where P = "file_state ?p x"])
    fix settings d assume "file_state ?p x d \<and> settings = readSettingsFile d ?p"
    then show "file_state ?p x d \<and> settings = readSettingsFile (w_disk w) ?p"
      using read [of x d] read [OF assms(1)] by simp
  next
    fix settings assume s: "settings = readSettingsFile (w_disk w) ?p"
    have "triple ?C (file_state ?p x) (writePrivateText host ?p (Document j)) (\<lambda>u d. readSettingsFile d ?p = Some j) (\<lambda>e d. True)"
      by (rule triple_weaken [OF triple_writePrivateText [OF assms(2) p(1,2)]]) (use old new in auto)
    then show "triple ?C (file_state ?p x) (case change_of settings of
        Inl e \<Rightarrow> raise Thrown | Inr j \<Rightarrow> writePrivateText host ?p (Document j)) (\<lambda>u d. readSettingsFile d ?p = Some j) (\<lambda>e d. True)"
      using assms(4) s by simp
  qed
  have "triple ?C (file_state ?p x) (store_settings host change_of) (\<lambda>u d. readSettingsFile d ?p = Some j) (\<lambda>e d. True)"
    unfolding store_settings_def by (rule triple_private_directory [OF _ k]) (use p(3) in \<open>auto simp: file_state_def\<close>)
  from triple_run [OF this assms(1) old [OF assms(1)] assms(3)] show ?thesis by (auto split: sum.splits)
qed



subsection \<open>Only the temporary directory\<close>

definition outside_same :: "path \<Rightarrow> disk \<Rightarrow> disk \<Rightarrow> bool" where
  "outside_same tmp d0 d \<longleftrightarrow> (\<forall>q. below tmp q \<or> node_at d q = node_at d0 q)"

lemma outside_del: "tmp \<noteq> [] \<Longrightarrow> outside_same tmp d0 d \<Longrightarrow> below tmp q \<Longrightarrow> outside_same tmp d0 (map_del q d)"
  unfolding outside_same_def by (metis node_del below_def list.size(3) take_Nil take_all_iff le_zero_eq)

definition in_tmp :: "path \<Rightarrow> disk \<Rightarrow> disk \<Rightarrow> bool" where
  "in_tmp tmp d0 d \<longleftrightarrow> outside_same tmp d0 d \<and> dirs_to d tmp"

lemma in_tmp_set: "in_tmp tmp d0 d \<Longrightarrow> (\<And>q. q \<noteq> tmp @ [x] \<Longrightarrow> node_at d' q = node_at d q) \<Longrightarrow> in_tmp tmp d0 d'"
proof -
  assume i: "in_tmp tmp d0 d" and s: "\<And>q. q \<noteq> tmp @ [x] \<Longrightarrow> node_at d' q = node_at d q"
  have "take k tmp \<noteq> tmp @ [x]" for k by (metis length_append_singleton length_take min.cobounded1 not_less_eq_eq nat_le_linear)
  moreover have "below tmp q \<or> node_at d' q = node_at d0 q" for q
    using i s [of q] by (cases "q = tmp @ [x]") (auto simp: in_tmp_def outside_same_def)
  ultimately show ?thesis using i s by (auto simp: in_tmp_def outside_same_def dirs_to_def)
qed

lemma keeps_in_tmp:
  assumes "\<And>d d' q. g (tmp @ [x]) d = Inr d' \<Longrightarrow> q \<noteq> tmp @ [x] \<Longrightarrow> node_at d' q = node_at d q"
  shows "keeps (in_tmp tmp d0) (at_place (tmp @ [x]) g)"
proof (rule keeps_place)
  fix d d' assume d: "in_tmp tmp d0 d" "g (tmp @ [x]) d = Inr d'"
  show "in_tmp tmp d0 d'" by (rule in_tmp_set [OF d(1)]) (use assms [OF d(2)] in blast)
qed (simp_all add: in_tmp_def)

lemma keeps_tmp_put: "keeps (in_tmp tmp d0) (put_new n (tmp @ [x]))"
  unfolding put_new_def by (rule keeps_in_tmp) (auto simp: node_set split: if_splits)

lemma keeps_tmp_fill: "keeps (in_tmp tmp d0) (fill (tmp @ [x]) c)"
  unfolding fill_def by (rule keeps_in_tmp) (auto simp: node_set)

lemma keeps_receive: "keeps (in_tmp tmp d0) (receive (tmp @ [x]) got chunks)"
  by (induction chunks arbitrary: got) (auto intro!: keeps_ret keeps_andthen keeps_tmp_fill)


text \<open>What a download leaves: it returns the bytes of an answer that was complete, and they are in the archive.\<close>

definition downloaded :: "download \<Rightarrow> nat list \<Rightarrow> bool" where
  "downloaded answer got \<longleftrightarrow> (case answer of
     Answer status (Some chunks) False \<Rightarrow> status_ok status \<and> got = concat chunks | _ \<Rightarrow> False)"

definition archived :: "path \<Rightarrow> disk \<Rightarrow> jsstr \<Rightarrow> nat list \<Rightarrow> disk \<Rightarrow> bool" where
  "archived tmp d0 x got d \<longleftrightarrow> in_tmp tmp d0 d \<and> node_at d (tmp @ [x]) = Some (File (Blob got))"

lemma triple_fill_archive:
  assumes "\<And>d. in_tmp tmp d0 d \<Longrightarrow> C d"
  shows "triple C (in_tmp tmp d0) (fill (tmp @ [x]) (Blob got)) (\<lambda>u. archived tmp d0 x got) (\<lambda>e. in_tmp tmp d0)"
  unfolding fill_def at_place_def
proof (rule triple_change)
  fix d d' assume d: "in_tmp tmp d0 d" "(case place d (tmp @ [x]) of Some q \<Rightarrow> Inr (map_set q (File (Blob got)) d) | None \<Rightarrow> Inl no_entry) = Inr d'"
  then have d': "d' = map_set (tmp @ [x]) (File (Blob got)) d" by (simp add: in_tmp_def place_below)
  have "in_tmp tmp d0 d'" by (rule in_tmp_set [OF d(1), of x]) (simp add: d' node_set)
  then show "C d' \<and> archived tmp d0 x got d'" using assms by (simp add: archived_def d' node_set)
qed simp

lemma triple_receive:
  assumes "\<And>d. in_tmp tmp d0 d \<Longrightarrow> C d"
  shows "triple C (archived tmp d0 x got) (receive (tmp @ [x]) got chunks)
    (\<lambda>r d. r = got @ concat chunks \<and> archived tmp d0 x r d) (\<lambda>e. in_tmp tmp d0)"
proof (induction chunks arbitrary: got)
  case Nil
  show ?case by (auto intro: triple_ret)
next
  case (Cons chunk chunks)
  have fill: "triple C (archived tmp d0 x got) (fill (tmp @ [x]) (Blob (got @ chunk))) (\<lambda>u. archived tmp d0 x (got @ chunk)) (\<lambda>e. in_tmp tmp d0)"
    by (rule triple_pre [OF triple_fill_archive [OF assms]]) (simp_all add: archived_def)
  show ?case unfolding receive.simps
    by (rule triple_andthen [OF fill]) (use Cons.IH [of "got @ chunk"] in simp)
qed

lemma triple_put_archive:
  assumes "\<And>d. in_tmp tmp d0 d \<Longrightarrow> C d"
  shows "triple C (in_tmp tmp d0) (put_new (File (Blob [])) (tmp @ [x])) (\<lambda>u. archived tmp d0 x []) (\<lambda>e. in_tmp tmp d0)"
  unfolding put_new_def at_place_def
proof (rule triple_change)
  fix d d' assume d: "in_tmp tmp d0 d" "(case place d (tmp @ [x]) of Some q \<Rightarrow>
    if node_at d q = None then Inr (map_set q (File (Blob [])) d) else Inl (Code ''EEXIST'') | None \<Rightarrow> Inl no_entry) = Inr d'"
  then have d': "d' = map_set (tmp @ [x]) (File (Blob [])) d" by (auto simp: in_tmp_def place_below split: if_splits)
  have "in_tmp tmp d0 d'" by (rule in_tmp_set [OF d(1), of x]) (simp add: d' node_set)
  then show "C d' \<and> archived tmp d0 x [] d'" using assms by (simp add: archived_def d' node_set)
qed simp

lemma triple_download:
  assumes "\<And>d. in_tmp tmp d0 d \<Longrightarrow> C d"
  shows "triple C (in_tmp tmp d0) (download_archive host release token (tmp @ [x]))
    (\<lambda>got d. archived tmp d0 x got d \<and> downloaded (uh_fetch host (rel_downloadUrl release) token) got) (\<lambda>e. in_tmp tmp d0)"
proof (cases "uh_fetch host (rel_downloadUrl release) token")
  case (Answer status body broken)
  show ?thesis
  proof (cases "status_ok status \<and> body \<noteq> None")
    case True
    then obtain chunks where body: "body = Some chunks" by auto
    have "triple C (in_tmp tmp d0) (andthen (put_new (File (Blob [])) (tmp @ [x]))
        (seq (receive (tmp @ [x]) [] chunks) (\<lambda>got. if broken then raise Thrown else ret got)))
      (\<lambda>got d. archived tmp d0 x got d \<and> downloaded (Answer status body broken) got) (\<lambda>e. in_tmp tmp d0)"
    proof (rule triple_andthen [OF triple_put_archive [OF assms]], assumption, rule triple_seq [OF triple_receive [OF assms]], assumption)
      fix got
      show "triple C (\<lambda>d. got = [] @ concat chunks \<and> archived tmp d0 x got d) (if broken then raise Thrown else ret got)
          (\<lambda>got d. archived tmp d0 x got d \<and> downloaded (Answer status body broken) got) (\<lambda>e. in_tmp tmp d0)"
        using True body by (auto simp: downloaded_def archived_def intro!: triple_raise triple_ret)
    qed
    then show ?thesis using True body Answer by (simp add: download_archive_def)
  qed (auto simp: download_archive_def Answer intro!: triple_raise split: option.split)
qed (auto simp: download_archive_def intro!: triple_raise)

subsection \<open>Nothing unverified is installed\<close>

definition verified_release :: "update_host \<Rightarrow> release \<Rightarrow> bool" where
  "verified_release host release \<longleftrightarrow> (\<exists>token got. downloaded (uh_fetch host (rel_downloadUrl release) token) got
     \<and> expected_digest (uh_install host) release = Some (ie_digest (uh_install host) (Blob got))
     \<and> ie_digest (uh_install host) (Blob got) \<noteq> []
     \<and> (case uh_list host (Blob got) of None \<Rightarrow> False | Some out \<Rightarrow> safe_listing out))"

lemma triple_unpack_unsafe:
  assumes "\<not> (case uh_list host (Blob got) of None \<Rightarrow> False | Some out \<Rightarrow> safe_listing out)" "x \<noteq> [46, 46]"
  shows "triple C (archived tmp d0 x got) (unpack_release host (tmp @ [x]) dir) (\<lambda>u d. False) (\<lambda>e. in_tmp tmp d0)"
  unfolding unpack_release_def
proof (rule triple_read, rule triple_guard [where P = "archived tmp d0 x got"])
  fix listing d assume "archived tmp d0 x got d \<and> listing = Option.bind (read_file d (tmp @ [x])) (uh_list host)"
  then show "archived tmp d0 x got d \<and> listing = uh_list host (Blob got)"
    using read_below [of d tmp x "Blob got"] assms(2) by (simp add: archived_def in_tmp_def)
next
  fix listing assume "listing = uh_list host (Blob got)"
  then show "triple C (archived tmp d0 x got) (case listing of
       None \<Rightarrow> raise (update_failure ''Unable to inspect the release archive.'')
     | Some out \<Rightarrow> if \<not> safe_listing out then raise (update_failure ''Release archive contains an unsafe path.'')
         else andthen (mkdir dir) (seq (uh_extract host (tmp @ [x]) dir) (\<lambda>ok.
           if \<not> ok then raise (update_failure ''Unable to extract the release archive.'')
           else check_extracted dir (expectedFiles False)))) (\<lambda>u d. False) (\<lambda>e. in_tmp tmp d0)"
    using assms(1) by (auto simp: archived_def intro!: triple_raise split: option.split)
qed

lemma triple_unverified_archive:
  assumes "\<not> verified_release host release" "rel_assetName release \<noteq> [46, 46]"
    "downloaded (uh_fetch host (rel_downloadUrl release) token) got"
  shows "triple C (archived tmp d0 (rel_assetName release) got) (install_archive host release installDir tmp got)
    (\<lambda>u d. False) (\<lambda>e. in_tmp tmp d0)"
proof (cases "expected_digest (uh_install host) release = Some (ie_digest (uh_install host) (Blob got))
    \<and> ie_digest (uh_install host) (Blob got) \<noteq> []")
  case True
  then have "\<not> (case uh_list host (Blob got) of None \<Rightarrow> False | Some out \<Rightarrow> safe_listing out)"
    using assms(1,3) unfolding verified_release_def by blast
  from triple_andthen [OF triple_unpack_unsafe [OF this assms(2)] triple_false] show ?thesis
    using True by (simp add: install_archive_def)
qed (auto simp: install_archive_def archived_def intro!: triple_raise split: option.split)

lemma triple_unverified:
  assumes "\<not> verified_release host release" "rel_assetName release \<noteq> [46, 46]" "\<And>d. in_tmp tmp d0 d \<Longrightarrow> C d"
  shows "triple C (in_tmp tmp d0) (install_body host release installDir tmp) (\<lambda>u d. False) (\<lambda>e. in_tmp tmp d0)"
  unfolding install_body_def
proof (rule triple_read, rule triple_pre)
  fix t
  have "triple C (in_tmp tmp d0) (seq (download_archive host release token (tmp @ [rel_assetName release]))
      (install_archive host release installDir tmp)) (\<lambda>u d. False) (\<lambda>e. in_tmp tmp d0)" for token
  proof (rule triple_seq [OF triple_download])
    fix got show "triple C (\<lambda>d. archived tmp d0 (rel_assetName release) got d
        \<and> downloaded (uh_fetch host (rel_downloadUrl release) token) got) (install_archive host release installDir tmp got)
        (\<lambda>u d. False) (\<lambda>e. in_tmp tmp d0)"
      by (rule triple_fact, rule triple_unverified_archive [OF assms(1,2)])
  qed (use assms(3) in auto)
  then show "triple C (in_tmp tmp d0) (case t of Inl e \<Rightarrow> raise Thrown
     | Inr token \<Rightarrow> seq (download_archive host release token (tmp @ [rel_assetName release]))
         (install_archive host release installDir tmp)) (\<lambda>u d. False) (\<lambda>e. in_tmp tmp d0)"
    by (cases t) (auto intro!: triple_raise)
qed simp

lemma triple_install_unverified:
  assumes "\<not> verified_release host release" "rel_assetName release \<noteq> [46, 46]" "dirs_to d0 dir"
  shows "triple (outside_same (dir @ [js ''meshtalk-update-'' @ r]) d0) (\<lambda>d. d = d0)
    (seq (andthen (mkdir (dir @ [js ''meshtalk-update-'' @ r])) (ret (dir @ [js ''meshtalk-update-'' @ r])))
      (\<lambda>tmp. finally_do (install_body host release installDir tmp) (remove_tree tmp)))
    (\<lambda>u d. False) (\<lambda>e. outside_same (dir @ [js ''meshtalk-update-'' @ r]) d0)"
proof -
  let ?tmp = "dir @ [js ''meshtalk-update-'' @ r]"
  let ?C = "outside_same ?tmp d0"
  have name: "js ''meshtalk-update-'' @ r \<noteq> [46, 46]" by (simp add: js_def)
  have inC: "in_tmp ?tmp d0 d \<Longrightarrow> ?C d" for d by (simp add: in_tmp_def)
  have mk: "triple ?C (\<lambda>d. d = d0) (mkdir ?tmp) (\<lambda>u. in_tmp ?tmp d0) (\<lambda>e. ?C)"
    unfolding mkdir_def put_new_def at_place_def
  proof (rule triple_change)
    fix d d' assume d: "d = d0" "(case place d ?tmp of Some q \<Rightarrow>
      if node_at d q = None then Inr (map_set q Dir d) else Inl (Code ''EEXIST'') | None \<Rightarrow> Inl no_entry) = Inr d'"
    then have d': "d' = map_set ?tmp Dir d0" "node_at d0 ?tmp = None"
      using place_below [OF assms(3)] by (auto split: if_splits)
    have "take k dir \<noteq> ?tmp" for k by (metis length_append_singleton length_take min.cobounded1 not_less_eq_eq nat_le_linear)
    then have "dirs_to d' dir" using assms(3) by (simp add: dirs_to_def d'(1) node_set)
    then have "in_tmp ?tmp d0 d'"
      using dirs_to_snoc [of d' dir "js ''meshtalk-update-'' @ r"] name by (auto simp: in_tmp_def outside_same_def d'(1) node_set)
    then show "?C d' \<and> in_tmp ?tmp d0 d'" by (simp add: in_tmp_def)
  qed (simp add: outside_same_def)
  have rm: "triple ?C (in_tmp ?tmp d0) (remove_tree ?tmp) (\<lambda>u. ?C) (\<lambda>e. ?C)"
    by (rule keeps_remove_below) (auto simp: in_tmp_def dest: dirs_to_append intro: outside_del)
  show ?thesis
  proof (rule triple_seq [where R = "\<lambda>tmp d. tmp = ?tmp \<and> in_tmp ?tmp d0 d"])
    show "triple ?C (\<lambda>d. d = d0) (andthen (mkdir ?tmp) (ret ?tmp)) (\<lambda>tmp d. tmp = ?tmp \<and> in_tmp ?tmp d0 d) (\<lambda>e. ?C)"
      by (rule triple_andthen [OF mk]) (auto intro: triple_ret)
  next
    fix tmp
    have "triple ?C (in_tmp ?tmp d0) (finally_do (install_body host release installDir ?tmp) (remove_tree ?tmp)) (\<lambda>u d. False) (\<lambda>e. ?C)"
      by (rule triple_finally [OF triple_unverified [OF assms(1,2) inC]]) (use rm in \<open>auto intro: triple_false\<close>)
    then show "triple ?C (\<lambda>d. tmp = ?tmp \<and> in_tmp ?tmp d0 d) (finally_do (install_body host release installDir tmp) (remove_tree tmp))
        (\<lambda>u d. False) (\<lambda>e. ?C)"
      by (cases "tmp = ?tmp") (auto simp: triple_false)
  qed
qed

text \<open>C17. Nothing unverified is installed. Unless the download was answered completely, its bytes have the digest that GitHub
  gives for the asset, and every name in the archive is safe, installing a release fails, and in every state of the disk on
  the way, the ones a crash would leave, everything outside the temporary directory is as it was.\<close>

theorem install_verified:
  assumes "dirs_to (w_disk w) (uh_tmpdir host)" "rel_assetName release \<noteq> js ''..''" "w_history w = []"
  shows "verified_release host release
    \<or> (case installRelease host release installDir w of (r, w') \<Rightarrow> (case r of Inr u \<Rightarrow> False | Inl e \<Rightarrow> True)
        \<and> list_all (outside_same (uh_tmpdir host @ [js ''meshtalk-update-'' @ uh_random host (w_drawn w)]) (w_disk w))
            (w_disk w' # w_history w'))"
proof (cases "verified_release host release")
  case False
  let ?p = "uh_tmpdir host @ [js ''meshtalk-update-'' @ uh_random host (w_drawn w)]"
  let ?m = "seq (andthen (mkdir ?p) (ret ?p)) (\<lambda>tmp. finally_do (install_body host release installDir tmp) (remove_tree tmp))"
  let ?w = "w\<lparr>w_drawn := w_drawn w + 1\<rparr>"
  obtain r w' where m: "?m ?w = (r, w')" by fastforce
  have eq: "installRelease host release installDir w = ?m ?w"
    by (simp add: installRelease_def mkdtemp_def seq_def draw_def Let_def)
  have "rel_assetName release \<noteq> [46, 46]" using assms(2) by (simp add: js_def)
  note T = triple_install_unverified [OF False this assms(1), of "uh_random host (w_drawn w)" installDir]
  have "crash_ok (outside_same ?p (w_disk w)) ?w" using assms(3) by (simp add: crash_ok_def outside_same_def)
  from tripleD [OF T this _ m] show ?thesis unfolding eq m by (auto simp: crash_ok_def split: sum.splits)
qed simp

definition sample_release_bad :: release where
  "sample_release_bad = \<lparr>rel_tag = js ''v1.1.0'', rel_version = js ''1.1.0'', rel_assetName = js ''meshtalk-linux-x64.tar.gz'',
     rel_downloadUrl = js ''u'', rel_digest = Some (js ''sha256:00'')\<rparr>"

definition sample_host :: update_host where
  "sample_host = \<lparr>uh_install = install_sample, uh_data = [js ''h''], uh_tmpdir = [js ''h''], uh_random = (\<lambda>n. js ''x''),
     uh_fetch = (\<lambda>u t. Answer 200 (Some [[1], [2, 3]]) False), uh_list = (\<lambda>c. Some (js ''meshtalk'')),
     uh_extract = (\<lambda>a d. ret True), uh_time = (\<lambda>n. [])\<rparr>"

lemma bad_release_unverified: "\<not> verified_release sample_host sample_release_bad"
  by (auto simp: verified_release_def sample_host_def sample_release_bad_def expected_digest_def install_sample_def js_def
      dest!: arg_cong [where f = length])

theorem install_verified_witness:
  "case installRelease sample_host sample_release_bad sample_new (sample_world [4]) of (r, w') \<Rightarrow>
     (case r of Inr u \<Rightarrow> False | Inl e \<Rightarrow> True)
     \<and> list_all (outside_same [js ''h'', js ''meshtalk-update-x''] sample_disk) (w_disk w' # w_history w')"
proof -
  have "dirs_to sample_disk [js ''h'']" using dirs_to_take [OF sample_dirs(3), of 1] by (simp add: sample_entry_def)
  then show ?thesis
    using install_verified [of "sample_world [4]" sample_host sample_release_bad sample_new] bad_release_unverified
    by (simp add: sample_world_def sample_host_def sample_release_bad_def js_def)
qed

end
