(* ===== verification/InstallProcesses.thy ===== *)
theory InstallProcesses
  imports JsValue PosixPath
begin

text \<open>
  \<open>common/install-processes.ts\<close>: finding the processes that run from an installation, waiting for them and
  closing them. What the module gets from the system is its provider: a list of processes, a request to close one,
  the clock and the location of a file. An answer of the provider may depend on how many calls it has had, so that a
  statement for all providers covers a system that changes in any way between two calls. Paths are those of
  POSIX. Of the native provider the list on Linux and macOS is modelled, from the output of \<open>ps\<close> and what the system
  answers about each process; the PowerShell scripts for Windows are not.
\<close>

record installation_process =
  ip_pid :: rat
  ip_parentPid :: rat
  ip_executable :: "jsstr option"
  ip_identity :: jsstr
  ip_sameUser :: bool
  ip_canClose :: bool

datatype platform = Linux | Darwin | Win32

text \<open>
  \<open>pv_elapsed\<close> is the time that passes outside of \<open>wait\<close>; \<open>pv_lower\<close> is \<open>toLowerCase\<close>. \<open>list\<close>, \<open>canonical\<close> and
  \<open>close\<close> may throw.
\<close>

record provider =
  pv_platform :: platform
  pv_currentPid :: rat
  pv_canonical :: "nat \<Rightarrow> jsstr \<Rightarrow> jsstr outcome"
  pv_list :: "nat \<Rightarrow> installation_process list outcome"
  pv_close :: "nat \<Rightarrow> unit outcome"
  pv_elapsed :: "nat \<Rightarrow> int"
  pv_lower :: "jsstr \<Rightarrow> jsstr"

text \<open>What the provider was asked to do, in order: a snapshot that was taken, a process that it was asked to close.\<close>

datatype process_event = Snapshot "installation_process list" | Closing installation_process

record process_world =
  pw_step :: nat
  pw_waited :: int
  pw_events :: "process_event list"

definition call :: "process_event list \<Rightarrow> process_world \<Rightarrow> process_world" where
  "call es w = w\<lparr>pw_step := Suc (pw_step w), pw_events := pw_events w @ es\<rparr>"

definition list_processes :: "provider \<Rightarrow> process_world \<Rightarrow> installation_process list outcome \<times> process_world" where
  "list_processes P w = (case pv_list P (pw_step w) of
     Inl e \<Rightarrow> (Inl e, call [] w)
   | Inr rows \<Rightarrow> (Inr rows, call [Snapshot rows] w))"

definition close_process :: "provider \<Rightarrow> installation_process \<Rightarrow> process_world \<Rightarrow> unit outcome \<times> process_world" where
  "close_process P p w = (pv_close P (pw_step w), call [Closing p] w)"

definition now :: "provider \<Rightarrow> process_world \<Rightarrow> int \<times> process_world" where
  "now P w = (pv_elapsed P (pw_step w) + pw_waited w, call [] w)"

definition wait :: "int \<Rightarrow> process_world \<Rightarrow> process_world" where
  "wait ms w = call [] (w\<lparr>pw_waited := pw_waited w + ms\<rparr>)"

subsection \<open>Names, numbers and paths\<close>

definition is_safe_integer :: "rat \<Rightarrow> bool" where
  "is_safe_integer r \<longleftrightarrow> of_int \<lfloor>r\<rfloor> = r \<and> \<bar>r\<bar> \<le> 9007199254740991"

definition pid_text :: "rat \<Rightarrow> jsstr" where
  "pid_text r = decimal (nat \<lfloor>r\<rfloor>)"

definition executable_names :: "jsstr list" where
  "executable_names = [js ''meshtalk'', js ''meshtalk-backend'', js ''meshtalk.exe'', js ''meshtalk-backend.exe'']"

definition named :: "provider \<Rightarrow> jsstr \<Rightarrow> bool" where
  "named P v = ((if pv_platform P = Win32 then pv_lower P v else v) \<in> set executable_names)"

definition normalize :: "provider \<Rightarrow> jsstr \<Rightarrow> jsstr" where
  "normalize P p = (if pv_platform P = Win32 then pv_lower P p else p)"

text \<open>Node's \<open>relative\<close> of two absolute paths.\<close>

fun common_length :: "'a list \<Rightarrow> 'a list \<Rightarrow> nat" where
  "common_length (x # xs) (y # ys) = (if x = y then Suc (common_length xs ys) else 0)"
| "common_length _ _ = 0"

definition relative :: "jsstr \<Rightarrow> jsstr \<Rightarrow> jsstr" where
  "relative from_path to_path =
     (let a = resolve_parts [] from_path; b = resolve_parts [] to_path; k = common_length a b
      in join_on [47] (replicate (length a - k) [46, 46] @ drop k b))"

definition isAbsolute :: "jsstr \<Rightarrow> bool" where
  "isAbsolute p = starts_with p [47]"

definition inside :: "jsstr \<Rightarrow> jsstr \<Rightarrow> bool" where
  "inside p base =
     (let part = relative base p
      in part \<noteq> [] \<and> part \<noteq> [46, 46] \<and> \<not> starts_with part [46, 46, 47] \<and> \<not> isAbsolute part)"

subsection \<open>Reading a list of processes\<close>

definition failure_text :: "string \<Rightarrow> js_error" where
  "failure_text s = ErrorMessage (js s)"

definition malformed :: js_error where
  "malformed = failure_text ''The native process list is malformed; refusing to update.''"

text \<open>
  \<open>\s*(\d+)\s+(\d+)\s+(\d+)\s+(.+?)\s*\<close>: a number after white space, and what the last group matches. After
  white space alone the pattern gives one character of it back, and \<open>.\<close> is no line terminator.
\<close>

definition take_digits :: "jsstr \<Rightarrow> (nat \<times> jsstr) option" where
  "take_digits s = (let ds = takeWhile is_digit s in if ds = [] then None else Some (digits_value ds, drop (length ds) s))"

definition after_space :: "jsstr \<Rightarrow> jsstr option" where
  "after_space s = (case s of c # r \<Rightarrow> if js_space c then Some (dropWhile js_space s) else None | [] \<Rightarrow> None)"

definition last_group :: "jsstr \<Rightarrow> jsstr option" where
  "last_group s =
     (let spaces = takeWhile js_space s; r = dropWhile js_space s in
      if spaces = [] then None
      else if r = [] then (case filter (\<lambda>c. \<not> is_newline c) (tl spaces) of [] \<Rightarrow> None | cs \<Rightarrow> Some [last cs])
      else if list_ex is_newline (trim_end r) then None else Some (trim_end r))"

definition ps_line :: "jsstr \<Rightarrow> (nat \<times> nat \<times> nat \<times> jsstr) option" where
  "ps_line line =
     Option.bind (take_digits (dropWhile js_space line)) (\<lambda>(pid, r1).
     Option.bind (Option.bind (after_space r1) take_digits) (\<lambda>(parent, r2).
     Option.bind (Option.bind (after_space r2) take_digits) (\<lambda>(uid, r3).
     Option.bind (last_group r3) (\<lambda>name. Some (pid, parent, uid, name)))))"

record unix_process =
  up_pid :: nat
  up_parentPid :: nat
  up_uid :: nat
  up_name :: jsstr

fun unix_rows :: "nat list \<Rightarrow> jsstr list \<Rightarrow> unix_process list outcome" where
  "unix_rows seen [] = Inr []"
| "unix_rows seen (line # lines) = (case ps_line line of
     None \<Rightarrow> Inl malformed
   | Some (pid, parent, uid, name) \<Rightarrow>
       if \<not> is_safe_integer (of_nat pid) \<or> pid < 1 \<or> pid \<in> set seen \<or> \<not> is_safe_integer (of_nat parent)
          \<or> \<not> is_safe_integer (of_nat uid) then Inl malformed
       else and_then (unix_rows (pid # seen) lines) (\<lambda>rows.
         Inr (\<lparr>up_pid = pid, up_parentPid = parent, up_uid = uid, up_name = name\<rparr> # rows)))"

definition parseUnixInstallationProcesses :: "jsstr \<Rightarrow> unix_process list outcome" where
  "parseUnixInstallationProcesses s =
     (if trim s = [] then Inl (failure_text ''The native process list is empty; refusing to update.'')
      else unix_rows [] (split_on 10 (trim s)))"

text \<open>A row of the list that PowerShell prints; a value that is no object has no properties.\<close>

definition whole_property :: "json \<Rightarrow> string \<Rightarrow> rat option" where
  "whole_property row k = (case prop_of row k of
     Some (JNum n) \<Rightarrow> if is_safe_integer n \<and> 0 \<le> n then Some n else None | _ \<Rightarrow> None)"

definition windows_row :: "json \<Rightarrow> installation_process option" where
  "windows_row row =
     (case (whole_property row ''pid'', whole_property row ''parentPid'', prop_of row ''executable'',
            prop_of row ''identity'', prop_of row ''sameUser'', prop_of row ''canClose'') of
        (Some pid, Some parent, Some executable, Some (JStr identity), Some (JBool same), Some (JBool can)) \<Rightarrow>
          (case executable of
             JNull \<Rightarrow> Some \<lparr>ip_pid = pid, ip_parentPid = parent, ip_executable = None, ip_identity = identity,
                        ip_sameUser = same, ip_canClose = can\<rparr>
           | JStr s \<Rightarrow> Some \<lparr>ip_pid = pid, ip_parentPid = parent, ip_executable = Some s, ip_identity = identity,
                        ip_sameUser = same, ip_canClose = can\<rparr>
           | _ \<Rightarrow> None)
      | _ \<Rightarrow> None)"

fun windows_rows :: "rat list \<Rightarrow> json list \<Rightarrow> installation_process list outcome" where
  "windows_rows seen [] = Inr []"
| "windows_rows seen (v # vs) = (case windows_row v of
     None \<Rightarrow> Inl malformed
   | Some p \<Rightarrow> if ip_pid p \<in> set seen then Inl malformed
               else and_then (windows_rows (ip_pid p # seen) vs) (\<lambda>ps. Inr (p # ps)))"

definition parseWindowsInstallationProcesses ::
  "(jsstr \<Rightarrow> json outcome) \<Rightarrow> jsstr \<Rightarrow> installation_process list outcome" where
  "parseWindowsInstallationProcesses parse s =
     and_then (parse (case s of c # r \<Rightarrow> if c = 65279 then r else s | [] \<Rightarrow> s)) (\<lambda>v. case v of
       JArr (x # xs) \<Rightarrow> windows_rows [] (x # xs)
     | _ \<Rightarrow> Inl (failure_text ''The native process list is incomplete; refusing to update.''))"

subsection \<open>The processes of an installation\<close>

definition process_error :: "installation_process \<Rightarrow> string \<Rightarrow> js_error" where
  "process_error p s = ErrorMessage (js ''MeshTalk process '' @ pid_text (ip_pid p) @ js s)"

definition cannot_verify :: "installation_process \<Rightarrow> js_error" where
  "cannot_verify p = ErrorMessage (js ''Cannot verify MeshTalk process '' @ pid_text (ip_pid p) @ js ''. Close it manually and retry.'')"

definition deleted_mark :: jsstr where
  "deleted_mark = js '' (deleted)''"

fun seen_pids :: "rat list \<Rightarrow> installation_process list \<Rightarrow> rat list outcome" where
  "seen_pids seen [] = Inr seen"
| "seen_pids seen (p # ps) =
     (if \<not> is_safe_integer (ip_pid p) \<or> ip_pid p < 0 \<or> ip_pid p \<in> set seen
         \<or> \<not> is_safe_integer (ip_parentPid p) \<or> ip_parentPid p < 0 then Inl malformed
      else seen_pids (ip_pid p # seen) ps)"

definition is_target :: "provider \<Rightarrow> nat \<Rightarrow> jsstr list \<Rightarrow> installation_process \<Rightarrow> bool outcome" where
  "is_target P n allowed p = (case ip_executable p of
     None \<Rightarrow> Inr False
   | Some executable \<Rightarrow>
       if ip_pid p = pv_currentPid P \<or> executable = [] then Inr False
       else if ends_with executable deleted_mark \<and> named P (posix_basename (take (length executable - 10) executable))
       then Inl (process_error p '' is using a deleted executable. Close it manually and retry.'')
       else if \<not> named P (posix_basename executable) then Inr False
       else if \<not> isAbsolute executable \<or> ip_identity p = [] then Inl (cannot_verify p)
       else (case pv_canonical P n executable of
           Inl e \<Rightarrow> Inl (cannot_verify p)
         | Inr path \<Rightarrow>
             if \<not> list_ex (inside (normalize P path)) allowed then Inr False
             else if \<not> ip_sameUser p
             then Inl (process_error p '' belongs to another user. Ask that user to close it, then retry.'')
             else Inr True))"

fun filter_outcome :: "('a \<Rightarrow> bool outcome) \<Rightarrow> 'a list \<Rightarrow> 'a list outcome" where
  "filter_outcome f [] = Inr []"
| "filter_outcome f (x # xs) = and_then (f x) (\<lambda>b. and_then (filter_outcome f xs) (\<lambda>ys. Inr (if b then x # ys else ys)))"

definition targets :: "provider \<Rightarrow> nat \<Rightarrow> installation_process list \<Rightarrow> jsstr list \<Rightarrow> installation_process list outcome" where
  "targets P n rows allowed = and_then (seen_pids [] rows) (\<lambda>seen.
     if pv_currentPid P \<notin> set seen then Inl (failure_text ''The native process list is incomplete; refusing to update.'')
     else filter_outcome (is_target P n allowed) rows)"

fun collect_paths :: "('a \<Rightarrow> 'b outcome) \<Rightarrow> 'a list \<Rightarrow> 'b list outcome" where
  "collect_paths f [] = Inr []"
| "collect_paths f (x # xs) = and_then (f x) (\<lambda>y. and_then (collect_paths f xs) (\<lambda>ys. Inr (y # ys)))"

definition roots :: "provider \<Rightarrow> nat \<Rightarrow> jsstr \<Rightarrow> jsstr list \<Rightarrow> jsstr list outcome" where
  "roots P n root_path additional =
     collect_paths (\<lambda>p. and_then (pv_canonical P n p) (\<lambda>c. Inr (normalize P c))) (root_path # additional)"

text \<open>A snapshot and the processes of the installation in it.\<close>

definition snapshot_targets ::
  "provider \<Rightarrow> (nat \<Rightarrow> jsstr list outcome) \<Rightarrow> process_world \<Rightarrow> installation_process list outcome \<times> process_world" where
  "snapshot_targets P allowed w = (case list_processes P w of (r, w1) \<Rightarrow>
     (and_then r (\<lambda>rows. and_then (allowed (pw_step w1)) (targets P (pw_step w1) rows)), w1))"

definition pids :: "provider \<Rightarrow> jsstr \<Rightarrow> jsstr list \<Rightarrow> process_world \<Rightarrow> rat list outcome \<times> process_world" where
  "pids P root_path additional w = (case snapshot_targets P (\<lambda>n. roots P n root_path additional) w of (r, w1) \<Rightarrow>
     (and_then r (\<lambda>ps. Inr (map ip_pid ps)), w1))"

subsection \<open>The list of processes on Linux and macOS\<close>

text \<open>
  An error of the system has a code, one of the program has none. \<open>row_reads\<close> is what the system answers while one row is
  looked up: the status of the process before, after, and once more when it is gone; its executable and the owner of
  its directory; on macOS its time of start.
\<close>

record system_error =
  se_code :: "jsstr option"
  se_error :: js_error

type_synonym 'a read_result = "system_error + 'a"

record row_reads =
  rr_stat :: "jsstr read_result"
  rr_exe :: "jsstr read_result"
  rr_exe_file :: "(jsstr \<times> jsstr) read_result"
  rr_owner :: "nat read_result"
  rr_stat_after :: "jsstr read_result"
  rr_stat_probe :: "jsstr read_result"
  rr_lstart :: "jsstr read_result"

definition gone :: "system_error \<Rightarrow> bool" where
  "gone e \<longleftrightarrow> se_code e \<in> {Some (js ''ENOENT''), Some (js ''ESRCH'')}"

definition possiblyNamed :: "platform \<Rightarrow> jsstr \<Rightarrow> bool" where
  "possiblyNamed pl v = (let name = posix_basename v in
     name \<in> set executable_names \<or> (pl = Linux \<and> name = js ''meshtalk-backen''))"

definition program_error :: "js_error \<Rightarrow> system_error" where
  "program_error e = \<lparr>se_code = None, se_error = e\<rparr>"

definition reading_then :: "'a read_result \<Rightarrow> ('a \<Rightarrow> 'b read_result) \<Rightarrow> 'b read_result" where
  "reading_then r f = (case r of Inl e \<Rightarrow> Inl e | Inr x \<Rightarrow> f x)"

text \<open>The fields of \<open>/proc/<pid>/stat\<close> after the name: the part after the last parenthesis.\<close>

definition stat_fields :: "jsstr \<Rightarrow> jsstr list" where
  "stat_fields s = split_on 32 (if 41 \<in> set s then drop 1 (rev (takeWhile (\<lambda>c. c \<noteq> 41) (rev s))) else drop 1 s)"

definition stat_field :: "nat \<Rightarrow> jsstr \<Rightarrow> jsstr option" where
  "stat_field i s = char_at (stat_fields s) i"

definition exited :: "jsstr \<Rightarrow> bool" where
  "exited s \<longleftrightarrow> stat_field 0 s \<in> {Some (js ''Z''), Some (js ''X'')}"

definition field_text :: "jsstr option \<Rightarrow> jsstr" where
  "field_text v = (case v of Some s \<Rightarrow> s | None \<Rightarrow> js ''undefined'')"

text \<open>What the lookup of one row found: that the process has exited, or its executable, identity and owner.\<close>

datatype lookup = Exited | Found jsstr jsstr bool

definition linux_lookup :: "nat \<Rightarrow> unix_process \<Rightarrow> row_reads \<Rightarrow> lookup read_result" where
  "linux_lookup uid row reads =
     reading_then (rr_stat reads) (\<lambda>before.
     if exited before then Inr Exited
     else reading_then (rr_exe reads) (\<lambda>path.
       reading_then (rr_exe_file reads) (\<lambda>(dev, ino).
       reading_then (if up_uid row = uid then reading_then (rr_owner reads) (\<lambda>owner. Inr (owner = uid)) else Inr False) (\<lambda>same.
       reading_then (rr_stat_after reads) (\<lambda>later.
         if stat_field 19 before \<noteq> stat_field 19 later
         then Inl (program_error (failure_text ''A process changed during enumeration. Retry the update.''))
         else Inr (Found path (field_text (stat_field 19 before) @ [58] @ dev @ [58] @ ino) same))))))"

definition darwin_lookup :: "nat \<Rightarrow> unix_process \<Rightarrow> row_reads \<Rightarrow> lookup read_result" where
  "darwin_lookup uid row reads =
     (if possiblyNamed Darwin (up_name row)
      then reading_then (rr_lstart reads) (\<lambda>out.
        if trim out = [] then Inl (program_error (failure_text ''Cannot verify a process start time. Retry the update.''))
        else Inr (Found (up_name row) (trim out) (up_uid row = uid)))
      else Inr (Found (up_name row) [] (up_uid row = uid)))"

text \<open>The executable that was known when the lookup failed.\<close>

definition known_executable :: "platform \<Rightarrow> unix_process \<Rightarrow> row_reads \<Rightarrow> jsstr option" where
  "known_executable pl row reads =
     (if pl = Linux then (case (rr_stat reads, rr_exe reads) of (Inr _, Inr path) \<Rightarrow> Some path | _ \<Rightarrow> None)
      else Some (up_name row))"

definition strip_deleted :: "jsstr \<Rightarrow> jsstr" where
  "strip_deleted e = (if ends_with e deleted_mark then take (length e - 10) e else e)"

definition looks_like_ours :: "platform \<Rightarrow> unix_process \<Rightarrow> row_reads \<Rightarrow> bool" where
  "looks_like_ours pl row reads \<longleftrightarrow> possiblyNamed pl (up_name row)
     \<or> (case known_executable pl row reads of Some e \<Rightarrow> e \<noteq> [] \<and> possiblyNamed pl (strip_deleted e) | None \<Rightarrow> False)"

definition cannot_verify_pid :: "nat \<Rightarrow> js_error" where
  "cannot_verify_pid pid = ErrorMessage (js ''Cannot verify MeshTalk process '' @ decimal pid @ js ''. Close it manually and retry.'')"

definition unix_entry :: "unix_process \<Rightarrow> jsstr option \<Rightarrow> jsstr \<Rightarrow> bool \<Rightarrow> installation_process" where
  "unix_entry row executable identity same = \<lparr>ip_pid = of_nat (up_pid row), ip_parentPid = of_nat (up_parentPid row),
     ip_executable = executable, ip_identity = identity, ip_sameUser = same, ip_canClose = False\<rparr>"

definition denied :: "system_error \<Rightarrow> bool" where
  "denied e \<longleftrightarrow> se_code e \<in> {Some (js ''EACCES''), Some (js ''EPERM'')}"

text \<open>
  A process whose lookup failed is listed without an executable, unless it may be one of this program. \<open>sameUser\<close> is what
  was known by then: the owner of the directory may have been read already.
\<close>

definition known_owner :: "platform \<Rightarrow> nat \<Rightarrow> unix_process \<Rightarrow> row_reads \<Rightarrow> bool" where
  "known_owner pl uid row reads = (up_uid row = uid \<and>
     (if pl = Linux then (case (rr_stat reads, rr_exe reads, rr_exe_file reads, rr_owner reads) of
        (Inr _, Inr _, Inr _, Inr owner) \<Rightarrow> owner = uid | _ \<Rightarrow> True) else True))"

definition unix_row :: "platform \<Rightarrow> nat \<Rightarrow> unix_process \<Rightarrow> row_reads \<Rightarrow> installation_process outcome" where
  "unix_row pl uid row reads =
     (case (if pl = Linux then linux_lookup uid row reads else darwin_lookup uid row reads) of
        Inr Exited \<Rightarrow> Inr (unix_entry row None (js ''exited'') (up_uid row = uid))
      | Inr (Found path identity same) \<Rightarrow> Inr (unix_entry row (Some path) identity same)
      | Inl e \<Rightarrow>
          let lost = Inr (unix_entry row None [] (known_owner pl uid row reads)) in
          if \<not> gone e
          then (if pl = Linux \<and> up_uid row \<noteq> uid \<and> denied e then Inr (unix_entry row None [] False)
                else if looks_like_ours pl row reads then Inl (cannot_verify_pid (up_pid row)) else lost)
          else if pl = Linux
          then (case rr_stat_probe reads of
              Inl probe \<Rightarrow> if gone probe then lost else Inl (se_error probe)
            | Inr s \<Rightarrow> if \<not> exited s \<and> looks_like_ours pl row reads then Inl (cannot_verify_pid (up_pid row)) else lost)
          else if possiblyNamed pl (up_name row) then Inl (se_error e) else lost)"

definition unixList :: "platform \<Rightarrow> nat \<Rightarrow> jsstr outcome \<Rightarrow> (nat \<Rightarrow> row_reads) \<Rightarrow> installation_process list outcome" where
  "unixList pl uid ps_output reads = and_then ps_output (\<lambda>s. and_then (parseUnixInstallationProcesses s) (\<lambda>rows.
     collect_paths (\<lambda>row. unix_row pl uid row (reads (up_pid row))) rows))"

subsection \<open>Waiting until an installation is not used\<close>

text \<open>
  The loop may go on for as long as the clock stands still, so that not returning is the result \<open>None\<close>. An error of the
  inspection is not a sign that nothing runs.
\<close>

partial_function (option) wait_stopped ::
  "provider \<Rightarrow> jsstr \<Rightarrow> jsstr list \<Rightarrow> int \<Rightarrow> process_world \<Rightarrow> (bool \<times> process_world) option" where
  "wait_stopped P root_path additional deadline w =
     (case snapshot_targets P (\<lambda>n. roots P n root_path additional) w of (r, w1) \<Rightarrow>
        if r = Inr [] then Some (True, w1)
        else case now P w1 of (t, w2) \<Rightarrow>
          if deadline - t \<le> 0 then Some (False, w2)
          else wait_stopped P root_path additional deadline (wait (min 500 (deadline - t)) w2))"

definition waitUntilStopped ::
  "provider \<Rightarrow> jsstr \<Rightarrow> jsstr list \<Rightarrow> int \<Rightarrow> process_world \<Rightarrow> (bool outcome \<times> process_world) option" where
  "waitUntilStopped P root_path additional timeout w =
     (if timeout < 0 then Some (Inl (failure_text ''Invalid MeshTalk wait timeout.''), w)
      else case now P w of (t, w1) \<Rightarrow>
        map_option (\<lambda>(b, w2). (Inr b, w2)) (wait_stopped P root_path additional (t + timeout) w1))"

subsection \<open>Closing the processes of an installation\<close>

definition find_pid :: "rat \<Rightarrow> installation_process list \<Rightarrow> installation_process option" where
  "find_pid pid rows = find (\<lambda>p. ip_pid p = pid) rows"

definition parent_of :: "rat \<Rightarrow> installation_process list \<Rightarrow> rat option" where
  "parent_of pid rows = map_option ip_parentPid (find_pid pid rows)"

lemma length_filter_less:
  "x \<in> set xs \<Longrightarrow> Q x \<Longrightarrow> \<not> R x \<Longrightarrow> (\<And>y. R y \<Longrightarrow> Q y) \<Longrightarrow> length (filter R xs) < length (filter Q xs)"
proof (induction xs)
  case (Cons y xs)
  have "length (filter R xs) \<le> length (filter Q xs)" using Cons.prems(4) by (induction xs) auto
  then show ?case using Cons by auto
qed simp

lemma find_pid_Some: "find_pid pid rows = Some p \<Longrightarrow> p \<in> set rows \<and> ip_pid p = pid"
  using find_SomeD [of "\<lambda>p. ip_pid p = pid" rows p] by (simp add: find_pid_def)

text \<open>The processes that this one descends from; the list may be in a circle.\<close>

function ancestors_from :: "installation_process list \<Rightarrow> rat option \<Rightarrow> rat list \<Rightarrow> rat list" where
  "ancestors_from rows parent ancestors = (case parent of
     None \<Rightarrow> ancestors
   | Some pid \<Rightarrow> if pid = 0 \<or> pid \<in> set ancestors then ancestors
                 else ancestors_from rows (parent_of pid rows) (pid # ancestors))"
  by pat_completeness auto
termination
proof (relation "measures [\<lambda>(rows, parent, ancestors). length (filter (\<lambda>p. ip_pid p \<notin> set ancestors) rows),
    \<lambda>(rows, parent, ancestors). if parent = None then 0 else 1]", goal_cases)
  case (2 rows parent ancestors pid)
  show ?case
  proof (cases "find_pid pid rows")
    case None
    have "length (filter (\<lambda>p. ip_pid p \<notin> set (pid # ancestors)) rows) \<le> length (filter (\<lambda>p. ip_pid p \<notin> set ancestors) rows)"
      by (induction rows) auto
    then show ?thesis using 2 None by (auto simp: parent_of_def)
  next
    case (Some p)
    then have "p \<in> set rows" "ip_pid p \<notin> set ancestors" "ip_pid p = pid" using 2 by (auto dest: find_pid_Some)
    then have "length (filter (\<lambda>p. ip_pid p \<notin> set (pid # ancestors)) rows) < length (filter (\<lambda>p. ip_pid p \<notin> set ancestors) rows)"
      by (intro length_filter_less) auto
    then show ?thesis by simp
  qed
qed simp

declare ancestors_from.simps [simp del]

definition ancestors_of :: "provider \<Rightarrow> installation_process list \<Rightarrow> rat list" where
  "ancestors_of P rows = ancestors_from rows (parent_of (pv_currentPid P) rows) []"

fun preflight :: "provider \<Rightarrow> rat list \<Rightarrow> installation_process list \<Rightarrow> unit outcome" where
  "preflight P ancestors [] = Inr ()"
| "preflight P ancestors (p # ps) =
     (if ip_pid p \<in> set ancestors
      then Inl (process_error p '' launched this updater and is still running. Close it and run the installer from a separate terminal.'')
      else if pv_platform P = Win32 \<and> \<not> ip_canClose p
      then Inl (process_error p '' has no graceful window-close support. Close it manually and retry.'')
      else preflight P ancestors ps)"

text \<open>A process is closed only if a fresh snapshot still shows it with the same start and the same program.\<close>

definition close_target ::
  "provider \<Rightarrow> jsstr list \<Rightarrow> installation_process \<Rightarrow> process_world \<Rightarrow> unit outcome \<times> process_world" where
  "close_target P allowed p w = (case list_processes P w of
     (Inl e, w1) \<Rightarrow> (Inl e, w1)
   | (Inr rows, w1) \<Rightarrow> (case targets P (pw_step w1) rows allowed of
        Inl e \<Rightarrow> (Inl e, w1)
      | Inr _ \<Rightarrow> (case find_pid (ip_pid p) rows of
          None \<Rightarrow> (Inr (), w1)
        | Some current \<Rightarrow>
            if ip_identity current \<noteq> ip_identity p \<or> ip_executable current \<noteq> ip_executable p then (Inr (), w1)
            else if \<not> ip_sameUser current
            then (Inl (failure_text ''MeshTalk process ownership changed. Close it manually and retry.''), w1)
            else close_process P current w1)))"

fun close_targets ::
  "provider \<Rightarrow> jsstr list \<Rightarrow> installation_process list \<Rightarrow> process_world \<Rightarrow> unit outcome \<times> process_world" where
  "close_targets P allowed [] w = (Inr (), w)"
| "close_targets P allowed (p # ps) w = (case close_target P allowed p w of
     (Inl e, w1) \<Rightarrow> (Inl e, w1)
   | (Inr _, w1) \<Rightarrow> close_targets P allowed ps w1)"

definition remains_running :: "installation_process list \<Rightarrow> js_error" where
  "remains_running ps = ErrorMessage (js ''MeshTalk is still running (PID '' @ join_on (js '', '') (map (\<lambda>p. pid_text (ip_pid p)) ps)
     @ js ''). Close it manually and retry; no forced termination was attempted.'')"

partial_function (option) wait_closed ::
  "provider \<Rightarrow> jsstr list \<Rightarrow> int \<Rightarrow> process_world \<Rightarrow> (unit outcome \<times> process_world) option" where
  "wait_closed P allowed deadline w =
     (case snapshot_targets P (\<lambda>n. Inr allowed) w of
        (Inl e, w1) \<Rightarrow> Some (Inl e, w1)
      | (Inr remaining, w1) \<Rightarrow>
          if remaining = [] then Some (Inr (), w1)
          else case now P w1 of (t, w2) \<Rightarrow>
            if t \<ge> deadline then Some (Inl (remains_running remaining), w2)
            else case now P w2 of (t', w3) \<Rightarrow>
              wait_closed P allowed deadline (wait (min 100 (max 1 (deadline - t'))) w3))"

text \<open>The whole snapshot is checked before the first process is closed.\<close>

definition checked_targets ::
  "provider \<Rightarrow> jsstr list \<Rightarrow> process_world \<Rightarrow> installation_process list outcome \<times> process_world" where
  "checked_targets P allowed w = (case list_processes P w of (r, w1) \<Rightarrow>
     (and_then r (\<lambda>initial. and_then (targets P (pw_step w1) initial allowed) (\<lambda>pending.
        and_then (preflight P (ancestors_of P initial) pending) (\<lambda>u. Inr pending))), w1))"

definition closing ::
  "provider \<Rightarrow> jsstr list \<Rightarrow> int \<Rightarrow> process_world \<Rightarrow> (unit outcome \<times> process_world) option" where
  "closing P allowed timeout w = (case checked_targets P allowed w of
     (Inl e, w1) \<Rightarrow> Some (Inl e, w1)
   | (Inr pending, w1) \<Rightarrow> (case now P w1 of (t, w2) \<Rightarrow> (case close_targets P allowed pending w2 of
        (Inl e, w3) \<Rightarrow> Some (Inl e, w3)
      | (Inr _, w3) \<Rightarrow> wait_closed P allowed (t + timeout) w3)))"

definition close_processes ::
  "provider \<Rightarrow> jsstr \<Rightarrow> jsstr list \<Rightarrow> int \<Rightarrow> process_world \<Rightarrow> (unit outcome \<times> process_world) option" where
  "close_processes P root_path additional timeout w =
     (if timeout < 0 then Some (Inl (failure_text ''Invalid MeshTalk close timeout.''), w)
      else case roots P (pw_step w) root_path additional of
        Inl e \<Rightarrow> Some (Inl e, w)
      | Inr allowed \<Rightarrow> closing P allowed timeout w)"

end
