(* ===== verification/InstallClosing.thy ===== *)
theory InstallClosing
  imports InstallProcesses "HOL-Library.Sublist"
begin

text \<open>
  What \<open>InstallProcesses\<close> promises: the processes that may be closed, the events of each operation, the ends of the
  loops, and the two properties of the controller with a system on which they are tried.
\<close>


subsection \<open>No process is lost\<close>

text \<open>A process that may be one of this program is listed without an executable only if it has ended or, on Linux, belongs to
  another user whose processes cannot be read.\<close>

lemma unix_row_lost:
  assumes "unix_row pl uid row reads = Inr p" "ip_executable p = None" "looks_like_ours pl row reads" "pl \<noteq> Win32"
  shows "(case rr_stat reads of Inr s \<Rightarrow> exited s | Inl e \<Rightarrow> False) \<or> (pl = Linux \<and> up_uid row \<noteq> uid)
    \<or> (case rr_stat_probe reads of Inl e \<Rightarrow> gone e | Inr s \<Rightarrow> exited s) \<or> pl = Darwin \<and> \<not> possiblyNamed pl (up_name row)"
  using assms
  by (cases pl) (auto simp: unix_row_def linux_lookup_def darwin_lookup_def reading_then_def unix_entry_def Let_def
    split: sum.splits if_splits lookup.splits prod.splits)

subsection \<open>What closing does\<close>

definition signalled :: "process_event list \<Rightarrow> installation_process list" where
  "signalled es = List.map_filter (\<lambda>e. case e of Closing p \<Rightarrow> Some p | _ \<Rightarrow> None) es"

lemma signalled_simps [simp]:
  "signalled [] = []" "signalled (Snapshot rows # es) = signalled es" "signalled (Closing p # es) = p # signalled es"
  "signalled (xs @ ys) = signalled xs @ signalled ys"
  by (simp_all add: signalled_def map_filter_def)

lemma filter_outcome_Inr:
  "filter_outcome f xs = Inr ys \<Longrightarrow> ys = filter (\<lambda>x. f x = Inr True) xs \<and> list_all (\<lambda>x. f x \<in> {Inr True, Inr False}) xs"
  by (induction xs arbitrary: ys) (auto simp: and_then_def split: sum.splits)

lemma filter_outcome_total:
  "list_all (\<lambda>x. f x \<in> {Inr True, Inr False}) xs \<Longrightarrow> filter_outcome f xs = Inr (filter (\<lambda>x. f x = Inr True) xs)"
  by (induction xs) (auto simp: and_then_def)

lemma preflight_Inr:
  "preflight P ancestors ps = Inr u \<longleftrightarrow> list_all (\<lambda>p. ip_pid p \<notin> set ancestors \<and> (pv_platform P = Win32 \<longrightarrow> ip_canClose p)) ps"
  by (induction ps) auto

lemma targets_Inr:
  "targets P n rows allowed = Inr ps \<Longrightarrow> ps = filter (\<lambda>p. is_target P n allowed p = Inr True) rows
     \<and> list_all (\<lambda>p. is_target P n allowed p \<in> {Inr True, Inr False}) rows \<and> pv_currentPid P \<in> set (map ip_pid rows)"
proof -
  have "seen_pids seen rows = Inr s \<Longrightarrow> set s = set seen \<union> set (map ip_pid rows)" for seen s
    by (induction seen rows rule: seen_pids.induct) (auto split: if_splits)
  then show "targets P n rows allowed = Inr ps \<Longrightarrow> ?thesis"
    unfolding targets_def by (auto simp: and_then_Inr split: if_splits dest!: filter_outcome_Inr)
qed

lemma is_target_True:
  assumes "is_target P n allowed p = Inr True"
  shows "ip_pid p \<noteq> pv_currentPid P \<and> ip_sameUser p \<and> (case ip_executable p of None \<Rightarrow> False
    | Some e \<Rightarrow> named P (posix_basename e) \<and> (case pv_canonical P n e of
        Inl x \<Rightarrow> False | Inr path \<Rightarrow> list_ex (inside (normalize P path)) allowed))"
  using assms by (auto simp: is_target_def split: option.splits if_splits sum.splits)

text \<open>A process and the one that started it.\<close>

definition started_by :: "installation_process list \<Rightarrow> rat \<Rightarrow> rat \<Rightarrow> bool" where
  "started_by rows child parent \<longleftrightarrow> parent_of child rows = Some parent \<and> parent \<noteq> 0"

lemma ancestors_from_closed:
  assumes "\<And>a b. a = root_pid \<or> a \<in> set ancestors \<Longrightarrow> started_by rows a b \<Longrightarrow> b \<in> set ancestors \<or> parent = Some b"
    "a = root_pid \<or> a \<in> set (ancestors_from rows parent ancestors)" "started_by rows a b"
  shows "b \<in> set (ancestors_from rows parent ancestors)"
  using assms
proof (induction rows parent ancestors rule: ancestors_from.induct)
  case (1 rows parent ancestors)
  show ?case
  proof (cases parent)
    case None
    then have "ancestors_from rows parent ancestors = ancestors" by (simp add: ancestors_from.simps)
    then show ?thesis using "1.prems" None by auto
  next
    case (Some pid)
    show ?thesis
    proof (cases "pid = 0 \<or> pid \<in> set ancestors")
      case True
      then have "ancestors_from rows parent ancestors = ancestors" using Some by (simp add: ancestors_from.simps)
      then show ?thesis using "1.prems" True Some by (auto simp: started_by_def)
    next
      case False
      have step: "ancestors_from rows parent ancestors = ancestors_from rows (parent_of pid rows) (pid # ancestors)"
        using False by (subst ancestors_from.simps) (simp add: Some)
      show ?thesis unfolding step
      proof (rule "1.IH" [OF Some False])
        show "b' \<in> set (pid # ancestors) \<or> parent_of pid rows = Some b'"
          if "a' = root_pid \<or> a' \<in> set (pid # ancestors)" "started_by rows a' b'" for a' b'
          using "1.prems"(1) [of a' b'] that Some by (auto simp: started_by_def)
      qed (use "1.prems" step in auto)
    qed
  qed
qed

lemma ancestors_of_complete:
  assumes "(started_by rows)\<^sup>+\<^sup>+ (pv_currentPid P) pid"
  shows "pid \<in> set (ancestors_of P rows)"
proof -
  have closed: "b \<in> set (ancestors_of P rows)"
    if "a = pv_currentPid P \<or> a \<in> set (ancestors_of P rows)" "started_by rows a b" for a b
    unfolding ancestors_of_def
    by (rule ancestors_from_closed [of "pv_currentPid P"]) (use that in \<open>auto simp: ancestors_of_def started_by_def\<close>)
  show ?thesis using assms by (induction rule: tranclp_induct) (auto intro: closed)
qed

text \<open>When a process may be closed: it runs an executable of the installation, belongs to the user, is as it was when the
  closing was decided, and is neither this process nor one that it descends from.\<close>

definition may_close ::
  "provider \<Rightarrow> jsstr list \<Rightarrow> nat \<Rightarrow> installation_process list \<Rightarrow> installation_process list \<Rightarrow> installation_process \<Rightarrow> bool" where
  "may_close P allowed n initial current p \<longleftrightarrow> p \<in> set current \<and> ip_sameUser p \<and> ip_pid p \<noteq> pv_currentPid P
     \<and> \<not> (started_by initial)\<^sup>+\<^sup>+ (pv_currentPid P) (ip_pid p)
     \<and> list_ex (\<lambda>q. ip_pid q = ip_pid p \<and> ip_identity q = ip_identity p \<and> ip_executable q = ip_executable p
          \<and> ip_sameUser q \<and> (pv_platform P = Win32 \<longrightarrow> ip_canClose q)) initial
     \<and> (case ip_executable p of None \<Rightarrow> False
        | Some e \<Rightarrow> named P (posix_basename e) \<and> (case pv_canonical P n e of
            Inl x \<Rightarrow> False | Inr path \<Rightarrow> list_ex (inside (normalize P path)) allowed))"

fun careful :: "(installation_process list \<Rightarrow> installation_process \<Rightarrow> bool) \<Rightarrow> installation_process list \<Rightarrow> process_event list \<Rightarrow> bool" where
  "careful J current [] = True"
| "careful J current (Snapshot rows # es) = careful J rows es"
| "careful J current (Closing p # es) = (J current p \<and> careful J current es)"

lemma careful_quiet: "signalled es = [] \<Longrightarrow> careful J current es"
  by (induction J current es rule: careful.induct) auto

fun last_snapshot :: "installation_process list \<Rightarrow> process_event list \<Rightarrow> installation_process list" where
  "last_snapshot current [] = current"
| "last_snapshot current (Snapshot rows # es) = last_snapshot rows es"
| "last_snapshot current (Closing p # es) = last_snapshot current es"

lemma careful_append: "careful J current (es @ fs) \<longleftrightarrow> careful J current es \<and> careful J (last_snapshot current es) fs"
  by (induction J current es rule: careful.induct) auto

text \<open>The events of one step of the closing: at most one process is closed, after a fresh snapshot.\<close>

lemma close_target_events:
  assumes "close_target P allowed p w = (r, w')"
  shows "\<exists>es. pw_events w' = pw_events w @ es \<and> (signalled es = []
    \<or> (\<exists>rows q. es = [Snapshot rows, Closing q] \<and> q \<in> set rows \<and> ip_pid q = ip_pid p \<and> ip_identity q = ip_identity p
        \<and> ip_executable q = ip_executable p \<and> ip_sameUser q))"
  using assms
  by (auto simp: close_target_def list_processes_def close_process_def call_def split: sum.splits option.splits if_splits
      dest: find_pid_Some)

lemma close_targets_events:
  assumes "close_targets P allowed ps w = (r, w')"
    "\<And>p rows q. p \<in> set ps \<Longrightarrow> q \<in> set rows \<Longrightarrow> ip_pid q = ip_pid p \<Longrightarrow> ip_identity q = ip_identity p
      \<Longrightarrow> ip_executable q = ip_executable p \<Longrightarrow> ip_sameUser q \<Longrightarrow> J rows q"
  shows "\<exists>es. pw_events w' = pw_events w @ es \<and> careful J current es
    \<and> (\<exists>qs. subseq qs (map ip_pid ps) \<and> map ip_pid (signalled es) = qs)"
  using assms
proof (induction ps arbitrary: w current)
  case (Cons p ps)
  obtain r1 w1 where 1: "close_target P allowed p w = (r1, w1)" by fastforce
  obtain es where es: "pw_events w1 = pw_events w @ es" "signalled es = []
    \<or> (\<exists>rows q. es = [Snapshot rows, Closing q] \<and> q \<in> set rows \<and> ip_pid q = ip_pid p \<and> ip_identity q = ip_identity p
        \<and> ip_executable q = ip_executable p \<and> ip_sameUser q)"
    using close_target_events [OF 1] by blast
  have J: "careful J current es" "signalled es = [] \<or> map ip_pid (signalled es) = [ip_pid p]"
    using es(2) Cons.prems(2) [of p] by (auto intro: careful_quiet)
  show ?case
  proof (cases r1)
    case (Inl e)
    then show ?thesis using Cons.prems(1) 1 es(1) J by (intro exI [of _ es]) auto
  next
    case (Inr u)
    then have "close_targets P allowed ps w1 = (r, w')" using Cons.prems(1) 1 by simp
    moreover have "J rows q" if "p' \<in> set ps" "q \<in> set rows" "ip_pid q = ip_pid p'" "ip_identity q = ip_identity p'"
      "ip_executable q = ip_executable p'" "ip_sameUser q" for p' rows q
      by (rule Cons.prems(2) [of p']) (use that in simp_all)
    ultimately have "\<exists>fs. pw_events w' = pw_events w1 @ fs \<and> careful J (last_snapshot current es) fs
      \<and> (\<exists>qs. subseq qs (map ip_pid ps) \<and> map ip_pid (signalled fs) = qs)"
      by (rule Cons.IH)
    then obtain fs where
      "pw_events w' = pw_events w1 @ fs" "careful J (last_snapshot current es) fs" "subseq (map ip_pid (signalled fs)) (map ip_pid ps)"
      by auto
    then show ?thesis using es(1) J by (intro exI [of _ "es @ fs"]) (auto simp: careful_append)
  qed
qed (auto intro!: exI [of _ "[]"])

lemma snapshot_targets_events:
  "\<exists>es. pw_events (snd (snapshot_targets P allowed w)) = pw_events w @ es \<and> signalled es = []"
  by (auto simp: snapshot_targets_def list_processes_def call_def split: sum.splits)

lemma now_events [simp]: "pw_events (snd (now P w)) = pw_events w"
  by (simp add: now_def call_def)

lemma wait_events [simp]: "pw_events (wait ms w) = pw_events w"
  by (simp add: wait_def call_def)

definition adds_no_closing :: "'a \<times> process_world \<Rightarrow> 'b \<times> process_world \<Rightarrow> bool" where
  "adds_no_closing x y \<longleftrightarrow> (\<exists>es. pw_events (snd y) = pw_events (snd x) @ es \<and> signalled es = [])"

lemma wait_closed_events:
  assumes "wait_closed P allowed deadline w = Some y"
  shows "adds_no_closing (((P, allowed), deadline), w) y"
proof (rule wait_closed.raw_induct [OF _ assms], goal_cases step)
  case (step f P allowed deadline w y)
  obtain es where es: "pw_events (snd (snapshot_targets P (\<lambda>n. Inr allowed) w)) = pw_events w @ es" "signalled es = []"
    using snapshot_targets_events by blast
  show ?case
  proof (cases "\<exists>d v. f P allowed d v = Some y \<and> pw_events v = pw_events w @ es")
    case True
    then obtain d v where v: "f P allowed d v = Some y" "pw_events v = pw_events w @ es" by blast
    obtain fs where "pw_events (snd y) = pw_events v @ fs" "signalled fs = []"
      using step(1) [OF v(1)] by (auto simp: adds_no_closing_def)
    then show ?thesis using es(2) v(2) unfolding adds_no_closing_def by (intro exI [of _ "es @ fs"]) simp
  next
    case False
    then have no: "f P allowed d v = Some y \<Longrightarrow> pw_events v \<noteq> pw_events w @ es" for d v by blast
    have "pw_events (snd y) = pw_events w @ es"
      using step(2) es(1) by (auto simp: case_prod_beta split: sum.splits if_splits dest: no)
    then show ?thesis using es(2) by (auto simp: adds_no_closing_def)
  qed
qed

lemma wait_stopped_events:
  assumes "wait_stopped P root_path additional deadline w = Some y"
  shows "adds_no_closing ((((P, root_path), additional), deadline), w) y"
proof (rule wait_stopped.raw_induct [OF _ assms], goal_cases step)
  case (step f P root_path additional deadline w y)
  obtain es where es: "pw_events (snd (snapshot_targets P (\<lambda>n. roots P n root_path additional) w)) = pw_events w @ es" "signalled es = []"
    using snapshot_targets_events by blast
  show ?case
  proof (cases "\<exists>v. f P root_path additional deadline v = Some y \<and> pw_events v = pw_events w @ es")
    case True
    then obtain v where v: "f P root_path additional deadline v = Some y" "pw_events v = pw_events w @ es" by blast
    obtain fs where "pw_events (snd y) = pw_events v @ fs" "signalled fs = []"
      using step(1) [OF v(1)] by (auto simp: adds_no_closing_def)
    then show ?thesis using es(2) v(2) unfolding adds_no_closing_def by (intro exI [of _ "es @ fs"]) simp
  next
    case False
    then have "pw_events (snd y) = pw_events w @ es"
      using step(2) es(1) by (auto simp: case_prod_beta split: if_splits)
    then show ?thesis using es(2) by (auto simp: adds_no_closing_def)
  qed
qed

lemma seen_pids_distinct:
  "seen_pids seen rows = Inr s \<Longrightarrow> distinct (map ip_pid rows) \<and> (\<forall>p \<in> set rows. ip_pid p \<notin> set seen)"
  by (induction seen rows rule: seen_pids.induct) (auto split: if_splits)

lemma targets_distinct: "targets P n rows allowed = Inr ps \<Longrightarrow> distinct (map ip_pid ps)"
  using targets_Inr [of P n rows allowed ps]
  by (auto simp: targets_def and_then_Inr distinct_map_filter dest!: seen_pids_distinct)

lemma checked_targets_Inr:
  assumes "checked_targets P allowed w = (Inr pending, w')"
  shows "\<exists>initial. pw_events w' = pw_events w @ [Snapshot initial] \<and> targets P (Suc (pw_step w)) initial allowed = Inr pending
    \<and> preflight P (ancestors_of P initial) pending = Inr ()"
  using assms by (auto simp: checked_targets_def list_processes_def call_def and_then_def split: sum.splits)

lemma pending_may_close:
  assumes "targets P n initial allowed = Inr pending" "preflight P (ancestors_of P initial) pending = Inr ()" "q \<in> set pending"
    "p \<in> set rows" "ip_pid p = ip_pid q" "ip_identity p = ip_identity q" "ip_executable p = ip_executable q" "ip_sameUser p"
  shows "may_close P allowed n initial rows p"
proof -
  have q: "q \<in> set initial" "is_target P n allowed q = Inr True" using targets_Inr [OF assms(1)] assms(3) by auto
  have f: "ip_pid q \<notin> set (ancestors_of P initial)" "pv_platform P = Win32 \<longrightarrow> ip_canClose q"
    using assms(2,3) by (auto simp: preflight_Inr list_all_iff)
  show ?thesis
    using q(1) is_target_True [OF q(2)] f ancestors_of_complete [of initial P "ip_pid q"] assms(4-)
    by (auto simp: may_close_def list_ex_iff)
qed

subsection \<open>The loops end\<close>

text \<open>The clock does not go backwards: what passes outside of \<open>wait\<close> is never negative.\<close>

definition clock :: "provider \<Rightarrow> process_world \<Rightarrow> int" where
  "clock P w = pv_elapsed P (pw_step w) + pw_waited w"

lemma clock_call: "mono (pv_elapsed P) \<Longrightarrow> clock P w \<le> clock P (call es w)"
  by (simp add: clock_def call_def incseq_SucD)

lemma now_simps: "fst (now P w) = clock P w" "snd (now P w) = call [] w"
  by (simp_all add: now_def clock_def)

lemma clock_wait: "mono (pv_elapsed P) \<Longrightarrow> clock P w + ms \<le> clock P (wait ms w)"
  using clock_call [of P "w\<lparr>pw_waited := pw_waited w + ms\<rparr>" "[]"] by (simp add: wait_def clock_def)

lemma snapshot_world: "\<exists>es. snd (snapshot_targets P allowed w) = call es w"
  by (auto simp: snapshot_targets_def list_processes_def split: sum.splits)

lemma clock_snapshot: "mono (pv_elapsed P) \<Longrightarrow> clock P w \<le> clock P (snd (snapshot_targets P allowed w))"
  using snapshot_world [of P allowed w] clock_call by metis

lemma waited_snapshot [simp]: "pw_waited (snd (snapshot_targets P allowed w)) = pw_waited w"
  using snapshot_world [of P allowed w] by (auto simp: call_def)

text \<open>The last thing that was seen is a snapshot without a process of the installation.\<close>

definition seen_stopped :: "provider \<Rightarrow> jsstr list outcome \<Rightarrow> process_world \<Rightarrow> bool" where
  "seen_stopped P allowed w \<longleftrightarrow> pw_events w \<noteq> [] \<and> (case (last (pw_events w), allowed) of
     (Snapshot rows, Inr ds) \<Rightarrow> targets P (pw_step w) rows ds = Inr [] | _ \<Rightarrow> False)"

lemma snapshot_stopped:
  assumes "snapshot_targets P allowed w = (Inr [], w')"
  shows "seen_stopped P (allowed (pw_step w')) w'"
  using assms by (auto simp: snapshot_targets_def list_processes_def call_def seen_stopped_def and_then_def split: sum.splits)

lemma wait_stopped_ends:
  assumes "mono (pv_elapsed P)"
  shows "\<exists>b w'. wait_stopped P root_path additional deadline w = Some (b, w')
    \<and> (b \<longrightarrow> seen_stopped P (roots P (pw_step w') root_path additional) w')
    \<and> pw_waited w' \<le> max (pw_waited w) (pw_waited w + deadline - clock P w)"
proof (induction "nat (deadline - clock P w)" arbitrary: w rule: less_induct)
  case less
  obtain r w1 where s: "snapshot_targets P (\<lambda>n. roots P n root_path additional) w = (r, w1)" by fastforce
  have w1: "clock P w \<le> clock P w1" "pw_waited w1 = pw_waited w"
    using clock_snapshot [OF assms, of w "\<lambda>n. roots P n root_path additional"]
      waited_snapshot [of P "\<lambda>n. roots P n root_path additional" w] s by simp_all
  note unfold = wait_stopped.simps [of P root_path additional deadline w] s
  show ?case
  proof (cases "r = Inr []")
    case True
    then show ?thesis using s snapshot_stopped [of P "\<lambda>n. roots P n root_path additional" w w1] w1
      by (auto simp: unfold)
  next
    case False
    obtain t w2 where n: "now P w1 = (t, w2)" by fastforce
    have t: "t = clock P w1" "pw_waited w2 = pw_waited w" "clock P w1 \<le> clock P w2"
      using now_simps [of P w1] n w1 clock_call [OF assms, of w1 "[]"] by (simp_all add: call_def)
    show ?thesis
    proof (cases "deadline - t \<le> 0")
      case True
      then show ?thesis using False n t w1 by (auto simp: unfold)
    next
      case later: False
      let ?ms = "min 500 (deadline - t)" and ?w = "wait (min 500 (deadline - t)) w2"
      have ms: "0 < ?ms" "?ms \<le> deadline - t" using later by simp_all
      have c: "clock P w2 + ?ms \<le> clock P ?w" by (rule clock_wait [OF assms])
      then have "nat (deadline - clock P ?w) < nat (deadline - clock P w)" using ms w1 t by linarith
      from less [OF this] obtain b w' where *: "wait_stopped P root_path additional deadline ?w = Some (b, w')"
        "b \<longrightarrow> seen_stopped P (roots P (pw_step w') root_path additional) w'"
        "pw_waited w' \<le> max (pw_waited ?w) (pw_waited ?w + deadline - clock P ?w)" by blast
      have "pw_waited ?w = pw_waited w + ?ms" using t by (simp add: wait_def call_def)
      then have "pw_waited w' \<le> max (pw_waited w) (pw_waited w + deadline - clock P w)"
        using *(3) c ms w1(1) t by linarith
      then show ?thesis using False later n * by (simp add: unfold)
    qed
  qed
qed

lemma wait_closed_ends:
  assumes "mono (pv_elapsed P)"
  shows "\<exists>r w'. wait_closed P allowed deadline w = Some (r, w') \<and> (r = Inr () \<longrightarrow> seen_stopped P (Inr allowed) w')"
proof (induction "nat (deadline - clock P w)" arbitrary: w rule: less_induct)
  case less
  obtain r w1 where s: "snapshot_targets P (\<lambda>n. Inr allowed) w = (r, w1)" by fastforce
  have w1: "clock P w \<le> clock P w1" using clock_snapshot [OF assms, of w "\<lambda>n. Inr allowed"] s by simp
  note unfold = wait_closed.simps [of P allowed deadline w] s
  show ?case
  proof (cases r)
    case (Inr remaining)
    show ?thesis
    proof (cases "remaining = []")
      case True
      then show ?thesis using s Inr snapshot_stopped [of P "\<lambda>n. Inr allowed" w w1] by (simp add: unfold)
    next
      case False
      let ?w3 = "call [] (call [] w1)"
      let ?ms = "min 100 (max 1 (deadline - clock P (call [] w1)))"
      show ?thesis
      proof (cases "clock P w1 \<ge> deadline")
        case True
        then show ?thesis using Inr False by (simp add: unfold now_simps case_prod_beta)
      next
        case later: False
        have "clock P ?w3 + ?ms \<le> clock P (wait ?ms ?w3)" by (rule clock_wait [OF assms])
        moreover have "clock P w1 \<le> clock P ?w3"
          using clock_call [OF assms, of w1 "[]"] clock_call [OF assms, of "call [] w1" "[]"] by simp
        ultimately have "nat (deadline - clock P (wait ?ms ?w3)) < nat (deadline - clock P w)"
          using w1 later by linarith
        from less [OF this] show ?thesis using Inr False later by (simp add: unfold now_simps case_prod_beta)
      qed
    qed
  qed (simp add: unfold)
qed

lemma closing_ends:
  assumes "mono (pv_elapsed P)"
  shows "\<exists>r w'. closing P allowed timeout w = Some (r, w') \<and> (r = Inr () \<longrightarrow> seen_stopped P (Inr allowed) w')"
proof -
  obtain c w1 where c: "checked_targets P allowed w = (c, w1)" by fastforce
  show ?thesis
  proof (cases c)
    case (Inr pending)
    obtain s w2 where s: "close_targets P allowed pending (call [] w1) = (s, w2)" by fastforce
    show ?thesis
    proof (cases s)
      case (Inr u)
      then show ?thesis using c \<open>c = Inr pending\<close> s wait_closed_ends [OF assms, of allowed "clock P w1 + timeout" w2]
        by (simp add: closing_def case_prod_beta now_simps)
    qed (use c \<open>c = Inr pending\<close> s in \<open>simp add: closing_def case_prod_beta now_simps\<close>)
  qed (use c in \<open>simp add: closing_def\<close>)
qed

subsection \<open>A system\<close>

text \<open>A system with one process of the installation that ends when it is asked to, and an updater that runs elsewhere.\<close>

definition process_row :: "rat \<Rightarrow> string \<Rightarrow> installation_process" where
  "process_row pid exe = \<lparr>ip_pid = pid, ip_parentPid = 1, ip_executable = Some (js exe), ip_identity = js ''t'', ip_sameUser = True,
     ip_canClose = True\<rparr>"

definition quiet_provider :: provider where
  "quiet_provider = \<lparr>pv_platform = Linux, pv_currentPid = 100, pv_canonical = (\<lambda>n p. Inr p),
     pv_list = (\<lambda>n. Inr (process_row 100 ''/tmp/meshtalk'' # (if n < 3 then [process_row 2 ''/i/meshtalk''] else []))),
     pv_close = (\<lambda>n. Inr ()), pv_elapsed = int, pv_lower = (\<lambda>s. s)\<rparr>"

definition start_world :: process_world where
  "start_world = \<lparr>pw_step = 0, pw_waited = 0, pw_events = []\<rparr>"

declare wait_closed.simps [code] wait_stopped.simps [code]

lemma quiet_closing:
  "close_processes quiet_provider (js ''/i'') [] 1000 start_world = Some (Inr (),
   \<lparr>pw_step = 5, pw_waited = 0, pw_events = [Snapshot [process_row 100 ''/tmp/meshtalk'', process_row 2 ''/i/meshtalk''],
     Snapshot [process_row 100 ''/tmp/meshtalk'', process_row 2 ''/i/meshtalk''], Closing (process_row 2 ''/i/meshtalk''),
     Snapshot [process_row 100 ''/tmp/meshtalk'']]\<rparr>)"
  by code_simp

subsection \<open>Properties\<close>



text \<open>C30. Inspections end and believe only a snapshot. Where the clock does not go backwards, waiting for an installation
  returns after waiting no longer than its timeout and closing one returns, with a result or an error. Both report that
  nothing runs only after a complete snapshot without a process of the installation.\<close>

theorem inspections_end:
  assumes "mono (pv_elapsed P)"
  shows "(case waitUntilStopped P root_path additional timeout w of
      None \<Rightarrow> False
    | Some (Inr stopped, w') \<Rightarrow> pw_waited w' \<le> pw_waited w + timeout
        \<and> (if stopped then seen_stopped P (roots P (pw_step w') root_path additional) w' else True)
    | Some (Inl e, w') \<Rightarrow> timeout < 0 \<and> w' = w)
   \<and> (case close_processes P root_path additional timeout w of
      None \<Rightarrow> False
    | Some (Inr u, w') \<Rightarrow> seen_stopped P (roots P (pw_step w) root_path additional) w'
    | Some (Inl e, w') \<Rightarrow> True)"
proof (intro conjI)
  obtain b w' where "wait_stopped P root_path additional (clock P w + timeout) (call [] w) = Some (b, w')"
    "b \<longrightarrow> seen_stopped P (roots P (pw_step w') root_path additional) w'"
    "pw_waited w' \<le> max (pw_waited (call [] w)) (pw_waited (call [] w) + (clock P w + timeout) - clock P (call [] w))"
    using wait_stopped_ends [OF assms, of root_path additional "clock P w + timeout" "call [] w"] by auto
  then show "case waitUntilStopped P root_path additional timeout w of
      None \<Rightarrow> False
    | Some (Inr stopped, w') \<Rightarrow> pw_waited w' \<le> pw_waited w + timeout
        \<and> (if stopped then seen_stopped P (roots P (pw_step w') root_path additional) w' else True)
    | Some (Inl e, w') \<Rightarrow> timeout < 0 \<and> w' = w"
    using clock_call [OF assms, of w "[]"] by (auto simp: waitUntilStopped_def case_prod_beta now_simps call_def)
next
  show "case close_processes P root_path additional timeout w of
      None \<Rightarrow> False
    | Some (Inr u, w') \<Rightarrow> seen_stopped P (roots P (pw_step w) root_path additional) w'
    | Some (Inl e, w') \<Rightarrow> True"
  proof (cases "roots P (pw_step w) root_path additional")
    case (Inr allowed)
    obtain r w' where "closing P allowed timeout w = Some (r, w')" "r = Inr () \<longrightarrow> seen_stopped P (Inr allowed) w'"
      using closing_ends [OF assms] by blast
    then show ?thesis using Inr by (cases r) (simp_all add: close_processes_def)
  qed (simp add: close_processes_def)
qed

theorem inspections_end_witness:
  "mono (pv_elapsed quiet_provider) \<and> (case waitUntilStopped quiet_provider (js ''/i'') [] 1000 start_world of
      None \<Rightarrow> False
    | Some (Inr stopped, w') \<Rightarrow> pw_waited w' \<le> pw_waited start_world + 1000
        \<and> (if stopped then seen_stopped quiet_provider (roots quiet_provider (pw_step w') (js ''/i'') []) w' else True)
    | Some (Inl e, w') \<Rightarrow> (1000 :: int) < 0 \<and> w' = start_world)"
proof -
  have m: "mono (pv_elapsed quiet_provider)" by (simp add: quiet_provider_def mono_def)
  show ?thesis using m inspections_end [OF m, where root_path = "js ''/i''" and additional = "[]" and timeout = 1000 and w = start_world] by blast
qed

end
