(* ===== verification/Analytics.thy ===== *)
theory Analytics
  imports Updater CliText InstallState
begin

text \<open>
  \<open>common/analytics.ts\<close>: the choice of the user about analytics, kept in the settings file, and what is sent. The level
  in the environment is compared without regard to case; only ASCII letters matter, since no other character becomes
  a letter of these words.
\<close>

datatype consent = Pending | Accepted | Declined | NeverAskAgain

datatype analytics_level = Extended | Basic | Off

record consent_state =
  cs_consent :: consent
  cs_seenVersions :: "jsstr list"

record analytics_env =
  ae_analytics :: "jsstr option"
  ae_no_analytics :: "jsstr option"
  ae_do_not_track :: "jsstr option"
  ae_ci :: "jsstr option"
  ae_github_actions :: "jsstr option"
  ae_platform :: jsstr
  ae_arch :: jsstr

fun consent_text :: "consent \<Rightarrow> jsstr" where
  "consent_text Pending = js ''pending''"
| "consent_text Accepted = js ''accepted''"
| "consent_text Declined = js ''declined''"
| "consent_text NeverAskAgain = js ''never_ask_again''"

fun level_text :: "analytics_level \<Rightarrow> jsstr" where
  "level_text Extended = js ''extended''"
| "level_text Basic = js ''basic''"
| "level_text Off = js ''off''"

subsection \<open>Reading\<close>

text \<open>A settings file that is missing, no JSON or \<open>null\<close> has no properties.\<close>

definition setting :: "settings_file \<Rightarrow> string \<Rightarrow> json option" where
  "setting settings k = (case settings of None \<Rightarrow> None | Some j \<Rightarrow> prop_of j k)"

definition string_items :: "json option \<Rightarrow> jsstr list" where
  "string_items v = (case v of Some (JArr vs) \<Rightarrow> List.map_filter (\<lambda>j. string_value (Some j)) vs | _ \<Rightarrow> [])"

definition parse_consent :: "json option \<Rightarrow> consent" where
  "parse_consent v =
     (if v = Some (JStr (js ''accepted'')) then Accepted
      else if v = Some (JStr (js ''declined'')) then Declined
      else if v = Some (JStr (js ''never_ask_again'')) then NeverAskAgain else Pending)"

definition readConsent :: "settings_file \<Rightarrow> consent_state" where
  "readConsent settings = \<lparr>cs_consent = parse_consent (setting settings ''analytics_consent''),
     cs_seenVersions = string_items (setting settings ''analytics_seen_versions'')\<rparr>"

definition promptedVersions :: "settings_file \<Rightarrow> jsstr list" where
  "promptedVersions settings = string_items (setting settings ''analytics_prompted_versions'')"

definition readLevel :: "settings_file \<Rightarrow> analytics_level" where
  "readLevel settings =
     (let level = setting settings ''analytics_level''; consent = setting settings ''analytics_consent'' in
      if level = Some (JStr (js ''extended'')) then Extended
      else if level = Some (JStr (js ''basic'')) then Basic
      else if level = Some (JStr (js ''off'')) then Off
      else if consent = Some (JStr (js ''accepted'')) then Extended
      else Off)"

subsection \<open>Writing\<close>

definition dedupe :: "'a list \<Rightarrow> 'a list" where
  "dedupe xs = foldl (\<lambda>s x. set_add x s) [] xs"

definition settings_data :: "settings_file \<Rightarrow> json" where
  "settings_data settings = (case settings of Some j \<Rightarrow> j | None \<Rightarrow> JObj [])"

definition versions_json :: "jsstr list \<Rightarrow> json" where
  "versions_json vs = JArr (map JStr (dedupe vs))"

definition writeConsent :: "consent \<Rightarrow> jsstr list option \<Rightarrow> settings_file \<Rightarrow> json outcome" where
  "writeConsent c seen settings =
     and_then (assign (settings_data settings) ''analytics_consent'' (JStr (consent_text c))) (\<lambda>j.
     assign j ''analytics_seen_versions''
       (versions_json (case seen of Some vs \<Rightarrow> vs | None \<Rightarrow> cs_seenVersions (readConsent settings))))"

definition writeLevel :: "analytics_level \<Rightarrow> settings_file \<Rightarrow> json outcome" where
  "writeLevel l settings =
     and_then (assign (settings_data settings) ''analytics_level'' (JStr (level_text l))) (\<lambda>j.
     assign j ''analytics_consent'' (JStr (consent_text (if l = Off then Declined else Accepted))))"

definition markPrompted :: "jsstr \<Rightarrow> settings_file \<Rightarrow> json outcome" where
  "markPrompted version settings =
     assign (settings_data settings) ''analytics_prompted_versions'' (versions_json (promptedVersions settings @ [version]))"

text \<open>The new content is written beside the file, over whatever is there, and renamed.\<close>

definition write_file :: "path \<Rightarrow> content \<Rightarrow> unit io" where
  "write_file p c = seq (reading (\<lambda>d. realpath d p)) (\<lambda>r. case r of
     None \<Rightarrow> write_new p c
   | Some q \<Rightarrow> andthen (fill q (Blob [])) (fill q c))"

definition save_analytics :: "path \<Rightarrow> (settings_file \<Rightarrow> json outcome) \<Rightarrow> unit io" where
  "save_analytics p f = seq (reading (\<lambda>d. read_json d p)) (\<lambda>settings. case f settings of
     Inl e \<Rightarrow> raise Thrown
   | Inr j \<Rightarrow> let tmp = butlast p @ [last p @ js ''.analytics.tmp''] in
       andthen (mkdir_all (butlast p)) (andthen (write_file tmp (Document j)) (rename tmp p)))"

subsection \<open>What is allowed\<close>

definition envLevel :: "analytics_env \<Rightarrow> analytics_level option" where
  "envLevel env =
     (let raw = lower_ascii (trim (case ae_analytics env of Some v \<Rightarrow> v | None \<Rightarrow> [])) in
      if raw \<in> {js ''off'', js ''0'', js ''disabled''} then Some Off
      else if raw \<in> {js ''basic'', js ''tier0'', js ''minimal''} then Some Basic
      else if raw \<in> {js ''1'', js ''true'', js ''extended'', js ''tier1''} then Some Extended
      else None)"

definition analyticsDisabledByEnv :: "analytics_env \<Rightarrow> bool" where
  "analyticsDisabledByEnv env \<longleftrightarrow> ae_no_analytics env = Some (js ''1'') \<or> ae_do_not_track env = Some (js ''1'')
     \<or> truthy (ae_ci env) \<or> truthy (ae_github_actions env)"

definition hasExplicitAnalyticsChoice :: "settings_file \<Rightarrow> bool" where
  "hasExplicitAnalyticsChoice settings =
     (let consent = cs_consent (readConsent settings) in
      if consent = NeverAskAgain then True
      else if consent = Accepted \<and> promptedVersions settings = [] then False
      else consent = Accepted)"

definition shouldPrompt :: "jsstr \<Rightarrow> consent_state \<Rightarrow> jsstr list \<Rightarrow> bool" where
  "shouldPrompt version state prompts \<longleftrightarrow>
     cs_consent state \<noteq> Accepted \<and> cs_consent state \<noteq> NeverAskAgain \<and> version \<notin> set prompts"

definition isTier0Allowed :: "analytics_env \<Rightarrow> bool \<Rightarrow> settings_file \<Rightarrow> bool \<Rightarrow> bool" where
  "isTier0Allowed env releaseBuild settings dryRun =
     (if \<not> releaseBuild \<or> dryRun \<or> analyticsDisabledByEnv env then False
      else let level = (case envLevel env of Some l \<Rightarrow> l | None \<Rightarrow> readLevel settings) in level = Extended \<or> level = Basic)"

definition isTier1Allowed :: "analytics_env \<Rightarrow> bool \<Rightarrow> settings_file \<Rightarrow> bool \<Rightarrow> bool" where
  "isTier1Allowed env releaseBuild settings dryRun =
     (if \<not> releaseBuild \<or> dryRun \<or> analyticsDisabledByEnv env then False
      else case envLevel env of Some l \<Rightarrow> l = Extended | None \<Rightarrow> readLevel settings = Extended)"

definition isAnalyticsAllowed :: "analytics_env \<Rightarrow> bool \<Rightarrow> settings_file \<Rightarrow> bool \<Rightarrow> bool" where
  "isAnalyticsAllowed env releaseBuild settings dryRun = isTier1Allowed env releaseBuild settings dryRun"

subsection \<open>What is sent\<close>

definition tier0Payload :: "analytics_env \<Rightarrow> jsstr \<Rightarrow> json_object" where
  "tier0Payload env version = [(js ''tier'', JNum 0), (js ''app_version'', JStr version), (js ''os'', JStr (ae_platform env)),
     (js ''arch'', JStr (ae_arch env)), (js ''release'', JBool True)]"

definition validTier0Payload :: "json_object \<Rightarrow> bool" where
  "validTier0Payload payload \<longleftrightarrow>
     field payload ''os'' \<in> {Some (JStr (js ''darwin'')), Some (JStr (js ''linux'')), Some (JStr (js ''win32''))}
     \<and> field payload ''arch'' \<in> {Some (JStr (js ''arm64'')), Some (JStr (js ''x64''))}"

text \<open>What is posted, if anything, and whether it succeeded; \<open>None\<close> is an answer that never came.\<close>

definition sendTier0 :: "analytics_env \<Rightarrow> (json_object \<Rightarrow> nat option) \<Rightarrow> jsstr \<Rightarrow> json_object option \<times> bool" where
  "sendTier0 env post version =
     (let payload = tier0Payload env version in
      if \<not> validTier0Payload payload then (None, False)
      else (Some payload, case post payload of Some status \<Rightarrow> status_ok status | None \<Rightarrow> False))"

subsection \<open>The choice of the user stays\<close>

datatype analytics_write =
    WriteLevel analytics_level
  | WriteConsent consent "jsstr list option"
  | MarkPrompted jsstr

fun written :: "analytics_write \<Rightarrow> settings_file \<Rightarrow> json outcome" where
  "written (WriteLevel l) settings = writeLevel l settings"
| "written (WriteConsent c seen) settings = writeConsent c seen settings"
| "written (MarkPrompted v) settings = markPrompted v settings"

text \<open>A write that throws leaves the file as it is.\<close>

definition after_write :: "analytics_write \<Rightarrow> settings_file \<Rightarrow> settings_file" where
  "after_write op settings = (case written op settings of Inl e \<Rightarrow> settings | Inr j \<Rightarrow> Some j)"

definition has_object :: "settings_file \<Rightarrow> bool" where
  "has_object settings = (case settings of None \<Rightarrow> True | Some (JObj kvs) \<Rightarrow> True | _ \<Rightarrow> False)"

definition analytics_keys :: "string list" where
  "analytics_keys = [''analytics_level'', ''analytics_consent'', ''analytics_seen_versions'', ''analytics_prompted_versions'']"

lemma setting_assign: "setting (Some (JObj (map_set (js k) v kvs))) k' = (if k' = k then Some v else field kvs k')"
  by (simp add: setting_def prop_of_def field_def map_get_def [symmetric])

lemma after_write_object:
  assumes "has_object settings"
  shows "has_object (after_write op settings)"
    "k \<notin> set analytics_keys \<Longrightarrow> setting (after_write op settings) k = setting settings k"
    "(case op of WriteLevel l \<Rightarrow> False | _ \<Rightarrow> True) \<Longrightarrow> setting (after_write op settings) ''analytics_level'' = setting settings ''analytics_level''"
    "setting (after_write (WriteLevel l) settings) ''analytics_level'' = Some (JStr (level_text l))"
proof -
  obtain kvs where kvs: "settings_data settings = JObj kvs" "setting settings = field kvs"
    using assms by (auto simp: has_object_def settings_data_def setting_def prop_of_def field_def fun_eq_iff split: option.splits json.splits)
  have s: "setting (Some (JObj o')) = field o'" for o' by (auto simp: setting_def prop_of_def)
  have f: "field (map_set (js k) v m) k' = (if k' = k then Some v else field m k')" for k k' v m
    using setting_assign [of k v m k'] by (simp add: s)
  note defs = after_write_def writeLevel_def writeConsent_def markPrompted_def and_then_def kvs s f
  show "has_object (after_write op settings)" by (cases op) (simp_all add: defs has_object_def)
  show "k \<notin> set analytics_keys \<Longrightarrow> setting (after_write op settings) k = setting settings k"
    by (cases op) (simp_all add: defs analytics_keys_def)
  show "(case op of WriteLevel l \<Rightarrow> False | _ \<Rightarrow> True) \<Longrightarrow> setting (after_write op settings) ''analytics_level'' = setting settings ''analytics_level''"
    by (cases op) (simp_all add: defs)
  show "setting (after_write (WriteLevel l) settings) ''analytics_level'' = Some (JStr (level_text l))" by (simp add: defs)
qed

lemma after_writes:
  assumes "has_object settings" "list_all (\<lambda>op. case op of WriteLevel l \<Rightarrow> False | _ \<Rightarrow> True) ops"
  shows "setting (fold after_write ops settings) ''analytics_level'' = setting settings ''analytics_level''"
    "has_object (fold after_write ops settings)"
    "k \<notin> set analytics_keys \<Longrightarrow> setting (fold after_write ops settings) k = setting settings k"
  using assms by (induction ops arbitrary: settings) (simp_all add: after_write_object)

lemma level_of_setting: "setting settings ''analytics_level'' = Some (JStr (level_text l)) \<Longrightarrow> readLevel settings = l"
  by (cases l) (simp_all add: readLevel_def)

text \<open>C31. The choice about analytics stays. After the user has set a level, whatever else is written about analytics, that level
  is read: nothing is sent where it is off, the version where it is basic, and counters only where it is extended, unless the
  environment says otherwise; \<open>DO_NOT_TRACK\<close> and the other switches of the environment always win. No other setting is
  lost.\<close>

theorem analytics_choice:
  assumes "has_object settings" "list_all (\<lambda>op. case op of WriteLevel l \<Rightarrow> False | _ \<Rightarrow> True) ops"
  shows "readLevel (fold after_write (WriteLevel l # ops) settings) = l
    \<and> isTier0Allowed env True (fold after_write (WriteLevel l # ops) settings) False
        = (\<not> analyticsDisabledByEnv env \<and> (case envLevel env of Some v \<Rightarrow> v | None \<Rightarrow> l) \<noteq> Off)
    \<and> isTier1Allowed env True (fold after_write (WriteLevel l # ops) settings) False
        = (\<not> analyticsDisabledByEnv env \<and> (case envLevel env of Some v \<Rightarrow> v | None \<Rightarrow> l) = Extended)
    \<and> (k \<in> set analytics_keys
        \<or> setting (fold after_write (WriteLevel l # ops) settings) k = setting settings k)"
proof -
  note o = after_write_object [OF assms(1)]
  have level: "readLevel (fold after_write ops (after_write (WriteLevel l) settings)) = l"
    by (rule level_of_setting) (simp add: after_writes(1) [OF o(1) assms(2)] o(4))
  have "k \<in> set analytics_keys \<or> setting (fold after_write ops (after_write (WriteLevel l) settings)) k = setting settings k"
    by (cases "k \<in> set analytics_keys") (simp_all add: after_writes(3) [OF o(1) assms(2)] o(2))
  moreover have "(v = Extended \<or> v = Basic) = (v \<noteq> Off)" for v by (cases v) simp_all
  ultimately show ?thesis using level by (auto simp: isTier0Allowed_def isTier1Allowed_def split: option.split)
qed

theorem analytics_choice_witness:
  "has_object (Some (JObj [(js ''theme'', JStr (js ''dark''))]))
   \<and> readLevel (fold after_write [WriteLevel Off, MarkPrompted (js ''1.0.0''), WriteConsent Accepted None]
       (Some (JObj [(js ''theme'', JStr (js ''dark''))]))) = Off"
  using analytics_choice [of "Some (JObj [(js ''theme'', JStr (js ''dark''))])" "[MarkPrompted (js ''1.0.0''), WriteConsent Accepted None]" Off]
  by (simp add: has_object_def)

text \<open>The version is sent without an explicit choice where an earlier build has recorded one.\<close>

lemma implicit_choice_sends:
  "let settings = Some (JObj [(js ''analytics_consent'', JStr (js ''accepted''))]) in
   \<not> hasExplicitAnalyticsChoice settings \<and>
   isTier0Allowed \<lparr>ae_analytics = None, ae_no_analytics = None, ae_do_not_track = None, ae_ci = None, ae_github_actions = None,
     ae_platform = js ''linux'', ae_arch = js ''x64''\<rparr> True settings False"
  by code_simp

end
