(* ===== verification/LaunchBackend.thy ===== *)
theory LaunchBackend
  imports UpdateInstall InstallProcesses Analytics
begin

text \<open>
  \<open>bin/meshtalk.ts\<close>, first half: the launcher and its backend. What the launcher gets from the system comes from its
  host: every answer may depend on how many calls there have been, so that the system may change in any way between two
  calls. The clock does not go backwards: \<open>lh_passed\<close> is the time that a call takes. The files are those of the
  installation model, so that the operations of \<open>common/\<close> are the modelled ones. It is the code on Linux and macOS.
\<close>

datatype boot_error = Io io_error | Js js_error

datatype kill_result = Sent | NoProcess | NotPermitted

datatype socket_event = Connected | Received jsstr | SocketError | TimedOut

datatype splash = Card | BootLog | NoSplash

text \<open>What can be seen of a run, in order.\<close>

datatype launcher_event =
    Printed jsstr
  | Logged jsstr
  | Requested string bool
  | Probed int bool
  | Signalled int bool string
  | ListedOthers "nat list"
  | StartedBackend "jsstr list" "nat option" bool
  | KilledChild
  | StartedTui splash bool
  | TuiExited nat
  | DestroyedTui
  | PreparedRestart path
  | InstalledFrom path
  | StagedFrom path
  | Uninstalled path
  | ClosedProcesses path
  | RanCli "jsstr list"
  | Posted json_object

record launcher_world =
  lw_step :: nat
  lw_clock :: nat
  lw_events :: "launcher_event list"
  lw_files :: world
  lw_installed :: "installed_launcher option"

record launcher_host =
  lh_release :: bool
  lh_version :: jsstr
  lh_darwin :: bool
  lh_pid :: nat
  lh_home :: jsstr
  lh_path :: jsstr
  lh_argv :: "jsstr list"
  lh_root_variable :: jsstr
  lh_module_dir :: jsstr
  lh_stdin_tty :: bool
  lh_stderr_tty :: bool
  lh_can_exec :: bool
  lh_update :: update_host
  lh_updates :: update_env
  lh_analytics :: analytics_env
  lh_decode :: "content \<Rightarrow> jsstr"
  lh_number :: "jsstr \<Rightarrow> rat option"
  lh_parse :: "jsstr \<Rightarrow> json option"
  lh_lower :: "jsstr \<Rightarrow> jsstr"
  lh_passed :: "nat \<Rightarrow> nat"
  lh_socket :: "nat \<Rightarrow> socket_event list"
  lh_tcp :: "nat \<Rightarrow> socket_event list"
  lh_kill :: "nat \<Rightarrow> kill_result"
  lh_ps :: "nat \<Rightarrow> jsstr option"
  lh_child :: "nat \<Rightarrow> int option"
  lh_spawn :: "nat \<Rightarrow> nat option"
  lh_tui :: "nat \<Rightarrow> nat"
  lh_input :: "nat \<Rightarrow> jsstr"
  lh_running :: "nat \<Rightarrow> nat list outcome"
  lh_close :: "nat \<Rightarrow> unit outcome"
  lh_cli :: "nat \<Rightarrow> nat"
  lh_post :: "json_object \<Rightarrow> nat option"

definition install_env_of :: "launcher_host \<Rightarrow> install_env" where
  "install_env_of host = uh_install (lh_update host)"

definition data_dir :: "launcher_host \<Rightarrow> path" where
  "data_dir host = uh_data (lh_update host)"

subsection \<open>Programs\<close>

type_synonym 'a boot = "launcher_world \<Rightarrow> (boot_error + 'a) \<times> launcher_world"

definition give :: "'a \<Rightarrow> 'a boot" where
  "give x w = (Inr x, w)"

definition stop :: "boot_error \<Rightarrow> 'a boot" where
  "stop e w = (Inl e, w)"

definition chain :: "'a boot \<Rightarrow> ('a \<Rightarrow> 'b boot) \<Rightarrow> 'b boot" where
  "chain m f w = (case m w of (Inl e, w') \<Rightarrow> (Inl e, w') | (Inr x, w') \<Rightarrow> f x w')"

definition chain_do :: "unit boot \<Rightarrow> 'b boot \<Rightarrow> 'b boot" where
  "chain_do m k = chain m (\<lambda>u. k)"

definition rescue :: "'a boot \<Rightarrow> (boot_error \<Rightarrow> 'a boot) \<Rightarrow> 'a boot" where
  "rescue m h w = (case m w of (Inl e, w') \<Rightarrow> h e w' | (Inr x, w') \<Rightarrow> (Inr x, w'))"

definition tick :: "launcher_host \<Rightarrow> nat \<Rightarrow> launcher_event list \<Rightarrow> launcher_world \<Rightarrow> launcher_world" where
  "tick host ms es w = w\<lparr>lw_step := Suc (lw_step w), lw_clock := lw_clock w + ms + lh_passed host (lw_step w),
     lw_events := lw_events w @ es\<rparr>"

text \<open>One call of the system: its answer, and what it is recorded as.\<close>

definition asking :: "launcher_host \<Rightarrow> (nat \<Rightarrow> 'a) \<Rightarrow> ('a \<Rightarrow> launcher_event list) \<Rightarrow> 'a boot" where
  "asking host f es w = (Inr (f (lw_step w)), tick host 0 (es (f (lw_step w))) w)"

definition asking_or :: "launcher_host \<Rightarrow> (nat \<Rightarrow> 'a outcome) \<Rightarrow> ('a \<Rightarrow> launcher_event list) \<Rightarrow> 'a boot" where
  "asking_or host f es w = (case f (lw_step w) of
     Inl e \<Rightarrow> (Inl (Js e), tick host 0 [] w) | Inr x \<Rightarrow> (Inr x, tick host 0 (es x) w))"

definition saying :: "launcher_host \<Rightarrow> launcher_event \<Rightarrow> unit boot" where
  "saying host e w = (Inr (), tick host 0 [e] w)"

definition print :: "launcher_host \<Rightarrow> jsstr \<Rightarrow> unit boot" where
  "print host s = saying host (Printed s)"

definition log :: "launcher_host \<Rightarrow> jsstr \<Rightarrow> unit boot" where
  "log host s = saying host (Logged (js ''[meshtalk] '' @ s))"

definition pause :: "launcher_host \<Rightarrow> nat \<Rightarrow> launcher_world \<Rightarrow> launcher_world" where
  "pause host ms w = tick host ms [] w"

definition sleeping :: "launcher_host \<Rightarrow> nat \<Rightarrow> unit boot" where
  "sleeping host ms w = (Inr (), pause host ms w)"

text \<open>Programs over the files.\<close>

definition on_files :: "launcher_host \<Rightarrow> 'a io \<Rightarrow> 'a boot" where
  "on_files host m w = (case m (lw_files w) of
     (Inl e, fs) \<Rightarrow> (Inl (Io e), tick host 0 [] (w\<lparr>lw_files := fs\<rparr>))
   | (Inr x, fs) \<Rightarrow> (Inr x, tick host 0 [] (w\<lparr>lw_files := fs\<rparr>)))"

definition looking :: "(disk \<Rightarrow> 'a) \<Rightarrow> 'a boot" where
  "looking f w = (Inr (f (w_disk (lw_files w))), w)"

definition current_installed :: "installed_launcher option boot" where
  "current_installed w = (Inr (lw_installed w), w)"

definition set_installed :: "installed_launcher option \<Rightarrow> unit boot" where
  "set_installed l w = (Inr (), w\<lparr>lw_installed := l\<rparr>)"

definition failing :: "jsstr \<Rightarrow> 'a boot" where
  "failing s = stop (Js (ErrorMessage s))"

subsection \<open>Requests to the backend\<close>

datatype request_state = Connecting | Authenticating | Waiting | Finished "json option"

text \<open>The lines of one chunk of data. A chunk is split where it arrives: a message over two chunks does not parse.\<close>

fun answer_line :: "launcher_host \<Rightarrow> jsstr \<Rightarrow> request_state \<Rightarrow> request_state \<times> bool" where
  "answer_line host line Authenticating = (case lh_parse host line of
     None \<Rightarrow> (Finished None, False)
   | Some JNull \<Rightarrow> (Finished None, False)
   | Some msg \<Rightarrow> (if json_truthy (prop_of msg ''authenticated'') then Waiting else Finished None, True))"
| "answer_line host line Waiting = (case lh_parse host line of
     None \<Rightarrow> (Finished None, False) | Some msg \<Rightarrow> (Finished (Some msg), False))"
| "answer_line host line s = (s, False)"

text \<open>After the answer to the authentication the rest of the chunk is dropped. Once the request is finished nothing more
  counts.\<close>

fun on_chunk_lines :: "launcher_host \<Rightarrow> jsstr list \<Rightarrow> request_state \<Rightarrow> request_state" where
  "on_chunk_lines host [] s = s"
| "on_chunk_lines host (line # lines) s =
     (if trim line = [] then on_chunk_lines host lines s
      else case answer_line host line s of (s', return) \<Rightarrow> if return then s' else on_chunk_lines host lines s')"

text \<open>A connection has events until the request is finished; where they run out, it is as if the timeout had come. The code
  has no handler for a connection that is closed: without an answer, an error or a timeout its promise stays unsettled.\<close>

fun on_socket :: "launcher_host \<Rightarrow> socket_event list \<Rightarrow> request_state \<Rightarrow> request_state option" where
  "on_socket host [] s = Some (case s of Finished r \<Rightarrow> Finished r | _ \<Rightarrow> Finished None)"
| "on_socket host (e # es) s = (case s of
     Finished r \<Rightarrow> Some s
   | _ \<Rightarrow> (case e of
        Connected \<Rightarrow> on_socket host es Authenticating
      | Received chunk \<Rightarrow> on_socket host es (if s = Connecting then s else on_chunk_lines host (split_on 10 chunk) s)
      | TimedOut \<Rightarrow> Some (Finished None)
      | SocketError \<Rightarrow> None))"

definition finished_value :: "request_state option \<Rightarrow> json option" where
  "finished_value s = (case s of Some (Finished r) \<Rightarrow> r | _ \<Rightarrow> None)"

text \<open>An error of the local socket leads to the port that the backend has written down, if any.\<close>

definition backend_port :: "launcher_host \<Rightarrow> disk \<Rightarrow> bool" where
  "backend_port host d = (case read_file d (data_dir host @ [js ''meshtalk.port'']) of
     None \<Rightarrow> False
   | Some c \<Rightarrow> (case lh_number host (trim (lh_decode host c)) of Some n \<Rightarrow> of_int \<lfloor>n\<rfloor> = n \<and> 1 \<le> n \<and> n \<le> 65535 | None \<Rightarrow> False))"

definition request_answer :: "launcher_host \<Rightarrow> disk \<Rightarrow> nat \<Rightarrow> json option" where
  "request_answer host d n = (case on_socket host (lh_socket host n) Connecting of
     Some s \<Rightarrow> finished_value (Some s)
   | None \<Rightarrow> if backend_port host d then finished_value (on_socket host (lh_tcp host n) Connecting) else None)"

definition backendRequest :: "launcher_host \<Rightarrow> string \<Rightarrow> json option boot" where
  "backendRequest host action = chain (looking (\<lambda>d. d)) (\<lambda>d. asking host (request_answer host d) (\<lambda>r. [Requested action (json_truthy r)]))"

definition backendRunning :: "launcher_host \<Rightarrow> bool boot" where
  "backendRunning host = chain (backendRequest host ''identity'') (\<lambda>r. give (json_truthy r))"

subsection \<open>Waiting\<close>

lemma pause_clock: "lw_clock (pause host ms w) \<ge> lw_clock w + ms"
  by (simp add: pause_def tick_def)

lemma backendRunning_clock: "lw_clock (snd (backendRunning host w)) \<ge> lw_clock w"
  by (simp add: backendRunning_def backendRequest_def chain_def looking_def asking_def give_def tick_def)

text \<open>Until a condition holds or a deadline has passed; the condition is asked for between two pauses.\<close>

function until_stopped :: "launcher_host \<Rightarrow> nat \<Rightarrow> bool boot" where
  "until_stopped host deadline w =
     (if lw_clock w < deadline
      then case backendRunning host w of
          (Inl e, w1) \<Rightarrow> (Inl e, w1)
        | (Inr running, w1) \<Rightarrow> if \<not> running then (Inr True, w1) else until_stopped host deadline (pause host 200 w1)
      else (Inr False, w))"
  by pat_completeness auto
termination
proof (relation "measure (\<lambda>(host, deadline, w). deadline - lw_clock w)", goal_cases)
  case (2 host deadline w r w1 running)
  have "lw_clock w \<le> lw_clock w1" using backendRunning_clock [of w host] 2(2) [symmetric] by simp
  then show ?case using 2(1) pause_clock [of w1 200 host] by (simp add: diff_less_mono2)
qed simp

declare until_stopped.simps [simp del]

definition requestBackendShutdown :: "launcher_host \<Rightarrow> bool boot" where
  "requestBackendShutdown host = chain (backendRequest host ''shutdown'') (\<lambda>r.
     if \<not> json_truthy r then give False else (\<lambda>w. until_stopped host (lw_clock w + 5000) w))"

text \<open>Whether the child has exited while the launcher waits for the backend.\<close>

definition child_exited :: "launcher_host \<Rightarrow> bool \<Rightarrow> bool boot" where
  "child_exited host child = asking host (\<lambda>n. child \<and> lh_child host n \<noteq> None) (\<lambda>b. [])"

lemma child_exited_clock: "lw_clock (snd (child_exited host child w)) \<ge> lw_clock w"
  by (simp add: child_exited_def asking_def tick_def)

function until_ready :: "launcher_host \<Rightarrow> bool \<Rightarrow> nat \<Rightarrow> bool boot" where
  "until_ready host child deadline w =
     (if lw_clock w < deadline
      then case child_exited host child (pause host 300 w) of
          (Inl e, w1) \<Rightarrow> (Inl e, w1)
        | (Inr gone_child, w1) \<Rightarrow> if gone_child then (Inr False, w1) else (case backendRunning host w1 of
              (Inl e, w2) \<Rightarrow> (Inl e, w2)
            | (Inr running, w2) \<Rightarrow> if running then (Inr True, w2) else until_ready host child deadline w2)
      else (Inr False, w))"
  by pat_completeness auto
termination
proof (relation "measure (\<lambda>(host, child, deadline, w). deadline - lw_clock w)", goal_cases)
  case (2 host child deadline w r w1 gone_child r2 w2 running)
  have "lw_clock (pause host 300 w) \<le> lw_clock w1" using child_exited_clock [of "pause host 300 w" host child] 2(2) [symmetric] by simp
  moreover have "lw_clock w1 \<le> lw_clock w2" using backendRunning_clock [of w1 host] 2(5) [symmetric] by simp
  ultimately show ?case using 2(1) pause_clock [of w 300 host] by (simp add: diff_less_mono2)
qed simp

declare until_ready.simps [simp del]

definition waitForBackend :: "launcher_host \<Rightarrow> bool \<Rightarrow> bool boot" where
  "waitForBackend host child = chain (backendRunning host) (\<lambda>running.
     if running then give True else (\<lambda>w. until_ready host child (lw_clock w + 60000) w))"

end
