(* ===== verification/LaunchProcesses.thy ===== *)
theory LaunchProcesses
  imports LaunchBackend
begin

text \<open>
  \<open>bin/meshtalk.ts\<close>, second part: the processes of the launcher (starting, stopping and waiting for the backend, the other
  launchers), the programs that it runs, and closing an installation.
\<close>

subsection \<open>Process numbers\<close>

definition pid_path :: "launcher_host \<Rightarrow> path" where
  "pid_path host = data_dir host @ [js ''meshtalk.pid'']"

text \<open>What the pid file holds as a number, if it can be read.\<close>

definition pid_number :: "launcher_host \<Rightarrow> disk \<Rightarrow> rat option" where
  "pid_number host d = (case read_file d (pid_path host) of
     None \<Rightarrow> None | Some c \<Rightarrow> lh_number host (trim (lh_decode host c)))"

definition whole :: "rat option \<Rightarrow> int option" where
  "whole r = (case r of Some n \<Rightarrow> if of_int \<lfloor>n\<rfloor> = n then Some \<lfloor>n\<rfloor> else None | None \<Rightarrow> None)"

definition readPidFile :: "launcher_host \<Rightarrow> disk \<Rightarrow> int option" where
  "readPidFile host d = (case whole (pid_number host d) of Some n \<Rightarrow> if 0 < n then Some n else None | None \<Rightarrow> None)"

definition backendPidAlive :: "launcher_host \<Rightarrow> int \<Rightarrow> bool boot" where
  "backendPidAlive host pid = asking host (\<lambda>n. lh_kill host n = Sent) (\<lambda>b. [Probed pid b])"

lemma alive_clock: "lw_clock (snd (backendPidAlive host pid w)) \<ge> lw_clock w"
  by (simp add: backendPidAlive_def asking_def tick_def)

function until_exit :: "launcher_host \<Rightarrow> int \<Rightarrow> nat \<Rightarrow> bool boot" where
  "until_exit host pid deadline w = (case backendPidAlive host pid w of
     (Inl e, w1) \<Rightarrow> (Inl e, w1)
   | (Inr alive, w1) \<Rightarrow> if lw_clock w < deadline \<and> alive then until_exit host pid deadline (pause host 200 w1)
                       else (Inr (\<not> alive), w1))"
  by pat_completeness auto
termination
proof (relation "measure (\<lambda>(host, pid, deadline, w). deadline - lw_clock w)", goal_cases)
  case (2 host pid deadline w r w1 alive)
  have "lw_clock w \<le> lw_clock w1" using alive_clock [of w host pid] 2(1) [symmetric] by simp
  then show ?case using 2(3) pause_clock [of w1 200 host] by (simp add: diff_less_mono2)
qed simp

declare until_exit.simps [simp del]

definition waitForPidExit :: "launcher_host \<Rightarrow> int \<Rightarrow> nat \<Rightarrow> bool boot" where
  "waitForPidExit host pid timeout w = until_exit host pid (lw_clock w + timeout) w"

text \<open>Whether the process was there; any other error than its absence is thrown.\<close>

definition signalBackend :: "launcher_host \<Rightarrow> int \<Rightarrow> bool \<Rightarrow> string \<Rightarrow> bool boot" where
  "signalBackend host pid whole_group sig = asking_or host (\<lambda>n. case lh_kill host n of
     Sent \<Rightarrow> Inr True | NoProcess \<Rightarrow> Inr False | NotPermitted \<Rightarrow> Inl (ErrorMessage (js ''EPERM'')))
     (\<lambda>b. if b then [Signalled pid whole_group sig] else [])"

definition stopping :: "launcher_host \<Rightarrow> int \<Rightarrow> bool \<Rightarrow> bool \<Rightarrow> bool boot" where
  "stopping host pid daemonise child =
     (let whole_group = (daemonise \<or> lh_darwin host) in
      chain (backendPidAlive host pid) (\<lambda>alive. if \<not> alive then give True else
      chain (signalBackend host pid whole_group ''SIGTERM'') (\<lambda>sent. if \<not> sent then give True else
      chain (waitForPidExit host pid 5000) (\<lambda>gone_now. if gone_now then give True else
      chain_do (log host (js ''Backend did not stop gracefully; sending SIGKILL.''))
      (chain (signalBackend host pid whole_group ''SIGKILL'') (\<lambda>sent.
      chain_do (if child then saying host KilledChild else give ())
      (waitForPidExit host pid 3000)))))))"

definition stopBackend :: "launcher_host \<Rightarrow> int option \<Rightarrow> bool \<Rightarrow> bool \<Rightarrow> bool boot" where
  "stopBackend host pid daemonise child = chain (looking (\<lambda>d.
     if (pid = None \<or> pid = Some 0) \<and> daemonise then whole (pid_number host d) else pid)) (\<lambda>p. case p of
       None \<Rightarrow> give True
     | Some n \<Rightarrow> if n = 0 then give True else stopping host n daemonise child)"

definition reapBackendProcess :: "launcher_host \<Rightarrow> bool \<Rightarrow> unit boot" where
  "reapBackendProcess host child = (if child then asking host (\<lambda>n. ()) (\<lambda>u. []) else give ())"

subsection \<open>Other launchers\<close>

definition ps_entry :: "jsstr \<Rightarrow> (nat \<times> jsstr) option" where
  "ps_entry line = Option.bind (take_digits line) (\<lambda>(pid, r). Option.bind (after_space r) (\<lambda>name.
     if name = [] \<or> list_ex is_newline name then None else Some (pid, name)))"

fun ps_pids :: "launcher_host \<Rightarrow> jsstr list \<Rightarrow> (nat list \<times> bool) option" where
  "ps_pids host [] = Some ([], False)"
| "ps_pids host (line # lines) = (case (ps_entry (trim line), ps_pids host lines) of
     (Some (pid, name), Some (numbers, self)) \<Rightarrow>
       Some (if posix_basename name = js ''meshtalk'' \<and> pid \<noteq> lh_pid host then pid # numbers else numbers, self \<or> pid = lh_pid host)
   | _ \<Rightarrow> None)"

definition other_pids :: "launcher_host \<Rightarrow> jsstr option \<Rightarrow> nat list outcome" where
  "other_pids host out = (case out of
     None \<Rightarrow> Inl (failure_text ''Unable to check other MeshTalk windows. Close MeshTalk completely before restarting to update.'')
   | Some s \<Rightarrow> (case ps_pids host (split_on 10 (trim s)) of
        None \<Rightarrow> Inl (failure_text ''Unable to parse the running process list. Close MeshTalk completely before restarting to update.'')
      | Some (numbers, self) \<Rightarrow>
          if \<not> self then Inl (failure_text ''The running process list is incomplete. Close MeshTalk completely before restarting to update.'')
          else Inr numbers))"

definition otherLauncherPids :: "launcher_host \<Rightarrow> nat list boot" where
  "otherLauncherPids host = asking_or host (\<lambda>n. other_pids host (lh_ps host n)) (\<lambda>numbers. [ListedOthers numbers])"

subsection \<open>Programs to run\<close>

record boot_component =
  bc_command :: "jsstr list"
  bc_cwd :: "jsstr option"

definition join_path :: "jsstr \<Rightarrow> jsstr \<Rightarrow> path" where
  "join_path a b = resolve_parts [] (a @ 47 # b)"

definition is_file :: "disk \<Rightarrow> path \<Rightarrow> bool" where
  "is_file d p \<longleftrightarrow> read_file d p \<noteq> None"

definition findExecutable :: "launcher_host \<Rightarrow> disk \<Rightarrow> jsstr \<Rightarrow> path option" where
  "findExecutable host d name =
     (let dirs = filter (\<lambda>p. p \<noteq> []) (split_on 58 (lh_path host));
          candidates = map (\<lambda>p. join_path p name) dirs
            @ map (\<lambda>s. join_path (lh_home host) (js s @ name)) [''.local/bin/'', ''.bun/bin/'', ''.cargo/bin/'']
            @ [resolve_parts [] (js ''/usr/local/bin/'' @ name), resolve_parts [] (js ''/usr/bin/'' @ name)]
      in find (is_file d) candidates)"

definition resolveRoot :: "launcher_host \<Rightarrow> disk \<Rightarrow> jsstr" where
  "resolveRoot host d =
     (let candidates = filter (\<lambda>c. c \<noteq> []) [lh_root_variable host, lh_module_dir host,
            path_text (join_path (lh_module_dir host) (js ''..'')),
            path_text (join_path (lh_module_dir host) (js ''../install/global/node_modules/meshtalk''))]
      in case find (\<lambda>c. existsSync d (join_path c (js ''backend''))) candidates of Some c \<Rightarrow> c | None \<Rightarrow> hd candidates)"

text \<open>Beside the program itself: of a release the physical program, of a checkout the first that is there.\<close>

definition beside :: "jsstr \<Rightarrow> jsstr \<Rightarrow> path" where
  "beside executable name = butlast (resolve_parts [] executable) @ [name]"

definition bundledComponent :: "launcher_host \<Rightarrow> disk \<Rightarrow> jsstr \<Rightarrow> boot_component option" where
  "bundledComponent host d name =
     (let component = (\<lambda>p. \<lparr>bc_command = [path_text p], bc_cwd = None\<rparr>); exec = ie_execPath (install_env_of host) in
      if lh_release host
      then (case realpath d exec of
          Some q \<Rightarrow> if is_file d (butlast q @ [name]) then Some (component (butlast q @ [name])) else None
        | None \<Rightarrow> None)
      else map_option component (find (existsSync d)
        (map (\<lambda>e. beside e name) (filter (\<lambda>e. e \<noteq> []) (take 2 (lh_argv host) @ [path_text exec])))))"

definition resolveComponents :: "launcher_host \<Rightarrow> disk \<Rightarrow> boot_component outcome" where
  "resolveComponents host d = (case bundledComponent host d (js ''meshtalk-backend'') of
     Some c \<Rightarrow> Inr c
   | None \<Rightarrow>
       if lh_release host
       then Inl (failure_text ''The bundled MeshTalk backend is missing. Run the MeshTalk installer to repair this installation.'')
       else (case findExecutable host d (js ''uv'') of
           None \<Rightarrow> Inl (failure_text ''Release components are missing. Source development requires uv in PATH.'')
         | Some uv \<Rightarrow> Inr \<lparr>bc_command = [path_text uv, js ''run'', js ''meshtalk''],
             bc_cwd = Some (path_text (join_path (resolveRoot host d) (js ''backend'')))\<rparr>))"

subsection \<open>Starting the backend\<close>

definition startBackend :: "launcher_host \<Rightarrow> boot_component \<Rightarrow> bool \<Rightarrow> nat option boot" where
  "startBackend host component daemonise =
     chain_do (on_files host (append_text (data_dir host @ [js ''backend.log'']) []))
     (chain (asking host (lh_spawn host) (\<lambda>pid. [StartedBackend (bc_command component) pid (daemonise \<or> lh_darwin host)])) (\<lambda>pid.
      chain current_installed (\<lambda>installed.
      chain_do (case (pid, installed) of
          (Some n, Some l) \<Rightarrow> on_files host (retainChildRelease (install_env_of host) l n (js ''backend'')) | _ \<Rightarrow> give ())
      (chain_do (case pid of
          Some n \<Rightarrow> if daemonise then on_files host (write_file (pid_path host) (Blob (utf8_encode (decimal n)))) else give ()
        | None \<Rightarrow> give ())
      (give pid)))))"

subsection \<open>Closing an installation\<close>

text \<open>\<open>installationProcessPids\<close> and \<open>closeInstallationProcesses\<close> are those of the process controller, seen through what they
  return.\<close>

definition installation_pids :: "launcher_host \<Rightarrow> path \<Rightarrow> nat list boot" where
  "installation_pids host destination = chain (looking (\<lambda>d. installationProcessRoots (install_env_of host) d destination)) (\<lambda>r.
     if r = None then stop (Io no_entry) else asking_or host (lh_running host) (\<lambda>numbers. []))"

definition closeForInstallation :: "launcher_host \<Rightarrow> path \<Rightarrow> unit boot" where
  "closeForInstallation host destination = chain (looking (\<lambda>d. existsSync d destination)) (\<lambda>there.
     if \<not> there then give () else
     chain (installation_pids host destination) (\<lambda>numbers. if numbers = [] then give () else
     chain_do (print host (js ''Closing MeshTalk for installation. Active sessions and file transfers will be interrupted.''))
     (chain (backendRunning host) (\<lambda>running.
      chain_do (if \<not> running then give () else chain (requestBackendShutdown host) (\<lambda>down.
          if \<not> down then failing (js ''MeshTalk'' @ [39] @ js ''s backend did not shut down. Close MeshTalk manually and retry; the installation was not changed.'')
          else sleeping host 2000))
      (asking_or host (lh_close host) (\<lambda>u. [ClosedProcesses destination]))))))"

end
