(* ===== verification/LaunchMain.thy ===== *)
theory LaunchMain
  imports LaunchProcesses
begin

text \<open>
  \<open>bin/meshtalk.ts\<close>, last part: the commands of the launcher and its way from start to exit. A run ends with an exit
  code, or the process becomes another program (\<open>execve\<close>): a replaced process runs no exit handler.
\<close>

datatype boot_end = Ended nat | Replaced path "jsstr list"

definition lifting :: "'a outcome \<Rightarrow> 'a boot" where
  "lifting r = (case r of Inl e \<Rightarrow> stop (Js e) | Inr x \<Rightarrow> give x)"

definition program :: "launcher_host \<Rightarrow> jsstr" where
  "program host = (case lh_argv host of a # b # r \<Rightarrow> posix_basename b | [a] \<Rightarrow> posix_basename a | [] \<Rightarrow> [])"

definition expandHomePath :: "jsstr \<Rightarrow> jsstr \<Rightarrow> jsstr" where
  "expandHomePath home s = (let trimmed = trim s in
     if home \<noteq> [] \<and> (trimmed = [126] \<or> starts_with trimmed [126, 47] \<or> starts_with trimmed [126, 92]) then home @ drop 1 trimmed
     else trimmed)"

text \<open>What \<open>lh_update\<close> has as its data directory comes from the environment.\<close>

definition data_directory :: "jsstr \<Rightarrow> jsstr option \<Rightarrow> jsstr" where
  "data_directory home variable = (case variable of
     Some v \<Rightarrow> if v = [] then home @ js ''/.meshtalk'' else expandHomePath home v
   | None \<Rightarrow> home @ js ''/.meshtalk'')"

definition settings_now :: "launcher_host \<Rightarrow> disk \<Rightarrow> settings_file" where
  "settings_now host d = read_json d (settings_path (lh_update host))"

definition savedSplashStyle :: "launcher_host \<Rightarrow> disk \<Rightarrow> splash" where
  "savedSplashStyle host d = (case settings_now host d of
     None \<Rightarrow> Card
   | Some j \<Rightarrow> (let style = prop_of j ''splash_style'' in
       if style = Some (JStr (js ''boot-log'')) then BootLog else if style = Some (JStr (js ''off'')) then NoSplash else Card))"

definition splash_value :: "jsstr list \<Rightarrow> jsstr option" where
  "splash_value args = (case args of
     [a] \<Rightarrow> if starts_with a (js ''--splash='') then Some (drop 9 a) else None
   | [a, b] \<Rightarrow> if a = js ''--splash'' then Some b else None
   | _ \<Rightarrow> None)"

definition splashOption :: "launcher_host \<Rightarrow> jsstr list \<Rightarrow> splash option outcome" where
  "splashOption host args = (case splash_value args of
     None \<Rightarrow> Inr None
   | Some v \<Rightarrow>
       if v = js ''false'' \<or> v = js ''off'' then Inr (Some NoSplash)
       else if v = js ''card'' then Inr (Some Card)
       else if v = js ''boot-log'' then Inr (Some BootLog)
       else Inl (ErrorMessage (js ''Usage: '' @ program host @ js '' [--splash=false|card|boot-log]'')))"

definition resolved_path :: "launcher_host \<Rightarrow> jsstr \<Rightarrow> path" where
  "resolved_path host s = resolve_parts (ie_cwd (install_env_of host)) s"

subsection \<open>The update command\<close>

definition readConfirmation :: "launcher_host \<Rightarrow> bool boot" where
  "readConfirmation host =
     (if \<not> lh_stdin_tty host then give False
      else chain_do (print host (js ''Install now? [y/N] ''))
        (asking host (\<lambda>n. lower_ascii (trim (lh_input host n)) \<in> {js ''y'', js ''yes''}) (\<lambda>b. [])))"

definition repository_now :: "launcher_host \<Rightarrow> jsstr boot" where
  "repository_now host = chain (looking (\<lambda>d. githubRepository (ue_user (lh_updates host)) (ue_repo (lh_updates host))
     (readSettingsFile d (settings_path (lh_update host))))) lifting"

definition update_repo :: "launcher_host \<Rightarrow> jsstr list \<Rightarrow> unit boot" where
  "update_repo host args =
     (if args = [js ''repo'', js ''clear'']
      then chain_do (on_files host (save_repository (lh_update host) None None))
        (chain (repository_now host) (\<lambda>r. print host (js ''GitHub repository reset to '' @ r @ [46])))
      else case args of
        [a] \<Rightarrow> chain (repository_now host) (\<lambda>r. print host (js ''GitHub repository: '' @ r))
      | [a, user, repo] \<Rightarrow> chain_do (on_files host (save_repository (lh_update host) (Some user) (Some repo)))
          (chain (repository_now host) (\<lambda>r. print host (js ''GitHub repository saved: '' @ r @ [46])))
      | _ \<Rightarrow> failing (js ''Usage: '' @ program host @ js '' update repo <user> <repository>|clear''))"

definition update_token :: "launcher_host \<Rightarrow> jsstr list \<Rightarrow> unit boot" where
  "update_token host args =
     (if args = [js ''token'', js ''clear'']
      then chain_do (on_files host (save_token (lh_update host) None))
        (print host (js ''Saved GitHub token removed from ~/.meshtalk/settings.json.''))
      else case args of
        [a, token] \<Rightarrow>
          if token = [] then failing (js ''Usage: '' @ program host @ js '' update token <token>|clear'')
          else chain_do (saying host (Logged (js ''Warning: this GitHub token is stored unencrypted in ~/.meshtalk/settings.json.'')))
            (chain_do (on_files host (save_token (lh_update host) (Some token))) (print host (js ''GitHub token saved.'')))
      | _ \<Rightarrow> failing (js ''Usage: '' @ program host @ js '' update token <token>|clear''))"

text \<open>The options: whether to install without asking, and where.\<close>

fun update_options :: "launcher_host \<Rightarrow> jsstr list \<Rightarrow> bool \<Rightarrow> path option \<Rightarrow> (bool \<times> path option) option" where
  "update_options host [] install dir = Some (install, dir)"
| "update_options host (a # args) install dir =
     (if a = js ''--install'' \<and> \<not> install then update_options host args True dir
      else case args of
        x # rest \<Rightarrow> if a = js ''--dir'' \<and> dir = None \<and> x \<noteq> [] then update_options host rest install (Some (resolved_path host x)) else None
      | [] \<Rightarrow> None)"

definition available_update :: "launcher_host \<Rightarrow> disk \<Rightarrow> release option outcome" where
  "available_update host d = (let settings = readSettingsFile d (settings_path (lh_update host)) in
     checkForUpdate ((lh_updates host)\<lparr>ue_settings := settings\<rparr>) (lh_version host) (readUpdateChannel settings))"

definition reinstall_hint :: string where
  "reinstall_hint = ''Try reinstalling MeshTalk using the quick install script: https://github.com/QinCai-rui/MeshTalk#quick-install''"

definition install_update :: "launcher_host \<Rightarrow> release \<Rightarrow> path option \<Rightarrow> unit boot" where
  "install_update host release installDir =
     chain (looking (\<lambda>d. case installDir of Some p \<Rightarrow> Some p | None \<Rightarrow> releaseInstallDir (install_env_of host) d (lh_argv host)))
       (\<lambda>destination. case destination of
         None \<Rightarrow> failing (js (''Unable to locate the standalone MeshTalk installation. Use --dir <directory> to select one. '' @ reinstall_hint))
       | Some p \<Rightarrow> chain (looking (\<lambda>d. isReleaseInstallDir (install_env_of host) d p)) (\<lambda>ok.
           if \<not> ok then failing (js (''Update directory must contain the current MeshTalk release binaries. '' @ reinstall_hint))
           else chain_do (print host (js ''Downloading and installing MeshTalk '' @ rel_version release @ js ''...''))
             (chain_do (on_files host (installRelease (lh_update host) release p))
             (print host (js ''Update installed and verified. Restart MeshTalk to use the new version.'')))))"

definition update_now :: "launcher_host \<Rightarrow> bool \<Rightarrow> path option \<Rightarrow> unit boot" where
  "update_now host install installDir =
     chain (chain (looking (available_update host)) lifting) (\<lambda>found. case found of
       None \<Rightarrow> print host (js ''MeshTalk '' @ lh_version host @ js '' is up to date, or release metadata is unavailable.'')
     | Some release \<Rightarrow>
         chain_do (print host (js ''MeshTalk '' @ rel_version release @ js '' is available (installed: '' @ lh_version host @ js '').''))
         (chain (if install then give True else readConfirmation host) (\<lambda>yes.
            if \<not> yes then print host (js ''Update skipped.'') else install_update host release installDir)))"

definition runUpdate :: "launcher_host \<Rightarrow> jsstr list \<Rightarrow> unit boot" where
  "runUpdate host args =
     (if args \<noteq> [] \<and> hd args = js ''repo'' then update_repo host args
      else if args \<noteq> [] \<and> hd args = js ''token'' then update_token host args
      else if \<not> lh_release host then print host (js ''Update checks are available only in compiled MeshTalk releases.'')
      else case update_options host args False None of
          None \<Rightarrow> failing (js ''Usage: '' @ program host @ js '' update [--install] [--dir <directory>]'')
        | Some (install, dir) \<Rightarrow> update_now host install dir)"

subsection \<open>Becoming another program\<close>

definition launchReplacement :: "launcher_host \<Rightarrow> path \<Rightarrow> jsstr list \<Rightarrow> boot_end boot" where
  "launchReplacement host p args =
     (if \<not> lh_can_exec host
      then failing (js ''This runtime cannot preserve the terminal during restart. Start MeshTalk again manually.'')
      else give (Replaced p args))"

subsection \<open>Commands of the installer\<close>

definition install_status :: "launcher_host \<Rightarrow> jsstr list \<Rightarrow> unit boot" where
  "install_status host args = (case args of
     [a, flag, dir] \<Rightarrow>
       if flag \<noteq> js ''--install-dir'' then failing (js ''Invalid installation status arguments.'')
       else chain (looking (\<lambda>d. existsSync d (resolved_path host dir))) (\<lambda>there.
         if \<not> there then print host (js ''stopped'')
         else chain (installation_pids host (resolved_path host dir)) (\<lambda>running.
           print host (if running \<noteq> [] then js ''running'' else js ''stopped'')))
   | _ \<Rightarrow> failing (js ''Invalid installation status arguments.''))"

text \<open>Whether a backend or another launcher runs; that the processes cannot be listed is an error.\<close>

definition meshtalk_runs :: "launcher_host \<Rightarrow> bool boot" where
  "meshtalk_runs host = chain (backendRunning host) (\<lambda>running.
     if running then give True else chain (otherLauncherPids host) (\<lambda>others. give (others \<noteq> [])))"

definition closing_first :: "launcher_host \<Rightarrow> bool \<Rightarrow> path \<Rightarrow> unit boot" where
  "closing_first host wanted destination = (if wanted then closeForInstallation host destination else give ())"

definition close_running :: "jsstr list" where
  "close_running = [js ''--close-running'']"

definition uninstall_in :: "launcher_host \<Rightarrow> bool \<Rightarrow> path \<Rightarrow> unit boot" where
  "uninstall_in host close destination =
     chain_do (closing_first host close destination)
     (chain (meshtalk_runs host) (\<lambda>busy.
        if busy then failing (js ''Close all MeshTalk windows and stop its backend before uninstalling.'')
        else chain_do (saying host (Uninstalled destination))
          (on_files host (uninstallReleaseInstallation (install_env_of host) destination))))"

definition uninstall_releases :: "launcher_host \<Rightarrow> jsstr list \<Rightarrow> unit boot" where
  "uninstall_releases host args = (case args of
     a # flag # dir # rest \<Rightarrow>
       if (rest = [] \<or> rest = close_running) \<and> flag = js ''--install-dir''
       then uninstall_in host (rest = close_running) (resolved_path host dir)
       else failing (js ''Invalid uninstaller arguments.'')
   | _ \<Rightarrow> failing (js ''Invalid uninstaller arguments.''))"

definition managed_state :: "launcher_host \<Rightarrow> disk \<Rightarrow> path \<Rightarrow> bool" where
  "managed_state host d destination \<longleftrightarrow> existsSync d destination \<and>
     (case managedInstallRoot (install_env_of host) d destination of Some base \<Rightarrow> existsSync d (base @ [STATE]) | None \<Rightarrow> False)"

definition stage_while_running :: "launcher_host \<Rightarrow> path \<Rightarrow> path \<Rightarrow> unit boot" where
  "stage_while_running host source destination = chain (looking (\<lambda>d. managed_state host d destination)) (\<lambda>managed.
     if \<not> managed
     then failing (js ''Close all MeshTalk windows and stop its backend before upgrading this legacy installation, or rerun the installer with --close-running.'')
     else chain_do (saying host (StagedFrom source))
       (chain_do (on_files host (stageReleaseDirectory (install_env_of host) source destination (lh_version host)))
       (print host (js ''Update staged. Close MeshTalk and launch it again to activate it.''))))"

definition install_into :: "launcher_host \<Rightarrow> bool \<Rightarrow> path \<Rightarrow> path \<Rightarrow> unit boot" where
  "install_into host close source destination =
     chain_do (closing_first host close destination)
     (chain (meshtalk_runs host) (\<lambda>busy.
        if busy then stage_while_running host source destination
        else chain_do (saying host (InstalledFrom source))
          (on_files host (installFromDirectory (install_env_of host) source destination (lh_version host) None True))))"

definition install_from :: "launcher_host \<Rightarrow> jsstr list \<Rightarrow> unit boot" where
  "install_from host args = (case args of
     a # source # flag # dir # rest \<Rightarrow>
       if (rest = [] \<or> rest = close_running) \<and> flag = js ''--install-dir''
       then install_into host (rest = close_running) (resolved_path host source) (resolved_path host dir)
       else failing (js ''Invalid installer arguments.'')
   | _ \<Rightarrow> failing (js ''Invalid installer arguments.''))"

text \<open>Only on Windows is an update applied to the files beside the program.\<close>

definition apply_pending :: "launcher_host \<Rightarrow> jsstr list \<Rightarrow> unit boot" where
  "apply_pending host args = failing (js ''Invalid pending installer arguments.'')"

end
