(* ===== verification/LaunchRun.thy ===== *)
theory LaunchRun
  imports LaunchMain
begin

text \<open>
  \<open>bin/meshtalk.ts\<close>: starting a release, the backend command, a session of the terminal client with its restart for an
  update, and the whole of \<open>main\<close> with the exit handler.
\<close>

subsection \<open>Starting a release\<close>

text \<open>A pending update may be selected only while nothing else of MeshTalk runs. If that cannot be found out it is not.\<close>

definition may_activate :: "launcher_host \<Rightarrow> bool boot" where
  "may_activate host = chain (backendRunning host) (\<lambda>running.
     if running then give False
     else rescue (chain (otherLauncherPids host) (\<lambda>others. give (others = []))) (\<lambda>e. give False))"

definition physical :: "launcher_host \<Rightarrow> path \<Rightarrow> path boot" where
  "physical host p = chain (looking (\<lambda>d. realpath d p)) (\<lambda>r. case r of Some q \<Rightarrow> give q | None \<Rightarrow> stop (Io no_entry))"

definition start_release :: "launcher_host \<Rightarrow> jsstr list \<Rightarrow> boot_end option boot" where
  "start_release host args =
     chain (physical host (ie_execPath (install_env_of host))) (\<lambda>executable.
     chain (may_activate host) (\<lambda>activatePending.
     chain (on_files host (prepareInstalledLauncher (install_env_of host) executable activatePending (lh_version host) True)) (\<lambda>prepared.
     case prepared of
       None \<Rightarrow> give None
     | Some l \<Rightarrow>
         chain_do (set_installed (Some l))
         (chain_do (if truthy (il_warning l) then log host (the (il_warning l)) else give ())
         (chain (physical host (il_executable l)) (\<lambda>q.
            if q \<noteq> executable then chain (launchReplacement host (il_executable l) args) (\<lambda>e. give (Some e)) else give None))))))"

text \<open>The exit handler. What it throws is lost.\<close>

definition at_exit :: "launcher_host \<Rightarrow> unit boot" where
  "at_exit host = chain current_installed (\<lambda>l. case l of
     None \<Rightarrow> give ()
   | Some l \<Rightarrow> chain_do (on_files host (releaseUsage l)) (on_files host (cleanupReleases (install_env_of host) (il_root l))))"

subsection \<open>The version ping\<close>

text \<open>The request is sent and its answer, which may come at any later time, is recorded by \<open>ping_answered\<close>.\<close>

definition dry_run :: "jsstr list \<Rightarrow> bool" where
  "dry_run args \<longleftrightarrow> js ''--dry-run'' \<in> set args"

definition ping_allowed :: "launcher_host \<Rightarrow> jsstr list \<Rightarrow> disk \<Rightarrow> bool" where
  "ping_allowed host args d \<longleftrightarrow>
     isTier0Allowed (lh_analytics host) (lh_release host) (settings_now host d) (dry_run args)
     \<and> lh_version host \<notin> set (cs_seenVersions (readConsent (settings_now host d)))"

definition send_ping :: "launcher_host \<Rightarrow> jsstr list \<Rightarrow> unit boot" where
  "send_ping host args = chain (looking (ping_allowed host args)) (\<lambda>allowed.
     if \<not> allowed then give ()
     else case fst (sendTier0 (lh_analytics host) (lh_post host) (lh_version host)) of
         Some payload \<Rightarrow> saying host (Posted payload) | None \<Rightarrow> give ())"

definition ping_answered :: "launcher_host \<Rightarrow> unit boot" where
  "ping_answered host =
     (if snd (sendTier0 (lh_analytics host) (lh_post host) (lh_version host))
      then on_files host (save_analytics (settings_path (lh_update host)) (\<lambda>settings.
        let current = readConsent settings in
        writeConsent (cs_consent current) (Some (cs_seenVersions current @ [lh_version host])) settings))
      else give ())"

subsection \<open>The backend command\<close>

function until_gone :: "launcher_host \<Rightarrow> int \<Rightarrow> nat \<Rightarrow> bool boot" where
  "until_gone host pid deadline w =
     (if lw_clock w < deadline
      then case backendPidAlive host pid (pause host 200 w) of
          (Inl e, w1) \<Rightarrow> (Inl e, w1)
        | (Inr alive, w1) \<Rightarrow> if \<not> alive then (Inr True, w1) else until_gone host pid deadline w1
      else (Inr False, w))"
  by pat_completeness auto
termination
proof (relation "measure (\<lambda>(host, pid, deadline, w). deadline - lw_clock w)", goal_cases)
  case (2 host pid deadline w r w1 alive)
  have "lw_clock (pause host 200 w) \<le> lw_clock w1" using alive_clock [of "pause host 200 w" host pid] 2(2) [symmetric] by simp
  then show ?case using 2(1) pause_clock [of w 200 host] by (simp add: diff_less_mono2)
qed simp

declare until_gone.simps [simp del]

definition failure_message :: "boot_error \<Rightarrow> jsstr" where
  "failure_message e = (case e of Js (ErrorMessage s) \<Rightarrow> s | Io (Failure s) \<Rightarrow> s | Io (Code c) \<Rightarrow> js c | _ \<Rightarrow> [])"

definition kill_backend :: "launcher_host \<Rightarrow> int \<Rightarrow> unit boot" where
  "kill_backend host pid =
     chain_do (log host (js ''Backend did not stop gracefully; sending SIGKILL.''))
     (chain (signalBackend host pid True ''SIGKILL'') (\<lambda>sent.
      chain_do (sleeping host 1000)
      (chain (backendPidAlive host pid) (\<lambda>alive.
        print host (if alive then js ''Backend still running.'' else js ''Backend stopped.'')))))"

definition backend_stop :: "launcher_host \<Rightarrow> unit boot" where
  "backend_stop host = chain (looking (\<lambda>d. whole (pid_number host d))) (\<lambda>p.
     if p = None \<or> p = Some 0 then print host (js ''No backend PID file found.'')
     else chain (rescue (signalBackend host (the p) True ''SIGTERM'')
         (\<lambda>e. failing (js ''Could not stop backend: '' @ failure_message e))) (\<lambda>sent.
       if \<not> sent then print host (js ''Backend is not running.'')
       else chain (\<lambda>w. until_gone host (the p) (lw_clock w + 5000) w) (\<lambda>stopped.
         if stopped then print host (js ''Backend stopped.'') else kill_backend host (the p))))"

definition log_hint :: "launcher_host \<Rightarrow> jsstr" where
  "log_hint host = path_text (data_dir host @ [js ''backend.log''])"

definition backend_status :: "launcher_host \<Rightarrow> unit boot" where
  "backend_status host = chain (backendRunning host) (\<lambda>running.
     chain_do (print host (js ''Backend: '' @ (if running then js ''running'' else js ''stopped'')))
       (print host (js ''Logs: '' @ log_hint host)))"

definition components_now :: "launcher_host \<Rightarrow> boot_component boot" where
  "components_now host = chain (looking (resolveComponents host)) lifting"

definition backend_start :: "launcher_host \<Rightarrow> boot_end boot" where
  "backend_start host = chain (backendRunning host) (\<lambda>running.
     if running then chain_do (print host (js ''Backend is already running.'')) (give (Ended 0))
     else chain (components_now host) (\<lambda>component. chain (startBackend host component True) (\<lambda>pid.
       chain_do (log host (js ''Waiting for backend to be ready...''))
       (chain (waitForBackend host True) (\<lambda>ready.
          if ready then give (Ended 0)
          else chain_do (log host (js ''Backend did not start within timeout.''))
            (chain_do (saying host KilledChild)
            (chain_do (log host (js ''See '' @ log_hint host @ js '' for details.'')) (give (Ended 1)))))))))"

definition backend_command :: "launcher_host \<Rightarrow> jsstr list \<Rightarrow> boot_end boot" where
  "backend_command host args =
     (let command = (case args of a # b # r \<Rightarrow> if b = [] then js ''status'' else b | _ \<Rightarrow> js ''status'') in
      if command = js ''status'' then chain_do (backend_status host) (give (Ended 0))
      else if command = js ''stop'' then chain_do (backend_stop host) (give (Ended 0))
      else if drop 1 args = [js ''start'', js ''--daemonise''] then backend_start host
      else failing (js ''Usage: '' @ program host @ js '' backend [status|stop|start --daemonise]''))"

subsection \<open>Restarting for an update\<close>

definition join_numbers :: "nat list \<Rightarrow> jsstr" where
  "join_numbers ns = join_on (js '', '') (map decimal ns)"

text \<open>The backend is signalled only where it does not answer the request to shut down but still answers.\<close>

definition restart_shutdown :: "launcher_host \<Rightarrow> bool \<Rightarrow> nat option \<Rightarrow> unit boot" where
  "restart_shutdown host mine pid = chain (requestBackendShutdown host) (\<lambda>down.
     if down then give ()
     else chain (backendRunning host) (\<lambda>running.
       if \<not> running then give ()
       else chain (stopBackend host (if mine then map_option int pid else None) (\<not> mine) mine) (\<lambda>stopped.
         if stopped then give ()
         else failing (js ''MeshTalk backend did not stop. Close MeshTalk completely and try the update again.''))))"

definition backend_pids :: "launcher_host \<Rightarrow> bool \<Rightarrow> nat option \<Rightarrow> disk \<Rightarrow> int list" where
  "backend_pids host mine pid d = dedupe (filter (\<lambda>n. 0 < n)
     ((case pid of Some n \<Rightarrow> if mine then [int n] else [] | None \<Rightarrow> []) @ (case readPidFile host d of Some n \<Rightarrow> [n] | None \<Rightarrow> [])))"

primrec wait_for_exits :: "launcher_host \<Rightarrow> int list \<Rightarrow> unit boot" where
  "wait_for_exits host [] = give ()"
| "wait_for_exits host (n # ns) = chain (waitForPidExit host n 5000) (\<lambda>ended.
     if ended then wait_for_exits host ns
     else failing (js ''MeshTalk backend is still running. Close MeshTalk completely before restarting to update.''))"

definition restart_target :: "launcher_host \<Rightarrow> path boot" where
  "restart_target host = chain (on_files host (takeUpdateRestartPath (lh_update host) (lh_decode host))) (\<lambda>t. case t of
     None \<Rightarrow> failing (js ''Update restart target was not provided.'')
   | Some s \<Rightarrow> chain (physical host (resolved_path host s)) (\<lambda>q.
       chain (looking (\<lambda>d. node_at d q = Some Dir)) (\<lambda>directory.
         give (if directory then resolved_path host s else butlast (resolved_path host s)))))"

definition become_update :: "launcher_host \<Rightarrow> boot_end boot" where
  "become_update host = chain (restart_target host) (\<lambda>p.
     chain_do (saying host (PreparedRestart p))
     (chain (on_files host (prepareUpdateRestart (install_env_of host) p)) (\<lambda>replacement.
      chain current_installed (\<lambda>l.
      chain_do (case l of Some i \<Rightarrow> on_files host (releaseUsage i) | None \<Rightarrow> give ())
      (chain_do (set_installed (Some replacement))
      (launchReplacement host (il_executable replacement) []))))))"

definition close_backend :: "launcher_host \<Rightarrow> bool \<Rightarrow> nat option \<Rightarrow> unit boot" where
  "close_backend host mine pid =
     chain_do (restart_shutdown host mine pid)
     (chain_do (reapBackendProcess host mine)
     (chain (looking (backend_pids host mine pid)) (wait_for_exits host)))"

definition update_restart :: "launcher_host \<Rightarrow> bool \<Rightarrow> nat option \<Rightarrow> boot_end boot" where
  "update_restart host mine pid = chain (otherLauncherPids host) (\<lambda>others.
     if others \<noteq> []
     then failing (js ''Another MeshTalk instance is still running (PID '' @ join_numbers others @ js ''). Close other MeshTalk windows before restarting to update.'')
     else chain_do (close_backend host mine pid) (become_update host))"

subsection \<open>A session\<close>

definition UPDATE_RESTART_EXIT_CODE :: nat where
  "UPDATE_RESTART_EXIT_CODE = 75"

definition prompting :: "launcher_host \<Rightarrow> consent_state \<Rightarrow> disk \<Rightarrow> bool" where
  "prompting host consent d \<longleftrightarrow> \<not> hasExplicitAnalyticsChoice (settings_now host d)
     \<and> shouldPrompt (lh_version host) consent (promptedVersions (settings_now host d))"

text \<open>The backend that this launcher started is stopped once, whatever comes of it.\<close>

definition cleanup :: "launcher_host \<Rightarrow> bool \<Rightarrow> nat option \<Rightarrow> bool boot" where
  "cleanup host mine pid = (if \<not> mine then give True else
     chain (stopBackend host (map_option int pid) False True) (\<lambda>stopped. chain_do (reapBackendProcess host True) (give stopped)))"

definition not_started :: "launcher_host \<Rightarrow> unit boot \<Rightarrow> boot_end boot" where
  "not_started host m = chain_do (log host (js ''Backend did not start within timeout.''))
     (chain_do m (chain_do (log host (js ''See '' @ log_hint host @ js '' for details.'')) (give (Ended 1))))"

definition run_tui :: "launcher_host \<Rightarrow> jsstr list \<Rightarrow> splash option \<Rightarrow> consent_state \<Rightarrow> bool \<Rightarrow> nat option \<Rightarrow> boot_end boot" where
  "run_tui host args style consent mine pid =
     chain (looking (\<lambda>d. (case style of Some s \<Rightarrow> s | None \<Rightarrow> savedSplashStyle host d, \<not> dry_run args \<and> prompting host consent d)))
       (\<lambda>(shown, prompt). chain_do (saying host (StartedTui shown prompt))
       (chain (if mine then waitForBackend host True else give True) (\<lambda>ready.
          if \<not> ready
          then not_started host (chain_do (saying host DestroyedTui) (chain (cleanup host mine pid) (\<lambda>b. give ())))
          else chain (asking host (lh_tui host) (\<lambda>code. [TuiExited code])) (\<lambda>code.
            if code = UPDATE_RESTART_EXIT_CODE then update_restart host mine pid
            else chain (cleanup host mine pid) (\<lambda>b. give (Ended code))))))"

definition PRIVACY_URL :: jsstr where
  "PRIVACY_URL = js ''https://github.com/QinCai-rui/MeshTalk/blob/main/PRIVACY.md''"

definition run_cli :: "launcher_host \<Rightarrow> jsstr list \<Rightarrow> consent_state \<Rightarrow> boot_end boot" where
  "run_cli host args consent =
     chain (looking (\<lambda>d. lh_release host \<and> lh_stderr_tty host \<and> prompting host consent d)) (\<lambda>prompt.
     chain_do (if prompt
       then chain_do (saying host (Logged (js ''Analytics is disabled by default. Enable extended or basic analytics with MESHTALK_ANALYTICS=extended|basic, or choose in Settings > Diagnostics. Privacy policy: '' @ PRIVACY_URL)))
         (on_files host (save_analytics (settings_path (lh_update host)) (markPrompted (lh_version host))))
       else give ())
     (chain_do (saying host (RanCli args)) (chain (asking host (lh_cli host) (\<lambda>c. [])) (\<lambda>c. give (Ended c)))))"

definition run_session :: "launcher_host \<Rightarrow> jsstr list \<Rightarrow> consent_state \<Rightarrow> boot_end boot" where
  "run_session host args consent =
     chain (lifting (splashOption host args)) (\<lambda>style.
     chain (components_now host) (\<lambda>component.
     chain (backendRunning host) (\<lambda>running.
     let tui = (args = [] \<or> style \<noteq> None) in
     chain (if running then give None else startBackend host component (\<not> tui)) (\<lambda>pid.
     if tui then run_tui host args style consent (\<not> running) pid
     else chain (if running then give True else waitForBackend host True) (\<lambda>ready.
       if ready then run_cli host args consent else not_started host (give ()))))))"

subsection \<open>The whole program\<close>

definition first_is :: "jsstr list \<Rightarrow> string \<Rightarrow> bool" where
  "first_is args s \<longleftrightarrow> args \<noteq> [] \<and> hd args = js s"

definition INSTALL_PROTOCOL :: jsstr where
  "INSTALL_PROTOCOL = js ''1''"

definition main_command :: "launcher_host \<Rightarrow> jsstr list \<Rightarrow> boot_end boot" where
  "main_command host args = chain (looking (\<lambda>d. readConsent (settings_now host d))) (\<lambda>consent.
     chain_do (send_ping host args)
     (if first_is args ''update'' then chain_do (runUpdate host (drop 1 args)) (give (Ended 0))
      else if args \<in> {[js ''help''], [js ''--help''], [js ''-h'']} then chain_do (saying host (RanCli args)) (give (Ended 0))
      else if args \<in> {[js ''--version''], [js ''-V'']} then chain_do (print host (lh_version host)) (give (Ended 0))
      else if first_is args ''backend'' then backend_command host args
      else run_session host args consent))"

definition main :: "launcher_host \<Rightarrow> boot_end boot" where
  "main host = (let args = drop 2 (lh_argv host); release = lh_release host in
     if release \<and> args = [js ''--install-protocol''] then chain_do (print host (INSTALL_PROTOCOL)) (give (Ended 0))
     else if release \<and> first_is args ''--install-status'' then chain_do (install_status host args) (give (Ended 0))
     else chain_do (on_files host (mkdir_all (data_dir host)))
       (if release \<and> first_is args ''--apply-pending'' then chain_do (apply_pending host args) (give (Ended 0))
        else if release \<and> first_is args ''--uninstall-releases'' then chain_do (uninstall_releases host args) (give (Ended 0))
        else if release \<and> first_is args ''--install-from'' then chain_do (install_from host args) (give (Ended 0))
        else chain (if release then start_release host args else give None) (\<lambda>e. case e of
            Some x \<Rightarrow> give x | None \<Rightarrow> main_command host args)))"

text \<open>A run: an error that nobody catches ends it with code 1, and the exit handler runs unless the process is replaced.\<close>

definition launcher_run :: "launcher_host \<Rightarrow> launcher_world \<Rightarrow> boot_end \<times> launcher_world" where
  "launcher_run host w = (case main host w of
     (Inr (Replaced p args), w') \<Rightarrow> (Replaced p args, w')
   | (Inr (Ended n), w') \<Rightarrow> (Ended n, snd (at_exit host w'))
   | (Inl e, w') \<Rightarrow> (Ended 1, snd (at_exit host w')))"

end
