(* ===== verification/LaunchProperties.thy ===== *)
theory LaunchProperties
  imports LaunchRun
begin

text \<open>
  A small logic of what the launcher does in which order. \<open>in_order P Q es\<close>: in \<open>es\<close> no event has \<open>Q\<close> before one has had
  \<open>P\<close>. \<open>guards\<close> says so of every run of a program, \<open>clear\<close> that no event of a run has \<open>Q\<close>, \<open>shows\<close> that a run which returns
  what does not satisfy \<open>A\<close> has had an event with \<open>P\<close>.
\<close>

named_theorems trace_rules

definition new_events :: "'a boot \<Rightarrow> launcher_world \<Rightarrow> launcher_event list" where
  "new_events m w = drop (length (lw_events w)) (lw_events (snd (m w)))"

fun in_order :: "(launcher_event \<Rightarrow> bool) \<Rightarrow> (launcher_event \<Rightarrow> bool) \<Rightarrow> launcher_event list \<Rightarrow> bool" where
  "in_order P Q [] = True"
| "in_order P Q (e # es) = (\<not> Q e \<and> (P e \<or> in_order P Q es))"

lemma in_order_append: "in_order P Q (a @ b) \<longleftrightarrow> in_order P Q a \<and> (list_ex P a \<or> in_order P Q b)"
  by (induction a) auto

lemma in_order_clear: "list_all (\<lambda>e. \<not> Q e) es \<Longrightarrow> in_order P Q es"
  by (induction es) auto

lemma in_order_split: "in_order P Q es \<Longrightarrow> es = a @ x # b \<Longrightarrow> Q x \<Longrightarrow> list_ex P a"
  by (simp add: in_order_append)

text \<open>Events are only added.\<close>

definition grows :: "'a boot \<Rightarrow> bool" where
  "grows m \<longleftrightarrow> (\<forall>w. lw_events (snd (m w)) = lw_events w @ new_events m w)"

lemma growsI: "(\<And>w. \<exists>es. lw_events (snd (m w)) = lw_events w @ es) \<Longrightarrow> grows m"
  unfolding grows_def new_events_def by (metis append_eq_conv_conj)

lemma new_events_eq: "lw_events (snd (m w)) = lw_events w @ es \<Longrightarrow> new_events m w = es"
  by (simp add: new_events_def)

lemma chain_events:
  assumes "grows m" "\<And>x. grows (f x)"
  shows "lw_events (snd (chain m f w)) = lw_events w @ new_events m w
    @ (case m w of (Inl e, w') \<Rightarrow> [] | (Inr x, w') \<Rightarrow> new_events (f x) w')"
proof -
  obtain r w' where m: "m w = (r, w')" by fastforce
  have a: "lw_events w' = lw_events w @ new_events m w" using assms(1) m by (metis grows_def snd_conv)
  show ?thesis using a assms(2) m by (cases r) (simp_all add: chain_def grows_def)
qed

lemma grows_chain [trace_rules]: "grows m \<Longrightarrow> (\<And>x. grows (f x)) \<Longrightarrow> grows (chain m f)"
  by (rule growsI) (blast intro: chain_events)

lemma new_events_chain:
  "grows m \<Longrightarrow> (\<And>x. grows (f x)) \<Longrightarrow>
   new_events (chain m f) w = new_events m w @ (case m w of (Inl e, w') \<Rightarrow> [] | (Inr x, w') \<Rightarrow> new_events (f x) w')"
  by (rule new_events_eq) (rule chain_events)

subsection \<open>Programs that add no event with a property\<close>

definition clear :: "(launcher_event \<Rightarrow> bool) \<Rightarrow> 'a boot \<Rightarrow> bool" where
  "clear Q m \<longleftrightarrow> grows m \<and> (\<forall>w. list_all (\<lambda>e. \<not> Q e) (new_events m w))"

definition guards :: "(launcher_event \<Rightarrow> bool) \<Rightarrow> (launcher_event \<Rightarrow> bool) \<Rightarrow> 'a boot \<Rightarrow> bool" where
  "guards P Q m \<longleftrightarrow> grows m \<and> (\<forall>w. in_order P Q (new_events m w))"

definition shows_unless :: "(launcher_event \<Rightarrow> bool) \<Rightarrow> ('a \<Rightarrow> bool) \<Rightarrow> 'a boot \<Rightarrow> bool" where
  "shows_unless P A m \<longleftrightarrow> grows m \<and> (\<forall>w x. fst (m w) = Inr x \<longrightarrow> A x \<or> list_ex P (new_events m w))"

lemma clearI: "(\<And>w. \<exists>es. lw_events (snd (m w)) = lw_events w @ es \<and> list_all (\<lambda>e. \<not> Q e) es) \<Longrightarrow> clear Q m"
  unfolding clear_def by (metis growsI new_events_eq)

lemma clear_grows: "clear Q m \<Longrightarrow> grows m"
  by (simp add: clear_def)

lemma clear_chain [trace_rules]:
  assumes "clear Q m" "\<And>x. clear Q (f x)" shows "clear Q (chain m f)"
  using assms by (simp add: clear_def grows_chain new_events_chain split: prod.split sum.split)

lemma clear_guards: "clear Q m \<Longrightarrow> guards P Q m"
  by (simp add: clear_def guards_def in_order_clear)

lemma guards_chain:
  assumes "guards P Q m" "\<And>x. guards P Q (f x)" shows "guards P Q (chain m f)"
  using assms by (simp add: guards_def grows_chain new_events_chain in_order_append split: prod.split sum.split)

text \<open>The rule for a check: what follows may have \<open>Q\<close> where the check has shown \<open>P\<close>.\<close>

lemma guards_check:
  assumes "guards P Q m" "shows_unless P A m" "\<And>x. grows (f x)" "\<And>x. A x \<Longrightarrow> guards P Q (f x)"
  shows "guards P Q (chain m f)"
proof -
  have "in_order P Q (new_events (chain m f) w)" for w
  proof (cases "m w")
    case (Pair r w')
    show ?thesis
    proof (cases r)
      case (Inl e)
      then show ?thesis using Pair assms by (simp add: guards_def new_events_chain)
    next
      case (Inr x)
      then have "A x \<or> list_ex P (new_events m w)" using Pair assms(2) by (simp add: shows_unless_def)
      then show ?thesis using Pair Inr assms by (auto simp: guards_def new_events_chain in_order_append)
    qed
  qed
  then show ?thesis using assms by (simp add: guards_def grows_chain)
qed

lemma shows_chain:
  assumes "shows_unless P A m" "\<And>x. grows (f x)" "\<And>x. A x \<Longrightarrow> shows_unless P B (f x)"
  shows "shows_unless P B (chain m f)"
  unfolding shows_unless_def
proof (intro conjI allI impI)
  show "grows (chain m f)" using assms by (simp add: shows_unless_def grows_chain)
next
  fix w y
  assume r: "fst (chain m f w) = Inr y"
  obtain x w' where m: "m w = (Inr x, w')" and f: "fst (f x w') = Inr y"
    using r by (auto simp: chain_def split: prod.splits sum.splits)
  have "A x \<or> list_ex P (new_events m w)" using m assms(1) by (simp add: shows_unless_def)
  moreover have "A x \<Longrightarrow> B y \<or> list_ex P (new_events (f x) w')"
    using assms(3) f unfolding shows_unless_def by blast
  moreover have "new_events (chain m f) w = new_events m w @ new_events (f x) w'"
    using m assms(1,2) by (simp add: shows_unless_def new_events_chain)
  ultimately show "B y \<or> list_ex P (new_events (chain m f) w)" by auto
qed

lemma shows_later:
  assumes "grows m" "\<And>x. shows_unless P B (f x)"
  shows "shows_unless P B (chain m f)"
  by (rule shows_chain [where A = "\<lambda>x. True"]) (use assms in \<open>auto simp: shows_unless_def\<close>)

lemma shows_top: "grows m \<Longrightarrow> shows_unless P (\<lambda>x. True) m"
  by (simp add: shows_unless_def)

lemma guards_grows: "guards P Q m \<Longrightarrow> grows m"
  by (simp add: guards_def)

lemma shows_grows: "shows_unless P A m \<Longrightarrow> grows m"
  by (simp add: shows_unless_def)

subsection \<open>The basic programs\<close>

lemma clear_basic [trace_rules]:
  "clear Q (give x)" "clear Q (stop e)" "clear Q (looking f)" "clear Q current_installed" "clear Q (set_installed l)"
  "clear Q (failing s)" "clear Q (sleeping host ms)" "clear Q (on_files host m)" "clear Q (lifting r)"
  by (rule clearI, simp add: give_def stop_def looking_def current_installed_def set_installed_def failing_def sleeping_def
      pause_def on_files_def lifting_def tick_def split: prod.split sum.split)+

lemma clear_saying [trace_rules]: "\<not> Q e \<Longrightarrow> clear Q (saying host e)"
  by (rule clearI) (simp add: saying_def tick_def)

lemma clear_asking [trace_rules]: "(\<And>x. list_all (\<lambda>e. \<not> Q e) (es x)) \<Longrightarrow> clear Q (asking host f es)"
  by (rule clearI) (simp add: asking_def tick_def)

lemma clear_asking_or [trace_rules]: "(\<And>x. list_all (\<lambda>e. \<not> Q e) (es x)) \<Longrightarrow> clear Q (asking_or host f es)"
  by (rule clearI) (simp add: asking_or_def tick_def split: sum.split)

lemma clear_print [trace_rules]: "\<not> Q (Printed s) \<Longrightarrow> clear Q (print host s)"
  by (simp add: print_def trace_rules)

lemma clear_log [trace_rules]: "\<not> Q (Logged (js ''[meshtalk] '' @ s)) \<Longrightarrow> clear Q (log host s)"
  by (simp add: log_def trace_rules)

lemma clear_chain_do [trace_rules]: "clear Q m \<Longrightarrow> clear Q k \<Longrightarrow> clear Q (chain_do m k)"
  by (simp add: chain_do_def trace_rules)

lemma grows_iff: "grows m \<longleftrightarrow> clear (\<lambda>e. False) m"
  by (simp add: clear_def list_all_iff)

lemma grows_chain_do: "grows m \<Longrightarrow> grows k \<Longrightarrow> grows (chain_do m k)"
  by (simp add: chain_do_def grows_chain)

lemma guards_chain_do: "guards P Q m \<Longrightarrow> guards P Q k \<Longrightarrow> guards P Q (chain_do m k)"
  by (simp add: chain_do_def guards_chain)

text \<open>Programs over the state that read it first.\<close>

lemma clear_state: "(\<And>x. clear Q (m x)) \<Longrightarrow> clear Q (\<lambda>w. m (f w) w)"
  by (rule clearI) (metis clear_def grows_def)

lemma shows_state: "(\<And>x. shows_unless P A (m x)) \<Longrightarrow> shows_unless P A (\<lambda>w. m (f w) w)"
  unfolding shows_unless_def by (metis (no_types, lifting) growsI grows_def new_events_def)

lemma guards_run: "guards P Q m \<Longrightarrow> in_order P Q (new_events m w)"
  by (simp add: guards_def)

section \<open>The order in which the launcher does things\<close>

text \<open>
  An update replaces the program only where no other window is open and the
  backend has been seen to be gone, no process is signalled on the word of an old pid file, and an installation is changed
  only where nothing of it runs.
\<close>

subsection \<open>What the parts add\<close>

lemma clear_request [trace_rules]: "(\<And>b. \<not> Q (Requested action b)) \<Longrightarrow> clear Q (backendRequest host action)"
  unfolding backendRequest_def by (intro trace_rules) simp

lemma clear_running [trace_rules]: "(\<And>b. \<not> Q (Requested ''identity'' b)) \<Longrightarrow> clear Q (backendRunning host)"
  unfolding backendRunning_def by (intro trace_rules) simp

lemma running_adds: "\<exists>b. lw_events (snd (backendRunning host w)) = lw_events w @ [Requested ''identity'' b]"
  by (simp add: backendRunning_def backendRequest_def chain_def looking_def asking_def give_def tick_def)

lemma until_stopped_adds:
  assumes "\<And>b. \<not> Q (Requested ''identity'' b)"
  shows "\<exists>es. lw_events (snd (until_stopped host deadline w)) = lw_events w @ es \<and> list_all (\<lambda>e. \<not> Q e) es"
proof (induction host deadline w rule: until_stopped.induct)
  case (1 host deadline w)
  obtain r w1 where m: "backendRunning host w = (r, w1)" by fastforce
  obtain b where e: "lw_events w1 = lw_events w @ [Requested ''identity'' b]" using running_adds [of host w] m by auto
  show ?case
  proof (cases r)
    case (Inl x)
    then show ?thesis using m e assms by (subst until_stopped.simps) simp
  next
    case (Inr running)
    show ?thesis
    proof (cases "lw_clock w < deadline \<and> running")
      case True
      then obtain es where "lw_events (snd (until_stopped host deadline (pause host 200 w1))) = lw_events w1 @ es"
        "list_all (\<lambda>e. \<not> Q e) es"
        using 1 [OF _ m [symmetric] Inr] by (auto simp: pause_def tick_def)
      then show ?thesis using True m e Inr assms by (subst until_stopped.simps) simp
    next
      case False
      then show ?thesis using m e Inr assms by (subst until_stopped.simps) auto
    qed
  qed
qed

lemma clear_until_stopped [trace_rules]:
  "(\<And>b. \<not> Q (Requested ''identity'' b)) \<Longrightarrow> clear Q (\<lambda>w. until_stopped host (f w) w)"
  by (rule clearI) (rule until_stopped_adds)

lemma clear_shutdown [trace_rules]:
  "(\<And>a b. \<not> Q (Requested a b)) \<Longrightarrow> clear Q (requestBackendShutdown host)"
  unfolding requestBackendShutdown_def by (intro trace_rules) (auto intro!: trace_rules)

lemma alive_adds: "\<exists>b. fst (backendPidAlive host pid w) = Inr b
    \<and> lw_events (snd (backendPidAlive host pid w)) = lw_events w @ [Probed pid b]"
  by (simp add: backendPidAlive_def asking_def tick_def)

text \<open>Waiting for the end of a process only probes it, and it has ended where a probe said so.\<close>

lemma until_exit_adds:
  "\<exists>es. lw_events (snd (until_exit host pid deadline w)) = lw_events w @ es \<and> (\<forall>e \<in> set es. \<exists>b. e = Probed pid b)
     \<and> (fst (until_exit host pid deadline w) = Inr True \<longrightarrow> Probed pid False \<in> set es)"
proof (induction host pid deadline w rule: until_exit.induct)
  case (1 host pid deadline w)
  obtain b w1 where m: "backendPidAlive host pid w = (Inr b, w1)" and e: "lw_events w1 = lw_events w @ [Probed pid b]"
    using alive_adds [of host pid w] by (metis prod.exhaust_sel)
  show ?case
  proof (cases "lw_clock w < deadline \<and> b")
    case True
    then obtain es where "lw_events (snd (until_exit host pid deadline (pause host 200 w1))) = lw_events w1 @ es"
      "\<forall>e \<in> set es. \<exists>b. e = Probed pid b"
      "fst (until_exit host pid deadline (pause host 200 w1)) = Inr True \<longrightarrow> Probed pid False \<in> set es"
      using 1 [OF m [symmetric] refl] by (auto simp: pause_def tick_def)
    then show ?thesis using True m e by (subst (1 2) until_exit.simps) auto
  next
    case False
    then show ?thesis using m e by (subst (1 2) until_exit.simps) auto
  qed
qed

lemma clear_wait [trace_rules]:
  assumes "\<And>b. \<not> Q (Probed pid b)" shows "clear Q (waitForPidExit host pid timeout)"
proof (rule clearI)
  fix w
  show "\<exists>es. lw_events (snd (waitForPidExit host pid timeout w)) = lw_events w @ es \<and> list_all (\<lambda>e. \<not> Q e) es"
    using until_exit_adds [of host pid "lw_clock w + timeout" w] assms unfolding waitForPidExit_def list_all_iff by metis
qed

lemma wait_shows: "shows_unless (\<lambda>e. e = Probed pid False) (\<lambda>b. \<not> b) (waitForPidExit host pid timeout)"
  unfolding shows_unless_def
proof (intro conjI allI impI)
  show "grows (waitForPidExit host pid timeout)" by (simp add: grows_iff clear_wait)
next
  fix w b
  assume r: "fst (waitForPidExit host pid timeout w) = Inr b"
  then obtain es where "lw_events (snd (waitForPidExit host pid timeout w)) = lw_events w @ es" "b \<longrightarrow> Probed pid False \<in> set es"
    using until_exit_adds [of host pid "lw_clock w + timeout" w] unfolding waitForPidExit_def by auto
  then show "\<not> b \<or> list_ex (\<lambda>e. e = Probed pid False) (new_events (waitForPidExit host pid timeout) w)"
    by (auto simp: new_events_def list_ex_iff)
qed

lemma clear_wait_for_exits [trace_rules]:
  "(\<And>n b. \<not> Q (Probed n b)) \<Longrightarrow> clear Q (wait_for_exits host ns)"
  by (induction ns) (auto intro!: trace_rules)

lemma wait_for_exits_shows:
  "n \<in> set ns \<Longrightarrow> shows_unless (\<lambda>e. e = Probed n False) (\<lambda>u. False) (wait_for_exits host ns)"
proof (induction ns)
  case (Cons k ns)
  have grows: "grows (if ended then wait_for_exits host ns else failing s)" for ended s
    by (simp add: grows_iff trace_rules)
  show ?case
  proof (cases "n = k")
    case True
    show ?thesis unfolding wait_for_exits.simps
    proof (rule shows_chain [OF _ grows, where A = "\<lambda>b. \<not> b"])
      show "shows_unless (\<lambda>e. e = Probed n False) (\<lambda>b. \<not> b) (waitForPidExit host k 5000)"
        unfolding True by (rule wait_shows)
    qed (auto simp: shows_unless_def grows_iff trace_rules failing_def stop_def)
  next
    case False
    then have "shows_unless (\<lambda>e. e = Probed n False) (\<lambda>u. False) (wait_for_exits host ns)" using Cons by simp
    then show ?thesis unfolding wait_for_exits.simps
      by (intro shows_later) (auto simp: grows_iff trace_rules shows_unless_def failing_def stop_def)
  qed
qed simp

lemma clear_others [trace_rules]: "(\<And>l. \<not> Q (ListedOthers l)) \<Longrightarrow> clear Q (otherLauncherPids host)"
  unfolding otherLauncherPids_def by (intro trace_rules) simp

lemma clear_signal [trace_rules]: "\<not> Q (Signalled pid g s) \<Longrightarrow> clear Q (signalBackend host pid g s)"
  unfolding signalBackend_def by (intro trace_rules) simp

lemma clear_alive [trace_rules]: "(\<And>b. \<not> Q (Probed pid b)) \<Longrightarrow> clear Q (backendPidAlive host pid)"
  unfolding backendPidAlive_def by (intro trace_rules) simp

lemma clear_stopping:
  "\<lbrakk>\<And>n b. \<not> Q (Probed n b); \<And>n g s. \<not> Q (Signalled n g s); \<not> Q KilledChild; \<And>s. \<not> Q (Logged s)\<rbrakk>
     \<Longrightarrow> clear Q (stopping host pid daemonise child)"
  unfolding stopping_def Let_def by (auto intro!: trace_rules)

lemma clear_stopBackend:
  "\<lbrakk>\<And>n b. \<not> Q (Probed n b); \<And>n g s. \<not> Q (Signalled n g s); \<not> Q KilledChild; \<And>s. \<not> Q (Logged s)\<rbrakk>
     \<Longrightarrow> clear Q (stopBackend host pid daemonise child)"
  unfolding stopBackend_def by (auto intro!: trace_rules clear_stopping split: option.split)

lemma clear_reap [trace_rules]: "clear Q (reapBackendProcess host child)"
  unfolding reapBackendProcess_def by (auto intro!: trace_rules)

lemma running_shows: "shows_unless (\<lambda>e. e = Requested ''identity'' b) (\<lambda>r. r \<noteq> b) (backendRunning host)"
proof -
  have "fst (backendRunning host w) = Inr r \<Longrightarrow> new_events (backendRunning host) w = [Requested ''identity'' r]" for w r
    by (auto simp: backendRunning_def backendRequest_def chain_def looking_def asking_def give_def tick_def new_events_def)
  then show ?thesis unfolding shows_unless_def by (auto simp: grows_iff trace_rules)
qed

lemma others_shows: "shows_unless (\<lambda>e. e = ListedOthers []) (\<lambda>l. l \<noteq> []) (otherLauncherPids host)"
proof -
  have "fst (otherLauncherPids host w) = Inr l \<Longrightarrow> new_events (otherLauncherPids host) w = [ListedOthers l]" for w l
    by (auto simp: otherLauncherPids_def asking_or_def tick_def new_events_def split: sum.splits)
  then show ?thesis unfolding shows_unless_def by (auto simp: grows_iff trace_rules)
qed

subsection \<open>Installing\<close>

fun is_install :: "launcher_event \<Rightarrow> bool" where
  "is_install (InstalledFrom p) = True"
| "is_install (Uninstalled p) = True"
| "is_install e = False"

lemma meshtalk_runs_shows:
  "shows_unless (\<lambda>e. e = Requested ''identity'' False) (\<lambda>b. b) (meshtalk_runs host)"
  "shows_unless (\<lambda>e. e = ListedOthers []) (\<lambda>b. b) (meshtalk_runs host)"
proof -
  have grows: "grows (if running then give True else chain (otherLauncherPids host) (\<lambda>others. give (others \<noteq> [])))" for running
    by (simp add: grows_iff trace_rules)
  show "shows_unless (\<lambda>e. e = Requested ''identity'' False) (\<lambda>b. b) (meshtalk_runs host)" unfolding meshtalk_runs_def
    by (rule shows_chain [OF running_shows grows]) (simp add: shows_unless_def grows_iff trace_rules give_def)
  have "shows_unless (\<lambda>e. e = ListedOthers []) (\<lambda>b. b) (chain (otherLauncherPids host) (\<lambda>others. give (others \<noteq> [])))"
    by (rule shows_chain [OF others_shows]) (simp_all add: shows_unless_def grows_iff trace_rules give_def)
  then show "shows_unless (\<lambda>e. e = ListedOthers []) (\<lambda>b. b) (meshtalk_runs host)" unfolding meshtalk_runs_def
    by (intro shows_later) (auto simp: grows_iff trace_rules shows_unless_def give_def)
qed

lemma clear_meshtalk_runs [trace_rules]:
  "(\<And>l. \<not> Q (ListedOthers l)) \<Longrightarrow> (\<And>b. \<not> Q (Requested ''identity'' b)) \<Longrightarrow> clear Q (meshtalk_runs host)"
  unfolding meshtalk_runs_def by (auto intro!: trace_rules)

lemma clear_installation_pids [trace_rules]: "clear Q (installation_pids host destination)"
  unfolding installation_pids_def by (auto intro!: trace_rules)

lemma clear_closing: "clear is_install (closing_first host wanted destination)"
  unfolding closing_first_def closeForInstallation_def by (auto intro!: trace_rules)

lemma clear_staging: "clear is_install (stage_while_running host source destination)"
  unfolding stage_while_running_def by (auto intro!: trace_rules)


end
