(* ===== verification/LaunchRestart.thy ===== *)
theory LaunchRestart
  imports LaunchProperties
begin

text \<open>The restart for an update: what it waits for, and what it never does.\<close>

text \<open>What disturbs another window or its backend.\<close>

fun disturbing :: "launcher_event \<Rightarrow> bool" where
  "disturbing (Requested a b) = (a = ''shutdown'')"
| "disturbing (Signalled n g s) = True"
| "disturbing KilledChild = True"
| "disturbing (PreparedRestart p) = True"
| "disturbing e = False"

fun is_signal :: "launcher_event \<Rightarrow> bool" where
  "is_signal (Signalled n g s) = True"
| "is_signal KilledChild = True"
| "is_signal e = False"

fun is_prepared :: "launcher_event \<Rightarrow> bool" where
  "is_prepared (PreparedRestart p) = True"
| "is_prepared e = False"

lemma clear_physical [trace_rules]: "clear Q (physical host p)"
  unfolding physical_def by (auto intro!: trace_rules split: option.split)

lemma clear_target [trace_rules]: "clear Q (restart_target host)"
  unfolding restart_target_def by (auto intro!: trace_rules split: option.split)

lemma clear_replacement [trace_rules]: "clear Q (launchReplacement host p args)"
  unfolding launchReplacement_def by (auto intro!: trace_rules)

lemma clear_become [trace_rules]: "(\<And>p. \<not> Q (PreparedRestart p)) \<Longrightarrow> clear Q (become_update host)"
  unfolding become_update_def by (auto intro!: trace_rules split: option.split)

lemma clear_stop_all [trace_rules]:
  "\<lbrakk>\<And>n b. \<not> Q (Probed n b); \<And>n g s. \<not> Q (Signalled n g s); \<not> Q KilledChild; \<And>s. \<not> Q (Logged s); \<And>a b. \<not> Q (Requested a b)\<rbrakk>
     \<Longrightarrow> clear Q (restart_shutdown host mine pid)"
  unfolding restart_shutdown_def by (auto intro!: trace_rules clear_stopBackend)

lemma clear_close_backend [trace_rules]:
  "\<lbrakk>\<And>n b. \<not> Q (Probed n b); \<And>n g s. \<not> Q (Signalled n g s); \<not> Q KilledChild; \<And>s. \<not> Q (Logged s); \<And>a b. \<not> Q (Requested a b)\<rbrakk>
     \<Longrightarrow> clear Q (close_backend host mine pid)"
  unfolding close_backend_def by (auto intro!: trace_rules)

lemma grows_become: "grows (become_update host)"
  by (simp add: grows_iff trace_rules)

subsection \<open>No other window is disturbed\<close>

lemma restart_undisturbed: "guards (\<lambda>e. e = ListedOthers []) disturbing (update_restart host mine pid)"
  unfolding update_restart_def
proof (rule guards_check [OF _ others_shows])
  show "guards (\<lambda>e. e = ListedOthers []) disturbing (otherLauncherPids host)"
    by (rule clear_guards) (auto intro!: trace_rules)
qed (auto intro!: clear_guards trace_rules simp: grows_iff chain_do_def)

lemma restart_refused:
  assumes "other_pids host (lh_ps host (lw_step w)) \<noteq> Inr []"
  shows "isl (fst (update_restart host mine pid w)) \<and> lw_files (snd (update_restart host mine pid w)) = lw_files w"
  using assms
  by (auto simp: update_restart_def otherLauncherPids_def asking_or_def chain_def failing_def stop_def tick_def split: sum.splits)

subsection \<open>Only a backend that answers is signalled\<close>

lemma shutdown_guards: "guards (\<lambda>e. e = Requested ''identity'' True) is_signal (restart_shutdown host mine pid)"
proof -
  have stop_grows: "grows (chain (stopBackend host p d c) (\<lambda>stopped. if stopped then give () else failing s))" for p d c s
    by (auto simp: grows_iff intro!: trace_rules clear_stopBackend)
  have after: "guards (\<lambda>e. e = Requested ''identity'' True) is_signal (chain (backendRunning host) (\<lambda>running.
     if \<not> running then give () else chain (stopBackend host p d c) (\<lambda>stopped. if stopped then give () else failing s)))"
    for p d c s
  proof (rule guards_check [OF _ running_shows])
    show "guards (\<lambda>e. e = Requested ''identity'' True) is_signal (backendRunning host)"
      by (rule clear_guards) (auto intro!: trace_rules)
    show "grows (if \<not> running then give () else chain (stopBackend host p d c) (\<lambda>stopped. if stopped then give () else failing s))"
      for running using stop_grows by (simp add: grows_iff trace_rules)
  qed (auto intro!: clear_guards trace_rules)
  show ?thesis unfolding restart_shutdown_def
  proof (rule guards_chain)
    show "guards (\<lambda>e. e = Requested ''identity'' True) is_signal (requestBackendShutdown host)"
      by (rule clear_guards) (auto intro!: trace_rules)
    show "guards (\<lambda>e. e = Requested ''identity'' True) is_signal
        (if down then give () else chain (backendRunning host) (\<lambda>running. if \<not> running then give ()
          else chain (stopBackend host p d c) (\<lambda>stopped. if stopped then give () else failing s)))" for down p d c s
      using after by (simp add: clear_guards trace_rules)
  qed
qed

lemma restart_signals: "guards (\<lambda>e. e = Requested ''identity'' True) is_signal (update_restart host mine pid)"
proof -
  let ?P = "\<lambda>e. e = Requested ''identity'' True"
  have closing: "guards ?P is_signal (close_backend host mine pid)" unfolding close_backend_def
    by (intro guards_chain_do shutdown_guards) (auto intro!: clear_guards trace_rules)
  have "guards ?P is_signal (chain_do (close_backend host mine pid) (become_update host))"
    by (intro guards_chain_do closing) (auto intro!: clear_guards trace_rules)
  then show ?thesis unfolding update_restart_def
    by (intro guards_chain) (auto intro!: clear_guards trace_rules)
qed

subsection \<open>The backend has ended\<close>

definition keeps_files :: "'a boot \<Rightarrow> bool" where
  "keeps_files m \<longleftrightarrow> (\<forall>w. lw_files (snd (m w)) = lw_files w)"

lemma keeps_chain: "keeps_files m \<Longrightarrow> (\<And>x. keeps_files (f x)) \<Longrightarrow> keeps_files (chain m f)"
  by (simp add: keeps_files_def chain_def split: prod.split sum.split) (metis snd_conv)

lemma keeps_chain_do: "keeps_files m \<Longrightarrow> keeps_files k \<Longrightarrow> keeps_files (chain_do m k)"
  by (simp add: chain_do_def keeps_chain)

lemma keeps_basic:
  "keeps_files (give x)" "keeps_files (stop e)" "keeps_files (failing s)" "keeps_files (looking f')" "keeps_files (saying host ev)"
  "keeps_files (asking host g es1)" "keeps_files (asking_or host h es2)" "keeps_files (log host s)"
  by (simp_all add: keeps_files_def give_def stop_def failing_def looking_def saying_def asking_def asking_or_def log_def
      tick_def split: sum.split)

lemma keeps_running: "keeps_files (backendRunning host)" "keeps_files (backendRequest host action)"
  unfolding backendRunning_def backendRequest_def by (auto intro!: keeps_chain keeps_basic)

lemma keeps_until_stopped: "lw_files (snd (until_stopped host deadline w)) = lw_files w"
proof (induction host deadline w rule: until_stopped.induct)
  case (1 host deadline w)
  obtain r w1 where m: "backendRunning host w = (r, w1)" by fastforce
  then have "lw_files w1 = lw_files w" using keeps_running(1) [of host] by (metis keeps_files_def snd_conv)
  then show ?case using 1 [OF _ m [symmetric]] m
    by (subst until_stopped.simps) (auto simp: pause_def tick_def split: sum.split)
qed

lemma keeps_alive: "keeps_files (backendPidAlive host pid)"
  unfolding backendPidAlive_def by (rule keeps_basic)

lemma keeps_until_exit: "lw_files (snd (until_exit host pid deadline w)) = lw_files w"
proof (induction host pid deadline w rule: until_exit.induct)
  case (1 host pid deadline w)
  obtain r w1 where m: "backendPidAlive host pid w = (r, w1)" by fastforce
  then have "lw_files w1 = lw_files w" using keeps_alive [of host pid] by (metis keeps_files_def snd_conv)
  then show ?case using 1 [OF m [symmetric]] m
    by (subst until_exit.simps) (auto simp: pause_def tick_def split: sum.split)
qed

lemma keeps_wait: "keeps_files (waitForPidExit host pid timeout)"
  by (simp add: keeps_files_def waitForPidExit_def keeps_until_exit)

lemma keeps_stop: "keeps_files (stopBackend host pid daemonise child)"
  unfolding stopBackend_def stopping_def Let_def signalBackend_def
  by (auto intro!: keeps_chain keeps_chain_do keeps_basic keeps_alive keeps_wait split: option.split)

lemma keeps_shutdown: "keeps_files (requestBackendShutdown host)"
proof -
  have "keeps_files (\<lambda>w. until_stopped host (lw_clock w + 5000) w)" by (simp add: keeps_files_def keeps_until_stopped)
  then show ?thesis unfolding requestBackendShutdown_def by (auto intro!: keeps_chain keeps_basic keeps_running)
qed

lemma keeps_restart_shutdown: "keeps_files (restart_shutdown host mine pid)"
  unfolding restart_shutdown_def by (auto intro!: keeps_chain keeps_basic keeps_running keeps_stop keeps_shutdown)

lemma keeps_others: "keeps_files (otherLauncherPids host)"
  unfolding otherLauncherPids_def by (rule keeps_basic)

lemma keeps_reap: "keeps_files (reapBackendProcess host child)"
  unfolding reapBackendProcess_def by (auto intro!: keeps_basic)

text \<open>Since the files stay as they are, the processes to wait for are those of the start.\<close>

definition closing_these :: "launcher_host \<Rightarrow> bool \<Rightarrow> nat option \<Rightarrow> int list \<Rightarrow> unit boot" where
  "closing_these host mine pid ns =
     chain_do (restart_shutdown host mine pid) (chain_do (reapBackendProcess host mine) (wait_for_exits host ns))"

lemma chain_cong: "m w = (r, w') \<Longrightarrow> (\<And>x. r = Inr x \<Longrightarrow> f x w' = g x w') \<Longrightarrow> chain m f w = chain m g w"
  by (simp add: chain_def split: sum.split)

lemma closing_these_eq: "close_backend host mine pid w = closing_these host mine pid (backend_pids host mine pid (w_disk (lw_files w))) w"
proof -
  obtain r w1 where m: "restart_shutdown host mine pid w = (r, w1)" by fastforce
  have f1: "lw_files w1 = lw_files w" using keeps_restart_shutdown [of host mine pid] m by (metis keeps_files_def snd_conv)
  obtain r2 w2 where k: "reapBackendProcess host mine w1 = (r2, w2)" by fastforce
  have f2: "lw_files w2 = lw_files w1" using keeps_reap [of host mine] k by (metis keeps_files_def snd_conv)
  have reaped: "chain (reapBackendProcess host mine) (\<lambda>u. chain (looking (backend_pids host mine pid)) (wait_for_exits host)) w1
      = chain (reapBackendProcess host mine) (\<lambda>u. wait_for_exits host ns) w1"
    if "ns = backend_pids host mine pid (w_disk (lw_files w))" for ns
    by (rule chain_cong) (rule k, simp add: chain_def [of "looking g" for g] looking_def f1 f2 that)
  show ?thesis unfolding close_backend_def closing_these_def chain_do_def
    by (rule chain_cong) (rule m, simp add: reaped)
qed

lemma closing_these_shows:
  "n \<in> set ns \<Longrightarrow> shows_unless (\<lambda>e. e = Probed n False) (\<lambda>u. False) (closing_these host mine pid ns)"
  unfolding closing_these_def chain_do_def
  by (intro shows_later wait_for_exits_shows) (auto simp: grows_iff intro!: trace_rules)

lemma restart_waits:
  assumes "n \<in> set (backend_pids host mine pid (w_disk (lw_files w)))"
  shows "in_order (\<lambda>e. e = Probed n False) is_prepared (new_events (update_restart host mine pid) w)"
proof -
  define ns where "ns = backend_pids host mine pid (w_disk (lw_files w))"
  let ?rest = "\<lambda>k others. if others \<noteq> [] then failing (js ''Another MeshTalk instance is still running (PID '' @ join_numbers others
     @ js ''). Close other MeshTalk windows before restarting to update.'') else chain_do k (become_update host)"
  obtain r w1 where m: "otherLauncherPids host w = (r, w1)" by fastforce
  have f1: "lw_files w1 = lw_files w" using keeps_others [of host] m by (metis keeps_files_def snd_conv)
  have "update_restart host mine pid w = chain (otherLauncherPids host) (?rest (closing_these host mine pid ns)) w"
    unfolding update_restart_def
    by (rule chain_cong) (rule m, simp add: chain_do_def chain_def closing_these_eq f1 ns_def)
  moreover have checked: "guards (\<lambda>e. e = Probed n False) is_prepared (?rest (closing_these host mine pid ns) others)" for others
  proof -
    have "guards (\<lambda>e. e = Probed n False) is_prepared (chain_do (closing_these host mine pid ns) (become_update host))"
      unfolding chain_do_def
    proof (rule guards_check [OF _ closing_these_shows])
      show "guards (\<lambda>e. e = Probed n False) is_prepared (closing_these host mine pid ns)"
        unfolding closing_these_def by (auto intro!: clear_guards trace_rules)
    qed (use assms in \<open>auto simp: ns_def grows_become\<close>)
    then show ?thesis by (simp add: clear_guards trace_rules)
  qed
  have "guards (\<lambda>e. e = Probed n False) is_prepared (chain (otherLauncherPids host) (?rest (closing_these host mine pid ns)))"
    by (rule guards_chain [OF clear_guards [OF clear_others] checked]) simp
  ultimately show ?thesis using guards_run by (simp add: new_events_def)
qed


end
