(* ===== verification/SessionMessages.thy ===== *)
theory SessionMessages
  imports ChatSend
begin

text \<open>
  The messages that the terminal client shows (\<open>tui/src/ChatApp.tsx\<close>): optimistic rows across refreshes of the history and
  across switches of the conversation, the kind of a pasted image, and which messages count as unread. A component's state
  setter with a function argument is that function; what a closure captured is an argument.
\<close>

subsection \<open>Pasted images\<close>

definition begins_with :: "nat list \<Rightarrow> nat \<Rightarrow> nat list \<Rightarrow> bool" where
  "begins_with bytes at_byte magic \<longleftrightarrow> take (length magic) (drop at_byte bytes) = magic"

definition detectImageMime :: "nat list \<Rightarrow> jsstr option" where
  "detectImageMime bytes =
     (if 8 \<le> length bytes \<and> begins_with bytes 0 [137, 80, 78, 71] then Some (js ''image/png'')
      else if 3 \<le> length bytes \<and> begins_with bytes 0 [255, 216, 255] then Some (js ''image/jpeg'')
      else if 6 \<le> length bytes \<and> begins_with bytes 0 [71, 73, 70, 56] then Some (js ''image/gif'')
      else if 12 \<le> length bytes \<and> begins_with bytes 0 [82, 73, 70, 70] \<and> begins_with bytes 8 [87, 69, 66, 80]
      then Some (js ''image/webp'')
      else None)"

subsection \<open>Refreshing the history\<close>

text \<open>Rows that exist only here: those still being sent and those that could not be sent.\<close>

definition local_row :: "chat_message \<Rightarrow> bool" where
  "local_row m \<longleftrightarrow> msg_pending m \<noteq> 0 \<or> (msg_failed m \<noteq> 0 \<and> starts_with (msg_id m) PENDING_PREFIX)"

fun first_rows :: "jsstr list \<Rightarrow> chat_message list \<Rightarrow> chat_message list" where
  "first_rows seen [] = []"
| "first_rows seen (m # ms) = (if msg_id m \<in> set seen then first_rows seen ms else m # first_rows (msg_id m # seen) ms)"

definition preservePendingMessages :: "chat_message list \<Rightarrow> chat_message list \<Rightarrow> chat_message list" where
  "preservePendingMessages current server =
     (let pending = filter (\<lambda>m. local_row m \<and> msg_id m \<notin> set (map msg_id server)) current in server @ first_rows [] pending)"

type_synonym buffers = "(jsstr, chat_message list) jsmap"

definition buffer_of :: "jsstr \<Rightarrow> buffers \<Rightarrow> chat_message list" where
  "buffer_of key b = (case map_get b key of Some rows \<Rightarrow> rows | None \<Rightarrow> [])"

definition without_row :: "jsstr \<Rightarrow> chat_message list \<Rightarrow> chat_message list" where
  "without_row i rows = filter (\<lambda>m. msg_id m \<noteq> i) rows"

text \<open>A row that was stashed while its message was sent: by now it may have been acknowledged or have failed.\<close>

definition revived_row :: "jsstr list \<Rightarrow> send_meta option \<Rightarrow> chat_message \<Rightarrow> chat_message list" where
  "revived_row serverIds meta row = (case meta of
     Some m \<Rightarrow>
       if sm_realId m \<in> set serverIds then []
       else if sm_failed m
       then (if msg_id row \<in> set serverIds then [] else [row\<lparr>msg_pending := 0, msg_failed := 1\<rparr>])
       else [row\<lparr>msg_id := sm_realId m, msg_pending := 0, msg_queued := (if sm_queued m then 1 else 0),
               msg_deliveries := (case sm_deliveries m of Some d \<Rightarrow> Some d | None \<Rightarrow> msg_deliveries row),
               msg_mentions := (case sm_mentions m of Some x \<Rightarrow> x | None \<Rightarrow> msg_mentions row)\<rparr>]
   | None \<Rightarrow> if msg_id row \<in> set serverIds then [] else [row])"

definition unbuffered :: "jsstr list \<Rightarrow> send_meta option \<Rightarrow> jsstr option \<Rightarrow> chat_message \<Rightarrow> buffers \<Rightarrow> buffers" where
  "unbuffered serverIds meta key row b = (case (meta, key) of
     (Some m, Some k) \<Rightarrow>
       if sm_realId m \<notin> set serverIds \<and> sm_failed m \<and> k \<noteq> [] \<and> map_get b k \<noteq> None
       then map_set k (without_row (msg_id row) (buffer_of k b)) b else b
   | _ \<Rightarrow> b)"

fun reviveBufferedPending ::
  "chat_message list \<Rightarrow> chat_message list \<Rightarrow> (jsstr, send_meta) jsmap \<Rightarrow> jsstr option \<Rightarrow> buffers \<Rightarrow> chat_message list \<times> buffers" where
  "reviveBufferedPending [] server meta key b = ([], b)"
| "reviveBufferedPending (row # rows) server meta key b =
     (let ids = map msg_id server; m = map_get meta (msg_id row) in
      case reviveBufferedPending rows server meta key (unbuffered ids m key row b) of
        (revived, b') \<Rightarrow> (revived_row ids m row @ revived, b'))"

definition patch_row :: "jsstr \<Rightarrow> (chat_message \<Rightarrow> chat_message) \<Rightarrow> chat_message \<Rightarrow> chat_message" where
  "patch_row i f m = (if msg_id m = i then f m else m)"

definition patchPendingBuffers :: "jsstr \<Rightarrow> (chat_message \<Rightarrow> chat_message) \<Rightarrow> buffers \<Rightarrow> buffers" where
  "patchPendingBuffers i f b = map (\<lambda>(k, rows). (k, map (patch_row i f) rows)) b"

subsection \<open>Switching the conversation\<close>

definition MAX_PENDING_BUFFER :: nat where "MAX_PENDING_BUFFER = 100"

definition capPendingBuffer :: "jsstr \<Rightarrow> buffers \<Rightarrow> buffers" where
  "capPendingBuffer key b = (if length (buffer_of key b) \<le> MAX_PENDING_BUFFER then b
     else map_set key (take MAX_PENDING_BUFFER (buffer_of key b)) b)"

definition stash_rows :: "jsstr \<Rightarrow> chat_message list \<Rightarrow> buffers \<Rightarrow> buffers" where
  "stash_rows key pending b =
     (let existing = buffer_of key b;
          deduped = filter (\<lambda>m. msg_id m \<notin> set (map msg_id existing)) pending
      in capPendingBuffer key (map_set key
           (existing @ slice_int deduped 0 (int MAX_PENDING_BUFFER - int (length existing))) b))"

text \<open>
  The view of the messages. \<open>vw_ref\<close> is the reference that holds the key of the selected conversation: every rendering
  sets it. The effect of a conversation is cleaned up after the next conversation has been rendered, so what the clean-up
  reads from the reference is the key of the next one.
\<close>

record message_view =
  vw_ref :: "jsstr option"
  vw_messages :: "chat_message list"
  vw_buffers :: buffers
  vw_loading :: bool

definition leave_conversation :: "message_view \<Rightarrow> message_view" where
  "leave_conversation v =
     (let pending = filter (\<lambda>m. msg_pending m \<noteq> 0) (vw_messages v) in
      if pending \<noteq> [] \<and> truthy (vw_ref v) then v\<lparr>vw_buffers := stash_rows (the (vw_ref v)) pending (vw_buffers v)\<rparr> else v)"

definition enter_conversation :: "message_view \<Rightarrow> message_view" where
  "enter_conversation v = v\<lparr>vw_messages := [], vw_loading := truthy (vw_ref v)\<rparr>"

definition select_conversation :: "jsstr option \<Rightarrow> message_view \<Rightarrow> message_view" where
  "select_conversation key v = enter_conversation (leave_conversation (v\<lparr>vw_ref := key\<rparr>))"

definition history_loaded :: "(jsstr, send_meta) jsmap \<Rightarrow> jsstr \<Rightarrow> chat_message list \<Rightarrow> message_view \<Rightarrow> message_view" where
  "history_loaded meta key history v =
     (let buffered = buffer_of key (vw_buffers v);
          b = (if buffered = [] then vw_buffers v else map_del key (vw_buffers v))
      in case reviveBufferedPending buffered history meta (Some key) b of
           (revived, b') \<Rightarrow> v\<lparr>vw_messages := preservePendingMessages (vw_messages v) (history @ revived), vw_buffers := b',
             vw_loading := False\<rparr>)"

text \<open>A later refresh of the same conversation.\<close>

definition history_refreshed :: "chat_message list \<Rightarrow> message_view \<Rightarrow> message_view" where
  "history_refreshed history v = v\<lparr>vw_messages := preservePendingMessages (vw_messages v) history\<rparr>"

subsection \<open>Unread messages\<close>

record unread_state =
  un_conversationKey :: jsstr
  un_receivedAt :: rat
  un_visibleAt :: "rat option"

definition MAX_UNREAD_ENTRIES :: nat where "MAX_UNREAD_ENTRIES = 500"

type_synonym unread = "(jsstr, unread_state) jsmap"

definition rememberUnreadMessage :: "jsstr \<Rightarrow> jsstr option \<Rightarrow> rat \<Rightarrow> unread \<Rightarrow> unread" where
  "rememberUnreadMessage conversationKey messageId receivedAt current =
     (if \<not> truthy messageId \<or> map_get current (the messageId) \<noteq> None then current
      else retainRecentEntries (map_set (the messageId)
        \<lparr>un_conversationKey = conversationKey, un_receivedAt = receivedAt, un_visibleAt = None\<rparr> current) MAX_UNREAD_ENTRIES)"

definition unread_of_row :: "jsstr \<Rightarrow> rat \<Rightarrow> chat_message \<Rightarrow> unread_state" where
  "unread_of_row conversationKey now m = \<lparr>un_conversationKey = conversationKey,
     un_receivedAt = (case msg_received_at m of Some t \<Rightarrow> t * 1000 | None \<Rightarrow> now), un_visibleAt = None\<rparr>"

fun add_unread :: "jsstr \<Rightarrow> rat \<Rightarrow> chat_message list \<Rightarrow> unread \<Rightarrow> unread" where
  "add_unread key now [] u = u"
| "add_unread key now (m # ms) u =
     add_unread key now ms (if map_get u (msg_id m) = None then map_set (msg_id m) (unread_of_row key now m) u else u)"

text \<open>Of the last messages of others as many as the backend counts as unread.\<close>

definition rememberUnreadHistory :: "jsstr option \<Rightarrow> jsstr \<Rightarrow> chat_message list \<Rightarrow> nat \<Rightarrow> rat \<Rightarrow> unread \<Rightarrow> unread" where
  "rememberUnreadHistory self conversationKey history unreadCount now current =
     (if \<not> truthy self \<or> unreadCount = 0 then current
      else let incoming = filter (\<lambda>m. msg_sender_id m \<noteq> the self) history;
               rows = drop (length incoming - unreadCount) incoming;
               next' = add_unread conversationKey now rows current
           in if next' = current then current else retainRecentEntries next' MAX_UNREAD_ENTRIES)"

definition markUnreadMessageVisible :: "jsstr \<Rightarrow> rat \<Rightarrow> unread \<Rightarrow> unread" where
  "markUnreadMessageVisible messageId now current = (case map_get current messageId of
     None \<Rightarrow> current
   | Some m \<Rightarrow> if un_visibleAt m \<noteq> None then current else map_set messageId (m\<lparr>un_visibleAt := Some now\<rparr>) current)"

definition UNREAD_MESSAGE_FADE_MS :: rat where "UNREAD_MESSAGE_FADE_MS = 3000"

definition fade_unread :: "rat \<Rightarrow> unread \<Rightarrow> unread" where
  "fade_unread now current =
     filter (\<lambda>(i, m). \<not> (case un_visibleAt m of Some t \<Rightarrow> UNREAD_MESSAGE_FADE_MS \<le> now - t | None \<Rightarrow> False)) current"

subsection \<open>What a refresh keeps\<close>

lemma first_rows_ids: "set (map msg_id (first_rows seen ms)) = set (map msg_id ms) - set seen"
  by (induction seen ms rule: first_rows.induct) auto

lemma first_rows_distinct: "distinct (map msg_id (first_rows seen ms))"
proof (induction seen ms rule: first_rows.induct)
  case (2 seen m ms)
  moreover have "msg_id m \<notin> set (map msg_id (first_rows (msg_id m # seen) ms))" unfolding first_rows_ids by simp
  ultimately show ?case by simp
qed simp

lemma first_rows_subset: "set (first_rows seen ms) \<subseteq> set ms"
  by (induction seen ms rule: first_rows.induct) auto

text \<open>A refresh of the history takes the rows of the backend as they are and after them keeps each row that exists only
  here, one still being sent or one that could not be sent, exactly once, unless the backend has a row with its identity.\<close>

theorem refresh_keeps_local_rows:
  "\<exists>rows. preservePendingMessages current server = server @ rows
     \<and> set rows \<subseteq> {m \<in> set current. local_row m}
     \<and> distinct (map msg_id rows)
     \<and> set (map msg_id rows) = msg_id ` {m \<in> set current. local_row m} - set (map msg_id server)"
proof (intro exI conjI)
  let ?rows = "first_rows [] (filter (\<lambda>m. local_row m \<and> msg_id m \<notin> set (map msg_id server)) current)"
  show "preservePendingMessages current server = server @ ?rows" by (simp add: preservePendingMessages_def)
  show "set ?rows \<subseteq> {m \<in> set current. local_row m}" using first_rows_subset by fastforce
  show "distinct (map msg_id ?rows)" by (rule first_rows_distinct)
  show "set (map msg_id ?rows) = msg_id ` {m \<in> set current. local_row m} - set (map msg_id server)"
    unfolding first_rows_ids by auto
qed

subsection \<open>Where a row is stashed\<close>

lemma buffer_of_set [simp]: "buffer_of k (map_set k' rows b) = (if k = k' then rows else buffer_of k b)"
  by (simp add: buffer_of_def)

lemma buffer_of_del: "map_ok b \<Longrightarrow> buffer_of k (map_del k' b) = (if k = k' then [] else buffer_of k b)"
  by (simp add: buffer_of_def)

lemma stash_empty:
  assumes "buffer_of key b = []" "length rows \<le> MAX_PENDING_BUFFER"
  shows "stash_rows key rows b = map_set key rows b"
proof -
  have "slice_int rows 0 100 = rows" using assms(2) by (simp add: slice_int_def slice_def clamp_def MAX_PENDING_BUFFER_def)
  then show ?thesis using assms by (simp add: stash_rows_def capPendingBuffer_def MAX_PENDING_BUFFER_def)
qed

lemma revive_rows:
  "fst (reviveBufferedPending rows history meta key b)
     = concat (map (\<lambda>r. revived_row (map msg_id history) (map_get meta (msg_id r)) r) rows)"
  by (induction rows arbitrary: b) (simp_all add: Let_def split: prod.split, metis fst_conv)

lemma revive_unsent:
  "\<lbrakk>m \<in> set rows; map_get meta (msg_id m) = None; msg_id m \<notin> set (map msg_id history)\<rbrakk>
     \<Longrightarrow> m \<in> set (fst (reviveBufferedPending rows history meta key b))"
  unfolding revive_rows by (force simp: revived_row_def)

text \<open>C34. A row that is still being sent when another conversation is selected appears in that other conversation: the clean-up
  of the left conversation stashes it under the key of the selected one, and loading the history of the selected one takes it
  from there. Nothing is stashed under the key of the left conversation.\<close>

theorem pending_rows_move:
  assumes "m \<in> set (vw_messages v)" and "msg_pending m \<noteq> 0"
    and "length (vw_messages v) \<le> MAX_PENDING_BUFFER" and "buffer_of key (vw_buffers v) = []"
    and "key \<noteq> []" and "old \<noteq> key"
    and "map_get meta (msg_id m) = None" and "msg_id m \<notin> set (map msg_id history)"
  shows "m \<in> set (vw_messages (history_loaded meta key history (select_conversation (Some key) v)))
    \<and> buffer_of old (vw_buffers (select_conversation (Some key) v)) = buffer_of old (vw_buffers v)"
proof -
  define rows where "rows = filter (\<lambda>m. msg_pending m \<noteq> 0) (vw_messages v)"
  have m: "m \<in> set rows" using assms(1,2) by (simp add: rows_def)
  have len: "length rows \<le> MAX_PENDING_BUFFER"
    unfolding rows_def by (rule order_trans [OF length_filter_le assms(3)])
  have rows_eq: "filter (\<lambda>m. 0 < msg_pending m) (vw_messages v) = rows" and nonempty: "rows \<noteq> []"
    using m by (simp_all add: rows_def, auto simp: filter_empty_conv)
  have sel: "select_conversation (Some key) v = v\<lparr>vw_ref := Some key, vw_messages := [], vw_loading := True,
      vw_buffers := map_set key rows (vw_buffers v)\<rparr>"
    using rows_eq nonempty assms(5) stash_empty [OF assms(4) len]
    by (simp add: select_conversation_def leave_conversation_def enter_conversation_def)
  obtain revived b' where r: "reviveBufferedPending rows history meta (Some key) (map_del key (map_set key rows (vw_buffers v))) = (revived, b')"
    by fastforce
  have "m \<in> set revived" using revive_unsent [OF m assms(7,8), of "Some key"] r by (metis fst_conv)
  then have "m \<in> set (vw_messages (history_loaded meta key history (select_conversation (Some key) v)))"
    using m r by (auto simp: sel history_loaded_def preservePendingMessages_def)
  then show ?thesis using assms(6) by (simp add: sel)
qed

definition sample_row :: "jsstr \<Rightarrow> chat_message" where
  "sample_row i = optimistic_row i (js ''me'') (PeerChat (js ''a'')) (js ''hello'') 1 None"

definition sample_view :: message_view where
  "sample_view = \<lparr>vw_ref = Some (js ''peer:a''), vw_messages = [sample_row (js ''pending-1'')], vw_buffers = [], vw_loading = False\<rparr>"

theorem pending_rows_move_witness:
  "sample_row (js ''pending-1'')
     \<in> set (vw_messages (history_loaded [] (js ''peer:b'') [] (select_conversation (Some (js ''peer:b'')) sample_view)))"
proof -
  have "sample_row (js ''pending-1'') \<in> set (vw_messages sample_view)" "length (vw_messages sample_view) \<le> MAX_PENDING_BUFFER"
    "buffer_of (js ''peer:b'') (vw_buffers sample_view) = []" "msg_pending (sample_row (js ''pending-1'')) \<noteq> 0"
    by (simp_all add: sample_view_def MAX_PENDING_BUFFER_def buffer_of_def sample_row_def optimistic_row_def)
  then show ?thesis
    using pending_rows_move [of "sample_row (js ''pending-1'')" sample_view "js ''peer:b''" "js ''peer:a''" "[]" "[]"]
    by (simp add: js_def)
qed

end
