(* ===== verification/SessionTyping.thy ===== *)
theory SessionTyping
  imports SessionMessages "HOL-Library.Multiset"
begin

text \<open>
  Who is typing (\<open>tui/src/ChatApp.tsx\<close>). Incoming: events of other clients, which may arrive in any order, are kept per
  conversation and sender until they expire. Outgoing: what the composer makes the client send, with its three timers.
\<close>

subsection \<open>Incoming\<close>

record typing_peer =
  tp_displayName :: jsstr
  tp_createdAt :: rat
  tp_expiresAt :: rat
  tp_isTyping :: bool

type_synonym typing = "(jsstr, (jsstr, typing_peer) jsmap) jsmap"

definition typing_in :: "jsstr \<Rightarrow> typing \<Rightarrow> (jsstr, typing_peer) jsmap" where
  "typing_in conversation t = (case map_get t conversation of Some m \<Rightarrow> m | None \<Rightarrow> [])"

definition peer_key :: "jsstr \<Rightarrow> jsstr" where "peer_key i = js ''peer:'' @ i"

definition group_key :: "jsstr \<Rightarrow> jsstr" where "group_key i = js ''group:'' @ i"

definition name_given :: "json option \<Rightarrow> jsstr option" where
  "name_given v = (case v of None \<Rightarrow> None | Some JNull \<Rightarrow> None | Some (JStr s) \<Rightarrow> Some s | _ \<Rightarrow> Some [])"

definition peer_name :: "peer list \<Rightarrow> jsstr \<Rightarrow> jsstr option" where
  "peer_name peers i = map_option peer_display_name (find (\<lambda>p. peer_id p = i) peers)"

definition first_name :: "jsstr option list \<Rightarrow> jsstr \<Rightarrow> jsstr" where
  "first_name names unknown = (case find (\<lambda>n. n \<noteq> None) names of Some (Some n) \<Rightarrow> n | _ \<Rightarrow> unknown)"

text \<open>The place of an event and what it says, unless it is one's own or has no time.\<close>

definition typing_event :: "jsstr option \<Rightarrow> peer list \<Rightarrow> rat \<Rightarrow> json_object \<Rightarrow> ((jsstr \<times> jsstr) \<times> typing_peer) option" where
  "typing_event self peers now ev =
     (let sender = as_string (field ev ''sender_id'') in
      if self = Some sender then None
      else case field ev ''created_at'' of
          Some (JNum createdAt) \<Rightarrow>
            let conversation = (if json_truthy (field ev ''group_id'') then group_key (as_string (field ev ''group_id'')) else peer_key sender);
                isTyping = json_truthy (field ev ''is_typing'')
            in Some ((conversation, sender), \<lparr>tp_displayName = first_name [name_given (field ev ''display_name''), peer_name peers sender] (js ''Someone''),
                 tp_createdAt = createdAt, tp_expiresAt = now + (if isTyping then 6000 else 30000), tp_isTyping = isTyping\<rparr>)
        | _ \<Rightarrow> None)"

definition put_typing :: "jsstr \<times> jsstr \<Rightarrow> typing_peer \<Rightarrow> typing \<Rightarrow> typing" where
  "put_typing place p t = (case map_get (typing_in (fst place) t) (snd place) of
     Some previous \<Rightarrow> if tp_createdAt p \<le> tp_createdAt previous then t
       else map_set (fst place) (map_set (snd place) p (typing_in (fst place) t)) t
   | None \<Rightarrow> map_set (fst place) (map_set (snd place) p (typing_in (fst place) t)) t)"

definition receive_typing :: "jsstr option \<Rightarrow> peer list \<Rightarrow> rat \<times> json_object \<Rightarrow> typing \<Rightarrow> typing" where
  "receive_typing self peers e t = (case typing_event self peers (fst e) (snd e) of
     None \<Rightarrow> t | Some (place, p) \<Rightarrow> put_typing place p t)"

text \<open>A message of the sender, or its leaving, ends its typing.\<close>

definition drop_typing :: "jsstr \<Rightarrow> jsstr \<Rightarrow> typing \<Rightarrow> typing" where
  "drop_typing conversation sender t =
     (let remaining = map_del sender (typing_in conversation t); other = map_del conversation t in
      if remaining = [] then other else map_set conversation remaining other)"

definition active_typing :: "rat \<Rightarrow> (jsstr, typing_peer) jsmap \<Rightarrow> (jsstr, typing_peer) jsmap" where
  "active_typing now ps = filter (\<lambda>(i, p). now < tp_expiresAt p) ps"

definition expire_typing :: "rat \<Rightarrow> typing \<Rightarrow> typing" where
  "expire_typing now t =
     (if list_ex (\<lambda>(c, ps). length (active_typing now ps) \<noteq> length ps) t
      then filter (\<lambda>(c, ps). ps \<noteq> []) (map (\<lambda>(c, ps). (c, active_typing now ps)) t) else t)"

definition typing_names :: "jsstr \<Rightarrow> typing \<Rightarrow> jsstr list" where
  "typing_names conversation t = map tp_displayName (filter tp_isTyping (map snd (typing_in conversation t)))"

definition typing_keys :: "typing \<Rightarrow> jsstr list" where
  "typing_keys t = map fst (filter (\<lambda>(c, ps). list_ex (\<lambda>(i, p). tp_isTyping p) ps) t)"

subsection \<open>The order of arrival does not matter\<close>

text \<open>What is shown of a sender in a conversation.\<close>

definition shown_typing :: "typing \<Rightarrow> jsstr \<times> jsstr \<Rightarrow> (jsstr \<times> rat \<times> bool) option" where
  "shown_typing t place = map_option (\<lambda>p. (tp_displayName p, tp_createdAt p, tp_isTyping p)) (map_get (typing_in (fst place) t) (snd place))"

definition newest :: "(jsstr \<times> rat \<times> bool) \<Rightarrow> (jsstr \<times> rat \<times> bool) option \<Rightarrow> (jsstr \<times> rat \<times> bool) option" where
  "newest e s = (case s of Some p \<Rightarrow> if fst (snd e) \<le> fst (snd p) then s else Some e | None \<Rightarrow> Some e)"

lemma newest_commute: "fst (snd a) \<noteq> fst (snd b) \<Longrightarrow> newest a (newest b s) = newest b (newest a s)"
  by (auto simp: newest_def split: option.split)

text \<open>What an event says of a place, without the time of its arrival.\<close>

definition said_of :: "jsstr option \<Rightarrow> peer list \<Rightarrow> jsstr \<times> jsstr \<Rightarrow> json_object \<Rightarrow> (jsstr \<times> rat \<times> bool) option" where
  "said_of self peers place ev = (case typing_event self peers 0 ev of
     Some (pl, p) \<Rightarrow> if pl = place then Some (tp_displayName p, tp_createdAt p, tp_isTyping p) else None
   | None \<Rightarrow> None)"

lemma typing_event_now:
  "typing_event self peers now ev = map_option (\<lambda>(pl, p). (pl, p\<lparr>tp_expiresAt := now + tp_expiresAt p\<rparr>)) (typing_event self peers 0 ev)"
  by (auto simp: typing_event_def Let_def split: option.split json.split)

lemma typing_in_set [simp]: "typing_in c (map_set c' m t) = (if c = c' then m else typing_in c t)"
  by (simp add: typing_in_def)

lemma shown_put:
  "shown_typing (put_typing pl p t) place =
     (if pl = place then newest (tp_displayName p, tp_createdAt p, tp_isTyping p) (shown_typing t place) else shown_typing t place)"
  by (cases pl; cases place) (auto simp: put_typing_def shown_typing_def newest_def split: option.split)

lemma shown_receive:
  "shown_typing (receive_typing self peers e t) place =
     (case said_of self peers place (snd e) of Some x \<Rightarrow> newest x (shown_typing t place) | None \<Rightarrow> shown_typing t place)"
  by (auto simp: receive_typing_def said_of_def typing_event_now [of self peers "fst e"] shown_put split: option.split)

lemma shown_receive_all:
  "shown_typing (fold (receive_typing self peers) es t) place =
     fold newest (List.map_filter (said_of self peers place) (map snd es)) (shown_typing t place)"
  by (induction es arbitrary: t) (auto simp: shown_receive List.map_filter_simps split: option.split)


definition sample_typing :: "rat \<Rightarrow> bool \<Rightarrow> json_object" where
  "sample_typing t b = [(js ''event'', JStr (js ''typing'')), (js ''sender_id'', JStr (js ''a'')), (js ''created_at'', JNum t),
     (js ''is_typing'', JBool b)]"


subsection \<open>Outgoing\<close>

text \<open>The timers are known by whether they are armed; \<open>ot_sent\<close> is what has been sent: a conversation and whether one types.\<close>

record outgoing_typing =
  ot_startTimer :: bool
  ot_idleTimer :: bool
  ot_heartbeat :: bool
  ot_pending :: "conversation option"
  ot_active :: "conversation option"
  ot_sent :: "(conversation \<times> bool) list"

definition idle_typing :: outgoing_typing where
  "idle_typing = \<lparr>ot_startTimer = False, ot_idleTimer = False, ot_heartbeat = False, ot_pending = None, ot_active = None, ot_sent = []\<rparr>"

definition sendTyping :: "conversation \<Rightarrow> bool \<Rightarrow> outgoing_typing \<Rightarrow> outgoing_typing" where
  "sendTyping c isTyping s = s\<lparr>ot_sent := ot_sent s @ [(c, isTyping)]\<rparr>"

definition typing_request :: "jsstr \<Rightarrow> conversation \<times> bool \<Rightarrow> request" where
  "typing_request clientId m = Ipc ''typing'' ([(js ''client_id'', JStr clientId)]
     @ (case fst m of PeerChat i \<Rightarrow> [(js ''recipient_id'', JStr i)] | GroupChat i \<Rightarrow> [(js ''group_id'', JStr i)])
     @ [(js ''is_typing'', JBool (snd m))])"

definition stopOutgoingTyping :: "outgoing_typing \<Rightarrow> outgoing_typing" where
  "stopOutgoingTyping s =
     (let s' = s\<lparr>ot_startTimer := False, ot_idleTimer := False, ot_heartbeat := False, ot_pending := None, ot_active := None\<rparr> in
      case ot_active s of Some c \<Rightarrow> sendTyping c False s' | None \<Rightarrow> s')"

definition composer_typing :: "conversation option \<Rightarrow> jsstr \<Rightarrow> outgoing_typing \<Rightarrow> outgoing_typing" where
  "composer_typing selection content s = (case selection of
     None \<Rightarrow> stopOutgoingTyping s
   | Some c \<Rightarrow>
       if content = [] then stopOutgoingTyping s
       else let s1 = (if ot_active s \<noteq> None \<and> ot_active s \<noteq> Some c then stopOutgoingTyping s else s);
                s2 = s1\<lparr>ot_pending := Some c\<rparr>
            in s2\<lparr>ot_startTimer := ot_startTimer s2 \<or> ot_active s2 = None, ot_idleTimer := True\<rparr>)"

definition start_timer :: "outgoing_typing \<Rightarrow> outgoing_typing" where
  "start_timer s = (let s' = s\<lparr>ot_startTimer := False\<rparr> in case ot_pending s of
     None \<Rightarrow> s' | Some c \<Rightarrow> sendTyping c True (s'\<lparr>ot_active := Some c, ot_heartbeat := True\<rparr>))"

definition heartbeat_timer :: "outgoing_typing \<Rightarrow> outgoing_typing" where
  "heartbeat_timer s = (case ot_active s of Some c \<Rightarrow> sendTyping c True s | None \<Rightarrow> s)"

text \<open>What may happen: the text changes, typing ends (another conversation, a dialog, the history), or an armed timer fires.\<close>

datatype typing_input = TextChanged "conversation option" jsstr | TypingEnds | StartFires | IdleFires | HeartbeatFires

fun typing_react :: "outgoing_typing \<Rightarrow> typing_input \<Rightarrow> outgoing_typing" where
  "typing_react s (TextChanged selection content) = composer_typing selection content s"
| "typing_react s TypingEnds = stopOutgoingTyping s"
| "typing_react s StartFires = (if ot_startTimer s then start_timer s else s)"
| "typing_react s IdleFires = (if ot_idleTimer s then stopOutgoingTyping s else s)"
| "typing_react s HeartbeatFires = (if ot_heartbeat s then heartbeat_timer s else s)"

text \<open>What the others see: the conversation in which the client types, or that the messages make no sense: a second one is
  opened before the first is closed, or one is closed that is not open.\<close>

fun open_after :: "conversation option \<Rightarrow> (conversation \<times> bool) list \<Rightarrow> conversation option option" where
  "open_after s [] = Some s"
| "open_after s ((c, b) # ms) =
     (if b then (if s = None \<or> s = Some c then open_after (Some c) ms else None)
      else if s = Some c then open_after None ms else None)"

lemma open_after_append: "open_after s (a @ b) = Option.bind (open_after s a) (\<lambda>s'. open_after s' b)"
  by (induction s a rule: open_after.induct) auto

definition typing_ok :: "outgoing_typing \<Rightarrow> bool" where
  "typing_ok s \<longleftrightarrow> open_after None (ot_sent s) = Some (ot_active s)
     \<and> ot_heartbeat s = (ot_active s \<noteq> None)
     \<and> ot_idleTimer s = (ot_startTimer s \<or> ot_active s \<noteq> None)
     \<and> (ot_startTimer s \<longrightarrow> ot_active s = None \<and> ot_pending s \<noteq> None)"

lemma typing_ok_stop: "typing_ok s \<Longrightarrow> typing_ok (stopOutgoingTyping s) \<and> ot_active (stopOutgoingTyping s) = None"
  by (auto simp: typing_ok_def stopOutgoingTyping_def sendTyping_def open_after_append split: option.split)

lemma typing_ok_changed: "typing_ok s \<Longrightarrow> typing_ok (composer_typing selection content s)"
proof (cases selection)
  case (Some c)
  assume s: "typing_ok s"
  show ?thesis
  proof (cases "ot_active s \<noteq> None \<and> ot_active s \<noteq> Some c")
    case True
    then show ?thesis using Some typing_ok_stop [OF s] by (auto simp: composer_typing_def Let_def typing_ok_def)
  next
    case False
    then show ?thesis using Some s typing_ok_stop [OF s] by (auto simp: composer_typing_def Let_def typing_ok_def)
  qed
qed (simp add: composer_typing_def typing_ok_stop)

lemma typing_ok_react: "typing_ok s \<Longrightarrow> typing_ok (typing_react s e)"
proof (cases e)
  case StartFires
  assume "typing_ok s"
  then show ?thesis using StartFires
    by (auto simp: typing_ok_def start_timer_def Let_def sendTyping_def open_after_append split: option.split)
next
  case HeartbeatFires
  assume "typing_ok s"
  then show ?thesis using HeartbeatFires
    by (auto simp: typing_ok_def heartbeat_timer_def sendTyping_def open_after_append split: option.split)
qed (auto simp: typing_ok_changed typing_ok_stop)

lemma typing_ok_run: "typing_ok s \<Longrightarrow> typing_ok (foldl typing_react s es)"
  by (induction es arbitrary: s) (auto simp: typing_ok_react)

text \<open>C36. What the client says about its typing is consistent in every course of edits, switches and timers: it types in at
  most one conversation at a time and ends it there before it begins in another. While it types in one, the repetition and the
  timer that ends it are armed; when that timer fires the others see nobody typing.\<close>

theorem outgoing_typing_ends:
  "open_after None (ot_sent (foldl typing_react idle_typing es)) = Some (ot_active (foldl typing_react idle_typing es))
   \<and> ot_heartbeat (foldl typing_react idle_typing es) = (ot_active (foldl typing_react idle_typing es) \<noteq> None)
   \<and> ot_idleTimer (foldl typing_react idle_typing es)
       = (if ot_active (foldl typing_react idle_typing es) = None then ot_startTimer (foldl typing_react idle_typing es) else True)
   \<and> open_after None (ot_sent (typing_react (foldl typing_react idle_typing es) IdleFires)) = Some None"
proof -
  have "typing_ok idle_typing" by (simp add: typing_ok_def idle_typing_def)
  then have ok: "typing_ok (foldl typing_react idle_typing es)" by (rule typing_ok_run)
  then have "typing_ok (typing_react (foldl typing_react idle_typing es) IdleFires)" by (rule typing_ok_react)
  moreover have "ot_active (typing_react (foldl typing_react idle_typing es) IdleFires) = None"
    using ok typing_ok_stop [OF ok] by (auto simp: typing_ok_def)
  ultimately show ?thesis using ok by (simp add: typing_ok_def)
qed

end
