(* ===== verification/SessionEvents.thy ===== *)
theory SessionEvents
  imports SessionTyping
begin

text \<open>
  What the terminal client does with the events of the backend (the handler that \<open>tui/src/ChatApp.tsx\<close> gives to
  \<open>ipc.onEvent\<close>). The handler is a closure: what it captured is the session \<open>v\<close>, what the setters and the references see is
  the session \<open>s\<close>. Its effects are a list: what was shown as a notification, the lists that are refreshed and the requests
  whose answers arrive later. The answers themselves and the effect that loads a conversation when it is selected are at
  the end. Times are in milliseconds, as \<open>Date.now()\<close> gives them.
\<close>

record session =
  se_chat :: chat
  se_key :: "jsstr option"
  se_buffers :: buffers
  se_unread :: unread
  se_typing :: typing
  se_activity :: "(jsstr, rat) jsmap"
  se_delivered :: "jsstr list"
  se_files :: "file_transfer list"

record session_env =
  sn_chat :: chat_env
  sn_capable :: bool
  sn_messages :: "json option \<Rightarrow> chat_message list"

datatype session_fetch = PeerHistory jsstr | GroupHistory jsstr | MembersOf jsstr | FilesOf conversation jsstr

datatype session_effect = Showed shown | Fetched session_fetch | RefreshesPeers | RefreshesGroups | RefreshesRequests

type_synonym handled = "session \<times> session_effect list"

definition conversation_key :: "conversation \<Rightarrow> jsstr" where
  "conversation_key c = (case c of PeerChat i \<Rightarrow> peer_key i | GroupChat i \<Rightarrow> group_key i)"

definition upd_chat :: "(chat \<Rightarrow> chat) \<Rightarrow> session \<Rightarrow> session" where
  "upd_chat f s = s\<lparr>se_chat := f (se_chat s)\<rparr>"

definition upd_messages :: "(chat_message list \<Rightarrow> chat_message list) \<Rightarrow> session \<Rightarrow> session" where
  "upd_messages f = upd_chat (\<lambda>c. c\<lparr>ch_messages := f (ch_messages c)\<rparr>)"

definition status :: "jsstr \<Rightarrow> session \<Rightarrow> session" where
  "status t = upd_chat (showStatus t)"

definition friend_status :: "jsstr \<Rightarrow> session \<Rightarrow> session" where
  "friend_status t = upd_chat (showStatus_for t 5000)"

definition given_string :: "json option \<Rightarrow> jsstr option" where
  "given_string v = (case v of Some (JStr s) \<Rightarrow> Some s | _ \<Rightarrow> None)"

definition as_number :: "json option \<Rightarrow> rat" where
  "as_number v = (case v of Some (JNum n) \<Rightarrow> n | _ \<Rightarrow> 0)"

definition updatePeerInteraction :: "session_env \<Rightarrow> jsstr option \<Rightarrow> rat \<Rightarrow> session \<Rightarrow> session" where
  "updatePeerInteraction env i now s = (if \<not> truthy i then s
     else upd_chat (\<lambda>c. c\<lparr>ch_peers := touch_peer (sn_chat env) (PeerChat (the i)) (now / 1000) (ch_peers c)\<rparr>) s)"

definition touch_group :: "jsstr \<Rightarrow> rat \<Rightarrow> session \<Rightarrow> session" where
  "touch_group i now s = s\<lparr>se_activity := map_set i now (se_activity s)\<rparr>"

definition updateGroupMembers :: "jsstr \<Rightarrow> group_member list \<Rightarrow> session \<Rightarrow> session" where
  "updateGroupMembers i members = upd_chat (\<lambda>c.
     if map_get (ch_groupMembers c) i = Some members then c
     else c\<lparr>ch_groupMembers := updateBoundedEntry (ch_groupMembers c) i members MAX_GROUP_MEMBER_CACHE\<rparr>)"

definition notify_user :: "session_env \<Rightarrow> session \<Rightarrow> notification_event \<Rightarrow> jsstr \<Rightarrow> session_effect" where
  "notify_user env v event text' = Showed (notify (ch_preferences (se_chat v)) event (sn_capable env) text' (ch_dnd (se_chat v)))"

definition peer_muted :: "session \<Rightarrow> jsstr \<Rightarrow> rat \<Rightarrow> bool" where
  "peer_muted v i now \<longleftrightarrow> isMuteActive (map_get (ch_mutedPeers (se_chat v)) i) (now / 1000)"

definition group_muted :: "session \<Rightarrow> jsstr \<Rightarrow> rat \<Rightarrow> bool" where
  "group_muted v i now \<longleftrightarrow> isMuteActive (map_get (ch_mutedGroups (se_chat v)) i) (now / 1000)"

definition self_id :: "session \<Rightarrow> jsstr option" where
  "self_id v = map_option fst (ch_identity (se_chat v))"

subsection \<open>Groups\<close>

definition member_name :: "session \<Rightarrow> jsstr \<Rightarrow> jsstr option \<Rightarrow> jsstr option" where
  "member_name v gid i = (case map_get (ch_groupMembers (se_chat v)) gid of
     None \<Rightarrow> None
   | Some ms \<Rightarrow> map_option gm_display_name (find (\<lambda>m. (case gm_peer_id m of Some p \<Rightarrow> Some p | None \<Rightarrow> gm_member_id m) = i) ms))"

definition group_sender :: "session \<Rightarrow> jsstr \<Rightarrow> json_object \<Rightarrow> jsstr" where
  "group_sender v gid ev = (let i = given_string (field ev ''sender_id'') in
     first_name [name_given (field ev ''display_name''), Option.bind i (peer_name (ch_peers (se_chat v))), member_name v gid i] (js ''a member''))"

definition mentionedMe :: "session \<Rightarrow> json_object \<Rightarrow> bool" where
  "mentionedMe v ev \<longleftrightarrow> field ev ''event'' = Some (JStr (js ''group_message''))
     \<and> given_string (field ev ''sender_id'') \<noteq> None \<and> given_string (field ev ''sender_id'') \<noteq> self_id v
     \<and> (case self_id v of None \<Rightarrow> False
        | Some me \<Rightarrow> (let ms = (case field ev ''mentions'' of Some j \<Rightarrow> payloadMentions j | None \<Rightarrow> []) in
            me \<in> set ms \<or> EVERYONE_PEER_ID \<in> set ms))"

definition group_title :: "session \<Rightarrow> jsstr \<Rightarrow> jsstr" where
  "group_title v gid = (case find (\<lambda>g. group_id g = gid) (ch_groups (se_chat v)) of Some g \<Rightarrow> group_name g | None \<Rightarrow> js ''a group'')"

definition group_notice :: "session_env \<Rightarrow> session \<Rightarrow> rat \<Rightarrow> json_object \<Rightarrow> jsstr \<Rightarrow> session_effect list" where
  "group_notice env v now ev gid =
     (if mentionedMe v ev
      then [notify_user env v NotifyMessages (group_sender v gid ev @ js '' mentioned you in '' @ group_title v gid)]
      else if field ev ''event'' = Some (JStr (js ''group_message'')) \<and> \<not> group_muted v gid now
      then [notify_user env v NotifyMessages (js ''New message from '' @ group_sender v gid ev @ js '' in '' @ group_title v gid)]
      else [])"

definition count_unread :: "jsstr \<Rightarrow> chat_group list \<Rightarrow> chat_group list" where
  "count_unread gid = map (\<lambda>g. if group_id g = gid then g\<lparr>group_unread_count := group_unread_count g + 1\<rparr> else g)"

definition group_unread :: "session \<Rightarrow> rat \<Rightarrow> json_object \<Rightarrow> jsstr \<Rightarrow> session \<Rightarrow> session" where
  "group_unread v now ev gid s =
     (let message = (field ev ''event'' = Some (JStr (js ''group_message''))); mentioned = mentionedMe v ev;
          s1 = (if message \<and> (\<not> group_muted v gid now \<or> mentioned)
                then s\<lparr>se_unread := rememberUnreadMessage (group_key gid) (given_string (field ev ''message_id'')) now (se_unread s)\<rparr> else s);
          s2 = (if message \<and> mentioned
                then upd_chat (\<lambda>c. c\<lparr>ch_mentionUnread := map_set gid
                  ((case map_get (ch_mentionUnread c) gid of Some n \<Rightarrow> n | None \<Rightarrow> 0) + 1) (ch_mentionUnread c)\<rparr>) s1 else s1)
      in if \<not> group_muted v gid now \<or> mentioned then upd_chat (\<lambda>c. c\<lparr>ch_groups := count_unread gid (ch_groups c)\<rparr>) s2 else s2)"

definition group_typing :: "json_object \<Rightarrow> jsstr \<Rightarrow> typing \<Rightarrow> typing" where
  "group_typing ev gid t =
     (let sender = given_string (field ev ''sender_id''); t1 = (if truthy sender then drop_typing (group_key gid) (the sender) t else t) in
      if field ev ''event'' = Some (JStr (js ''group_member_left'')) \<and> json_truthy (field ev ''peer_id'')
      then drop_typing (group_key gid) (as_string (field ev ''peer_id'')) t1 else t1)"

definition on_group_event :: "session_env \<Rightarrow> session \<Rightarrow> rat \<Rightarrow> json_object \<Rightarrow> session \<Rightarrow> handled" where
  "on_group_event env v now ev s =
     (let gid = as_string (field ev ''group_id'');
          s1 = touch_group gid now (s\<lparr>se_typing := group_typing ev gid (se_typing s)\<rparr>);
          shown = ch_selection (se_chat v) = Some (GroupChat gid);
          s2 = (if shown then s1 else group_unread v now ev gid s1)
      in (s2, group_notice env v now ev gid @ (if shown then [Fetched (GroupHistory gid)] else []) @ [RefreshesGroups]
            @ (if field ev ''event'' = Some (JStr (js ''group_message'')) then [] else [Fetched (MembersOf gid)])))"

subsection \<open>Deliveries\<close>

definition buffered_deliveries :: "session_env \<Rightarrow> json_object \<Rightarrow> chat_message \<Rightarrow> chat_message" where
  "buffered_deliveries env ev m = m\<lparr>msg_deliveries := Some (case field ev ''deliveries'' of
       Some (JArr ds) \<Rightarrow> ce_deliveries (sn_chat env) (field ev ''deliveries'')
     | _ \<Rightarrow> map (\<lambda>d. if Some (dl_recipient_id d) = given_string (field ev ''recipient_id'')
         then d\<lparr>dl_status := first_name [name_given (field ev ''status'')] (js ''sent'')\<rparr> else d)
         (case msg_deliveries m of Some ds \<Rightarrow> ds | None \<Rightarrow> []))\<rparr>"

definition delivery_status :: "rat \<Rightarrow> json_object \<Rightarrow> delivery \<Rightarrow> delivery" where
  "delivery_status now ev d = d\<lparr>dl_status := first_name [name_given (field ev ''status'')]
       (if field ev ''event'' = Some (JStr (js ''group_delivered'')) then js ''delivered'' else js ''sent''),
     dl_updated_at := (if nullish (field ev ''updated_at'') then now / 1000 else as_number (field ev ''updated_at''))\<rparr>"

definition shown_deliveries :: "session_env \<Rightarrow> rat \<Rightarrow> json_object \<Rightarrow> chat_message \<Rightarrow> chat_message" where
  "shown_deliveries env now ev m = (case field ev ''deliveries'' of
     Some (JArr ds) \<Rightarrow> m\<lparr>msg_deliveries := Some (ce_deliveries (sn_chat env) (field ev ''deliveries''))\<rparr>
   | _ \<Rightarrow> (case given_string (field ev ''recipient_id'') of
        None \<Rightarrow> m
      | Some r \<Rightarrow> if r = [] then m else m\<lparr>msg_deliveries := Some (map (\<lambda>d. if dl_recipient_id d = r then delivery_status now ev d else d)
          (case msg_deliveries m of Some ds \<Rightarrow> ds | None \<Rightarrow> []))\<rparr>))"

definition on_group_delivery :: "session_env \<Rightarrow> session \<Rightarrow> rat \<Rightarrow> json_object \<Rightarrow> session \<Rightarrow> handled" where
  "on_group_delivery env v now ev s =
     (let i = as_string (field ev ''message_id'');
          s1 = s\<lparr>se_buffers := patchPendingBuffers i (buffered_deliveries env ev) (se_buffers s)\<rparr>;
          s2 = upd_messages (map (patch_row i (shown_deliveries env now ev))) s1
      in (s2, case ch_selection (se_chat v) of
            Some (GroupChat g) \<Rightarrow> if g \<noteq> [] \<and> field ev ''group_id'' = Some (JStr g) then [Fetched (GroupHistory g)] else []
          | _ \<Rightarrow> []))"

definition MAX_DELIVERED :: nat where "MAX_DELIVERED = 1024"

definition on_delivered :: "rat \<Rightarrow> json_object \<Rightarrow> session \<Rightarrow> session" where
  "on_delivered now ev s =
     (let i = as_string (field ev ''message_id''); ids = set_add i (se_delivered s);
          done' = (\<lambda>m. m\<lparr>msg_delivered := 1, msg_queued := 0, msg_received_at := Some (now / 1000)\<rparr>)
      in status (js ''Message delivered.'') (upd_messages (map (patch_row i done'))
        (s\<lparr>se_delivered := drop (length ids - MAX_DELIVERED) ids,
           se_buffers := patchPendingBuffers i (\<lambda>m. done' (m\<lparr>msg_id := i, msg_pending := 0\<rparr>)) (se_buffers s)\<rparr>)))"

definition on_message_sent :: "json_object \<Rightarrow> session \<Rightarrow> session" where
  "on_message_sent ev s =
     (let i = as_string (field ev ''message_id''); sent = (\<lambda>m. m\<lparr>msg_queued := 0\<rparr>) in
      upd_messages (map (patch_row i sent)) (s\<lparr>se_buffers := patchPendingBuffers i sent (se_buffers s)\<rparr>))"

definition name_or_peer :: "json_object \<Rightarrow> string \<Rightarrow> jsstr" where
  "name_or_peer ev k = first_name [name_given (field ev k)] (js ''a peer'')"

definition on_message_blocked :: "json_object \<Rightarrow> session \<Rightarrow> session" where
  "on_message_blocked ev s =
     (let name = name_or_peer ev ''display_name'' in
      status (if json_truthy (field ev ''removed_friend'') then name @ js '' removed you as a friend. You are no longer friends.''
          else js ''Message blocked: '' @ name @ js '' hasn'' @ [39] @ js ''t added you as a friend yet.'')
        (upd_messages (map (patch_row (as_string (field ev ''message_id'')) (\<lambda>m. m\<lparr>msg_blocked := 1\<rparr>))) s))"

definition on_message_failed :: "json_object \<Rightarrow> session \<Rightarrow> session" where
  "on_message_failed ev s =
     (let i = as_string (field ev ''message_id'') in
      status (js ''Message cancelled because the peer does not support text chat.'')
        (upd_messages (map (patch_row i (\<lambda>m. m\<lparr>msg_failed := 1, msg_queued := 0\<rparr>)))
          (s\<lparr>se_buffers := map (\<lambda>(k, rows). (k, without_row i rows)) (se_buffers s)\<rparr>)))"

subsection \<open>Friends\<close>

definition incoming_request :: "json_object \<Rightarrow> friend_request" where
  "incoming_request ev = \<lparr>fr_request_id = as_string (field ev ''request_id''), fr_sender_id = as_string (field ev ''sender_id''),
     fr_sender_name = name_or_peer ev ''sender_name'', fr_recipient_id = None, fr_recipient_name = None,
     fr_note = name_given (field ev ''note''), fr_created_at = as_number (field ev ''created_at''),
     fr_direction = RequestIncoming, fr_status = Some (js ''pending'')\<rparr>"

definition on_friend_request :: "session_env \<Rightarrow> session \<Rightarrow> json_object \<Rightarrow> session \<Rightarrow> handled" where
  "on_friend_request env v ev s =
     (let request = incoming_request ev;
          s1 = (if du_dialog (ch_ui (se_chat v)) = None then upd_chat (setDialog (DFriendRequestIncoming request)) s
                else status (js ''Friend request from '' @ fr_sender_name request @ js ''. Open Settings > Friends to respond.'') s)
      in (s1, [notify_user env v NotifyFriendRequests (js ''Friend request from '' @ fr_sender_name request),
               RefreshesPeers, RefreshesRequests]))"

definition on_friend_response :: "json_object \<Rightarrow> session \<Rightarrow> handled" where
  "on_friend_response ev s =
     (friend_status (name_or_peer ev ''display_name'' @ (if json_truthy (field ev ''accepted'')
        then js '' accepted your friend request. You can now chat.'' else js '' declined your friend request.'')) s,
      [RefreshesPeers, RefreshesRequests])"

definition on_friend_cancelled :: "json_object \<Rightarrow> session \<Rightarrow> handled" where
  "on_friend_cancelled ev s =
     (friend_status (name_or_peer ev ''display_name'' @ js '' cancelled their friend request.'') s, [RefreshesPeers, RefreshesRequests])"

subsection \<open>Files\<close>

definition fileEventMatchesSelection :: "session \<Rightarrow> json_object \<Rightarrow> bool" where
  "fileEventMatchesSelection v ev = (case ch_selection (se_chat v) of
     None \<Rightarrow> False
   | Some c \<Rightarrow>
       if json_truthy (field ev ''group_id'') then c = GroupChat (as_string (field ev ''group_id''))
       else case given_string (or_else (field ev ''sender_id'') (field ev ''recipient_id'')) of
           Some i \<Rightarrow> c = PeerChat i | None \<Rightarrow> False)"

definition refreshSelectedConversationFiles :: "session \<Rightarrow> session_effect list" where
  "refreshSelectedConversationFiles v = (case ch_selection (se_chat v) of
     Some c \<Rightarrow> [Fetched (FilesOf c (conversation_key c))] | None \<Rightarrow> [])"

definition files_if_shown :: "session \<Rightarrow> json_object \<Rightarrow> session_effect list" where
  "files_if_shown v ev = (if fileEventMatchesSelection v ev then refreshSelectedConversationFiles v else [])"

definition touch_transfer :: "session_env \<Rightarrow> rat \<Rightarrow> json_object \<Rightarrow> session \<Rightarrow> session" where
  "touch_transfer env now ev s =
     (if json_truthy (field ev ''group_id'') then touch_group (as_string (field ev ''group_id'')) now s
      else updatePeerInteraction env (given_string (field ev ''sender_id'')) now s)"

definition transfer_muted :: "session \<Rightarrow> rat \<Rightarrow> json_object \<Rightarrow> bool" where
  "transfer_muted v now ev =
     (if json_truthy (field ev ''group_id'') then group_muted v (as_string (field ev ''group_id'')) now
      else case given_string (field ev ''sender_id'') of Some i \<Rightarrow> peer_muted v i now | None \<Rightarrow> False)"

definition text_at :: "session_env \<Rightarrow> json_object \<Rightarrow> string \<Rightarrow> jsstr" where
  "text_at env ev k = value_text (ce_number (sn_chat env)) (field ev k)"

definition on_file_offer :: "session_env \<Rightarrow> session \<Rightarrow> rat \<Rightarrow> json_object \<Rightarrow> session \<Rightarrow> handled" where
  "on_file_offer env v now ev s =
     (let filename = as_string (field ev ''filename'');
          sender = (case Option.bind (given_string (field ev ''sender_id'')) (peer_name (ch_peers (se_chat v))) of
            Some n \<Rightarrow> n | None \<Rightarrow> take 8 (text_at env ev ''sender_id''))
      in (status (js ''Incoming file: '' @ filename @ js '' ('' @ text_at env ev ''file_size'' @ js '' bytes) from '' @ sender)
            (touch_transfer env now ev s),
          (if transfer_muted v now ev then []
           else [notify_user env v NotifyFileOffers (js ''Incoming file '' @ filename @ js '' from '' @ sender)])
          @ files_if_shown v ev))"

definition received_chunks :: "json_object \<Rightarrow> file_transfer \<Rightarrow> file_transfer" where
  "received_chunks ev f = (case field ev ''received'' of
     Some (JNum n) \<Rightarrow> if field ev ''file_id'' = Some (JStr (ft_file_id f)) then f\<lparr>ft_received_chunks := Some (nat \<lfloor>n\<rfloor>)\<rparr> else f
   | _ \<Rightarrow> f)"

definition on_file_progress :: "json_object \<Rightarrow> session \<Rightarrow> session" where
  "on_file_progress ev s = s\<lparr>se_files := map (received_chunks ev) (se_files s)\<rparr>"

definition on_file_completed :: "session_env \<Rightarrow> session \<Rightarrow> rat \<Rightarrow> json_object \<Rightarrow> session \<Rightarrow> handled" where
  "on_file_completed env v now ev s =
     (let filename = as_string (field ev ''filename''); fpath = as_string (field ev ''file_path'');
          completed = (\<lambda>f. if ft_file_id f = as_string (field ev ''file_id'')
            then f\<lparr>ft_status := js ''completed'', ft_file_path := Some fpath, ft_completed_at := Some (now / 1000)\<rparr> else f);
          s1 = status (js ''File received: '' @ filename @ js '' -> '' @ fpath) (touch_transfer env now ev s)
      in (s1\<lparr>se_files := map completed (se_files s1)\<rparr>,
          (if transfer_muted v now ev then [] else [notify_user env v NotifyFileCompleted (js ''File received: '' @ filename)])
          @ files_if_shown v ev))"

definition file_events :: "jsstr list" where
  "file_events = [js ''file_sent'', js ''file_delivered'', js ''file_queued'', js ''file_blocked'', js ''file_failed'']"

definition file_text :: "json_object \<Rightarrow> jsstr \<Rightarrow> jsstr" where
  "file_text ev event =
     (let name = (case given_string (field ev ''file_id'') of Some i \<Rightarrow> take 8 i | None \<Rightarrow> js ''file'') in
      if event = js ''file_sent'' then js ''File '' @ name @ js '' sent.''
      else if event = js ''file_delivered'' then js ''File '' @ name @ js '' delivered.''
      else if event = js ''file_blocked'' then js ''File blocked: '' @ first_name [name_given (field ev ''display_name'')] (js ''peer'')
        @ js '' hasn'' @ [39] @ js ''t added you as a friend yet.''
      else if event = js ''file_failed'' then js ''File '' @ name @ js '' failed. Retry from history.''
      else js ''File '' @ name @ js '' queued for offline peer.'')"

definition on_file_event :: "session_env \<Rightarrow> session \<Rightarrow> rat \<Rightarrow> json_object \<Rightarrow> jsstr \<Rightarrow> session \<Rightarrow> handled" where
  "on_file_event env v now ev event s =
     (let s1 = (if json_truthy (field ev ''group_id'') then s else updatePeerInteraction env (given_string (field ev ''recipient_id'')) now s)
      in (status (file_text ev event) s1,
          (if event = js ''file_blocked'' then [RefreshesPeers] else []) @ files_if_shown v ev))"

subsection \<open>Messages of peers\<close>

definition received_row :: "rat \<Rightarrow> json_object \<Rightarrow> jsstr \<Rightarrow> chat_message" where
  "received_row now ev sender = \<lparr>msg_id = as_string (field ev ''message_id''), msg_sender_id = sender, msg_recipient_id = Some [],
     msg_group_id = None, msg_content = as_string (field ev ''content''), msg_created_at = as_number (field ev ''created_at''),
     msg_kind = None, msg_deliveries = None, msg_delivered = 0, msg_blocked = 0, msg_queued = 0, msg_failed = 0, msg_pending = 0,
     msg_received_at = Some (now / 1000), msg_reply_to = given_string (field ev ''reply_to_message_id''), msg_mentions = []\<rparr>"

definition count_peer :: "jsstr \<Rightarrow> peer list \<Rightarrow> peer list" where
  "count_peer i = map (\<lambda>p. if peer_id p = i then p\<lparr>peer_unread_count := peer_unread_count p + 1\<rparr> else p)"

definition on_peer_message :: "session_env \<Rightarrow> session \<Rightarrow> rat \<Rightarrow> json_object \<Rightarrow> session \<Rightarrow> handled" where
  "on_peer_message env v now ev s =
     (let sender = as_string (field ev ''sender_id'');
          muted = peer_muted v sender now;
          name = (case peer_name (ch_peers (se_chat v)) sender of Some n \<Rightarrow> n | None \<Rightarrow> js ''a peer'');
          notice = (if muted then [] else [notify_user env v NotifyMessages (js ''New message from '' @ name)]);
          s1 = updatePeerInteraction env (Some sender) now (s\<lparr>se_typing := drop_typing (peer_key sender) sender (se_typing s)\<rparr>)
      in if ch_selection (se_chat v) \<noteq> Some (PeerChat sender) \<or> se_key s \<noteq> Some (peer_key sender)
         then (if muted then s1
               else upd_chat (\<lambda>c. c\<lparr>ch_peers := count_peer sender (ch_peers c)\<rparr>)
                 (s1\<lparr>se_unread := rememberUnreadMessage (peer_key sender) (given_string (field ev ''message_id'')) now (se_unread s1)\<rparr>),
               notice)
         else (upd_messages (\<lambda>ms. ms @ [received_row now ev sender]) s1, notice @ [Fetched (PeerHistory sender)]))"

subsection \<open>The handler\<close>

definition on_event :: "session_env \<Rightarrow> session \<Rightarrow> rat \<Rightarrow> json_object \<Rightarrow> session \<Rightarrow> handled" where
  "on_event env v now ev s =
     (let event = as_string (field ev ''event'') in
      if event = js ''typing''
      then (s\<lparr>se_typing := receive_typing (self_id v) (ch_peers (se_chat v)) (now, ev) (se_typing s)\<rparr>, [])
      else if event \<in> {js ''group_message'', js ''group_member_joined'', js ''group_member_left''} then on_group_event env v now ev s
      else if event \<in> {js ''group_delivered'', js ''group_sent''} then on_group_delivery env v now ev s
      else if event = js ''delivered'' then (on_delivered now ev s, [])
      else if event = js ''message_sent'' then (on_message_sent ev s, [])
      else if event = js ''message_blocked'' then (on_message_blocked ev s, [RefreshesPeers])
      else if event = js ''message_failed'' then (on_message_failed ev s, [])
      else if event = js ''friend_request'' then on_friend_request env v ev s
      else if event = js ''friend_response'' then on_friend_response ev s
      else if event = js ''friend_cancelled'' then on_friend_cancelled ev s
      else if event = js ''peer_capability_gap'' then (s, [RefreshesPeers])
      else if event = js ''file_offer'' then on_file_offer env v now ev s
      else if event = js ''file_progress'' then (on_file_progress ev s, [])
      else if event = js ''file_completed'' then on_file_completed env v now ev s
      else if event \<in> set file_events then on_file_event env v now ev event s
      else if event = js ''message'' then on_peer_message env v now ev s
      else if event = js ''peer_update'' then (s, [RefreshesPeers])
      else (s, []))"

subsection \<open>Answers\<close>

fun fetch_request :: "session_fetch \<Rightarrow> request" where
  "fetch_request (PeerHistory i) = Ipc ''messages'' [(js ''peer_id'', JStr i)]"
| "fetch_request (GroupHistory i) = Ipc ''group_messages'' [(js ''group_id'', JStr i)]"
| "fetch_request (MembersOf i) = Ipc ''group_members'' [(js ''group_id'', JStr i)]"
| "fetch_request (FilesOf c key) = Ipc ''files'' (case c of PeerChat i \<Rightarrow> [(js ''peer_id'', JStr i)] | GroupChat i \<Rightarrow> [(js ''group_id'', JStr i)])"

text \<open>A failed request and an error response change nothing. The history of a group is taken whatever is shown by then.\<close>

fun fetched :: "session_env \<Rightarrow> session_fetch \<Rightarrow> json_object \<Rightarrow> session \<Rightarrow> handled" where
  "fetched env (PeerHistory i) r s =
     (if se_key s = Some (peer_key i)
      then (upd_messages (\<lambda>ms. preservePendingMessages ms (sn_messages env (field r ''messages''))) s, [RefreshesPeers]) else (s, []))"
| "fetched env (GroupHistory i) r s = (upd_messages (\<lambda>ms. preservePendingMessages ms (sn_messages env (field r ''messages''))) s, [])"
| "fetched env (MembersOf i) r s = (updateGroupMembers i (ce_members (sn_chat env) (field r ''members'')) s, [])"
| "fetched env (FilesOf c key) r s =
     (if se_key s = Some key then (s\<lparr>se_files := keep_same (se_files s) (ce_files (sn_chat env) (field r ''files''))\<rparr>, []) else (s, []))"

definition fetch_answered :: "session_env \<Rightarrow> session_fetch \<Rightarrow> answer \<Rightarrow> session \<Rightarrow> handled" where
  "fetch_answered env f a s = (case a of
     Response r \<Rightarrow> if json_truthy (field r ''error'') then (s, []) else fetched env f r s
   | _ \<Rightarrow> (s, []))"

subsection \<open>Opening a conversation\<close>

definition view_of :: "session \<Rightarrow> message_view" where
  "view_of s = \<lparr>vw_ref = se_key s, vw_messages = ch_messages (se_chat s), vw_buffers = se_buffers s, vw_loading = False\<rparr>"

definition with_view :: "message_view \<Rightarrow> session \<Rightarrow> session" where
  "with_view w s = upd_messages (\<lambda>ms. vw_messages w) (s\<lparr>se_key := vw_ref w, se_buffers := vw_buffers w\<rparr>)"

text \<open>What selecting a conversation does at once: rendering sets the reference, the effect of the left conversation is cleaned
  up, then that of the selected one runs.\<close>

definition reset_counts :: "conversation \<Rightarrow> chat \<Rightarrow> chat" where
  "reset_counts c ch = (case c of
     PeerChat i \<Rightarrow> ch\<lparr>ch_peers := map (\<lambda>p. if peer_id p = i then p\<lparr>peer_unread_count := 0\<rparr> else p) (ch_peers ch)\<rparr>
   | GroupChat i \<Rightarrow> ch\<lparr>ch_groups := map (\<lambda>g. if group_id g = i then g\<lparr>group_unread_count := 0\<rparr> else g) (ch_groups ch),
       ch_mentionUnread := map_del i (ch_mentionUnread ch)\<rparr>)"

definition composer_for :: "jsstr option \<Rightarrow> composer_ui \<Rightarrow> composer_ui" where
  "composer_for key u = (case key of
     None \<Rightarrow> u\<lparr>co_draftLength := 0, co_height := MIN_COMPOSER_HEIGHT\<rparr>
   | Some k \<Rightarrow> u\<lparr>co_draftLength := length (utf8_text (case map_get (co_drafts u) k of Some t \<Rightarrow> t | None \<Rightarrow> [])),
       co_height := MIN_COMPOSER_HEIGHT\<rparr>)"

definition unread_count_of :: "session \<Rightarrow> conversation \<Rightarrow> nat" where
  "unread_count_of v c = (case c of
     PeerChat i \<Rightarrow> (case find (\<lambda>p. peer_id p = i) (ch_peers (se_chat v)) of Some p \<Rightarrow> peer_unread_count p | None \<Rightarrow> 0)
   | GroupChat i \<Rightarrow> (case find (\<lambda>g. group_id g = i) (ch_groups (se_chat v)) of Some g \<Rightarrow> group_unread_count g | None \<Rightarrow> 0))"

definition open_selection :: "conversation option \<Rightarrow> session \<Rightarrow> session" where
  "open_selection selection s =
     (let key = map_option conversation_key selection;
          s1 = with_view (select_conversation key (view_of s)) s;
          s2 = upd_chat (\<lambda>c. c\<lparr>ch_selection := selection, ch_composer := composer_for key (ch_composer c)\<rparr>) (s1\<lparr>se_files := []\<rparr>)
      in case selection of None \<Rightarrow> s2 | Some c \<Rightarrow> upd_chat (reset_counts c) s2)"

text \<open>The history of the selected conversation arrives; \<open>unreadCount\<close> was taken when it was selected. An answer for a
  conversation that has been left is dropped by its clean-up.\<close>

definition opened_history ::
  "session_env \<Rightarrow> (jsstr, send_meta) jsmap \<Rightarrow> rat \<Rightarrow> conversation \<Rightarrow> nat \<Rightarrow> jsstr option \<Rightarrow> bool \<Rightarrow> answer \<Rightarrow> session \<Rightarrow> handled" where
  "opened_history env meta now c unreadCount self cancelled a s =
     (let key = conversation_key c;
          failed = (\<lambda>e. if \<not> cancelled \<and> \<not> ch_disconnected (se_chat s)
            then (upd_chat (\<lambda>ch. ch\<lparr>ch_status := js ''History error: '' @ error_message (sn_chat env) e\<rparr>) s, []) else (s, []))
      in case a of
        Response r \<Rightarrow>
          if json_truthy (field r ''error'') then failed (ErrorMessage (text_at env r ''error''))
          else if cancelled then (s, [])
          else (let history = sn_messages env (field r ''messages'');
                    s1 = s\<lparr>se_unread := rememberUnreadHistory self key history unreadCount now (se_unread s)\<rparr>
                in (with_view ((history_loaded meta key history (view_of s1))\<lparr>vw_ref := se_key s\<rparr>) s1,
                    [case c of PeerChat i \<Rightarrow> RefreshesPeers | GroupChat i \<Rightarrow> RefreshesGroups]))
      | Failed e \<Rightarrow> failed e
      | _ \<Rightarrow> failed TypeError)"

end
