(* ===== verification/SessionItems.thy ===== *)
theory SessionItems
  imports SessionEvents MentionMarkdown
begin

text \<open>
  What the terminal client derives from its state for display (\<open>tui/src/ChatApp.tsx\<close>): the items of a conversation, the
  orders of the lists, which conversation is selected when the selected peer disappears, and the first dialog.
\<close>

subsection \<open>Files of a conversation\<close>

definition status_rank :: "jsstr \<Rightarrow> nat" where
  "status_rank s = (if s = js ''completed'' then 0 else if s = js ''sent'' then 1
     else if s = js ''failed'' \<or> s = js ''blocked'' then 2 else if s = js ''queued'' then 3
     else if s = js ''receiving'' then 4 else if s = js ''transferring'' then 5 else if s = js ''unavailable'' then 6 else 99)"

definition better_file :: "file_transfer \<Rightarrow> file_transfer \<Rightarrow> file_transfer" where
  "better_file a b = (if status_rank (ft_status a) \<le> status_rank (ft_status b) then a else b)"

definition best_file :: "file_transfer list \<Rightarrow> file_transfer" where
  "best_file fs = foldl better_file (hd fs) (tl fs)"

text \<open>A map from keys to lists, to whose lists elements are added.\<close>

definition add_to :: "jsstr \<Rightarrow> 'a \<Rightarrow> (jsstr, 'a list) jsmap \<Rightarrow> (jsstr, 'a list) jsmap" where
  "add_to key x m = map_set key ((case map_get m key of Some xs \<Rightarrow> xs | None \<Rightarrow> []) @ [x]) m"

definition files_by_id :: "file_transfer list \<Rightarrow> (jsstr, file_transfer list) jsmap" where
  "files_by_id fs = foldl (\<lambda>m f. add_to (js ''file:'' @ ft_file_id f) f m) [] fs"

text \<open>A batch has the best transfer of each of its files, a single file all of its transfers.\<close>

type_synonym shown_file = "file_transfer \<times> file_transfer list"

definition batch_key :: "file_transfer \<Rightarrow> jsstr" where
  "batch_key f = (if truthy (ft_batch_id f) then js ''batch:'' @ the (ft_batch_id f) else js ''file:'' @ ft_file_id f)"

definition add_logical :: "(jsstr, shown_file) jsmap \<Rightarrow> file_transfer list \<Rightarrow> (jsstr, shown_file) jsmap" where
  "add_logical m fs =
     (let f = best_file fs; key = batch_key f in case map_get m key of
        Some (file, everything) \<Rightarrow> map_set key (file, everything @ [f]) m
      | None \<Rightarrow> map_set key (f, if truthy (ft_batch_id f) then [f] else fs) m)"

definition batch_order :: "file_transfer \<Rightarrow> file_transfer \<Rightarrow> int" where
  "batch_order a b = (let index = (\<lambda>f. case ft_batch_index f of Some n \<Rightarrow> int n | None \<Rightarrow> 0) in index a - index b)"

definition rat_order :: "rat \<Rightarrow> rat \<Rightarrow> int" where
  "rat_order a b = (if a < b then -1 else if b < a then 1 else 0)"

definition conversationFiles :: "file_transfer list \<Rightarrow> shown_file list" where
  "conversationFiles fs = sort_by (\<lambda>a b. rat_order (ft_created_at (fst a)) (ft_created_at (fst b)))
     (map (\<lambda>(f, everything). (f, sort_by batch_order everything)) (map snd (foldl add_logical [] (map snd (files_by_id fs)))))"

subsection \<open>Items of a conversation\<close>

definition is_message_item :: "conversation_item \<Rightarrow> bool" where
  "is_message_item i = (case i of MessageItem t m \<Rightarrow> True | _ \<Rightarrow> False)"

definition item_order :: "conversation_item \<Rightarrow> conversation_item \<Rightarrow> int" where
  "item_order a b =
     (let d = rat_order (item_createdAt a) (item_createdAt b) in
      if d \<noteq> 0 then d else if is_message_item a = is_message_item b then 0 else if is_message_item a then -1 else 1)"

definition conversationItems :: "chat_message list \<Rightarrow> file_transfer list \<Rightarrow> conversation_item list" where
  "conversationItems messages files = sort_by item_order
     (map (\<lambda>m. MessageItem (msg_created_at m) m) messages
      @ map (\<lambda>(f, everything). FileItem (ft_created_at f) f everything) (conversationFiles files))"

subsection \<open>Orders and choices\<close>

definition group_order :: "(jsstr \<Rightarrow> jsstr \<Rightarrow> int) \<Rightarrow> (jsstr, rat) jsmap \<Rightarrow> chat_group \<Rightarrow> chat_group \<Rightarrow> int" where
  "group_order compare activity a b =
     (let active = (\<lambda>g. case map_get activity (group_id g) of Some t \<Rightarrow> t | None \<Rightarrow> 0); d = rat_order (active b) (active a) in
      if d \<noteq> 0 then d else compare (group_name a) (group_name b))"

definition orderedGroups :: "chat_env \<Rightarrow> (jsstr, rat) jsmap \<Rightarrow> chat_group list \<Rightarrow> chat_group list" where
  "orderedGroups env activity groups = sort_by (group_order (ce_compare env) activity) groups"

definition visiblePeers :: "peer list \<Rightarrow> peer list" where
  "visiblePeers peers = filter (\<lambda>p. \<not> peer_is_blocked p) peers"

text \<open>The selection moves on when the selected peer is gone or blocked.\<close>

definition fallback_selection :: "peer list \<Rightarrow> chat_group list \<Rightarrow> conversation option \<Rightarrow> conversation option" where
  "fallback_selection peers groups selection = (case selection of
     Some (PeerChat i) \<Rightarrow>
       if (case find (\<lambda>p. peer_id p = i) peers of Some p \<Rightarrow> \<not> peer_is_blocked p | None \<Rightarrow> False) then selection
       else (case visiblePeers peers of
           p # ps \<Rightarrow> Some (PeerChat (peer_id p))
         | [] \<Rightarrow> (case groups of g # gs \<Rightarrow> Some (GroupChat (group_id g)) | [] \<Rightarrow> None))
   | _ \<Rightarrow> selection)"

definition all_conversations :: "peer list \<Rightarrow> chat_group list \<Rightarrow> conversation list" where
  "all_conversations peers groups = map (\<lambda>p. PeerChat (peer_id p)) (visiblePeers peers) @ map (\<lambda>g. GroupChat (group_id g)) groups"

text \<open>The position of the first element with a property.\<close>

fun index_where :: "('a \<Rightarrow> bool) \<Rightarrow> 'a list \<Rightarrow> nat option" where
  "index_where P [] = None"
| "index_where P (x # xs) = (if P x then Some 0 else map_option Suc (index_where P xs))"

text \<open>Ctrl and an arrow: the next conversation around the list; the list is not empty.\<close>

definition next_conversation :: "bool \<Rightarrow> conversation list \<Rightarrow> conversation option \<Rightarrow> conversation" where
  "next_conversation up conversations selection = (case index_where (\<lambda>c. Some c = selection) conversations of
     None \<Rightarrow> if up then last conversations else hd conversations
   | Some i \<Rightarrow> conversations ! ((if up then i + length conversations - 1 else i + 1) mod length conversations))"

record reply_target =
  rt_id :: jsstr
  rt_senderId :: jsstr
  rt_label :: jsstr
  rt_groupId :: "jsstr option"
  rt_isFile :: bool

fun reply_target_of :: "conversation_item \<Rightarrow> reply_target" where
  "reply_target_of (MessageItem t m) = \<lparr>rt_id = msg_id m, rt_senderId = msg_sender_id m, rt_label = msg_content m,
     rt_groupId = msg_group_id m, rt_isFile = False\<rparr>"
| "reply_target_of (FileItem t f fs) = \<lparr>rt_id = ft_file_id f, rt_senderId = ft_sender_id f,
     rt_label = js ''Attachment: '' @ ft_filename f, rt_groupId = ft_group_id f, rt_isFile = True\<rparr>"

text \<open>An arrow in the history: the next target, not beyond the ends.\<close>

definition next_reply_target :: "bool \<Rightarrow> reply_target list \<Rightarrow> reply_target option \<Rightarrow> reply_target" where
  "next_reply_target up targets selected =
     (case Option.bind selected (\<lambda>t. index_where (\<lambda>u. rt_id u = rt_id t) targets) of
        None \<Rightarrow> if up then last targets else hd targets
      | Some i \<Rightarrow> targets ! (if up then i - 1 else min (length targets - 1) (i + 1)))"

definition member_identity :: "group_member \<Rightarrow> jsstr option" where
  "member_identity m = (case gm_peer_id m of Some i \<Rightarrow> Some i | None \<Rightarrow> gm_member_id m)"

definition mentionMembers :: "session \<Rightarrow> mention_candidate list" where
  "mentionMembers s = (case ch_selection (se_chat s) of
     Some (GroupChat g) \<Rightarrow>
       if g = [] then [] else
       \<lparr>mc_peerId = EVERYONE_PEER_ID, mc_displayName = EVERYONE_PEER_ID, mc_isSelf = False\<rparr> # List.map_filter (\<lambda>m.
           if truthy (member_identity m)
           then Some \<lparr>mc_peerId = the (member_identity m), mc_displayName = gm_display_name m,
             mc_isSelf = (member_identity m = self_id s)\<rparr> else None)
         (case map_get (ch_groupMembers (se_chat s)) g of Some ms \<Rightarrow> ms | None \<Rightarrow> [])
   | _ \<Rightarrow> [])"

definition resolvePeerRequest :: "friend_request list \<Rightarrow> jsstr \<Rightarrow> request_direction \<Rightarrow> friend_request option" where
  "resolvePeerRequest requests i direction =
     find (\<lambda>r. fr_direction r = direction \<and> (fr_sender_id r = i \<or> fr_recipient_id r = Some i)) requests"

definition capability_message :: "peer option \<Rightarrow> jsstr" where
  "capability_message selected =
     (let parts = (case selected of None \<Rightarrow> [] | Some p \<Rightarrow>
            (if peer_missing_capabilities p \<noteq> [] then [js ''Peer does not support: '' @ join_on (js '', '') (peer_missing_capabilities p) @ [46]] else [])
          @ (if peer_local_missing_capabilities p \<noteq> []
             then [js ''Peer supports features unavailable locally: '' @ join_on (js '', '') (peer_local_missing_capabilities p) @ [46]] else []))
      in if parts = [] then [] else js ''Limited capabilities. '' @ join_on [32] parts @ js '' Shared features remain available.'')"

text \<open>The dialog after the start: a name, then a control server, then notifications.\<close>

definition first_dialog :: "bool \<Rightarrow> jsstr option \<Rightarrow> bool \<Rightarrow> bool \<Rightarrow> dialog option" where
  "first_dialog setupDismissed controlUrl controlDismissed notificationsDismissed =
     (if \<not> setupDismissed then Some (DRename True)
      else if \<not> truthy controlUrl \<and> \<not> controlDismissed then Some (DControl True)
      else if \<not> notificationsDismissed then Some (DNotificationEnable True) else None)"

text \<open>The pause before the next attempt to connect, in milliseconds.\<close>

definition connect_delay :: "nat \<Rightarrow> nat" where
  "connect_delay attempt = min 1000 (100 * 2 ^ min attempt 4)"

subsection \<open>Every file is shown once\<close>

definition item_ids :: "shown_file \<Rightarrow> jsstr set" where
  "item_ids x = ft_file_id ` set (snd x)"

lemma add_to_simps [simp]:
  "add_to key x [] = [(key, [x])]"
  "add_to key x ((k, xs) # m) = (if k = key then (k, xs @ [x]) # m else (k, xs) # add_to key x m)"
  by (simp_all add: add_to_def)

definition file_key :: "file_transfer \<Rightarrow> jsstr" where
  "file_key f = js ''file:'' @ ft_file_id f"

definition grouped_files :: "(jsstr, file_transfer list) jsmap \<Rightarrow> bool" where
  "grouped_files m \<longleftrightarrow> map_ok m \<and> (\<forall>e \<in> set m. snd e \<noteq> [] \<and> (\<forall>f \<in> set (snd e). fst e = file_key f))"

lemma keys_add_to: "set (map_keys (add_to key x m)) = insert key (set (map_keys m))"
proof (induction m)
  case (Cons e m)
  then show ?case by (cases e) (simp add: insert_commute)
qed simp

lemma grouped_Cons:
  "grouped_files ((k, xs) # m) \<longleftrightarrow> k \<notin> set (map_keys m) \<and> xs \<noteq> [] \<and> (\<forall>f \<in> set xs. k = file_key f) \<and> grouped_files m"
  by (auto simp: grouped_files_def map_ok_def)

lemma grouped_add: "grouped_files m \<Longrightarrow> grouped_files (add_to (file_key f) f m)"
proof (induction m)
  case (Cons e m)
  obtain k xs where e: "e = (k, xs)" by fastforce
  show ?case
  proof (cases "k = file_key f")
    case True
    then show ?thesis using Cons.prems by (simp add: e grouped_Cons)
  next
    case False
    then show ?thesis using Cons.prems Cons.IH by (simp add: e grouped_Cons keys_add_to)
  qed
qed (simp add: grouped_files_def map_ok_def)

definition elements :: "(jsstr, 'a list) jsmap \<Rightarrow> 'a set" where
  "elements m = (\<Union>e \<in> set m. set (snd e))"

lemma elements_simps [simp]: "elements [] = {}" "elements ((k, xs) # m) = set xs \<union> elements m"
  by (simp_all add: elements_def)

lemma elements_add: "elements (add_to key x m) = insert x (elements m)"
proof (induction m)
  case (Cons e m)
  then show ?case by (cases e) simp
qed simp

lemma grouped_files_all: "grouped_files (files_by_id fs) \<and> elements (files_by_id fs) = set fs"
proof -
  let ?add = "\<lambda>m f. add_to (file_key f) f m"
  have "grouped_files m \<Longrightarrow> grouped_files (foldl ?add m fs) \<and> elements (foldl ?add m fs) = elements m \<union> set fs" for m
  proof (induction fs arbitrary: m)
    case (Cons f fs)
    from Cons.IH [OF grouped_add [OF Cons.prems]] show ?case by (simp add: elements_add)
  qed simp
  from this [of "[]"] show ?thesis by (simp add: files_by_id_def file_key_def [abs_def] grouped_files_def)
qed

definition group_id_of :: "file_transfer list \<Rightarrow> jsstr" where
  "group_id_of g = ft_file_id (hd g)"

definition one_file :: "file_transfer list \<Rightarrow> bool" where
  "one_file g \<longleftrightarrow> g \<noteq> [] \<and> ft_file_id ` set g = {group_id_of g}"

lemma logical_files:
  fixes fs :: "file_transfer list"
  defines "gs \<equiv> map snd (files_by_id fs)"
  shows "list_all one_file gs" and "distinct (map group_id_of gs)" and "set (map group_id_of gs) = ft_file_id ` set fs"
proof -
  have g: "grouped_files (files_by_id fs)" and all_of: "elements (files_by_id fs) = set fs" using grouped_files_all by blast+
  have key: "file_key f = js ''file:'' @ ft_file_id f" for f by (rule file_key_def)
  have one: "one_file (snd e) \<and> fst e = js ''file:'' @ group_id_of (snd e)" if e: "e \<in> set (files_by_id fs)" for e
  proof -
    have n: "snd e \<noteq> []" and k: "\<And>f. f \<in> set (snd e) \<Longrightarrow> fst e = file_key f" using g e by (auto simp: grouped_files_def)
    have h: "fst e = js ''file:'' @ group_id_of (snd e)" using k [OF hd_in_set [OF n]] by (simp only: key group_id_of_def)
    have "ft_file_id f = group_id_of (snd e)" if "f \<in> set (snd e)" for f using k [OF that] h by (simp only: key same_append_eq)
    moreover from this have "group_id_of (snd e) \<in> ft_file_id ` set (snd e)" using hd_in_set [OF n] by (metis image_eqI)
    ultimately show ?thesis using n h by (simp only: one_file_def) blast
  qed
  then show list: "list_all one_file gs" by (auto simp: gs_def list_all_iff)
  have "map_keys (files_by_id fs) = map (\<lambda>i. js ''file:'' @ i) (map group_id_of gs)"
    using one by (simp add: map_keys_def gs_def)
  then have "distinct (map (\<lambda>i. js ''file:'' @ i) (map group_id_of gs))" using g by (simp only: grouped_files_def map_ok_def)
  then show "distinct (map group_id_of gs)" unfolding distinct_map by (rule conjunct1)
  have "set (map group_id_of gs) = (\<Union>h \<in> set gs. ft_file_id ` set h)" using list by (auto simp: list_all_iff one_file_def)
  also have "\<dots> = ft_file_id ` elements (files_by_id fs)" by (auto simp: gs_def elements_def)
  finally show "set (map group_id_of gs) = ft_file_id ` set fs" using all_of by simp
qed

lemma best_file_in: "g \<noteq> [] \<Longrightarrow> best_file g \<in> set g"
proof -
  have "foldl better_file a xs \<in> insert a (set xs)" for a xs
  proof (induction xs arbitrary: a)
    case (Cons x xs)
    have "better_file a x = a \<or> better_file a x = x" by (simp add: better_file_def)
    then show ?case using Cons [of "better_file a x"] by auto
  qed simp
  then show "g \<noteq> [] \<Longrightarrow> best_file g \<in> set g" by (cases g) (auto simp: best_file_def)
qed

definition times_shown :: "jsstr \<Rightarrow> shown_file list \<Rightarrow> nat" where
  "times_shown i xs = length (filter (\<lambda>x. i \<in> item_ids x) xs)"

lemma times_shown_simps [simp]:
  "times_shown i [] = 0" "times_shown i (x # xs) = (if i \<in> item_ids x then 1 else 0) + times_shown i xs"
  "times_shown i (a @ b) = times_shown i a + times_shown i b"
  by (simp_all add: times_shown_def)

lemma times_shown_pushed:
  "\<lbrakk>map_get m key = Some (file, everything); times_shown (ft_file_id f) (map snd m) = 0\<rbrakk>
     \<Longrightarrow> times_shown i (map snd (map_set key (file, everything @ [f]) m)) = times_shown i (map snd m) + (if i = ft_file_id f then 1 else 0)"
  by (induction m) (auto simp: item_ids_def split: if_splits)

lemma times_shown_new:
  "map_get m key = None \<Longrightarrow> times_shown i (map snd (map_set key x m)) = times_shown i (map snd m) + (if i \<in> item_ids x then 1 else 0)"
  by (induction m) (auto split: if_splits)

lemma times_shown_logical:
  assumes "one_file g" and "times_shown (group_id_of g) (map snd m) = 0"
  shows "times_shown i (map snd (add_logical m g)) = times_shown i (map snd m) + (if i = group_id_of g then 1 else 0)"
proof -
  have f: "ft_file_id (best_file g) = group_id_of g" using assms(1) best_file_in [of g] by (auto simp: one_file_def)
  have ids: "item_ids (x, if b then [best_file g] else g) = {group_id_of g}" for x b
    using assms(1) f by (simp add: item_ids_def one_file_def)
  show ?thesis
  proof (cases "map_get m (batch_key (best_file g))")
    case None
    then show ?thesis by (simp add: add_logical_def Let_def times_shown_new ids)
  next
    case (Some x)
    then show ?thesis using assms(2) f times_shown_pushed [of m "batch_key (best_file g)" "fst x" "snd x" "best_file g" i]
      by (cases x) (simp add: add_logical_def Let_def)
  qed
qed

lemma times_shown_all:
  "\<lbrakk>list_all one_file gs; distinct (map group_id_of gs); \<forall>g \<in> set gs. times_shown (group_id_of g) (map snd m) = 0\<rbrakk>
     \<Longrightarrow> times_shown i (map snd (foldl add_logical m gs)) = times_shown i (map snd m) + (if i \<in> set (map group_id_of gs) then 1 else 0)"
proof (induction gs arbitrary: m)
  case (Cons g gs)
  have g: "one_file g" "times_shown (group_id_of g) (map snd m) = 0" using Cons.prems by simp_all
  have "\<forall>h \<in> set gs. times_shown (group_id_of h) (map snd (add_logical m g)) = 0"
    using Cons.prems times_shown_logical [OF g] by (auto simp: image_iff)
  from Cons.IH [OF _ _ this] show ?case using Cons.prems times_shown_logical [OF g, of i] by auto
qed simp

lemma times_shown_sort: "times_shown i (sort_by cmp xs) = times_shown i xs"
proof -
  have "times_shown i (insert_by cmp x ys) = times_shown i (x # ys)" for x ys by (induction ys) auto
  then show ?thesis by (induction xs) auto
qed

text \<open>Every file of a conversation is shown in exactly one item, alone or in its batch, however many transfers it has, and
  the items are in the order of their times.\<close>

theorem files_shown_once:
  "times_shown i (conversationFiles fs) = (if i \<in> ft_file_id ` set fs then 1 else 0)
   \<and> sorted_wrt (\<lambda>a b. ft_created_at (fst a) \<le> ft_created_at (fst b)) (conversationFiles fs)"
proof
  let ?order = "\<lambda>a b :: shown_file. rat_order (ft_created_at (fst a)) (ft_created_at (fst b))"
  let ?raw = "map snd (foldl add_logical [] (map snd (files_by_id fs)))"
  have "times_shown i (map (\<lambda>(f, everything). (f, sort_by batch_order everything)) xs) = times_shown i xs" for xs
    by (induction xs) (auto simp: item_ids_def)
  then have "times_shown i (conversationFiles fs) = times_shown i ?raw" unfolding conversationFiles_def times_shown_sort .
  also have "\<dots> = (if i \<in> ft_file_id ` set fs then 1 else 0)"
    using times_shown_all [OF logical_files(1,2), of fs "[]" i] logical_files(3) [of fs] by simp
  finally show "times_shown i (conversationFiles fs) = (if i \<in> ft_file_id ` set fs then 1 else 0)" .
  have c: "consistent ?order UNIV" by (auto simp: consistent_def rat_order_def)
  have "sorted_wrt (\<lambda>a b. ?order a b \<le> 0) (conversationFiles fs)" unfolding conversationFiles_def by (rule sorted_sort_by [OF c]) simp
  then show "sorted_wrt (\<lambda>a b. ft_created_at (fst a) \<le> ft_created_at (fst b)) (conversationFiles fs)"
    by (rule sorted_wrt_mono_rel [rotated]) (auto simp: rat_order_def split: if_splits)
qed

end
