(* ===== verification/SessionKeys.thy ===== *)
theory SessionKeys
  imports SessionItems
begin

text \<open>
  The keyboard of the terminal client (\<open>useKeyboard\<close> in \<open>tui/src/ChatApp.tsx\<close>): what a key does in which state, and the
  deletion of a message. A handler says whether it kept the key from the focused element and what it did.
\<close>

record key_press =
  kp_name :: jsstr
  kp_ctrl :: bool
  kp_meta :: bool
  kp_super :: bool
  kp_alt :: bool
  kp_prevented :: bool

datatype key_command =
    ToggleHelp | CloseHelp | CancelDelete | ConfirmDelete reply_target | PasteClipboard | OpenSettings | CloseSettings | GoBack
  | MoveMention nat | CompleteMention jsstr | CloseMention | DeleteSpan mention_span | MoveCursor int | CancelName | EditName
  | OpenPicker | SelectTarget reply_target | ReplyTo reply_target | ViewImage file_transfer | AskDelete reply_target | DropReply
  | LeaveHistory | SelectChat conversation | PageUp | PageDown | ScrollHome | ScrollEnd | OpenInbox | InlineAction action_button

text \<open>\<open>kc_mention\<close>: the candidates and the chosen one, while the list of them is open; \<open>kc_cursor\<close>: that of the composer.\<close>

record key_context =
  kc_help :: bool
  kc_dialog :: "dialog option"
  kc_busy :: bool
  kc_delete :: "reply_target option"
  kc_migration :: bool
  kc_selection :: "conversation option"
  kc_editing :: bool
  kc_scroll :: bool
  kc_mention :: "(mention_candidate list \<times> nat) option"
  kc_spans :: "mention_span list"
  kc_cursor :: "int option"
  kc_selected :: "reply_target option"
  kc_reply :: "reply_target option"
  kc_items :: "conversation_item list"
  kc_conversations :: "conversation list"
  kc_lower :: "jsstr \<Rightarrow> jsstr"

definition isHelpHotkey :: "key_press \<Rightarrow> bool" where
  "isHelpHotkey k \<longleftrightarrow> kp_ctrl k \<and> kp_name k = js ''h''"

definition key_named :: "key_press \<Rightarrow> string \<Rightarrow> bool" where
  "key_named k s \<longleftrightarrow> kp_name k = js s"

definition unmodified :: "key_press \<Rightarrow> bool" where
  "unmodified k \<longleftrightarrow> \<not> kp_ctrl k \<and> \<not> kp_meta k \<and> \<not> kp_super k"

definition composer_focused :: "key_context \<Rightarrow> bool" where
  "composer_focused c \<longleftrightarrow> kc_selection c \<noteq> None \<and> kc_dialog c = None \<and> \<not> kc_editing c \<and> \<not> kc_scroll c"

type_synonym key_result = "bool \<times> key_command list"

definition dialog_key :: "key_context \<Rightarrow> key_press \<Rightarrow> dialog \<Rightarrow> key_result" where
  "dialog_key c k d =
     (if kp_prevented k then (False, [])
      else if (case d of DFileList _ \<Rightarrow> True | _ \<Rightarrow> False) then (False, [])
      else if kc_migration c \<and> key_named k ''escape'' then (False, [])
      else if key_named k ''escape'' \<or> (key_named k ''backspace'' \<and> \<not> dialogUsesTextInput d) then (True, [GoBack])
      else (False, []))"

definition settings_key :: "key_context \<Rightarrow> key_result" where
  "settings_key c = (True, case kc_dialog c of
     Some (DUpdate _ _ _ _) \<Rightarrow> [] | Some (DUpdateDirectory _) \<Rightarrow> [] | Some (DUpdateToken _ _) \<Rightarrow> []
   | Some DSettings \<Rightarrow> [CloseSettings] | _ \<Rightarrow> [OpenSettings])"

text \<open>A picked mention is one symbol for the cursor and for deletion.\<close>

definition span_before :: "int \<Rightarrow> mention_span \<Rightarrow> bool" where
  "span_before cursor s \<longleftrightarrow> sp_start s < cursor \<and> cursor \<le> sp_end s"

definition span_after :: "int \<Rightarrow> mention_span \<Rightarrow> bool" where
  "span_after cursor s \<longleftrightarrow> sp_start s \<le> cursor \<and> cursor < sp_end s"

definition span_key :: "key_context \<Rightarrow> key_press \<Rightarrow> key_result option" where
  "span_key c k = (case kc_cursor c of
     None \<Rightarrow> None
   | Some cursor \<Rightarrow>
       if \<not> composer_focused c \<or> \<not> unmodified k then None
       else if key_named k ''backspace'' then map_option (\<lambda>s. (True, [DeleteSpan s])) (find (span_before cursor) (kc_spans c))
       else if key_named k ''delete'' then map_option (\<lambda>s. (True, [DeleteSpan s])) (find (span_after cursor) (kc_spans c))
       else if key_named k ''left'' then map_option (\<lambda>s. (True, [MoveCursor (sp_start s)])) (find (span_before cursor) (kc_spans c))
       else if key_named k ''right'' then map_option (\<lambda>s. (True, [MoveCursor (sp_end s)])) (find (span_after cursor) (kc_spans c))
       else None)"

definition selected_image :: "key_context \<Rightarrow> reply_target \<Rightarrow> file_transfer option" where
  "selected_image c t = (case find (\<lambda>i. case i of FileItem x f fs \<Rightarrow> ft_file_id f = rt_id t | _ \<Rightarrow> False) (kc_items c) of
     Some (FileItem x f fs) \<Rightarrow> if truthy (ft_file_path f) \<and> isImageFile (kc_lower c) (ft_filename f) then Some f else None
   | _ \<Rightarrow> None)"

definition is_return :: "key_press \<Rightarrow> bool" where
  "is_return k \<longleftrightarrow> key_named k ''return'' \<or> key_named k ''linefeed''"

definition is_arrow :: "key_press \<Rightarrow> bool" where
  "is_arrow k \<longleftrightarrow> key_named k ''up'' \<or> key_named k ''down''"

definition end_key :: "key_context \<Rightarrow> key_press \<Rightarrow> key_result" where
  "end_key c k =
     (if is_arrow k \<and> kp_ctrl k \<and> kc_conversations c \<noteq> []
      then (True, [SelectChat (next_conversation (key_named k ''up'') (kc_conversations c) (kc_selection c))])
      else if key_named k ''pageup'' then (True, [PageUp])
      else if key_named k ''pagedown'' then (True, [PageDown])
      else if kc_scroll c \<and> key_named k ''home'' then (True, [ScrollHome])
      else if kc_scroll c \<and> key_named k ''end'' then (True, [ScrollEnd])
      else (False, []))"

definition history_key :: "key_context \<Rightarrow> key_press \<Rightarrow> key_result option" where
  "history_key c k =
     (if \<not> kc_scroll c then None
      else if \<not> kp_ctrl k \<and> is_arrow k
      then Some (True, let targets = map reply_target_of (kc_items c) in
        if targets = [] then [] else [SelectTarget (next_reply_target (key_named k ''up'') targets (kc_selected c))])
      else case kc_selected c of
          None \<Rightarrow> None
        | Some t \<Rightarrow>
            if key_named k ''r'' then Some (True, [ReplyTo t])
            else if is_return k \<and> rt_isFile t
            then Some (case selected_image c t of Some f \<Rightarrow> (True, [ViewImage f]) | None \<Rightarrow> (False, []))
            else if key_named k ''d'' then Some (True, [AskDelete t])
            else None)"

definition chat_key :: "key_context \<Rightarrow> key_press \<Rightarrow> key_result" where
  "chat_key c k =
     (case span_key c k of
        Some r \<Rightarrow> r
      | None \<Rightarrow>
          if key_named k ''escape'' \<and> kc_editing c then (False, [CancelName])
          else if kp_ctrl k \<and> key_named k ''n'' then (True, [EditName])
          else if kp_ctrl k \<and> key_named k ''u'' then (True, [OpenPicker])
          else case history_key c k of
              Some r \<Rightarrow> r
            | None \<Rightarrow>
                if key_named k ''escape'' \<and> kc_reply c \<noteq> None then (False, [DropReply])
                else if key_named k ''escape'' \<and> kc_scroll c then (True, [LeaveHistory])
                else end_key c k)"

definition mention_key :: "key_context \<Rightarrow> key_press \<Rightarrow> key_result" where
  "mention_key c k = (case kc_mention c of
     None \<Rightarrow> chat_key c k
   | Some (candidates, selected) \<Rightarrow>
       if is_arrow k
       then (True, [MoveMention ((if key_named k ''up'' then selected + length candidates - 1 else selected + 1) mod length candidates)])
       else if key_named k ''tab'' then (True, [CompleteMention (mc_peerId (candidates ! min selected (length candidates - 1)))])
       else if key_named k ''escape'' then (True, [CloseMention])
       else if key_named k ''left'' \<or> key_named k ''right'' \<or> key_named k ''home'' \<or> key_named k ''end''
       then (case chat_key c k of (p, cs) \<Rightarrow> (p, CloseMention # cs))
       else chat_key c k)"

definition on_key :: "key_context \<Rightarrow> key_press \<Rightarrow> key_result" where
  "on_key c k =
     (if isHelpHotkey k then (True, [ToggleHelp])
      else if key_named k ''?'' \<and> unmodified k \<and> (kc_help c \<or> (\<not> composer_focused c
             \<and> \<not> (case kc_dialog c of Some d \<Rightarrow> dialogUsesTextInput d | None \<Rightarrow> False)))
      then (True, [ToggleHelp])
      else if kc_help c then (if key_named k ''escape'' then (True, [CloseHelp]) else (False, []))
      else if kc_dialog c \<noteq> None \<and> kc_busy c then (True, [])
      else case kc_delete c of
          Some t \<Rightarrow> if key_named k ''escape'' then (False, [CancelDelete]) else if is_return k then (True, [ConfirmDelete t]) else (False, [])
        | None \<Rightarrow>
            if key_named k ''v'' \<and> \<not> unmodified k \<and> composer_focused c then (True, [PasteClipboard])
            else if kp_ctrl k \<and> key_named k ''p'' then settings_key c
            else case kc_dialog c of
                Some d \<Rightarrow> dialog_key c k d
              | None \<Rightarrow> mention_key c k)"

text \<open>The second handler: the inbox and the actions of the peer that is shown.\<close>

definition friend_key :: "key_context \<Rightarrow> peer option \<Rightarrow> key_press \<Rightarrow> key_result" where
  "friend_key c selected k =
     (if isHelpHotkey k \<or> kc_help c then (False, [])
      else if kp_ctrl k \<and> key_named k ''f'' then (True, [OpenInbox])
      else if (kp_alt k \<or> kp_meta k \<or> kp_ctrl k) \<and> kc_dialog c = None \<and> \<not> kc_editing c
      then (case (selected, index_where (\<lambda>s. key_named k s) [''1'', ''2'', ''3'', ''4'']) of
          (Some p, Some i) \<Rightarrow> if i < length (inlineFriendActions p) then (True, [InlineAction (inlineFriendActions p ! i)]) else (False, [])
        | _ \<Rightarrow> (False, []))
      else (False, []))"

subsection \<open>Deleting a message\<close>

record reply_state =
  rs_session :: session
  rs_selected :: "reply_target option"
  rs_reply :: "reply_target option"
  rs_delete :: "reply_target option"

definition clear_target :: "jsstr list \<Rightarrow> reply_target option \<Rightarrow> reply_target option" where
  "clear_target ids t = (case t of Some x \<Rightarrow> if rt_id x \<in> set ids then None else t | None \<Rightarrow> None)"

definition forget_targets :: "jsstr list \<Rightarrow> reply_state \<Rightarrow> reply_state" where
  "forget_targets ids r = r\<lparr>rs_selected := clear_target ids (rs_selected r), rs_reply := clear_target ids (rs_reply r), rs_delete := None\<rparr>"

definition say :: "string \<Rightarrow> reply_state \<Rightarrow> reply_state" where
  "say t r = r\<lparr>rs_session := status (js t) (rs_session r)\<rparr>"

definition without_rows :: "jsstr list \<Rightarrow> chat_message list \<Rightarrow> chat_message list" where
  "without_rows ids rows = filter (\<lambda>m. msg_id m \<notin> set ids) rows"

definition real_id :: "(jsstr, send_meta) jsmap \<Rightarrow> jsstr \<Rightarrow> jsstr" where
  "real_id meta i = (case map_get meta i of Some m \<Rightarrow> sm_realId m | None \<Rightarrow> i)"

text \<open>A row still being sent cannot be deleted, one that failed exists only here, any other is deleted by the backend.\<close>

definition confirm_delete :: "(jsstr, send_meta) jsmap \<Rightarrow> reply_target \<Rightarrow> reply_state \<Rightarrow> reply_state \<times> request list" where
  "confirm_delete meta t r = (case map_get meta (rt_id t) of
     None \<Rightarrow> if starts_with (rt_id t) PENDING_PREFIX then (say ''That message is still sending; delete it once it arrives.'' r, [])
       else (r, [Ipc ''delete_message'' ([(js ''message_id'', JStr (rt_id t))]
              @ (case rt_groupId t of Some g \<Rightarrow> [(js ''group_id'', JStr g)] | None \<Rightarrow> []) @ [(js ''file'', JBool (rt_isFile t))])])
   | Some m \<Rightarrow>
       if sm_failed m
       then (say ''Message deleted locally.'' (forget_targets [rt_id t] (r\<lparr>rs_session := upd_messages (without_row (rt_id t))
               ((rs_session r)\<lparr>se_buffers := map (\<lambda>(k, rows). (k, without_row (rt_id t) rows)) (se_buffers (rs_session r))\<rparr>)\<rparr>)), [])
       else (r, [Ipc ''delete_message'' ([(js ''message_id'', JStr (sm_realId m))]
              @ (case rt_groupId t of Some g \<Rightarrow> [(js ''group_id'', JStr g)] | None \<Rightarrow> []) @ [(js ''file'', JBool (rt_isFile t))])]))"

definition unbuffer_deleted :: "jsstr list \<Rightarrow> session \<Rightarrow> buffers" where
  "unbuffer_deleted ids s =
     (case (find (\<lambda>m. msg_id m \<in> set ids) (ch_messages (se_chat s)), se_key s) of
        (Some m, Some k) \<Rightarrow>
          if msg_pending m \<noteq> 0 \<and> k \<noteq> [] \<and> list_ex (\<lambda>row. msg_id row \<in> set ids) (buffer_of k (se_buffers s))
          then map_set k (without_rows ids (buffer_of k (se_buffers s))) (se_buffers s) else se_buffers s
      | _ \<Rightarrow> se_buffers s)"

definition deleted :: "(jsstr, send_meta) jsmap \<Rightarrow> reply_target \<Rightarrow> reply_state \<Rightarrow> reply_state" where
  "deleted meta t r =
     (let ids = [rt_id t, real_id meta (rt_id t)]; s = rs_session r;
          s' = (if rt_isFile t then s\<lparr>se_files := filter (\<lambda>f. ft_file_id f \<notin> set ids) (se_files s)\<rparr>
                else upd_messages (without_rows ids) (s\<lparr>se_buffers := unbuffer_deleted ids s\<rparr>))
      in say ''Message deleted locally.'' (forget_targets ids (r\<lparr>rs_session := s'\<rparr>)))"

definition delete_failed :: "chat_env \<Rightarrow> js_error \<Rightarrow> reply_state \<Rightarrow> reply_state" where
  "delete_failed env e r = r\<lparr>rs_delete := None, rs_session := status (js ''Delete error: '' @ error_message env e) (rs_session r)\<rparr>"

definition delete_answered :: "session_env \<Rightarrow> (jsstr, send_meta) jsmap \<Rightarrow> reply_target \<Rightarrow> answer \<Rightarrow> reply_state \<Rightarrow> reply_state" where
  "delete_answered env meta t a r = (case a of
     Response resp \<Rightarrow> if json_truthy (field resp ''error'') then delete_failed (sn_chat env) (ErrorMessage (text_at env resp ''error'')) r
       else deleted meta t r
   | Failed e \<Rightarrow> delete_failed (sn_chat env) e r
   | _ \<Rightarrow> delete_failed (sn_chat env) TypeError r)"

subsection \<open>Keys reach whom they are meant for\<close>

text \<open>The layers that Escape leaves one at a time, the topmost first. A dialog may keep the key for itself.\<close>

definition escape_layer :: "key_context \<Rightarrow> bool \<Rightarrow> key_command list" where
  "escape_layer c prevented =
     (let keeps = (case kc_dialog c of Some (DFileList s) \<Rightarrow> True | _ \<Rightarrow> prevented \<or> kc_migration c) in
      hd (filter (\<lambda>layer. layer \<noteq> []) (
        [if kc_help c then [CloseHelp] else [],
         if kc_delete c \<noteq> None then [CancelDelete] else [],
         if kc_dialog c \<noteq> None \<and> \<not> keeps then [GoBack] else []]
        @ (if kc_dialog c \<noteq> None then [] else
           [if kc_mention c \<noteq> None then [CloseMention] else [],
            if kc_editing c then [CancelName] else [],
            if kc_reply c \<noteq> None then [DropReply] else [],
            if kc_scroll c then [LeaveHistory] else []])) @ [[]]))"


end
