(* ===== verification/SessionInput.thy ===== *)
theory SessionInput
  imports SessionKeys ChatFiles FileConfirm
begin

text \<open>
  What the user puts into the terminal client (\<open>tui/src/ChatApp.tsx\<close>): the composer with its picked mentions, pasted and
  dropped files, the actions on a peer, and the questions after the start. The text area is a component of the terminal
  library: what deleting a character and inserting a text do to its text and cursor is an argument. Offsets are in units.
\<close>

subsection \<open>The composer\<close>

record text_editor =
  ed_delete :: "jsstr \<times> nat \<Rightarrow> jsstr \<times> nat"
  ed_insert :: "jsstr \<Rightarrow> jsstr \<times> nat \<Rightarrow> jsstr \<times> nat"
  ed_lines :: "jsstr \<Rightarrow> nat"

record composing =
  cp_ui :: composer_ui
  cp_cursor :: nat
  cp_prev :: "(jsstr, jsstr) jsmap"
  cp_mention :: "(jsstr \<times> nat) option"
  cp_typing :: outgoing_typing

text \<open>What the handlers captured when they were created.\<close>

record composing_view =
  cv_selection :: "conversation option"
  cv_busy :: bool
  cv_mention :: bool
  cv_spans :: "(jsstr, mention_span list) jsmap"
  cv_drafts :: "(jsstr, jsstr) jsmap"
  cv_candidates :: "mention_candidate list"

definition upd_composer :: "(composer_ui \<Rightarrow> composer_ui) \<Rightarrow> composing \<Rightarrow> composing" where
  "upd_composer f s = s\<lparr>cp_ui := f (cp_ui s)\<rparr>"

definition entry_of :: "'a \<Rightarrow> (jsstr, 'a) jsmap \<Rightarrow> jsstr \<Rightarrow> 'a" where
  "entry_of x m key = (case map_get m key of Some y \<Rightarrow> y | None \<Rightarrow> x)"

text \<open>A change in a group: the spans follow the edit, and a query at the cursor opens the list of mentions unless the cursor
  is in a picked mention. \<open>cv_busy\<close>: a name is edited or the history is focused.\<close>

definition group_edit :: "composing_view \<Rightarrow> jsstr \<Rightarrow> jsstr \<Rightarrow> composing \<Rightarrow> composing" where
  "group_edit v key content s =
     (let cursor = (case co_text (cp_ui s) of Some t \<Rightarrow> int (cp_cursor s) | None \<Rightarrow> int (length content));
          spans = updateSpansAfterEdit (entry_of [] (cv_spans v) key) (entry_of [] (cp_prev s) key) content;
          inSpan = list_ex (\<lambda>sp. sp_start sp \<le> cursor \<and> cursor \<le> sp_end sp) spans;
          query = (if inSpan then None else mentionQueryAt content cursor)
      in upd_composer (\<lambda>u. u\<lparr>co_spans := map_set key spans (co_spans u)\<rparr>)
          (s\<lparr>cp_prev := map_set key content (cp_prev s),
             cp_mention := (if \<not> cv_busy v then map_option (\<lambda>q. (mq_query q, 0)) query
               else if cv_mention v then None else cp_mention s)\<rparr>))"

definition handleComposerChange :: "composing_view \<Rightarrow> jsstr \<Rightarrow> composing \<Rightarrow> composing" where
  "handleComposerChange v content s =
     (let drafted = (\<lambda>key. upd_composer (\<lambda>u. u\<lparr>co_drafts := updateBoundedEntry (co_drafts u) key content MAX_DRAFT_ENTRIES\<rparr>));
          typed = (\<lambda>s. s\<lparr>cp_typing := composer_typing (cv_selection v) content (cp_typing s)\<rparr>);
          shut = (\<lambda>s. if cv_mention v then s\<lparr>cp_mention := None\<rparr> else s)
      in case cv_selection v of
        Some (GroupChat g) \<Rightarrow>
          let key = group_key g; s1 = drafted key s in
          if entry_of [] (cp_prev s1) key = content then s1 else typed (group_edit v key content s1)
      | Some (PeerChat p) \<Rightarrow> typed (shut (drafted (peer_key p) s))
      | None \<Rightarrow> typed (shut s))"

text \<open>What both edits of mentions do after the text has changed.\<close>

definition edited_to :: "text_editor \<Rightarrow> jsstr \<Rightarrow> jsstr \<times> nat \<Rightarrow> (mention_span list \<Rightarrow> mention_span list) \<Rightarrow> composing \<Rightarrow> composing" where
  "edited_to ed key result spans s = upd_composer (\<lambda>u. u\<lparr>co_text := Some (fst result),
       co_spans := map_set key (spans (entry_of [] (co_spans u) key)) (co_spans u),
       co_drafts := map_set key (fst result) (co_drafts u),
       co_draftLength := length (utf8_text (fst result)),
       co_height := getComposerHeight (Some (ed_lines ed (fst result)))\<rparr>)
     (s\<lparr>cp_cursor := snd result, cp_prev := map_set key (fst result) (cp_prev s), cp_mention := None\<rparr>)"

definition completeMention :: "text_editor \<Rightarrow> composing_view \<Rightarrow> jsstr \<Rightarrow> composing \<Rightarrow> composing" where
  "completeMention ed v peerId s =
     (let key = map_option conversation_key (cv_selection v);
          content = (case co_text (cp_ui s) of Some t \<Rightarrow> t
            | None \<Rightarrow> (case key of Some k \<Rightarrow> entry_of [] (cv_drafts v) k | None \<Rightarrow> []));
          cursor = (case co_text (cp_ui s) of Some t \<Rightarrow> cp_cursor s | None \<Rightarrow> length content)
      in case (co_text (cp_ui s), mentionQueryAt content (int cursor), find (\<lambda>m. mc_peerId m = peerId) (cv_candidates v), key) of
        (Some t, Some query, Some candidate, Some k) \<Rightarrow>
          let insertAt = int cursor - (int (length (mq_query query)) + 1);
              deleted = (ed_delete ed ^^ (length (mq_query query) + 1)) (content, cursor);
              result = ed_insert ed (64 # mc_displayName candidate @ [32]) deleted;
              picked = \<lparr>sp_peerId = peerId, sp_name = mc_displayName candidate, sp_start = insertAt,
                sp_end = insertAt + int (length (mc_displayName candidate)) + 1\<rparr>
          in handleComposerChange v (fst result)
               (edited_to ed k result (\<lambda>spans. updateSpansAfterEdit spans content (fst result) @ [picked]) s)
      | _ \<Rightarrow> s\<lparr>cp_mention := None\<rparr>)"

definition same_span :: "mention_span \<Rightarrow> mention_span \<Rightarrow> bool" where
  "same_span a b \<longleftrightarrow> sp_peerId a = sp_peerId b \<and> sp_start a = sp_start b \<and> sp_end a = sp_end b"

text \<open>A picked mention is deleted as a whole. A stale span is forgotten, and the text is left alone.\<close>

definition deleteMentionSpan :: "text_editor \<Rightarrow> composing_view \<Rightarrow> mention_span \<Rightarrow> composing \<Rightarrow> composing" where
  "deleteMentionSpan ed v picked s = (case (co_text (cp_ui s), map_option conversation_key (cv_selection v)) of
     (Some before, Some key) \<Rightarrow>
       if slice_int before (sp_start picked) (sp_end picked) \<noteq> 64 # sp_name picked
       then upd_composer (\<lambda>u. u\<lparr>co_spans :=
              map_set key (filter (\<lambda>sp. \<not> same_span sp picked) (entry_of [] (co_spans u) key)) (co_spans u)\<rparr>) s
       else let result = (ed_delete ed ^^ nat (sp_end picked - sp_start picked)) (before, nat (sp_end picked)) in
         edited_to ed key result (\<lambda>spans. updateSpansAfterEdit (entry_of [] (cv_spans v) key) before (fst result)) s
   | _ \<Rightarrow> s)"

subsection \<open>Pasting and dropping\<close>

record paste_event =
  pe_bytes :: "nat list"
  pe_mimeType :: "jsstr option"
  pe_binary :: bool

record paste_env =
  px_chat :: chat_env
  px_decode :: "nat list \<Rightarrow> jsstr"
  px_hash :: "nat list \<Rightarrow> nat"

datatype paste_action = PasteImage "nat list" jsstr | SendFiles "jsstr list" confirm_source | ReadClipboard | InsertText jsstr | Says jsstr

definition sendPastedImage ::
  "paste_env \<Rightarrow> jsstr option \<Rightarrow> rat \<Rightarrow> nat list \<Rightarrow> jsstr \<Rightarrow> paste_record option \<Rightarrow> paste_action list \<times> paste_record option" where
  "sendPastedImage env key now bytes mimeType previous =
     (let next' = createPastedImageDedupRecord (px_hash env) bytes key now in
      if shouldSuppressPastedImage previous next' then ([], previous) else ([PasteImage bytes mimeType], Some next'))"

definition expanded_candidate :: "jsstr \<Rightarrow> jsstr \<Rightarrow> jsstr" where
  "expanded_candidate home candidate =
     (if home \<noteq> [] \<and> (candidate = js ''~'' \<or> starts_with candidate (js ''~/'') \<or> starts_with candidate [126, 92])
      then home @ drop 1 candidate else candidate)"

text \<open>A text is taken for files only where it names one that exists.\<close>

definition maybeSendDroppedPaths :: "paste_env \<Rightarrow> conversation option \<Rightarrow> jsstr \<Rightarrow> confirm_source \<Rightarrow> paste_action list" where
  "maybeSendDroppedPaths env selection raw source =
     (let candidates = parsePotentialFilePaths raw in
      if selection = None then []
      else if list_ex (\<lambda>c. ce_isFile (px_chat env) (expanded_candidate (ce_home (px_chat env)) c)) candidates
      then [SendFiles candidates source] else [])"

definition image_type :: "paste_env \<Rightarrow> paste_event \<Rightarrow> jsstr option" where
  "image_type env e = (case map_option (ce_lower (px_chat env)) (pe_mimeType e) of
     Some m \<Rightarrow> if starts_with m (js ''image/'') then Some m else detectImageMime (pe_bytes e)
   | None \<Rightarrow> detectImageMime (pe_bytes e))"

text \<open>Whether the terminal is kept from inserting the text, and what is done. \<open>ready\<close>: no help, dialog or name is open.\<close>

definition on_paste :: "paste_env \<Rightarrow> bool \<Rightarrow> conversation option \<Rightarrow> rat \<Rightarrow> paste_event \<Rightarrow> paste_record option
    \<Rightarrow> bool \<times> paste_action list \<times> paste_record option" where
  "on_paste env ready selection now e previous =
     (let raw = trim (px_decode env (pe_bytes e)); files = maybeSendDroppedPaths env selection raw FromDrop in
      if \<not> ready then (False, [], previous)
      else case image_type env e of
          Some mime \<Rightarrow> (True, sendPastedImage env (map_option conversation_key selection) now (pe_bytes e) mime previous)
        | None \<Rightarrow>
            if raw \<noteq> [] \<and> files \<noteq> [] then (True, files, previous)
            else if raw = [] \<or> pe_binary e then (True, [ReadClipboard], previous)
            else (False, [], previous))"

text \<open>The clipboard of the host, read for the paste shortcut.\<close>

datatype clipboard_read = NoClipboard | ClipboardRead "nat list" jsstr | ClipboardRefused jsstr

definition pasteFromHostClipboard :: "paste_env \<Rightarrow> conversation option \<Rightarrow> rat \<Rightarrow> clipboard_read \<Rightarrow> paste_record option
    \<Rightarrow> paste_action list \<times> paste_record option" where
  "pasteFromHostClipboard env selection now r previous = (case r of
     NoClipboard \<Rightarrow> ([Says (js ''Host clipboard is not available.'')], previous)
   | ClipboardRefused reason \<Rightarrow> ([Says (if reason = js ''limit-exceeded'' then js ''Clipboard image exceeds the 8 MiB limit.''
       else js ''Could not read host clipboard: '' @ reason)], previous)
   | ClipboardRead bytes mime \<Rightarrow>
       if starts_with mime (js ''image/'') then sendPastedImage env (map_option conversation_key selection) now bytes mime previous
       else if mime = js ''text/plain'' then
         (let t = px_decode env bytes; files = (if trim t = [] then [] else maybeSendDroppedPaths env selection (trim t) FromClipboard)
          in (if files \<noteq> [] then files else [InsertText t], previous))
       else ([], previous))"

subsection \<open>Actions on a peer\<close>

definition unblock :: "chat_env \<Rightarrow> chat \<Rightarrow> peer \<Rightarrow> act" where
  "unblock env v p =
     (let failed = (\<lambda>t. Read (\<lambda>c. if ch_disconnected c then Return
            else Update (\<lambda>c. c\<lparr>ch_status := js ''Unblock error: '' @ t\<rparr>) Return))
      in catching (\<lambda>e. failed (error_message env e)) (ipc_request ''unblock_peer'' (peer_param (peer_id p)) (\<lambda>r.
           if json_truthy (field r ''error'') then failed (value_text (ce_number env) (field r ''error''))
           else Update (showStatus_for (js ''Unblocked '' @ peer_display_name p @ js ''. They can send friend requests again.'') 5000)
             (Spawn (refreshPeers env v Return) (refreshFriendRequestsSilent env Return)))))"

definition with_request :: "chat_env \<Rightarrow> chat \<Rightarrow> peer \<Rightarrow> request_direction \<Rightarrow> string \<Rightarrow> (friend_request \<Rightarrow> act) \<Rightarrow> act" where
  "with_request env v p direction word k = (case resolvePeerRequest (ch_friendRequests v) (peer_id p) direction of
     Some r \<Rightarrow> k r
   | None \<Rightarrow> Update (showStatus (js ''No pending '' @ js word @ js '' request found. Refreshing the inbox'' @ [8230]))
       (Spawn (refreshFriendRequestsSilent env Return) (Spawn (refreshPeers env v Return) Return)))"

fun friend_act :: "chat_env \<Rightarrow> chat \<Rightarrow> peer \<Rightarrow> friend_action \<Rightarrow> act" where
  "friend_act env v p ActAdd = Update (showDialog (DAddFriend (peer_id p) (peer_display_name p))) Return"
| "friend_act env v p ActInbox = openFriendsInbox env"
| "friend_act env v p ActBlock = Update (showDialog (DBlockPeer (peer_id p) (peer_display_name p))) Return"
| "friend_act env v p ActUnblock = unblock env v p"
| "friend_act env v p ActCancel = with_request env v p RequestOutgoing ''outgoing''
     (\<lambda>r. Update (showDialog (DCancelFriendConfirm (fr_request_id r) (peer_display_name p))) Return)"
| "friend_act env v p ActAccept = with_request env v p RequestIncoming ''incoming'' (\<lambda>r. respondToFriendRequest env v r True)"
| "friend_act env v p ActDecline = with_request env v p RequestIncoming ''incoming'' (\<lambda>r. respondToFriendRequest env v r False)"

definition handleInlineFriendAction :: "chat_env \<Rightarrow> chat \<Rightarrow> friend_action \<Rightarrow> act" where
  "handleInlineFriendAction env v action =
     (case find (\<lambda>p. ch_selection v = Some (PeerChat (peer_id p))) (ch_peers v) of
        None \<Rightarrow> Return | Some p \<Rightarrow> friend_act env v p action)"

subsection \<open>The start\<close>

text \<open>What the start reads from the backend once it is connected, in this order. An error response of a required request ends
  the start; those about mutes and the advanced configuration may fail.\<close>

record startup_result =
  su_setupDismissed :: bool
  su_controlUrl :: "jsstr option"
  su_controlDismissed :: bool
  su_notificationsDismissed :: bool

definition took_identity :: "json_object \<Rightarrow> chat \<Rightarrow> chat" where
  "took_identity r c = c\<lparr>ch_identity := Some (as_string (field r ''peer_id''), as_string (field r ''display_name'')),
     ch_flashing := json_truthy (field r ''flashing_enabled''), ch_dnd := json_truthy (field r ''dnd_enabled''),
     ch_nameDraft := as_string (field r ''display_name'')\<rparr>"

definition took_mutes :: "chat_env \<Rightarrow> json_object \<Rightarrow> chat \<Rightarrow> chat" where
  "took_mutes env r c = (if json_truthy (field r ''error'') then c
     else c\<lparr>ch_mutedPeers := ce_muted env (field r ''muted_peers''), ch_mutedGroups := ce_muted env (field r ''muted_groups'')\<rparr>)"

definition took_advanced :: "chat_env \<Rightarrow> json_object \<Rightarrow> chat \<Rightarrow> chat" where
  "took_advanced env r c = (if json_truthy (field r ''error'') then c
     else c\<lparr>ch_imageProtocol := ce_imageProtocol env (field r ''image_protocol''),
       ch_splash := (if as_string (field r ''splash_style'') \<in> {js ''card'', js ''boot-log'', js ''off''}
         then ce_splash env (field r ''splash_style'') else ch_splash c)\<rparr>)"

definition runStartup :: "chat_env \<Rightarrow> chat \<Rightarrow> jsstr \<Rightarrow> (startup_result \<Rightarrow> act) \<Rightarrow> act" where
  "runStartup env v clientId k =
     ipc_checked env ''identity'' [] (\<lambda>me. Update (took_identity me)
     (ipc_checked env ''tui_presence'' [(js ''client_id'', JStr clientId), (js ''active'', JBool True)] (\<lambda>_.
      refreshPeers env v (refreshGroups env v (Spawn (refreshFriendRequestsSilent env Return)
     (ipc_request ''muted_peers'' [] (\<lambda>mutes. Update (took_mutes env mutes)
     (ipc_checked env ''notifications'' [] (\<lambda>prefs. Update (\<lambda>c. c\<lparr>ch_preferences := Some (ce_preferences env prefs)\<rparr>)
     (ipc_checked env ''control'' [] (\<lambda>control.
      ipc_request ''advanced_config'' [] (\<lambda>advanced. Update (took_advanced env advanced)
     (k \<lparr>su_setupDismissed = json_truthy (field me ''setup_dismissed''), su_controlUrl = given_string (field control ''url''),
         su_controlDismissed = json_truthy (field control ''setup_dismissed''),
         su_notificationsDismissed = json_truthy (field prefs ''setup_dismissed'')\<rparr>)))))))))))))"

definition offer_update :: "startup_result \<Rightarrow> act" where
  "offer_update r = Await CheckForUpdate (\<lambda>a. case a of
     FoundRelease (Some release) \<Rightarrow>
       if su_setupDismissed r \<and> (truthy (su_controlUrl r) \<or> su_controlDismissed r)
       then Update (showDialog (DUpdate release False None None)) Return else Return
   | Failed AuthenticationError \<Rightarrow> Update (showDialog (DUpdateToken None None)) Return
   | _ \<Rightarrow> Return)"

definition finishStartup :: "chat_env \<Rightarrow> startup_result \<Rightarrow> act" where
  "finishStartup env r =
     (let question = first_dialog (su_setupDismissed r) (su_controlUrl r) (su_controlDismissed r) (su_notificationsDismissed r) in
      Update (case question of Some d \<Rightarrow> setDialog d | None \<Rightarrow> id)
        (Spawn (if ce_isRelease env then offer_update r else Return) (Update (\<lambda>c. c\<lparr>ch_status := DEFAULT_STATUS\<rparr>) Return)))"

text \<open>The answer to the check for updates replaces a question that is still open: an offered update that about notifications,
  and a refused token any of them.\<close>

definition after_start :: "chat_env \<Rightarrow> startup_result \<Rightarrow> answer \<Rightarrow> chat \<Rightarrow> dialog option" where
  "after_start env r a c = (case run (finishStartup env r) c of
     (c1, [Await q k]) \<Rightarrow> du_dialog (ch_ui (fst (run (k a) c1))) | (c1, ws) \<Rightarrow> du_dialog (ch_ui c1))"

lemma question_replaced:
  assumes "ce_isRelease env"
  shows "after_start env r (Failed AuthenticationError) c = Some (DUpdateToken None None)"
    and "su_setupDismissed r \<Longrightarrow> su_controlDismissed r \<Longrightarrow>
      after_start env r (FoundRelease (Some release)) c = Some (DUpdate release False None None)"
  using assms by (simp_all add: after_start_def finishStartup_def offer_update_def Let_def showDialog_def upd_ui_def)

subsection \<open>Mentions are edited as a whole\<close>

text \<open>What the code relies on of the text area, for texts in which every character is one unit wide.\<close>

definition editor_works :: "text_editor \<Rightarrow> bool" where
  "editor_works ed \<longleftrightarrow>
     (\<forall>t c. 0 < c \<and> c \<le> length t \<longrightarrow> ed_delete ed (t, c) = (take (c - 1) t @ drop c t, c - 1))
     \<and> (\<forall>x t c. c \<le> length t \<longrightarrow> ed_insert ed x (t, c) = (take c t @ x @ drop c t, c + length x))"

lemma deletes_back:
  assumes "editor_works ed" "n \<le> c" "c \<le> length t"
  shows "(ed_delete ed ^^ n) (t, c) = (take (c - n) t @ drop c t, c - n)"
  using assms(2)
proof (induction n)
  case (Suc n)
  let ?t = "take (c - n) t @ drop c t"
  have "(ed_delete ed ^^ n) (t, c) = (?t, c - n)" using Suc by simp
  moreover have "ed_delete ed (?t, c - n) = (take (c - n - 1) ?t @ drop (c - n) ?t, c - n - 1)"
    using assms(1,3) Suc.prems by (simp add: editor_works_def)
  moreover have "take (c - n - 1) ?t @ drop (c - n) ?t = take (c - Suc n) t @ drop c t"
    using assms(3) Suc.prems by (simp add: min_def)
  ultimately show ?case by simp
qed simp

lemma query_before:
  assumes "mentionQueryAt content (int cursor) = Some q" "cursor \<le> length content"
  shows "mq_start q + length (mq_query q) + 1 = cursor"
  using assms by (auto simp: mentionQueryAt_def Let_def split: if_splits)

lemma entry_of_set [simp]: "entry_of x (map_set key y m) k = (if k = key then y else entry_of x m k)"
  by (simp add: entry_of_def)

text \<open>A change that the composer knows of already only updates the draft.\<close>

lemma known_change:
  assumes "cv_selection v = Some (GroupChat g)" "entry_of [] (cp_prev s) (group_key g) = content"
  shows "handleComposerChange v content s
    = upd_composer (\<lambda>u. u\<lparr>co_drafts := updateBoundedEntry (co_drafts u) (group_key g) content MAX_DRAFT_ENTRIES\<rparr>) s"
  using assms by (simp add: handleComposerChange_def upd_composer_def Let_def)

lemma span_valid_inserted:
  assumes "a = length pre" "sp = \<lparr>sp_peerId = i, sp_name = name, sp_start = int a, sp_end = int a + int (length name) + 1\<rparr>"
  shows "span_valid (pre @ 64 # name @ rest) sp"
proof -
  have "nat (int a + int (length name) + 1) = a + (length name + 1)" by simp
  then show ?thesis using assms by (simp add: span_valid_def slice_def)
qed


definition sample_editor :: text_editor where
  "sample_editor = \<lparr>ed_delete = (\<lambda>(t, c). (take (c - 1) t @ drop c t, c - 1)),
     ed_insert = (\<lambda>x (t, c). (take c t @ x @ drop c t, c + length x)), ed_lines = (\<lambda>t. 1)\<rparr>"

definition sample_composing :: composing where
  "sample_composing = \<lparr>cp_ui = \<lparr>co_text = Some (js ''hi @al''), co_drafts = [], co_draftLength = 6, co_height = 3, co_spans = [],
     co_isSending = False\<rparr>, cp_cursor = 6, cp_prev = [], cp_mention = Some (js ''al'', 0), cp_typing = idle_typing\<rparr>"

definition sample_composing_view :: composing_view where
  "sample_composing_view = \<lparr>cv_selection = Some (GroupChat (js ''g'')), cv_busy = False, cv_mention = True, cv_spans = [], cv_drafts = [],
     cv_candidates = [\<lparr>mc_peerId = js ''p'', mc_displayName = js ''Alice'', mc_isSelf = False\<rparr>]\<rparr>"


text \<open>Deleting a picked mention removes exactly its text, and the others stay on theirs.\<close>

lemma mention_deleted:
  assumes "editor_works ed" "cv_selection v = Some c" "co_text (cp_ui s) = Some content" "span_valid content picked"
    and "list_all (span_valid content) (entry_of [] (cv_spans v) (conversation_key c))"
  shows "let s' = deleteMentionSpan ed v picked s; t = take (nat (sp_start picked)) content @ drop (nat (sp_end picked)) content
    in co_text (cp_ui s') = Some t \<and> list_all (span_valid t) (entry_of [] (co_spans (cp_ui s')) (conversation_key c))"
proof -
  let ?a = "nat (sp_start picked)" and ?b = "nat (sp_end picked)"
  have bounds: "0 \<le> sp_start picked" "sp_start picked \<le> sp_end picked" "?b \<le> length content"
    using assms(4) by (auto simp: span_valid_def)
  have "slice_int content (sp_start picked) (sp_end picked) = slice content ?a ?b" by (rule slice_int_nat) (use bounds in auto)
  then have here: "slice_int content (sp_start picked) (sp_end picked) = 64 # sp_name picked"
    using assms(4) by (simp add: span_valid_def)
  have n: "nat (sp_end picked - sp_start picked) = ?b - ?a" using bounds by (simp add: nat_diff_distrib)
  have "(ed_delete ed ^^ (?b - ?a)) (content, ?b) = (take ?a content @ drop ?b content, ?a)"
    using deletes_back [OF assms(1) _ bounds(3), of "?b - ?a"] bounds by (simp add: nat_mono)
  then show ?thesis
    using edited_spans_valid assms(2,3,5) here
    by (simp add: deleteMentionSpan_def n Let_def edited_to_def upd_composer_def list_all_iff)
qed

end
