(* ===== verification/SessionProperties.thy ===== *)
theory SessionProperties
  imports SessionEvents
begin

text \<open>What holds of the terminal client in every course of events: mutes are respected, and what it remembers is bounded.\<close>

subsection \<open>Quiet\<close>

fun is_shown :: "session_effect \<Rightarrow> bool" where
  "is_shown (Showed x) = (x \<noteq> Nothing_shown)"
| "is_shown e = False"

definition quiet_effects :: "session_effect list \<Rightarrow> bool" where
  "quiet_effects es \<longleftrightarrow> list_all (\<lambda>e. \<not> is_shown e) es"

lemma quiet_simps [simp]:
  "quiet_effects []" "quiet_effects (a @ b) \<longleftrightarrow> quiet_effects a \<and> quiet_effects b"
  "quiet_effects (e # es) \<longleftrightarrow> \<not> is_shown e \<and> quiet_effects es"
  by (simp_all add: quiet_effects_def)

lemma notify_dnd: "ch_dnd (se_chat v) \<Longrightarrow> \<not> is_shown (notify_user env v event t)"
  by (simp add: notify_user_def notify_def)

lemma quiet_files [simp]: "quiet_effects (files_if_shown v ev)"
  by (simp add: files_if_shown_def refreshSelectedConversationFiles_def split: option.split)

lemma quiet_delivery: "quiet_effects (snd (on_group_delivery env v now ev s))"
  by (auto simp: on_group_delivery_def Let_def split: option.split conversation.split)

text \<open>A property of what every branch of the handler does holds of the handler.\<close>

lemma if_both: "P a \<Longrightarrow> P b \<Longrightarrow> P (if c then a else b)"
  by simp

lemma on_event_cases:
  assumes "\<And>s' es. P (s\<lparr>se_typing := s'\<rparr>, [])" and "P (s, [])" and "P (s, [RefreshesPeers])"
    and "P (on_group_event env v now ev s)" "P (on_group_delivery env v now ev s)" "P (on_delivered now ev s, [])"
    and "P (on_message_sent ev s, [])" "P (on_message_blocked ev s, [RefreshesPeers])" "P (on_message_failed ev s, [])"
    and "P (on_friend_request env v ev s)" "P (on_friend_response ev s)" "P (on_friend_cancelled ev s)"
    and "P (on_file_offer env v now ev s)" "P (on_file_progress ev s, [])" "P (on_file_completed env v now ev s)"
    and "\<And>event. P (on_file_event env v now ev event s)" "P (on_peer_message env v now ev s)"
  shows "P (on_event env v now ev s)"
  unfolding on_event_def Let_def by (intro if_both [of P] assms)

text \<open>An event about a muted conversation. A message that mentions the user is none.\<close>

definition muted_event :: "session \<Rightarrow> rat \<Rightarrow> json_object \<Rightarrow> bool" where
  "muted_event v now ev =
     (let event = as_string (field ev ''event'') in
      if event = js ''message'' then peer_muted v (as_string (field ev ''sender_id'')) now
      else if event = js ''group_message'' then group_muted v (as_string (field ev ''group_id'')) now \<and> \<not> mentionedMe v ev
      else event \<in> {js ''file_offer'', js ''file_completed''} \<and> transfer_muted v now ev)"

lemma event_string: "as_string (field ev k) = js (c # cs) \<Longrightarrow> field ev k = Some (JStr (js (c # cs)))"
  by (auto simp: as_string_def js_def split: option.splits json.splits)

text \<open>What the user has not read: the unread messages and the counts at peers and groups.\<close>

definition unread_counts :: "session \<Rightarrow> unread \<times> (jsstr \<times> nat) set \<times> nat list \<times> (jsstr, nat) jsmap" where
  "unread_counts s = (se_unread s, (\<lambda>p. (peer_id p, peer_unread_count p)) ` set (ch_peers (se_chat s)),
     map group_unread_count (ch_groups (se_chat s)), ch_mentionUnread (se_chat s))"

lemma unread_counts_simps [simp]:
  "unread_counts (s\<lparr>se_typing := t\<rparr>) = unread_counts s" "unread_counts (s\<lparr>se_files := f\<rparr>) = unread_counts s"
  "unread_counts (status m s) = unread_counts s" "unread_counts (touch_group g now s) = unread_counts s"
  "unread_counts (upd_messages h s) = unread_counts s"
  by (simp_all add: unread_counts_def status_def upd_chat_def touch_group_def upd_messages_def showStatus_def showStatus_for_def)

lemma touch_counts:
  "(\<lambda>p. (peer_id p, peer_unread_count p)) ` set (touch_peer env (PeerChat i) t ps) = (\<lambda>p. (peer_id p, peer_unread_count p)) ` set ps"
  unfolding touch_peer_def sortPeersByInteraction_def conversation.case set_sort_by set_map image_image
  by (rule image_cong) auto

lemma unread_counts_interaction [simp]: "unread_counts (updatePeerInteraction env i now s) = unread_counts s"
  by (simp add: unread_counts_def updatePeerInteraction_def upd_chat_def touch_counts)

lemma unread_counts_transfer [simp]: "unread_counts (touch_transfer env now ev s) = unread_counts s"
  by (simp add: touch_transfer_def)


subsection \<open>Bounds\<close>

datatype session_input =
    EventArrived session rat json_object
  | FetchAnswered session_fetch answer
  | SelectionOpened "conversation option"
  | HistoryOpened "(jsstr, send_meta) jsmap" rat conversation nat "jsstr option" bool answer
  | BecameVisible jsstr rat
  | Faded rat
  | TypingExpired rat

fun session_step :: "session_env \<Rightarrow> session_input \<Rightarrow> session \<Rightarrow> session" where
  "session_step env (EventArrived v now ev) s = fst (on_event env v now ev s)"
| "session_step env (FetchAnswered f a) s = fst (fetch_answered env f a s)"
| "session_step env (SelectionOpened c) s = open_selection c s"
| "session_step env (HistoryOpened meta now c n self cancelled a) s = fst (opened_history env meta now c n self cancelled a s)"
| "session_step env (BecameVisible i now) s = s\<lparr>se_unread := markUnreadMessageVisible i now (se_unread s)\<rparr>"
| "session_step env (Faded now) s = s\<lparr>se_unread := fade_unread now (se_unread s)\<rparr>"
| "session_step env (TypingExpired now) s = s\<lparr>se_typing := expire_typing now (se_typing s)\<rparr>"

definition start_session :: "chat \<Rightarrow> session" where
  "start_session c = \<lparr>se_chat = c\<lparr>ch_groupMembers := []\<rparr>, se_key = None, se_buffers = [], se_unread = [], se_typing = [],
     se_activity = [], se_delivered = [], se_files = []\<rparr>"

definition session_bounded :: "session \<Rightarrow> bool" where
  "session_bounded s \<longleftrightarrow> length (se_unread s) \<le> MAX_UNREAD_ENTRIES \<and> length (se_delivered s) \<le> MAX_DELIVERED
     \<and> length (ch_groupMembers (se_chat s)) \<le> MAX_GROUP_MEMBER_CACHE
     \<and> list_all (\<lambda>(k, rows). length rows \<le> MAX_PENDING_BUFFER) (se_buffers s)"

lemma retain_bounded: "0 < n \<Longrightarrow> length (retainRecentEntries es n) \<le> n"
  by (simp add: retain_eq)

lemma remember_bounded: "length u \<le> MAX_UNREAD_ENTRIES \<Longrightarrow> length (rememberUnreadMessage k i t u) \<le> MAX_UNREAD_ENTRIES"
  unfolding rememberUnreadMessage_def using retain_bounded [of MAX_UNREAD_ENTRIES] by (auto simp: MAX_UNREAD_ENTRIES_def)

lemma remember_history_bounded:
  "length u \<le> MAX_UNREAD_ENTRIES \<Longrightarrow> length (rememberUnreadHistory self k h n t u) \<le> MAX_UNREAD_ENTRIES"
  unfolding rememberUnreadHistory_def using retain_bounded [of MAX_UNREAD_ENTRIES] by (auto simp: MAX_UNREAD_ENTRIES_def Let_def)

lemma update_bounded: "length es \<le> n \<Longrightarrow> 0 < n \<Longrightarrow> length (updateBoundedEntry es k x n) \<le> n"
  unfolding updateBoundedEntry_def using retain_bounded by auto

lemma buffers_set:
  "list_all (\<lambda>(k, rows). P rows) b \<Longrightarrow> P rows \<Longrightarrow> list_all (\<lambda>(k, rows). P rows) (map_set key rows b)"
  by (induction b) auto

lemma buffer_of_bounded: "list_all (\<lambda>(k, rows). length rows \<le> n) b \<Longrightarrow> length (buffer_of key b) \<le> n"
  by (auto simp: buffer_of_def list_all_iff dest!: map_get_in_set split: option.split)

lemma stash_bounded:
  assumes "list_all (\<lambda>(k, rows). length rows \<le> MAX_PENDING_BUFFER) b"
  shows "list_all (\<lambda>(k, rows). length rows \<le> MAX_PENDING_BUFFER) (stash_rows key pending b)"
proof -
  have "length (slice_int rows 0 (int n - int m)) \<le> n - m" if "m \<le> n" for rows :: "chat_message list" and n m
    using that by (auto simp: slice_int_def slice_def clamp_def)
  then have "length (buffer_of key b @ slice_int rows 0 (int MAX_PENDING_BUFFER - int (length (buffer_of key b)))) \<le> MAX_PENDING_BUFFER" for rows
    using buffer_of_bounded [OF assms, of key] by (metis add_le_cancel_left le_add_diff_inverse length_append)
  then show ?thesis using buffers_set [OF assms] by (simp add: stash_rows_def capPendingBuffer_def Let_def)
qed

lemma patch_bounded: "list_all (\<lambda>(k, rows). length rows \<le> n) b \<Longrightarrow> list_all (\<lambda>(k, rows). length rows \<le> n) (patchPendingBuffers i f b)"
  by (auto simp: patchPendingBuffers_def list_all_iff)

lemma revive_bounded:
  "list_all (\<lambda>(k, rows). length rows \<le> n) b \<Longrightarrow> list_all (\<lambda>(k, rows). length rows \<le> n) (snd (reviveBufferedPending rows server meta key b))"
proof (induction rows arbitrary: b)
  case (Cons r rows)
  have "list_all (\<lambda>(k, rows). length rows \<le> n) (unbuffered ids m key r b)" for ids m
    using Cons.prems buffers_set [OF Cons.prems] le_trans [OF length_filter_le buffer_of_bounded [OF Cons.prems]]
    by (auto simp: unbuffered_def without_row_def split: option.split)
  from Cons.IH [OF this] show ?case by (simp add: Let_def case_prod_beta)
qed simp

text \<open>Changes that leave what is bounded as it is.\<close>

lemma bounded_simps [simp]:
  "session_bounded (s\<lparr>se_typing := t\<rparr>) = session_bounded s" "session_bounded (s\<lparr>se_files := f\<rparr>) = session_bounded s"
  "session_bounded (status m s) = session_bounded s" "session_bounded (friend_status m s) = session_bounded s"
  "session_bounded (touch_group g now s) = session_bounded s" "session_bounded (upd_messages h s) = session_bounded s"
  "session_bounded (updatePeerInteraction env i now s) = session_bounded s" "session_bounded (upd_chat (setDialog d) s) = session_bounded s"
  "session_bounded (touch_transfer env now ev s) = session_bounded s" "session_bounded (s\<lparr>se_key := k\<rparr>) = session_bounded s"
  by (simp_all add: session_bounded_def status_def friend_status_def upd_chat_def touch_group_def upd_messages_def showStatus_def
      showStatus_for_def updatePeerInteraction_def setDialog_def upd_ui_def touch_transfer_def)

lemma bounded_chat:
  "(\<And>c. ch_groupMembers (f c) = ch_groupMembers c) \<Longrightarrow> session_bounded (upd_chat f s) = session_bounded s"
  by (simp add: session_bounded_def upd_chat_def)

lemma bounded_unread: "session_bounded s \<Longrightarrow> session_bounded (s\<lparr>se_unread := rememberUnreadMessage k i t (se_unread s)\<rparr>)"
  by (simp add: session_bounded_def remember_bounded)

lemma bounded_buffers:
  "session_bounded s \<Longrightarrow> list_all (\<lambda>(k, rows). length rows \<le> MAX_PENDING_BUFFER) b \<Longrightarrow> session_bounded (s\<lparr>se_buffers := b\<rparr>)"
  by (simp add: session_bounded_def)

lemma bounded_patch: "session_bounded s \<Longrightarrow> session_bounded (s\<lparr>se_buffers := patchPendingBuffers i f (se_buffers s)\<rparr>)"
  by (simp add: session_bounded_def patch_bounded)

lemma bounded_group_unread: "session_bounded s \<Longrightarrow> session_bounded (group_unread v now ev g s)"
  by (simp add: group_unread_def Let_def bounded_chat bounded_unread)

lemma bounded_members: "session_bounded s \<Longrightarrow> session_bounded (updateGroupMembers i ms s)"
  unfolding session_bounded_def updateGroupMembers_def upd_chat_def
  using update_bounded [of "ch_groupMembers (se_chat s)" MAX_GROUP_MEMBER_CACHE i ms] by (auto simp: MAX_GROUP_MEMBER_CACHE_def)

lemma bounded_delivered: "session_bounded s \<Longrightarrow> session_bounded (on_delivered now ev s)"
  by (simp add: on_delivered_def Let_def) (simp add: session_bounded_def patch_bounded)

lemma bounded_failed: "session_bounded s \<Longrightarrow> session_bounded (on_message_failed ev s)"
proof -
  assume "session_bounded s"
  moreover from this have "list_all (\<lambda>(k, rows). length rows \<le> MAX_PENDING_BUFFER)
      (map (\<lambda>(k, rows). (k, without_row i rows)) (se_buffers s))" for i
    by (auto simp: session_bounded_def list_all_iff without_row_def intro: le_trans [OF length_filter_le])
  ultimately show ?thesis by (simp add: on_message_failed_def Let_def bounded_buffers)
qed

lemma bounded_event: "session_bounded s \<Longrightarrow> session_bounded (fst (on_event env v now ev s))"
  by (rule on_event_cases) (simp_all add: Let_def on_group_event_def bounded_group_unread on_group_delivery_def bounded_patch
      bounded_delivered on_message_sent_def on_message_blocked_def bounded_failed on_friend_request_def on_friend_response_def
      on_friend_cancelled_def on_file_offer_def on_file_progress_def on_file_completed_def on_file_event_def on_peer_message_def
      bounded_chat bounded_unread)

lemma bounded_fetched: "session_bounded s \<Longrightarrow> session_bounded (fst (fetch_answered env f a s))"
  by (cases f) (auto simp: fetch_answered_def bounded_members split: answer.split)

lemma bounded_view:
  "session_bounded s \<Longrightarrow> list_all (\<lambda>(k, rows). length rows \<le> MAX_PENDING_BUFFER) (vw_buffers w) \<Longrightarrow> session_bounded (with_view w s)"
  by (simp add: with_view_def) (simp add: session_bounded_def)

lemma bounded_open: "session_bounded s \<Longrightarrow> session_bounded (open_selection c s)"
proof -
  assume s: "session_bounded s"
  have "list_all (\<lambda>(k, rows). length rows \<le> MAX_PENDING_BUFFER) (vw_buffers (select_conversation key (view_of s)))" for key
    using s stash_bounded by (simp add: select_conversation_def leave_conversation_def enter_conversation_def view_of_def Let_def session_bounded_def)
  then have "session_bounded (with_view (select_conversation key (view_of s)) s)" for key by (rule bounded_view [OF s])
  moreover have "ch_groupMembers (reset_counts x c) = ch_groupMembers c" for x c by (simp add: reset_counts_def split: conversation.split)
  ultimately show ?thesis by (simp add: open_selection_def Let_def bounded_chat split: option.split)
qed

lemma bounded_opened: "session_bounded s \<Longrightarrow> session_bounded (fst (opened_history env meta now c n self cancelled a s))"
proof -
  assume s: "session_bounded s"
  have failed: "session_bounded (upd_chat (\<lambda>ch. ch\<lparr>ch_status := m\<rparr>) s)" for m using s by (simp add: bounded_chat)
  have loaded: "session_bounded (with_view ((history_loaded meta k h (view_of s1))\<lparr>vw_ref := r\<rparr>) s1)" if s1: "session_bounded s1" for k h s1 r
  proof (rule bounded_view [OF s1])
    have b: "list_all (\<lambda>(k, rows). length rows \<le> MAX_PENDING_BUFFER) (se_buffers s1)" using s1 by (simp add: session_bounded_def)
    then have "list_all (\<lambda>(k, rows). length rows \<le> MAX_PENDING_BUFFER) (map_del k (se_buffers s1))"
      by (auto simp: map_del_def list_all_iff)
    then show "list_all (\<lambda>(k, rows). length rows \<le> MAX_PENDING_BUFFER) (vw_buffers ((history_loaded meta k h (view_of s1))\<lparr>vw_ref := r\<rparr>))"
      using b revive_bounded by (simp add: history_loaded_def view_of_def Let_def split: prod.split) (metis snd_conv)
  qed
  have "session_bounded (s\<lparr>se_unread := rememberUnreadHistory self k h n now (se_unread s)\<rparr>)" for k h
    using s by (simp add: session_bounded_def remember_history_bounded)
  then show ?thesis using s failed loaded by (simp add: opened_history_def Let_def split: answer.split)
qed

lemma bounded_step: "session_bounded s \<Longrightarrow> session_bounded (session_step env e s)"
proof (cases e)
  case (BecameVisible i now)
  assume "session_bounded s"
  then show ?thesis using BecameVisible
    by (auto simp: session_bounded_def markUnreadMessageVisible_def length_map_set dest: map_get_Some_keys split: option.split)
next
  case (Faded now)
  assume "session_bounded s"
  then show ?thesis using Faded by (auto simp: session_bounded_def fade_unread_def intro: le_trans [OF length_filter_le])
qed (auto simp: bounded_event bounded_fetched bounded_open bounded_opened)

text \<open>C38. What the client remembers stays bounded, whatever events, answers and selections come in whatever order: at most 500
  unread messages, 1024 confirmations, the members of 32 groups, and 100 rows stashed per conversation.\<close>

theorem session_stays_bounded:
  "session_bounded (foldl (\<lambda>s e. session_step env e s) (start_session c) es)"
proof -
  have "session_bounded s \<Longrightarrow> session_bounded (foldl (\<lambda>s e. session_step env e s) s es)" for s
    by (induction es arbitrary: s) (auto simp: bounded_step)
  moreover have "session_bounded (start_session c)" by (simp add: session_bounded_def start_session_def)
  ultimately show ?thesis by blast
qed

end
