(* ===== verification/Spec2Isabelle.thy ===== *)
theory Spec2Isabelle
  imports ControlProperties ControlOperations ControlQuota ControlAgreement Mentions MentionMarkdown ChatUtils
    ChatNavigation FileConfirm IpcClient Updater ClientState Desktop CliOutput
    ChatSendProperties UpdateProperties InstallClosing LaunchRestart
    SessionInput SessionProperties
begin

text \<open>
  A verification development for MeshTalk, an encrypted messenger for local networks and private rooms.

  \<^bold>\<open>The program.\<close> A backend (Python) keeps messages and talks to other devices. Clients in TypeScript use it over a local
  connection: a terminal client, a command-line client and a desktop client. A launcher installs and updates releases and
  starts backend and clients. A control service, which runs as a Durable Object or as a Bun server, introduces the devices of
  a private room to each other and relays datagrams. Modelled is the TypeScript: the control service, the terminal and the
  command-line client, the launcher, the installation and its updates, and the state of the desktop client. All source
  files are named relative to \<open>src/\<close>.

  \<^bold>\<open>Conventions.\<close> Strings are lists of UTF-16 units, JavaScript maps and records are lists of entries in insertion order,
  numbers are naturals, integers or rationals (no calculation comes near the bounds of exact integers), responses are parsed
  JSON. Errors are values: \<open>outcome\<close> and \<open>io\<close> have a left side for what the code throws. What is not under \<open>src/\<close> (cryptography,
  the network, GitHub, the terminal library, the operating system, the backend) is an argument, and what is required of it is
  a hypothesis of the theorems that need it, with a witness at a concrete instance. A definition carries the name of the
  function it models; helpers stand for expressions and loop bodies.

  \<^bold>\<open>Shared theories.\<close>
  \<^item> \<open>Prelude\<close>, \<open>JsText\<close>, \<open>JsValue\<close>, \<open>JsonText\<close>, \<open>Uri\<close>, \<open>PosixPath\<close>: strings, maps, sorting, JSON, URIs and paths with the lemmas
    that the components share; the locales of a keyed store and of an event-driven system.

  \<^bold>\<open>Control service\<close> (\<open>control/src\<close>).
  \<^item> \<open>ControlConfig\<close> (limits, wire patterns, encodings), \<open>ControlWorker\<close> (\<open>worker.ts\<close>): the record of the object's fields, one
    definition per method, reactions to events, awaits as suspended work. \<open>ControlServer\<close> (\<open>index.ts\<close>): the Bun server.
  \<^item> \<open>ControlRooms\<close>, \<open>ControlAccounts\<close>, \<open>ControlInvariant\<close>, \<open>ControlRelay\<close>, \<open>ControlLife\<close>, \<open>ControlReach\<close>: closed forms of the methods,
    the invariant, its preservation under every interleaving of events with suspended work, and reachable states.
  \<^item> \<open>ControlProperties\<close>, \<open>ControlOperations\<close>, \<open>ControlQuota\<close>, \<open>ControlAgreement\<close>, \<open>ControlDemo\<close>: what holds in reachable states, exact
    counters, who receives what the relay forwards and how much, that the queue drains, and that the two runtimes agree.

  \<^bold>\<open>Terminal client\<close> (\<open>tui/src\<close>).
  \<^item> \<open>ChatTypes\<close>, \<open>ChatUtils\<close>, \<open>ChatNavigation\<close>, \<open>ClientState\<close>, \<open>FileConfirm\<close>: \<open>types.ts\<close>, \<open>utils.ts\<close>, \<open>navigation.ts\<close>,
    \<open>notifications.ts\<close>, \<open>stateRetention.ts\<close>, \<open>pastedImageDedup.ts\<close>, \<open>chatTheme.ts\<close>, \<open>fileSendConfirm.ts\<close> and \<open>common/terminal-text.ts\<close>.
  \<^item> \<open>Mentions\<close>, \<open>MentionMarkdown\<close>: \<open>mentions.ts\<close>; spans stay on their text, tokens replace them, segments show what was written.
  \<^item> \<open>ChatState\<close>, \<open>ChatActions\<close>, \<open>ChatFiles\<close>, \<open>ChatSettings\<close>, \<open>ChatSend\<close>: \<open>useChatActions.ts\<close>. An asynchronous function is a program
    (\<open>act\<close>) of updates, reads and awaits. \<open>ChatDialogs\<close>, \<open>ChatDiscipline\<close>, \<open>ChatInterleaving\<close>, \<open>ChatSendProperties\<close>: every
    interleaving of actions, answers and events; a discipline on programs, a locale interpreted for each property.
  \<^item> \<open>SessionMessages\<close>, \<open>SessionTyping\<close>, \<open>SessionEvents\<close>, \<open>SessionItems\<close>, \<open>SessionKeys\<close>, \<open>SessionInput\<close>, \<open>SessionProperties\<close>: the state
    of \<open>ChatApp.tsx\<close> and what changes it. A handler is a closure: \<open>v\<close> is the state it captured, \<open>s\<close> the current one.
  \<^item> \<open>IpcClient\<close>: \<open>common/ipc-client.ts\<close>, the connection to the backend.

  \<^bold>\<open>Other clients.\<close>
  \<^item> \<open>CliText\<close>, \<open>CliCommands\<close>, \<open>CliMain\<close>, \<open>CliProperties\<close>, \<open>CliOutput\<close>: \<open>cli/src/index.ts\<close>; a command is a program of outputs and requests.
  \<^item> \<open>Desktop\<close>: \<open>desktop/src/chatState.ts\<close>, \<open>desktop/src/api.ts\<close>.

  \<^bold>\<open>Installation and launcher\<close> (\<open>common\<close>, \<open>bin\<close>).
  \<^item> \<open>Disk\<close>, \<open>DiskTriples\<close>: a file system with links, programs over it that the system may refuse any write, and triples that
    speak of every state a crash can leave.
  \<^item> \<open>InstallState\<close>, \<open>InstallReleases\<close>, \<open>ReleaseInstall\<close>, \<open>InstallLaunch\<close>, \<open>InstallMain\<close>: \<open>install-paths.ts\<close>, \<open>installation-store.ts\<close> and
    \<open>release-install.ts\<close>. \<open>InstallFrame\<close>, \<open>InstallKeeps\<close>, \<open>InstallStaging\<close>, \<open>InstallSelection\<close>, \<open>InstallCommand\<close>, \<open>InstallCrash\<close>, \<open>InstallStart\<close>,
    \<open>InstallProgress\<close>, \<open>InstallProperties\<close>: updates keep the command of the user working, whatever is refused and whenever the
    process is killed, what is still needed is not removed, and an update that nothing hinders comes through.
  \<^item> \<open>InstallProcesses\<close>, \<open>InstallClosing\<close>: \<open>install-processes.ts\<close>; which processes are closed, and that waiting ends.
  \<^item> \<open>Versions\<close>, \<open>Updater\<close>, \<open>UpdateInstall\<close>, \<open>UpdateProperties\<close>: \<open>updater.ts\<close>; which release is offered, and what is verified
    before it is installed. \<open>Analytics\<close>: \<open>analytics.ts\<close>.
  \<^item> \<open>LaunchBackend\<close>, \<open>LaunchProcesses\<close>, \<open>LaunchMain\<close>, \<open>LaunchRun\<close>, \<open>LaunchProperties\<close>, \<open>LaunchRestart\<close>: \<open>bin/meshtalk.ts\<close>; the order of
    what the launcher does, as conditions on the events of a run.

  \<^bold>\<open>Bounds.\<close> \<open>realpath\<close> follows 40 links, as the system does, and fails beyond. Loops that wait are recursions on the deadline or
  option-valued functions, and that they return is proved from a clock that does not go back. The names of staged
  files are tried in a list that is longer than that of the names in use.

  \<^bold>\<open>Not modelled.\<close> Drawing and the mouse; the backend, the desktop shell, the website, the analytics service, the installers and
  the tooling of the repository; the branches for Windows with their PowerShell programs; modes and owners of files, reads
  that fail, the loss of writes that were not flushed; progress callbacks; the timing of the start screen, the attempts to
  connect and the periodic refresh of the terminal client. Errors of the system that the code treats alike are one error.
  Offsets in the composer are those of a text of characters that are one unit and one cell wide.
\<close>

end
